(* ===== verification/Prelude.thy ===== *)
theory Prelude
  imports Complex_Main "HOL-Library.Multiset" "HOL-Library.Monad_Syntax"
begin

text \<open>
  Shared ground of the development: Go strings as byte lists, checked slicing (the value
  \<^term>\<open>None\<close> stands for a run-time panic), the functions of package \<^verbatim>\<open>strings\<close>
  that the service calls, and the contract of \<^verbatim>\<open>sort.Slice\<close>.

  A Go string is a sequence of bytes, and an Isabelle \<^typ>\<open>char\<close> is a byte, so a Go string
  is a \<^typ>\<open>string\<close>, \<^verbatim>\<open>len(s)\<close> is \<^const>\<open>length\<close>, and a byte offset is a position in
  the list.
\<close>

named_theorems go_simps \<open>unfolding rules of the Go library model\<close>
named_theorems slice_facts \<open>facts on checked slices\<close>

subsection \<open>Types of the model\<close>

type_synonym rune = nat
type_synonym byte_off = int

subsection \<open>Checked slices\<close>

text \<open>\<^verbatim>\<open>s[lo:hi]\<close>: panics unless \<^verbatim>\<open>0 <= lo <= hi <= len(s)\<close>.\<close>

definition slice :: "string \<Rightarrow> int \<Rightarrow> int \<Rightarrow> string option" where
  "slice s lo hi =
     (if 0 \<le> lo \<and> lo \<le> hi \<and> hi \<le> int (length s)
      then Some (take (nat (hi - lo)) (drop (nat lo) s)) else None)"

abbreviation slice_from :: "string \<Rightarrow> int \<Rightarrow> string option" where
  "slice_from s lo \<equiv> slice s lo (int (length s))"

abbreviation slice_to :: "string \<Rightarrow> int \<Rightarrow> string option" where
  "slice_to s hi \<equiv> slice s 0 hi"

text \<open>\<^verbatim>\<open>s[i]\<close>: panics out of range.\<close>

definition byte_at :: "string \<Rightarrow> int \<Rightarrow> char option" where
  "byte_at s i = (if 0 \<le> i \<and> i < int (length s) then Some (s ! nat i) else None)"

lemma slice_Some_iff [slice_facts]:
  "(\<exists>t. slice s lo hi = Some t) \<longleftrightarrow> 0 \<le> lo \<and> lo \<le> hi \<and> hi \<le> int (length s)"
  by (simp add: slice_def)

lemma slice_in_range [slice_facts]:
  "0 \<le> lo \<Longrightarrow> lo \<le> hi \<Longrightarrow> hi \<le> int (length s) \<Longrightarrow>
   slice s lo hi = Some (take (nat (hi - lo)) (drop (nat lo) s))"
  by (simp add: slice_def)

lemma slice_length [slice_facts]:
  "slice s lo hi = Some t \<Longrightarrow> int (length t) = hi - lo"
  by (auto simp: slice_def split: if_splits)

lemma slice_nat:
  "i \<le> j \<Longrightarrow> j \<le> length s \<Longrightarrow> slice s (int i) (int j) = Some (take (j - i) (drop i s))"
  by (simp add: slice_def nat_diff_distrib')

lemma slice_append_mid:
  "slice (a @ b @ c) (int (length a)) (int (length a) + int (length b)) = Some b"
  by (simp add: slice_def)

lemma slice_join:
  assumes "slice s a b = Some x" and "slice s b c = Some y"
  shows "slice s a c = Some (x @ y)"
proof -
  from assms have bd: "0 \<le> a" "a \<le> b" "b \<le> c" "c \<le> int (length s)"
    by (auto simp: slice_def split: if_splits)
  have x: "x = take (nat (b - a)) (drop (nat a) s)"
    and y: "y = take (nat (c - b)) (drop (nat b) s)"
    using assms bd by (auto simp: slice_def split: if_splits)
  have "nat b = nat a + nat (b - a)" and "nat (c - a) = nat (b - a) + nat (c - b)"
    using bd by simp_all
  then have "take (nat (c - a)) (drop (nat a) s) = x @ y"
    by (simp add: x y take_add add.commute)
  with bd show ?thesis by (simp add: slice_def)
qed

lemma slice_full [simp]: "slice s 0 (int (length s)) = Some s"
  by (simp add: slice_def)

lemma slice_from_drop [slice_facts]:
  "0 \<le> p \<Longrightarrow> p \<le> int (length s) \<Longrightarrow> slice_from s p = Some (drop (nat p) s)"
  by (simp add: slice_def nat_diff_distrib')

lemma list_all2_set_ex: "list_all2 P xs ys \<Longrightarrow> x \<in> set xs \<Longrightarrow> \<exists>y \<in> set ys. P x y"
  by (induction xs ys rule: list_all2_induct) auto

subsection \<open>Package strings\<close>

definition HasPrefix :: "string \<Rightarrow> string \<Rightarrow> bool" where
  "HasPrefix s p \<longleftrightarrow> take (length p) s = p"

definition HasSuffix :: "string \<Rightarrow> string \<Rightarrow> bool" where
  "HasSuffix s p \<longleftrightarrow> length p \<le> length s \<and> drop (length s - length p) s = p"

text \<open>\<^verbatim>\<open>strings.Index\<close> and \<^verbatim>\<open>strings.LastIndex\<close>; \<^term>\<open>None\<close> is the result -1.\<close>

fun Index :: "string \<Rightarrow> string \<Rightarrow> nat option" where
  "Index [] sub = (if sub = [] then Some 0 else None)"
| "Index (c # s) sub =
     (if HasPrefix (c # s) sub then Some 0 else map_option Suc (Index s sub))"

fun LastIndex :: "string \<Rightarrow> string \<Rightarrow> nat option" where
  "LastIndex [] sub = (if sub = [] then Some 0 else None)"
| "LastIndex (c # s) sub =
     (case LastIndex s sub of
        Some i \<Rightarrow> Some (Suc i)
      | None \<Rightarrow> if HasPrefix (c # s) sub then Some 0 else None)"

definition Contains :: "string \<Rightarrow> string \<Rightarrow> bool" where
  "Contains s sub \<longleftrightarrow> Index s sub \<noteq> None"

definition Repeat :: "string \<Rightarrow> int \<Rightarrow> string option" where
  "Repeat s n = (if n < 0 then None else Some (concat (replicate (nat n) s)))"

text \<open>\<^verbatim>\<open>strings.Split\<close> at a one-byte separator; it always has at least one part.\<close>

fun split_on :: "'a \<Rightarrow> 'a list \<Rightarrow> 'a list list" where
  "split_on c [] = [[]]"
| "split_on c (x # xs) =
     (if x = c then [] # split_on c xs
      else case split_on c xs of [] \<Rightarrow> [[x]] | w # ws \<Rightarrow> (x # w) # ws)"

lemma split_on_ne [simp]: "split_on c s \<noteq> []"
  by (cases s) (auto split: list.splits)

lemma split_on_none: "c \<notin> set s \<Longrightarrow> split_on c s = [s]"
  by (induction s) auto

lemma split_on_append: "c \<notin> set s \<Longrightarrow> split_on c (s @ c # t) = s # split_on c t"
  by (induction s) auto

lemma HasPrefix_Nil [simp]: "HasPrefix s []"
  by (simp add: HasPrefix_def)

lemma HasPrefix_Nil_left [simp]: "HasPrefix [] p \<longleftrightarrow> p = []"
  by (auto simp: HasPrefix_def)

lemma HasPrefix_append: "HasPrefix s p \<longleftrightarrow> (\<exists>t. s = p @ t)"
  by (metis HasPrefix_def append_eq_conv_conj append_take_drop_id)

lemma HasPrefix_length: "HasPrefix s p \<Longrightarrow> length p \<le> length s"
  by (auto simp: HasPrefix_append)

text \<open>An occurrence of \<open>sub\<close> in \<open>s\<close> at byte \<open>i\<close>.\<close>

definition occurs_at :: "string \<Rightarrow> string \<Rightarrow> nat \<Rightarrow> bool" where
  "occurs_at s sub i \<longleftrightarrow> i \<le> length s \<and> HasPrefix (drop i s) sub"

lemma occurs_at_bound: "occurs_at s sub i \<Longrightarrow> i + length sub \<le> length s"
  using HasPrefix_length by (fastforce simp: occurs_at_def)

lemma occurs_at_Cons: "occurs_at (c # s) sub (Suc i) \<longleftrightarrow> occurs_at s sub i"
  by (simp add: occurs_at_def)

lemma occurs_at_0: "occurs_at s sub 0 \<longleftrightarrow> HasPrefix s sub"
  by (simp add: occurs_at_def)

lemma occurs_at_drop:
  "k \<le> length s \<Longrightarrow> occurs_at (drop k s) sub i \<longleftrightarrow> occurs_at s sub (k + i)"
  by (auto simp: occurs_at_def add.commute)

lemma occurs_at_slice:
  "occurs_at s sub i \<Longrightarrow> slice s (int i) (int i + int (length sub)) = Some sub"
  using occurs_at_bound [of s sub i]
  by (simp add: slice_def occurs_at_def HasPrefix_def)

lemma Index_Some:
  "Index s sub = Some i \<longleftrightarrow> occurs_at s sub i \<and> (\<forall>j<i. \<not> occurs_at s sub j)"
proof (induction s arbitrary: i)
  case Nil
  show ?case by (auto simp: occurs_at_def)
next
  case (Cons c s)
  show ?case
  proof (cases "HasPrefix (c # s) sub")
    case True
    then show ?thesis by (auto simp: occurs_at_0)
  next
    case False
    then have "Index (c # s) sub = Some i \<longleftrightarrow> (\<exists>k. i = Suc k \<and> Index s sub = Some k)"
      by auto
    also have "\<dots> \<longleftrightarrow> (\<exists>k. i = Suc k \<and> occurs_at s sub k \<and> (\<forall>j<k. \<not> occurs_at s sub j))"
      by (simp add: Cons.IH)
    also have "\<dots> \<longleftrightarrow> occurs_at (c # s) sub i \<and> (\<forall>j<i. \<not> occurs_at (c # s) sub j)"
    proof (cases i)
      case 0
      with False show ?thesis by (simp add: occurs_at_0)
    next
      case (Suc k)
      with False show ?thesis
        by (auto simp: occurs_at_Cons occurs_at_0 less_Suc_eq_0_disj)
    qed
    finally show ?thesis .
  qed
qed

lemma Index_None: "Index s sub = None \<longleftrightarrow> (\<forall>i. \<not> occurs_at s sub i)"
proof (induction s)
  case Nil
  show ?case by (auto simp: occurs_at_def)
next
  case (Cons c s)
  have "(\<forall>i. \<not> occurs_at (c # s) sub i) \<longleftrightarrow>
        \<not> occurs_at (c # s) sub 0 \<and> (\<forall>i. \<not> occurs_at (c # s) sub (Suc i))"
    by (metis not0_implies_Suc)
  with Cons.IH show ?case
    by (simp add: occurs_at_0 occurs_at_Cons)
qed

lemma LastIndex_occurs: "LastIndex s sub = Some i \<Longrightarrow> occurs_at s sub i"
  by (induction s arbitrary: i)
     (auto simp: occurs_at_Cons occurs_at_0 split: option.splits if_splits)

lemma LastIndex_None: "LastIndex s sub = None \<longleftrightarrow> (\<forall>i. \<not> occurs_at s sub i)"
proof (induction s)
  case Nil
  show ?case by (auto simp: occurs_at_def)
next
  case (Cons c s)
  have "(\<forall>i. \<not> occurs_at (c # s) sub i) \<longleftrightarrow>
        \<not> occurs_at (c # s) sub 0 \<and> (\<forall>i. \<not> occurs_at (c # s) sub (Suc i))"
    by (metis not0_implies_Suc)
  with Cons.IH show ?case
    by (auto simp: occurs_at_0 occurs_at_Cons split: option.splits)
qed

lemma LastIndex_greatest:
  "LastIndex s sub = Some i \<Longrightarrow> occurs_at s sub j \<Longrightarrow> j \<le> i"
proof (induction s arbitrary: i j)
  case Nil
  then show ?case by (auto simp: occurs_at_def split: if_splits)
next
  case (Cons c s)
  show ?case
  proof (cases j)
    case 0
    then show ?thesis by simp
  next
    case (Suc k)
    with Cons.prems(2) have k: "occurs_at s sub k" by (simp add: occurs_at_Cons)
    then obtain m where m: "LastIndex s sub = Some m"
      using LastIndex_None by (metis not_None_eq)
    with Cons.prems(1) have "i = Suc m" by simp
    with Cons.IH [OF m k] Suc show ?thesis by simp
  qed
qed

lemma Contains_iff: "Contains s sub \<longleftrightarrow> (\<exists>a b. s = a @ sub @ b)"
proof -
  have "Contains s sub \<longleftrightarrow> (\<exists>i. occurs_at s sub i)"
    by (simp add: Contains_def Index_None)
  also have "\<dots> \<longleftrightarrow> (\<exists>a b. s = a @ sub @ b)"
  proof
    assume "\<exists>i. occurs_at s sub i"
    then obtain i t where "drop i s = sub @ t"
      by (auto simp: occurs_at_def HasPrefix_append)
    then have "s = take i s @ sub @ t" by (metis append_take_drop_id)
    then show "\<exists>a b. s = a @ sub @ b" by blast
  next
    assume "\<exists>a b. s = a @ sub @ b"
    then obtain a b where "s = a @ sub @ b" by blast
    then have "occurs_at s sub (length a)"
      by (simp add: occurs_at_def HasPrefix_def)
    then show "\<exists>i. occurs_at s sub i" by blast
  qed
  finally show ?thesis .
qed

subsection \<open>sort.Slice\<close>

text \<open>
  \<^verbatim>\<open>sort.Slice(xs, less)\<close> sees the slice only through comparisons of positions, and its result
  is a rearrangement of the slice. A sorter is therefore a function from the comparison on
  positions and the length to the list of source positions in their new order. The
  documentation promises an ordered permutation when \<open>lt\<close> is a strict weak order, and
  nothing on the order of equal elements (the sort is not stable).
\<close>

type_synonym sorter = "(nat \<Rightarrow> nat \<Rightarrow> bool) \<Rightarrow> nat \<Rightarrow> nat list"

definition strict_weak :: "('a \<Rightarrow> 'a \<Rightarrow> bool) \<Rightarrow> bool" where
  "strict_weak lt \<longleftrightarrow>
     (\<forall>x. \<not> lt x x) \<and>
     (\<forall>x y z. lt x y \<longrightarrow> lt y z \<longrightarrow> lt x z) \<and>
     (\<forall>x y z. lt x z \<longrightarrow> lt x y \<or> lt y z)"

definition sort_slice :: "sorter \<Rightarrow> ('a \<Rightarrow> 'a \<Rightarrow> bool) \<Rightarrow> 'a list \<Rightarrow> 'a list" where
  "sort_slice srt lt xs = map ((!) xs) (srt (\<lambda>i j. lt (xs ! i) (xs ! j)) (length xs))"

locale slice_sorter =
  fixes srt :: sorter
  assumes sorter_perm: "strict_weak lt \<Longrightarrow> mset (srt lt n) = mset [0..<n]"
    and sorter_ordered: "strict_weak lt \<Longrightarrow> sorted_wrt (\<lambda>i j. \<not> lt j i) (srt lt n)"
begin

lemma strict_weak_index:
  "strict_weak lt \<Longrightarrow> strict_weak (\<lambda>i j. lt (xs ! i) (xs ! j))"
  unfolding strict_weak_def by blast

lemma sort_slice_mset:
  assumes "strict_weak lt"
  shows "mset (sort_slice srt lt xs) = mset xs"
proof -
  have "mset (sort_slice srt lt xs) = image_mset ((!) xs) (mset [0..<length xs])"
    using sorter_perm [OF strict_weak_index [OF assms]] by (simp add: sort_slice_def)
  also have "\<dots> = mset (map ((!) xs) [0..<length xs])" by simp
  also have "\<dots> = mset xs" by (simp only: map_nth)
  finally show ?thesis .
qed

lemma sort_slice_sorted:
  "strict_weak lt \<Longrightarrow> sorted_wrt (\<lambda>a b. \<not> lt b a) (sort_slice srt lt xs)"
  using sorter_ordered [OF strict_weak_index [of lt xs], of "length xs"]
  by (simp add: sort_slice_def sorted_wrt_map)

lemma sort_slice_set: "strict_weak lt \<Longrightarrow> set (sort_slice srt lt xs) = set xs"
  by (metis sort_slice_mset set_mset_mset)

lemma sort_slice_length: "strict_weak lt \<Longrightarrow> length (sort_slice srt lt xs) = length xs"
  by (metis sort_slice_mset size_mset)

end

text \<open>A strictly increasing list is the only ordering of its elements.\<close>

lemma sorted_wrt_perm_unique:
  assumes irr: "\<And>x y. lt x y \<Longrightarrow> \<not> lt y x"
    and xs: "sorted_wrt lt xs" and ys: "sorted_wrt (\<lambda>a b. \<not> lt b a) ys"
    and m: "mset ys = mset xs"
  shows "ys = xs"
  using xs ys m
proof (induction xs arbitrary: ys)
  case Nil
  then show ?case by simp
next
  case (Cons x xs)
  then obtain y zs where y: "ys = y # zs" by (cases ys) auto
  have "y = x"
  proof (rule ccontr)
    assume ne: "y \<noteq> x"
    have "y \<in># mset (x # xs)" using Cons.prems(3) y
      by (metis list.set_intros(1) set_mset_mset)
    with ne have "y \<in> set xs" by simp
    then have xy: "lt x y" using Cons.prems(1) by simp
    have "x \<in># mset ys" using Cons.prems(3) by (metis list.set_intros(1) set_mset_mset)
    with y ne have "x \<in> set zs" by simp
    with Cons.prems(2) y have "\<not> lt x y" by simp
    with xy show False by simp
  qed
  with y Cons.prems Cons.IH show ?case by simp
qed

context slice_sorter
begin

lemma sort_slice_id:
  assumes "strict_weak lt" and "sorted_wrt lt xs"
  shows "sort_slice srt lt xs = xs"
proof (rule sorted_wrt_perm_unique [OF _ assms(2) sort_slice_sorted [OF assms(1)]
      sort_slice_mset [OF assms(1)]])
  show "\<And>x y. lt x y \<Longrightarrow> \<not> lt y x"
    using assms(1) unfolding strict_weak_def by blast
qed

end

text \<open>
  The insertion sort that \<^verbatim>\<open>sort.Slice\<close> runs on slices of at most twelve elements: each
  position is moved left past the sorted ones it is less than. The sorted part is kept
  reversed, so the scan from its right end is a scan from the head.
\<close>

fun insert_pos :: "(nat \<Rightarrow> nat \<Rightarrow> bool) \<Rightarrow> nat \<Rightarrow> nat list \<Rightarrow> nat list" where
  "insert_pos lt i [] = [i]"
| "insert_pos lt i (j # js) = (if lt i j then j # insert_pos lt i js else i # j # js)"

definition insertion_sort :: sorter where
  "insertion_sort lt n = rev (foldl (\<lambda>acc i. insert_pos lt i acc) [] [0..<n])"

lemma insert_pos_mset: "mset (insert_pos lt i js) = add_mset i (mset js)"
  by (induction js) auto

lemma insert_pos_set: "set (insert_pos lt i js) = insert i (set js)"
  by (metis insert_pos_mset set_mset_add_mset_insert set_mset_mset)

lemma insert_pos_sorted:
  assumes sw: "strict_weak lt"
  shows "sorted_wrt (\<lambda>i j. \<not> lt i j) js \<Longrightarrow> sorted_wrt (\<lambda>i j. \<not> lt i j) (insert_pos lt i js)"
proof (induction js)
  case Nil
  show ?case by simp
next
  case (Cons j js)
  have irr: "\<And>x y. lt x y \<Longrightarrow> \<not> lt y x"
    using sw unfolding strict_weak_def by blast
  show ?case
  proof (cases "lt i j")
    case True
    with Cons irr show ?thesis by (auto simp: insert_pos_set)
  next
    case False
    with Cons.prems have "\<forall>k \<in> set js. \<not> lt i k"
      using sw unfolding strict_weak_def by (metis sorted_wrt.simps(2))
    with False Cons.prems show ?thesis by simp
  qed
qed

lemma insertion_fold_mset:
  "mset (foldl (\<lambda>acc i. insert_pos lt i acc) acc js) = mset acc + mset js"
  by (induction js arbitrary: acc) (auto simp: insert_pos_mset)

lemma insertion_fold_sorted:
  "strict_weak lt \<Longrightarrow> sorted_wrt (\<lambda>i j. \<not> lt i j) acc \<Longrightarrow>
   sorted_wrt (\<lambda>i j. \<not> lt i j) (foldl (\<lambda>acc i. insert_pos lt i acc) acc js)"
  by (induction js arbitrary: acc) (auto simp: insert_pos_sorted)

interpretation ins_sorter: slice_sorter insertion_sort
proof
  show "strict_weak lt \<Longrightarrow> mset (insertion_sort lt n) = mset [0..<n]" for lt n
    by (simp add: insertion_sort_def insertion_fold_mset)
  show "strict_weak lt \<Longrightarrow> sorted_wrt (\<lambda>i j. \<not> lt j i) (insertion_sort lt n)" for lt n
    by (simp add: insertion_sort_def sorted_wrt_rev insertion_fold_sorted)
qed

subsection \<open>Strict weak orders of the program's comparisons\<close>

lemma strict_weak_key: "strict_weak (\<lambda>a b. (f a :: 'k :: linorder) < f b)"
  unfolding strict_weak_def by auto

lemma strict_weak_lex:
  "strict_weak (\<lambda>a b. if f a \<noteq> f b then (f a :: 'k :: linorder) < f b
                      else (g b :: 'l :: linorder) < g a)"
  unfolding strict_weak_def by auto

end
