(* ===== verification/Utf8.thy ===== *)
theory Utf8
  imports Prelude
begin

text \<open>
  Package \<^verbatim>\<open>unicode/utf8\<close> on byte strings, with the decoder's exact behaviour on malformed
  input (\<^verbatim>\<open>RuneError\<close> of width one), the conversions of the language (\<^verbatim>\<open>range\<close> over a
  string, \<^verbatim>\<open>string(r)\<close>), and the Unicode character data the service reads through package
  \<^verbatim>\<open>unicode\<close>. The character tables are data of the Go release, not code of the service:
  they are the fields of \<open>runtime\<close>, and \<open>go_runtime\<close> states what package \<^verbatim>\<open>unicode\<close>
  documents of them.
\<close>

subsection \<open>Decoding\<close>

definition RuneError :: rune where
  "RuneError = 0xFFFD"

definition byte_in :: "nat \<Rightarrow> nat \<Rightarrow> char \<Rightarrow> bool" where
  "byte_in lo hi c \<longleftrightarrow> lo \<le> of_char c \<and> of_char c \<le> hi"

definition cont_val :: "char \<Rightarrow> nat" where
  "cont_val c = of_char c - 0x80"

text \<open>
  \<^verbatim>\<open>utf8.DecodeRuneInString\<close>: the first rune and its width. The accepted ranges of the second
  byte exclude overlong forms, surrogates and values past U+10FFFF.
\<close>

definition decode2 :: "nat \<Rightarrow> string \<Rightarrow> rune \<times> nat" where
  "decode2 b0 cs =
     (case cs of
        c1 # _ \<Rightarrow>
          if byte_in 0x80 0xBF c1 then ((b0 - 0xC0) * 64 + cont_val c1, 2) else (RuneError, 1)
      | [] \<Rightarrow> (RuneError, 1))"

definition decode3 :: "nat \<Rightarrow> string \<Rightarrow> rune \<times> nat" where
  "decode3 b0 cs =
     (case cs of
        c1 # c2 # _ \<Rightarrow>
          if byte_in (if b0 = 0xE0 then 0xA0 else 0x80) (if b0 = 0xED then 0x9F else 0xBF) c1
             \<and> byte_in 0x80 0xBF c2
          then ((b0 - 0xE0) * 4096 + cont_val c1 * 64 + cont_val c2, 3) else (RuneError, 1)
      | _ \<Rightarrow> (RuneError, 1))"

definition decode4 :: "nat \<Rightarrow> string \<Rightarrow> rune \<times> nat" where
  "decode4 b0 cs =
     (case cs of
        c1 # c2 # c3 # _ \<Rightarrow>
          if byte_in (if b0 = 0xF0 then 0x90 else 0x80) (if b0 = 0xF4 then 0x8F else 0xBF) c1
             \<and> byte_in 0x80 0xBF c2 \<and> byte_in 0x80 0xBF c3
          then ((b0 - 0xF0) * 262144 + cont_val c1 * 4096 + cont_val c2 * 64 + cont_val c3, 4)
          else (RuneError, 1)
      | _ \<Rightarrow> (RuneError, 1))"

fun DecodeRune :: "string \<Rightarrow> rune \<times> nat" where
  "DecodeRune [] = (RuneError, 0)"
| "DecodeRune (c # cs) =
     (let b0 = of_char c in
      if b0 < 0x80 then (b0, 1)
      else if b0 < 0xC2 then (RuneError, 1)
      else if b0 < 0xE0 then decode2 b0 cs
      else if b0 < 0xF0 then decode3 b0 cs
      else if b0 < 0xF5 then decode4 b0 cs
      else (RuneError, 1))"

text \<open>\<^verbatim>\<open>utf8.RuneStart\<close>.\<close>

definition RuneStart :: "char \<Rightarrow> bool" where
  "RuneStart c \<longleftrightarrow> \<not> byte_in 0x80 0xBF c"

text \<open>
  \<^verbatim>\<open>utf8.DecodeLastRuneInString\<close>: walk back to a starting byte, at most \<^verbatim>\<open>UTFMax = 4\<close>
  bytes from the end, decode there and accept the rune only if it ends the string.
  \<open>scan_start\<close> is the loop.
\<close>

function scan_start :: "string \<Rightarrow> int \<Rightarrow> int \<Rightarrow> int" where
  "scan_start s start low =
     (if low \<le> start \<and> \<not> RuneStart (s ! nat start) then scan_start s (start - 1) low else start)"
  by pat_completeness auto
termination
  by (relation "measure (\<lambda>(s, start, low). nat (start - low + 1))") auto

declare scan_start.simps [simp del]

definition DecodeLastRune :: "string \<Rightarrow> rune \<times> nat" where
  "DecodeLastRune s =
     (if s = [] then (RuneError, 0)
      else if of_char (last s) < (0x80 :: nat) then (of_char (last s), 1)
      else
        let end = int (length s);
            start = max 0 (scan_start s (end - 2) (max 0 (end - 4)));
            (r, size) = DecodeRune (drop (nat start) s)
        in if start + int size \<noteq> end then (RuneError, 1) else (r, size))"

subsection \<open>Encoding\<close>

definition valid_rune :: "rune \<Rightarrow> bool" where
  "valid_rune r \<longleftrightarrow> r < 0xD800 \<or> (0xDFFF < r \<and> r \<le> 0x10FFFF)"

text \<open>\<^verbatim>\<open>utf8.AppendRune\<close>, used by \<^verbatim>\<open>WriteRune\<close> and \<^verbatim>\<open>string(r)\<close>.\<close>

definition encode3 :: "rune \<Rightarrow> string" where
  "encode3 r = [char_of (0xE0 + r div 4096), char_of (0x80 + r div 64 mod 64), char_of (0x80 + r mod 64)]"

definition EncodeRune :: "rune \<Rightarrow> string" where
  "EncodeRune r =
     (if r < 0x80 then [char_of r]
      else if r < 0x800 then [char_of (0xC0 + r div 64), char_of (0x80 + r mod 64)]
      else if \<not> valid_rune r then encode3 RuneError
      else if r < 0x10000 then encode3 r
      else [char_of (0xF0 + r div 262144), char_of (0x80 + r div 4096 mod 64),
            char_of (0x80 + r div 64 mod 64), char_of (0x80 + r mod 64)])"

lemma EncodeRune_nonempty [simp]: "EncodeRune r \<noteq> []"
  by (simp add: EncodeRune_def encode3_def)

lemma EncodeRune_ascii_byte:
  "c \<in> set (EncodeRune r) \<Longrightarrow> (of_char c :: nat) < 0x80 \<Longrightarrow> r = of_char c"
  by (auto simp: EncodeRune_def encode3_def of_char_of RuneError_def valid_rune_def split: if_splits)

lemma EncodeRune_length: "1 \<le> length (EncodeRune r) \<and> length (EncodeRune r) \<le> 4"
  by (simp add: EncodeRune_def encode3_def)

lemma decode_bounds_Cons:
  "1 \<le> snd (DecodeRune (c # cs)) \<and> snd (DecodeRune (c # cs)) \<le> length (c # cs)
     \<and> snd (DecodeRune (c # cs)) \<le> 4"
  by (simp add: Let_def decode2_def decode3_def decode4_def split: list.splits)

lemma DecodeRune_size_pos: "s \<noteq> [] \<Longrightarrow> 1 \<le> snd (DecodeRune s)"
  using decode_bounds_Cons by (cases s) auto

lemma DecodeRune_size_le: "snd (DecodeRune s) \<le> length s"
  using decode_bounds_Cons by (cases s) auto

lemma DecodeRune_size_le4: "snd (DecodeRune s) \<le> 4"
  using decode_bounds_Cons by (cases s) auto

lemma DecodeRune_progress: "s \<noteq> [] \<Longrightarrow> DecodeRune s = (r, n) \<Longrightarrow> length (drop n s) < length s"
  using DecodeRune_size_pos [of s] by auto

text \<open>The decoded rune is always a valid scalar value.\<close>

lemma RuneError_valid [simp]: "valid_rune RuneError"
  by (simp add: valid_rune_def RuneError_def)

lemma cont_val_le: "byte_in lo hi c \<Longrightarrow> hi \<le> 0xBF \<Longrightarrow> cont_val c \<le> hi - 0x80"
  by (auto simp: byte_in_def cont_val_def)

lemma decode2_valid: "b0 < 0xE0 \<Longrightarrow> valid_rune (fst (decode2 b0 cs))"
  using cont_val_le [of 128 191]
  by (fastforce simp: decode2_def valid_rune_def RuneError_def split: list.splits)

lemma decode3_valid:
  assumes "b0 < 0xF0"
  shows "valid_rune (fst (decode3 b0 cs))"
proof (cases "snd (decode3 b0 cs) = 3")
  case False
  then have "fst (decode3 b0 cs) = RuneError"
    by (auto simp: decode3_def split: list.splits if_splits)
  then show ?thesis by simp
next
  case True
  then obtain c1 c2 ds where cs: "cs = c1 # c2 # ds"
    and c1: "byte_in (if b0 = 0xE0 then 0xA0 else 0x80) (if b0 = 0xED then 0x9F else 0xBF) c1"
    and c2: "byte_in 0x80 0xBF c2"
    by (auto simp: decode3_def split: list.splits if_splits)
  then have f: "fst (decode3 b0 cs) = (b0 - 0xE0) * 4096 + cont_val c1 * 64 + cont_val c2"
    by (simp add: decode3_def)
  have v2: "cont_val c2 \<le> 63" using cont_val_le [OF c2] by simp
  have v1: "cont_val c1 \<le> 63" and v1': "b0 = 0xED \<Longrightarrow> cont_val c1 \<le> 31"
    using c1 by (auto simp: byte_in_def cont_val_def split: if_splits)
  consider "b0 - 0xE0 \<le> 12" | "b0 = 0xED" | "14 \<le> b0 - 0xE0" "b0 - 0xE0 \<le> 15"
    using assms by linarith
  then show ?thesis
    unfolding f valid_rune_def using v1 v2 v1' by cases auto
qed

lemma decode4_valid:
  assumes "0xF0 \<le> b0" and "b0 < 0xF5"
  shows "valid_rune (fst (decode4 b0 cs))"
proof (cases "snd (decode4 b0 cs) = 4")
  case False
  then have "fst (decode4 b0 cs) = RuneError"
    by (auto simp: decode4_def split: list.splits if_splits)
  then show ?thesis by simp
next
  case True
  then obtain c1 c2 c3 ds where cs: "cs = c1 # c2 # c3 # ds"
    and c1: "byte_in (if b0 = 0xF0 then 0x90 else 0x80) (if b0 = 0xF4 then 0x8F else 0xBF) c1"
    and c2: "byte_in 0x80 0xBF c2" and c3: "byte_in 0x80 0xBF c3"
    by (auto simp: decode4_def split: list.splits if_splits)
  then have f: "fst (decode4 b0 cs) =
      (b0 - 0xF0) * 262144 + cont_val c1 * 4096 + cont_val c2 * 64 + cont_val c3"
    by (simp add: decode4_def)
  have v: "cont_val c1 \<le> 63" "cont_val c2 \<le> 63" "cont_val c3 \<le> 63"
    and v1: "b0 = 0xF4 \<Longrightarrow> cont_val c1 \<le> 15"
    using c1 c2 c3 by (auto simp: byte_in_def cont_val_def split: if_splits)
  have lo: "b0 = 0xF0 \<Longrightarrow> 16 \<le> cont_val c1"
    using c1 by (auto simp: byte_in_def cont_val_def)
  consider "b0 = 0xF0" | "1 \<le> b0 - 0xF0" "b0 - 0xF0 \<le> 3" | "b0 = 0xF4"
    using assms by linarith
  then show ?thesis
    unfolding f valid_rune_def using v v1 lo by cases auto
qed

lemma DecodeRune_valid: "valid_rune (fst (DecodeRune s))"
  using decode2_valid decode3_valid decode4_valid
  by (cases s) (auto simp: Let_def, simp add: valid_rune_def)

subsection \<open>Round trip of encoding and decoding\<close>

lemma of_char_char_of_lt: "n < 256 \<Longrightarrow> (of_char (char_of n) :: nat) = n"
  by simp

lemma mod_64_le [simp]: "(n :: nat) mod 64 \<le> 63"
  using mod_less_divisor [of 64 n] by linarith

lemma radix_64:
  assumes "(b :: nat) < 64"
  shows "(a * 64 + b) div 64 = a" and "(a * 64 + b) mod 64 = b"
  using assms by simp_all

lemma div_4096: "(r :: nat) div 4096 = r div 64 div 64"
  by (simp add: div_mult2_eq [symmetric])

lemma div_262144: "(r :: nat) div 262144 = r div 64 div 64 div 64"
  by (simp add: div_mult2_eq [symmetric])

lemma div_mod_64_2: "(r :: nat) div 64 * 64 + r mod 64 = r"
  by simp

lemma div_mod_64_3: "(r :: nat) div 4096 * 4096 + r div 64 mod 64 * 64 + r mod 64 = r"
proof -
  show ?thesis unfolding div_4096 using div_mod_64_2 [of "r div 64"] div_mod_64_2 [of r] by linarith
qed

lemma div_mod_64_4:
  "(r :: nat) div 262144 * 262144 + r div 4096 mod 64 * 4096 + r div 64 mod 64 * 64 + r mod 64 = r"
proof -
  show ?thesis unfolding div_4096 div_262144
    using div_mod_64_2 [of "r div 64 div 64"] div_mod_64_3 [of r] unfolding div_4096 by linarith
qed

lemma DecodeRune_EncodeRune:
  assumes "valid_rune r"
  shows "DecodeRune (EncodeRune r @ s) = (r, length (EncodeRune r))"
proof -
  consider "r < 0x80" | "0x80 \<le> r" "r < 0x800" | "0x800 \<le> r" "r < 0x10000" | "0x10000 \<le> r"
    by linarith
  then show ?thesis
  proof cases
    case 1
    then show ?thesis by (simp add: EncodeRune_def)
  next
    case 2
    then have "r div 64 < 32" and "2 \<le> r div 64" and "r mod 64 < 64" by auto
    with 2 show ?thesis
      by (simp add: EncodeRune_def decode2_def byte_in_def cont_val_def div_mod_64_2)
  next
    case 3
    have lo: "r div 4096 < 16" using 3 by auto
    have a: "r div 4096 = 0 \<Longrightarrow> 32 \<le> r div 64 mod 64" using 3 by auto
    have b: "r div 4096 = 13 \<Longrightarrow> r div 64 mod 64 < 32"
    proof -
      assume q: "r div 4096 = 13"
      moreover have "r < 0xD800 \<or> 0xDFFF < r" using assms by (auto simp: valid_rune_def)
      ultimately have "r < 0xD800" by auto
      with q div_mod_64_3 [of r] show ?thesis by linarith
    qed
    have m: "r div 64 mod 64 < 64" "r mod 64 < 64" by auto
    show ?thesis using 3 assms lo a b m div_mod_64_3 [of r]
      by (auto simp: EncodeRune_def encode3_def decode3_def byte_in_def cont_val_def)
  next
    case 4
    then have le: "r \<le> 0x10FFFF" using assms by (auto simp: valid_rune_def)
    define q m1 m2 m3 where "q = r div 262144" and "m1 = r div 4096 mod 64"
      and "m2 = r div 64 mod 64" and "m3 = r mod 64"
    note defs = q_def m1_def m2_def m3_def
    have sum: "q * 262144 + m1 * 4096 + m2 * 64 + m3 = r" unfolding defs by (rule div_mod_64_4)
    have m: "m1 \<le> 63" "m2 \<le> 63" "m3 \<le> 63" unfolding defs by simp_all
    have q: "q \<le> 4" using le sum by linarith
    have a: "q = 0 \<Longrightarrow> 16 \<le> m1" using 4 sum m by linarith
    have b: "q = 4 \<Longrightarrow> m1 \<le> 15" using le sum by linarith
    have "EncodeRune r = [char_of (0xF0 + q), char_of (0x80 + m1), char_of (0x80 + m2), char_of (0x80 + m3)]"
      using 4 assms by (simp add: EncodeRune_def defs)
    then show ?thesis using q m a b sum
      by (simp add: decode4_def byte_in_def cont_val_def)
  qed
qed

text \<open>
  The other direction: where the decoder does not report a malformed byte, it read exactly the
  encoding of the rune it returns.
\<close>

lemma char_of_cont: "byte_in lo hi c \<Longrightarrow> 0x80 \<le> lo \<Longrightarrow> char_of (0x80 + cont_val c) = c"
  by (auto simp: byte_in_def cont_val_def)

lemma encode_decode2:
  assumes "(0xC2 :: nat) \<le> of_char c" and "of_char c < (0xE0 :: nat)" and "byte_in 0x80 0xBF c1"
  shows "EncodeRune ((of_char c - 0xC0) * 64 + cont_val c1) = [c, c1]"
proof -
  define x where "x = (of_char c :: nat) - 0xC0"
  define r where "r = x * 64 + cont_val c1"
  have r: "(of_char c - 0xC0) * 64 + cont_val c1 = r" by (simp add: r_def x_def)
  have v: "cont_val c1 < 64" using cont_val_le [OF assms(3)] by simp
  have x: "2 \<le> x" "x \<le> 31" using assms(1,2) by (simp_all add: x_def)
  have d: "r div 64 = x" "r mod 64 = cont_val c1"
    unfolding r_def using v by (simp_all only: radix_64)
  have "0x80 \<le> r" "r < 0x800" using x v unfolding r_def by linarith+
  moreover have "0xC0 + x = (of_char c :: nat)" using assms(1) by (simp add: x_def)
  moreover have "char_of (0x80 + cont_val c1) = c1" using char_of_cont [OF assms(3)] by simp
  ultimately show ?thesis unfolding r by (simp add: EncodeRune_def d)
qed

lemma encode_decode3:
  assumes "(0xE0 :: nat) \<le> of_char c" and "of_char c < (0xF0 :: nat)"
    and c1: "byte_in (if of_char c = (0xE0 :: nat) then 0xA0 else 0x80)
               (if of_char c = (0xED :: nat) then 0x9F else 0xBF) c1"
    and c2: "byte_in 0x80 0xBF c2"
  shows "EncodeRune ((of_char c - 0xE0) * 4096 + cont_val c1 * 64 + cont_val c2) = [c, c1, c2]"
proof -
  define x where "x = (of_char c :: nat) - 0xE0"
  define r where "r = (x * 64 + cont_val c1) * 64 + cont_val c2"
  have r: "(of_char c - 0xE0) * 4096 + cont_val c1 * 64 + cont_val c2 = r"
    by (simp add: r_def x_def)
  have v: "cont_val c1 < 64" "cont_val c2 < 64"
    and lo: "x = 0 \<Longrightarrow> 32 \<le> cont_val c1" and x: "x \<le> 15"
    using assms by (auto simp: byte_in_def cont_val_def x_def split: if_splits)
  have d: "r div 64 div 64 = x" "r div 64 mod 64 = cont_val c1" "r mod 64 = cont_val c2"
    unfolding r_def using v by (simp_all only: radix_64)
  have "valid_rune r"
    using decode3_valid [OF assms(2), of "[c1, c2]"] c1 c2 unfolding r [symmetric]
    by (simp add: decode3_def)
  moreover have "0x800 \<le> r" using lo unfolding r_def by (cases "x = 0") simp_all
  moreover have "r < 0x10000"
  proof -
    have "r = x * 4096 + cont_val c1 * 64 + cont_val c2" by (simp add: r_def)
    with v x show ?thesis by linarith
  qed
  moreover have "0xE0 + x = (of_char c :: nat)" using assms(1) by (simp add: x_def)
  moreover have "char_of (0x80 + cont_val c1) = c1" "char_of (0x80 + cont_val c2) = c2"
    using c1 c2 char_of_cont by (auto split: if_splits)
  ultimately show ?thesis unfolding r by (simp add: EncodeRune_def encode3_def div_4096 d)
qed

lemma encode_decode4:
  assumes "(0xF0 :: nat) \<le> of_char c" and "of_char c < (0xF5 :: nat)"
    and c1: "byte_in (if of_char c = (0xF0 :: nat) then 0x90 else 0x80)
               (if of_char c = (0xF4 :: nat) then 0x8F else 0xBF) c1"
    and c2: "byte_in 0x80 0xBF c2" and c3: "byte_in 0x80 0xBF c3"
  shows "EncodeRune ((of_char c - 0xF0) * 262144 + cont_val c1 * 4096 + cont_val c2 * 64 + cont_val c3)
           = [c, c1, c2, c3]"
proof -
  define x where "x = (of_char c :: nat) - 0xF0"
  define r where "r = ((x * 64 + cont_val c1) * 64 + cont_val c2) * 64 + cont_val c3"
  have r: "(of_char c - 0xF0) * 262144 + cont_val c1 * 4096 + cont_val c2 * 64 + cont_val c3 = r"
    by (simp add: r_def x_def)
  have v: "cont_val c1 < 64" "cont_val c2 < 64" "cont_val c3 < 64"
    and lo: "x = 0 \<Longrightarrow> 16 \<le> cont_val c1"
    using assms by (auto simp: byte_in_def cont_val_def x_def split: if_splits)
  have d: "r div 64 div 64 div 64 = x" "r div 64 div 64 mod 64 = cont_val c1"
      "r div 64 mod 64 = cont_val c2" "r mod 64 = cont_val c3"
    unfolding r_def using v by (simp_all only: radix_64)
  have "valid_rune r"
    using decode4_valid [OF assms(1,2), of "[c1, c2, c3]"] c1 c2 c3 unfolding r [symmetric]
    by (simp add: decode4_def)
  moreover have "0x10000 \<le> r" using lo unfolding r_def by (cases "x = 0") simp_all
  moreover have "0xF0 + x = (of_char c :: nat)" using assms(1) by (simp add: x_def)
  moreover have "char_of (0x80 + cont_val c1) = c1" "char_of (0x80 + cont_val c2) = c2"
      "char_of (0x80 + cont_val c3) = c3"
    using c1 c2 c3 char_of_cont by (auto split: if_splits)
  ultimately show ?thesis
    unfolding r by (simp add: EncodeRune_def div_4096 div_262144 d)
qed

lemma decode3_ok:
  assumes "decode3 b0 cs = (r, n)" and "r \<noteq> RuneError \<or> n \<noteq> 1"
  obtains c1 c2 ds where "cs = c1 # c2 # ds" "n = 3"
    and "byte_in (if b0 = 0xE0 then 0xA0 else 0x80) (if b0 = 0xED then 0x9F else 0xBF) c1"
    and "byte_in 0x80 0xBF c2" and "r = (b0 - 0xE0) * 4096 + cont_val c1 * 64 + cont_val c2"
  using assms by (auto simp: decode3_def simp del: if_split split: list.splits if_split_asm)

lemma decode4_ok:
  assumes "decode4 b0 cs = (r, n)" and "r \<noteq> RuneError \<or> n \<noteq> 1"
  obtains c1 c2 c3 ds where "cs = c1 # c2 # c3 # ds" "n = 4"
    and "byte_in (if b0 = 0xF0 then 0x90 else 0x80) (if b0 = 0xF4 then 0x8F else 0xBF) c1"
    and "byte_in 0x80 0xBF c2" and "byte_in 0x80 0xBF c3"
    and "r = (b0 - 0xF0) * 262144 + cont_val c1 * 4096 + cont_val c2 * 64 + cont_val c3"
  using assms by (auto simp: decode4_def simp del: if_split split: list.splits if_split_asm)

lemma EncodeRune_DecodeRune:
  assumes "DecodeRune s = (r, n)" and "r \<noteq> RuneError \<or> n \<noteq> 1" and "s \<noteq> []"
  shows "EncodeRune r = take n s"
proof -
  from assms(3) obtain c cs where s: "s = c # cs" by (cases s) auto
  consider "of_char c < (0x80 :: nat)" | "(0xC2 :: nat) \<le> of_char c" "of_char c < (0xE0 :: nat)"
    | "(0xE0 :: nat) \<le> of_char c" "of_char c < (0xF0 :: nat)" | "(0xF0 :: nat) \<le> of_char c" "of_char c < (0xF5 :: nat)"
    using assms(1,2) s by (force simp: Let_def split: if_splits)
  then show ?thesis
  proof cases
    case 1
    with assms(1) s show ?thesis by (auto simp: EncodeRune_def)
  next
    case 2
    with assms(1,2) s show ?thesis
      by (auto simp: Let_def decode2_def encode_decode2 split: list.splits if_splits)
  next
    case 3
    with assms(1) s have "decode3 (of_char c) cs = (r, n)" by simp
    from this assms(2) show ?thesis
      by (rule decode3_ok) (simp add: s encode_decode3 [OF 3])
  next
    case 4
    with assms(1) s have "decode4 (of_char c) cs = (r, n)" by simp
    from this assms(2) show ?thesis
      by (rule decode4_ok) (simp add: s encode_decode4 [OF 4])
  qed
qed

subsection \<open>Strings as sequences of runes\<close>

text \<open>The runes that \<^verbatim>\<open>for _, r := range s\<close> visits; a malformed byte gives \<^verbatim>\<open>RuneError\<close>.\<close>

function runes :: "string \<Rightarrow> rune list" where
  "runes s =
     (if s = [] then []
      else fst (DecodeRune s) # runes (drop (snd (DecodeRune s)) s))"
  by pat_completeness auto
termination
  using DecodeRune_size_pos by (relation "measure length") fastforce+

declare runes.simps [simp del]

definition RuneCount :: "string \<Rightarrow> nat" where
  "RuneCount s = length (runes s)"

definition encode_runes :: "rune list \<Rightarrow> string" where
  "encode_runes rs = concat (map EncodeRune rs)"

definition valid_utf8 :: "string \<Rightarrow> bool" where
  "valid_utf8 s \<longleftrightarrow> encode_runes (runes s) = s"

lemma runes_Nil [simp]: "runes [] = []"
  by (simp add: runes.simps)

lemma encode_runes_simps [simp]:
  "encode_runes [] = []"
  "encode_runes (r # rs) = EncodeRune r @ encode_runes rs"
  "encode_runes (rs @ qs) = encode_runes rs @ encode_runes qs"
  by (simp_all add: encode_runes_def)

lemma encode_runes_eq_Nil [simp]: "encode_runes rs = [] \<longleftrightarrow> rs = []"
  by (cases rs) auto

lemma runes_EncodeRune: "valid_rune r \<Longrightarrow> runes (EncodeRune r @ s) = r # runes s"
  by (subst runes.simps) (simp add: DecodeRune_EncodeRune)

lemma runes_encode_append:
  "\<forall>r \<in> set rs. valid_rune r \<Longrightarrow> runes (encode_runes rs @ s) = rs @ runes s"
  by (induction rs) (auto simp: runes_EncodeRune)

lemma runes_encode: "\<forall>r \<in> set rs. valid_rune r \<Longrightarrow> runes (encode_runes rs) = rs"
  using runes_encode_append [of rs "[]"] by simp

lemma runes_valid: "r \<in> set (runes s) \<Longrightarrow> valid_rune r"
proof (induction s rule: runes.induct)
  case (1 s)
  show ?case
  proof (cases "s = []")
    case True
    with "1.prems" show ?thesis by simp
  next
    case False
    then have "runes s = fst (DecodeRune s) # runes (drop (snd (DecodeRune s)) s)"
      by (subst runes.simps) simp
    with "1.prems" have "r = fst (DecodeRune s) \<or> r \<in> set (runes (drop (snd (DecodeRune s)) s))"
      by simp
    with "1.IH" [OF False] DecodeRune_valid show ?thesis by blast
  qed
qed

lemma runes_eq_Nil [simp]: "runes s = [] \<longleftrightarrow> s = []"
  by (subst runes.simps) simp

lemma valid_utf8_encode: "\<forall>r \<in> set rs. valid_rune r \<Longrightarrow> valid_utf8 (encode_runes rs)"
  by (simp add: valid_utf8_def runes_encode)

lemma valid_utf8_append:
  assumes "valid_utf8 a" and "valid_utf8 b"
  shows "valid_utf8 (a @ b)" and "runes (a @ b) = runes a @ runes b"
proof -
  have a: "encode_runes (runes a) = a" and b: "encode_runes (runes b) = b"
    using assms by (simp_all add: valid_utf8_def)
  have "runes (encode_runes (runes a) @ b) = runes a @ runes b"
    by (rule runes_encode_append) (blast intro: runes_valid)
  then show r: "runes (a @ b) = runes a @ runes b" by (simp add: a)
  then show "valid_utf8 (a @ b)" by (simp add: valid_utf8_def a b)
qed

lemma valid_utf8_ascii:
  assumes "\<forall>c \<in> set s. (of_char c :: nat) < 0x80"
  shows "valid_utf8 s"
proof -
  have "encode_runes (map of_char s) = s" using assms by (induction s) (simp_all add: EncodeRune_def)
  moreover have "valid_utf8 (encode_runes (map of_char s))"
    using assms by (intro valid_utf8_encode) (auto simp: valid_rune_def)
  ultimately show ?thesis by simp
qed

subsection \<open>The last rune\<close>

lemma scan_start_bounds:
  "low - 1 \<le> start \<Longrightarrow> low - 1 \<le> scan_start s start low \<and> scan_start s start low \<le> start"
proof (induction s start low rule: scan_start.induct)
  case (1 s start low)
  then show ?case by (subst (1 2) scan_start.simps) (auto split: if_splits)
qed

lemma scan_start_found:
  assumes "RuneStart (s ! nat k)" and "low \<le> k"
  shows "k \<le> start \<Longrightarrow> (\<forall>i. k < i \<and> i \<le> start \<longrightarrow> \<not> RuneStart (s ! nat i)) \<Longrightarrow>
         scan_start s start low = k"
proof (induction "nat (start - k)" arbitrary: start)
  case 0
  then have "start = k" by simp
  with assms show ?case by (subst scan_start.simps) simp
next
  case (Suc n)
  then have lt: "k < start" by simp
  have "scan_start s (start - 1) low = k"
    using Suc by (intro Suc.hyps(1)) auto
  with Suc.prems(2) lt assms(2) show ?case by (subst scan_start.simps) simp
qed

lemma EncodeRune_shape:
  assumes "0x80 \<le> r"
  obtains c cs where "EncodeRune r = c # cs" and "RuneStart c"
    and "\<forall>x \<in> set cs. \<not> RuneStart x" and "1 \<le> length cs" and "length cs \<le> 3"
    and "0x80 \<le> (of_char (last cs) :: nat)"
proof -
  have cont: "\<not> RuneStart (char_of (0x80 + n mod 64))" for n :: nat
  proof -
    have "0x80 + n mod 64 < 256" by (rule le_less_trans [of _ "0x80 + 63"]) simp_all
    then show ?thesis by (simp add: RuneStart_def byte_in_def)
  qed
  have start: "RuneStart (char_of (0xC0 + n))" if "n < 64" for n :: nat
    using that by (simp add: RuneStart_def byte_in_def)
  have start3: "RuneStart (char_of (0xE0 + n))" if "n < 32" for n :: nat
    using that by (simp add: RuneStart_def byte_in_def)
  have start4: "RuneStart (char_of (0xF0 + n))" if "n < 16" for n :: nat
    using that by (simp add: RuneStart_def byte_in_def)
  have lst: "0x80 \<le> (of_char c :: nat)" if "\<not> RuneStart c" for c
    using that by (simp add: RuneStart_def byte_in_def)
  consider "r < 0x800" | "0x800 \<le> r" "\<not> valid_rune r \<or> r < 0x10000" | "0x10000 \<le> r" "valid_rune r"
    by linarith
  then show thesis
  proof cases
    case 1
    then have "EncodeRune r = [char_of (0xC0 + r div 64), char_of (0x80 + r mod 64)]"
      using assms by (simp add: EncodeRune_def)
    moreover have "r div 64 < 64" using 1 by (simp add: div_less_iff_less_mult)
    ultimately show thesis using that start cont lst by simp
  next
    case 2
    define x where "x = (if valid_rune r then r else RuneError)"
    have e: "EncodeRune r = encode3 x"
      using 2 assms by (auto simp: EncodeRune_def x_def)
    have "x div 4096 < 32" using 2 by (auto simp: x_def RuneError_def div_less_iff_less_mult)
    then show thesis
      using that [of "char_of (0xE0 + x div 4096)"
          "[char_of (0x80 + x div 64 mod 64), char_of (0x80 + x mod 64)]"] start3 cont lst
      by (simp add: e encode3_def)
  next
    case 3
    then have "r div 262144 < 16" by (simp add: valid_rune_def div_less_iff_less_mult)
    then show thesis
      using that [of "char_of (0xF0 + r div 262144)"
          "[char_of (0x80 + r div 4096 mod 64), char_of (0x80 + r div 64 mod 64), char_of (0x80 + r mod 64)]"]
        start4 cont lst 3
      by (simp add: EncodeRune_def)
  qed
qed

lemma DecodeLastRune_EncodeRune:
  assumes "valid_rune r"
  shows "DecodeLastRune (p @ EncodeRune r) = (r, length (EncodeRune r))"
proof (cases "r < 0x80")
  case True
  then show ?thesis by (simp add: EncodeRune_def DecodeLastRune_def)
next
  case False
  then obtain c cs where e: "EncodeRune r = c # cs" and c: "RuneStart c"
    and cs: "\<forall>x \<in> set cs. \<not> RuneStart x" and l: "1 \<le> length cs" "length cs \<le> 3"
    and lst: "0x80 \<le> (of_char (last cs) :: nat)"
    by (metis EncodeRune_shape not_le)
  let ?s = "p @ c # cs"
  have ne: "cs \<noteq> []" using l by auto
  have sc: "scan_start ?s (int (length ?s) - 2) (max 0 (int (length ?s) - 4)) = int (length p)"
  proof (rule scan_start_found)
    show "RuneStart (?s ! nat (int (length p)))" using c by simp
    show "max 0 (int (length ?s) - 4) \<le> int (length p)" using l by auto
    show "int (length p) \<le> int (length ?s) - 2" using l by auto
    show "\<forall>i. int (length p) < i \<and> i \<le> int (length ?s) - 2 \<longrightarrow> \<not> RuneStart (?s ! nat i)"
    proof (intro allI impI)
      fix i assume i: "int (length p) < i \<and> i \<le> int (length ?s) - 2"
      then have "?s ! nat i = cs ! (nat i - Suc (length p))"
        by (simp add: nth_append nth_Cons') linarith
      moreover have "nat i - Suc (length p) < length cs" using i by auto
      ultimately show "\<not> RuneStart (?s ! nat i)" using cs by simp
    qed
  qed
  have d: "DecodeRune (c # cs) = (r, length (c # cs))"
    using DecodeRune_EncodeRune [OF assms, of "[]"] by (simp add: e)
  have "last ?s = last cs" using ne by simp
  then have "DecodeLastRune ?s =
      (let start = max 0 (int (length p)); (r, size) = DecodeRune (drop (nat start) ?s)
       in if start + int size \<noteq> int (length ?s) then (RuneError, 1) else (r, size))"
    using lst sc by (simp add: DecodeLastRune_def Let_def)
  then show ?thesis using d by (simp add: e)
qed

lemma DecodeLastRune_bounds:
  assumes "s \<noteq> []"
  shows "1 \<le> snd (DecodeLastRune s) \<and> snd (DecodeLastRune s) \<le> length s"
proof -
  define start where
    "start = max 0 (scan_start s (int (length s) - 2) (max 0 (int (length s) - 4)))"
  obtain r size where d: "DecodeRune (drop (nat start) s) = (r, size)" by fastforce
  have "start \<le> int (length s) - 1"
    using scan_start_bounds [of "max 0 (int (length s) - 4)" "int (length s) - 2" s] assms
    unfolding start_def by (cases s) (auto simp: max_def)
  moreover have "0 \<le> start" by (simp add: start_def)
  ultimately have "drop (nat start) s \<noteq> []" by simp
  with d have "1 \<le> size" using DecodeRune_size_pos [of "drop (nat start) s"] by simp
  moreover have "size \<le> length s"
    using d DecodeRune_size_le [of "drop (nat start) s"] by simp
  moreover have "1 \<le> length s" using assms by (cases s) auto
  ultimately show ?thesis
    using assms d by (simp add: DecodeLastRune_def Let_def start_def [symmetric])
qed

subsection \<open>Unicode data and letter case\<close>

text \<open>
  What the service takes from the Go runtime: the permutation \<^verbatim>\<open>sort.Slice\<close> applies and the
  character tables of package \<^verbatim>\<open>unicode\<close>.
\<close>

record runtime =
  sort_perm :: sorter
  uc_letter :: "rune \<Rightarrow> bool"
  uc_digit :: "rune \<Rightarrow> bool"
  uc_number :: "rune \<Rightarrow> bool"
  uc_isupper :: "rune \<Rightarrow> bool"
  uc_lower :: "rune \<Rightarrow> rune"
  uc_upper :: "rune \<Rightarrow> rune"

abbreviation ascii_digit :: "rune \<Rightarrow> bool" where
  "ascii_digit r \<equiv> 0x30 \<le> r \<and> r \<le> 0x39"

abbreviation ascii_upper :: "rune \<Rightarrow> bool" where
  "ascii_upper r \<equiv> 0x41 \<le> r \<and> r \<le> 0x5A"

abbreviation ascii_lower :: "rune \<Rightarrow> bool" where
  "ascii_lower r \<equiv> 0x61 \<le> r \<and> r \<le> 0x7A"

locale go_runtime =
  fixes rt :: runtime
  assumes rt_sorter: "slice_sorter (sort_perm rt)"
    and digit_latin1: "r \<le> 0xFF \<Longrightarrow> uc_digit rt r \<longleftrightarrow> ascii_digit r"
    and letter_ascii: "r < 0x80 \<Longrightarrow> uc_letter rt r \<longleftrightarrow> ascii_upper r \<or> ascii_lower r"
    and letter_not_digit: "uc_letter rt r \<Longrightarrow> \<not> uc_digit rt r"
    and error_no_letter: "\<not> uc_letter rt RuneError"
    and error_no_digit: "\<not> uc_digit rt RuneError"
    and lower_ascii: "r < 0x80 \<Longrightarrow> uc_lower rt r = (if ascii_upper r then r + 0x20 else r)"
    and upper_ascii: "r < 0x80 \<Longrightarrow> uc_upper rt r = (if ascii_lower r then r - 0x20 else r)"
    and lower_valid: "valid_rune r \<Longrightarrow> valid_rune (uc_lower rt r)"
    and upper_valid: "valid_rune r \<Longrightarrow> valid_rune (uc_upper rt r)"

sublocale go_runtime \<subseteq> slice_sorter "sort_perm rt"
  by (rule rt_sorter)

text \<open>
  \<^verbatim>\<open>strings.ToLower\<close> and \<^verbatim>\<open>strings.ToUpper\<close> map every rune of the string, a malformed byte being
  rewritten as the encoding of \<^verbatim>\<open>RuneError\<close>.
\<close>

definition ToLower :: "runtime \<Rightarrow> string \<Rightarrow> string" where
  "ToLower rt s = encode_runes (map (uc_lower rt) (runes s))"

definition ToUpper :: "runtime \<Rightarrow> string \<Rightarrow> string" where
  "ToUpper rt s = encode_runes (map (uc_upper rt) (runes s))"

text \<open>
  A runtime to evaluate the model on: insertion sort, and the tables for Latin-1 and the
  Russian alphabet.
\<close>

definition latin1_letter :: "rune \<Rightarrow> bool" where
  "latin1_letter r \<longleftrightarrow> ascii_upper r \<or> ascii_lower r \<or> r = 0xAA \<or> r = 0xB5 \<or> r = 0xBA
     \<or> (0xC0 \<le> r \<and> r \<le> 0xFF \<and> r \<noteq> 0xD7 \<and> r \<noteq> 0xF7)"

definition ru_lower :: "rune \<Rightarrow> rune" where
  "ru_lower r =
     (if ascii_upper r \<or> (0xC0 \<le> r \<and> r \<le> 0xDE \<and> r \<noteq> 0xD7) \<or> (0x410 \<le> r \<and> r \<le> 0x42F) then r + 0x20
      else if 0x400 \<le> r \<and> r \<le> 0x40F then r + 0x50 else r)"

definition ru_upper :: "rune \<Rightarrow> rune" where
  "ru_upper r =
     (if ascii_lower r \<or> (0xE0 \<le> r \<and> r \<le> 0xFE \<and> r \<noteq> 0xF7) \<or> (0x430 \<le> r \<and> r \<le> 0x44F) then r - 0x20
      else if 0x450 \<le> r \<and> r \<le> 0x45F then r - 0x50 else r)"

definition ru_runtime :: runtime where
  "ru_runtime =
     \<lparr> sort_perm = insertion_sort,
       uc_letter = (\<lambda>r. latin1_letter r \<or> (0x400 \<le> r \<and> r \<le> 0x45F)),
       uc_digit = (\<lambda>r. ascii_digit r),
       uc_number = (\<lambda>r. ascii_digit r \<or> r \<in> {0xB2, 0xB3, 0xB9, 0xBC, 0xBD, 0xBE}),
       uc_isupper = (\<lambda>r. ascii_upper r \<or> (0xC0 \<le> r \<and> r \<le> 0xDE \<and> r \<noteq> 0xD7) \<or> (0x400 \<le> r \<and> r \<le> 0x42F)),
       uc_lower = ru_lower, uc_upper = ru_upper \<rparr>"

lemma ru_runtime_simps [simp]:
  "sort_perm ru_runtime = insertion_sort"
  "uc_letter ru_runtime r \<longleftrightarrow> latin1_letter r \<or> (0x400 \<le> r \<and> r \<le> 0x45F)"
  "uc_digit ru_runtime r \<longleftrightarrow> ascii_digit r"
  "uc_lower ru_runtime = ru_lower"
  "uc_upper ru_runtime = ru_upper"
  by (simp_all add: ru_runtime_def)

interpretation ru: go_runtime ru_runtime
proof (rule go_runtime.intro)
  show "slice_sorter (sort_perm ru_runtime)" by (simp add: ins_sorter.slice_sorter_axioms)
qed (auto simp: latin1_letter_def ru_lower_def ru_upper_def RuneError_def valid_rune_def)

end
