(* ===== verification/Go_Strings.thy ===== *)
theory Go_Strings
  imports Utf8
begin

text \<open>
  Functions of packages \<^verbatim>\<open>strings\<close> and \<^verbatim>\<open>strconv\<close> that read runes: white space, trimming, splitting
  into fields, and decimal numerals. A loop over \<^verbatim>\<open>s[i:]\<close> recurses on the suffix.
\<close>

subsection \<open>Runs of runes\<close>

lemma decode_progress: "(r, n) = DecodeRune s \<Longrightarrow> s \<noteq> [] \<Longrightarrow> length s - n < length s"
  using DecodeRune_size_pos [of s] by (metis diff_less length_greater_0_conv less_le_trans
      snd_conv zero_less_one)

lemma runes_step:
  "s \<noteq> [] \<Longrightarrow> DecodeRune s = (r, n) \<Longrightarrow> runes s = r # runes (drop n s)"
  by (subst runes.simps) simp

text \<open>The length in bytes of the longest prefix whose runes are in a class.\<close>

function scan_run :: "(rune \<Rightarrow> bool) \<Rightarrow> string \<Rightarrow> nat" where
  "scan_run P s =
     (if s = [] then 0
      else let (r, size) = DecodeRune s in
        if \<not> P r then 0 else size + scan_run P (drop size s))"
  by pat_completeness auto
termination
  by (relation "measure (\<lambda>(P, s). length s)") (auto dest: decode_progress)

declare scan_run.simps [simp del]

lemma scan_run_pos:
  "s \<noteq> [] \<Longrightarrow> (r, n) = DecodeRune s \<Longrightarrow> P r \<Longrightarrow> 0 < scan_run P s"
  using DecodeRune_size_pos [of s] by (subst scan_run.simps) (auto split: prod.splits)

lemma scan_run_progress:
  "(r, n) = DecodeRune s \<Longrightarrow> P r \<Longrightarrow> s \<noteq> [] \<Longrightarrow> length s - scan_run P s < length s"
  by (intro diff_less scan_run_pos) auto

subsection \<open>White space and trimming\<close>

definition IsSpace :: "rune \<Rightarrow> bool" where
  "IsSpace r \<longleftrightarrow> (9 \<le> r \<and> r \<le> 13) \<or> r = 32 \<or> r = 0x85 \<or> r = 0xA0 \<or> r = 0x1680 \<or> (0x2000 \<le> r \<and> r \<le> 0x200A) \<or>
     r = 0x2028 \<or> r = 0x2029 \<or> r = 0x202F \<or> r = 0x205F \<or> r = 0x3000"

lemma rune_shrinks:
  "s \<noteq> [] \<Longrightarrow> (r, n) = DecodeRune s \<Longrightarrow> length s - n < length s"
  "s \<noteq> [] \<Longrightarrow> (r, n) = DecodeLastRune s \<Longrightarrow> length s - n < length s"
  using DecodeRune_size_pos [of s] DecodeLastRune_bounds [of s] by (auto simp: prod_eq_iff)

function TrimLeftSpace :: "string \<Rightarrow> string" where
  "TrimLeftSpace s =
     (if s = [] then []
      else let (r, n) = DecodeRune s in if IsSpace r then TrimLeftSpace (drop n s) else s)"
  by pat_completeness auto
termination
  by (relation "measure length") (auto intro: rune_shrinks)

function TrimRightSpace :: "string \<Rightarrow> string" where
  "TrimRightSpace s =
     (if s = [] then []
      else let (r, n) = DecodeLastRune s in
        if IsSpace r then TrimRightSpace (take (length s - n) s) else s)"
  by pat_completeness auto
termination
  by (relation "measure length") (auto intro: rune_shrinks simp: min_absorb2)

declare TrimLeftSpace.simps [simp del] TrimRightSpace.simps [simp del]

definition TrimSpace :: "string \<Rightarrow> string" where
  "TrimSpace s = TrimRightSpace (TrimLeftSpace s)"

definition TrimPrefix :: "string \<Rightarrow> string \<Rightarrow> string" where
  "TrimPrefix s p = (if HasPrefix s p then drop (length p) s else s)"

definition TrimRight :: "char \<Rightarrow> string \<Rightarrow> string" where
  "TrimRight c s = rev (dropWhile (\<lambda>x. x = c) (rev s))"

definition TrimSuffix :: "string \<Rightarrow> string \<Rightarrow> string" where
  "TrimSuffix s p = (if HasSuffix s p then take (length s - length p) s else s)"

subsection \<open>Fields\<close>

text \<open>\<^verbatim>\<open>strings.FieldsFunc\<close> and \<^verbatim>\<open>strings.Fields\<close>.\<close>

function FieldsFunc :: "(rune \<Rightarrow> bool) \<Rightarrow> string \<Rightarrow> string list" where
  "FieldsFunc P s =
     (if s = [] then []
      else let (r, n) = DecodeRune s in
        if P r then FieldsFunc P (drop n s)
        else let k = scan_run (\<lambda>r. \<not> P r) s in take k s # FieldsFunc P (drop k s))"
  by pat_completeness auto
termination
  by (relation "measure (\<lambda>(P, s). length s)")
     (auto dest: decode_progress intro: scan_run_progress)

declare FieldsFunc.simps [simp del]

definition Fields :: "string \<Rightarrow> string list" where
  "Fields s = FieldsFunc IsSpace s"

subsection \<open>Decimal numerals\<close>

text \<open>
  \<^verbatim>\<open>strconv.Atoi\<close>: an optional sign and decimal digits; \<^term>\<open>None\<close> is a syntax error or a value that
  does not fit a signed 64-bit integer.
\<close>

definition digit_val :: "char \<Rightarrow> int" where
  "digit_val c = of_char c - 0x30"

definition digits_val :: "string \<Rightarrow> int" where
  "digits_val s = foldl (\<lambda>n c. n * 10 + digit_val c) 0 s"

definition all_digits :: "string \<Rightarrow> bool" where
  "all_digits s \<longleftrightarrow> list_all (\<lambda>c. ascii_digit (of_char c)) s"

definition Atoi :: "string \<Rightarrow> int option" where
  "Atoi s =
     (let neg = HasPrefix s ''-''; d = (if neg \<or> HasPrefix s ''+'' then tl s else s);
          v = (if neg then - digits_val d else digits_val d)
      in if d = [] \<or> \<not> all_digits d \<or> v < - (2 ^ 63) \<or> 2 ^ 63 \<le> v then None else Some v)"

end
