(* ===== verification/Regexp.thy ===== *)
theory Regexp
  imports Go_Strings
begin

text \<open>
  Package \<^verbatim>\<open>regexp\<close> for the syntax the detectors use. A pattern is a term of type \<open>rx\<close>; the search is
  the leftmost-first search the package documents: of the matches that start leftmost, the one a
  backtracking engine finds first. The theory proves the search sound and complete for the relation
  \<open>rx_rel\<close>, which says what a pattern matches without an order of preference.
\<close>

subsection \<open>Patterns\<close>

datatype rx =
    Eps
  | Cls "rune \<Rightarrow> bool"
  | Cat rx rx
  | Alt rx rx
  | Star rx
  | Cap nat rx
  | Bot
  | Eot
  | Wordb

definition rx_opt :: "rx \<Rightarrow> rx" where
  "rx_opt r = Alt r Eps"

definition rx_plus :: "rx \<Rightarrow> rx" where
  "rx_plus r = Cat r (Star r)"

definition rx_lit :: "rune list \<Rightarrow> rx" where
  "rx_lit rs = foldr (\<lambda>c. Cat (Cls (\<lambda>x. x = c))) rs Eps"

text \<open>
  Under \<^verbatim>\<open>(?i)\<close> a letter stands for the runes that fold to it: \<^verbatim>\<open>unicode.SimpleFold\<close> for the lower case Latin and
  Russian letters of the patterns, with the Kelvin sign, the long s and the old Cyrillic letter forms.
\<close>

definition fold_orbit :: "rune \<Rightarrow> rune list" where
  "fold_orbit c =
     (if ascii_lower c then
        [c, c - 0x20] @ (if c = 0x6B then [0x212A] else if c = 0x73 then [0x17F] else [])
      else if 0x430 \<le> c \<and> c \<le> 0x44F then
        [c, c - 0x20] @
        (if c = 0x432 then [0x1C80] else if c = 0x434 then [0x1C81] else if c = 0x43E then [0x1C82]
         else if c = 0x441 then [0x1C83] else if c = 0x442 then [0x1C84, 0x1C85]
         else if c = 0x44A then [0x1C86] else [])
      else if c = 0x451 then [c, 0x401]
      else [c])"

definition rx_ilit :: "rune list \<Rightarrow> rx" where
  "rx_ilit rs = foldr (\<lambda>c. Cat (Cls (\<lambda>x. x \<in> set (fold_orbit c)))) rs Eps"

fun rx_alts :: "rx list \<Rightarrow> rx" where
  "rx_alts [] = Cls (\<lambda>_. False)"
| "rx_alts [r] = r"
| "rx_alts (r # rs) = Alt r (rx_alts rs)"

fun rx_cats :: "rx list \<Rightarrow> rx" where
  "rx_cats [] = Eps"
| "rx_cats [r] = r"
| "rx_cats (r # rs) = Cat r (rx_cats rs)"

text \<open>\<^verbatim>\<open>r{m,n}\<close> is \<open>m\<close> copies followed by \<open>n - m\<close> nested options.\<close>

fun rx_upto :: "rx \<Rightarrow> nat \<Rightarrow> rx" where
  "rx_upto r 0 = Eps"
| "rx_upto r (Suc n) = Alt (Cat r (rx_upto r n)) Eps"

fun rx_times :: "rx \<Rightarrow> nat \<Rightarrow> rx" where
  "rx_times r 0 = Eps"
| "rx_times r (Suc n) = Cat r (rx_times r n)"

definition rx_rep :: "rx \<Rightarrow> nat \<Rightarrow> nat \<Rightarrow> rx" where
  "rx_rep r m n = Cat (rx_times r m) (rx_upto r (n - m))"

definition rx_digit :: rx where
  "rx_digit = Cls (\<lambda>r. ascii_digit r)"

definition space_class :: "rune \<Rightarrow> bool" where
  "space_class r \<longleftrightarrow> r = 9 \<or> r = 10 \<or> r = 12 \<or> r = 13 \<or> r = 32"

definition rx_space :: rx where
  "rx_space = Cls space_class"

subsection \<open>The search\<close>

type_synonym caps = "(nat \<times> nat \<times> nat) list"

definition word_byte :: "string \<Rightarrow> int \<Rightarrow> bool" where
  "word_byte s i \<longleftrightarrow> 0 \<le> i \<and> i < int (length s) \<and>
     (let r = of_char (s ! nat i) in ascii_digit r \<or> ascii_upper r \<or> ascii_lower r \<or> r = (0x5F :: nat))"

text \<open>\<^verbatim>\<open>\b\<close>: a boundary between an ASCII word character and something else.\<close>

definition word_boundary :: "string \<Rightarrow> nat \<Rightarrow> bool" where
  "word_boundary s i \<longleftrightarrow> word_byte s (int i - 1) \<noteq> word_byte s (int i)"

text \<open>
  Iterations of a greedy star in the order of preference: one more non-empty iteration first, then
  stopping here. Each iteration consumes a byte, so the fuel \<open>length s - i\<close> is enough.
\<close>

fun star_iter :: "(nat \<Rightarrow> caps \<Rightarrow> (nat \<times> caps) list) \<Rightarrow> nat \<Rightarrow> nat \<Rightarrow> caps \<Rightarrow> (nat \<times> caps) list" where
  "star_iter f 0 i cs = [(i, cs)]"
| "star_iter f (Suc k) i cs =
     concat (map (\<lambda>(j, cs'). if i < j then star_iter f k j cs' else []) (f i cs)) @ [(i, cs)]"

primrec rx_matches :: "string \<Rightarrow> rx \<Rightarrow> nat \<Rightarrow> caps \<Rightarrow> (nat \<times> caps) list" where
  "rx_matches s Eps i cs = [(i, cs)]"
| "rx_matches s (Cls P) i cs =
     (if i < length s then let (r, n) = DecodeRune (drop i s) in if P r then [(i + n, cs)] else [] else [])"
| "rx_matches s (Cat a b) i cs = concat (map (\<lambda>(j, cs'). rx_matches s b j cs') (rx_matches s a i cs))"
| "rx_matches s (Alt a b) i cs = rx_matches s a i cs @ rx_matches s b i cs"
| "rx_matches s (Star a) i cs = star_iter (rx_matches s a) (length s - i) i cs"
| "rx_matches s (Cap n a) i cs = map (\<lambda>(j, cs'). (j, (n, i, j) # cs')) (rx_matches s a i cs)"
| "rx_matches s Bot i cs = (if i = 0 then [(i, cs)] else [])"
| "rx_matches s Eot i cs = (if i = length s then [(i, cs)] else [])"
| "rx_matches s Wordb i cs = (if word_boundary s i then [(i, cs)] else [])"

text \<open>A match: its start, its end and the captured groups, the last capture of a group first.\<close>

record match =
  m_lo :: nat
  m_hi :: nat
  m_caps :: caps

definition match_at :: "string \<Rightarrow> rx \<Rightarrow> nat \<Rightarrow> match option" where
  "match_at s r i =
     (case rx_matches s r i [] of
        [] \<Rightarrow> None
      | (j, cs) # _ \<Rightarrow> Some \<lparr> m_lo = i, m_hi = j, m_caps = cs \<rparr>)"

definition width_at :: "string \<Rightarrow> nat \<Rightarrow> nat" where
  "width_at s i = snd (DecodeRune (drop i s))"

lemma width_at_pos: "i < length s \<Longrightarrow> 0 < width_at s i"
  using DecodeRune_size_pos [of "drop i s"] by (simp add: width_at_def)

lemma width_at_le: "width_at s i \<le> length s - i"
  using DecodeRune_size_le [of "drop i s"] by (simp add: width_at_def)

function find_from :: "string \<Rightarrow> rx \<Rightarrow> nat \<Rightarrow> match option" where
  "find_from s r i =
     (case match_at s r i of
        Some m \<Rightarrow> Some m
      | None \<Rightarrow> if i < length s then find_from s r (i + width_at s i) else None)"
  by pat_completeness auto
termination
  by (relation "measure (\<lambda>(s, r, i). length s - i)")
     (auto simp: diff_less_mono2 width_at_pos)

declare find_from.simps [simp del]

definition FindIndex :: "string \<Rightarrow> rx \<Rightarrow> match option" where
  "FindIndex s r = find_from s r 0"

text \<open>The text of a group: empty for a group that took no part in the match.\<close>

definition group_range :: "match \<Rightarrow> nat \<Rightarrow> (nat \<times> nat) option" where
  "group_range m n = (if n = 0 then Some (m_lo m, m_hi m) else map_of (m_caps m) n)"

definition group_text :: "string \<Rightarrow> match \<Rightarrow> nat \<Rightarrow> string" where
  "group_text s m n =
     (case group_range m n of None \<Rightarrow> '''' | Some (i, j) \<Rightarrow> take (j - i) (drop i s))"

definition MatchString :: "string \<Rightarrow> rx \<Rightarrow> bool" where
  "MatchString s r \<longleftrightarrow> FindIndex s r \<noteq> None"

subsection \<open>What a pattern matches\<close>

inductive rx_rel :: "string \<Rightarrow> rx \<Rightarrow> nat \<Rightarrow> nat \<Rightarrow> bool" for s where
  rel_Eps: "rx_rel s Eps i i"
| rel_Cls: "i < length s \<Longrightarrow> DecodeRune (drop i s) = (r, n) \<Longrightarrow> P r \<Longrightarrow> rx_rel s (Cls P) i (i + n)"
| rel_Cat: "rx_rel s a i j \<Longrightarrow> rx_rel s b j k \<Longrightarrow> rx_rel s (Cat a b) i k"
| rel_AltL: "rx_rel s a i j \<Longrightarrow> rx_rel s (Alt a b) i j"
| rel_AltR: "rx_rel s b i j \<Longrightarrow> rx_rel s (Alt a b) i j"
| rel_Star0: "rx_rel s (Star a) i i"
| rel_StarS: "rx_rel s a i j \<Longrightarrow> rx_rel s (Star a) j k \<Longrightarrow> rx_rel s (Star a) i k"
| rel_Cap: "rx_rel s a i j \<Longrightarrow> rx_rel s (Cap n a) i j"
| rel_Bot: "rx_rel s Bot 0 0"
| rel_Eot: "rx_rel s Eot (length s) (length s)"
| rel_Wordb: "word_boundary s i \<Longrightarrow> rx_rel s Wordb i i"

inductive_simps rel_Eps_iff: "rx_rel s Eps i j"
inductive_simps rel_Cls_iff: "rx_rel s (Cls P) i j"
inductive_simps rel_Cat_iff: "rx_rel s (Cat a b) i j"
inductive_simps rel_Alt_iff: "rx_rel s (Alt a b) i j"
inductive_simps rel_Cap_iff: "rx_rel s (Cap n a) i j"
inductive_simps rel_Bot_iff: "rx_rel s Bot i j"
inductive_simps rel_Eot_iff: "rx_rel s Eot i j"
inductive_simps rel_Wordb_iff: "rx_rel s Wordb i j"

lemmas rel_iffs =
  rel_Eps_iff rel_Cls_iff rel_Cat_iff rel_Alt_iff rel_Cap_iff rel_Bot_iff rel_Eot_iff rel_Wordb_iff

lemma rx_rel_bounds: "rx_rel s r i j \<Longrightarrow> i \<le> j \<and> j \<le> max i (length s)"
proof (induction rule: rx_rel.induct)
  case (rel_Cls i r n P)
  with DecodeRune_size_le [of "drop i s"] show ?case by simp
qed auto

lemma star_iter_sound:
  assumes f: "\<And>i j cs cs'. (j, cs') \<in> set (f i cs) \<Longrightarrow> rx_rel s a i j"
  shows "(j, cs') \<in> set (star_iter f k i cs) \<Longrightarrow> rx_rel s (Star a) i j"
proof (induction k arbitrary: i cs)
  case 0
  then show ?case by (simp add: rel_Star0)
next
  case (Suc k)
  then consider "j = i" | m cs'' where "(m, cs'') \<in> set (f i cs)" "(j, cs') \<in> set (star_iter f k m cs'')"
    by (auto split: if_splits)
  then show ?case
    by cases (use f Suc.IH rel_Star0 rel_StarS in blast)+
qed

lemma star_iter_complete:
  assumes f: "\<And>i j cs. rx_rel s a i j \<Longrightarrow> \<exists>cs'. (j, cs') \<in> set (f i cs)"
  shows "rx_rel s r i j \<Longrightarrow> r = Star a \<Longrightarrow> length s - i \<le> k \<Longrightarrow>
    \<exists>cs'. (j, cs') \<in> set (star_iter f k i cs)"
proof (induction arbitrary: k cs rule: rx_rel.induct)
  case (rel_Star0 b i)
  show ?case by (cases k) auto
next
  case (rel_StarS b i m j)
  then obtain cs1 where m: "(m, cs1) \<in> set (f i cs)" using f by blast
  have b: "i \<le> m" "m \<le> max i (length s)" using rx_rel_bounds [OF rel_StarS.hyps(1)] by auto
  show ?case
  proof (cases "i = m")
    case True
    with rel_StarS show ?thesis by blast
  next
    case False
    with b have lt: "i < m" "m \<le> length s" by auto
    then obtain k' where k: "k = Suc k'" using rel_StarS.prems(2) by (cases k) auto
    with lt rel_StarS.prems(2) have "length s - m \<le> k'" by simp
    with rel_StarS obtain cs2 where "(j, cs2) \<in> set (star_iter f k' m cs1)" by blast
    with m lt have "(j, cs2) \<in> set (star_iter f (Suc k') i cs)" by force
    then show ?thesis unfolding k by blast
  qed
qed auto

text \<open>The search tries exactly the matches of the pattern.\<close>

lemma rx_matches_sound: "(j, cs') \<in> set (rx_matches s r i cs) \<Longrightarrow> rx_rel s r i j"
proof (induction r arbitrary: i j cs cs')
  case (Star a)
  then show ?case using star_iter_sound [of "rx_matches s a" s a] by auto
next
  case (Cat a b)
  then obtain m cs1 where "(m, cs1) \<in> set (rx_matches s a i cs)" "(j, cs') \<in> set (rx_matches s b m cs1)"
    by auto
  with Cat.IH show ?case by (meson rel_Cat)
next
  case (Cls P)
  then show ?case by (auto simp: rel_Cls_iff split: if_splits prod.splits) metis
qed (auto simp: rel_iffs split: if_splits)

lemma rx_matches_complete: "rx_rel s r i j \<Longrightarrow> \<exists>cs'. (j, cs') \<in> set (rx_matches s r i cs)"
proof (induction r arbitrary: i j cs)
  case (Star a)
  then show ?case
    using star_iter_complete [of s a "rx_matches s a" "Star a" i j] by simp
next
  case (Cat a b)
  then obtain m where "rx_rel s a i m" "rx_rel s b m j" by (auto simp: rel_iffs)
  with Cat.IH(1) [of i m cs] obtain cs1 where "(m, cs1) \<in> set (rx_matches s a i cs)" by blast
  moreover obtain cs2 where "(j, cs2) \<in> set (rx_matches s b m cs1)"
    using Cat.IH(2) [OF \<open>rx_rel s b m j\<close>] by blast
  ultimately show ?case by force
qed (fastforce simp: rel_iffs)+

lemma match_at_None: "match_at s r i = None \<longleftrightarrow> (\<forall>j. \<not> rx_rel s r i j)"
proof -
  have "match_at s r i = None \<longleftrightarrow> rx_matches s r i [] = []"
    by (auto simp: match_at_def split: list.splits)
  also have "\<dots> \<longleftrightarrow> (\<forall>j. \<not> rx_rel s r i j)"
    using rx_matches_sound rx_matches_complete
    by (metis list.set_intros(1) list.exhaust empty_iff empty_set surj_pair)
  finally show ?thesis .
qed

lemma match_at_Some:
  assumes "match_at s r i = Some m"
  shows "m_lo m = i" and "rx_rel s r i (m_hi m)"
proof -
  from assms obtain j cs ms where "rx_matches s r i [] = (j, cs) # ms" "m = \<lparr> m_lo = i, m_hi = j, m_caps = cs \<rparr>"
    by (auto simp: match_at_def split: list.splits)
  then show "m_lo m = i" and "rx_rel s r i (m_hi m)"
    using rx_matches_sound [of j cs s r i "[]"] by simp_all
qed

text \<open>The positions at which the runes of \<open>s\<close> start, from \<open>i\<close> on, with the end of the string.\<close>

inductive rune_pos :: "string \<Rightarrow> nat \<Rightarrow> nat \<Rightarrow> bool" for s where
  pos_here: "rune_pos s i i"
| pos_next: "i < length s \<Longrightarrow> rune_pos s (i + width_at s i) k \<Longrightarrow> rune_pos s i k"

lemma rune_pos_ge: "rune_pos s i k \<Longrightarrow> i \<le> k"
  by (induction rule: rune_pos.induct) auto

lemma rune_pos_later: "rune_pos s i k \<Longrightarrow> k = i \<or> (i < length s \<and> rune_pos s (i + width_at s i) k)"
  by (cases rule: rune_pos.cases) auto

text \<open>\<^const>\<open>find_from\<close> finds a match exactly when there is one, and the leftmost one.\<close>

lemma find_from_Some:
  "find_from s r i = Some m \<Longrightarrow>
     rune_pos s i (m_lo m) \<and> rx_rel s r (m_lo m) (m_hi m) \<and>
     (\<forall>k < m_lo m. rune_pos s i k \<longrightarrow> (\<forall>j. \<not> rx_rel s r k j))"
proof (induction s r i rule: find_from.induct)
  case (1 s r i)
  show ?case
  proof (cases "match_at s r i")
    case (Some m')
    with "1.prems" have "m' = m" by (simp add: find_from.simps)
    with match_at_Some [OF Some] show ?thesis by (auto intro: pos_here dest: rune_pos_ge)
  next
    case None
    with "1.prems" have i: "i < length s" and f: "find_from s r (i + width_at s i) = Some m"
      by (simp_all add: find_from.simps [of s r i] split: if_splits)
    note IH = "1.IH" [OF None i f]
    have "\<forall>j. \<not> rx_rel s r k j" if "k < m_lo m" "rune_pos s i k" for k
      using rune_pos_later [OF that(2)] IH None that(1) by (auto simp: match_at_None)
    with IH i show ?thesis by (auto intro: pos_next)
  qed
qed

lemma find_from_None:
  "find_from s r i = None \<longleftrightarrow> (\<forall>k j. rune_pos s i k \<longrightarrow> \<not> rx_rel s r k j)"
proof (induction s r i rule: find_from.induct)
  case (1 s r i)
  show ?case
  proof (cases "match_at s r i")
    case (Some m)
    with match_at_Some [OF Some] pos_here show ?thesis by (auto simp: find_from.simps [of s r i])
  next
    case None
    show ?thesis
    proof (cases "i < length s")
      case True
      with None "1.IH" have "find_from s r i = None \<longleftrightarrow>
          (\<forall>k j. rune_pos s (i + width_at s i) k \<longrightarrow> \<not> rx_rel s r k j)"
        by (simp add: find_from.simps [of s r i])
      also have "\<dots> \<longleftrightarrow> (\<forall>k j. rune_pos s i k \<longrightarrow> \<not> rx_rel s r k j)"
        using None True rune_pos_later pos_next by (metis match_at_None)
      finally show ?thesis .
    next
      case False
      with None have "find_from s r i = None" by (simp add: find_from.simps [of s r i])
      with None False show ?thesis using rune_pos_later by (auto simp: match_at_None)
    qed
  qed
qed

lemma find_from_bounds:
  assumes "find_from s r i = Some m"
  shows "i \<le> m_lo m" and "m_lo m \<le> m_hi m" and "m_hi m \<le> max i (length s)"
proof -
  note f = find_from_Some [OF assms]
  then show "i \<le> m_lo m" by (auto dest: rune_pos_ge)
  from f have r: "rx_rel s r (m_lo m) (m_hi m)" by blast
  from rx_rel_bounds [OF r] show "m_lo m \<le> m_hi m" by simp
  have "rune_pos s i k \<Longrightarrow> k \<le> max i (length s)" for k
  proof (induction rule: rune_pos.induct)
    case (pos_next i k)
    with width_at_le [of s i] show ?case by simp
  qed simp
  with f have "m_lo m \<le> max i (length s)" by blast
  with rx_rel_bounds [OF r] show "m_hi m \<le> max i (length s)" by auto
qed

subsection \<open>All matches\<close>

text \<open>
  The loop of \<^verbatim>\<open>FindAll\<close>: matches that do not overlap, from left to right. After an empty match the
  search moves one rune on, and an empty match right after another match is not delivered.
\<close>

definition next_pos :: "string \<Rightarrow> nat \<Rightarrow> match \<Rightarrow> nat" where
  "next_pos s i m =
     (if m_hi m \<noteq> i then m_hi m else if i < length s then i + width_at s i else length s + 1)"

function all_from :: "string \<Rightarrow> rx \<Rightarrow> nat \<Rightarrow> nat option \<Rightarrow> match list" where
  "all_from s r i prev =
     (if length s < i then []
      else case find_from s r i of
        None \<Rightarrow> []
      | Some m \<Rightarrow>
          (if m_hi m = i \<and> prev = Some (m_lo m) then [] else [m])
            @ all_from s r (next_pos s i m) (Some (m_hi m)))"
  by pat_completeness auto
termination
proof (relation "measure (\<lambda>(s, r, i, prev). length s + 1 - i)", goal_cases)
  case (2 s r i prev m)
  with find_from_bounds [OF 2(2)] width_at_pos [of i s] show ?case by (auto simp: next_pos_def)
qed simp

declare all_from.simps [simp del]

definition FindAllIndex :: "string \<Rightarrow> rx \<Rightarrow> match list" where
  "FindAllIndex s r = all_from s r 0 None"

text \<open>The matches of \<^const>\<open>FindAllIndex\<close> are matches, in order, and do not overlap.\<close>

lemma next_pos_ge: "i \<le> length s \<Longrightarrow> find_from s r i = Some m \<Longrightarrow> i \<le> next_pos s i m \<and> m_hi m \<le> next_pos s i m"
  using find_from_bounds [of s r i m] by (auto simp: next_pos_def)

lemma all_from_None: "length s < i \<or> find_from s r i = None \<Longrightarrow> all_from s r i prev = []"
  by (subst all_from.simps) auto

lemma all_from_Some:
  "i \<le> length s \<Longrightarrow> find_from s r i = Some m \<Longrightarrow>
   all_from s r i prev = (if m_hi m = i \<and> prev = Some (m_lo m) then [] else [m])
     @ all_from s r (next_pos s i m) (Some (m_hi m))"
  by (subst all_from.simps) simp

lemma all_from_sound:
  "m \<in> set (all_from s r i prev) \<Longrightarrow>
     rx_rel s r (m_lo m) (m_hi m) \<and> i \<le> m_lo m \<and> m_lo m \<le> m_hi m \<and> m_hi m \<le> length s"
proof (induction s r i prev rule: all_from.induct)
  case (1 s r i prev)
  then obtain m' where i: "i \<le> length s" and f: "find_from s r i = Some m'"
    using all_from_None [of s i r prev] by (metis empty_iff empty_set not_le_imp_less option.exhaust)
  consider "m = m'" | "m \<in> set (all_from s r (next_pos s i m') (Some (m_hi m')))"
    using "1.prems" by (auto simp: all_from_Some [OF i f] split: if_splits)
  then show ?case
  proof cases
    case 1
    with find_from_Some [OF f] find_from_bounds [OF f] i show ?thesis by auto
  next
    case 2
    with next_pos_ge [OF i f] "1.IH" [OF _ f 2] i show ?thesis by auto
  qed
qed

lemma all_from_disjoint:
  "sorted_wrt (\<lambda>a b. m_hi a \<le> m_lo b) (all_from s r i prev)"
proof (induction s r i prev rule: all_from.induct)
  case (1 s r i prev)
  show ?case
  proof (cases "length s < i \<or> find_from s r i = None")
    case True
    then show ?thesis by (simp add: all_from_None)
  next
    case False
    then obtain m where i: "i \<le> length s" and f: "find_from s r i = Some m" by auto
    have "\<forall>b \<in> set (all_from s r (next_pos s i m) (Some (m_hi m))). m_hi m \<le> m_lo b"
      using all_from_sound next_pos_ge [OF i f] by fastforce
    with "1.IH" [OF _ f] i show ?thesis by (auto simp: all_from_Some [OF i f])
  qed
qed

subsection \<open>Captures\<close>

text \<open>
  In a pattern whose groups are numbered from left to right and never repeated, the captured ranges lie in
  the match, and a group never starts after the end of a later one.
\<close>

fun cap_list :: "rx \<Rightarrow> nat list" where
  "cap_list (Cat a b) = cap_list a @ cap_list b"
| "cap_list (Alt a b) = cap_list a @ cap_list b"
| "cap_list (Star a) = cap_list a"
| "cap_list (Cap n a) = n # cap_list a"
| "cap_list _ = []"

fun star_capless :: "rx \<Rightarrow> bool" where
  "star_capless (Cat a b) \<longleftrightarrow> star_capless a \<and> star_capless b"
| "star_capless (Alt a b) \<longleftrightarrow> star_capless a \<and> star_capless b"
| "star_capless (Star a) \<longleftrightarrow> cap_list a = []"
| "star_capless (Cap n a) \<longleftrightarrow> star_capless a"
| "star_capless _ \<longleftrightarrow> True"

definition wf_caps :: "rx \<Rightarrow> bool" where
  "wf_caps r \<longleftrightarrow> sorted_wrt (<) (cap_list r) \<and> star_capless r"

definition caps_ok :: "nat \<Rightarrow> nat \<Rightarrow> nat list \<Rightarrow> caps \<Rightarrow> bool" where
  "caps_ok i j ns cs \<longleftrightarrow>
     (\<forall>n a b. (n, a, b) \<in> set cs \<longrightarrow> n \<in> set ns \<and> i \<le> a \<and> a \<le> b \<and> b \<le> j) \<and>
     (\<forall>n a b n' a' b'. (n, a, b) \<in> set cs \<longrightarrow> (n', a', b') \<in> set cs \<longrightarrow> n \<le> n' \<longrightarrow> a \<le> b')"

lemma caps_ok_Nil [simp]: "caps_ok i j ns []"
  by (simp add: caps_ok_def)

lemma caps_ok_range: "caps_ok i j ns cs \<Longrightarrow> (n, a, b) \<in> set cs \<Longrightarrow> n \<in> set ns \<and> i \<le> a \<and> a \<le> b \<and> b \<le> j"
  unfolding caps_ok_def by blast

lemma caps_ok_order:
  "caps_ok i j ns cs \<Longrightarrow> (n, a, b) \<in> set cs \<Longrightarrow> (n', a', b') \<in> set cs \<Longrightarrow> n \<le> n' \<Longrightarrow> a \<le> b'"
  unfolding caps_ok_def by blast

lemma caps_okI:
  assumes "\<And>n a b. (n, a, b) \<in> set cs \<Longrightarrow> n \<in> set ns \<and> i \<le> a \<and> a \<le> b \<and> b \<le> j"
    and "\<And>n a b n' a' b'. (n, a, b) \<in> set cs \<Longrightarrow> (n', a', b') \<in> set cs \<Longrightarrow> n \<le> n' \<Longrightarrow> a \<le> b'"
  shows "caps_ok i j ns cs"
  using assms unfolding caps_ok_def by blast

lemma caps_ok_mono:
  "caps_ok i j ns cs \<Longrightarrow> set ns \<subseteq> set ms \<Longrightarrow> i' \<le> i \<Longrightarrow> j \<le> j' \<Longrightarrow> caps_ok i' j' ms cs"
  by (rule caps_okI) (auto dest: caps_ok_range caps_ok_order)

lemma caps_ok_Cat:
  assumes c: "caps_ok i k ns cs" and d: "caps_ok k j ms ds" and lt: "\<forall>n \<in> set ns. \<forall>m \<in> set ms. n < m"
    and ik: "i \<le> k" and kj: "k \<le> j"
  shows "caps_ok i j (ns @ ms) (ds @ cs)"
proof (rule caps_okI)
  fix n a b
  assume "(n, a, b) \<in> set (ds @ cs)"
  then show "n \<in> set (ns @ ms) \<and> i \<le> a \<and> a \<le> b \<and> b \<le> j"
    using caps_ok_range [OF c, of n a b] caps_ok_range [OF d, of n a b] ik kj by auto
next
  fix n a b n' a' b'
  assume x: "(n, a, b) \<in> set (ds @ cs)" and y: "(n', a', b') \<in> set (ds @ cs)" and le: "n \<le> n'"
  show "a \<le> b'"
  proof (cases "(n, a, b) \<in> set cs")
    case True
    then have "a \<le> k" using caps_ok_range [OF c True] by simp
    with y le show ?thesis
      using caps_ok_range [OF d, of n' a' b'] caps_ok_order [OF c True] by fastforce
  next
    case False
    with x have n: "(n, a, b) \<in> set ds" by simp
    have "(n', a', b') \<in> set ds"
      using y le lt caps_ok_range [OF d n] caps_ok_range [OF c, of n' a' b'] by fastforce
    then show ?thesis using caps_ok_order [OF d n _ le] by blast
  qed
qed

lemma caps_ok_Cap:
  assumes c: "caps_ok i j ns cs" and lt: "\<forall>m \<in> set ns. n < m" and ij: "i \<le> j"
  shows "caps_ok i j (n # ns) ((n, i, j) # cs)"
proof (rule caps_okI)
  fix m a b m' a' b'
  assume "(m, a, b) \<in> set ((n, i, j) # cs)" and "(m', a', b') \<in> set ((n, i, j) # cs)" and "m \<le> m'"
  then show "a \<le> b'"
    using ij lt caps_ok_range [OF c, of m a b] caps_ok_range [OF c, of m' a' b'] caps_ok_order [OF c, of m a b m' a' b']
    by fastforce
qed (use ij caps_ok_range [OF c] in auto)

lemma star_iter_caps:
  assumes "\<And>i j cs cs'. (j, cs') \<in> set (f i cs) \<Longrightarrow> cs' = cs"
  shows "(j, cs') \<in> set (star_iter f k i cs) \<Longrightarrow> cs' = cs"
proof (induction k arbitrary: i cs)
  case (Suc k)
  then consider "cs' = cs" | m ds where "(m, ds) \<in> set (f i cs)" "(j, cs') \<in> set (star_iter f k m ds)"
    by (auto split: if_splits)
  then show ?case using assms Suc.IH by cases metis+
qed simp

lemma rx_matches_capless: "(j, cs') \<in> set (rx_matches s r i cs) \<Longrightarrow> cap_list r = [] \<Longrightarrow> cs' = cs"
proof (induction r arbitrary: i j cs cs')
  case (Star a)
  then show ?case using star_iter_caps [of "rx_matches s a"] by auto
next
  case (Cat a b)
  then obtain m ds where "(m, ds) \<in> set (rx_matches s a i cs)" "(j, cs') \<in> set (rx_matches s b m ds)"
    by auto
  with Cat.IH Cat.prems(2) show ?case by (metis append_is_Nil_conv cap_list.simps(1))
qed (auto split: if_splits prod.splits)

lemma rx_matches_caps:
  "(j, cs') \<in> set (rx_matches s r i cs) \<Longrightarrow> wf_caps r \<Longrightarrow>
     \<exists>ds. cs' = ds @ cs \<and> caps_ok i j (cap_list r) ds"
proof (induction r arbitrary: i j cs cs')
  case (Cat a b)
  then obtain m ds where a: "(m, ds) \<in> set (rx_matches s a i cs)" and b: "(j, cs') \<in> set (rx_matches s b m ds)"
    by auto
  have wf: "wf_caps a" "wf_caps b" "\<forall>n \<in> set (cap_list a). \<forall>k \<in> set (cap_list b). n < k"
    using Cat.prems(2) by (auto simp: wf_caps_def sorted_wrt_append)
  from Cat.IH(1) [OF a wf(1)] obtain xs where xs: "ds = xs @ cs" "caps_ok i m (cap_list a) xs" by blast
  from Cat.IH(2) [OF b wf(2)] obtain ys where ys: "cs' = ys @ ds" "caps_ok m j (cap_list b) ys" by blast
  have "i \<le> m" "m \<le> j"
    using rx_rel_bounds [OF rx_matches_sound [OF a]] rx_rel_bounds [OF rx_matches_sound [OF b]] by auto
  with xs ys caps_ok_Cat [OF xs(2) ys(2) wf(3)] show ?case by auto
next
  case (Alt a b)
  have wf: "wf_caps a" "wf_caps b" using Alt.prems(2) by (auto simp: wf_caps_def sorted_wrt_append)
  from Alt.prems(1) consider "(j, cs') \<in> set (rx_matches s a i cs)" | "(j, cs') \<in> set (rx_matches s b i cs)"
    by auto
  then show ?case
  proof cases
    case 1
    from Alt.IH(1) [OF 1 wf(1)] show ?thesis by (auto elim!: caps_ok_mono)
  next
    case 2
    from Alt.IH(2) [OF 2 wf(2)] show ?thesis by (auto elim!: caps_ok_mono)
  qed
next
  case (Star a)
  then have "cs' = cs" by (intro rx_matches_capless [OF Star.prems(1)]) (simp add: wf_caps_def)
  then show ?case by simp
next
  case (Cap n a)
  then obtain ds where a: "(j, ds) \<in> set (rx_matches s a i cs)" and c: "cs' = (n, i, j) # ds" by auto
  have wf: "wf_caps a" "\<forall>m \<in> set (cap_list a). n < m" using Cap.prems(2) by (auto simp: wf_caps_def)
  from Cap.IH [OF a wf(1)] obtain xs where "ds = xs @ cs" "caps_ok i j (cap_list a) xs" by blast
  with caps_ok_Cap [OF _ wf(2)] rx_rel_bounds [OF rx_matches_sound [OF a]] c show ?case by auto
qed (auto split: if_splits prod.splits)

lemma FindIndex_caps:
  assumes "FindIndex s r = Some m" and "wf_caps r"
  shows "caps_ok 0 (length s) (cap_list r) (m_caps m)" and "m_lo m \<le> m_hi m" and "m_hi m \<le> length s"
proof -
  note b = find_from_bounds [OF assms(1) [unfolded FindIndex_def]]
  then show "m_lo m \<le> m_hi m" and h: "m_hi m \<le> length s" by simp_all
  have "find_from s r i = Some m \<Longrightarrow> \<exists>k. match_at s r k = Some m" for i
    by (induction s r i rule: find_from.induct) (subst (asm) (2) find_from.simps; auto split: option.splits if_splits)
  with assms(1) obtain k where "match_at s r k = Some m" by (auto simp: FindIndex_def)
  then obtain j cs ms where e: "rx_matches s r k [] = (j, cs) # ms" "m = \<lparr> m_lo = k, m_hi = j, m_caps = cs \<rparr>"
    by (auto simp: match_at_def split: list.splits)
  have "(j, cs) \<in> set (rx_matches s r k [])" by (simp add: e)
  from rx_matches_caps [OF this assms(2)] have "caps_ok k j (cap_list r) cs" by auto
  with h show "caps_ok 0 (length s) (cap_list r) (m_caps m)" by (auto simp: e(2) elim!: caps_ok_mono)
qed

subsection \<open>The combinators\<close>

lemma capless_star: "cap_list r = [] \<Longrightarrow> star_capless r"
  by (induction r) auto

lemma cap_list_combinators [simp]:
  "cap_list (rx_opt r) = cap_list r" "cap_list (rx_plus r) = cap_list r @ cap_list r"
  "cap_list (rx_lit rs) = []" "cap_list (rx_ilit rs) = []" "cap_list rx_digit = []" "cap_list rx_space = []"
  by (induction rs) (simp_all add: rx_opt_def rx_plus_def rx_lit_def rx_ilit_def rx_digit_def rx_space_def)

lemma cap_list_alts [simp]: "cap_list (rx_alts rs) = concat (map cap_list rs)"
  by (induction rs rule: rx_alts.induct) auto

lemma cap_list_cats [simp]: "cap_list (rx_cats rs) = concat (map cap_list rs)"
  by (induction rs rule: rx_cats.induct) auto

lemma cap_list_rep [simp]: "cap_list r = [] \<Longrightarrow> cap_list (rx_rep r m n) = []"
proof -
  assume r: "cap_list r = []"
  have "cap_list (rx_times r k) = []" "cap_list (rx_upto r k) = []" for k by (induction k) (simp_all add: r)
  then show ?thesis by (simp add: rx_rep_def)
qed

lemma star_capless_alts [simp]: "star_capless (rx_alts rs) \<longleftrightarrow> list_all star_capless rs"
  by (induction rs rule: rx_alts.induct) auto

lemma star_capless_cats [simp]: "star_capless (rx_cats rs) \<longleftrightarrow> list_all star_capless rs"
  by (induction rs rule: rx_cats.induct) auto

lemma rx_alts_rel: "rx_rel s (rx_alts rs) i j \<longleftrightarrow> (\<exists>r \<in> set rs. rx_rel s r i j)"
  by (induction rs rule: rx_alts.induct) (auto simp: rel_iffs)

lemma rx_cats_Cons: "rx_rel s (rx_cats (r # rs)) i k \<longleftrightarrow> (\<exists>j. rx_rel s r i j \<and> rx_rel s (rx_cats rs) j k)"
  by (cases rs) (auto simp: rel_iffs)

lemma rx_plus_rel_progress:
  assumes "rx_rel s (rx_plus r) i k" and "\<And>i j. rx_rel s r i j \<Longrightarrow> i < j"
  shows "i < k"
proof -
  obtain j where "rx_rel s r i j" "rx_rel s (Star r) j k" using assms(1) by (auto simp: rx_plus_def rel_iffs)
  with assms(2) [of i j] rx_rel_bounds [of s "Star r" j k] show ?thesis by auto
qed

lemma Cls_rel_progress: "rx_rel s (Cls P) i j \<Longrightarrow> i < j"
  using DecodeRune_size_pos [of "drop i s"] by (auto simp: rel_iffs)

text \<open>A literal matches its own bytes only.\<close>

lemma rx_lit_rel:
  assumes "rx_rel s (rx_lit rs) i j" and "RuneError \<notin> set rs" and "i \<le> length s"
  shows "occurs_at s (encode_runes rs) i \<and> j = i + length (encode_runes rs)"
  using assms
proof (induction rs arbitrary: i)
  case Nil
  then show ?case by (simp add: rx_lit_def rel_iffs occurs_at_def)
next
  case (Cons c rs)
  then obtain n where d: "DecodeRune (drop i s) = (c, n)" and i: "i < length s"
    and rest: "rx_rel s (rx_lit rs) (i + n) j"
    by (auto simp: rx_lit_def rel_iffs)
  have e: "EncodeRune c = take n (drop i s)" and n: "n \<le> length s - i"
    using EncodeRune_DecodeRune [of "drop i s"] d i Cons.prems(2) DecodeRune_size_le [of "drop i s"]
    by (auto simp: prod_eq_iff)
  then have l: "length (EncodeRune c) = n" by simp
  have IH: "occurs_at s (encode_runes rs) (i + n)" "j = i + n + length (encode_runes rs)"
    using Cons.IH [OF rest] Cons.prems(2) n i by auto
  have "drop i s = EncodeRune c @ drop (i + n) s" using e by (metis append_take_drop_id drop_drop add.commute)
  with IH l show ?case by (auto simp: occurs_at_def HasPrefix_append)
qed

end
