(* ===== verification/Validators.thy ===== *)
theory Validators
  imports Regexp
begin

text \<open>
  The validators of the regular-expression rules (\<^verbatim>\<open>internal/pii/detectors/validators.go\<close>): check digits of
  cards, tax and insurance numbers, phone shapes, service mailboxes and calendar dates. A Go
  \<^verbatim>\<open>int\<close> computed from the digits of a match is a \<^typ>\<open>nat\<close>; a parsed one is an \<^typ>\<open>int\<close>.
\<close>

subsection \<open>Digits\<close>

definition is_digit :: "char \<Rightarrow> bool" where
  "is_digit c \<longleftrightarrow> ascii_digit (of_char c)"

text \<open>
  \<^verbatim>\<open>nonDigit.ReplaceAllString(s, "")\<close> with the class \<^verbatim>\<open>[^\d]\<close>: every rune but an ASCII digit goes, and a
  byte of a longer or malformed rune is never an ASCII digit.
\<close>

definition digits :: "string \<Rightarrow> string" where
  "digits s = filter is_digit s"

text \<open>\<^verbatim>\<open>int(d[i]-'0')\<close>.\<close>

definition dig :: "char \<Rightarrow> nat" where
  "dig c = of_char c - 0x30"

subsection \<open>Mailboxes and toll-free numbers\<close>

definition serviceEmailLocalParts :: "string list" where
  "serviceEmailLocalParts =
    [''support'',
     ''info'',
     ''noreply'',
     ''no-reply'',
     ''help'',
     ''sales'',
     ''office'',
     ''hello'',
     ''press'',
     ''pr'',
     ''hr'',
     ''feedback'',
     ''mail'',
     ''clients'',
     ''client'']"

definition orgEmailDomains :: "string list" where
  "orgEmailDomains = [''alfabank.ru'']"

definition notServiceEmail :: "runtime \<Rightarrow> string \<Rightarrow> bool" where
  "notServiceEmail rt m =
     (case Index m ''@'' of
        None \<Rightarrow> True
      | Some p \<Rightarrow>
          let local = ToLower rt (take p m); domain = ToLower rt (drop (p + 1) m) in
          if domain \<notin> set orgEmailDomains then True else local \<notin> set serviceEmailLocalParts)"

definition tollFreePrefix :: string where
  "tollFreePrefix = ''800''"

definition notTollFree :: "string \<Rightarrow> bool" where
  "notTollFree m =
     (let d = digits m in
      if length d = 11 \<and> d ! 0 = CHR ''8'' \<and> take 3 (drop 1 d) = tollFreePrefix then False else True)"

subsection \<open>Check digits\<close>

text \<open>The loop of \<^verbatim>\<open>luhn\<close> runs from the last digit to the first; the argument is the reversed string.\<close>

definition luhn_term :: "bool \<Rightarrow> nat \<Rightarrow> nat" where
  "luhn_term double n = (if double then (if n * 2 > 9 then n * 2 - 9 else n * 2) else n)"

fun luhn_loop :: "string \<Rightarrow> bool \<Rightarrow> nat \<Rightarrow> nat" where
  "luhn_loop [] double acc = acc"
| "luhn_loop (c # cs) double acc = luhn_loop cs (\<not> double) (acc + luhn_term double (dig c))"

definition luhn :: "string \<Rightarrow> bool" where
  "luhn m =
     (let d = digits m in
      if length d < 13 \<or> length d > 19 then False else luhn_loop (rev d) False 0 mod 10 = 0)"

text \<open>
  The weighted sums of the tax numbers. Every call passes at least as many digits as there are
  weights, so no index of the source is out of range.
\<close>

definition weighted :: "string \<Rightarrow> nat list \<Rightarrow> nat" where
  "weighted d ws = foldl (\<lambda>acc (c, w). acc + dig c * w) 0 (zip d ws)"

definition inn10 :: "string \<Rightarrow> bool" where
  "inn10 d \<longleftrightarrow> weighted d [2, 4, 10, 3, 5, 9, 4, 6, 8] mod 11 mod 10 = dig (d ! 9)"

definition inn12 :: "string \<Rightarrow> bool" where
  "inn12 d \<longleftrightarrow>
     weighted d [7, 2, 4, 10, 3, 5, 9, 4, 6, 8] mod 11 mod 10 = dig (d ! 10) \<and>
     weighted d [3, 7, 2, 4, 10, 3, 5, 9, 4, 6, 8] mod 11 mod 10 = dig (d ! 11)"

definition inn :: "string \<Rightarrow> bool" where
  "inn m =
     (let d = digits m in
      if length d = 10 then inn10 d else if length d = 12 then inn12 d else False)"

definition snils_control :: "nat \<Rightarrow> nat" where
  "snils_control acc =
     (if acc < 100 then acc
      else if acc = 100 \<or> acc = 101 then 0
      else let control = acc mod 101 in if control = 100 then 0 else control)"

definition snils :: "string \<Rightarrow> bool" where
  "snils m =
     (let d = digits m in
      if length d \<noteq> 11 then False
      else snils_control (weighted d [9, 8, 7, 6, 5, 4, 3, 2, 1]) = dig (d ! 9) * 10 + dig (d ! 10))"

subsection \<open>Shapes\<close>

definition passport :: "string \<Rightarrow> bool" where
  "passport m =
     (let d = digits m in
      if length d \<noteq> 10 then False else take 4 d \<noteq> ''0000'' \<and> drop 4 d \<noteq> ''000000'')"

definition phone :: "string \<Rightarrow> bool" where
  "phone m =
     (let d = digits m in
      if length d \<noteq> 11 then False
      else if d ! 0 = CHR ''8'' \<and> take 3 (drop 1 d) = tollFreePrefix then False
      else d ! 0 = CHR ''7'' \<or> d ! 0 = CHR ''8'')"

definition phone10 :: "string \<Rightarrow> bool" where
  "phone10 m = (let d = digits m in if length d \<noteq> 10 then False else take 3 d \<noteq> tollFreePrefix)"

definition phoneE164 :: "string \<Rightarrow> bool" where
  "phoneE164 m \<longleftrightarrow> length (digits m) \<ge> 10 \<and> length (digits m) \<le> 15"

subsection \<open>Dates\<close>

definition inRange :: "int \<Rightarrow> int \<Rightarrow> int \<Rightarrow> bool" where
  "inRange v lo hi \<longleftrightarrow> v \<ge> lo \<and> v \<le> hi"

definition isLeap :: "int \<Rightarrow> bool" where
  "isLeap y \<longleftrightarrow> y mod 4 = 0 \<and> (y mod 100 \<noteq> 0 \<or> y mod 400 = 0)"

definition validYMD :: "int \<Rightarrow> int \<Rightarrow> int \<Rightarrow> bool" where
  "validYMD year month day =
     (if \<not> inRange year 1900 2100 \<or> \<not> inRange month 1 12 \<or> day < 1 then False
      else
        let dm = [31, 28, 31, 30, 31, 30, 31, 31, 30, 31, 30, 31];
            dm' = (if isLeap year \<and> month = 2 then dm[1 := 29] else dm)
        in day \<le> dm' ! nat (month - 1))"

definition monthNames :: "(string \<times> int) list" where
  "monthNames = map (\<lambda>(w, n). (encode_runes w, n))
    [([0x44f, 0x43d, 0x432, 0x430, 0x440, 0x44f], 1) \<comment> \<open>yanvarya\<close>,
     ([0x444, 0x435, 0x432, 0x440, 0x430, 0x43b, 0x44f], 2) \<comment> \<open>fevralya\<close>,
     ([0x43c, 0x430, 0x440, 0x442, 0x430], 3) \<comment> \<open>marta\<close>,
     ([0x430, 0x43f, 0x440, 0x435, 0x43b, 0x44f], 4) \<comment> \<open>aprelya\<close>,
     ([0x43c, 0x430, 0x44f], 5) \<comment> \<open>maya\<close>,
     ([0x438, 0x44e, 0x43d, 0x44f], 6) \<comment> \<open>iyunya\<close>,
     ([0x438, 0x44e, 0x43b, 0x44f], 7) \<comment> \<open>iyulya\<close>,
     ([0x430, 0x432, 0x433, 0x443, 0x441, 0x442, 0x430], 8) \<comment> \<open>avgusta\<close>,
     ([0x441, 0x435, 0x43d, 0x442, 0x44f, 0x431, 0x440, 0x44f], 9) \<comment> \<open>sentyabrya\<close>,
     ([0x43e, 0x43a, 0x442, 0x44f, 0x431, 0x440, 0x44f], 10) \<comment> \<open>oktyabrya\<close>,
     ([0x43d, 0x43e, 0x44f, 0x431, 0x440, 0x44f], 11) \<comment> \<open>noyabrya\<close>,
     ([0x434, 0x435, 0x43a, 0x430, 0x431, 0x440, 0x44f], 12) \<comment> \<open>dekabrya\<close>,
     ([0x44f, 0x43d, 0x432], 1) \<comment> \<open>yanv\<close>,
     ([0x44f, 0x43d, 0x432, 0x2e], 1) \<comment> \<open>yanv.\<close>,
     ([0x444, 0x435, 0x432], 2) \<comment> \<open>fev\<close>,
     ([0x444, 0x435, 0x432, 0x2e], 2) \<comment> \<open>fev.\<close>,
     ([0x43c, 0x430, 0x440], 3) \<comment> \<open>mar\<close>,
     ([0x43c, 0x430, 0x440, 0x2e], 3) \<comment> \<open>mar.\<close>,
     ([0x430, 0x43f, 0x440], 4) \<comment> \<open>apr\<close>,
     ([0x430, 0x43f, 0x440, 0x2e], 4) \<comment> \<open>apr.\<close>,
     ([0x43c, 0x430, 0x439], 5) \<comment> \<open>may\<close>,
     ([0x43c, 0x430, 0x439, 0x2e], 5) \<comment> \<open>may.\<close>,
     ([0x438, 0x44e, 0x43d], 6) \<comment> \<open>iyun\<close>,
     ([0x438, 0x44e, 0x43d, 0x2e], 6) \<comment> \<open>iyun.\<close>,
     ([0x438, 0x44e, 0x43b], 7) \<comment> \<open>iyul\<close>,
     ([0x438, 0x44e, 0x43b, 0x2e], 7) \<comment> \<open>iyul.\<close>,
     ([0x430, 0x432, 0x433], 8) \<comment> \<open>avg\<close>,
     ([0x430, 0x432, 0x433, 0x2e], 8) \<comment> \<open>avg.\<close>,
     ([0x441, 0x435, 0x43d], 9) \<comment> \<open>sen\<close>,
     ([0x441, 0x435, 0x43d, 0x2e], 9) \<comment> \<open>sen.\<close>,
     ([0x441, 0x435, 0x43d, 0x442], 9) \<comment> \<open>sent\<close>,
     ([0x441, 0x435, 0x43d, 0x442, 0x2e], 9) \<comment> \<open>sent.\<close>,
     ([0x43e, 0x43a, 0x442], 10) \<comment> \<open>okt\<close>,
     ([0x43e, 0x43a, 0x442, 0x2e], 10) \<comment> \<open>okt.\<close>,
     ([0x43d, 0x43e, 0x44f], 11) \<comment> \<open>noya\<close>,
     ([0x43d, 0x43e, 0x44f, 0x2e], 11) \<comment> \<open>noya.\<close>,
     ([0x434, 0x435, 0x43a], 12) \<comment> \<open>dek\<close>,
     ([0x434, 0x435, 0x43a, 0x2e], 12) \<comment> \<open>dek.\<close>,
     (map of_char ''january'', 1),
     (map of_char ''february'', 2),
     (map of_char ''march'', 3),
     (map of_char ''april'', 4),
     (map of_char ''may'', 5),
     (map of_char ''june'', 6),
     (map of_char ''july'', 7),
     (map of_char ''august'', 8),
     (map of_char ''september'', 9),
     (map of_char ''october'', 10),
     (map of_char ''november'', 11),
     (map of_char ''december'', 12)]"

definition date_sep :: "rune \<Rightarrow> bool" where
  "date_sep r \<longleftrightarrow> r = 0x2E \<or> r = 0x2F \<or> r = 0x2D"

text \<open>\<^verbatim>\<open>numericParts\<close>: the flag \<^verbatim>\<open>ok\<close> is \<^term>\<open>Some\<close>.\<close>

definition numericParts :: "string \<Rightarrow> (int \<times> int \<times> int) option" where
  "numericParts s =
     (let parts = FieldsFunc date_sep s in
      if length parts \<noteq> 3 then None
      else case (Atoi (parts ! 0), Atoi (parts ! 1), Atoi (parts ! 2)) of
        (Some a, Some b, Some c) \<Rightarrow> Some (a, b, c)
      | _ \<Rightarrow> None)"

text \<open>The value of a call of \<^verbatim>\<open>Atoi\<close> whose error is dropped, on a group of at most four digits.\<close>

definition atoi0 :: "string \<Rightarrow> int" where
  "atoi0 s = (case Atoi s of Some v \<Rightarrow> v | None \<Rightarrow> 0)"

definition ru_small :: "rune \<Rightarrow> bool" where
  "ru_small r \<longleftrightarrow> (0x430 \<le> r \<and> r \<le> 0x44F) \<or> r = 0x451"

definition rx_ord :: rx where
  "rx_ord = rx_alts [rx_lit [0x2d, 0x433, 0x43e], rx_lit [0x2d, 0x435], rx_lit [0x2d, 0x43e, 0x433, 0x43e], rx_lit [0x2d, 0x435, 0x433, 0x43e]]"

definition wordDateRe :: rx where
  "wordDateRe = rx_cats
     [Bot, Cap 1 (rx_rep rx_digit 1 2), rx_opt rx_ord, rx_plus rx_space,
      Cap 2 (rx_plus (Cls (\<lambda>r. ascii_lower r \<or> ru_small r))), rx_plus rx_space,
      Cap 3 (rx_rep rx_digit 4 4),
      rx_opt (Cat (rx_plus rx_space) (rx_alts [rx_lit [0x433, 0x2e], rx_lit [0x433, 0x43e, 0x434, 0x430], rx_lit [0x433]])), Eot]"

definition yearFirstDateRe :: rx where
  "yearFirstDateRe = rx_cats
     [Bot, Cap 1 (rx_rep rx_digit 4 4), rx_plus rx_space, rx_lit [0x433], rx_opt (rx_lit [0x2e]), Star rx_space,
      rx_opt (rx_lit [0x2c]), rx_plus rx_space, Cap 2 (rx_rep rx_digit 1 2), rx_opt rx_ord, rx_plus rx_space,
      Cap 3 (rx_plus (Cls ru_small)), Eot]"

definition dateWordShortYearRe :: rx where
  "dateWordShortYearRe = rx_cats
     [Bot, Cap 1 (rx_rep rx_digit 1 2), rx_ord, rx_plus rx_space, Cap 2 (rx_plus (Cls ru_small)),
      rx_plus rx_space, Cap 3 (rx_rep rx_digit 2 2), rx_lit [0x2d, 0x433, 0x43e], Eot]"

text \<open>The groups of a match are passed as a function from their number to their text.\<close>

definition wordDate :: "(nat \<Rightarrow> string) \<Rightarrow> bool" where
  "wordDate m =
     (case map_of monthNames (TrimSuffix (m 2) ''.'') of
        None \<Rightarrow> False
      | Some month \<Rightarrow> validYMD (atoi0 (m 3)) month (atoi0 (m 1)))"

definition yearFirstDate :: "(nat \<Rightarrow> string) \<Rightarrow> bool" where
  "yearFirstDate m =
     (case map_of monthNames (TrimSuffix (m 3) ''.'') of
        None \<Rightarrow> False
      | Some month \<Rightarrow> validYMD (atoi0 (m 1)) month (atoi0 (m 2)))"

definition date :: "runtime \<Rightarrow> string \<Rightarrow> bool" where
  "date rt m =
     (let s = TrimSpace m; lower = ToLower rt s in
      case FindIndex lower wordDateRe of
        Some g \<Rightarrow> wordDate (group_text lower g)
      | None \<Rightarrow>
        (case FindIndex lower yearFirstDateRe of
          Some g \<Rightarrow> yearFirstDate (group_text lower g)
        | None \<Rightarrow>
          (case numericParts s of
            None \<Rightarrow> False
          | Some (a, b, c) \<Rightarrow> validYMD a b c \<or> validYMD c a b \<or> validYMD c b a \<or> validYMD a c b)))"

definition shortYearAsLast :: "int \<Rightarrow> int \<Rightarrow> int \<Rightarrow> bool" where
  "shortYearAsLast a b c =
     (if c < 0 \<or> c > 99 then False
      else let year = 1900 + c in validYMD year a b \<or> validYMD year b a)"

definition shortYearAsFirst :: "int \<Rightarrow> int \<Rightarrow> int \<Rightarrow> bool" where
  "shortYearAsFirst a b c =
     (if a < 0 \<or> a > 99 then False else let year = 1900 + a in validYMD year b c)"

definition dateShortYear :: "string \<Rightarrow> bool" where
  "dateShortYear m =
     (let parts = FieldsFunc date_sep (TrimSpace m) in
      if length parts \<noteq> 3 then False
      else case (Atoi (parts ! 0), Atoi (parts ! 1), Atoi (parts ! 2)) of
        (Some a, Some b, Some c) \<Rightarrow> shortYearAsLast a b c \<or> shortYearAsFirst a b c
      | _ \<Rightarrow> False)"

definition dateWordShortYear :: "runtime \<Rightarrow> string \<Rightarrow> bool" where
  "dateWordShortYear rt m =
     (let s = ToLower rt (TrimSpace m) in
      case FindIndex s dateWordShortYearRe of
        None \<Rightarrow> False
      | Some g \<Rightarrow>
        (case map_of monthNames (group_text s g 2) of
          None \<Rightarrow> False
        | Some month \<Rightarrow> validYMD (1900 + atoi0 (group_text s g 3)) month (atoi0 (group_text s g 1))))"

subsection \<open>The table of validators\<close>

definition Validators :: "runtime \<Rightarrow> (string \<times> (string \<Rightarrow> bool)) list" where
  "Validators rt =
     [(''luhn'', luhn), (''inn'', inn), (''snils'', snils), (''passport'', passport), (''phone'', phone),
      (''phone10'', phone10), (''phone_e164'', phoneE164), (''date'', date rt),
      (''date_short_year'', dateShortYear), (''date_word_short_year'', dateWordShortYear rt),
      (''not_service_email'', notServiceEmail rt), (''not_toll_free'', notTollFree)]"

subsection \<open>Digits of a concatenation\<close>

lemma digits_append [simp]: "digits (s @ t) = digits s @ digits t"
  by (simp add: digits_def)

lemma digits_Nil [simp]: "digits [] = []"
  by (simp add: digits_def)

lemma digits_Cons [simp]: "digits (c # s) = (if is_digit c then c # digits s else digits s)"
  by (simp add: digits_def)

lemma digits_set: "c \<in> set (digits s) \<longleftrightarrow> c \<in> set s \<and> is_digit c"
  by (auto simp: digits_def)

lemma digits_id: "\<forall>c \<in> set s. is_digit c \<Longrightarrow> digits s = s"
  by (simp add: digits_def)

lemma dig_le: "is_digit c \<Longrightarrow> dig c \<le> 9"
  unfolding is_digit_def dig_def by linarith

lemma dig_inj: "is_digit c \<Longrightarrow> is_digit d \<Longrightarrow> dig c = dig d \<Longrightarrow> c = d"
  unfolding is_digit_def dig_def by (metis char_of_char diff_le_self le_add_diff_inverse)

lemma digit_of_dig: "n \<le> 9 \<Longrightarrow> is_digit (char_of (0x30 + n)) \<and> dig (char_of (0x30 + n)) = n"
  by (simp add: is_digit_def dig_def)

subsection \<open>The Luhn sum catches typing errors\<close>

lemma luhn_loop_acc: "luhn_loop cs d a = a + luhn_loop cs d 0"
proof (induction cs arbitrary: d a)
  case (Cons c cs)
  show ?case
    using Cons.IH [of "\<not> d" "a + luhn_term d (dig c)"] Cons.IH [of "\<not> d" "luhn_term d (dig c)"] by simp
qed simp

lemma luhn_loop_append:
  "luhn_loop (xs @ ys) d a = luhn_loop ys (if even (length xs) then d else \<not> d) (luhn_loop xs d a)"
  by (induction xs arbitrary: d a) auto

text \<open>The contribution of one digit to the sum.\<close>

lemma luhn_loop_split:
  "luhn_loop (rev (u @ x # v)) d 0 =
     luhn_loop (rev v) d 0 + luhn_term (if even (length v) then d else \<not> d) (dig x)
       + luhn_loop (rev u) (if even (length v) then \<not> d else d) 0"
  by (simp add: luhn_loop_append luhn_loop_acc [of "rev u" _ "_ + _"])

lemma luhn_term_le: "n \<le> 9 \<Longrightarrow> luhn_term b n \<le> 9"
  by (auto simp: luhn_term_def)

lemma luhn_term_inj:
  assumes "m \<le> 9" "n \<le> 9" "luhn_term b m = luhn_term b n"
  shows "m = n"
proof (cases b)
  case True
  with assms consider "2 * m = 2 * n" | "2 * m = 2 * n - 9" "9 < 2 * n" | "2 * n = 2 * m - 9" "9 < 2 * m"
    by (auto simp: luhn_term_def split: if_splits)
  then show ?thesis by cases presburger+
qed (use assms in \<open>simp add: luhn_term_def\<close>)

lemma mod10_cancel:
  fixes p q m n :: nat
  assumes "(p + m + q) mod 10 = 0" "(p + n + q) mod 10 = 0" "m \<le> 9" "n \<le> 9"
  shows "m = n"
proof -
  obtain a b where "p + m + q = 10 * a" "p + n + q = 10 * b"
    using assms(1,2) by (metis dvd_def mod_0_imp_dvd)
  then have "m + 10 * b = n + 10 * a" by linarith
  then have "m mod 10 = n mod 10" by (metis mod_mult_self2)
  with assms(3,4) show ?thesis by simp
qed

text \<open>A doubled digit minus the digit itself, modulo 10, is different for any two digits but 0 and 9.\<close>

lemma luhn_term_diff:
  assumes "m \<le> 9" "n \<le> 9" "luhn_term True m + n + 10 * a = luhn_term True n + m + 10 * b"
  shows "m = n \<or> {m, n} = {0, 9}"
proof -
  have "int m + 10 * int a - (if 5 \<le> m then 9 else 0) = int n + 10 * int b - (if 5 \<le> n then 9 else 0)"
    using assms by (auto simp: luhn_term_def split: if_splits)
  then have "m = n \<or> m = 0 \<and> n = 9 \<or> m = 9 \<and> n = 0"
    using assms(1,2) by (cases "5 \<le> m"; cases "5 \<le> n") (simp_all, presburger+)
  then show ?thesis by auto
qed

lemma luhn_term_swap:
  assumes "m \<le> 9" "n \<le> 9" and "(p + luhn_term b m + luhn_term (\<not> b) n) mod 10 = 0"
    and "(p + luhn_term b n + luhn_term (\<not> b) m) mod 10 = 0"
  shows "m = n \<or> {m, n} = {0, 9}"
proof -
  obtain x y where "p + luhn_term b m + luhn_term (\<not> b) n = 10 * x"
      "p + luhn_term b n + luhn_term (\<not> b) m = 10 * y"
    using assms(3,4) by (metis dvd_def mod_0_imp_dvd)
  then have "luhn_term b m + luhn_term (\<not> b) n + 10 * y = luhn_term b n + luhn_term (\<not> b) m + 10 * x"
    by linarith
  with luhn_term_diff [OF assms(1,2), of y x] luhn_term_diff [OF assms(1,2), of x y] show ?thesis
    by (cases b) (simp_all add: luhn_term_def [of False])
qed

lemma luhn_single:
  assumes "luhn (u @ x # v)" "is_digit x" "is_digit y" "x \<noteq> y"
  shows "\<not> luhn (u @ y # v)"
proof
  assume "luhn (u @ y # v)"
  with assms have "luhn_loop (rev (digits u @ x # digits v)) False 0 mod 10 = 0"
    and "luhn_loop (rev (digits u @ y # digits v)) False 0 mod 10 = 0"
    by (simp_all add: luhn_def Let_def split: if_splits)
  from mod10_cancel [OF this [unfolded luhn_loop_split] luhn_term_le [OF dig_le] luhn_term_le [OF dig_le]]
  have "dig x = dig y" using assms by (metis luhn_term_inj dig_le)
  with assms show False by (metis dig_inj)
qed

lemma luhn_swap:
  assumes "luhn (u @ x # v @ y # w)" "is_digit x" "is_digit y" "x \<noteq> y" "digits v = ''''"
    and "{x, y} \<noteq> {CHR ''0'', CHR ''9''}"
  shows "\<not> luhn (u @ y # v @ x # w)"
proof
  let ?w = "digits w" and ?u = "digits u"
  let ?b = "odd (length ?w)"
  assume "luhn (u @ y # v @ x # w)"
  with assms have "luhn_loop (rev (?u @ x # y # ?w)) False 0 mod 10 = 0"
    and "luhn_loop (rev (?u @ y # x # ?w)) False 0 mod 10 = 0"
    by (simp_all add: luhn_def Let_def split: if_splits)
  moreover have "luhn_loop (rev (?u @ p # q # ?w)) False 0 =
      luhn_loop (rev ?w) False 0 + luhn_loop (rev ?u) ?b 0 + luhn_term ?b (dig q) + luhn_term (\<not> ?b) (dig p)"
    for p q
    by (simp add: luhn_loop_append luhn_loop_acc [of "rev ?u" _ "_ + _"])
  ultimately have "dig y = dig x \<or> {dig y, dig x} = {0, 9}"
    using assms(2,3)
    by (intro luhn_term_swap [of _ _ "luhn_loop (rev ?w) False 0 + luhn_loop (rev ?u) ?b 0" ?b])
       (simp_all only: dig_le)
  moreover have "dig y \<noteq> dig x" using assms dig_inj by blast
  ultimately have "{dig y, dig x} = {dig CHR ''0'', dig CHR ''9''}" by (simp add: dig_def)
  then have "{y, x} = {CHR ''0'', CHR ''9''}"
    using assms(2,3) dig_inj [of _ "CHR ''0''"] dig_inj [of _ "CHR ''9''"]
    by (auto simp: doubleton_eq_iff is_digit_def)
  with assms(6) show False by (simp add: insert_commute)
qed

text \<open>
  C31. \<^verbatim>\<open>luhn\<close> catches the two common typing errors: if a card number passes, then no number that differs from it in
  exactly one digit, whatever the place and the new digit, passes, and no number with two neighbouring digits
  (separators between them allowed) exchanged passes, except for the exchange of 0 and 9 that the Luhn sum cannot see.
\<close>

theorem luhn_catches_typos:
  assumes "luhn m"
  shows "(m = u @ x # v \<and> is_digit x \<and> is_digit y \<and> x \<noteq> y \<longrightarrow> \<not> luhn (u @ y # v)) \<and>
    (m = u @ x # sep @ y # v \<and> is_digit x \<and> is_digit y \<and> x \<noteq> y \<and> digits sep = '''' \<and>
       {x, y} \<noteq> {CHR ''0'', CHR ''9''} \<longrightarrow> \<not> luhn (u @ y # sep @ x # v))"
  using luhn_single luhn_swap assms by blast

theorem luhn_catches_typos_witness:
  "luhn ''4111 1111 1111 1111'' \<and> \<not> luhn ''7111 1111 1111 1111'' \<and> \<not> luhn ''4111 1111 1111 1112'' \<and>
   \<not> luhn ''1411 1111 1111 1111''"
proof -
  have m: "luhn ''4111 1111 1111 1111''" by code_simp
  show ?thesis
    using m luhn_catches_typos [OF m, of "''''" "CHR ''4''" "''111 1111 1111 1111''" "CHR ''7''"]
      luhn_catches_typos [OF m, of "''4111 1111 1111 111''" "CHR ''1''" "''''" "CHR ''2''"]
      luhn_catches_typos [OF m, of "''''" "CHR ''4''" "''11 1111 1111 1111''" "CHR ''1''" "''''"]
    by (simp add: is_digit_def doubleton_eq_iff)
qed

subsection \<open>Short years\<close>

text \<open>
  The comment of \<^verbatim>\<open>dateShortYear\<close> reads a two-digit year as 19xx or 20xx; the code only tries 19xx, so the leap
  day of the year 2000 is rejected.
\<close>

lemma dateShortYear_rejects_leap_2000: "\<not> dateShortYear ''29.02.00'' \<and> validYMD 2000 2 29"
  by code_simp

end
