(* ===== verification/Pii.thy ===== *)
theory Pii
  imports Utf8
begin

text \<open>
  The data of package \<^verbatim>\<open>pii\<close> (\<^verbatim>\<open>types.go\<close>, \<^verbatim>\<open>detector.go\<close>): categories, spans, the text handed
  to detectors, the per-category counts and the detector registry. Offsets are Go
  \<^verbatim>\<open>int\<close>s, possibly out of range, so they are integers here. The confidence of a span is a
  constant of its detector; it is only ever compared, so a rational stands for the float.
\<close>

named_theorems cat_defs \<open>the category constants\<close>

subsection \<open>Categories\<close>

type_synonym category = string

definition CatFullName :: category where
  "CatFullName = ''full_name''"

definition CatBirthDate :: category where
  "CatBirthDate = ''birth_date''"

definition CatBirthPlace :: category where
  "CatBirthPlace = ''birth_place''"

definition CatPassport :: category where
  "CatPassport = ''passport''"

definition CatCitizenship :: category where
  "CatCitizenship = ''citizenship''"

definition CatPassportIssuer :: category where
  "CatPassportIssuer = ''passport_issuer''"

definition CatDivisionCode :: category where
  "CatDivisionCode = ''division_code''"

definition CatPassportDate :: category where
  "CatPassportDate = ''passport_date''"

definition CatDriverLicense :: category where
  "CatDriverLicense = ''driver_license''"

definition CatAddress :: category where
  "CatAddress = ''address''"

definition CatEmail :: category where
  "CatEmail = ''email''"

definition CatPhone :: category where
  "CatPhone = ''phone''"

definition CatINN :: category where
  "CatINN = ''inn''"

definition CatCardNumber :: category where
  "CatCardNumber = ''card_number''"

definition CatCVV :: category where
  "CatCVV = ''cvv''"

definition CatPIN :: category where
  "CatPIN = ''pin''"

definition CatCardHolder :: category where
  "CatCardHolder = ''card_holder''"

definition CatSNILS :: category where
  "CatSNILS = ''snils''"

definition CatForeignPassport :: category where
  "CatForeignPassport = ''foreign_passport''"

definition CatIDDocument :: category where
  "CatIDDocument = ''id_document''"

definition CatDate :: category where
  "CatDate = ''date''"

lemmas category_constants [cat_defs] =
  CatFullName_def CatBirthDate_def CatBirthPlace_def CatPassport_def
  CatCitizenship_def CatPassportIssuer_def CatDivisionCode_def CatPassportDate_def
  CatDriverLicense_def CatAddress_def CatEmail_def CatPhone_def
  CatINN_def CatCardNumber_def CatCVV_def CatPIN_def
  CatCardHolder_def CatSNILS_def CatForeignPassport_def CatIDDocument_def
  CatDate_def

subsection \<open>Spans\<close>

record Span =
  sp_Start :: int
  sp_End :: int
  sp_Category :: category
  sp_Detector :: string
  sp_Confidence :: rat

text \<open>The lowercased text is computed once per run and shared with the detectors.\<close>

record Text =
  Raw :: string
  Lower :: string

definition LowerOK :: "Text \<Rightarrow> bool" where
  "LowerOK t \<longleftrightarrow> length (Lower t) = length (Raw t)"

text \<open>A span a detector may return for a text of \<open>n\<close> bytes: non-empty and in range.\<close>

definition span_wf :: "nat \<Rightarrow> Span \<Rightarrow> bool" where
  "span_wf n s \<longleftrightarrow> 0 \<le> sp_Start s \<and> sp_Start s < sp_End s \<and> sp_End s \<le> int n"

text \<open>A range of the text, possibly empty.\<close>

definition span_in :: "nat \<Rightarrow> Span \<Rightarrow> bool" where
  "span_in n s \<longleftrightarrow> 0 \<le> sp_Start s \<and> sp_Start s \<le> sp_End s \<and> sp_End s \<le> int n"

lemma span_wf_in: "span_wf n s \<Longrightarrow> span_in n s"
  by (simp add: span_wf_def span_in_def)

definition overlap :: "Span \<Rightarrow> Span \<Rightarrow> bool" where
  "overlap a b \<longleftrightarrow> sp_Start a < sp_End b \<and> sp_Start b < sp_End a"

subsection \<open>Counts\<close>

text \<open>\<^verbatim>\<open>counts[c]++\<close> on a Go map: a missing key reads as zero.\<close>

definition count_inc :: "('c \<rightharpoonup> nat) \<Rightarrow> 'c \<Rightarrow> ('c \<rightharpoonup> nat)" where
  "count_inc m c = m(c \<mapsto> (case m c of None \<Rightarrow> 1 | Some n \<Rightarrow> Suc n))"

definition count_list_map :: "'c list \<Rightarrow> ('c \<rightharpoonup> nat)" where
  "count_list_map cs = foldl count_inc Map.empty cs"

definition Counts :: "Span list \<Rightarrow> (category \<rightharpoonup> nat)" where
  "Counts spans = count_list_map (map sp_Category spans)"

lemma foldl_count_inc:
  "foldl count_inc m cs c =
     (if c \<in> set cs then Some (count_list cs c + (case m c of None \<Rightarrow> 0 | Some n \<Rightarrow> n)) else m c)"
  by (induction cs arbitrary: m) (auto simp: count_inc_def split: option.splits)

lemma count_list_map_apply:
  "count_list_map cs c = (if c \<in> set cs then Some (count_list cs c) else None)"
  by (simp add: count_list_map_def foldl_count_inc)

subsection \<open>Detectors and their registry\<close>

text \<open>
  The interface \<^verbatim>\<open>Detector\<close>; \<open>det_lower\<close> is \<^term>\<open>Some\<close> for a detector that also implements
  \<^verbatim>\<open>LowerDetector\<close>.
\<close>

record detector =
  det_Name :: string
  det_Categories :: "category list"
  det_Detect :: "string \<Rightarrow> Span list"
  det_DetectLower :: "(Text \<Rightarrow> Span list) option"

record Registry =
  reg_detectors :: "detector list"

definition NewRegistry :: Registry where
  "NewRegistry = \<lparr> reg_detectors = [] \<rparr>"

definition Register :: "Registry \<Rightarrow> detector \<Rightarrow> Registry" where
  "Register r d = r\<lparr> reg_detectors := reg_detectors r @ [d] \<rparr>"

definition All :: "Registry \<Rightarrow> detector list" where
  "All r = reg_detectors r"

definition Enabled :: "Registry \<Rightarrow> category list \<Rightarrow> detector list" where
  "Enabled r categories =
     filter (\<lambda>d. \<exists>c \<in> set (det_Categories d). c \<in> set categories) (reg_detectors r)"

lemma All_Register: "All (Register r d) = All r @ [d]"
  by (simp add: All_def Register_def)

lemma Enabled_Register:
  "Enabled (Register r d) cs =
     Enabled r cs @ (if set (det_Categories d) \<inter> set cs \<noteq> {} then [d] else [])"
  by (auto simp: Enabled_def Register_def)

end
