(* ===== verification/Textutil.thy ===== *)
theory Textutil
  imports Pii Go_Strings
begin

text \<open>
  Rune-level helpers of the detectors (\<^verbatim>\<open>internal/pii/detectors/textutil.go\<close>, with \<^verbatim>\<open>isLatinLetter\<close> of
  \<^verbatim>\<open>names_tokens.go\<close>). Byte offsets come from matches in the text and are natural numbers; the helpers are
  only called with offsets up to the length of the text.
\<close>

subsection \<open>Letters\<close>

definition isLatinLetter :: "rune \<Rightarrow> bool" where
  "isLatinLetter r \<longleftrightarrow> (0x61 \<le> r \<and> r \<le> 0x7A) \<or> (0x41 \<le> r \<and> r \<le> 0x5A)"

definition isLowerCyrillicRune :: "rune \<Rightarrow> bool" where
  "isLowerCyrillicRune r \<longleftrightarrow> (0x430 \<le> r \<and> r \<le> 0x44F) \<or> r = 0x451"

definition isUpperCyrillicRune :: "rune \<Rightarrow> bool" where
  "isUpperCyrillicRune r \<longleftrightarrow> (0x410 \<le> r \<and> r \<le> 0x42F) \<or> r = 0x401"

definition isCyrillicRune :: "rune \<Rightarrow> bool" where
  "isCyrillicRune r \<longleftrightarrow> isLowerCyrillicRune r \<or> isUpperCyrillicRune r"

definition isLetterRune_det :: "rune \<Rightarrow> bool" where
  "isLetterRune_det r \<longleftrightarrow> isLatinLetter r \<or> isCyrillicRune r"

definition isUpperLatin :: "rune \<Rightarrow> bool" where
  "isUpperLatin r \<longleftrightarrow> 0x41 \<le> r \<and> r \<le> 0x5A"

definition isUpperRune :: "rune \<Rightarrow> bool" where
  "isUpperRune r \<longleftrightarrow> isUpperLatin r \<or> isUpperCyrillicRune r"

subsection \<open>Walking over runes\<close>

text \<open>\<^verbatim>\<open>s[i]&0xC0 == 0x80\<close>.\<close>

definition cont_byte :: "char \<Rightarrow> bool" where
  "cont_byte c \<longleftrightarrow> byte_in 0x80 0xBF c"

text \<open>The inner loop \<^verbatim>\<open>for i > 0 && s[i]&0xC0 == 0x80 { i-- }\<close>.\<close>

fun skip_back :: "string \<Rightarrow> nat \<Rightarrow> nat" where
  "skip_back s 0 = 0"
| "skip_back s (Suc i) = (if cont_byte (s ! Suc i) then skip_back s i else Suc i)"

definition runeBefore :: "string \<Rightarrow> nat \<Rightarrow> rune" where
  "runeBefore s pos =
     (if pos = 0 then 0 else fst (DecodeRune (drop (skip_back s (pos - 1)) s)))"

definition decodedRune :: "string \<Rightarrow> nat \<Rightarrow> rune" where
  "decodedRune s pos = fst (DecodeRune (drop pos s))"

text \<open>\<^verbatim>\<open>gapRunes\<close>: \<open>k\<close> is what is left of the cap of four runes.\<close>

fun gap_loop :: "string \<Rightarrow> nat \<Rightarrow> nat \<Rightarrow> nat \<Rightarrow> nat" where
  "gap_loop s i b 0 = 0"
| "gap_loop s i b (Suc k) =
     (if i < b then Suc (gap_loop s (i + snd (DecodeRune (drop i s))) b k) else 0)"

definition gapRunes :: "string \<Rightarrow> nat \<Rightarrow> nat \<Rightarrow> nat" where
  "gapRunes s a b = (if b \<le> a then 0 else gap_loop s a b 4)"

text \<open>The forward walk of \<^verbatim>\<open>runeOffsetAfter\<close> and \<^verbatim>\<open>firstNRunes\<close>: \<open>k\<close> runes from byte \<open>i\<close>.\<close>

fun walk :: "string \<Rightarrow> nat \<Rightarrow> nat \<Rightarrow> nat" where
  "walk s i 0 = i"
| "walk s i (Suc k) = (if i < length s then walk s (i + snd (DecodeRune (drop i s))) k else i)"

definition runeOffsetAfter :: "string \<Rightarrow> nat \<Rightarrow> int \<Rightarrow> nat" where
  "runeOffsetAfter s pos n = (if n \<le> 0 then pos else walk s pos (nat n))"

text \<open>The backward walk of \<^verbatim>\<open>lastNRunes\<close>.\<close>

fun walk_back :: "string \<Rightarrow> nat \<Rightarrow> nat \<Rightarrow> nat" where
  "walk_back s i 0 = i"
| "walk_back s i (Suc k) = (if 0 < i then walk_back s (skip_back s (i - 1)) k else i)"

definition lastNRunes :: "string \<Rightarrow> int \<Rightarrow> string" where
  "lastNRunes s n = (if n \<le> 0 then '''' else drop (walk_back s (length s) (nat n)) s)"

definition firstNRunes :: "string \<Rightarrow> int \<Rightarrow> string" where
  "firstNRunes s n = (if n \<le> 0 then '''' else take (walk s 0 (nat n)) s)"

text \<open>\<^verbatim>\<open>lastNRunesLower\<close> and \<^verbatim>\<open>firstNRunesLower\<close> repeat the same loops.\<close>

definition lastNRunesLower :: "string \<Rightarrow> int \<Rightarrow> string" where
  "lastNRunesLower s n = (if n \<le> 0 then '''' else drop (walk_back s (length s) (nat n)) s)"

definition firstNRunesLower :: "string \<Rightarrow> int \<Rightarrow> string" where
  "firstNRunesLower s n = (if n \<le> 0 then '''' else take (walk s 0 (nat n)) s)"

definition runeWindowBefore :: "runtime \<Rightarrow> Text \<Rightarrow> nat \<Rightarrow> int \<Rightarrow> string" where
  "runeWindowBefore rt t pos n =
     (if LowerOK t then lastNRunesLower (take pos (Lower t)) n
      else ToLower rt (lastNRunes (take pos (Raw t)) n))"

definition runeWindowAfter :: "runtime \<Rightarrow> Text \<Rightarrow> nat \<Rightarrow> int \<Rightarrow> string" where
  "runeWindowAfter rt t pos n =
     (if LowerOK t then firstNRunesLower (drop pos (Lower t)) n
      else ToLower rt (firstNRunes (drop pos (Raw t)) n))"

subsection \<open>The windows hold whole runes\<close>

lemma skip_back_le: "skip_back s i \<le> i"
  by (induction i) (auto simp: le_SucI)

lemma walk_bounds: "i \<le> length s \<Longrightarrow> i \<le> walk s i k \<and> walk s i k \<le> length s"
proof (induction k arbitrary: i)
  case (Suc k)
  show ?case
  proof (cases "i < length s")
    case True
    have "i + snd (DecodeRune (drop i s)) \<le> length s" using DecodeRune_size_le [of "drop i s"] True by simp
    from Suc.IH [OF this] True show ?thesis by simp
  qed (use Suc.prems in simp)
qed simp

lemma walk_back_le: "walk_back s i k \<le> i"
proof (induction k arbitrary: i)
  case (Suc k)
  from le_trans [OF Suc.IH skip_back_le, of s "i - 1"] show ?case by (auto intro: le_trans)
qed simp

lemma skip_back_skips:
  "j \<le> i \<Longrightarrow> \<forall>k. j < k \<and> k \<le> i \<longrightarrow> cont_byte (s ! k) \<Longrightarrow> \<not> cont_byte (s ! j) \<Longrightarrow> skip_back s i = j"
proof (induction i)
  case (Suc i)
  then show ?case by (cases "j = Suc i") auto
qed simp

text \<open>One step back from the end of an encoded rune stops at its first byte.\<close>

lemma skip_back_rune:
  "skip_back (a @ EncodeRune r @ b) (length a + length (EncodeRune r) - 1) = length a"
proof (cases "r < 0x80")
  case True
  then have e: "EncodeRune r = [char_of r]" by (simp add: EncodeRune_def)
  have "\<not> cont_byte (char_of r)" using True by (simp add: cont_byte_def byte_in_def)
  then show ?thesis by (intro skip_back_skips) (auto simp: e)
next
  case False
  then have r: "0x80 \<le> r" by simp
  obtain c cs where e: "EncodeRune r = c # cs" and c: "RuneStart c" "\<forall>x \<in> set cs. \<not> RuneStart x"
    and "1 \<le> length cs" and "length cs \<le> 3" and "0x80 \<le> (of_char (last cs) :: nat)"
    by (rule EncodeRune_shape [OF r])
  have "cont_byte ((a @ EncodeRune r @ b) ! k)" if k: "length a < k" "k \<le> length a + length (EncodeRune r) - 1" for k
  proof -
    obtain i where i: "k = length a + Suc i" "i < length cs"
      using k by (metis e add_Suc_right add_diff_cancel_left' diff_Suc_1 le_add_diff_inverse length_Cons
          less_eq_Suc_le nat_add_left_cancel_less less_iff_Suc_add le_imp_less_Suc)
    then have "(a @ EncodeRune r @ b) ! k = cs ! i" by (simp add: e nth_append)
    with c(2) i(2) show ?thesis by (simp add: cont_byte_def RuneStart_def)
  qed
  moreover have "\<not> cont_byte ((a @ EncodeRune r @ b) ! length a)"
    using c(1) by (simp add: e cont_byte_def RuneStart_def)
  moreover have "1 \<le> length (EncodeRune r)" by (simp add: e)
  ultimately show ?thesis by (intro skip_back_skips) auto
qed

lemma walk_back_runes:
  "walk_back (encode_runes xs @ b) (length (encode_runes xs)) k = length (encode_runes (take (length xs - k) xs))"
proof (induction k arbitrary: xs b)
  case (Suc k)
  show ?case
  proof (cases xs rule: rev_cases)
    case (snoc ws r)
    have "0 < length (encode_runes xs)" by (simp add: snoc)
    then have "walk_back (encode_runes xs @ b) (length (encode_runes xs)) (Suc k) =
        walk_back (encode_runes ws @ (EncodeRune r @ b)) (length (encode_runes ws)) k"
      using skip_back_rune [of "encode_runes ws" r b] by (simp add: snoc)
    also have "\<dots> = length (encode_runes (take (length xs - Suc k) xs))"
      using Suc.IH [of ws "EncodeRune r @ b"] by (simp add: snoc)
    finally show ?thesis .
  qed simp
qed simp

lemma walk_runes:
  "\<forall>r \<in> set ys. valid_rune r \<Longrightarrow>
   walk (a @ encode_runes ys) (length a) k = length (a @ encode_runes (take k ys))"
proof (induction k arbitrary: a ys)
  case (Suc k)
  show ?case
  proof (cases ys)
    case (Cons r rs)
    then have "DecodeRune (encode_runes ys) = (r, length (EncodeRune r))"
      using Suc.prems DecodeRune_EncodeRune by simp
    then show ?thesis using Suc.IH [of rs "a @ EncodeRune r"] Suc.prems by (simp add: Cons)
  qed simp
qed simp

lemma drop_encode: "drop (length (encode_runes (take k rs))) (encode_runes rs) = encode_runes (drop k rs)"
  by (metis append_take_drop_id append_eq_conv_conj encode_runes_simps(3))

lemma take_encode: "take (length (encode_runes (take k rs))) (encode_runes rs) = encode_runes (take k rs)"
  by (metis append_take_drop_id append_eq_conv_conj encode_runes_simps(3))

lemma lastNRunes_valid:
  assumes "valid_utf8 s"
  shows "lastNRunes s n = encode_runes (drop (RuneCount s - nat n) (runes s))"
proof -
  let ?rs = "runes s"
  have s: "s = encode_runes ?rs" using assms by (simp add: valid_utf8_def)
  have "walk_back s (length s) (nat n) = length (encode_runes (take (length ?rs - nat n) ?rs))"
    using walk_back_runes [of ?rs "[]" "nat n"] s by simp
  then have "drop (walk_back s (length s) (nat n)) s = encode_runes (drop (length ?rs - nat n) ?rs)"
    using s drop_encode by metis
  then show ?thesis by (auto simp: lastNRunes_def RuneCount_def)
qed

lemma firstNRunes_valid:
  assumes "valid_utf8 s"
  shows "firstNRunes s n = encode_runes (take (nat n) (runes s))"
proof -
  let ?rs = "runes s"
  have s: "s = encode_runes ?rs" using assms by (simp add: valid_utf8_def)
  have "walk s 0 (nat n) = length (encode_runes (take (nat n) ?rs))"
    using walk_runes [of ?rs "[]" "nat n"] s runes_valid by simp
  then have "take (walk s 0 (nat n)) s = encode_runes (take (nat n) ?rs)"
    using s take_encode by metis
  then show ?thesis by (auto simp: firstNRunes_def)
qed

lemma gap_loop_runes:
  "\<forall>r \<in> set ys. valid_rune r \<Longrightarrow>
   gap_loop (a @ encode_runes ys @ b) (length a) (length (a @ encode_runes ys)) k = min k (length ys)"
proof (induction k arbitrary: a ys)
  case (Suc k)
  show ?case
  proof (cases ys)
    case (Cons r rs)
    then have "DecodeRune (encode_runes ys @ b) = (r, length (EncodeRune r))"
      using Suc.prems DecodeRune_EncodeRune by simp
    then show ?thesis using Suc.IH [of rs "a @ EncodeRune r"] Suc.prems by (simp add: Cons)
  qed simp
qed simp

text \<open>
  On well-formed text the byte-level walks of the detectors are rune windows: \<^verbatim>\<open>lastNRunes\<close> and
  \<^verbatim>\<open>firstNRunes\<close> give the last and the first \<^verbatim>\<open>n\<close> runes (the whole text if it has fewer), byte for byte, and
  \<^verbatim>\<open>gapRunes\<close> counts the runes between two rune boundaries, up to its cap of four.
\<close>

lemma rune_walks_correct:
  assumes "valid_utf8 a" and "valid_utf8 s" and "valid_utf8 b"
  shows "lastNRunes s n = encode_runes (drop (RuneCount s - nat n) (runes s)) \<and>
    firstNRunes s n = encode_runes (take (nat n) (runes s)) \<and>
    gapRunes (a @ s @ b) (length a) (length a + length s) = min 4 (RuneCount s)"
proof -
  have s: "s = encode_runes (runes s)" using assms(2) by (simp add: valid_utf8_def)
  then have "gap_loop (a @ s @ b) (length a) (length a + length s) 4 = min 4 (RuneCount s)"
    using gap_loop_runes [of "runes s" a b 4] runes_valid by (simp add: RuneCount_def)
  moreover have "RuneCount s = 0 \<longleftrightarrow> s = []" by (simp add: RuneCount_def)
  ultimately show ?thesis
    using assms by (auto simp: lastNRunes_valid firstNRunes_valid gapRunes_def)
qed

lemma rune_walks_correct_witness:
  "lastNRunes (encode_runes [0x434, 0x43e, 0x43c]) 2 = encode_runes [0x43e, 0x43c] \<and>
   firstNRunes (encode_runes [0x434, 0x43e, 0x43c]) 1 = encode_runes [0x434] \<and>
   gapRunes (encode_runes [0x434, 0x43e, 0x43c]) 0 6 = 3"
proof -
  have v: "valid_utf8 (encode_runes [0x434, 0x43e, 0x43c])" "valid_utf8 ''''"
    by (intro valid_utf8_encode) (simp_all add: valid_rune_def valid_utf8_def)
  have r: "runes (encode_runes [0x434, 0x43e, 0x43c]) = [0x434, 0x43e, 0x43c]"
    by (intro runes_encode) (simp add: valid_rune_def)
  have l: "length (encode_runes [0x434, 0x43e, 0x43c]) = 6" by (simp add: EncodeRune_def)
  show ?thesis
    using rune_walks_correct [OF v(2,1,2), of 2] rune_walks_correct [OF v(2,1,2), of 1] r
    by (simp add: RuneCount_def l del: encode_runes_simps)
qed

end
