(* ===== verification/Resolve.thy ===== *)
theory Resolve
  imports Pii
begin

text \<open>
  Overlap resolution (\<^verbatim>\<open>internal/pii/resolve.go\<close>): spans are sorted by start, longer first, and
  swept once; a span that overlaps the last kept one either replaces it or is dropped.
\<close>

definition span_less :: "Span \<Rightarrow> Span \<Rightarrow> bool" where
  "span_less a b =
     (if sp_Start a \<noteq> sp_Start b then sp_Start a < sp_Start b else sp_End b < sp_End a)"

definition better :: "Span \<Rightarrow> Span \<Rightarrow> bool" where
  "better a b =
     (if sp_Confidence a \<noteq> sp_Confidence b then sp_Confidence a > sp_Confidence b
      else sp_End a - sp_Start a > sp_End b - sp_Start b)"

text \<open>The sweep; \<open>out\<close> is the result so far with its last element at the head.\<close>

fun resolve_loop :: "Span list \<Rightarrow> Span list \<Rightarrow> Span list" where
  "resolve_loop out [] = rev out"
| "resolve_loop [] (s # ss) = resolve_loop [s] ss"
| "resolve_loop (l # out) (s # ss) =
     (if sp_Start s \<ge> sp_End l then resolve_loop (s # l # out) ss
      else if better s l then resolve_loop (s # out) ss
      else resolve_loop (l # out) ss)"

definition Resolve :: "runtime \<Rightarrow> Span list \<Rightarrow> Span list" where
  "Resolve rt spans =
     (if spans = [] then [] else resolve_loop [] (sort_slice (sort_perm rt) span_less spans))"

lemma span_less_strict_weak: "strict_weak span_less"
  unfolding span_less_def by (rule strict_weak_lex)

lemma better_asym: "better a b \<Longrightarrow> \<not> better b a"
  by (auto simp: better_def split: if_splits)

abbreviation before :: "Span \<Rightarrow> Span \<Rightarrow> bool" where
  "before a b \<equiv> sp_End a \<le> sp_Start b"

text \<open>The input of the sweep: starts do not decrease.\<close>

abbreviation by_start :: "Span list \<Rightarrow> bool" where
  "by_start ss \<equiv> sorted_wrt (\<lambda>a b. sp_Start a \<le> sp_Start b) ss"

subsection \<open>The sweep\<close>

lemma resolve_loop_set: "set (resolve_loop out ss) \<subseteq> set out \<union> set ss"
  by (induction out ss rule: resolve_loop.induct) auto

lemma resolve_loop_disjoint:
  assumes "sorted_wrt before (rev out)" and "\<forall>s \<in> set out \<union> set ss. sp_Start s \<le> sp_End s"
    and "by_start ss" and "\<forall>s \<in> set ss. \<forall>p \<in> set out. sp_Start p \<le> sp_Start s"
  shows "sorted_wrt before (resolve_loop out ss)"
  using assms
proof (induction out ss rule: resolve_loop.induct)
  case (3 l out s ss)
  show ?case
  proof (cases "sp_End l \<le> sp_Start s")
    case True
    have "sp_End p \<le> sp_Start s" if "p \<in> set out" for p
      using that 3(4,5,7) True by (auto simp: sorted_wrt_append intro: order_trans less_imp_le)
    then show ?thesis using True 3 by (simp add: sorted_wrt_append)
  next
    case False
    then show ?thesis using 3
      by (auto simp: sorted_wrt_append intro: order_trans)
  qed
qed auto

text \<open>One of the spans starts inside the other. For spans that are not empty this is their overlap.\<close>

definition meets :: "Span \<Rightarrow> Span \<Rightarrow> bool" where
  "meets a b \<longleftrightarrow>
     (sp_Start a \<le> sp_Start b \<and> sp_Start b < sp_End a) \<or> (sp_Start b \<le> sp_Start a \<and> sp_Start a < sp_End b)"

lemma meets_overlap:
  "meets a b \<Longrightarrow> sp_Start a < sp_End a \<Longrightarrow> sp_Start b < sp_End b \<Longrightarrow> overlap a b"
  by (auto simp: meets_def overlap_def)

lemma resolve_loop_justified:
  assumes "by_start ss" and "\<forall>s \<in> set ss. \<forall>p \<in> set out. sp_Start p \<le> sp_Start s"
    and "x \<in> set out \<union> set ss"
  shows "x \<in> set (resolve_loop out ss) \<or>
         (\<exists>y \<in> set out \<union> set ss. meets x y \<and> \<not> better x y)"
  using assms
proof (induction out ss rule: resolve_loop.induct)
  case (3 l out s ss)
  have le: "sp_Start l \<le> sp_Start s" using 3(5) by simp
  show ?case
  proof (cases "sp_End l \<le> sp_Start s")
    case True
    then show ?thesis using 3 by auto
  next
    case F: False
    have mt: "meets s l" "meets l s" using F le by (auto simp: meets_def)
    show ?thesis
    proof (cases "better s l")
      case True
      show ?thesis
      proof (cases "x = l")
        case True
        with mt \<open>better s l\<close> show ?thesis using better_asym by auto
      next
        case False
        have "x \<in> set (resolve_loop (s # out) ss) \<or>
              (\<exists>y \<in> set (s # out) \<union> set ss. meets x y \<and> \<not> better x y)"
          using 3 F True False by (intro "3.IH"(2)) auto
        then show ?thesis using F True by auto
      qed
    next
      case False
      show ?thesis
      proof (cases "x = s")
        case True
        with mt False show ?thesis by auto
      next
        case ne: False
        have "x \<in> set (resolve_loop (l # out) ss) \<or>
              (\<exists>y \<in> set (l # out) \<union> set ss. meets x y \<and> \<not> better x y)"
          using 3 F False ne by (intro "3.IH"(3)) auto
        then show ?thesis using F False by auto
      qed
    qed
  qed
qed auto

lemma resolve_loop_id:
  assumes "sorted_wrt before (rev out @ ss)"
  shows "resolve_loop out ss = rev out @ ss"
  using assms
  by (induction out ss rule: resolve_loop.induct) (auto simp: sorted_wrt_append)

subsection \<open>Resolve\<close>

context go_runtime
begin

lemma sorted_spans_by_start: "by_start (sort_slice (sort_perm rt) span_less spans)"
  by (rule sorted_wrt_mono_rel [OF _ sort_slice_sorted [OF span_less_strict_weak]])
     (auto simp: span_less_def split: if_splits)

lemma sorted_spans_set: "set (sort_slice (sort_perm rt) span_less spans) = set spans"
  by (rule sort_slice_set [OF span_less_strict_weak])

lemma Resolve_set: "set (Resolve rt spans) \<subseteq> set spans"
  using resolve_loop_set [of "[]" "sort_slice (sort_perm rt) span_less spans"]
  by (auto simp: Resolve_def sorted_spans_set)

lemma Resolve_before:
  assumes "\<forall>s \<in> set spans. sp_Start s \<le> sp_End s"
  shows "sorted_wrt before (Resolve rt spans)"
  unfolding Resolve_def using assms sorted_spans_by_start
  by (auto intro!: resolve_loop_disjoint simp: sorted_spans_set)

lemma Resolve_drop_meets:
  assumes "x \<in> set spans"
  shows "x \<in> set (Resolve rt spans) \<or> (\<exists>y \<in> set spans. meets x y \<and> \<not> better x y)"
  using resolve_loop_justified [of "sort_slice (sort_perm rt) span_less spans" "[]" x]
    assms sorted_spans_by_start [of spans]
  by (auto simp: Resolve_def sorted_spans_set)

lemma Resolve_drop:
  assumes "\<forall>s \<in> set spans. sp_Start s < sp_End s" and "x \<in> set spans"
  shows "x \<in> set (Resolve rt spans) \<or> (\<exists>y \<in> set spans. overlap x y \<and> \<not> better x y)"
  using Resolve_drop_meets [OF assms(2)] meets_overlap assms by blast

lemma Resolve_fixed:
  assumes "\<forall>s \<in> set spans. sp_Start s < sp_End s" and "sorted_wrt before spans"
  shows "Resolve rt spans = spans"
proof -
  have "sorted_wrt span_less spans"
    by (rule sorted_wrt_mono_rel [OF _ assms(2)]) (use assms(1) in \<open>fastforce simp: span_less_def\<close>)
  then have "sort_slice (sort_perm rt) span_less spans = spans"
    by (rule sort_slice_id [OF span_less_strict_weak])
  then show ?thesis using resolve_loop_id [of "[]" spans] assms(2) by (simp add: Resolve_def)
qed

end

text \<open>
  C11. Whatever order \<^verbatim>\<open>sort.Slice\<close> gives to equal elements, \<^verbatim>\<open>Resolve\<close> returns spans of its input
  that are sorted and pairwise disjoint: each kept span ends before the next one starts.
\<close>

theorem Resolve_sorted_disjoint:
  assumes "go_runtime rt" and "\<forall>s \<in> set spans. sp_Start s < sp_End s"
  shows "set (Resolve rt spans) \<subseteq> set spans \<and>
         sorted_wrt (\<lambda>a b. sp_End a \<le> sp_Start b) (Resolve rt spans)"
  using go_runtime.Resolve_set [OF assms(1)] go_runtime.Resolve_before [OF assms(1), of spans] assms(2) by fastforce

definition demo_span :: "int \<Rightarrow> int \<Rightarrow> rat \<Rightarrow> Span" where
  "demo_span a b c =
     \<lparr> sp_Start = a, sp_End = b, sp_Category = CatPhone, sp_Detector = ''d'', sp_Confidence = c \<rparr>"

theorem Resolve_sorted_disjoint_witness:
  "go_runtime ru_runtime \<and>
   (let spans = [demo_span 4 9 (1/2), demo_span 0 5 (9/10), demo_span 9 12 (1/2)] in
    (\<forall>s \<in> set spans. sp_Start s < sp_End s) \<and>
    Resolve ru_runtime spans = [demo_span 0 5 (9/10), demo_span 9 12 (1/2)] \<and>
    sorted_wrt (\<lambda>a b. sp_End a \<le> sp_Start b) (Resolve ru_runtime spans))"
proof -
  let ?spans = "[demo_span 4 9 (1/2), demo_span 0 5 (9/10), demo_span 9 12 (1/2)]"
  have wf: "\<forall>s \<in> set ?spans. sp_Start s < sp_End s" by (simp add: demo_span_def)
  have r: "Resolve ru_runtime ?spans = [demo_span 0 5 (9/10), demo_span 9 12 (1/2)]"
    by (simp add: Resolve_def sort_slice_def insertion_sort_def span_less_def better_def
        demo_span_def upt_rec)
  show ?thesis
    using wf r ru.go_runtime_axioms Resolve_sorted_disjoint [OF ru.go_runtime_axioms wf]
    by (simp add: Let_def)
qed

text \<open>
  Nothing is dropped without a reason: a span of the input that is missing from the result
  overlaps an input span that is at least as good (higher confidence, or equal confidence and
  at least as long).
\<close>

lemma Resolve_drops_justified:
  assumes "go_runtime rt" and "\<forall>s \<in> set spans. sp_Start s < sp_End s"
    and "x \<in> set spans" and "x \<notin> set (Resolve rt spans)"
  shows "\<exists>y \<in> set spans. overlap x y \<and> \<not> better x y"
  using go_runtime.Resolve_drop [OF assms(1-3)] assms(4) by blast

theorem Resolve_drops_justified_witness:
  "\<exists>y \<in> set [demo_span 4 9 (1/2), demo_span 0 5 (9/10)].
     overlap (demo_span 4 9 (1/2)) y \<and> \<not> better (demo_span 4 9 (1/2)) y"
proof (rule Resolve_drops_justified [OF ru.go_runtime_axioms])
  show "\<forall>s \<in> set [demo_span 4 9 (1/2), demo_span 0 5 (9/10)]. sp_Start s < sp_End s"
    by (simp add: demo_span_def)
  show "demo_span 4 9 (1/2) \<in> set [demo_span 4 9 (1/2), demo_span 0 5 (9/10)]" by simp
  show "demo_span 4 9 (1/2) \<notin> set (Resolve ru_runtime [demo_span 4 9 (1/2), demo_span 0 5 (9/10)])"
    by (simp add: Resolve_def sort_slice_def insertion_sort_def span_less_def better_def
        demo_span_def upt_rec)
qed

text \<open>
  Resolving twice is resolving once, so the second pass over merged windows in
  \<^verbatim>\<open>detectWindowed\<close> leaves an already resolved list alone.
\<close>

lemma Resolve_idempotent:
  assumes "go_runtime rt" and "\<forall>s \<in> set spans. sp_Start s < sp_End s"
  shows "Resolve rt (Resolve rt spans) = Resolve rt spans"
  using go_runtime.Resolve_fixed [OF assms(1)] go_runtime.Resolve_before [OF assms(1), of spans]
    go_runtime.Resolve_set [OF assms(1), of spans] assms(2) by (meson less_imp_le subsetD)

theorem Resolve_idempotent_witness:
  "Resolve ru_runtime (Resolve ru_runtime [demo_span 4 9 (1/2), demo_span 0 5 (9/10)]) =
   Resolve ru_runtime [demo_span 4 9 (1/2), demo_span 0 5 (9/10)]"
  by (rule Resolve_idempotent [OF ru.go_runtime_axioms]) (simp add: demo_span_def)

text \<open>
  The sweep compares a span only with the last kept one, so a span that lost to a span that
  is itself replaced later stays dropped although nothing in the result overlaps it: the text
  of the middle span below is left unmasked.
\<close>

lemma Resolve_drops_isolated_span:
  "Resolve ru_runtime [demo_span 0 10 (1/2), demo_span 1 3 (2/5), demo_span 9 20 (9/10)] =
     [demo_span 9 20 (9/10)] \<and>
   \<not> overlap (demo_span 1 3 (2/5)) (demo_span 9 20 (9/10))"
  by (simp add: Resolve_def sort_slice_def insertion_sort_def span_less_def better_def
      demo_span_def upt_rec overlap_def)

end
