(* ===== verification/Pipeline.thy ===== *)
theory Pipeline
  imports Resolve "HOL-Library.Monad_Syntax"
begin

text \<open>
  The detection pipeline (\<^verbatim>\<open>internal/pii/pipeline.go\<close>): running the detectors, resolving their spans
  and reclassifying dates by the words around them. Detectors are arguments of the model. A
  result \<^term>\<open>None\<close> is a Go panic (an index or a slice out of range), or, in \<open>last_kw_loop\<close>, a search
  that does not end.
\<close>

subsection \<open>Keywords\<close>

definition nonPassportContexts :: "string list" where
  "nonPassportContexts =
    [encode_runes [0x432, 0x2f, 0x443] \<comment> \<open>v/u\<close>,
     encode_runes [0x432, 0x43e, 0x434, 0x438, 0x442, 0x435, 0x43b, 0x44c, 0x441, 0x43a] \<comment> \<open>voditelsk\<close>,
     encode_runes [0x432, 0x438, 0x434, 0x20, 0x43d, 0x430, 0x20, 0x436, 0x438, 0x442, 0x435, 0x43b, 0x44c, 0x441, 0x442, 0x432, 0x43e] \<comment> \<open>vid na zhitelstvo\<close>,
     encode_runes [0x432, 0x43d, 0x436] \<comment> \<open>vnzh\<close>,
     encode_runes [0x434, 0x43e, 0x432, 0x435, 0x440, 0x435, 0x43d, 0x43d, 0x43e, 0x441, 0x442, 0x44c] \<comment> \<open>doverennost\<close>,
     encode_runes [0x441, 0x43f, 0x440, 0x430, 0x432, 0x43a, 0x430] \<comment> \<open>spravka\<close>,
     encode_runes [0x434, 0x435, 0x439, 0x441, 0x442, 0x432, 0x438, 0x442, 0x435, 0x43b, 0x44c, 0x43d] \<comment> \<open>deystviteln\<close>,
     encode_runes [0x431, 0x438, 0x43b, 0x435, 0x442] \<comment> \<open>bilet\<close>,
     encode_runes [0x43f, 0x43e, 0x43b, 0x438, 0x441] \<comment> \<open>polis\<close>,
     encode_runes [0x441, 0x435, 0x440, 0x442, 0x438, 0x444, 0x438, 0x43a, 0x430, 0x442] \<comment> \<open>sertifikat\<close>,
     encode_runes [0x43b, 0x438, 0x446, 0x435, 0x43d, 0x437, 0x438, 0x44f] \<comment> \<open>litsenziya\<close>]"

definition nonPassportWordContexts :: "string list" where
  "nonPassportWordContexts =
    [encode_runes [0x432, 0x443] \<comment> \<open>vu\<close>]"

definition issueContexts :: "string list" where
  "issueContexts =
    [encode_runes [0x432, 0x44b, 0x434, 0x430, 0x43d] \<comment> \<open>vydan\<close>,
     encode_runes [0x432, 0x44b, 0x434, 0x430, 0x43d, 0x43e] \<comment> \<open>vydano\<close>,
     encode_runes [0x432, 0x44b, 0x434, 0x430, 0x43b, 0x438] \<comment> \<open>vydali\<close>,
     encode_runes [0x432, 0x44b, 0x434, 0x430, 0x43b] \<comment> \<open>vydal\<close>,
     encode_runes [0x432, 0x44b, 0x434, 0x430, 0x43b, 0x430] \<comment> \<open>vydala\<close>,
     encode_runes [0x434, 0x430, 0x442, 0x430, 0x20, 0x432, 0x44b, 0x434, 0x430, 0x447, 0x438] \<comment> \<open>data vydachi\<close>,
     encode_runes [0x434, 0x430, 0x442, 0x443, 0x20, 0x432, 0x44b, 0x434, 0x430, 0x447, 0x438] \<comment> \<open>datu vydachi\<close>,
     encode_runes [0x43f, 0x43e, 0x43b, 0x443, 0x447, 0x430, 0x43b] \<comment> \<open>poluchal\<close>,
     encode_runes [0x43f, 0x43e, 0x43b, 0x443, 0x447, 0x430, 0x43b, 0x430] \<comment> \<open>poluchala\<close>,
     encode_runes [0x43f, 0x43e, 0x43b, 0x443, 0x447, 0x438, 0x43b] \<comment> \<open>poluchil\<close>,
     encode_runes [0x43f, 0x43e, 0x43b, 0x443, 0x447, 0x438, 0x43b, 0x430] \<comment> \<open>poluchila\<close>,
     encode_runes [0x43f, 0x43e, 0x43b, 0x443, 0x447, 0x435, 0x43d] \<comment> \<open>poluchen\<close>,
     encode_runes [0x43f, 0x43e, 0x43c, 0x435, 0x43d, 0x44f, 0x43b] \<comment> \<open>pomenyal\<close>,
     encode_runes [0x43f, 0x43e, 0x43c, 0x435, 0x43d, 0x44f, 0x43b, 0x430] \<comment> \<open>pomenyala\<close>,
     ''doc_issue'',
     ''issue'']"

definition BirthContexts :: "string list" where
  "BirthContexts =
    [encode_runes [0x440, 0x43e, 0x434, 0x438, 0x43b, 0x441, 0x44f] \<comment> \<open>rodilsya\<close>,
     encode_runes [0x440, 0x43e, 0x434, 0x438, 0x43b, 0x430, 0x441, 0x44c] \<comment> \<open>rodilas\<close>,
     encode_runes [0x440, 0x43e, 0x434, 0x438, 0x43b, 0x441, 0x44f] \<comment> \<open>rodilsya\<close>,
     encode_runes [0x440, 0x43e, 0x434, 0x438, 0x43b, 0x438, 0x441, 0x44c] \<comment> \<open>rodilis\<close>,
     encode_runes [0x440, 0x43e, 0x434, 0x438, 0x43b] \<comment> \<open>rodil\<close>,
     encode_runes [0x440, 0x43e, 0x436, 0x434, 0x435, 0x43d] \<comment> \<open>rozhden\<close>,
     encode_runes [0x440, 0x43e, 0x436, 0x434, 0x451, 0x43d] \<comment> \<open>rozhdyon\<close>,
     encode_runes [0x434, 0x430, 0x442, 0x430, 0x20, 0x440, 0x43e, 0x436, 0x434, 0x435, 0x43d, 0x438, 0x44f] \<comment> \<open>data rozhdeniya\<close>,
     encode_runes [0x434, 0x430, 0x442, 0x443, 0x20, 0x440, 0x43e, 0x436, 0x434, 0x435, 0x43d, 0x438, 0x44f] \<comment> \<open>datu rozhdeniya\<close>,
     encode_runes [0x443, 0x440, 0x43e, 0x436, 0x435, 0x43d, 0x435, 0x446] \<comment> \<open>urozhenets\<close>,
     encode_runes [0x443, 0x440, 0x43e, 0x436, 0x435, 0x43d, 0x43a, 0x430] \<comment> \<open>urozhenka\<close>,
     encode_runes [0x433, 0x2e, 0x440, 0x2e] \<comment> \<open>g.r.\<close>,
     encode_runes [0x433, 0x2e, 0x20, 0x440, 0x2e] \<comment> \<open>g. r.\<close>,
     encode_runes [0x434, 0x2e, 0x440, 0x2e] \<comment> \<open>d.r.\<close>,
     encode_runes [0x434, 0x440] \<comment> \<open>dr\<close>,
     encode_runes [0x440, 0x43e, 0x434, 0x2e] \<comment> \<open>rod.\<close>,
     encode_runes [0x440, 0x43e, 0x434] \<comment> \<open>rod\<close>,
     encode_runes [0x440, 0x43e, 0x436, 0x434, 0x2e] \<comment> \<open>rozhd.\<close>,
     encode_runes [0x440, 0x43e, 0x436, 0x434] \<comment> \<open>rozhd\<close>,
     ''birth'',
     ''dob'',
     ''born'']"

definition issueRightContexts :: "string list" where
  "issueRightContexts =
    [encode_runes [0x43a, 0x43e, 0x434, 0x20, 0x43f, 0x43e, 0x434, 0x440, 0x430, 0x437, 0x434, 0x435, 0x43b, 0x435, 0x43d, 0x438, 0x44f] \<comment> \<open>kod podrazdeleniya\<close>,
     encode_runes [0x43a, 0x2f, 0x43f] \<comment> \<open>k/p\<close>,
     encode_runes [0x43a, 0x43e, 0x434, 0x20, 0x43f, 0x43e, 0x434, 0x440] \<comment> \<open>kod podr\<close>]"

definition birthHeader :: string where
  "birthHeader = encode_runes [0x434, 0x430, 0x442, 0x430, 0x20, 0x440, 0x43e, 0x436, 0x434, 0x435, 0x43d, 0x438, 0x44f] \<comment> \<open>data rozhdeniya\<close>"

subsection \<open>Windows of runes\<close>

text \<open>\<^verbatim>\<open>windowBefore\<close> and \<^verbatim>\<open>windowAfter\<close>: the loops find the border, \<open>k\<close> is the number of runes left to take.\<close>

fun window_start :: "string \<Rightarrow> int \<Rightarrow> nat \<Rightarrow> int option" where
  "window_start raw start 0 = Some start"
| "window_start raw start (Suc k) =
     (if 0 < start
      then do { p \<leftarrow> slice raw 0 start; window_start raw (start - int (snd (DecodeLastRune p))) k }
      else Some start)"

fun window_end :: "string \<Rightarrow> int \<Rightarrow> nat \<Rightarrow> int option" where
  "window_end raw e 0 = Some e"
| "window_end raw e (Suc k) =
     (if e < int (length raw)
      then do { p \<leftarrow> slice raw e (int (length raw)); window_end raw (e + int (snd (DecodeRune p))) k }
      else Some e)"

definition windowBefore :: "runtime \<Rightarrow> Text \<Rightarrow> int \<Rightarrow> int \<Rightarrow> string option" where
  "windowBefore rt t pos n =
     do { start \<leftarrow> window_start (Raw t) pos (nat n);
          w \<leftarrow> slice (Raw t) start pos;
          Some (ToLower rt w) }"

definition windowAfter :: "runtime \<Rightarrow> Text \<Rightarrow> int \<Rightarrow> int \<Rightarrow> string option" where
  "windowAfter rt t pos n =
     do { e \<leftarrow> window_end (Raw t) pos (nat n);
          w \<leftarrow> slice (Raw t) pos e;
          Some (ToLower rt w) }"

subsection \<open>Keyword searches\<close>

definition isLetterRune :: "rune \<Rightarrow> bool" where
  "isLetterRune r \<longleftrightarrow>
     (0x61 \<le> r \<and> r \<le> 0x7A) \<or> (0x41 \<le> r \<and> r \<le> 0x5A) \<or>
     (0x430 \<le> r \<and> r \<le> 0x44F) \<or> (0x410 \<le> r \<and> r \<le> 0x42F) \<or> r = 0x451 \<or> r = 0x401"

definition keywordAtBoundary :: "string \<Rightarrow> nat \<Rightarrow> nat \<Rightarrow> bool" where
  "keywordAtBoundary s start e \<longleftrightarrow>
     \<not> (0 < start \<and> isLetterRune (fst (DecodeLastRune (take start s)))) \<and>
     \<not> (e < length s \<and> isLetterRune (fst (DecodeRune (drop e s))))"

text \<open>The search of \<^verbatim>\<open>lastKeywordIndex\<close> in \<^verbatim>\<open>s[:searchFrom]\<close>; the result -1 is "not found".\<close>

partial_function (option) last_kw_loop :: "string \<Rightarrow> string \<Rightarrow> nat \<Rightarrow> int option" where
  "last_kw_loop s kw searchFrom =
     (case LastIndex (take searchFrom s) kw of
        None \<Rightarrow> Some (-1)
      | Some idx \<Rightarrow>
          if keywordAtBoundary s idx (idx + length kw) then Some (int idx)
          else last_kw_loop s kw idx)"

definition lastKeywordIndex :: "string \<Rightarrow> string \<Rightarrow> int option" where
  "lastKeywordIndex s kw = last_kw_loop s kw (length s)"

definition hasAnyContext :: "runtime \<Rightarrow> Text \<Rightarrow> int \<Rightarrow> int \<Rightarrow> string list \<Rightarrow> bool option" where
  "hasAnyContext rt t pos n keywords =
     do { window \<leftarrow> windowBefore rt t pos n; Some (list_ex (Contains window) keywords) }"

definition hasAnyContextAfter :: "runtime \<Rightarrow> Text \<Rightarrow> int \<Rightarrow> int \<Rightarrow> string list \<Rightarrow> bool option" where
  "hasAnyContextAfter rt t pos n keywords =
     do { window \<leftarrow> windowAfter rt t pos n; Some (list_ex (Contains window) keywords) }"

fun any_keyword :: "string \<Rightarrow> string list \<Rightarrow> bool option" where
  "any_keyword window [] = Some False"
| "any_keyword window (kw # kws) =
     do { idx \<leftarrow> lastKeywordIndex window kw; if 0 \<le> idx then Some True else any_keyword window kws }"

definition hasWordContext :: "runtime \<Rightarrow> Text \<Rightarrow> int \<Rightarrow> int \<Rightarrow> string list \<Rightarrow> bool option" where
  "hasWordContext rt t pos n keywords =
     do { window \<leftarrow> windowBefore rt t pos n; any_keyword window keywords }"

text \<open>\<^verbatim>\<open>nearestContext\<close>: the loop with its variable \<^verbatim>\<open>best\<close>, -1 until a keyword is found.\<close>

definition nearest_step :: "string \<Rightarrow> int \<Rightarrow> string \<Rightarrow> int" where
  "nearest_step window best kw =
     (case LastIndex window kw of
        None \<Rightarrow> best
      | Some idx \<Rightarrow>
          let d = int (RuneCount (drop idx window)) in if best < 0 \<or> d < best then d else best)"

definition nearestContext :: "runtime \<Rightarrow> Text \<Rightarrow> int \<Rightarrow> int \<Rightarrow> string list \<Rightarrow> int option" where
  "nearestContext rt t pos n keywords =
     do { window \<leftarrow> windowBefore rt t pos n; Some (foldl (nearest_step window) (-1) keywords) }"

subsection \<open>Reclassification\<close>

definition isPassportDate :: "runtime \<Rightarrow> Text \<Rightarrow> Span \<Rightarrow> bool option" where
  "isPassportDate rt t s =
     do { other \<leftarrow> hasAnyContext rt t (sp_Start s) 160 nonPassportContexts;
          if other then Some False
          else do { word \<leftarrow> hasWordContext rt t (sp_Start s) 160 nonPassportWordContexts;
          if word then Some False
          else do { issueLeft \<leftarrow> hasAnyContext rt t (sp_Start s) 160 issueContexts;
          issueRight \<leftarrow> hasAnyContextAfter rt t (sp_End s) 40 issueRightContexts;
          if \<not> issueLeft \<and> \<not> issueRight then Some False
          else do { birthDist \<leftarrow> nearestContext rt t (sp_Start s) 160 BirthContexts;
          passDist \<leftarrow> nearestContext rt t (sp_Start s) 160 issueContexts;
          Some (\<not> (0 \<le> birthDist \<and> (passDist < 0 \<or> birthDist < passDist))) } } } }"

function line_start :: "string \<Rightarrow> int \<Rightarrow> int option" where
  "line_start raw i =
     (if 0 < i
      then do { c \<leftarrow> byte_at raw (i - 1); if c \<noteq> CHR 0x0A then line_start raw (i - 1) else Some i }
      else Some i)"
  by pat_completeness auto
termination
  by (relation "measure (\<lambda>(raw, i). nat i)") auto

function line_end :: "string \<Rightarrow> int \<Rightarrow> int option" where
  "line_end raw i =
     (if i < int (length raw)
      then do { c \<leftarrow> byte_at raw i; if c \<noteq> CHR 0x0A then line_end raw (i + 1) else Some i }
      else Some i)"
  by pat_completeness auto
termination
  by (relation "measure (\<lambda>(raw, i). nat (int (length raw) - i))") auto

declare line_start.simps [simp del] line_end.simps [simp del]

definition isTableBirthDate :: "runtime \<Rightarrow> Text \<Rightarrow> Span \<Rightarrow> bool option" where
  "isTableBirthDate rt t s =
     do { lineStart \<leftarrow> line_start (Raw t) (sp_Start s);
          lineEnd \<leftarrow> line_end (Raw t) (sp_End s);
          line \<leftarrow> slice (Raw t) lineStart lineEnd;
          if \<not> Contains line [CHR 0x09] then Some False
          else do { window \<leftarrow> windowBefore rt t (sp_Start s) 200; Some (Contains window birthHeader) } }"

definition followsPassportIssuer :: "Span list \<Rightarrow> Span \<Rightarrow> bool" where
  "followsPassportIssuer spans s \<longleftrightarrow>
     list_ex (\<lambda>j. sp_Category j = CatPassportIssuer \<and> sp_Start s \<ge> sp_Start j \<and>
       sp_Start s - sp_End j \<le> 3) spans"

text \<open>\<^verbatim>\<open>reclassifySpan\<close> updates element \<^term>\<open>i\<close> of the slice in place.\<close>

definition set_cat :: "Span list \<Rightarrow> nat \<Rightarrow> category \<Rightarrow> Span list" where
  "set_cat spans i c = spans[i := (spans ! i)\<lparr> sp_Category := c \<rparr>]"

definition reclassifySpan :: "runtime \<Rightarrow> Span list \<Rightarrow> nat \<Rightarrow> Text \<Rightarrow> Span list option" where
  "reclassifySpan rt spans i t =
     (if sp_Category (spans ! i) \<noteq> CatDate \<and> sp_Category (spans ! i) \<noteq> CatBirthDate then Some spans
      else do { p \<leftarrow> isPassportDate rt t (spans ! i);
        if p then Some (set_cat spans i CatPassportDate)
        else if sp_Category (spans ! i) \<noteq> CatDate then Some spans
        else do { b \<leftarrow> isTableBirthDate rt t (spans ! i);
          if b then Some (set_cat spans i CatBirthDate)
          else if followsPassportIssuer spans (spans ! i) then Some (set_cat spans i CatPassportDate)
          else Some spans } })"

fun post_loop :: "runtime \<Rightarrow> Text \<Rightarrow> nat list \<Rightarrow> Span list \<Rightarrow> Span list option" where
  "post_loop rt t [] spans = Some spans"
| "post_loop rt t (i # ns) spans = do { spans' \<leftarrow> reclassifySpan rt spans i t; post_loop rt t ns spans' }"

definition postProcess :: "runtime \<Rightarrow> Span list \<Rightarrow> Text \<Rightarrow> Span list option" where
  "postProcess rt spans t = post_loop rt t [0..<length spans] spans"

subsection \<open>The pipeline\<close>

record Pipeline =
  pl_detectors :: "detector list"

definition NewPipeline :: "detector list \<Rightarrow> Pipeline" where
  "NewPipeline ds = \<lparr> pl_detectors = ds \<rparr>"

definition detect_with :: "detector \<Rightarrow> Text \<Rightarrow> Span list" where
  "detect_with d t = (case det_DetectLower d of Some f \<Rightarrow> f t | None \<Rightarrow> det_Detect d (Raw t))"

record Result =
  Spans :: "Span list"

definition Run :: "runtime \<Rightarrow> Pipeline \<Rightarrow> string \<Rightarrow> Result option" where
  "Run rt p text =
     (let t = \<lparr> Raw = text, Lower = ToLower rt text \<rparr>;
          spans = concat (map (\<lambda>d. detect_with d t) (pl_detectors p))
      in do { ss \<leftarrow> postProcess rt (Resolve rt spans) t; Some \<lparr> Spans = ss \<rparr> })"

subsection \<open>Windows\<close>

lemma window_start_total:
  "0 \<le> pos \<Longrightarrow> pos \<le> int (length raw) \<Longrightarrow>
     \<exists>st. window_start raw pos k = Some st \<and> 0 \<le> st \<and> st \<le> pos"
proof (induction k arbitrary: pos)
  case (Suc k)
  show ?case
  proof (cases "0 < pos")
    case True
    with Suc.prems have sl: "slice raw 0 pos = Some (take (nat pos) raw)" by (simp add: slice_def)
    have "take (nat pos) raw \<noteq> []" using True Suc.prems by auto
    from DecodeLastRune_bounds [OF this] have
      b: "int (snd (DecodeLastRune (take (nat pos) raw))) \<le> pos" using Suc.prems by auto
    then have "\<exists>st. window_start raw (pos - int (snd (DecodeLastRune (take (nat pos) raw)))) k = Some st \<and>
        0 \<le> st \<and> st \<le> pos - int (snd (DecodeLastRune (take (nat pos) raw)))"
      using Suc.prems by (intro Suc.IH) auto
    with True sl show ?thesis by auto
  qed (use Suc.prems in auto)
qed simp

lemma window_end_total:
  "0 \<le> pos \<Longrightarrow> pos \<le> int (length raw) \<Longrightarrow>
     \<exists>e. window_end raw pos k = Some e \<and> pos \<le> e \<and> e \<le> int (length raw)"
proof (induction k arbitrary: pos)
  case (Suc k)
  show ?case
  proof (cases "pos < int (length raw)")
    case True
    with Suc.prems have sl: "slice raw pos (int (length raw)) = Some (drop (nat pos) raw)"
      by (simp add: slice_def)
    have "int (snd (DecodeRune (drop (nat pos) raw))) \<le> int (length raw) - pos"
      using DecodeRune_size_le [of "drop (nat pos) raw"] True Suc.prems by auto
    then have "\<exists>e. window_end raw (pos + int (snd (DecodeRune (drop (nat pos) raw)))) k = Some e \<and>
        pos + int (snd (DecodeRune (drop (nat pos) raw))) \<le> e \<and> e \<le> int (length raw)"
      using Suc.prems by (intro Suc.IH) auto
    with True sl show ?thesis by auto
  qed (use Suc.prems in auto)
qed simp

abbreviation in_text :: "Text \<Rightarrow> int \<Rightarrow> bool" where
  "in_text t pos \<equiv> 0 \<le> pos \<and> pos \<le> int (length (Raw t))"

lemma windowBefore_total: "in_text t pos \<Longrightarrow> \<exists>w. windowBefore rt t pos n = Some w"
  using window_start_total [of pos "Raw t" "nat n"] by (auto simp: windowBefore_def slice_def)

lemma windowAfter_total: "in_text t pos \<Longrightarrow> \<exists>w. windowAfter rt t pos n = Some w"
  using window_end_total [of pos "Raw t" "nat n"] by (auto simp: windowAfter_def slice_def)

text \<open>On valid UTF-8 the windows are the last, respectively the first, runes.\<close>

lemma window_start_runes:
  assumes "\<forall>r \<in> set rs. valid_rune r"
  shows "window_start (encode_runes rs @ rest) (int (length (encode_runes rs))) k =
    Some (int (length (encode_runes (take (length rs - k) rs))))"
  using assms
proof (induction k arbitrary: rs rest)
  case (Suc k)
  show ?case
  proof (cases rs rule: rev_cases)
    case (snoc qs r)
    have sl: "slice (encode_runes rs @ rest) 0 (int (length (encode_runes rs))) = Some (encode_runes rs)"
      by (simp add: slice_def)
    have "DecodeLastRune (encode_runes rs) = (r, length (EncodeRune r))"
      using Suc.prems DecodeLastRune_EncodeRune [of r "encode_runes qs"] by (simp add: snoc)
    then show ?thesis
      using sl Suc.IH [of qs "EncodeRune r @ rest"] Suc.prems EncodeRune_length [of r]
      by (simp add: snoc)
  qed simp
qed simp

lemma window_end_runes:
  assumes "\<forall>r \<in> set rs. valid_rune r"
  shows "window_end (p @ encode_runes rs) (int (length p)) k =
    Some (int (length p + length (encode_runes (take k rs))))"
  using assms
proof (induction k arbitrary: rs p)
  case (Suc k)
  show ?case
  proof (cases rs)
    case (Cons r qs)
    have sl: "slice (p @ encode_runes rs) (int (length p)) (int (length (p @ encode_runes rs))) =
        Some (encode_runes rs)"
      by (simp add: slice_def)
    have "DecodeRune (encode_runes rs) = (r, length (EncodeRune r))"
      using Suc.prems DecodeRune_EncodeRune [of r "encode_runes qs"] by (simp add: Cons)
    then show ?thesis
      using sl Suc.IH [of qs "p @ EncodeRune r"] Suc.prems EncodeRune_length [of r]
      by (simp add: Cons)
  qed simp
qed simp

lemma ToLower_encode:
  "\<forall>r \<in> set rs. valid_rune r \<Longrightarrow> ToLower rt (encode_runes rs) = encode_runes (map (uc_lower rt) rs)"
  by (simp add: ToLower_def runes_encode)

lemma window_before_runes:
  assumes "\<forall>r \<in> set (bs @ aft). valid_rune r" and "0 \<le> n"
  shows "windowBefore rt \<lparr> Raw = encode_runes (bs @ aft), Lower = low \<rparr> (int (length (encode_runes bs))) n =
    Some (encode_runes (map (uc_lower rt) (drop (length bs - nat n) bs)))"
proof -
  let ?m = "length bs - nat n"
  have b: "encode_runes bs = encode_runes (take ?m bs) @ encode_runes (drop ?m bs)"
    by (metis append_take_drop_id encode_runes_simps(3))
  have "slice (encode_runes (bs @ aft)) (int (length (encode_runes (take ?m bs))))
      (int (length (encode_runes bs))) = Some (encode_runes (drop ?m bs))"
    using slice_append_mid [of "encode_runes (take ?m bs)" "encode_runes (drop ?m bs)" "encode_runes aft"]
    by (simp add: b)
  then show ?thesis
    using assms window_start_runes [of bs "encode_runes aft" "nat n"] ToLower_encode [of "drop ?m bs" rt]
    by (auto simp: windowBefore_def dest: in_set_dropD)
qed

lemma window_after_runes:
  assumes "\<forall>r \<in> set (bs @ aft). valid_rune r" and "0 \<le> n"
  shows "windowAfter rt \<lparr> Raw = encode_runes (bs @ aft), Lower = low \<rparr> (int (length (encode_runes bs))) n =
    Some (encode_runes (map (uc_lower rt) (take (nat n) aft)))"
proof -
  have a: "encode_runes aft = encode_runes (take (nat n) aft) @ encode_runes (drop (nat n) aft)"
    by (metis append_take_drop_id encode_runes_simps(3))
  have "slice (encode_runes (bs @ aft)) (int (length (encode_runes bs)))
      (int (length (encode_runes bs) + length (encode_runes (take (nat n) aft)))) =
      Some (encode_runes (take (nat n) aft))"
    using slice_append_mid [of "encode_runes bs" "encode_runes (take (nat n) aft)" "encode_runes (drop (nat n) aft)"]
    by (simp add: a)
  then show ?thesis
    using assms window_end_runes [of aft "encode_runes bs" "nat n"] ToLower_encode [of "take (nat n) aft" rt]
    by (auto simp: windowAfter_def dest: in_set_takeD)
qed

subsection \<open>Keyword search\<close>

lemma last_kw_loop_total:
  assumes "kw \<noteq> []"
  shows "\<exists>i. last_kw_loop s kw n = Some i \<and> (0 \<le> i \<longrightarrow>
    occurs_at s kw (nat i) \<and> keywordAtBoundary s (nat i) (nat i + length kw))"
proof (induction n rule: less_induct)
  case (less n)
  show ?case
  proof (cases "LastIndex (take n s) kw")
    case (Some idx)
    then have occ: "occurs_at (take n s) kw idx" by (rule LastIndex_occurs)
    then have b: "idx + length kw \<le> length (take n s)" by (rule occurs_at_bound)
    have "occurs_at s kw idx" using occ b by (auto simp: occurs_at_def HasPrefix_def drop_take)
    moreover have "idx < n" using b assms by (cases kw) auto
    ultimately show ?thesis
      using Some less.IH [of idx] by (subst last_kw_loop.simps) auto
  qed (simp add: last_kw_loop.simps)
qed

lemma ex_Not [simp]: "Ex Not"
  by blast

lemma any_keyword_total: "[] \<notin> set kws \<Longrightarrow> \<exists>b. any_keyword w kws = Some b"
proof (induction kws)
  case (Cons kw kws)
  then obtain i where "lastKeywordIndex w kw = Some i"
    using last_kw_loop_total [of kw w "length w"] by (auto simp: lastKeywordIndex_def)
  with Cons show ?case by auto
qed simp

subsection \<open>The reclassification never panics\<close>

lemma hasAnyContext_total: "in_text t pos \<Longrightarrow> \<exists>b. hasAnyContext rt t pos n kws = Some b"
  using windowBefore_total [of pos t rt n] by (auto simp: hasAnyContext_def)

lemma hasAnyContextAfter_total: "in_text t pos \<Longrightarrow> \<exists>b. hasAnyContextAfter rt t pos n kws = Some b"
  using windowAfter_total [of pos t rt n] by (auto simp: hasAnyContextAfter_def)

lemma nearestContext_total: "in_text t pos \<Longrightarrow> \<exists>d. nearestContext rt t pos n kws = Some d"
  using windowBefore_total [of pos t rt n] by (auto simp: nearestContext_def)

lemma hasWordContext_total:
  "in_text t pos \<Longrightarrow> [] \<notin> set kws \<Longrightarrow> \<exists>b. hasWordContext rt t pos n kws = Some b"
  using windowBefore_total [of pos t rt n] any_keyword_total by (auto simp: hasWordContext_def)

lemma span_in_text:
  "span_in (length (Raw t)) s \<Longrightarrow> in_text t (sp_Start s) \<and> in_text t (sp_End s)"
  by (simp add: span_in_def)

lemma isPassportDate_total:
  assumes "span_in (length (Raw t)) s"
  shows "\<exists>b. isPassportDate rt t s = Some b"
proof -
  note r = span_in_text [OF assms]
  have "[] \<notin> set nonPassportWordContexts" by (simp add: nonPassportWordContexts_def)
  with r obtain a b c d e f where
    "hasAnyContext rt t (sp_Start s) 160 nonPassportContexts = Some a"
    "hasWordContext rt t (sp_Start s) 160 nonPassportWordContexts = Some b"
    "hasAnyContext rt t (sp_Start s) 160 issueContexts = Some c"
    "hasAnyContextAfter rt t (sp_End s) 40 issueRightContexts = Some d"
    "nearestContext rt t (sp_Start s) 160 BirthContexts = Some e"
    "nearestContext rt t (sp_Start s) 160 issueContexts = Some f"
    using hasAnyContext_total hasAnyContextAfter_total hasWordContext_total nearestContext_total by metis
  then show ?thesis by (simp add: isPassportDate_def)
qed

lemma line_start_total:
  "0 \<le> i \<Longrightarrow> i \<le> int (length raw) \<Longrightarrow> \<exists>k. line_start raw i = Some k \<and> 0 \<le> k \<and> k \<le> i"
proof (induction raw i rule: line_start.induct)
  case (1 raw i)
  show ?case
  proof (cases "0 < i")
    case True
    then have c: "byte_at raw (i - 1) = Some (raw ! nat (i - 1))" using "1.prems" by (simp add: byte_at_def)
    show ?thesis
      using "1.IH" [OF True c] "1.prems" True c by (subst line_start.simps) fastforce
  qed (use "1.prems" in \<open>simp add: line_start.simps\<close>)
qed

lemma line_end_total:
  "0 \<le> i \<Longrightarrow> i \<le> int (length raw) \<Longrightarrow> \<exists>k. line_end raw i = Some k \<and> i \<le> k \<and> k \<le> int (length raw)"
proof (induction raw i rule: line_end.induct)
  case (1 raw i)
  show ?case
  proof (cases "i < int (length raw)")
    case True
    then have c: "byte_at raw i = Some (raw ! nat i)" using "1.prems" by (simp add: byte_at_def)
    show ?thesis
      using "1.IH" [OF True c] "1.prems" True c by (subst line_end.simps) fastforce
  qed (use "1.prems" in \<open>simp add: line_end.simps\<close>)
qed

lemma isTableBirthDate_total:
  assumes "span_in (length (Raw t)) s"
  shows "\<exists>b. isTableBirthDate rt t s = Some b"
proof -
  have r: "in_text t (sp_Start s)" "in_text t (sp_End s)" "sp_Start s \<le> sp_End s"
    using assms by (simp_all add: span_in_def)
  obtain a b where "line_start (Raw t) (sp_Start s) = Some a" "0 \<le> a" "a \<le> sp_Start s"
      "line_end (Raw t) (sp_End s) = Some b" "sp_End s \<le> b" "b \<le> int (length (Raw t))"
    using line_start_total line_end_total r by metis
  moreover obtain w where "windowBefore rt t (sp_Start s) 200 = Some w"
    using windowBefore_total r(1) by blast
  ultimately show ?thesis using r(3) by (simp add: isTableBirthDate_def slice_def)
qed

subsection \<open>The in-place loop as a pointwise map\<close>

text \<open>
  What \<^verbatim>\<open>reclassifySpan\<close> does to one span, against a fixed list of spans.
\<close>

definition reclass :: "runtime \<Rightarrow> Span list \<Rightarrow> Text \<Rightarrow> Span \<Rightarrow> Span option" where
  "reclass rt spans t s =
     (if sp_Category s \<noteq> CatDate \<and> sp_Category s \<noteq> CatBirthDate then Some s
      else do { p \<leftarrow> isPassportDate rt t s;
        if p then Some (s\<lparr> sp_Category := CatPassportDate \<rparr>)
        else if sp_Category s \<noteq> CatDate then Some s
        else do { b \<leftarrow> isTableBirthDate rt t s;
          if b then Some (s\<lparr> sp_Category := CatBirthDate \<rparr>)
          else if followsPassportIssuer spans s then Some (s\<lparr> sp_Category := CatPassportDate \<rparr>)
          else Some s } })"

lemma reclassifySpan_reclass:
  "i < length spans \<Longrightarrow>
     reclassifySpan rt spans i t = map_option (\<lambda>s. spans[i := s]) (reclass rt spans t (spans ! i))"
  by (auto simp: reclassifySpan_def reclass_def set_cat_def split: Option.bind_splits)

text \<open>The ways a span may change.\<close>

definition recat :: "Span \<Rightarrow> Span \<Rightarrow> bool" where
  "recat s s' \<longleftrightarrow> s' = s \<or>
     (sp_Category s \<in> {CatDate, CatBirthDate} \<and> s' = s\<lparr> sp_Category := CatPassportDate \<rparr>) \<or>
     (sp_Category s = CatDate \<and> s' = s\<lparr> sp_Category := CatBirthDate \<rparr>)"

lemma recat_refl [simp]: "recat s s"
  by (simp add: recat_def)

lemma reclass_recat: "reclass rt spans t s = Some s' \<Longrightarrow> recat s s'"
  by (auto simp: reclass_def recat_def split: if_splits Option.bind_splits)

lemma recat_bounds: "recat s s' \<Longrightarrow> sp_Start s' = sp_Start s \<and> sp_End s' = sp_End s"
  by (auto simp: recat_def)

lemma recat_issuer: "recat s s' \<Longrightarrow> sp_Category s' = CatPassportIssuer \<longleftrightarrow> sp_Category s = CatPassportIssuer"
  by (auto simp: recat_def cat_defs)

lemma follows_recat:
  "list_all2 recat spans spans' \<Longrightarrow> followsPassportIssuer spans' s = followsPassportIssuer spans s"
  unfolding followsPassportIssuer_def
  by (induction rule: list_all2_induct) (auto dest: recat_bounds recat_issuer)

lemma reclass_cong: "list_all2 recat spans spans' \<Longrightarrow> reclass rt spans' t s = reclass rt spans t s"
  by (simp add: reclass_def follows_recat)

lemma reclass_total: "span_in (length (Raw t)) s \<Longrightarrow> \<exists>s'. reclass rt spans t s = Some s'"
  using isPassportDate_total [of t s rt] isTableBirthDate_total [of t s rt] by (auto simp: reclass_def)

lemma post_loop_pointwise:
  assumes "list_all2 recat old new" and "\<forall>s \<in> set rest. span_in (length (Raw t)) s"
  shows "\<exists>rest'. post_loop rt t [length new..<length (new @ rest)] (new @ rest) = Some (new @ rest') \<and>
    list_all2 (\<lambda>s s'. reclass rt (old @ rest) t s = Some s') rest rest'"
  using assms
proof (induction rest arbitrary: old new)
  case (Cons s rest)
  obtain s' where s': "reclass rt (old @ s # rest) t s = Some s'"
    using reclass_total Cons.prems(2) by (metis list.set_intros(1))
  have same: "list_all2 recat (old @ s # rest) (new @ s # rest)"
    using Cons.prems(1) by (intro list_all2_appendI) (simp_all add: list_all2_refl recat_refl)
  have "reclassifySpan rt (new @ s # rest) (length new) t = Some ((new @ [s']) @ rest)"
    using s' by (simp add: reclassifySpan_reclass reclass_cong [OF same])
  moreover have "list_all2 recat (old @ [s]) (new @ [s'])"
    using Cons.prems(1) reclass_recat [OF s'] by (intro list_all2_appendI) simp_all
  then obtain rest' where
    "post_loop rt t [length (new @ [s'])..<length ((new @ [s']) @ rest)] ((new @ [s']) @ rest) =
       Some ((new @ [s']) @ rest')"
    "list_all2 (\<lambda>x x'. reclass rt ((old @ [s]) @ rest) t x = Some x') rest rest'"
    using Cons.IH [of "old @ [s]" "new @ [s']"] Cons.prems(2) by (metis list.set_intros(2))
  ultimately show ?case using s' by (intro exI [of _ "s' # rest'"]) (simp add: upt_conv_Cons del: upt_Suc)
qed simp

lemma postProcess_pointwise:
  assumes "\<forall>s \<in> set spans. span_in (length (Raw t)) s"
  obtains spans' where "postProcess rt spans t = Some spans'"
    and "list_all2 (\<lambda>s s'. reclass rt spans t s = Some s') spans spans'"
  using post_loop_pointwise [of "[]" "[]" spans t rt] assms by (auto simp: postProcess_def)

lemma recat_sorted:
  "list_all2 recat ss ss' \<Longrightarrow> sorted_wrt before ss \<Longrightarrow> sorted_wrt before ss'"
proof (induction rule: list_all2_induct)
  case (Cons s ss s' ss')
  have "before s' x" if "x \<in> set ss'" for x
  proof -
    obtain y where "y \<in> set ss" "recat y x"
      using Cons.hyps(2) \<open>x \<in> set ss'\<close> by (metis list_all2_conv_all_nth in_set_conv_nth)
    with Cons.prems recat_bounds [OF Cons.hyps(1)] recat_bounds [of y x] show ?thesis by simp
  qed
  with Cons show ?case by simp
qed simp

lemma Run_in_range:
  assumes "go_runtime rt"
    and "\<forall>d \<in> set (pl_detectors p). \<forall>s \<in> set (detect_with d \<lparr> Raw = text, Lower = ToLower rt text \<rparr>).
      span_in (length text) s"
  shows "\<exists>res. Run rt p text = Some res \<and> sorted_wrt (\<lambda>a b. sp_End a \<le> sp_Start b) (Spans res) \<and>
    (\<forall>s \<in> set (Spans res). span_in (length text) s \<and>
      (\<exists>d \<in> set (pl_detectors p). \<exists>s0 \<in> set (detect_with d \<lparr> Raw = text, Lower = ToLower rt text \<rparr>).
        recat s0 s))"
proof -
  let ?t = "\<lparr> Raw = text, Lower = ToLower rt text \<rparr>"
  define spans where "spans = concat (map (\<lambda>d. detect_with d ?t) (pl_detectors p))"
  have wf: "\<forall>s \<in> set spans. span_in (length text) s" using assms(2) by (auto simp: spans_def)
  have sub: "set (Resolve rt spans) \<subseteq> set spans" by (rule go_runtime.Resolve_set [OF assms(1)])
  with wf have "\<forall>s \<in> set (Resolve rt spans). span_in (length (Raw ?t)) s" by auto
  then obtain ss where ss: "postProcess rt (Resolve rt spans) ?t = Some ss"
    and pw: "list_all2 (\<lambda>s s'. reclass rt (Resolve rt spans) ?t s = Some s') (Resolve rt spans) ss"
    by (rule postProcess_pointwise)
  have rc: "list_all2 recat (Resolve rt spans) ss"
    by (rule list_all2_mono [OF pw]) (rule reclass_recat)
  have "sorted_wrt before (Resolve rt spans)"
    using wf by (intro go_runtime.Resolve_before [OF assms(1)]) (simp add: span_in_def)
  then have "sorted_wrt before ss" by (rule recat_sorted [OF rc])
  moreover have "span_in (length text) s \<and> (\<exists>s0 \<in> set spans. recat s0 s)" if "s \<in> set ss" for s
  proof -
    obtain s0 where "s0 \<in> set (Resolve rt spans)" "recat s0 s"
      using rc \<open>s \<in> set ss\<close> by (metis list_all2_conv_all_nth in_set_conv_nth)
    with sub wf recat_bounds [of s0 s] show ?thesis by (auto simp: span_in_def)
  qed
  moreover have "Run rt p text = Some \<lparr> Spans = ss \<rparr>" using ss by (simp add: Run_def spans_def Let_def)
  ultimately show ?thesis by (auto simp: spans_def)
qed

lemma Run_resolved:
  assumes "go_runtime rt"
    and "\<forall>d \<in> set (pl_detectors p). \<forall>s \<in> set (detect_with d \<lparr> Raw = text, Lower = ToLower rt text \<rparr>).
      span_wf (length text) s"
  shows "\<exists>res. Run rt p text = Some res \<and> sorted_wrt (\<lambda>a b. sp_End a \<le> sp_Start b) (Spans res) \<and>
    (\<forall>s \<in> set (Spans res). span_wf (length text) s \<and>
      (\<exists>d \<in> set (pl_detectors p). \<exists>s0 \<in> set (detect_with d \<lparr> Raw = text, Lower = ToLower rt text \<rparr>).
        recat s0 s))"
proof -
  have "\<forall>d \<in> set (pl_detectors p). \<forall>s \<in> set (detect_with d \<lparr> Raw = text, Lower = ToLower rt text \<rparr>). span_in (length text) s"
    using assms(2) span_wf_in by blast
  from Run_in_range [OF assms(1) this] obtain res where res: "Run rt p text = Some res"
    "sorted_wrt (\<lambda>a b. sp_End a \<le> sp_Start b) (Spans res)"
    and old: "\<forall>s \<in> set (Spans res). span_in (length text) s \<and>
      (\<exists>d \<in> set (pl_detectors p). \<exists>s0 \<in> set (detect_with d \<lparr> Raw = text, Lower = ToLower rt text \<rparr>). recat s0 s)"
    by blast
  have "span_wf (length text) s" if s: "s \<in> set (Spans res)" for s
  proof -
    from old s obtain d s0 where d: "d \<in> set (pl_detectors p)"
      "s0 \<in> set (detect_with d \<lparr> Raw = text, Lower = ToLower rt text \<rparr>)" and r: "recat s0 s" by blast
    then have "span_wf (length text) s0" using assms(2) by blast
    with recat_bounds [OF r] show ?thesis by (simp add: span_wf_def)
  qed
  with res old show ?thesis by blast
qed

subsection \<open>Properties\<close>

text \<open>
  On detectors that return in-range spans, \<^verbatim>\<open>Run\<close> never panics and its spans are sorted, pairwise
  disjoint and in range. Each is a span of some detector whose category changed at most from a
  date or a birth date to a passport date, or from a date to a birth date.
\<close>

lemma Run_spans:
  assumes "go_runtime rt"
    and "\<forall>d \<in> set (pl_detectors p). \<forall>s \<in> set (detect_with d \<lparr> Raw = text, Lower = ToLower rt text \<rparr>).
      span_wf (length text) s"
  shows "\<exists>res. Run rt p text = Some res \<and> sorted_wrt (\<lambda>a b. sp_End a \<le> sp_Start b) (Spans res) \<and>
    (\<forall>s \<in> set (Spans res). span_wf (length text) s \<and>
      (\<exists>d \<in> set (pl_detectors p). \<exists>s0 \<in> set (detect_with d \<lparr> Raw = text, Lower = ToLower rt text \<rparr>).
        recat s0 s))"
  by (rule Run_resolved [OF assms])

text \<open>
  \<^verbatim>\<open>postProcess\<close> updates the slice in place while it reads it, yet the order does not matter: the
  result is the pointwise reclassification of each span against the original spans.
\<close>

lemma postProcess_order_independent:
  assumes "\<forall>s \<in> set spans. span_wf (length (Raw t)) s"
  shows "\<exists>spans'. postProcess rt spans t = Some spans' \<and>
    list_all2 (\<lambda>s s'. reclass rt spans t s = Some s') spans spans'"
proof -
  have "\<forall>s \<in> set spans. span_in (length (Raw t)) s" using assms span_wf_in by blast
  from postProcess_pointwise [OF this, of rt] show ?thesis by metis
qed

text \<open>
  On a valid UTF-8 text \<^verbatim>\<open>windowBefore\<close> is the lower-cased last \<^verbatim>\<open>n\<close> runes before the position, and
  \<^verbatim>\<open>windowAfter\<close> the lower-cased first \<^verbatim>\<open>n\<close> runes after it, fewer where the text is shorter.
\<close>

lemma window_runes:
  assumes "\<forall>r \<in> set (bs @ aft). valid_rune r" and "0 \<le> n"
  shows "let t = \<lparr> Raw = encode_runes (bs @ aft), Lower = low \<rparr>; pos = int (length (encode_runes bs)) in
    windowBefore rt t pos n = Some (encode_runes (map (uc_lower rt) (drop (length bs - nat n) bs))) \<and>
    windowAfter rt t pos n = Some (encode_runes (map (uc_lower rt) (take (nat n) aft)))"
  using window_before_runes [OF assms] window_after_runes [OF assms] by (simp add: Let_def)

text \<open>
  The comment of \<^verbatim>\<open>hasAnyContext\<close> promises keywords "at a word boundary"; the code accepts them
  inside a longer word. The number in "tissue 01" has an issue context, though the only
  occurrence of "issue" is not at a word boundary.
\<close>

lemma hasAnyContext_inside_word:
  "hasAnyContext ru_runtime \<lparr> Raw = ''tissue 01'', Lower = ''tissue 01'' \<rparr> 7 160 issueContexts = Some True \<and>
   lastKeywordIndex ''tissue '' ''issue'' = Some (-1)"
proof
  let ?bs = "[0x74, 0x69, 0x73, 0x73, 0x75, 0x65, 0x20] :: rune list" and ?as = "[0x30, 0x31] :: rune list"
  have e: "encode_runes ?bs = ''tissue ''" "encode_runes (?bs @ ?as) = ''tissue 01''"
    by (simp_all add: EncodeRune_def char_of_eq_iff)
  have "windowBefore ru_runtime \<lparr> Raw = ''tissue 01'', Lower = ''tissue 01'' \<rparr> 7 160 = Some ''tissue ''"
    using window_before_runes [of ?bs ?as 160 ru_runtime "''tissue 01''"] e
    by (simp add: valid_rune_def ru_lower_def del: encode_runes_simps(2,3))
  then show "hasAnyContext ru_runtime \<lparr> Raw = ''tissue 01'', Lower = ''tissue 01'' \<rparr> 7 160 issueContexts = Some True"
    by (simp add: hasAnyContext_def issueContexts_def Contains_def HasPrefix_def)
  have "LastIndex ''tissue '' ''issue'' = Some 1" "LastIndex ''t'' ''issue'' = None"
    by (simp_all add: HasPrefix_def)
  moreover have "\<not> keywordAtBoundary ''tissue '' 1 k" for k
    by (simp add: keywordAtBoundary_def isLetterRune_def DecodeLastRune_def)
  ultimately show "lastKeywordIndex ''tissue '' ''issue'' = Some (-1)"
    by (simp add: lastKeywordIndex_def last_kw_loop.simps)
qed

subsection \<open>Witnesses\<close>

definition demo_detector :: detector where
  "demo_detector = \<lparr> det_Name = ''demo'', det_Categories = [CatDate],
     det_Detect = (\<lambda>text. if text = ''born 1 May'' then [\<lparr> sp_Start = 5, sp_End = 10,
       sp_Category = CatDate, sp_Detector = ''demo'', sp_Confidence = 1 \<rparr>] else []),
     det_DetectLower = None \<rparr>"

theorem Run_spans_witness:
  "\<exists>res. Run ru_runtime (NewPipeline [demo_detector]) ''born 1 May'' = Some res \<and>
     sorted_wrt (\<lambda>a b. sp_End a \<le> sp_Start b) (Spans res) \<and>
     (\<forall>s \<in> set (Spans res). span_wf 10 s)"
  using Run_spans [OF ru.go_runtime_axioms, of "NewPipeline [demo_detector]" "''born 1 May''"]
  by (auto simp: NewPipeline_def detect_with_def demo_detector_def span_wf_def)

theorem postProcess_order_independent_witness:
  "\<exists>spans'. postProcess ru_runtime (det_Detect demo_detector ''born 1 May'')
       \<lparr> Raw = ''born 1 May'', Lower = ''born 1 may'' \<rparr> = Some spans' \<and>
     list_all2 (\<lambda>s s'. reclass ru_runtime (det_Detect demo_detector ''born 1 May'')
       \<lparr> Raw = ''born 1 May'', Lower = ''born 1 may'' \<rparr> s = Some s')
       (det_Detect demo_detector ''born 1 May'') spans'"
  by (rule postProcess_order_independent) (simp add: demo_detector_def span_wf_def)

theorem window_runes_witness:
  "windowBefore ru_runtime \<lparr> Raw = encode_runes ([0x41, 0x42] @ [0x43]), Lower = [] \<rparr>
     (int (length (encode_runes [0x41, 0x42]))) 1 = Some (encode_runes [0x62])"
  using window_runes [of "[0x41, 0x42]" "[0x43]" 1 "[]" ru_runtime]
  by (simp add: Let_def valid_rune_def ru_lower_def)

end
