(* ===== verification/Regex_Detector.thy ===== *)
theory Regex_Detector
  imports Validators Textutil Pipeline
begin

text \<open>
  The detector driven by rules (\<^verbatim>\<open>internal/pii/detectors/regex.go\<close>) and the birth-date reclassification it
  shares with the detector of dates in words (\<^verbatim>\<open>dateword.go\<close>). Compiling a pattern is
  \<^verbatim>\<open>regexp.Compile\<close>, an argument \<open>rxc\<close>; matching is the search of theory \<open>Regexp\<close>. A keyword search of the source
  loops until it finds a word boundary, so the functions above it return \<^term>\<open>None\<close> if it never ends.
  Confidences are only compared; rationals stand for the floats.
\<close>

subsection \<open>Rules\<close>

text \<open>\<^verbatim>\<open>*regexp.Regexp\<close>.\<close>

record regexp =
  re_rx :: rx
  re_NumSubexp :: nat

definition contextBonusWindow :: nat where
  "contextBonusWindow = 60"

definition softContextWindow :: int where
  "softContextWindow = 25"

record ReclassifyRule =
  rc_Context :: "string list"
  rc_ContextAfter :: "string list"
  rc_ContextWindow :: int
  rc_ContextAfterWindow :: int
  rc_Category :: category

text \<open>The fields read from the rules file; \<open>Rule\<close> adds the ones \<^verbatim>\<open>compileRule\<close> computes.\<close>

record yaml_rule =
  rl_Name :: string
  rl_Category :: category
  rl_Pattern :: string
  rl_Validator :: string
  rl_ValidatorSoftContext :: "string list"
  rl_Confidence :: rat
  rl_Context :: "string list"
  rl_RequireContext :: bool
  rl_ContextWindow :: int
  rl_ContextAfter :: "string list"
  rl_ContextAfterWindow :: int
  rl_Group :: int
  rl_Reclassify :: "ReclassifyRule list"
  rl_ReclassifyDate :: bool
  rl_RejectContext :: "string list"
  rl_RejectContextWindow :: int
  rl_DenyContext :: "string list"
  rl_DenyContextWindow :: int
  rl_Standalone :: "bool option"
  rl_NotInDigitSequence :: bool
  rl_MatchLower :: bool
  rl_ContextAllowDateGap :: bool

record Rule = yaml_rule +
  contextWindow :: int
  contextAfterWindow :: int
  contextLower :: "string list"
  validatorSoftContextLower :: "string list"
  contextAfterLower :: "string list"
  rejectContextLower :: "string list"
  rejectContextWindow :: int
  denyContextLower :: "string list"
  denyContextWindow :: int
  rl_re :: regexp
  rl_reLower :: "regexp option"

definition standalone :: "Rule \<Rightarrow> bool" where
  "standalone r \<longleftrightarrow> rl_Standalone r = None \<or> rl_Standalone r = Some True"

datatype rule_error =
    BadPattern string
  | UnknownValidator string string
  | BadLowerPattern string

definition lowerAll :: "runtime \<Rightarrow> string list \<Rightarrow> string list" where
  "lowerAll rt keywords = map (ToLower rt) keywords"

definition validateRuleValidator :: "runtime \<Rightarrow> yaml_rule \<Rightarrow> rule_error option" where
  "validateRuleValidator rt r =
     (if rl_Validator r = '''' then None
      else if map_of (Validators rt) (rl_Validator r) = None
      then Some (UnknownValidator (rl_Name r) (rl_Validator r)) else None)"

definition or_default :: "int \<Rightarrow> int \<Rightarrow> int" where
  "or_default n d = (if n = 0 then d else n)"

definition compileReclassify :: "runtime \<Rightarrow> ReclassifyRule \<Rightarrow> ReclassifyRule" where
  "compileReclassify rt rc =
     rc\<lparr> rc_Context := lowerAll rt (rc_Context rc), rc_ContextAfter := lowerAll rt (rc_ContextAfter rc) \<rparr>"

text \<open>The fields \<^verbatim>\<open>compileRule\<close> fills in once the patterns compile.\<close>

definition compiled_fields :: "runtime \<Rightarrow> regexp \<Rightarrow> regexp option \<Rightarrow> yaml_rule \<Rightarrow> Rule" where
  "compiled_fields rt re reLower r =
     yaml_rule.extend (r\<lparr> rl_Reclassify := map (compileReclassify rt) (rl_Reclassify r) \<rparr>)
       (Rule.fields (or_default (rl_ContextWindow r) 40) (or_default (rl_ContextAfterWindow r) 20)
         (lowerAll rt (rl_Context r)) (lowerAll rt (rl_ValidatorSoftContext r))
         (lowerAll rt (rl_ContextAfter r)) (lowerAll rt (rl_RejectContext r))
         (or_default (rl_RejectContextWindow r) 25) (lowerAll rt (rl_DenyContext r))
         (or_default (rl_DenyContextWindow r) 25) re reLower)"

definition compileRule :: "runtime \<Rightarrow> (string \<Rightarrow> regexp option) \<Rightarrow> yaml_rule \<Rightarrow> rule_error + Rule" where
  "compileRule rt rxc r =
     (case rxc (rl_Pattern r) of
        None \<Rightarrow> Inl (BadPattern (rl_Name r))
      | Some re \<Rightarrow>
        (case validateRuleValidator rt r of
          Some e \<Rightarrow> Inl e
        | None \<Rightarrow>
          if rl_MatchLower r then
            (case rxc (''(?i)'' @ rl_Pattern r) of
              None \<Rightarrow> Inl (BadLowerPattern (rl_Name r))
            | Some rl \<Rightarrow> Inr (compiled_fields rt re (Some rl) r))
          else Inr (compiled_fields rt re None r)))"

text \<open>\<^verbatim>\<open>LoadRules\<close> on the decoded file: the first rule that does not compile stops the loading.\<close>

fun LoadRules :: "runtime \<Rightarrow> (string \<Rightarrow> regexp option) \<Rightarrow> yaml_rule list \<Rightarrow> rule_error + Rule list" where
  "LoadRules rt rxc [] = Inr []"
| "LoadRules rt rxc (r # rs) =
     (case compileRule rt rxc r of
        Inl e \<Rightarrow> Inl e
      | Inr c \<Rightarrow> (case LoadRules rt rxc rs of Inl e \<Rightarrow> Inl e | Inr cs \<Rightarrow> Inr (c # cs)))"

subsection \<open>Keywords in a window\<close>

definition keywordAtBoundary_det :: "runtime \<Rightarrow> string \<Rightarrow> nat \<Rightarrow> nat \<Rightarrow> bool" where
  "keywordAtBoundary_det rt s start e \<longleftrightarrow>
     \<not> (0 < start \<and> uc_letter rt (fst (DecodeLastRune (take start s)))) \<and>
     \<not> (e < length s \<and> uc_letter rt (fst (DecodeRune (drop e s))))"

partial_function (option) last_kw_det :: "runtime \<Rightarrow> string \<Rightarrow> string \<Rightarrow> nat \<Rightarrow> int option" where
  "last_kw_det rt s kw searchFrom =
     (case LastIndex (take searchFrom s) kw of
        None \<Rightarrow> Some (-1)
      | Some idx \<Rightarrow>
          if keywordAtBoundary_det rt s idx (idx + length kw) then Some (int idx)
          else last_kw_det rt s kw idx)"

definition lastKeywordIndex_det :: "runtime \<Rightarrow> string \<Rightarrow> string \<Rightarrow> int option" where
  "lastKeywordIndex_det rt s kw = last_kw_det rt s kw (length s)"

text \<open>
  The forward search moves one byte on each time; past the end of the string (reached only for an
  empty keyword) \<^verbatim>\<open>s[searchFrom:]\<close> would panic.
\<close>

partial_function (option) first_kw_det :: "runtime \<Rightarrow> string \<Rightarrow> string \<Rightarrow> nat \<Rightarrow> int option" where
  "first_kw_det rt s kw searchFrom =
     (if length s < searchFrom then None
      else case Index (drop searchFrom s) kw of
        None \<Rightarrow> Some (-1)
      | Some i \<Rightarrow>
          let idx = i + searchFrom in
          if keywordAtBoundary_det rt s idx (idx + length kw) then Some (int idx)
          else first_kw_det rt s kw (idx + 1))"

definition firstKeywordIndex :: "runtime \<Rightarrow> string \<Rightarrow> string \<Rightarrow> int option" where
  "firstKeywordIndex rt s kw = first_kw_det rt s kw 0"

declare last_kw_det.simps [code] first_kw_det.simps [code]

subsection \<open>Dates between a keyword and a match\<close>

definition rx_dsep :: rx where
  "rx_dsep = Cls date_sep"

definition dateBetweenRe :: rx where
  "dateBetweenRe = rx_alts
     [rx_cats [rx_rep rx_digit 1 2, rx_dsep, rx_rep rx_digit 1 2, rx_dsep, rx_rep rx_digit 2 4],
      rx_cats [rx_rep rx_digit 4 4, rx_dsep, rx_rep rx_digit 1 2, rx_dsep, rx_rep rx_digit 1 2],
      rx_cats [rx_rep rx_digit 1 2, rx_plus rx_space, rx_alts
        [rx_lit [0x44f, 0x43d, 0x432, 0x430, 0x440, 0x44f] \<comment> \<open>yanvarya\<close>,
         rx_lit [0x444, 0x435, 0x432, 0x440, 0x430, 0x43b, 0x44f] \<comment> \<open>fevralya\<close>,
         rx_lit [0x43c, 0x430, 0x440, 0x442, 0x430] \<comment> \<open>marta\<close>,
         rx_lit [0x430, 0x43f, 0x440, 0x435, 0x43b, 0x44f] \<comment> \<open>aprelya\<close>,
         rx_lit [0x43c, 0x430, 0x44f] \<comment> \<open>maya\<close>,
         rx_lit [0x438, 0x44e, 0x43d, 0x44f] \<comment> \<open>iyunya\<close>,
         rx_lit [0x438, 0x44e, 0x43b, 0x44f] \<comment> \<open>iyulya\<close>,
         rx_lit [0x430, 0x432, 0x433, 0x443, 0x441, 0x442, 0x430] \<comment> \<open>avgusta\<close>,
         rx_lit [0x441, 0x435, 0x43d, 0x442, 0x44f, 0x431, 0x440, 0x44f] \<comment> \<open>sentyabrya\<close>,
         rx_lit [0x43e, 0x43a, 0x442, 0x44f, 0x431, 0x440, 0x44f] \<comment> \<open>oktyabrya\<close>,
         rx_lit [0x43d, 0x43e, 0x44f, 0x431, 0x440, 0x44f] \<comment> \<open>noyabrya\<close>,
         rx_lit [0x434, 0x435, 0x43a, 0x430, 0x431, 0x440, 0x44f] \<comment> \<open>dekabrya\<close>,
         rx_lit [0x44f, 0x43d, 0x432] \<comment> \<open>yanv\<close>,
         rx_lit [0x444, 0x435, 0x432] \<comment> \<open>fev\<close>,
         rx_lit [0x43c, 0x430, 0x440] \<comment> \<open>mar\<close>,
         rx_lit [0x430, 0x43f, 0x440] \<comment> \<open>apr\<close>,
         rx_lit [0x43c, 0x430, 0x439] \<comment> \<open>may\<close>,
         rx_lit [0x438, 0x44e, 0x43d] \<comment> \<open>iyun\<close>,
         rx_lit [0x438, 0x44e, 0x43b] \<comment> \<open>iyul\<close>,
         rx_lit [0x430, 0x432, 0x433] \<comment> \<open>avg\<close>,
         rx_lit [0x441, 0x435, 0x43d] \<comment> \<open>sen\<close>,
         rx_lit [0x441, 0x435, 0x43d, 0x442] \<comment> \<open>sent\<close>,
         rx_lit [0x43e, 0x43a, 0x442] \<comment> \<open>okt\<close>,
         rx_lit [0x43d, 0x43e, 0x44f] \<comment> \<open>noya\<close>,
         rx_lit [0x434, 0x435, 0x43a] \<comment> \<open>dek\<close>],
        rx_opt (rx_lit [0x2E]), rx_plus rx_space, rx_rep rx_digit 2 4]]"

definition containsDate :: "string \<Rightarrow> bool" where
  "containsDate s = MatchString s dateBetweenRe"

subsection \<open>Contexts\<close>

text \<open>The loops over the keywords, with their variable \<^verbatim>\<open>best\<close>, -1 until a keyword is found.\<close>

fun left_best :: "runtime \<Rightarrow> string \<Rightarrow> string list \<Rightarrow> int \<Rightarrow> int option" where
  "left_best rt window [] best = Some best"
| "left_best rt window (kw # kws) best =
     do { idx \<leftarrow> lastKeywordIndex_det rt window kw;
          let e = idx + int (length kw) in
          left_best rt window kws (if idx \<ge> 0 \<and> e > best then e else best) }"

fun right_best :: "runtime \<Rightarrow> string \<Rightarrow> string list \<Rightarrow> int \<Rightarrow> int option" where
  "right_best rt window [] best = Some best"
| "right_best rt window (kw # kws) best =
     do { idx \<leftarrow> firstKeywordIndex rt window kw;
          right_best rt window kws (if idx \<ge> 0 \<and> (best < 0 \<or> idx < best) then idx else best) }"

text \<open>The result \<^verbatim>\<open>(true, d)\<close> of a context function is \<^term>\<open>Some d\<close>, \<^verbatim>\<open>(false, 0)\<close> is \<^term>\<open>None\<close>.\<close>

definition leftContextImpl ::
  "runtime \<Rightarrow> Text \<Rightarrow> nat \<Rightarrow> int \<Rightarrow> string list \<Rightarrow> bool \<Rightarrow> nat option option" where
  "leftContextImpl rt t pos n keywords blockDate =
     (if keywords = [] then Some None
      else
        let window = runeWindowBefore rt t pos n in
        do { best \<leftarrow> left_best rt window keywords (-1);
             if best < 0 then Some None
             else if blockDate \<and> containsDate (drop (nat best) window) then Some None
             else Some (Some (RuneCount (drop (nat best) window))) })"

definition leftContext :: "runtime \<Rightarrow> Text \<Rightarrow> nat \<Rightarrow> int \<Rightarrow> string list \<Rightarrow> nat option option" where
  "leftContext rt t pos n keywords = leftContextImpl rt t pos n keywords True"

definition leftContextAnyGap :: "runtime \<Rightarrow> Text \<Rightarrow> nat \<Rightarrow> int \<Rightarrow> string list \<Rightarrow> nat option option" where
  "leftContextAnyGap rt t pos n keywords = leftContextImpl rt t pos n keywords False"

definition rightContext :: "runtime \<Rightarrow> Text \<Rightarrow> nat \<Rightarrow> int \<Rightarrow> string list \<Rightarrow> nat option option" where
  "rightContext rt t pos n keywords =
     (if keywords = [] then Some None
      else
        let window = runeWindowAfter rt t pos n in
        do { best \<leftarrow> right_best rt window keywords (-1);
             if best < 0 then Some None
             else if containsDate (take (nat best) window) then Some None
             else Some (Some (RuneCount (take (nat best) window))) })"

definition denyContextLeft :: "runtime \<Rightarrow> Text \<Rightarrow> nat \<Rightarrow> int \<Rightarrow> string list \<Rightarrow> bool" where
  "denyContextLeft rt t pos n keywords =
     (if keywords = [] then False
      else let window = runeWindowBefore rt t pos n in list_ex (Contains window) keywords)"

definition denyContextRight :: "runtime \<Rightarrow> Text \<Rightarrow> nat \<Rightarrow> int \<Rightarrow> string list \<Rightarrow> bool" where
  "denyContextRight rt t pos n keywords =
     (if keywords = [] then False
      else let window = runeWindowAfter rt t pos n in list_ex (Contains window) keywords)"

definition substring_best :: "string \<Rightarrow> int \<Rightarrow> string \<Rightarrow> int" where
  "substring_best window best kw =
     (case LastIndex window kw of
        None \<Rightarrow> best
      | Some idx \<Rightarrow> let e = int idx + int (length kw) in if e > best then e else best)"

definition leftSubstringContext :: "runtime \<Rightarrow> Text \<Rightarrow> nat \<Rightarrow> int \<Rightarrow> string list \<Rightarrow> nat option" where
  "leftSubstringContext rt t pos n keywords =
     (if keywords = [] then None
      else
        let window = runeWindowBefore rt t pos n;
            best = foldl (substring_best window) (-1) keywords
        in if best < 0 then None else Some (RuneCount (drop (nat best) window)))"

subsection \<open>Digits around a match\<close>

definition isDigitByte :: "char \<Rightarrow> bool" where
  "isDigitByte b \<longleftrightarrow> ascii_digit (of_char b)"

definition allDigits :: "string \<Rightarrow> bool" where
  "allDigits s = (if s = '''' then False else list_all isDigitByte s)"

definition standaloneBoundary :: "string \<Rightarrow> nat \<Rightarrow> nat \<Rightarrow> bool" where
  "standaloneBoundary raw start e =
     (if 0 < start \<and> isDigitByte (raw ! (start - 1)) then False
      else if e < length raw \<and> isDigitByte (raw ! e) then False
      else True)"

definition group_sep :: "char \<Rightarrow> bool" where
  "group_sep c \<longleftrightarrow> c = CHR '' '' \<or> c = CHR ''-''"

fun token_start :: "string \<Rightarrow> nat \<Rightarrow> nat" where
  "token_start s 0 = 0"
| "token_start s (Suc i) = (if group_sep (s ! i) then Suc i else token_start s i)"

function token_end :: "string \<Rightarrow> nat \<Rightarrow> nat" where
  "token_end s i = (if i < length s \<and> \<not> group_sep (s ! i) then token_end s (i + 1) else i)"
  by pat_completeness auto
termination
  by (relation "measure (\<lambda>(s, i). length s - i)") auto

declare token_end.simps [simp del]

definition digitGroupBefore :: "string \<Rightarrow> nat \<Rightarrow> bool" where
  "digitGroupBefore s start =
     (if start < 2 \<or> \<not> group_sep (s ! (start - 1)) then False
      else
        let tokEnd = start - 1; tokStart = token_start s tokEnd in
        if tokStart = tokEnd then False else allDigits (take (tokEnd - tokStart) (drop tokStart s)))"

definition digitGroupAfter :: "string \<Rightarrow> nat \<Rightarrow> bool" where
  "digitGroupAfter s e =
     (if e + 1 \<ge> length s \<or> \<not> group_sep (s ! e) then False
      else
        let tokStart = e + 1; tokEnd = token_end s tokStart in
        if tokStart = tokEnd then False else allDigits (take (tokEnd - tokStart) (drop tokStart s)))"

definition isDigitGroupAdjacent :: "string \<Rightarrow> nat \<Rightarrow> nat \<Rightarrow> bool \<Rightarrow> bool" where
  "isDigitGroupAdjacent s start e left = (if left then digitGroupBefore s start else digitGroupAfter s e)"

definition inDigitSequence :: "string \<Rightarrow> nat \<Rightarrow> nat \<Rightarrow> bool" where
  "inDigitSequence raw start e \<longleftrightarrow>
     isDigitGroupAdjacent raw start e True \<or> isDigitGroupAdjacent raw start e False"

subsection \<open>Accepting a match\<close>

definition validatorPasses :: "runtime \<Rightarrow> string \<Rightarrow> string \<Rightarrow> bool" where
  "validatorPasses rt name m = (case map_of (Validators rt) name of None \<Rightarrow> True | Some v \<Rightarrow> v m)"

definition softContextPresent :: "runtime \<Rightarrow> Rule \<Rightarrow> Text \<Rightarrow> nat \<Rightarrow> bool option" where
  "softContextPresent rt r t start =
     (if validatorSoftContextLower r = [] then Some False
      else do { c \<leftarrow> leftContext rt t start softContextWindow (validatorSoftContextLower r); Some (c \<noteq> None) })"

definition validatorSoftPassed :: "runtime \<Rightarrow> Rule \<Rightarrow> Text \<Rightarrow> nat \<Rightarrow> string \<Rightarrow> bool option" where
  "validatorSoftPassed rt r t start m =
     (if rl_Validator r = '''' then Some False
      else if validatorPasses rt (rl_Validator r) m then Some False
      else softContextPresent rt r t start)"

definition rejectedByContext :: "runtime \<Rightarrow> Rule \<Rightarrow> Text \<Rightarrow> nat \<Rightarrow> nat \<Rightarrow> bool option" where
  "rejectedByContext rt r t start e =
     (if rejectContextLower r \<noteq> [] \<and>
         (denyContextLeft rt t start (rejectContextWindow r) (rejectContextLower r) \<or>
          denyContextRight rt t e (rejectContextWindow r) (rejectContextLower r))
      then Some True
      else if denyContextLower r \<noteq> [] then
        (case leftSubstringContext rt t start (denyContextWindow r) (denyContextLower r) of
           None \<Rightarrow> Some False
         | Some denyDist \<Rightarrow>
             do { pos \<leftarrow> leftContext rt t start (contextWindow r) (contextLower r);
                  Some (case pos of None \<Rightarrow> True | Some posDist \<Rightarrow> denyDist < posDist) })
      else Some False)"

text \<open>\<^verbatim>\<open>acceptsMatch\<close>: \<^term>\<open>None\<close> inside is \<^verbatim>\<open>(false, false)\<close>, \<^term>\<open>Some soft\<close> is \<^verbatim>\<open>(true, soft)\<close>.\<close>

definition acceptsMatch :: "runtime \<Rightarrow> Rule \<Rightarrow> Text \<Rightarrow> nat \<Rightarrow> nat \<Rightarrow> string \<Rightarrow> bool option option" where
  "acceptsMatch rt r t start e m =
     do { soft \<leftarrow> validatorSoftPassed rt r t start m;
          if rl_Validator r \<noteq> '''' \<and> \<not> soft \<and> \<not> validatorPasses rt (rl_Validator r) m then Some None
          else if standalone r \<and> \<not> standaloneBoundary (Raw t) start e then Some None
          else if rl_NotInDigitSequence r \<and> inDigitSequence (Raw t) start e then Some None
          else do { rej \<leftarrow> rejectedByContext rt r t start e;
                    Some (if rej then None else Some soft) } }"

definition contextDistance :: "runtime \<Rightarrow> Rule \<Rightarrow> Text \<Rightarrow> nat \<Rightarrow> nat \<Rightarrow> nat option option" where
  "contextDistance rt r t start e =
     do { l \<leftarrow> (if rl_ContextAllowDateGap r
                then leftContextAnyGap rt t start (contextWindow r) (contextLower r)
                else leftContext rt t start (contextWindow r) (contextLower r));
          case l of
            Some d \<Rightarrow> Some (Some d)
          | None \<Rightarrow> rightContext rt t e (contextAfterWindow r) (contextAfterLower r) }"

definition confidenceWithContext :: "rat \<Rightarrow> nat \<Rightarrow> rat" where
  "confidenceWithContext conf dst =
     conf + 5 / 100 + 1 / 100 * (1 - of_nat dst / of_nat contextBonusWindow)"

text \<open>\<^verbatim>\<open>matchConfidence\<close>: \<^term>\<open>None\<close> inside is a match to skip.\<close>

definition matchConfidence :: "runtime \<Rightarrow> Rule \<Rightarrow> Text \<Rightarrow> nat \<Rightarrow> nat \<Rightarrow> bool \<Rightarrow> rat option option" where
  "matchConfidence rt r t start e soft =
     (let conf = (if rl_Confidence r = 0 then 9 / 10 else rl_Confidence r);
          conf' = (if soft then conf - 2 / 10 else conf)
      in do { c \<leftarrow> contextDistance rt r t start e;
              if rl_RequireContext r \<and> c = None \<and> \<not> soft then Some None
              else Some (Some (case c of Some dst \<Rightarrow> confidenceWithContext conf' dst | None \<Rightarrow> conf')) })"

definition dateWordRightContexts :: "string list" where
  "dateWordRightContexts =
    [encode_runes [0x433, 0x43e, 0x434, 0x430, 0x20, 0x440, 0x43e, 0x436, 0x434, 0x435, 0x43d, 0x438, 0x44f] \<comment> \<open>goda rozhdeniya\<close>,
     encode_runes [0x440, 0x43e, 0x436, 0x434, 0x435, 0x43d, 0x438, 0x44f] \<comment> \<open>rozhdeniya\<close>,
     encode_runes [0x440, 0x2e] \<comment> \<open>r.\<close>,
     encode_runes [0x43c, 0x435, 0x441, 0x442, 0x43e, 0x20, 0x440, 0x43e, 0x436, 0x434, 0x435, 0x43d, 0x438, 0x44f] \<comment> \<open>mesto rozhdeniya\<close>] @ BirthContexts"

definition dateBirthReclassify :: "runtime \<Rightarrow> Text \<Rightarrow> nat \<Rightarrow> nat \<Rightarrow> category option" where
  "dateBirthReclassify rt t start e =
     do { l \<leftarrow> leftContext rt t start 120 BirthContexts;
          if l \<noteq> None then Some CatBirthDate
          else do { r \<leftarrow> rightContext rt t e 40 dateWordRightContexts;
                    Some (if r \<noteq> None then CatBirthDate else CatDate) } }"

fun reclassify_loop ::
  "runtime \<Rightarrow> Rule \<Rightarrow> Text \<Rightarrow> nat \<Rightarrow> nat \<Rightarrow> ReclassifyRule list \<Rightarrow> category option" where
  "reclassify_loop rt r t start e [] = Some (rl_Category r)"
| "reclassify_loop rt r t start e (rc # rcs) =
     do { l \<leftarrow> leftContext rt t start (or_default (rc_ContextWindow rc) (contextWindow r)) (rc_Context rc);
          if l \<noteq> None then Some (rc_Category rc)
          else do { a \<leftarrow> rightContext rt t e
                          (or_default (rc_ContextAfterWindow rc) (contextAfterWindow r)) (rc_ContextAfter rc);
                    if a \<noteq> None then Some (rc_Category rc) else reclassify_loop rt r t start e rcs } }"

definition reclassify :: "runtime \<Rightarrow> Text \<Rightarrow> nat \<Rightarrow> nat \<Rightarrow> Rule \<Rightarrow> category option" where
  "reclassify rt t start e r =
     (if rl_ReclassifyDate r then dateBirthReclassify rt t start e
      else reclassify_loop rt r t start e (rl_Reclassify r))"

subsection \<open>The span of a match\<close>

definition trailing_sep :: "rune \<Rightarrow> bool" where
  "trailing_sep r \<longleftrightarrow> r = 0x20 \<or> r = 0x2D \<or> r = 0x2E \<or> r = 0x2C \<or> r = 0xA0 \<or> r = 0x202F"

lemma trailing_step:
  assumes "(r, k) = DecodeLastRune s" and "trailing_sep r"
  shows "0 < k \<and> k \<le> length s"
proof -
  have "s \<noteq> []" using assms by (auto simp: DecodeLastRune_def trailing_sep_def RuneError_def)
  from DecodeLastRune_bounds [OF this] assms(1) show ?thesis by (auto simp: prod_eq_iff)
qed

function trimTrailingSeparators :: "string \<Rightarrow> nat \<Rightarrow> nat \<Rightarrow> nat" where
  "trimTrailingSeparators raw start e =
     (if start < e then
        let (r, size) = DecodeLastRune (take (e - start) (drop start raw)) in
        if trailing_sep r then trimTrailingSeparators raw start (e - size) else e
      else e)"
  by pat_completeness auto
termination
  by (relation "measure (\<lambda>(raw, start, e). e)") (auto dest: trailing_step)

declare trimTrailingSeparators.simps [simp del]

definition groupBounds :: "string \<Rightarrow> regexp \<Rightarrow> nat \<Rightarrow> nat \<Rightarrow> nat \<Rightarrow> (nat \<times> nat) option" where
  "groupBounds s re g start e =
     (case FindIndex (take (e - start) (drop start s)) (re_rx re) of
        None \<Rightarrow> None
      | Some sub \<Rightarrow>
          if re_NumSubexp re < g then None
          else map_option (\<lambda>(a, b). (start + a, start + b)) (group_range sub g))"

definition captureBounds :: "string \<Rightarrow> regexp \<Rightarrow> nat \<Rightarrow> nat \<Rightarrow> (nat \<times> nat) option" where
  "captureBounds s re start e =
     (case FindIndex (take (e - start) (drop start s)) (re_rx re) of
        None \<Rightarrow> None
      | Some sub \<Rightarrow>
          (case List.map_filter (group_range sub) [1..<Suc (re_NumSubexp re)] of
             [] \<Rightarrow> None
           | gs \<Rightarrow> Some (start + fst (hd gs), start + snd (last gs))))"

definition spanBounds :: "string \<Rightarrow> regexp \<Rightarrow> Rule \<Rightarrow> match \<Rightarrow> (nat \<times> nat) option" where
  "spanBounds s re r loc =
     (if 0 < rl_Group r then groupBounds s re (nat (rl_Group r)) (m_lo loc) (m_hi loc)
      else if 0 < re_NumSubexp re then captureBounds s re (m_lo loc) (m_hi loc)
      else Some (m_lo loc, m_hi loc))"

subsection \<open>The detector\<close>

definition matchText :: "Rule \<Rightarrow> Text \<Rightarrow> string \<times> regexp" where
  "matchText r t =
     (case (rl_MatchLower r, rl_reLower r) of
        (True, Some rl) \<Rightarrow> if LowerOK t then (Lower t, rl) else (Raw t, rl)
      | _ \<Rightarrow> (Raw t, rl_re r))"

text \<open>The body of the loop of \<^verbatim>\<open>detectRule\<close>, from the bounds of the span on.\<close>

definition detect_span :: "runtime \<Rightarrow> Text \<Rightarrow> Rule \<Rightarrow> nat \<Rightarrow> nat \<Rightarrow> Span list option" where
  "detect_span rt t r start e0 =
     (let e = trimTrailingSeparators (Raw t) start e0
      in do { m \<leftarrow> slice (Raw t) (int start) (int e);
              acc \<leftarrow> acceptsMatch rt r t start e m;
              case acc of
                None \<Rightarrow> Some []
              | Some soft \<Rightarrow>
                  do { c \<leftarrow> matchConfidence rt r t start e soft;
                       case c of
                         None \<Rightarrow> Some []
                       | Some conf \<Rightarrow>
                           do { cat \<leftarrow> reclassify rt t start e r;
                                Some [\<lparr> sp_Start = int start, sp_End = int e, sp_Category = cat,
                                        sp_Detector = ''regex'', sp_Confidence = conf \<rparr>] } } })"

definition detect_match :: "runtime \<Rightarrow> Text \<Rightarrow> Rule \<Rightarrow> match \<Rightarrow> Span list option" where
  "detect_match rt t r loc =
     (let (s, re) = matchText r t in
      case spanBounds s re r loc of
        None \<Rightarrow> Some []
      | Some (start, e0) \<Rightarrow> detect_span rt t r start e0)"

fun concat_opt :: "('a \<Rightarrow> 'b list option) \<Rightarrow> 'a list \<Rightarrow> 'b list option" where
  "concat_opt f [] = Some []"
| "concat_opt f (x # xs) = do { a \<leftarrow> f x; b \<leftarrow> concat_opt f xs; Some (a @ b) }"

definition detectRule :: "runtime \<Rightarrow> Text \<Rightarrow> Rule \<Rightarrow> Span list option" where
  "detectRule rt t r =
     (let (s, re) = matchText r t in concat_opt (detect_match rt t r) (FindAllIndex s (re_rx re)))"

definition DetectLower_regex :: "runtime \<Rightarrow> Rule list \<Rightarrow> Text \<Rightarrow> Span list option" where
  "DetectLower_regex rt rules t = concat_opt (detectRule rt t) rules"

definition Categories_regex :: "Rule list \<Rightarrow> category list" where
  "Categories_regex rules =
     foldl (\<lambda>cats c. if c \<in> set cats then cats else cats @ [c]) []
       (concat (map (\<lambda>r. rl_Category r # map rc_Category (rl_Reclassify r)) rules))"

text \<open>
  The detector value. A run that panics or does not end gives no spans here; \<open>detectRule_total\<close> shows that
  the run of a well-formed rule returns.
\<close>

definition NewRegexDetector :: "runtime \<Rightarrow> Rule list \<Rightarrow> detector" where
  "NewRegexDetector rt rules =
     (let f = (\<lambda>t. case DetectLower_regex rt rules t of Some ss \<Rightarrow> ss | None \<Rightarrow> []) in
      \<lparr> det_Name = ''regex'', det_Categories = Categories_regex rules,
        det_Detect = (\<lambda>x. f \<lparr> Raw = x, Lower = ToLower rt x \<rparr>), det_DetectLower = Some f \<rparr>)"

end
