(* ===== verification/Regex_Props.thy ===== *)
theory Regex_Props
  imports Regex_Detector
begin

text \<open>
  Properties of the rule-driven detector: every run of a well-formed rule returns, and what holds of every span it
  reports.
\<close>

subsection \<open>Keyword searches end\<close>

lemma last_kw_det_total:
  assumes "kw \<noteq> []"
  shows "\<exists>i. last_kw_det rt s kw n = Some i \<and> (0 \<le> i \<longrightarrow>
    occurs_at s kw (nat i) \<and> keywordAtBoundary_det rt s (nat i) (nat i + length kw))"
proof (induction n rule: less_induct)
  case (less n)
  show ?case
  proof (cases "LastIndex (take n s) kw")
    case (Some idx)
    then have occ: "occurs_at (take n s) kw idx" by (rule LastIndex_occurs)
    then have b: "idx + length kw \<le> length (take n s)" by (rule occurs_at_bound)
    have "occurs_at s kw idx" using occ b by (auto simp: occurs_at_def HasPrefix_def drop_take)
    moreover have "idx < n" using b assms by (cases kw) auto
    ultimately show ?thesis
      using Some less.IH [of idx] by (subst last_kw_det.simps) auto
  qed (simp add: last_kw_det.simps)
qed

lemma first_kw_det_total:
  assumes "kw \<noteq> []"
  shows "n \<le> length s \<Longrightarrow> \<exists>i. first_kw_det rt s kw n = Some i \<and> (0 \<le> i \<longrightarrow>
    occurs_at s kw (nat i) \<and> keywordAtBoundary_det rt s (nat i) (nat i + length kw))"
proof (induction "length s - n" arbitrary: n rule: less_induct)
  case less
  show ?case
  proof (cases "Index (drop n s) kw")
    case (Some i)
    then have "occurs_at (drop n s) kw i" by (simp add: Index_Some)
    then have occ: "occurs_at s kw (i + n)" using less.prems by (simp add: occurs_at_drop add.commute)
    then have b: "i + n + length kw \<le> length s" by (rule occurs_at_bound)
    with assms have "i + n < length s" by (cases kw) auto
    with occ less.hyps [of "i + n + 1"] Some less.prems show ?thesis
      by (subst first_kw_det.simps) (auto simp: Let_def nat_int_add)
  qed (use less.prems in \<open>simp add: first_kw_det.simps\<close>)
qed

lemma lastKeywordIndex_det_Some:
  assumes "kw \<noteq> []"
  obtains i where "lastKeywordIndex_det rt s kw = Some i" "0 \<le> i \<Longrightarrow> nat i + length kw \<le> length s"
  using last_kw_det_total [OF assms, of rt s "length s"] occurs_at_bound
  unfolding lastKeywordIndex_det_def by metis

lemma firstKeywordIndex_Some:
  assumes "kw \<noteq> []"
  obtains i where "firstKeywordIndex rt s kw = Some i" "0 \<le> i \<Longrightarrow> nat i + length kw \<le> length s"
  using first_kw_det_total [OF assms, of 0 s rt] occurs_at_bound
  unfolding firstKeywordIndex_def by (metis zero_le)

lemma left_best_total: "[] \<notin> set kws \<Longrightarrow> \<exists>b. left_best rt w kws best = Some b"
proof (induction kws arbitrary: best)
  case (Cons kw kws)
  then obtain i where "lastKeywordIndex_det rt w kw = Some i"
    using lastKeywordIndex_det_Some [of kw rt w] by force
  with Cons show ?case by (simp add: Let_def)
qed simp

lemma right_best_total: "[] \<notin> set kws \<Longrightarrow> \<exists>b. right_best rt w kws best = Some b"
proof (induction kws arbitrary: best)
  case (Cons kw kws)
  then obtain i where "firstKeywordIndex rt w kw = Some i"
    using firstKeywordIndex_Some [of kw rt w] by force
  with Cons show ?case by simp
qed simp

lemma leftContextImpl_total: "[] \<notin> set kws \<Longrightarrow> \<exists>c. leftContextImpl rt t pos n kws bd = Some c"
  using left_best_total [of kws rt "runeWindowBefore rt t pos n" "-1"]
  by (auto simp: leftContextImpl_def Let_def)

lemma rightContext_total: "[] \<notin> set kws \<Longrightarrow> \<exists>c. rightContext rt t pos n kws = Some c"
  using right_best_total [of kws rt "runeWindowAfter rt t pos n" "-1"]
  by (auto simp: rightContext_def Let_def)

lemmas context_total =
  leftContextImpl_total [where bd = True, folded leftContext_def]
  leftContextImpl_total [where bd = False, folded leftContextAnyGap_def] rightContext_total

subsection \<open>Well-formed rules\<close>

text \<open>No keyword is empty, and the groups of the patterns are numbered from left to right outside repetitions.\<close>

definition reclass_ok :: "ReclassifyRule \<Rightarrow> bool" where
  "reclass_ok rc \<longleftrightarrow> [] \<notin> set (rc_Context rc) \<and> [] \<notin> set (rc_ContextAfter rc)"

definition rule_ok :: "Rule \<Rightarrow> bool" where
  "rule_ok r \<longleftrightarrow>
     [] \<notin> set (contextLower r) \<and> [] \<notin> set (contextAfterLower r) \<and> [] \<notin> set (validatorSoftContextLower r) \<and>
     list_all reclass_ok (rl_Reclassify r) \<and> wf_caps (re_rx (rl_re r)) \<and>
     (case rl_reLower r of None \<Rightarrow> True | Some re \<Rightarrow> wf_caps (re_rx re))"

lemma ToLower_eq_Nil [simp]: "ToLower rt s = [] \<longleftrightarrow> s = []"
  by (simp add: ToLower_def)

lemma lowerAll_no_Nil [simp]: "[] \<in> set (lowerAll rt ks) \<longleftrightarrow> [] \<in> set ks"
  unfolding lowerAll_def by (simp add: image_iff) (metis ToLower_eq_Nil)

lemma BirthContexts_no_Nil: "[] \<notin> set BirthContexts" "[] \<notin> set dateWordRightContexts"
  by (simp_all add: BirthContexts_def dateWordRightContexts_def)

lemma dateBirthReclassify_total: "\<exists>c. dateBirthReclassify rt t a b = Some c"
  using context_total(1) [OF BirthContexts_no_Nil(1), of rt t a 120]
    context_total(3) [OF BirthContexts_no_Nil(2), of rt t b 40]
  by (auto simp: dateBirthReclassify_def)

lemma reclassify_loop_total: "list_all reclass_ok rcs \<Longrightarrow> \<exists>c. reclassify_loop rt r t a b rcs = Some c"
proof (induction rcs)
  case (Cons rc rcs)
  then have ne: "[] \<notin> set (rc_Context rc)" "[] \<notin> set (rc_ContextAfter rc)" by (simp_all add: reclass_ok_def)
  obtain x where "leftContext rt t a (or_default (rc_ContextWindow rc) (contextWindow r)) (rc_Context rc) = Some x"
    using context_total(1) [OF ne(1)] by blast
  moreover obtain y where
    "rightContext rt t b (or_default (rc_ContextAfterWindow rc) (contextAfterWindow r)) (rc_ContextAfter rc) = Some y"
    using context_total(3) [OF ne(2)] by blast
  ultimately show ?case using Cons by simp
qed simp

lemma reclassify_total: "rule_ok r \<Longrightarrow> \<exists>c. reclassify rt t a b r = Some c"
  using dateBirthReclassify_total reclassify_loop_total by (simp add: reclassify_def rule_ok_def)

lemma contextDistance_total:
  assumes "rule_ok r"
  shows "\<exists>c. contextDistance rt r t a b = Some c"
proof -
  have ne: "[] \<notin> set (contextLower r)" "[] \<notin> set (contextAfterLower r)"
    using assms by (simp_all add: rule_ok_def)
  from context_total(1,2) [OF ne(1), of rt t a "contextWindow r"] context_total(3) [OF ne(2)]
  show ?thesis by (auto simp: contextDistance_def split: option.splits)
qed

lemma matchConfidence_total: "rule_ok r \<Longrightarrow> \<exists>c. matchConfidence rt r t a b soft = Some c"
  using contextDistance_total [of r rt t a b] by (auto simp: matchConfidence_def Let_def)

lemma validatorSoftPassed_total: "rule_ok r \<Longrightarrow> \<exists>c. validatorSoftPassed rt r t a m = Some c"
  using context_total(1) [of "validatorSoftContextLower r" rt t a softContextWindow]
  by (auto simp: validatorSoftPassed_def softContextPresent_def rule_ok_def)

lemma rejectedByContext_total: "rule_ok r \<Longrightarrow> \<exists>c. rejectedByContext rt r t a b = Some c"
  using context_total(1) [of "contextLower r" rt t a "contextWindow r"]
  by (auto simp: rejectedByContext_def rule_ok_def split: option.splits)

lemma acceptsMatch_total:
  assumes "rule_ok r"
  shows "\<exists>c. acceptsMatch rt r t a b m = Some c"
  using validatorSoftPassed_total [OF assms, of rt t a m] rejectedByContext_total [OF assms, of rt t a b]
  by (auto simp: acceptsMatch_def)

subsection \<open>Trimming\<close>

lemma trim_bounds:
  assumes "e \<le> length raw" and "start \<le> e"
  shows "start \<le> trimTrailingSeparators raw start e" and "trimTrailingSeparators raw start e \<le> e"
    and "start < trimTrailingSeparators raw start e \<Longrightarrow>
      \<not> trailing_sep (fst (DecodeLastRune (take (trimTrailingSeparators raw start e - start) (drop start raw))))"
proof -
  have "start \<le> trimTrailingSeparators raw start e \<and> trimTrailingSeparators raw start e \<le> e \<and>
    (start < trimTrailingSeparators raw start e \<longrightarrow>
      \<not> trailing_sep (fst (DecodeLastRune (take (trimTrailingSeparators raw start e - start) (drop start raw)))))"
    using assms
  proof (induction raw start e rule: trimTrailingSeparators.induct)
    case (1 raw start e)
    obtain x k where d: "DecodeLastRune (take (e - start) (drop start raw)) = (x, k)" by fastforce
    show ?case
    proof (cases "start < e \<and> trailing_sep x")
      case True
      then have "k \<le> e - start" using trailing_step [OF d [symmetric]] "1.prems" by simp
      with True "1.IH" [OF _ d [symmetric] refl] "1.prems" d show ?thesis
        by (simp add: trimTrailingSeparators.simps [of raw start e]) linarith
    next
      case False
      then have "trimTrailingSeparators raw start e = e"
        using d by (auto simp: trimTrailingSeparators.simps [of raw start e])
      with False d "1.prems" show ?thesis by auto
    qed
  qed
  then show "start \<le> trimTrailingSeparators raw start e" and "trimTrailingSeparators raw start e \<le> e"
    and "start < trimTrailingSeparators raw start e \<Longrightarrow>
      \<not> trailing_sep (fst (DecodeLastRune (take (trimTrailingSeparators raw start e - start) (drop start raw))))"
    by blast+
qed

subsection \<open>Spans of matches\<close>

lemma group_range_caps:
  assumes "FindIndex s rx = Some m" "wf_caps rx" "group_range m g = Some (a, b)" "group_range m h = Some (c, d)"
    and "0 < g" "g \<le> h"
  shows "a \<le> b" and "b \<le> length s" and "a \<le> d" and "d \<le> length s"
proof -
  note c = FindIndex_caps(1) [OF assms(1,2)]
  have "(g, a, b) \<in> set (m_caps m)" "(h, c, d) \<in> set (m_caps m)"
    using assms(3-6) by (auto simp: group_range_def dest: map_of_SomeD)
  with caps_ok_range [OF c] caps_ok_order [OF c] assms(6)
  show "a \<le> b" and "b \<le> length s" and "a \<le> d" and "d \<le> length s" by blast+
qed

lemma map_filter_ends:
  assumes "List.map_filter f xs = y # ys" and "sorted xs"
  obtains i j where "f i = Some y" "f j = Some (last (y # ys))" "i \<le> j" "i \<in> set xs"
proof -
  let ?zs = "filter (\<lambda>x. f x \<noteq> None) xs"
  have m: "map (the \<circ> f) ?zs = y # ys" using assms(1) by (simp add: map_filter_def)
  then obtain z zs where z: "?zs = z # zs" by (cases ?zs) auto
  have "sorted ?zs" using assms(2) by (rule sorted_wrt_filter)
  then have "z \<le> last ?zs" using z by (cases zs rule: rev_cases) auto
  moreover have "f z = Some y" using m z by (metis (mono_tags, lifting) comp_apply filter_eq_Cons_iff
        list.inject list.simps(9) option.collapse)
  moreover have "f (last ?zs) = Some (last (y # ys))"
  proof -
    have "last ?zs \<in> set ?zs" using z by (intro last_in_set) simp
    then have "f (last ?zs) = Some (the (f (last ?zs)))" by auto
    also have "the (f (last ?zs)) = last (y # ys)" using m z by (metis comp_apply last_map list.distinct(1))
    finally show ?thesis .
  qed
  moreover have "z \<in> set xs" using z by (metis filter_is_subset list.set_intros(1) subset_iff)
  ultimately show thesis using that by blast
qed

lemma groupBounds_range:
  assumes "groupBounds s re g lo hi = Some (a, b)" "0 < g" "lo \<le> hi" "hi \<le> length s" and wf: "wf_caps (re_rx re)"
  shows "a \<le> b \<and> b \<le> hi"
proof -
  obtain m c d where m: "FindIndex (take (hi - lo) (drop lo s)) (re_rx re) = Some m" "group_range m g = Some (c, d)"
      "a = lo + c" "b = lo + d"
    using assms(1) by (auto simp: groupBounds_def split: option.splits if_splits)
  with group_range_caps [OF m(1) wf m(2,2)] assms(2-4) show ?thesis by simp
qed

lemma captureBounds_range:
  assumes "captureBounds s re lo hi = Some (a, b)" "lo \<le> hi" "hi \<le> length s" and wf: "wf_caps (re_rx re)"
  shows "a \<le> b \<and> b \<le> hi"
proof -
  let ?w = "take (hi - lo) (drop lo s)" and ?ns = "[1..<Suc (re_NumSubexp re)]"
  obtain m y ys where m: "FindIndex ?w (re_rx re) = Some m"
    and f: "List.map_filter (group_range m) ?ns = y # ys"
    and ab: "a = lo + fst y" "b = lo + snd (last (y # ys))"
    using assms(1) by (simp add: captureBounds_def split: option.splits list.splits)
  have "sorted ?ns" by (simp only: sorted_upt)
  from map_filter_ends [OF f this] obtain i j where
    ij: "group_range m i = Some y" "group_range m j = Some (last (y # ys))" "i \<le> j" "i \<in> set ?ns" by blast
  have "fst y \<le> snd (last (y # ys))" "snd (last (y # ys)) \<le> length ?w"
    using group_range_caps(3,4) [OF m wf, of i "fst y" "snd y" j "fst (last (y # ys))" "snd (last (y # ys))"] ij
    by auto
  with ab assms(2,3) show ?thesis by simp
qed

lemma spanBounds_range:
  assumes "loc \<in> set (FindAllIndex s (re_rx re))" and wf: "wf_caps (re_rx re)"
    and "spanBounds s re r loc = Some (a, b)"
  shows "a \<le> b" and "b \<le> length s"
proof -
  have l: "m_lo loc \<le> m_hi loc" "m_hi loc \<le> length s"
    using all_from_sound assms(1) unfolding FindAllIndex_def by blast+
  have "a \<le> b \<and> b \<le> m_hi loc"
    using assms(3) l groupBounds_range [OF _ _ l wf] captureBounds_range [OF _ l wf]
    by (auto simp: spanBounds_def split: if_splits)
  with l show "a \<le> b" and "b \<le> length s" by simp_all
qed

subsection \<open>The detector\<close>

lemma concat_opt_total: "\<forall>x \<in> set xs. \<exists>y. f x = Some y \<Longrightarrow> \<exists>ys. concat_opt f xs = Some ys"
  by (induction xs) auto

lemma concat_opt_mem:
  "concat_opt f xs = Some ys \<Longrightarrow> y \<in> set ys \<Longrightarrow> \<exists>x \<in> set xs. \<exists>zs. f x = Some zs \<and> y \<in> set zs"
  by (induction xs arbitrary: ys) (auto split: bind_splits)

lemma matchText_length: "matchText r t = (s, re) \<Longrightarrow> length s = length (Raw t)"
  by (auto simp: matchText_def LowerOK_def split: bool.splits option.splits if_splits)

lemma matchText_wf: "matchText r t = (s, re) \<Longrightarrow> rule_ok r \<Longrightarrow> wf_caps (re_rx re)"
  by (auto simp: matchText_def rule_ok_def split: bool.splits option.splits if_splits)

lemma detect_span_total:
  assumes ok: "rule_ok r" and "a \<le> b" and "b \<le> length (Raw t)"
  shows "\<exists>ss. detect_span rt t r a b = Some ss"
proof -
  let ?e = "trimTrailingSeparators (Raw t) a b"
  let ?m = "take (?e - a) (drop a (Raw t))"
  have "a \<le> ?e" "?e \<le> length (Raw t)" using trim_bounds(1,2) [OF assms(3,2)] assms(3) by auto
  then have m: "slice (Raw t) (int a) (int ?e) = Some ?m" by (rule slice_nat)
  obtain acc where acc: "acceptsMatch rt r t a ?e ?m = Some acc" using acceptsMatch_total [OF ok] by blast
  obtain cat where cat: "reclassify rt t a ?e r = Some cat" using reclassify_total [OF ok] by blast
  show ?thesis
  proof (cases acc)
    case None
    with m acc show ?thesis by (simp add: detect_span_def Let_def)
  next
    case (Some soft)
    obtain c where "matchConfidence rt r t a ?e soft = Some c" using matchConfidence_total [OF ok] by blast
    with Some m acc cat show ?thesis by (cases c) (simp_all add: detect_span_def Let_def)
  qed
qed

lemma detect_match_total:
  assumes "rule_ok r" and mt: "matchText r t = (s, re)" and "loc \<in> set (FindAllIndex s (re_rx re))"
  shows "\<exists>ss. detect_match rt t r loc = Some ss"
  using detect_span_total [OF assms(1)] spanBounds_range [OF assms(3) matchText_wf [OF mt assms(1)]]
  by (auto simp: detect_match_def mt matchText_length [OF mt] split: option.splits)

lemma detectRule_total: "rule_ok r \<Longrightarrow> \<exists>ss. detectRule rt t r = Some ss"
  using detect_match_total
  by (auto simp: detectRule_def split: prod.splits intro!: concat_opt_total)

lemma DetectLower_total: "list_all rule_ok rules \<Longrightarrow> \<exists>ss. DetectLower_regex rt rules t = Some ss"
  unfolding DetectLower_regex_def by (intro concat_opt_total) (auto simp: list_all_iff detectRule_total)

text \<open>What is known of a span when it is reported for the bytes \<open>a\<close> to \<open>e\<close>.\<close>

definition span_justified :: "runtime \<Rightarrow> Rule \<Rightarrow> Text \<Rightarrow> nat \<Rightarrow> nat \<Rightarrow> bool" where
  "span_justified rt r t a e \<longleftrightarrow>
     (let m = take (e - a) (drop a (Raw t)) in
      a \<le> e \<and> e \<le> length (Raw t) \<and>
      (a < e \<longrightarrow> \<not> trailing_sep (fst (DecodeLastRune m))) \<and>
      (rl_Validator r \<noteq> '''' \<longrightarrow> validatorPasses rt (rl_Validator r) m \<or>
         (\<exists>d. leftContext rt t a softContextWindow (validatorSoftContextLower r) = Some (Some d))) \<and>
      (standalone r \<longrightarrow> \<not> (0 < a \<and> isDigitByte (Raw t ! (a - 1))) \<and>
         \<not> (e < length (Raw t) \<and> isDigitByte (Raw t ! e))) \<and>
      (rl_NotInDigitSequence r \<longrightarrow> \<not> digitGroupBefore (Raw t) a \<and> \<not> digitGroupAfter (Raw t) e) \<and>
      \<not> list_ex (Contains (runeWindowBefore rt t a (rejectContextWindow r))) (rejectContextLower r) \<and>
      \<not> list_ex (Contains (runeWindowAfter rt t e (rejectContextWindow r))) (rejectContextLower r) \<and>
      (rl_RequireContext r \<longrightarrow> (\<exists>d. contextDistance rt r t a e = Some (Some d)) \<or>
         (\<exists>d. leftContext rt t a softContextWindow (validatorSoftContextLower r) = Some (Some d))))"

lemma soft_label:
  "validatorSoftPassed rt r t a m = Some True \<Longrightarrow>
     \<exists>d. leftContext rt t a softContextWindow (validatorSoftContextLower r) = Some (Some d)"
  by (auto simp: validatorSoftPassed_def softContextPresent_def split: if_splits bind_splits)

lemma not_rejected:
  assumes "rejectedByContext rt r t a e = Some False"
  shows "\<not> list_ex (Contains (runeWindowBefore rt t a (rejectContextWindow r))) (rejectContextLower r)"
    and "\<not> list_ex (Contains (runeWindowAfter rt t e (rejectContextWindow r))) (rejectContextLower r)"
  using assms
  by (auto simp: rejectedByContext_def denyContextLeft_def denyContextRight_def Let_def split: if_splits)

lemma acceptsMatch_sound:
  assumes "acceptsMatch rt r t a e m = Some (Some soft)"
  shows "rl_Validator r \<noteq> '''' \<Longrightarrow> validatorPasses rt (rl_Validator r) m \<or> soft"
    and "soft \<Longrightarrow> \<exists>d. leftContext rt t a softContextWindow (validatorSoftContextLower r) = Some (Some d)"
    and "standalone r \<Longrightarrow> standaloneBoundary (Raw t) a e"
    and "rl_NotInDigitSequence r \<Longrightarrow> \<not> inDigitSequence (Raw t) a e"
    and "rejectedByContext rt r t a e = Some False"
  using assms soft_label
  by (auto simp: acceptsMatch_def split: if_splits bind_splits)

lemma matchConfidence_sound:
  "matchConfidence rt r t a e soft = Some (Some c) \<Longrightarrow> rl_RequireContext r \<Longrightarrow>
     soft \<or> (\<exists>d. contextDistance rt r t a e = Some (Some d))"
  by (auto simp: matchConfidence_def Let_def split: if_splits bind_splits)

lemma detect_span_sound:
  assumes "detect_span rt t r a b = Some ss" and "s \<in> set ss" and "a \<le> b" and "b \<le> length (Raw t)"
  shows "\<exists>e. sp_Start s = int a \<and> sp_End s = int e \<and> sp_Detector s = ''regex'' \<and>
    reclassify rt t a e r = Some (sp_Category s) \<and> span_justified rt r t a e"
proof -
  let ?e = "trimTrailingSeparators (Raw t) a b"
  let ?m = "take (?e - a) (drop a (Raw t))"
  note tb = trim_bounds [OF assms(4,3)]
  then have "slice (Raw t) (int a) (int ?e) = Some ?m" using assms(4) by (intro slice_nat) auto
  with assms(1,2) obtain soft conf cat where
    acc: "acceptsMatch rt r t a ?e ?m = Some (Some soft)"
    and conf: "matchConfidence rt r t a ?e soft = Some (Some conf)"
    and cat: "reclassify rt t a ?e r = Some cat"
    and s: "s = \<lparr> sp_Start = int a, sp_End = int ?e, sp_Category = cat, sp_Detector = ''regex'', sp_Confidence = conf \<rparr>"
    by (auto simp: detect_span_def Let_def split: bind_splits option.splits)
  have "span_justified rt r t a ?e"
    using tb assms(4) acceptsMatch_sound [OF acc] not_rejected [OF acceptsMatch_sound(5) [OF acc]]
      matchConfidence_sound [OF conf]
    unfolding span_justified_def Let_def
    by (auto simp: standaloneBoundary_def inDigitSequence_def isDigitGroupAdjacent_def split: if_splits)
  with s cat show ?thesis by auto
qed

lemma detectRule_sound:
  assumes "rule_ok r" and "detectRule rt t r = Some ss" and "s \<in> set ss"
  shows "\<exists>a e. sp_Start s = int a \<and> sp_End s = int e \<and> sp_Detector s = ''regex'' \<and>
    reclassify rt t a e r = Some (sp_Category s) \<and> span_justified rt r t a e"
proof -
  obtain x re where mt: "matchText r t = (x, re)" by fastforce
  from assms(2,3) mt obtain loc zs where loc: "loc \<in> set (FindAllIndex x (re_rx re))"
    and d: "detect_match rt t r loc = Some zs" "s \<in> set zs"
    by (auto simp: detectRule_def dest: concat_opt_mem)
  then obtain a b where sb: "spanBounds x re r loc = Some (a, b)" "detect_span rt t r a b = Some zs"
    by (auto simp: detect_match_def mt split: option.splits)
  note bd = spanBounds_range [OF loc matchText_wf [OF mt assms(1)] sb(1)]
  from detect_span_sound [OF sb(2) d(2) bd(1)] bd(2) matchText_length [OF mt] show ?thesis by auto
qed

subsection \<open>Loading\<close>

text \<open>A rule of the rules file without empty keywords.\<close>

definition yaml_keywords_ok :: "yaml_rule \<Rightarrow> bool" where
  "yaml_keywords_ok r \<longleftrightarrow>
     [] \<notin> set (rl_Context r) \<and> [] \<notin> set (rl_ContextAfter r) \<and> [] \<notin> set (rl_ValidatorSoftContext r) \<and>
     list_all reclass_ok (rl_Reclassify r)"

lemma compileReclassify_ok: "reclass_ok (compileReclassify rt rc) \<longleftrightarrow> reclass_ok rc"
  by (simp add: reclass_ok_def compileReclassify_def)

lemma compiled_fields_ok:
  assumes "yaml_keywords_ok r" and "wf_caps (re_rx re)" and "case rl of None \<Rightarrow> True | Some x \<Rightarrow> wf_caps (re_rx x)"
  shows "rule_ok (compiled_fields rt re rl r)"
  using assms
  by (simp add: rule_ok_def compiled_fields_def yaml_keywords_ok_def yaml_rule.defs Rule.defs list_all_iff
      compileReclassify_ok)

text \<open>
  A rule of the file that the detector can run: no empty keyword, and in each of its patterns that compile the groups
  are numbered from left to right and do not stand under a repetition.
\<close>

definition pattern_ok :: "regexp option \<Rightarrow> bool" where
  "pattern_ok compiled \<longleftrightarrow> (case compiled of None \<Rightarrow> True | Some re \<Rightarrow> wf_caps (re_rx re))"

definition yaml_rule_ok :: "(string \<Rightarrow> regexp option) \<Rightarrow> yaml_rule \<Rightarrow> bool" where
  "yaml_rule_ok rxc r \<longleftrightarrow> yaml_keywords_ok r \<and> pattern_ok (rxc (rl_Pattern r)) \<and>
     (rl_MatchLower r \<longrightarrow> pattern_ok (rxc (''(?i)'' @ rl_Pattern r)))"

lemma compileRule_ok:
  assumes "compileRule rt rxc r = Inr c" and "yaml_rule_ok rxc r"
  shows "rule_ok c"
  using assms compiled_fields_ok
  by (auto simp: compileRule_def yaml_rule_ok_def pattern_ok_def split: option.splits if_splits)

lemma LoadRules_yaml_ok: "LoadRules rt rxc rs = Inr cs \<Longrightarrow> list_all (yaml_rule_ok rxc) rs \<Longrightarrow> list_all rule_ok cs"
proof (induction rs arbitrary: cs)
  case (Cons r rs)
  then show ?case using compileRule_ok by (auto split: sum.splits)
qed simp

lemma LoadRules_ok:
  assumes "\<And>p re. rxc p = Some re \<Longrightarrow> wf_caps (re_rx re)"
    and "LoadRules rt rxc rs = Inr cs" and "list_all yaml_keywords_ok rs"
  shows "list_all rule_ok cs"
proof -
  have "pattern_ok (rxc p)" for p using assms(1) by (simp add: pattern_ok_def split: option.split)
  then have "list_all (yaml_rule_ok rxc) rs" using assms(3) by (simp add: list_all_iff yaml_rule_ok_def)
  with assms(2) show ?thesis by (rule LoadRules_yaml_ok)
qed

subsection \<open>Claims\<close>

lemma DetectLower_sound:
  assumes "list_all rule_ok rules" and "DetectLower_regex rt rules t = Some ss" and "s \<in> set ss"
  shows "\<exists>r \<in> set rules. \<exists>a e. sp_Start s = int a \<and> sp_End s = int e \<and>
    reclassify rt t a e r = Some (sp_Category s) \<and> span_justified rt r t a e"
proof -
  from assms(2,3) obtain r zs where r: "r \<in> set rules" and d: "detectRule rt t r = Some zs" "s \<in> set zs"
    unfolding DetectLower_regex_def by (blast dest: concat_opt_mem)
  from r assms(1) have "rule_ok r" by (simp add: list_all_iff)
  from detectRule_sound [OF this d] r show ?thesis by blast
qed

text \<open>
  C25. The detector loaded from a rules file returns on every text, if no keyword in the file is empty and in no pattern
  of the file a group stands under a repetition: no keyword search loops, no slice is out of range. Both conditions are
  needed: an empty keyword makes the search loop, and with a repeated group \<^verbatim>\<open>captureBounds\<close> can start after its end
  (\<open>repeated_group_panics\<close> in theory Regex_Witness).
\<close>

theorem regex_detection_returns:
  assumes "LoadRules rt rxc file = Inr rules" and "list_all (yaml_rule_ok rxc) file"
  shows "\<exists>ss. DetectLower_regex rt rules t = Some ss"
  using LoadRules_yaml_ok [OF assms] by (rule DetectLower_total)

text \<open>
  C24. Every span the detector reports is in range, does not end in a separator and is justified by one of its
  rules: the validator accepts exactly the bytes of the span or a label of the rule stands within 25 runes to
  its left; under \<^verbatim>\<open>standalone\<close> no digit touches it; under \<^verbatim>\<open>not_in_digit_sequence\<close> no group of digits is next to it; no
  reject keyword is in the windows on either side; under \<^verbatim>\<open>require_context\<close> a context keyword (or the label)
  was found; and the category is the rule's reclassification.
\<close>

theorem regex_spans_justified:
  assumes "\<And>p re. rxc p = Some re \<Longrightarrow> wf_caps (re_rx re)"
    and "LoadRules rt rxc file = Inr rules" and "list_all yaml_keywords_ok file"
    and "DetectLower_regex rt rules t = Some ss" and "s \<in> set ss"
  shows "\<exists>r \<in> set rules. \<exists>a e. sp_Start s = int a \<and> sp_End s = int e \<and>
    reclassify rt t a e r = Some (sp_Category s) \<and> span_justified rt r t a e"
  using DetectLower_sound [OF LoadRules_ok [OF assms(1-3)] assms(4,5)] .

end
