(* ===== verification/Mask_Core.thy ===== *)
theory Mask_Core
  imports Resolve
begin

text \<open>
  \<^verbatim>\<open>internal/mask/mask.go\<close>: the per-document state, the strategy interface, \<^verbatim>\<open>Apply\<close>, which
  replaces spans and records where each replacement lies in the masked text, and
  \<^verbatim>\<open>Restore\<close>, which puts the originals back into a text that may have been edited.
  A pointer to a document is an option, \<^term>\<open>None\<close> being nil. \<^verbatim>\<open>Apply\<close> and \<^verbatim>\<open>Restore\<close> slice
  byte strings, so their models return \<^term>\<open>None\<close> where Go would panic; that they never do is
  proved below.
\<close>

subsection \<open>Document state and strategies\<close>

record DocState =
  doc_memo :: "string \<rightharpoonup> string"
  doc_seq :: "category \<rightharpoonup> nat"

definition NewDocState :: DocState where
  "NewDocState = \<lparr> doc_memo = Map.empty, doc_seq = Map.empty \<rparr>"

definition Memo :: "DocState \<Rightarrow> string \<Rightarrow> string" where
  "Memo d value = (case doc_memo d value of None \<Rightarrow> '''' | Some m \<Rightarrow> m)"

definition Remember :: "DocState \<Rightarrow> string \<Rightarrow> string \<Rightarrow> DocState" where
  "Remember d value replacement = d\<lparr> doc_memo := (doc_memo d)(value \<mapsto> replacement) \<rparr>"

definition Next :: "DocState \<Rightarrow> category \<Rightarrow> nat \<times> DocState" where
  "Next d cat =
     (let n = Suc (case doc_seq d cat of None \<Rightarrow> 0 | Some k \<Rightarrow> k)
      in (n, d\<lparr> doc_seq := (doc_seq d)(cat \<mapsto> n) \<rparr>))"

type_synonym mask_fun = "string \<Rightarrow> category \<Rightarrow> DocState option \<Rightarrow> string \<times> DocState option"

record strategy =
  st_Name :: string
  st_Mask :: mask_fun

text \<open>
  The part every strategy shares: answer from the memo when it has an entry that is not empty,
  otherwise compute the replacement and remember it.
\<close>

definition memo_hit :: "DocState option \<Rightarrow> string \<Rightarrow> string option" where
  "memo_hit doc value =
     (case doc of
        None \<Rightarrow> None
      | Some d \<Rightarrow> if Memo d value \<noteq> '''' then Some (Memo d value) else None)"

definition remember_opt :: "DocState option \<Rightarrow> string \<Rightarrow> string \<Rightarrow> DocState option" where
  "remember_opt doc value out = map_option (\<lambda>d. Remember d value out) doc"

subsection \<open>Replacements and Apply\<close>

record Replacement =
  rep_Category :: category
  rep_Original :: string
  rep_Masked :: string
  rep_Start :: int
  rep_End :: int

text \<open>
  The loop of \<^verbatim>\<open>Apply\<close> over the sorted spans; \<open>b\<close> is the builder's content and \<open>pos\<close> the first
  byte of the text not yet copied.
\<close>

fun apply_loop ::
  "strategy \<Rightarrow> string \<Rightarrow> Span list \<Rightarrow> string \<Rightarrow> Replacement list \<Rightarrow> int \<Rightarrow> DocState option
     \<Rightarrow> (string \<times> Replacement list \<times> DocState option) option" where
  "apply_loop s text [] b reps pos doc =
     do { rest \<leftarrow> slice_from text pos; Some (b @ rest, reps, doc) }"
| "apply_loop s text (sp # sps) b reps pos doc =
     (if sp_Start sp < pos then apply_loop s text sps b reps pos doc
      else if sp_Start sp > int (length text) \<or> sp_End sp > int (length text)
              \<or> sp_Start sp \<ge> sp_End sp
      then apply_loop s text sps b reps pos doc
      else do {
        value \<leftarrow> slice text (sp_Start sp) (sp_End sp);
        let (replacement, doc') = st_Mask s value (sp_Category sp) doc;
        gap \<leftarrow> slice text pos (sp_Start sp);
        let start = int (length (b @ gap));
        let b' = b @ gap @ replacement;
        apply_loop s text sps b'
          (reps @ [\<lparr> rep_Category = sp_Category sp, rep_Original = value,
                     rep_Masked = replacement, rep_Start = start, rep_End = int (length b') \<rparr>])
          (sp_End sp) doc'
      })"

definition Apply ::
  "runtime \<Rightarrow> string \<Rightarrow> Span list \<Rightarrow> strategy \<Rightarrow> DocState option
     \<Rightarrow> (string \<times> Replacement list \<times> DocState option) option" where
  "Apply rt text spans s doc =
     (let doc = (case doc of None \<Rightarrow> Some NewDocState | Some d \<Rightarrow> Some d)
      in apply_loop s text (sort_slice (sort_perm rt) span_less spans) '''' [] 0 doc)"

subsection \<open>Restore\<close>

record claim =
  cl_start :: int
  cl_end :: int
  cl_original :: string

definition inBounds :: "string \<Rightarrow> int \<Rightarrow> int \<Rightarrow> bool" where
  "inBounds masked start end \<longleftrightarrow> start \<ge> 0 \<and> end \<ge> start \<and> end \<le> int (length masked)"

definition overlapsAny :: "claim list \<Rightarrow> int \<Rightarrow> int \<Rightarrow> bool" where
  "overlapsAny claims start end \<longleftrightarrow>
     list_ex (\<lambda>c. start < cl_end c \<and> end > cl_start c) claims"

text \<open>
  \<^verbatim>\<open>findUnclaimed\<close>: the loop over \<^verbatim>\<open>searchFrom\<close>; its guard keeps \<^verbatim>\<open>masked[searchFrom:]\<close> in range.
\<close>

function find_loop :: "string \<Rightarrow> string \<Rightarrow> claim list \<Rightarrow> nat \<Rightarrow> (int \<times> int) option" where
  "find_loop masked token claims searchFrom =
     (if searchFrom \<le> length masked then
        (case Index (drop searchFrom masked) token of
           None \<Rightarrow> None
         | Some idx \<Rightarrow>
             let start = searchFrom + idx; end = start + length token in
             if \<not> overlapsAny claims (int start) (int end) then Some (int start, int end)
             else find_loop masked token claims (start + 1))
      else None)"
  by pat_completeness auto
termination
  by (relation "measure (\<lambda>(masked, _, _, searchFrom). length masked + 1 - searchFrom)") auto

declare find_loop.simps [simp del]

definition findUnclaimed :: "string \<Rightarrow> string \<Rightarrow> claim list \<Rightarrow> (int \<times> int) option" where
  "findUnclaimed masked token claims =
     (if token = '''' then None else find_loop masked token claims 0)"

text \<open>The test of phase 1; the slice is only taken after the bounds are checked.\<close>

definition at_recorded_pos :: "string \<Rightarrow> Replacement \<Rightarrow> bool option" where
  "at_recorded_pos masked r =
     (if inBounds masked (rep_Start r) (rep_End r)
      then do { m \<leftarrow> slice masked (rep_Start r) (rep_End r); Some (m = rep_Masked r) }
      else Some False)"

text \<open>A claim at the recorded position of a replacement.\<close>

definition rep_claim :: "Replacement \<Rightarrow> claim" where
  "rep_claim r = \<lparr> cl_start = rep_Start r, cl_end = rep_End r, cl_original = rep_Original r \<rparr>"

fun restore_phase1 ::
  "string \<Rightarrow> Replacement list \<Rightarrow> claim list \<Rightarrow> Replacement list
     \<Rightarrow> (claim list \<times> Replacement list) option" where
  "restore_phase1 masked [] claims unresolved = Some (claims, unresolved)"
| "restore_phase1 masked (r # rs) claims unresolved =
     do {
       ok \<leftarrow> at_recorded_pos masked r;
       if ok \<and> \<not> overlapsAny claims (rep_Start r) (rep_End r)
       then restore_phase1 masked rs (claims @ [rep_claim r]) unresolved
       else restore_phase1 masked rs claims (unresolved @ [r])
     }"

fun restore_phase2 ::
  "string \<Rightarrow> Replacement list \<Rightarrow> claim list \<Rightarrow> nat \<Rightarrow> claim list \<times> nat" where
  "restore_phase2 masked [] claims misses = (claims, misses)"
| "restore_phase2 masked (r # rs) claims misses =
     (case findUnclaimed masked (rep_Masked r) claims of
        None \<Rightarrow> restore_phase2 masked rs claims (misses + 1)
      | Some (start, end) \<Rightarrow>
          restore_phase2 masked rs
            (claims @ [\<lparr> cl_start = start, cl_end = end, cl_original = rep_Original r \<rparr>]) misses)"

fun restore_build ::
  "string \<Rightarrow> claim list \<Rightarrow> int \<Rightarrow> string \<Rightarrow> nat \<Rightarrow> (string \<times> nat) option" where
  "restore_build masked [] pos b misses =
     do { rest \<leftarrow> slice_from masked pos; Some (b @ rest, misses) }"
| "restore_build masked (c # cs) pos b misses =
     (if cl_start c < pos \<or> \<not> inBounds masked (cl_start c) (cl_end c)
      then restore_build masked cs pos b (misses + 1)
      else do {
        gap \<leftarrow> slice masked pos (cl_start c);
        restore_build masked cs (cl_end c) (b @ gap @ cl_original c) misses
      })"

definition rep_less :: "Replacement \<Rightarrow> Replacement \<Rightarrow> bool" where
  "rep_less a b \<longleftrightarrow> rep_Start a < rep_Start b"

definition claim_less :: "claim \<Rightarrow> claim \<Rightarrow> bool" where
  "claim_less a b \<longleftrightarrow> cl_start a < cl_start b"

definition Restore :: "runtime \<Rightarrow> string \<Rightarrow> Replacement list \<Rightarrow> (string \<times> nat) option" where
  "Restore rt masked reps =
     do {
       (claims, unresolved) \<leftarrow>
         restore_phase1 masked (sort_slice (sort_perm rt) rep_less reps) [] [];
       let (claims, misses) = restore_phase2 masked unresolved claims 0;
       restore_build masked (sort_slice (sort_perm rt) claim_less claims) 0 '''' misses
     }"

lemma rep_claim_simps [simp]:
  "cl_start (rep_claim r) = rep_Start r"
  "cl_end (rep_claim r) = rep_End r"
  "cl_original (rep_claim r) = rep_Original r"
  by (simp_all add: rep_claim_def)

lemma rep_less_strict_weak: "strict_weak rep_less"
  unfolding rep_less_def by (rule strict_weak_key)

lemma claim_less_strict_weak: "strict_weak claim_less"
  unfolding claim_less_def by (rule strict_weak_key)

subsection \<open>Apply: totality and layout\<close>

text \<open>
  The layout of a masked text: gaps copied from the original alternate with replacements.
  \<open>lay_ok n\<close> says that the recorded offsets are the real ones when \<open>n\<close> bytes precede.
\<close>

fun lay_masked :: "(string \<times> Replacement) list \<Rightarrow> string" where
  "lay_masked [] = ''''"
| "lay_masked ((g, r) # xs) = g @ rep_Masked r @ lay_masked xs"

fun lay_orig :: "(string \<times> Replacement) list \<Rightarrow> string" where
  "lay_orig [] = ''''"
| "lay_orig ((g, r) # xs) = g @ rep_Original r @ lay_orig xs"

fun lay_ok :: "nat \<Rightarrow> (string \<times> Replacement) list \<Rightarrow> bool" where
  "lay_ok n [] \<longleftrightarrow> True"
| "lay_ok n ((g, r) # xs) \<longleftrightarrow>
     rep_Start r = int (n + length g) \<and>
     rep_End r = int (n + length g + length (rep_Masked r)) \<and>
     lay_ok (n + length g + length (rep_Masked r)) xs"

lemma lay_masked_append [simp]: "lay_masked (xs @ ys) = lay_masked xs @ lay_masked ys"
  by (induction xs rule: lay_masked.induct) auto

lemma lay_orig_append [simp]: "lay_orig (xs @ ys) = lay_orig xs @ lay_orig ys"
  by (induction xs rule: lay_orig.induct) auto

lemma lay_ok_append [simp]:
  "lay_ok n (xs @ ys) \<longleftrightarrow> lay_ok n xs \<and> lay_ok (n + length (lay_masked xs)) ys"
  by (induction n xs rule: lay_ok.induct) (auto simp: add.assoc)

text \<open>What the masking code relies on a strategy for.\<close>

locale mask_strategy =
  fixes mask :: mask_fun
  assumes mask_nonempty: "value \<noteq> '''' \<Longrightarrow> fst (mask value cat doc) \<noteq> ''''"
    and mask_hit: "memo_hit doc value = Some m \<Longrightarrow> mask value cat doc = (m, doc)"
    and mask_miss: "memo_hit (Some d) value = None \<Longrightarrow>
      \<exists>m d'. mask value cat (Some d) = (m, Some d') \<and> doc_memo d' = (doc_memo d)(value \<mapsto> m)"

lemma memo_hit_upd:
  "doc_memo d' = (doc_memo d)(v \<mapsto> m) \<Longrightarrow>
   memo_hit (Some d') w = (if w = v then (if m = '''' then None else Some m) else memo_hit (Some d) w)"
  by (simp add: memo_hit_def Memo_def)

lemma memo_hit_nonempty: "memo_hit doc v = Some m \<Longrightarrow> m \<noteq> ''''"
  by (auto simp: memo_hit_def split: option.splits if_splits)

context mask_strategy
begin

lemma mask_step:
  assumes "value \<noteq> ''''"
  obtains m d' where "mask value cat (Some d) = (m, Some d')" "m \<noteq> ''''"
    and "memo_hit (Some d') value = Some m"
    and "\<And>w n. memo_hit (Some d) w = Some n \<Longrightarrow> memo_hit (Some d') w = Some n"
proof (cases "memo_hit (Some d) value")
  case None
  from mask_miss [OF this, of cat] obtain m d' where
    m: "mask value cat (Some d) = (m, Some d')" and d': "doc_memo d' = (doc_memo d)(value \<mapsto> m)"
    by blast
  have "m \<noteq> ''''" using mask_nonempty [OF assms, of cat "Some d"] m by simp
  with m d' None show thesis
    by (intro that [of m d']) (auto simp: memo_hit_upd)
next
  case (Some m)
  with mask_hit [OF Some] memo_hit_nonempty [OF Some] show thesis
    by (intro that [of m d]) auto
qed

end

text \<open>What \<^verbatim>\<open>Apply\<close> establishes for a text: the layout, non-empty values, and the memo.\<close>

definition lay_reps :: "(string \<times> Replacement) list \<Rightarrow> DocState \<Rightarrow> bool" where
  "lay_reps xs d \<longleftrightarrow>
     lay_ok 0 xs \<and>
     (\<forall>(g, r) \<in> set xs. rep_Original r \<noteq> '''' \<and> rep_Masked r \<noteq> '''' \<and>
        memo_hit (Some d) (rep_Original r) = Some (rep_Masked r))"

lemma apply_loop_layout:
  assumes "mask_strategy (st_Mask s)"
    and "slice text 0 pos = Some (lay_orig xs)" and "lay_reps xs d"
  shows "\<exists>ys rest d'. apply_loop s text sps (lay_masked xs) (map snd xs) pos (Some d) =
           Some (lay_masked ys @ rest, map snd ys, Some d') \<and>
         text = lay_orig ys @ rest \<and> lay_reps ys d'"
  using assms(2,3)
proof (induction sps arbitrary: xs pos d)
  case Nil
  from Nil.prems(1) have "0 \<le> pos" "pos \<le> int (length text)"
    and x: "lay_orig xs = take (nat pos) text"
    by (auto simp: slice_def split: if_splits)
  then have "slice_from text pos = Some (drop (nat pos) text)"
    by (simp add: slice_def nat_diff_distrib')
  moreover have "text = lay_orig xs @ drop (nat pos) text" by (simp add: x)
  ultimately show ?case using Nil.prems(2) by auto
next
  case (Cons sp sps)
  have bd: "0 \<le> pos" "pos \<le> int (length text)"
    using Cons.prems(1) by (auto simp: slice_def split: if_splits)
  show ?case
  proof (cases "sp_Start sp < pos \<or> sp_Start sp > int (length text) \<or> sp_End sp > int (length text)
                  \<or> sp_Start sp \<ge> sp_End sp")
    case True
    then have "apply_loop s text (sp # sps) (lay_masked xs) (map snd xs) pos (Some d) =
               apply_loop s text sps (lay_masked xs) (map snd xs) pos (Some d)"
      by auto
    with Cons.IH [OF Cons.prems] show ?thesis by simp
  next
    case False
    define v where "v = take (nat (sp_End sp - sp_Start sp)) (drop (nat (sp_Start sp)) text)"
    define g where "g = take (nat (sp_Start sp - pos)) (drop (nat pos) text)"
    have v: "slice text (sp_Start sp) (sp_End sp) = Some v" and g: "slice text pos (sp_Start sp) = Some g"
      using False bd by (auto simp: slice_def v_def g_def)
    have ne: "v \<noteq> ''''" using slice_length [OF v] False by auto
    obtain m d' where m: "st_Mask s v (sp_Category sp) (Some d) = (m, Some d')" "m \<noteq> ''''"
      and hit: "memo_hit (Some d') v = Some m"
      and keep: "\<And>w n. memo_hit (Some d) w = Some n \<Longrightarrow> memo_hit (Some d') w = Some n"
      by (rule mask_strategy.mask_step [OF assms(1) ne, where cat = "sp_Category sp" and d = d]) blast
    define r where "r = \<lparr> rep_Category = sp_Category sp, rep_Original = v, rep_Masked = m,
        rep_Start = int (length (lay_masked xs @ g)), rep_End = int (length (lay_masked xs @ g @ m)) \<rparr>"
    have step: "apply_loop s text (sp # sps) (lay_masked xs) (map snd xs) pos (Some d) =
        apply_loop s text sps (lay_masked (xs @ [(g, r)])) (map snd (xs @ [(g, r)])) (sp_End sp) (Some d')"
      using False v g m by (simp add: r_def)
    have "slice text 0 (sp_End sp) = Some (lay_orig (xs @ [(g, r)]))"
      using slice_join [OF slice_join [OF Cons.prems(1) g] v] by (simp add: r_def)
    moreover have "lay_reps (xs @ [(g, r)]) d'"
      using Cons.prems(2) hit keep ne m(2) by (auto simp: lay_reps_def r_def)
    ultimately show ?thesis unfolding step by (rule Cons.IH)
  qed
qed

lemma Apply_layout:
  assumes "mask_strategy (st_Mask s)"
  obtains ys rest d' where
    "Apply rt text spans s doc = Some (lay_masked ys @ rest, map snd ys, Some d')"
    "text = lay_orig ys @ rest" "lay_reps ys d'"
proof -
  obtain d where d: "(case doc of None \<Rightarrow> Some NewDocState | Some d \<Rightarrow> Some d) = Some d"
    by (cases doc) auto
  have "slice text 0 0 = Some (lay_orig [])" by (simp add: slice_def)
  from apply_loop_layout [OF assms this, of d "sort_slice (sort_perm rt) span_less spans"]
  show thesis using that d by (auto simp: Apply_def lay_reps_def)
qed

text \<open>An invariant of the document that every masking step keeps holds after \<^verbatim>\<open>Apply\<close>.\<close>

lemma apply_loop_invariant:
  assumes "mask_strategy (st_Mask s)"
    and step: "\<And>v c d m d'. I d \<Longrightarrow> c \<in> C \<Longrightarrow> st_Mask s v c (Some d) = (m, Some d') \<Longrightarrow> I d'"
  shows "I d \<Longrightarrow> \<forall>sp \<in> set sps. sp_Category sp \<in> C \<Longrightarrow>
         apply_loop s text sps b reps pos (Some d) = Some (masked, reps', Some d') \<Longrightarrow> I d'"
proof (induction sps arbitrary: b reps pos d)
  case Nil
  then show ?case by (auto split: bind_splits)
next
  case (Cons sp sps)
  show ?case
  proof (cases "sp_Start sp < pos \<or> sp_Start sp > int (length text) \<or> sp_End sp > int (length text)
                  \<or> sp_Start sp \<ge> sp_End sp")
    case True
    with Cons show ?thesis by (auto split: if_splits)
  next
    case False
    with Cons.prems(3) obtain v g where v: "slice text (sp_Start sp) (sp_End sp) = Some v"
      and g: "slice text pos (sp_Start sp) = Some g"
      by (auto split: bind_splits prod.splits)
    have "v \<noteq> ''''" using slice_length [OF v] False by auto
    then obtain m d1 where m: "st_Mask s v (sp_Category sp) (Some d) = (m, Some d1)"
      by (rule mask_strategy.mask_step [OF assms(1), where cat = "sp_Category sp" and d = d])
    have "I d1" using step [OF Cons.prems(1) _ m] Cons.prems(2) by simp
    with Cons.IH [of d1] Cons.prems False v g m show ?thesis by simp
  qed
qed

lemma Apply_invariant:
  assumes "go_runtime rt" and "mask_strategy (st_Mask s)"
    and "\<And>v c d m d'. I d \<Longrightarrow> c \<in> C \<Longrightarrow> st_Mask s v c (Some d) = (m, Some d') \<Longrightarrow> I d'"
    and "I d" and "\<forall>sp \<in> set spans. sp_Category sp \<in> C"
    and "Apply rt text spans s (Some d) = Some (masked, reps, Some d')"
  shows "I d'"
proof -
  have cats: "\<forall>sp \<in> set (sort_slice (sort_perm rt) span_less spans). sp_Category sp \<in> C"
    using assms(5) go_runtime.sorted_spans_set [OF assms(1)] by simp
  have run: "apply_loop s text (sort_slice (sort_perm rt) span_less spans) '''' [] 0 (Some d)
      = Some (masked, reps, Some d')"
    using assms(6) by (simp add: Apply_def)
  show ?thesis
    by (rule apply_loop_invariant [where I = I and C = C, OF assms(2) _ assms(4) cats run])
       (rule assms(3))
qed

subsection \<open>Restore after Apply\<close>

abbreviation masks_nonempty :: "(string \<times> Replacement) list \<Rightarrow> bool" where
  "masks_nonempty xs \<equiv> \<forall>x \<in> set xs. rep_Masked (snd x) \<noteq> ''''"

lemma lay_ok_start: "lay_ok n xs \<Longrightarrow> x \<in> set xs \<Longrightarrow> int n \<le> rep_Start (snd x)"
  by (induction n xs rule: lay_ok.induct) force+

lemma lay_ok_increasing:
  "lay_ok n xs \<Longrightarrow> masks_nonempty xs \<Longrightarrow> sorted_wrt rep_less (map snd xs)"
proof (induction n xs rule: lay_ok.induct)
  case (2 n g r xs)
  have "rep_Start r < rep_Start (snd x)" if "x \<in> set xs" for x
  proof -
    have "lay_ok (n + length g + length (rep_Masked r)) xs" using 2(2) by simp
    from lay_ok_start [OF this that]
    have "int (n + length g + length (rep_Masked r)) \<le> rep_Start (snd x)" .
    moreover have "0 < length (rep_Masked r)" using 2(3) by simp
    moreover have "rep_Start r = int (n + length g)" using 2(2) by simp
    ultimately show ?thesis by linarith
  qed
  with 2 show ?case by (auto simp: rep_less_def)
qed simp

lemma phase1_layout:
  assumes "masked = pre @ lay_masked xs @ rest" and "lay_ok (length pre) xs"
    and "\<forall>c \<in> set claims. cl_end c \<le> int (length pre)"
  shows "restore_phase1 masked (map snd xs) claims [] =
         Some (claims @ map (\<lambda>x. rep_claim (snd x)) xs, [])"
  using assms
proof (induction xs arbitrary: pre claims)
  case (Cons x xs)
  obtain g r where x: "x = (g, r)" by fastforce
  have m: "masked = (pre @ g) @ rep_Masked r @ (lay_masked xs @ rest)"
    using Cons.prems(1) x by simp
  have pos: "rep_Start r = int (length (pre @ g))"
      "rep_End r = int (length (pre @ g)) + int (length (rep_Masked r))"
    and ok: "lay_ok (length (pre @ g @ rep_Masked r)) xs"
    using Cons.prems(2) x by (auto simp: add.assoc)
  have "slice masked (rep_Start r) (rep_End r) = Some (rep_Masked r)"
    unfolding m pos by (rule slice_append_mid)
  then have "at_recorded_pos masked r = Some True"
    by (auto simp: at_recorded_pos_def inBounds_def slice_def split: if_splits)
  moreover have "\<not> overlapsAny claims (rep_Start r) (rep_End r)"
    using Cons.prems(3) by (auto simp: overlapsAny_def list_ex_iff pos)
  moreover have "restore_phase1 masked (map snd xs) (claims @ [rep_claim r]) [] =
        Some ((claims @ [rep_claim r]) @ map (\<lambda>x. rep_claim (snd x)) xs, [])"
    using Cons.prems(3) m ok by (intro Cons.IH [of "pre @ g @ rep_Masked r"]) (auto simp: pos)
  ultimately show ?case by (simp add: x)
qed simp

lemma build_layout:
  assumes "masked = pre @ lay_masked xs @ rest" and "lay_ok (length pre) xs"
  shows "restore_build masked (map (\<lambda>x. rep_claim (snd x)) xs) (int (length pre)) b misses =
         Some (b @ lay_orig xs @ rest, misses)"
  using assms
proof (induction xs arbitrary: pre b)
  case Nil
  then show ?case by (simp add: slice_def)
next
  case (Cons x xs)
  obtain g r where x: "x = (g, r)" by fastforce
  have m: "masked = (pre @ g @ rep_Masked r) @ lay_masked xs @ rest"
    using Cons.prems(1) x by simp
  have pos: "rep_Start r = int (length pre) + int (length g)"
      "rep_End r = int (length (pre @ g @ rep_Masked r))"
    and ok: "lay_ok (length (pre @ g @ rep_Masked r)) xs"
    using Cons.prems(2) x by (auto simp: add.assoc)
  have "slice masked (int (length pre)) (rep_Start r) = Some g"
    unfolding pos using slice_append_mid [of pre g "rep_Masked r @ lay_masked xs @ rest"] m by simp
  moreover have "inBounds masked (rep_Start r) (rep_End r)"
    by (simp add: inBounds_def pos m)
  moreover have "int (length pre) \<le> rep_Start r" by (simp add: pos)
  moreover have "restore_build masked (map (\<lambda>x. rep_claim (snd x)) xs) (rep_End r)
        (b @ g @ rep_Original r) misses = Some ((b @ g @ rep_Original r) @ lay_orig xs @ rest, misses)"
    unfolding pos by (rule Cons.IH [OF m ok])
  ultimately show ?case by (simp add: x)
qed

context go_runtime
begin

lemma Restore_layout:
  assumes "masked = lay_masked xs @ rest" and "lay_ok 0 xs" and "masks_nonempty xs"
  shows "Restore rt masked (map snd xs) = Some (lay_orig xs @ rest, 0)"
proof -
  have inc: "sorted_wrt rep_less (map snd xs)" by (rule lay_ok_increasing [OF assms(2,3)])
  then have s1: "sort_slice (sort_perm rt) rep_less (map snd xs) = map snd xs"
    by (rule sort_slice_id [OF rep_less_strict_weak])
  have "sorted_wrt claim_less (map (\<lambda>x. rep_claim (snd x)) xs)"
    using inc by (simp add: sorted_wrt_map claim_less_def rep_less_def)
  then have s2: "sort_slice (sort_perm rt) claim_less (map (\<lambda>x. rep_claim (snd x)) xs) = map (\<lambda>x. rep_claim (snd x)) xs"
    by (rule sort_slice_id [OF claim_less_strict_weak])
  have p1: "restore_phase1 masked (map snd xs) [] [] = Some (map (\<lambda>x. rep_claim (snd x)) xs, [])"
    using phase1_layout [of masked "[]" xs rest "[]"] assms by simp
  show ?thesis
    using build_layout [of masked "[]" xs rest "''''" 0] assms(1,2) p1 s1 s2
    by (simp add: Restore_def)
qed

end

subsection \<open>Restore on any record: totality and soundness\<close>

lemma at_recorded_pos_cases:
  "at_recorded_pos masked r =
     Some (slice masked (rep_Start r) (rep_End r) = Some (rep_Masked r))"
  by (auto simp: at_recorded_pos_def inBounds_def slice_def)

text \<open>Claims paired with the replacements they came from.\<close>

definition claims_from :: "string \<Rightarrow> claim list \<Rightarrow> Replacement list \<Rightarrow> bool" where
  "claims_from masked claims us \<longleftrightarrow>
     list_all2 (\<lambda>c r. cl_original c = rep_Original r \<and>
                 slice masked (cl_start c) (cl_end c) = Some (rep_Masked r)) claims us"

abbreviation apart :: "claim \<Rightarrow> claim \<Rightarrow> bool" where
  "apart a b \<equiv> \<not> (cl_start a < cl_end b \<and> cl_start b < cl_end a)"

lemma not_overlapsAny_apart:
  "\<not> overlapsAny claims (cl_start d) (cl_end d) \<longleftrightarrow> (\<forall>c \<in> set claims. apart c d)"
  by (auto simp: overlapsAny_def list_ex_iff)

lemma phase1_sound:
  assumes "claims_from masked claims us" and "sorted_wrt apart claims"
  shows "\<exists>claims' unres' us'. restore_phase1 masked rs claims unres = Some (claims', unres') \<and>
           claims_from masked claims' us' \<and> sorted_wrt apart claims' \<and>
           mset us' + mset unres' = mset us + mset unres + mset rs"
  using assms
proof (induction rs arbitrary: claims us unres)
  case (Cons r rs)
  show ?case
  proof (cases "slice masked (rep_Start r) (rep_End r) = Some (rep_Masked r) \<and>
                \<not> overlapsAny claims (rep_Start r) (rep_End r)")
    case True
    have "claims_from masked (claims @ [rep_claim r]) (us @ [r])"
      using Cons.prems(1) True by (simp add: claims_from_def list_all2_appendI)
    moreover have "sorted_wrt apart (claims @ [rep_claim r])"
      using Cons.prems(2) True not_overlapsAny_apart [of claims "rep_claim r"]
      by (simp add: sorted_wrt_append)
    ultimately show ?thesis
      using Cons.IH [of "claims @ [rep_claim r]" "us @ [r]" unres] True
      by (simp add: at_recorded_pos_cases)
  next
    case False
    then have "restore_phase1 masked (r # rs) claims unres = restore_phase1 masked rs claims (unres @ [r])"
      by (auto simp: at_recorded_pos_cases)
    then show ?thesis using Cons.IH [OF Cons.prems, of "unres @ [r]"] by simp
  qed
qed auto

lemma find_loop_sound:
  "find_loop masked token claims k = Some (s, e) \<Longrightarrow>
     slice masked s e = Some token \<and> \<not> overlapsAny claims s e"
proof (induction masked token claims k rule: find_loop.induct)
  case (1 masked token claims k)
  note eq = "1.prems" [unfolded find_loop.simps [of masked token claims k]]
  then have k: "k \<le> length masked" by (auto split: if_splits)
  with eq obtain i where i: "Index (drop k masked) token = Some i" by (auto split: option.splits)
  have occ: "occurs_at masked token (k + i)"
    using i k by (auto simp: Index_Some occurs_at_drop)
  show ?case
  proof (cases "overlapsAny claims (int (k + i)) (int (k + i + length token))")
    case False
    then have "s = int (k + i)" "e = int (k + i) + int (length token)"
      using eq k i by (auto simp: Let_def)
    with occurs_at_slice [OF occ] False show ?thesis by simp
  next
    case True
    then have "find_loop masked token claims (k + i + 1) = Some (s, e)"
      using eq k i by (simp add: Let_def)
    with "1.IH" [OF k i refl refl] True show ?thesis by simp
  qed
qed

lemma phase2_sound:
  assumes "claims_from masked claims us" and "sorted_wrt apart claims"
  shows "\<exists>claims' k us'. restore_phase2 masked rs claims m = (claims', m + k) \<and>
           claims_from masked claims' us' \<and> sorted_wrt apart claims' \<and>
           length us' + k = length us + length rs \<and> mset us' \<subseteq># mset us + mset rs"
  using assms
proof (induction rs arbitrary: claims us m)
  case Nil
  then show ?case by auto
next
  case (Cons r rs)
  show ?case
  proof (cases "findUnclaimed masked (rep_Masked r) claims")
    case None
    from Cons.IH [OF Cons.prems, of "m + 1"] obtain claims' k us' where
      "restore_phase2 masked rs claims (m + 1) = (claims', m + 1 + k)"
      "claims_from masked claims' us'" "sorted_wrt apart claims'"
      "length us' + k = length us + length rs" "mset us' \<subseteq># mset us + mset rs" by blast
    then show ?thesis using None
      by (intro exI [of _ claims'] exI [of _ "Suc k"] exI [of _ us'])
         (auto intro: subset_mset.order_trans)
  next
    case (Some p)
    obtain s e where p: "p = (s, e)" by fastforce
    let ?c = "\<lparr> cl_start = s, cl_end = e, cl_original = rep_Original r \<rparr>"
    have f: "slice masked s e = Some (rep_Masked r)" "\<not> overlapsAny claims s e"
      using Some p find_loop_sound by (auto simp: findUnclaimed_def split: if_splits)
    have "claims_from masked (claims @ [?c]) (us @ [r])"
      using Cons.prems(1) f by (simp add: claims_from_def list_all2_appendI)
    moreover have "sorted_wrt apart (claims @ [?c])"
      using Cons.prems(2) f(2) not_overlapsAny_apart [of claims ?c] by (simp add: sorted_wrt_append)
    ultimately show ?thesis using Cons.IH [of "claims @ [?c]" "us @ [r]" m] Some p by simp
  qed
qed

lemma sorted_wrt_perm_sym:
  assumes "\<And>a b. R a b \<Longrightarrow> R b a"
  shows "sorted_wrt R xs \<Longrightarrow> mset ys = mset xs \<Longrightarrow> sorted_wrt R ys"
proof (induction ys arbitrary: xs)
  case (Cons y ys)
  then have "y \<in> set xs" by (metis list.set_intros(1) set_mset_mset)
  then obtain as bs where xs: "xs = as @ y # bs" by (metis split_list)
  with Cons.prems(2) have "mset ys = mset (as @ bs)" by simp
  moreover have "sorted_wrt R (as @ bs)" and "\<forall>z \<in> set (as @ bs). R y z"
    using Cons.prems(1) assms xs by (auto simp: sorted_wrt_append)
  ultimately show ?case using Cons.IH by (metis set_mset_mset sorted_wrt.simps(2))
qed simp

text \<open>Building from sorted, separate claims uses every one of them.\<close>

lemma build_claims:
  assumes "claims_from masked claims us"
    and "sorted_wrt (\<lambda>a b. cl_end a \<le> cl_start b) claims"
    and "0 \<le> pos" "pos \<le> int (length masked)" and "\<forall>c \<in> set claims. pos \<le> cl_start c"
  shows "\<exists>xs rest. restore_build masked claims pos b m = Some (b @ lay_orig xs @ rest, m) \<and>
           drop (nat pos) masked = lay_masked xs @ rest \<and> map snd xs = us"
  using assms
proof (induction claims arbitrary: us pos b)
  case Nil
  then have us: "us = []" and "slice_from masked pos = Some (drop (nat pos) masked)"
    by (auto simp: claims_from_def slice_def nat_diff_distrib')
  then show ?case by (intro exI [of _ "[]"] exI [of _ "drop (nat pos) masked"]) simp
next
  case (Cons c cs)
  then obtain r us' where us: "us = r # us'"
    and c: "cl_original c = rep_Original r" "slice masked (cl_start c) (cl_end c) = Some (rep_Masked r)"
    and cs: "claims_from masked cs us'"
    by (auto simp: claims_from_def list_all2_Cons1)
  have bd: "0 \<le> cl_start c" "cl_start c \<le> cl_end c" "cl_end c \<le> int (length masked)" "pos \<le> cl_start c"
    using c(2) Cons.prems(5) by (auto simp: slice_def split: if_splits)
  define g where "g = take (nat (cl_start c - pos)) (drop (nat pos) masked)"
  have g: "slice masked pos (cl_start c) = Some g"
    using Cons.prems(3) bd by (simp add: slice_def g_def)
  have "\<exists>xs rest. restore_build masked cs (cl_end c) (b @ g @ cl_original c) m =
            Some ((b @ g @ cl_original c) @ lay_orig xs @ rest, m) \<and>
          drop (nat (cl_end c)) masked = lay_masked xs @ rest \<and> map snd xs = us'"
    using Cons.prems bd by (intro Cons.IH [OF cs]) auto
  then obtain xs rest where
    b: "restore_build masked cs (cl_end c) (b @ g @ cl_original c) m =
          Some ((b @ g @ cl_original c) @ lay_orig xs @ rest, m)"
    and d: "drop (nat (cl_end c)) masked = lay_masked xs @ rest" and x: "map snd xs = us'"
    by blast
  have "slice_from masked (cl_end c) = Some (lay_masked xs @ rest)"
    using bd d slice_from_drop [of "cl_end c" masked] by simp
  from slice_join [OF slice_join [OF g c(2)] this]
  have "drop (nat pos) masked = lay_masked ((g, r) # xs) @ rest"
    using Cons.prems(3,4) slice_from_drop [of pos masked] by simp
  moreover have "restore_build masked (c # cs) pos b m = Some (b @ lay_orig ((g, r) # xs) @ rest, m)"
    using b bd g c by (simp add: inBounds_def)
  ultimately show ?case using us x by (intro exI [of _ "(g, r) # xs"] exI [of _ rest]) simp
qed

lemma claims_from_nonempty:
  assumes "claims_from masked claims us" and "\<forall>r \<in> set us. rep_Masked r \<noteq> ''''" and "c \<in> set claims"
  shows "0 \<le> cl_start c \<and> cl_start c < cl_end c"
proof -
  from assms(1,3) obtain r where "r \<in> set us" "slice masked (cl_start c) (cl_end c) = Some (rep_Masked r)"
    unfolding claims_from_def using list_all2_set_ex [of _ claims us c] by blast
  moreover from this assms(2) have "0 < int (length (rep_Masked r))" by simp
  ultimately have "0 < cl_end c - cl_start c" and "0 \<le> cl_start c"
    using slice_length [of masked "cl_start c" "cl_end c" "rep_Masked r"]
    by (simp, auto simp: slice_def split: if_splits)
  then show ?thesis by simp
qed

lemma build_total:
  "0 \<le> pos \<Longrightarrow> pos \<le> int (length masked) \<Longrightarrow>
   \<exists>out k. restore_build masked claims pos b m = Some (out, m + k) \<and> k \<le> length claims"
proof (induction claims arbitrary: pos b m)
  case Nil
  then show ?case by (simp add: slice_def)
next
  case (Cons c cs)
  show ?case
  proof (cases "cl_start c < pos \<or> \<not> inBounds masked (cl_start c) (cl_end c)")
    case True
    with Cons.IH [OF Cons.prems, of b "m + 1"] show ?thesis by fastforce
  next
    case False
    then have "\<exists>g. slice masked pos (cl_start c) = Some g"
      using Cons.prems by (auto simp: slice_Some_iff inBounds_def)
    with False Cons.IH [of "cl_end c" _ m] show ?thesis
      by (fastforce simp: inBounds_def)
  qed
qed

context go_runtime
begin

lemma Restore_phases:
  obtains claims k us where
    "Restore rt masked reps = restore_build masked (sort_slice (sort_perm rt) claim_less claims) 0 '''' k"
    "claims_from masked claims us" "sorted_wrt apart claims"
    "length us + k = length reps" "mset us \<subseteq># mset reps"
proof -
  obtain c1 un us1 where p1: "restore_phase1 masked (sort_slice (sort_perm rt) rep_less reps) [] [] = Some (c1, un)"
    and c1: "claims_from masked c1 us1" "sorted_wrt apart c1"
    and m1: "mset us1 + mset un = mset reps"
    using phase1_sound [of masked "[]" "[]" "sort_slice (sort_perm rt) rep_less reps" "[]"]
    by (auto simp: claims_from_def sort_slice_mset [OF rep_less_strict_weak])
  obtain c2 k us2 where p2: "restore_phase2 masked un c1 0 = (c2, k)"
    and c2: "claims_from masked c2 us2" "sorted_wrt apart c2"
    and l: "length us2 + k = length us1 + length un" and m2: "mset us2 \<subseteq># mset us1 + mset un"
    using phase2_sound [OF c1, of un 0] by auto
  have "length us1 + length un = length reps"
    using m1 by (metis size_mset size_union)
  with l m1 m2 p1 p2 c2 show thesis
    by (intro that [of c2 k us2]) (simp_all add: Restore_def)
qed

lemma Restore_total_count:
  "\<exists>out misses. Restore rt masked reps = Some (out, misses) \<and> misses \<le> length reps"
proof -
  obtain claims k us where
    r: "Restore rt masked reps = restore_build masked (sort_slice (sort_perm rt) claim_less claims) 0 '''' k"
    and c: "claims_from masked claims us" and l: "length us + k = length reps"
    by (rule Restore_phases)
  have "length claims = length us" using c by (simp add: claims_from_def list_all2_lengthD)
  moreover have "length (sort_slice (sort_perm rt) claim_less claims) = length claims"
    by (rule sort_slice_length [OF claim_less_strict_weak])
  ultimately show ?thesis
    using build_total [of 0 masked "sort_slice (sort_perm rt) claim_less claims" "''''" k] l
    by (fastforce simp: r)
qed

lemma Restore_splice:
  assumes "\<forall>r \<in> set reps. rep_Masked r \<noteq> ''''"
  shows "\<exists>xs rest. Restore rt masked reps = Some (lay_orig xs @ rest, length reps - length xs) \<and>
           masked = lay_masked xs @ rest \<and> mset (map snd xs) \<subseteq># mset reps"
proof -
  obtain claims k us where
    r: "Restore rt masked reps = restore_build masked (sort_slice (sort_perm rt) claim_less claims) 0 '''' k"
    and c: "claims_from masked claims us" "sorted_wrt apart claims"
    and l: "length us + k = length reps" and us: "mset us \<subseteq># mset reps"
    by (rule Restore_phases)
  let ?cs = "sort_slice (sort_perm rt) claim_less claims"
  have ms: "mset ?cs = mset claims" by (rule sort_slice_mset [OF claim_less_strict_weak])
  obtain us' where c': "claims_from masked ?cs us'" and us': "mset us' = mset us"
    using list_all2_reorder_left_invariance [OF c(1) [unfolded claims_from_def] ms]
    unfolding claims_from_def by blast
  have sub: "set us' \<subseteq> set reps"
    using us us' by (metis set_mset_mset set_mset_mono)
  have ne: "0 \<le> cl_start a \<and> cl_start a < cl_end a" if "a \<in> set ?cs" for a
    using claims_from_nonempty [OF c' _ that] assms sub by blast
  have ap: "sorted_wrt apart ?cs"
    by (rule sorted_wrt_perm_sym [OF _ c(2) ms]) auto
  have "sorted_wrt (\<lambda>a b. cl_end a \<le> cl_start b) ?cs"
  proof -
    have "sorted_wrt (\<lambda>a b. apart a b \<and> cl_start a \<le> cl_start b) ?cs"
      using ap sort_slice_sorted [OF claim_less_strict_weak, of claims]
      by (simp add: sorted_wrt_iff_nth_less claim_less_def not_less)
    then show ?thesis
      by (rule sorted_wrt_mono_rel [rotated]) (use ne in force)
  qed
  from build_claims [OF c' this, of 0 "''''" k] ne obtain xs rest where
    "restore_build masked ?cs 0 '''' k = Some (lay_orig xs @ rest, k)"
    "masked = lay_masked xs @ rest" "map snd xs = us'" by auto
  moreover have "length us' = length us" using us' by (metis size_mset)
  ultimately show ?thesis using r l us us'
    by (intro exI [of _ xs] exI [of _ rest]) (metis diff_add_inverse length_map)
qed

end

text \<open>
  \<open>findUnclaimed\<close> is complete: if it gives up, every occurrence of a non-empty token touches a
  claimed range, and what it returns is the first free occurrence.
\<close>

lemma find_loop_complete:
  assumes "occurs_at masked token i" and "k \<le> i"
    and "\<not> overlapsAny claims (int i) (int i + int (length token))"
  shows "\<exists>s. find_loop masked token claims k = Some (int s, int s + int (length token)) \<and> k \<le> s \<and> s \<le> i"
  using assms
proof (induction masked token claims k rule: find_loop.induct)
  case (1 masked token claims k)
  have k: "k \<le> length masked" using 1(2,3) by (auto simp: occurs_at_def)
  have occ: "occurs_at (drop k masked) token (i - k)" using 1(2,3) k by (simp add: occurs_at_drop)
  then obtain j where j: "Index (drop k masked) token = Some j"
    using Index_None by (metis not_None_eq)
  then have ji: "k + j \<le> i" using occ 1(3) by (auto simp: Index_Some not_less [symmetric])
  note unfold = find_loop.simps [of masked token claims k]
  show ?case
  proof (cases "overlapsAny claims (int (k + j)) (int (k + j + length token))")
    case False
    then show ?thesis using k j ji unfold by (intro exI [of _ "k + j"]) (simp add: Let_def)
  next
    case True
    then have "k + j \<noteq> i" using 1(4) by auto
    with ji have "k + j + 1 \<le> i" by simp
    from "1.IH" [OF k j refl refl _ 1(2) this 1(4)] True
    show ?thesis using k j unfold by (auto simp: Let_def)
  qed
qed

lemma Apply_restores:
  assumes "go_runtime rt" and "mask_strategy (st_Mask s)"
  shows "\<exists>masked reps doc'. Apply rt text spans s doc = Some (masked, reps, doc') \<and>
           Restore rt masked reps = Some (text, 0)"
proof -
  obtain ys rest d' where
    a: "Apply rt text spans s doc = Some (lay_masked ys @ rest, map snd ys, Some d')"
    and t: "text = lay_orig ys @ rest" and l: "lay_reps ys d'"
    by (rule Apply_layout [OF assms(2)])
  have "Restore rt (lay_masked ys @ rest) (map snd ys) = Some (lay_orig ys @ rest, 0)"
    using go_runtime.Restore_layout [OF assms(1)] l by (fastforce simp: lay_reps_def)
  with a t show ?thesis by blast
qed

subsection \<open>Properties\<close>

text \<open>
  C1. Masking is reversible: for every text, every span list (in range or not, overlapping or
  not) and every strategy that keeps its contract, \<^verbatim>\<open>Apply\<close> returns a masked text from which
  \<^verbatim>\<open>Restore\<close> rebuilds the original text with no miss.
\<close>

theorem Apply_Restore_roundtrip:
  assumes "go_runtime rt" and "mask_strategy (st_Mask s)"
  shows "\<exists>masked reps doc'. Apply rt text spans s doc = Some (masked, reps, doc') \<and>
           Restore rt masked reps = Some (text, 0)"
  by (rule Apply_restores [OF assms])

text \<open>
  C10. \<^verbatim>\<open>Restore\<close> never panics, whatever text and whatever recorded replacements it is given
  (negative or huge offsets, empty or repeated masks), and counts at most one miss per
  replacement.
\<close>

theorem Restore_never_panics:
  assumes "go_runtime rt"
  shows "\<exists>out misses. Restore rt masked reps = Some (out, misses) \<and> misses \<le> length reps"
  by (rule go_runtime.Restore_total_count [OF assms])

text \<open>
  C9. \<^verbatim>\<open>Restore\<close> only swaps recorded masks for their originals: the text it is given splits into
  gaps and masks of distinct recorded replacements, the output is the same split with each
  mask replaced by the original recorded with it, and the misses are exactly the replacements
  that were not used.
\<close>

theorem Restore_only_splices:
  assumes "go_runtime rt" and "\<forall>r \<in> set reps. rep_Masked r \<noteq> ''''"
  shows "\<exists>xs rest. masked = lay_masked xs @ rest \<and> mset (map snd xs) \<subseteq># mset reps \<and>
           Restore rt masked reps = Some (lay_orig xs @ rest, length reps - length xs)"
  using go_runtime.Restore_splice [OF assms] by blast

text \<open>
  Within one document equal values get equal replacements: any two replacements that one
  \<^verbatim>\<open>Apply\<close> call records with the same original have the same masked text.
\<close>

lemma Apply_consistent:
  assumes "mask_strategy (st_Mask s)" and "Apply rt text spans s doc = Some (masked, reps, doc')"
    and "r \<in> set reps" and "q \<in> set reps" and "rep_Original r = rep_Original q"
  shows "rep_Masked r = rep_Masked q"
proof -
  obtain ys rest d' where
    a: "Apply rt text spans s doc = Some (lay_masked ys @ rest, map snd ys, Some d')" and l: "lay_reps ys d'"
    by (rule Apply_layout [OF assms(1)])
  then have "reps = map snd ys" using assms(2) by simp
  with assms(3,4) l have "memo_hit (Some d') (rep_Original r) = Some (rep_Masked r)"
    "memo_hit (Some d') (rep_Original q) = Some (rep_Masked q)"
    by (auto simp: lay_reps_def)
  with assms(5) show ?thesis by simp
qed

text \<open>
  The search for a moved mask is complete and takes the leftmost place: when a non-empty mask
  occurs anywhere in the text clear of the claimed ranges, \<^verbatim>\<open>findUnclaimed\<close> returns a free
  occurrence no further right than that one.
\<close>

lemma findUnclaimed_complete:
  assumes "token \<noteq> ''''" and "occurs_at masked token i"
    and "\<not> overlapsAny claims (int i) (int i + int (length token))"
  shows "\<exists>s \<le> i. findUnclaimed masked token claims = Some (int s, int s + int (length token)) \<and>
           occurs_at masked token s \<and> \<not> overlapsAny claims (int s) (int s + int (length token))"
proof -
  obtain s where s: "find_loop masked token claims 0 = Some (int s, int s + int (length token))" "s \<le> i"
    using find_loop_complete [OF assms(2) _ assms(3), of 0] by auto
  from find_loop_sound [OF s(1)]
  have sl: "slice masked (int s) (int s + int (length token)) = Some token"
    and o: "\<not> overlapsAny claims (int s) (int s + int (length token))" by simp_all
  have "occurs_at masked token s"
    using sl by (auto simp: slice_def occurs_at_def HasPrefix_def split: if_splits)
  with s o assms(1) show ?thesis by (auto simp: findUnclaimed_def)
qed

end
