(* ===== verification/Chunk.thy ===== *)
theory Chunk
  imports Pipeline Mask_Core
begin

text \<open>
  Detection in overlapping windows for large texts, the category filter and the combination rules
  (\<^verbatim>\<open>internal/engine/chunk.go\<close>). The windows of a text are run in parallel by the code, each writing
  its own slot of a result slice, so the model maps over them. \<^term>\<open>None\<close> is a Go panic.
\<close>

subsection \<open>Windows\<close>

definition chunkThreshold :: int where
  "chunkThreshold = 64 * 1024"

definition chunkSize :: int where
  "chunkSize = 32 * 1024"

definition chunkOverlap :: int where
  "chunkOverlap = 4 * 1024"

record window =
  w_start :: int
  w_end :: int

definition isBoundaryByte :: "char \<Rightarrow> bool" where
  "isBoundaryByte b \<longleftrightarrow> b = CHR '' '' \<or> b = CHR 0x0A \<or> b = CHR 0x09 \<or> b = CHR 0x0D"

function indexLastBoundaryByte :: "string \<Rightarrow> int \<Rightarrow> int \<Rightarrow> int option" where
  "indexLastBoundaryByte text lo i =
     (if lo < i
      then do { b \<leftarrow> byte_at text (i - 1);
                if isBoundaryByte b then Some (i - 1) else indexLastBoundaryByte text lo (i - 1) }
      else Some (-1))"
  by pat_completeness auto
termination
  by (relation "measure (\<lambda>(text, lo, i). nat (i - lo))") auto

function indexFirstBoundaryByte :: "string \<Rightarrow> int \<Rightarrow> int \<Rightarrow> int option" where
  "indexFirstBoundaryByte text i hi =
     (if i < hi
      then do { b \<leftarrow> byte_at text i;
                if isBoundaryByte b then Some i else indexFirstBoundaryByte text (i + 1) hi }
      else Some (-1))"
  by pat_completeness auto
termination
  by (relation "measure (\<lambda>(text, i, hi). nat (hi - i))") auto

declare indexLastBoundaryByte.simps [simp del] indexFirstBoundaryByte.simps [simp del]

text \<open>One round of the loop of \<^verbatim>\<open>coreBoundaries\<close>: the next cut, or -1.\<close>

definition next_cut :: "string \<Rightarrow> int \<Rightarrow> int option" where
  "next_cut text pos =
     (let target = pos + chunkSize in
      do { i \<leftarrow> indexLastBoundaryByte text pos target;
           if 0 \<le> i then Some (i + 1)
           else do { j \<leftarrow> indexFirstBoundaryByte text target (int (length text));
                     if 0 \<le> j then Some (j + 1) else Some (-1) } })"

text \<open>The rest of the boundaries after position \<^term>\<open>pos\<close>.\<close>

function core_loop :: "string \<Rightarrow> int \<Rightarrow> int list option" where
  "core_loop text pos =
     (if pos < int (length text) \<and> pos + chunkSize < int (length text)
      then do { cut \<leftarrow> next_cut text pos;
                if cut \<le> pos then Some [int (length text)]
                else do { bs \<leftarrow> core_loop text cut; Some (cut # bs) } }
      else Some [int (length text)])"
  by pat_completeness auto
termination
  by (relation "measure (\<lambda>(text, pos). nat (int (length text) - pos))") auto

declare core_loop.simps [simp del]

definition coreBoundaries :: "string \<Rightarrow> int list option" where
  "coreBoundaries text = do { bs \<leftarrow> core_loop text 0; Some (0 # bs) }"

text \<open>The rune-safe fall-back loops.\<close>

function rune_left :: "string \<Rightarrow> int \<Rightarrow> int option" where
  "rune_left text lo =
     (if 0 < lo
      then do { b \<leftarrow> byte_at text lo; if RuneStart b then Some lo else rune_left text (lo - 1) }
      else Some lo)"
  by pat_completeness auto
termination
  by (relation "measure (\<lambda>(text, lo). nat lo)") auto

function rune_right :: "string \<Rightarrow> int \<Rightarrow> int option" where
  "rune_right text hi =
     (if hi < int (length text)
      then do { b \<leftarrow> byte_at text hi; if RuneStart b then Some hi else rune_right text (hi + 1) }
      else Some hi)"
  by pat_completeness auto
termination
  by (relation "measure (\<lambda>(text, hi). nat (int (length text) - hi))") auto

declare rune_left.simps [simp del] rune_right.simps [simp del]

definition extendBefore :: "string \<Rightarrow> int \<Rightarrow> int \<Rightarrow> int option" where
  "extendBefore text pos n =
     (let lo = pos - n in
      if lo < 0 then Some 0
      else do { i \<leftarrow> indexLastBoundaryByte text 0 (lo + 1);
                if 0 \<le> i then Some (i + 1) else rune_left text lo })"

definition extendAfter :: "string \<Rightarrow> int \<Rightarrow> int \<Rightarrow> int option" where
  "extendAfter text pos n =
     (let hi = pos + n in
      if int (length text) < hi then Some (int (length text))
      else do { i \<leftarrow> indexFirstBoundaryByte text hi (int (length text));
                if 0 \<le> i then Some i else rune_right text hi })"

fun window_list :: "string \<Rightarrow> int list \<Rightarrow> window list option" where
  "window_list text (a # b # bs) =
     do { s \<leftarrow> extendBefore text a chunkOverlap;
          e \<leftarrow> extendAfter text b chunkOverlap;
          ws \<leftarrow> window_list text (b # bs);
          Some (\<lparr> w_start = s, w_end = e \<rparr> # ws) }"
| "window_list text bs = Some []"

definition windows :: "string \<Rightarrow> window list option" where
  "windows text =
     (if int (length text) \<le> chunkSize + 2 * chunkOverlap
      then Some [\<lparr> w_start = 0, w_end = int (length text) \<rparr>]
      else do { bounds \<leftarrow> coreBoundaries text; window_list text bounds })"

subsection \<open>Detection\<close>

definition shift_span :: "int \<Rightarrow> Span \<Rightarrow> Span" where
  "shift_span k s = s\<lparr> sp_Start := sp_Start s + k, sp_End := sp_End s + k \<rparr>"

definition run_window :: "runtime \<Rightarrow> Pipeline \<Rightarrow> string \<Rightarrow> window \<Rightarrow> Span list option" where
  "run_window rt p text w =
     do { part \<leftarrow> slice text (w_start w) (w_end w);
          res \<leftarrow> Run rt p part;
          Some (map (shift_span (w_start w)) (Spans res)) }"

fun run_windows :: "runtime \<Rightarrow> Pipeline \<Rightarrow> string \<Rightarrow> window list \<Rightarrow> Span list list option" where
  "run_windows rt p text [] = Some []"
| "run_windows rt p text (w # ws) =
     do { ss \<leftarrow> run_window rt p text w; rest \<leftarrow> run_windows rt p text ws; Some (ss # rest) }"

definition detectWindowed :: "runtime \<Rightarrow> Pipeline \<Rightarrow> string \<Rightarrow> Span list option" where
  "detectWindowed rt p text =
     do { ws \<leftarrow> windows text;
          if length ws = 1 then do { res \<leftarrow> Run rt p text; Some (Spans res) }
          else do { perWindow \<leftarrow> run_windows rt p text ws; Some (Resolve rt (concat perWindow)) } }"

subsection \<open>Filters\<close>

record ComboRule =
  cr_Category :: category
  cr_RequiresAny :: "category list"

fun comboAllowed :: "category \<Rightarrow> category set \<Rightarrow> ComboRule list \<Rightarrow> bool" where
  "comboAllowed cat present [] = True"
| "comboAllowed cat present (r # rules) =
     (if cr_Category r \<noteq> cat then comboAllowed cat present rules
      else list_ex (\<lambda>req. req \<in> present) (cr_RequiresAny r))"

definition filterSpans :: "Span list \<Rightarrow> category list \<Rightarrow> ComboRule list \<Rightarrow> Span list" where
  "filterSpans spans categories rules =
     (let wanted = set categories; present = set (map sp_Category spans) in
      filter (\<lambda>s. \<not> (categories \<noteq> [] \<and> sp_Category s \<notin> wanted) \<and>
        comboAllowed (sp_Category s) present rules) spans)"

subsection \<open>Boundary searches\<close>

lemma indexLastBoundaryByte_spec:
  "0 \<le> lo \<Longrightarrow> i \<le> int (length tx) \<Longrightarrow>
     \<exists>k. indexLastBoundaryByte tx lo i = Some k \<and>
       (k = -1 \<or> (lo \<le> k \<and> k < i \<and> isBoundaryByte (tx ! nat k)))"
proof (induction tx lo i rule: indexLastBoundaryByte.induct)
  case (1 tx lo i)
  show ?case
  proof (cases "lo < i")
    case True
    then have b: "byte_at tx (i - 1) = Some (tx ! nat (i - 1))" using "1.prems" by (simp add: byte_at_def)
    show ?thesis
      using "1.IH" [OF True b] "1.prems" True b by (subst indexLastBoundaryByte.simps) fastforce
  qed (simp add: indexLastBoundaryByte.simps)
qed

lemma indexFirstBoundaryByte_spec:
  "0 \<le> i \<Longrightarrow> hi \<le> int (length tx) \<Longrightarrow>
     \<exists>k. indexFirstBoundaryByte tx i hi = Some k \<and>
       (k = -1 \<or> (i \<le> k \<and> k < hi \<and> isBoundaryByte (tx ! nat k)))"
proof (induction tx i hi rule: indexFirstBoundaryByte.induct)
  case (1 tx i hi)
  show ?case
  proof (cases "i < hi")
    case True
    then have b: "byte_at tx i = Some (tx ! nat i)" using "1.prems" by (simp add: byte_at_def)
    show ?thesis
      using "1.IH" [OF True b] "1.prems" True b by (subst indexFirstBoundaryByte.simps) fastforce
  qed (simp add: indexFirstBoundaryByte.simps)
qed

lemma rune_left_spec:
  "0 \<le> lo \<Longrightarrow> lo < int (length tx) \<Longrightarrow>
     \<exists>k. rune_left tx lo = Some k \<and> 0 \<le> k \<and> k \<le> lo \<and> (k = 0 \<or> RuneStart (tx ! nat k))"
proof (induction tx lo rule: rune_left.induct)
  case (1 tx lo)
  show ?case
  proof (cases "0 < lo")
    case True
    then have b: "byte_at tx lo = Some (tx ! nat lo)" using "1.prems" by (simp add: byte_at_def)
    show ?thesis
      using "1.IH" [OF True b] "1.prems" True b by (subst rune_left.simps) fastforce
  qed (use "1.prems" in \<open>simp add: rune_left.simps\<close>)
qed

lemma rune_right_spec:
  "0 \<le> hi \<Longrightarrow> hi \<le> int (length tx) \<Longrightarrow>
     \<exists>k. rune_right tx hi = Some k \<and> hi \<le> k \<and> k \<le> int (length tx) \<and>
       (k = int (length tx) \<or> RuneStart (tx ! nat k))"
proof (induction tx hi rule: rune_right.induct)
  case (1 tx hi)
  show ?case
  proof (cases "hi < int (length tx)")
    case True
    then have b: "byte_at tx hi = Some (tx ! nat hi)" using "1.prems" by (simp add: byte_at_def)
    show ?thesis
      using "1.IH" [OF True b] "1.prems" True b by (subst rune_right.simps) fastforce
  qed (use "1.prems" in \<open>simp add: rune_right.simps\<close>)
qed

text \<open>
  Where a window may begin or end: an edge of the text, a position next to a whitespace byte, or
  the first byte of a rune.
\<close>

definition cut_ok :: "string \<Rightarrow> int \<Rightarrow> bool" where
  "cut_ok tx p \<longleftrightarrow>
     0 \<le> p \<and> p \<le> int (length tx) \<and>
     (p = 0 \<or> p = int (length tx) \<or> isBoundaryByte (tx ! nat (p - 1)) \<or>
      isBoundaryByte (tx ! nat p) \<or> RuneStart (tx ! nat p))"

lemma next_cut_spec:
  assumes "0 \<le> pos" and "pos + chunkSize < int (length tx)"
  shows "\<exists>c. next_cut tx pos = Some c \<and> (c = -1 \<or> (pos < c \<and> c \<le> int (length tx)))"
proof -
  let ?t = "pos + chunkSize"
  have cs: "0 < chunkSize" by (simp add: chunkSize_def)
  obtain i where i: "indexLastBoundaryByte tx pos ?t = Some i"
    "i = -1 \<or> (pos \<le> i \<and> i < ?t \<and> isBoundaryByte (tx ! nat i))"
    using indexLastBoundaryByte_spec [of pos ?t tx] assms by auto
  obtain j where j: "indexFirstBoundaryByte tx ?t (int (length tx)) = Some j"
    "j = -1 \<or> (?t \<le> j \<and> j < int (length tx) \<and> isBoundaryByte (tx ! nat j))"
    using indexFirstBoundaryByte_spec [of ?t "int (length tx)" tx] assms cs by auto
  show ?thesis using i j assms cs by (auto simp: next_cut_def Let_def)
qed

lemma core_loop_spec:
  "0 \<le> pos \<Longrightarrow> pos \<le> int (length tx) \<Longrightarrow>
     \<exists>bs. core_loop tx pos = Some bs \<and> bs \<noteq> [] \<and> last bs = int (length tx) \<and> sorted (pos # bs)"
proof (induction tx pos rule: core_loop.induct)
  case (1 tx pos)
  show ?case
  proof (cases "pos < int (length tx) \<and> pos + chunkSize < int (length tx)")
    case True
    then obtain c where c: "next_cut tx pos = Some c" "c = -1 \<or> (pos < c \<and> c \<le> int (length tx))"
      using next_cut_spec "1.prems" by blast
    show ?thesis
    proof (cases "c \<le> pos")
      case le: True
      then show ?thesis using True c "1.prems" by (subst core_loop.simps) auto
    next
      case False
      then obtain bs where "core_loop tx c = Some bs" "bs \<noteq> []" "last bs = int (length tx)" "sorted (c # bs)"
        using "1.IH" [OF True c(1) False] c "1.prems" by auto
      with True False c "1.prems" show ?thesis by (subst core_loop.simps) auto
    qed
  qed (use "1.prems" in \<open>auto simp: core_loop.simps\<close>)
qed

lemma extendBefore_spec:
  assumes "0 \<le> pos" and "pos \<le> int (length tx)" and "0 < n"
  shows "\<exists>s. extendBefore tx pos n = Some s \<and> cut_ok tx s \<and> s \<le> pos \<and> s \<le> max 0 (pos - n + 1)"
proof (cases "pos - n < 0")
  case False
  obtain i where i: "indexLastBoundaryByte tx 0 (pos - n + 1) = Some i"
    "i = -1 \<or> (0 \<le> i \<and> i < pos - n + 1 \<and> isBoundaryByte (tx ! nat i))"
    using indexLastBoundaryByte_spec [of 0 "pos - n + 1" tx] assms by auto
  obtain k where "rune_left tx (pos - n) = Some k" "0 \<le> k" "k \<le> pos - n" "k = 0 \<or> RuneStart (tx ! nat k)"
    using rune_left_spec [of "pos - n" tx] assms False by auto
  with i False assms show ?thesis by (auto simp: extendBefore_def Let_def cut_ok_def)
qed (use assms in \<open>auto simp: extendBefore_def cut_ok_def\<close>)

lemma extendAfter_spec:
  assumes "0 \<le> pos" and "pos \<le> int (length tx)" and "0 < n"
  shows "\<exists>e. extendAfter tx pos n = Some e \<and> cut_ok tx e \<and> pos \<le> e \<and> min (int (length tx)) (pos + n) \<le> e"
proof (cases "int (length tx) < pos + n")
  case False
  obtain i where i: "indexFirstBoundaryByte tx (pos + n) (int (length tx)) = Some i"
    "i = -1 \<or> (pos + n \<le> i \<and> i < int (length tx) \<and> isBoundaryByte (tx ! nat i))"
    using indexFirstBoundaryByte_spec [of "pos + n" "int (length tx)" tx] assms by auto
  obtain k where "rune_right tx (pos + n) = Some k" "pos + n \<le> k" "k \<le> int (length tx)"
      "k = int (length tx) \<or> RuneStart (tx ! nat k)"
    using rune_right_spec [of "pos + n" tx] assms False by auto
  with i False assms show ?thesis by (auto simp: extendAfter_def Let_def cut_ok_def)
qed (use assms in \<open>auto simp: extendAfter_def cut_ok_def\<close>)

definition window_ok :: "string \<Rightarrow> window \<Rightarrow> bool" where
  "window_ok tx w \<longleftrightarrow> cut_ok tx (w_start w) \<and> cut_ok tx (w_end w) \<and> w_start w \<le> w_end w"

text \<open>A window sees a position with all its context of \<^term>\<open>chunkOverlap\<close> bytes, as far as the text goes.\<close>

definition sees :: "string \<Rightarrow> window \<Rightarrow> int \<Rightarrow> bool" where
  "sees tx w s \<longleftrightarrow>
     w_start w \<le> max 0 (s - chunkOverlap + 1) \<and> min (int (length tx)) (s + chunkOverlap) \<le> w_end w"

lemma window_list_spec:
  assumes "sorted bs" and "\<forall>b \<in> set bs. 0 \<le> b \<and> b \<le> int (length tx)"
  shows "\<exists>ws. window_list tx bs = Some ws \<and> (\<forall>w \<in> set ws. window_ok tx w) \<and>
    (\<forall>s. bs \<noteq> [] \<and> hd bs \<le> s \<and> s < last bs \<longrightarrow> (\<exists>w \<in> set ws. sees tx w s))"
  using assms
proof (induction bs rule: induct_list012)
  case (3 a b bs)
  have ov: "0 < chunkOverlap" by (simp add: chunkOverlap_def)
  obtain s where s: "extendBefore tx a chunkOverlap = Some s" "cut_ok tx s" "s \<le> a"
      "s \<le> max 0 (a - chunkOverlap + 1)"
    using extendBefore_spec [OF _ _ ov, of a tx] "3.prems" by auto
  obtain e where e: "extendAfter tx b chunkOverlap = Some e" "cut_ok tx e" "b \<le> e"
      "min (int (length tx)) (b + chunkOverlap) \<le> e"
    using extendAfter_spec [OF _ _ ov, of b tx] "3.prems" by auto
  obtain ws where ws: "window_list tx (b # bs) = Some ws" "\<forall>w \<in> set ws. window_ok tx w"
      "\<forall>x. b \<le> x \<and> x < last (b # bs) \<longrightarrow> (\<exists>w \<in> set ws. sees tx w x)"
    using "3.IH"(2) "3.prems" by auto
  let ?w = "\<lparr> w_start = s, w_end = e \<rparr>"
  have "window_ok tx ?w" using s e "3.prems" by (simp add: window_ok_def)
  moreover have "sees tx ?w x" if "a \<le> x" "x < b" for x
    using that s(4) e(4) by (auto simp: sees_def)
  ultimately have "\<exists>w \<in> set (?w # ws). sees tx w x" if "a \<le> x" "x < last (b # bs)" for x
    using that ws(3) by (cases "x < b") auto
  with \<open>window_ok tx ?w\<close> show ?case using s(1) e(1) ws(1,2)
    by (intro exI [of _ "?w # ws"]) simp
qed simp_all

lemma sorted_le_last: "sorted bs \<Longrightarrow> b \<in> set bs \<Longrightarrow> b \<le> last bs"
  by (induction bs) auto

lemma windows_spec:
  obtains ws where "windows tx = Some ws" and "\<forall>w \<in> set ws. window_ok tx w"
    and "\<forall>s. 0 \<le> s \<and> s < int (length tx) \<longrightarrow> (\<exists>w \<in> set ws. sees tx w s)"
proof (cases "int (length tx) \<le> chunkSize + 2 * chunkOverlap")
  case True
  have "\<forall>s. 0 \<le> s \<and> s < int (length tx) \<longrightarrow> sees tx \<lparr> w_start = 0, w_end = int (length tx) \<rparr> s"
    by (simp add: sees_def)
  moreover have "window_ok tx \<lparr> w_start = 0, w_end = int (length tx) \<rparr>"
    by (simp add: window_ok_def cut_ok_def)
  ultimately show thesis using that True by (simp add: windows_def)
next
  case False
  obtain bs where bs: "core_loop tx 0 = Some bs" "bs \<noteq> []" "last bs = int (length tx)" "sorted (0 # bs)"
    using core_loop_spec [of 0 tx] by auto
  have "b \<le> int (length tx)" if "b \<in> set bs" for b
    using sorted_le_last [of bs b] that bs(3,4) by simp
  then show thesis
    using that window_list_spec [of "0 # bs" tx] bs False by (auto simp: windows_def coreBoundaries_def)
qed

subsection \<open>Cuts are rune boundaries\<close>

lemma EncodeRune_cont:
  assumes "0 < p" and "p < length (EncodeRune r)"
  shows "\<not> RuneStart (EncodeRune r ! p)"
proof (cases "r < 0x80")
  case True
  then show ?thesis using assms by (simp add: EncodeRune_def)
next
  case False
  then obtain c cs where "EncodeRune r = c # cs" "\<forall>x \<in> set cs. \<not> RuneStart x"
    using EncodeRune_shape [of r] by (metis not_less)
  then show ?thesis using assms by (auto simp: nth_Cons' intro!: nth_mem)
qed

lemma rune_start_boundary:
  "p < length (encode_runes rs) \<Longrightarrow> RuneStart (encode_runes rs ! p) \<Longrightarrow>
     \<exists>k < length rs. p = length (encode_runes (take k rs))"
proof (induction rs arbitrary: p)
  case (Cons r rs)
  consider "p = 0" | "0 < p" "p < length (EncodeRune r)" | "length (EncodeRune r) \<le> p" by linarith
  then show ?case
  proof cases
    case 1
    then show ?thesis by (intro exI [of _ 0]) simp
  next
    case 2
    then show ?thesis using Cons.prems EncodeRune_cont by (simp add: nth_append)
  next
    case 3
    then obtain k where "k < length rs" "p - length (EncodeRune r) = length (encode_runes (take k rs))"
      using Cons.IH [of "p - length (EncodeRune r)"] Cons.prems by (fastforce simp: nth_append)
    with 3 show ?thesis by (intro exI [of _ "Suc k"]) simp
  qed
qed simp

lemma boundary_byte_start: "isBoundaryByte b \<Longrightarrow> RuneStart b \<and> (of_char b :: nat) < 0x80"
  by (auto simp: isBoundaryByte_def RuneStart_def byte_in_def)

lemma after_boundary:
  assumes "p < length (encode_runes rs)" and "isBoundaryByte (encode_runes rs ! p)"
  shows "\<exists>k \<le> length rs. Suc p = length (encode_runes (take k rs))"
proof -
  obtain k where k: "k < length rs" "p = length (encode_runes (take k rs))"
    using rune_start_boundary [OF assms(1)] boundary_byte_start [OF assms(2)] by auto
  let ?r = "rs ! k"
  have "encode_runes rs = encode_runes (take k rs) @ EncodeRune ?r @ encode_runes (drop (Suc k) rs)"
    using k(1) by (metis id_take_nth_drop encode_runes_simps(2,3))
  then have "encode_runes rs ! p = hd (EncodeRune ?r)"
    using k(2) by (simp add: nth_append hd_conv_nth)
  then have "?r < 0x80"
    using EncodeRune_ascii_byte [of "hd (EncodeRune ?r)" ?r] boundary_byte_start [OF assms(2)] by simp
  then have "length (EncodeRune ?r) = 1" by (simp add: EncodeRune_def)
  then have "Suc p = length (encode_runes (take (Suc k) rs))"
    using k by (simp add: take_Suc_conv_app_nth)
  with k(1) show ?thesis by (intro exI [of _ "Suc k"]) simp
qed

lemma cut_ok_boundary:
  assumes "cut_ok (encode_runes rs) p"
  shows "\<exists>k \<le> length rs. nat p = length (encode_runes (take k rs))"
proof -
  have b: "0 \<le> p" "p \<le> int (length (encode_runes rs))" using assms by (simp_all add: cut_ok_def)
  consider "p = 0" | "p = int (length (encode_runes rs))"
    | "0 < p" "isBoundaryByte (encode_runes rs ! nat (p - 1))"
    | "p < int (length (encode_runes rs))" "RuneStart (encode_runes rs ! nat p)"
    using assms b boundary_byte_start by (fastforce simp: cut_ok_def)
  then show ?thesis
  proof cases
    case 1
    then show ?thesis by (intro exI [of _ 0]) simp
  next
    case 2
    then show ?thesis by (intro exI [of _ "length rs"]) simp
  next
    case 3
    then have "Suc (nat (p - 1)) = nat p" by simp
    moreover have "nat (p - 1) < length (encode_runes rs)" using 3(1) b by auto
    ultimately show ?thesis using after_boundary [of "nat (p - 1)" rs] 3(2) by simp
  next
    case 4
    then show ?thesis using rune_start_boundary [of "nat p" rs] b by (metis nat_less_iff less_imp_le)
  qed
qed

lemma window_part:
  assumes "valid_utf8 tx" and "window_ok tx w"
  shows "\<exists>part. slice tx (w_start w) (w_end w) = Some part \<and> valid_utf8 part \<and> set (runes part) \<subseteq> set (runes tx)"
proof -
  define rs where "rs = runes tx"
  have tx: "tx = encode_runes rs" using assms(1) by (simp add: valid_utf8_def rs_def)
  have valid: "valid_rune r" if "r \<in> set rs" for r using that runes_valid by (simp add: rs_def)
  have ok: "0 \<le> w_start w" "w_start w \<le> w_end w" "w_end w \<le> int (length tx)"
    using assms(2) by (auto simp: window_ok_def cut_ok_def)
  obtain i j where i: "nat (w_start w) = length (encode_runes (take i rs))"
    and j: "nat (w_end w) = length (encode_runes (take j rs))"
    using cut_ok_boundary assms(2) tx by (metis window_ok_def)
  let ?part = "take (nat (w_end w - w_start w)) (drop (nat (w_start w)) tx)"
  obtain mid where mid: "?part = encode_runes mid" "set mid \<subseteq> set rs"
  proof (cases "i \<le> j")
    case True
    have split: "encode_runes (take j rs) = encode_runes (take i rs) @ encode_runes (drop i (take j rs))"
      using True by (metis append_take_drop_id encode_runes_simps(3) min_def take_take)
    have "tx = encode_runes (take j rs) @ encode_runes (drop j rs)"
      using tx by (metis append_take_drop_id encode_runes_simps(3))
    then have "?part = encode_runes (drop i (take j rs))"
      using i j split ok by (simp add: nat_diff_distrib)
    then show thesis using that by (blast dest: in_set_dropD in_set_takeD)
  next
    case False
    then have "length (encode_runes (take j rs)) \<le> length (encode_runes (take i rs))"
      using take_add [of j "i - j" rs] by simp
    then have "nat (w_end w - w_start w) = 0" using i j ok by simp
    then show thesis using that [of "[]"] by simp
  qed
  then have "valid_utf8 ?part \<and> runes ?part = mid" using valid by (auto intro!: valid_utf8_encode runes_encode)
  with mid ok show ?thesis by (simp add: slice_def rs_def)
qed

lemma window_valid:
  "valid_utf8 tx \<Longrightarrow> window_ok tx w \<Longrightarrow> \<exists>part. slice tx (w_start w) (w_end w) = Some part \<and> valid_utf8 part"
  using window_part by blast

subsection \<open>Spans of a windowed detection\<close>

definition detects_in_range :: "runtime \<Rightarrow> Pipeline \<Rightarrow> string \<Rightarrow> bool" where
  "detects_in_range rt p tx \<longleftrightarrow>
     (\<forall>d \<in> set (pl_detectors p). \<forall>s \<in> set (detect_with d \<lparr> Raw = tx, Lower = ToLower rt tx \<rparr>).
        span_in (length tx) s)"

text \<open>The detectors stay in range on the text and on each of its windows.\<close>

definition window_parts :: "string \<Rightarrow> string list" where
  "window_parts tx =
     (case windows tx of
        None \<Rightarrow> []
      | Some ws \<Rightarrow> concat (map (\<lambda>w. case slice tx (w_start w) (w_end w) of None \<Rightarrow> [] | Some part \<Rightarrow> [part]) ws))"

definition detectors_in_range :: "runtime \<Rightarrow> Pipeline \<Rightarrow> string \<Rightarrow> bool" where
  "detectors_in_range rt p tx \<longleftrightarrow> list_all (detects_in_range rt p) (tx # window_parts tx)"

definition good_spans :: "string \<Rightarrow> Span list \<Rightarrow> bool" where
  "good_spans tx spans \<longleftrightarrow>
     sorted_wrt (\<lambda>a b. sp_End a \<le> sp_Start b) spans \<and> (\<forall>s \<in> set spans. span_in (length tx) s)"

lemma Run_good:
  assumes "go_runtime rt" and "detects_in_range rt p tx"
  shows "\<exists>res. Run rt p tx = Some res \<and> good_spans tx (Spans res)"
  using Run_in_range [OF assms(1), of p tx] assms(2) by (auto simp: detects_in_range_def good_spans_def)

lemma run_window_in_range:
  assumes "go_runtime rt" and "window_ok tx w"
    and "\<And>part. slice tx (w_start w) (w_end w) = Some part \<Longrightarrow> detects_in_range rt p part"
  shows "\<exists>ss. run_window rt p tx w = Some ss \<and> (\<forall>s \<in> set ss. span_in (length tx) s)"
proof -
  have ok: "0 \<le> w_start w" "w_start w \<le> w_end w" "w_end w \<le> int (length tx)"
    using assms(2) by (auto simp: window_ok_def cut_ok_def)
  define part where "part = take (nat (w_end w - w_start w)) (drop (nat (w_start w)) tx)"
  have part: "slice tx (w_start w) (w_end w) = Some part" using ok by (simp add: slice_def part_def)
  have len: "int (length part) = w_end w - w_start w" using ok by (simp add: part_def)
  obtain res where "Run rt p part = Some res" "good_spans part (Spans res)"
    using Run_good [OF assms(1) assms(3) [OF part]] by blast
  with part len ok show ?thesis
    by (auto simp: run_window_def good_spans_def span_in_def shift_span_def)
qed

lemma run_windows_in_range:
  assumes "go_runtime rt" and "\<forall>w \<in> set ws. window_ok tx w"
    and "\<And>w part. w \<in> set ws \<Longrightarrow> slice tx (w_start w) (w_end w) = Some part \<Longrightarrow> detects_in_range rt p part"
  shows "\<exists>sss. run_windows rt p tx ws = Some sss \<and> (\<forall>s \<in> set (concat sss). span_in (length tx) s)"
  using assms(2,3)
proof (induction ws)
  case (Cons w ws)
  then obtain sss where "run_windows rt p tx ws = Some sss" "\<forall>s \<in> set (concat sss). span_in (length tx) s"
    by auto
  moreover obtain ss where "run_window rt p tx w = Some ss" "\<forall>s \<in> set ss. span_in (length tx) s"
    using run_window_in_range [OF assms(1), of tx w p] Cons.prems by (metis list.set_intros(1))
  ultimately show ?case by (intro exI [of _ "ss # sss"]) auto
qed simp

lemma detectWindowed_good:
  assumes "go_runtime rt" and "detectors_in_range rt p tx"
  shows "\<exists>spans. detectWindowed rt p tx = Some spans \<and> good_spans tx spans"
proof -
  obtain ws where ws: "windows tx = Some ws" "\<forall>w \<in> set ws. window_ok tx w" by (rule windows_spec)
  have whole: "detects_in_range rt p tx" using assms(2) by (simp add: detectors_in_range_def)
  have parts: "detects_in_range rt p part" if "w \<in> set ws" "slice tx (w_start w) (w_end w) = Some part" for w part
    using assms(2) ws(1) that
    by (force simp: detectors_in_range_def window_parts_def list_all_iff)
  show ?thesis
  proof (cases "length ws = 1")
    case True
    then show ?thesis using ws Run_good [OF assms(1) whole] by (auto simp: detectWindowed_def)
  next
    case False
    obtain sss where sss: "run_windows rt p tx ws = Some sss"
      "\<forall>s \<in> set (concat sss). span_in (length tx) s"
      using run_windows_in_range [OF assms(1) ws(2), of p] parts by blast
    have "\<forall>s \<in> set (concat sss). sp_Start s \<le> sp_End s" using sss(2) by (metis span_in_def)
    then have "good_spans tx (Resolve rt (concat sss))"
      using sss(2) go_runtime.Resolve_set [OF assms(1), of "concat sss"]
        go_runtime.Resolve_before [OF assms(1), of "concat sss"]
      by (auto simp: good_spans_def span_in_def)
    with ws(1) sss(1) False show ?thesis by (simp add: detectWindowed_def)
  qed
qed

text \<open>
  What a window reports, in terms of the whole text: a span that the pipeline finds in the slice of the window, moved by
  the start of the window. It covers the same bytes of the text as in the slice.
\<close>

definition found_by :: "runtime \<Rightarrow> Pipeline \<Rightarrow> string \<Rightarrow> window \<Rightarrow> Span \<Rightarrow> bool" where
  "found_by rt p tx w s \<longleftrightarrow>
     (\<exists>part res s'. slice tx (w_start w) (w_end w) = Some part \<and> Run rt p part = Some res \<and> s' \<in> set (Spans res) \<and>
        sp_Start s = w_start w + sp_Start s' \<and> sp_End s = w_start w + sp_End s' \<and>
        sp_Category s = sp_Category s' \<and> sp_Detector s = sp_Detector s' \<and> sp_Confidence s = sp_Confidence s' \<and>
        slice tx (sp_Start s) (sp_End s) = slice part (sp_Start s') (sp_End s'))"

lemma slice_part:
  assumes "slice tx a b = Some part" and "span_in (length part) s"
  shows "slice tx (a + sp_Start s) (a + sp_End s) = slice part (sp_Start s) (sp_End s)"
proof -
  have r: "0 \<le> a" "a \<le> b" "b \<le> int (length tx)" and p: "part = take (nat (b - a)) (drop (nat a) tx)"
    using assms(1) by (auto simp: slice_def split: if_splits)
  have s: "0 \<le> sp_Start s" "sp_Start s \<le> sp_End s" "sp_End s \<le> b - a"
    using assms(2) r by (auto simp: span_in_def p)
  have "take (nat (sp_End s - sp_Start s)) (drop (nat (sp_Start s)) part) =
      take (nat (sp_End s - sp_Start s)) (drop (nat (a + sp_Start s)) tx)"
    using r s by (simp add: p drop_take min_def nat_diff_distrib nat_add_distrib add.commute)
  then show ?thesis using r s by (simp add: slice_def p)
qed

lemma run_window_found:
  assumes "go_runtime rt" and "run_window rt p tx w = Some ss"
    and "\<And>part. slice tx (w_start w) (w_end w) = Some part \<Longrightarrow> detects_in_range rt p part"
  shows "s \<in> set ss \<longleftrightarrow> found_by rt p tx w s"
proof -
  obtain part res where part: "slice tx (w_start w) (w_end w) = Some part" and res: "Run rt p part = Some res"
    and ss: "ss = map (shift_span (w_start w)) (Spans res)"
    using assms(2) by (auto simp: run_window_def split: bind_splits)
  have "span_in (length part) s'" if "s' \<in> set (Spans res)" for s'
    using Run_good [OF assms(1) assms(3) [OF part]] res that by (auto simp: good_spans_def)
  then have bytes: "slice tx (w_start w + sp_Start s') (w_start w + sp_End s') = slice part (sp_Start s') (sp_End s')"
    if "s' \<in> set (Spans res)" for s'
    using slice_part [OF part] that by blast
  show ?thesis
  proof
    assume "s \<in> set ss"
    then show "found_by rt p tx w s"
      using part res bytes by (auto simp: ss found_by_def shift_span_def add.commute)
  next
    assume "found_by rt p tx w s"
    then obtain s' where "s' \<in> set (Spans res)" "s = shift_span (w_start w) s'"
      using part res by (auto simp: found_by_def shift_span_def)
    then show "s \<in> set ss" by (simp add: ss)
  qed
qed

lemma run_windows_found:
  assumes "go_runtime rt" and "run_windows rt p tx ws = Some sss"
    and "\<And>w part. w \<in> set ws \<Longrightarrow> slice tx (w_start w) (w_end w) = Some part \<Longrightarrow> detects_in_range rt p part"
  shows "s \<in> set (concat sss) \<longleftrightarrow> (\<exists>w \<in> set ws. found_by rt p tx w s)"
  using assms(2,3)
proof (induction ws arbitrary: sss)
  case (Cons w ws)
  then obtain ss rest where ss: "run_window rt p tx w = Some ss" and rest: "run_windows rt p tx ws = Some rest"
    and sss: "sss = ss # rest"
    by (auto split: bind_splits)
  have "s \<in> set ss \<longleftrightarrow> found_by rt p tx w s"
    by (rule run_window_found [OF assms(1) ss Cons.prems(2)]) simp_all
  moreover have "s \<in> set (concat rest) \<longleftrightarrow> (\<exists>w \<in> set ws. found_by rt p tx w s)"
    by (rule Cons.IH [OF rest Cons.prems(2)]) simp_all
  ultimately show ?case by (auto simp: sss)
qed simp

lemma window_list_length: "window_list tx bs = Some ws \<Longrightarrow> length ws = length bs - 1"
  by (induction tx bs arbitrary: ws rule: window_list.induct) (auto split: bind_splits)

text \<open>A text with one window is its own window.\<close>

lemma one_window:
  assumes "windows tx = Some ws" and "length ws = 1"
  shows "ws = [\<lparr> w_start = 0, w_end = int (length tx) \<rparr>]"
proof (cases "int (length tx) \<le> chunkSize + 2 * chunkOverlap")
  case False
  obtain bs where bs: "core_loop tx 0 = Some bs" "bs \<noteq> []" "last bs = int (length tx)"
    using core_loop_spec [of 0 tx] by auto
  then have w: "window_list tx (0 # bs) = Some ws" using assms(1) False by (simp add: windows_def coreBoundaries_def)
  from window_list_length [OF w] have "length bs = 1" using assms(2) by simp
  then have "bs = [int (length tx)]" using bs(3) by (cases bs) auto
  with w show ?thesis by (auto simp: extendBefore_def extendAfter_def chunkOverlap_def split: bind_splits)
qed (use assms in \<open>simp add: windows_def\<close>)

lemma span_eq_iff:
  "(s :: Span) = s' \<longleftrightarrow> sp_Start s = sp_Start s' \<and> sp_End s = sp_End s' \<and> sp_Category s = sp_Category s' \<and>
     sp_Detector s = sp_Detector s' \<and> sp_Confidence s = sp_Confidence s'"
  by (cases s; cases s') auto

lemma found_by_whole:
  assumes "Run rt p tx = Some res"
  shows "found_by rt p tx \<lparr> w_start = 0, w_end = int (length tx) \<rparr> s \<longleftrightarrow> s \<in> set (Spans res)"
proof
  assume "found_by rt p tx \<lparr> w_start = 0, w_end = int (length tx) \<rparr> s"
  then obtain s' where "s' \<in> set (Spans res)" "s = s'"
    using assms by (auto simp: found_by_def slice_def span_eq_iff split: if_splits)
  then show "s \<in> set (Spans res)" by simp
qed (use assms in \<open>auto simp: found_by_def slice_def\<close>)

lemma filterSpans_good: "good_spans tx spans \<Longrightarrow> good_spans tx (filterSpans spans cats rules)"
  by (auto simp: good_spans_def filterSpans_def Let_def sorted_wrt_filter)

subsection \<open>Properties\<close>

text \<open>
  C13. The windows of a text never panic, are in range and begin and end at an edge of the text, next
  to whitespace or at the first byte of a rune, so the slice of each window of a valid UTF-8 text is
  valid UTF-8. They cover the text with their promised overlap: each position lies in some window
  together with the \<^verbatim>\<open>chunkOverlap\<close> - 1 bytes before it and the \<^verbatim>\<open>chunkOverlap\<close> bytes after it, as
  far as the text goes.
\<close>

theorem windows_cover:
  "\<exists>ws. windows tx = Some ws \<and> (\<forall>w \<in> set ws. window_ok tx w) \<and>
     (valid_utf8 tx \<longrightarrow>
       (\<forall>w \<in> set ws. \<exists>part. slice tx (w_start w) (w_end w) = Some part \<and> valid_utf8 part)) \<and>
     (\<forall>s. 0 \<le> s \<and> s < int (length tx) \<longrightarrow> (\<exists>w \<in> set ws. sees tx w s))"
  using windows_spec [of tx] window_valid by metis

theorem windows_cover_witness:
  "\<exists>ws. windows ''ab c'' = Some ws \<and> (\<exists>w \<in> set ws. sees ''ab c'' w 2)"
  using windows_cover [of "''ab c''"] by force


text \<open>
  The category filter and the combination rules keep exactly the spans whose category is wanted
  (any, when no category is given) and whose first rule, if there is one, names a category present
  among all the detected spans, wanted or not.
\<close>

lemma filterSpans_spec:
  "filterSpans spans cats rules =
     filter (\<lambda>s. (cats = [] \<or> sp_Category s \<in> set cats) \<and>
       (case find (\<lambda>r. cr_Category r = sp_Category s) rules of
          None \<Rightarrow> True
        | Some r \<Rightarrow> set (cr_RequiresAny r) \<inter> sp_Category ` set spans \<noteq> {})) spans"
proof -
  have "comboAllowed c present rules =
      (case find (\<lambda>r. cr_Category r = c) rules of None \<Rightarrow> True
       | Some r \<Rightarrow> set (cr_RequiresAny r) \<inter> present \<noteq> {})" for c present
    by (induction rules) (auto simp: list_ex_iff)
  then show ?thesis by (auto simp: filterSpans_def Let_def intro!: filter_cong)
qed

end
