(* ===== verification/Detector_Contract.thy ===== *)
theory Detector_Contract
  imports Regex_Props Chunk
begin

text \<open>
  What the engine relies on in a detector (\<^verbatim>\<open>internal/pii/detector.go\<close>): a run returns, without a panic and without
  looping, and every span is a non-empty range of the text. Each detector is an interpretation of the locale;
  a pipeline of such detectors keeps the engine's hypothesis on its detectors.
\<close>

definition detector_of ::
  "runtime \<Rightarrow> string \<Rightarrow> category list \<Rightarrow> (Text \<Rightarrow> Span list option) \<Rightarrow> detector" where
  "detector_of rt name cats detect =
     (let f = (\<lambda>t. case detect t of Some ss \<Rightarrow> ss | None \<Rightarrow> []) in
      \<lparr> det_Name = name, det_Categories = cats,
        det_Detect = (\<lambda>x. f \<lparr> Raw = x, Lower = ToLower rt x \<rparr>), det_DetectLower = Some f \<rparr>)"

locale text_detector =
  fixes detect :: "Text \<Rightarrow> Span list option"
  assumes returns: "\<exists>ss. detect t = Some ss"
    and in_range: "detect t = Some ss \<Longrightarrow> s \<in> set ss \<Longrightarrow> span_wf (length (Raw t)) s"
begin

lemma detect_with_in_range:
  "s \<in> set (detect_with (detector_of rt name cats detect) t) \<Longrightarrow> span_wf (length (Raw t)) s"
  using returns [of t] in_range [of t] by (auto simp: detect_with_def detector_of_def Let_def)

lemma singleton_pipeline: "detects_in_range rt (NewPipeline [detector_of rt name cats detect]) tx"
  using detect_with_in_range span_wf_in by (fastforce simp: detects_in_range_def NewPipeline_def)

end

text \<open>A detector that reports spans one at a time for the matches of a pattern or the items of a list.\<close>

lemma text_detector_concat:
  assumes "\<And>t x. x \<in> set (xs t) \<Longrightarrow> \<exists>ss. f t x = Some ss \<and> (\<forall>s \<in> set ss. span_wf (length (Raw t)) s)"
  shows "text_detector (\<lambda>t. concat_opt (f t) (xs t))"
proof
  fix t show "\<exists>ss. concat_opt (f t) (xs t) = Some ss" using assms by (intro concat_opt_total) blast
next
  fix t ss s assume d: "concat_opt (f t) (xs t) = Some ss" "s \<in> set ss"
  then obtain x zs where "x \<in> set (xs t)" "f t x = Some zs" "s \<in> set zs" by (blast dest: concat_opt_mem)
  with assms [of x t] show "span_wf (length (Raw t)) s" by auto
qed

lemma pipeline_in_range:
  assumes "\<forall>d \<in> set ds. \<exists>name cats f. d = detector_of rt name cats f \<and> text_detector f"
  shows "detectors_in_range rt (NewPipeline ds) tx"
proof -
  have "detects_in_range rt (NewPipeline ds) x" for x
    unfolding detects_in_range_def
  proof (intro ballI)
    fix d s
    assume "d \<in> set (pl_detectors (NewPipeline ds))" and s: "s \<in> set (detect_with d \<lparr>Raw = x, Lower = ToLower rt x\<rparr>)"
    then obtain name cats f where "d = detector_of rt name cats f" "text_detector f"
      using assms by (auto simp: NewPipeline_def)
    with text_detector.detect_with_in_range [of f s rt name cats] s show "span_in (length x) s"
      by (fastforce intro: span_wf_in)
  qed
  then show ?thesis by (simp add: detectors_in_range_def list_all_iff)
qed

end
