(* ===== verification/Name_Tokens.thy ===== *)
theory Name_Tokens
  imports Detector_Contract
begin

text \<open>
  Tokens, dictionaries and the classification of tokens for the detector of names
  (\<^verbatim>\<open>internal/pii/detectors/names_tokens.go\<close>, with the constants of \<^verbatim>\<open>names.go\<close>). The embedded dictionary files are
  arguments: their contents, \<^term>\<open>None\<close> for a file that cannot be read. Go's sets of strings are lists here,
  looked up with \<^verbatim>\<open>m[k]\<close> only.
\<close>

subsection \<open>Constants\<close>

definition sufAmi :: string where
  "sufAmi = encode_runes [0x430, 0x43c, 0x438] \<comment> \<open>ami\<close>"

definition sufImi :: string where
  "sufImi = encode_runes [0x438, 0x43c, 0x438] \<comment> \<open>imi\<close>"

definition sufYmi :: string where
  "sufYmi = encode_runes [0x44b, 0x43c, 0x438] \<comment> \<open>ymi\<close>"

definition sufOgo :: string where
  "sufOgo = encode_runes [0x43e, 0x433, 0x43e] \<comment> \<open>ogo\<close>"

definition sufOmu :: string where
  "sufOmu = encode_runes [0x43e, 0x43c, 0x443] \<comment> \<open>omu\<close>"

definition sufOva :: string where
  "sufOva = encode_runes [0x43e, 0x432, 0x430] \<comment> \<open>ova\<close>"

definition sufEva :: string where
  "sufEva = encode_runes [0x435, 0x432, 0x430] \<comment> \<open>eva\<close>"

definition sufYova :: string where
  "sufYova = encode_runes [0x451, 0x432, 0x430] \<comment> \<open>yova\<close>"

definition sufIna :: string where
  "sufIna = encode_runes [0x438, 0x43d, 0x430] \<comment> \<open>ina\<close>"

definition sufYna :: string where
  "sufYna = encode_runes [0x44b, 0x43d, 0x430] \<comment> \<open>yna\<close>"

definition sufOvna :: string where
  "sufOvna = encode_runes [0x43e, 0x432, 0x43d, 0x430] \<comment> \<open>ovna\<close>"

definition sufEvna :: string where
  "sufEvna = encode_runes [0x435, 0x432, 0x43d, 0x430] \<comment> \<open>evna\<close>"

definition sufIchna :: string where
  "sufIchna = encode_runes [0x438, 0x447, 0x43d, 0x430] \<comment> \<open>ichna\<close>"

definition sufInichna :: string where
  "sufInichna = encode_runes [0x438, 0x43d, 0x438, 0x447, 0x43d, 0x430] \<comment> \<open>inichna\<close>"

definition sufSkaya :: string where
  "sufSkaya = encode_runes [0x441, 0x43a, 0x430, 0x44f] \<comment> \<open>skaya\<close>"

definition sufTskaya :: string where
  "sufTskaya = encode_runes [0x446, 0x43a, 0x430, 0x44f] \<comment> \<open>tskaya\<close>"

definition sufSky :: string where
  "sufSky = encode_runes [0x441, 0x43a, 0x438, 0x439] \<comment> \<open>skiy\<close>"

definition sufOv_det :: string where
  "sufOv_det = encode_runes [0x43e, 0x432] \<comment> \<open>ov\<close>"

definition sufEv_det :: string where
  "sufEv_det = encode_runes [0x435, 0x432] \<comment> \<open>ev\<close>"

definition sufYov_det :: string where
  "sufYov_det = encode_runes [0x451, 0x432] \<comment> \<open>yov\<close>"

definition sufIn_det :: string where
  "sufIn_det = encode_runes [0x438, 0x43d] \<comment> \<open>in\<close>"

definition sufYn_det :: string where
  "sufYn_det = encode_runes [0x44b, 0x43d] \<comment> \<open>yn\<close>"

definition sufOy :: string where
  "sufOy = encode_runes [0x43e, 0x439] \<comment> \<open>oy\<close>"

definition sufOm :: string where
  "sufOm = encode_runes [0x43e, 0x43c] \<comment> \<open>om\<close>"

definition sufEm :: string where
  "sufEm = encode_runes [0x435, 0x43c] \<comment> \<open>em\<close>"

definition sufAh :: string where
  "sufAh = encode_runes [0x430, 0x445] \<comment> \<open>akh\<close>"

definition sufYm :: string where
  "sufYm = encode_runes [0x44b, 0x43c] \<comment> \<open>ym\<close>"

definition sufIm :: string where
  "sufIm = encode_runes [0x438, 0x43c] \<comment> \<open>im\<close>"

definition sufEy_det :: string where
  "sufEy_det = encode_runes [0x435, 0x439] \<comment> \<open>ey\<close>"

definition sufIch_det :: string where
  "sufIch_det = encode_runes [0x438, 0x447] \<comment> \<open>ich\<close>"

definition sufIy :: string where
  "sufIy = encode_runes [0x438, 0x439] \<comment> \<open>iy\<close>"

definition monthJanuary :: string where
  "monthJanuary = encode_runes [0x44f, 0x43d, 0x432, 0x430, 0x440, 0x44f] \<comment> \<open>yanvarya\<close>"

definition monthFebruary :: string where
  "monthFebruary = encode_runes [0x444, 0x435, 0x432, 0x440, 0x430, 0x43b, 0x44f] \<comment> \<open>fevralya\<close>"

definition monthMarch :: string where
  "monthMarch = encode_runes [0x43c, 0x430, 0x440, 0x442, 0x430] \<comment> \<open>marta\<close>"

definition monthApril :: string where
  "monthApril = encode_runes [0x430, 0x43f, 0x440, 0x435, 0x43b, 0x44f] \<comment> \<open>aprelya\<close>"

definition monthMay :: string where
  "monthMay = encode_runes [0x43c, 0x430, 0x44f] \<comment> \<open>maya\<close>"

definition monthJune :: string where
  "monthJune = encode_runes [0x438, 0x44e, 0x43d, 0x44f] \<comment> \<open>iyunya\<close>"

definition monthJuly :: string where
  "monthJuly = encode_runes [0x438, 0x44e, 0x43b, 0x44f] \<comment> \<open>iyulya\<close>"

definition monthAugust :: string where
  "monthAugust = encode_runes [0x430, 0x432, 0x433, 0x443, 0x441, 0x442, 0x430] \<comment> \<open>avgusta\<close>"

definition monthSeptember :: string where
  "monthSeptember = encode_runes [0x441, 0x435, 0x43d, 0x442, 0x44f, 0x431, 0x440, 0x44f] \<comment> \<open>sentyabrya\<close>"

definition monthOctober :: string where
  "monthOctober = encode_runes [0x43e, 0x43a, 0x442, 0x44f, 0x431, 0x440, 0x44f] \<comment> \<open>oktyabrya\<close>"

definition monthNovember :: string where
  "monthNovember = encode_runes [0x43d, 0x43e, 0x44f, 0x431, 0x440, 0x44f] \<comment> \<open>noyabrya\<close>"

definition monthDecember :: string where
  "monthDecember = encode_runes [0x434, 0x435, 0x43a, 0x430, 0x431, 0x440, 0x44f] \<comment> \<open>dekabrya\<close>"

definition ctxClient :: string where
  "ctxClient = encode_runes [0x43a, 0x43b, 0x438, 0x435, 0x43d, 0x442] \<comment> \<open>klient\<close>"

definition ctxFIO :: string where
  "ctxFIO = encode_runes [0x444, 0x438, 0x43e] \<comment> \<open>fio\<close>"

definition ctxZovut :: string where
  "ctxZovut = encode_runes [0x437, 0x43e, 0x432, 0x443, 0x442] \<comment> \<open>zovut\<close>"

definition ctxRussia :: string where
  "ctxRussia = encode_runes [0x440, 0x43e, 0x441, 0x441, 0x438, 0x44f] \<comment> \<open>rossiya\<close>"

definition ctxOtdelenie :: string where
  "ctxOtdelenie = encode_runes [0x43e, 0x442, 0x434, 0x435, 0x43b, 0x435, 0x43d, 0x438, 0x435] \<comment> \<open>otdelenie\<close>"

definition ctxOblast :: string where
  "ctxOblast = encode_runes [0x43e, 0x431, 0x43b, 0x430, 0x441, 0x442, 0x44c] \<comment> \<open>oblast\<close>"

definition ctxGorod :: string where
  "ctxGorod = encode_runes [0x433, 0x43e, 0x440, 0x43e, 0x434] \<comment> \<open>gorod\<close>"

definition ctxDom :: string where
  "ctxDom = encode_runes [0x434, 0x43e, 0x43c] \<comment> \<open>dom\<close>"

definition stopWordGrazhdanin :: string where
  "stopWordGrazhdanin = encode_runes [0x433, 0x440, 0x430, 0x436, 0x434, 0x430, 0x43d, 0x438, 0x43d] \<comment> \<open>grazhdanin\<close>"

definition stopWordGrazhdanka :: string where
  "stopWordGrazhdanka = encode_runes [0x433, 0x440, 0x430, 0x436, 0x434, 0x430, 0x43d, 0x43a, 0x430] \<comment> \<open>grazhdanka\<close>"

definition stopWordRespublika :: string where
  "stopWordRespublika = encode_runes [0x440, 0x435, 0x441, 0x43f, 0x443, 0x431, 0x43b, 0x438, 0x43a, 0x430] \<comment> \<open>respublika\<close>"

definition stopWordPo :: string where
  "stopWordPo = encode_runes [0x43f, 0x43e] \<comment> \<open>po\<close>"

definition ctxZayavitel :: string where
  "ctxZayavitel = encode_runes [0x437, 0x430, 0x44f, 0x432, 0x438, 0x442, 0x435, 0x43b, 0x44c] \<comment> \<open>zayavitel\<close>"

definition ctxImya :: string where
  "ctxImya = encode_runes [0x438, 0x43c, 0x44f] \<comment> \<open>imya\<close>"

definition ctxDlya :: string where
  "ctxDlya = encode_runes [0x434, 0x43b, 0x44f] \<comment> \<open>dlya\<close>"

definition ctxNaImya :: string where
  "ctxNaImya = encode_runes [0x43d, 0x430, 0x20, 0x438, 0x43c, 0x44f] \<comment> \<open>na imya\<close>"

definition ctxFIOAbbrev :: string where
  "ctxFIOAbbrev = encode_runes [0x444, 0x2e, 0x438, 0x2e, 0x43e, 0x2e] \<comment> \<open>f.i.o.\<close>"

definition ctxPasport :: string where
  "ctxPasport = encode_runes [0x43f, 0x430, 0x441, 0x43f, 0x43e, 0x440, 0x442] \<comment> \<open>pasport\<close>"

subsection \<open>Tokens\<close>

record token =
  tok_start :: nat
  tok_end :: nat
  tok_text :: string

lemma decode_step: "(r, n) = DecodeRune (drop i tx) \<Longrightarrow> i < length tx \<Longrightarrow> 0 < n"
  using DecodeRune_size_pos [of "drop i tx"] by (simp add: prod_eq_iff)

function consumeWord :: "string \<Rightarrow> nat \<Rightarrow> nat \<Rightarrow> nat \<times> nat" where
  "consumeWord tx i runeCount =
     (if i < length tx then
        let (r, size) = DecodeRune (drop i tx) in
        if isLetterRune_det r then consumeWord tx (i + size) (runeCount + 1)
        else if r = 0x2D \<and> i + size < length tx \<and> isLetterRune_det (fst (DecodeRune (drop (i + size) tx)))
        then consumeWord tx (i + size) runeCount
        else (i, runeCount)
      else (i, runeCount))"
  by pat_completeness auto
termination
  by (relation "measure (\<lambda>(tx, i, n). length tx - i)")
     (auto simp: diff_less_mono2 dest: decode_step)

declare consumeWord.simps [simp del]

text \<open>The end of the token that starts at \<open>i\<close>: a word, or a single letter with its dot.\<close>

definition token_stop :: "string \<Rightarrow> nat \<Rightarrow> nat" where
  "token_stop tx i =
     (let (j, runeCount) = consumeWord tx i 0 in
      if runeCount = 1 \<and> j < length tx \<and> tx ! j = CHR ''.'' then j + 1 else j)"

lemma consumeWord_ge: "i \<le> length tx \<Longrightarrow> i \<le> fst (consumeWord tx i n) \<and> fst (consumeWord tx i n) \<le> length tx"
proof (induction tx i n rule: consumeWord.induct)
  case (1 tx i n)
  show ?case
  proof (cases "i < length tx")
    case True
    obtain r k where d: "DecodeRune (drop i tx) = (r, k)" by fastforce
    with True DecodeRune_size_le [of "drop i tx"] have k: "i + k \<le> length tx" by simp
    show ?thesis using True k "1.IH" [OF True d [symmetric] refl] by (subst (1 2) consumeWord.simps) (auto simp: d)
  qed (use 1 in \<open>simp add: consumeWord.simps\<close>)
qed

lemma token_stop_gt:
  assumes "i < length tx" and "isLetterRune_det (fst (DecodeRune (drop i tx)))"
  shows "i < token_stop tx i" and "token_stop tx i \<le> length tx"
proof -
  obtain r k where d: "DecodeRune (drop i tx) = (r, k)" by fastforce
  with assms DecodeRune_size_le [of "drop i tx"] DecodeRune_size_pos [of "drop i tx"]
  have k: "0 < k" "i + k \<le> length tx" by simp_all
  have "consumeWord tx i 0 = consumeWord tx (i + k) 1"
    using assms d by (subst consumeWord.simps) simp
  with consumeWord_ge [OF k(2), of 1] k show "i < token_stop tx i" and "token_stop tx i \<le> length tx"
    by (auto simp: token_stop_def Let_def split: prod.splits)
qed

function tokenize_from :: "string \<Rightarrow> nat \<Rightarrow> token list" where
  "tokenize_from tx i =
     (if i < length tx then
        let (r, size) = DecodeRune (drop i tx) in
        if \<not> isLetterRune_det r then tokenize_from tx (i + size)
        else let e = token_stop tx i in
          \<lparr> tok_start = i, tok_end = e, tok_text = take (e - i) (drop i tx) \<rparr> # tokenize_from tx e
      else [])"
  by pat_completeness auto
termination
proof (relation "measure (\<lambda>(tx, i). length tx - i)", goal_cases)
  case (3 tx i p r k e)
  then show ?case using token_stop_gt(1) [of i tx] by (auto simp: prod_eq_iff)
qed (auto simp: diff_less_mono2 dest: decode_step)

declare tokenize_from.simps [simp del]

definition tokenize :: "string \<Rightarrow> token list" where
  "tokenize tx = tokenize_from tx 0"

text \<open>
  \<^verbatim>\<open>text[a:b]\<close> for the end of a token and the start of a later one, or the bounds of a token: never out of
  range, since the tokens stand in the order of the text (\<open>tokenize_ordered\<close>).
\<close>

definition between :: "string \<Rightarrow> nat \<Rightarrow> nat \<Rightarrow> string" where
  "between s a b = take (b - a) (drop a s)"

definition tokenLower :: "runtime \<Rightarrow> Text \<Rightarrow> token \<Rightarrow> string" where
  "tokenLower rt t tok =
     (if LowerOK t then between (Lower t) (tok_start tok) (tok_end tok) else ToLower rt (tok_text tok))"

definition onlyWhitespace :: "string \<Rightarrow> nat \<Rightarrow> nat \<Rightarrow> bool" where
  "onlyWhitespace tx a b \<longleftrightarrow> TrimSpace (between tx a b) = ''''"

subsection \<open>Name tokens\<close>

record nameToken = token +
  nt_lower :: string
  nt_isName :: bool
  nt_isSurname :: bool
  nt_isSurnameGuess :: bool
  nt_isPatr :: bool
  nt_isInitial :: bool
  nt_isPatrMarker :: bool

definition isNameOrSurname :: "nameToken \<Rightarrow> bool" where
  "isNameOrSurname t \<longleftrightarrow> nt_isName t \<or> nt_isSurname t \<or> nt_isSurnameGuess t"

definition isCoreName :: "nameToken \<Rightarrow> bool" where
  "isCoreName t \<longleftrightarrow> isNameOrSurname t \<or> nt_isPatr t \<or> nt_isInitial t"

definition isNameLike :: "nameToken \<Rightarrow> bool" where
  "isNameLike t \<longleftrightarrow> isCoreName t \<or> nt_isPatrMarker t"

definition isNameLikeNoMarker :: "nameToken \<Rightarrow> bool" where
  "isNameLikeNoMarker t \<longleftrightarrow> isCoreName t"

definition isNameLikeConfident :: "nameToken \<Rightarrow> bool" where
  "isNameLikeConfident t \<longleftrightarrow> nt_isName t \<or> nt_isSurname t \<or> nt_isPatr t \<or> nt_isInitial t"

definition isSurnameLike :: "nameToken \<Rightarrow> bool" where
  "isSurnameLike t \<longleftrightarrow> nt_isSurname t \<or> nt_isSurnameGuess t"

subsection \<open>Dictionaries\<close>

record namesDict =
  dict_names :: "string list"
  dict_nameStems :: "string list"
  dict_surnameStems :: "string list"
  dict_famous :: "string list list"
  dict_famousSurnames :: "string list"

definition readDict_det :: "string option \<Rightarrow> string list" where
  "readDict_det data =
     (case data of None \<Rightarrow> []
      | Some d \<Rightarrow> filter (\<lambda>l. l \<noteq> '''') (map TrimSpace (split_on (CHR 0x0A) d)))"

definition nameStem :: "string \<Rightarrow> string" where
  "nameStem name =
     (let r = runes name in
      if r = [] then name
      else if last r = 0x430 \<or> last r = 0x44F \<or> last r = 0x439 then encode_runes (butlast r)
      else name)"

text \<open>A loop that cuts the first suffix of a list the word ends with.\<close>

definition cut_first :: "string list \<Rightarrow> string \<Rightarrow> string" where
  "cut_first sufs s =
     (case List.find (HasSuffix s) sufs of None \<Rightarrow> s | Some e \<Rightarrow> take (length s - length e) s)"

definition surnameStem :: "string \<Rightarrow> string" where
  "surnameStem s = cut_first [sufOv_det, sufEv_det, sufIn_det, sufYn_det] s"

definition normalizeWord :: "string \<Rightarrow> string" where
  "normalizeWord lower =
     cut_first [sufOv_det, sufEv_det, sufYov_det, sufIn_det, sufYn_det]
       (cut_first [sufYmi, sufImi, sufOgo, sufOmu, sufAmi, sufAh, sufYm, sufIm, sufOy, sufOm, sufEm,
                   encode_runes [0x430], encode_runes [0x44f], encode_runes [0x443], encode_runes [0x44b],
                   encode_runes [0x435], encode_runes [0x439]] lower)"

definition loadFamousLine :: "namesDict \<Rightarrow> string \<Rightarrow> namesDict" where
  "loadFamousLine d line =
     (let ws = Fields line;
          d' = d\<lparr> dict_famous := dict_famous d @ [map normalizeWord ws] \<rparr>
      in if ws \<noteq> [] then d'\<lparr> dict_famousSurnames := dict_famousSurnames d' @ [normalizeWord (last ws)] \<rparr> else d')"

definition loadNamesDict :: "string option \<Rightarrow> string option \<Rightarrow> string option \<Rightarrow> namesDict" where
  "loadNamesDict firstNames surnames famous =
     (let ns = readDict_det firstNames;
          d = \<lparr> dict_names = ns, dict_nameStems = map nameStem ns,
                dict_surnameStems = map surnameStem (readDict_det surnames),
                dict_famous = [], dict_famousSurnames = [] \<rparr>
      in foldl loadFamousLine d (readDict_det famous))"

subsection \<open>Word lists\<close>

definition stopWords :: "string list" where
  "stopWords =
    [encode_runes [0x431, 0x430, 0x43d, 0x43a] \<comment> \<open>bank\<close>,
     encode_runes [0x43c, 0x43e, 0x441, 0x43a, 0x432, 0x430] \<comment> \<open>moskva\<close>,
     ctxRussia,
     encode_runes [0x440, 0x43e, 0x441, 0x441, 0x438, 0x439, 0x441, 0x43a, 0x430, 0x44f] \<comment> \<open>rossiyskaya\<close>,
     encode_runes [0x444, 0x435, 0x434, 0x435, 0x440, 0x430, 0x446, 0x438, 0x44f] \<comment> \<open>federatsiya\<close>,
     ctxOblast,
     ctxGorod,
     encode_runes [0x443, 0x43b, 0x438, 0x446, 0x430] \<comment> \<open>ulitsa\<close>,
     ctxDom,
     ctxClient,
     ctxPasport,
     ctxOtdelenie,
     encode_runes [0x43e, 0x444, 0x438, 0x441] \<comment> \<open>ofis\<close>,
     encode_runes [0x434, 0x43e, 0x433, 0x43e, 0x432, 0x43e, 0x440] \<comment> \<open>dogovor\<close>,
     encode_runes [0x441, 0x447, 0x451, 0x442] \<comment> \<open>schyot\<close>,
     encode_runes [0x43a, 0x430, 0x440, 0x442, 0x430] \<comment> \<open>karta\<close>,
     encode_runes [0x43d, 0x43e, 0x43c, 0x435, 0x440] \<comment> \<open>nomer\<close>,
     encode_runes [0x43a, 0x430, 0x440, 0x442, 0x44b] \<comment> \<open>karty\<close>,
     encode_runes [0x437, 0x430, 0x447, 0x438, 0x441, 0x43b, 0x435, 0x43d, 0x438, 0x44f] \<comment> \<open>zachisleniya\<close>,
     ctxDlya,
     encode_runes [0x43d, 0x430] \<comment> \<open>na\<close>,
     stopWordPo,
     encode_runes [0x43e, 0x442] \<comment> \<open>ot\<close>,
     stopWordGrazhdanin,
     stopWordGrazhdanka,
     encode_runes [0x440, 0x435, 0x441, 0x43f, 0x443, 0x431, 0x43b, 0x438, 0x43a, 0x438] \<comment> \<open>respubliki\<close>,
     stopWordRespublika,
     encode_runes [0x434, 0x430, 0x442, 0x430] \<comment> \<open>data\<close>,
     encode_runes [0x43c, 0x435, 0x441, 0x442, 0x43e] \<comment> \<open>mesto\<close>,
     encode_runes [0x440, 0x43e, 0x436, 0x434, 0x435, 0x43d, 0x438, 0x44f] \<comment> \<open>rozhdeniya\<close>,
     encode_runes [0x440, 0x43e, 0x436, 0x434, 0x435, 0x43d, 0x438, 0x435] \<comment> \<open>rozhdenie\<close>,
     encode_runes [0x440, 0x43e, 0x436, 0x434, 0x435, 0x43d] \<comment> \<open>rozhden\<close>,
     encode_runes [0x440, 0x43e, 0x436, 0x434, 0x451, 0x43d] \<comment> \<open>rozhdyon\<close>,
     ''xxxx'',
     encode_runes [0x442, 0x435, 0x441, 0x442] \<comment> \<open>test\<close>,
     encode_runes [0x442, 0x435, 0x441, 0x442, 0x43e, 0x432] \<comment> \<open>testov\<close>,
     encode_runes [0x442, 0x435, 0x441, 0x442, 0x43e, 0x432, 0x43e, 0x439] \<comment> \<open>testovoy\<close>,
     encode_runes [0x442, 0x435, 0x441, 0x442, 0x43e, 0x432, 0x43e, 0x439, 0x20, 0x441, 0x440, 0x435, 0x434, 0x435] \<comment> \<open>testovoy srede\<close>,
     encode_runes [0x44f, 0x43d, 0x432, 0x430, 0x440, 0x44c] \<comment> \<open>yanvar\<close>,
     monthJanuary,
     encode_runes [0x444, 0x435, 0x432, 0x440, 0x430, 0x43b, 0x44c] \<comment> \<open>fevral\<close>,
     monthFebruary,
     encode_runes [0x43c, 0x430, 0x440, 0x442] \<comment> \<open>mart\<close>,
     encode_runes [0x430, 0x43f, 0x440, 0x435, 0x43b, 0x44c] \<comment> \<open>aprel\<close>,
     monthApril,
     encode_runes [0x43c, 0x430, 0x439] \<comment> \<open>may\<close>,
     monthMay,
     encode_runes [0x438, 0x44e, 0x43d, 0x44c] \<comment> \<open>iyun\<close>,
     monthJune,
     encode_runes [0x438, 0x44e, 0x43b, 0x44c] \<comment> \<open>iyul\<close>,
     monthJuly,
     monthAugust,
     encode_runes [0x441, 0x435, 0x43d, 0x442, 0x44f, 0x431, 0x440, 0x44c] \<comment> \<open>sentyabr\<close>,
     monthSeptember,
     encode_runes [0x43e, 0x43a, 0x442, 0x44f, 0x431, 0x440, 0x44c] \<comment> \<open>oktyabr\<close>,
     monthOctober,
     encode_runes [0x43d, 0x43e, 0x44f, 0x431, 0x440, 0x44c] \<comment> \<open>noyabr\<close>,
     monthNovember,
     encode_runes [0x434, 0x435, 0x43a, 0x430, 0x431, 0x440, 0x44c] \<comment> \<open>dekabr\<close>,
     monthDecember,
     encode_runes [0x43f, 0x43e, 0x43d, 0x435, 0x434, 0x435, 0x43b, 0x44c, 0x43d, 0x438, 0x43a] \<comment> \<open>ponedelnik\<close>,
     encode_runes [0x432, 0x442, 0x43e, 0x440, 0x43d, 0x438, 0x43a] \<comment> \<open>vtornik\<close>,
     encode_runes [0x441, 0x440, 0x435, 0x434, 0x430] \<comment> \<open>sreda\<close>,
     encode_runes [0x447, 0x435, 0x442, 0x432, 0x435, 0x440, 0x433] \<comment> \<open>chetverg\<close>,
     encode_runes [0x43f, 0x44f, 0x442, 0x43d, 0x438, 0x446, 0x430] \<comment> \<open>pyatnitsa\<close>,
     encode_runes [0x441, 0x443, 0x431, 0x431, 0x43e, 0x442, 0x430] \<comment> \<open>subbota\<close>,
     encode_runes [0x432, 0x43e, 0x441, 0x43a, 0x440, 0x435, 0x441, 0x435, 0x43d, 0x44c, 0x435] \<comment> \<open>voskresene\<close>,
     encode_runes [0x43e, 0x441, 0x43d, 0x43e, 0x432, 0x43d, 0x43e, 0x439] \<comment> \<open>osnovnoy\<close>,
     encode_runes [0x433, 0x440, 0x430, 0x436, 0x434, 0x430, 0x43d, 0x438, 0x43d, 0x430] \<comment> \<open>grazhdanina\<close>,
     encode_runes [0x433, 0x440, 0x430, 0x436, 0x434, 0x430, 0x43d, 0x438, 0x43d, 0x443] \<comment> \<open>grazhdaninu\<close>,
     encode_runes [0x433, 0x440, 0x430, 0x436, 0x434, 0x430, 0x43d, 0x438, 0x43d, 0x43e, 0x43c] \<comment> \<open>grazhdaninom\<close>,
     encode_runes [0x433, 0x440, 0x430, 0x436, 0x434, 0x430, 0x43d, 0x438, 0x43d, 0x435] \<comment> \<open>grazhdanine\<close>,
     ctxImya,
     encode_runes [0x444, 0x430, 0x43c, 0x438, 0x43b, 0x438, 0x44f] \<comment> \<open>familiya\<close>,
     encode_runes [0x444, 0x430, 0x43c, 0x438, 0x43b, 0x438, 0x44e] \<comment> \<open>familiyu\<close>,
     encode_runes [0x43e, 0x442, 0x447, 0x435, 0x441, 0x442, 0x432, 0x43e] \<comment> \<open>otchestvo\<close>,
     encode_runes [0x441, 0x432, 0x438, 0x434, 0x435, 0x442, 0x435, 0x43b, 0x44c] \<comment> \<open>svidetel\<close>,
     encode_runes [0x43a, 0x43b, 0x438, 0x435, 0x43d, 0x442, 0x43a, 0x430] \<comment> \<open>klientka\<close>,
     encode_runes [0x437, 0x430, 0x451, 0x43c, 0x449, 0x438, 0x43a] \<comment> \<open>zayomshchik\<close>,
     encode_runes [0x437, 0x430, 0x435, 0x43c, 0x449, 0x438, 0x43a] \<comment> \<open>zaemshchik\<close>,
     encode_runes [0x441, 0x43e, 0x437, 0x430, 0x451, 0x43c, 0x449, 0x438, 0x43a] \<comment> \<open>sozayomshchik\<close>,
     encode_runes [0x441, 0x43e, 0x437, 0x430, 0x435, 0x43c, 0x449, 0x438, 0x43a] \<comment> \<open>sozaemshchik\<close>,
     ctxZayavitel,
     encode_runes [0x43e, 0x43f, 0x435, 0x440, 0x430, 0x442, 0x43e, 0x440] \<comment> \<open>operator\<close>]"

definition nameContext :: "string list" where
  "nameContext =
    [ctxClient,
     encode_runes [0x43a, 0x43b, 0x438, 0x435, 0x43d, 0x442, 0x43a, 0x430] \<comment> \<open>klientka\<close>,
     ctxZayavitel,
     stopWordGrazhdanin,
     stopWordGrazhdanka,
     encode_runes [0x434, 0x435, 0x440, 0x436, 0x430, 0x442, 0x435, 0x43b, 0x44c] \<comment> \<open>derzhatel\<close>,
     encode_runes [0x432, 0x43b, 0x430, 0x434, 0x435, 0x43b, 0x435, 0x446] \<comment> \<open>vladelets\<close>,
     ctxFIO,
     ctxImya,
     ctxZovut,
     encode_runes [0x43c, 0x435, 0x43d, 0x44f, 0x20, 0x437, 0x43e, 0x432, 0x443, 0x442] \<comment> \<open>menya zovut\<close>,
     encode_runes [0x441, 0x43e, 0x442, 0x440, 0x443, 0x434, 0x43d, 0x438, 0x43a] \<comment> \<open>sotrudnik\<close>,
     encode_runes [0x43c, 0x435, 0x43d, 0x435, 0x434, 0x436, 0x435, 0x440] \<comment> \<open>menedzher\<close>,
     encode_runes [0x444, 0x430, 0x43c, 0x438, 0x43b, 0x438, 0x44f] \<comment> \<open>familiya\<close>,
     encode_runes [0x444, 0x430, 0x43c, 0x438, 0x43b, 0x438, 0x44e] \<comment> \<open>familiyu\<close>,
     encode_runes [0x43e, 0x442, 0x447, 0x435, 0x441, 0x442, 0x432, 0x43e] \<comment> \<open>otchestvo\<close>,
     encode_runes [0x441, 0x432, 0x438, 0x434, 0x435, 0x442, 0x435, 0x43b, 0x44c] \<comment> \<open>svidetel\<close>,
     encode_runes [0x437, 0x430, 0x451, 0x43c, 0x449, 0x438, 0x43a] \<comment> \<open>zayomshchik\<close>,
     encode_runes [0x437, 0x430, 0x435, 0x43c, 0x449, 0x438, 0x43a] \<comment> \<open>zaemshchik\<close>,
     encode_runes [0x441, 0x43e, 0x437, 0x430, 0x451, 0x43c, 0x449, 0x438, 0x43a] \<comment> \<open>sozayomshchik\<close>,
     encode_runes [0x441, 0x43e, 0x437, 0x430, 0x435, 0x43c, 0x449, 0x438, 0x43a] \<comment> \<open>sozaemshchik\<close>,
     encode_runes [0x43f, 0x43e, 0x440, 0x443, 0x447, 0x438, 0x442, 0x435, 0x43b, 0x44c] \<comment> \<open>poruchitel\<close>,
     encode_runes [0x43f, 0x43e, 0x43b, 0x443, 0x447, 0x430, 0x442, 0x435, 0x43b, 0x44c] \<comment> \<open>poluchatel\<close>,
     encode_runes [0x43e, 0x442, 0x43f, 0x440, 0x430, 0x432, 0x438, 0x442, 0x435, 0x43b, 0x44c] \<comment> \<open>otpravitel\<close>,
     encode_runes [0x432, 0x43a, 0x43b, 0x430, 0x434, 0x447, 0x438, 0x43a] \<comment> \<open>vkladchik\<close>,
     encode_runes [0x43f, 0x440, 0x435, 0x434, 0x441, 0x442, 0x430, 0x432, 0x438, 0x442, 0x435, 0x43b, 0x44c] \<comment> \<open>predstavitel\<close>]"

definition fieldLabelContext :: "string list" where
  "fieldLabelContext =
    [encode_runes [0x444, 0x430, 0x43c, 0x438, 0x43b, 0x438, 0x44f] \<comment> \<open>familiya\<close>,
     encode_runes [0x444, 0x430, 0x43c, 0x438, 0x43b, 0x438, 0x44e] \<comment> \<open>familiyu\<close>,
     encode_runes [0x43e, 0x442, 0x447, 0x435, 0x441, 0x442, 0x432, 0x43e] \<comment> \<open>otchestvo\<close>,
     encode_runes [0x441, 0x432, 0x438, 0x434, 0x435, 0x442, 0x435, 0x43b, 0x44c] \<comment> \<open>svidetel\<close>]"

definition famousSubjectMarkers :: "string list" where
  "famousSubjectMarkers =
    [ctxClient,
     encode_runes [0x43a, 0x43b, 0x438, 0x435, 0x43d, 0x442, 0x43a, 0x430] \<comment> \<open>klientka\<close>,
     encode_runes [0x437, 0x430, 0x451, 0x43c, 0x449, 0x438, 0x43a] \<comment> \<open>zayomshchik\<close>,
     encode_runes [0x437, 0x430, 0x435, 0x43c, 0x449, 0x438, 0x43a] \<comment> \<open>zaemshchik\<close>,
     encode_runes [0x441, 0x43e, 0x437, 0x430, 0x451, 0x43c, 0x449, 0x438, 0x43a] \<comment> \<open>sozayomshchik\<close>,
     encode_runes [0x441, 0x43e, 0x437, 0x430, 0x435, 0x43c, 0x449, 0x438, 0x43a] \<comment> \<open>sozaemshchik\<close>,
     ctxZayavitel,
     stopWordGrazhdanin,
     stopWordGrazhdanka,
     ctxFIO,
     ctxFIOAbbrev,
     ctxImya,
     ctxZovut,
     ctxNaImya,
     ctxDlya,
     ctxPasport,
     encode_runes [0x442, 0x435, 0x43b, 0x2e] \<comment> \<open>tel.\<close>,
     encode_runes [0x442, 0x435, 0x43b, 0x3a] \<comment> \<open>tel:\<close>,
     encode_runes [0x442, 0x435, 0x43b, 0x435, 0x444, 0x43e, 0x43d] \<comment> \<open>telefon\<close>,
     encode_runes [0x43f, 0x43e, 0x440, 0x443, 0x447, 0x438, 0x442, 0x435, 0x43b, 0x44c] \<comment> \<open>poruchitel\<close>,
     encode_runes [0x43f, 0x43e, 0x43b, 0x443, 0x447, 0x430, 0x442, 0x435, 0x43b, 0x44c] \<comment> \<open>poluchatel\<close>,
     encode_runes [0x43e, 0x442, 0x43f, 0x440, 0x430, 0x432, 0x438, 0x442, 0x435, 0x43b, 0x44c] \<comment> \<open>otpravitel\<close>,
     encode_runes [0x434, 0x435, 0x440, 0x436, 0x430, 0x442, 0x435, 0x43b, 0x44c] \<comment> \<open>derzhatel\<close>,
     encode_runes [0x432, 0x43a, 0x43b, 0x430, 0x434, 0x447, 0x438, 0x43a] \<comment> \<open>vkladchik\<close>,
     encode_runes [0x432, 0x43b, 0x430, 0x434, 0x435, 0x43b, 0x435, 0x446, 0x20, 0x441, 0x447, 0x435, 0x442, 0x430] \<comment> \<open>vladelets scheta\<close>,
     encode_runes [0x432, 0x43b, 0x430, 0x434, 0x435, 0x43b, 0x435, 0x446, 0x20, 0x441, 0x447, 0x451, 0x442, 0x430] \<comment> \<open>vladelets schyota\<close>,
     encode_runes [0x43f, 0x440, 0x435, 0x434, 0x441, 0x442, 0x430, 0x432, 0x438, 0x442, 0x435, 0x43b, 0x44c] \<comment> \<open>predstavitel\<close>,
     encode_runes [0x434, 0x43e, 0x432, 0x435, 0x440, 0x435, 0x43d, 0x43d, 0x43e, 0x435, 0x20, 0x43b, 0x438, 0x446, 0x43e] \<comment> \<open>doverennoe litso\<close>,
     encode_runes [0x43f, 0x43e, 0x437, 0x432, 0x43e, 0x43d, 0x438, 0x43b] \<comment> \<open>pozvonil\<close>,
     encode_runes [0x43f, 0x43e, 0x437, 0x432, 0x43e, 0x43d, 0x438, 0x43b, 0x430] \<comment> \<open>pozvonila\<close>,
     encode_runes [0x437, 0x432, 0x43e, 0x43d, 0x438, 0x43b] \<comment> \<open>zvonil\<close>,
     encode_runes [0x437, 0x432, 0x43e, 0x43d, 0x438, 0x43b, 0x430] \<comment> \<open>zvonila\<close>,
     encode_runes [0x43e, 0x431, 0x440, 0x430, 0x442, 0x438, 0x43b, 0x441, 0x44f] \<comment> \<open>obratilsya\<close>,
     encode_runes [0x43e, 0x431, 0x440, 0x430, 0x442, 0x438, 0x43b, 0x430, 0x441, 0x44c] \<comment> \<open>obratilas\<close>,
     encode_runes [0x43f, 0x440, 0x438, 0x448, 0x451, 0x43b] \<comment> \<open>prishyol\<close>,
     encode_runes [0x43f, 0x440, 0x438, 0x448, 0x43b, 0x430] \<comment> \<open>prishla\<close>]"

definition personActionContext :: "string list" where
  "personActionContext =
    [encode_runes [0x43f, 0x43e, 0x437, 0x432, 0x43e, 0x43d, 0x438, 0x43b] \<comment> \<open>pozvonil\<close>,
     encode_runes [0x43f, 0x43e, 0x437, 0x432, 0x43e, 0x43d, 0x438, 0x43b, 0x430] \<comment> \<open>pozvonila\<close>,
     encode_runes [0x437, 0x432, 0x43e, 0x43d, 0x438, 0x43b] \<comment> \<open>zvonil\<close>,
     encode_runes [0x437, 0x432, 0x43e, 0x43d, 0x438, 0x43b, 0x430] \<comment> \<open>zvonila\<close>,
     encode_runes [0x43e, 0x431, 0x440, 0x430, 0x442, 0x438, 0x43b, 0x441, 0x44f] \<comment> \<open>obratilsya\<close>,
     encode_runes [0x43e, 0x431, 0x440, 0x430, 0x442, 0x438, 0x43b, 0x430, 0x441, 0x44c] \<comment> \<open>obratilas\<close>,
     encode_runes [0x43f, 0x440, 0x438, 0x448, 0x451, 0x43b] \<comment> \<open>prishyol\<close>,
     encode_runes [0x43f, 0x440, 0x438, 0x448, 0x43b, 0x430] \<comment> \<open>prishla\<close>,
     encode_runes [0x43f, 0x440, 0x43e, 0x441, 0x438, 0x43b] \<comment> \<open>prosil\<close>,
     encode_runes [0x43f, 0x440, 0x43e, 0x441, 0x438, 0x43b, 0x430] \<comment> \<open>prosila\<close>,
     encode_runes [0x43f, 0x43e, 0x43f, 0x440, 0x43e, 0x441, 0x438, 0x43b] \<comment> \<open>poprosil\<close>,
     encode_runes [0x43f, 0x43e, 0x43f, 0x440, 0x43e, 0x441, 0x438, 0x43b, 0x430] \<comment> \<open>poprosila\<close>]"

definition greetingContext :: "string list" where
  "greetingContext =
    [encode_runes [0x443, 0x432, 0x430, 0x436, 0x430, 0x435, 0x43c, 0x44b, 0x439] \<comment> \<open>uvazhaemyy\<close>,
     encode_runes [0x443, 0x432, 0x430, 0x436, 0x430, 0x435, 0x43c, 0x430, 0x44f] \<comment> \<open>uvazhaemaya\<close>,
     encode_runes [0x443, 0x432, 0x430, 0x436, 0x430, 0x435, 0x43c, 0x44b, 0x435] \<comment> \<open>uvazhaemye\<close>]"

definition lowercaseNameContext :: "string list" where
  "lowercaseNameContext =
    [ctxClient,
     ctxFIO,
     ctxFIOAbbrev,
     encode_runes [0x437, 0x430, 0x451, 0x43c, 0x449, 0x438, 0x43a] \<comment> \<open>zayomshchik\<close>,
     encode_runes [0x437, 0x430, 0x435, 0x43c, 0x449, 0x438, 0x43a] \<comment> \<open>zaemshchik\<close>,
     ctxImya,
     ctxZovut,
     encode_runes [0x43e, 0x431, 0x440, 0x430, 0x449, 0x430, 0x442, 0x44c, 0x441, 0x44f] \<comment> \<open>obrashchatsya\<close>,
     encode_runes [0x43f, 0x440, 0x435, 0x434, 0x441, 0x442, 0x430, 0x432, 0x44c, 0x442, 0x435, 0x441, 0x44c] \<comment> \<open>predstavtes\<close>,
     encode_runes [0x444, 0x430, 0x43c, 0x438, 0x43b, 0x438, 0x44e] \<comment> \<open>familiyu\<close>,
     encode_runes [0x444, 0x430, 0x43c, 0x438, 0x43b, 0x438, 0x44f] \<comment> \<open>familiya\<close>]"

definition patrMarkers :: "string list" where
  "patrMarkers =
    [encode_runes [0x43a, 0x44b, 0x437, 0x44b] \<comment> \<open>kyzy\<close>,
     encode_runes [0x43e, 0x433, 0x43b, 0x44b] \<comment> \<open>ogly\<close>,
     encode_runes [0x443, 0x43b, 0x44b] \<comment> \<open>uly\<close>]"

definition fleetingVowelNameStems :: "(string \<times> string) list" where
  "fleetingVowelNameStems = [(encode_runes [0x43f, 0x430, 0x432, 0x43b], encode_runes [0x43f, 0x430, 0x432, 0x435, 0x43b])]"

definition familyRelationRe :: rx where
  "familyRelationRe = rx_cats
    [rx_alts
        [Bot,
         Cls (\<lambda>r. \<not> (r = 0x401 \<or> (0x410 \<le> r \<and> r \<le> 0x44f) \<or> r = 0x451))],
     rx_lit [0x43c, 0x43e] \<comment> \<open>mo\<close>,
     rx_alts
        [rx_lit [0x439] \<comment> \<open>y\<close>,
         rx_lit [0x44f] \<comment> \<open>ya\<close>,
         rx_lit [0x435, 0x433, 0x43e] \<comment> \<open>ego\<close>,
         rx_lit [0x44e] \<comment> \<open>yu\<close>],
     rx_plus rx_space,
     rx_alts
        [rx_lit [0x431, 0x440, 0x430, 0x442] \<comment> \<open>brat\<close>,
         rx_lit [0x43c, 0x443, 0x436] \<comment> \<open>muzh\<close>,
         rx_lit [0x436, 0x435, 0x43d] \<comment> \<open>zhen\<close>,
         rx_lit [0x441, 0x44b, 0x43d] \<comment> \<open>syn\<close>,
         rx_lit [0x434, 0x43e, 0x447] \<comment> \<open>doch\<close>,
         rx_lit [0x43e, 0x442, 0x446] \<comment> \<open>otts\<close>,
         rx_lit [0x43e, 0x442, 0x435, 0x446] \<comment> \<open>otets\<close>,
         rx_lit [0x43c, 0x430, 0x442, 0x435, 0x440] \<comment> \<open>mater\<close>,
         rx_lit [0x43c, 0x430, 0x442, 0x44c] \<comment> \<open>mat\<close>],
     Star (Cls (\<lambda>r. (0x430 \<le> r \<and> r \<le> 0x44f) \<or> r = 0x451))]"

subsection \<open>Classification\<close>

definition isNameToken :: "namesDict \<Rightarrow> string \<Rightarrow> bool" where
  "isNameToken d lower =
     (if lower \<in> set (dict_names d) then True
      else list_ex (\<lambda>e. HasSuffix lower e \<and>
        (let stem = take (length lower - length e) lower in
         stem \<in> set (dict_names d) \<or> stem \<in> set (dict_nameStems d) \<or>
         (case map_of fleetingVowelNameStems stem of None \<Rightarrow> False | Some full \<Rightarrow> full \<in> set (dict_names d))))
        [encode_runes [0x430], encode_runes [0x44f], encode_runes [0x443], encode_runes [0x44e], sufOy,
         sufEy_det, sufOm, sufEm, encode_runes [0x435], encode_runes [0x438], encode_runes [0x44b]])"

definition dictSurnameBase :: "namesDict \<Rightarrow> string \<Rightarrow> bool" where
  "dictSurnameBase d s =
     list_ex (\<lambda>suf. HasSuffix s suf \<and> take (length s - length suf) s \<in> set (dict_surnameStems d))
       [sufOv_det, sufEv_det, sufIn_det, sufYn_det]"

definition dictSurname :: "namesDict \<Rightarrow> string \<Rightarrow> bool" where
  "dictSurname d lower =
     (if list_ex (\<lambda>e. HasSuffix lower e \<and> dictSurnameBase d (take (length lower - length e) lower))
        [sufYmi, sufImi, sufOgo, sufOmu, sufAmi, sufAh, sufYm, sufIm, sufOy, sufOm, sufEm,
         encode_runes [0x430], encode_runes [0x443], encode_runes [0x44b], encode_runes [0x435], sufOv_det,
         sufEv_det, sufIn_det, sufYn_det]
      then True else dictSurnameBase d lower)"

definition suffixSurnameBase :: "string \<Rightarrow> bool" where
  "suffixSurnameBase base = list_ex (HasSuffix base) [sufOv_det, sufEv_det, sufYov_det, sufIn_det, sufYn_det, sufSky, encode_runes [0x446, 0x43a, 0x438, 0x439],
       sufSkaya, sufTskaya]"

definition suffixSurname :: "string \<Rightarrow> bool" where
  "suffixSurname lower =
     (if list_ex (HasSuffix lower)
        [sufSky, encode_runes [0x446, 0x43a, 0x438, 0x439], sufSkaya, sufTskaya,
         encode_runes [0x435, 0x43d, 0x43a, 0x43e], encode_runes [0x443, 0x43a],
         encode_runes [0x44e, 0x43a], encode_runes [0x44f, 0x43d], encode_runes [0x434, 0x437, 0x435],
         encode_runes [0x448, 0x432, 0x438, 0x43b, 0x438], encode_runes [0x44b, 0x445],
         encode_runes [0x438, 0x445], sufOva, sufEva, sufYova, sufIna, sufYna, sufOv_det, sufEv_det, sufYov_det,
         sufIn_det, sufYn_det]
      then True
      else list_ex (\<lambda>e. HasSuffix lower e \<and> suffixSurnameBase (take (length lower - length e) lower))
        [sufYmi, sufImi, sufOgo, sufOmu, sufAmi, sufAh, sufYm, sufIm, sufOy, sufOm, sufEm,
         encode_runes [0x430], encode_runes [0x443], encode_runes [0x44b], encode_runes [0x435]])"

definition isSurnameToken :: "namesDict \<Rightarrow> string \<Rightarrow> bool \<times> bool" where
  "isSurnameToken d lower =
     (if normalizeWord lower \<in> set (dict_famousSurnames d) then (True, False)
      else (dictSurname d lower, suffixSurname lower))"

definition patSuffixes :: "string list" where
  "patSuffixes = [encode_runes [0x43e, 0x432, 0x438, 0x447], encode_runes [0x435, 0x432, 0x438, 0x447], sufIch_det,
     sufOvna, sufEvna, sufIchna, sufInichna]"

definition buildPatForms :: "string list" where
  "buildPatForms = concat (map (\<lambda>suf.
     suf # (if HasSuffix suf (encode_runes [0x430])
            then map (\<lambda>e. encode_runes (butlast (runes suf)) @ e)
              [encode_runes [0x44b], encode_runes [0x435], encode_runes [0x443], sufOy,
               encode_runes [0x43e, 0x44e], encode_runes [0x430, 0x43c], sufAmi, sufAh]
            else map (\<lambda>e. suf @ e)
              [encode_runes [0x430], encode_runes [0x443], encode_runes [0x44b], encode_runes [0x435], sufEm,
               sufOm, encode_runes [0x438], sufEy_det, encode_runes [0x430, 0x43c], sufAmi, sufAh])) patSuffixes)"

definition isPatronymic :: "string \<Rightarrow> bool" where
  "isPatronymic lower = list_ex (HasSuffix lower) buildPatForms"

definition isInitialToken :: "string \<Rightarrow> bool" where
  "isInitialToken lower =
     (let r = runes lower in length r = 2 \<and> r ! 1 = 0x2E \<and> isLetterRune_det (r ! 0))"

text \<open>The six results of \<^verbatim>\<open>classify\<close>, in its order.\<close>

definition classify :: "namesDict \<Rightarrow> string \<Rightarrow> bool \<times> bool \<times> bool \<times> bool \<times> bool \<times> bool" where
  "classify d lower =
     (if lower \<in> set stopWords then (False, False, False, False, False, False)
      else let (s, g) = isSurnameToken d lower in
        (isNameToken d lower, s, g, isPatronymic lower, isInitialToken lower, lower \<in> set patrMarkers))"

subsection \<open>The tokens of a text\<close>

lemma rune_pos_linear: "rune_pos s i e \<Longrightarrow> rune_pos s i k \<Longrightarrow> e \<le> k \<Longrightarrow> rune_pos s e k"
proof (induction rule: rune_pos.induct)
  case (pos_next i e)
  from rune_pos_later [OF pos_next.prems(1)] show ?case
  proof
    assume "k = i"
    with pos_next rune_pos_ge [OF pos_next.hyps(2)] width_at_pos [OF pos_next.hyps(1)] show ?thesis by simp
  qed (use pos_next in simp)
qed simp

lemma rune_pos_trans: "rune_pos s i j \<Longrightarrow> rune_pos s j k \<Longrightarrow> rune_pos s i k"
  by (induction rule: rune_pos.induct) (auto intro: rune_pos.intros)

lemma rune_pos_step: "i < length s \<Longrightarrow> rune_pos s i (i + snd (DecodeRune (drop i s)))"
  by (rule pos_next) (auto simp: width_at_def intro: pos_here)

lemma consumeWord_pos: "rune_pos tx i (fst (consumeWord tx i n))"
proof (induction tx i n rule: consumeWord.induct)
  case (1 tx i n)
  show ?case
  proof (cases "i < length tx")
    case True
    obtain r k where d: "DecodeRune (drop i tx) = (r, k)" by fastforce
    have "rune_pos tx i (i + k)" using rune_pos_step [OF True] d by simp
    with "1.IH" [OF True d [symmetric] refl] True d show ?thesis
      by (subst consumeWord.simps) (auto intro: rune_pos_trans pos_here)
  qed (simp add: consumeWord.simps pos_here)
qed

lemma token_stop_pos: "rune_pos tx i (token_stop tx i)"
proof -
  obtain j n where c: "consumeWord tx i 0 = (j, n)" by fastforce
  have j: "rune_pos tx i j" using consumeWord_pos [of tx i 0] c by simp
  have "rune_pos tx j (j + 1)" if "j < length tx" "tx ! j = CHR ''.''"
    using rune_pos_step [OF that(1)] that by (simp add: Cons_nth_drop_Suc [symmetric])
  with j c show ?thesis by (auto simp: token_stop_def intro: rune_pos_trans)
qed

definition letter_at :: "string \<Rightarrow> nat \<Rightarrow> bool" where
  "letter_at tx k \<longleftrightarrow> k < length tx \<and> isLetterRune_det (fst (DecodeRune (drop k tx)))"

definition token_ok :: "string \<Rightarrow> token \<Rightarrow> bool" where
  "token_ok tx tok \<longleftrightarrow>
     letter_at tx (tok_start tok) \<and> tok_start tok < tok_end tok \<and> tok_end tok \<le> length tx \<and>
     tok_text tok = between tx (tok_start tok) (tok_end tok)"

lemma tokenize_from_letter:
  "letter_at tx i \<Longrightarrow> tokenize_from tx i =
     \<lparr> tok_start = i, tok_end = token_stop tx i, tok_text = between tx i (token_stop tx i) \<rparr> #
     tokenize_from tx (token_stop tx i)"
  by (subst tokenize_from.simps) (auto simp: letter_at_def between_def Let_def split: prod.splits)

lemma tokenize_from_other:
  "i < length tx \<Longrightarrow> \<not> letter_at tx i \<Longrightarrow>
     tokenize_from tx i = tokenize_from tx (i + snd (DecodeRune (drop i tx)))"
  by (subst tokenize_from.simps) (auto simp: letter_at_def split: prod.splits)

lemma tokenize_from_end: "length tx \<le> i \<Longrightarrow> tokenize_from tx i = []"
  by (simp add: tokenize_from.simps)

lemma tokenize_induct [case_names letter other stop]:
  assumes "\<And>i. letter_at tx i \<Longrightarrow> P (token_stop tx i) \<Longrightarrow> P i"
    and "\<And>i. i < length tx \<Longrightarrow> \<not> letter_at tx i \<Longrightarrow> P (i + snd (DecodeRune (drop i tx))) \<Longrightarrow> P i"
    and "\<And>i. length tx \<le> i \<Longrightarrow> P i"
  shows "P i"
proof (induction "length tx - i" arbitrary: i rule: less_induct)
  case less
  consider "letter_at tx i" | "i < length tx" "\<not> letter_at tx i" | "length tx \<le> i" by linarith
  then show ?case
  proof cases
    case 1
    with token_stop_gt(1) [of i tx] have "length tx - token_stop tx i < length tx - i"
      by (auto simp: letter_at_def diff_less_mono2)
    from assms(1) [OF 1 less [OF this]] show ?thesis .
  next
    case 2
    with DecodeRune_size_pos [of "drop i tx"]
    have "length tx - (i + snd (DecodeRune (drop i tx))) < length tx - i" by simp
    from assms(2) [OF 2 less [OF this]] show ?thesis .
  qed (rule assms(3))
qed

lemma tokenize_from_ok:
  "tok \<in> set (tokenize_from tx i) \<Longrightarrow> token_ok tx tok \<and> i \<le> tok_start tok"
proof (induction i rule: tokenize_induct [of tx])
  case (letter i)
  with token_stop_gt [of i tx] show ?case
    by (auto simp: tokenize_from_letter token_ok_def letter_at_def)
qed (auto simp: tokenize_from_other tokenize_from_end)

lemma tokenize_from_ordered: "sorted_wrt (\<lambda>a b. tok_end a \<le> tok_start b) (tokenize_from tx i)"
  by (induction i rule: tokenize_induct [of tx])
     (auto simp: tokenize_from_letter tokenize_from_other tokenize_from_end dest: tokenize_from_ok)

lemma tokenize_from_covers:
  "rune_pos tx i k \<Longrightarrow> letter_at tx k \<Longrightarrow> \<exists>tok \<in> set (tokenize_from tx i). tok_start tok \<le> k \<and> k < tok_end tok"
proof (induction i rule: tokenize_induct [of tx])
  case (letter i)
  show ?case
  proof (cases "k < token_stop tx i")
    case True
    with rune_pos_ge [OF letter.prems(1)] show ?thesis by (simp add: tokenize_from_letter [OF letter.hyps])
  next
    case False
    with letter rune_pos_linear [OF token_stop_pos letter.prems(1)] show ?thesis
      by (auto simp: tokenize_from_letter [OF letter.hyps])
  qed
next
  case (other i)
  with rune_pos_later [OF other.prems(1)] show ?case by (auto simp: tokenize_from_other width_at_def)
next
  case (stop i)
  with rune_pos_ge [OF stop.prems(1)] show ?case by (simp add: letter_at_def)
qed

lemma tokenize_ordered: "sorted_wrt (\<lambda>a b. tok_end a \<le> tok_start b) (tokenize tx)"
  unfolding tokenize_def by (rule tokenize_from_ordered)

lemma tokenize_ok: "tok \<in> set (tokenize tx) \<Longrightarrow> token_ok tx tok"
  unfolding tokenize_def by (blast dest: tokenize_from_ok)

text \<open>
  The tokens of a text stand in its order without overlap, each is a non-empty range of the text that begins
  with a letter, and every letter of the text is in one of them.
\<close>

lemma tokenize_partition:
  "sorted_wrt (\<lambda>a b. tok_end a \<le> tok_start b) (tokenize tx) \<and>
   list_all (token_ok tx) (tokenize tx) \<and>
   {k. rune_pos tx 0 k \<and> letter_at tx k} \<subseteq> (\<Union>tok \<in> set (tokenize tx). {tok_start tok ..< tok_end tok})"
  using tokenize_ordered tokenize_ok tokenize_from_covers [of tx 0]
  by (auto simp: list_all_iff tokenize_def)

lemma tokens_order:
  assumes "i < j" and "j < length (tokenize tx)"
  shows "tok_end (tokenize tx ! i) \<le> tok_start (tokenize tx ! j)"
  using sorted_wrt_nth_less [OF tokenize_ordered assms] .

subsection \<open>Contexts\<close>

text \<open>\<^verbatim>\<open>hasLeftContext\<close> and \<^verbatim>\<open>hasRightContext\<close> of \<^verbatim>\<open>names.go\<close>.\<close>

definition hasLeftContext :: "runtime \<Rightarrow> Text \<Rightarrow> nat \<Rightarrow> string list \<Rightarrow> int \<Rightarrow> bool" where
  "hasLeftContext rt t pos keywords window = list_ex (Contains (runeWindowBefore rt t pos window)) keywords"

definition hasRightContext :: "runtime \<Rightarrow> Text \<Rightarrow> nat \<Rightarrow> string list \<Rightarrow> int \<Rightarrow> bool" where
  "hasRightContext rt t pos keywords window = list_ex (Contains (runeWindowAfter rt t pos window)) keywords"

end
