(* ===== verification/Cardholder.thy ===== *)
theory Cardholder
  imports Name_Tokens
begin

text \<open>
  The detector of card holders (\<^verbatim>\<open>internal/pii/detectors/cardholder.go\<close>): runs of two to four Latin words next to
  a keyword or in a text with a card number.
\<close>

definition cardholderStop :: "string list" where
  "cardholderStop =
    [''VISA'', ''MASTERCARD'', ''MIR'', ''CVV'', ''CVC'', ''PIN'', ''LLC'', ''LTD'', ''OOO'', ''PAO'',
     ''AO'', ''INN'', ''USD'', ''EUR'', ''RUB'', ''CARD'', ''VALID'', ''THRU'', ''EXP'', ''NO'']"

definition cardholderContext :: "string list" where
  "cardholderContext =
    [encode_runes [0x434, 0x435, 0x440, 0x436, 0x430, 0x442, 0x435, 0x43b, 0x44c] \<comment> \<open>derzhatel\<close>,
     encode_runes [0x434, 0x435, 0x440, 0x436, 0x430, 0x442, 0x435, 0x43b, 0x44f] \<comment> \<open>derzhatelya\<close>,
     encode_runes [0x434, 0x435, 0x440, 0x436, 0x430, 0x442, 0x435, 0x43b, 0x44e] \<comment> \<open>derzhatelyu\<close>,
     encode_runes [0x434, 0x435, 0x440, 0x436, 0x430, 0x442, 0x435, 0x43b, 0x435, 0x43c] \<comment> \<open>derzhatelem\<close>,
     encode_runes [0x432, 0x43b, 0x430, 0x434, 0x435, 0x43b, 0x435, 0x446, 0x20, 0x43a, 0x430, 0x440, 0x442, 0x44b] \<comment> \<open>vladelets karty\<close>,
     ''cardholder'',
     ''card holder'',
     ''name on card'',
     encode_runes [0x438, 0x43c, 0x44f, 0x20, 0x43d, 0x430, 0x20, 0x43a, 0x430, 0x440, 0x442, 0x435] \<comment> \<open>imya na karte\<close>,
     encode_runes [0x438, 0x43c, 0x44f, 0x20, 0x434, 0x435, 0x440, 0x436, 0x430, 0x442, 0x435, 0x43b, 0x44f] \<comment> \<open>imya derzhatelya\<close>,
     ctxNaImya,
     encode_runes [0x44d, 0x43c, 0x431, 0x43e, 0x441, 0x441, 0x438, 0x440, 0x43e, 0x432, 0x430, 0x43d, 0x43d, 0x43e, 0x435, 0x20, 0x438, 0x43c, 0x44f] \<comment> \<open>embossirovannoe imya\<close>,
     ''cardholder:'']"

definition cardNumRe :: rx where
  "cardNumRe = rx_rep (rx_cats [rx_digit, rx_opt (Cls (\<lambda>r. r = 0x20 \<or> r = 0x2D))]) 13 19"

definition hasCardNumber :: "string \<Rightarrow> bool" where
  "hasCardNumber tx = list_ex (\<lambda>m. luhn (between tx (m_lo m) (m_hi m))) (FindAllIndex tx cardNumRe)"

text \<open>The loop of \<^verbatim>\<open>isCardholderWord\<close> over the runes and their offsets; \<^term>\<open>None\<close> is \<^verbatim>\<open>return false\<close>.\<close>

function count_latin :: "string \<Rightarrow> nat \<Rightarrow> nat \<Rightarrow> nat option" where
  "count_latin s i letterCount =
     (if i < length s then
        let (r, n) = DecodeRune (drop i s) in
        if isLatinLetter r then count_latin s (i + n) (letterCount + 1)
        else if r = 0x2D \<and> 0 < i \<and> i < length s - 1 then count_latin s (i + n) letterCount
        else None
      else Some letterCount)"
  by pat_completeness auto
termination
  by (relation "measure (\<lambda>(s, i, n). length s - i)") (auto simp: diff_less_mono2 dest: decode_step)

declare count_latin.simps [simp del]

definition isCardholderWord :: "runtime \<Rightarrow> string \<Rightarrow> bool" where
  "isCardholderWord rt s =
     (if ToUpper rt s \<in> set cardholderStop then False
      else if s = '''' then False
      else case count_latin s 0 0 of None \<Rightarrow> False | Some n \<Rightarrow> 1 \<le> n)"

definition isAllUpper :: "string \<Rightarrow> bool" where
  "isAllUpper s =
     (if s = '''' then False else list_all (\<lambda>r. isLatinLetter r \<and> 0x41 \<le> r \<and> r \<le> 0x5A) (runes s))"

definition validCardholder :: "runtime \<Rightarrow> token list \<Rightarrow> Text \<Rightarrow> bool \<Rightarrow> bool" where
  "validCardholder rt toks t hasCard =
     (let hasLong = list_ex (\<lambda>tok. 2 \<le> length (runes (tok_text tok))) toks;
          allUpper = list_all (\<lambda>tok. isAllUpper (tok_text tok)) toks
      in if \<not> hasLong then False
         else if allUpper \<and> hasCard then True
         else if hasLeftContext rt t (tok_start (hd toks)) cardholderContext 30 then True
         else if hasRightContext rt t (tok_end (last toks)) cardholderContext 30 then True
         else False)"

definition cardholderConfidence :: "runtime \<Rightarrow> token list \<Rightarrow> Text \<Rightarrow> bool \<Rightarrow> rat" where
  "cardholderConfidence rt toks t hasCard =
     (if list_all (\<lambda>tok. isAllUpper (tok_text tok)) toks \<and>
         (hasCard \<or> hasLeftContext rt t (tok_start (hd toks)) cardholderContext 30)
      then 95 / 100 else 85 / 100)"

text \<open>\<open>words\<close> are the tokens \<^verbatim>\<open>toks[cands[i]]\<close> of the candidates, in their order.\<close>

definition tryN :: "runtime \<Rightarrow> string \<Rightarrow> token list \<Rightarrow> nat \<Rightarrow> Text \<Rightarrow> bool \<Rightarrow> nat \<Rightarrow> Span option" where
  "tryN rt tx words i t hasCard n =
     (if length words \<le> i + n - 1 then None
      else if \<not> list_all (\<lambda>k. onlyWhitespace tx (tok_end (words ! (i + k - 1))) (tok_start (words ! (i + k)))) [1..<n]
      then None
      else let toks = take n (drop i words) in
        if \<not> validCardholder rt toks t hasCard then None
        else Some \<lparr> sp_Start = int (tok_start (hd toks)), sp_End = int (tok_end (last toks)),
                    sp_Category = CatCardHolder, sp_Detector = ''cardholder'',
                    sp_Confidence = cardholderConfidence rt toks t hasCard \<rparr>)"

text \<open>The longest run that \<^verbatim>\<open>tryN\<close> accepts, with its length.\<close>

fun try_down :: "(nat \<Rightarrow> Span option) \<Rightarrow> nat list \<Rightarrow> (nat \<times> Span) option" where
  "try_down f [] = None"
| "try_down f (n # ns) = (case f n of Some s \<Rightarrow> Some (n, s) | None \<Rightarrow> try_down f ns)"

declare try_down.simps [simp del]

lemma try_down_mem: "try_down f ns = Some (n, s) \<Longrightarrow> n \<in> set ns \<and> f n = Some s"
  by (induction ns) (auto simp: try_down.simps split: option.splits)

function ch_loop :: "runtime \<Rightarrow> string \<Rightarrow> token list \<Rightarrow> Text \<Rightarrow> bool \<Rightarrow> nat \<Rightarrow> Span list" where
  "ch_loop rt tx words t hasCard i =
     (if i < length words then
        case try_down (tryN rt tx words i t hasCard) [4, 3, 2] of
          None \<Rightarrow> ch_loop rt tx words t hasCard (i + 1)
        | Some (n, s) \<Rightarrow> s # ch_loop rt tx words t hasCard (i + n)
      else [])"
  by pat_completeness auto
termination
  by (relation "measure (\<lambda>(rt, tx, words, t, h, i). length words - i)") (auto dest!: try_down_mem)

declare ch_loop.simps [simp del]

definition DetectLower_ch :: "runtime \<Rightarrow> Text \<Rightarrow> Span list" where
  "DetectLower_ch rt t =
     (let toks = tokenize (Raw t);
          words = filter (\<lambda>tok. isCardholderWord rt (tok_text tok)) toks
      in ch_loop rt (Raw t) words t (hasCardNumber (Raw t)) 0)"

definition NewCardholderDetector :: "runtime \<Rightarrow> detector" where
  "NewCardholderDetector rt =
     detector_of rt ''cardholder'' [CatCardHolder] (\<lambda>t. Some (DetectLower_ch rt t))"

subsection \<open>What it reports\<close>

text \<open>A run of words of the text, as \<^verbatim>\<open>tryN\<close> accepts it.\<close>

definition holder_run :: "runtime \<Rightarrow> Text \<Rightarrow> Span \<Rightarrow> token list \<Rightarrow> bool" where
  "holder_run rt t s toks \<longleftrightarrow>
     2 \<le> length toks \<and> length toks \<le> 4 \<and> set toks \<subseteq> set (tokenize (Raw t)) \<and>
     list_all (\<lambda>tok. isCardholderWord rt (tok_text tok)) toks \<and>
     sp_Start s = int (tok_start (hd toks)) \<and> sp_End s = int (tok_end (last toks)) \<and>
     validCardholder rt toks t (hasCardNumber (Raw t))"

lemma run_ends:
  assumes "i + n \<le> length ws" and "0 < n"
  shows "last (take n (drop i ws)) = ws ! (i + n - 1)" and "hd (take n (drop i ws)) = ws ! i"
proof -
  have "take n (drop i ws) \<noteq> []" using assms by auto
  then have "last (take n (drop i ws)) = take n (drop i ws) ! (n - 1)" using assms by (simp add: last_conv_nth min.absorb2)
  then show "last (take n (drop i ws)) = ws ! (i + n - 1)" using assms by simp
  show "hd (take n (drop i ws)) = ws ! i" using assms by (simp add: hd_drop_conv_nth)
qed

lemma tryN_run:
  assumes "tryN rt tx ws i t hc n = Some s" and "2 \<le> n"
  shows "i + n \<le> length ws" and "sp_Start s = int (tok_start (ws ! i))" and "sp_End s = int (tok_end (ws ! (i + n - 1)))"
    and "validCardholder rt (take n (drop i ws)) t hc"
proof -
  show l: "i + n \<le> length ws" using assms by (auto simp: tryN_def split: if_splits)
  then show "sp_Start s = int (tok_start (ws ! i))" and "sp_End s = int (tok_end (ws ! (i + n - 1)))"
    and "validCardholder rt (take n (drop i ws)) t hc"
    using assms run_ends [OF l] by (auto simp: tryN_def Let_def split: if_splits)
qed

lemma ch_loop_mem:
  "s \<in> set (ch_loop rt tx ws t hc i) \<Longrightarrow> \<exists>j n. i \<le> j \<and> 2 \<le> n \<and> n \<le> 4 \<and> tryN rt tx ws j t hc n = Some s"
proof (induction rt tx ws t hc i rule: ch_loop.induct)
  case (1 rt tx ws t hc i)
  show ?case
  proof (cases "i < length ws")
    case True
    show ?thesis
    proof (cases "try_down (tryN rt tx ws i t hc) [4, 3, 2]")
      case None
      with 1 True show ?thesis by (auto simp: ch_loop.simps [of rt tx ws t hc i] dest: Suc_leD)
    next
      case (Some p)
      obtain n z where p: "p = (n, z)" by fastforce
      from try_down_mem [OF Some [unfolded p]] have n: "2 \<le> n" "n \<le> 4" "tryN rt tx ws i t hc n = Some z" by auto
      from "1.prems" consider "s = z" | "s \<in> set (ch_loop rt tx ws t hc (i + n))"
        by (subst (asm) ch_loop.simps) (auto simp: True Some p)
      then show ?thesis
      proof cases
        case 2
        from "1.IH"(2) [OF True Some p [symmetric] 2] show ?thesis by (meson add_leD1)
      qed (use n in blast)
    qed
  qed (use 1 in \<open>simp add: ch_loop.simps\<close>)
qed

lemma DetectLower_ch_sound:
  assumes "s \<in> set (DetectLower_ch rt t)"
  shows "\<exists>toks. holder_run rt t s toks"
proof -
  let ?ws = "filter (\<lambda>tok. isCardholderWord rt (tok_text tok)) (tokenize (Raw t))"
  from ch_loop_mem [OF assms [unfolded DetectLower_ch_def Let_def]] obtain j n where n: "2 \<le> n" "n \<le> 4"
    and s: "tryN rt (Raw t) ?ws j t (hasCardNumber (Raw t)) n = Some s" by blast
  note r = tryN_run [OF s n(1)]
  define toks where "toks = take n (drop j ?ws)"
  have "set toks \<subseteq> set ?ws" unfolding toks_def by (meson set_drop_subset set_take_subset subset_trans)
  then have "set toks \<subseteq> set (tokenize (Raw t))" "\<forall>tok \<in> set toks. isCardholderWord rt (tok_text tok)" by auto
  moreover have "hd toks = ?ws ! j" "last toks = ?ws ! (j + n - 1)"
    unfolding toks_def using run_ends [OF r(1)] n by simp_all
  moreover have "length toks = n" unfolding toks_def using r(1) by simp
  ultimately have "holder_run rt t s toks"
    unfolding holder_run_def list_all_iff using r(2,3) r(4) [folded toks_def] n by metis
  then show ?thesis ..
qed

lemma words_ordered: "sorted_wrt (\<lambda>a b. tok_end a \<le> tok_start b) (filter P (tokenize tx))"
  using tokenize_ordered by (rule sorted_wrt_filter)

lemma sorted_tokens_span:
  assumes "sorted_wrt (\<lambda>a b. tok_end a \<le> tok_start b) ws" "\<forall>w \<in> set ws. token_ok tx w" "i \<le> j" "j < length ws"
  shows "tok_start (ws ! i) < tok_end (ws ! j)"
proof (cases "i = j")
  case False
  then have "tok_end (ws ! i) \<le> tok_start (ws ! j)" using assms sorted_wrt_nth_less [OF assms(1), of i j] by simp
  moreover have "token_ok tx (ws ! i)" "token_ok tx (ws ! j)" using assms by simp_all
  ultimately show ?thesis by (simp add: token_ok_def)
qed (use assms in \<open>simp add: token_ok_def\<close>)

lemma DetectLower_ch_range:
  assumes "s \<in> set (DetectLower_ch rt t)"
  shows "span_wf (length (Raw t)) s"
proof -
  let ?ws = "filter (\<lambda>tok. isCardholderWord rt (tok_text tok)) (tokenize (Raw t))"
  from ch_loop_mem [OF assms [unfolded DetectLower_ch_def Let_def]] obtain j n where n: "2 \<le> n"
    and s: "tryN rt (Raw t) ?ws j t (hasCardNumber (Raw t)) n = Some s" by blast
  note r = tryN_run [OF s n]
  have ok: "\<forall>w \<in> set ?ws. token_ok (Raw t) w" using tokenize_ok by auto
  have j: "j + n - 1 < length ?ws" using r(1) n by linarith
  from nth_mem [OF j] ok have "tok_end (?ws ! (j + n - 1)) \<le> length (Raw t)" by (auto simp: token_ok_def)
  moreover have "tok_start (?ws ! j) < tok_end (?ws ! (j + n - 1))"
    using sorted_tokens_span [OF words_ordered ok _ j] n by simp
  ultimately show ?thesis using r(2,3) by (simp add: span_wf_def)
qed

interpretation ch: text_detector "\<lambda>t. Some (DetectLower_ch rt t)" for rt
  by unfold_locales (auto dest: DetectLower_ch_range)

end
