(* ===== verification/Names.thy ===== *)
theory Names
  imports Name_Tokens
begin

text \<open>
  The detector of names (\<^verbatim>\<open>internal/pii/detectors/names.go\<close> and \<^verbatim>\<open>names_latin.go\<close>). The argument \<^verbatim>\<open>text\<close> of its functions is
  \<^verbatim>\<open>t.Raw\<close> throughout. A rule that handles a candidate returns the number of candidates to skip, the updated
  marks of covered tokens and the span it appends; \<^term>\<open>None\<close> is \<^verbatim>\<open>(false, 0)\<close>, and then the source has
  changed neither the marks nor the spans.
\<close>

type_synonym handled = "(nat \<times> bool list \<times> Span) option"

definition name_span :: "nat \<Rightarrow> nat \<Rightarrow> rat \<Rightarrow> Span" where
  "name_span a e conf =
     \<lparr> sp_Start = int a, sp_End = int e, sp_Category = CatFullName, sp_Detector = ''names'', sp_Confidence = conf \<rparr>"

definition cover :: "nat list \<Rightarrow> bool list \<Rightarrow> bool list" where
  "cover ks covered = foldl (\<lambda>c k. c[k := True]) covered ks"

subsection \<open>Other personal data on the line\<close>

fun name_line_start :: "string \<Rightarrow> nat \<Rightarrow> nat" where
  "name_line_start s 0 = 0"
| "name_line_start s (Suc i) = (if s ! i = CHR 0x0A then Suc i else name_line_start s i)"

function name_line_end :: "string \<Rightarrow> nat \<Rightarrow> nat" where
  "name_line_end s i = (if i < length s \<and> s ! i \<noteq> CHR 0x0A then name_line_end s (i + 1) else i)"
  by pat_completeness auto
termination
  by (relation "measure (\<lambda>(s, i). length s - i)") auto

declare name_line_end.simps [simp del]

definition famousOtherPIIRe :: "runtime \<Rightarrow> rx" where
  "famousOtherPIIRe rt = rx_alts
    [rx_cats
        [rx_alts
            [rx_lit [0x2b, 0x37] \<comment> \<open>+7\<close>,
             rx_lit [0x38] \<comment> \<open>8\<close>,
             rx_lit [0x37] \<comment> \<open>7\<close>],
         Star (Cls (\<lambda>r. (0x9 \<le> r \<and> r \<le> 0xa) \<or> (0xc \<le> r \<and> r \<le> 0xd) \<or> r = 0x20 \<or> r = 0x28 \<or> r = 0x2d)),
         rx_rep rx_digit 3 4,
         Star (Cls (\<lambda>r. (0x9 \<le> r \<and> r \<le> 0xa) \<or> (0xc \<le> r \<and> r \<le> 0xd) \<or> r = 0x20 \<or> r = 0x29 \<or> r = 0x2d)),
         rx_rep rx_digit 2 3,
         Star (Cls (\<lambda>r. (0x9 \<le> r \<and> r \<le> 0xa) \<or> (0xc \<le> r \<and> r \<le> 0xd) \<or> r = 0x20 \<or> r = 0x2d)),
         rx_rep rx_digit 2 2,
         Star (Cls (\<lambda>r. (0x9 \<le> r \<and> r \<le> 0xa) \<or> (0xc \<le> r \<and> r \<le> 0xd) \<or> r = 0x20 \<or> r = 0x2d)),
         rx_rep rx_digit 2 2],
     rx_cats
        [Wordb,
         rx_rep rx_digit 4 4,
         rx_plus rx_space,
         rx_rep rx_digit 6 6,
         Wordb],
     rx_cats
        [Wordb,
         rx_rep rx_digit 1 2,
         Cls (\<lambda>r. (0x2d \<le> r \<and> r \<le> 0x2f)),
         rx_rep rx_digit 1 2,
         Cls (\<lambda>r. (0x2d \<le> r \<and> r \<le> 0x2f)),
         rx_rep rx_digit 4 4,
         Wordb],
     rx_cats
        [Wordb,
         rx_rep rx_digit 4 4,
         rx_plus rx_space,
         rx_ilit [0x433, 0x43e, 0x434, 0x430] \<comment> \<open>goda\<close>,
         rx_plus rx_space,
         rx_ilit [0x440, 0x43e, 0x436, 0x434] \<comment> \<open>rozhd\<close>],
     rx_cats
        [rx_plus (Cls (\<lambda>r. uc_letter rt r \<or> r = 0x345 \<or> uc_number rt r \<or> r = 0x25 \<or> r = 0x2b \<or> (0x2d \<le> r \<and> r \<le> 0x2e) \<or> r = 0x5f)),
         rx_lit [0x40],
         rx_plus (Cls (\<lambda>r. uc_letter rt r \<or> r = 0x345 \<or> uc_number rt r \<or> (0x2d \<le> r \<and> r \<le> 0x2e))),
         rx_lit [0x2e],
         rx_cats [rx_rep (Cls (\<lambda>r. uc_letter rt r \<or> r = 0x345)) 2 2, Star (Cls (\<lambda>r. uc_letter rt r \<or> r = 0x345))]],
     rx_cats
        [Wordb,
         rx_rep rx_digit 3 3,
         Cls (\<lambda>r. (0x9 \<le> r \<and> r \<le> 0xa) \<or> (0xc \<le> r \<and> r \<le> 0xd) \<or> r = 0x20 \<or> r = 0x2d),
         rx_rep rx_digit 3 3,
         Cls (\<lambda>r. (0x9 \<le> r \<and> r \<le> 0xa) \<or> (0xc \<le> r \<and> r \<le> 0xd) \<or> r = 0x20 \<or> r = 0x2d),
         rx_rep rx_digit 3 3,
         Cls (\<lambda>r. (0x9 \<le> r \<and> r \<le> 0xa) \<or> (0xc \<le> r \<and> r \<le> 0xd) \<or> r = 0x20 \<or> r = 0x2d),
         rx_rep rx_digit 2 2,
         Wordb],
     rx_cats
        [Wordb,
         rx_rep rx_digit 12 12,
         Wordb]]"

text \<open>\<^verbatim>\<open>luhnValid\<close> on a string of digits, from its last digit to the first.\<close>

fun luhn_sum :: "string \<Rightarrow> bool \<Rightarrow> int \<Rightarrow> int" where
  "luhn_sum [] double acc = acc"
| "luhn_sum (c # cs) double acc =
     (let n = digit_val c;
          n' = (if double then (if n * 2 > 9 then n * 2 - 9 else n * 2) else n)
      in luhn_sum cs (\<not> double) (acc + n'))"

definition luhnValid :: "string \<Rightarrow> bool" where
  "luhnValid d \<longleftrightarrow> luhn_sum (rev d) False 0 mod 10 = 0"

definition card_digits :: "string \<Rightarrow> string" where
  "card_digits s =
     foldl (\<lambda>digits c.
       if ascii_digit (of_char c) then digits @ [c]
       else if c = CHR '' '' \<or> c = CHR ''-'' then digits
       else '''') '''' s"

definition containsLuhnCard :: "string \<Rightarrow> bool" where
  "containsLuhnCard s =
     (let digits = card_digits s in
      if length digits < 13 \<or> length digits > 19 then False else luhnValid digits)"

definition famousOtherPIISameLine :: "runtime \<Rightarrow> Text \<Rightarrow> nat \<Rightarrow> nat \<Rightarrow> bool" where
  "famousOtherPIISameLine rt t start e =
     (let pre = between (Raw t) (name_line_start (Raw t) start) start;
          post = between (Raw t) e (name_line_end (Raw t) e)
      in MatchString pre (famousOtherPIIRe rt) \<or> MatchString post (famousOtherPIIRe rt) \<or>
         containsLuhnCard pre \<or> containsLuhnCard post)"

subsection \<open>Famous persons\<close>

fun dec_counts :: "(string \<Rightarrow> int) \<Rightarrow> string list \<Rightarrow> bool" where
  "dec_counts m [] = True"
| "dec_counts m (x # xs) =
     (let m' = m(x := m x - 1) in if m' x < 0 then False else dec_counts m' xs)"

definition sameMultiset :: "string list \<Rightarrow> string list \<Rightarrow> bool" where
  "sameMultiset a b =
     (if length a \<noteq> length b then False
      else dec_counts (foldl (\<lambda>m x. m(x := m x + 1)) (\<lambda>_. 0) a) b)"

definition isFamous :: "runtime \<Rightarrow> namesDict \<Rightarrow> Text \<Rightarrow> nameToken list \<Rightarrow> bool" where
  "isFamous rt d t toks =
     (let stems = map (\<lambda>tok. normalizeWord (nt_lower tok))
                    (filter (\<lambda>tok. \<not> (nt_isPatr tok \<or> nt_isInitial tok)) toks);
          start = tok_start (hd toks); e = tok_end (last toks)
      in if \<not> list_ex (sameMultiset stems) (dict_famous d) then False
         else if hasLeftContext rt t start famousSubjectMarkers 30 \<or> hasRightContext rt t e famousSubjectMarkers 30
         then False
         else if MatchString (runeWindowBefore rt t start 30) familyRelationRe \<or>
                 MatchString (runeWindowAfter rt t e 30) familyRelationRe then False
         else if famousOtherPIISameLine rt t start e then False
         else True)"

subsection \<open>Sequences of two and three tokens\<close>

text \<open>The result \<^verbatim>\<open>(true, conf)\<close> is \<^term>\<open>Some conf\<close>.\<close>

definition endsPhrase :: "string \<Rightarrow> nat \<Rightarrow> bool" where
  "endsPhrase tx b =
     (let rest = dropWhile (\<lambda>c. c = CHR '' '' \<or> c = CHR 0x09) (drop b tx) in
      if rest = '''' \<or> hd rest = CHR 0x0A then True
      else \<not> isLetterRune_det (fst (DecodeRune rest)))"

definition hasDictOrPatr :: "nameToken list \<Rightarrow> bool" where
  "hasDictOrPatr toks = list_ex (\<lambda>t. nt_isName t \<or> nt_isSurname t \<or> nt_isSurnameGuess t \<or> nt_isPatr t) toks"

definition seq3SurnameNamePatr :: "nameToken list \<Rightarrow> rat option" where
  "seq3SurnameNamePatr s =
     (if isSurnameLike (s ! 0) \<and> \<not> nt_isPatr (s ! 1) \<and> \<not> nt_isInitial (s ! 1) \<and> nt_isPatr (s ! 2) \<and> hasDictOrPatr s
      then Some (95 / 100) else None)"

definition seq3NamePatrSurname :: "nameToken list \<Rightarrow> rat option" where
  "seq3NamePatrSurname s =
     (if nt_isName (s ! 0) \<and> nt_isPatr (s ! 1) \<and> isSurnameLike (s ! 2) \<and> hasDictOrPatr s
      then Some (95 / 100) else None)"

definition seq3SurnameInitials :: "nameToken list \<Rightarrow> rat option" where
  "seq3SurnameInitials s =
     (if isSurnameLike (s ! 0) \<and> nt_isInitial (s ! 1) \<and> nt_isInitial (s ! 2) \<and> hasDictOrPatr s
      then Some (95 / 100) else None)"

definition seq3NameInitials :: "nameToken list \<Rightarrow> rat option" where
  "seq3NameInitials s =
     (if nt_isName (s ! 0) \<and> nt_isInitial (s ! 1) \<and> nt_isInitial (s ! 2) \<and> hasDictOrPatr s
      then Some (95 / 100) else None)"

definition seq3InitialsSurname :: "nameToken list \<Rightarrow> rat option" where
  "seq3InitialsSurname s =
     (if nt_isInitial (s ! 0) \<and> nt_isInitial (s ! 1) \<and> isSurnameLike (s ! 2) \<and> hasDictOrPatr s
      then Some (95 / 100) else None)"

text \<open>The first of several results that is not \<^term>\<open>None\<close>.\<close>

fun first_some :: "'a option list \<Rightarrow> 'a option" where
  "first_some [] = None"
| "first_some (x # xs) = (case x of Some y \<Rightarrow> Some y | None \<Rightarrow> first_some xs)"

definition validSeq3 :: "nameToken list \<Rightarrow> rat option" where
  "validSeq3 s =
     first_some [seq3SurnameNamePatr s, seq3NamePatrSurname s, seq3SurnameInitials s, seq3NameInitials s,
       seq3InitialsSurname s]"

definition seq2NameSurname :: "nameToken list \<Rightarrow> bool" where
  "seq2NameSurname s \<longleftrightarrow> nt_isName (s ! 0) \<and> isSurnameLike (s ! 1) \<and> hasDictOrPatr s"

definition seq2SurnameName :: "nameToken list \<Rightarrow> bool" where
  "seq2SurnameName s \<longleftrightarrow> isSurnameLike (s ! 0) \<and> nt_isName (s ! 1) \<and> hasDictOrPatr s"

definition seq2NamePatr :: "runtime \<Rightarrow> nameToken list \<Rightarrow> Text \<Rightarrow> bool" where
  "seq2NamePatr rt s t =
     (if \<not> nt_isName (s ! 0) \<or> \<not> nt_isPatr (s ! 1) \<or> \<not> hasDictOrPatr s then False
      else if hasLeftContext rt t (tok_start (s ! 0)) nameContext 30 then True
      else if hasRightContext rt t (tok_end (s ! 1)) personActionContext 30 then True
      else endsPhrase (Raw t) (tok_end (s ! 1)))"

definition validSeq2 :: "runtime \<Rightarrow> nameToken list \<Rightarrow> Text \<Rightarrow> rat option" where
  "validSeq2 rt s t =
     (if seq2NameSurname s \<or> seq2SurnameName s then Some (85 / 100)
      else if seq2NamePatr rt s t then Some (85 / 100) else None)"

definition validSeq :: "runtime \<Rightarrow> namesDict \<Rightarrow> nameToken list \<Rightarrow> Text \<Rightarrow> rat option" where
  "validSeq rt d s t =
     (if isFamous rt d t s then None
      else if length s = 3 then validSeq3 s
      else if length s = 2 then validSeq2 rt s t
      else None)"

subsection \<open>Gaps\<close>

definition paren :: "char \<Rightarrow> bool" where
  "paren c \<longleftrightarrow> c = CHR ''('' \<or> c = CHR '')''"

text \<open>\<^verbatim>\<open>strings.TrimFunc\<close> with a test that only accepts ASCII runes.\<close>

definition TrimFunc_ascii :: "(char \<Rightarrow> bool) \<Rightarrow> string \<Rightarrow> string" where
  "TrimFunc_ascii P s = rev (dropWhile P (rev (dropWhile P s)))"

definition onlyWhitespaceOrParen :: "string \<Rightarrow> nat \<Rightarrow> nat \<Rightarrow> bool" where
  "onlyWhitespaceOrParen tx a b \<longleftrightarrow> TrimSpace (TrimFunc_ascii paren (TrimSpace (between tx a b))) = ''''"

definition hasOpenParen :: "string \<Rightarrow> nat \<Rightarrow> nat \<Rightarrow> bool" where
  "hasOpenParen tx a b = Contains (between tx a b) ''(''"

definition hasCloseParen :: "string \<Rightarrow> nat \<Rightarrow> nat \<Rightarrow> bool" where
  "hasCloseParen tx a b = Contains (between tx a b) '')''"

definition isCapitalized :: "string \<Rightarrow> bool" where
  "isCapitalized tx = isUpperRune (fst (DecodeRune tx))"

definition occupiesWholeLine :: "string \<Rightarrow> nat \<Rightarrow> nat \<Rightarrow> bool" where
  "occupiesWholeLine tx a b =
     (if \<not> onlyWhitespace tx (name_line_start tx a) a then False else onlyWhitespace tx b (name_line_end tx b))"

definition singleNameGap :: "string \<Rightarrow> nameToken list \<Rightarrow> nat \<Rightarrow> nat \<Rightarrow> nat option" where
  "singleNameGap tx nt a b =
     (if b \<noteq> a + 2 then None
      else let mid = a + 1; t = nt ! mid in
        if \<not> onlyWhitespaceOrParen tx (tok_end (nt ! a)) (tok_start t) \<or>
           \<not> onlyWhitespaceOrParen tx (tok_end t) (tok_start (nt ! b)) then None
        else if isNameLikeConfident t then None
        else if nt_lower t \<in> set stopWords then None
        else if \<not> isUpperRune (fst (DecodeRune (tok_text t))) then None
        else Some mid)"

definition twoNameGap :: "string \<Rightarrow> nameToken list \<Rightarrow> nat \<Rightarrow> nat \<Rightarrow> (nat \<times> nat) option" where
  "twoNameGap tx nt a b =
     (if b \<noteq> a + 3 then None
      else let mid1 = a + 1; mid2 = a + 2 in
        if \<not> onlyWhitespaceOrParen tx (tok_end (nt ! a)) (tok_start (nt ! mid1)) \<or>
           \<not> onlyWhitespaceOrParen tx (tok_end (nt ! mid1)) (tok_start (nt ! mid2)) \<or>
           \<not> onlyWhitespaceOrParen tx (tok_end (nt ! mid2)) (tok_start (nt ! b)) then None
        else if list_ex (\<lambda>mid. isNameLike (nt ! mid) \<or> nt_lower (nt ! mid) \<in> set stopWords \<or>
                  \<not> isUpperRune (fst (DecodeRune (tok_text (nt ! mid))))) [mid1, mid2] then None
        else Some (mid1, mid2))"

definition lowercaseNameGap :: "runtime \<Rightarrow> nameToken list \<Rightarrow> nat \<Rightarrow> nat \<Rightarrow> Text \<Rightarrow> nat option" where
  "lowercaseNameGap rt nt a b t =
     (if b \<noteq> a + 2 then None
      else let mid = a + 1; tok = nt ! mid in
        if \<not> onlyWhitespaceOrParen (Raw t) (tok_end (nt ! a)) (tok_start tok) \<or>
           \<not> onlyWhitespaceOrParen (Raw t) (tok_end tok) (tok_start (nt ! b)) then None
        else if isNameLikeConfident tok \<or> nt_isPatrMarker tok then None
        else if nt_lower tok \<in> set stopWords then None
        else if \<not> hasLeftContext rt t (tok_start tok) lowercaseNameContext 40 \<and>
                \<not> occupiesWholeLine (Raw t) (tok_start (nt ! a)) (tok_end (nt ! b)) then None
        else Some mid)"

definition unknownNameBefore :: "nameToken list \<Rightarrow> nat \<Rightarrow> nat option" where
  "unknownNameBefore nt b =
     (if b = 0 then None
      else let t = nt ! (b - 1) in
        if isNameLike t then None
        else if nt_lower t \<in> set stopWords then None
        else if \<not> isUpperRune (fst (DecodeRune (tok_text t))) then None
        else Some (b - 1))"

subsection \<open>Rules for a candidate\<close>

definition hasAdjacentUncoveredNameLike :: "string \<Rightarrow> nameToken list \<Rightarrow> bool list \<Rightarrow> nat \<Rightarrow> bool" where
  "hasAdjacentUncoveredNameLike tx nt covered idx =
     (if 0 < idx \<and> \<not> covered ! (idx - 1) \<and> isNameLike (nt ! (idx - 1)) \<and>
         onlyWhitespace tx (tok_end (nt ! (idx - 1))) (tok_start (nt ! idx)) then True
      else idx + 1 < length nt \<and> \<not> covered ! (idx + 1) \<and> isNameLike (nt ! (idx + 1)) \<and>
         onlyWhitespace tx (tok_end (nt ! idx)) (tok_start (nt ! (idx + 1))))"

definition singleNameWithContext ::
  "runtime \<Rightarrow> nameToken list \<Rightarrow> nat list \<Rightarrow> nat \<Rightarrow> Text \<Rightarrow> bool list \<Rightarrow> handled" where
  "singleNameWithContext rt nt cands i t covered =
     (let tok = nt ! (cands ! i);
          emit = (\<lambda>conf. Some (1, cover [cands ! i] covered, name_span (tok_start tok) (tok_end tok) conf))
      in if nt_isName tok then
           (if \<not> hasLeftContext rt t (tok_start tok) nameContext 30 then None else emit (8 / 10))
         else if isSurnameLike tok \<or> nt_isPatr tok then
           (if \<not> hasLeftContext rt t (tok_start tok) fieldLabelContext 25 then None
            else if hasAdjacentUncoveredNameLike (Raw t) nt covered (cands ! i) then None
            else emit (75 / 100))
         else None)"

definition isSurnamePatrMarkerPair :: "nameToken list \<Rightarrow> nat list \<Rightarrow> nat \<Rightarrow> bool" where
  "isSurnamePatrMarkerPair nt cands i \<longleftrightarrow> isSurnameLike (nt ! (cands ! i)) \<and> nt_isPatrMarker (nt ! (cands ! (i + 1)))"

definition isSurnamePatrPair :: "nameToken list \<Rightarrow> nat list \<Rightarrow> nat \<Rightarrow> bool" where
  "isSurnamePatrPair nt cands i \<longleftrightarrow> isSurnameLike (nt ! (cands ! i)) \<and> nt_isPatr (nt ! (cands ! (i + 1)))"

definition isPatrSurnamePair :: "nameToken list \<Rightarrow> nat list \<Rightarrow> nat \<Rightarrow> bool" where
  "isPatrSurnamePair nt cands i \<longleftrightarrow> nt_isPatr (nt ! (cands ! i)) \<and> isSurnameLike (nt ! (cands ! (i + 1)))"

definition turkicPatronymic ::
  "runtime \<Rightarrow> namesDict \<Rightarrow> nameToken list \<Rightarrow> nat list \<Rightarrow> nat \<Rightarrow> Text \<Rightarrow> bool list \<Rightarrow> handled" where
  "turkicPatronymic rt d nt cands i t covered =
     (if length cands \<le> i + 1 \<or> \<not> isSurnamePatrMarkerPair nt cands i then None
      else case twoNameGap (Raw t) nt (cands ! i) (cands ! (i + 1)) of
        None \<Rightarrow> None
      | Some (mid1, mid2) \<Rightarrow>
          let s = [nt ! (cands ! i), nt ! mid1, nt ! mid2, nt ! (cands ! (i + 1))] in
          if isFamous rt d t s then None
          else Some (2, cover [cands ! i, mid1, mid2, cands ! (i + 1)] covered,
                 name_span (tok_start (s ! 0)) (tok_end (s ! 3)) (95 / 100)))"

definition threeWhitespaceSeparated :: "string \<Rightarrow> nameToken list \<Rightarrow> nat list \<Rightarrow> nat \<Rightarrow> bool" where
  "threeWhitespaceSeparated tx nt cands i =
     (if length cands \<le> i + 2 then False
      else if \<not> onlyWhitespace tx (tok_end (nt ! (cands ! i))) (tok_start (nt ! (cands ! (i + 1)))) then False
      else onlyWhitespace tx (tok_end (nt ! (cands ! (i + 1)))) (tok_start (nt ! (cands ! (i + 2)))))"

text \<open>\<^verbatim>\<open>maidenSurnameStart\<close>: \<^term>\<open>None\<close> is \<^verbatim>\<open>(seqStart, false)\<close>.\<close>

definition maidenSurnameStart :: "string \<Rightarrow> nameToken list \<Rightarrow> nat list \<Rightarrow> nat \<Rightarrow> nat \<Rightarrow> nat option" where
  "maidenSurnameStart tx nt cands i endPos =
     (if i = 0 \<or> \<not> isSurnameLike (nt ! (cands ! (i - 1))) then None
      else if \<not> hasOpenParen tx (tok_end (nt ! (cands ! (i - 1)))) (tok_start (nt ! (cands ! i))) then None
      else if \<not> hasCloseParen tx (tok_end (nt ! (cands ! i))) endPos then None
      else Some (tok_start (nt ! (cands ! (i - 1)))))"

definition trailingPatrMarkerEnd :: "string \<Rightarrow> nameToken list \<Rightarrow> nat \<Rightarrow> nat option" where
  "trailingPatrMarkerEnd tx nt lastIdx =
     (if length nt \<le> lastIdx + 1 then None
      else let nx = nt ! (lastIdx + 1) in
        if \<not> nt_isPatrMarker nx \<or> \<not> onlyWhitespace tx (tok_end (nt ! lastIdx)) (tok_start nx) then None
        else Some (tok_end nx))"

definition threeTokenName ::
  "runtime \<Rightarrow> namesDict \<Rightarrow> nameToken list \<Rightarrow> nat list \<Rightarrow> nat \<Rightarrow> Text \<Rightarrow> bool list \<Rightarrow> handled" where
  "threeTokenName rt d nt cands i t covered =
     (if \<not> threeWhitespaceSeparated (Raw t) nt cands i then None
      else let s = [nt ! (cands ! i), nt ! (cands ! (i + 1)), nt ! (cands ! (i + 2))] in
        case validSeq rt d s t of
          None \<Rightarrow> None
        | Some conf \<Rightarrow>
            let (start, c1) =
                  (case maidenSurnameStart (Raw t) nt cands i (tok_start (nt ! (cands ! (i + 1)))) of
                     Some ext \<Rightarrow> (ext, cover [cands ! (i - 1)] covered)
                   | None \<Rightarrow> (tok_start (s ! 0), covered));
                (e, c2) =
                  (case trailingPatrMarkerEnd (Raw t) nt (cands ! (i + 2)) of
                     Some ext \<Rightarrow> (ext, cover [cands ! (i + 2) + 1] c1)
                   | None \<Rightarrow> (tok_end (s ! 2), c1))
            in Some (3, cover [cands ! i, cands ! (i + 1), cands ! (i + 2)] c2, name_span start e conf))"

definition hyphenSurnameStart :: "string \<Rightarrow> nameToken list \<Rightarrow> nat \<Rightarrow> nat option" where
  "hyphenSurnameStart tx nt ci =
     (if ci = 0 then None
      else let prev = nt ! (ci - 1) in
        if isNameLike prev \<or> nt_lower prev \<in> set stopWords then None
        else if \<not> Contains (tok_text prev) ''-'' then None
        else if \<not> onlyWhitespace tx (tok_end prev) (tok_start (nt ! ci)) then None
        else if \<not> isUpperRune (fst (DecodeRune (tok_text prev))) then None
        else Some (tok_start prev))"

definition surnamePrecedesFamousPatr ::
  "runtime \<Rightarrow> namesDict \<Rightarrow> Text \<Rightarrow> nameToken list \<Rightarrow> nat \<Rightarrow> nameToken list \<Rightarrow> bool" where
  "surnamePrecedesFamousPatr rt d t nt ci s =
     (if ci = 0 \<or> \<not> isSurnameLike (nt ! (ci - 1)) then False
      else if \<not> onlyWhitespace (Raw t) (tok_end (nt ! (ci - 1))) (tok_start (nt ! ci)) then False
      else isFamous rt d t [nt ! (ci - 1), s ! 0, s ! 1])"

definition twoTokenName ::
  "runtime \<Rightarrow> namesDict \<Rightarrow> nameToken list \<Rightarrow> nat list \<Rightarrow> nat \<Rightarrow> Text \<Rightarrow> bool list \<Rightarrow> handled" where
  "twoTokenName rt d nt cands i t covered =
     (if length cands \<le> i + 1 \<or>
         \<not> onlyWhitespace (Raw t) (tok_end (nt ! (cands ! i))) (tok_start (nt ! (cands ! (i + 1)))) then None
      else let s = [nt ! (cands ! i), nt ! (cands ! (i + 1))] in
        case validSeq rt d s t of
          None \<Rightarrow> None
        | Some conf \<Rightarrow>
            if nt_isName (s ! 0) \<and> nt_isPatr (s ! 1) \<and> surnamePrecedesFamousPatr rt d t nt (cands ! i) s then None
            else
              let (start, c1) =
                    (case hyphenSurnameStart (Raw t) nt (cands ! i) of
                       Some ext \<Rightarrow> (ext, cover [cands ! i - 1] covered)
                     | None \<Rightarrow> (tok_start (s ! 0), covered))
              in Some (2, cover [cands ! i, cands ! (i + 1)] c1, name_span start (tok_end (s ! 1)) conf))"

definition emitGapName ::
  "runtime \<Rightarrow> namesDict \<Rightarrow> nameToken list \<Rightarrow> nat list \<Rightarrow> nat \<Rightarrow> Text \<Rightarrow> bool list \<Rightarrow> nat \<Rightarrow> rat \<Rightarrow> handled" where
  "emitGapName rt d nt cands i t covered mid conf =
     (let s = [nt ! (cands ! i), nt ! mid, nt ! (cands ! (i + 1))] in
      if isFamous rt d t s then None
      else
        let (start, c1) =
              (case maidenSurnameStart (Raw t) nt cands i (tok_start (nt ! mid)) of
                 Some ext \<Rightarrow> (ext, cover [cands ! (i - 1)] covered)
               | None \<Rightarrow> (tok_start (s ! 0), covered))
        in Some (2, cover [cands ! i, mid, cands ! (i + 1)] c1, name_span start (tok_end (s ! 2)) conf))"

definition surnameGapName ::
  "runtime \<Rightarrow> namesDict \<Rightarrow> nameToken list \<Rightarrow> nat list \<Rightarrow> nat \<Rightarrow> Text \<Rightarrow> bool list \<Rightarrow> handled" where
  "surnameGapName rt d nt cands i t covered =
     (if length cands \<le> i + 1 \<or> \<not> isSurnamePatrPair nt cands i then None
      else case singleNameGap (Raw t) nt (cands ! i) (cands ! (i + 1)) of
        Some mid \<Rightarrow> emitGapName rt d nt cands i t covered mid (95 / 100)
      | None \<Rightarrow>
          (case lowercaseNameGap rt nt (cands ! i) (cands ! (i + 1)) t of
             Some mid \<Rightarrow> emitGapName rt d nt cands i t covered mid (9 / 10)
           | None \<Rightarrow> None))"

definition patrSurnameName ::
  "runtime \<Rightarrow> namesDict \<Rightarrow> nameToken list \<Rightarrow> nat list \<Rightarrow> nat \<Rightarrow> Text \<Rightarrow> bool list \<Rightarrow> handled" where
  "patrSurnameName rt d nt cands i t covered =
     (if length cands \<le> i + 1 \<or> \<not> isPatrSurnamePair nt cands i then None
      else case unknownNameBefore nt (cands ! i) of
        None \<Rightarrow> None
      | Some mid \<Rightarrow>
          let s = [nt ! mid, nt ! (cands ! i), nt ! (cands ! (i + 1))] in
          if isFamous rt d t s then None
          else Some (2, cover [mid, cands ! i, cands ! (i + 1)] covered,
                 name_span (tok_start (s ! 0)) (tok_end (s ! 2)) (9 / 10)))"

definition greetingNamePatr ::
  "runtime \<Rightarrow> namesDict \<Rightarrow> nameToken list \<Rightarrow> nat list \<Rightarrow> nat \<Rightarrow> Text \<Rightarrow> bool list \<Rightarrow> handled" where
  "greetingNamePatr rt d nt cands i t covered =
     (if \<not> nt_isPatr (nt ! (cands ! i)) then None
      else case unknownNameBefore nt (cands ! i) of
        None \<Rightarrow> None
      | Some mid \<Rightarrow>
          if \<not> hasLeftContext rt t (tok_start (nt ! mid)) greetingContext 20 then None
          else let s = [nt ! mid, nt ! (cands ! i)] in
            if isFamous rt d t s then None
            else Some (1, cover [mid, cands ! i] covered,
                   name_span (tok_start (s ! 0)) (tok_end (s ! 1)) (85 / 100)))"

definition surnameUnknownName ::
  "runtime \<Rightarrow> namesDict \<Rightarrow> nameToken list \<Rightarrow> nat list \<Rightarrow> nat \<Rightarrow> Text \<Rightarrow> bool list \<Rightarrow> handled" where
  "surnameUnknownName rt d nt cands i t covered =
     (let ci = cands ! i in
      if \<not> isSurnameLike (nt ! ci) then None
      else if length nt \<le> ci + 1 then None
      else let nx = nt ! (ci + 1) in
        if isNameLike nx \<or> nt_lower nx \<in> set stopWords then None
        else if \<not> onlyWhitespace (Raw t) (tok_end (nt ! ci)) (tok_start nx) \<or>
                Contains (between (Raw t) (tok_end (nt ! ci)) (tok_start nx)) [CHR 0x0A] then None
        else if \<not> isUpperRune (fst (DecodeRune (tok_text nx))) then None
        else if \<not> hasLeftContext rt t (tok_start (nt ! ci)) nameContext 30 then None
        else let s = [nt ! ci, nx] in
          if isFamous rt d t s then None
          else Some (1, cover [ci, ci + 1] covered, name_span (tok_start (s ! 0)) (tok_end (s ! 1)) (9 / 10)))"

definition candidate_rules ::
  "runtime \<Rightarrow> namesDict \<Rightarrow> nameToken list \<Rightarrow> nat list \<Rightarrow> nat \<Rightarrow> Text \<Rightarrow> bool list \<Rightarrow> handled" where
  "candidate_rules rt d nt cands i t covered =
     first_some
       [turkicPatronymic rt d nt cands i t covered,
        threeTokenName rt d nt cands i t covered,
        twoTokenName rt d nt cands i t covered,
        surnameGapName rt d nt cands i t covered,
        patrSurnameName rt d nt cands i t covered,
        greetingNamePatr rt d nt cands i t covered,
        surnameUnknownName rt d nt cands i t covered,
        singleNameWithContext rt nt cands i t covered]"

text \<open>\<^verbatim>\<open>processCandidate\<close>: the candidates to skip, the marks and the spans it adds.\<close>

definition processCandidate ::
  "runtime \<Rightarrow> namesDict \<Rightarrow> nameToken list \<Rightarrow> nat list \<Rightarrow> nat \<Rightarrow> Text \<Rightarrow> bool list \<Rightarrow> nat \<times> bool list \<times> Span list" where
  "processCandidate rt d nt cands i t covered =
     (if covered ! (cands ! i) then (1, covered, [])
      else case candidate_rules rt d nt cands i t covered of
        Some (adv, c, s) \<Rightarrow> (adv, c, [s])
      | None \<Rightarrow> (1, covered, []))"

declare first_some.simps [simp del]

lemma first_some_all: "P None \<Longrightarrow> list_all P xs \<Longrightarrow> P (first_some xs)"
  by (induction xs) (auto simp: first_some.simps split: option.splits)

text \<open>Every rule that handles a candidate skips at least one and keeps the number of marks.\<close>

definition progress :: "bool list \<Rightarrow> handled \<Rightarrow> bool" where
  "progress covered r \<longleftrightarrow> (case r of None \<Rightarrow> True | Some (adv, c, s) \<Rightarrow> 1 \<le> adv \<and> length c = length covered)"

lemma cover_length [simp]: "length (cover ks covered) = length covered"
  by (induction ks arbitrary: covered) (simp_all add: cover_def)

lemma progress_simps [simp]:
  "progress covered None" "progress covered (Some (adv, c, s)) \<longleftrightarrow> 1 \<le> adv \<and> length c = length covered"
  by (simp_all add: progress_def)

lemma turkicPatronymic_progress: "progress covered (turkicPatronymic rt d nt cands i t covered)"
  by (simp add: turkicPatronymic_def Let_def split: option.split)

lemma threeTokenName_progress: "progress covered (threeTokenName rt d nt cands i t covered)"
  by (simp add: threeTokenName_def Let_def split: option.split)

lemma twoTokenName_progress: "progress covered (twoTokenName rt d nt cands i t covered)"
  by (simp add: twoTokenName_def Let_def split: option.split)

lemma emitGapName_progress: "progress covered (emitGapName rt d nt cands i t covered mid conf)"
  by (simp add: emitGapName_def Let_def split: option.split)

lemma surnameGapName_progress: "progress covered (surnameGapName rt d nt cands i t covered)"
  by (simp add: surnameGapName_def emitGapName_progress split: option.split)

lemma patrSurnameName_progress: "progress covered (patrSurnameName rt d nt cands i t covered)"
  by (simp add: patrSurnameName_def Let_def split: option.split)

lemma greetingNamePatr_progress: "progress covered (greetingNamePatr rt d nt cands i t covered)"
  by (simp add: greetingNamePatr_def Let_def split: option.split)

lemma surnameUnknownName_progress: "progress covered (surnameUnknownName rt d nt cands i t covered)"
  by (simp add: surnameUnknownName_def Let_def)

lemma singleNameWithContext_progress: "progress covered (singleNameWithContext rt nt cands i t covered)"
  by (simp add: singleNameWithContext_def Let_def)

lemma candidate_rules_progress: "progress covered (candidate_rules rt d nt cands i t covered)"
  by (simp add: candidate_rules_def turkicPatronymic_progress threeTokenName_progress twoTokenName_progress
      surnameGapName_progress patrSurnameName_progress greetingNamePatr_progress surnameUnknownName_progress
      singleNameWithContext_progress first_some_all)

lemma processCandidate_adv: "1 \<le> fst (processCandidate rt d nt cands i t covered)"
  using candidate_rules_progress [of covered rt d nt cands i t]
  by (auto simp: processCandidate_def split: option.splits prod.splits)

subsection \<open>Latin names\<close>

definition latinNameContext :: "string list" where
  "latinNameContext =
    [''my name is'',
     ''name:'',
     ''full name:'',
     encode_runes [0x438, 0x43c, 0x44f, 0x3a] \<comment> \<open>imya:\<close>,
     ctxClient,
     ctxZayavitel,
     encode_runes [0x444, 0x438, 0x43e, 0x3a] \<comment> \<open>fio:\<close>,
     ctxFIOAbbrev,
     ''client:'']"

definition foreignNameContext :: "string list" where
  "foreignNameContext =
    [encode_runes [0x43e, 0x431, 0x440, 0x430, 0x449, 0x430, 0x442, 0x44c, 0x441, 0x44f] \<comment> \<open>obrashchatsya\<close>,
     ctxZovut,
     encode_runes [0x444, 0x430, 0x43c, 0x438, 0x43b, 0x438, 0x44e] \<comment> \<open>familiyu\<close>,
     encode_runes [0x444, 0x430, 0x43c, 0x438, 0x43b, 0x438, 0x44f] \<comment> \<open>familiya\<close>,
     ctxFIO,
     encode_runes [0x43f, 0x440, 0x435, 0x434, 0x441, 0x442, 0x430, 0x432, 0x44c, 0x442, 0x435, 0x441, 0x44c] \<comment> \<open>predstavtes\<close>,
     encode_runes [0x43f, 0x440, 0x43e, 0x43f, 0x443, 0x441, 0x43a, 0x430] \<comment> \<open>propuska\<close>,
     ctxDlya,
     ctxNaImya]"

definition isLatinToken :: "token \<Rightarrow> bool" where
  "isLatinToken tok = list_all isLatinLetter (runes (tok_text tok))"

definition collectCapitalized :: "token list \<Rightarrow> nat \<Rightarrow> nat \<Rightarrow> bool list \<Rightarrow> nat list" where
  "collectCapitalized toks i j covered =
     filter (\<lambda>k. \<not> covered ! k \<and> isCapitalized (tok_text (toks ! k))) [i..<j]"

function emitLatinSpans ::
  "runtime \<Rightarrow> Text \<Rightarrow> token list \<Rightarrow> nat list \<Rightarrow> nat \<Rightarrow> bool list \<Rightarrow> Span list \<times> bool list" where
  "emitLatinSpans rt t toks capIdx k covered =
     (if k + 1 < length capIdx then
        let a = capIdx ! k; b = capIdx ! (k + 1) in
        if covered ! a \<or> covered ! b then emitLatinSpans rt t toks capIdx (k + 1) covered
        else if \<not> onlyWhitespace (Raw t) (tok_end (toks ! a)) (tok_start (toks ! b))
        then emitLatinSpans rt t toks capIdx (k + 1) covered
        else if \<not> hasLeftContext rt t (tok_start (toks ! a)) latinNameContext 40
        then emitLatinSpans rt t toks capIdx (k + 1) covered
        else if k + 2 < length capIdx \<and>
                onlyWhitespace (Raw t) (tok_end (toks ! b)) (tok_start (toks ! (capIdx ! (k + 2)))) then
          let c = capIdx ! (k + 2);
              (ss, covered') = emitLatinSpans rt t toks capIdx (k + 2) (cover [a, b, c] covered)
          in (name_span (tok_start (toks ! a)) (tok_end (toks ! c)) (9 / 10) # ss, covered')
        else
          let (ss, covered') = emitLatinSpans rt t toks capIdx (k + 1) (cover [a, b] covered)
          in (name_span (tok_start (toks ! a)) (tok_end (toks ! b)) (9 / 10) # ss, covered')
      else ([], covered))"
  by pat_completeness auto
termination
  by (relation "measure (\<lambda>(rt, t, toks, capIdx, k, covered). length capIdx - k)") auto

declare emitLatinSpans.simps [simp del]

text \<open>The end of the run of Latin tokens that starts at \<open>j\<close>.\<close>

function latin_run :: "token list \<Rightarrow> nat \<Rightarrow> nat" where
  "latin_run toks j = (if j < length toks \<and> isLatinToken (toks ! j) then latin_run toks (j + 1) else j)"
  by pat_completeness auto
termination
  by (relation "measure (\<lambda>(toks, j). length toks - j)") auto

declare latin_run.simps [simp del]

lemma latin_run_bounds: "j \<le> length toks \<Longrightarrow> j \<le> latin_run toks j \<and> latin_run toks j \<le> length toks"
proof (induction toks j rule: latin_run.induct)
  case (1 toks j)
  then show ?case by (subst (1 2) latin_run.simps) auto
qed

lemma latin_run_gt: "j < length toks \<Longrightarrow> isLatinToken (toks ! j) \<Longrightarrow> j < latin_run toks j"
  using latin_run_bounds [of "j + 1" toks] by (subst latin_run.simps) auto

function detectLatinNames :: "runtime \<Rightarrow> Text \<Rightarrow> token list \<Rightarrow> nat \<Rightarrow> bool list \<Rightarrow> Span list \<times> bool list" where
  "detectLatinNames rt t toks i covered =
     (if i < length toks then
        if covered ! i \<or> \<not> isLatinToken (toks ! i) then detectLatinNames rt t toks (i + 1) covered
        else
          let j = latin_run toks i;
              (ss, c1) = emitLatinSpans rt t toks (collectCapitalized toks i j covered) 0 covered;
              (ss', c2) = detectLatinNames rt t toks j c1
          in (ss @ ss', c2)
      else ([], covered))"
  by pat_completeness auto
termination
proof (relation "measure (\<lambda>(rt, t, toks, i, covered). length toks - i)", goal_cases)
  case (3 rt t toks i covered j p ss c1)
  then show ?case using latin_run_gt [of i toks] by auto
qed auto

declare detectLatinNames.simps [simp del]

definition isLowercaseLatinCandidate :: "token \<Rightarrow> bool" where
  "isLowercaseLatinCandidate tok =
     (if \<not> isLatinToken tok \<or> isCapitalized (tok_text tok) then False else 2 \<le> RuneCount (tok_text tok))"

definition hasImmediateLabel :: "runtime \<Rightarrow> Text \<Rightarrow> nat \<Rightarrow> bool" where
  "hasImmediateLabel rt t pos =
     list_ex (\<lambda>kw.
       let window = rev (dropWhile (\<lambda>c. c = CHR '' '' \<or> c = CHR 0x09)
             (rev (runeWindowBefore rt t pos (int (RuneCount kw) + 2))))
       in HasSuffix window kw) latinNameContext"

text \<open>The inner loop of \<^verbatim>\<open>detectLowercaseLatinNames\<close>; the last argument is what is left of \<^verbatim>\<open>j-i < 3\<close>.\<close>

fun lower_run :: "string \<Rightarrow> token list \<Rightarrow> bool list \<Rightarrow> nat \<Rightarrow> nat \<Rightarrow> nat" where
  "lower_run tx toks covered j 0 = j"
| "lower_run tx toks covered j (Suc n) =
     (if j + 1 < length toks \<and> \<not> covered ! (j + 1) \<and> isLowercaseLatinCandidate (toks ! (j + 1)) \<and>
         onlyWhitespace tx (tok_end (toks ! j)) (tok_start (toks ! (j + 1)))
      then lower_run tx toks covered (j + 1) n else j)"

lemma lower_run_bounds:
  "j < length toks \<Longrightarrow> j \<le> lower_run tx toks covered j n \<and> lower_run tx toks covered j n < length toks"
proof (induction n arbitrary: j)
  case (Suc n)
  then show ?case using Suc.IH [of "j + 1"] by (auto dest: Suc_leD)
qed simp

function detectLowercaseLatinNames ::
  "runtime \<Rightarrow> Text \<Rightarrow> token list \<Rightarrow> nat \<Rightarrow> bool list \<Rightarrow> Span list \<times> bool list" where
  "detectLowercaseLatinNames rt t toks i covered =
     (if i < length toks then
        if covered ! i \<or> \<not> isLowercaseLatinCandidate (toks ! i) \<or> \<not> hasImmediateLabel rt t (tok_start (toks ! i))
        then detectLowercaseLatinNames rt t toks (i + 1) covered
        else
          let j = lower_run (Raw t) toks covered i 3 in
          if j = i then detectLowercaseLatinNames rt t toks (i + 1) covered
          else
            let (ss, c) = detectLowercaseLatinNames rt t toks (j + 1) (cover [i..<j + 1] covered)
            in (name_span (tok_start (toks ! i)) (tok_end (toks ! j)) (85 / 100) # ss, c)
      else ([], covered))"
  by pat_completeness auto
termination
proof (relation "measure (\<lambda>(rt, t, toks, i, covered). length toks - i)", goal_cases)
  case (4 rt t toks i covered j)
  then show ?case using lower_run_bounds [of i toks "Raw t" covered 3] by auto
qed auto

declare detectLowercaseLatinNames.simps [simp del]

subsection \<open>Foreign names\<close>

definition isForeignNameCandidate :: "nameToken \<Rightarrow> bool" where
  "isForeignNameCandidate t =
     (if isNameLike t then False
      else if nt_lower t \<in> set stopWords then False
      else if RuneCount (tok_text t) < 2 then False
      else isUpperRune (fst (DecodeRune (tok_text t))))"

definition foreignRunContinues :: "string \<Rightarrow> nameToken list \<Rightarrow> bool list \<Rightarrow> nat \<Rightarrow> bool" where
  "foreignRunContinues tx nt covered j =
     (if length nt \<le> j + 1 \<or> covered ! (j + 1) \<or> \<not> isForeignNameCandidate (nt ! (j + 1)) then False
      else if \<not> onlyWhitespace tx (tok_end (nt ! j)) (tok_start (nt ! (j + 1))) then False
      else \<not> Contains (between tx (tok_end (nt ! j)) (tok_start (nt ! (j + 1)))) [CHR 0x0A])"

function foreignNameRunEnd :: "string \<Rightarrow> nameToken list \<Rightarrow> bool list \<Rightarrow> nat \<Rightarrow> nat" where
  "foreignNameRunEnd tx nt covered j =
     (if foreignRunContinues tx nt covered j then foreignNameRunEnd tx nt covered (j + 1) else j)"
  by pat_completeness auto
termination
  by (relation "measure (\<lambda>(tx, nt, covered, j). length nt - j)")
     (auto simp: foreignRunContinues_def split: if_splits)

declare foreignNameRunEnd.simps [simp del]

lemma foreignNameRunEnd_bounds:
  "j < length nt \<Longrightarrow> j \<le> foreignNameRunEnd tx nt covered j \<and> foreignNameRunEnd tx nt covered j < length nt"
proof (induction tx nt covered j rule: foreignNameRunEnd.induct)
  case (1 tx nt covered j)
  then show ?case
    by (subst (1 2) foreignNameRunEnd.simps) (auto simp: foreignRunContinues_def split: if_splits)
qed

definition validForeignRun :: "runtime \<Rightarrow> Text \<Rightarrow> nameToken list \<Rightarrow> nat \<Rightarrow> nat \<Rightarrow> nat \<Rightarrow> bool" where
  "validForeignRun rt t nt i j runLen =
     (if runLen < 2 \<or> runLen > 4 then False
      else if \<not> hasLeftContext rt t (tok_start (nt ! i)) foreignNameContext 40 then False
      else endsPhrase (Raw t) (tok_end (nt ! j)))"

function detectForeignNames ::
  "runtime \<Rightarrow> Text \<Rightarrow> nameToken list \<Rightarrow> nat \<Rightarrow> bool list \<Rightarrow> Span list \<times> bool list" where
  "detectForeignNames rt t nt i covered =
     (if i < length nt then
        if covered ! i \<or> \<not> isForeignNameCandidate (nt ! i) then detectForeignNames rt t nt (i + 1) covered
        else
          let j = foreignNameRunEnd (Raw t) nt covered i; runLen = j - i + 1 in
          if validForeignRun rt t nt i j runLen then
            let (ss, c) = detectForeignNames rt t nt (j + 1) (cover [i..<j + 1] covered)
            in (name_span (tok_start (nt ! i)) (tok_end (nt ! j)) (9 / 10) # ss, c)
          else detectForeignNames rt t nt (i + 1) covered
      else ([], covered))"
  by pat_completeness auto
termination
proof (relation "measure (\<lambda>(rt, t, nt, i, covered). length nt - i)", goal_cases)
  case (3 rt t nt i covered j runLen)
  then show ?case using foreignNameRunEnd_bounds [of i nt "Raw t" covered] by auto
qed auto

declare detectForeignNames.simps [simp del]

subsection \<open>The detector\<close>

definition name_token :: "runtime \<Rightarrow> namesDict \<Rightarrow> Text \<Rightarrow> token \<Rightarrow> nameToken" where
  "name_token rt d t tok =
     (let lower = tokenLower rt t tok;
          (n, s, g, p, i, m) = classify d lower
      in token.extend tok (nameToken.fields lower n s g p i m))"

function names_loop ::
  "runtime \<Rightarrow> namesDict \<Rightarrow> nameToken list \<Rightarrow> nat list \<Rightarrow> Text \<Rightarrow> nat \<Rightarrow> bool list \<Rightarrow> Span list \<times> bool list" where
  "names_loop rt d nt cands t i covered =
     (if i < length cands then
        let (adv, c, ss) = processCandidate rt d nt cands i t covered;
            (ss', c') = names_loop rt d nt cands t (i + adv) c
        in (ss @ ss', c')
      else ([], covered))"
  by pat_completeness auto
termination
proof (relation "measure (\<lambda>(rt, d, nt, cands, t, i, covered). length cands - i)", goal_cases)
  case (2 rt d nt cands t i covered p adv q c ss)
  then show ?case using processCandidate_adv [of rt d nt cands i t covered] by (auto simp: prod_eq_iff)
qed simp

declare names_loop.simps [simp del]

definition DetectLower_names :: "runtime \<Rightarrow> namesDict \<Rightarrow> Text \<Rightarrow> Span list" where
  "DetectLower_names rt d t =
     (let toks = tokenize (Raw t);
          nt = map (name_token rt d t) toks;
          cands = filter (\<lambda>i. isNameLike (nt ! i)) [0..<length nt];
          (s1, c1) = names_loop rt d nt cands t 0 (replicate (length nt) False);
          (s2, c2) = detectLatinNames rt t toks 0 c1;
          (s3, c3) = detectLowercaseLatinNames rt t toks 0 c2;
          (s4, c4) = detectForeignNames rt t nt 0 c3
      in s1 @ s2 @ s3 @ s4)"

definition NewNamesDetector :: "runtime \<Rightarrow> namesDict \<Rightarrow> detector" where
  "NewNamesDetector rt d = detector_of rt ''names'' [CatFullName] (\<lambda>t. Some (DetectLower_names rt d t))"

end
