(* ===== verification/Dateword.thy ===== *)
theory Dateword
  imports Detector_Contract
begin

text \<open>
  The detector of dates written in words (\<^verbatim>\<open>internal/pii/detectors/dateword.go\<close>). The patterns are built from
  word lists, longest word first. The order in which Go ranges over a map is not specified: the lists give
  one such order, and words of equal length, which the sort may leave in any order, exclude each other.
\<close>

subsection \<open>Words\<close>

definition dateWordGenUnits :: "string list" where
  "dateWordGenUnits =
    [encode_runes [0x43f, 0x435, 0x440, 0x432, 0x43e, 0x433, 0x43e] \<comment> \<open>pervogo\<close>,
     encode_runes [0x432, 0x442, 0x43e, 0x440, 0x43e, 0x433, 0x43e] \<comment> \<open>vtorogo\<close>,
     encode_runes [0x442, 0x440, 0x435, 0x442, 0x44c, 0x435, 0x433, 0x43e] \<comment> \<open>tretego\<close>,
     encode_runes [0x447, 0x435, 0x442, 0x432, 0x451, 0x440, 0x442, 0x43e, 0x433, 0x43e] \<comment> \<open>chetvyortogo\<close>,
     encode_runes [0x43f, 0x44f, 0x442, 0x43e, 0x433, 0x43e] \<comment> \<open>pyatogo\<close>,
     encode_runes [0x448, 0x435, 0x441, 0x442, 0x43e, 0x433, 0x43e] \<comment> \<open>shestogo\<close>,
     encode_runes [0x441, 0x435, 0x434, 0x44c, 0x43c, 0x43e, 0x433, 0x43e] \<comment> \<open>sedmogo\<close>,
     encode_runes [0x432, 0x43e, 0x441, 0x44c, 0x43c, 0x43e, 0x433, 0x43e] \<comment> \<open>vosmogo\<close>,
     encode_runes [0x434, 0x435, 0x432, 0x44f, 0x442, 0x43e, 0x433, 0x43e] \<comment> \<open>devyatogo\<close>,
     encode_runes [0x434, 0x435, 0x441, 0x44f, 0x442, 0x43e, 0x433, 0x43e] \<comment> \<open>desyatogo\<close>,
     encode_runes [0x43e, 0x434, 0x438, 0x43d, 0x43d, 0x430, 0x434, 0x446, 0x430, 0x442, 0x43e, 0x433, 0x43e] \<comment> \<open>odinnadtsatogo\<close>,
     encode_runes [0x434, 0x432, 0x435, 0x43d, 0x430, 0x434, 0x446, 0x430, 0x442, 0x43e, 0x433, 0x43e] \<comment> \<open>dvenadtsatogo\<close>,
     encode_runes [0x442, 0x440, 0x438, 0x43d, 0x430, 0x434, 0x446, 0x430, 0x442, 0x43e, 0x433, 0x43e] \<comment> \<open>trinadtsatogo\<close>,
     encode_runes [0x447, 0x435, 0x442, 0x44b, 0x440, 0x43d, 0x430, 0x434, 0x446, 0x430, 0x442, 0x43e, 0x433, 0x43e] \<comment> \<open>chetyrnadtsatogo\<close>,
     encode_runes [0x43f, 0x44f, 0x442, 0x43d, 0x430, 0x434, 0x446, 0x430, 0x442, 0x43e, 0x433, 0x43e] \<comment> \<open>pyatnadtsatogo\<close>,
     encode_runes [0x448, 0x435, 0x441, 0x442, 0x43d, 0x430, 0x434, 0x446, 0x430, 0x442, 0x43e, 0x433, 0x43e] \<comment> \<open>shestnadtsatogo\<close>,
     encode_runes [0x441, 0x435, 0x43c, 0x43d, 0x430, 0x434, 0x446, 0x430, 0x442, 0x43e, 0x433, 0x43e] \<comment> \<open>semnadtsatogo\<close>,
     encode_runes [0x432, 0x43e, 0x441, 0x435, 0x43c, 0x43d, 0x430, 0x434, 0x446, 0x430, 0x442, 0x43e, 0x433, 0x43e] \<comment> \<open>vosemnadtsatogo\<close>,
     encode_runes [0x434, 0x435, 0x432, 0x44f, 0x442, 0x43d, 0x430, 0x434, 0x446, 0x430, 0x442, 0x43e, 0x433, 0x43e] \<comment> \<open>devyatnadtsatogo\<close>]"

definition dateWordNomUnits :: "string list" where
  "dateWordNomUnits =
    [encode_runes [0x43f, 0x435, 0x440, 0x432, 0x43e, 0x435] \<comment> \<open>pervoe\<close>,
     encode_runes [0x432, 0x442, 0x43e, 0x440, 0x43e, 0x435] \<comment> \<open>vtoroe\<close>,
     encode_runes [0x442, 0x440, 0x435, 0x442, 0x44c, 0x435] \<comment> \<open>trete\<close>,
     encode_runes [0x447, 0x435, 0x442, 0x432, 0x451, 0x440, 0x442, 0x43e, 0x435] \<comment> \<open>chetvyortoe\<close>,
     encode_runes [0x43f, 0x44f, 0x442, 0x43e, 0x435] \<comment> \<open>pyatoe\<close>,
     encode_runes [0x448, 0x435, 0x441, 0x442, 0x43e, 0x435] \<comment> \<open>shestoe\<close>,
     encode_runes [0x441, 0x435, 0x434, 0x44c, 0x43c, 0x43e, 0x435] \<comment> \<open>sedmoe\<close>,
     encode_runes [0x432, 0x43e, 0x441, 0x44c, 0x43c, 0x43e, 0x435] \<comment> \<open>vosmoe\<close>,
     encode_runes [0x434, 0x435, 0x432, 0x44f, 0x442, 0x43e, 0x435] \<comment> \<open>devyatoe\<close>,
     encode_runes [0x434, 0x435, 0x441, 0x44f, 0x442, 0x43e, 0x435] \<comment> \<open>desyatoe\<close>,
     encode_runes [0x43e, 0x434, 0x438, 0x43d, 0x43d, 0x430, 0x434, 0x446, 0x430, 0x442, 0x43e, 0x435] \<comment> \<open>odinnadtsatoe\<close>,
     encode_runes [0x434, 0x432, 0x435, 0x43d, 0x430, 0x434, 0x446, 0x430, 0x442, 0x43e, 0x435] \<comment> \<open>dvenadtsatoe\<close>,
     encode_runes [0x442, 0x440, 0x438, 0x43d, 0x430, 0x434, 0x446, 0x430, 0x442, 0x43e, 0x435] \<comment> \<open>trinadtsatoe\<close>,
     encode_runes [0x447, 0x435, 0x442, 0x44b, 0x440, 0x43d, 0x430, 0x434, 0x446, 0x430, 0x442, 0x43e, 0x435] \<comment> \<open>chetyrnadtsatoe\<close>,
     encode_runes [0x43f, 0x44f, 0x442, 0x43d, 0x430, 0x434, 0x446, 0x430, 0x442, 0x43e, 0x435] \<comment> \<open>pyatnadtsatoe\<close>,
     encode_runes [0x448, 0x435, 0x441, 0x442, 0x43d, 0x430, 0x434, 0x446, 0x430, 0x442, 0x43e, 0x435] \<comment> \<open>shestnadtsatoe\<close>,
     encode_runes [0x441, 0x435, 0x43c, 0x43d, 0x430, 0x434, 0x446, 0x430, 0x442, 0x43e, 0x435] \<comment> \<open>semnadtsatoe\<close>,
     encode_runes [0x432, 0x43e, 0x441, 0x435, 0x43c, 0x43d, 0x430, 0x434, 0x446, 0x430, 0x442, 0x43e, 0x435] \<comment> \<open>vosemnadtsatoe\<close>,
     encode_runes [0x434, 0x435, 0x432, 0x44f, 0x442, 0x43d, 0x430, 0x434, 0x446, 0x430, 0x442, 0x43e, 0x435] \<comment> \<open>devyatnadtsatoe\<close>]"

definition w20 :: string where
  "w20 = encode_runes [0x434, 0x432, 0x430, 0x434, 0x446, 0x430, 0x442, 0x44c, 0x20] \<comment> \<open>dvadtsat \<close>"

definition w30 :: string where
  "w30 = encode_runes [0x442, 0x440, 0x438, 0x434, 0x446, 0x430, 0x442, 0x44c, 0x20] \<comment> \<open>tridtsat \<close>"

text \<open>\<^verbatim>\<open>buildDateWordDays\<close>.\<close>

definition dateWordDays :: "(string \<times> int) list" where
  "dateWordDays =
     concat (map (\<lambda>i. [(dateWordGenUnits ! (i - 1), int i), (dateWordNomUnits ! (i - 1), int i)]) [1..<20]) @
     [(encode_runes [0x434, 0x432, 0x430, 0x434, 0x446, 0x430, 0x442, 0x43e, 0x433, 0x43e] \<comment> \<open>dvadtsatogo\<close>, 20),
      (encode_runes [0x434, 0x432, 0x430, 0x434, 0x446, 0x430, 0x442, 0x43e, 0x435] \<comment> \<open>dvadtsatoe\<close>, 20),
      (encode_runes [0x442, 0x440, 0x438, 0x434, 0x446, 0x430, 0x442, 0x43e, 0x433, 0x43e] \<comment> \<open>tridtsatogo\<close>, 30),
      (encode_runes [0x442, 0x440, 0x438, 0x434, 0x446, 0x430, 0x442, 0x43e, 0x435] \<comment> \<open>tridtsatoe\<close>, 30)] @
     concat (map (\<lambda>i. [(w20 @ dateWordGenUnits ! (i - 1), 20 + int i),
                       (w20 @ dateWordNomUnits ! (i - 1), 20 + int i)]) [1..<10]) @
     [(w30 @ dateWordGenUnits ! 0, 31), (w30 @ dateWordNomUnits ! 0, 31)]"

subsection \<open>Patterns\<close>

text \<open>\<^verbatim>\<open>sort.Slice\<close> with the longest word first.\<close>

definition longest_first :: "runtime \<Rightarrow> string list \<Rightarrow> string list" where
  "longest_first rt ws = sort_slice (sort_perm rt) (\<lambda>a b. length b < length a) ws"

text \<open>
  The words are joined into the pattern unquoted, so a dot in a word stands for any character but a
  newline.
\<close>

definition word_rx :: "string \<Rightarrow> rx" where
  "word_rx w = foldr (\<lambda>c. Cat (Cls (\<lambda>x. if c = 0x2E then x \<noteq> 0xA else x = c))) (runes w) Eps"

definition buildDateWordDayRe :: "runtime \<Rightarrow> rx" where
  "buildDateWordDayRe rt = rx_alts (map word_rx (longest_first rt (map fst dateWordDays)))"

definition genTens :: "string list" where
  "genTens =
    [encode_runes [0x434, 0x432, 0x430, 0x434, 0x446, 0x430, 0x442, 0x43e, 0x433, 0x43e] \<comment> \<open>dvadtsatogo\<close>,
     encode_runes [0x442, 0x440, 0x438, 0x434, 0x446, 0x430, 0x442, 0x43e, 0x433, 0x43e] \<comment> \<open>tridtsatogo\<close>,
     encode_runes [0x441, 0x43e, 0x440, 0x43e, 0x43a, 0x43e, 0x432, 0x43e, 0x433, 0x43e] \<comment> \<open>sorokovogo\<close>,
     encode_runes [0x43f, 0x44f, 0x442, 0x438, 0x434, 0x435, 0x441, 0x44f, 0x442, 0x43e, 0x433, 0x43e] \<comment> \<open>pyatidesyatogo\<close>,
     encode_runes [0x448, 0x435, 0x441, 0x442, 0x438, 0x434, 0x435, 0x441, 0x44f, 0x442, 0x43e, 0x433, 0x43e] \<comment> \<open>shestidesyatogo\<close>,
     encode_runes [0x441, 0x435, 0x43c, 0x438, 0x434, 0x435, 0x441, 0x44f, 0x442, 0x43e, 0x433, 0x43e] \<comment> \<open>semidesyatogo\<close>,
     encode_runes [0x432, 0x43e, 0x441, 0x44c, 0x43c, 0x438, 0x434, 0x435, 0x441, 0x44f, 0x442, 0x43e, 0x433, 0x43e] \<comment> \<open>vosmidesyatogo\<close>,
     encode_runes [0x434, 0x435, 0x432, 0x44f, 0x43d, 0x43e, 0x441, 0x442, 0x43e, 0x433, 0x43e] \<comment> \<open>devyanostogo\<close>]"

definition nomTens :: "string list" where
  "nomTens =
    [encode_runes [0x434, 0x432, 0x430, 0x434, 0x446, 0x430, 0x442, 0x44c] \<comment> \<open>dvadtsat\<close>,
     encode_runes [0x442, 0x440, 0x438, 0x434, 0x446, 0x430, 0x442, 0x44c] \<comment> \<open>tridtsat\<close>,
     encode_runes [0x441, 0x43e, 0x440, 0x43e, 0x43a] \<comment> \<open>sorok\<close>,
     encode_runes [0x43f, 0x44f, 0x442, 0x44c, 0x434, 0x435, 0x441, 0x44f, 0x442] \<comment> \<open>pyatdesyat\<close>,
     encode_runes [0x448, 0x435, 0x441, 0x442, 0x44c, 0x434, 0x435, 0x441, 0x44f, 0x442] \<comment> \<open>shestdesyat\<close>,
     encode_runes [0x441, 0x435, 0x43c, 0x44c, 0x434, 0x435, 0x441, 0x44f, 0x442] \<comment> \<open>semdesyat\<close>,
     encode_runes [0x432, 0x43e, 0x441, 0x435, 0x43c, 0x44c, 0x434, 0x435, 0x441, 0x44f, 0x442] \<comment> \<open>vosemdesyat\<close>,
     encode_runes [0x434, 0x435, 0x432, 0x44f, 0x43d, 0x43e, 0x441, 0x442, 0x43e] \<comment> \<open>devyanosto\<close>]"

text \<open>The years after a prefix: its units, then its tens, each round and with the units 1 to 9.\<close>

definition century_words :: "string \<Rightarrow> string list" where
  "century_words p =
     map (\<lambda>u. p @ u) dateWordGenUnits @
     concat (map (\<lambda>i. (p @ genTens ! i) # map (\<lambda>u. p @ nomTens ! i @ '' '' @ u) (take 9 dateWordGenUnits))
       [0..<length genTens])"

definition year_words :: "string list" where
  "year_words =
     century_words (encode_runes [0x442, 0x44b, 0x441, 0x44f, 0x447, 0x430, 0x20, 0x434, 0x435, 0x432, 0x44f, 0x442, 0x44c, 0x441, 0x43e, 0x442, 0x20]) @
     [encode_runes [0x434, 0x432, 0x443, 0x445, 0x442, 0x44b, 0x441, 0x44f, 0x447, 0x43d, 0x43e, 0x433, 0x43e] \<comment> \<open>dvukhtysyachnogo\<close>] @
     century_words (encode_runes [0x434, 0x432, 0x435, 0x20, 0x442, 0x44b, 0x441, 0x44f, 0x447, 0x438, 0x20])"

definition buildDateWordYearRe :: "runtime \<Rightarrow> rx" where
  "buildDateWordYearRe rt = rx_alts (map word_rx (longest_first rt year_words) @ [rx_rep rx_digit 4 4])"

definition buildMonthAlt :: "runtime \<Rightarrow> rx" where
  "buildMonthAlt rt = rx_alts (map word_rx (longest_first rt (map fst monthNames)))"

definition buildDateWordsRe :: "runtime \<Rightarrow> rx" where
  "buildDateWordsRe rt =
     rx_cats [Cap 1 (buildDateWordDayRe rt), rx_plus rx_space, buildMonthAlt rt, rx_plus rx_space,
       buildDateWordYearRe rt,
       rx_opt (rx_cats [rx_plus rx_space, rx_alts
         [rx_lit [0x433, 0x43e, 0x434, 0x430] \<comment> \<open>goda\<close>,
          rx_lit [0x433, 0x2e] \<comment> \<open>g.\<close>,
          rx_lit [0x433] \<comment> \<open>g\<close>]])]"

definition dateWordDayValid :: "string \<Rightarrow> bool" where
  "dateWordDayValid day = (case map_of dateWordDays day of None \<Rightarrow> False | Some n \<Rightarrow> n \<le> 31)"

subsection \<open>The detector\<close>

definition dateWordBoundary :: "string \<Rightarrow> nat \<Rightarrow> nat \<Rightarrow> bool" where
  "dateWordBoundary raw start e =
     (if 0 < start \<and> isLetterRune_det (fst (DecodeLastRune (take start raw))) then False
      else if e < length raw \<and>
        (let r = fst (DecodeRune (drop e raw)) in isLetterRune_det r \<or> ascii_digit r) then False
      else True)"

definition precededByDayTens :: "string \<Rightarrow> nat \<Rightarrow> bool" where
  "precededByDayTens search start =
     (if start < 9 then False else list_ex (HasSuffix (take start search)) [w20, w30])"

definition acceptMatch_dw :: "runtime \<Rightarrow> Text \<Rightarrow> string \<Rightarrow> nat \<Rightarrow> nat \<Rightarrow> bool" where
  "acceptMatch_dw rt t search start e =
     (if \<not> dateWordBoundary (Raw t) start e then False
      else if precededByDayTens search start then False
      else
        case FindIndex (take (e - start) (drop start search)) (buildDateWordsRe rt) of
          None \<Rightarrow> False
        | Some sub \<Rightarrow>
            (case group_range sub 1 of
               None \<Rightarrow> False
             | Some (a, b) \<Rightarrow> dateWordDayValid (take (b - a) (drop (start + a) search))))"

definition search_text :: "Text \<Rightarrow> string" where
  "search_text t = (if LowerOK t then Lower t else Raw t)"

definition dw_match :: "runtime \<Rightarrow> Text \<Rightarrow> match \<Rightarrow> Span list option" where
  "dw_match rt t loc =
     (let start = m_lo loc; e = trimTrailingSeparators (Raw t) start (m_hi loc) in
      if \<not> acceptMatch_dw rt t (search_text t) start e then Some []
      else do { cat \<leftarrow> dateBirthReclassify rt t start e;
                Some [\<lparr> sp_Start = int start, sp_End = int e, sp_Category = cat,
                        sp_Detector = ''datewords'', sp_Confidence = 85 / 100 \<rparr>] })"

definition DetectLower_dw :: "runtime \<Rightarrow> Text \<Rightarrow> Span list option" where
  "DetectLower_dw rt t = concat_opt (dw_match rt t) (FindAllIndex (search_text t) (buildDateWordsRe rt))"

definition Categories_dw :: "category list" where
  "Categories_dw = [CatDate, CatBirthDate]"

subsection \<open>What it reports\<close>

lemma word_rx_caps [simp]: "cap_list (word_rx w) = []"
proof -
  have "cap_list (foldr (\<lambda>c. Cat (Cls (P c))) rs Eps) = []" for P and rs :: "rune list" by (induction rs) simp_all
  then show ?thesis by (simp only: word_rx_def)
qed

lemma dateWordsRe_caps: "cap_list (buildDateWordsRe rt) = [1]" "star_capless (buildDateWordsRe rt)"
proof -
  show "cap_list (buildDateWordsRe rt) = [1]"
    by (simp add: buildDateWordsRe_def buildDateWordDayRe_def buildMonthAlt_def buildDateWordYearRe_def comp_def)
  show "star_capless (buildDateWordsRe rt)"
    by (auto simp: buildDateWordsRe_def buildDateWordDayRe_def buildMonthAlt_def buildDateWordYearRe_def
        list_all_iff intro!: capless_star)
qed

lemma dateWordsRe_wf: "wf_caps (buildDateWordsRe rt)"
  by (simp add: wf_caps_def dateWordsRe_caps)

text \<open>Every ordinal stands for a day of a month, and no ordinal is empty.\<close>

lemma units_nonempty: "i < 19 \<Longrightarrow> dateWordGenUnits ! i \<noteq> [] \<and> dateWordNomUnits ! i \<noteq> []"
proof -
  have "length dateWordGenUnits = 19" "length dateWordNomUnits = 19"
    by (simp_all add: dateWordGenUnits_def dateWordNomUnits_def)
  moreover have "[] \<notin> set dateWordGenUnits" "[] \<notin> set dateWordNomUnits"
    by (simp_all add: dateWordGenUnits_def dateWordNomUnits_def)
  ultimately show "i < 19 \<Longrightarrow> ?thesis" by (metis nth_mem)
qed

lemma dateWordDays_range: "(w, n) \<in> set dateWordDays \<Longrightarrow> w \<noteq> [] \<and> 1 \<le> n \<and> n \<le> 31"
  using units_nonempty by (auto simp: dateWordDays_def w20_def w30_def)

lemma dateWordDayValid_iff: "dateWordDayValid day \<longleftrightarrow> (\<exists>n. map_of dateWordDays day = Some n)"
  by (auto simp: dateWordDayValid_def split: option.splits dest!: map_of_SomeD dest: dateWordDays_range)

text \<open>The bytes of the text searched are as many as those of the text.\<close>

lemma search_text_length [simp]: "length (search_text t) = length (Raw t)"
  by (simp add: search_text_def LowerOK_def)

lemma acceptMatch_dw_sound:
  assumes "acceptMatch_dw rt t s a e"
  shows "dateWordBoundary (Raw t) a e" and "\<not> precededByDayTens s a"
    and "\<exists>p day n. a \<le> p \<and> p + length day \<le> e \<and> occurs_at s day p \<and> (day, n) \<in> set dateWordDays"
proof -
  let ?w = "take (e - a) (drop a s)"
  show "dateWordBoundary (Raw t) a e" and "\<not> precededByDayTens s a"
    using assms by (simp_all add: acceptMatch_dw_def split: if_splits)
  from assms obtain sub b c where sub: "FindIndex ?w (buildDateWordsRe rt) = Some sub" "group_range sub 1 = Some (b, c)"
    and v: "dateWordDayValid (take (c - b) (drop (a + b) s))" (is "dateWordDayValid ?day")
    by (auto simp: acceptMatch_dw_def split: if_splits option.splits)
  from group_range_caps [OF sub(1) dateWordsRe_wf sub(2,2)] have bc: "b \<le> c" "c \<le> length ?w" by simp_all
  obtain n where n: "(?day, n) \<in> set dateWordDays" using v by (auto simp: dateWordDayValid_iff dest: map_of_SomeD)
  have len: "length ?day = c - b" using bc by auto
  have ne: "c - b \<noteq> 0" using dateWordDays_range [OF n] len by auto
  have "occurs_at s ?day (a + b)" using len bc ne by (simp add: occurs_at_def HasPrefix_def)
  moreover have "a + b + length ?day \<le> e" using len bc ne by auto
  ultimately show "\<exists>p day n. a \<le> p \<and> p + length day \<le> e \<and> occurs_at s day p \<and> (day, n) \<in> set dateWordDays"
    using n by (intro exI [of _ "a + b"] exI [of _ ?day] exI [of _ n]) simp
qed

lemma dw_match_ok:
  assumes "loc \<in> set (FindAllIndex (search_text t) (buildDateWordsRe rt))"
  shows "\<exists>ss. dw_match rt t loc = Some ss \<and> (\<forall>s \<in> set ss. span_wf (length (Raw t)) s)"
proof -
  let ?e = "trimTrailingSeparators (Raw t) (m_lo loc) (m_hi loc)"
  have l: "m_lo loc \<le> m_hi loc" "m_hi loc \<le> length (Raw t)"
    using all_from_sound assms unfolding FindAllIndex_def by fastforce+
  obtain cat where cat: "dateBirthReclassify rt t (m_lo loc) ?e = Some cat" using dateBirthReclassify_total by blast
  show ?thesis
  proof (cases "acceptMatch_dw rt t (search_text t) (m_lo loc) ?e")
    case True
    from acceptMatch_dw_sound(3) [OF True] obtain p day n where
      "m_lo loc \<le> p" "p + length day \<le> ?e" "(day, n) \<in> set dateWordDays" by blast
    moreover from this(3) have "0 < length day" using dateWordDays_range by auto
    ultimately have "m_lo loc < ?e" by linarith
    with True cat l trim_bounds(2) [OF l(2,1)] show ?thesis by (simp add: dw_match_def Let_def span_wf_def)
  qed (simp add: dw_match_def Let_def)
qed

interpretation dw: text_detector "DetectLower_dw rt" for rt
  unfolding DetectLower_dw_def by (rule text_detector_concat) (rule dw_match_ok)

definition NewDateWordsDetector :: "runtime \<Rightarrow> detector" where
  "NewDateWordsDetector rt = detector_of rt ''datewords'' Categories_dw (DetectLower_dw rt)"

end
