(* ===== verification/Detector_Shared.thy ===== *)
theory Detector_Shared
  imports Names Dateword
begin

text \<open>
  What the address, birth place and issuer detectors share: the constants and the dictionary of cities of
  \<^verbatim>\<open>internal/pii/detectors/address.go\<close>, \<^verbatim>\<open>nextWord\<close> of \<^verbatim>\<open>issuer.go\<close>, and the date pattern of
  \<^verbatim>\<open>dateword.go\<close> read under \<^verbatim>\<open>(?i)\<close>.
\<close>

subsection \<open>Patterns under case folding\<close>

text \<open>
  \<^verbatim>\<open>dateWordsRe.String()\<close> is spliced into patterns that start with \<^verbatim>\<open>(?i)\<close>. Its words are lower case, so a class
  takes a rune when it takes the rune or the lower-case letter the rune folds to.
\<close>

definition fold_base :: "rune \<Rightarrow> rune" where
  "fold_base x =
     (if ascii_upper x \<or> (0x410 \<le> x \<and> x \<le> 0x42F) then x + 0x20
      else if x = 0x401 then 0x451 else if x = 0x212A then 0x6B else if x = 0x17F then 0x73
      else if x = 0x1C80 then 0x432 else if x = 0x1C81 then 0x434 else if x = 0x1C82 then 0x43E
      else if x = 0x1C83 then 0x441 else if x = 0x1C84 \<or> x = 0x1C85 then 0x442 else if x = 0x1C86 then 0x44A
      else x)"

primrec rx_fold :: "rx \<Rightarrow> rx" where
  "rx_fold Eps = Eps"
| "rx_fold (Cls P) = Cls (\<lambda>x. P x \<or> P (fold_base x))"
| "rx_fold (Cat a b) = Cat (rx_fold a) (rx_fold b)"
| "rx_fold (Alt a b) = Alt (rx_fold a) (rx_fold b)"
| "rx_fold (Star a) = Star (rx_fold a)"
| "rx_fold (Cap n a) = Cap n (rx_fold a)"
| "rx_fold Bot = Bot"
| "rx_fold Eot = Eot"
| "rx_fold Wordb = Wordb"

text \<open>The two readings of \<^verbatim>\<open>(?i)\<close> agree on a lower-case letter.\<close>

lemma fold_base_orbit:
  assumes "ascii_lower c \<or> (0x430 \<le> c \<and> c \<le> 0x44F) \<or> c = 0x451"
  shows "x \<in> set (fold_orbit c) \<longleftrightarrow> x = c \<or> fold_base x = c"
proof -
  consider "ascii_lower c" | "0x430 \<le> c \<and> c \<le> 0x44F" | "c = 0x451" using assms by blast
  then show ?thesis
  proof cases
    case 1
    then have e: "x \<in> set (fold_orbit c) \<longleftrightarrow> x = c \<or> x + 0x20 = c \<or> (c = 0x6B \<and> x = 0x212A) \<or> (c = 0x73 \<and> x = 0x17F)"
      by (auto simp: fold_orbit_def)
    show ?thesis unfolding e fold_base_def using 1 by (auto split: if_splits)
  next
    case 2
    then have e: "x \<in> set (fold_orbit c) \<longleftrightarrow> x = c \<or> x + 0x20 = c \<or> (c = 0x432 \<and> x = 0x1C80) \<or> (c = 0x434 \<and> x = 0x1C81) \<or>
        (c = 0x43E \<and> x = 0x1C82) \<or> (c = 0x441 \<and> x = 0x1C83) \<or> (c = 0x442 \<and> (x = 0x1C84 \<or> x = 0x1C85)) \<or>
        (c = 0x44A \<and> x = 0x1C86)"
      by (auto simp: fold_orbit_def)
    show ?thesis unfolding e fold_base_def using 2 by (auto split: if_splits)
  next
    case 3
    then show ?thesis by (simp add: fold_orbit_def fold_base_def)
  qed
qed

lemma rx_fold_caps [simp]: "cap_list (rx_fold r) = cap_list r"
  by (induction r) auto

lemma rx_fold_star [simp]: "star_capless (rx_fold r) = star_capless r"
  by (induction r) auto

subsection \<open>Constants\<close>

definition kindStreet :: string where
  "kindStreet = ''street''"

definition kindHouse :: string where
  "kindHouse = ''house''"

definition kindStreetHouse :: string where
  "kindStreetHouse = ''street_house''"

definition kindLocality :: string where
  "kindLocality = ''locality''"

definition kindLabeled :: string where
  "kindLabeled = ''labeled''"

definition markerKorp :: string where
  "markerKorp = encode_runes [0x43a, 0x43e, 0x440, 0x43f] \<comment> \<open>korp\<close>"

definition markerStr :: string where
  "markerStr = encode_runes [0x441, 0x442, 0x440] \<comment> \<open>str\<close>"

definition wordGorod :: string where
  "wordGorod = encode_runes [0x433, 0x43e, 0x440] \<comment> \<open>gor\<close>"

definition wordKrai :: string where
  "wordKrai = encode_runes [0x43a, 0x440, 0x430, 0x439] \<comment> \<open>kray\<close>"

definition wordRaion :: string where
  "wordRaion = encode_runes [0x440, 0x430, 0x439, 0x43e, 0x43d] \<comment> \<open>rayon\<close>"

subsection \<open>Words\<close>

definition isWordBoundary :: "char \<Rightarrow> bool" where
  "isWordBoundary b \<longleftrightarrow> b = CHR '' '' \<or> b = CHR 0x09 \<or> b = CHR 0x0A \<or> b = CHR '',''"

text \<open>The two loops of \<^verbatim>\<open>nextWord\<close>, for a position up to the length of the text.\<close>

definition nextWord :: "string \<Rightarrow> nat \<Rightarrow> string" where
  "nextWord tx pos =
     takeWhile (\<lambda>b. \<not> isWordBoundary b)
       (dropWhile (\<lambda>b. b = CHR '' '' \<or> b = CHR 0x09 \<or> b = CHR 0x0A) (drop pos tx))"

subsection \<open>Cities\<close>

record citiesDict =
  cd_cities :: "string list"
  cd_oblique :: "string \<Rightarrow> string list"
  cd_byPrefix :: "string \<Rightarrow> string list"

definition cityList :: "string \<Rightarrow> string list" where
  "cityList data = filter (\<lambda>l. l \<noteq> '''') (map TrimSpace (split_on (CHR 0x0A) data))"

definition firstTwoRunes :: "string \<Rightarrow> string" where
  "firstTwoRunes s = take (walk s 0 2) s"

definition obliqueEndings :: "string list" where
  "obliqueEndings =
    [encode_runes [0x435] \<comment> \<open>e\<close>,
     encode_runes [0x438] \<comment> \<open>i\<close>,
     encode_runes [0x443] \<comment> \<open>u\<close>,
     sufOy, sufOm,
     encode_runes [0x430] \<comment> \<open>a\<close>,
     encode_runes [0x44b] \<comment> \<open>y\<close>]"

definition obliqueForms :: "string \<Rightarrow> string list" where
  "obliqueForms city =
     (let r = runes city in
      if r = [] then []
      else let stem = encode_runes (if last r \<in> {0x430, 0x44F, 0x44C, 0x439} then butlast r else r)
        in filter (\<lambda>f. f \<noteq> city) (map (\<lambda>e. stem @ e) obliqueEndings))"

definition add_city :: "citiesDict \<Rightarrow> string \<Rightarrow> citiesDict" where
  "add_city d c =
     (let p = firstTwoRunes c in
      d\<lparr> cd_oblique := (cd_oblique d)(c := obliqueForms c),
         cd_byPrefix := (if p \<noteq> '''' then (cd_byPrefix d)(p := cd_byPrefix d p @ [c]) else cd_byPrefix d) \<rparr>)"

definition no_cities :: citiesDict where
  "no_cities = \<lparr> cd_cities = [], cd_oblique = (\<lambda>_. []), cd_byPrefix = (\<lambda>_. []) \<rparr>"

definition buildCitiesDict :: "string list \<Rightarrow> citiesDict" where
  "buildCitiesDict cs = (foldl add_city no_cities cs)\<lparr> cd_cities := cs \<rparr>"

text \<open>The argument is the embedded file, \<^term>\<open>None\<close> when it cannot be read.\<close>

definition loadCities :: "runtime \<Rightarrow> string option \<Rightarrow> citiesDict" where
  "loadCities rt data =
     (case data of
        None \<Rightarrow> no_cities
      | Some s \<Rightarrow>
          buildCitiesDict
            (sort_slice (sort_perm rt) (\<lambda>a b. length (runes b) < length (runes a)) (cityList s)))"

subsection \<open>The index of the cities\<close>

lemma add_cities:
  "cd_oblique (foldl add_city d cs) c = (if c \<in> set cs then obliqueForms c else cd_oblique d c)"
  "cd_byPrefix (foldl add_city d cs) p = cd_byPrefix d p @ (if p = '''' then [] else filter (\<lambda>c. firstTwoRunes c = p) cs)"
  by (induction cs arbitrary: d) (auto simp: add_city_def Let_def)

lemma buildCitiesDict_simps [simp]:
  "cd_cities (buildCitiesDict cs) = cs"
  "cd_oblique (buildCitiesDict cs) c = (if c \<in> set cs then obliqueForms c else [])"
  "cd_byPrefix (buildCitiesDict cs) p = (if p = '''' then [] else filter (\<lambda>c. firstTwoRunes c = p) cs)"
  by (auto simp: buildCitiesDict_def add_cities no_cities_def)

lemma cityList_nonempty: "[] \<notin> set (cityList data)"
  by (simp add: cityList_def)

subsection \<open>Positions of runes\<close>

text \<open>The bytes of a rune after the first are not ASCII, so an ASCII byte always starts a rune.\<close>

lemma byte_in_high: "byte_in lo hi x \<Longrightarrow> 0x80 \<le> lo \<Longrightarrow> 0x80 \<le> (of_char x :: nat)"
  by (simp add: byte_in_def)

lemma decode2_tail: "k + 1 < snd (decode2 b cs) \<Longrightarrow> 0x80 \<le> (of_char (cs ! k) :: nat)"
  by (auto simp: decode2_def byte_in_def split: list.splits if_splits)

lemma decode3_tail: "k + 1 < snd (decode3 b cs) \<Longrightarrow> 0x80 \<le> (of_char (cs ! k) :: nat)"
proof -
  assume k: "k + 1 < snd (decode3 b cs)"
  then obtain c1 c2 ds where cs: "cs = c1 # c2 # ds" by (auto simp: decode3_def split: list.splits)
  with k have "k < 2 \<and> 0x80 \<le> (of_char c1 :: nat) \<and> 0x80 \<le> (of_char c2 :: nat)"
    by (auto simp: decode3_def split: if_split_asm elim!: byte_in_high)
  then show ?thesis by (auto simp: cs less_2_cases_iff)
qed

lemma decode4_tail: "k + 1 < snd (decode4 b cs) \<Longrightarrow> 0x80 \<le> (of_char (cs ! k) :: nat)"
proof -
  assume k: "k + 1 < snd (decode4 b cs)"
  then obtain c1 c2 c3 ds where cs: "cs = c1 # c2 # c3 # ds" by (auto simp: decode4_def split: list.splits)
  with k have "k < 3 \<and> 0x80 \<le> (of_char c1 :: nat) \<and> 0x80 \<le> (of_char c2 :: nat) \<and> 0x80 \<le> (of_char c3 :: nat)"
    by (auto simp: decode4_def split: if_split_asm elim!: byte_in_high)
  then show ?thesis by (auto simp: cs less_Suc_eq numeral_3_eq_3)
qed

lemma decode_tail_high:
  assumes "0 < k" and "k < snd (DecodeRune s)"
  shows "0x80 \<le> (of_char (s ! k) :: nat)"
proof -
  obtain c cs where s: "s = c # cs" using assms by (cases s) auto
  obtain n where k: "k = n + 1" using assms(1) by (cases k) auto
  have "n + 1 < snd (decode2 (of_char c) cs) \<or> n + 1 < snd (decode3 (of_char c) cs) \<or> n + 1 < snd (decode4 (of_char c) cs)"
    using assms(2) by (simp add: s k Let_def split: if_split_asm)
  then show ?thesis using decode2_tail decode3_tail decode4_tail by (auto simp: s k)
qed

lemma ascii_rune_pos:
  assumes "i \<le> p" and "p < length s" and "(of_char (s ! p) :: nat) < 0x80"
  shows "rune_pos s i p"
  using assms(1)
proof (induction "p - i" arbitrary: i rule: less_induct)
  case less
  show ?case
  proof (cases "i = p")
    case False
    then have i: "i < p" using less.prems by simp
    have "\<not> p - i < width_at s i"
      using decode_tail_high [of "p - i" "drop i s"] i assms(2,3) by (auto simp: width_at_def)
    then have w: "i + width_at s i \<le> p" using i by simp
    have "0 < width_at s i" using width_at_pos [of i s] i assms(2) by simp
    with less.hyps [OF _ w] w i have "rune_pos s (i + width_at s i) p" by simp
    moreover have "i < length s" using i assms(2) by simp
    ultimately show ?thesis by (rule pos_next [rotated])
  qed (simp add: pos_here)
qed

text \<open>A place where a pattern matches is not before the first match \<^const>\<open>FindAllIndex\<close> reports.\<close>

lemma FindAllIndex_reaches:
  assumes "rx_rel s r p j" and "rune_pos s 0 p"
  shows "\<exists>m \<in> set (FindAllIndex s r). m_lo m \<le> p"
proof -
  obtain m where f: "find_from s r 0 = Some m"
    using assms find_from_None [of s r 0] by (cases "find_from s r 0") blast+
  have "m_lo m \<le> p" using find_from_Some [OF f] assms by (meson not_le)
  moreover have "m \<in> set (FindAllIndex s r)" by (simp add: FindAllIndex_def all_from_Some [OF le0 f])
  ultimately show ?thesis by blast
qed

subsection \<open>Words of a text in order\<close>

fun words_in :: "string \<Rightarrow> string list \<Rightarrow> bool" where
  "words_in s [] \<longleftrightarrow> True"
| "words_in s (w # ws) \<longleftrightarrow> (\<exists>i. occurs_at s w i \<and> words_in (drop (i + length w) s) ws)"

lemma words_in_earlier: "words_in (drop b s) ws \<Longrightarrow> a \<le> b \<Longrightarrow> b \<le> length s \<Longrightarrow> words_in (drop a s) ws"
proof (cases ws)
  case (Cons w vs)
  assume "words_in (drop b s) ws" and ab: "a \<le> b" "b \<le> length s"
  then obtain i where i: "occurs_at (drop b s) w i" "words_in (drop (i + length w) (drop b s)) vs"
    by (auto simp: Cons)
  have "occurs_at (drop a s) w (b - a + i)" using i(1) ab by (simp add: occurs_at_drop)
  moreover have "words_in (drop (b - a + i + length w) (drop a s)) vs" using i(2) ab by (simp add: add_ac)
  ultimately show ?thesis by (auto simp: Cons)
qed simp

lemma words_in_take: "words_in s ws \<Longrightarrow> words_in s (take n ws)"
proof (induction s ws arbitrary: n rule: words_in.induct)
  case (2 s w ws)
  then show ?case by (cases n) auto
qed simp

lemma Fields_in: "words_in s (Fields s)"
  unfolding Fields_def
proof (induction "IsSpace" s rule: FieldsFunc.induct)
  case (1 s)
  show ?case
  proof (cases "s = []")
    case False
    obtain r n where d: "DecodeRune s = (r, n)" by fastforce
    let ?k = "scan_run (\<lambda>r. \<not> IsSpace r) s"
    show ?thesis
    proof (cases "IsSpace r")
      case True
      have "n \<le> length s" using DecodeRune_size_le [of s] d by simp
      with "1.hyps"(1) [OF False d [symmetric] refl True] True False d words_in_earlier [of n s _ 0] show ?thesis
        by (subst FieldsFunc.simps) simp
    next
      case nsp: False
      have "occurs_at s (take ?k s) 0" by (simp add: occurs_at_0 HasPrefix_def min_def)
      moreover have "drop (0 + length (take ?k s)) s = drop ?k s" by (simp add: min_def)
      ultimately have "words_in s (take ?k s # FieldsFunc IsSpace (drop ?k s))"
        using "1.hyps"(2) [OF False d [symmetric] refl nsp refl] unfolding words_in.simps by metis
      with nsp False d show ?thesis by (subst FieldsFunc.simps) (simp add: Let_def)
    qed
  qed (simp add: FieldsFunc.simps)
qed

subsection \<open>Trimmed texts have a word\<close>

lemma runes_spaces_valid: "list_all IsSpace (runes s) \<Longrightarrow> encode_runes (runes s) = s"
proof (induction s rule: runes.induct)
  case (1 s)
  show ?case
  proof (cases "s = []")
    case False
    obtain r n where d: "DecodeRune s = (r, n)" by fastforce
    have rs: "runes s = r # runes (drop n s)" by (rule runes_step [OF False d])
    with "1.prems" have "IsSpace r" and rest: "list_all IsSpace (runes (drop n s))" by auto
    then have "r \<noteq> RuneError" by (auto simp: IsSpace_def RuneError_def)
    with EncodeRune_DecodeRune [OF d _ False] have "EncodeRune r = take n s" by blast
    with "1.IH" [OF False] rest d show ?thesis by (simp add: rs)
  qed simp
qed

lemma spaces_last: "list_all IsSpace (runes s) \<Longrightarrow> s \<noteq> [] \<Longrightarrow> IsSpace (fst (DecodeLastRune s))"
proof -
  assume a: "list_all IsSpace (runes s)" and s: "s \<noteq> []"
  then have ne: "runes s \<noteq> []" by simp
  have "valid_rune (last (runes s))" using ne by (intro runes_valid [of _ s]) simp
  moreover have "s = encode_runes (butlast (runes s)) @ EncodeRune (last (runes s))"
    using runes_spaces_valid [OF a] append_butlast_last_id [OF ne] encode_runes_simps(3) [of "butlast (runes s)" "[last (runes s)]"]
    by simp
  ultimately have "DecodeLastRune s = (last (runes s), length (EncodeRune (last (runes s))))"
    using DecodeLastRune_EncodeRune by metis
  with a ne show ?thesis by (simp add: list_all_iff)
qed

lemma Fields_empty: "Fields s = [] \<Longrightarrow> list_all IsSpace (runes s)"
  unfolding Fields_def
proof (induction "IsSpace" s rule: FieldsFunc.induct)
  case (1 s)
  show ?case
  proof (cases "s = []")
    case False
    obtain r n where d: "DecodeRune s = (r, n)" by fastforce
    with "1.prems" False have r: "IsSpace r" and rest: "FieldsFunc IsSpace (drop n s) = []"
      by (auto simp: FieldsFunc.simps [of IsSpace s] Let_def split: if_splits)
    from "1.hyps"(1) [OF False d [symmetric] refl r rest] r show ?thesis by (simp add: runes_step [OF False d])
  qed simp
qed

lemma TrimRightSpace_last: "TrimRightSpace s \<noteq> [] \<Longrightarrow> \<not> IsSpace (fst (DecodeLastRune (TrimRightSpace s)))"
proof (induction s rule: TrimRightSpace.induct)
  case (1 s)
  obtain r n where d: "DecodeLastRune s = (r, n)" by fastforce
  show ?case
  proof (cases "s \<noteq> [] \<and> IsSpace r")
    case True
    then have "TrimRightSpace s = TrimRightSpace (take (length s - n) s)" by (simp add: TrimRightSpace.simps [of s] d)
    with 1 True d show ?thesis by simp
  next
    case False
    with "1.prems" have "TrimRightSpace s = s" by (auto simp: TrimRightSpace.simps [of s] d)
    with False "1.prems" d show ?thesis by simp
  qed
qed

lemma Fields_TrimSpace: "TrimSpace s \<noteq> [] \<Longrightarrow> Fields (TrimSpace s) \<noteq> []"
  using TrimRightSpace_last [of "TrimLeftSpace s"] Fields_empty [of "TrimSpace s"] spaces_last [of "TrimSpace s"]
  by (auto simp: TrimSpace_def)

end
