(* ===== verification/Birthplace.thy ===== *)
theory Birthplace
  imports Detector_Shared
begin

text \<open>
  The detector of a place of birth (\<^verbatim>\<open>internal/pii/detectors/birthplace.go\<close>). The list of cities and the dictionary of
  names are arguments. \<^term>\<open>None\<close> is a slice or an index out of range; the lemmas show that there is none.
\<close>

subsection \<open>Patterns and words\<close>

definition birthContextRe :: rx where
  "birthContextRe = rx_alts
    [rx_ilit [0x43c, 0x435, 0x441, 0x442, 0x43e, 0x20, 0x440, 0x43e, 0x436, 0x434, 0x435, 0x43d, 0x438, 0x44f] \<comment> \<open>mesto rozhdeniya\<close>,
     rx_ilit [0x43c, 0x435, 0x441, 0x442, 0x43e, 0x20, 0x440, 0x43e, 0x436, 0x434, 0x2e] \<comment> \<open>mesto rozhd.\<close>,
     rx_ilit [0x433, 0x43e, 0x440, 0x43e, 0x434, 0x20, 0x440, 0x43e, 0x436, 0x434, 0x435, 0x43d, 0x438, 0x44f] \<comment> \<open>gorod rozhdeniya\<close>,
     rx_cats
        [rx_ilit [0x440, 0x43e, 0x434, 0x438, 0x43b, 0x441, 0x44f] \<comment> \<open>rodilsya\<close>,
         rx_plus rx_space,
         rx_ilit [0x432] \<comment> \<open>v\<close>,
         rx_plus rx_space],
     rx_cats
        [rx_ilit [0x440, 0x43e, 0x434, 0x438, 0x43b, 0x430, 0x441, 0x44c] \<comment> \<open>rodilas\<close>,
         rx_plus rx_space,
         rx_ilit [0x432] \<comment> \<open>v\<close>,
         rx_plus rx_space],
     rx_ilit [0x440, 0x43e, 0x434, 0x438, 0x43b, 0x441, 0x44f] \<comment> \<open>rodilsya\<close>,
     rx_ilit [0x440, 0x43e, 0x434, 0x438, 0x43b, 0x430, 0x441, 0x44c] \<comment> \<open>rodilas\<close>,
     rx_ilit [0x440, 0x43e, 0x436, 0x434, 0x435, 0x43d, 0x20, 0x432] \<comment> \<open>rozhden v\<close>,
     rx_ilit [0x440, 0x43e, 0x436, 0x434, 0x451, 0x43d, 0x20, 0x432] \<comment> \<open>rozhdyon v\<close>,
     rx_ilit [0x443, 0x440, 0x43e, 0x436, 0x435, 0x43d, 0x435, 0x446] \<comment> \<open>urozhenets\<close>,
     rx_ilit [0x443, 0x440, 0x43e, 0x436, 0x435, 0x43d, 0x43a, 0x430] \<comment> \<open>urozhenka\<close>,
     rx_ilit [0x440, 0x43e, 0x434, 0x2e] \<comment> \<open>rod.\<close>,
     rx_ilit [0x443, 0x440, 0x2e] \<comment> \<open>ur.\<close>,
     rx_cats
        [Wordb,
         rx_ilit [0x62, 0x6f, 0x72, 0x6e] \<comment> \<open>born\<close>,
         Wordb]]"

definition birthContextLowerRe :: rx where
  "birthContextLowerRe = rx_alts
    [rx_lit [0x43c, 0x435, 0x441, 0x442, 0x43e, 0x20, 0x440, 0x43e, 0x436, 0x434, 0x435, 0x43d, 0x438, 0x44f] \<comment> \<open>mesto rozhdeniya\<close>,
     rx_lit [0x43c, 0x435, 0x441, 0x442, 0x43e, 0x20, 0x440, 0x43e, 0x436, 0x434, 0x2e] \<comment> \<open>mesto rozhd.\<close>,
     rx_lit [0x433, 0x43e, 0x440, 0x43e, 0x434, 0x20, 0x440, 0x43e, 0x436, 0x434, 0x435, 0x43d, 0x438, 0x44f] \<comment> \<open>gorod rozhdeniya\<close>,
     rx_cats
        [rx_lit [0x440, 0x43e, 0x434, 0x438, 0x43b, 0x441, 0x44f] \<comment> \<open>rodilsya\<close>,
         rx_plus rx_space,
         rx_lit [0x432] \<comment> \<open>v\<close>,
         rx_plus rx_space],
     rx_cats
        [rx_lit [0x440, 0x43e, 0x434, 0x438, 0x43b, 0x430, 0x441, 0x44c] \<comment> \<open>rodilas\<close>,
         rx_plus rx_space,
         rx_lit [0x432] \<comment> \<open>v\<close>,
         rx_plus rx_space],
     rx_lit [0x440, 0x43e, 0x434, 0x438, 0x43b, 0x441, 0x44f] \<comment> \<open>rodilsya\<close>,
     rx_lit [0x440, 0x43e, 0x434, 0x438, 0x43b, 0x430, 0x441, 0x44c] \<comment> \<open>rodilas\<close>,
     rx_lit [0x440, 0x43e, 0x436, 0x434, 0x435, 0x43d, 0x20, 0x432] \<comment> \<open>rozhden v\<close>,
     rx_lit [0x440, 0x43e, 0x436, 0x434, 0x451, 0x43d, 0x20, 0x432] \<comment> \<open>rozhdyon v\<close>,
     rx_lit [0x443, 0x440, 0x43e, 0x436, 0x435, 0x43d, 0x435, 0x446] \<comment> \<open>urozhenets\<close>,
     rx_lit [0x443, 0x440, 0x43e, 0x436, 0x435, 0x43d, 0x43a, 0x430] \<comment> \<open>urozhenka\<close>,
     rx_lit [0x440, 0x43e, 0x434, 0x2e] \<comment> \<open>rod.\<close>,
     rx_lit [0x443, 0x440, 0x2e] \<comment> \<open>ur.\<close>,
     rx_cats
        [Wordb,
         rx_lit [0x62, 0x6f, 0x72, 0x6e] \<comment> \<open>born\<close>,
         Wordb]]"

definition settlementPrefixes :: "string list" where
  "settlementPrefixes =
    [encode_runes [0x43f, 0x43e, 0x441, 0x451, 0x43b, 0x43e, 0x43a, 0x435] \<comment> \<open>posyoloke\<close>,
     encode_runes [0x43f, 0x43e, 0x441, 0x435, 0x43b, 0x43a, 0x435] \<comment> \<open>poselke\<close>,
     encode_runes [0x43f, 0x43e, 0x441, 0x451, 0x43b, 0x43a, 0x430] \<comment> \<open>posyolka\<close>,
     encode_runes [0x43f, 0x43e, 0x441, 0x451, 0x43b, 0x43e, 0x43a] \<comment> \<open>posyolok\<close>,
     encode_runes [0x43f, 0x43e, 0x441, 0x435, 0x43b, 0x43e, 0x43a] \<comment> \<open>poselok\<close>,
     encode_runes [0x434, 0x435, 0x440, 0x435, 0x432, 0x43d, 0x44f] \<comment> \<open>derevnya\<close>,
     encode_runes [0x434, 0x435, 0x440, 0x435, 0x432, 0x43d, 0x435] \<comment> \<open>derevne\<close>,
     encode_runes [0x441, 0x442, 0x430, 0x43d, 0x438, 0x446, 0x430] \<comment> \<open>stanitsa\<close>,
     encode_runes [0x441, 0x442, 0x430, 0x43d, 0x438, 0x446, 0x435] \<comment> \<open>stanitse\<close>,
     encode_runes [0x433, 0x43e, 0x440, 0x43e, 0x434, 0x435] \<comment> \<open>gorode\<close>,
     encode_runes [0x433, 0x43e, 0x440, 0x43e, 0x434] \<comment> \<open>gorod\<close>,
     encode_runes [0x433, 0x43e, 0x440, 0x2e] \<comment> \<open>gor.\<close>,
     encode_runes [0x433, 0x2e] \<comment> \<open>g.\<close>,
     encode_runes [0x43f, 0x43e, 0x441, 0x2e] \<comment> \<open>pos.\<close>,
     encode_runes [0x441, 0x2e] \<comment> \<open>s.\<close>,
     encode_runes [0x441, 0x442, 0x2e] \<comment> \<open>st.\<close>,
     encode_runes [0x434, 0x435, 0x440, 0x2e] \<comment> \<open>der.\<close>,
     encode_runes [0x434, 0x2e] \<comment> \<open>d.\<close>,
     encode_runes [0x43f, 0x433, 0x442] \<comment> \<open>pgt\<close>,
     encode_runes [0x430, 0x443, 0x43b] \<comment> \<open>aul\<close>,
     encode_runes [0x445, 0x2e] \<comment> \<open>kh.\<close>,
     encode_runes [0x445, 0x443, 0x442, 0x43e, 0x440] \<comment> \<open>khutor\<close>,
     encode_runes [0x43f, 0x2e] \<comment> \<open>p.\<close>,
     encode_runes [0x440, 0x43f] \<comment> \<open>rp\<close>,
     encode_runes [0x441, 0x435, 0x43b, 0x43e] \<comment> \<open>selo\<close>,
     encode_runes [0x441, 0x435, 0x43b, 0x435] \<comment> \<open>sele\<close>,
     encode_runes [0x43a, 0x438, 0x448, 0x43b, 0x430, 0x43a, 0x435] \<comment> \<open>kishlake\<close>,
     encode_runes [0x43a, 0x438, 0x448, 0x43b, 0x430, 0x43a] \<comment> \<open>kishlak\<close>]"

definition birthStopWords :: "string list" where
  "birthStopWords =
    [encode_runes [0x43a, 0x430, 0x43a] \<comment> \<open>kak\<close>,
     encode_runes [0x433, 0x434, 0x435] \<comment> \<open>gde\<close>,
     encode_runes [0x43a, 0x43e, 0x433, 0x434, 0x430] \<comment> \<open>kogda\<close>,
     encode_runes [0x447, 0x442, 0x43e] \<comment> \<open>chto\<close>,
     encode_runes [0x43a, 0x43e, 0x442, 0x43e, 0x440, 0x44b, 0x439] \<comment> \<open>kotoryy\<close>,
     encode_runes [0x43a, 0x43e, 0x442, 0x43e, 0x440, 0x430, 0x44f] \<comment> \<open>kotoraya\<close>,
     encode_runes [0x43a, 0x43e, 0x442, 0x43e, 0x440, 0x43e, 0x435] \<comment> \<open>kotoroe\<close>,
     encode_runes [0x43a, 0x43e, 0x442, 0x43e, 0x440, 0x44b, 0x435] \<comment> \<open>kotorye\<close>]"

definition bareRegionNames :: "string list" where
  "bareRegionNames =
    [encode_runes [0x431, 0x430, 0x448, 0x43a, 0x438, 0x440, 0x438, 0x44f] \<comment> \<open>bashkiriya\<close>,
     encode_runes [0x442, 0x430, 0x442, 0x430, 0x440, 0x441, 0x442, 0x430, 0x43d] \<comment> \<open>tatarstan\<close>,
     encode_runes [0x447, 0x443, 0x432, 0x430, 0x448, 0x438, 0x44f] \<comment> \<open>chuvashiya\<close>,
     encode_runes [0x44f, 0x43a, 0x443, 0x442, 0x438, 0x44f] \<comment> \<open>yakutiya\<close>,
     encode_runes [0x434, 0x430, 0x433, 0x435, 0x441, 0x442, 0x430, 0x43d] \<comment> \<open>dagestan\<close>,
     encode_runes [0x438, 0x43d, 0x433, 0x443, 0x448, 0x435, 0x442, 0x438, 0x44f] \<comment> \<open>ingushetiya\<close>,
     encode_runes [0x43e, 0x441, 0x435, 0x442, 0x438, 0x44f] \<comment> \<open>osetiya\<close>,
     encode_runes [0x430, 0x434, 0x44b, 0x433, 0x435, 0x44f] \<comment> \<open>adygeya\<close>,
     encode_runes [0x43a, 0x430, 0x43b, 0x43c, 0x44b, 0x43a, 0x438, 0x44f] \<comment> \<open>kalmykiya\<close>,
     encode_runes [0x43c, 0x43e, 0x440, 0x434, 0x43e, 0x432, 0x438, 0x44f] \<comment> \<open>mordoviya\<close>,
     encode_runes [0x443, 0x434, 0x43c, 0x443, 0x440, 0x442, 0x438, 0x44f] \<comment> \<open>udmurtiya\<close>,
     encode_runes [0x445, 0x430, 0x43a, 0x430, 0x441, 0x438, 0x44f] \<comment> \<open>khakasiya\<close>,
     encode_runes [0x442, 0x44b, 0x432, 0x430] \<comment> \<open>tyva\<close>,
     encode_runes [0x431, 0x443, 0x440, 0x44f, 0x442, 0x438, 0x44f] \<comment> \<open>buryatiya\<close>,
     encode_runes [0x43a, 0x43e, 0x43c, 0x438] \<comment> \<open>komi\<close>,
     encode_runes [0x43a, 0x430, 0x440, 0x435, 0x43b, 0x438, 0x44f] \<comment> \<open>kareliya\<close>,
     encode_runes [0x43a, 0x440, 0x44b, 0x43c] \<comment> \<open>krym\<close>,
     encode_runes [0x43c, 0x430, 0x440, 0x438, 0x439, 0x20, 0x44d, 0x43b] \<comment> \<open>mariy el\<close>,
     encode_runes [0x43a, 0x430, 0x431, 0x430, 0x440, 0x434, 0x438, 0x43d, 0x43e, 0x2d, 0x431, 0x430, 0x43b, 0x43a, 0x430, 0x440, 0x438, 0x44f] \<comment> \<open>kabardino-balkariya\<close>,
     encode_runes [0x43a, 0x430, 0x440, 0x430, 0x447, 0x430, 0x435, 0x432, 0x43e, 0x2d, 0x447, 0x435, 0x440, 0x43a, 0x435, 0x441, 0x438, 0x44f] \<comment> \<open>karachaevo-cherkesiya\<close>,
     encode_runes [0x441, 0x430, 0x445, 0x430] \<comment> \<open>sakha\<close>]"

text \<open>
  The alternatives of the dictionary, quoted; joined from an empty list they are one empty alternative. Under
  \<^verbatim>\<open>(?i)\<close> a rune of a city stands for the runes that fold with it.
\<close>

definition city_alts :: "string list \<Rightarrow> rx" where
  "city_alts cities = rx_alts (if cities = [] then [Eps] else map (\<lambda>c. rx_lit (runes c)) cities)"

definition city_alts_i :: "string list \<Rightarrow> rx" where
  "city_alts_i cities =
     rx_alts (if cities = [] then [Eps]
              else map (\<lambda>c. foldr (\<lambda>r. Cat (Cls (\<lambda>x. fold_base x = fold_base r))) (runes c) Eps) cities)"

text \<open>
  The group \<^verbatim>\<open>value\<close> is the second one: the first is the day of the date in words.
\<close>

definition birthValueRe :: "runtime \<Rightarrow> string list \<Rightarrow> rx" where
  "birthValueRe rt cities = rx_cats
    [Bot,
     Star rx_space,
     rx_opt (rx_lit [0x3a]),
     Star rx_space,
     rx_opt (rx_cats
          [rx_lit [0x2014] \<comment> \<open>(U+2014)\<close>,
           Star rx_space]),
     rx_opt (rx_alts
          [rx_cats
              [rx_fold (buildDateWordsRe rt),
               rx_plus rx_space,
               rx_ilit [0x432] \<comment> \<open>v\<close>,
               rx_plus rx_space],
           rx_cats
              [rx_rep rx_digit 1 2,
               Cls (\<lambda>r. (0x2d \<le> r \<and> r \<le> 0x2f)),
               rx_rep rx_digit 1 2,
               Cls (\<lambda>r. (0x2d \<le> r \<and> r \<le> 0x2f)),
               rx_rep rx_digit 4 4,
               rx_plus rx_space,
               rx_opt (rx_alts
                    [rx_ilit [0x433, 0x2e] \<comment> \<open>g.\<close>,
                     rx_ilit [0x433, 0x43e, 0x434, 0x430] \<comment> \<open>goda\<close>,
                     rx_ilit [0x433, 0x43e, 0x434, 0x443] \<comment> \<open>godu\<close>,
                     rx_ilit [0x433] \<comment> \<open>g\<close>]),
               Star rx_space,
               rx_ilit [0x432] \<comment> \<open>v\<close>,
               rx_plus rx_space],
           rx_cats
              [rx_rep rx_digit 1 2,
               rx_plus rx_space,
               rx_alts
                  [rx_ilit [0x44f, 0x43d, 0x432, 0x430, 0x440, 0x44f] \<comment> \<open>yanvarya\<close>,
                   rx_ilit [0x444, 0x435, 0x432, 0x440, 0x430, 0x43b, 0x44f] \<comment> \<open>fevralya\<close>,
                   rx_ilit [0x43c, 0x430, 0x440, 0x442, 0x430] \<comment> \<open>marta\<close>,
                   rx_ilit [0x430, 0x43f, 0x440, 0x435, 0x43b, 0x44f] \<comment> \<open>aprelya\<close>,
                   rx_ilit [0x43c, 0x430, 0x44f] \<comment> \<open>maya\<close>,
                   rx_ilit [0x438, 0x44e, 0x43d, 0x44f] \<comment> \<open>iyunya\<close>,
                   rx_ilit [0x438, 0x44e, 0x43b, 0x44f] \<comment> \<open>iyulya\<close>,
                   rx_ilit [0x430, 0x432, 0x433, 0x443, 0x441, 0x442, 0x430] \<comment> \<open>avgusta\<close>,
                   rx_ilit [0x441, 0x435, 0x43d, 0x442, 0x44f, 0x431, 0x440, 0x44f] \<comment> \<open>sentyabrya\<close>,
                   rx_ilit [0x43e, 0x43a, 0x442, 0x44f, 0x431, 0x440, 0x44f] \<comment> \<open>oktyabrya\<close>,
                   rx_ilit [0x43d, 0x43e, 0x44f, 0x431, 0x440, 0x44f] \<comment> \<open>noyabrya\<close>,
                   rx_ilit [0x434, 0x435, 0x43a, 0x430, 0x431, 0x440, 0x44f] \<comment> \<open>dekabrya\<close>,
                   rx_ilit [0x44f, 0x43d, 0x432] \<comment> \<open>yanv\<close>,
                   rx_ilit [0x444, 0x435, 0x432] \<comment> \<open>fev\<close>,
                   rx_ilit [0x43c, 0x430, 0x440] \<comment> \<open>mar\<close>,
                   rx_ilit [0x430, 0x43f, 0x440] \<comment> \<open>apr\<close>,
                   rx_ilit [0x43c, 0x430, 0x439] \<comment> \<open>may\<close>,
                   rx_ilit [0x438, 0x44e, 0x43d] \<comment> \<open>iyun\<close>,
                   rx_ilit [0x438, 0x44e, 0x43b] \<comment> \<open>iyul\<close>,
                   rx_ilit [0x430, 0x432, 0x433] \<comment> \<open>avg\<close>,
                   rx_ilit [0x441, 0x435, 0x43d] \<comment> \<open>sen\<close>,
                   rx_ilit [0x43e, 0x43a, 0x442] \<comment> \<open>okt\<close>,
                   rx_ilit [0x43d, 0x43e, 0x44f] \<comment> \<open>noya\<close>,
                   rx_ilit [0x434, 0x435, 0x43a] \<comment> \<open>dek\<close>],
               rx_plus rx_space,
               rx_rep rx_digit 4 4,
               rx_plus rx_space,
               rx_opt (rx_alts
                    [rx_ilit [0x433, 0x2e] \<comment> \<open>g.\<close>,
                     rx_ilit [0x433, 0x43e, 0x434, 0x430] \<comment> \<open>goda\<close>,
                     rx_ilit [0x433, 0x43e, 0x434, 0x443] \<comment> \<open>godu\<close>,
                     rx_ilit [0x433] \<comment> \<open>g\<close>]),
               Star rx_space,
               rx_ilit [0x432] \<comment> \<open>v\<close>,
               rx_plus rx_space],
           rx_cats
              [rx_rep rx_digit 4 4,
               rx_plus rx_space,
               rx_opt (rx_alts
                    [rx_ilit [0x433, 0x2e] \<comment> \<open>g.\<close>,
                     rx_ilit [0x433, 0x43e, 0x434, 0x430] \<comment> \<open>goda\<close>,
                     rx_ilit [0x433, 0x43e, 0x434, 0x443] \<comment> \<open>godu\<close>,
                     rx_ilit [0x433] \<comment> \<open>g\<close>]),
               Star rx_space,
               rx_ilit [0x432] \<comment> \<open>v\<close>,
               rx_plus rx_space]]),
     rx_opt (rx_cats
          [rx_ilit [0x44f] \<comment> \<open>ya\<close>,
           rx_plus rx_space]),
     rx_opt (rx_alts
          [rx_cats
              [rx_ilit [0x432] \<comment> \<open>v\<close>,
               rx_plus rx_space],
           rx_cats
              [rx_ilit [0x69, 0x6e] \<comment> \<open>in\<close>,
               rx_plus rx_space]]),
     Cap 2 (rx_cats
          [rx_opt (rx_alts
                [rx_ilit [0x433, 0x2e] \<comment> \<open>g.\<close>,
                 rx_ilit [0x433, 0x43e, 0x440, 0x2e] \<comment> \<open>gor.\<close>,
                 rx_ilit [0x433, 0x43e, 0x440, 0x43e, 0x434] \<comment> \<open>gorod\<close>,
                 rx_ilit [0x433, 0x43e, 0x440, 0x43e, 0x434, 0x435] \<comment> \<open>gorode\<close>,
                 rx_ilit [0x43f, 0x43e, 0x441, 0x2e] \<comment> \<open>pos.\<close>,
                 rx_ilit [0x43f, 0x43e, 0x441, 0x451, 0x43b, 0x43e, 0x43a] \<comment> \<open>posyolok\<close>,
                 rx_ilit [0x43f, 0x43e, 0x441, 0x435, 0x43b, 0x43e, 0x43a] \<comment> \<open>poselok\<close>,
                 rx_ilit [0x441, 0x435, 0x43b, 0x43e] \<comment> \<open>selo\<close>,
                 rx_ilit [0x434, 0x435, 0x440, 0x2e] \<comment> \<open>der.\<close>,
                 rx_ilit [0x434, 0x435, 0x440, 0x435, 0x432, 0x43d, 0x44f] \<comment> \<open>derevnya\<close>,
                 rx_ilit [0x434, 0x435, 0x440, 0x435, 0x432, 0x43d, 0x435] \<comment> \<open>derevne\<close>,
                 rx_ilit [0x441, 0x442, 0x430, 0x43d, 0x438, 0x446, 0x430] \<comment> \<open>stanitsa\<close>,
                 rx_ilit [0x43f, 0x433, 0x442] \<comment> \<open>pgt\<close>,
                 rx_ilit [0x441, 0x2e] \<comment> \<open>s.\<close>,
                 rx_ilit [0x441, 0x442, 0x2e] \<comment> \<open>st.\<close>,
                 rx_ilit [0x430, 0x443, 0x43b] \<comment> \<open>aul\<close>,
                 rx_ilit [0x445, 0x2e] \<comment> \<open>kh.\<close>,
                 rx_ilit [0x445, 0x443, 0x442, 0x43e, 0x440] \<comment> \<open>khutor\<close>,
                 rx_ilit [0x43f, 0x2e] \<comment> \<open>p.\<close>,
                 rx_ilit [0x440, 0x43f] \<comment> \<open>rp\<close>,
                 rx_ilit [0x434, 0x2e] \<comment> \<open>d.\<close>,
                 rx_ilit [0x43a, 0x438, 0x448, 0x43b, 0x430, 0x43a] \<comment> \<open>kishlak\<close>,
                 rx_ilit [0x43a, 0x438, 0x448, 0x43b, 0x430, 0x43a, 0x435] \<comment> \<open>kishlake\<close>]),
           Star rx_space,
           rx_alts
              [rx_cats
                  [Cls (\<lambda>r. r = 0x401 \<or> (0x410 \<le> r \<and> r \<le> 0x44f) \<or> r = 0x451 \<or> (0x1c80 \<le> r \<and> r \<le> 0x1c86)),
                   rx_plus (Cls (\<lambda>r. r = 0x2d \<or> r = 0x401 \<or> (0x410 \<le> r \<and> r \<le> 0x44f) \<or> r = 0x451 \<or> (0x1c80 \<le> r \<and> r \<le> 0x1c86)))],
               rx_cats
                  [Cls (\<lambda>r. (0x41 \<le> r \<and> r \<le> 0x5a) \<or> (0x61 \<le> r \<and> r \<le> 0x7a) \<or> r = 0x17f \<or> r = 0x212a),
                   rx_plus (Cls (\<lambda>r. r = 0x2d \<or> (0x41 \<le> r \<and> r \<le> 0x5a) \<or> (0x61 \<le> r \<and> r \<le> 0x7a) \<or> r = 0x17f \<or> r = 0x212a))],
               city_alts_i cities],
           rx_rep (rx_cats
                [rx_plus rx_space,
                 Cls (\<lambda>r. r = 0x401 \<or> (0x410 \<le> r \<and> r \<le> 0x44f) \<or> r = 0x451 \<or> (0x1c80 \<le> r \<and> r \<le> 0x1c86)),
                 rx_plus (Cls (\<lambda>r. r = 0x2d \<or> r = 0x401 \<or> (0x410 \<le> r \<and> r \<le> 0x44f) \<or> r = 0x451 \<or> (0x1c80 \<le> r \<and> r \<le> 0x1c86)))]) 0 1,
           rx_rep (rx_cats
                [rx_opt (rx_lit [0x2c]),
                 Star rx_space,
                 rx_alts
                    [rx_cats
                        [rx_alts
                            [rx_ilit [0x440, 0x435, 0x441, 0x43f, 0x443, 0x431, 0x43b, 0x438, 0x43a, 0x438] \<comment> \<open>respubliki\<close>,
                             rx_ilit [0x440, 0x435, 0x441, 0x43f, 0x443, 0x431, 0x43b, 0x438, 0x43a, 0x430] \<comment> \<open>respublika\<close>],
                         rx_plus rx_space,
                         Cls (\<lambda>r. r = 0x401 \<or> (0x410 \<le> r \<and> r \<le> 0x44f) \<or> r = 0x451 \<or> (0x1c80 \<le> r \<and> r \<le> 0x1c86)),
                         rx_plus (Cls (\<lambda>r. r = 0x2d \<or> r = 0x401 \<or> (0x410 \<le> r \<and> r \<le> 0x44f) \<or> r = 0x451 \<or> (0x1c80 \<le> r \<and> r \<le> 0x1c86))),
                         rx_opt (rx_cats
                              [rx_plus rx_space,
                               Cls (\<lambda>r. r = 0x401 \<or> (0x410 \<le> r \<and> r \<le> 0x44f) \<or> r = 0x451 \<or> (0x1c80 \<le> r \<and> r \<le> 0x1c86)),
                               rx_plus (Cls (\<lambda>r. r = 0x2d \<or> r = 0x401 \<or> (0x410 \<le> r \<and> r \<le> 0x44f) \<or> r = 0x451 \<or> (0x1c80 \<le> r \<and> r \<le> 0x1c86)))])],
                     rx_cats
                        [Cls (\<lambda>r. r = 0x401 \<or> (0x410 \<le> r \<and> r \<le> 0x44f) \<or> r = 0x451 \<or> (0x1c80 \<le> r \<and> r \<le> 0x1c86)),
                         rx_plus (Cls (\<lambda>r. r = 0x2d \<or> r = 0x401 \<or> (0x410 \<le> r \<and> r \<le> 0x44f) \<or> r = 0x451 \<or> (0x1c80 \<le> r \<and> r \<le> 0x1c86))),
                         rx_plus rx_space,
                         rx_alts
                            [rx_ilit [0x43e, 0x431, 0x43b, 0x430, 0x441, 0x442, 0x44c] \<comment> \<open>oblast\<close>,
                             rx_ilit [0x43e, 0x431, 0x43b, 0x430, 0x441, 0x442, 0x438] \<comment> \<open>oblasti\<close>,
                             rx_ilit [0x43e, 0x431, 0x43b, 0x2e] \<comment> \<open>obl.\<close>,
                             rx_ilit [0x43a, 0x440, 0x430, 0x439] \<comment> \<open>kray\<close>,
                             rx_ilit [0x43a, 0x440, 0x430, 0x44f] \<comment> \<open>kraya\<close>,
                             rx_ilit [0x440, 0x430, 0x439, 0x43e, 0x43d, 0x430] \<comment> \<open>rayona\<close>,
                             rx_ilit [0x440, 0x430, 0x439, 0x43e, 0x43d] \<comment> \<open>rayon\<close>,
                             rx_ilit [0x440, 0x435, 0x441, 0x43f, 0x443, 0x431, 0x43b, 0x438, 0x43a, 0x438] \<comment> \<open>respubliki\<close>,
                             rx_ilit [0x440, 0x435, 0x441, 0x43f, 0x443, 0x431, 0x43b, 0x438, 0x43a, 0x430] \<comment> \<open>respublika\<close>,
                             rx_ilit [0x430, 0x441, 0x441, 0x440] \<comment> \<open>assr\<close>]],
                     rx_alts
                        [rx_ilit [0x43e, 0x431, 0x43b, 0x430, 0x441, 0x442, 0x44c] \<comment> \<open>oblast\<close>,
                         rx_ilit [0x43e, 0x431, 0x43b, 0x430, 0x441, 0x442, 0x438] \<comment> \<open>oblasti\<close>,
                         rx_ilit [0x43e, 0x431, 0x43b, 0x2e] \<comment> \<open>obl.\<close>,
                         rx_ilit [0x43a, 0x440, 0x430, 0x439] \<comment> \<open>kray\<close>,
                         rx_ilit [0x43a, 0x440, 0x430, 0x44f] \<comment> \<open>kraya\<close>,
                         rx_ilit [0x440, 0x430, 0x439, 0x43e, 0x43d, 0x430] \<comment> \<open>rayona\<close>,
                         rx_ilit [0x440, 0x430, 0x439, 0x43e, 0x43d] \<comment> \<open>rayon\<close>,
                         rx_ilit [0x440, 0x435, 0x441, 0x43f, 0x443, 0x431, 0x43b, 0x438, 0x43a, 0x438] \<comment> \<open>respubliki\<close>,
                         rx_ilit [0x440, 0x435, 0x441, 0x43f, 0x443, 0x431, 0x43b, 0x438, 0x43a, 0x430] \<comment> \<open>respublika\<close>,
                         rx_ilit [0x430, 0x441, 0x441, 0x440] \<comment> \<open>assr\<close>],
                     rx_alts
                        [rx_ilit [0x431, 0x430, 0x448, 0x43a, 0x438, 0x440, 0x438, 0x44f] \<comment> \<open>bashkiriya\<close>,
                         rx_ilit [0x442, 0x430, 0x442, 0x430, 0x440, 0x441, 0x442, 0x430, 0x43d] \<comment> \<open>tatarstan\<close>,
                         rx_ilit [0x447, 0x443, 0x432, 0x430, 0x448, 0x438, 0x44f] \<comment> \<open>chuvashiya\<close>,
                         rx_ilit [0x44f, 0x43a, 0x443, 0x442, 0x438, 0x44f] \<comment> \<open>yakutiya\<close>,
                         rx_ilit [0x434, 0x430, 0x433, 0x435, 0x441, 0x442, 0x430, 0x43d] \<comment> \<open>dagestan\<close>,
                         rx_ilit [0x438, 0x43d, 0x433, 0x443, 0x448, 0x435, 0x442, 0x438, 0x44f] \<comment> \<open>ingushetiya\<close>,
                         rx_ilit [0x43e, 0x441, 0x435, 0x442, 0x438, 0x44f] \<comment> \<open>osetiya\<close>,
                         rx_ilit [0x430, 0x434, 0x44b, 0x433, 0x435, 0x44f] \<comment> \<open>adygeya\<close>,
                         rx_ilit [0x43a, 0x430, 0x43b, 0x43c, 0x44b, 0x43a, 0x438, 0x44f] \<comment> \<open>kalmykiya\<close>,
                         rx_ilit [0x43c, 0x43e, 0x440, 0x434, 0x43e, 0x432, 0x438, 0x44f] \<comment> \<open>mordoviya\<close>,
                         rx_ilit [0x443, 0x434, 0x43c, 0x443, 0x440, 0x442, 0x438, 0x44f] \<comment> \<open>udmurtiya\<close>,
                         rx_ilit [0x445, 0x430, 0x43a, 0x430, 0x441, 0x438, 0x44f] \<comment> \<open>khakasiya\<close>,
                         rx_ilit [0x442, 0x44b, 0x432, 0x430] \<comment> \<open>tyva\<close>,
                         rx_ilit [0x431, 0x443, 0x440, 0x44f, 0x442, 0x438, 0x44f] \<comment> \<open>buryatiya\<close>,
                         rx_ilit [0x43a, 0x43e, 0x43c, 0x438] \<comment> \<open>komi\<close>,
                         rx_ilit [0x43a, 0x430, 0x440, 0x435, 0x43b, 0x438, 0x44f] \<comment> \<open>kareliya\<close>,
                         rx_ilit [0x43a, 0x440, 0x44b, 0x43c] \<comment> \<open>krym\<close>,
                         rx_ilit [0x43c, 0x430, 0x440, 0x438, 0x439, 0x20, 0x44d, 0x43b] \<comment> \<open>mariy el\<close>,
                         rx_ilit [0x43a, 0x430, 0x431, 0x430, 0x440, 0x434, 0x438, 0x43d, 0x43e, 0x2d, 0x431, 0x430, 0x43b, 0x43a, 0x430, 0x440, 0x438, 0x44f] \<comment> \<open>kabardino-balkariya\<close>,
                         rx_ilit [0x43a, 0x430, 0x440, 0x430, 0x447, 0x430, 0x435, 0x432, 0x43e, 0x2d, 0x447, 0x435, 0x440, 0x43a, 0x435, 0x441, 0x438, 0x44f] \<comment> \<open>karachaevo-cherkesiya\<close>,
                         rx_ilit [0x441, 0x430, 0x445, 0x430] \<comment> \<open>sakha\<close>]]]) 0 2])]"

definition birthValueLowerRe :: "runtime \<Rightarrow> string list \<Rightarrow> rx" where
  "birthValueLowerRe rt cities = rx_cats
    [Bot,
     Star rx_space,
     rx_opt (rx_lit [0x3a]),
     Star rx_space,
     rx_opt (rx_cats
          [rx_lit [0x2014] \<comment> \<open>(U+2014)\<close>,
           Star rx_space]),
     rx_opt (rx_alts
          [rx_cats
              [buildDateWordsRe rt,
               rx_plus rx_space,
               rx_lit [0x432] \<comment> \<open>v\<close>,
               rx_plus rx_space],
           rx_cats
              [rx_rep rx_digit 1 2,
               Cls (\<lambda>r. (0x2d \<le> r \<and> r \<le> 0x2f)),
               rx_rep rx_digit 1 2,
               Cls (\<lambda>r. (0x2d \<le> r \<and> r \<le> 0x2f)),
               rx_rep rx_digit 4 4,
               rx_plus rx_space,
               rx_opt (rx_alts
                    [rx_lit [0x433, 0x2e] \<comment> \<open>g.\<close>,
                     rx_lit [0x433, 0x43e, 0x434, 0x430] \<comment> \<open>goda\<close>,
                     rx_lit [0x433, 0x43e, 0x434, 0x443] \<comment> \<open>godu\<close>,
                     rx_lit [0x433] \<comment> \<open>g\<close>]),
               Star rx_space,
               rx_lit [0x432] \<comment> \<open>v\<close>,
               rx_plus rx_space],
           rx_cats
              [rx_rep rx_digit 1 2,
               rx_plus rx_space,
               rx_alts
                  [rx_lit [0x44f, 0x43d, 0x432, 0x430, 0x440, 0x44f] \<comment> \<open>yanvarya\<close>,
                   rx_lit [0x444, 0x435, 0x432, 0x440, 0x430, 0x43b, 0x44f] \<comment> \<open>fevralya\<close>,
                   rx_lit [0x43c, 0x430, 0x440, 0x442, 0x430] \<comment> \<open>marta\<close>,
                   rx_lit [0x430, 0x43f, 0x440, 0x435, 0x43b, 0x44f] \<comment> \<open>aprelya\<close>,
                   rx_lit [0x43c, 0x430, 0x44f] \<comment> \<open>maya\<close>,
                   rx_lit [0x438, 0x44e, 0x43d, 0x44f] \<comment> \<open>iyunya\<close>,
                   rx_lit [0x438, 0x44e, 0x43b, 0x44f] \<comment> \<open>iyulya\<close>,
                   rx_lit [0x430, 0x432, 0x433, 0x443, 0x441, 0x442, 0x430] \<comment> \<open>avgusta\<close>,
                   rx_lit [0x441, 0x435, 0x43d, 0x442, 0x44f, 0x431, 0x440, 0x44f] \<comment> \<open>sentyabrya\<close>,
                   rx_lit [0x43e, 0x43a, 0x442, 0x44f, 0x431, 0x440, 0x44f] \<comment> \<open>oktyabrya\<close>,
                   rx_lit [0x43d, 0x43e, 0x44f, 0x431, 0x440, 0x44f] \<comment> \<open>noyabrya\<close>,
                   rx_lit [0x434, 0x435, 0x43a, 0x430, 0x431, 0x440, 0x44f] \<comment> \<open>dekabrya\<close>,
                   rx_lit [0x44f, 0x43d, 0x432] \<comment> \<open>yanv\<close>,
                   rx_lit [0x444, 0x435, 0x432] \<comment> \<open>fev\<close>,
                   rx_lit [0x43c, 0x430, 0x440] \<comment> \<open>mar\<close>,
                   rx_lit [0x430, 0x43f, 0x440] \<comment> \<open>apr\<close>,
                   rx_lit [0x43c, 0x430, 0x439] \<comment> \<open>may\<close>,
                   rx_lit [0x438, 0x44e, 0x43d] \<comment> \<open>iyun\<close>,
                   rx_lit [0x438, 0x44e, 0x43b] \<comment> \<open>iyul\<close>,
                   rx_lit [0x430, 0x432, 0x433] \<comment> \<open>avg\<close>,
                   rx_lit [0x441, 0x435, 0x43d] \<comment> \<open>sen\<close>,
                   rx_lit [0x43e, 0x43a, 0x442] \<comment> \<open>okt\<close>,
                   rx_lit [0x43d, 0x43e, 0x44f] \<comment> \<open>noya\<close>,
                   rx_lit [0x434, 0x435, 0x43a] \<comment> \<open>dek\<close>],
               rx_plus rx_space,
               rx_rep rx_digit 4 4,
               rx_plus rx_space,
               rx_opt (rx_alts
                    [rx_lit [0x433, 0x2e] \<comment> \<open>g.\<close>,
                     rx_lit [0x433, 0x43e, 0x434, 0x430] \<comment> \<open>goda\<close>,
                     rx_lit [0x433, 0x43e, 0x434, 0x443] \<comment> \<open>godu\<close>,
                     rx_lit [0x433] \<comment> \<open>g\<close>]),
               Star rx_space,
               rx_lit [0x432] \<comment> \<open>v\<close>,
               rx_plus rx_space],
           rx_cats
              [rx_rep rx_digit 4 4,
               rx_plus rx_space,
               rx_opt (rx_alts
                    [rx_lit [0x433, 0x2e] \<comment> \<open>g.\<close>,
                     rx_lit [0x433, 0x43e, 0x434, 0x430] \<comment> \<open>goda\<close>,
                     rx_lit [0x433, 0x43e, 0x434, 0x443] \<comment> \<open>godu\<close>,
                     rx_lit [0x433] \<comment> \<open>g\<close>]),
               Star rx_space,
               rx_lit [0x432] \<comment> \<open>v\<close>,
               rx_plus rx_space]]),
     rx_opt (rx_cats
          [rx_lit [0x44f] \<comment> \<open>ya\<close>,
           rx_plus rx_space]),
     rx_opt (rx_alts
          [rx_cats
              [rx_lit [0x432] \<comment> \<open>v\<close>,
               rx_plus rx_space],
           rx_cats
              [rx_lit [0x69, 0x6e] \<comment> \<open>in\<close>,
               rx_plus rx_space]]),
     Cap 2 (rx_cats
          [rx_opt (rx_alts
                [rx_lit [0x433, 0x2e] \<comment> \<open>g.\<close>,
                 rx_lit [0x433, 0x43e, 0x440, 0x2e] \<comment> \<open>gor.\<close>,
                 rx_lit [0x433, 0x43e, 0x440, 0x43e, 0x434] \<comment> \<open>gorod\<close>,
                 rx_lit [0x433, 0x43e, 0x440, 0x43e, 0x434, 0x435] \<comment> \<open>gorode\<close>,
                 rx_lit [0x43f, 0x43e, 0x441, 0x2e] \<comment> \<open>pos.\<close>,
                 rx_lit [0x43f, 0x43e, 0x441, 0x451, 0x43b, 0x43e, 0x43a] \<comment> \<open>posyolok\<close>,
                 rx_lit [0x43f, 0x43e, 0x441, 0x435, 0x43b, 0x43e, 0x43a] \<comment> \<open>poselok\<close>,
                 rx_lit [0x441, 0x435, 0x43b, 0x43e] \<comment> \<open>selo\<close>,
                 rx_lit [0x434, 0x435, 0x440, 0x2e] \<comment> \<open>der.\<close>,
                 rx_lit [0x434, 0x435, 0x440, 0x435, 0x432, 0x43d, 0x44f] \<comment> \<open>derevnya\<close>,
                 rx_lit [0x434, 0x435, 0x440, 0x435, 0x432, 0x43d, 0x435] \<comment> \<open>derevne\<close>,
                 rx_lit [0x441, 0x442, 0x430, 0x43d, 0x438, 0x446, 0x430] \<comment> \<open>stanitsa\<close>,
                 rx_lit [0x43f, 0x433, 0x442] \<comment> \<open>pgt\<close>,
                 rx_lit [0x441, 0x2e] \<comment> \<open>s.\<close>,
                 rx_lit [0x441, 0x442, 0x2e] \<comment> \<open>st.\<close>,
                 rx_lit [0x430, 0x443, 0x43b] \<comment> \<open>aul\<close>,
                 rx_lit [0x445, 0x2e] \<comment> \<open>kh.\<close>,
                 rx_lit [0x445, 0x443, 0x442, 0x43e, 0x440] \<comment> \<open>khutor\<close>,
                 rx_lit [0x43f, 0x2e] \<comment> \<open>p.\<close>,
                 rx_lit [0x440, 0x43f] \<comment> \<open>rp\<close>,
                 rx_lit [0x434, 0x2e] \<comment> \<open>d.\<close>,
                 rx_lit [0x43a, 0x438, 0x448, 0x43b, 0x430, 0x43a] \<comment> \<open>kishlak\<close>,
                 rx_lit [0x43a, 0x438, 0x448, 0x43b, 0x430, 0x43a, 0x435] \<comment> \<open>kishlake\<close>]),
           Star rx_space,
           rx_alts
              [rx_plus (Cls (\<lambda>r. r = 0x2d \<or> (0x430 \<le> r \<and> r \<le> 0x44f) \<or> r = 0x451)),
               rx_plus (Cls (\<lambda>r. r = 0x2d \<or> (0x61 \<le> r \<and> r \<le> 0x7a))),
               city_alts cities],
           rx_rep (rx_cats
                [rx_plus rx_space,
                 rx_plus (Cls (\<lambda>r. r = 0x2d \<or> (0x430 \<le> r \<and> r \<le> 0x44f) \<or> r = 0x451))]) 0 1,
           rx_rep (rx_cats
                [rx_opt (rx_lit [0x2c]),
                 Star rx_space,
                 rx_alts
                    [rx_cats
                        [rx_alts
                            [rx_lit [0x440, 0x435, 0x441, 0x43f, 0x443, 0x431, 0x43b, 0x438, 0x43a, 0x438] \<comment> \<open>respubliki\<close>,
                             rx_lit [0x440, 0x435, 0x441, 0x43f, 0x443, 0x431, 0x43b, 0x438, 0x43a, 0x430] \<comment> \<open>respublika\<close>],
                         rx_plus rx_space,
                         rx_plus (Cls (\<lambda>r. r = 0x2d \<or> (0x430 \<le> r \<and> r \<le> 0x44f) \<or> r = 0x451)),
                         rx_opt (rx_cats
                              [rx_plus rx_space,
                               rx_plus (Cls (\<lambda>r. r = 0x2d \<or> (0x430 \<le> r \<and> r \<le> 0x44f) \<or> r = 0x451))])],
                     rx_cats
                        [rx_plus (Cls (\<lambda>r. r = 0x2d \<or> (0x430 \<le> r \<and> r \<le> 0x44f) \<or> r = 0x451)),
                         rx_plus rx_space,
                         rx_alts
                            [rx_lit [0x43e, 0x431, 0x43b, 0x430, 0x441, 0x442, 0x44c] \<comment> \<open>oblast\<close>,
                             rx_lit [0x43e, 0x431, 0x43b, 0x430, 0x441, 0x442, 0x438] \<comment> \<open>oblasti\<close>,
                             rx_lit [0x43e, 0x431, 0x43b, 0x2e] \<comment> \<open>obl.\<close>,
                             rx_lit [0x43a, 0x440, 0x430, 0x439] \<comment> \<open>kray\<close>,
                             rx_lit [0x43a, 0x440, 0x430, 0x44f] \<comment> \<open>kraya\<close>,
                             rx_lit [0x440, 0x430, 0x439, 0x43e, 0x43d, 0x430] \<comment> \<open>rayona\<close>,
                             rx_lit [0x440, 0x430, 0x439, 0x43e, 0x43d] \<comment> \<open>rayon\<close>,
                             rx_lit [0x440, 0x435, 0x441, 0x43f, 0x443, 0x431, 0x43b, 0x438, 0x43a, 0x438] \<comment> \<open>respubliki\<close>,
                             rx_lit [0x440, 0x435, 0x441, 0x43f, 0x443, 0x431, 0x43b, 0x438, 0x43a, 0x430] \<comment> \<open>respublika\<close>,
                             rx_lit [0x430, 0x441, 0x441, 0x440] \<comment> \<open>assr\<close>]],
                     rx_alts
                        [rx_lit [0x43e, 0x431, 0x43b, 0x430, 0x441, 0x442, 0x44c] \<comment> \<open>oblast\<close>,
                         rx_lit [0x43e, 0x431, 0x43b, 0x430, 0x441, 0x442, 0x438] \<comment> \<open>oblasti\<close>,
                         rx_lit [0x43e, 0x431, 0x43b, 0x2e] \<comment> \<open>obl.\<close>,
                         rx_lit [0x43a, 0x440, 0x430, 0x439] \<comment> \<open>kray\<close>,
                         rx_lit [0x43a, 0x440, 0x430, 0x44f] \<comment> \<open>kraya\<close>,
                         rx_lit [0x440, 0x430, 0x439, 0x43e, 0x43d, 0x430] \<comment> \<open>rayona\<close>,
                         rx_lit [0x440, 0x430, 0x439, 0x43e, 0x43d] \<comment> \<open>rayon\<close>,
                         rx_lit [0x440, 0x435, 0x441, 0x43f, 0x443, 0x431, 0x43b, 0x438, 0x43a, 0x438] \<comment> \<open>respubliki\<close>,
                         rx_lit [0x440, 0x435, 0x441, 0x43f, 0x443, 0x431, 0x43b, 0x438, 0x43a, 0x430] \<comment> \<open>respublika\<close>,
                         rx_lit [0x430, 0x441, 0x441, 0x440] \<comment> \<open>assr\<close>],
                     rx_alts
                        [rx_lit [0x431, 0x430, 0x448, 0x43a, 0x438, 0x440, 0x438, 0x44f] \<comment> \<open>bashkiriya\<close>,
                         rx_lit [0x442, 0x430, 0x442, 0x430, 0x440, 0x441, 0x442, 0x430, 0x43d] \<comment> \<open>tatarstan\<close>,
                         rx_lit [0x447, 0x443, 0x432, 0x430, 0x448, 0x438, 0x44f] \<comment> \<open>chuvashiya\<close>,
                         rx_lit [0x44f, 0x43a, 0x443, 0x442, 0x438, 0x44f] \<comment> \<open>yakutiya\<close>,
                         rx_lit [0x434, 0x430, 0x433, 0x435, 0x441, 0x442, 0x430, 0x43d] \<comment> \<open>dagestan\<close>,
                         rx_lit [0x438, 0x43d, 0x433, 0x443, 0x448, 0x435, 0x442, 0x438, 0x44f] \<comment> \<open>ingushetiya\<close>,
                         rx_lit [0x43e, 0x441, 0x435, 0x442, 0x438, 0x44f] \<comment> \<open>osetiya\<close>,
                         rx_lit [0x430, 0x434, 0x44b, 0x433, 0x435, 0x44f] \<comment> \<open>adygeya\<close>,
                         rx_lit [0x43a, 0x430, 0x43b, 0x43c, 0x44b, 0x43a, 0x438, 0x44f] \<comment> \<open>kalmykiya\<close>,
                         rx_lit [0x43c, 0x43e, 0x440, 0x434, 0x43e, 0x432, 0x438, 0x44f] \<comment> \<open>mordoviya\<close>,
                         rx_lit [0x443, 0x434, 0x43c, 0x443, 0x440, 0x442, 0x438, 0x44f] \<comment> \<open>udmurtiya\<close>,
                         rx_lit [0x445, 0x430, 0x43a, 0x430, 0x441, 0x438, 0x44f] \<comment> \<open>khakasiya\<close>,
                         rx_lit [0x442, 0x44b, 0x432, 0x430] \<comment> \<open>tyva\<close>,
                         rx_lit [0x431, 0x443, 0x440, 0x44f, 0x442, 0x438, 0x44f] \<comment> \<open>buryatiya\<close>,
                         rx_lit [0x43a, 0x43e, 0x43c, 0x438] \<comment> \<open>komi\<close>,
                         rx_lit [0x43a, 0x430, 0x440, 0x435, 0x43b, 0x438, 0x44f] \<comment> \<open>kareliya\<close>,
                         rx_lit [0x43a, 0x440, 0x44b, 0x43c] \<comment> \<open>krym\<close>,
                         rx_lit [0x43c, 0x430, 0x440, 0x438, 0x439, 0x20, 0x44d, 0x43b] \<comment> \<open>mariy el\<close>,
                         rx_lit [0x43a, 0x430, 0x431, 0x430, 0x440, 0x434, 0x438, 0x43d, 0x43e, 0x2d, 0x431, 0x430, 0x43b, 0x43a, 0x430, 0x440, 0x438, 0x44f] \<comment> \<open>kabardino-balkariya\<close>,
                         rx_lit [0x43a, 0x430, 0x440, 0x430, 0x447, 0x430, 0x435, 0x432, 0x43e, 0x2d, 0x447, 0x435, 0x440, 0x43a, 0x435, 0x441, 0x438, 0x44f] \<comment> \<open>karachaevo-cherkesiya\<close>,
                         rx_lit [0x441, 0x430, 0x445, 0x430] \<comment> \<open>sakha\<close>]]]) 0 2])]"

subsection \<open>Regions and prefixes\<close>

definition isRegionKeyword :: "string \<Rightarrow> bool" where
  "isRegionKeyword lower \<longleftrightarrow> lower \<in> set
    [encode_runes [0x43e, 0x431, 0x43b, 0x430, 0x441, 0x442, 0x44c] \<comment> \<open>oblast\<close>,
     encode_runes [0x43e, 0x431, 0x43b, 0x430, 0x441, 0x442, 0x438] \<comment> \<open>oblasti\<close>,
     encode_runes [0x43e, 0x431, 0x43b, 0x2e] \<comment> \<open>obl.\<close>,
     wordKrai,
     encode_runes [0x43a, 0x440, 0x430, 0x44f] \<comment> \<open>kraya\<close>,
     wordRaion,
     encode_runes [0x440, 0x430, 0x439, 0x43e, 0x43d, 0x430] \<comment> \<open>rayona\<close>,
     encode_runes [0x440, 0x435, 0x441, 0x43f, 0x443, 0x431, 0x43b, 0x438, 0x43a, 0x430] \<comment> \<open>respublika\<close>,
     encode_runes [0x440, 0x435, 0x441, 0x43f, 0x443, 0x431, 0x43b, 0x438, 0x43a, 0x438] \<comment> \<open>respubliki\<close>]"

definition isRegionAdjective :: "string \<Rightarrow> bool" where
  "isRegionAdjective lower \<longleftrightarrow>
     HasSuffix lower (encode_runes [0x441, 0x43a, 0x438, 0x439] \<comment> \<open>skiy\<close>) \<or>
     HasSuffix lower (encode_runes [0x441, 0x43a, 0x430, 0x44f] \<comment> \<open>skaya\<close>) \<or>
     HasSuffix lower sufOy \<or> HasSuffix lower (encode_runes [0x430, 0x44f] \<comment> \<open>aya\<close>)"

definition isBareRegionName :: "string \<Rightarrow> bool" where
  "isBareRegionName lower \<longleftrightarrow> list_ex (\<lambda>r. lower = r) bareRegionNames"

definition isRegionTail :: "runtime \<Rightarrow> string \<Rightarrow> bool option" where
  "isRegionTail rt s =
     (if s = '''' then Some False
      else case Fields s of
        [] \<Rightarrow> None
      | w # _ \<Rightarrow>
          let lower = ToLower rt w in
          Some (isRegionKeyword lower \<or> isRegionAdjective lower \<or> isBareRegionName lower))"

definition hasSettlementPrefix :: "string \<Rightarrow> bool" where
  "hasSettlementPrefix s \<longleftrightarrow> list_ex (HasPrefix s) settlementPrefixes"

text \<open>\<^term>\<open>None\<close> is the result -1.\<close>

definition settlementPrefixLen :: "string \<Rightarrow> nat option" where
  "settlementPrefixLen s =
     map_option length
       (List.find (\<lambda>p. HasPrefix s p \<and>
          (let r = drop (length p) s in r = '''' \<or> hd r = CHR '' '' \<or> hd r = CHR ''.''))
        settlementPrefixes)"

definition wordCount :: "string \<Rightarrow> nat" where
  "wordCount s = length (Fields s)"

subsection \<open>Famous subjects\<close>

fun subject_start :: "string \<Rightarrow> nat \<Rightarrow> nat \<Rightarrow> nat" where
  "subject_start raw start 0 = start"
| "subject_start raw start (Suc k) =
     (if 0 < start then subject_start raw (start - snd (DecodeLastRune (take start raw))) k else start)"

definition subjectWindowStart :: "Text \<Rightarrow> nat \<Rightarrow> nat" where
  "subjectWindowStart t ctxStart = subject_start (Raw t) ctxStart 40"

definition famousSeqMatch :: "runtime \<Rightarrow> namesDict \<Rightarrow> token list \<Rightarrow> bool" where
  "famousSeqMatch rt d sq =
     (let stems = map normalizeWord
            (filter (\<lambda>lower. \<not> (isPatronymic lower \<or> isInitialToken lower))
              (map (\<lambda>tok. ToLower rt (tok_text tok)) sq))
      in list_ex (sameMultiset stems) (dict_famous d))"

definition famousSubjectBefore :: "runtime \<Rightarrow> namesDict \<Rightarrow> Text \<Rightarrow> nat \<Rightarrow> bool" where
  "famousSubjectBefore rt d t ctxStart =
     (let windowStart = subjectWindowStart t ctxStart;
          toks = tokenize (between (Raw t) windowStart ctxStart);
          sqs = map (\<lambda>n. drop (length toks - n) toks) (filter (\<lambda>n. n \<le> length toks) [2, 3])
      in case List.find (famousSeqMatch rt d) sqs of
           None \<Rightarrow> False
         | Some sq \<Rightarrow>
             let absStart = windowStart + tok_start (hd sq); absEnd = windowStart + tok_end (last sq) in
             if hasLeftContext rt t absStart famousSubjectMarkers 30 then False
             else if famousOtherPIISameLine rt t absStart absEnd then False
             else True)"

subsection \<open>The value after a keyword\<close>

definition isBornContext :: "string \<Rightarrow> match \<Rightarrow> bool" where
  "isBornContext search loc \<longleftrightarrow> HasPrefix (between search (m_lo loc) (m_hi loc)) (encode_runes [0x440, 0x43e, 0x434, 0x438, 0x43b] \<comment> \<open>rodil\<close>)"

definition ctxEndIsAbbrevInWord :: "string \<Rightarrow> match \<Rightarrow> bool" where
  "ctxEndIsAbbrevInWord search loc =
     (if \<not> HasSuffix (between search (m_lo loc) (m_hi loc)) ''.'' then False
      else 0 < m_lo loc \<and> isLetterRune_det (runeBefore search (m_lo loc)))"

definition trimBirthValue :: "runtime \<Rightarrow> string \<Rightarrow> nat \<Rightarrow> nat \<Rightarrow> nat option" where
  "trimBirthValue rt search start e =
     (let e1 = (case Index (between search start e) (encode_runes [0x433, 0x440, 0x430, 0x436, 0x434, 0x430, 0x43d] \<comment> \<open>grazhdan\<close>) of
                  None \<Rightarrow> e | Some idx \<Rightarrow> start + idx);
          val = between search start e1
      in case Index val '','' of
           None \<Rightarrow> Some e1
         | Some idx \<Rightarrow>
             do { r \<leftarrow> isRegionTail rt (TrimSpace (drop (idx + 1) val));
                  Some (if r then e1 else start + idx) })"

definition starts_upper :: "string \<Rightarrow> bool" where
  "starts_upper raw \<longleftrightarrow> (let r = TrimSpace raw in r \<noteq> '''' \<and> isUpperRune (fst (DecodeRune r)))"

definition hasPlaceAfterPrefix :: "runtime \<Rightarrow> string list \<Rightarrow> Text \<Rightarrow> nat \<Rightarrow> string \<Rightarrow> bool option" where
  "hasPlaceAfterPrefix rt cities t start val =
     (case settlementPrefixLen val of
        None \<Rightarrow> Some True
      | Some n \<Rightarrow>
          let rest = TrimSpace (drop n val) in
          if rest = '''' then Some False
          else if HasPrefix rest ''.'' \<or> HasPrefix rest '','' then Some False
          else
            do { raw \<leftarrow> slice (Raw t) (int (start + n)) (int (start + length val));
                 if starts_upper raw then Some True
                 else let lower = ToLower rt rest in
                   if list_ex (HasPrefix lower) cities then Some True
                   else case Fields lower of [] \<Rightarrow> Some False | w # _ \<Rightarrow> Some (w \<notin> set birthStopWords) })"

definition validStart_bp :: "runtime \<Rightarrow> string list \<Rightarrow> Text \<Rightarrow> nat \<Rightarrow> string \<Rightarrow> bool option" where
  "validStart_bp rt cities t start val =
     (let trimmed = TrimSpace val in
      if trimmed = '''' then Some False
      else if hasSettlementPrefix trimmed then Some True
      else
        do { raw \<leftarrow> slice (Raw t) (int start) (int (start + length val));
             if starts_upper raw then Some True
             else Some (list_ex (HasPrefix (ToLower rt trimmed)) cities) })"

definition prepositional_prefixes :: "string list" where
  "prepositional_prefixes =
    [encode_runes [0x433, 0x43e, 0x440, 0x43e, 0x434, 0x435, 0x20] \<comment> \<open>gorode \<close>,
     encode_runes [0x434, 0x435, 0x440, 0x435, 0x432, 0x43d, 0x435, 0x20] \<comment> \<open>derevne \<close>,
     encode_runes [0x43f, 0x43e, 0x441, 0x451, 0x43b, 0x43a, 0x435, 0x20] \<comment> \<open>posyolke \<close>,
     encode_runes [0x43f, 0x43e, 0x441, 0x435, 0x43b, 0x43a, 0x435, 0x20] \<comment> \<open>poselke \<close>,
     encode_runes [0x441, 0x435, 0x43b, 0x435, 0x20] \<comment> \<open>sele \<close>,
     encode_runes [0x441, 0x442, 0x430, 0x43d, 0x438, 0x446, 0x435, 0x20] \<comment> \<open>stanitse \<close>,
     encode_runes [0x43a, 0x438, 0x448, 0x43b, 0x430, 0x43a, 0x435, 0x20] \<comment> \<open>kishlake \<close>]"

text \<open>What \<^verbatim>\<open>matchAtContext\<close> does with the range of the group \<^verbatim>\<open>value\<close>.\<close>

definition accept_place :: "runtime \<Rightarrow> string list \<Rightarrow> Text \<Rightarrow> string \<Rightarrow> nat \<Rightarrow> nat \<Rightarrow> Span list option" where
  "accept_place rt cities t search start0 end0 =
     do { e \<leftarrow> trimBirthValue rt search start0 end0;
          val0 \<leftarrow> slice search (int start0) (int e);
          ok \<leftarrow> validStart_bp rt cities t start0 val0;
          if \<not> ok then Some []
          else do {
            place \<leftarrow> hasPlaceAfterPrefix rt cities t start0 val0;
            if \<not> place then Some []
            else
              let start = (case List.find (HasPrefix val0) prepositional_prefixes of
                             None \<Rightarrow> start0 | Some p \<Rightarrow> start0 + length p)
              in do { val \<leftarrow> slice search (int start) (int e);
                      if wordCount val > 10 then Some []
                      else Some [\<lparr> sp_Start = int start, sp_End = int e, sp_Category = CatBirthPlace,
                                   sp_Detector = ''birthplace'', sp_Confidence = 92 / 100 \<rparr>] } } }"

definition matchAtContext :: "runtime \<Rightarrow> string list \<Rightarrow> Text \<Rightarrow> string \<Rightarrow> nat \<Rightarrow> rx \<Rightarrow> Span list option" where
  "matchAtContext rt cities t search ctxEnd valueRe =
     (case FindIndex (drop ctxEnd search) valueRe of
        None \<Rightarrow> Some []
      | Some sub \<Rightarrow>
          (case group_range sub 2 of
             None \<Rightarrow> Some []
           | Some (a, b) \<Rightarrow> accept_place rt cities t search (ctxEnd + a) (ctxEnd + b)))"

subsection \<open>The detector\<close>

definition birth_context :: "runtime \<Rightarrow> string list \<Rightarrow> namesDict \<Rightarrow> Text \<Rightarrow> match \<Rightarrow> Span list option" where
  "birth_context rt cities d t loc =
     (let search = search_text t in
      if ctxEndIsAbbrevInWord search loc then Some []
      else if isBornContext search loc \<and> famousSubjectBefore rt d t (m_lo loc) then Some []
      else matchAtContext rt cities t search (m_hi loc)
             (if LowerOK t then birthValueLowerRe rt cities else birthValueRe rt cities))"

definition DetectLower_bp :: "runtime \<Rightarrow> string list \<Rightarrow> namesDict \<Rightarrow> Text \<Rightarrow> Span list option" where
  "DetectLower_bp rt cities d t =
     concat_opt (birth_context rt cities d t)
       (FindAllIndex (search_text t) (if LowerOK t then birthContextLowerRe else birthContextRe))"

definition NewBirthplaceDetector :: "runtime \<Rightarrow> string list \<Rightarrow> namesDict \<Rightarrow> detector" where
  "NewBirthplaceDetector rt cities d = detector_of rt ''birthplace'' [CatBirthPlace] (DetectLower_bp rt cities d)"

subsection \<open>Offsets\<close>

lemma fold_classes_capless: "cap_list (foldr (\<lambda>r. Cat (Cls (P r))) rs Eps) = []"
  by (induction rs) simp_all

lemma city_alts_capless [simp]:
  "cap_list (city_alts cities) = []" "cap_list (city_alts_i cities) = []"
  by (simp_all add: city_alts_def city_alts_i_def comp_def fold_classes_capless)

lemma city_alts_star [simp]: "star_capless (city_alts cities)" "star_capless (city_alts_i cities)"
  by (simp_all add: capless_star)

lemma rx_leaf_star [simp]:
  "star_capless (rx_lit rs)" "star_capless (rx_ilit rs)" "star_capless rx_digit" "star_capless rx_space"
  "star_capless (rx_opt r) = star_capless r" "cap_list r = [] \<Longrightarrow> star_capless (rx_plus r)"
  "cap_list r = [] \<Longrightarrow> star_capless (rx_rep r m n)"
  by (simp_all add: capless_star) (simp_all add: rx_opt_def)

lemma birthValueRe_wf: "wf_caps (birthValueRe rt cities)"
  by (simp add: wf_caps_def birthValueRe_def dateWordsRe_caps)

lemma birthValueLowerRe_wf: "wf_caps (birthValueLowerRe rt cities)"
  by (simp add: wf_caps_def birthValueLowerRe_def dateWordsRe_caps)

lemma isRegionTail_total: "\<exists>r. isRegionTail rt (TrimSpace s) = Some r"
  using Fields_TrimSpace [of s] by (auto simp: isRegionTail_def Let_def split: list.splits)

lemma Index_le: "Index s w = Some i \<Longrightarrow> i \<le> length s"
  using occurs_at_bound [of s w i] by (simp add: Index_Some)

lemma between_length: "b \<le> length s \<Longrightarrow> length (between s a b) = b - a"
  by (simp add: between_def)

lemma trimBirthValue_range:
  assumes "a \<le> b" and "b \<le> length search"
  shows "\<exists>e. trimBirthValue rt search a b = Some e \<and> a \<le> e \<and> e \<le> b"
proof -
  define e1 where "e1 = (case Index (between search a b) (encode_runes [0x433, 0x440, 0x430, 0x436, 0x434, 0x430, 0x43d]) of
      None \<Rightarrow> b | Some idx \<Rightarrow> a + idx)"
  have e1: "a \<le> e1" "e1 \<le> b"
    using assms Index_le by (auto simp: e1_def between_length split: option.splits) (metis Index_le between_length add.commute le_diff_conv2)
  have t: "trimBirthValue rt search a b =
      (case Index (between search a e1) '','' of None \<Rightarrow> Some e1
       | Some idx \<Rightarrow> do { r \<leftarrow> isRegionTail rt (TrimSpace (drop (idx + 1) (between search a e1)));
                        Some (if r then e1 else a + idx) })"
    unfolding trimBirthValue_def e1_def Let_def ..
  show ?thesis
  proof (cases "Index (between search a e1) '',''")
    case None
    with e1 show ?thesis by (simp add: t)
  next
    case (Some i)
    then have "i \<le> e1 - a" using Index_le [OF Some] e1 assms by (simp add: between_length)
    moreover obtain r where "isRegionTail rt (TrimSpace (drop (i + 1) (between search a e1))) = Some r"
      using isRegionTail_total by blast
    ultimately show ?thesis using Some e1 by (auto simp: t)
  qed
qed

lemma settlementPrefixLen_le: "settlementPrefixLen s = Some n \<Longrightarrow> n \<le> length s"
  by (auto simp: settlementPrefixLen_def find_Some_iff dest: HasPrefix_length)

lemma validStart_total: "a + length v \<le> length (Raw t) \<Longrightarrow> \<exists>r. validStart_bp rt cities t a v = Some r"
  by (auto simp: validStart_bp_def Let_def slice_nat slice_in_range)

lemma hasPlace_total: "a + length v \<le> length (Raw t) \<Longrightarrow> \<exists>r. hasPlaceAfterPrefix rt cities t a v = Some r"
  using settlementPrefixLen_le [of v]
  by (cases "settlementPrefixLen v")
     (auto simp: hasPlaceAfterPrefix_def Let_def slice_nat slice_in_range split: list.splits)

lemma accept_place_ok:
  assumes "a \<le> b" and "b \<le> length search" and "length search = length (Raw t)"
  shows "\<exists>ss. accept_place rt cities t search a b = Some ss \<and>
    (\<forall>s \<in> set ss. 0 \<le> sp_Start s \<and> sp_Start s \<le> sp_End s \<and> sp_End s \<le> int (length (Raw t)))"
proof -
  obtain e where e: "trimBirthValue rt search a b = Some e" "a \<le> e" "e \<le> b"
    using trimBirthValue_range [OF assms(1,2)] by blast
  let ?v = "between search a e"
  have v: "slice search (int a) (int e) = Some ?v" using e assms by (simp add: slice_nat between_def)
  have l: "a + length ?v \<le> length (Raw t)" using e assms by (simp add: between_length)
  obtain ok where ok: "validStart_bp rt cities t a ?v = Some ok" using validStart_total [OF l] by blast
  obtain pl where pl: "hasPlaceAfterPrefix rt cities t a ?v = Some pl" using hasPlace_total [OF l] by blast
  define st where "st = (case List.find (HasPrefix ?v) prepositional_prefixes of None \<Rightarrow> a | Some p \<Rightarrow> a + length p)"
  have "\<And>p. List.find (HasPrefix ?v) prepositional_prefixes = Some p \<Longrightarrow> length p \<le> e - a"
    using HasPrefix_length [of ?v] e assms by (auto simp: find_Some_iff between_length)
  then have st: "a \<le> st" "st \<le> e" using e by (auto simp: st_def le_diff_conv2 add.commute split: option.splits)
  then have "slice search (int st) (int e) = Some (between search st e)"
    using e assms by (simp add: slice_nat between_def)
  with e v ok pl st assms show ?thesis by (auto simp: accept_place_def Let_def st_def [symmetric])
qed

lemma matchAtContext_ok:
  assumes "c \<le> length search" and "length search = length (Raw t)" and "wf_caps re"
  shows "\<exists>ss. matchAtContext rt cities t search c re = Some ss \<and>
    (\<forall>s \<in> set ss. 0 \<le> sp_Start s \<and> sp_Start s \<le> sp_End s \<and> sp_End s \<le> int (length (Raw t)))"
proof (cases "FindIndex (drop c search) re")
  case (Some sub)
  note caps = FindIndex_caps [OF Some assms(3)]
  show ?thesis
  proof (cases "group_range sub 2")
    case g: (Some ab)
    obtain x y where ab: "ab = (x, y)" by fastforce
    with g have "(2, x, y) \<in> set (m_caps sub)" by (auto simp: group_range_def dest: map_of_SomeD)
    with caps_ok_range [OF caps(1)] have "x \<le> y" "y \<le> length search - c" by auto
    then have "c + x \<le> c + y" "c + y \<le> length search" using assms(1) by simp_all
    from accept_place_ok [OF this assms(2)] Some g ab show ?thesis by (simp add: matchAtContext_def)
  qed (simp add: matchAtContext_def Some)
qed (simp add: matchAtContext_def)

lemma birth_context_ok:
  assumes "m_hi loc \<le> length (Raw t)"
  shows "\<exists>ss. birth_context rt cities d t loc = Some ss \<and>
    (\<forall>s \<in> set ss. 0 \<le> sp_Start s \<and> sp_Start s \<le> sp_End s \<and> sp_End s \<le> int (length (Raw t)))"
  using matchAtContext_ok [of "m_hi loc" "search_text t" t "birthValueLowerRe rt cities" rt cities, OF _ _ birthValueLowerRe_wf]
    matchAtContext_ok [of "m_hi loc" "search_text t" t "birthValueRe rt cities" rt cities, OF _ _ birthValueRe_wf] assms
  by (simp add: birth_context_def Let_def)

lemma DetectLower_bp_ok:
  "\<exists>ss. DetectLower_bp rt cities d t = Some ss \<and>
    (\<forall>s \<in> set ss. 0 \<le> sp_Start s \<and> sp_Start s \<le> sp_End s \<and> sp_End s \<le> int (length (Raw t)))"
proof -
  let ?ms = "FindAllIndex (search_text t) (if LowerOK t then birthContextLowerRe else birthContextRe)"
  have b: "m_hi m \<le> length (Raw t)" if "m \<in> set ?ms" for m
    using all_from_sound [OF that [unfolded FindAllIndex_def]] by simp
  then have "\<forall>m \<in> set ?ms. \<exists>ss. birth_context rt cities d t m = Some ss" using birth_context_ok by blast
  from concat_opt_total [OF this] obtain ss where ss: "concat_opt (birth_context rt cities d t) ?ms = Some ss" by blast
  have "0 \<le> sp_Start s \<and> sp_Start s \<le> sp_End s \<and> sp_End s \<le> int (length (Raw t))" if s: "s \<in> set ss" for s
  proof -
    from concat_opt_mem [OF ss s] obtain m zs where m: "m \<in> set ?ms" "birth_context rt cities d t m = Some zs" "s \<in> set zs"
      by blast
    with birth_context_ok [OF b [OF m(1)], of rt cities d] show ?thesis by auto
  qed
  with ss show ?thesis unfolding DetectLower_bp_def by blast
qed

end
