(* ===== verification/Citizenship.thy ===== *)
theory Citizenship
  imports Detector_Contract
begin

text \<open>
  The detector of citizenship (\<^verbatim>\<open>internal/pii/detectors/citizenship.go\<close>). It searches the lower-case text and uses the
  offsets found there on the text itself, so its slices can be out of range when the lengths differ:
  \<^term>\<open>None\<close> is a panic. The order in which Go ranges over \<^verbatim>\<open>countryForms\<close> is not specified; the list gives one.
\<close>

subsection \<open>Countries\<close>

definition citizenshipKeyword :: string where
  "citizenshipKeyword = ''citizenship''"

definition countryRF :: string where
  "countryRF = encode_runes [0x440, 0x444] \<comment> \<open>rf\<close>"

definition citizenshipContext :: "string list" where
  "citizenshipContext =
    [encode_runes [0x433, 0x440, 0x430, 0x436, 0x434, 0x430, 0x43d, 0x441, 0x442, 0x432, 0x43e] \<comment> \<open>grazhdanstvo\<close>,
     encode_runes [0x433, 0x440, 0x430, 0x436, 0x434, 0x430, 0x43d, 0x438, 0x43d] \<comment> \<open>grazhdanin\<close>,
     encode_runes [0x433, 0x440, 0x430, 0x436, 0x434, 0x430, 0x43d, 0x43a, 0x430] \<comment> \<open>grazhdanka\<close>,
     citizenshipKeyword]"

definition citizenshipFallbackStop :: "string list" where
  "citizenshipFallbackStop =
    [encode_runes [0x43d, 0x435] \<comment> \<open>ne\<close>,
     encode_runes [0x43d, 0x435, 0x442] \<comment> \<open>net\<close>,
     encode_runes [0x43d, 0x435, 0x438, 0x437, 0x432, 0x435, 0x441, 0x442, 0x43d, 0x43e] \<comment> \<open>neizvestno\<close>,
     encode_runes [0x43e, 0x442, 0x441, 0x443, 0x442, 0x441, 0x442, 0x432, 0x443, 0x435, 0x442] \<comment> \<open>otsutstvuet\<close>,
     encode_runes [0x43d, 0x2f, 0x434] \<comment> \<open>n/d\<close>]"

definition citizenshipFallbackRe :: rx where
  "citizenshipFallbackRe = rx_cats
    [Bot,
     rx_plus (Cls (\<lambda>r. r = 0x2d \<or> (0x61 \<le> r \<and> r \<le> 0x7a) \<or> (0x430 \<le> r \<and> r \<le> 0x44f) \<or> r = 0x451)),
     rx_rep (rx_cats
          [rx_plus rx_space,
           rx_plus (Cls (\<lambda>r. r = 0x2d \<or> (0x61 \<le> r \<and> r \<le> 0x7a) \<or> (0x430 \<le> r \<and> r \<le> 0x44f) \<or> r = 0x451))]) 0 2]"

definition countryForms :: "(string \<times> string list) list" where
  "countryForms =
    [(encode_runes [0x440, 0x43e, 0x441, 0x441, 0x438, 0x44f],
      [encode_runes [0x440, 0x43e, 0x441, 0x441, 0x438, 0x44f],
       encode_runes [0x440, 0x43e, 0x441, 0x441, 0x438, 0x438],
       encode_runes [0x440, 0x43e, 0x441, 0x441, 0x438, 0x44e],
       encode_runes [0x440, 0x43e, 0x441, 0x441, 0x438, 0x435, 0x439],
       encode_runes [0x440, 0x43e, 0x441, 0x441, 0x438, 0x439, 0x441, 0x43a, 0x430, 0x44f]]) \<comment> \<open>rossiya\<close>,
     (encode_runes [0x440, 0x444],
      [countryRF]) \<comment> \<open>rf\<close>,
     (encode_runes [0x440, 0x43e, 0x441, 0x441, 0x438, 0x439, 0x441, 0x43a, 0x430, 0x44f, 0x20, 0x444, 0x435, 0x434, 0x435, 0x440, 0x430, 0x446, 0x438, 0x44f],
      [encode_runes [0x440, 0x43e, 0x441, 0x441, 0x438, 0x439, 0x441, 0x43a, 0x430, 0x44f, 0x20, 0x444, 0x435, 0x434, 0x435, 0x440, 0x430, 0x446, 0x438, 0x44f],
       encode_runes [0x440, 0x43e, 0x441, 0x441, 0x438, 0x439, 0x441, 0x43a, 0x43e, 0x439, 0x20, 0x444, 0x435, 0x434, 0x435, 0x440, 0x430, 0x446, 0x438, 0x438],
       encode_runes [0x440, 0x43e, 0x441, 0x441, 0x438, 0x439, 0x441, 0x43a, 0x43e, 0x439, 0x20, 0x444, 0x435, 0x434, 0x435, 0x440, 0x430, 0x446, 0x438, 0x435, 0x439]]) \<comment> \<open>rossiyskaya federatsiya\<close>,
     (encode_runes [0x43a, 0x430, 0x437, 0x430, 0x445, 0x441, 0x442, 0x430, 0x43d],
      [encode_runes [0x43a, 0x430, 0x437, 0x430, 0x445, 0x441, 0x442, 0x430, 0x43d],
       encode_runes [0x43a, 0x430, 0x437, 0x430, 0x445, 0x441, 0x442, 0x430, 0x43d, 0x430],
       encode_runes [0x43a, 0x430, 0x437, 0x430, 0x445, 0x441, 0x442, 0x430, 0x43d, 0x435],
       encode_runes [0x43a, 0x430, 0x437, 0x430, 0x445, 0x441, 0x442, 0x430, 0x43d, 0x43e, 0x43c]]) \<comment> \<open>kazakhstan\<close>,
     (encode_runes [0x431, 0x435, 0x43b, 0x430, 0x440, 0x443, 0x441, 0x44c],
      [encode_runes [0x431, 0x435, 0x43b, 0x430, 0x440, 0x443, 0x441, 0x44c],
       encode_runes [0x431, 0x435, 0x43b, 0x430, 0x440, 0x443, 0x441, 0x438],
       encode_runes [0x431, 0x435, 0x43b, 0x430, 0x440, 0x443, 0x441, 0x44c, 0x44e]]) \<comment> \<open>belarus\<close>,
     (encode_runes [0x431, 0x435, 0x43b, 0x43e, 0x440, 0x443, 0x441, 0x441, 0x438, 0x44f],
      [encode_runes [0x431, 0x435, 0x43b, 0x43e, 0x440, 0x443, 0x441, 0x441, 0x438, 0x44f],
       encode_runes [0x431, 0x435, 0x43b, 0x43e, 0x440, 0x443, 0x441, 0x441, 0x438, 0x438]]) \<comment> \<open>belorussiya\<close>,
     (encode_runes [0x443, 0x437, 0x431, 0x435, 0x43a, 0x438, 0x441, 0x442, 0x430, 0x43d],
      [encode_runes [0x443, 0x437, 0x431, 0x435, 0x43a, 0x438, 0x441, 0x442, 0x430, 0x43d],
       encode_runes [0x443, 0x437, 0x431, 0x435, 0x43a, 0x438, 0x441, 0x442, 0x430, 0x43d, 0x430],
       encode_runes [0x443, 0x437, 0x431, 0x435, 0x43a, 0x438, 0x441, 0x442, 0x430, 0x43d, 0x435]]) \<comment> \<open>uzbekistan\<close>,
     (encode_runes [0x442, 0x430, 0x434, 0x436, 0x438, 0x43a, 0x438, 0x441, 0x442, 0x430, 0x43d],
      [encode_runes [0x442, 0x430, 0x434, 0x436, 0x438, 0x43a, 0x438, 0x441, 0x442, 0x430, 0x43d],
       encode_runes [0x442, 0x430, 0x434, 0x436, 0x438, 0x43a, 0x438, 0x441, 0x442, 0x430, 0x43d, 0x430],
       encode_runes [0x442, 0x430, 0x434, 0x436, 0x438, 0x43a, 0x438, 0x441, 0x442, 0x430, 0x43d, 0x435]]) \<comment> \<open>tadzhikistan\<close>,
     (encode_runes [0x43a, 0x438, 0x440, 0x433, 0x438, 0x437, 0x438, 0x44f],
      [encode_runes [0x43a, 0x438, 0x440, 0x433, 0x438, 0x437, 0x438, 0x44f],
       encode_runes [0x43a, 0x438, 0x440, 0x433, 0x438, 0x437, 0x438, 0x438]]) \<comment> \<open>kirgiziya\<close>,
     (encode_runes [0x43a, 0x44b, 0x440, 0x433, 0x44b, 0x437, 0x441, 0x442, 0x430, 0x43d],
      [encode_runes [0x43a, 0x44b, 0x440, 0x433, 0x44b, 0x437, 0x441, 0x442, 0x430, 0x43d],
       encode_runes [0x43a, 0x44b, 0x440, 0x433, 0x44b, 0x437, 0x441, 0x442, 0x430, 0x43d, 0x430]]) \<comment> \<open>kyrgyzstan\<close>,
     (encode_runes [0x43a, 0x44b, 0x440, 0x433, 0x44b, 0x437, 0x441, 0x43a, 0x430, 0x44f, 0x20, 0x440, 0x435, 0x441, 0x43f, 0x443, 0x431, 0x43b, 0x438, 0x43a, 0x430],
      [encode_runes [0x43a, 0x44b, 0x440, 0x433, 0x44b, 0x437, 0x441, 0x43a, 0x430, 0x44f, 0x20, 0x440, 0x435, 0x441, 0x43f, 0x443, 0x431, 0x43b, 0x438, 0x43a, 0x430],
       encode_runes [0x43a, 0x44b, 0x440, 0x433, 0x44b, 0x437, 0x441, 0x43a, 0x43e, 0x439, 0x20, 0x440, 0x435, 0x441, 0x43f, 0x443, 0x431, 0x43b, 0x438, 0x43a, 0x438],
       encode_runes [0x43a, 0x44b, 0x440, 0x433, 0x44b, 0x437, 0x441, 0x43a, 0x43e, 0x439, 0x20, 0x440, 0x435, 0x441, 0x43f, 0x443, 0x431, 0x43b, 0x438, 0x43a, 0x43e, 0x439]]) \<comment> \<open>kyrgyzskaya respublika\<close>,
     (encode_runes [0x430, 0x440, 0x43c, 0x435, 0x43d, 0x438, 0x44f],
      [encode_runes [0x430, 0x440, 0x43c, 0x435, 0x43d, 0x438, 0x44f],
       encode_runes [0x430, 0x440, 0x43c, 0x435, 0x43d, 0x438, 0x438],
       encode_runes [0x430, 0x440, 0x43c, 0x435, 0x43d, 0x438, 0x44e]]) \<comment> \<open>armeniya\<close>,
     (encode_runes [0x430, 0x437, 0x435, 0x440, 0x431, 0x430, 0x439, 0x434, 0x436, 0x430, 0x43d],
      [encode_runes [0x430, 0x437, 0x435, 0x440, 0x431, 0x430, 0x439, 0x434, 0x436, 0x430, 0x43d],
       encode_runes [0x430, 0x437, 0x435, 0x440, 0x431, 0x430, 0x439, 0x434, 0x436, 0x430, 0x43d, 0x430],
       encode_runes [0x430, 0x437, 0x435, 0x440, 0x431, 0x430, 0x439, 0x434, 0x436, 0x430, 0x43d, 0x435]]) \<comment> \<open>azerbaydzhan\<close>,
     (encode_runes [0x430, 0x437, 0x435, 0x440, 0x431, 0x430, 0x439, 0x434, 0x436, 0x430, 0x43d, 0x441, 0x43a, 0x430, 0x44f, 0x20, 0x440, 0x435, 0x441, 0x43f, 0x443, 0x431, 0x43b, 0x438, 0x43a, 0x430],
      [encode_runes [0x430, 0x437, 0x435, 0x440, 0x431, 0x430, 0x439, 0x434, 0x436, 0x430, 0x43d, 0x441, 0x43a, 0x430, 0x44f, 0x20, 0x440, 0x435, 0x441, 0x43f, 0x443, 0x431, 0x43b, 0x438, 0x43a, 0x430],
       encode_runes [0x430, 0x437, 0x435, 0x440, 0x431, 0x430, 0x439, 0x434, 0x436, 0x430, 0x43d, 0x441, 0x43a, 0x43e, 0x439, 0x20, 0x440, 0x435, 0x441, 0x43f, 0x443, 0x431, 0x43b, 0x438, 0x43a, 0x438],
       encode_runes [0x430, 0x437, 0x435, 0x440, 0x431, 0x430, 0x439, 0x434, 0x436, 0x430, 0x43d, 0x441, 0x43a, 0x43e, 0x439, 0x20, 0x440, 0x435, 0x441, 0x43f, 0x443, 0x431, 0x43b, 0x438, 0x43a, 0x43e, 0x439]]) \<comment> \<open>azerbaydzhanskaya respublika\<close>,
     (encode_runes [0x433, 0x440, 0x443, 0x437, 0x438, 0x44f],
      [encode_runes [0x433, 0x440, 0x443, 0x437, 0x438, 0x44f],
       encode_runes [0x433, 0x440, 0x443, 0x437, 0x438, 0x438]]) \<comment> \<open>gruziya\<close>,
     (encode_runes [0x43c, 0x43e, 0x43b, 0x434, 0x43e, 0x432, 0x430],
      [encode_runes [0x43c, 0x43e, 0x43b, 0x434, 0x43e, 0x432, 0x430],
       encode_runes [0x43c, 0x43e, 0x43b, 0x434, 0x43e, 0x432, 0x44b],
       encode_runes [0x43c, 0x43e, 0x43b, 0x434, 0x43e, 0x432, 0x435]]) \<comment> \<open>moldova\<close>,
     (encode_runes [0x443, 0x43a, 0x440, 0x430, 0x438, 0x43d, 0x430],
      [encode_runes [0x443, 0x43a, 0x440, 0x430, 0x438, 0x43d, 0x430],
       encode_runes [0x443, 0x43a, 0x440, 0x430, 0x438, 0x43d, 0x44b],
       encode_runes [0x443, 0x43a, 0x440, 0x430, 0x438, 0x43d, 0x435]]) \<comment> \<open>ukraina\<close>,
     (encode_runes [0x442, 0x443, 0x440, 0x43a, 0x43c, 0x435, 0x43d, 0x438, 0x441, 0x442, 0x430, 0x43d],
      [encode_runes [0x442, 0x443, 0x440, 0x43a, 0x43c, 0x435, 0x43d, 0x438, 0x441, 0x442, 0x430, 0x43d],
       encode_runes [0x442, 0x443, 0x440, 0x43a, 0x43c, 0x435, 0x43d, 0x438, 0x441, 0x442, 0x430, 0x43d, 0x430]]) \<comment> \<open>turkmenistan\<close>,
     (encode_runes [0x432, 0x44c, 0x435, 0x442, 0x43d, 0x430, 0x43c],
      [encode_runes [0x432, 0x44c, 0x435, 0x442, 0x43d, 0x430, 0x43c],
       encode_runes [0x432, 0x44c, 0x435, 0x442, 0x43d, 0x430, 0x43c, 0x430],
       encode_runes [0x432, 0x44c, 0x435, 0x442, 0x43d, 0x430, 0x43c, 0x435]]) \<comment> \<open>vetnam\<close>,
     (encode_runes [0x43a, 0x438, 0x442, 0x430, 0x439],
      [encode_runes [0x43a, 0x438, 0x442, 0x430, 0x439], encode_runes [0x43a, 0x438, 0x442, 0x430, 0x44f],
       encode_runes [0x43a, 0x438, 0x442, 0x430, 0x435]]) \<comment> \<open>kitay\<close>,
     (encode_runes [0x43a, 0x43d, 0x440],
      [encode_runes [0x43a, 0x43d, 0x440]]) \<comment> \<open>knr\<close>,
     (encode_runes [0x43a, 0x438, 0x442, 0x430, 0x439, 0x441, 0x43a, 0x430, 0x44f, 0x20, 0x43d, 0x430, 0x440, 0x43e, 0x434, 0x43d, 0x430, 0x44f, 0x20, 0x440, 0x435, 0x441, 0x43f, 0x443, 0x431, 0x43b, 0x438, 0x43a, 0x430],
      [encode_runes [0x43a, 0x438, 0x442, 0x430, 0x439, 0x441, 0x43a, 0x430, 0x44f, 0x20, 0x43d, 0x430, 0x440, 0x43e, 0x434, 0x43d, 0x430, 0x44f, 0x20, 0x440, 0x435, 0x441, 0x43f, 0x443, 0x431, 0x43b, 0x438, 0x43a, 0x430],
       encode_runes [0x43a, 0x438, 0x442, 0x430, 0x439, 0x441, 0x43a, 0x43e, 0x439, 0x20, 0x43d, 0x430, 0x440, 0x43e, 0x434, 0x43d, 0x43e, 0x439, 0x20, 0x440, 0x435, 0x441, 0x43f, 0x443, 0x431, 0x43b, 0x438, 0x43a, 0x438]]) \<comment> \<open>kitayskaya narodnaya respublika\<close>,
     (encode_runes [0x43a, 0x43e, 0x440, 0x435, 0x44f],
      [encode_runes [0x43a, 0x43e, 0x440, 0x435, 0x44f], encode_runes [0x43a, 0x43e, 0x440, 0x435, 0x438]]) \<comment> \<open>koreya\<close>,
     (encode_runes [0x440, 0x435, 0x441, 0x43f, 0x443, 0x431, 0x43b, 0x438, 0x43a, 0x430, 0x20, 0x43a, 0x43e, 0x440, 0x435, 0x44f],
      [encode_runes [0x440, 0x435, 0x441, 0x43f, 0x443, 0x431, 0x43b, 0x438, 0x43a, 0x430, 0x20, 0x43a, 0x43e, 0x440, 0x435, 0x44f],
       encode_runes [0x440, 0x435, 0x441, 0x43f, 0x443, 0x431, 0x43b, 0x438, 0x43a, 0x438, 0x20, 0x43a, 0x43e, 0x440, 0x435, 0x44f]]) \<comment> \<open>respublika koreya\<close>,
     (encode_runes [0x442, 0x443, 0x440, 0x446, 0x438, 0x44f],
      [encode_runes [0x442, 0x443, 0x440, 0x446, 0x438, 0x44f],
       encode_runes [0x442, 0x443, 0x440, 0x446, 0x438, 0x438]]) \<comment> \<open>turtsiya\<close>,
     (encode_runes [0x438, 0x43d, 0x434, 0x438, 0x44f],
      [encode_runes [0x438, 0x43d, 0x434, 0x438, 0x44f], encode_runes [0x438, 0x43d, 0x434, 0x438, 0x438]]) \<comment> \<open>indiya\<close>,
     (encode_runes [0x441, 0x448, 0x430],
      [encode_runes [0x441, 0x448, 0x430]]) \<comment> \<open>ssha\<close>,
     (encode_runes [0x433, 0x435, 0x440, 0x43c, 0x430, 0x43d, 0x438, 0x44f],
      [encode_runes [0x433, 0x435, 0x440, 0x43c, 0x430, 0x43d, 0x438, 0x44f],
       encode_runes [0x433, 0x435, 0x440, 0x43c, 0x430, 0x43d, 0x438, 0x438]]) \<comment> \<open>germaniya\<close>,
     (encode_runes [0x444, 0x440, 0x433],
      [encode_runes [0x444, 0x440, 0x433]]) \<comment> \<open>frg\<close>,
     (encode_runes [0x432, 0x435, 0x43b, 0x438, 0x43a, 0x43e, 0x431, 0x440, 0x438, 0x442, 0x430, 0x43d, 0x438, 0x44f],
      [encode_runes [0x432, 0x435, 0x43b, 0x438, 0x43a, 0x43e, 0x431, 0x440, 0x438, 0x442, 0x430, 0x43d, 0x438, 0x44f],
       encode_runes [0x432, 0x435, 0x43b, 0x438, 0x43a, 0x43e, 0x431, 0x440, 0x438, 0x442, 0x430, 0x43d, 0x438, 0x438],
       encode_runes [0x432, 0x435, 0x43b, 0x438, 0x43a, 0x43e, 0x431, 0x440, 0x438, 0x442, 0x430, 0x43d, 0x438, 0x44e]]) \<comment> \<open>velikobritaniya\<close>,
     (encode_runes [0x438, 0x437, 0x440, 0x430, 0x438, 0x43b, 0x44c],
      [encode_runes [0x438, 0x437, 0x440, 0x430, 0x438, 0x43b, 0x44c],
       encode_runes [0x438, 0x437, 0x440, 0x430, 0x438, 0x43b, 0x44f]]) \<comment> \<open>izrail\<close>,
     (encode_runes [0x440, 0x443, 0x43c, 0x44b, 0x43d, 0x438, 0x44f],
      [encode_runes [0x440, 0x443, 0x43c, 0x44b, 0x43d, 0x438, 0x44f],
       encode_runes [0x440, 0x443, 0x43c, 0x44b, 0x43d, 0x438, 0x438]]) \<comment> \<open>rumyniya\<close>,
     (encode_runes [0x444, 0x440, 0x430, 0x43d, 0x446, 0x438, 0x44f],
      [encode_runes [0x444, 0x440, 0x430, 0x43d, 0x446, 0x438, 0x44f],
       encode_runes [0x444, 0x440, 0x430, 0x43d, 0x446, 0x438, 0x438],
       encode_runes [0x444, 0x440, 0x430, 0x43d, 0x446, 0x438, 0x44e],
       encode_runes [0x444, 0x440, 0x430, 0x43d, 0x446, 0x438, 0x435, 0x439]]) \<comment> \<open>frantsiya\<close>,
     (encode_runes [0x444, 0x440, 0x430, 0x43d, 0x446, 0x443, 0x437, 0x441, 0x43a, 0x430, 0x44f, 0x20, 0x440, 0x435, 0x441, 0x43f, 0x443, 0x431, 0x43b, 0x438, 0x43a, 0x430],
      [encode_runes [0x444, 0x440, 0x430, 0x43d, 0x446, 0x443, 0x437, 0x441, 0x43a, 0x430, 0x44f, 0x20, 0x440, 0x435, 0x441, 0x43f, 0x443, 0x431, 0x43b, 0x438, 0x43a, 0x430],
       encode_runes [0x444, 0x440, 0x430, 0x43d, 0x446, 0x443, 0x437, 0x441, 0x43a, 0x43e, 0x439, 0x20, 0x440, 0x435, 0x441, 0x43f, 0x443, 0x431, 0x43b, 0x438, 0x43a, 0x438],
       encode_runes [0x444, 0x440, 0x430, 0x43d, 0x446, 0x443, 0x437, 0x441, 0x43a, 0x43e, 0x439, 0x20, 0x440, 0x435, 0x441, 0x43f, 0x443, 0x431, 0x43b, 0x438, 0x43a, 0x43e, 0x439]]) \<comment> \<open>frantsuzskaya respublika\<close>,
     (encode_runes [0x438, 0x441, 0x43f, 0x430, 0x43d, 0x438, 0x44f],
      [encode_runes [0x438, 0x441, 0x43f, 0x430, 0x43d, 0x438, 0x44f],
       encode_runes [0x438, 0x441, 0x43f, 0x430, 0x43d, 0x438, 0x438],
       encode_runes [0x438, 0x441, 0x43f, 0x430, 0x43d, 0x438, 0x44e],
       encode_runes [0x438, 0x441, 0x43f, 0x430, 0x43d, 0x438, 0x435, 0x439]]) \<comment> \<open>ispaniya\<close>,
     (encode_runes [0x438, 0x442, 0x430, 0x43b, 0x438, 0x44f],
      [encode_runes [0x438, 0x442, 0x430, 0x43b, 0x438, 0x44f],
       encode_runes [0x438, 0x442, 0x430, 0x43b, 0x438, 0x438],
       encode_runes [0x438, 0x442, 0x430, 0x43b, 0x438, 0x44e],
       encode_runes [0x438, 0x442, 0x430, 0x43b, 0x438, 0x435, 0x439]]) \<comment> \<open>italiya\<close>,
     (encode_runes [0x441, 0x43e, 0x446, 0x438, 0x430, 0x43b, 0x438, 0x441, 0x442, 0x438, 0x447, 0x435, 0x441, 0x43a, 0x430, 0x44f, 0x20, 0x440, 0x435, 0x441, 0x43f, 0x443, 0x431, 0x43b, 0x438, 0x43a, 0x430, 0x20, 0x432, 0x44c, 0x435, 0x442, 0x43d, 0x430, 0x43c],
      [encode_runes [0x441, 0x43e, 0x446, 0x438, 0x430, 0x43b, 0x438, 0x441, 0x442, 0x438, 0x447, 0x435, 0x441, 0x43a, 0x430, 0x44f, 0x20, 0x440, 0x435, 0x441, 0x43f, 0x443, 0x431, 0x43b, 0x438, 0x43a, 0x430, 0x20, 0x432, 0x44c, 0x435, 0x442, 0x43d, 0x430, 0x43c],
       encode_runes [0x441, 0x43e, 0x446, 0x438, 0x430, 0x43b, 0x438, 0x441, 0x442, 0x438, 0x447, 0x435, 0x441, 0x43a, 0x43e, 0x439, 0x20, 0x440, 0x435, 0x441, 0x43f, 0x443, 0x431, 0x43b, 0x438, 0x43a, 0x438, 0x20, 0x432, 0x44c, 0x435, 0x442, 0x43d, 0x430, 0x43c]]) \<comment> \<open>sotsialisticheskaya respublika vetnam\<close>,
     (''azerbaijani'',
      [''azerbaijani'']),
     (''russian'',
      [''russian'']),
     (''kazakh'',
      [''kazakh'']),
     (''uzbek'',
      [''uzbek'']),
     (''tajik'',
      [''tajik'']),
     (''armenian'',
      [''armenian'']),
     (''georgian'',
      [''georgian'']),
     (''moldovan'',
      [''moldovan'']),
     (''ukrainian'',
      [''ukrainian'']),
     (''turkmen'',
      [''turkmen'']),
     (''vietnamese'',
      [''vietnamese'']),
     (''chinese'',
      [''chinese'']),
     (''korean'',
      [''korean'']),
     (''turkish'',
      [''turkish'']),
     (''indian'',
      [''indian'']),
     (''german'',
      [''german'']),
     (''israeli'',
      [''israeli'']),
     (''belarusian'',
      [''belarusian'']),
     (''kyrgyz'',
      [''kyrgyz''])]"

definition otherUNStates :: "string list" where
  "otherUNStates =
    [encode_runes [0x430, 0x43b, 0x436, 0x438, 0x440] \<comment> \<open>alzhir\<close>,
     encode_runes [0x430, 0x43d, 0x433, 0x43e, 0x43b, 0x430] \<comment> \<open>angola\<close>,
     encode_runes [0x431, 0x435, 0x43d, 0x438, 0x43d] \<comment> \<open>benin\<close>,
     encode_runes [0x431, 0x43e, 0x442, 0x441, 0x432, 0x430, 0x43d, 0x430] \<comment> \<open>botsvana\<close>,
     encode_runes [0x431, 0x443, 0x440, 0x43a, 0x438, 0x43d, 0x430, 0x2d, 0x444, 0x430, 0x441, 0x43e] \<comment> \<open>burkina-faso\<close>,
     encode_runes [0x431, 0x443, 0x440, 0x443, 0x43d, 0x434, 0x438] \<comment> \<open>burundi\<close>,
     encode_runes [0x433, 0x430, 0x431, 0x43e, 0x43d] \<comment> \<open>gabon\<close>,
     encode_runes [0x433, 0x430, 0x43c, 0x431, 0x438, 0x44f] \<comment> \<open>gambiya\<close>,
     encode_runes [0x433, 0x430, 0x43d, 0x430] \<comment> \<open>gana\<close>,
     encode_runes [0x433, 0x432, 0x438, 0x43d, 0x435, 0x44f] \<comment> \<open>gvineya\<close>,
     encode_runes [0x433, 0x432, 0x438, 0x43d, 0x435, 0x44f, 0x2d, 0x431, 0x438, 0x441, 0x430, 0x443] \<comment> \<open>gvineya-bisau\<close>,
     encode_runes [0x434, 0x436, 0x438, 0x431, 0x443, 0x442, 0x438] \<comment> \<open>dzhibuti\<close>,
     encode_runes [0x435, 0x433, 0x438, 0x43f, 0x435, 0x442] \<comment> \<open>egipet\<close>,
     encode_runes [0x437, 0x430, 0x43c, 0x431, 0x438, 0x44f] \<comment> \<open>zambiya\<close>,
     encode_runes [0x437, 0x438, 0x43c, 0x431, 0x430, 0x431, 0x432, 0x435] \<comment> \<open>zimbabve\<close>,
     encode_runes [0x43a, 0x430, 0x431, 0x43e, 0x2d, 0x432, 0x435, 0x440, 0x434, 0x435] \<comment> \<open>kabo-verde\<close>,
     encode_runes [0x43a, 0x430, 0x43c, 0x435, 0x440, 0x443, 0x43d] \<comment> \<open>kamerun\<close>,
     encode_runes [0x43a, 0x435, 0x43d, 0x438, 0x44f] \<comment> \<open>keniya\<close>,
     encode_runes [0x43a, 0x43e, 0x43c, 0x43e, 0x440, 0x44b] \<comment> \<open>komory\<close>,
     encode_runes [0x43a, 0x43e, 0x43d, 0x433, 0x43e] \<comment> \<open>kongo\<close>,
     encode_runes [0x434, 0x435, 0x43c, 0x43e, 0x43a, 0x440, 0x430, 0x442, 0x438, 0x447, 0x435, 0x441, 0x43a, 0x430, 0x44f, 0x20, 0x440, 0x435, 0x441, 0x43f, 0x443, 0x431, 0x43b, 0x438, 0x43a, 0x430, 0x20, 0x43a, 0x43e, 0x43d, 0x433, 0x43e] \<comment> \<open>demokraticheskaya respublika kongo\<close>,
     encode_runes [0x43a, 0x43e, 0x442, 0x2d, 0x434, 0x2019, 0x438, 0x432, 0x443, 0x430, 0x440] \<comment> \<open>kot-d-ivuar\<close>,
     encode_runes [0x43b, 0x435, 0x441, 0x43e, 0x442, 0x43e] \<comment> \<open>lesoto\<close>,
     encode_runes [0x43b, 0x438, 0x431, 0x435, 0x440, 0x438, 0x44f] \<comment> \<open>liberiya\<close>,
     encode_runes [0x43b, 0x438, 0x432, 0x438, 0x44f] \<comment> \<open>liviya\<close>,
     encode_runes [0x43c, 0x430, 0x432, 0x440, 0x438, 0x43a, 0x438, 0x439] \<comment> \<open>mavrikiy\<close>,
     encode_runes [0x43c, 0x430, 0x432, 0x440, 0x438, 0x442, 0x430, 0x43d, 0x438, 0x44f] \<comment> \<open>mavritaniya\<close>,
     encode_runes [0x43c, 0x430, 0x434, 0x430, 0x433, 0x430, 0x441, 0x43a, 0x430, 0x440] \<comment> \<open>madagaskar\<close>,
     encode_runes [0x43c, 0x430, 0x43b, 0x430, 0x432, 0x438] \<comment> \<open>malavi\<close>,
     encode_runes [0x43c, 0x430, 0x43b, 0x438] \<comment> \<open>mali\<close>,
     encode_runes [0x43c, 0x430, 0x440, 0x43e, 0x43a, 0x43a, 0x43e] \<comment> \<open>marokko\<close>,
     encode_runes [0x43c, 0x43e, 0x437, 0x430, 0x43c, 0x431, 0x438, 0x43a] \<comment> \<open>mozambik\<close>,
     encode_runes [0x43d, 0x430, 0x43c, 0x438, 0x431, 0x438, 0x44f] \<comment> \<open>namibiya\<close>,
     encode_runes [0x43d, 0x438, 0x433, 0x435, 0x440] \<comment> \<open>niger\<close>,
     encode_runes [0x43d, 0x438, 0x433, 0x435, 0x440, 0x438, 0x44f] \<comment> \<open>nigeriya\<close>,
     encode_runes [0x440, 0x443, 0x430, 0x43d, 0x434, 0x430] \<comment> \<open>ruanda\<close>,
     encode_runes [0x441, 0x430, 0x43d, 0x2d, 0x442, 0x43e, 0x43c, 0x435, 0x20, 0x438, 0x20, 0x43f, 0x440, 0x438, 0x43d, 0x441, 0x438, 0x43f, 0x438] \<comment> \<open>san-tome i prinsipi\<close>,
     encode_runes [0x44d, 0x441, 0x432, 0x430, 0x442, 0x438, 0x43d, 0x438] \<comment> \<open>esvatini\<close>,
     encode_runes [0x441, 0x432, 0x430, 0x437, 0x438, 0x43b, 0x435, 0x43d, 0x434] \<comment> \<open>svazilend\<close>,
     encode_runes [0x441, 0x435, 0x439, 0x448, 0x435, 0x43b, 0x44b] \<comment> \<open>seyshely\<close>,
     encode_runes [0x441, 0x435, 0x43d, 0x435, 0x433, 0x430, 0x43b] \<comment> \<open>senegal\<close>,
     encode_runes [0x441, 0x43e, 0x43c, 0x430, 0x43b, 0x438] \<comment> \<open>somali\<close>,
     encode_runes [0x441, 0x443, 0x434, 0x430, 0x43d] \<comment> \<open>sudan\<close>,
     encode_runes [0x44e, 0x436, 0x43d, 0x44b, 0x439, 0x20, 0x441, 0x443, 0x434, 0x430, 0x43d] \<comment> \<open>yuzhnyy sudan\<close>,
     encode_runes [0x441, 0x44c, 0x435, 0x440, 0x440, 0x430, 0x2d, 0x43b, 0x435, 0x43e, 0x43d, 0x435] \<comment> \<open>serra-leone\<close>,
     encode_runes [0x442, 0x430, 0x43d, 0x437, 0x430, 0x43d, 0x438, 0x44f] \<comment> \<open>tanzaniya\<close>,
     encode_runes [0x442, 0x43e, 0x433, 0x43e] \<comment> \<open>togo\<close>,
     encode_runes [0x442, 0x443, 0x43d, 0x438, 0x441] \<comment> \<open>tunis\<close>,
     encode_runes [0x443, 0x433, 0x430, 0x43d, 0x434, 0x430] \<comment> \<open>uganda\<close>,
     encode_runes [0x446, 0x435, 0x43d, 0x442, 0x440, 0x430, 0x43b, 0x44c, 0x43d, 0x43e, 0x430, 0x444, 0x440, 0x438, 0x43a, 0x430, 0x43d, 0x441, 0x43a, 0x430, 0x44f, 0x20, 0x440, 0x435, 0x441, 0x43f, 0x443, 0x431, 0x43b, 0x438, 0x43a, 0x430] \<comment> \<open>tsentralnoafrikanskaya respublika\<close>,
     encode_runes [0x447, 0x430, 0x434] \<comment> \<open>chad\<close>,
     encode_runes [0x44d, 0x43a, 0x432, 0x430, 0x442, 0x43e, 0x440, 0x438, 0x430, 0x43b, 0x44c, 0x43d, 0x430, 0x44f, 0x20, 0x433, 0x432, 0x438, 0x43d, 0x435, 0x44f] \<comment> \<open>ekvatorialnaya gvineya\<close>,
     encode_runes [0x44d, 0x440, 0x438, 0x442, 0x440, 0x435, 0x44f] \<comment> \<open>eritreya\<close>,
     encode_runes [0x44d, 0x444, 0x438, 0x43e, 0x43f, 0x438, 0x44f] \<comment> \<open>efiopiya\<close>,
     encode_runes [0x44e, 0x430, 0x440] \<comment> \<open>yuar\<close>,
     encode_runes [0x44e, 0x436, 0x43d, 0x43e, 0x2d, 0x430, 0x444, 0x440, 0x438, 0x43a, 0x430, 0x43d, 0x441, 0x43a, 0x430, 0x44f, 0x20, 0x440, 0x435, 0x441, 0x43f, 0x443, 0x431, 0x43b, 0x438, 0x43a, 0x430] \<comment> \<open>yuzhno-afrikanskaya respublika\<close>,
     encode_runes [0x430, 0x444, 0x433, 0x430, 0x43d, 0x438, 0x441, 0x442, 0x430, 0x43d] \<comment> \<open>afganistan\<close>,
     encode_runes [0x431, 0x430, 0x43d, 0x433, 0x43b, 0x430, 0x434, 0x435, 0x448] \<comment> \<open>bangladesh\<close>,
     encode_runes [0x431, 0x430, 0x445, 0x440, 0x435, 0x439, 0x43d] \<comment> \<open>bakhreyn\<close>,
     encode_runes [0x431, 0x440, 0x443, 0x43d, 0x435, 0x439] \<comment> \<open>bruney\<close>,
     encode_runes [0x431, 0x443, 0x442, 0x430, 0x43d] \<comment> \<open>butan\<close>,
     encode_runes [0x432, 0x43e, 0x441, 0x442, 0x43e, 0x447, 0x43d, 0x44b, 0x439, 0x20, 0x442, 0x438, 0x43c, 0x43e, 0x440] \<comment> \<open>vostochnyy timor\<close>,
     encode_runes [0x438, 0x43d, 0x434, 0x43e, 0x43d, 0x435, 0x437, 0x438, 0x44f] \<comment> \<open>indoneziya\<close>,
     encode_runes [0x438, 0x43e, 0x440, 0x434, 0x430, 0x43d, 0x438, 0x44f] \<comment> \<open>iordaniya\<close>,
     encode_runes [0x438, 0x440, 0x430, 0x43a] \<comment> \<open>irak\<close>,
     encode_runes [0x438, 0x440, 0x430, 0x43d] \<comment> \<open>iran\<close>,
     encode_runes [0x439, 0x435, 0x43c, 0x435, 0x43d] \<comment> \<open>yemen\<close>,
     encode_runes [0x43a, 0x430, 0x43c, 0x431, 0x43e, 0x434, 0x436, 0x430] \<comment> \<open>kambodzha\<close>,
     encode_runes [0x43a, 0x430, 0x442, 0x430, 0x440] \<comment> \<open>katar\<close>,
     encode_runes [0x43a, 0x438, 0x43f, 0x440] \<comment> \<open>kipr\<close>,
     encode_runes [0x43a, 0x43d, 0x434, 0x440] \<comment> \<open>kndr\<close>,
     encode_runes [0x43a, 0x443, 0x432, 0x435, 0x439, 0x442] \<comment> \<open>kuveyt\<close>,
     encode_runes [0x43b, 0x430, 0x43e, 0x441] \<comment> \<open>laos\<close>,
     encode_runes [0x43b, 0x438, 0x432, 0x430, 0x43d] \<comment> \<open>livan\<close>,
     encode_runes [0x43c, 0x430, 0x43b, 0x430, 0x439, 0x437, 0x438, 0x44f] \<comment> \<open>malayziya\<close>,
     encode_runes [0x43c, 0x430, 0x43b, 0x44c, 0x434, 0x438, 0x432, 0x44b] \<comment> \<open>maldivy\<close>,
     encode_runes [0x43c, 0x43e, 0x43d, 0x433, 0x43e, 0x43b, 0x438, 0x44f] \<comment> \<open>mongoliya\<close>,
     encode_runes [0x43c, 0x44c, 0x44f, 0x43d, 0x43c, 0x430] \<comment> \<open>myanma\<close>,
     encode_runes [0x43d, 0x435, 0x43f, 0x430, 0x43b] \<comment> \<open>nepal\<close>,
     encode_runes [0x43e, 0x430, 0x44d] \<comment> \<open>oae\<close>,
     encode_runes [0x43e, 0x43c, 0x430, 0x43d] \<comment> \<open>oman\<close>,
     encode_runes [0x43f, 0x430, 0x43a, 0x438, 0x441, 0x442, 0x430, 0x43d] \<comment> \<open>pakistan\<close>,
     encode_runes [0x441, 0x430, 0x443, 0x434, 0x43e, 0x432, 0x441, 0x43a, 0x430, 0x44f, 0x20, 0x430, 0x440, 0x430, 0x432, 0x438, 0x44f] \<comment> \<open>saudovskaya araviya\<close>,
     encode_runes [0x441, 0x438, 0x43d, 0x433, 0x430, 0x43f, 0x443, 0x440] \<comment> \<open>singapur\<close>,
     encode_runes [0x441, 0x438, 0x440, 0x438, 0x44f] \<comment> \<open>siriya\<close>,
     encode_runes [0x442, 0x430, 0x438, 0x43b, 0x430, 0x43d, 0x434] \<comment> \<open>tailand\<close>,
     encode_runes [0x444, 0x438, 0x43b, 0x438, 0x43f, 0x43f, 0x438, 0x43d, 0x44b] \<comment> \<open>filippiny\<close>,
     encode_runes [0x448, 0x440, 0x438, 0x2d, 0x43b, 0x430, 0x43d, 0x43a, 0x430] \<comment> \<open>shri-lanka\<close>,
     encode_runes [0x44f, 0x43f, 0x43e, 0x43d, 0x438, 0x44f] \<comment> \<open>yaponiya\<close>,
     encode_runes [0x430, 0x432, 0x441, 0x442, 0x440, 0x438, 0x44f] \<comment> \<open>avstriya\<close>,
     encode_runes [0x430, 0x43b, 0x431, 0x430, 0x43d, 0x438, 0x44f] \<comment> \<open>albaniya\<close>,
     encode_runes [0x430, 0x43d, 0x434, 0x43e, 0x440, 0x440, 0x430] \<comment> \<open>andorra\<close>,
     encode_runes [0x431, 0x435, 0x43b, 0x44c, 0x433, 0x438, 0x44f] \<comment> \<open>belgiya\<close>,
     encode_runes [0x431, 0x43e, 0x43b, 0x433, 0x430, 0x440, 0x438, 0x44f] \<comment> \<open>bolgariya\<close>,
     encode_runes [0x431, 0x43e, 0x441, 0x43d, 0x438, 0x44f, 0x20, 0x438, 0x20, 0x433, 0x435, 0x440, 0x446, 0x435, 0x433, 0x43e, 0x432, 0x438, 0x43d, 0x430] \<comment> \<open>bosniya i gertsegovina\<close>,
     encode_runes [0x432, 0x430, 0x442, 0x438, 0x43a, 0x430, 0x43d] \<comment> \<open>vatikan\<close>,
     encode_runes [0x432, 0x435, 0x43d, 0x433, 0x440, 0x438, 0x44f] \<comment> \<open>vengriya\<close>,
     encode_runes [0x433, 0x440, 0x435, 0x446, 0x438, 0x44f] \<comment> \<open>gretsiya\<close>,
     encode_runes [0x434, 0x430, 0x43d, 0x438, 0x44f] \<comment> \<open>daniya\<close>,
     encode_runes [0x438, 0x440, 0x43b, 0x430, 0x43d, 0x434, 0x438, 0x44f] \<comment> \<open>irlandiya\<close>,
     encode_runes [0x438, 0x441, 0x43b, 0x430, 0x43d, 0x434, 0x438, 0x44f] \<comment> \<open>islandiya\<close>,
     encode_runes [0x43b, 0x430, 0x442, 0x432, 0x438, 0x44f] \<comment> \<open>latviya\<close>,
     encode_runes [0x43b, 0x438, 0x442, 0x432, 0x430] \<comment> \<open>litva\<close>,
     encode_runes [0x43b, 0x438, 0x445, 0x442, 0x435, 0x43d, 0x448, 0x442, 0x435, 0x439, 0x43d] \<comment> \<open>likhtenshteyn\<close>,
     encode_runes [0x43b, 0x44e, 0x43a, 0x441, 0x435, 0x43c, 0x431, 0x443, 0x440, 0x433] \<comment> \<open>lyuksemburg\<close>,
     encode_runes [0x43c, 0x430, 0x43b, 0x44c, 0x442, 0x430] \<comment> \<open>malta\<close>,
     encode_runes [0x43c, 0x43e, 0x43d, 0x430, 0x43a, 0x43e] \<comment> \<open>monako\<close>,
     encode_runes [0x43d, 0x438, 0x434, 0x435, 0x440, 0x43b, 0x430, 0x43d, 0x434, 0x44b] \<comment> \<open>niderlandy\<close>,
     encode_runes [0x441, 0x435, 0x432, 0x435, 0x440, 0x43d, 0x430, 0x44f, 0x20, 0x43c, 0x430, 0x43a, 0x435, 0x434, 0x43e, 0x43d, 0x438, 0x44f] \<comment> \<open>severnaya makedoniya\<close>,
     encode_runes [0x43d, 0x43e, 0x440, 0x432, 0x435, 0x433, 0x438, 0x44f] \<comment> \<open>norvegiya\<close>,
     encode_runes [0x43f, 0x43e, 0x43b, 0x44c, 0x448, 0x430] \<comment> \<open>polsha\<close>,
     encode_runes [0x43f, 0x43e, 0x440, 0x442, 0x443, 0x433, 0x430, 0x43b, 0x438, 0x44f] \<comment> \<open>portugaliya\<close>,
     encode_runes [0x441, 0x430, 0x43d, 0x2d, 0x43c, 0x430, 0x440, 0x438, 0x43d, 0x43e] \<comment> \<open>san-marino\<close>,
     encode_runes [0x441, 0x435, 0x440, 0x431, 0x438, 0x44f] \<comment> \<open>serbiya\<close>,
     encode_runes [0x441, 0x43b, 0x43e, 0x432, 0x430, 0x43a, 0x438, 0x44f] \<comment> \<open>slovakiya\<close>,
     encode_runes [0x441, 0x43b, 0x43e, 0x432, 0x435, 0x43d, 0x438, 0x44f] \<comment> \<open>sloveniya\<close>,
     encode_runes [0x444, 0x438, 0x43d, 0x43b, 0x44f, 0x43d, 0x434, 0x438, 0x44f] \<comment> \<open>finlyandiya\<close>,
     encode_runes [0x445, 0x43e, 0x440, 0x432, 0x430, 0x442, 0x438, 0x44f] \<comment> \<open>khorvatiya\<close>,
     encode_runes [0x447, 0x435, 0x440, 0x43d, 0x43e, 0x433, 0x43e, 0x440, 0x438, 0x44f] \<comment> \<open>chernogoriya\<close>,
     encode_runes [0x447, 0x435, 0x445, 0x438, 0x44f] \<comment> \<open>chekhiya\<close>,
     encode_runes [0x448, 0x432, 0x435, 0x439, 0x446, 0x430, 0x440, 0x438, 0x44f] \<comment> \<open>shveytsariya\<close>,
     encode_runes [0x448, 0x432, 0x435, 0x446, 0x438, 0x44f] \<comment> \<open>shvetsiya\<close>,
     encode_runes [0x44d, 0x441, 0x442, 0x43e, 0x43d, 0x438, 0x44f] \<comment> \<open>estoniya\<close>,
     encode_runes [0x430, 0x43d, 0x442, 0x438, 0x433, 0x443, 0x430, 0x20, 0x438, 0x20, 0x431, 0x430, 0x440, 0x431, 0x443, 0x434, 0x430] \<comment> \<open>antigua i barbuda\<close>,
     encode_runes [0x430, 0x440, 0x433, 0x435, 0x43d, 0x442, 0x438, 0x43d, 0x430] \<comment> \<open>argentina\<close>,
     encode_runes [0x431, 0x430, 0x433, 0x430, 0x43c, 0x44b] \<comment> \<open>bagamy\<close>,
     encode_runes [0x431, 0x430, 0x440, 0x431, 0x430, 0x434, 0x43e, 0x441] \<comment> \<open>barbados\<close>,
     encode_runes [0x431, 0x435, 0x43b, 0x438, 0x437] \<comment> \<open>beliz\<close>,
     encode_runes [0x431, 0x43e, 0x43b, 0x438, 0x432, 0x438, 0x44f] \<comment> \<open>boliviya\<close>,
     encode_runes [0x431, 0x440, 0x430, 0x437, 0x438, 0x43b, 0x438, 0x44f] \<comment> \<open>braziliya\<close>,
     encode_runes [0x432, 0x435, 0x43d, 0x435, 0x441, 0x443, 0x44d, 0x43b, 0x430] \<comment> \<open>venesuela\<close>,
     encode_runes [0x433, 0x430, 0x438, 0x442, 0x438] \<comment> \<open>gaiti\<close>,
     encode_runes [0x433, 0x430, 0x439, 0x430, 0x43d, 0x430] \<comment> \<open>gayana\<close>,
     encode_runes [0x433, 0x432, 0x430, 0x442, 0x435, 0x43c, 0x430, 0x43b, 0x430] \<comment> \<open>gvatemala\<close>,
     encode_runes [0x433, 0x43e, 0x43d, 0x434, 0x443, 0x440, 0x430, 0x441] \<comment> \<open>gonduras\<close>,
     encode_runes [0x433, 0x440, 0x435, 0x43d, 0x430, 0x434, 0x430] \<comment> \<open>grenada\<close>,
     encode_runes [0x434, 0x43e, 0x43c, 0x438, 0x43d, 0x438, 0x43a, 0x430] \<comment> \<open>dominika\<close>,
     encode_runes [0x434, 0x43e, 0x43c, 0x438, 0x43d, 0x438, 0x43a, 0x430, 0x43d, 0x441, 0x43a, 0x430, 0x44f, 0x20, 0x440, 0x435, 0x441, 0x43f, 0x443, 0x431, 0x43b, 0x438, 0x43a, 0x430] \<comment> \<open>dominikanskaya respublika\<close>,
     encode_runes [0x43a, 0x430, 0x43d, 0x430, 0x434, 0x430] \<comment> \<open>kanada\<close>,
     encode_runes [0x43a, 0x43e, 0x43b, 0x443, 0x43c, 0x431, 0x438, 0x44f] \<comment> \<open>kolumbiya\<close>,
     encode_runes [0x43a, 0x43e, 0x441, 0x442, 0x430, 0x2d, 0x440, 0x438, 0x43a, 0x430] \<comment> \<open>kosta-rika\<close>,
     encode_runes [0x43a, 0x443, 0x431, 0x430] \<comment> \<open>kuba\<close>,
     encode_runes [0x43c, 0x435, 0x43a, 0x441, 0x438, 0x43a, 0x430] \<comment> \<open>meksika\<close>,
     encode_runes [0x43d, 0x438, 0x43a, 0x430, 0x440, 0x430, 0x433, 0x443, 0x430] \<comment> \<open>nikaragua\<close>,
     encode_runes [0x43f, 0x430, 0x43d, 0x430, 0x43c, 0x430] \<comment> \<open>panama\<close>,
     encode_runes [0x43f, 0x430, 0x440, 0x430, 0x433, 0x432, 0x430, 0x439] \<comment> \<open>paragvay\<close>,
     encode_runes [0x43f, 0x435, 0x440, 0x443] \<comment> \<open>peru\<close>,
     encode_runes [0x441, 0x430, 0x43b, 0x44c, 0x432, 0x430, 0x434, 0x43e, 0x440] \<comment> \<open>salvador\<close>,
     encode_runes [0x441, 0x435, 0x43d, 0x442, 0x2d, 0x432, 0x438, 0x43d, 0x441, 0x435, 0x43d, 0x442, 0x20, 0x438, 0x20, 0x433, 0x440, 0x435, 0x43d, 0x430, 0x434, 0x438, 0x43d, 0x44b] \<comment> \<open>sent-vinsent i grenadiny\<close>,
     encode_runes [0x441, 0x435, 0x43d, 0x442, 0x2d, 0x43a, 0x438, 0x442, 0x441, 0x20, 0x438, 0x20, 0x43d, 0x435, 0x432, 0x438, 0x441] \<comment> \<open>sent-kits i nevis\<close>,
     encode_runes [0x441, 0x435, 0x43d, 0x442, 0x2d, 0x43b, 0x44e, 0x441, 0x438, 0x44f] \<comment> \<open>sent-lyusiya\<close>,
     encode_runes [0x441, 0x443, 0x440, 0x438, 0x43d, 0x430, 0x43c] \<comment> \<open>surinam\<close>,
     encode_runes [0x442, 0x440, 0x438, 0x43d, 0x438, 0x434, 0x430, 0x434, 0x20, 0x438, 0x20, 0x442, 0x43e, 0x431, 0x430, 0x433, 0x43e] \<comment> \<open>trinidad i tobago\<close>,
     encode_runes [0x443, 0x440, 0x443, 0x433, 0x432, 0x430, 0x439] \<comment> \<open>urugvay\<close>,
     encode_runes [0x447, 0x438, 0x43b, 0x438] \<comment> \<open>chili\<close>,
     encode_runes [0x44d, 0x43a, 0x432, 0x430, 0x434, 0x43e, 0x440] \<comment> \<open>ekvador\<close>,
     encode_runes [0x44f, 0x43c, 0x430, 0x439, 0x43a, 0x430] \<comment> \<open>yamayka\<close>,
     encode_runes [0x430, 0x432, 0x441, 0x442, 0x440, 0x430, 0x43b, 0x438, 0x44f] \<comment> \<open>avstraliya\<close>,
     encode_runes [0x432, 0x430, 0x43d, 0x443, 0x430, 0x442, 0x443] \<comment> \<open>vanuatu\<close>,
     encode_runes [0x43a, 0x438, 0x440, 0x438, 0x431, 0x430, 0x442, 0x438] \<comment> \<open>kiribati\<close>,
     encode_runes [0x43c, 0x430, 0x440, 0x448, 0x430, 0x43b, 0x43b, 0x43e, 0x432, 0x44b, 0x20, 0x43e, 0x441, 0x442, 0x440, 0x43e, 0x432, 0x430] \<comment> \<open>marshallovy ostrova\<close>,
     encode_runes [0x43c, 0x438, 0x43a, 0x440, 0x43e, 0x43d, 0x435, 0x437, 0x438, 0x44f] \<comment> \<open>mikroneziya\<close>,
     encode_runes [0x43d, 0x430, 0x443, 0x440, 0x443] \<comment> \<open>nauru\<close>,
     encode_runes [0x43d, 0x43e, 0x432, 0x430, 0x44f, 0x20, 0x437, 0x435, 0x43b, 0x430, 0x43d, 0x434, 0x438, 0x44f] \<comment> \<open>novaya zelandiya\<close>,
     encode_runes [0x43f, 0x430, 0x43b, 0x430, 0x443] \<comment> \<open>palau\<close>,
     encode_runes [0x43f, 0x430, 0x43f, 0x443, 0x430, 0x2d, 0x43d, 0x43e, 0x432, 0x430, 0x44f, 0x20, 0x433, 0x432, 0x438, 0x43d, 0x435, 0x44f] \<comment> \<open>papua-novaya gvineya\<close>,
     encode_runes [0x441, 0x430, 0x43c, 0x43e, 0x430] \<comment> \<open>samoa\<close>,
     encode_runes [0x441, 0x43e, 0x43b, 0x43e, 0x43c, 0x43e, 0x43d, 0x43e, 0x432, 0x44b, 0x20, 0x43e, 0x441, 0x442, 0x440, 0x43e, 0x432, 0x430] \<comment> \<open>solomonovy ostrova\<close>,
     encode_runes [0x442, 0x43e, 0x43d, 0x433, 0x430] \<comment> \<open>tonga\<close>,
     encode_runes [0x442, 0x443, 0x432, 0x430, 0x43b, 0x443] \<comment> \<open>tuvalu\<close>,
     encode_runes [0x444, 0x438, 0x434, 0x436, 0x438] \<comment> \<open>fidzhi\<close>]"

text \<open>The endings of \<^verbatim>\<open>declineCountry\<close> for the last letter; \<^term>\<open>None\<close> for a name that does not decline.\<close>

definition country_endings :: "rune \<Rightarrow> (bool \<times> string list) option" where
  "country_endings r =
     (if r = 0x44F then Some (True, [encode_runes [0x438], encode_runes [0x435, 0x439], encode_runes [0x44e]])
      else if r = 0x430 then Some (True, [encode_runes [0x44b], encode_runes [0x435], encode_runes [0x43e, 0x439], encode_runes [0x443]])
      else if r = 0x439 then Some (True, [encode_runes [0x44f], encode_runes [0x435, 0x43c], encode_runes [0x435]])
      else if r = 0x44C then Some (True, [encode_runes [0x438], encode_runes [0x44c, 0x44e]])
      else if r = 0x43E \<or> r = 0x435 \<or> r = 0x438 \<or> r = 0x443 \<or> r = 0x44B then None
      else Some (False, [encode_runes [0x430], encode_runes [0x435], encode_runes [0x43e, 0x43c], encode_runes [0x443]]))"

definition Join :: "string list \<Rightarrow> string" where
  "Join ws = (case ws of [] \<Rightarrow> '''' | w # vs \<Rightarrow> foldl (\<lambda>s v. s @ '' '' @ v) w vs)"

definition declineCountry :: "string \<Rightarrow> string list" where
  "declineCountry nom =
     (let ws = Fields nom in
      if ws = [] then []
      else let l = last ws; r = runes l in
        if r = [] then []
        else let head = (if length ws > 1 then Join (butlast ws) @ '' '' else '''') in
          case country_endings (last r) of
            None \<Rightarrow> []
          | Some (drops, endings) \<Rightarrow>
              let stem = (if drops then encode_runes (butlast r) else l)
              in map (\<lambda>e. head @ stem @ e) endings)"

text \<open>
  The insertion sort of \<^verbatim>\<open>buildCountryFormList\<close>: an element moves left over the shorter ones, the prefix to its
  left being sorted.
\<close>

fun insert_desc :: "string \<Rightarrow> string list \<Rightarrow> string list" where
  "insert_desc x [] = [x]"
| "insert_desc x (y # ys) = (if length x > length y then x # y # ys else y # insert_desc x ys)"

definition country_words :: "string list" where
  "country_words =
     concat (map snd countryForms) @
     concat (map (\<lambda>nom. if nom \<in> set (map fst countryForms) then [] else nom # declineCountry nom) otherUNStates)"

definition buildCountryFormList :: "string list" where
  "buildCountryFormList = foldl (\<lambda>fs x. insert_desc x fs) [] country_words"

definition republicRe :: rx where
  "republicRe = rx_cats
    [rx_lit [0x440, 0x435, 0x441, 0x43f, 0x443, 0x431, 0x43b, 0x438, 0x43a] \<comment> \<open>respublik\<close>,
     rx_opt (Cls (\<lambda>r. r = 0x430 \<or> r = 0x435 \<or> (0x438 \<le> r \<and> r \<le> 0x439) \<or> r = 0x43e \<or> r = 0x443)),
     rx_plus rx_space,
     rx_plus (Cls (\<lambda>r. (0x430 \<le> r \<and> r \<le> 0x44f) \<or> r = 0x451))]"

definition citizenshipValueRe :: rx where
  "citizenshipValueRe = rx_cats
    [Bot,
     Star rx_space,
     rx_opt (Cap 1 (rx_alts
            [rx_lit [0x3a],
             rx_lit [0x2d],
             rx_lit [0x2014] \<comment> \<open>(U+2014)\<close>])),
     Star rx_space,
     rx_opt (rx_alts
          [rx_cats
              [rx_lit [0x437, 0x430, 0x44f, 0x432, 0x438, 0x442, 0x435, 0x43b, 0x44f] \<comment> \<open>zayavitelya\<close>,
               Star rx_space,
               rx_opt (rx_lit [0x3a]),
               Star rx_space],
           rx_cats
              [rx_lit [0x43a, 0x43b, 0x438, 0x435, 0x43d, 0x442, 0x430] \<comment> \<open>klienta\<close>,
               Star rx_space,
               rx_opt (rx_lit [0x3a]),
               Star rx_space]])]"

definition commonWordCountries :: "string list" where
  "commonWordCountries =
    [encode_runes [0x442, 0x43e, 0x433, 0x43e] \<comment> \<open>togo\<close>,
     encode_runes [0x43c, 0x430, 0x43b, 0x438] \<comment> \<open>mali\<close>,
     encode_runes [0x447, 0x430, 0x434] \<comment> \<open>chad\<close>,
     encode_runes [0x447, 0x430, 0x434, 0x430] \<comment> \<open>chada\<close>,
     encode_runes [0x433, 0x430, 0x43d, 0x430] \<comment> \<open>gana\<close>,
     encode_runes [0x433, 0x430, 0x43d, 0x435] \<comment> \<open>gane\<close>,
     encode_runes [0x433, 0x430, 0x43d, 0x443] \<comment> \<open>ganu\<close>,
     encode_runes [0x43a, 0x443, 0x431, 0x430] \<comment> \<open>kuba\<close>,
     encode_runes [0x43a, 0x443, 0x431, 0x44b] \<comment> \<open>kuby\<close>,
     encode_runes [0x43a, 0x443, 0x431, 0x435] \<comment> \<open>kube\<close>,
     encode_runes [0x43d, 0x438, 0x433, 0x435, 0x440] \<comment> \<open>niger\<close>,
     encode_runes [0x43e, 0x43c, 0x430, 0x43d] \<comment> \<open>oman\<close>,
     encode_runes [0x43e, 0x43c, 0x430, 0x43d, 0x430] \<comment> \<open>omana\<close>,
     encode_runes [0x43f, 0x435, 0x440, 0x443] \<comment> \<open>peru\<close>,
     encode_runes [0x447, 0x438, 0x43b, 0x438] \<comment> \<open>chili\<close>,
     encode_runes [0x444, 0x438, 0x434, 0x436, 0x438] \<comment> \<open>fidzhi\<close>,
     encode_runes [0x441, 0x430, 0x43c, 0x43e, 0x430] \<comment> \<open>samoa\<close>,
     encode_runes [0x442, 0x43e, 0x43d, 0x433, 0x430] \<comment> \<open>tonga\<close>]"

subsection \<open>A value after a keyword\<close>

definition ambiguousCountryWord :: "runtime \<Rightarrow> Text \<Rightarrow> string \<Rightarrow> nat \<Rightarrow> bool" where
  "ambiguousCountryWord rt t form rawStart =
     (if form \<notin> set commonWordCountries then False
      else if length (Raw t) \<le> rawStart then True
      else \<not> uc_isupper rt (fst (DecodeRune (drop rawStart (Raw t)))))"

definition longestCountryPrefix :: "string \<Rightarrow> nat" where
  "longestCountryPrefix rest =
     (let bestLen = foldl (\<lambda>b form. if HasPrefix rest form \<and> length form > b then length form else b) 0
            buildCountryFormList
      in case FindIndex rest republicRe of
           None \<Rightarrow> bestLen
         | Some loc \<Rightarrow> if m_lo loc = 0 \<and> m_hi loc > bestLen then m_hi loc else bestLen)"

definition citizenshipFallbackLen :: "string \<Rightarrow> nat" where
  "citizenshipFallbackLen rest =
     (case FindIndex rest citizenshipFallbackRe of
        None \<Rightarrow> 0
      | Some loc \<Rightarrow>
          let m = take (m_hi loc - m_lo loc) (drop (m_lo loc) rest) in
          if m = '''' then 0
          else if hd (Fields m) \<in> set citizenshipFallbackStop then 0
          else length m)"

definition cz_span :: "nat \<Rightarrow> nat \<Rightarrow> Span" where
  "cz_span a e =
     \<lparr> sp_Start = int a, sp_End = int e, sp_Category = CatCitizenship, sp_Detector = citizenshipKeyword,
       sp_Confidence = 9 / 10 \<rparr>"

definition matchValue :: "runtime \<Rightarrow> Text \<Rightarrow> string \<Rightarrow> nat \<Rightarrow> Span option" where
  "matchValue rt t lower after =
     (let (skipped, labeled) =
            (case FindIndex (drop after lower) citizenshipValueRe of
               None \<Rightarrow> (0, False)
             | Some m \<Rightarrow> (m_hi m, group_range m 1 \<noteq> None));
          rest = drop (after + skipped) lower;
          b0 = longestCountryPrefix rest;
          b1 = (if b0 > 0 \<and> \<not> labeled \<and> ambiguousCountryWord rt t (take b0 rest) (after + skipped) then 0 else b0);
          bestLen = (if b1 = 0 \<and> labeled then citizenshipFallbackLen rest else b1)
      in if bestLen = 0 then None
         else Some (cz_span (after + skipped) (after + skipped + bestLen)))"

text \<open>The loop of \<^verbatim>\<open>matchBefore\<close>: the best start (-1 for none) and its length.\<close>

definition before_step :: "string \<Rightarrow> int \<times> nat \<Rightarrow> string \<Rightarrow> int \<times> nat" where
  "before_step pre best form =
     (case LastIndex pre form of
        None \<Rightarrow> best
      | Some idx \<Rightarrow>
          if TrimSpace (drop (idx + length form) pre) \<noteq> '''' then best
          else if length form > snd best then (int idx, length form) else best)"

definition matchBefore :: "string \<Rightarrow> nat \<Rightarrow> Span option" where
  "matchBefore lower kwStart =
     (let (bestStart, bestLen) = foldl (before_step (take kwStart lower)) (-1, 0) buildCountryFormList
      in if bestStart < 0 then None else Some (cz_span (nat bestStart) (nat bestStart + bestLen)))"

definition matchAtKeyword :: "runtime \<Rightarrow> Text \<Rightarrow> string \<Rightarrow> nat \<Rightarrow> string \<Rightarrow> Span list" where
  "matchAtKeyword rt t lower start kw =
     (case matchValue rt t lower (start + length kw) of None \<Rightarrow> [] | Some s \<Rightarrow> [s]) @
     (if kw = citizenshipKeyword then (case matchBefore lower start of None \<Rightarrow> [] | Some s \<Rightarrow> [s]) else [])"

text \<open>\<^verbatim>\<open>isLetterRune(rune(raw[i]))\<close>: a byte read as a rune.\<close>

definition letter_byte :: "char \<Rightarrow> bool" where
  "letter_byte b = isLetterRune_det (of_char b)"

definition isWholeWord :: "string \<Rightarrow> nat \<Rightarrow> nat \<Rightarrow> bool option" where
  "isWholeWord raw start kwLen =
     do { l \<leftarrow> (if 0 < start then map_option letter_byte (byte_at raw (int start - 1)) else Some False);
          if l then Some False
          else if start + kwLen < length raw \<and> letter_byte (raw ! (start + kwLen)) then Some False
          else Some True }"

lemma Index_progress:
  assumes "Index (drop i s) kw = Some pos" and "kw \<noteq> []"
  shows "i < length s" and "i + pos + length kw \<le> length s"
proof -
  have "occurs_at (drop i s) kw pos" using assms(1) by (simp add: Index_Some)
  from occurs_at_bound [OF this] have b: "pos + length kw \<le> length s - i" by simp
  moreover have "0 < length kw" using assms(2) by simp
  ultimately show "i < length s" and "i + pos + length kw \<le> length s" by linarith+
qed

function scanKeyword :: "runtime \<Rightarrow> Text \<Rightarrow> string \<Rightarrow> string \<Rightarrow> nat \<Rightarrow> Span list option" where
  "scanKeyword rt t lower kw idx =
     (if kw = '''' then None
      else case Index (drop idx lower) kw of
        None \<Rightarrow> Some []
      | Some pos \<Rightarrow>
          let start = idx + pos in
          do { w \<leftarrow> isWholeWord (Raw t) start (length kw);
               ss \<leftarrow> scanKeyword rt t lower kw (start + length kw);
               Some ((if w then matchAtKeyword rt t lower start kw else []) @ ss) })"
  by pat_completeness auto
termination
  by (relation "measure (\<lambda>(rt, t, lower, kw, idx). length lower - idx)") (auto dest: Index_progress simp: diff_less_mono2)

declare scanKeyword.simps [simp del]

subsection \<open>Dialogues\<close>

definition matchDialogNext :: "string \<Rightarrow> nat \<Rightarrow> Span list" where
  "matchDialogNext nx lineStart =
     (let val = TrimSpace (case Index nx '':'' of None \<Rightarrow> nx | Some c \<Rightarrow> drop (c + 1) nx) in
      case List.find (HasPrefix val) buildCountryFormList of
        None \<Rightarrow> []
      | Some form \<Rightarrow>
          let start = lineStart + (length nx - length val) in [cz_span start (start + length form)])"

fun dialog_loop :: "string list \<Rightarrow> nat \<Rightarrow> Span list" where
  "dialog_loop [] offset = []"
| "dialog_loop (line # ls) offset =
     (if Contains line (encode_runes [0x433, 0x440, 0x430, 0x436, 0x434, 0x430, 0x43d, 0x441, 0x442, 0x432]) \<and> Contains line ''?''
      then (case ls of [] \<Rightarrow> [] | nx # _ \<Rightarrow> matchDialogNext nx (offset + length line + 1)) else []) @
     dialog_loop ls (offset + length line + 1)"

definition matchDialog :: "string \<Rightarrow> Span list" where
  "matchDialog lower = dialog_loop (split_on (CHR 0x0A) lower) 0"

subsection \<open>The detector\<close>

definition DetectLower_cz :: "runtime \<Rightarrow> Text \<Rightarrow> Span list option" where
  "DetectLower_cz rt t =
     (let lower = (if LowerOK t then Lower t else ToLower rt (Raw t)) in
      do { ss \<leftarrow> concat_opt (\<lambda>kw. scanKeyword rt t lower kw 0) citizenshipContext;
           Some (ss @ matchDialog lower) })"

definition NewCitizenshipDetector :: "runtime \<Rightarrow> detector" where
  "NewCitizenshipDetector rt = detector_of rt citizenshipKeyword [CatCitizenship] (DetectLower_cz rt)"

subsection \<open>The list of forms\<close>

lemma insert_desc_set: "set (insert_desc x fs) = insert x (set fs)"
  by (induction fs) auto

lemma insert_desc_sorted:
  "sorted_wrt (\<lambda>a b. length b \<le> length a) fs \<Longrightarrow> sorted_wrt (\<lambda>a b. length b \<le> length a) (insert_desc x fs)"
  by (induction fs) (auto simp: insert_desc_set)

lemma insertions_desc:
  "set (foldl (\<lambda>fs x. insert_desc x fs) fs xs) = set fs \<union> set xs \<and>
   (sorted_wrt (\<lambda>a b. length b \<le> length a) fs \<longrightarrow>
    sorted_wrt (\<lambda>a b. length b \<le> length a) (foldl (\<lambda>fs x. insert_desc x fs) fs xs))"
  by (induction xs arbitrary: fs) (auto simp: insert_desc_set insert_desc_sorted)

lemma buildCountryFormList_set: "set buildCountryFormList = set country_words"
  using insertions_desc [of "[]" country_words] by (simp add: buildCountryFormList_def)

text \<open>The longest form comes first, so the first form that is a prefix is the longest one.\<close>

lemma buildCountryFormList_sorted: "sorted_wrt (\<lambda>a b. length b \<le> length a) buildCountryFormList"
  using insertions_desc [of "[]" country_words] by (simp add: buildCountryFormList_def)

lemma declineCountry_nonempty: "[] \<notin> set (declineCountry nom)"
  by (auto simp: declineCountry_def country_endings_def Let_def split: option.splits if_splits)

lemma country_words_nonempty: "[] \<notin> set country_words"
proof -
  have "[] \<notin> set (concat (map snd countryForms))" by (simp add: countryForms_def countryRF_def)
  moreover have "[] \<notin> set otherUNStates" by (simp add: otherUNStates_def)
  ultimately show ?thesis using declineCountry_nonempty by (auto simp: country_words_def split: if_splits)
qed

lemma form_nonempty: "form \<in> set buildCountryFormList \<Longrightarrow> form \<noteq> []"
  using country_words_nonempty by (auto simp: buildCountryFormList_set)

subsection \<open>Offsets\<close>

lemma best_prefix_le:
  "b \<le> length rest \<Longrightarrow>
   foldl (\<lambda>b form. if HasPrefix rest form \<and> length form > b then length form else b) b forms \<le> length rest"
  by (induction forms arbitrary: b) (auto dest: HasPrefix_length)

lemma FindIndex_le: "FindIndex s r = Some m \<Longrightarrow> m_lo m \<le> m_hi m \<and> m_hi m \<le> length s"
  using find_from_bounds [of s r 0 m] by (simp add: FindIndex_def)

lemma longestCountryPrefix_le: "longestCountryPrefix rest \<le> length rest"
  using best_prefix_le [of 0 rest buildCountryFormList]
  by (auto simp: longestCountryPrefix_def Let_def split: option.splits dest: FindIndex_le)

lemma citizenshipFallbackLen_le: "citizenshipFallbackLen rest \<le> length rest"
  by (auto simp: citizenshipFallbackLen_def Let_def split: option.splits dest: FindIndex_le)

lemma cz_span_wf: "a < e \<Longrightarrow> e \<le> n \<Longrightarrow> span_wf n (cz_span a e)"
  by (simp add: span_wf_def cz_span_def)

lemma matchValue_range:
  assumes "matchValue rt t lower after = Some s" and "after \<le> length lower"
  shows "span_wf (length lower) s"
proof -
  obtain skipped labeled where sk: "(case FindIndex (drop after lower) citizenshipValueRe of
      None \<Rightarrow> (0, False) | Some m \<Rightarrow> (m_hi m, group_range m 1 \<noteq> None)) = (skipped, labeled)" by fastforce
  then have "skipped \<le> length lower - after" by (auto split: option.splits dest: FindIndex_le)
  then have b: "after + skipped \<le> length lower" using assms(2) by linarith
  let ?rest = "drop (after + skipped) lower"
  from assms(1) obtain n where "s = cz_span (after + skipped) (after + skipped + n)" "0 < n"
      "n = longestCountryPrefix ?rest \<or> n = citizenshipFallbackLen ?rest"
    by (auto simp: matchValue_def sk Let_def split: if_splits)
  with b longestCountryPrefix_le [of ?rest] citizenshipFallbackLen_le [of ?rest] show ?thesis
    by (auto intro!: cz_span_wf)
qed

lemma before_loop_inv:
  "fst best < 0 \<or> nat (fst best) + snd best \<le> length pre \<and> 0 < snd best \<Longrightarrow>
   foldl (before_step pre) best forms = (a, n) \<Longrightarrow> a < 0 \<or> nat a + n \<le> length pre \<and> 0 < n"
proof (induction forms arbitrary: best)
  case (Cons form forms)
  have "fst (before_step pre best form) < 0 \<or>
      nat (fst (before_step pre best form)) + snd (before_step pre best form) \<le> length pre \<and> 0 < snd (before_step pre best form)"
    using Cons.prems(1) occurs_at_bound [OF LastIndex_occurs, of pre form]
    by (auto simp: before_step_def split: option.splits)
  from Cons.IH [OF this] Cons.prems(2) show ?case by simp
qed auto

lemma matchBefore_range:
  assumes "matchBefore lower k = Some s"
  shows "span_wf (length lower) s"
proof -
  obtain a n where f: "foldl (before_step (take k lower)) (-1, 0) buildCountryFormList = (a, n)" by fastforce
  from before_loop_inv [OF _ f] assms f show ?thesis
    by (auto simp: matchBefore_def split: if_splits intro!: cz_span_wf)
qed

lemma isWholeWord_total: "start \<le> length raw \<Longrightarrow> \<exists>w. isWholeWord raw start n = Some w"
  by (auto simp: isWholeWord_def byte_at_def split: if_splits)

lemma isWholeWord_panics: "isWholeWord raw start n = None \<longleftrightarrow> length raw < start"
  by (auto simp: isWholeWord_def byte_at_def split: if_splits)

lemma set_case_option: "set (case x of None \<Rightarrow> [] | Some s \<Rightarrow> [s]) = set_option x"
  by (cases x) auto

lemma matchAtKeyword_range:
  assumes "start + length kw \<le> length lower" and "z \<in> set (matchAtKeyword rt t lower start kw)"
  shows "span_wf (length lower) z"
proof -
  have "matchValue rt t lower (start + length kw) = Some z \<or> matchBefore lower start = Some z"
    using assms(2) unfolding matchAtKeyword_def set_append set_case_option
    by (cases "kw = citizenshipKeyword") (simp_all only: if_True if_False set_case_option list.set elem_set simp_thms Un_iff empty_iff)
  then show ?thesis using matchValue_range [OF _ assms(1)] matchBefore_range by (elim disjE)
qed

lemma scanKeyword_ok:
  assumes "length lower = length (Raw t)"
  shows "kw \<noteq> [] \<Longrightarrow> \<exists>ss. scanKeyword rt t lower kw idx = Some ss \<and> (\<forall>s \<in> set ss. span_wf (length lower) s)"
  using assms
proof (induction rt t lower kw idx rule: scanKeyword.induct)
  case (1 rt t lower kw idx)
  show ?case
  proof (cases "Index (drop idx lower) kw")
    case (Some pos)
    note b = Index_progress [OF Some "1.prems"(1)]
    obtain w where w: "isWholeWord (Raw t) (idx + pos) (length kw) = Some w"
      using isWholeWord_total [of "idx + pos" "Raw t" "length kw"] b "1.prems" by auto
    obtain ss where ss: "scanKeyword rt t lower kw (idx + pos + length kw) = Some ss" "\<forall>s \<in> set ss. span_wf (length lower) s"
      using "1.IH" [OF "1.prems"(1) Some refl w "1.prems"] by blast
    have "\<forall>s \<in> set (matchAtKeyword rt t lower (idx + pos) kw). span_wf (length lower) s"
      by (intro ballI matchAtKeyword_range [OF b(2)])
    with "1.prems"(1) Some w ss show ?thesis
      by (auto simp: scanKeyword.simps [of rt t lower kw idx])
  qed (use 1 in \<open>simp add: scanKeyword.simps\<close>)
qed

lemma TrimLeftSpace_le: "length (TrimLeftSpace s) \<le> length s"
proof (induction s rule: TrimLeftSpace.induct)
  case (1 s)
  obtain r n where d: "DecodeRune s = (r, n)" by fastforce
  from 1 [OF _ d [symmetric]] d show ?case by (subst TrimLeftSpace.simps) (fastforce simp: d)
qed

lemma TrimRightSpace_le: "length (TrimRightSpace s) \<le> length s"
proof (induction s rule: TrimRightSpace.induct)
  case (1 s)
  obtain r n where d: "DecodeLastRune s = (r, n)" by fastforce
  from 1 [OF _ d [symmetric]] d show ?case by (subst TrimRightSpace.simps) (fastforce simp: d)
qed

lemma TrimSpace_le: "length (TrimSpace s) \<le> length s"
  using le_trans [OF TrimRightSpace_le TrimLeftSpace_le] by (simp add: TrimSpace_def)

lemma matchDialogNext_range:
  assumes "s \<in> set (matchDialogNext nx off)" and "off + length nx \<le> n"
  shows "span_wf n s"
proof -
  let ?v = "TrimSpace (case Index nx '':'' of None \<Rightarrow> nx | Some c \<Rightarrow> drop (c + 1) nx)"
  have "length ?v \<le> length nx" by (auto split: option.splits intro: le_trans [OF TrimSpace_le])
  moreover from assms(1) obtain form where f: "List.find (HasPrefix ?v) buildCountryFormList = Some form"
    and s: "s = cz_span (off + (length nx - length ?v)) (off + (length nx - length ?v) + length form)"
    by (cases "List.find (HasPrefix ?v) buildCountryFormList") (simp_all add: matchDialogNext_def Let_def)
  moreover from f have "HasPrefix ?v form" "form \<in> set buildCountryFormList"
    by (auto simp: find_Some_iff)
  moreover from this have "length form \<le> length ?v" "0 < length form" using HasPrefix_length [of ?v form] form_nonempty by auto
  ultimately show ?thesis using assms(2) unfolding s by (intro cz_span_wf; linarith)
qed

lemma dialog_loop_step:
  assumes "z \<in> set (dialog_loop (l # ls) off)"
  shows "z \<in> set (dialog_loop ls (off + length l + 1)) \<or>
    (\<exists>nx rest. ls = nx # rest \<and> z \<in> set (matchDialogNext nx (off + length l + 1)))"
  using assms unfolding dialog_loop.simps set_append
  by (cases ls) (simp_all only: list.case list.set if_cancel empty_iff Un_iff list.inject simp_thms
      ex_simps disj_commute split: if_split_asm)

lemma dialog_loop_range:
  "z \<in> set (dialog_loop ls off) \<Longrightarrow> off + sum_list (map length ls) + (length ls - 1) \<le> n \<Longrightarrow> span_wf n z"
proof (induction ls arbitrary: off)
  case (Cons l ls)
  consider nx rest where "ls = nx # rest" "z \<in> set (matchDialogNext nx (off + length l + 1))"
    | "z \<in> set (dialog_loop ls (off + length l + 1))"
    using dialog_loop_step [OF Cons.prems(1)] by blast
  then show ?case
  proof cases
    case 1
    with Cons.prems(2) show ?thesis by (intro matchDialogNext_range [OF 1(2)]) simp
  next
    case 2
    then have "ls \<noteq> []" by auto
    with Cons.prems(2) have "off + length l + 1 + sum_list (map length ls) + (length ls - 1) \<le> n"
      by (cases "length ls") simp_all
    from Cons.IH [OF 2 this] show ?thesis .
  qed
qed simp

lemma split_on_length: "sum_list (map length (split_on c s)) + (length (split_on c s) - 1) = length s"
proof (induction c s rule: split_on.induct)
  case (2 c x xs)
  obtain y ys where "split_on c xs = y # ys" by (metis list.exhaust split_on_ne)
  with 2 show ?case by auto
qed simp

lemma matchDialog_range: "s \<in> set (matchDialog lower) \<Longrightarrow> span_wf (length lower) s"
  unfolding matchDialog_def by (erule dialog_loop_range) (use split_on_length [of "CHR 0x0A" lower] in simp)

subsection \<open>The contract holds when the lower-case text has the length of the text\<close>

lemma DetectLower_cz_ok:
  assumes "LowerOK t"
  shows "\<exists>ss. DetectLower_cz rt t = Some ss \<and> (\<forall>s \<in> set ss. span_wf (length (Raw t)) s)"
proof -
  have l: "length (Lower t) = length (Raw t)" using assms by (simp add: LowerOK_def)
  have ne: "\<forall>kw \<in> set citizenshipContext. kw \<noteq> []" by (simp add: citizenshipContext_def citizenshipKeyword_def)
  have "\<forall>kw \<in> set citizenshipContext. \<exists>ss. scanKeyword rt t (Lower t) kw 0 = Some ss"
    using scanKeyword_ok [OF l] ne by blast
  from concat_opt_total [OF this] obtain ss where ss: "concat_opt (\<lambda>kw. scanKeyword rt t (Lower t) kw 0) citizenshipContext = Some ss"
    by blast
  have "\<forall>s \<in> set ss. span_wf (length (Raw t)) s"
  proof
    fix s assume "s \<in> set ss"
    from concat_opt_mem [OF ss this] obtain kw zs where "kw \<in> set citizenshipContext"
      "scanKeyword rt t (Lower t) kw 0 = Some zs" "s \<in> set zs" by blast
    with scanKeyword_ok [OF l, of kw rt 0] ne l show "span_wf (length (Raw t)) s" by auto
  qed
  then show ?thesis using assms ss matchDialog_range [of _ "Lower t"] l by (auto simp: DetectLower_cz_def)
qed

text \<open>
  Trailing white space of an answer shifts the reported range: it is cut from the value and then counted as
  if it stood before it.
\<close>

lemma dialog_trailing_space:
  assumes "TrimSpace (v @ '' '') = v" and "Index (v @ '' '') '':'' = None"
    and "List.find (HasPrefix v) buildCountryFormList = Some form"
  shows "matchDialogNext (v @ '' '') off = [cz_span (off + 1) (off + 1 + length form)]"
  using assms by (simp add: matchDialogNext_def Let_def)

text \<open>A byte of a Cyrillic letter is not a letter, so a keyword inside a longer Russian word counts as a word.\<close>

lemma letter_byte_ascii: "letter_byte b \<Longrightarrow> of_char b < (0x80 :: nat)"
  using nat_of_char_less_256 [of b]
  by (auto simp: letter_byte_def isLetterRune_det_def isLatinLetter_def isCyrillicRune_def isLowerCyrillicRune_def
      isUpperCyrillicRune_def simp del: nat_of_char_less_256)

end
