(* ===== verification/Address.thy ===== *)
theory Address
  imports Birthplace Citizenship
begin

text \<open>
  The address detector (\<^verbatim>\<open>internal/pii/detectors/address.go\<close>): components of an address are found by patterns and in
  the dictionary of cities, sorted, freed of overlaps, grouped and checked against the context. The search in the
  dictionary uses offsets of the lower-case text on the text itself, so it can be out of range when the lengths
  differ; \<^term>\<open>None\<close> is that panic. Once the components are found they lie in the text, and the later slices are
  in range.
\<close>

subsection \<open>Patterns\<close>

definition addrIndexRe :: rx where
  "addrIndexRe = rx_cats
    [Wordb,
     Cls (\<lambda>r. (0x31 \<le> r \<and> r \<le> 0x36)),
     rx_rep rx_digit 5 5,
     Wordb]"

definition addrCountryRe :: rx where
  "addrCountryRe = rx_alts
    [rx_ilit [0x440, 0x43e, 0x441, 0x441, 0x438, 0x439, 0x441, 0x43a, 0x430, 0x44f, 0x20, 0x444, 0x435, 0x434, 0x435, 0x440, 0x430, 0x446, 0x438, 0x44f] \<comment> \<open>rossiyskaya federatsiya\<close>,
     rx_ilit [0x440, 0x435, 0x441, 0x43f, 0x443, 0x431, 0x43b, 0x438, 0x43a, 0x430, 0x20, 0x431, 0x435, 0x43b, 0x430, 0x440, 0x443, 0x441, 0x44c] \<comment> \<open>respublika belarus\<close>,
     rx_ilit [0x440, 0x43e, 0x441, 0x441, 0x438, 0x44f] \<comment> \<open>rossiya\<close>,
     rx_ilit [0x440, 0x444] \<comment> \<open>rf\<close>,
     rx_ilit [0x43a, 0x430, 0x437, 0x430, 0x445, 0x441, 0x442, 0x430, 0x43d] \<comment> \<open>kazakhstan\<close>,
     rx_ilit [0x431, 0x435, 0x43b, 0x430, 0x440, 0x443, 0x441, 0x44c] \<comment> \<open>belarus\<close>,
     rx_ilit [0x430, 0x440, 0x43c, 0x435, 0x43d, 0x438, 0x44f] \<comment> \<open>armeniya\<close>,
     rx_ilit [0x443, 0x437, 0x431, 0x435, 0x43a, 0x438, 0x441, 0x442, 0x430, 0x43d] \<comment> \<open>uzbekistan\<close>]"

definition addrRegionRe :: rx where
  "addrRegionRe = rx_alts
    [rx_cats
        [rx_plus (Cls (\<lambda>r. \<not> space_class r)),
         rx_plus rx_space,
         rx_alts
            [rx_ilit [0x43e, 0x431, 0x43b, 0x430, 0x441, 0x442, 0x44c] \<comment> \<open>oblast\<close>,
             rx_ilit [0x43e, 0x431, 0x43b, 0x2e] \<comment> \<open>obl.\<close>,
             rx_ilit [0x43a, 0x440, 0x430, 0x439] \<comment> \<open>kray\<close>,
             rx_ilit [0x430, 0x432, 0x442, 0x43e, 0x43d, 0x43e, 0x43c, 0x43d, 0x44b, 0x439, 0x20, 0x43e, 0x43a, 0x440, 0x443, 0x433] \<comment> \<open>avtonomnyy okrug\<close>,
             rx_ilit [0x430, 0x43e] \<comment> \<open>ao\<close>]],
     rx_cats
        [rx_alts
            [rx_ilit [0x440, 0x435, 0x441, 0x43f, 0x443, 0x431, 0x43b, 0x438, 0x43a, 0x430] \<comment> \<open>respublika\<close>,
             rx_ilit [0x440, 0x435, 0x441, 0x43f, 0x2e] \<comment> \<open>resp.\<close>],
         rx_plus rx_space,
         rx_plus (Cls (\<lambda>r. \<not> space_class r))]]"

definition addrDistrictRe :: rx where
  "addrDistrictRe = rx_cats
    [rx_plus (Cls (\<lambda>r. \<not> space_class r)),
     rx_plus rx_space,
     rx_alts
        [rx_ilit [0x440, 0x430, 0x439, 0x43e, 0x43d] \<comment> \<open>rayon\<close>,
         rx_ilit [0x440, 0x2d, 0x43d] \<comment> \<open>r-n\<close>]]"

definition addrLocalityRe :: rx where
  "addrLocalityRe = rx_cats
    [rx_alts
        [rx_ilit [0x433, 0x2e] \<comment> \<open>g.\<close>,
         rx_ilit [0x433, 0x43e, 0x440, 0x43e, 0x434] \<comment> \<open>gorod\<close>,
         rx_ilit [0x433, 0x43e, 0x440, 0x2e] \<comment> \<open>gor.\<close>,
         rx_ilit [0x43f, 0x43e, 0x441, 0x2e] \<comment> \<open>pos.\<close>,
         rx_ilit [0x43f, 0x43e, 0x441, 0x451, 0x43b, 0x43e, 0x43a] \<comment> \<open>posyolok\<close>,
         rx_ilit [0x43f, 0x43e, 0x441, 0x435, 0x43b, 0x43e, 0x43a] \<comment> \<open>poselok\<close>,
         rx_ilit [0x441, 0x2e] \<comment> \<open>s.\<close>,
         rx_ilit [0x441, 0x435, 0x43b, 0x43e] \<comment> \<open>selo\<close>,
         rx_ilit [0x434, 0x435, 0x440, 0x2e] \<comment> \<open>der.\<close>,
         rx_ilit [0x434, 0x435, 0x440, 0x435, 0x432, 0x43d, 0x44f] \<comment> \<open>derevnya\<close>,
         rx_ilit [0x441, 0x442, 0x2e] \<comment> \<open>st.\<close>,
         rx_ilit [0x441, 0x442, 0x430, 0x43d, 0x438, 0x446, 0x430] \<comment> \<open>stanitsa\<close>,
         rx_ilit [0x43f, 0x433, 0x442] \<comment> \<open>pgt\<close>,
         rx_ilit [0x43c, 0x43a, 0x440, 0x2e] \<comment> \<open>mkr.\<close>,
         rx_ilit [0x43c, 0x438, 0x43a, 0x440, 0x43e, 0x440, 0x430, 0x439, 0x43e, 0x43d] \<comment> \<open>mikrorayon\<close>],
     rx_plus rx_space,
     rx_plus (Cls (\<lambda>r. r = 0x2d \<or> r = 0x401 \<or> (0x410 \<le> r \<and> r \<le> 0x44f) \<or> r = 0x451 \<or> (0x1c80 \<le> r \<and> r \<le> 0x1c86))),
     rx_rep (rx_cats
          [rx_plus rx_space,
           rx_plus (Cls (\<lambda>r. r = 0x2d \<or> r = 0x401 \<or> (0x410 \<le> r \<and> r \<le> 0x44f) \<or> r = 0x451 \<or> (0x1c80 \<le> r \<and> r \<le> 0x1c86)))]) 0 2]"

definition addrStreetMarkerRe :: rx where
  "addrStreetMarkerRe = rx_cats
    [rx_alts
        [rx_ilit [0x443, 0x43b, 0x2e] \<comment> \<open>ul.\<close>,
         rx_ilit [0x443, 0x43b] \<comment> \<open>ul\<close>,
         rx_ilit [0x443, 0x43b, 0x438, 0x446, 0x430] \<comment> \<open>ulitsa\<close>,
         rx_ilit [0x443, 0x43b, 0x438, 0x446, 0x435] \<comment> \<open>ulitse\<close>,
         rx_ilit [0x443, 0x43b, 0x438, 0x446, 0x443] \<comment> \<open>ulitsu\<close>,
         rx_ilit [0x43f, 0x440, 0x2d, 0x43a, 0x442] \<comment> \<open>pr-kt\<close>,
         rx_ilit [0x43f, 0x440, 0x2d, 0x442] \<comment> \<open>pr-t\<close>,
         rx_ilit [0x43f, 0x440, 0x2e] \<comment> \<open>pr.\<close>,
         rx_ilit [0x43f, 0x440, 0x43e, 0x441, 0x43f, 0x435, 0x43a, 0x442] \<comment> \<open>prospekt\<close>,
         rx_ilit [0x43f, 0x440, 0x43e, 0x441, 0x43f, 0x435, 0x43a, 0x442, 0x435] \<comment> \<open>prospekte\<close>,
         rx_ilit [0x43f, 0x435, 0x440, 0x2e] \<comment> \<open>per.\<close>,
         rx_ilit [0x43f, 0x435, 0x440, 0x435, 0x443, 0x43b, 0x43e, 0x43a] \<comment> \<open>pereulok\<close>,
         rx_ilit [0x431, 0x2d, 0x440] \<comment> \<open>b-r\<close>,
         rx_ilit [0x431, 0x443, 0x43b, 0x44c, 0x432, 0x430, 0x440] \<comment> \<open>bulvar\<close>,
         rx_ilit [0x448, 0x2e] \<comment> \<open>sh.\<close>,
         rx_ilit [0x448, 0x43e, 0x441, 0x441, 0x435] \<comment> \<open>shosse\<close>,
         rx_ilit [0x43d, 0x430, 0x431, 0x2e] \<comment> \<open>nab.\<close>,
         rx_ilit [0x43d, 0x430, 0x431, 0x435, 0x440, 0x435, 0x436, 0x43d, 0x430, 0x44f] \<comment> \<open>naberezhnaya\<close>,
         rx_ilit [0x43f, 0x43b, 0x2e] \<comment> \<open>pl.\<close>,
         rx_ilit [0x43f, 0x43b, 0x43e, 0x449, 0x430, 0x434, 0x44c] \<comment> \<open>ploshchad\<close>,
         rx_ilit [0x43f, 0x440, 0x43e, 0x435, 0x437, 0x434] \<comment> \<open>proezd\<close>,
         rx_ilit [0x43f, 0x440, 0x2d, 0x434] \<comment> \<open>pr-d\<close>,
         rx_ilit [0x442, 0x443, 0x43f, 0x438, 0x43a] \<comment> \<open>tupik\<close>,
         rx_ilit [0x430, 0x43b, 0x43b, 0x435, 0x44f] \<comment> \<open>alleya\<close>,
         rx_ilit [0x43b, 0x438, 0x43d, 0x438, 0x44f] \<comment> \<open>liniya\<close>],
     rx_plus rx_space,
     rx_plus (Cls (\<lambda>r. r = 0x2d \<or> r = 0x401 \<or> (0x410 \<le> r \<and> r \<le> 0x44f) \<or> r = 0x451 \<or> (0x1c80 \<le> r \<and> r \<le> 0x1c86))),
     rx_opt (rx_lit [0x2e]),
     rx_rep (rx_cats
          [rx_plus rx_space,
           rx_plus (Cls (\<lambda>r. r = 0x2d \<or> r = 0x401 \<or> (0x410 \<le> r \<and> r \<le> 0x44f) \<or> r = 0x451 \<or> (0x1c80 \<le> r \<and> r \<le> 0x1c86))),
           rx_opt (rx_lit [0x2e])]) 0 2]"

definition addrStreetNameRe :: rx where
  "addrStreetNameRe = rx_cats
    [Cls (\<lambda>r. r = 0x401 \<or> (0x410 \<le> r \<and> r \<le> 0x42f)),
     rx_plus (Cls (\<lambda>r. r = 0x2d \<or> (0x430 \<le> r \<and> r \<le> 0x44f) \<or> r = 0x451)),
     rx_rep (rx_cats
          [rx_plus rx_space,
           Cls (\<lambda>r. r = 0x401 \<or> (0x410 \<le> r \<and> r \<le> 0x42f)),
           rx_plus (Cls (\<lambda>r. r = 0x2d \<or> (0x430 \<le> r \<and> r \<le> 0x44f) \<or> r = 0x451))]) 0 1,
     rx_plus rx_space,
     rx_alts
        [rx_lit [0x443, 0x43b, 0x438, 0x446, 0x430] \<comment> \<open>ulitsa\<close>,
         rx_lit [0x443, 0x43b, 0x2e] \<comment> \<open>ul.\<close>,
         rx_lit [0x43f, 0x440, 0x43e, 0x441, 0x43f, 0x435, 0x43a, 0x442] \<comment> \<open>prospekt\<close>,
         rx_lit [0x43f, 0x440, 0x2d, 0x442] \<comment> \<open>pr-t\<close>,
         rx_lit [0x43f, 0x440, 0x2e] \<comment> \<open>pr.\<close>,
         rx_lit [0x43f, 0x435, 0x440, 0x435, 0x443, 0x43b, 0x43e, 0x43a] \<comment> \<open>pereulok\<close>,
         rx_lit [0x43f, 0x435, 0x440, 0x2e] \<comment> \<open>per.\<close>,
         rx_lit [0x431, 0x443, 0x43b, 0x44c, 0x432, 0x430, 0x440] \<comment> \<open>bulvar\<close>,
         rx_lit [0x431, 0x2d, 0x440] \<comment> \<open>b-r\<close>,
         rx_lit [0x448, 0x43e, 0x441, 0x441, 0x435] \<comment> \<open>shosse\<close>,
         rx_lit [0x448, 0x2e] \<comment> \<open>sh.\<close>,
         rx_lit [0x43d, 0x430, 0x431, 0x435, 0x440, 0x435, 0x436, 0x43d, 0x430, 0x44f] \<comment> \<open>naberezhnaya\<close>,
         rx_lit [0x43d, 0x430, 0x431, 0x2e] \<comment> \<open>nab.\<close>,
         rx_lit [0x43f, 0x43b, 0x43e, 0x449, 0x430, 0x434, 0x44c] \<comment> \<open>ploshchad\<close>,
         rx_lit [0x43f, 0x43b, 0x2e] \<comment> \<open>pl.\<close>,
         rx_lit [0x43f, 0x440, 0x43e, 0x435, 0x437, 0x434] \<comment> \<open>proezd\<close>,
         rx_lit [0x442, 0x443, 0x43f, 0x438, 0x43a] \<comment> \<open>tupik\<close>,
         rx_lit [0x430, 0x43b, 0x43b, 0x435, 0x44f] \<comment> \<open>alleya\<close>,
         rx_lit [0x43b, 0x438, 0x43d, 0x438, 0x44f] \<comment> \<open>liniya\<close>]]"

definition addrHouseRe :: rx where
  "addrHouseRe = rx_cats
    [rx_alts
        [rx_ilit [0x434, 0x2e] \<comment> \<open>d.\<close>,
         rx_ilit [0x434, 0x43e, 0x43c] \<comment> \<open>dom\<close>,
         rx_ilit [0x434] \<comment> \<open>d\<close>],
     Star rx_space,
     rx_plus rx_digit,
     rx_opt (Cls (\<lambda>r. (0x41 \<le> r \<and> r \<le> 0x5a) \<or> (0x61 \<le> r \<and> r \<le> 0x7a) \<or> r = 0x17f \<or> (0x410 \<le> r \<and> r \<le> 0x44f) \<or> (0x1c80 \<le> r \<and> r \<le> 0x1c86) \<or> r = 0x212a)),
     rx_opt (rx_cats
          [Star rx_space,
           rx_lit [0x2f],
           Star rx_space,
           rx_plus rx_digit]),
     rx_opt (rx_cats
          [Star rx_space,
           rx_lit [0x2d],
           Star rx_space,
           rx_plus rx_digit]),
     rx_opt (rx_cats
          [Star rx_space,
           rx_alts
              [rx_ilit [0x43a, 0x2e] \<comment> \<open>k.\<close>,
               rx_ilit [0x43a, 0x43e, 0x440, 0x43f, 0x2e] \<comment> \<open>korp.\<close>,
               rx_ilit [0x43a, 0x43e, 0x440, 0x43f, 0x443, 0x441] \<comment> \<open>korpus\<close>,
               rx_ilit [0x43a] \<comment> \<open>k\<close>],
           Star rx_space,
           rx_plus rx_digit]),
     rx_opt (rx_cats
          [Star rx_space,
           rx_alts
              [rx_ilit [0x441, 0x442, 0x440, 0x2e] \<comment> \<open>str.\<close>,
               rx_ilit [0x441, 0x442, 0x440, 0x43e, 0x435, 0x43d, 0x438, 0x435] \<comment> \<open>stroenie\<close>,
               rx_ilit [0x441] \<comment> \<open>s\<close>],
           Star rx_space,
           rx_plus rx_digit])]"

definition addrStrRe :: rx where
  "addrStrRe = rx_cats
    [rx_alts
        [rx_ilit [0x441, 0x442, 0x440, 0x2e] \<comment> \<open>str.\<close>,
         rx_ilit [0x441, 0x442, 0x440, 0x43e, 0x435, 0x43d, 0x438, 0x435] \<comment> \<open>stroenie\<close>],
     Star rx_space,
     rx_plus rx_digit,
     rx_opt (Cls (\<lambda>r. (0x41 \<le> r \<and> r \<le> 0x5a) \<or> (0x61 \<le> r \<and> r \<le> 0x7a) \<or> r = 0x17f \<or> (0x410 \<le> r \<and> r \<le> 0x44f) \<or> (0x1c80 \<le> r \<and> r \<le> 0x1c86) \<or> r = 0x212a))]"

definition addrAptRe :: rx where
  "addrAptRe = rx_cats
    [rx_alts
        [rx_ilit [0x43a, 0x432, 0x2e] \<comment> \<open>kv.\<close>,
         rx_ilit [0x43a, 0x432] \<comment> \<open>kv\<close>,
         rx_ilit [0x43a, 0x432, 0x430, 0x440, 0x442, 0x438, 0x440, 0x430] \<comment> \<open>kvartira\<close>,
         rx_ilit [0x43e, 0x444, 0x2e] \<comment> \<open>of.\<close>,
         rx_ilit [0x43e, 0x444, 0x438, 0x441] \<comment> \<open>ofis\<close>,
         rx_ilit [0x43f, 0x43e, 0x43c, 0x2e] \<comment> \<open>pom.\<close>,
         rx_ilit [0x43f, 0x43e, 0x43c, 0x435, 0x449, 0x435, 0x43d, 0x438, 0x435] \<comment> \<open>pomeshchenie\<close>,
         rx_ilit [0x43a, 0x43e, 0x43c, 0x43d, 0x2e] \<comment> \<open>komn.\<close>],
     Star rx_space,
     rx_plus rx_digit,
     rx_opt (Cls (\<lambda>r. (0x410 \<le> r \<and> r \<le> 0x44f) \<or> (0x1c80 \<le> r \<and> r \<le> 0x1c86)))]"

definition addrAptWordRe :: rx where
  "addrAptWordRe = rx_cats
    [rx_alts
        [rx_ilit [0x43a, 0x432, 0x2e] \<comment> \<open>kv.\<close>,
         rx_ilit [0x43a, 0x432, 0x430, 0x440, 0x442, 0x438, 0x440, 0x430] \<comment> \<open>kvartira\<close>],
     rx_plus rx_space,
     rx_plus (Cls (\<lambda>r. r = 0x401 \<or> (0x410 \<le> r \<and> r \<le> 0x44f) \<or> r = 0x451 \<or> (0x1c80 \<le> r \<and> r \<le> 0x1c86))),
     rx_opt (rx_cats
          [rx_plus rx_space,
           rx_plus (Cls (\<lambda>r. r = 0x401 \<or> (0x410 \<le> r \<and> r \<le> 0x44f) \<or> r = 0x451 \<or> (0x1c80 \<le> r \<and> r \<le> 0x1c86)))])]"

definition addrPOBoxRe :: rx where
  "addrPOBoxRe = rx_cats
    [rx_ilit [0x430, 0x2f, 0x44f] \<comment> \<open>a/ya\<close>,
     Star rx_space,
     rx_plus rx_digit]"

definition addrBareStreetCtxRe :: rx where
  "addrBareStreetCtxRe = rx_cats
    [Cls (\<lambda>r. r = 0x401 \<or> (0x410 \<le> r \<and> r \<le> 0x42f)),
     rx_plus (Cls (\<lambda>r. r = 0x2d \<or> (0x430 \<le> r \<and> r \<le> 0x44f) \<or> r = 0x451)),
     rx_rep (rx_cats
          [rx_plus rx_space,
           Cls (\<lambda>r. r = 0x401 \<or> (0x410 \<le> r \<and> r \<le> 0x42f)),
           rx_plus (Cls (\<lambda>r. r = 0x2d \<or> (0x430 \<le> r \<and> r \<le> 0x44f) \<or> r = 0x451))]) 0 2,
     Star rx_space,
     rx_opt (rx_lit [0x2c]),
     Star rx_space,
     rx_rep rx_digit 1 4,
     rx_opt (Cls (\<lambda>r. (0x61 \<le> r \<and> r \<le> 0x7a) \<or> (0x430 \<le> r \<and> r \<le> 0x44f))),
     rx_opt (rx_cats
          [rx_plus rx_space,
           rx_alts
              [rx_lit [0x43a, 0x43e, 0x440, 0x43f, 0x2e] \<comment> \<open>korp.\<close>,
               rx_lit [0x43a, 0x43e, 0x440, 0x43f, 0x443, 0x441] \<comment> \<open>korpus\<close>,
               rx_lit [0x43a] \<comment> \<open>k\<close>],
           Star rx_space,
           rx_plus rx_digit]),
     rx_opt (rx_cats
          [Star rx_space,
           rx_lit [0x2c],
           Star rx_space,
           rx_alts
              [rx_lit [0x43a, 0x432, 0x2e] \<comment> \<open>kv.\<close>,
               rx_lit [0x43a, 0x432, 0x430, 0x440, 0x442, 0x438, 0x440, 0x430] \<comment> \<open>kvartira\<close>],
           Star rx_space,
           rx_plus rx_digit,
           rx_opt (Cls (\<lambda>r. (0x430 \<le> r \<and> r \<le> 0x44f)))])]"

definition addrBareStreetCtxLowerRe :: rx where
  "addrBareStreetCtxLowerRe = rx_cats
    [rx_alts
        [rx_lit [0x43d, 0x430] \<comment> \<open>na\<close>,
         rx_lit [0x432] \<comment> \<open>v\<close>,
         rx_lit [0x43f, 0x43e] \<comment> \<open>po\<close>],
     rx_plus rx_space,
     Cap 1 (rx_cats
          [rx_plus (Cls (\<lambda>r. r = 0x2d \<or> (0x430 \<le> r \<and> r \<le> 0x44f) \<or> r = 0x451)),
           rx_rep (rx_cats
                [rx_plus rx_space,
                 rx_plus (Cls (\<lambda>r. r = 0x2d \<or> (0x430 \<le> r \<and> r \<le> 0x44f) \<or> r = 0x451))]) 0 2,
           Star rx_space,
           rx_opt (rx_lit [0x2c]),
           Star rx_space,
           rx_rep rx_digit 1 4,
           rx_opt (Cls (\<lambda>r. (0x61 \<le> r \<and> r \<le> 0x7a) \<or> (0x430 \<le> r \<and> r \<le> 0x44f))),
           rx_opt (rx_cats
                [rx_plus rx_space,
                 rx_alts
                    [rx_lit [0x43a, 0x43e, 0x440, 0x43f, 0x2e] \<comment> \<open>korp.\<close>,
                     rx_lit [0x43a, 0x43e, 0x440, 0x43f, 0x443, 0x441] \<comment> \<open>korpus\<close>,
                     rx_lit [0x43a] \<comment> \<open>k\<close>],
                 Star rx_space,
                 rx_plus rx_digit]),
           rx_opt (rx_cats
                [Star rx_space,
                 rx_lit [0x2c],
                 Star rx_space,
                 rx_alts
                    [rx_lit [0x43a, 0x432, 0x2e] \<comment> \<open>kv.\<close>,
                     rx_lit [0x43a, 0x432, 0x430, 0x440, 0x442, 0x438, 0x440, 0x430] \<comment> \<open>kvartira\<close>],
                 Star rx_space,
                 rx_plus rx_digit,
                 rx_opt (Cls (\<lambda>r. (0x430 \<le> r \<and> r \<le> 0x44f)))])])]"

definition addrBareHouseRe :: rx where
  "addrBareHouseRe = rx_cats
    [rx_lit [0x2c],
     Star rx_space,
     rx_rep rx_digit 1 4,
     rx_opt (Cls (\<lambda>r. (0x61 \<le> r \<and> r \<le> 0x7a) \<or> (0x430 \<le> r \<and> r \<le> 0x44f))),
     rx_opt (rx_cats
          [Star rx_space,
           rx_lit [0x2d],
           Star rx_space,
           rx_plus rx_digit])]"

definition addrBareHouseDirectRe :: rx where
  "addrBareHouseDirectRe = rx_cats
    [rx_rep rx_digit 1 4,
     rx_opt (Cls (\<lambda>r. (0x61 \<le> r \<and> r \<le> 0x7a) \<or> (0x430 \<le> r \<and> r \<le> 0x44f))),
     rx_opt (rx_cats
          [rx_plus rx_space,
           rx_alts
              [rx_lit [0x43a, 0x2e] \<comment> \<open>k.\<close>,
               rx_lit [0x43a, 0x43e, 0x440, 0x43f, 0x2e] \<comment> \<open>korp.\<close>,
               rx_lit [0x43a, 0x43e, 0x440, 0x43f, 0x443, 0x441] \<comment> \<open>korpus\<close>,
               rx_lit [0x43a] \<comment> \<open>k\<close>],
           Star rx_space,
           rx_plus rx_digit])]"

definition addrBareStreetHouseRe :: rx where
  "addrBareStreetHouseRe = rx_cats
    [Cls (\<lambda>r. r = 0x401 \<or> (0x410 \<le> r \<and> r \<le> 0x42f)),
     rx_plus (Cls (\<lambda>r. r = 0x2d \<or> (0x430 \<le> r \<and> r \<le> 0x44f) \<or> r = 0x451)),
     rx_rep (rx_cats
          [rx_plus rx_space,
           Cls (\<lambda>r. r = 0x401 \<or> (0x410 \<le> r \<and> r \<le> 0x42f)),
           rx_plus (Cls (\<lambda>r. r = 0x2d \<or> (0x430 \<le> r \<and> r \<le> 0x44f) \<or> r = 0x451))]) 0 2,
     rx_plus rx_space,
     rx_rep rx_digit 1 4,
     rx_opt (Cls (\<lambda>r. (0x61 \<le> r \<and> r \<le> 0x7a) \<or> (0x430 \<le> r \<and> r \<le> 0x44f)))]"

definition addrCountryLowerRe :: rx where
  "addrCountryLowerRe = rx_alts
    [rx_lit [0x440, 0x43e, 0x441, 0x441, 0x438, 0x439, 0x441, 0x43a, 0x430, 0x44f, 0x20, 0x444, 0x435, 0x434, 0x435, 0x440, 0x430, 0x446, 0x438, 0x44f] \<comment> \<open>rossiyskaya federatsiya\<close>,
     rx_lit [0x440, 0x435, 0x441, 0x43f, 0x443, 0x431, 0x43b, 0x438, 0x43a, 0x430, 0x20, 0x431, 0x435, 0x43b, 0x430, 0x440, 0x443, 0x441, 0x44c] \<comment> \<open>respublika belarus\<close>,
     rx_lit [0x440, 0x43e, 0x441, 0x441, 0x438, 0x44f] \<comment> \<open>rossiya\<close>,
     rx_lit [0x440, 0x444] \<comment> \<open>rf\<close>,
     rx_lit [0x43a, 0x430, 0x437, 0x430, 0x445, 0x441, 0x442, 0x430, 0x43d] \<comment> \<open>kazakhstan\<close>,
     rx_lit [0x431, 0x435, 0x43b, 0x430, 0x440, 0x443, 0x441, 0x44c] \<comment> \<open>belarus\<close>,
     rx_lit [0x430, 0x440, 0x43c, 0x435, 0x43d, 0x438, 0x44f] \<comment> \<open>armeniya\<close>,
     rx_lit [0x443, 0x437, 0x431, 0x435, 0x43a, 0x438, 0x441, 0x442, 0x430, 0x43d] \<comment> \<open>uzbekistan\<close>]"

definition addrRegionLowerRe :: rx where
  "addrRegionLowerRe = rx_alts
    [rx_cats
        [rx_plus (Cls (\<lambda>r. \<not> space_class r)),
         rx_plus rx_space,
         rx_alts
            [rx_lit [0x43e, 0x431, 0x43b, 0x430, 0x441, 0x442, 0x44c] \<comment> \<open>oblast\<close>,
             rx_lit [0x43e, 0x431, 0x43b, 0x2e] \<comment> \<open>obl.\<close>,
             rx_lit [0x43a, 0x440, 0x430, 0x439] \<comment> \<open>kray\<close>,
             rx_lit [0x430, 0x432, 0x442, 0x43e, 0x43d, 0x43e, 0x43c, 0x43d, 0x44b, 0x439, 0x20, 0x43e, 0x43a, 0x440, 0x443, 0x433] \<comment> \<open>avtonomnyy okrug\<close>,
             rx_lit [0x430, 0x43e] \<comment> \<open>ao\<close>]],
     rx_cats
        [rx_alts
            [rx_lit [0x440, 0x435, 0x441, 0x43f, 0x443, 0x431, 0x43b, 0x438, 0x43a, 0x430] \<comment> \<open>respublika\<close>,
             rx_lit [0x440, 0x435, 0x441, 0x43f, 0x2e] \<comment> \<open>resp.\<close>],
         rx_plus rx_space,
         rx_plus (Cls (\<lambda>r. \<not> space_class r))]]"

definition addrDistrictLowerRe :: rx where
  "addrDistrictLowerRe = rx_cats
    [rx_plus (Cls (\<lambda>r. \<not> space_class r)),
     rx_plus rx_space,
     rx_alts
        [rx_lit [0x440, 0x430, 0x439, 0x43e, 0x43d] \<comment> \<open>rayon\<close>,
         rx_lit [0x440, 0x2d, 0x43d] \<comment> \<open>r-n\<close>]]"

definition addrLocalityLowerRe :: rx where
  "addrLocalityLowerRe = rx_cats
    [rx_alts
        [rx_lit [0x433, 0x2e] \<comment> \<open>g.\<close>,
         rx_lit [0x433, 0x43e, 0x440, 0x43e, 0x434] \<comment> \<open>gorod\<close>,
         rx_lit [0x433, 0x43e, 0x440, 0x2e] \<comment> \<open>gor.\<close>,
         rx_lit [0x43f, 0x43e, 0x441, 0x2e] \<comment> \<open>pos.\<close>,
         rx_lit [0x43f, 0x43e, 0x441, 0x451, 0x43b, 0x43e, 0x43a] \<comment> \<open>posyolok\<close>,
         rx_lit [0x43f, 0x43e, 0x441, 0x435, 0x43b, 0x43e, 0x43a] \<comment> \<open>poselok\<close>,
         rx_lit [0x441, 0x2e] \<comment> \<open>s.\<close>,
         rx_lit [0x441, 0x435, 0x43b, 0x43e] \<comment> \<open>selo\<close>,
         rx_lit [0x434, 0x435, 0x440, 0x2e] \<comment> \<open>der.\<close>,
         rx_lit [0x434, 0x435, 0x440, 0x435, 0x432, 0x43d, 0x44f] \<comment> \<open>derevnya\<close>,
         rx_lit [0x441, 0x442, 0x2e] \<comment> \<open>st.\<close>,
         rx_lit [0x441, 0x442, 0x430, 0x43d, 0x438, 0x446, 0x430] \<comment> \<open>stanitsa\<close>,
         rx_lit [0x43f, 0x433, 0x442] \<comment> \<open>pgt\<close>,
         rx_lit [0x43c, 0x43a, 0x440, 0x2e] \<comment> \<open>mkr.\<close>,
         rx_lit [0x43c, 0x438, 0x43a, 0x440, 0x43e, 0x440, 0x430, 0x439, 0x43e, 0x43d] \<comment> \<open>mikrorayon\<close>],
     rx_plus rx_space,
     rx_plus (Cls (\<lambda>r. r = 0x2d \<or> (0x430 \<le> r \<and> r \<le> 0x44f) \<or> r = 0x451)),
     rx_rep (rx_cats
          [rx_plus rx_space,
           rx_plus (Cls (\<lambda>r. r = 0x2d \<or> (0x430 \<le> r \<and> r \<le> 0x44f) \<or> r = 0x451))]) 0 2]"

definition addrHouseLowerRe :: rx where
  "addrHouseLowerRe = rx_cats
    [rx_alts
        [rx_lit [0x434, 0x2e] \<comment> \<open>d.\<close>,
         rx_lit [0x434, 0x43e, 0x43c] \<comment> \<open>dom\<close>,
         rx_lit [0x434] \<comment> \<open>d\<close>],
     Star rx_space,
     rx_plus rx_digit,
     rx_opt (Cls (\<lambda>r. (0x61 \<le> r \<and> r \<le> 0x7a) \<or> (0x430 \<le> r \<and> r \<le> 0x44f))),
     rx_opt (rx_cats
          [Star rx_space,
           rx_lit [0x2f],
           Star rx_space,
           rx_plus rx_digit]),
     rx_opt (rx_cats
          [Star rx_space,
           rx_lit [0x2d],
           Star rx_space,
           rx_plus rx_digit]),
     rx_opt (rx_cats
          [Star rx_space,
           rx_alts
              [rx_lit [0x43a, 0x2e] \<comment> \<open>k.\<close>,
               rx_lit [0x43a, 0x43e, 0x440, 0x43f, 0x2e] \<comment> \<open>korp.\<close>,
               rx_lit [0x43a, 0x43e, 0x440, 0x43f, 0x443, 0x441] \<comment> \<open>korpus\<close>,
               rx_lit [0x43a] \<comment> \<open>k\<close>],
           Star rx_space,
           rx_plus rx_digit]),
     rx_opt (rx_cats
          [Star rx_space,
           rx_alts
              [rx_lit [0x441, 0x442, 0x440, 0x2e] \<comment> \<open>str.\<close>,
               rx_lit [0x441, 0x442, 0x440, 0x43e, 0x435, 0x43d, 0x438, 0x435] \<comment> \<open>stroenie\<close>,
               rx_lit [0x441] \<comment> \<open>s\<close>],
           Star rx_space,
           rx_plus rx_digit])]"

definition addrStrLowerRe :: rx where
  "addrStrLowerRe = rx_cats
    [rx_alts
        [rx_lit [0x441, 0x442, 0x440, 0x2e] \<comment> \<open>str.\<close>,
         rx_lit [0x441, 0x442, 0x440, 0x43e, 0x435, 0x43d, 0x438, 0x435] \<comment> \<open>stroenie\<close>],
     Star rx_space,
     rx_plus rx_digit,
     rx_opt (Cls (\<lambda>r. (0x61 \<le> r \<and> r \<le> 0x7a) \<or> (0x430 \<le> r \<and> r \<le> 0x44f)))]"

definition addrAptLowerRe :: rx where
  "addrAptLowerRe = rx_cats
    [rx_alts
        [rx_lit [0x43a, 0x432, 0x2e] \<comment> \<open>kv.\<close>,
         rx_lit [0x43a, 0x432] \<comment> \<open>kv\<close>,
         rx_lit [0x43a, 0x432, 0x430, 0x440, 0x442, 0x438, 0x440, 0x430] \<comment> \<open>kvartira\<close>,
         rx_lit [0x43e, 0x444, 0x2e] \<comment> \<open>of.\<close>,
         rx_lit [0x43e, 0x444, 0x438, 0x441] \<comment> \<open>ofis\<close>,
         rx_lit [0x43f, 0x43e, 0x43c, 0x2e] \<comment> \<open>pom.\<close>,
         rx_lit [0x43f, 0x43e, 0x43c, 0x435, 0x449, 0x435, 0x43d, 0x438, 0x435] \<comment> \<open>pomeshchenie\<close>,
         rx_lit [0x43a, 0x43e, 0x43c, 0x43d, 0x2e] \<comment> \<open>komn.\<close>],
     Star rx_space,
     rx_plus rx_digit,
     rx_opt (Cls (\<lambda>r. (0x430 \<le> r \<and> r \<le> 0x44f)))]"

definition addrAptWordLowerRe :: rx where
  "addrAptWordLowerRe = rx_cats
    [rx_alts
        [rx_lit [0x43a, 0x432, 0x2e] \<comment> \<open>kv.\<close>,
         rx_lit [0x43a, 0x432, 0x430, 0x440, 0x442, 0x438, 0x440, 0x430] \<comment> \<open>kvartira\<close>],
     rx_plus rx_space,
     rx_plus (Cls (\<lambda>r. (0x430 \<le> r \<and> r \<le> 0x44f) \<or> r = 0x451)),
     rx_opt (rx_cats
          [rx_plus rx_space,
           rx_plus (Cls (\<lambda>r. (0x430 \<le> r \<and> r \<le> 0x44f) \<or> r = 0x451))])]"

definition addrPOBoxLowerRe :: rx where
  "addrPOBoxLowerRe = rx_cats
    [rx_lit [0x430, 0x2f, 0x44f] \<comment> \<open>a/ya\<close>,
     Star rx_space,
     rx_plus rx_digit]"

definition addrParenLocalityRe :: rx where
  "addrParenLocalityRe = rx_cats
    [rx_lit [0x28],
     Cls (\<lambda>r. r = 0x401 \<or> (0x410 \<le> r \<and> r \<le> 0x42f)),
     rx_plus (Cls (\<lambda>r. r = 0x2d \<or> (0x430 \<le> r \<and> r \<le> 0x44f) \<or> r = 0x451)),
     rx_lit [0x29]]"

definition addrLabeledRe :: rx where
  "addrLabeledRe = rx_cats
    [rx_alts
        [rx_ilit [0x441, 0x442, 0x440, 0x430, 0x43d, 0x430, 0x20, 0x43f, 0x440, 0x43e, 0x436, 0x438, 0x432, 0x430, 0x43d, 0x438, 0x44f] \<comment> \<open>strana prozhivaniya\<close>,
         rx_ilit [0x441, 0x442, 0x440, 0x430, 0x43d, 0x430] \<comment> \<open>strana\<close>,
         rx_ilit [0x438, 0x43d, 0x434, 0x435, 0x43a, 0x441] \<comment> \<open>indeks\<close>,
         rx_ilit [0x433, 0x43e, 0x440, 0x43e, 0x434] \<comment> \<open>gorod\<close>,
         rx_ilit [0x443, 0x43b, 0x438, 0x446, 0x430] \<comment> \<open>ulitsa\<close>,
         rx_ilit [0x434, 0x43e, 0x43c] \<comment> \<open>dom\<close>,
         rx_ilit [0x43a, 0x432, 0x430, 0x440, 0x442, 0x438, 0x440, 0x430] \<comment> \<open>kvartira\<close>,
         rx_ilit [0x43a, 0x432, 0x2e] \<comment> \<open>kv.\<close>,
         rx_ilit [0x43a, 0x432] \<comment> \<open>kv\<close>,
         rx_ilit [0x72, 0x65, 0x67, 0x69, 0x6f, 0x6e] \<comment> \<open>region\<close>,
         rx_ilit [0x63, 0x6f, 0x75, 0x6e, 0x74, 0x72, 0x79] \<comment> \<open>country\<close>,
         rx_ilit [0x69, 0x6e, 0x64, 0x65, 0x78] \<comment> \<open>index\<close>,
         rx_ilit [0x7a, 0x69, 0x70] \<comment> \<open>zip\<close>,
         rx_ilit [0x63, 0x69, 0x74, 0x79] \<comment> \<open>city\<close>,
         rx_ilit [0x73, 0x74, 0x72, 0x65, 0x65, 0x74] \<comment> \<open>street\<close>,
         rx_ilit [0x62, 0x75, 0x69, 0x6c, 0x64, 0x69, 0x6e, 0x67] \<comment> \<open>building\<close>,
         rx_ilit [0x61, 0x70, 0x74] \<comment> \<open>apt\<close>],
     rx_alts
        [rx_cats
            [Star rx_space,
             rx_lit [0x3a],
             Star rx_space],
         rx_cats
            [Star rx_space,
             rx_lit [0x3d],
             Star rx_space],
         rx_cats
            [rx_plus rx_space,
             Cls (\<lambda>r. r = 0x2d \<or> r = 0x2014),
             rx_plus rx_space]]]"

subsection \<open>Words\<close>

definition addrContext :: "string list" where
  "addrContext =
    [encode_runes [0x430, 0x434, 0x440, 0x435, 0x441] \<comment> \<open>adres\<close>,
     encode_runes [0x43f, 0x440, 0x43e, 0x436, 0x438, 0x432, 0x430, 0x435, 0x442] \<comment> \<open>prozhivaet\<close>,
     encode_runes [0x43f, 0x440, 0x43e, 0x43f, 0x438, 0x441, 0x430, 0x43d] \<comment> \<open>propisan\<close>,
     encode_runes [0x437, 0x430, 0x440, 0x435, 0x433, 0x438, 0x441, 0x442, 0x440, 0x438, 0x440, 0x43e, 0x432, 0x430, 0x43d] \<comment> \<open>zaregistrirovan\<close>,
     encode_runes [0x43f, 0x440, 0x43e, 0x436, 0x438, 0x432, 0x430, 0x44e, 0x449, 0x438, 0x439] \<comment> \<open>prozhivayushchiy\<close>,
     encode_runes [0x43c, 0x435, 0x441, 0x442, 0x43e, 0x20, 0x436, 0x438, 0x442, 0x435, 0x43b, 0x44c, 0x441, 0x442, 0x432, 0x430] \<comment> \<open>mesto zhitelstva\<close>,
     encode_runes [0x434, 0x43e, 0x441, 0x442, 0x430, 0x432, 0x43a, 0x430] \<comment> \<open>dostavka\<close>,
     encode_runes [0x434, 0x43e, 0x441, 0x442, 0x430, 0x432, 0x438, 0x442, 0x44c] \<comment> \<open>dostavit\<close>,
     encode_runes [0x436, 0x438, 0x432, 0x443] \<comment> \<open>zhivu\<close>,
     encode_runes [0x436, 0x438, 0x432, 0x451, 0x442] \<comment> \<open>zhivyot\<close>,
     encode_runes [0x441, 0x43d, 0x438, 0x43c, 0x430, 0x44e] \<comment> \<open>snimayu\<close>,
     encode_runes [0x43f, 0x440, 0x43e, 0x436, 0x438, 0x432, 0x430, 0x44e] \<comment> \<open>prozhivayu\<close>,
     encode_runes [0x43f, 0x440, 0x43e, 0x43f, 0x438, 0x441, 0x43a, 0x430] \<comment> \<open>propiska\<close>,
     encode_runes [0x43f, 0x43e, 0x447, 0x442, 0x43e, 0x432, 0x44b, 0x439, 0x20, 0x430, 0x434, 0x440, 0x435, 0x441] \<comment> \<open>pochtovyy adres\<close>]"

definition addrExceptionStems :: "string list" where
  "addrExceptionStems =
    [encode_runes [0x43e, 0x442, 0x434, 0x435, 0x43b, 0x435, 0x43d, 0x438] \<comment> \<open>otdeleni\<close>,
     encode_runes [0x43e, 0x444, 0x438, 0x441] \<comment> \<open>ofis\<close>,
     encode_runes [0x431, 0x430, 0x43d, 0x43a, 0x43e, 0x43c, 0x430, 0x442] \<comment> \<open>bankomat\<close>,
     encode_runes [0x444, 0x438, 0x43b, 0x438, 0x430, 0x43b] \<comment> \<open>filial\<close>,
     encode_runes [0x44e, 0x440, 0x438, 0x434, 0x438, 0x447, 0x435, 0x441, 0x43a] \<comment> \<open>yuridichesk\<close>,
     encode_runes [0x44e, 0x440, 0x430, 0x434, 0x440, 0x435, 0x441] \<comment> \<open>yuradres\<close>,
     encode_runes [0x433, 0x43e, 0x43b, 0x43e, 0x432, 0x43d] \<comment> \<open>golovn\<close>,
     encode_runes [0x43e, 0x442, 0x435, 0x43b, 0x44c] \<comment> \<open>otel\<close>,
     encode_runes [0x433, 0x43e, 0x441, 0x442, 0x438, 0x43d, 0x438, 0x446] \<comment> \<open>gostinits\<close>,
     encode_runes [0x43a, 0x43e, 0x43d, 0x444, 0x435, 0x440, 0x435, 0x43d, 0x446] \<comment> \<open>konferents\<close>]"

definition bareStreetAdjectiveSuffixes :: "string list" where
  "bareStreetAdjectiveSuffixes =
    [encode_runes [0x441, 0x43a, 0x43e, 0x439] \<comment> \<open>skoy\<close>,
     sufSkaya,
     encode_runes [0x430, 0x44f] \<comment> \<open>aya\<close>,
     sufOy,
     sufIy,
     encode_runes [0x43e, 0x43c, 0x443] \<comment> \<open>omu\<close>,
     sufOm]"

definition addrExceptionPhrases :: "string list" where
  "addrExceptionPhrases =
    [encode_runes [0x43f, 0x443, 0x43d, 0x43a, 0x442, 0x20, 0x432, 0x44b, 0x434, 0x430, 0x447, 0x438] \<comment> \<open>punkt vydachi\<close>,
     encode_runes [0x430, 0x434, 0x440, 0x435, 0x441, 0x20, 0x431, 0x430, 0x43d, 0x43a, 0x430] \<comment> \<open>adres banka\<close>,
     encode_runes [0x434, 0x43e] \<comment> \<open>do\<close>,
     encode_runes [0x431, 0x430, 0x43d, 0x43a, 0x430] \<comment> \<open>banka\<close>,
     encode_runes [0x431, 0x430, 0x43d, 0x43a, 0x435] \<comment> \<open>banke\<close>]"

definition addrPersonalMarkers :: "string list" where
  "addrPersonalMarkers =
    [encode_runes [0x436, 0x438, 0x432, 0x443] \<comment> \<open>zhivu\<close>,
     encode_runes [0x436, 0x438, 0x432, 0x451, 0x442] \<comment> \<open>zhivyot\<close>,
     encode_runes [0x436, 0x438, 0x432, 0x435, 0x442] \<comment> \<open>zhivet\<close>,
     encode_runes [0x43f, 0x440, 0x43e, 0x436, 0x438, 0x432, 0x430, 0x44e] \<comment> \<open>prozhivayu\<close>,
     encode_runes [0x43f, 0x440, 0x43e, 0x436, 0x438, 0x432, 0x430, 0x435, 0x442] \<comment> \<open>prozhivaet\<close>,
     encode_runes [0x43f, 0x440, 0x43e, 0x43f, 0x438, 0x441, 0x430, 0x43d] \<comment> \<open>propisan\<close>,
     encode_runes [0x43f, 0x440, 0x43e, 0x43f, 0x438, 0x441, 0x430, 0x43d, 0x430] \<comment> \<open>propisana\<close>,
     encode_runes [0x437, 0x430, 0x440, 0x435, 0x433, 0x438, 0x441, 0x442, 0x440, 0x438, 0x440, 0x43e, 0x432, 0x430, 0x43d] \<comment> \<open>zaregistrirovan\<close>,
     encode_runes [0x437, 0x430, 0x440, 0x435, 0x433, 0x438, 0x441, 0x442, 0x440, 0x438, 0x440, 0x43e, 0x432, 0x430, 0x43d, 0x430] \<comment> \<open>zaregistrirovana\<close>,
     encode_runes [0x430, 0x434, 0x440, 0x435, 0x441, 0x20, 0x440, 0x435, 0x433, 0x438, 0x441, 0x442, 0x440, 0x430, 0x446, 0x438, 0x438] \<comment> \<open>adres registratsii\<close>,
     encode_runes [0x430, 0x434, 0x440, 0x435, 0x441, 0x20, 0x43f, 0x440, 0x43e, 0x436, 0x438, 0x432, 0x430, 0x43d, 0x438, 0x44f] \<comment> \<open>adres prozhivaniya\<close>,
     encode_runes [0x43c, 0x43e, 0x439, 0x20, 0x430, 0x434, 0x440, 0x435, 0x441] \<comment> \<open>moy adres\<close>,
     encode_runes [0x434, 0x43e, 0x43c, 0x430, 0x448, 0x43d, 0x438, 0x439, 0x20, 0x430, 0x434, 0x440, 0x435, 0x441] \<comment> \<open>domashniy adres\<close>,
     encode_runes [0x444, 0x430, 0x43a, 0x442, 0x438, 0x447, 0x435, 0x441, 0x43a, 0x438, 0x439, 0x20, 0x430, 0x434, 0x440, 0x435, 0x441] \<comment> \<open>fakticheskiy adres\<close>,
     encode_runes [0x43f, 0x440, 0x43e, 0x43f, 0x438, 0x441, 0x43a, 0x430] \<comment> \<open>propiska\<close>]"

definition bareStreetStopWords :: "string list" where
  "bareStreetStopWords =
    [encode_runes [0x431, 0x443, 0x434, 0x43d, 0x438, 0x439] \<comment> \<open>budniy\<close>,
     encode_runes [0x440, 0x430, 0x431, 0x43e, 0x447, 0x438, 0x439] \<comment> \<open>rabochiy\<close>,
     encode_runes [0x43b, 0x44e, 0x431, 0x43e, 0x439] \<comment> \<open>lyuboy\<close>,
     encode_runes [0x431, 0x43b, 0x438, 0x436, 0x430, 0x439, 0x448, 0x438, 0x439] \<comment> \<open>blizhayshiy\<close>,
     encode_runes [0x441, 0x43b, 0x435, 0x434, 0x443, 0x44e, 0x449, 0x438, 0x439] \<comment> \<open>sleduyushchiy\<close>,
     encode_runes [0x44d, 0x442, 0x43e, 0x442] \<comment> \<open>etot\<close>,
     encode_runes [0x43a, 0x430, 0x436, 0x434, 0x44b, 0x439] \<comment> \<open>kazhdyy\<close>,
     encode_runes [0x434, 0x435, 0x43d, 0x44c] \<comment> \<open>den\<close>,
     encode_runes [0x432, 0x440, 0x435, 0x43c, 0x44f] \<comment> \<open>vremya\<close>,
     encode_runes [0x447, 0x430, 0x441] \<comment> \<open>chas\<close>]"

definition bareStreetDurationWords :: "string list" where
  "bareStreetDurationWords =
    [encode_runes [0x447, 0x430, 0x441] \<comment> \<open>chas\<close>,
     encode_runes [0x434, 0x435, 0x43d, 0x44c] \<comment> \<open>den\<close>,
     encode_runes [0x434, 0x43e] \<comment> \<open>do\<close>]"

definition addrNonStreetWords :: "string list" where
  "addrNonStreetWords =
    [ctxPasport,
     encode_runes [0x441, 0x435, 0x440, 0x438, 0x44f] \<comment> \<open>seriya\<close>,
     encode_runes [0x441, 0x43d, 0x438, 0x43b, 0x441] \<comment> \<open>snils\<close>,
     encode_runes [0x438, 0x43d, 0x43d] \<comment> \<open>inn\<close>,
     encode_runes [0x442, 0x435, 0x43b, 0x435, 0x444, 0x43e, 0x43d] \<comment> \<open>telefon\<close>,
     encode_runes [0x442, 0x435, 0x43b] \<comment> \<open>tel\<close>,
     encode_runes [0x43a, 0x430, 0x440, 0x442, 0x430] \<comment> \<open>karta\<close>,
     encode_runes [0x441, 0x447, 0x451, 0x442] \<comment> \<open>schyot\<close>,
     encode_runes [0x441, 0x447, 0x435, 0x442] \<comment> \<open>schet\<close>,
     encode_runes [0x437, 0x430, 0x43a, 0x430, 0x437] \<comment> \<open>zakaz\<close>,
     encode_runes [0x434, 0x43e, 0x433, 0x43e, 0x432, 0x43e, 0x440] \<comment> \<open>dogovor\<close>,
     encode_runes [0x43a, 0x43e, 0x434] \<comment> \<open>kod\<close>,
     encode_runes [0x43f, 0x438, 0x43d] \<comment> \<open>pin\<close>,
     ''cvc'',
     ''cvv'',
     encode_runes [0x432, 0x44b, 0x434, 0x430, 0x43d] \<comment> \<open>vydan\<close>,
     encode_runes [0x432, 0x44b, 0x434, 0x430, 0x43d, 0x43e] \<comment> \<open>vydano\<close>,
     encode_runes [0x43f, 0x43e, 0x43b, 0x443, 0x447, 0x430, 0x442, 0x435, 0x43b, 0x44c] \<comment> \<open>poluchatel\<close>,
     encode_runes [0x43a, 0x43b, 0x438, 0x435, 0x43d, 0x442] \<comment> \<open>klient\<close>,
     encode_runes [0x43e, 0x43f, 0x435, 0x440, 0x430, 0x442, 0x43e, 0x440] \<comment> \<open>operator\<close>,
     encode_runes [0x444, 0x438, 0x43e] \<comment> \<open>fio\<close>,
     encode_runes [0x444, 0x2e, 0x438, 0x2e, 0x43e] \<comment> \<open>f.i.o\<close>,
     encode_runes [0x430, 0x434, 0x440, 0x435, 0x441] \<comment> \<open>adres\<close>,
     encode_runes [0x430, 0x434, 0x440, 0x435, 0x441, 0x443] \<comment> \<open>adresu\<close>,
     encode_runes [0x430, 0x434, 0x440, 0x435, 0x441, 0x430] \<comment> \<open>adresa\<close>,
     encode_runes [0x430, 0x434, 0x440, 0x435, 0x441, 0x435] \<comment> \<open>adrese\<close>,
     encode_runes [0x43f, 0x440, 0x43e, 0x436, 0x438, 0x432, 0x430, 0x44e] \<comment> \<open>prozhivayu\<close>,
     encode_runes [0x43f, 0x440, 0x43e, 0x436, 0x438, 0x432, 0x430, 0x435, 0x442] \<comment> \<open>prozhivaet\<close>,
     encode_runes [0x436, 0x438, 0x432, 0x443] \<comment> \<open>zhivu\<close>,
     encode_runes [0x436, 0x438, 0x432, 0x451, 0x442] \<comment> \<open>zhivyot\<close>,
     encode_runes [0x436, 0x438, 0x432, 0x435, 0x442] \<comment> \<open>zhivet\<close>,
     encode_runes [0x441, 0x43d, 0x438, 0x43c, 0x430, 0x44e] \<comment> \<open>snimayu\<close>,
     encode_runes [0x43f, 0x440, 0x43e, 0x43f, 0x438, 0x441, 0x43a, 0x430] \<comment> \<open>propiska\<close>,
     encode_runes [0x440, 0x435, 0x433, 0x438, 0x441, 0x442, 0x440, 0x430, 0x446, 0x438, 0x438] \<comment> \<open>registratsii\<close>,
     encode_runes [0x440, 0x435, 0x433, 0x438, 0x441, 0x442, 0x440, 0x430, 0x446, 0x438, 0x44f] \<comment> \<open>registratsiya\<close>]"

definition addrNonStreetPhrases :: "string list" where
  "addrNonStreetPhrases =
    [encode_runes [0x433, 0x43e, 0x440, 0x44f, 0x447, 0x430, 0x44f, 0x20, 0x43b, 0x438, 0x43d, 0x438, 0x44f] \<comment> \<open>goryachaya liniya\<close>]"

definition addrHotlineFollowWords :: "string list" where
  "addrHotlineFollowWords =
    [encode_runes [0x431, 0x430, 0x43d, 0x43a, 0x430] \<comment> \<open>banka\<close>,
     encode_runes [0x431, 0x430, 0x43d, 0x43a, 0x443] \<comment> \<open>banku\<close>,
     encode_runes [0x431, 0x430, 0x43d, 0x43a, 0x435] \<comment> \<open>banke\<close>]"

definition addrClauseBoundary :: string where
  "addrClauseBoundary = [CHR '','', CHR ''.'', CHR ''!'', CHR ''?'', CHR 0x0A]"

subsection \<open>Components\<close>

record addrComponent =
  ac_start :: nat
  ac_end :: nat
  ac_kind :: string

definition component :: "nat \<Rightarrow> nat \<Rightarrow> string \<Rightarrow> addrComponent" where
  "component a e k = \<lparr> ac_start = a, ac_end = e, ac_kind = k \<rparr>"

definition addrComponentLess :: "addrComponent \<Rightarrow> addrComponent \<Rightarrow> bool" where
  "addrComponentLess a b =
     (if ac_start a \<noteq> ac_start b then ac_start a < ac_start b
      else if ac_end a \<noteq> ac_end b then ac_end a > ac_end b
      else ac_kind a = kindLabeled \<and> ac_kind b \<noteq> kindLabeled)"

definition followedByDigit :: "string \<Rightarrow> nat \<Rightarrow> bool" where
  "followedByDigit tx pos =
     (if length tx \<le> pos then False else ascii_digit (fst (DecodeRune (drop pos tx))))"

definition findLocalities :: "string \<Rightarrow> string \<Rightarrow> rx \<Rightarrow> addrComponent list" where
  "findLocalities search tx localityRe =
     map (\<lambda>loc. component (m_lo loc) (m_hi loc) kindLocality)
       (filter (\<lambda>loc. \<not> (0 < m_lo loc \<and> isLetterRune_det (runeBefore tx (m_lo loc))))
         (FindAllIndex search localityRe))"

definition isHotlineLinija :: "runtime \<Rightarrow> string \<Rightarrow> bool" where
  "isHotlineLinija rt phrase =
     (case Fields (ToLower rt phrase) of
        w # v # _ \<Rightarrow> if w \<noteq> (encode_runes [0x43b, 0x438, 0x43d, 0x438, 0x44f] \<comment> \<open>liniya\<close>) then False
                    else v \<in> set addrHotlineFollowWords
      | _ \<Rightarrow> False)"

definition findStreets :: "runtime \<Rightarrow> string \<Rightarrow> addrComponent list" where
  "findStreets rt tx =
     map (\<lambda>loc. component (m_lo loc) (m_hi loc) kindStreet)
       (filter (\<lambda>loc. \<not> isLetterRune_det (runeBefore tx (m_lo loc)) \<and>
                      \<not> isHotlineLinija rt (between tx (m_lo loc) (m_hi loc)))
         (FindAllIndex tx addrStreetMarkerRe) @
        filter (\<lambda>loc. ToLower rt (between tx (m_lo loc) (m_hi loc)) \<notin> set addrNonStreetPhrases)
         (FindAllIndex tx addrStreetNameRe))"

text \<open>The loop \<^verbatim>\<open>for cut > start && text[cut-1] != ' ' { cut-- }\<close>.\<close>

fun cut_back :: "string \<Rightarrow> nat \<Rightarrow> nat \<Rightarrow> nat" where
  "cut_back tx start 0 = 0"
| "cut_back tx start (Suc c) = (if start < Suc c \<and> tx ! c \<noteq> CHR '' '' then cut_back tx start c else Suc c)"

definition street_tail_words :: "string list" where
  "street_tail_words =
    [encode_runes [0x434] \<comment> \<open>d\<close>,
     encode_runes [0x434, 0x43e, 0x43c] \<comment> \<open>dom\<close>,
     encode_runes [0x43a] \<comment> \<open>k\<close>,
     markerKorp,
     encode_runes [0x43a, 0x43e, 0x440, 0x43f, 0x443, 0x441] \<comment> \<open>korpus\<close>,
     markerStr,
     encode_runes [0x441, 0x442, 0x440, 0x43e, 0x435, 0x43d, 0x438, 0x435] \<comment> \<open>stroenie\<close>]"

definition trimStreetMarker :: "runtime \<Rightarrow> string \<Rightarrow> nat \<Rightarrow> nat \<Rightarrow> nat" where
  "trimStreetMarker rt tx start e =
     (let words = Fields (between tx start e) in
      if words = [] then e
      else if ToLower rt (TrimRight (CHR ''.'') (last words)) \<in> set street_tail_words then cut_back tx start e
      else e)"

definition trimStreetMarkers :: "runtime \<Rightarrow> string \<Rightarrow> addrComponent list \<Rightarrow> addrComponent list" where
  "trimStreetMarkers rt tx comps =
     map (\<lambda>c. if ac_kind c \<noteq> kindStreet then c
              else c\<lparr> ac_end := trimStreetMarker rt tx (ac_start c) (ac_end c) \<rparr>) comps"

definition bareHousesInWindow :: "string \<Rightarrow> nat \<Rightarrow> nat \<Rightarrow> rx \<Rightarrow> nat \<Rightarrow> addrComponent list" where
  "bareHousesInWindow tx from windowEnd re maxGap =
     map (\<lambda>loc. component (from + m_lo loc) (from + m_hi loc) kindHouse)
       (filter (\<lambda>loc. \<not> followedByDigit tx (from + m_hi loc) \<and> gapRunes tx from (from + m_lo loc) \<le> maxGap)
         (FindAllIndex (between tx from windowEnd) re))"

definition bareHousesAfterStreet :: "string \<Rightarrow> addrComponent list \<Rightarrow> addrComponent list" where
  "bareHousesAfterStreet tx comps =
     concat (map (\<lambda>s.
       if ac_kind s \<noteq> kindStreet then []
       else let windowEnd = runeOffsetAfter tx (ac_end s) 200 in
         bareHousesInWindow tx (ac_end s) windowEnd addrBareHouseRe 3 @
         bareHousesInWindow tx (ac_end s) windowEnd addrBareHouseDirectRe 1) comps)"

subsection \<open>Cities of the dictionary\<close>

definition localityComponent ::
  "runtime \<Rightarrow> string \<Rightarrow> nat \<Rightarrow> nat \<Rightarrow> bool \<Rightarrow> Text \<Rightarrow> addrComponent list option" where
  "localityComponent rt tx start e needCtx t =
     do { l \<leftarrow> (if 0 < start then map_option letter_byte (byte_at tx (int start - 1)) else Some False);
          if l then Some []
          else if e < length tx \<and> letter_byte (tx ! e) then Some []
          else if needCtx \<and> \<not> hasLeftContext rt t start addrContext 30 then Some []
          else Some [component start e kindLocality] }"

definition matchCity ::
  "runtime \<Rightarrow> citiesDict \<Rightarrow> Text \<Rightarrow> string \<Rightarrow> nat \<Rightarrow> bool \<Rightarrow> bool \<Rightarrow> string \<Rightarrow> addrComponent list option" where
  "matchCity rt cd t lower i includeCity needCtx city =
     do { here \<leftarrow> (if includeCity \<and> HasPrefix (drop i lower) city
                   then localityComponent rt (Raw t) i (i + length city) False t else Some []);
          forms \<leftarrow> concat_opt (\<lambda>form. if \<not> HasPrefix (drop i lower) form then Some []
                   else localityComponent rt (Raw t) i (i + length form) needCtx t) (cd_oblique cd city);
          Some (here @ forms) }"

function scan_loop ::
  "runtime \<Rightarrow> citiesDict \<Rightarrow> Text \<Rightarrow> string \<Rightarrow> bool \<Rightarrow> bool \<Rightarrow> nat \<Rightarrow> addrComponent list option" where
  "scan_loop rt cd t lower includeCity needCtx i =
     (if i < length lower then
        let p = firstTwoRunes (drop i lower) in
        if p = '''' then Some []
        else do { comps \<leftarrow> concat_opt (matchCity rt cd t lower i includeCity needCtx) (cd_byPrefix cd p);
                  rest \<leftarrow> scan_loop rt cd t lower includeCity needCtx (i + width_at lower i);
                  Some (comps @ rest) }
      else Some [])"
  by pat_completeness auto
termination
  by (relation "measure (\<lambda>(rt, cd, t, lower, a, b, i). length lower - i)") (auto simp: diff_less_mono2 width_at_pos)

declare scan_loop.simps [simp del]

definition scanLocalities ::
  "runtime \<Rightarrow> citiesDict \<Rightarrow> Text \<Rightarrow> string \<Rightarrow> bool \<Rightarrow> bool \<Rightarrow> addrComponent list option" where
  "scanLocalities rt cd t lower includeCity needCtx = scan_loop rt cd t lower includeCity needCtx 0"

definition findDictLocalities :: "runtime \<Rightarrow> citiesDict \<Rightarrow> Text \<Rightarrow> addrComponent list option" where
  "findDictLocalities rt cd t =
     (let lower = (if LowerOK t then Lower t else ToLower rt (Raw t)) in
      do { a \<leftarrow> scanLocalities rt cd t lower True False;
           b \<leftarrow> scanLocalities rt cd t lower False True;
           Some (a @ b @ map (\<lambda>loc. component (m_lo loc) (m_hi loc) kindLocality)
             (FindAllIndex (Raw t) addrParenLocalityRe)) })"

subsection \<open>Bare streets\<close>

definition bareStreetIsNonStreet :: "runtime \<Rightarrow> string \<Rightarrow> nat \<Rightarrow> bool" where
  "bareStreetIsNonStreet rt tx start \<longleftrightarrow> ToLower rt (nextWord tx start) \<in> set addrNonStreetWords"

definition bare_street_after :: "runtime \<Rightarrow> string \<Rightarrow> addrComponent \<Rightarrow> addrComponent list option" where
  "bare_street_after rt tx s =
     (if ac_kind s \<noteq> kindLocality then Some []
      else
        do { seg \<leftarrow> slice tx (int (ac_end s)) (int (runeOffsetAfter tx (ac_end s) 200));
             Some (map (\<lambda>loc. component (ac_end s + m_lo loc) (ac_end s + m_hi loc) kindStreetHouse)
               (filter (\<lambda>loc. \<not> followedByDigit tx (ac_end s + m_hi loc) \<and>
                   gapRunes tx (ac_end s) (ac_end s + m_lo loc) \<le> 3 \<and>
                   \<not> bareStreetIsNonStreet rt tx (ac_end s + m_lo loc))
                 (FindAllIndex seg addrBareStreetHouseRe))) })"

definition bareStreetsAfterLocality :: "runtime \<Rightarrow> string \<Rightarrow> addrComponent list \<Rightarrow> addrComponent list option" where
  "bareStreetsAfterLocality rt tx comps = concat_opt (bare_street_after rt tx) comps"

definition hasAdjectiveSuffix :: "string \<Rightarrow> bool" where
  "hasAdjectiveSuffix word \<longleftrightarrow> list_ex (HasSuffix word) bareStreetAdjectiveSuffixes"

text \<open>\<^term>\<open>None\<close> is the result -1 of \<^verbatim>\<open>lastDigitRun\<close>.\<close>

definition lastDigitRun :: "string \<Rightarrow> nat \<Rightarrow> nat \<Rightarrow> nat option" where
  "lastDigitRun s start e =
     foldl (\<lambda>pos i. if is_digit (s ! i) then Some i else pos) None [start..<e]"

definition bareStreetAdjectiveOK :: "string \<Rightarrow> nat \<Rightarrow> nat \<Rightarrow> bool" where
  "bareStreetAdjectiveOK lower start e =
     (let word = nextWord lower start in
      if word \<in> set bareStreetStopWords \<or> \<not> hasAdjectiveSuffix word then False
      else case lastDigitRun lower start e of
        None \<Rightarrow> False
      | Some number \<Rightarrow>
          let after = number + 1 + length (takeWhile (\<lambda>b. b = CHR '' '') (between lower (number + 1) e)) in
          if after < length lower \<and> lower ! after = CHR '':'' then False
          else if after < e \<and> nextWord lower after \<in> set bareStreetDurationWords then False
          else True)"

definition bareStreetContextMatchOK :: "runtime \<Rightarrow> string \<Rightarrow> string \<Rightarrow> nat \<Rightarrow> nat \<Rightarrow> bool" where
  "bareStreetContextMatchOK rt tx lower start e =
     (if followedByDigit tx e then False
      else if bareStreetIsNonStreet rt tx start then False
      else bareStreetAdjectiveOK lower start e)"

definition findBareStreetContextLower :: "runtime \<Rightarrow> Text \<Rightarrow> addrComponent list" where
  "findBareStreetContextLower rt t =
     (let search = search_text t in
      concat (map (\<lambda>loc.
        case group_range loc 1 of
          None \<Rightarrow> []
        | Some (start, e) \<Rightarrow>
            if \<not> bareStreetContextMatchOK rt (Raw t) search start e then []
            else if hasLeftContext rt t start addrContext 30 then [component start e kindStreetHouse]
            else [])
        (FindAllIndex search addrBareStreetCtxLowerRe)))"

definition findBareStreetContext :: "runtime \<Rightarrow> Text \<Rightarrow> addrComponent list" where
  "findBareStreetContext rt t =
     map (\<lambda>loc. component (m_lo loc) (m_hi loc) kindStreetHouse)
       (filter (\<lambda>loc. \<not> followedByDigit (Raw t) (m_hi loc) \<and> hasLeftContext rt t (m_lo loc) addrContext 30)
         (FindAllIndex (Raw t) addrBareStreetCtxRe)) @
     findBareStreetContextLower rt t"

subsection \<open>Labelled values\<close>

definition sentenceEndPeriod :: "string \<Rightarrow> nat \<Rightarrow> nat \<Rightarrow> nat option" where
  "sentenceEndPeriod tx start e =
     List.find (\<lambda>i. tx ! i = CHR ''.'' \<and> i + 1 < length tx \<and> tx ! (i + 1) = CHR '' '' \<and> i + 2 < e \<and>
         isUpperRune (decodedRune tx (i + 2)))
       [start..<e]"

definition label_space :: "char \<Rightarrow> bool" where
  "label_space b \<longleftrightarrow> b = CHR '' '' \<or> b = CHR 0x09"

definition label_end :: "char \<Rightarrow> bool" where
  "label_end b \<longleftrightarrow> b = CHR '' '' \<or> b = CHR 0x09 \<or> b = CHR '','' \<or> b = CHR '';'' \<or> b = CHR 0x0A"

definition trimLabeledValue :: "string \<Rightarrow> nat \<Rightarrow> nat \<Rightarrow> nat \<times> nat" where
  "trimLabeledValue tx start0 end0 =
     (let e1 = (case sentenceEndPeriod tx start0 end0 of None \<Rightarrow> end0 | Some p \<Rightarrow> p);
          a = start0 + length (takeWhile label_space (between tx start0 e1));
          e2 = e1 - length (takeWhile label_end (rev (between tx a e1)));
          e3 = (if e2 > a \<and> tx ! (e2 - 1) = CHR ''.'' \<and> e2 \<ge> a + 2 \<and> is_digit (tx ! (e2 - 2)) then e2 - 1 else e2)
      in (a, e3))"

fun labeled_loop :: "string \<Rightarrow> match list \<Rightarrow> addrComponent list" where
  "labeled_loop tx [] = []"
| "labeled_loop tx (loc # locs) =
     (let end0 = (case locs of
                    nx # _ \<Rightarrow> m_lo nx
                  | [] \<Rightarrow> (case Index (drop (m_hi loc) tx) [CHR 0x0A] of
                            Some nl \<Rightarrow> m_hi loc + nl | None \<Rightarrow> length tx));
          (start, e) = trimLabeledValue tx (m_hi loc) end0
      in (if e > start then [component start e kindLabeled] else []) @ labeled_loop tx locs)"

definition findLabeledComponents :: "string \<Rightarrow> addrComponent list" where
  "findLabeledComponents tx = labeled_loop tx (FindAllIndex tx addrLabeledRe)"

subsection \<open>All components\<close>

definition add_matches :: "string \<Rightarrow> rx \<Rightarrow> string \<Rightarrow> addrComponent list" where
  "add_matches search re kind = map (\<lambda>loc. component (m_lo loc) (m_hi loc) kind) (FindAllIndex search re)"

definition findComponents :: "runtime \<Rightarrow> citiesDict \<Rightarrow> Text \<Rightarrow> addrComponent list option" where
  "findComponents rt cd t =
     (let tx = Raw t; search = search_text t; low = LowerOK t;
          c1 = add_matches search addrIndexRe ''index'' @
               add_matches search (if low then addrCountryLowerRe else addrCountryRe) ''country'' @
               add_matches search (if low then addrRegionLowerRe else addrRegionRe) ''region'' @
               add_matches search (if low then addrDistrictLowerRe else addrDistrictRe) ''district'' @
               findLocalities search tx (if low then addrLocalityLowerRe else addrLocalityRe) @
               findStreets rt tx;
          c2 = trimStreetMarkers rt tx c1 @
               add_matches search (if low then addrHouseLowerRe else addrHouseRe) kindHouse @
               add_matches search (if low then addrStrLowerRe else addrStrRe) kindHouse @
               add_matches search (if low then addrAptLowerRe else addrAptRe) ''apartment'' @
               add_matches search (if low then addrAptWordLowerRe else addrAptWordRe) ''apartment'' @
               add_matches search (if low then addrPOBoxLowerRe else addrPOBoxRe) ''po_box'';
          c3 = c2 @ bareHousesAfterStreet tx c2
      in do { cities \<leftarrow> findDictLocalities rt cd t;
              bare \<leftarrow> bareStreetsAfterLocality rt tx (c3 @ cities);
              Some (c3 @ cities @ bare @ findBareStreetContext rt t @ findLabeledComponents tx) })"

subsection \<open>Groups\<close>

definition drop_overlaps :: "addrComponent list \<Rightarrow> addrComponent list" where
  "drop_overlaps comps =
     foldl (\<lambda>kept c. if kept \<noteq> [] \<and> ac_start c < ac_end (last kept) then kept else kept @ [c]) [] comps"

text \<open>The loop over the occurrences of a period and a space in the gap.\<close>

function period_capital :: "string \<Rightarrow> nat \<Rightarrow> string \<Rightarrow> bool" where
  "period_capital tx from search =
     (case Index search ''. '' of
        None \<Rightarrow> False
      | Some i \<Rightarrow>
          let after = from + i + 2 in
          if after < length tx \<and> isUpperRune (fst (DecodeRune (drop after tx))) then True
          else period_capital tx from (drop (i + 2) search))"
  by pat_completeness auto
termination
proof (relation "measure (\<lambda>(tx, from, search). length search)", goal_cases)
  case (2 tx "from" search i after)
  then have "occurs_at search ''. '' i" by (simp add: Index_Some)
  from occurs_at_bound [OF this] show ?case by simp
qed simp

declare period_capital.simps [simp del]

definition crossesSentenceBoundary :: "string \<Rightarrow> nat \<Rightarrow> nat \<Rightarrow> bool" where
  "crossesSentenceBoundary tx from til =
     (let seg = between tx from til in
      if list_ex (\<lambda>b. b = CHR ''!'' \<or> b = CHR ''?'' \<or> b = CHR 0x0A) seg then True
      else period_capital tx from seg)"

function groupEnd :: "string \<Rightarrow> addrComponent list \<Rightarrow> nat \<Rightarrow> nat" where
  "groupEnd tx kept j =
     (if j + 1 < length kept \<and>
         gapRunes tx (ac_end (kept ! j)) (ac_start (kept ! (j + 1))) \<le> 3 \<and>
         \<not> crossesSentenceBoundary tx (ac_end (kept ! j)) (ac_start (kept ! (j + 1)))
      then groupEnd tx kept (j + 1) else j)"
  by pat_completeness auto
termination
  by (relation "measure (\<lambda>(tx, kept, j). length kept - j)") auto

declare groupEnd.simps [simp del]

record groupFlags =
  gf_street :: bool
  gf_house :: bool
  gf_locality :: bool
  gf_other :: bool
  gf_labeled :: bool

definition classify_one :: "groupFlags \<Rightarrow> addrComponent \<Rightarrow> groupFlags" where
  "classify_one f c =
     (if ac_kind c = kindStreet then f\<lparr> gf_street := True \<rparr>
      else if ac_kind c = kindHouse then f\<lparr> gf_house := True \<rparr>
      else if ac_kind c = kindStreetHouse then f\<lparr> gf_street := True, gf_house := True \<rparr>
      else if ac_kind c = kindLocality then f\<lparr> gf_locality := True \<rparr>
      else if ac_kind c = kindLabeled then f\<lparr> gf_labeled := True \<rparr>
      else f\<lparr> gf_other := True \<rparr>)"

definition classifyGroup :: "addrComponent list \<Rightarrow> groupFlags" where
  "classifyGroup grp =
     foldl classify_one
       \<lparr> gf_street = False, gf_house = False, gf_locality = False, gf_other = False, gf_labeled = False \<rparr> grp"

subsection \<open>Organisation addresses\<close>

definition lastClause :: "string \<Rightarrow> string" where
  "lastClause s = rev (takeWhile (\<lambda>b. b \<notin> set addrClauseBoundary) (rev s))"

text \<open>
  The loops of \<^verbatim>\<open>lastStemIndex\<close> and \<^verbatim>\<open>lastWordIndex\<close>, -1 for no occurrence. The words looked for are not empty, so
  an occurrence ends in the text and the next slice is in range; the first test only ends the recursion.
\<close>

function last_loop :: "(nat \<Rightarrow> bool) \<Rightarrow> string \<Rightarrow> string \<Rightarrow> nat \<Rightarrow> int \<Rightarrow> int" where
  "last_loop ok s kw idx best =
     (if length s < idx then best
      else case Index (drop idx s) kw of
        None \<Rightarrow> best
      | Some pos \<Rightarrow> let start = idx + pos in last_loop ok s kw (start + 1) (if ok start then int start else best))"
  by pat_completeness auto
termination
  by (relation "measure (\<lambda>(ok, s, kw, idx, best). length s + 1 - idx)") auto

declare last_loop.simps [simp del]

definition lastStemIndex :: "string \<Rightarrow> string \<Rightarrow> int" where
  "lastStemIndex s stem = last_loop (\<lambda>start. start = 0 \<or> \<not> isLetterRune_det (runeBefore s start)) s stem 0 (-1)"

definition lastWordIndex :: "string \<Rightarrow> string \<Rightarrow> int" where
  "lastWordIndex s kw =
     last_loop (\<lambda>start.
        (start = 0 \<or> \<not> isLetterRune_det (runeBefore s start)) \<and>
        (start + length kw = length s \<or> \<not> isLetterRune_det (decodedRune s (start + length kw)))) s kw 0 (-1)"

definition containsStem :: "string \<Rightarrow> string \<Rightarrow> bool" where
  "containsStem s stem \<longleftrightarrow> lastStemIndex s stem \<ge> 0"

definition containsWord :: "string \<Rightarrow> string \<Rightarrow> bool" where
  "containsWord s kw \<longleftrightarrow> lastWordIndex s kw \<ge> 0"

definition max_index :: "int \<Rightarrow> int list \<Rightarrow> int" where
  "max_index best idxs = foldl (\<lambda>b i. if i > b then i else b) best idxs"

definition lastExceptionIndex :: "string \<Rightarrow> int" where
  "lastExceptionIndex s =
     max_index (max_index (-1) (map (lastStemIndex s) addrExceptionStems)) (map (lastWordIndex s) addrExceptionPhrases)"

definition lastMarkerIndex :: "string \<Rightarrow> int" where
  "lastMarkerIndex s = max_index (-1) (map (lastWordIndex s) addrPersonalMarkers)"

definition hasException :: "runtime \<Rightarrow> Text \<Rightarrow> nat \<Rightarrow> bool \<Rightarrow> bool" where
  "hasException rt t pos clauseBound =
     (let prefix0 = runeWindowBefore rt t pos 60;
          prefix = (if clauseBound then lastClause prefix0 else prefix0);
          orgIdx = lastExceptionIndex prefix
      in if orgIdx < 0 then False else lastMarkerIndex prefix < orgIdx)"

definition validGroup :: "runtime \<Rightarrow> Text \<Rightarrow> addrComponent list \<Rightarrow> bool" where
  "validGroup rt t grp =
     (let flags = classifyGroup grp; start = ac_start (hd grp) in
      if length grp = 1 \<and> gf_labeled flags then \<not> hasException rt t start False
      else if gf_street flags \<and> gf_house flags then \<not> hasException rt t start True
      else if gf_locality flags \<and> (gf_other flags \<or> gf_street flags \<or> gf_house flags) then \<not> hasException rt t start True
      else if hasLeftContext rt t start addrContext 30 then \<not> hasException rt t start True
      else False)"

subsection \<open>The detector\<close>

definition addr_span :: "addrComponent list \<Rightarrow> Span" where
  "addr_span grp =
     \<lparr> sp_Start = int (ac_start (hd grp)), sp_End = int (ac_end (last grp)), sp_Category = CatAddress,
       sp_Detector = ''address'', sp_Confidence = 9 / 10 \<rparr>"

lemma groupEnd_ge: "j \<le> groupEnd tx kept j"
proof (induction tx kept j rule: groupEnd.induct)
  case (1 tx kept j)
  then show ?case by (subst groupEnd.simps) (auto intro: Suc_leD)
qed

function group_loop :: "runtime \<Rightarrow> Text \<Rightarrow> addrComponent list \<Rightarrow> nat \<Rightarrow> Span list" where
  "group_loop rt t kept i =
     (if i < length kept then
        let j = groupEnd (Raw t) kept i; grp = take (j + 1 - i) (drop i kept) in
        (if validGroup rt t grp then [addr_span grp] else []) @ group_loop rt t kept (j + 1)
      else [])"
  by pat_completeness auto
termination
proof (relation "measure (\<lambda>(rt, t, kept, i). length kept - i)", goal_cases)
  case (2 rt t kept i j grp)
  with groupEnd_ge [of i "Raw t" kept] show ?case by simp
qed simp

declare group_loop.simps [simp del]

definition DetectLower_addr :: "runtime \<Rightarrow> citiesDict \<Rightarrow> Text \<Rightarrow> Span list option" where
  "DetectLower_addr rt cd t =
     do { comps \<leftarrow> findComponents rt cd t;
          Some (if comps = [] then []
                else group_loop rt t (drop_overlaps (sort_slice (sort_perm rt) addrComponentLess comps)) 0) }"

definition NewAddressDetector :: "runtime \<Rightarrow> citiesDict \<Rightarrow> detector" where
  "NewAddressDetector rt cd = detector_of rt ''address'' [CatAddress] (DetectLower_addr rt cd)"

subsection \<open>Components lie in the text\<close>

definition comp_ok :: "nat \<Rightarrow> addrComponent \<Rightarrow> bool" where
  "comp_ok n c \<longleftrightarrow> ac_start c \<le> ac_end c \<and> ac_end c \<le> n"

lemma comp_ok_component [simp]: "comp_ok n (component a e k) \<longleftrightarrow> a \<le> e \<and> e \<le> n"
  by (simp add: comp_ok_def component_def)

lemma component_simps [simp]:
  "ac_start (component a e k) = a" "ac_end (component a e k) = e" "ac_kind (component a e k) = k"
  by (simp_all add: component_def)

lemma match_range: "m \<in> set (FindAllIndex s r) \<Longrightarrow> m_lo m \<le> m_hi m \<and> m_hi m \<le> length s"
  using all_from_sound [of m s r 0 None] by (simp add: FindAllIndex_def)

lemma add_matches_ok: "c \<in> set (add_matches s re k) \<Longrightarrow> comp_ok (length s) c"
  by (auto simp: add_matches_def dest: match_range)

lemma findLocalities_ok: "c \<in> set (findLocalities s tx re) \<Longrightarrow> comp_ok (length s) c"
  by (auto simp: findLocalities_def dest: match_range)

lemma findStreets_ok: "c \<in> set (findStreets rt tx) \<Longrightarrow> comp_ok (length tx) c"
  by (auto simp: findStreets_def dest: match_range)

lemma cut_back_range: "a \<le> e \<Longrightarrow> a \<le> cut_back tx a e \<and> cut_back tx a e \<le> e"
  by (induction e) auto

lemma trimStreetMarker_range: "a \<le> e \<Longrightarrow> a \<le> trimStreetMarker rt tx a e \<and> trimStreetMarker rt tx a e \<le> e"
  using cut_back_range [of a e tx] by (simp add: trimStreetMarker_def Let_def)

lemma trimStreetMarkers_ok:
  "\<forall>c \<in> set cs. comp_ok n c \<Longrightarrow> \<forall>c \<in> set (trimStreetMarkers rt tx cs). comp_ok n c"
  using trimStreetMarker_range by (fastforce simp: trimStreetMarkers_def comp_ok_def intro: le_trans)

lemma window_match:
  assumes "m \<in> set (FindAllIndex (between tx a (runeOffsetAfter tx a 200)) re)" and "a \<le> length tx"
  shows "m_lo m \<le> m_hi m" and "a + m_hi m \<le> length tx"
  using match_range [OF assms(1)] assms(2) by (auto simp: between_def)

lemma bareHousesInWindow_ok:
  "c \<in> set (bareHousesInWindow tx a (runeOffsetAfter tx a 200) re g) \<Longrightarrow> a \<le> length tx \<Longrightarrow> comp_ok (length tx) c"
  by (auto simp: bareHousesInWindow_def dest: window_match)

lemma bareHousesAfterStreet_ok:
  assumes "c \<in> set (bareHousesAfterStreet tx cs)" and "\<forall>c \<in> set cs. comp_ok (length tx) c"
  shows "comp_ok (length tx) c"
proof -
  from assms(1) obtain s where s: "s \<in> set cs" and
    c: "c \<in> set (bareHousesInWindow tx (ac_end s) (runeOffsetAfter tx (ac_end s) 200) addrBareHouseRe 3) \<or>
        c \<in> set (bareHousesInWindow tx (ac_end s) (runeOffsetAfter tx (ac_end s) 200) addrBareHouseDirectRe 1)"
    by (auto simp: bareHousesAfterStreet_def Let_def split: if_splits)
  have "ac_end s \<le> length tx" using s assms(2) by (simp add: comp_ok_def)
  with c bareHousesInWindow_ok show ?thesis by blast
qed

lemma ctxLower_wf: "wf_caps addrBareStreetCtxLowerRe"
  by (simp add: wf_caps_def addrBareStreetCtxLowerRe_def)

lemma all_from_match_at: "m \<in> set (all_from s r i prev) \<Longrightarrow> \<exists>k. match_at s r k = Some m"
proof (induction s r i prev rule: all_from.induct)
  case (1 s r i prev)
  then obtain m' where i: "i \<le> length s" and f: "find_from s r i = Some m'"
    using all_from_None [of s i r prev] by (metis empty_iff empty_set not_le_imp_less option.exhaust)
  have k: "\<exists>k. match_at s r k = Some m'"
    using f by (induction s r i rule: find_from.induct) (subst (asm) (2) find_from.simps; auto split: option.splits if_splits)
  consider "m = m'" | "m \<in> set (all_from s r (next_pos s i m') (Some (m_hi m')))"
    using "1.prems" by (auto simp: all_from_Some [OF i f] split: if_splits)
  then show ?case using k "1.IH" [OF _ f] i by cases auto
qed

lemma FindAllIndex_caps:
  assumes "m \<in> set (FindAllIndex s r)" and "wf_caps r"
  shows "caps_ok 0 (length s) (cap_list r) (m_caps m)"
proof -
  obtain k where "match_at s r k = Some m" using all_from_match_at [of m s r 0 None] assms(1) by (auto simp: FindAllIndex_def)
  then obtain j cs ms where e: "rx_matches s r k [] = (j, cs) # ms" "m = \<lparr> m_lo = k, m_hi = j, m_caps = cs \<rparr>"
    by (auto simp: match_at_def split: list.splits)
  have "(j, cs) \<in> set (rx_matches s r k [])" by (simp add: e)
  from rx_matches_caps [OF this assms(2)] have "caps_ok k j (cap_list r) cs" by auto
  with match_range [OF assms(1)] show ?thesis by (auto simp: e(2) elim!: caps_ok_mono)
qed

lemma findBareStreetContext_ok: "c \<in> set (findBareStreetContext rt t) \<Longrightarrow> comp_ok (length (Raw t)) c"
proof -
  assume "c \<in> set (findBareStreetContext rt t)"
  then consider "\<exists>m \<in> set (FindAllIndex (Raw t) addrBareStreetCtxRe). c = component (m_lo m) (m_hi m) kindStreetHouse"
    | "c \<in> set (findBareStreetContextLower rt t)"
    by (auto simp: findBareStreetContext_def)
  then show ?thesis
  proof cases
    case 1
    then show ?thesis by (auto dest: match_range)
  next
    case 2
    then obtain m where m: "m \<in> set (FindAllIndex (search_text t) addrBareStreetCtxLowerRe)"
      and cm: "c \<in> set (case group_range m 1 of None \<Rightarrow> []
        | Some (start, e) \<Rightarrow>
            if \<not> bareStreetContextMatchOK rt (Raw t) (search_text t) start e then []
            else if hasLeftContext rt t start addrContext 30 then [component start e kindStreetHouse] else [])"
      unfolding findBareStreetContextLower_def Let_def set_concat set_map by blast
    then obtain a e where g: "group_range m 1 = Some (a, e)" by (cases "group_range m 1") auto
    with cm have c: "c = component a e kindStreetHouse" by (simp split: if_split_asm)
    from g have "(1, a, e) \<in> set (m_caps m)" by (auto simp: group_range_def dest: map_of_SomeD)
    with caps_ok_range [OF FindAllIndex_caps [OF m ctxLower_wf]] c show ?thesis by auto
  qed
qed

lemma trimLabeledValue_range:
  assumes "trimLabeledValue tx a0 e0 = (a, e)" and "e0 \<le> n"
  shows "e \<le> n"
proof -
  define e1 where "e1 = (case sentenceEndPeriod tx a0 e0 of None \<Rightarrow> e0 | Some p \<Rightarrow> p)"
  have "e1 \<le> e0" by (auto simp: e1_def sentenceEndPeriod_def find_Some_iff split: option.splits)
  moreover have "e \<le> e1"
    using assms(1) unfolding trimLabeledValue_def e1_def [symmetric] Let_def by (auto split: if_splits)
  ultimately show ?thesis using assms(2) by simp
qed

lemma labeled_loop_ok:
  "c \<in> set (labeled_loop tx locs) \<Longrightarrow> \<forall>m \<in> set locs. m_hi m \<le> length tx \<and> m_lo m \<le> length tx \<Longrightarrow> comp_ok (length tx) c"
proof (induction locs)
  case (Cons loc locs)
  define e0 where "e0 = (case locs of nx # _ \<Rightarrow> m_lo nx
      | [] \<Rightarrow> (case Index (drop (m_hi loc) tx) [CHR 0x0A] of Some nl \<Rightarrow> m_hi loc + nl | None \<Rightarrow> length tx))"
  obtain a e where ae: "trimLabeledValue tx (m_hi loc) e0 = (a, e)" by fastforce
  have "e0 \<le> length tx"
    using Cons.prems(2) Index_le [of "drop (m_hi loc) tx"] by (fastforce simp: e0_def split: list.splits option.splits)
  from trimLabeledValue_range [OF ae this] have e: "e \<le> length tx" .
  from Cons.prems(1) have "c \<in> set (if e > a then [component a e kindLabeled] else []) \<or> c \<in> set (labeled_loop tx locs)"
    unfolding labeled_loop.simps Let_def e0_def [symmetric] ae by simp
  with e Cons.IH Cons.prems(2) show ?case by (auto split: if_split_asm)
qed simp

lemma findLabeledComponents_ok: "c \<in> set (findLabeledComponents tx) \<Longrightarrow> comp_ok (length tx) c"
  unfolding findLabeledComponents_def
  by (erule labeled_loop_ok) (use match_range le_trans in blast)

subsection \<open>The dictionary search\<close>

lemma localityComponent_Some:
  "localityComponent rt tx a e ctx t = Some cs \<Longrightarrow> c \<in> set cs \<Longrightarrow> c = component a e kindLocality"
  by (auto simp: localityComponent_def bind_eq_Some_conv split: if_split_asm)

lemma localityComponent_total: "a \<le> length tx \<Longrightarrow> \<exists>cs. localityComponent rt tx a e ctx t = Some cs"
  by (auto simp: localityComponent_def byte_at_def)

lemma localityComponent_panics: "localityComponent rt tx a e ctx t = None \<longleftrightarrow> length tx < a"
  by (auto simp: localityComponent_def byte_at_def bind_eq_None_conv)

lemma HasPrefix_drop_le: "HasPrefix (drop i s) w \<Longrightarrow> i \<le> length s \<Longrightarrow> i + length w \<le> length s"
  using HasPrefix_length [of "drop i s" w] by simp

lemma matchCity_ok:
  assumes "i \<le> length lower" and "length lower = length (Raw t)"
  shows "\<exists>cs. matchCity rt cd t lower i inc ctx city = Some cs \<and> (\<forall>c \<in> set cs. comp_ok (length (Raw t)) c)"
proof -
  let ?f = "\<lambda>form. if \<not> HasPrefix (drop i lower) form then Some [] else localityComponent rt (Raw t) i (i + length form) ctx t"
  have one: "\<exists>cs. localityComponent rt (Raw t) i (i + length w) b t = Some cs \<and> (\<forall>c \<in> set cs. comp_ok (length (Raw t)) c)"
    if w: "HasPrefix (drop i lower) w" for w b
  proof -
    obtain cs where cs: "localityComponent rt (Raw t) i (i + length w) b t = Some cs"
      using localityComponent_total [of i "Raw t" rt "i + length w" b t] assms by auto
    have "i + length w \<le> length (Raw t)" using HasPrefix_drop_le [OF w assms(1)] assms(2) by simp
    with localityComponent_Some [OF cs] have "\<forall>c \<in> set cs. comp_ok (length (Raw t)) c" by fastforce
    with cs show ?thesis by blast
  qed
  then have f: "\<exists>cs. ?f w = Some cs \<and> (\<forall>c \<in> set cs. comp_ok (length (Raw t)) c)" for w by simp
  obtain here where here: "(if inc \<and> HasPrefix (drop i lower) city then localityComponent rt (Raw t) i (i + length city) False t
      else Some []) = Some here" "\<forall>c \<in> set here. comp_ok (length (Raw t)) c"
    using one [of city False] by (cases "inc \<and> HasPrefix (drop i lower) city") auto
  from f have "\<forall>w \<in> set (cd_oblique cd city). \<exists>cs. ?f w = Some cs" by blast
  from concat_opt_total [OF this] obtain forms where forms: "concat_opt ?f (cd_oblique cd city) = Some forms" by blast
  have "\<forall>c \<in> set forms. comp_ok (length (Raw t)) c"
  proof
    fix c assume "c \<in> set forms"
    from concat_opt_mem [OF forms this] obtain w cs where "?f w = Some cs" "c \<in> set cs" by blast
    with f [of w] show "comp_ok (length (Raw t)) c" by auto
  qed
  with here forms show ?thesis unfolding matchCity_def by auto
qed

lemma scan_loop_ok:
  assumes "length lower = length (Raw t)"
  shows "\<exists>cs. scan_loop rt cd t lower inc ctx i = Some cs \<and> (\<forall>c \<in> set cs. comp_ok (length (Raw t)) c)"
  using assms
proof (induction rt cd t lower inc ctx i rule: scan_loop.induct)
  case (1 rt cd t lower inc ctx i)
  show ?case
  proof (cases "i < length lower \<and> firstTwoRunes (drop i lower) \<noteq> []")
    case True
    let ?cs = "cd_byPrefix cd (firstTwoRunes (drop i lower))"
    have m: "\<exists>cs. matchCity rt cd t lower i inc ctx city = Some cs \<and> (\<forall>c \<in> set cs. comp_ok (length (Raw t)) c)" for city
      using matchCity_ok [OF _ "1.prems", of i] True by simp
    then have "\<forall>city \<in> set ?cs. \<exists>cs. matchCity rt cd t lower i inc ctx city = Some cs" by blast
    from concat_opt_total [OF this] obtain here where
      here: "concat_opt (matchCity rt cd t lower i inc ctx) ?cs = Some here" by blast
    have "\<forall>c \<in> set here. comp_ok (length (Raw t)) c"
    proof
      fix c assume "c \<in> set here"
      from concat_opt_mem [OF here this] obtain city cs where "matchCity rt cd t lower i inc ctx city = Some cs" "c \<in> set cs"
        by blast
      with m [of city] show "comp_ok (length (Raw t)) c" by auto
    qed
    moreover obtain rest where "scan_loop rt cd t lower inc ctx (i + width_at lower i) = Some rest"
      "\<forall>c \<in> set rest. comp_ok (length (Raw t)) c"
      using "1.IH" [OF _ refl _ here "1.prems"] True by blast
    ultimately show ?thesis using True here by (subst scan_loop.simps) (auto simp: Let_def)
  next
    case False
    then have "scan_loop rt cd t lower inc ctx i = Some []" by (subst scan_loop.simps) auto
    then show ?thesis by simp
  qed
qed

lemma findDictLocalities_ok:
  assumes "LowerOK t"
  shows "\<exists>cs. findDictLocalities rt cd t = Some cs \<and> (\<forall>c \<in> set cs. comp_ok (length (Raw t)) c)"
proof -
  have l: "length (Lower t) = length (Raw t)" using assms by (simp add: LowerOK_def)
  obtain a b where "scanLocalities rt cd t (Lower t) True False = Some a" "\<forall>c \<in> set a. comp_ok (length (Raw t)) c"
    "scanLocalities rt cd t (Lower t) False True = Some b" "\<forall>c \<in> set b. comp_ok (length (Raw t)) c"
    using scan_loop_ok [OF l] unfolding scanLocalities_def by metis
  then show ?thesis using assms by (auto simp: findDictLocalities_def dest: match_range)
qed

subsection \<open>Bare streets\<close>

lemma bare_street_after_ok:
  assumes "bare_street_after rt tx s = Some cs"
  shows "ac_kind s = kindLocality \<Longrightarrow> ac_end s \<le> length tx" and "c \<in> set cs \<Longrightarrow> comp_ok (length tx) c"
proof -
  show s: "ac_end s \<le> length tx" if "ac_kind s = kindLocality"
    using assms that by (auto simp: bare_street_after_def slice_def bind_eq_Some_conv split: if_splits)
  assume c: "c \<in> set cs"
  then have k: "ac_kind s = kindLocality" using assms by (auto simp: bare_street_after_def split: if_splits)
  have "ac_end s \<le> runeOffsetAfter tx (ac_end s) 200 \<and> runeOffsetAfter tx (ac_end s) 200 \<le> length tx"
    using walk_bounds [OF s [OF k]] by (simp add: runeOffsetAfter_def)
  then have "slice tx (int (ac_end s)) (int (runeOffsetAfter tx (ac_end s) 200)) =
      Some (between tx (ac_end s) (runeOffsetAfter tx (ac_end s) 200))"
    by (simp add: slice_nat between_def)
  with assms k c obtain m where "m \<in> set (FindAllIndex (between tx (ac_end s) (runeOffsetAfter tx (ac_end s) 200)) addrBareStreetHouseRe)"
    and "c = component (ac_end s + m_lo m) (ac_end s + m_hi m) kindStreetHouse"
    by (auto simp: bare_street_after_def)
  with window_match [OF _ s [OF k]] show "comp_ok (length tx) c" by auto
qed

lemma bare_street_after_total: "ac_end s \<le> length tx \<Longrightarrow> \<exists>cs. bare_street_after rt tx s = Some cs"
  using walk_bounds [of "ac_end s" tx "nat 200"]
  by (simp add: bare_street_after_def slice_nat runeOffsetAfter_def)

lemma bareStreetsAfterLocality_ok:
  assumes "bareStreetsAfterLocality rt tx comps = Some cs"
  shows "s \<in> set comps \<Longrightarrow> ac_kind s = kindLocality \<Longrightarrow> ac_end s \<le> length tx" and "c \<in> set cs \<Longrightarrow> comp_ok (length tx) c"
proof -
  show "comp_ok (length tx) c" if "c \<in> set cs"
    using concat_opt_mem [OF assms [unfolded bareStreetsAfterLocality_def] that] bare_street_after_ok(2) by blast
  assume s: "s \<in> set comps" and k: "ac_kind s = kindLocality"
  have "\<exists>cs. bare_street_after rt tx s = Some cs"
    using assms s unfolding bareStreetsAfterLocality_def by (induction comps arbitrary: cs) (auto simp: bind_eq_Some_conv)
  with bare_street_after_ok(1) k show "ac_end s \<le> length tx" by blast
qed

subsection \<open>All components\<close>

text \<open>The components of a run that does not panic lie in the text, whatever the lengths of the two texts.\<close>

lemma base_components_ok:
  assumes "length search = length tx"
  shows "\<forall>c \<in> set (add_matches search r1 k1 @ add_matches search r2 k2 @ add_matches search r3 k3 @ add_matches search r4 k4 @
      findLocalities search tx r5 @ findStreets rt tx). comp_ok (length tx) c"
  using add_matches_ok [of _ search] findLocalities_ok [of _ search tx] findStreets_ok [of _ rt tx] by (fastforce simp: assms)

lemma dict_locality_kind:
  assumes "findDictLocalities rt cd t = Some cs" and "c \<in> set cs"
  shows "ac_kind c = kindLocality \<and> ac_start c \<le> ac_end c"
proof -
  let ?l = "if LowerOK t then Lower t else ToLower rt (Raw t)"
  have city: "ac_kind c = kindLocality \<and> ac_start c \<le> ac_end c"
    if m: "matchCity rt cd t ?l i inc ctx city = Some zs" and c: "c \<in> set zs" for i inc ctx city zs c
  proof -
    from m obtain here forms where z: "zs = here @ forms"
      and h: "(if inc \<and> HasPrefix (drop i ?l) city then localityComponent rt (Raw t) i (i + length city) False t else Some []) = Some here"
      and f: "concat_opt (\<lambda>form. if \<not> HasPrefix (drop i ?l) form then Some []
         else localityComponent rt (Raw t) i (i + length form) ctx t) (cd_oblique cd city) = Some forms"
      unfolding matchCity_def bind_eq_Some_conv by auto
    from c z consider "c \<in> set here" | "c \<in> set forms" by auto
    then show ?thesis
    proof cases
      case 1
      with h show ?thesis by (auto split: if_split_asm dest: localityComponent_Some)
    next
      case 2
      from concat_opt_mem [OF f this] show ?thesis by (auto split: if_split_asm dest: localityComponent_Some)
    qed
  qed
  have scan: "scan_loop rt cd t ?l inc ctx i = Some zs \<Longrightarrow> c \<in> set zs \<Longrightarrow> ac_kind c = kindLocality \<and> ac_start c \<le> ac_end c"
    for inc ctx i zs c
  proof (induction "length ?l - i" arbitrary: i zs rule: less_induct)
    case less
    show ?case
    proof (cases "i < length ?l \<and> firstTwoRunes (drop i ?l) \<noteq> []")
      case True
      with less.prems(1) obtain here rest where z: "zs = here @ rest"
        and h: "concat_opt (matchCity rt cd t ?l i inc ctx) (cd_byPrefix cd (firstTwoRunes (drop i ?l))) = Some here"
        and r: "scan_loop rt cd t ?l inc ctx (i + width_at ?l i) = Some rest"
        by (subst (asm) scan_loop.simps) (auto simp: Let_def bind_eq_Some_conv)
      have "length ?l - (i + width_at ?l i) < length ?l - i" using True width_at_pos [of i ?l] by auto
      from less.hyps [OF this r] less.prems(2) concat_opt_mem [OF h, of c] city show ?thesis unfolding z set_append by blast
    next
      case False
      then have "scan_loop rt cd t ?l inc ctx i = Some []" by (simp add: scan_loop.simps [of rt cd t ?l] Let_def del: if_split)
      with less.prems show ?thesis by simp
    qed
  qed
  from assms(1) obtain a b where "scan_loop rt cd t ?l True False 0 = Some a" "scan_loop rt cd t ?l False True 0 = Some b"
    and cs: "cs = a @ b @ map (\<lambda>m. component (m_lo m) (m_hi m) kindLocality) (FindAllIndex (Raw t) addrParenLocalityRe)"
    by (auto simp: findDictLocalities_def scanLocalities_def Let_def bind_eq_Some_conv)
  with assms(2) scan show ?thesis by (auto dest: match_range)
qed

lemma findComponents_eq:
  "\<exists>c3. (\<forall>c \<in> set c3. comp_ok (length (Raw t)) c) \<and>
     findComponents rt cd t =
       do { cities \<leftarrow> findDictLocalities rt cd t;
            bare \<leftarrow> bareStreetsAfterLocality rt (Raw t) (c3 @ cities);
            Some (c3 @ cities @ bare @ findBareStreetContext rt t @ findLabeledComponents (Raw t)) }"
proof -
  have l: "length (search_text t) = length (Raw t)" by simp
  define c1 where "c1 = add_matches (search_text t) addrIndexRe ''index'' @
               add_matches (search_text t) (if LowerOK t then addrCountryLowerRe else addrCountryRe) ''country'' @
               add_matches (search_text t) (if LowerOK t then addrRegionLowerRe else addrRegionRe) ''region'' @
               add_matches (search_text t) (if LowerOK t then addrDistrictLowerRe else addrDistrictRe) ''district'' @
               findLocalities (search_text t) (Raw t) (if LowerOK t then addrLocalityLowerRe else addrLocalityRe) @
               findStreets rt (Raw t)"
  define c2 where "c2 = trimStreetMarkers rt (Raw t) c1 @
               add_matches (search_text t) (if LowerOK t then addrHouseLowerRe else addrHouseRe) kindHouse @
               add_matches (search_text t) (if LowerOK t then addrStrLowerRe else addrStrRe) kindHouse @
               add_matches (search_text t) (if LowerOK t then addrAptLowerRe else addrAptRe) ''apartment'' @
               add_matches (search_text t) (if LowerOK t then addrAptWordLowerRe else addrAptWordRe) ''apartment'' @
               add_matches (search_text t) (if LowerOK t then addrPOBoxLowerRe else addrPOBoxRe) ''po_box''"
  have "\<forall>c \<in> set c1. comp_ok (length (Raw t)) c" unfolding c1_def by (rule base_components_ok [OF l])
  then have "\<forall>c \<in> set c2. comp_ok (length (Raw t)) c"
    using trimStreetMarkers_ok [of c1 "length (Raw t)" rt "Raw t"] add_matches_ok [of _ "search_text t"] unfolding c2_def l
    by auto
  then have "\<forall>c \<in> set (c2 @ bareHousesAfterStreet (Raw t) c2). comp_ok (length (Raw t)) c"
    using bareHousesAfterStreet_ok by auto
  moreover have "findComponents rt cd t =
      do { cities \<leftarrow> findDictLocalities rt cd t;
           bare \<leftarrow> bareStreetsAfterLocality rt (Raw t) ((c2 @ bareHousesAfterStreet (Raw t) c2) @ cities);
           Some ((c2 @ bareHousesAfterStreet (Raw t) c2) @ cities @ bare @ findBareStreetContext rt t @ findLabeledComponents (Raw t)) }"
    unfolding findComponents_def Let_def c2_def c1_def ..
  ultimately show ?thesis by blast
qed

lemma findComponents_ok:
  assumes "findComponents rt cd t = Some comps" and "c \<in> set comps"
  shows "comp_ok (length (Raw t)) c"
proof -
  obtain c3 where c3: "\<forall>c \<in> set c3. comp_ok (length (Raw t)) c" and
    e: "findComponents rt cd t =
       do { cities \<leftarrow> findDictLocalities rt cd t;
            bare \<leftarrow> bareStreetsAfterLocality rt (Raw t) (c3 @ cities);
            Some (c3 @ cities @ bare @ findBareStreetContext rt t @ findLabeledComponents (Raw t)) }"
    using findComponents_eq by blast
  from assms(1) [unfolded e bind_eq_Some_conv] obtain cities bare where
    d: "findDictLocalities rt cd t = Some cities" and b: "bareStreetsAfterLocality rt (Raw t) (c3 @ cities) = Some bare"
    and comps: "comps = c3 @ cities @ bare @ findBareStreetContext rt t @ findLabeledComponents (Raw t)"
    by auto
  have "comp_ok (length (Raw t)) c" if "c \<in> set cities"
    using dict_locality_kind [OF d that] bareStreetsAfterLocality_ok(1) [OF b, of c] that by (simp add: comp_ok_def)
  with c3 bareStreetsAfterLocality_ok(2) [OF b] findBareStreetContext_ok findLabeledComponents_ok assms(2) show ?thesis
    unfolding comps by auto
qed

lemma findComponents_total:
  assumes "LowerOK t"
  shows "\<exists>comps. findComponents rt cd t = Some comps"
proof -
  obtain cities where d: "findDictLocalities rt cd t = Some cities" "\<forall>c \<in> set cities. comp_ok (length (Raw t)) c"
    using findDictLocalities_ok [OF assms] by blast
  obtain c3 where c3: "\<forall>c \<in> set c3. comp_ok (length (Raw t)) c" and
    e: "findComponents rt cd t =
       do { cities \<leftarrow> findDictLocalities rt cd t;
            bare \<leftarrow> bareStreetsAfterLocality rt (Raw t) (c3 @ cities);
            Some (c3 @ cities @ bare @ findBareStreetContext rt t @ findLabeledComponents (Raw t)) }"
    using findComponents_eq by blast
  have "\<exists>bare. bareStreetsAfterLocality rt (Raw t) (c3 @ cities) = Some bare"
    unfolding bareStreetsAfterLocality_def using c3 d(2)
    by (intro concat_opt_total) (auto simp: comp_ok_def intro: bare_street_after_total)
  then show ?thesis using d(1) by (auto simp: e)
qed

subsection \<open>Groups in the order of the text\<close>

abbreviation comps_before :: "addrComponent \<Rightarrow> addrComponent \<Rightarrow> bool" where
  "comps_before a b \<equiv> ac_end a \<le> ac_start b"

lemma drop_overlaps_inv:
  assumes "\<forall>c \<in> set kept \<union> set comps. comp_ok n c" and "sorted_wrt comps_before kept"
  shows "sorted_wrt comps_before
      (foldl (\<lambda>kept c. if kept \<noteq> [] \<and> ac_start c < ac_end (last kept) then kept else kept @ [c]) kept comps) \<and>
    set (foldl (\<lambda>kept c. if kept \<noteq> [] \<and> ac_start c < ac_end (last kept) then kept else kept @ [c]) kept comps)
      \<subseteq> set kept \<union> set comps"
  using assms
proof (induction comps arbitrary: kept)
  case (Cons c comps)
  let ?k = "if kept \<noteq> [] \<and> ac_start c < ac_end (last kept) then kept else kept @ [c]"
  have "sorted_wrt comps_before ?k"
  proof (cases "kept = [] \<or> ac_end (last kept) \<le> ac_start c")
    case True
    have "ac_end a \<le> ac_start c" if a: "a \<in> set kept" for a
    proof -
      from a have kept: "kept = butlast kept @ [last kept]" by (cases kept rule: rev_cases) auto
      then have "a = last kept \<or> ac_end a \<le> ac_start (last kept)"
        using a Cons.prems(2) by (metis in_set_conv_decomp sorted_wrt_append list.set_intros(1) Un_iff set_append empty_iff
            list.set(1) list.set(2) insert_iff)
      moreover have "last kept \<in> set kept" using a by (cases kept) simp_all
      then have "ac_start (last kept) \<le> ac_end (last kept)" using Cons.prems(1) by (simp add: comp_ok_def)
      ultimately show ?thesis using True a by (cases kept) auto
    qed
    with True Cons.prems(2) show ?thesis by (auto simp: sorted_wrt_append)
  next
    case False
    with Cons.prems(2) show ?thesis by simp
  qed
  moreover have "set ?k \<subseteq> insert c (set kept)" by auto
  moreover from this have "\<forall>x \<in> set ?k \<union> set comps. comp_ok n x" using Cons.prems(1) by auto
  ultimately show ?case using Cons.IH [of ?k] by (auto simp del: foldl_Cons simp: foldl_Cons)
qed simp

lemma drop_overlaps_ok:
  assumes "\<forall>c \<in> set comps. comp_ok n c"
  shows "sorted_wrt comps_before (drop_overlaps comps)" and "set (drop_overlaps comps) \<subseteq> set comps"
  using drop_overlaps_inv [of "[]" comps n] assms by (auto simp: drop_overlaps_def)

lemma groupEnd_less: "j < length kept \<Longrightarrow> groupEnd tx kept j < length kept"
proof (induction tx kept j rule: groupEnd.induct)
  case (1 tx kept j)
  then show ?case by (subst groupEnd.simps) auto
qed

lemma sorted_nth_range:
  assumes "sorted_wrt comps_before kept" and "\<forall>c \<in> set kept. comp_ok n c" and "i \<le> j" and "j < length kept"
  shows "ac_start (kept ! i) \<le> ac_end (kept ! j)"
proof (cases "i = j")
  case True
  with assms(2,4) show ?thesis by (auto simp: comp_ok_def)
next
  case False
  with assms(3,4) have "ac_end (kept ! i) \<le> ac_start (kept ! j)" by (intro sorted_wrt_nth_less [OF assms(1)]) auto
  moreover have "comp_ok n (kept ! i)" "comp_ok n (kept ! j)" using assms by auto
  ultimately show ?thesis by (simp add: comp_ok_def)
qed

text \<open>The spans of the groups from \<open>i\<close> on start at or after the start of component \<open>i\<close> and are in order.\<close>

lemma group_loop_ok:
  assumes "sorted_wrt comps_before kept" and "\<forall>c \<in> set kept. comp_ok n c"
  shows "sorted_wrt (\<lambda>a b. sp_End a \<le> sp_Start b) (group_loop rt t kept i) \<and>
    (\<forall>s \<in> set (group_loop rt t kept i). int (ac_start (kept ! i)) \<le> sp_Start s \<and> sp_Start s \<le> sp_End s \<and> sp_End s \<le> int n)"
  using assms
proof (induction rt t kept i rule: group_loop.induct)
  case (1 rt t kept i)
  show ?case
  proof (cases "i < length kept")
    case True
    let ?j = "groupEnd (Raw t) kept i"
    let ?grp = "take (?j + 1 - i) (drop i kept)"
    let ?rest = "group_loop rt t kept (?j + 1)"
    have j: "i \<le> ?j" "?j < length kept" using groupEnd_ge groupEnd_less [OF True] by auto
    have ne: "?grp \<noteq> []" using j by simp
    have hd: "hd ?grp = kept ! i" using j True by (simp add: hd_conv_nth)
    have len: "length ?grp = Suc (?j - i)" using j by simp
    have last: "last ?grp = kept ! ?j" unfolding last_conv_nth [OF ne] len using j by simp
    define sp where "sp = addr_span ?grp"
    have sp: "sp_Start sp = int (ac_start (kept ! i))" "sp_End sp = int (ac_end (kept ! ?j))"
      unfolding sp_def addr_span_def hd last by simp_all
    note IH = "1.IH" [OF True refl refl "1.prems"]
    have span: "int (ac_start (kept ! i)) \<le> sp_Start sp \<and> sp_Start sp \<le> sp_End sp \<and>
        sp_End sp \<le> int n"
      using sorted_nth_range [OF "1.prems" j] "1.prems"(2) j(2) unfolding sp by (auto simp: comp_ok_def)
    have later: "sp_End sp \<le> sp_Start s \<and> int (ac_start (kept ! i)) \<le> sp_Start s" if s: "s \<in> set ?rest" for s
    proof -
      from s have jl: "?j + 1 < length kept" by (cases "?j + 1 < length kept") (simp_all add: group_loop.simps [of rt t kept "Suc ?j"])
      then have "ac_end (kept ! ?j) \<le> ac_start (kept ! (?j + 1))" by (intro sorted_wrt_nth_less [OF "1.prems"(1)]) auto
      moreover have "int (ac_start (kept ! (?j + 1))) \<le> sp_Start s" using IH s by blast
      ultimately show ?thesis using sorted_nth_range [OF "1.prems" j] unfolding sp by linarith
    qed
    have e: "group_loop rt t kept i = (if validGroup rt t ?grp then [sp] else []) @ ?rest"
      using True unfolding sp_def by (subst group_loop.simps) (simp only: if_True Let_def)
    show ?thesis unfolding e using IH span later by (cases "validGroup rt t ?grp") auto
  next
    case False
    then show ?thesis by (simp add: group_loop.simps [of rt t kept i])
  qed
qed

lemma strict_weak_component: "strict_weak addrComponentLess"
  unfolding strict_weak_def addrComponentLess_def by (auto split: if_splits)

lemma DetectLower_addr_spans:
  assumes "go_runtime rt" and "DetectLower_addr rt cd t = Some ss"
  shows "sorted_wrt (\<lambda>a b. sp_End a \<le> sp_Start b) ss"
    and "s \<in> set ss \<Longrightarrow> 0 \<le> sp_Start s \<and> sp_Start s \<le> sp_End s \<and> sp_End s \<le> int (length (Raw t))"
proof -
  from assms(2) obtain comps where c: "findComponents rt cd t = Some comps" and
    ss: "ss = (if comps = [] then [] else group_loop rt t (drop_overlaps (sort_slice (sort_perm rt) addrComponentLess comps)) 0)"
    by (auto simp: DetectLower_addr_def bind_eq_Some_conv)
  let ?k = "drop_overlaps (sort_slice (sort_perm rt) addrComponentLess comps)"
  have srt: "slice_sorter (sort_perm rt)" using assms(1) by (rule go_runtime.rt_sorter)
  have "\<forall>c \<in> set (sort_slice (sort_perm rt) addrComponentLess comps). comp_ok (length (Raw t)) c"
    using findComponents_ok [OF c] slice_sorter.sort_slice_set [OF srt strict_weak_component, of comps] by simp
  note k = drop_overlaps_ok [OF this]
  with \<open>\<forall>c \<in> set (sort_slice (sort_perm rt) addrComponentLess comps). comp_ok (length (Raw t)) c\<close>
  have ok: "\<forall>c \<in> set ?k. comp_ok (length (Raw t)) c" by blast
  note g = group_loop_ok [OF k(1) ok, of rt t 0]
  show "sorted_wrt (\<lambda>a b. sp_End a \<le> sp_Start b) ss" using g by (simp add: ss)
  show "0 \<le> sp_Start s \<and> sp_Start s \<le> sp_End s \<and> sp_End s \<le> int (length (Raw t))" if "s \<in> set ss"
  proof -
    from that g have "int (ac_start (?k ! 0)) \<le> sp_Start s \<and> sp_Start s \<le> sp_End s \<and> sp_End s \<le> int (length (Raw t))"
      by (auto simp: ss split: if_split_asm)
    then show ?thesis by linarith
  qed
qed

end
