(* ===== verification/Address_Props.thy ===== *)
theory Address_Props
  imports Address
begin

text \<open>
  Properties of the address detector: the two-rune index of the dictionary finds what a search for every city at
  every position finds, and the reported ranges stand in the order of the text.
\<close>

subsection \<open>The index of the dictionary\<close>

lemma firstTwoRunes_encode:
  assumes "valid_rune a" and "valid_rune b"
  shows "firstTwoRunes (encode_runes (a # b # rs) @ u) = EncodeRune a @ EncodeRune b"
proof -
  let ?s = "EncodeRune a @ EncodeRune b @ encode_runes rs @ u"
  have "0 < length (EncodeRune a)" "0 < length (EncodeRune b)" using EncodeRune_length [of a] EncodeRune_length [of b] by simp_all
  then have "walk ?s 0 (Suc (Suc 0)) = length (EncodeRune a) + length (EncodeRune b)"
    using DecodeRune_EncodeRune [OF assms(1), of "EncodeRune b @ encode_runes rs @ u"]
      DecodeRune_EncodeRune [OF assms(2), of "encode_runes rs @ u"] by simp
  then show ?thesis by (simp add: firstTwoRunes_def eval_nat_numeral)
qed

definition city_name :: "string \<Rightarrow> bool" where
  "city_name c \<longleftrightarrow> valid_utf8 c \<and> 3 \<le> length (runes c)"

lemma city_forms:
  assumes "city_name c" and "f = c \<or> f \<in> set (obliqueForms c)" and "HasPrefix s f"
  shows "firstTwoRunes s = firstTwoRunes c"
proof -
  have "3 \<le> length (runes c)" using assms(1) by (simp add: city_name_def)
  then obtain a b d rs where r: "runes c = a # b # d # rs"
    by (metis Suc_le_length_iff numeral_3_eq_3)
  have v: "valid_rune a" "valid_rune b" using runes_valid [of _ c] by (simp_all add: r)
  have c: "c = encode_runes (a # b # d # rs)" using assms(1) r by (simp add: city_name_def valid_utf8_def)
  have "\<exists>qs e. f = encode_runes (a # b # qs) @ e"
  proof (cases "f = c")
    case True
    then have "f = encode_runes (a # b # d # rs) @ []" by (simp add: c)
    then show ?thesis by blast
  next
    case False
    define st where "st = (if last (runes c) \<in> {0x430, 0x44F, 0x44C, 0x439} then butlast (runes c) else runes c)"
    have "runes c \<noteq> []" by (simp add: r)
    then have "obliqueForms c = filter (\<lambda>f. f \<noteq> c) (map (\<lambda>e. encode_runes st @ e) obliqueEndings)"
      unfolding obliqueForms_def Let_def st_def by (simp only: if_False)
    with False assms(2) obtain e where f: "f = encode_runes st @ e"
      by (simp only: set_filter set_map image_iff mem_Collect_eq) blast
    have "\<exists>qs. st = a # b # qs" by (simp add: st_def r)
    with f show ?thesis by metis
  qed
  then obtain qs e where "f = encode_runes (a # b # qs) @ e" by blast
  with assms(3) obtain u where s: "s = encode_runes (a # b # qs) @ u" by (auto simp: HasPrefix_append)
  have "firstTwoRunes s = EncodeRune a @ EncodeRune b" unfolding s by (rule firstTwoRunes_encode [OF v])
  moreover have "firstTwoRunes c = EncodeRune a @ EncodeRune b" using firstTwoRunes_encode [OF v, of "d # rs" "[]"] c by simp
  ultimately show ?thesis by simp
qed

lemma concat_opt_skip: "\<forall>x \<in> set xs. \<not> P x \<longrightarrow> f x = Some [] \<Longrightarrow> concat_opt f (filter P xs) = concat_opt f xs"
  by (induction xs) (auto simp: bind_eq_Some_conv split: option.splits Option.bind_split)

lemma concat_opt_none: "\<forall>x \<in> set xs. f x = Some [] \<Longrightarrow> concat_opt f xs = Some []"
  by (induction xs) auto

lemma matchCity_other:
  assumes "city_name city" and "city \<in> set cities" and "firstTwoRunes city \<noteq> firstTwoRunes (drop i lower)"
  shows "matchCity rt (buildCitiesDict cities) t lower i inc ctx city = Some []"
proof -
  have "\<not> HasPrefix (drop i lower) f" if "f = city \<or> f \<in> set (obliqueForms city)" for f
    using city_forms [OF assms(1) that] assms(3) by metis
  then show ?thesis using assms(2) by (simp add: matchCity_def concat_opt_none)
qed

text \<open>The search without the index: every city is tried at every position.\<close>

function scan_all ::
  "runtime \<Rightarrow> citiesDict \<Rightarrow> Text \<Rightarrow> string \<Rightarrow> bool \<Rightarrow> bool \<Rightarrow> nat \<Rightarrow> addrComponent list option" where
  "scan_all rt cd t lower includeCity needCtx i =
     (if i < length lower then
        do { comps \<leftarrow> concat_opt (matchCity rt cd t lower i includeCity needCtx) (cd_cities cd);
             rest \<leftarrow> scan_all rt cd t lower includeCity needCtx (i + width_at lower i);
             Some (comps @ rest) }
      else Some [])"
  by pat_completeness auto
termination
  by (relation "measure (\<lambda>(rt, cd, t, lower, a, b, i). length lower - i)") (auto simp: diff_less_mono2 width_at_pos)

declare scan_all.simps [simp del]

lemma firstTwoRunes_nonempty: "s \<noteq> [] \<Longrightarrow> firstTwoRunes s \<noteq> []"
proof -
  assume s: "s \<noteq> []"
  have "0 < snd (DecodeRune s)" using DecodeRune_size_pos [OF s] by simp
  moreover have "snd (DecodeRune s) \<le> walk s (snd (DecodeRune s)) (Suc 0)"
    using walk_bounds [OF DecodeRune_size_le, of s "Suc 0"] by simp
  ultimately have "0 < walk s 0 2" using s by (simp add: eval_nat_numeral)
  then show ?thesis using s by (simp add: firstTwoRunes_def)
qed

lemma scan_loop_all:
  assumes "list_all city_name cities"
  shows "scan_loop rt (buildCitiesDict cities) t lower inc ctx i = scan_all rt (buildCitiesDict cities) t lower inc ctx i"
proof (induction "length lower - i" arbitrary: i rule: less_induct)
  case less
  show ?case
  proof (cases "i < length lower")
    case True
    let ?p = "firstTwoRunes (drop i lower)"
    have p: "?p \<noteq> []" using True by (intro firstTwoRunes_nonempty) simp
    have "\<forall>c \<in> set cities. firstTwoRunes c \<noteq> ?p \<longrightarrow> matchCity rt (buildCitiesDict cities) t lower i inc ctx c = Some []"
      using matchCity_other assms by (simp add: list_all_iff)
    then have "concat_opt (matchCity rt (buildCitiesDict cities) t lower i inc ctx) (filter (\<lambda>c. firstTwoRunes c = ?p) cities) =
        concat_opt (matchCity rt (buildCitiesDict cities) t lower i inc ctx) cities"
      by (intro concat_opt_skip) blast
    moreover have "length lower - (i + width_at lower i) < length lower - i" using True width_at_pos [OF True] by linarith
    ultimately show ?thesis
      using less.hyps [of "i + width_at lower i"] True p
      by (simp add: scan_loop.simps [of rt _ t lower inc ctx i] scan_all.simps [of rt _ t lower inc ctx i] Let_def)
  next
    case False
    then show ?thesis by (simp add: scan_loop.simps [of rt _ t lower inc ctx i] scan_all.simps [of rt _ t lower inc ctx i])
  qed
qed

text \<open>
  C26. When every city of the dictionary is valid UTF-8 of at least three runes (as every line of cities.txt is), the
  search of the address detector, which at each position tries only the cities indexed under its first two runes,
  returns the same components in the same order as trying every city and every oblique form at every position.
\<close>

theorem city_index_complete:
  assumes "list_all city_name cities"
  shows "scanLocalities rt (buildCitiesDict cities) t lower includeCity needCtx =
    scan_all rt (buildCitiesDict cities) t lower includeCity needCtx 0"
  unfolding scanLocalities_def by (rule scan_loop_all [OF assms])

lemma city_index_complete_witness:
  "list_all city_name [encode_runes [0x443, 0x444, 0x430], encode_runes [0x43E, 0x43C, 0x441, 0x43A]] \<and>
   scanLocalities ru_runtime (buildCitiesDict [encode_runes [0x443, 0x444, 0x430], encode_runes [0x43E, 0x43C, 0x441, 0x43A]])
     \<lparr> Raw = encode_runes [0x443, 0x444, 0x430], Lower = encode_runes [0x443, 0x444, 0x430] \<rparr>
     (encode_runes [0x443, 0x444, 0x430]) True False =
   scan_all ru_runtime (buildCitiesDict [encode_runes [0x443, 0x444, 0x430], encode_runes [0x43E, 0x43C, 0x441, 0x43A]])
     \<lparr> Raw = encode_runes [0x443, 0x444, 0x430], Lower = encode_runes [0x443, 0x444, 0x430] \<rparr>
     (encode_runes [0x443, 0x444, 0x430]) True False 0"
proof -
  have "list_all city_name [encode_runes [0x443, 0x444, 0x430], encode_runes [0x43E, 0x43C, 0x441, 0x43A]]"
    unfolding list.pred_inject city_name_def by (simp add: runes_encode valid_utf8_encode valid_rune_def del: encode_runes_simps)
  with city_index_complete [OF this] show ?thesis by blast
qed

subsection \<open>What the detector reports\<close>

text \<open>
  On a text whose lower-case form has the same length the address detector returns without an out-of-range
  slice; the spans it reports are ranges of the text, in the order of the text and without overlaps. A span is the
  range from its first to its last component, and a group is only extended over gaps of at most three runes.
\<close>

lemma address_spans_ordered:
  assumes "go_runtime rt" and "LowerOK t"
  shows "\<exists>ss. DetectLower_addr rt cd t = Some ss \<and>
    sorted_wrt (\<lambda>a b. sp_End a \<le> sp_Start b) ss \<and>
    list_all (\<lambda>s. 0 \<le> sp_Start s \<and> sp_Start s \<le> sp_End s \<and> sp_End s \<le> int (length (Raw t))) ss"
proof -
  obtain comps where "findComponents rt cd t = Some comps" using findComponents_total [OF assms(2)] by blast
  then obtain ss where ss: "DetectLower_addr rt cd t = Some ss" by (simp add: DetectLower_addr_def)
  with DetectLower_addr_spans [OF assms(1) ss] show ?thesis unfolding list_all_iff by blast
qed

lemma address_spans_ordered_witness:
  "\<exists>ss. DetectLower_addr ru_runtime (buildCitiesDict [''omsk'']) \<lparr> Raw = ''Omsk, 5'', Lower = ''omsk, 5'' \<rparr> = Some ss \<and>
    sorted_wrt (\<lambda>a b. sp_End a \<le> sp_Start b) ss \<and>
    list_all (\<lambda>s. 0 \<le> sp_Start s \<and> sp_Start s \<le> sp_End s \<and> sp_End s \<le> int (length ''Omsk, 5'')) ss"
  using address_spans_ordered [OF ru.go_runtime_axioms,
      of "\<lparr> Raw = ''Omsk, 5'', Lower = ''omsk, 5'' \<rparr>" "buildCitiesDict [''omsk'']"]
  by (simp only: LowerOK_def Text.simps) simp

end
