(* ===== verification/Issuer.thy ===== *)
theory Issuer
  imports Detector_Shared
begin

text \<open>
  The detector of the authority that issued a passport (\<^verbatim>\<open>internal/pii/detectors/issuer.go\<close>). Offsets into the text
  are natural numbers; \<^term>\<open>None\<close> of the end of a value and of the detector is a slice out of range.
\<close>

subsection \<open>Patterns\<close>

definition issuerContextRe :: "runtime \<Rightarrow> rx" where
  "issuerContextRe rt = rx_cats
    [rx_alts
        [Bot,
         Cls (\<lambda>r. \<not> (uc_letter rt r \<or> r = 0x345))],
     Cap 1 (rx_alts
          [rx_ilit [0x43a, 0x435, 0x43c, 0x20, 0x432, 0x44b, 0x434, 0x430, 0x43d] \<comment> \<open>kem vydan\<close>,
           rx_ilit [0x432, 0x44b, 0x434, 0x430, 0x432, 0x448, 0x438, 0x439, 0x20, 0x43e, 0x440, 0x433, 0x430, 0x43d] \<comment> \<open>vydavshiy organ\<close>,
           rx_ilit [0x43e, 0x440, 0x433, 0x430, 0x43d, 0x20, 0x432, 0x44b, 0x434, 0x430, 0x447, 0x438] \<comment> \<open>organ vydachi\<close>,
           rx_ilit [0x43e, 0x440, 0x433, 0x430, 0x43d, 0x2c, 0x20, 0x432, 0x44b, 0x434, 0x430, 0x432, 0x448, 0x438, 0x439] \<comment> \<open>organ, vydavshiy\<close>,
           rx_ilit [0x434, 0x430, 0x442, 0x430, 0x20, 0x432, 0x44b, 0x434, 0x430, 0x447, 0x438] \<comment> \<open>data vydachi\<close>,
           rx_ilit [0x432, 0x44b, 0x434, 0x430, 0x43d, 0x43e] \<comment> \<open>vydano\<close>,
           rx_ilit [0x432, 0x44b, 0x434, 0x430, 0x43d, 0x430] \<comment> \<open>vydana\<close>,
           rx_ilit [0x432, 0x44b, 0x434, 0x430, 0x43d] \<comment> \<open>vydan\<close>,
           rx_ilit [0x432, 0x44b, 0x434, 0x430, 0x43b, 0x438] \<comment> \<open>vydali\<close>,
           rx_ilit [0x432, 0x44b, 0x434, 0x430, 0x447, 0x438] \<comment> \<open>vydachi\<close>,
           rx_ilit [0x43f, 0x43e, 0x43b, 0x443, 0x447, 0x430, 0x43b] \<comment> \<open>poluchal\<close>,
           rx_ilit [0x43f, 0x43e, 0x43b, 0x443, 0x447, 0x430, 0x43b, 0x430] \<comment> \<open>poluchala\<close>,
           rx_ilit [0x43f, 0x43e, 0x43b, 0x443, 0x447, 0x438, 0x43b] \<comment> \<open>poluchil\<close>,
           rx_ilit [0x43f, 0x43e, 0x43b, 0x443, 0x447, 0x438, 0x43b, 0x430] \<comment> \<open>poluchila\<close>,
           rx_ilit [0x43f, 0x43e, 0x43b, 0x443, 0x447, 0x435, 0x43d] \<comment> \<open>poluchen\<close>,
           rx_ilit [0x43f, 0x43e, 0x43b, 0x443, 0x447, 0x435, 0x43d, 0x430] \<comment> \<open>poluchena\<close>,
           rx_ilit [0x43a, 0x435, 0x43c] \<comment> \<open>kem\<close>,
           rx_ilit [0x43e, 0x440, 0x433, 0x430, 0x43d] \<comment> \<open>organ\<close>]),
     rx_alts
        [Cls (\<lambda>r. \<not> (uc_letter rt r \<or> r = 0x345)),
         Eot]]"

definition issuerStartWordRe :: rx where
  "issuerStartWordRe = Cap 1 (rx_alts
      [rx_ilit [0x43f, 0x430, 0x441, 0x43f, 0x43e, 0x440, 0x442, 0x43d, 0x44b, 0x43c, 0x20, 0x441, 0x442, 0x43e, 0x43b, 0x43e, 0x43c] \<comment> \<open>pasportnym stolom\<close>,
       rx_ilit [0x43c, 0x435, 0x436, 0x440, 0x430, 0x439, 0x43e, 0x43d, 0x43d, 0x44b, 0x43c] \<comment> \<open>mezhrayonnym\<close>,
       rx_ilit [0x43e, 0x442, 0x434, 0x435, 0x43b, 0x435, 0x43d, 0x438, 0x435, 0x43c] \<comment> \<open>otdeleniem\<close>,
       rx_ilit [0x43e, 0x442, 0x434, 0x435, 0x43b, 0x435, 0x43d, 0x438, 0x438] \<comment> \<open>otdelenii\<close>,
       rx_ilit [0x43e, 0x442, 0x434, 0x435, 0x43b, 0x435, 0x43d, 0x438, 0x44f] \<comment> \<open>otdeleniya\<close>,
       rx_ilit [0x43e, 0x442, 0x434, 0x435, 0x43b, 0x43e, 0x43c] \<comment> \<open>otdelom\<close>,
       rx_ilit [0x43e, 0x442, 0x434, 0x435, 0x43b, 0x435] \<comment> \<open>otdele\<close>,
       rx_ilit [0x43e, 0x442, 0x434, 0x435, 0x43b] \<comment> \<open>otdel\<close>,
       rx_ilit [0x443, 0x43f, 0x440, 0x430, 0x432, 0x43b, 0x435, 0x43d, 0x438, 0x435, 0x43c] \<comment> \<open>upravleniem\<close>,
       rx_ilit [0x443, 0x43f, 0x440, 0x430, 0x432, 0x43b, 0x435, 0x43d, 0x438, 0x44f] \<comment> \<open>upravleniya\<close>,
       rx_ilit [0x443, 0x43f, 0x440, 0x430, 0x432, 0x43b, 0x435, 0x43d, 0x438, 0x435] \<comment> \<open>upravlenie\<close>,
       rx_ilit [0x43c, 0x438, 0x433, 0x440, 0x430, 0x446, 0x438, 0x43e, 0x43d, 0x43d, 0x44b, 0x43c] \<comment> \<open>migratsionnym\<close>,
       rx_ilit [0x43c, 0x438, 0x433, 0x440, 0x430, 0x446, 0x438, 0x43e, 0x43d, 0x43d, 0x43e, 0x439] \<comment> \<open>migratsionnoy\<close>,
       rx_ilit [0x43f, 0x430, 0x441, 0x43f, 0x43e, 0x440, 0x442, 0x43d, 0x43e, 0x2d, 0x432, 0x438, 0x437, 0x43e, 0x432, 0x44b, 0x43c] \<comment> \<open>pasportno-vizovym\<close>,
       rx_ilit [0x43f, 0x430, 0x441, 0x43f, 0x43e, 0x440, 0x442, 0x43d, 0x44b, 0x43c] \<comment> \<open>pasportnym\<close>,
       rx_ilit [0x43f, 0x430, 0x441, 0x43f, 0x43e, 0x440, 0x442, 0x43d, 0x43e, 0x433, 0x43e] \<comment> \<open>pasportnogo\<close>,
       rx_ilit [0x433, 0x435, 0x43d, 0x435, 0x440, 0x430, 0x43b, 0x44c, 0x43d, 0x44b, 0x43c, 0x20, 0x43a, 0x43e, 0x43d, 0x441, 0x443, 0x43b, 0x44c, 0x441, 0x442, 0x432, 0x43e, 0x43c] \<comment> \<open>generalnym konsulstvom\<close>,
       rx_ilit [0x433, 0x435, 0x43d, 0x435, 0x440, 0x430, 0x43b, 0x44c, 0x43d, 0x43e, 0x435, 0x20, 0x43a, 0x43e, 0x43d, 0x441, 0x443, 0x43b, 0x44c, 0x441, 0x442, 0x432, 0x43e] \<comment> \<open>generalnoe konsulstvo\<close>,
       rx_ilit [0x43a, 0x43e, 0x43d, 0x441, 0x443, 0x43b, 0x44c, 0x441, 0x442, 0x432, 0x43e, 0x43c] \<comment> \<open>konsulstvom\<close>,
       rx_ilit [0x43a, 0x43e, 0x43d, 0x441, 0x443, 0x43b, 0x44c, 0x441, 0x442, 0x432, 0x43e] \<comment> \<open>konsulstvo\<close>,
       rx_ilit [0x43a, 0x43e, 0x43d, 0x441, 0x443, 0x43b, 0x44c, 0x441, 0x442, 0x432, 0x430] \<comment> \<open>konsulstva\<close>,
       rx_ilit [0x43f, 0x43e, 0x441, 0x43e, 0x43b, 0x44c, 0x441, 0x442, 0x432, 0x43e, 0x43c] \<comment> \<open>posolstvom\<close>,
       rx_ilit [0x43f, 0x43e, 0x441, 0x43e, 0x43b, 0x44c, 0x441, 0x442, 0x432, 0x43e] \<comment> \<open>posolstvo\<close>,
       rx_ilit [0x43f, 0x43e, 0x441, 0x43e, 0x43b, 0x44c, 0x441, 0x442, 0x432, 0x430] \<comment> \<open>posolstva\<close>,
       rx_ilit [0x43c, 0x438, 0x43d, 0x438, 0x441, 0x442, 0x435, 0x440, 0x441, 0x442, 0x432, 0x43e, 0x43c, 0x20, 0x432, 0x43d, 0x443, 0x442, 0x440, 0x435, 0x43d, 0x43d, 0x438, 0x445, 0x20, 0x434, 0x435, 0x43b] \<comment> \<open>ministerstvom vnutrennikh del\<close>,
       rx_ilit [0x43c, 0x438, 0x43d, 0x438, 0x441, 0x442, 0x435, 0x440, 0x441, 0x442, 0x432, 0x43e, 0x20, 0x432, 0x43d, 0x443, 0x442, 0x440, 0x435, 0x43d, 0x43d, 0x438, 0x445, 0x20, 0x434, 0x435, 0x43b] \<comment> \<open>ministerstvo vnutrennikh del\<close>,
       rx_ilit [0x433, 0x443, 0x20, 0x43c, 0x432, 0x434] \<comment> \<open>gu mvd\<close>,
       rx_ilit [0x433, 0x443, 0x432, 0x43c, 0x20, 0x43c, 0x432, 0x434] \<comment> \<open>guvm mvd\<close>,
       rx_ilit [0x433, 0x443, 0x432, 0x434] \<comment> \<open>guvd\<close>,
       rx_ilit [0x43e, 0x443, 0x444, 0x43c, 0x441] \<comment> \<open>oufms\<close>,
       rx_ilit [0x443, 0x444, 0x43c, 0x441] \<comment> \<open>ufms\<close>,
       rx_ilit [0x444, 0x43c, 0x441] \<comment> \<open>fms\<close>,
       rx_ilit [0x43e, 0x43c, 0x432, 0x434] \<comment> \<open>omvd\<close>,
       rx_ilit [0x443, 0x43c, 0x432, 0x434] \<comment> \<open>umvd\<close>,
       rx_ilit [0x443, 0x432, 0x43c] \<comment> \<open>uvm\<close>,
       rx_ilit [0x43e, 0x432, 0x43c] \<comment> \<open>ovm\<close>,
       rx_ilit [0x443, 0x432, 0x434] \<comment> \<open>uvd\<close>,
       rx_ilit [0x43e, 0x432, 0x434] \<comment> \<open>ovd\<close>,
       rx_ilit [0x43c, 0x432, 0x434] \<comment> \<open>mvd\<close>,
       rx_ilit [0x43c, 0x438, 0x43b, 0x438, 0x446, 0x438, 0x438] \<comment> \<open>militsii\<close>,
       rx_ilit [0x43e, 0x2f, 0x43c] \<comment> \<open>o/m\<close>,
       rx_ilit [0x442, 0x43f] \<comment> \<open>tp\<close>,
       rx_ilit [0x43e, 0x43f] \<comment> \<open>op\<close>,
       rx_ilit [0x43c, 0x43f] \<comment> \<open>mp\<close>])"

definition issuerGapRe :: rx where
  "issuerGapRe = rx_cats
    [Bot,
     Star (rx_alts
          [rx_plus (Cls (\<lambda>r. \<not> (r = 0x401 \<or> (0x410 \<le> r \<and> r \<le> 0x44f) \<or> r = 0x451 \<or> (0x1c80 \<le> r \<and> r \<le> 0x1c86)))),
           rx_cats
              [rx_ilit [0x43a, 0x43b, 0x438, 0x435, 0x43d, 0x442] \<comment> \<open>klient\<close>,
               Star rx_space,
               rx_lit [0x3a],
               Star rx_space],
           rx_cats
              [rx_ilit [0x43e, 0x43f, 0x435, 0x440, 0x430, 0x442, 0x43e, 0x440] \<comment> \<open>operator\<close>,
               Star rx_space,
               rx_lit [0x3a],
               Star rx_space]])]"

definition issuerTermRe :: rx where
  "issuerTermRe = rx_alts
    [rx_lit [0xa],
     rx_lit [0x3b],
     rx_cats
        [rx_rep rx_digit 1 2,
         Cls (\<lambda>r. (0x2d \<le> r \<and> r \<le> 0x2f)),
         rx_rep rx_digit 1 2,
         Cls (\<lambda>r. (0x2d \<le> r \<and> r \<le> 0x2f)),
         rx_rep rx_digit 4 4],
     rx_cats
        [rx_rep rx_digit 1 2,
         rx_plus rx_space,
         rx_alts
            [rx_ilit [0x44f, 0x43d, 0x432, 0x430, 0x440, 0x44f] \<comment> \<open>yanvarya\<close>,
             rx_ilit [0x444, 0x435, 0x432, 0x440, 0x430, 0x43b, 0x44f] \<comment> \<open>fevralya\<close>,
             rx_ilit [0x43c, 0x430, 0x440, 0x442, 0x430] \<comment> \<open>marta\<close>,
             rx_ilit [0x430, 0x43f, 0x440, 0x435, 0x43b, 0x44f] \<comment> \<open>aprelya\<close>,
             rx_ilit [0x43c, 0x430, 0x44f] \<comment> \<open>maya\<close>,
             rx_ilit [0x438, 0x44e, 0x43d, 0x44f] \<comment> \<open>iyunya\<close>,
             rx_ilit [0x438, 0x44e, 0x43b, 0x44f] \<comment> \<open>iyulya\<close>,
             rx_ilit [0x430, 0x432, 0x433, 0x443, 0x441, 0x442, 0x430] \<comment> \<open>avgusta\<close>,
             rx_ilit [0x441, 0x435, 0x43d, 0x442, 0x44f, 0x431, 0x440, 0x44f] \<comment> \<open>sentyabrya\<close>,
             rx_ilit [0x43e, 0x43a, 0x442, 0x44f, 0x431, 0x440, 0x44f] \<comment> \<open>oktyabrya\<close>,
             rx_ilit [0x43d, 0x43e, 0x44f, 0x431, 0x440, 0x44f] \<comment> \<open>noyabrya\<close>,
             rx_ilit [0x434, 0x435, 0x43a, 0x430, 0x431, 0x440, 0x44f] \<comment> \<open>dekabrya\<close>],
         rx_plus rx_space,
         rx_rep rx_digit 4 4],
     rx_cats
        [rx_rep rx_digit 1 2,
         rx_plus rx_space,
         rx_alts
            [rx_ilit [0x44f, 0x43d, 0x432] \<comment> \<open>yanv\<close>,
             rx_ilit [0x444, 0x435, 0x432] \<comment> \<open>fev\<close>,
             rx_ilit [0x43c, 0x430, 0x440] \<comment> \<open>mar\<close>,
             rx_ilit [0x430, 0x43f, 0x440] \<comment> \<open>apr\<close>,
             rx_ilit [0x43c, 0x430, 0x44f] \<comment> \<open>maya\<close>,
             rx_ilit [0x43c, 0x430, 0x439] \<comment> \<open>may\<close>,
             rx_ilit [0x438, 0x44e, 0x43d] \<comment> \<open>iyun\<close>,
             rx_ilit [0x438, 0x44e, 0x43b] \<comment> \<open>iyul\<close>,
             rx_ilit [0x430, 0x432, 0x433] \<comment> \<open>avg\<close>,
             rx_ilit [0x441, 0x435, 0x43d] \<comment> \<open>sen\<close>,
             rx_ilit [0x441, 0x435, 0x43d, 0x442] \<comment> \<open>sent\<close>,
             rx_ilit [0x43e, 0x43a, 0x442] \<comment> \<open>okt\<close>,
             rx_ilit [0x43d, 0x43e, 0x44f] \<comment> \<open>noya\<close>,
             rx_ilit [0x434, 0x435, 0x43a] \<comment> \<open>dek\<close>],
         rx_opt (rx_lit [0x2e]),
         rx_plus rx_space,
         rx_rep rx_digit 4 4],
     rx_ilit [0x43a, 0x43e, 0x434, 0x20, 0x43f, 0x43e, 0x434, 0x440, 0x430, 0x437, 0x434, 0x435, 0x43b, 0x435, 0x43d, 0x438, 0x44f] \<comment> \<open>kod podrazdeleniya\<close>,
     rx_ilit [0x43a, 0x2f, 0x43f] \<comment> \<open>k/p\<close>,
     rx_ilit [0x434, 0x430, 0x442, 0x430, 0x20, 0x432, 0x44b, 0x434, 0x430, 0x447, 0x438] \<comment> \<open>data vydachi\<close>,
     rx_ilit [0x432, 0x44b, 0x434, 0x430, 0x43d] \<comment> \<open>vydan\<close>,
     rx_ilit [0x433, 0x440, 0x430, 0x436, 0x434, 0x430, 0x43d, 0x441, 0x442, 0x432, 0x43e] \<comment> \<open>grazhdanstvo\<close>]"

definition issuerContextLowerRe :: "runtime \<Rightarrow> rx" where
  "issuerContextLowerRe rt = rx_cats
    [rx_alts
        [Bot,
         Cls (\<lambda>r. \<not> uc_letter rt r)],
     Cap 1 (rx_alts
          [rx_lit [0x43a, 0x435, 0x43c, 0x20, 0x432, 0x44b, 0x434, 0x430, 0x43d] \<comment> \<open>kem vydan\<close>,
           rx_lit [0x432, 0x44b, 0x434, 0x430, 0x432, 0x448, 0x438, 0x439, 0x20, 0x43e, 0x440, 0x433, 0x430, 0x43d] \<comment> \<open>vydavshiy organ\<close>,
           rx_lit [0x43e, 0x440, 0x433, 0x430, 0x43d, 0x20, 0x432, 0x44b, 0x434, 0x430, 0x447, 0x438] \<comment> \<open>organ vydachi\<close>,
           rx_lit [0x43e, 0x440, 0x433, 0x430, 0x43d, 0x2c, 0x20, 0x432, 0x44b, 0x434, 0x430, 0x432, 0x448, 0x438, 0x439] \<comment> \<open>organ, vydavshiy\<close>,
           rx_lit [0x434, 0x430, 0x442, 0x430, 0x20, 0x432, 0x44b, 0x434, 0x430, 0x447, 0x438] \<comment> \<open>data vydachi\<close>,
           rx_lit [0x432, 0x44b, 0x434, 0x430, 0x43d, 0x43e] \<comment> \<open>vydano\<close>,
           rx_lit [0x432, 0x44b, 0x434, 0x430, 0x43d, 0x430] \<comment> \<open>vydana\<close>,
           rx_lit [0x432, 0x44b, 0x434, 0x430, 0x43d] \<comment> \<open>vydan\<close>,
           rx_lit [0x432, 0x44b, 0x434, 0x430, 0x43b, 0x438] \<comment> \<open>vydali\<close>,
           rx_lit [0x432, 0x44b, 0x434, 0x430, 0x447, 0x438] \<comment> \<open>vydachi\<close>,
           rx_lit [0x43f, 0x43e, 0x43b, 0x443, 0x447, 0x430, 0x43b] \<comment> \<open>poluchal\<close>,
           rx_lit [0x43f, 0x43e, 0x43b, 0x443, 0x447, 0x430, 0x43b, 0x430] \<comment> \<open>poluchala\<close>,
           rx_lit [0x43f, 0x43e, 0x43b, 0x443, 0x447, 0x438, 0x43b] \<comment> \<open>poluchil\<close>,
           rx_lit [0x43f, 0x43e, 0x43b, 0x443, 0x447, 0x438, 0x43b, 0x430] \<comment> \<open>poluchila\<close>,
           rx_lit [0x43f, 0x43e, 0x43b, 0x443, 0x447, 0x435, 0x43d] \<comment> \<open>poluchen\<close>,
           rx_lit [0x43f, 0x43e, 0x43b, 0x443, 0x447, 0x435, 0x43d, 0x430] \<comment> \<open>poluchena\<close>,
           rx_lit [0x43a, 0x435, 0x43c] \<comment> \<open>kem\<close>,
           rx_lit [0x43e, 0x440, 0x433, 0x430, 0x43d] \<comment> \<open>organ\<close>]),
     rx_alts
        [Cls (\<lambda>r. \<not> uc_letter rt r),
         Eot]]"

definition issuerStartWordLowerRe :: rx where
  "issuerStartWordLowerRe = Cap 1 (rx_alts
      [rx_lit [0x43f, 0x430, 0x441, 0x43f, 0x43e, 0x440, 0x442, 0x43d, 0x44b, 0x43c, 0x20, 0x441, 0x442, 0x43e, 0x43b, 0x43e, 0x43c] \<comment> \<open>pasportnym stolom\<close>,
       rx_lit [0x43c, 0x435, 0x436, 0x440, 0x430, 0x439, 0x43e, 0x43d, 0x43d, 0x44b, 0x43c] \<comment> \<open>mezhrayonnym\<close>,
       rx_lit [0x43e, 0x442, 0x434, 0x435, 0x43b, 0x435, 0x43d, 0x438, 0x435, 0x43c] \<comment> \<open>otdeleniem\<close>,
       rx_lit [0x43e, 0x442, 0x434, 0x435, 0x43b, 0x435, 0x43d, 0x438, 0x438] \<comment> \<open>otdelenii\<close>,
       rx_lit [0x43e, 0x442, 0x434, 0x435, 0x43b, 0x435, 0x43d, 0x438, 0x44f] \<comment> \<open>otdeleniya\<close>,
       rx_lit [0x43e, 0x442, 0x434, 0x435, 0x43b, 0x43e, 0x43c] \<comment> \<open>otdelom\<close>,
       rx_lit [0x43e, 0x442, 0x434, 0x435, 0x43b, 0x435] \<comment> \<open>otdele\<close>,
       rx_lit [0x43e, 0x442, 0x434, 0x435, 0x43b] \<comment> \<open>otdel\<close>,
       rx_lit [0x443, 0x43f, 0x440, 0x430, 0x432, 0x43b, 0x435, 0x43d, 0x438, 0x435, 0x43c] \<comment> \<open>upravleniem\<close>,
       rx_lit [0x443, 0x43f, 0x440, 0x430, 0x432, 0x43b, 0x435, 0x43d, 0x438, 0x44f] \<comment> \<open>upravleniya\<close>,
       rx_lit [0x443, 0x43f, 0x440, 0x430, 0x432, 0x43b, 0x435, 0x43d, 0x438, 0x435] \<comment> \<open>upravlenie\<close>,
       rx_lit [0x43c, 0x438, 0x433, 0x440, 0x430, 0x446, 0x438, 0x43e, 0x43d, 0x43d, 0x44b, 0x43c] \<comment> \<open>migratsionnym\<close>,
       rx_lit [0x43c, 0x438, 0x433, 0x440, 0x430, 0x446, 0x438, 0x43e, 0x43d, 0x43d, 0x43e, 0x439] \<comment> \<open>migratsionnoy\<close>,
       rx_lit [0x43f, 0x430, 0x441, 0x43f, 0x43e, 0x440, 0x442, 0x43d, 0x43e, 0x2d, 0x432, 0x438, 0x437, 0x43e, 0x432, 0x44b, 0x43c] \<comment> \<open>pasportno-vizovym\<close>,
       rx_lit [0x43f, 0x430, 0x441, 0x43f, 0x43e, 0x440, 0x442, 0x43d, 0x44b, 0x43c] \<comment> \<open>pasportnym\<close>,
       rx_lit [0x43f, 0x430, 0x441, 0x43f, 0x43e, 0x440, 0x442, 0x43d, 0x43e, 0x433, 0x43e] \<comment> \<open>pasportnogo\<close>,
       rx_lit [0x433, 0x435, 0x43d, 0x435, 0x440, 0x430, 0x43b, 0x44c, 0x43d, 0x44b, 0x43c, 0x20, 0x43a, 0x43e, 0x43d, 0x441, 0x443, 0x43b, 0x44c, 0x441, 0x442, 0x432, 0x43e, 0x43c] \<comment> \<open>generalnym konsulstvom\<close>,
       rx_lit [0x433, 0x435, 0x43d, 0x435, 0x440, 0x430, 0x43b, 0x44c, 0x43d, 0x43e, 0x435, 0x20, 0x43a, 0x43e, 0x43d, 0x441, 0x443, 0x43b, 0x44c, 0x441, 0x442, 0x432, 0x43e] \<comment> \<open>generalnoe konsulstvo\<close>,
       rx_lit [0x43a, 0x43e, 0x43d, 0x441, 0x443, 0x43b, 0x44c, 0x441, 0x442, 0x432, 0x43e, 0x43c] \<comment> \<open>konsulstvom\<close>,
       rx_lit [0x43a, 0x43e, 0x43d, 0x441, 0x443, 0x43b, 0x44c, 0x441, 0x442, 0x432, 0x43e] \<comment> \<open>konsulstvo\<close>,
       rx_lit [0x43a, 0x43e, 0x43d, 0x441, 0x443, 0x43b, 0x44c, 0x441, 0x442, 0x432, 0x430] \<comment> \<open>konsulstva\<close>,
       rx_lit [0x43f, 0x43e, 0x441, 0x43e, 0x43b, 0x44c, 0x441, 0x442, 0x432, 0x43e, 0x43c] \<comment> \<open>posolstvom\<close>,
       rx_lit [0x43f, 0x43e, 0x441, 0x43e, 0x43b, 0x44c, 0x441, 0x442, 0x432, 0x43e] \<comment> \<open>posolstvo\<close>,
       rx_lit [0x43f, 0x43e, 0x441, 0x43e, 0x43b, 0x44c, 0x441, 0x442, 0x432, 0x430] \<comment> \<open>posolstva\<close>,
       rx_lit [0x43c, 0x438, 0x43d, 0x438, 0x441, 0x442, 0x435, 0x440, 0x441, 0x442, 0x432, 0x43e, 0x43c, 0x20, 0x432, 0x43d, 0x443, 0x442, 0x440, 0x435, 0x43d, 0x43d, 0x438, 0x445, 0x20, 0x434, 0x435, 0x43b] \<comment> \<open>ministerstvom vnutrennikh del\<close>,
       rx_lit [0x43c, 0x438, 0x43d, 0x438, 0x441, 0x442, 0x435, 0x440, 0x441, 0x442, 0x432, 0x43e, 0x20, 0x432, 0x43d, 0x443, 0x442, 0x440, 0x435, 0x43d, 0x43d, 0x438, 0x445, 0x20, 0x434, 0x435, 0x43b] \<comment> \<open>ministerstvo vnutrennikh del\<close>,
       rx_lit [0x433, 0x443, 0x20, 0x43c, 0x432, 0x434] \<comment> \<open>gu mvd\<close>,
       rx_lit [0x433, 0x443, 0x432, 0x43c, 0x20, 0x43c, 0x432, 0x434] \<comment> \<open>guvm mvd\<close>,
       rx_lit [0x433, 0x443, 0x432, 0x434] \<comment> \<open>guvd\<close>,
       rx_lit [0x43e, 0x443, 0x444, 0x43c, 0x441] \<comment> \<open>oufms\<close>,
       rx_lit [0x443, 0x444, 0x43c, 0x441] \<comment> \<open>ufms\<close>,
       rx_lit [0x444, 0x43c, 0x441] \<comment> \<open>fms\<close>,
       rx_lit [0x43e, 0x43c, 0x432, 0x434] \<comment> \<open>omvd\<close>,
       rx_lit [0x443, 0x43c, 0x432, 0x434] \<comment> \<open>umvd\<close>,
       rx_lit [0x443, 0x432, 0x43c] \<comment> \<open>uvm\<close>,
       rx_lit [0x43e, 0x432, 0x43c] \<comment> \<open>ovm\<close>,
       rx_lit [0x443, 0x432, 0x434] \<comment> \<open>uvd\<close>,
       rx_lit [0x43e, 0x432, 0x434] \<comment> \<open>ovd\<close>,
       rx_lit [0x43c, 0x432, 0x434] \<comment> \<open>mvd\<close>,
       rx_lit [0x43c, 0x438, 0x43b, 0x438, 0x446, 0x438, 0x438] \<comment> \<open>militsii\<close>,
       rx_lit [0x43e, 0x2f, 0x43c] \<comment> \<open>o/m\<close>,
       rx_lit [0x442, 0x43f] \<comment> \<open>tp\<close>,
       rx_lit [0x43e, 0x43f] \<comment> \<open>op\<close>,
       rx_lit [0x43c, 0x43f] \<comment> \<open>mp\<close>])"

definition issuerGapLowerRe :: rx where
  "issuerGapLowerRe = rx_cats
    [Bot,
     Star (rx_alts
          [rx_plus (Cls (\<lambda>r. \<not> (r = 0x401 \<or> (0x410 \<le> r \<and> r \<le> 0x44f) \<or> r = 0x451))),
           rx_cats
              [rx_lit [0x43a, 0x43b, 0x438, 0x435, 0x43d, 0x442] \<comment> \<open>klient\<close>,
               Star rx_space,
               rx_lit [0x3a],
               Star rx_space],
           rx_cats
              [rx_lit [0x43e, 0x43f, 0x435, 0x440, 0x430, 0x442, 0x43e, 0x440] \<comment> \<open>operator\<close>,
               Star rx_space,
               rx_lit [0x3a],
               Star rx_space]])]"

definition issuerGapWordRe :: "runtime \<Rightarrow> rx" where
  "issuerGapWordRe rt = rx_alts
    [rx_cats
        [rx_alts
            [rx_ilit [0x432] \<comment> \<open>v\<close>,
             rx_cats
                [rx_ilit [0x433] \<comment> \<open>g\<close>,
                 rx_opt (rx_lit [0x2e])],
             rx_cats
                [rx_ilit [0x433, 0x43e, 0x440] \<comment> \<open>gor\<close>,
                 rx_opt (rx_lit [0x2e])],
             rx_ilit [0x43c, 0x43d, 0x435] \<comment> \<open>mne\<close>,
             rx_ilit [0x431, 0x44b, 0x43b] \<comment> \<open>byl\<close>,
             rx_ilit [0x431, 0x44b, 0x43b, 0x430] \<comment> \<open>byla\<close>,
             rx_ilit [0x43f, 0x430, 0x441, 0x43f, 0x43e, 0x440, 0x442] \<comment> \<open>pasport\<close>],
         rx_alts
            [Cls (\<lambda>r. \<not> (uc_letter rt r \<or> r = 0x345)),
             Eot]],
     rx_cats
        [rx_ilit [0x43a, 0x43b, 0x438, 0x435, 0x43d, 0x442] \<comment> \<open>klient\<close>,
         Star rx_space,
         rx_lit [0x3a],
         Star rx_space],
     rx_cats
        [rx_ilit [0x43e, 0x43f, 0x435, 0x440, 0x430, 0x442, 0x43e, 0x440] \<comment> \<open>operator\<close>,
         Star rx_space,
         rx_lit [0x3a],
         Star rx_space],
     rx_fold (buildDateWordsRe rt)]"

definition issuerDateGapRe :: "runtime \<Rightarrow> rx" where
  "issuerDateGapRe rt = rx_cats
    [Bot,
     Star rx_space,
     rx_alts
        [rx_cats
            [rx_rep rx_digit 1 2,
             Cls (\<lambda>r. (0x2d \<le> r \<and> r \<le> 0x2f)),
             rx_rep rx_digit 1 2,
             Cls (\<lambda>r. (0x2d \<le> r \<and> r \<le> 0x2f)),
             rx_rep rx_digit 4 4],
         rx_cats
            [rx_rep rx_digit 1 2,
             rx_plus rx_space,
             rx_alts
                [rx_ilit [0x44f, 0x43d, 0x432, 0x430, 0x440, 0x44f] \<comment> \<open>yanvarya\<close>,
                 rx_ilit [0x444, 0x435, 0x432, 0x440, 0x430, 0x43b, 0x44f] \<comment> \<open>fevralya\<close>,
                 rx_ilit [0x43c, 0x430, 0x440, 0x442, 0x430] \<comment> \<open>marta\<close>,
                 rx_ilit [0x430, 0x43f, 0x440, 0x435, 0x43b, 0x44f] \<comment> \<open>aprelya\<close>,
                 rx_ilit [0x43c, 0x430, 0x44f] \<comment> \<open>maya\<close>,
                 rx_ilit [0x438, 0x44e, 0x43d, 0x44f] \<comment> \<open>iyunya\<close>,
                 rx_ilit [0x438, 0x44e, 0x43b, 0x44f] \<comment> \<open>iyulya\<close>,
                 rx_ilit [0x430, 0x432, 0x433, 0x443, 0x441, 0x442, 0x430] \<comment> \<open>avgusta\<close>,
                 rx_ilit [0x441, 0x435, 0x43d, 0x442, 0x44f, 0x431, 0x440, 0x44f] \<comment> \<open>sentyabrya\<close>,
                 rx_ilit [0x43e, 0x43a, 0x442, 0x44f, 0x431, 0x440, 0x44f] \<comment> \<open>oktyabrya\<close>,
                 rx_ilit [0x43d, 0x43e, 0x44f, 0x431, 0x440, 0x44f] \<comment> \<open>noyabrya\<close>,
                 rx_ilit [0x434, 0x435, 0x43a, 0x430, 0x431, 0x440, 0x44f] \<comment> \<open>dekabrya\<close>,
                 rx_ilit [0x44f, 0x43d, 0x432] \<comment> \<open>yanv\<close>,
                 rx_ilit [0x444, 0x435, 0x432] \<comment> \<open>fev\<close>,
                 rx_ilit [0x43c, 0x430, 0x440] \<comment> \<open>mar\<close>,
                 rx_ilit [0x430, 0x43f, 0x440] \<comment> \<open>apr\<close>,
                 rx_ilit [0x43c, 0x430, 0x439] \<comment> \<open>may\<close>,
                 rx_ilit [0x438, 0x44e, 0x43d] \<comment> \<open>iyun\<close>,
                 rx_ilit [0x438, 0x44e, 0x43b] \<comment> \<open>iyul\<close>,
                 rx_ilit [0x430, 0x432, 0x433] \<comment> \<open>avg\<close>,
                 rx_ilit [0x441, 0x435, 0x43d] \<comment> \<open>sen\<close>,
                 rx_ilit [0x441, 0x435, 0x43d, 0x442] \<comment> \<open>sent\<close>,
                 rx_ilit [0x43e, 0x43a, 0x442] \<comment> \<open>okt\<close>,
                 rx_ilit [0x43d, 0x43e, 0x44f] \<comment> \<open>noya\<close>,
                 rx_ilit [0x434, 0x435, 0x43a] \<comment> \<open>dek\<close>],
             rx_opt (rx_lit [0x2e]),
             rx_plus rx_space,
             rx_rep rx_digit 4 4],
         rx_fold (buildDateWordsRe rt),
         rx_cats
            [rx_rep rx_digit 1 4,
             rx_ilit [0x2d, 0x445] \<comment> \<open>-kh\<close>,
             rx_opt (rx_cats
                  [rx_plus rx_space,
                   rx_alts
                      [rx_ilit [0x433, 0x43e, 0x434, 0x430, 0x445] \<comment> \<open>godakh\<close>,
                       rx_ilit [0x433, 0x43e, 0x434, 0x430] \<comment> \<open>goda\<close>,
                       rx_cats
                          [rx_ilit [0x433, 0x433] \<comment> \<open>gg\<close>,
                           rx_opt (rx_lit [0x2e])]]])]],
     rx_opt (rx_cats
          [rx_plus rx_space,
           rx_alts
              [rx_ilit [0x433, 0x43e, 0x434, 0x430] \<comment> \<open>goda\<close>,
               rx_ilit [0x433, 0x2e] \<comment> \<open>g.\<close>,
               rx_cats
                  [rx_ilit [0x433] \<comment> \<open>g\<close>,
                   Wordb]]])]"

definition issuerOrganKeywordRe :: "runtime \<Rightarrow> rx" where
  "issuerOrganKeywordRe rt = rx_cats
    [rx_alts
        [Bot,
         Cls (\<lambda>r. \<not> (uc_letter rt r \<or> r = 0x345))],
     rx_alts
        [rx_ilit [0x432, 0x43d, 0x443, 0x442, 0x440, 0x435, 0x43d, 0x43d, 0x438, 0x445, 0x20, 0x434, 0x435, 0x43b] \<comment> \<open>vnutrennikh del\<close>,
         rx_ilit [0x443, 0x444, 0x43c, 0x441] \<comment> \<open>ufms\<close>,
         rx_ilit [0x43c, 0x432, 0x434] \<comment> \<open>mvd\<close>,
         rx_ilit [0x43e, 0x432, 0x434] \<comment> \<open>ovd\<close>,
         rx_ilit [0x443, 0x432, 0x434] \<comment> \<open>uvd\<close>,
         rx_ilit [0x43e, 0x43c, 0x432, 0x434] \<comment> \<open>omvd\<close>,
         rx_ilit [0x443, 0x43c, 0x432, 0x434] \<comment> \<open>umvd\<close>,
         rx_ilit [0x43c, 0x438, 0x43b, 0x438, 0x446, 0x438, 0x438] \<comment> \<open>militsii\<close>,
         rx_ilit [0x43f, 0x43e, 0x43b, 0x438, 0x446, 0x438, 0x438] \<comment> \<open>politsii\<close>,
         rx_ilit [0x440, 0x43e, 0x441, 0x441, 0x438, 0x438] \<comment> \<open>rossii\<close>,
         rx_ilit [0x440, 0x430, 0x439, 0x43e, 0x43d, 0x430] \<comment> \<open>rayona\<close>,
         rx_ilit [0x440, 0x2d, 0x43d, 0x430] \<comment> \<open>r-na\<close>,
         rx_ilit [0x433, 0x43e, 0x440, 0x43e, 0x434, 0x430] \<comment> \<open>goroda\<close>,
         rx_ilit [0x433, 0x2e] \<comment> \<open>g.\<close>,
         rx_ilit [0x43f, 0x43e] \<comment> \<open>po\<close>,
         rx_lit [0x2116] \<comment> \<open>(numero sign)\<close>],
     rx_alts
        [Cls (\<lambda>r. \<not> (uc_letter rt r \<or> r = 0x345)),
         Eot]]"

definition issuerTermLowerRe :: rx where
  "issuerTermLowerRe = rx_alts
    [rx_lit [0xa],
     rx_lit [0x3b],
     rx_cats
        [rx_rep rx_digit 1 2,
         Cls (\<lambda>r. (0x2d \<le> r \<and> r \<le> 0x2f)),
         rx_rep rx_digit 1 2,
         Cls (\<lambda>r. (0x2d \<le> r \<and> r \<le> 0x2f)),
         rx_rep rx_digit 4 4],
     rx_cats
        [rx_rep rx_digit 1 2,
         rx_plus rx_space,
         rx_alts
            [rx_lit [0x44f, 0x43d, 0x432, 0x430, 0x440, 0x44f] \<comment> \<open>yanvarya\<close>,
             rx_lit [0x444, 0x435, 0x432, 0x440, 0x430, 0x43b, 0x44f] \<comment> \<open>fevralya\<close>,
             rx_lit [0x43c, 0x430, 0x440, 0x442, 0x430] \<comment> \<open>marta\<close>,
             rx_lit [0x430, 0x43f, 0x440, 0x435, 0x43b, 0x44f] \<comment> \<open>aprelya\<close>,
             rx_lit [0x43c, 0x430, 0x44f] \<comment> \<open>maya\<close>,
             rx_lit [0x438, 0x44e, 0x43d, 0x44f] \<comment> \<open>iyunya\<close>,
             rx_lit [0x438, 0x44e, 0x43b, 0x44f] \<comment> \<open>iyulya\<close>,
             rx_lit [0x430, 0x432, 0x433, 0x443, 0x441, 0x442, 0x430] \<comment> \<open>avgusta\<close>,
             rx_lit [0x441, 0x435, 0x43d, 0x442, 0x44f, 0x431, 0x440, 0x44f] \<comment> \<open>sentyabrya\<close>,
             rx_lit [0x43e, 0x43a, 0x442, 0x44f, 0x431, 0x440, 0x44f] \<comment> \<open>oktyabrya\<close>,
             rx_lit [0x43d, 0x43e, 0x44f, 0x431, 0x440, 0x44f] \<comment> \<open>noyabrya\<close>,
             rx_lit [0x434, 0x435, 0x43a, 0x430, 0x431, 0x440, 0x44f] \<comment> \<open>dekabrya\<close>],
         rx_plus rx_space,
         rx_rep rx_digit 4 4],
     rx_cats
        [rx_rep rx_digit 1 2,
         rx_plus rx_space,
         rx_alts
            [rx_lit [0x44f, 0x43d, 0x432] \<comment> \<open>yanv\<close>,
             rx_lit [0x444, 0x435, 0x432] \<comment> \<open>fev\<close>,
             rx_lit [0x43c, 0x430, 0x440] \<comment> \<open>mar\<close>,
             rx_lit [0x430, 0x43f, 0x440] \<comment> \<open>apr\<close>,
             rx_lit [0x43c, 0x430, 0x44f] \<comment> \<open>maya\<close>,
             rx_lit [0x43c, 0x430, 0x439] \<comment> \<open>may\<close>,
             rx_lit [0x438, 0x44e, 0x43d] \<comment> \<open>iyun\<close>,
             rx_lit [0x438, 0x44e, 0x43b] \<comment> \<open>iyul\<close>,
             rx_lit [0x430, 0x432, 0x433] \<comment> \<open>avg\<close>,
             rx_lit [0x441, 0x435, 0x43d] \<comment> \<open>sen\<close>,
             rx_lit [0x441, 0x435, 0x43d, 0x442] \<comment> \<open>sent\<close>,
             rx_lit [0x43e, 0x43a, 0x442] \<comment> \<open>okt\<close>,
             rx_lit [0x43d, 0x43e, 0x44f] \<comment> \<open>noya\<close>,
             rx_lit [0x434, 0x435, 0x43a] \<comment> \<open>dek\<close>],
         rx_opt (rx_lit [0x2e]),
         rx_plus rx_space,
         rx_rep rx_digit 4 4],
     rx_lit [0x43a, 0x43e, 0x434, 0x20, 0x43f, 0x43e, 0x434, 0x440, 0x430, 0x437, 0x434, 0x435, 0x43b, 0x435, 0x43d, 0x438, 0x44f] \<comment> \<open>kod podrazdeleniya\<close>,
     rx_lit [0x43a, 0x2f, 0x43f] \<comment> \<open>k/p\<close>,
     rx_lit [0x434, 0x430, 0x442, 0x430, 0x20, 0x432, 0x44b, 0x434, 0x430, 0x447, 0x438] \<comment> \<open>data vydachi\<close>,
     rx_lit [0x432, 0x44b, 0x434, 0x430, 0x43d] \<comment> \<open>vydan\<close>,
     rx_lit [0x433, 0x440, 0x430, 0x436, 0x434, 0x430, 0x43d, 0x441, 0x442, 0x432, 0x43e] \<comment> \<open>grazhdanstvo\<close>]"

subsection \<open>Words\<close>

definition issuerAbbrevs :: "string list" where
  "issuerAbbrevs =
    [encode_runes [0x433] \<comment> \<open>g\<close>,
     encode_runes [0x443, 0x43b] \<comment> \<open>ul\<close>,
     encode_runes [0x434] \<comment> \<open>d\<close>,
     encode_runes [0x43a, 0x432] \<comment> \<open>kv\<close>,
     encode_runes [0x43f, 0x440] \<comment> \<open>pr\<close>,
     encode_runes [0x43f, 0x435, 0x440] \<comment> \<open>per\<close>,
     encode_runes [0x43e, 0x431, 0x43b] \<comment> \<open>obl\<close>,
     encode_runes [0x440, 0x435, 0x441, 0x43f] \<comment> \<open>resp\<close>,
     markerStr,
     markerKorp,
     encode_runes [0x43e, 0x444] \<comment> \<open>of\<close>,
     encode_runes [0x43f, 0x43e, 0x43c] \<comment> \<open>pom\<close>,
     encode_runes [0x43a, 0x43e, 0x43c, 0x43d] \<comment> \<open>komn\<close>,
     encode_runes [0x43f, 0x43e, 0x441] \<comment> \<open>pos\<close>,
     encode_runes [0x434, 0x435, 0x440] \<comment> \<open>der\<close>,
     encode_runes [0x441, 0x442] \<comment> \<open>st\<close>,
     wordGorod,
     encode_runes [0x43d, 0x430, 0x431] \<comment> \<open>nab\<close>,
     encode_runes [0x43f, 0x43b] \<comment> \<open>pl\<close>,
     encode_runes [0x448] \<comment> \<open>sh\<close>,
     encode_runes [0x440, 0x2d, 0x43d] \<comment> \<open>r-n\<close>,
     encode_runes [0x43f, 0x433, 0x442] \<comment> \<open>pgt\<close>,
     encode_runes [0x442] \<comment> \<open>t\<close>,
     encode_runes [0x434, 0x440] \<comment> \<open>dr\<close>,
     encode_runes [0x43f, 0x440, 0x2d, 0x442] \<comment> \<open>pr-t\<close>,
     encode_runes [0x43f, 0x440, 0x2d, 0x434] \<comment> \<open>pr-d\<close>,
     encode_runes [0x431, 0x2d, 0x440] \<comment> \<open>b-r\<close>]"

definition issuerContinuations :: "string list" where
  "issuerContinuations =
    [encode_runes [0x43f, 0x43e] \<comment> \<open>po\<close>,
     encode_runes [0x432] \<comment> \<open>v\<close>,
     encode_runes [0x438] \<comment> \<open>i\<close>,
     encode_runes [0x433] \<comment> \<open>g\<close>,
     wordGorod,
     wordRaion,
     encode_runes [0x440, 0x430, 0x439, 0x43e, 0x43d, 0x430] \<comment> \<open>rayona\<close>,
     encode_runes [0x43e, 0x431, 0x43b, 0x430, 0x441, 0x442, 0x438] \<comment> \<open>oblasti\<close>,
     encode_runes [0x43e, 0x442, 0x434, 0x435, 0x43b] \<comment> \<open>otdel\<close>,
     encode_runes [0x43e, 0x442, 0x434, 0x435, 0x43b, 0x43e, 0x43c] \<comment> \<open>otdelom\<close>,
     encode_runes [0x43e, 0x442, 0x434, 0x435, 0x43b, 0x435, 0x43d, 0x438, 0x435] \<comment> \<open>otdelenie\<close>,
     encode_runes [0x43e, 0x442, 0x434, 0x435, 0x43b, 0x435, 0x43d, 0x438, 0x435, 0x43c] \<comment> \<open>otdeleniem\<close>,
     encode_runes [0x442, 0x43f] \<comment> \<open>tp\<close>,
     encode_runes [0x2116] \<comment> \<open>(numero sign)\<close>,
     wordKrai,
     encode_runes [0x43a, 0x440, 0x430, 0x44f] \<comment> \<open>kraya\<close>,
     encode_runes [0x43e, 0x43a, 0x440, 0x443, 0x433] \<comment> \<open>okrug\<close>,
     encode_runes [0x43e, 0x43a, 0x440, 0x443, 0x433, 0x430] \<comment> \<open>okruga\<close>]"

definition issuerAlwaysEnd :: "string list" where
  "issuerAlwaysEnd =
    [encode_runes [0x43a, 0x43e, 0x43f, 0x438, 0x44f] \<comment> \<open>kopiya\<close>,
     encode_runes [0x43f, 0x440, 0x438, 0x43b, 0x43e, 0x436, 0x435, 0x43d, 0x430] \<comment> \<open>prilozhena\<close>,
     encode_runes [0x434, 0x43e, 0x43a, 0x443, 0x43c, 0x435, 0x43d, 0x442] \<comment> \<open>dokument\<close>,
     encode_runes [0x434, 0x430, 0x442, 0x430] \<comment> \<open>data\<close>,
     encode_runes [0x43a, 0x43e, 0x434] \<comment> \<open>kod\<close>]"

subsection \<open>The start of a value\<close>

definition consumeIssuerGap :: "runtime \<Rightarrow> string \<Rightarrow> nat \<Rightarrow> nat \<Rightarrow> rx \<Rightarrow> nat" where
  "consumeIssuerGap rt search pos windowEnd gapRe =
     (let seg = between search pos windowEnd;
          hit = (\<lambda>m. case m of None \<Rightarrow> False | Some loc \<Rightarrow> m_hi loc > 0);
          m1 = FindIndex seg (issuerDateGapRe rt); m2 = FindIndex seg gapRe; m3 = FindIndex seg (issuerGapWordRe rt)
      in if hit m1 then pos + m_hi (the m1)
         else if hit m2 then pos + m_hi (the m2)
         else if hit m3 \<and> m_lo (the m3) = 0 then pos + m_hi (the m3)
         else pos)"

definition issuerStartValid :: "runtime \<Rightarrow> string \<Rightarrow> nat \<Rightarrow> bool" where
  "issuerStartValid rt search start =
     (if \<not> HasPrefix (ToLower rt (nextWord search start)) (encode_runes [0x43e, 0x442, 0x434, 0x435, 0x43b] \<comment> \<open>otdel\<close>) then True
      else MatchString (between search start (runeOffsetAfter search start 40)) (issuerOrganKeywordRe rt))"

text \<open>The loop of \<^verbatim>\<open>issuerStartWithNumber\<close> over the digits before a position.\<close>

fun digits_before :: "string \<Rightarrow> nat \<Rightarrow> nat" where
  "digits_before s 0 = 0"
| "digits_before s (Suc j) = (if is_digit (s ! j) then digits_before s j else Suc j)"

definition issuerStartWithNumber :: "string \<Rightarrow> nat \<Rightarrow> nat" where
  "issuerStartWithNumber search start =
     (if start = 0 \<or> search ! (start - 1) \<noteq> CHR '' '' then start
      else let i = start - 1; j = digits_before search i in
        if j = i then start
        else if 0 < j \<and> search ! (j - 1) \<in> {CHR ''.'', CHR ''/'', CHR ''-''} then start
        else j)"

text \<open>The loop of \<^verbatim>\<open>findIssuerStart\<close>; \<^term>\<open>None\<close> is its result -1.\<close>

function find_start_loop :: "runtime \<Rightarrow> string \<Rightarrow> rx \<Rightarrow> rx \<Rightarrow> nat \<Rightarrow> nat \<Rightarrow> nat option" where
  "find_start_loop rt search startRe gapRe windowEnd pos =
     (if pos < windowEnd then
        let nx = consumeIssuerGap rt search pos windowEnd gapRe in
        if nx > pos then find_start_loop rt search startRe gapRe windowEnd nx
        else case FindIndex (between search pos windowEnd) startRe of
               None \<Rightarrow> None
             | Some m \<Rightarrow>
                 if m_lo m > 0 then None
                 else if \<not> issuerStartValid rt search (pos + m_lo m) then None
                 else Some (issuerStartWithNumber search (pos + m_lo m))
      else None)"
  by pat_completeness auto
termination
  by (relation "measure (\<lambda>(rt, search, startRe, gapRe, windowEnd, pos). windowEnd - pos)") auto

declare find_start_loop.simps [simp del]

definition findIssuerStart :: "runtime \<Rightarrow> string \<Rightarrow> nat \<Rightarrow> rx \<Rightarrow> rx \<Rightarrow> nat option" where
  "findIssuerStart rt search from startRe gapRe =
     find_start_loop rt search startRe gapRe (runeOffsetAfter search from 300) from"

subsection \<open>The end of a value\<close>

definition isAbbrevPeriod :: "runtime \<Rightarrow> string \<Rightarrow> nat \<Rightarrow> bool" where
  "isAbbrevPeriod rt tx pos \<longleftrightarrow>
     ToLower rt (rev (takeWhile (\<lambda>c. c \<noteq> CHR '' '' \<and> c \<noteq> CHR 0x0A) (rev (take pos tx)))) \<in> set issuerAbbrevs"

definition sentenceEnd :: "string \<Rightarrow> string \<Rightarrow> nat \<Rightarrow> bool" where
  "sentenceEnd raw tx pos =
     (if pos + 1 = length tx then True
      else tx ! (pos + 1) = CHR '' '' \<and> pos + 2 < length tx \<and> isUpperRune (decodedRune raw (pos + 2)))"

function issuerEndAtPeriod :: "runtime \<Rightarrow> string \<Rightarrow> string \<Rightarrow> nat \<Rightarrow> nat \<Rightarrow> nat" where
  "issuerEndAtPeriod rt raw tx i e =
     (if i < e then
        if tx ! i \<noteq> CHR ''.'' \<or> isAbbrevPeriod rt tx i then issuerEndAtPeriod rt raw tx (i + 1) e
        else if sentenceEnd raw tx i then issuerEndAtPeriod rt raw tx (i + 1) i
        else issuerEndAtPeriod rt raw tx (i + 1) e
      else e)"
  by pat_completeness auto
termination
  by (relation "measure (\<lambda>(rt, raw, tx, i, e). e - i)") auto

declare issuerEndAtPeriod.simps [simp del]

definition commaEndsValue :: "runtime \<Rightarrow> string \<Rightarrow> nat \<Rightarrow> bool" where
  "commaEndsValue rt tx pos =
     (let nx = nextWord tx (pos + 1) in
      if nx = '''' then False
      else let lower = ToLower rt nx in lower \<in> set issuerAlwaysEnd \<or> lower \<notin> set issuerContinuations)"

function issuerEndAtComma :: "runtime \<Rightarrow> string \<Rightarrow> nat \<Rightarrow> nat \<Rightarrow> nat" where
  "issuerEndAtComma rt tx i e =
     (if i < e then
        if tx ! i \<noteq> CHR '','' then issuerEndAtComma rt tx (i + 1) e
        else if commaEndsValue rt tx i then issuerEndAtComma rt tx (i + 1) i
        else issuerEndAtComma rt tx (i + 1) e
      else e)"
  by pat_completeness auto
termination
  by (relation "measure (\<lambda>(rt, tx, i, e). e - i)") auto

declare issuerEndAtComma.simps [simp del]

text \<open>
  The loop that skips sixteen words: \<^verbatim>\<open>strings.Index\<close> counts as -1 when the word is not found, and the next slice
  can then be out of range.
\<close>

fun cut_words :: "string \<Rightarrow> int \<Rightarrow> string list \<Rightarrow> int option" where
  "cut_words tx p [] = Some p"
| "cut_words tx p (w # ws) =
     do { rest \<leftarrow> slice_from tx p;
          let idx = (case Index rest w of None \<Rightarrow> -1 | Some i \<Rightarrow> int i);
          cut_words tx (p + idx + int (length w)) ws }"

definition term_end :: "string \<Rightarrow> nat \<Rightarrow> nat \<Rightarrow> rx \<Rightarrow> nat" where
  "term_end tx start windowEnd termRe =
     foldl (\<lambda>e m. if start + m_lo m < e then start + m_lo m else e) windowEnd
       (FindAllIndex (between tx start windowEnd) termRe)"

definition issuerEnd :: "runtime \<Rightarrow> string \<Rightarrow> string \<Rightarrow> nat \<Rightarrow> rx \<Rightarrow> nat option" where
  "issuerEnd rt raw tx start termRe =
     (let e1 = term_end tx start (runeOffsetAfter tx start 300) termRe;
          e2 = issuerEndAtPeriod rt raw tx start e1;
          e3 = issuerEndAtComma rt tx start e2;
          words = Fields (between tx start e3)
      in if length words > 16 then
           do { p \<leftarrow> cut_words tx (int start) (take 16 words);
                Some (if p < int e3 then nat p else e3) }
         else Some e3)"

subsection \<open>The detector\<close>

definition trim_value :: "string \<Rightarrow> string" where
  "trim_value v = rev (dropWhile (\<lambda>c. c \<in> {CHR '' '', CHR '','', CHR ''.''}) (rev v))"

definition issuer_match :: "runtime \<Rightarrow> Text \<Rightarrow> rx \<Rightarrow> rx \<Rightarrow> rx \<Rightarrow> match \<Rightarrow> Span list option" where
  "issuer_match rt t startRe gapRe termRe loc =
     (let search = search_text t; ctxEnd = (case group_range loc 1 of Some (a, b) \<Rightarrow> b | None \<Rightarrow> 0) in
      case findIssuerStart rt search ctxEnd startRe gapRe of
        None \<Rightarrow> Some []
      | Some start \<Rightarrow>
          do { e \<leftarrow> issuerEnd rt (Raw t) search start termRe;
               v \<leftarrow> slice search (int start) (int e);
               let w = trim_value v;
               Some (if w = '''' then []
                     else [\<lparr> sp_Start = int start, sp_End = int (start + length w), sp_Category = CatPassportIssuer,
                             sp_Detector = ''issuer'', sp_Confidence = 9 / 10 \<rparr>]) })"

definition issuer_contexts :: "runtime \<Rightarrow> Text \<Rightarrow> match list" where
  "issuer_contexts rt t =
     FindAllIndex (search_text t) (if LowerOK t then issuerContextLowerRe rt else issuerContextRe rt)"

definition DetectLower_issuer :: "runtime \<Rightarrow> Text \<Rightarrow> Span list option" where
  "DetectLower_issuer rt t =
     concat_opt
       (if LowerOK t then issuer_match rt t issuerStartWordLowerRe issuerGapLowerRe issuerTermLowerRe
        else issuer_match rt t issuerStartWordRe issuerGapRe issuerTermRe)
       (issuer_contexts rt t)"

definition NewIssuerDetector :: "runtime \<Rightarrow> detector" where
  "NewIssuerDetector rt = detector_of rt ''issuer'' [CatPassportIssuer] (DetectLower_issuer rt)"

subsection \<open>Offsets\<close>

lemma digits_before_le: "digits_before s j \<le> j"
  by (induction j) auto

lemma issuerStartWithNumber_le: "issuerStartWithNumber search start \<le> start"
  using digits_before_le [of search "start - 1"] by (auto simp: issuerStartWithNumber_def Let_def)

lemma find_start_loop_range:
  "find_start_loop rt search startRe gapRe we pos = Some st \<Longrightarrow> st < we"
proof (induction rt search startRe gapRe we pos rule: find_start_loop.induct)
  case (1 rt search startRe gapRe we pos)
  show ?case
  proof (cases "pos < we \<and> consumeIssuerGap rt search pos we gapRe > pos")
    case True
    with "1.prems" have "find_start_loop rt search startRe gapRe we (consumeIssuerGap rt search pos we gapRe) = Some st"
      by (simp add: find_start_loop.simps [of rt search startRe gapRe we pos] Let_def)
    with "1.IH" True show ?thesis by blast
  next
    case False
    with "1.prems" have "pos < we" "st = issuerStartWithNumber search pos"
      by (auto simp: find_start_loop.simps [of rt search startRe gapRe we pos] Let_def split: if_splits option.splits)
    with issuerStartWithNumber_le [of search pos] show ?thesis by simp
  qed
qed

lemma findIssuerStart_range:
  assumes "findIssuerStart rt search from startRe gapRe = Some st"
  shows "st < length search"
proof (cases "from \<le> length search")
  case True
  with find_start_loop_range [OF assms [unfolded findIssuerStart_def]] walk_bounds [of "from" search "nat 300"]
  show ?thesis by (simp add: runeOffsetAfter_def)
next
  case False
  have "walk search from (Suc k) = from" for k using False by simp
  then have "runeOffsetAfter search from 300 = from" by (simp add: runeOffsetAfter_def eval_nat_numeral)
  with assms show ?thesis by (simp add: findIssuerStart_def find_start_loop.simps)
qed

lemma min_fold_range:
  "a \<le> e \<Longrightarrow> foldl (\<lambda>e m. if a + m_lo m < e then a + m_lo m else e) e ms \<le> e \<and>
     a \<le> foldl (\<lambda>e m. if a + m_lo m < e then a + m_lo m else e) e ms \<and>
     (\<forall>m \<in> set ms. foldl (\<lambda>e m. if a + m_lo m < e then a + m_lo m else e) e ms \<le> a + m_lo m)"
proof (induction ms arbitrary: e)
  case (Cons m ms)
  let ?e = "if a + m_lo m < e then a + m_lo m else e"
  have "a \<le> ?e" "?e \<le> e" "?e \<le> a + m_lo m" using Cons.prems by auto
  with Cons.IH [of ?e] show ?case unfolding foldl_Cons list.set ball_simps by (meson le_trans)
qed simp

lemma term_end_range: "start \<le> we \<Longrightarrow> start \<le> term_end tx start we re \<and> term_end tx start we re \<le> we"
  unfolding term_end_def using min_fold_range [of start we] by blast

lemma issuerEndAtPeriod_range: "i \<le> e \<Longrightarrow> i \<le> issuerEndAtPeriod rt raw tx i e \<and> issuerEndAtPeriod rt raw tx i e \<le> e"
proof (induction rt raw tx i e rule: issuerEndAtPeriod.induct)
  case (1 rt raw tx i e)
  have "issuerEndAtPeriod rt raw tx (i + 1) i = i" by (simp add: issuerEndAtPeriod.simps)
  with 1 show ?case by (auto simp: issuerEndAtPeriod.simps [of rt raw tx i e])
qed

lemma issuerEndAtComma_range: "i \<le> e \<Longrightarrow> i \<le> issuerEndAtComma rt tx i e \<and> issuerEndAtComma rt tx i e \<le> e"
proof (induction rt tx i e rule: issuerEndAtComma.induct)
  case (1 rt tx i e)
  have "issuerEndAtComma rt tx (i + 1) i = i" by (simp add: issuerEndAtComma.simps)
  with 1 show ?case by (auto simp: issuerEndAtComma.simps [of rt tx i e])
qed

lemma between_drop: "drop k (between s a b) = between s (a + k) b"
  by (simp add: between_def drop_take add.commute)

text \<open>The skipped words are the words of the value in order, so no slice of the loop is out of range.\<close>

lemma cut_words_ok:
  "words_in (between tx p e) ws \<Longrightarrow> p \<le> e \<Longrightarrow> e \<le> length tx \<Longrightarrow>
   \<exists>q. cut_words tx (int p) ws = Some (int q) \<and> p \<le> q \<and> q \<le> e"
proof (induction ws arbitrary: p)
  case (Cons w ws)
  then obtain i where i: "occurs_at (between tx p e) w i" and rest: "words_in (drop (i + length w) (between tx p e)) ws"
    by auto
  have len: "length (between tx p e) = e - p" using Cons.prems by (simp add: between_def)
  have b: "i + length w \<le> e - p" using occurs_at_bound [OF i] len by simp
  have "occurs_at (drop p tx) w i"
  proof -
    have m: "min (length w) (e - (i + p)) = length w" using b by linarith
    have "take (length w) (drop i (between tx p e)) = w" and "i \<le> e - p"
      using i len by (simp_all add: occurs_at_def HasPrefix_def)
    moreover have "i \<le> length tx - p" using \<open>i \<le> e - p\<close> Cons.prems(2,3) by linarith
    ultimately show ?thesis
      by (simp add: occurs_at_def HasPrefix_def between_def drop_take diff_diff_eq add.commute m)
  qed
  then obtain j where j: "Index (drop p tx) w = Some j" "j \<le> i"
    by (cases "Index (drop p tx) w") (auto simp: Index_None Index_Some not_less [symmetric])
  have "words_in (between tx (p + j + length w) e) ws"
    using words_in_earlier [of "i + length w" "between tx p e" ws "j + length w"] rest j(2) b len
    by (simp add: between_drop add_ac)
  moreover have "p + j + length w \<le> e" using j(2) b Cons.prems(2) by linarith
  ultimately obtain q where "cut_words tx (int (p + j + length w)) ws = Some (int q)" "p + j + length w \<le> q" "q \<le> e"
    using Cons.IH [of "p + j + length w"] Cons.prems(3) by blast
  moreover have "slice_from tx (int p) = Some (drop p tx)" using Cons.prems(2,3) slice_from_drop [of "int p" tx] by simp
  ultimately show ?case using j by (auto simp: add_ac)
qed auto

lemma issuerEnd_ok:
  assumes "start \<le> length tx"
  shows "\<exists>e. issuerEnd rt raw tx start re = Some e \<and> start \<le> e \<and>
    e \<le> term_end tx start (runeOffsetAfter tx start 300) re \<and> e \<le> length tx"
proof -
  have we: "start \<le> runeOffsetAfter tx start 300 \<and> runeOffsetAfter tx start 300 \<le> length tx"
    using walk_bounds [OF assms] by (simp add: runeOffsetAfter_def)
  let ?e1 = "term_end tx start (runeOffsetAfter tx start 300) re"
  let ?e2 = "issuerEndAtPeriod rt raw tx start ?e1"
  let ?e3 = "issuerEndAtComma rt tx start ?e2"
  have r1: "start \<le> ?e1 \<and> ?e1 \<le> length tx" using term_end_range [of start _ tx re] we le_trans by blast
  have r3: "start \<le> ?e3 \<and> ?e3 \<le> ?e1"
    using issuerEndAtPeriod_range [of start ?e1 rt raw tx] issuerEndAtComma_range [of start ?e2 rt tx] r1 le_trans by blast
  obtain q where "cut_words tx (int start) (take 16 (Fields (between tx start ?e3))) = Some (int q)" "start \<le> q" "q \<le> ?e3"
    using cut_words_ok [OF words_in_take [OF Fields_in]] r1 r3 le_trans by blast
  with r1 r3 show ?thesis by (auto simp: issuerEnd_def Let_def)
qed

lemma trim_value_length: "length (trim_value v) \<le> length v"
  unfolding trim_value_def using length_dropWhile_le [of _ "rev v"] by simp

lemma issuer_match_ok:
  shows "\<exists>ss. issuer_match rt t sRe gRe tRe loc = Some ss \<and>
    (\<forall>s \<in> set ss. \<exists>st e. sp_Start s = int st \<and> sp_End s = int e \<and> st < e \<and>
       e \<le> term_end (search_text t) st (runeOffsetAfter (search_text t) st 300) tRe \<and> e \<le> length (Raw t))"
proof (cases "findIssuerStart rt (search_text t) (case group_range loc 1 of Some (a, b) \<Rightarrow> b | None \<Rightarrow> 0) sRe gRe")
  case (Some st)
  have st: "st < length (search_text t)" by (rule findIssuerStart_range [OF Some])
  then obtain e where e: "issuerEnd rt (Raw t) (search_text t) st tRe = Some e" "st \<le> e"
      "e \<le> term_end (search_text t) st (runeOffsetAfter (search_text t) st 300) tRe" "e \<le> length (search_text t)"
    using issuerEnd_ok [of st "search_text t" rt "Raw t" tRe] by auto
  then have v: "slice (search_text t) (int st) (int e) = Some (between (search_text t) st e)"
    by (simp add: slice_nat between_def)
  have "length (trim_value (between (search_text t) st e)) \<le> e - st"
    using le_trans [OF trim_value_length] by (simp add: between_def)
  then have "st + length (trim_value (between (search_text t) st e)) \<le> e" using e(2) by simp
  with e v Some show ?thesis
    by (fastforce simp: issuer_match_def Let_def intro: exI [of _ st] exI [of _ "st + length (trim_value (between (search_text t) st e))"])
qed (simp add: issuer_match_def)

interpretation issuer: text_detector "DetectLower_issuer rt" for rt
  unfolding DetectLower_issuer_def
proof (rule text_detector_concat)
  fix t x
  show "\<exists>ss. (if LowerOK t then issuer_match rt t issuerStartWordLowerRe issuerGapLowerRe issuerTermLowerRe
      else issuer_match rt t issuerStartWordRe issuerGapRe issuerTermRe) x = Some ss \<and> (\<forall>s \<in> set ss. span_wf (length (Raw t)) s)"
    using issuer_match_ok [of rt t issuerStartWordLowerRe issuerGapLowerRe issuerTermLowerRe x]
      issuer_match_ok [of rt t issuerStartWordRe issuerGapRe issuerTermRe x]
    by (fastforce simp: span_wf_def)
qed

subsection \<open>A value stays in its clause\<close>

text \<open>A new line or a semicolon ends the value: both are alternatives of the terminator.\<close>

definition clause_break :: "char \<Rightarrow> bool" where
  "clause_break c \<longleftrightarrow> c = CHR 0x0A \<or> c = CHR '';''"

lemma rx_lit_byte:
  assumes "q < length s" and "(of_char (s ! q) :: nat) = c" and "c < 0x80"
  shows "rx_rel s (rx_lit [c]) q (q + 1)"
proof -
  have "drop q s = s ! q # drop (Suc q) s" by (rule Cons_nth_drop_Suc [OF assms(1), symmetric])
  then have "DecodeRune (drop q s) = (c, 1)" using assms(2,3) by (simp add: Let_def)
  then show ?thesis using assms(1) by (auto simp: rx_lit_def rel_iffs)
qed

lemma issuer_terms:
  assumes "q < length s" and "clause_break (s ! q)"
  shows "rx_rel s issuerTermRe q (q + 1)" and "rx_rel s issuerTermLowerRe q (q + 1)"
proof -
  have "rx_rel s (rx_lit [0xa]) q (q + 1) \<or> rx_rel s (rx_lit [0x3b]) q (q + 1)"
    using assms rx_lit_byte [of q s "0xa"] rx_lit_byte [of q s "0x3b"] by (auto simp: clause_break_def)
  then show "rx_rel s issuerTermRe q (q + 1)" and "rx_rel s issuerTermLowerRe q (q + 1)"
    unfolding issuerTermRe_def issuerTermLowerRe_def rx_alts_rel by auto
qed

lemma term_end_clause:
  assumes "st \<le> p" and "p < term_end tx st we re" and "st \<le> we" and "we \<le> length tx"
    and "\<And>q s. q < length s \<Longrightarrow> clause_break (s ! q) \<Longrightarrow> rx_rel s re q (q + 1)"
  shows "\<not> clause_break (tx ! p)"
proof
  assume c: "clause_break (tx ! p)"
  have we: "p < we"
    using assms(2) term_end_range [OF assms(3), of tx re] by simp
  let ?s = "between tx st we" and ?q = "p - st"
  have q: "?q < length ?s" and sq: "?s ! ?q = tx ! p" using we assms(1,4) by (auto simp: between_def)
  have "(of_char (?s ! ?q) :: nat) < 0x80" using c unfolding sq by (auto simp: clause_break_def)
  with q have "rune_pos ?s 0 ?q" by (intro ascii_rune_pos) auto
  with assms(5) [OF q] c sq FindAllIndex_reaches obtain m where "m \<in> set (FindAllIndex ?s re)" "m_lo m \<le> ?q" by metis
  then have "term_end tx st we re \<le> st + ?q"
    using min_fold_range [of st we "FindAllIndex ?s re"] assms(1) we unfolding term_end_def by fastforce
  with assms(1,2) show False by simp
qed

lemma issuer_match_clause:
  assumes "issuer_match rt t sRe gRe tRe loc = Some ss" and "s \<in> set ss"
    and "sp_Start s \<le> int p" and "int p < sp_End s"
    and "\<And>q s. q < length s \<Longrightarrow> clause_break (s ! q) \<Longrightarrow> rx_rel s tRe q (q + 1)"
  shows "\<not> clause_break (search_text t ! p)"
proof -
  from issuer_match_ok [of rt t sRe gRe tRe loc] assms(1,2) obtain st e where
    s: "sp_Start s = int st" "sp_End s = int e" "st < e" "e \<le> length (Raw t)"
    and e: "e \<le> term_end (search_text t) st (runeOffsetAfter (search_text t) st 300) tRe" by auto
  have "st \<le> runeOffsetAfter (search_text t) st 300" "runeOffsetAfter (search_text t) st 300 \<le> length (search_text t)"
    using walk_bounds [of st "search_text t"] s by (simp_all add: runeOffsetAfter_def)
  moreover have "st \<le> p" "p < term_end (search_text t) st (runeOffsetAfter (search_text t) st 300) tRe"
    using s e assms(3,4) by simp_all
  ultimately show ?thesis using assms(5) by (intro term_end_clause [of st p]) blast+
qed

lemma issuer_single_clause:
  assumes "DetectLower_issuer rt t = Some ss" and "s \<in> set ss" and "sp_Start s \<le> int p" and "int p < sp_End s"
  shows "\<not> clause_break (search_text t ! p)"
proof -
  from concat_opt_mem [OF assms(1) [unfolded DetectLower_issuer_def] assms(2)] obtain loc zs where
    m: "(if LowerOK t then issuer_match rt t issuerStartWordLowerRe issuerGapLowerRe issuerTermLowerRe
        else issuer_match rt t issuerStartWordRe issuerGapRe issuerTermRe) loc = Some zs" "s \<in> set zs" by blast
  show ?thesis
  proof (cases "LowerOK t")
    case True
    with m issuer_match_clause [OF _ _ assms(3,4) issuer_terms(2)] show ?thesis by simp
  next
    case False
    with m issuer_match_clause [OF _ _ assms(3,4) issuer_terms(1)] show ?thesis by simp
  qed
qed

end
