(* ===== verification/Names_Props.thy ===== *)
theory Names_Props
  imports Names
begin

text \<open>
  Properties of the detector of names: the marks of covered tokens and the reported spans agree, every span
  is a run of tokens, and a given name after a name keyword is always reported.
\<close>

subsection \<open>Helpers of the famous-person check\<close>

lemma counts_foldl: "foldl (\<lambda>m x. m(x := m x + 1)) m a y = m y + int (count (mset a) y)"
  by (induction a arbitrary: m) auto

lemma dec_counts_iff: "(\<forall>x. 0 \<le> m x) \<Longrightarrow> dec_counts m b \<longleftrightarrow> (\<forall>x. int (count (mset b) x) \<le> m x)"
proof (induction b arbitrary: m)
  case (Cons y b)
  show ?case
  proof (cases "m y - 1 < 0")
    case True
    then have "\<not> int (count (mset (y # b)) y) \<le> m y" by simp
    with True show ?thesis by (auto simp: Let_def)
  next
    case False
    have "(\<forall>x. int (count (mset b) x) \<le> (m(y := m y - 1)) x) \<longleftrightarrow> (\<forall>x. int (count (mset (y # b)) x) \<le> m x)"
      using Cons.prems by (intro all_cong1) (simp add: fun_upd_apply, linarith?)
    moreover have "\<forall>x. 0 \<le> (m(y := m y - 1)) x" using Cons.prems False by simp
    ultimately have "dec_counts (m(y := m y - 1)) b \<longleftrightarrow> (\<forall>x. int (count (mset (y # b)) x) \<le> m x)"
      using Cons.IH [of "m(y := m y - 1)"] by blast
    with False show ?thesis by (simp only: dec_counts.simps Let_def fun_upd_same if_False)
  qed
qed simp

text \<open>The comparison with counters is equality of multisets.\<close>

lemma sameMultiset_iff: "sameMultiset a b \<longleftrightarrow> mset a = mset b"
proof
  assume "sameMultiset a b"
  then have l: "size (mset a) = size (mset b)" and "dec_counts (foldl (\<lambda>m x. m(x := m x + 1)) (\<lambda>_. 0) a) b"
    by (simp_all add: sameMultiset_def split: if_splits)
  then have "mset b \<subseteq># mset a"
    by (subst (asm) dec_counts_iff) (auto simp: counts_foldl subseteq_mset_def)
  with l show "mset a = mset b" by (metis mset_subset_size subset_mset.le_imp_less_or_eq less_irrefl)
next
  assume "mset a = mset b"
  then show "sameMultiset a b"
    by (subst sameMultiset_def) (auto simp: dec_counts_iff counts_foldl dest: mset_eq_length)
qed

lemma luhn_sum_loop:
  "list_all is_digit s \<Longrightarrow> luhn_sum s dbl (int acc) = int (luhn_loop s dbl acc)"
proof (induction s arbitrary: dbl acc)
  case (Cons c s)
  have "(of_char c :: int) = int (of_char c)" by (rule of_nat_of_char [symmetric])
  then have "digit_val c = int (dig c)" using Cons.prems by (simp add: digit_val_def dig_def is_digit_def)
  then have "luhn_sum (c # s) dbl (int acc) = luhn_sum s (\<not> dbl) (int (acc + luhn_term dbl (dig c)))"
    by (simp add: luhn_term_def Let_def)
  also have "\<dots> = int (luhn_loop s (\<not> dbl) (acc + luhn_term dbl (dig c)))"
    using Cons.prems by (intro Cons.IH) simp
  finally show ?case by simp
qed simp

text \<open>On a string of 13 to 19 digits the Luhn check of the names detector is the validator's.\<close>

lemma luhnValid_luhn:
  assumes "list_all is_digit d" and "13 \<le> length d" and "length d \<le> 19"
  shows "luhnValid d \<longleftrightarrow> luhn d"
proof -
  have "digits d = d" using assms(1) by (simp add: digits_def list_all_iff)
  moreover have "luhn_sum (rev d) False 0 = int (luhn_loop (rev d) False 0)"
    using luhn_sum_loop [of "rev d" False 0] assms(1) by simp
  ultimately show ?thesis using assms(2,3) by (simp add: luhnValid_def luhn_def Let_def) presburger
qed

text \<open>A text that ends in anything but a digit, a space or a dash holds no card number for \<^const>\<open>containsLuhnCard\<close>.\<close>

lemma containsLuhnCard_trailing:
  assumes "\<not> ascii_digit (of_char c)" and "c \<noteq> CHR '' ''" and "c \<noteq> CHR ''-''"
  shows "\<not> containsLuhnCard (s @ [c])"
  using assms by (auto simp: containsLuhnCard_def card_digits_def)

lemma card_before_comma_missed:
  "containsLuhnCard ''4111 1111 1111 1111'' \<and> \<not> containsLuhnCard ''4111 1111 1111 1111,''"
proof
  show "containsLuhnCard ''4111 1111 1111 1111''" by code_simp
  show "\<not> containsLuhnCard ''4111 1111 1111 1111,''"
    using containsLuhnCard_trailing [of "CHR '',''" "''4111 1111 1111 1111''"] by simp
qed

subsection \<open>What a rule reports\<close>

definition cands_ok :: "nameToken list \<Rightarrow> nat list \<Rightarrow> bool" where
  "cands_ok nt cands \<longleftrightarrow> sorted_wrt (<) cands \<and> (\<forall>k \<in> set cands. k < length nt)"

text \<open>
  The span runs from the start of token \<open>a\<close> to the end of token \<open>b\<close>; the tokens the rule marks lie between
  them, and the candidates it skips are among the marked ones.
\<close>

definition good_rule :: "nameToken list \<Rightarrow> nat list \<Rightarrow> nat \<Rightarrow> bool list \<Rightarrow> handled \<Rightarrow> bool" where
  "good_rule nt cands i covered r \<longleftrightarrow>
     (\<forall>adv c s. r = Some (adv, c, s) \<longrightarrow>
        (\<exists>a b ks. a \<le> b \<and> b < length nt \<and> sp_Start s = int (tok_start (nt ! a)) \<and> sp_End s = int (tok_end (nt ! b)) \<and>
           c = cover ks covered \<and> set ks \<subseteq> {a..b} \<and> set (take adv (drop i cands)) \<subseteq> set ks))"

lemma good_rule_None [simp]: "good_rule nt cands i covered None"
  by (simp add: good_rule_def)

lemma good_ruleI:
  "a \<le> b \<Longrightarrow> b < length nt \<Longrightarrow> set ks \<subseteq> {a..b} \<Longrightarrow> set (take adv (drop i cands)) \<subseteq> set ks \<Longrightarrow>
   good_rule nt cands i covered (Some (adv, cover ks covered, name_span (tok_start (nt ! a)) (tok_end (nt ! b)) conf))"
  by (auto simp: good_rule_def name_span_def)

lemma cover_cover [simp]: "cover xs (cover ys covered) = cover (ys @ xs) covered"
  by (simp add: cover_def)

lemma cands_step:
  assumes "cands_ok nt cands" and "i + n < length cands"
  shows "cands ! i + n \<le> cands ! (i + n)" and "cands ! (i + n) < length nt"
proof -
  have "\<forall>n. i + n < length cands \<longrightarrow> cands ! i + n \<le> cands ! (i + n)"
  proof
    fix n show "i + n < length cands \<longrightarrow> cands ! i + n \<le> cands ! (i + n)"
    proof (induction n)
      case (Suc n)
      have "cands ! (i + n) < cands ! (i + Suc n)" if "i + Suc n < length cands"
        using assms(1) that by (auto simp: cands_ok_def intro: sorted_wrt_nth_less)
      with Suc show ?case by auto
    qed simp
  qed
  with assms show "cands ! i + n \<le> cands ! (i + n)" "cands ! (i + n) < length nt" by (auto simp: cands_ok_def)
qed

lemma skipped:
  "i < length cands \<Longrightarrow> set (take 1 (drop i cands)) \<subseteq> {cands ! i}"
  "i + 1 < length cands \<Longrightarrow> set (take 2 (drop i cands)) \<subseteq> {cands ! i, cands ! (i + 1)}"
  "i + 2 < length cands \<Longrightarrow> set (take 3 (drop i cands)) \<subseteq> {cands ! i, cands ! (i + 1), cands ! (i + 2)}"
  by (simp_all add: numeral_2_eq_2 numeral_3_eq_3 Cons_nth_drop_Suc [symmetric])

lemma gap_mids:
  "singleNameGap tx nt a b = Some m \<Longrightarrow> m = a + 1 \<and> b = a + 2"
  "lowercaseNameGap rt nt a b t = Some m \<Longrightarrow> m = a + 1 \<and> b = a + 2"
  "twoNameGap tx nt a b = Some (m1, m2) \<Longrightarrow> m1 = a + 1 \<and> m2 = a + 2 \<and> b = a + 3"
  "unknownNameBefore nt b = Some m \<Longrightarrow> b = m + 1"
  by (auto simp: singleNameGap_def lowercaseNameGap_def twoNameGap_def unknownNameBefore_def Let_def split: if_splits)

lemma ext_starts:
  "maidenSurnameStart tx nt cands i e = Some x \<Longrightarrow> 0 < i \<and> x = tok_start (nt ! (cands ! (i - 1)))"
  "hyphenSurnameStart tx nt ci = Some x \<Longrightarrow> 0 < ci \<and> x = tok_start (nt ! (ci - 1))"
  "trailingPatrMarkerEnd tx nt l = Some x \<Longrightarrow> l + 1 < length nt \<and> x = tok_end (nt ! (l + 1))"
  by (auto simp: maidenSurnameStart_def hyphenSurnameStart_def trailingPatrMarkerEnd_def Let_def split: if_splits)

lemma turkicPatronymic_good:
  assumes "cands_ok nt cands"
  shows "good_rule nt cands i covered (turkicPatronymic rt d nt cands i t covered)"
proof (cases "turkicPatronymic rt d nt cands i t covered")
  case (Some r)
  then obtain m1 m2 where g: "twoNameGap (Raw t) nt (cands ! i) (cands ! (i + 1)) = Some (m1, m2)"
    and i: "i + 1 < length cands"
    and r: "r = (2, cover [cands ! i, m1, m2, cands ! (i + 1)] covered,
      name_span (tok_start (nt ! (cands ! i))) (tok_end (nt ! (cands ! (i + 1)))) (95 / 100))"
    by (auto simp: turkicPatronymic_def Let_def split: if_splits option.splits)
  note c = cands_step [OF assms i] and m = gap_mids(3) [OF g]
  show ?thesis unfolding Some r
    by (rule good_ruleI) (use c m skipped(2) [OF i] in auto)
qed simp

lemma threeTokenName_good:
  assumes ok: "cands_ok nt cands"
  shows "good_rule nt cands i covered (threeTokenName rt d nt cands i t covered)"
proof (cases "threeTokenName rt d nt cands i t covered")
  case (Some r)
  let ?m = "maidenSurnameStart (Raw t) nt cands i (tok_start (nt ! (cands ! (i + 1))))"
  let ?p = "trailingPatrMarkerEnd (Raw t) nt (cands ! (i + 2))"
  let ?ks = "[cands ! i, cands ! (i + 1), cands ! (i + 2)]"
  let ?a = "if ?m = None then cands ! i else cands ! (i - 1)"
  let ?b = "if ?p = None then cands ! (i + 2) else cands ! (i + 2) + 1"
  have i: "i + 2 < length cands"
    using Some by (auto simp: threeTokenName_def threeWhitespaceSeparated_def split: if_splits)
  note c = cands_step [OF ok i] cands_step(1) [OF ok, of i 1] cands_step(1) [OF ok, of "i + 1" 1]
  have a: "0 < i" "cands ! (i - 1) < cands ! i" if "?m \<noteq> None"
    using that ext_starts(1) [of "Raw t" nt cands i] cands_step(1) [OF ok, of "i - 1" 1] i by auto
  have b: "cands ! (i + 2) + 1 < length nt" if "?p \<noteq> None"
    using that ext_starts(3) [of "Raw t" nt "cands ! (i + 2)"] by auto
  from Some obtain conf where
    "r = (3, cover ((if ?m = None then [] else [cands ! (i - 1)]) @ (if ?p = None then [] else [cands ! (i + 2) + 1]) @ ?ks)
       covered, name_span (tok_start (nt ! ?a)) (tok_end (nt ! ?b)) conf)"
    by (auto simp: threeTokenName_def Let_def split: if_splits option.splits dest!: ext_starts)
  then show ?thesis unfolding Some
    by (simp only:) (rule good_ruleI; use a b c i skipped(3) [OF i] in \<open>auto split: if_splits\<close>)
qed simp


lemma twoTokenName_good:
  assumes ok: "cands_ok nt cands"
  shows "good_rule nt cands i covered (twoTokenName rt d nt cands i t covered)"
proof (cases "twoTokenName rt d nt cands i t covered")
  case (Some r)
  let ?h = "hyphenSurnameStart (Raw t) nt (cands ! i)"
  let ?a = "if ?h = None then cands ! i else cands ! i - 1"
  have i: "i + 1 < length cands" using Some by (auto simp: twoTokenName_def split: if_splits)
  note c = cands_step [OF ok i]
  have a: "0 < cands ! i" if "?h \<noteq> None" using that ext_starts(2) [of "Raw t" nt "cands ! i"] by auto
  from Some obtain conf where
    "r = (2, cover ((if ?h = None then [] else [cands ! i - 1]) @ [cands ! i, cands ! (i + 1)]) covered,
       name_span (tok_start (nt ! ?a)) (tok_end (nt ! (cands ! (i + 1)))) conf)"
    by (auto simp: twoTokenName_def Let_def split: if_splits option.splits dest!: ext_starts)
  then show ?thesis unfolding Some
    by (simp only:) (rule good_ruleI; use a c skipped(2) [OF i] in \<open>auto split: if_splits\<close>)
qed simp

lemma emitGapName_good:
  assumes ok: "cands_ok nt cands" and i: "i + 1 < length cands"
    and m: "mid = cands ! i + 1" "cands ! (i + 1) = cands ! i + 2"
  shows "good_rule nt cands i covered (emitGapName rt d nt cands i t covered mid conf)"
proof (cases "emitGapName rt d nt cands i t covered mid conf")
  case (Some r)
  let ?m = "maidenSurnameStart (Raw t) nt cands i (tok_start (nt ! mid))"
  let ?a = "if ?m = None then cands ! i else cands ! (i - 1)"
  note c = cands_step [OF ok i]
  have a: "0 < i" "cands ! (i - 1) < cands ! i" if "?m \<noteq> None"
    using that ext_starts(1) [of "Raw t" nt cands i] cands_step(1) [OF ok, of "i - 1" 1] i by auto
  from Some have
    "r = (2, cover ((if ?m = None then [] else [cands ! (i - 1)]) @ [cands ! i, mid, cands ! (i + 1)]) covered,
       name_span (tok_start (nt ! ?a)) (tok_end (nt ! (cands ! (i + 1)))) conf)"
    by (auto simp: emitGapName_def Let_def split: if_splits option.splits dest!: ext_starts)
  then show ?thesis unfolding Some
    by (simp only:) (rule good_ruleI; use a c m skipped(2) [OF i] in \<open>auto split: if_splits\<close>)
qed simp

lemma surnameGapName_good:
  assumes "cands_ok nt cands"
  shows "good_rule nt cands i covered (surnameGapName rt d nt cands i t covered)"
  unfolding surnameGapName_def
  by (auto split: option.split intro!: emitGapName_good [OF assms] dest!: gap_mids(1,2))

lemma patrSurnameName_good:
  assumes "cands_ok nt cands"
  shows "good_rule nt cands i covered (patrSurnameName rt d nt cands i t covered)"
proof (cases "patrSurnameName rt d nt cands i t covered")
  case (Some r)
  then obtain m where g: "unknownNameBefore nt (cands ! i) = Some m" and i: "i + 1 < length cands"
    and r: "r = (2, cover [m, cands ! i, cands ! (i + 1)] covered,
      name_span (tok_start (nt ! m)) (tok_end (nt ! (cands ! (i + 1)))) (9 / 10))"
    by (auto simp: patrSurnameName_def Let_def split: if_splits option.splits)
  note c = cands_step [OF assms i] and m = gap_mids(4) [OF g]
  show ?thesis unfolding Some r by (rule good_ruleI) (use c m skipped(2) [OF i] in auto)
qed simp

lemma greetingNamePatr_good:
  assumes "cands_ok nt cands" and i: "i < length cands"
  shows "good_rule nt cands i covered (greetingNamePatr rt d nt cands i t covered)"
proof (cases "greetingNamePatr rt d nt cands i t covered")
  case (Some r)
  then obtain m where g: "unknownNameBefore nt (cands ! i) = Some m"
    and r: "r = (1, cover [m, cands ! i] covered,
      name_span (tok_start (nt ! m)) (tok_end (nt ! (cands ! i))) (85 / 100))"
    by (auto simp: greetingNamePatr_def Let_def split: if_splits option.splits)
  note c = cands_step(2) [OF assms(1), of i 0] and m = gap_mids(4) [OF g]
  show ?thesis unfolding Some r by (rule good_ruleI) (use c m i skipped(1) [OF i] in auto)
qed simp

lemma surnameUnknownName_good:
  assumes "cands_ok nt cands" and i: "i < length cands"
  shows "good_rule nt cands i covered (surnameUnknownName rt d nt cands i t covered)"
proof (cases "surnameUnknownName rt d nt cands i t covered")
  case (Some r)
  then have n: "cands ! i + 1 < length nt"
    and r: "r = (1, cover [cands ! i, cands ! i + 1] covered,
      name_span (tok_start (nt ! (cands ! i))) (tok_end (nt ! (cands ! i + 1))) (9 / 10))"
    by (auto simp: surnameUnknownName_def Let_def split: if_splits)
  show ?thesis unfolding Some r by (rule good_ruleI) (use n skipped(1) [OF i] in auto)
qed simp

lemma singleNameWithContext_good:
  assumes "cands_ok nt cands" and i: "i < length cands"
  shows "good_rule nt cands i covered (singleNameWithContext rt nt cands i t covered)"
proof (cases "singleNameWithContext rt nt cands i t covered")
  case (Some r)
  then obtain conf where r: "r = (1, cover [cands ! i] covered,
      name_span (tok_start (nt ! (cands ! i))) (tok_end (nt ! (cands ! i))) conf)"
    by (auto simp: singleNameWithContext_def Let_def split: if_splits)
  show ?thesis unfolding Some r
    by (rule good_ruleI) (use cands_step(2) [OF assms(1), of i 0] i skipped(1) [OF i] in auto)
qed simp

lemma candidate_rules_good:
  assumes "cands_ok nt cands" and "i < length cands"
  shows "good_rule nt cands i covered (candidate_rules rt d nt cands i t covered)"
  unfolding candidate_rules_def
  by (rule first_some_all)
     (simp_all add: turkicPatronymic_good threeTokenName_good twoTokenName_good surnameGapName_good
       patrSurnameName_good greetingNamePatr_good surnameUnknownName_good singleNameWithContext_good assms)

subsection \<open>The marks and the spans\<close>

definition inside :: "Span \<Rightarrow> 'a token_scheme \<Rightarrow> bool" where
  "inside s tok \<longleftrightarrow> sp_Start s \<le> int (tok_start tok) \<and> int (tok_end tok) \<le> sp_End s"

definition token_run :: "'a token_scheme list \<Rightarrow> Span \<Rightarrow> bool" where
  "token_run toks s \<longleftrightarrow>
     (\<exists>a b. a \<le> b \<and> b < length toks \<and> sp_Start s = int (tok_start (toks ! a)) \<and> sp_End s = int (tok_end (toks ! b)))"

definition toks_ordered :: "'a token_scheme list \<Rightarrow> bool" where
  "toks_ordered toks \<longleftrightarrow>
     sorted_wrt (\<lambda>a b. tok_end a \<le> tok_start b) toks \<and> (\<forall>tok \<in> set toks. tok_start tok < tok_end tok)"

lemma toks_ordered_mono:
  assumes "toks_ordered toks" and "a \<le> b" and "b < length toks"
  shows "tok_start (toks ! a) \<le> tok_start (toks ! b)" and "tok_end (toks ! a) \<le> tok_end (toks ! b)"
proof -
  have m: "tok_start (toks ! k) < tok_end (toks ! k)" if "k < length toks" for k
    using assms(1) that by (simp add: toks_ordered_def)
  have "a = b \<or> tok_end (toks ! a) \<le> tok_start (toks ! b)"
    using assms sorted_wrt_nth_less [of "\<lambda>a b. tok_end a \<le> tok_start b" toks a b]
    by (fastforce simp: toks_ordered_def le_less)
  with m [of a] m [of b] assms(2,3)
  show "tok_start (toks ! a) \<le> tok_start (toks ! b)" and "tok_end (toks ! a) \<le> tok_end (toks ! b)" by auto
qed

lemma cover_nth: "k < length covered \<Longrightarrow> cover ks covered ! k \<longleftrightarrow> covered ! k \<or> k \<in> set ks"
proof (induction ks arbitrary: covered)
  case (Cons a ks)
  have "cover (a # ks) covered = cover ks (covered[a := True])" by (simp add: cover_def)
  with Cons show ?case by (cases "a = k") auto
qed (simp add: cover_def)

lemma anchored_handled:
  assumes "nt_isName (nt ! (cands ! i))" and "hasLeftContext rt t (tok_start (nt ! (cands ! i))) nameContext 30"
  shows "candidate_rules rt d nt cands i t covered \<noteq> None"
proof -
  have f: "first_some xs = None \<Longrightarrow> x \<in> set xs \<Longrightarrow> x = None" for xs and x :: handled
    by (induction xs) (auto simp: first_some.simps split: option.splits)
  have "singleNameWithContext rt nt cands i t covered \<noteq> None"
    using assms by (simp add: singleNameWithContext_def Let_def)
  then show ?thesis unfolding candidate_rules_def using f by fastforce
qed

text \<open>
  What one step and the loop keep: the number of marks, runs of tokens, marks only where a span is, and
  marks on every candidate that is a given name after a name keyword.
\<close>

definition marks_ok ::
  "runtime \<Rightarrow> nameToken list \<Rightarrow> nat list \<Rightarrow> Text \<Rightarrow> nat set \<Rightarrow> bool list \<Rightarrow> bool list \<Rightarrow> Span list \<Rightarrow> bool" where
  "marks_ok rt nt cands t js covered c ss \<longleftrightarrow>
     length c = length covered \<and> (\<forall>s \<in> set ss. token_run nt s) \<and>
     (\<forall>k < length nt. (covered ! k \<longrightarrow> c ! k) \<and> (c ! k \<longrightarrow> covered ! k \<or> (\<exists>s \<in> set ss. inside s (nt ! k)))) \<and>
     (\<forall>j \<in> js. j < length cands \<longrightarrow> nt_isName (nt ! (cands ! j)) \<longrightarrow>
        hasLeftContext rt t (tok_start (nt ! (cands ! j))) nameContext 30 \<longrightarrow> c ! (cands ! j))"

lemma marks_okD:
  assumes "marks_ok rt nt cands t js covered c ss"
  shows "s \<in> set ss \<Longrightarrow> token_run nt s"
    and "k < length nt \<Longrightarrow> c ! k \<Longrightarrow> \<not> covered ! k \<Longrightarrow> \<exists>s \<in> set ss. inside s (nt ! k)"
    and "j \<in> js \<Longrightarrow> j < length cands \<Longrightarrow> nt_isName (nt ! (cands ! j)) \<Longrightarrow>
      hasLeftContext rt t (tok_start (nt ! (cands ! j))) nameContext 30 \<Longrightarrow> c ! (cands ! j)"
  using assms unfolding marks_ok_def by blast+

lemma processCandidate_marks:
  assumes ok: "cands_ok nt cands" and i: "i < length cands" and l: "length covered = length nt"
    and o: "toks_ordered nt" and p: "processCandidate rt d nt cands i t covered = (adv, c, ss)"
  shows "marks_ok rt nt cands t {i..<i + adv} covered c ss"
proof (cases "covered ! (cands ! i)")
  case True
  with p have "adv = 1" "c = covered" "ss = []" by (auto simp: processCandidate_def)
  with True show ?thesis by (simp add: marks_ok_def)
next
  case False
  show ?thesis
  proof (cases "candidate_rules rt d nt cands i t covered")
    case None
    with False p have "adv = 1" "c = covered" "ss = []" by (auto simp: processCandidate_def)
    with anchored_handled [of nt cands i rt t d covered] None show ?thesis by (auto simp: marks_ok_def)
  next
    case (Some r)
    then obtain s where r: "r = (adv, c, s)" and ss: "ss = [s]"
      using False p by (auto simp: processCandidate_def split: option.splits prod.splits)
    from candidate_rules_good [OF ok i, of covered rt d t] obtain a b ks where ab: "a \<le> b" "b < length nt"
      and s: "sp_Start s = int (tok_start (nt ! a))" "sp_End s = int (tok_end (nt ! b))"
      and c: "c = cover ks covered" "set ks \<subseteq> {a..b}" "set (take adv (drop i cands)) \<subseteq> set ks"
      unfolding Some r good_rule_def by blast
    have "inside s (nt ! k)" if "k \<in> set ks" for k
      using that c(2) ab s toks_ordered_mono(1) [OF o, of a k] toks_ordered_mono(2) [OF o, of k b]
      by (auto simp: inside_def)
    moreover have "cands ! j \<in> set ks" if "j \<in> {i..<i + adv}" "j < length cands" for j
    proof -
      have "cands ! j = take adv (drop i cands) ! (j - i)" "j - i < length (take adv (drop i cands))"
        using that by auto
      then show ?thesis using c(3) by (metis nth_mem subsetD)
    qed
    moreover have "cands ! j < length nt" if "j < length cands" for j using that ok by (simp add: cands_ok_def)
    ultimately show ?thesis using ab s l by (auto simp: marks_ok_def ss c(1) cover_nth token_run_def)
  qed
qed

lemma names_loop_marks:
  assumes "cands_ok nt cands" and "toks_ordered nt"
  shows "length covered = length nt \<Longrightarrow> names_loop rt d nt cands t i covered = (ss, c) \<Longrightarrow>
    marks_ok rt nt cands t {i..} covered c ss"
  using assms
proof (induction rt d nt cands t i covered arbitrary: ss c rule: names_loop.induct)
  case (1 rt d nt cands t i covered)
  show ?case
  proof (cases "i < length cands")
    case True
    obtain adv c1 s1 where p: "processCandidate rt d nt cands i t covered = (adv, c1, s1)" by (rule prod_cases3)
    obtain s2 c2 where q: "names_loop rt d nt cands t (i + adv) c1 = (s2, c2)" by fastforce
    have e: "ss = s1 @ s2" "c = c2" using "1.prems"(2) True by (auto simp: names_loop.simps [of rt d nt cands t i] p q)
    note m1 = processCandidate_marks [OF "1.prems"(3) True "1.prems"(1,4) p]
    then have l: "length c1 = length nt" using "1.prems"(1) by (simp add: marks_ok_def)
    note m2 = "1.IH" [OF True p [symmetric] refl refl l q "1.prems"(3,4)]
    have "j \<in> {i..<i + adv} \<or> j \<in> {i + adv..}" if "j \<in> {i..}" for j using that by auto
    moreover have "cands ! j < length nt" if "j < length cands" for j using that "1.prems"(3) by (simp add: cands_ok_def)
    ultimately show ?thesis
      using m1 m2 unfolding marks_ok_def e by (auto 0 3)
  next
    case False
    with "1.prems" have "ss = []" "c = covered" by (auto simp: names_loop.simps)
    with False show ?thesis by (auto simp: marks_ok_def)
  qed
qed

subsection \<open>The passes over Latin and foreign words\<close>

lemma token_runI:
  "a \<le> b \<Longrightarrow> b < length toks \<Longrightarrow> token_run toks (name_span (tok_start (toks ! a)) (tok_end (toks ! b)) conf)"
  unfolding token_run_def name_span_def by (intro exI [of _ a] exI [of _ b]) simp

lemma emitLatinSpans_runs:
  "emitLatinSpans rt t toks cap k covered = (ss, c) \<Longrightarrow> sorted_wrt (<) cap \<Longrightarrow> \<forall>x \<in> set cap. x < length toks \<Longrightarrow>
   s \<in> set ss \<Longrightarrow> token_run toks s"
proof (induction rt t toks cap k covered arbitrary: ss c rule: emitLatinSpans.induct)
  case (1 rt t toks cap k covered)
  have ord: "cap ! k < cap ! (k + n)" "cap ! (k + n) < length toks" if "k + n < length cap" "0 < n" for n
    using that "1.prems"(2,3) sorted_wrt_nth_less [of "(<)" cap k "k + n"] by auto
  have run: "token_run toks (name_span (tok_start (toks ! (cap ! k))) (tok_end (toks ! (cap ! (k + n)))) conf)"
    if "k + n < length cap" "0 < n" for n conf
    using ord [OF that] by (intro token_runI) simp_all
  show ?case
    using "1.prems"(1,4) run [of 1] run [of 2] "1.IH" "1.prems"(2,3)
    by (subst (asm) emitLatinSpans.simps) (auto simp: Let_def split: if_splits prod.splits)
qed

lemma detectLatinNames_runs:
  "detectLatinNames rt t toks i covered = (ss, c) \<Longrightarrow> s \<in> set ss \<Longrightarrow> token_run toks s"
proof (induction rt t toks i covered arbitrary: ss c rule: detectLatinNames.induct)
  case (1 rt t toks i covered)
  show ?case
  proof (cases "i < length toks \<and> \<not> (covered ! i \<or> \<not> isLatinToken (toks ! i))")
    case True
    let ?j = "latin_run toks i" and ?cap = "collectCapitalized toks i (latin_run toks i) covered"
    obtain s1 c1 where p: "emitLatinSpans rt t toks ?cap 0 covered = (s1, c1)" by fastforce
    obtain s2 c2 where q: "detectLatinNames rt t toks ?j c1 = (s2, c2)" by fastforce
    have "sorted_wrt (<) ?cap" "\<forall>x \<in> set ?cap. x < length toks"
      using latin_run_bounds [of i toks] True
      by (auto simp: collectCapitalized_def intro: sorted_wrt_filter)
    moreover have "ss = s1 @ s2" using "1.prems"(1) True by (subst (asm) detectLatinNames.simps) (auto simp: p q Let_def)
    ultimately show ?thesis
      using "1.prems"(2) emitLatinSpans_runs [OF p] "1.IH"(2) [OF _ _ refl p [symmetric] refl q] True by auto
  next
    case False
    with 1 show ?thesis by (subst (asm) (3) detectLatinNames.simps) (auto split: if_splits)
  qed
qed

lemma detectLowercaseLatinNames_runs:
  "detectLowercaseLatinNames rt t toks i covered = (ss, c) \<Longrightarrow> s \<in> set ss \<Longrightarrow> token_run toks s"
proof (induction rt t toks i covered arbitrary: ss c rule: detectLowercaseLatinNames.induct)
  case (1 rt t toks i covered)
  let ?j = "lower_run (Raw t) toks covered i 3"
  have "token_run toks (name_span (tok_start (toks ! i)) (tok_end (toks ! ?j)) conf)" if "i < length toks" for conf
    using lower_run_bounds [OF that, of "Raw t" covered 3] by (intro token_runI) simp_all
  with 1 show ?case
    by (subst (asm) (4) detectLowercaseLatinNames.simps) (auto simp: Let_def split: if_splits prod.splits)
qed

lemma detectForeignNames_runs:
  "detectForeignNames rt t nt i covered = (ss, c) \<Longrightarrow> s \<in> set ss \<Longrightarrow> token_run nt s"
proof (induction rt t nt i covered arbitrary: ss c rule: detectForeignNames.induct)
  case (1 rt t nt i covered)
  let ?j = "foreignNameRunEnd (Raw t) nt covered i"
  have "token_run nt (name_span (tok_start (nt ! i)) (tok_end (nt ! ?j)) conf)" if "i < length nt" for conf
    using foreignNameRunEnd_bounds [OF that, of "Raw t" covered] by (intro token_runI) simp_all
  with 1 show ?case
    by (subst (asm) (4) detectForeignNames.simps) (auto simp: Let_def split: if_splits prod.splits)
qed

subsection \<open>The detector\<close>

lemma name_token_simps [simp]:
  "tok_start (name_token rt d t tok) = tok_start tok" "tok_end (name_token rt d t tok) = tok_end tok"
  "tok_text (name_token rt d t tok) = tok_text tok"
  by (simp_all add: name_token_def Let_def token.defs nameToken.defs split: prod.split)

lemma tokenize_toks_ordered: "toks_ordered (tokenize tx)"
  using tokenize_ordered tokenize_ok by (auto simp: toks_ordered_def token_ok_def)

lemma name_tokens_ordered: "toks_ordered (map (name_token rt d t) (tokenize tx))"
  using tokenize_toks_ordered [of tx] by (auto simp: toks_ordered_def sorted_wrt_map)

lemma token_run_map [simp]: "token_run (map (name_token rt d t) toks) s \<longleftrightarrow> token_run toks s"
  unfolding token_run_def by (intro ex_cong1) auto

lemma name_cands_ok: "cands_ok nt (filter P [0..<length nt])"
  by (auto simp: cands_ok_def intro: sorted_wrt_filter)

lemma DetectLower_names_passes:
  obtains s1 c1 s2 c2 s3 c3 s4 c4 where
    "names_loop rt d (map (name_token rt d t) (tokenize (Raw t)))
       (filter (\<lambda>i. isNameLike (map (name_token rt d t) (tokenize (Raw t)) ! i)) [0..<length (tokenize (Raw t))]) t 0
       (replicate (length (tokenize (Raw t))) False) = (s1, c1)"
    "detectLatinNames rt t (tokenize (Raw t)) 0 c1 = (s2, c2)"
    "detectLowercaseLatinNames rt t (tokenize (Raw t)) 0 c2 = (s3, c3)"
    "detectForeignNames rt t (map (name_token rt d t) (tokenize (Raw t))) 0 c3 = (s4, c4)"
    "DetectLower_names rt d t = s1 @ s2 @ s3 @ s4"
  by (force simp: DetectLower_names_def Let_def split: prod.splits)

lemma names_loop_spans:
  assumes "names_loop rt d nt (filter P [0..<length nt]) t 0 (replicate (length nt) False) = (ss, c)" "toks_ordered nt"
  shows "marks_ok rt nt (filter P [0..<length nt]) t UNIV (replicate (length nt) False) c ss"
  using names_loop_marks [OF name_cands_ok assms(2) _ assms(1)] by (simp add: marks_ok_def)

lemma DetectLower_names_runs:
  assumes "s \<in> set (DetectLower_names rt d t)"
  shows "token_run (tokenize (Raw t)) s"
proof -
  let ?toks = "tokenize (Raw t)" and ?nt = "map (name_token rt d t) (tokenize (Raw t))"
  obtain s1 c1 s2 c2 s3 c3 s4 c4 where
    p: "names_loop rt d ?nt (filter (\<lambda>i. isNameLike (?nt ! i)) [0..<length ?toks]) t 0 (replicate (length ?toks) False) = (s1, c1)"
    "detectLatinNames rt t ?toks 0 c1 = (s2, c2)" "detectLowercaseLatinNames rt t ?toks 0 c2 = (s3, c3)"
    "detectForeignNames rt t ?nt 0 c3 = (s4, c4)" and d: "DetectLower_names rt d t = s1 @ s2 @ s3 @ s4"
    by (rule DetectLower_names_passes)
  have "marks_ok rt ?nt (filter (\<lambda>i. isNameLike (?nt ! i)) [0..<length ?nt]) t UNIV (replicate (length ?nt) False) c1 s1"
    by (rule names_loop_spans) (use p(1) name_tokens_ordered in simp_all)
  note m = marks_okD(1) [OF this]
  consider "s \<in> set s1" | "s \<in> set s2" | "s \<in> set s3" | "s \<in> set s4" using assms d by auto
  then show ?thesis
    using m detectLatinNames_runs [OF p(2)] detectLowercaseLatinNames_runs [OF p(3)] detectForeignNames_runs [OF p(4)]
    by cases auto
qed

lemma token_run_span_wf:
  assumes "token_run (tokenize tx) s"
  shows "span_wf (length tx) s"
proof -
  obtain a b where ab: "a \<le> b" "b < length (tokenize tx)" "sp_Start s = int (tok_start (tokenize tx ! a))"
    "sp_End s = int (tok_end (tokenize tx ! b))" using assms by (auto simp: token_run_def)
  have "token_ok tx (tokenize tx ! b)" using ab(2) by (intro tokenize_ok) simp
  with ab toks_ordered_mono(1) [OF tokenize_toks_ordered ab(1,2)] show ?thesis by (auto simp: span_wf_def token_ok_def)
qed

interpretation nm: text_detector "\<lambda>t. Some (DetectLower_names rt d t)" for rt d
  by unfold_locales (auto intro: token_run_span_wf DetectLower_names_runs)

subsection \<open>Claims\<close>

text \<open>
  C28. A given name of the dictionary that follows a name keyword (a role such as client or applicant, a form
  label) within 30 runes is always inside a reported span: no rule skips it, and the suppression of famous
  persons does not apply to it.
\<close>

theorem names_context_recall:
  assumes "tok \<in> set (tokenize (Raw t))" and "nt_isName (name_token rt d t tok)"
    and "hasLeftContext rt t (tok_start tok) nameContext 30"
  shows "\<exists>s \<in> set (DetectLower_names rt d t). inside s tok"
proof -
  let ?toks = "tokenize (Raw t)" and ?nt = "map (name_token rt d t) (tokenize (Raw t))"
  let ?cands = "filter (\<lambda>i. isNameLike (?nt ! i)) [0..<length ?nt]"
  obtain s1 c1 s2 c2 s3 c3 s4 c4 where
    p: "names_loop rt d ?nt (filter (\<lambda>i. isNameLike (?nt ! i)) [0..<length ?toks]) t 0 (replicate (length ?toks) False) = (s1, c1)"
    "detectLatinNames rt t ?toks 0 c1 = (s2, c2)" "detectLowercaseLatinNames rt t ?toks 0 c2 = (s3, c3)"
    "detectForeignNames rt t ?nt 0 c3 = (s4, c4)" and d: "DetectLower_names rt d t = s1 @ s2 @ s3 @ s4"
    by (rule DetectLower_names_passes)
  have m: "marks_ok rt ?nt ?cands t UNIV (replicate (length ?nt) False) c1 s1"
    by (rule names_loop_spans) (use p(1) name_tokens_ordered in simp_all)
  obtain k where k: "k < length ?toks" "?toks ! k = tok" using assms(1) by (auto simp: in_set_conv_nth)
  then have nk: "?nt ! k = name_token rt d t tok" by simp
  have "isNameLike (?nt ! k)" using assms(2) nk by (simp add: isNameLike_def isCoreName_def isNameOrSurname_def)
  then have "k \<in> set ?cands" using k by simp
  then obtain j where j: "j < length ?cands" "?cands ! j = k" by (auto simp only: in_set_conv_nth)
  have "c1 ! k" using marks_okD(3) [OF m UNIV_I j(1)] assms(2,3) unfolding j(2) nk by simp
  then have "\<exists>s \<in> set s1. inside s (?nt ! k)" using k by (intro marks_okD(2) [OF m]) simp_all
  then show ?thesis using d nk by (auto simp: inside_def)
qed

end
