(* ===== verification/Default.thy ===== *)
theory Default
  imports Cardholder Address_Props Issuer Names_Props
begin

text \<open>
  The default detectors (\<^verbatim>\<open>internal/pii/detectors/default.go\<close>) and what the pipeline makes of them. The rules file,
  the compiler of its patterns and the dictionaries are arguments. A detector that searches the lower-case text
  is only safe when that text has the length of the original, which is the hypothesis on the text here.
\<close>

subsection \<open>The list\<close>

definition DefaultRules :: "runtime \<Rightarrow> (string \<Rightarrow> regexp option) \<Rightarrow> yaml_rule list \<Rightarrow> rule_error + Rule list" where
  "DefaultRules rt rxc file = LoadRules rt rxc file"

text \<open>\<^term>\<open>None\<close> is the panic on rules that do not load.\<close>

definition Default ::
  "runtime \<Rightarrow> (string \<Rightarrow> regexp option) \<Rightarrow> yaml_rule list \<Rightarrow> namesDict \<Rightarrow> citiesDict \<Rightarrow> detector list option" where
  "Default rt rxc file d cd =
     (case DefaultRules rt rxc file of
        Inl _ \<Rightarrow> None
      | Inr rules \<Rightarrow>
          Some [NewRegexDetector rt rules,
                NewDateWordsDetector rt,
                NewNamesDetector rt d,
                NewCardholderDetector rt,
                NewAddressDetector rt cd,
                NewBirthplaceDetector rt (cd_cities cd) d,
                NewCitizenshipDetector rt,
                NewIssuerDetector rt])"

text \<open>One run of each detector on a text, \<^term>\<open>None\<close> for a panic.\<close>

definition default_runs ::
  "runtime \<Rightarrow> Rule list \<Rightarrow> namesDict \<Rightarrow> citiesDict \<Rightarrow> Text \<Rightarrow> Span list option list" where
  "default_runs rt rules d cd t =
     [DetectLower_regex rt rules t, DetectLower_dw rt t, Some (DetectLower_names rt d t), Some (DetectLower_ch rt t),
      DetectLower_addr rt cd t, DetectLower_bp rt (cd_cities cd) d t, DetectLower_cz rt t, DetectLower_issuer rt t]"

definition run_ok :: "nat \<Rightarrow> Span list option \<Rightarrow> bool" where
  "run_ok n r \<longleftrightarrow> (case r of None \<Rightarrow> False | Some ss \<Rightarrow> list_all (span_in n) ss)"

subsection \<open>Every detector returns ranges of the text\<close>

lemma run_okI: "\<exists>ss. r = Some ss \<and> (\<forall>s \<in> set ss. span_in n s) \<Longrightarrow> run_ok n r"
  by (auto simp: run_ok_def list_all_iff)

lemma text_detector_ok: "text_detector f \<Longrightarrow> run_ok (length (Raw t)) (f t)"
  by (rule run_okI) (meson span_wf_in text_detector.in_range text_detector.returns)

lemma regex_run_ok: "list_all rule_ok rules \<Longrightarrow> run_ok (length (Raw t)) (DetectLower_regex rt rules t)"
proof (rule run_okI)
  assume ok: "list_all rule_ok rules"
  then obtain ss where ss: "DetectLower_regex rt rules t = Some ss" using DetectLower_total by blast
  have "span_in (length (Raw t)) s" if "s \<in> set ss" for s
    using DetectLower_sound [OF ok ss that] by (auto simp: span_justified_def span_in_def Let_def)
  with ss show "\<exists>ss. DetectLower_regex rt rules t = Some ss \<and> (\<forall>s \<in> set ss. span_in (length (Raw t)) s)" by blast
qed

lemma addr_run_ok: "go_runtime rt \<Longrightarrow> LowerOK t \<Longrightarrow> run_ok (length (Raw t)) (DetectLower_addr rt cd t)"
proof (rule run_okI)
  assume rt: "go_runtime rt" and l: "LowerOK t"
  obtain comps where "findComponents rt cd t = Some comps" using findComponents_total [OF l] by blast
  then obtain ss where ss: "DetectLower_addr rt cd t = Some ss" by (simp add: DetectLower_addr_def)
  with DetectLower_addr_spans(2) [OF rt ss]
  show "\<exists>ss. DetectLower_addr rt cd t = Some ss \<and> (\<forall>s \<in> set ss. span_in (length (Raw t)) s)"
    by (auto simp: span_in_def)
qed

lemma bp_run_ok: "run_ok (length (Raw t)) (DetectLower_bp rt cities d t)"
  by (rule run_okI) (use DetectLower_bp_ok [of rt cities d t] in \<open>auto simp: span_in_def\<close>)

lemma cz_run_ok: "LowerOK t \<Longrightarrow> run_ok (length (Raw t)) (DetectLower_cz rt t)"
  by (rule run_okI) (use DetectLower_cz_ok [of t rt] span_wf_in in blast)

lemma default_runs_ok:
  assumes "go_runtime rt" and "list_all rule_ok rules" and "LowerOK t"
  shows "list_all (run_ok (length (Raw t))) (default_runs rt rules d cd t)"
  using regex_run_ok [OF assms(2), of t rt] text_detector_ok [OF dw.text_detector_axioms, of t rt]
    text_detector_ok [OF nm.text_detector_axioms, of t rt d] text_detector_ok [OF ch.text_detector_axioms, of t rt]
    addr_run_ok [OF assms(1,3), of cd] bp_run_ok [of t rt "cd_cities cd" d] cz_run_ok [OF assms(3), of rt]
    text_detector_ok [OF issuer.text_detector_axioms, of t rt]
  by (simp add: default_runs_def)

lemma detector_of_run:
  "run_ok n (f t) \<Longrightarrow> s \<in> set (detect_with (detector_of rt name cats f) t) \<Longrightarrow> span_in n s"
  by (auto simp: run_ok_def detect_with_def detector_of_def Let_def list_all_iff split: option.splits)

lemma regex_detector_run:
  "run_ok n (DetectLower_regex rt rules t) \<Longrightarrow> s \<in> set (detect_with (NewRegexDetector rt rules) t) \<Longrightarrow> span_in n s"
  by (auto simp: run_ok_def detect_with_def NewRegexDetector_def Let_def list_all_iff split: option.splits)

lemma default_in_range:
  assumes "list_all (run_ok (length (Raw t))) (default_runs rt rules d cd t)"
    and "DefaultRules rt rxc file = Inr rules" and "Default rt rxc file d cd = Some ds"
    and "det \<in> set ds" and "s \<in> set (detect_with det t)"
  shows "span_in (length (Raw t)) s"
proof -
  let ?n = "length (Raw t)"
  have ok: "run_ok ?n (DetectLower_regex rt rules t)" "run_ok ?n (DetectLower_dw rt t)"
    "run_ok ?n (Some (DetectLower_names rt d t))" "run_ok ?n (Some (DetectLower_ch rt t))"
    "run_ok ?n (DetectLower_addr rt cd t)" "run_ok ?n (DetectLower_bp rt (cd_cities cd) d t)"
    "run_ok ?n (DetectLower_cz rt t)" "run_ok ?n (DetectLower_issuer rt t)"
    using assms(1) by (simp_all add: default_runs_def)
  from assms(2,3) have "ds = [NewRegexDetector rt rules, NewDateWordsDetector rt, NewNamesDetector rt d,
      NewCardholderDetector rt, NewAddressDetector rt cd, NewBirthplaceDetector rt (cd_cities cd) d,
      NewCitizenshipDetector rt, NewIssuerDetector rt]" by (simp add: Default_def)
  with assms(4) consider "det = NewRegexDetector rt rules" | "det = NewDateWordsDetector rt" | "det = NewNamesDetector rt d"
    | "det = NewCardholderDetector rt" | "det = NewAddressDetector rt cd"
    | "det = NewBirthplaceDetector rt (cd_cities cd) d" | "det = NewCitizenshipDetector rt" | "det = NewIssuerDetector rt"
    by auto
  then show ?thesis
    using assms(5) regex_detector_run [OF ok(1)] detector_of_run [where f = "DetectLower_dw rt", OF ok(2)]
      detector_of_run [where f = "\<lambda>t. Some (DetectLower_names rt d t)", OF ok(3)]
      detector_of_run [where f = "\<lambda>t. Some (DetectLower_ch rt t)", OF ok(4)]
      detector_of_run [where f = "DetectLower_addr rt cd", OF ok(5)]
      detector_of_run [where f = "DetectLower_bp rt (cd_cities cd) d", OF ok(6)]
      detector_of_run [where f = "DetectLower_cz rt", OF ok(7)]
      detector_of_run [where f = "DetectLower_issuer rt", OF ok(8)]
    unfolding NewDateWordsDetector_def NewNamesDetector_def NewCardholderDetector_def NewAddressDetector_def
      NewBirthplaceDetector_def NewCitizenshipDetector_def NewIssuerDetector_def
    by cases metis+
qed

subsection \<open>Texts whose lower-case form has the same width\<close>

text \<open>Every rune has a lower-case form of the same width: English or Russian text, for example.\<close>

definition same_width :: "runtime \<Rightarrow> string \<Rightarrow> bool" where
  "same_width rt tx \<longleftrightarrow>
     valid_utf8 tx \<and> list_all (\<lambda>r. length (EncodeRune (uc_lower rt r)) = length (EncodeRune r)) (runes tx)"

lemma encode_lower_length:
  "list_all (\<lambda>r. length (EncodeRune (f r)) = length (EncodeRune r)) rs \<Longrightarrow>
     length (encode_runes (map f rs)) = length (encode_runes rs)"
  by (induction rs) simp_all

lemma same_width_length: "same_width rt tx \<Longrightarrow> length (ToLower rt tx) = length tx"
  using encode_lower_length [of "uc_lower rt" "runes tx"] by (simp add: same_width_def ToLower_def valid_utf8_def)

text \<open>Then a byte of the lower-case text stands where it stood: a line break or a semicolon of the one is one of the other.\<close>

lemma encode_lower_ascii:
  assumes "go_runtime rt" and "(of_char c :: nat) < 0x80" and "\<not> ascii_upper (of_char c)"
  shows "list_all (\<lambda>r. length (EncodeRune (uc_lower rt r)) = length (EncodeRune r)) rs \<Longrightarrow>
     k < length (encode_runes rs) \<Longrightarrow> encode_runes rs ! k = c \<Longrightarrow> encode_runes (map (uc_lower rt) rs) ! k = c"
proof (induction rs arbitrary: k)
  case (Cons r rs)
  show ?case
  proof (cases "k < length (EncodeRune r)")
    case True
    then have "c \<in> set (EncodeRune r)" using Cons.prems(3) by (auto simp: nth_append)
    then have "r = of_char c" using EncodeRune_ascii_byte assms(2) by blast
    then have "uc_lower rt r = r" using go_runtime.lower_ascii [OF assms(1), of r] assms(2,3) by simp
    with True Cons.prems show ?thesis by (simp add: nth_append)
  next
    case False
    with Cons show ?thesis by (simp add: nth_append)
  qed
qed simp

lemma same_width_break:
  assumes "go_runtime rt" and "same_width rt tx" and "k < length tx" and "clause_break (tx ! k)"
  shows "clause_break (ToLower rt tx ! k)"
proof -
  have "(of_char (tx ! k) :: nat) < 0x80 \<and> \<not> ascii_upper (of_char (tx ! k))"
    using assms(4) by (auto simp: clause_break_def)
  with assms(2,3) have "ToLower rt tx ! k = tx ! k"
    using encode_lower_ascii [OF assms(1), of "tx ! k" "runes tx" k] by (simp add: same_width_def ToLower_def valid_utf8_def)
  with assms(4) show ?thesis by simp
qed

subsection \<open>Claims\<close>

text \<open>
  C12. The default detectors together: with rules that load and no empty keyword among them, and on a text whose
  lower-case form has the same length, none of the eight detectors panics or loops, each reports ranges of the
  text, and a run of the pipeline returns spans that are ranges of the text, sorted and free of overlaps. The
  hypothesis on \<open>rxc\<close> says that the groups of a compiled pattern are numbered from left to right and do not stand
  under a repetition.
\<close>

theorem default_pipeline_spans:
  assumes "go_runtime rt" and "\<And>p re. rxc p = Some re \<Longrightarrow> wf_caps (re_rx re)"
    and "DefaultRules rt rxc file = Inr rules" and "list_all yaml_keywords_ok file"
    and "Default rt rxc file d cd = Some ds"
    and "LowerOK \<lparr> Raw = tx, Lower = ToLower rt tx \<rparr>"
  shows "list_all (run_ok (length tx)) (default_runs rt rules d cd \<lparr> Raw = tx, Lower = ToLower rt tx \<rparr>) \<and>
    (\<exists>res. Run rt (NewPipeline ds) tx = Some res \<and> sorted_wrt (\<lambda>a b. sp_End a \<le> sp_Start b) (Spans res) \<and>
       list_all (span_in (length tx)) (Spans res))"
proof -
  let ?t = "\<lparr> Raw = tx, Lower = ToLower rt tx \<rparr>"
  have "list_all rule_ok rules" using LoadRules_ok [OF assms(2)] assms(3,4) by (simp add: DefaultRules_def)
  from default_runs_ok [OF assms(1) this assms(6)] have runs: "list_all (run_ok (length tx)) (default_runs rt rules d cd ?t)" by simp
  have "\<forall>det \<in> set (pl_detectors (NewPipeline ds)). \<forall>s \<in> set (detect_with det ?t). span_in (length tx) s"
    using default_in_range [OF _ assms(3,5), of ?t] runs by (auto simp: NewPipeline_def)
  from Run_in_range [OF assms(1) this] runs show ?thesis unfolding list_all_iff by blast
qed

definition one_clause :: "string \<Rightarrow> Span \<Rightarrow> bool" where
  "one_clause tx s \<longleftrightarrow> list_all (\<lambda>b. b \<noteq> CHR 0x0A \<and> b \<noteq> CHR '';'') (between tx (nat (sp_Start s)) (nat (sp_End s)))"

text \<open>
  C27. What the issuer detector reports on a text whose lower-case form, if it is the text that is searched, has the same
  width rune by rune: it returns, and each span is a non-empty range of the text whose bytes hold no new line and no
  semicolon, so an issuing authority is never joined to the next line or clause. Equal lengths of the two forms are
  not enough (\<open>issuer_crosses_line\<close> in theory Issuer_Witness).
\<close>

theorem issuer_in_clause:
  assumes "go_runtime rt" and "LowerOK \<lparr> Raw = tx, Lower = ToLower rt tx \<rparr> \<Longrightarrow> same_width rt tx"
  shows "\<exists>ss. DetectLower_issuer rt \<lparr> Raw = tx, Lower = ToLower rt tx \<rparr> = Some ss \<and>
    (\<forall>s \<in> set ss. span_wf (length tx) s \<and> one_clause tx s)"
proof -
  let ?t = "\<lparr> Raw = tx, Lower = ToLower rt tx \<rparr>"
  obtain ss where ss: "DetectLower_issuer rt ?t = Some ss" using issuer.returns by blast
  have "span_wf (length tx) s \<and> one_clause tx s" if s: "s \<in> set ss" for s
  proof -
    have wf: "span_wf (length tx) s" using issuer.in_range [OF ss s] by simp
    have "\<not> clause_break (tx ! p)" if "sp_Start s \<le> int p" "int p < sp_End s" for p
    proof -
      have "p < length tx" using that(2) wf by (auto simp: span_wf_def)
      then show ?thesis
        using issuer_single_clause [OF ss s that] same_width_break [OF assms(1,2), of p]
        by (cases "LowerOK ?t") (auto simp: search_text_def)
    qed
    then have "\<not> clause_break (between tx (nat (sp_Start s)) (nat (sp_End s)) ! k)"
      if "k < length (between tx (nat (sp_Start s)) (nat (sp_End s)))" for k
      using that wf by (auto simp: between_def span_wf_def)
    with wf show ?thesis by (auto simp: one_clause_def list_all_length clause_break_def)
  qed
  with ss show ?thesis by blast
qed

end
