(* ===== verification/Mask_Text.thy ===== *)
theory Mask_Text
  imports Mask_Core Go_Strings
begin

text \<open>
  Text scanning shared by the partial and full strategies (\<^verbatim>\<open>internal/mask/partial.go\<close>,
  \<^verbatim>\<open>full.go\<close>, \<^verbatim>\<open>servicewords.go\<close>). The Go loops walk a string \<^verbatim>\<open>value\<close> with a byte index \<^verbatim>\<open>i\<close> and
  only look at \<^verbatim>\<open>value[i:]\<close>; the models recurse on that suffix, and a scanner returns the
  number of bytes it advances.
\<close>

definition isDigit :: "runtime \<Rightarrow> rune \<Rightarrow> bool" where
  "isDigit rt r = uc_digit rt r"

definition isLetter :: "runtime \<Rightarrow> rune \<Rightarrow> bool" where
  "isLetter rt r = uc_letter rt r"

definition isWordRune :: "runtime \<Rightarrow> rune \<Rightarrow> bool" where
  "isWordRune rt r \<longleftrightarrow> isLetter rt r \<or> isDigit rt r"

text \<open>The loop shared by \<^verbatim>\<open>scanWord\<close> and \<^verbatim>\<open>scanLetterWord\<close>: runes in a class, inner hyphens allowed.\<close>

function scan_hyphenated :: "(rune \<Rightarrow> bool) \<Rightarrow> string \<Rightarrow> nat" where
  "scan_hyphenated P s =
     (if s = [] then 0
      else let (r, size) = DecodeRune s in
        if P r then size + scan_hyphenated P (drop size s)
        else if r = 0x2D \<and> size < length s \<and> P (fst (DecodeRune (drop size s)))
        then size + scan_hyphenated P (drop size s)
        else 0)"
  by pat_completeness auto
termination
  by (relation "measure (\<lambda>(P, s). length s)") (auto dest: decode_progress)

declare scan_hyphenated.simps [simp del]

definition scanWord :: "runtime \<Rightarrow> string \<Rightarrow> nat" where
  "scanWord rt s = scan_hyphenated (isWordRune rt) s"

definition scanLetterWord :: "runtime \<Rightarrow> string \<Rightarrow> nat" where
  "scanLetterWord rt s = scan_hyphenated (isLetter rt) s"

definition scanLetters :: "runtime \<Rightarrow> string \<Rightarrow> nat" where
  "scanLetters rt s = scan_run (isLetter rt) s"

subsection \<open>What the scanners consume\<close>

text \<open>
  A scan over a class without \<^verbatim>\<open>RuneError\<close> consumes whole runes, byte for byte: the scanned prefix
  is the encoding of the runes it holds, and the rest of the string decodes on its own.
\<close>

definition scans :: "(rune \<Rightarrow> bool) \<Rightarrow> string \<Rightarrow> nat \<Rightarrow> rune list \<Rightarrow> bool" where
  "scans Q s n ws \<longleftrightarrow>
     n \<le> length s \<and> take n s = encode_runes ws \<and> runes s = ws @ runes (drop n s) \<and>
     (\<forall>w \<in> set ws. Q w \<and> valid_rune w)"

lemma scans_Nil [simp]: "scans Q s 0 []"
  by (simp add: scans_def)

lemma scans_Cons:
  assumes "s \<noteq> []" and "DecodeRune s = (r, sz)" and "Q r" and "r \<noteq> RuneError"
    and "scans Q (drop sz s) n ws"
  shows "scans Q s (sz + n) (r # ws)"
proof -
  have e: "EncodeRune r = take sz s"
    using EncodeRune_DecodeRune [OF assms(2)] assms(1,4) by blast
  have "valid_rune r" using DecodeRune_valid [of s] assms(2) by simp
  moreover have "sz \<le> length s" using DecodeRune_size_le [of s] assms(2) by simp
  moreover have "take (sz + n) s = take sz s @ take n (drop sz s)" by (rule take_add)
  ultimately show ?thesis
    using assms(3,5) runes_step [OF assms(1,2)] e by (auto simp: scans_def add.commute)
qed

lemma scan_run_scans:
  assumes "\<not> P RuneError"
  shows "\<exists>ws. scans P s (scan_run P s) ws \<and> (s \<noteq> [] \<longrightarrow> P (fst (DecodeRune s)) \<longrightarrow> ws \<noteq> [])"
  using assms
proof (induction P s rule: scan_run.induct)
  case (1 P s)
  obtain r sz where d: "DecodeRune s = (r, sz)" by fastforce
  show ?case
  proof (cases "s = [] \<or> \<not> P r")
    case True
    then have "scan_run P s = 0" using d by (subst scan_run.simps) auto
    with True d show ?thesis by (intro exI [of _ "[]"]) auto
  next
    case False
    then obtain ws where "scans P (drop sz s) (scan_run P (drop sz s)) ws"
      using "1.IH" [OF _ d [symmetric] refl] "1.prems" by auto
    moreover have "scan_run P s = sz + scan_run P (drop sz s)"
      using False d by (subst scan_run.simps) simp
    moreover have "r \<noteq> RuneError" using False "1.prems" by auto
    ultimately show ?thesis using scans_Cons [OF _ d, of P] False by (intro exI [of _ "r # ws"]) simp
  qed
qed

lemma scan_hyphenated_scans:
  assumes "\<not> P RuneError"
  shows "\<exists>ws. scans (\<lambda>w. P w \<or> w = 0x2D) s (scan_hyphenated P s) ws \<and>
           (s \<noteq> [] \<longrightarrow> P (fst (DecodeRune s)) \<longrightarrow> ws \<noteq> [])"
  using assms
proof (induction P s rule: scan_hyphenated.induct)
  case (1 P s)
  obtain r sz where d: "DecodeRune s = (r, sz)" by fastforce
  let ?go = "P r \<or> (r = 0x2D \<and> sz < length s \<and> P (fst (DecodeRune (drop sz s))))"
  show ?case
  proof (cases "s = [] \<or> \<not> ?go")
    case True
    then have "scan_hyphenated P s = 0" using d by (subst scan_hyphenated.simps) auto
    with True d show ?thesis by (intro exI [of _ "[]"]) auto
  next
    case False
    then have "\<exists>ws. scans (\<lambda>w. P w \<or> w = 0x2D) (drop sz s) (scan_hyphenated P (drop sz s)) ws"
      using "1.IH" [OF _ d [symmetric] refl] "1.prems" by (cases "P r") auto
    then obtain ws where "scans (\<lambda>w. P w \<or> w = 0x2D) (drop sz s) (scan_hyphenated P (drop sz s)) ws"
      by blast
    moreover have "scan_hyphenated P s = sz + scan_hyphenated P (drop sz s)"
      using False d by (subst scan_hyphenated.simps) auto
    moreover have "r \<noteq> RuneError" using False "1.prems" by (auto simp: RuneError_def)
    ultimately show ?thesis
      using scans_Cons [OF _ d, of "\<lambda>w. P w \<or> w = 0x2D"] False by (intro exI [of _ "r # ws"]) auto
  qed
qed

context go_runtime
begin

lemma error_no_word: "\<not> isWordRune rt RuneError"
  by (simp add: isWordRune_def isLetter_def isDigit_def error_no_letter error_no_digit)

lemma word_not_star: "\<not> isWordRune rt 0x2A"
  using letter_ascii [of "0x2A"] digit_latin1 [of "0x2A"]
  by (simp add: isWordRune_def isLetter_def isDigit_def)

lemma word_not_hyphen: "\<not> isWordRune rt 0x2D"
  using letter_ascii [of "0x2D"] digit_latin1 [of "0x2D"]
  by (simp add: isWordRune_def isLetter_def isDigit_def)

lemma scanWord_scans:
  obtains ws where "scans (\<lambda>w. isWordRune rt w \<or> w = 0x2D) s (scanWord rt s) ws"
    and "s \<noteq> [] \<Longrightarrow> isWordRune rt (fst (DecodeRune s)) \<Longrightarrow> ws \<noteq> []"
  using scan_hyphenated_scans [of "isWordRune rt" s] error_no_word unfolding scanWord_def by blast

lemma scanLetterWord_scans:
  obtains ws where "scans (\<lambda>w. isLetter rt w \<or> w = 0x2D) s (scanLetterWord rt s) ws"
    and "s \<noteq> [] \<Longrightarrow> isLetter rt (fst (DecodeRune s)) \<Longrightarrow> ws \<noteq> []"
  using scan_hyphenated_scans [of "isLetter rt" s] error_no_letter
  unfolding scanLetterWord_def isLetter_def by blast

lemma scanLetters_scans:
  obtains ws where "scans (isLetter rt) s (scanLetters rt s) ws"
    and "s \<noteq> [] \<Longrightarrow> isLetter rt (fst (DecodeRune s)) \<Longrightarrow> ws \<noteq> []"
  using scan_run_scans [of "isLetter rt" s] error_no_letter
  unfolding scanLetters_def isLetter_def by blast

end

lemma scans_pos: "scans Q s n ws \<Longrightarrow> ws \<noteq> [] \<Longrightarrow> 0 < n"
  by (auto simp: scans_def intro: gr0I)

lemma scans_runes_take: "scans Q s n ws \<Longrightarrow> runes (take n s) = ws"
  by (simp add: scans_def runes_encode)

text \<open>Every hyphen a scan passes has a rune of the class on both sides of it.\<close>

lemma split_on_Cons_other:
  "r \<noteq> c \<Longrightarrow> split_on c (r # ws) = (r # hd (split_on c ws)) # tl (split_on c ws)"
  by (cases "split_on c ws") simp_all

lemma scan_hyphenated_groups:
  assumes "\<not> P RuneError" and "\<not> P 0x2D"
  shows "[] \<notin> set (tl (split_on 0x2D (runes (take (scan_hyphenated P s) s))))"
  using assms
proof (induction P s rule: scan_hyphenated.induct)
  case (1 P s)
  obtain r sz where d: "DecodeRune s = (r, sz)" by fastforce
  let ?rest = "drop sz s" and ?n = "scan_hyphenated P (drop sz s)"
  let ?hyp = "r = 0x2D \<and> sz < length s \<and> P (fst (DecodeRune ?rest))"
  show ?case
  proof (cases "s = [] \<or> \<not> (P r \<or> ?hyp)")
    case True
    then have "scan_hyphenated P s = 0" using d by (subst scan_hyphenated.simps) auto
    then show ?thesis by simp
  next
    case False
    obtain ws where ws: "scans (\<lambda>w. P w \<or> w = 0x2D) ?rest ?n ws"
      and wne: "?rest \<noteq> [] \<Longrightarrow> P (fst (DecodeRune ?rest)) \<Longrightarrow> ws \<noteq> []"
      using scan_hyphenated_scans [of P ?rest] "1.prems"(1) by blast
    have "r \<noteq> RuneError" using False "1.prems" by (auto simp: RuneError_def)
    moreover have n: "scan_hyphenated P s = sz + ?n"
      using False d by (subst scan_hyphenated.simps) auto
    ultimately have "scans (\<lambda>w. P w \<or> w = 0x2D) s (scan_hyphenated P s) (r # ws)"
      using scans_Cons [OF _ d, of "\<lambda>w. P w \<or> w = 0x2D"] False ws by auto
    then have eq: "runes (take (scan_hyphenated P s) s) = r # ws" by (rule scans_runes_take)
    have IH: "[] \<notin> set (tl (split_on 0x2D ws))"
      using "1.IH" [OF _ d [symmetric] refl] "1.prems" False scans_runes_take [OF ws]
      by (cases "P r") auto
    show ?thesis
    proof (cases "P r")
      case True
      then have "r \<noteq> 0x2D" using "1.prems"(2) by auto
      with IH eq show ?thesis by (simp add: split_on_Cons_other del: split_on.simps(2))
    next
      case nP: False
      with False have h: ?hyp by blast
      then obtain w ws' where w: "ws = w # ws'" using wne by (cases ws) auto
      have "runes ?rest = fst (DecodeRune ?rest) # runes (drop (snd (DecodeRune ?rest)) ?rest)"
        using h by (intro runes_step) auto
      then have "w = fst (DecodeRune ?rest)" using ws w by (simp add: scans_def)
      then have "w \<noteq> 0x2D" using h "1.prems"(2) by auto
      with IH eq h w show ?thesis
        by (cases "split_on 0x2D ws'") simp_all
    qed
  qed
qed

subsection \<open>Scans are maximal\<close>

lemma hd_runes: "s \<noteq> [] \<Longrightarrow> hd (runes s) = fst (DecodeRune s)"
  by (subst runes.simps) (simp add: split_beta)

text \<open>Where a scan stops, the string ends or a rune outside the class follows.\<close>

definition stops :: "(rune \<Rightarrow> bool) \<Rightarrow> string \<Rightarrow> bool" where
  "stops P s \<longleftrightarrow> s = [] \<or> \<not> P (hd (runes s))"

lemma scan_run_stops: "stops P (drop (scan_run P s) s)"
proof (induction P s rule: scan_run.induct)
  case (1 P s)
  obtain r sz where d: "DecodeRune s = (r, sz)" by fastforce
  show ?case
  proof (cases "s = [] \<or> \<not> P r")
    case True
    then have "scan_run P s = 0" using d by (subst scan_run.simps) auto
    with True d show ?thesis by (auto simp: stops_def hd_runes)
  next
    case False
    then have "scan_run P s = sz + scan_run P (drop sz s)" using d by (subst scan_run.simps) simp
    with "1.IH" [OF _ d [symmetric] refl] False show ?thesis by (simp add: add.commute)
  qed
qed

lemma scan_hyphenated_stops: "stops P (drop (scan_hyphenated P s) s)"
proof (induction P s rule: scan_hyphenated.induct)
  case (1 P s)
  obtain r sz where d: "DecodeRune s = (r, sz)" by fastforce
  let ?go = "P r \<or> (r = 0x2D \<and> sz < length s \<and> P (fst (DecodeRune (drop sz s))))"
  show ?case
  proof (cases "s = [] \<or> \<not> ?go")
    case True
    then have "scan_hyphenated P s = 0" using d by (subst scan_hyphenated.simps) auto
    with True d show ?thesis by (auto simp: stops_def hd_runes)
  next
    case False
    then have "scan_hyphenated P s = sz + scan_hyphenated P (drop sz s)"
      using d by (subst scan_hyphenated.simps) auto
    moreover have "stops P (drop (scan_hyphenated P (drop sz s)) (drop sz s))"
      using "1.IH" [OF _ d [symmetric] refl] False by (cases "P r") auto
    ultimately show ?thesis by (simp add: add.commute)
  qed
qed

text \<open>
  A list of parts, each a piece of the input with what it becomes, is maximal for a class when no
  run of the class is cut in two by a border between parts.
\<close>

fun maximal :: "(rune \<Rightarrow> bool) \<Rightarrow> (rune list \<times> 'b) list \<Rightarrow> bool" where
  "maximal P (p # q # ps) \<longleftrightarrow> \<not> (P (last (fst p)) \<and> P (hd (fst q))) \<and> maximal P (q # ps)"
| "maximal P ps \<longleftrightarrow> True"

lemma maximal_Cons:
  assumes "maximal P ps" and "\<forall>p \<in> set ps. fst p \<noteq> []" and "concat (map fst ps) = runes s"
    and "stops P s \<or> \<not> P (last a)"
  shows "maximal P ((a, b) # ps)"
proof (cases ps)
  case (Cons q qs)
  then have "hd (fst q) = hd (runes s)" and "s \<noteq> []"
    using assms(2,3) by (metis concat.simps(2) hd_append2 list.set_intros(1) list.simps(9), auto)
  with assms(1,4) Cons show ?thesis by (auto simp: stops_def)
qed simp

text \<open>The scanners advance when they start on a rune of their class.\<close>

lemma scan_hyphenated_pos:
  "s \<noteq> [] \<Longrightarrow> (r, n) = DecodeRune s \<Longrightarrow> P r \<Longrightarrow> 0 < scan_hyphenated P s"
  using DecodeRune_size_pos [of s] by (subst scan_hyphenated.simps) (auto split: prod.splits)

lemma scanWord_progress:
  "(r, n) = DecodeRune s \<Longrightarrow> s \<noteq> [] \<Longrightarrow> isWordRune rt r \<Longrightarrow>
     length s - scanWord rt s < length s"
  unfolding scanWord_def by (intro diff_less scan_hyphenated_pos) auto

lemma scanLetterWord_progress:
  "(r, n) = DecodeRune s \<Longrightarrow> s \<noteq> [] \<Longrightarrow> isLetter rt r \<Longrightarrow>
     length s - scanLetterWord rt s < length s"
  unfolding scanLetterWord_def by (intro diff_less scan_hyphenated_pos) auto

lemma scanLetters_progress:
  "(r, n) = DecodeRune s \<Longrightarrow> s \<noteq> [] \<Longrightarrow> isLetter rt r \<Longrightarrow>
     length s - scanLetters rt s < length s"
  unfolding scanLetters_def by (intro diff_less scan_run_pos) auto

lemmas scan_progress =
  decode_progress scanWord_progress scanLetterWord_progress scanLetters_progress

end
