(* ===== verification/Mask_Full.thy ===== *)
theory Mask_Full
  imports Mask_Text
begin

text \<open>
  The full strategy (\<^verbatim>\<open>internal/mask/full.go\<close>) and the service words it keeps
  (\<^verbatim>\<open>servicewords.go\<close>). Russian words are written as lists of code points, with a
  transliteration beside each.
\<close>

definition serviceWords :: "string list" where
  "serviceWords = map encode_runes
    [[0x443, 0x43b] \<comment> \<open>ul\<close>,
     [0x443, 0x43b, 0x438, 0x446, 0x430] \<comment> \<open>ulitsa\<close>,
     [0x434] \<comment> \<open>d\<close>,
     [0x434, 0x43e, 0x43c] \<comment> \<open>dom\<close>,
     [0x43a, 0x432] \<comment> \<open>kv\<close>,
     [0x433] \<comment> \<open>g\<close>,
     [0x433, 0x43e, 0x440] \<comment> \<open>gor\<close>,
     [0x433, 0x43e, 0x440, 0x43e, 0x434] \<comment> \<open>gorod\<close>,
     [0x43e, 0x431, 0x43b] \<comment> \<open>obl\<close>,
     [0x43e, 0x431, 0x43b, 0x430, 0x441, 0x442, 0x44c] \<comment> \<open>oblast\<close>,
     [0x43a, 0x43e, 0x440, 0x43f] \<comment> \<open>korp\<close>,
     [0x441, 0x442, 0x440] \<comment> \<open>str\<close>,
     [0x43f, 0x440, 0x2d, 0x442] \<comment> \<open>pr-t\<close>,
     [0x43f, 0x435, 0x440] \<comment> \<open>per\<close>,
     [0x43f, 0x43b] \<comment> \<open>pl\<close>,
     [0x43d, 0x430, 0x431] \<comment> \<open>nab\<close>,
     [0x448] \<comment> \<open>sh\<close>,
     [0x440, 0x2d, 0x43d] \<comment> \<open>r-n\<close>,
     [0x440, 0x430, 0x439, 0x43e, 0x43d] \<comment> \<open>rayon\<close>,
     [0x43a, 0x440, 0x430, 0x439] \<comment> \<open>kray\<close>,
     [0x441, 0x435, 0x440, 0x438, 0x44f] \<comment> \<open>seriya\<close>,
     [0x43d, 0x43e, 0x43c, 0x435, 0x440] \<comment> \<open>nomer\<close>,
     [0x2116] \<comment> \<open>(numero sign)\<close>,
     [0x433, 0x43e, 0x434, 0x430] \<comment> \<open>goda\<close>,
     [0x433, 0x43e, 0x434] \<comment> \<open>god\<close>,
     [0x433, 0x2e, 0x440, 0x2e] \<comment> \<open>g.r.\<close>]"

definition fullServiceWords :: "string list" where
  "fullServiceWords = serviceWords @ map encode_runes
    [[0x43f, 0x43e] \<comment> \<open>po\<close>,
     [0x432] \<comment> \<open>v\<close>,
     [0x438] \<comment> \<open>i\<close>]"

definition isServiceWord :: "runtime \<Rightarrow> string \<Rightarrow> bool" where
  "isServiceWord rt word =
     (let lookup = (if HasSuffix word ''.'' then butlast word else word)
      in ToLower rt lookup \<in> set fullServiceWords)"

text \<open>\<^verbatim>\<open>writeMaskedWord\<close> and \<^verbatim>\<open>maskAllLetters\<close>: the same loop over the runes.\<close>

definition star_rune :: "runtime \<Rightarrow> rune \<Rightarrow> rune" where
  "star_rune rt r = (if isWordRune rt r then 0x2A else r)"

definition writeMaskedWord :: "runtime \<Rightarrow> string \<Rightarrow> string" where
  "writeMaskedWord rt word = encode_runes (map (star_rune rt) (runes word))"

definition maskAllLetters :: "runtime \<Rightarrow> string \<Rightarrow> string" where
  "maskAllLetters rt value = encode_runes (map (star_rune rt) (runes value))"

text \<open>\<^verbatim>\<open>allServiceWords\<close>: the loop, with the flag \<^verbatim>\<open>found\<close>.\<close>

function all_service_loop :: "runtime \<Rightarrow> string \<Rightarrow> bool \<Rightarrow> bool" where
  "all_service_loop rt s found =
     (if s = [] then found
      else let (r, size) = DecodeRune s in
        if \<not> isWordRune rt r then all_service_loop rt (drop size s) found
        else let n = scanWord rt s in
          if \<not> isServiceWord rt (take n s) then False
          else all_service_loop rt (drop n s) True)"
  by pat_completeness auto
termination
  by (relation "measure (\<lambda>(rt, s, found). length s)")
     (simp_all add: scan_progress)

definition allServiceWords :: "runtime \<Rightarrow> string \<Rightarrow> bool" where
  "allServiceWords rt value = all_service_loop rt value False"

text \<open>\<^verbatim>\<open>maskFull\<close>: its loop, then the function.\<close>

function mask_full_loop :: "runtime \<Rightarrow> string \<Rightarrow> string" where
  "mask_full_loop rt s =
     (if s = [] then ''''
      else let (r, size) = DecodeRune s in
        if \<not> isWordRune rt r then EncodeRune r @ mask_full_loop rt (drop size s)
        else let n = scanWord rt s; word = take n s in
          (if isServiceWord rt word then word else writeMaskedWord rt word)
            @ mask_full_loop rt (drop n s))"
  by pat_completeness auto
termination
  by (relation "measure (\<lambda>(rt, s). length s)")
     (simp_all add: scan_progress)

declare all_service_loop.simps [simp del] mask_full_loop.simps [simp del]

definition maskFull :: "runtime \<Rightarrow> string \<Rightarrow> string" where
  "maskFull rt value =
     (if allServiceWords rt value then maskAllLetters rt value else mask_full_loop rt value)"

definition full_mask :: "runtime \<Rightarrow> mask_fun" where
  "full_mask rt value cat doc =
     (case memo_hit doc value of
        Some m \<Rightarrow> (m, doc)
      | None \<Rightarrow> let out = maskFull rt value in (out, remember_opt doc value out))"

definition fullStrategy :: "runtime \<Rightarrow> strategy" where
  "fullStrategy rt = \<lparr> st_Name = ''full'', st_Mask = full_mask rt \<rparr>"

subsection \<open>What the full strategy hides\<close>

text \<open>
  A part of the input and the part of the output it becomes: a separator is copied, a service
  word is copied, and in any other word every letter and digit is starred.
\<close>

definition full_part :: "runtime \<Rightarrow> rune list \<times> rune list \<Rightarrow> bool" where
  "full_part rt p \<longleftrightarrow>
     (case p of (a, b) \<Rightarrow>
        a \<noteq> [] \<and> (b = map (star_rune rt) a \<or> b = a \<and> isServiceWord rt (encode_runes a)))"

definition splits_into :: "(rune list \<times> rune list) list \<Rightarrow> rune list \<Rightarrow> rune list \<Rightarrow> bool" where
  "splits_into ps rs qs \<longleftrightarrow> concat (map fst ps) = rs \<and> concat (map snd ps) = qs"

lemma splits_into_Nil [simp]: "splits_into [] [] []"
  by (simp add: splits_into_def)

lemma splits_into_Cons: "splits_into ps rs qs \<Longrightarrow> splits_into ((a, b) # ps) (a @ rs) (b @ qs)"
  by (simp add: splits_into_def)

lemma star_rune_valid [simp]: "valid_rune r \<Longrightarrow> valid_rune (star_rune rt r)"
  by (simp add: star_rune_def valid_rune_def)

lemma star_rune_other: "\<not> isWordRune rt r \<Longrightarrow> star_rune rt r = r"
  by (simp add: star_rune_def)

lemma runes_star: "runes (encode_runes (map (star_rune rt) (runes v))) = map (star_rune rt) (runes v)"
  by (rule runes_encode) (auto dest: runes_valid)

lemma valid_utf8_star: "valid_utf8 (encode_runes (map (star_rune rt) (runes v)))"
  by (rule valid_utf8_encode) (auto dest: runes_valid)

lemma full_part_length: "full_part rt (a, b) \<Longrightarrow> length b = length a"
  by (auto simp: full_part_def)

lemma splits_into_length:
  "splits_into ps rs qs \<Longrightarrow> \<forall>p \<in> set ps. full_part rt p \<Longrightarrow> length qs = length rs"
  unfolding splits_into_def by (induction ps arbitrary: rs qs) (auto simp: full_part_length)

lemma full_parts_maximal:
  assumes "maximal P ps" and "\<forall>p \<in> set ps. full_part rt p" and "splits_into ps (runes s) qs"
    and "stops P s \<or> \<not> P (last a)"
  shows "maximal P ((a, b) # ps)"
  using assms by (intro maximal_Cons [of P ps s]) (auto simp: full_part_def splits_into_def)

context go_runtime
begin

lemma mask_full_loop_parts:
  "\<exists>ps qs. mask_full_loop rt s = encode_runes qs \<and> splits_into ps (runes s) qs \<and>
     (\<forall>p \<in> set ps. full_part rt p) \<and> maximal (isWordRune rt) ps \<and> (\<forall>q \<in> set qs. valid_rune q)"
proof (induction "length s" arbitrary: s rule: less_induct)
  case less
  show ?case
  proof (cases "s = []")
    case True
    then show ?thesis by (intro exI [of _ "[]"]) (simp add: mask_full_loop.simps)
  next
    case ne: False
    obtain r sz where d: "DecodeRune s = (r, sz)" by fastforce
    have v: "valid_rune r" using DecodeRune_valid [of s] d by simp
    show ?thesis
    proof (cases "isWordRune rt r")
      case False
      obtain ps qs where IH: "mask_full_loop rt (drop sz s) = encode_runes qs"
          "splits_into ps (runes (drop sz s)) qs" "\<forall>p \<in> set ps. full_part rt p"
          "\<forall>q \<in> set qs. valid_rune q" and max: "maximal (isWordRune rt) ps"
        using less [of "drop sz s"] decode_progress [OF d [symmetric] ne] by auto
      have "mask_full_loop rt s = encode_runes (r # qs)"
        using ne d False IH(1) by (subst mask_full_loop.simps) simp
      moreover have "splits_into (([r], [r]) # ps) (runes s) (r # qs)"
        using splits_into_Cons [OF IH(2), of "[r]" "[r]"] runes_step [OF ne d] by simp
      moreover have "full_part rt ([r], [r])"
        using False by (simp add: full_part_def star_rune_other)
      moreover have "maximal (isWordRune rt) (([r], [r]) # ps)"
        using full_parts_maximal [OF max IH(3,2)] False by simp
      ultimately show ?thesis using IH(3,4) v
        by (intro exI [of _ "([r], [r]) # ps"] exI [of _ "r # qs"]) simp
    next
      case True
      let ?n = "scanWord rt s"
      obtain ws where ws: "scans (\<lambda>w. isWordRune rt w \<or> w = 0x2D) s ?n ws" and wne: "ws \<noteq> []"
        using scanWord_scans [of s] ne True d by (metis fst_conv)
      obtain ps qs where IH: "mask_full_loop rt (drop ?n s) = encode_runes qs"
          "splits_into ps (runes (drop ?n s)) qs" "\<forall>p \<in> set ps. full_part rt p"
          "\<forall>q \<in> set qs. valid_rune q" and max: "maximal (isWordRune rt) ps"
        using less [of "drop ?n s"] scanWord_progress [OF d [symmetric] ne True] by auto
      let ?b = "if isServiceWord rt (take ?n s) then ws else map (star_rune rt) ws"
      have "mask_full_loop rt s = encode_runes (?b @ qs)"
        using ne d True IH(1) ws by (subst mask_full_loop.simps)
          (simp add: writeMaskedWord_def scans_runes_take [OF ws], simp add: scans_def)
      moreover have "splits_into ((ws, ?b) # ps) (runes s) (?b @ qs)"
        using splits_into_Cons [OF IH(2), of ws ?b] ws by (simp add: scans_def)
      moreover have "full_part rt (ws, ?b)" using ws wne by (simp add: full_part_def scans_def)
      moreover have "maximal (isWordRune rt) ((ws, ?b) # ps)"
        using full_parts_maximal [OF max IH(3,2)] scan_hyphenated_stops by (simp add: scanWord_def)
      moreover have "\<forall>q \<in> set ?b. valid_rune q" using ws by (auto simp: scans_def)
      ultimately show ?thesis using IH(3,4)
        by (intro exI [of _ "(ws, ?b) # ps"] exI [of _ "?b @ qs"]) auto
    qed
  qed
qed

lemma maskFull_parts:
  "\<exists>ps. splits_into ps (runes v) (runes (maskFull rt v)) \<and> (\<forall>p \<in> set ps. full_part rt p) \<and>
     maximal (isWordRune rt) ps \<and> valid_utf8 (maskFull rt v)"
proof (cases "allServiceWords rt v")
  case True
  then have "v \<noteq> []" by (auto simp: allServiceWords_def all_service_loop.simps)
  with True show ?thesis
    by (intro exI [of _ "[(runes v, map (star_rune rt) (runes v))]"])
       (simp add: maskFull_def maskAllLetters_def runes_star splits_into_def full_part_def
          valid_utf8_star)
next
  case False
  with mask_full_loop_parts [of v] show ?thesis by (auto simp: maskFull_def runes_encode valid_utf8_encode)
qed

lemma maskFull_length: "length (runes (maskFull rt v)) = length (runes v)"
  using maskFull_parts [of v] splits_into_length by blast

lemma maskFull_Nil_iff: "maskFull rt v = '''' \<longleftrightarrow> v = ''''"
  using maskFull_length [of v] by (metis length_0_conv runes_eq_Nil)

text \<open>
  When the loop leaves every rune alone, the value is one on which \<^verbatim>\<open>allServiceWords\<close> answers true,
  unless it has no letter or digit at all.
\<close>

lemma unchanged_all_service:
  "runes (mask_full_loop rt s) = runes s \<Longrightarrow>
     all_service_loop rt s found \<longleftrightarrow> found \<or> (\<exists>r \<in> set (runes s). isWordRune rt r)"
proof (induction "length s" arbitrary: s found rule: less_induct)
  case less
  show ?case
  proof (cases "s = []")
    case True
    then show ?thesis by (simp add: all_service_loop.simps)
  next
    case ne: False
    obtain r sz where d: "DecodeRune s = (r, sz)" by fastforce
    have v: "valid_rune r" using DecodeRune_valid [of s] d by simp
    show ?thesis
    proof (cases "isWordRune rt r")
      case False
      have "mask_full_loop rt s = EncodeRune r @ mask_full_loop rt (drop sz s)"
        using ne d False by (subst mask_full_loop.simps) simp
      then have "runes (mask_full_loop rt (drop sz s)) = runes (drop sz s)"
        using less.prems runes_step [OF ne d] v by (simp add: runes_EncodeRune)
      then have "all_service_loop rt (drop sz s) found \<longleftrightarrow>
          found \<or> (\<exists>r \<in> set (runes (drop sz s)). isWordRune rt r)"
        using less.hyps decode_progress [OF d [symmetric] ne] by simp
      then show ?thesis
        using ne d False runes_step [OF ne d] by (subst all_service_loop.simps) simp
    next
      case True
      let ?n = "scanWord rt s"
      obtain ws where ws: "scans (\<lambda>w. isWordRune rt w \<or> w = 0x2D) s ?n ws" and wne: "ws \<noteq> []"
        using scanWord_scans [of s] ne True d by (metis fst_conv)
      let ?b = "if isServiceWord rt (take ?n s) then ws else map (star_rune rt) ws"
      have "mask_full_loop rt s = encode_runes ?b @ mask_full_loop rt (drop ?n s)"
        using ne d True ws by (subst mask_full_loop.simps)
          (simp add: writeMaskedWord_def scans_runes_take [OF ws], simp add: scans_def)
      moreover have "\<forall>q \<in> set ?b. valid_rune q" using ws by (auto simp: scans_def)
      ultimately have eq: "?b @ runes (mask_full_loop rt (drop ?n s)) = ws @ runes (drop ?n s)"
        using less.prems ws by (simp only: runes_encode_append scans_def)
      have hd: "hd ws = r" using ws wne runes_step [OF ne d] by (cases ws) (auto simp: scans_def)
      have sw: "isServiceWord rt (take ?n s)"
      proof (rule ccontr)
        assume "\<not> isServiceWord rt (take ?n s)"
        with eq wne hd have "star_rune rt r = r" by (cases ws) auto
        with True word_not_star show False by (auto simp: star_rune_def split: if_splits)
      qed
      with eq have "runes (mask_full_loop rt (drop ?n s)) = runes (drop ?n s)" by simp
      then have "all_service_loop rt (drop ?n s) True"
        using less.hyps scanWord_progress [OF d [symmetric] ne True] by simp
      then show ?thesis
        using ne d True sw runes_step [OF ne d] by (subst all_service_loop.simps) simp
    qed
  qed
qed

lemma maskFull_changes:
  assumes "r \<in> set (runes v)" and "isWordRune rt r"
  shows "runes (maskFull rt v) \<noteq> runes v"
proof (cases "allServiceWords rt v")
  case True
  show ?thesis
  proof
    assume "runes (maskFull rt v) = runes v"
    then have "map (star_rune rt) (runes v) = runes v"
      using True by (simp add: maskFull_def maskAllLetters_def runes_star)
    then have "star_rune rt r = r" using assms(1) by (metis map_idI in_set_conv_nth nth_map)
    with assms(2) word_not_star show False by (auto simp: star_rune_def split: if_splits)
  qed
next
  case False
  then show ?thesis
    using unchanged_all_service [of v False] assms by (auto simp: maskFull_def allServiceWords_def)
qed

end

sublocale go_runtime \<subseteq> full: mask_strategy "full_mask rt"
proof
  fix v :: string and cat doc
  assume "v \<noteq> ''''"
  then show "fst (full_mask rt v cat doc) \<noteq> ''''"
    using memo_hit_nonempty [of doc v]
    by (auto simp: full_mask_def Let_def maskFull_Nil_iff split: option.splits)
next
  fix d and v :: string and cat
  assume "memo_hit (Some d) v = None"
  then show "\<exists>m d'. full_mask rt v cat (Some d) = (m, Some d') \<and> doc_memo d' = (doc_memo d)(v \<mapsto> m)"
    by (auto simp: full_mask_def Let_def remember_opt_def Remember_def)
qed (simp add: full_mask_def)

subsection \<open>Properties\<close>

text \<open>
  C33. The full strategy hides the value and keeps its shape. The runes of the output are cut into
  the same parts as the runes of the value, no border between parts falls inside a word, and each
  part is either starred (letters and digits become '*', everything else stays) or a service word
  copied as it is. A value with a letter or a
  digit never comes out unchanged, even when it consists of service words only.
\<close>

theorem maskFull_hides:
  assumes "go_runtime rt"
  shows "(\<exists>ps. splits_into ps (runes v) (runes (maskFull rt v)) \<and>
      (\<forall>p \<in> set ps. full_part rt p) \<and> maximal (isWordRune rt) ps) \<and>
    length (runes (maskFull rt v)) = length (runes v) \<and>
    ((\<exists>r \<in> set (runes v). isWordRune rt r) \<longrightarrow> runes (maskFull rt v) \<noteq> runes v)"
proof -
  have "\<exists>ps. splits_into ps (runes v) (runes (maskFull rt v)) \<and>
      (\<forall>p \<in> set ps. full_part rt p) \<and> maximal (isWordRune rt) ps"
    using go_runtime.maskFull_parts [OF assms] by blast
  then show ?thesis
    using go_runtime.maskFull_length [OF assms] go_runtime.maskFull_changes [OF assms] by blast
qed

theorem maskFull_hides_witness:
  "runes (maskFull ru_runtime ''a1-b'') \<noteq> runes ''a1-b'' \<and>
   length (runes (maskFull ru_runtime ''a1-b'')) = length (runes ''a1-b'')"
proof -
  have "isWordRune ru_runtime (fst (DecodeRune ''a1-b''))"
    by (simp add: isWordRune_def isLetter_def latin1_letter_def)
  moreover have "fst (DecodeRune ''a1-b'') \<in> set (runes ''a1-b'')"
    by (subst runes.simps) simp
  ultimately show ?thesis using maskFull_hides [OF ru.go_runtime_axioms, of "''a1-b''"] by blast
qed

end
