(* ===== verification/Mask_Partial.thy ===== *)
theory Mask_Partial
  imports Mask_Full
begin

text \<open>
  The partial strategy (\<^verbatim>\<open>internal/mask/partial.go\<close>) with the rules of \<^verbatim>\<open>partial.yaml\<close>. The YAML
  decoder is library code: the model starts from the decoded configuration. A value of type
  option is \<^term>\<open>None\<close> where the Go code would panic (a negative count given to
  \<^verbatim>\<open>strings.Repeat\<close>); \<open>partial_never_panics\<close> below shows that this does not happen.
\<close>

subsection \<open>Rules\<close>

record partialRule =
  pr_Mode :: string
  pr_KeepHead :: "int option"
  pr_KeepTail :: "int option"
  pr_Char :: string

record partialConfig =
  pc_Defaults :: partialRule
  pc_Categories :: "category \<rightharpoonup> partialRule"

record partialStrategy =
  ps_defaults :: partialRule
  ps_cats :: "category \<rightharpoonup> partialRule"

definition NewPartial :: "partialConfig \<Rightarrow> partialStrategy" where
  "NewPartial cfg =
     (let d = pc_Defaults cfg;
          d = (if pr_Char d = '''' then d\<lparr> pr_Char := ''*'' \<rparr> else d);
          d = (if pr_KeepHead d = None then d\<lparr> pr_KeepHead := Some 2 \<rparr> else d);
          d = (if pr_KeepTail d = None then d\<lparr> pr_KeepTail := Some 2 \<rparr> else d)
      in \<lparr> ps_defaults = d, ps_cats = pc_Categories cfg \<rparr>)"

definition rule_of :: "partialStrategy \<Rightarrow> category \<Rightarrow> partialRule" where
  "rule_of s cat =
     (let r = ps_defaults s in
      case ps_cats s cat of
        None \<Rightarrow> r
      | Some cr \<Rightarrow>
          \<lparr> pr_Mode = (if pr_Mode cr \<noteq> '''' then pr_Mode cr else pr_Mode r),
            pr_KeepHead = (if pr_KeepHead cr \<noteq> None then pr_KeepHead cr else pr_KeepHead r),
            pr_KeepTail = (if pr_KeepTail cr \<noteq> None then pr_KeepTail cr else pr_KeepTail r),
            pr_Char = (if pr_Char cr \<noteq> '''' then pr_Char cr else pr_Char r) \<rparr>)"

text \<open>The decoded \<^verbatim>\<open>partial.yaml\<close>.\<close>

definition mode_only :: "string \<Rightarrow> partialRule" where
  "mode_only md = \<lparr> pr_Mode = md, pr_KeepHead = None, pr_KeepTail = None, pr_Char = '''' \<rparr>"

definition digits_keep :: "int \<Rightarrow> int \<Rightarrow> partialRule" where
  "digits_keep h t =
     \<lparr> pr_Mode = ''digits'', pr_KeepHead = Some h, pr_KeepTail = Some t, pr_Char = '''' \<rparr>"

definition partial_yaml :: partialConfig where
  "partial_yaml =
     \<lparr> pc_Defaults = \<lparr> pr_Mode = ''digits'', pr_KeepHead = Some 2, pr_KeepTail = Some 2, pr_Char = ''*'' \<rparr>,
       pc_Categories = map_of
         [(CatFullName, mode_only ''initials''), (CatCardHolder, mode_only ''initials''),
          (CatPassport, digits_keep 2 2), (CatCardNumber, digits_keep 2 2),
          (CatPhone, digits_keep 2 2), (CatINN, digits_keep 2 2), (CatSNILS, digits_keep 2 2),
          (CatDriverLicense, digits_keep 2 2), (CatForeignPassport, digits_keep 2 2),
          (CatIDDocument, digits_keep 2 2), (CatDivisionCode, digits_keep 0 0),
          (CatCVV, digits_keep 0 0), (CatPIN, digits_keep 0 0), (CatDate, mode_only ''date''),
          (CatBirthDate, mode_only ''date''), (CatPassportDate, mode_only ''date''),
          (CatEmail, mode_only ''email''), (CatAddress, mode_only ''words''),
          (CatBirthPlace, mode_only ''words''), (CatPassportIssuer, mode_only ''words''),
          (CatCitizenship, mode_only ''words'')] \<rparr>"

subsection \<open>Digits\<close>

definition collectDigitIdx :: "runtime \<Rightarrow> string \<Rightarrow> nat list" where
  "collectDigitIdx rt value = filter (\<lambda>i. isDigit rt (of_char (value ! i))) [0..<length value]"

definition keepSet :: "nat list \<Rightarrow> int \<Rightarrow> int \<Rightarrow> nat set" where
  "keepSet digitIdx keepHead keepTail =
     set (take (nat keepHead) digitIdx) \<union> set (take (nat keepTail) (rev digitIdx))"

definition maskDigitRuns :: "runtime \<Rightarrow> string \<Rightarrow> nat set \<Rightarrow> string \<Rightarrow> string" where
  "maskDigitRuns rt value keep ch =
     concat (map (\<lambda>i. if isDigit rt (of_char (value ! i)) \<and> i \<notin> keep then ch else [value ! i])
       [0..<length value])"

definition maskDigits :: "runtime \<Rightarrow> string \<Rightarrow> int \<Rightarrow> int \<Rightarrow> string \<Rightarrow> string" where
  "maskDigits rt value keepHead keepTail ch =
     (let digitIdx = collectDigitIdx rt value in
      if length digitIdx = 0 then value
      else let (h, t) = (if int (length digitIdx) \<le> keepHead + keepTail + 1 then (0, 0)
                         else (keepHead, keepTail))
           in maskDigitRuns rt value (keepSet digitIdx h t) ch)"

definition maskDigitsByRule :: "runtime \<Rightarrow> string \<Rightarrow> partialRule \<Rightarrow> string" where
  "maskDigitsByRule rt value r =
     maskDigits rt value (case pr_KeepHead r of None \<Rightarrow> 0 | Some n \<Rightarrow> n)
       (case pr_KeepTail r of None \<Rightarrow> 0 | Some n \<Rightarrow> n) (pr_Char r)"

subsection \<open>Initials\<close>

definition isInitial :: "runtime \<Rightarrow> string \<Rightarrow> bool" where
  "isInitial rt s =
     (let r = runes s in length r = 2 \<and> isLetter rt (r ! 0) \<and> r ! 1 = 0x2E)"

fun join_dash :: "string list \<Rightarrow> string" where
  "join_dash [] = ''''"
| "join_dash [p] = p"
| "join_dash (p # ps) = p @ ''-'' @ join_dash ps"

definition writeInitialWord :: "runtime \<Rightarrow> string \<Rightarrow> string" where
  "writeInitialWord rt word =
     join_dash (map (\<lambda>p. ToUpper rt (EncodeRune (fst (DecodeRune p))) @ ''.'') (split_on CHR ''-'' word))"

text \<open>The end of the word: a single letter takes the dot after it along.\<close>

definition initial_word_len :: "runtime \<Rightarrow> string \<Rightarrow> nat" where
  "initial_word_len rt s =
     (let n = scanLetterWord rt s in
      if RuneCount (take n s) = 1 \<and> n < length s \<and> s ! n = CHR ''.'' then n + 1 else n)"

lemma initial_word_progress:
  "(r, n) = DecodeRune s \<Longrightarrow> s \<noteq> [] \<Longrightarrow> isLetter rt r \<Longrightarrow>
     length s - initial_word_len rt s < length s"
  using scanLetterWord_progress [of r n s rt]
  by (auto simp: initial_word_len_def Let_def)

function maskInitials :: "runtime \<Rightarrow> string \<Rightarrow> string" where
  "maskInitials rt s =
     (if s = [] then ''''
      else let (r, size) = DecodeRune s in
        if \<not> isLetter rt r then EncodeRune r @ maskInitials rt (drop size s)
        else let n = initial_word_len rt s; word = take n s in
          (if isInitial rt word then word else writeInitialWord rt word)
            @ maskInitials rt (drop n s))"
  by pat_completeness auto
termination
  by (relation "measure (\<lambda>(rt, s). length s)") (simp_all add: scan_progress initial_word_progress)

subsection \<open>Dates, e-mails and words\<close>

definition maskDateWord :: "string \<Rightarrow> string \<Rightarrow> string option" where
  "maskDateWord word ch =
     do { t \<leftarrow> Repeat ch (int (RuneCount word) - 1);
          Some (EncodeRune (fst (DecodeRune word)) @ t) }"

definition maskWord :: "runtime \<Rightarrow> string \<Rightarrow> string \<Rightarrow> string option" where
  "maskWord rt word ch =
     (if ToLower rt word \<in> set serviceWords then Some word
      else let rc = RuneCount word in
        if rc \<le> 1 then Some word
        else do { t \<leftarrow> Repeat ch (int rc - 1); Some (EncodeRune (fst (DecodeRune word)) @ t) })"

text \<open>The loop of \<^verbatim>\<open>maskDate\<close> and \<^verbatim>\<open>maskWords\<close>, which differ in what they do to a run of letters.\<close>

function mask_runs :: "runtime \<Rightarrow> (string \<Rightarrow> string option) \<Rightarrow> string \<Rightarrow> string \<Rightarrow> string option" where
  "mask_runs rt f ch s =
     (if s = [] then Some ''''
      else let (r, size) = DecodeRune s in
        if isDigit rt r then do { t \<leftarrow> mask_runs rt f ch (drop size s); Some (ch @ t) }
        else if isLetter rt r then
          (let n = scanLetters rt s in
           do { w \<leftarrow> f (take n s); t \<leftarrow> mask_runs rt f ch (drop n s); Some (w @ t) })
        else do { t \<leftarrow> mask_runs rt f ch (drop size s); Some (EncodeRune r @ t) })"
  by pat_completeness auto
termination
  by (relation "measure (\<lambda>(rt, f, ch, s). length s)") (simp_all add: scan_progress)

declare maskInitials.simps [simp del] mask_runs.simps [simp del]

definition maskDate :: "runtime \<Rightarrow> string \<Rightarrow> string \<Rightarrow> string option" where
  "maskDate rt value ch = mask_runs rt (\<lambda>w. maskDateWord w ch) ch value"

definition maskWords :: "runtime \<Rightarrow> string \<Rightarrow> string \<Rightarrow> string option" where
  "maskWords rt value ch = mask_runs rt (\<lambda>w. maskWord rt w ch) ch value"

definition maskEmail :: "string \<Rightarrow> string \<Rightarrow> string option" where
  "maskEmail value ch =
     (case Index value ''@'' of
        None \<Rightarrow> Some value
      | Some k \<Rightarrow>
          let loc = take k value; domain = drop k value in
          if loc = '''' then Some value
          else do { t \<leftarrow> Repeat ch (int (RuneCount loc) - 1);
                    Some (EncodeRune (fst (DecodeRune loc)) @ t @ domain) })"

subsection \<open>The strategy\<close>

definition partial_value :: "runtime \<Rightarrow> partialRule \<Rightarrow> string \<Rightarrow> string option" where
  "partial_value rt r value =
     (if pr_Mode r = ''initials'' then Some (maskInitials rt value)
      else if pr_Mode r = ''date'' then maskDate rt value (pr_Char r)
      else if pr_Mode r = ''email'' then maskEmail value (pr_Char r)
      else if pr_Mode r = ''words'' then maskWords rt value (pr_Char r)
      else Some (maskDigitsByRule rt value r))"

definition partial_mask_opt ::
  "runtime \<Rightarrow> partialStrategy \<Rightarrow> string \<Rightarrow> category \<Rightarrow> DocState option \<Rightarrow> (string \<times> DocState option) option" where
  "partial_mask_opt rt s value cat doc =
     (case memo_hit doc value of
        Some m \<Rightarrow> Some (m, doc)
      | None \<Rightarrow> do { out \<leftarrow> partial_value rt (rule_of s cat) value; Some (out, remember_opt doc value out) })"

definition partial_mask :: "runtime \<Rightarrow> partialStrategy \<Rightarrow> mask_fun" where
  "partial_mask rt s value cat doc = the (partial_mask_opt rt s value cat doc)"

definition partialMask_strategy :: "runtime \<Rightarrow> partialStrategy \<Rightarrow> strategy" where
  "partialMask_strategy rt s = \<lparr> st_Name = ''partial'', st_Mask = partial_mask rt s \<rparr>"

subsection \<open>The rules always have a character\<close>

definition rule_ok :: "partialStrategy \<Rightarrow> bool" where
  "rule_ok s \<longleftrightarrow> pr_Char (ps_defaults s) \<noteq> ''''"

lemma NewPartial_ok [simp, intro]: "rule_ok (NewPartial cfg)"
  by (simp add: NewPartial_def rule_ok_def Let_def)

lemma rule_of_char: "rule_ok s \<Longrightarrow> pr_Char (rule_of s cat) \<noteq> ''''"
  by (simp add: rule_of_def rule_ok_def Let_def split: option.split)

subsection \<open>Digits kept and digits hidden\<close>

abbreviation digit_byte :: "runtime \<Rightarrow> char \<Rightarrow> bool" where
  "digit_byte rt c \<equiv> isDigit rt (of_char c)"

lemma filter_nth_map: "map ((!) xs) (filter (\<lambda>i. P (xs ! i)) [0..<length xs]) = filter P xs"
proof -
  have "filter P xs = filter P (map ((!) xs) [0..<length xs])" by (simp add: map_nth)
  also have "\<dots> = map ((!) xs) (filter (P \<circ> (!) xs) [0..<length xs])" by (rule filter_map)
  finally show ?thesis by (simp add: comp_def)
qed

lemma collectDigitIdx_bytes:
  "map ((!) v) (collectDigitIdx rt v) = filter (digit_byte rt) v"
  unfolding collectDigitIdx_def by (rule filter_nth_map)

lemma length_collectDigitIdx:
  "length (collectDigitIdx rt v) = length (filter (digit_byte rt) v)"
  using collectDigitIdx_bytes [of v rt] by (metis length_map)

text \<open>Keeping the first \<^term>\<open>h\<close> and the last \<^term>\<open>t\<close> elements of a list without repetitions.\<close>

lemma filter_ends:
  assumes "distinct xs" and "h + t \<le> length xs"
  shows "filter (\<lambda>x. x \<in> set (take h xs) \<union> set (take t (rev xs))) xs =
    take h xs @ drop (length xs - t) xs"
proof -
  let ?A = "take h xs" and ?B = "drop h (take (length xs - t) xs)" and ?C = "drop (length xs - t) xs"
  have "take h (take (length xs - t) xs) = ?A" using assms(2) by (simp add: take_take min_absorb1)
  then have split: "?A @ ?B @ ?C = xs" by (metis append_assoc append_take_drop_id)
  have tail: "take t (rev xs) = rev ?C" by (simp add: take_rev)
  have "distinct (?A @ ?B @ ?C)" using assms(1) split by simp
  then have "filter (\<lambda>x. x \<in> set ?A \<union> set ?C) (?A @ ?B @ ?C) = ?A @ ?C"
    by (auto simp: filter_empty_conv filter_id_conv)
  then show ?thesis by (simp add: split tail)
qed

lemma maskDigitRuns_digits:
  assumes "filter (digit_byte rt) ch = []"
  shows "filter (digit_byte rt) (maskDigitRuns rt v keep ch) =
    map ((!) v) (filter (\<lambda>i. i \<in> keep) (collectDigitIdx rt v))"
proof -
  have "filter (digit_byte rt) (concat (map (\<lambda>i. if digit_byte rt (v ! i) \<and> i \<notin> keep then ch
          else [v ! i]) js)) =
      map ((!) v) (filter (\<lambda>i. i \<in> keep) (filter (\<lambda>i. digit_byte rt (v ! i)) js))" for js
    using assms by (induction js) auto
  then show ?thesis by (simp add: maskDigitRuns_def collectDigitIdx_def)
qed

lemma maskDigitRuns_shape:
  "maskDigitRuns rt v keep ''*'' =
     map (\<lambda>i. if digit_byte rt (v ! i) \<and> i \<notin> keep then CHR ''*'' else v ! i) [0..<length v]"
proof -
  have "concat (map (\<lambda>i. if P i then [x] else [f i]) js) = map (\<lambda>i. if P i then x else f i) js"
    for P f js and x :: char
    by (induction js) auto
  then show ?thesis by (simp add: maskDigitRuns_def)
qed

lemma maskDigitRuns_Nil_iff: "ch \<noteq> [] \<Longrightarrow> maskDigitRuns rt v keep ch = [] \<longleftrightarrow> v = []"
  by (cases v) (simp_all add: maskDigitRuns_def upt_conv_Cons del: upt_Suc)

lemma maskDigits_Nil_iff: "ch \<noteq> [] \<Longrightarrow> maskDigits rt v h t ch = [] \<longleftrightarrow> v = []"
  by (simp add: maskDigits_def Let_def maskDigitRuns_Nil_iff)

text \<open>
  \<^verbatim>\<open>maskDigits\<close> keeps exactly the first \<^verbatim>\<open>keepHead\<close> and the last \<^verbatim>\<open>keepTail\<close> digits, and none at
  all when there are at most \<^verbatim>\<open>keepHead + keepTail + 1\<close> of them, so at least two digits of a number
  are hidden. Every byte that is not a digit stays in its place.
\<close>

lemma maskDigits_keeps_ends:
  assumes "go_runtime rt" and "0 \<le> h" and "0 \<le> t"
  shows "let ds = filter (digit_byte rt) v; out = maskDigits rt v h t ''*'' in
    filter (digit_byte rt) out =
      (if int (length ds) \<le> h + t + 1 then []
       else take (nat h) ds @ drop (length ds - nat t) ds) \<and>
    length out = length v \<and>
    list_all2 (\<lambda>c d. d = c \<or> (digit_byte rt c \<and> d = CHR ''*'')) v out"
proof -
  let ?idx = "collectDigitIdx rt v" and ?ds = "filter (digit_byte rt) v"
  let ?few = "int (length ?idx) \<le> h + t + 1"
  define k where "k = (if ?few then {} else keepSet ?idx h t)"
  have out: "maskDigits rt v h t ''*'' = (if ?idx = [] then v else maskDigitRuns rt v k ''*'')"
    by (simp add: maskDigits_def k_def keepSet_def Let_def)
  have star: "filter (digit_byte rt) ''*'' = []"
    using go_runtime.word_not_star [OF assms(1)] by (simp add: isWordRune_def)
  have len: "length ?idx = length ?ds" by (rule length_collectDigitIdx)
  have keep: "filter (\<lambda>i. i \<in> k) ?idx =
      (if ?few then [] else take (nat h) ?idx @ drop (length ?idx - nat t) ?idx)"
    using filter_ends [of ?idx "nat h" "nat t"] assms(2,3)
    by (simp add: k_def keepSet_def collectDigitIdx_def distinct_filter)
  have digits: "filter (digit_byte rt) (maskDigits rt v h t ''*'') =
      (if int (length ?ds) \<le> h + t + 1 then [] else take (nat h) ?ds @ drop (length ?ds - nat t) ?ds)"
  proof (cases "?idx = []")
    case True
    with len have "?ds = []" by (metis length_0_conv)
    with True out show ?thesis by simp
  next
    case False
    then have "filter (digit_byte rt) (maskDigits rt v h t ''*'') =
        map ((!) v) (filter (\<lambda>i. i \<in> k) ?idx)"
      by (simp add: out maskDigitRuns_digits [OF star])
    also have "\<dots> = (if ?few then [] else take (nat h) ?ds @ drop (length ?ds - nat t) ?ds)"
      unfolding keep
      by (cases ?few) (simp_all add: take_map [symmetric] drop_map [symmetric] len collectDigitIdx_bytes)
    finally show ?thesis by (simp add: len)
  qed
  have shape: "list_all2 (\<lambda>c d. d = c \<or> (digit_byte rt c \<and> d = CHR ''*'')) v
      (maskDigits rt v h t ''*'')"
    by (simp add: out maskDigitRuns_shape list_all2_conv_all_nth)
  show ?thesis using digits shape list_all2_lengthD [OF shape] by (simp add: Let_def)
qed

theorem maskDigits_keeps_ends_witness:
  "filter (digit_byte ru_runtime) (maskDigits ru_runtime ''4509 123456'' 2 2 ''*'') = ''4556''"
  using maskDigits_keeps_ends [OF ru.go_runtime_axioms, of 2 2 "''4509 123456''"]
  by (simp add: isDigit_def Let_def)

subsection \<open>Letters kept and letters hidden\<close>

text \<open>
  A part of the input and the text it becomes: a digit becomes the mask character, a run of
  letters shows its first letter only unless \<^term>\<open>keep\<close> says it is kept whole, and every other
  rune is copied.
\<close>

definition first_only :: "string \<Rightarrow> rune list \<Rightarrow> string" where
  "first_only ch a = EncodeRune (hd a) @ concat (replicate (length a - 1) ch)"

definition run_part :: "runtime \<Rightarrow> (rune list \<Rightarrow> bool) \<Rightarrow> string \<Rightarrow> rune list \<times> string \<Rightarrow> bool" where
  "run_part rt keep ch p \<longleftrightarrow>
     (case p of (a, b) \<Rightarrow>
        (\<exists>r. a = [r] \<and> isDigit rt r \<and> b = ch) \<or>
        (\<exists>r. a = [r] \<and> \<not> isDigit rt r \<and> \<not> isLetter rt r \<and> b = EncodeRune r) \<or>
        (a \<noteq> [] \<and> (\<forall>r \<in> set a. isLetter rt r) \<and>
          b = (if keep a then encode_runes a else first_only ch a)))"

lemma first_only_word:
  assumes "a \<noteq> []" and "\<forall>r \<in> set a. valid_rune r"
  shows "(do { t \<leftarrow> Repeat ch (int (RuneCount (encode_runes a)) - 1);
            Some (EncodeRune (fst (DecodeRune (encode_runes a))) @ t) }) = Some (first_only ch a)"
proof -
  have "RuneCount (encode_runes a) = length a" using assms(2) by (simp add: RuneCount_def runes_encode)
  moreover have "fst (DecodeRune (encode_runes a)) = hd a"
    using assms by (cases a) (auto simp: DecodeRune_EncodeRune)
  moreover have "nat (int (length a) - 1) = length a - 1" by simp
  ultimately show ?thesis using assms(1) by (cases a) (simp_all add: Repeat_def first_only_def)
qed

lemma maskDateWord_letters:
  "a \<noteq> [] \<Longrightarrow> \<forall>r \<in> set a. valid_rune r \<Longrightarrow> maskDateWord (encode_runes a) ch = Some (first_only ch a)"
  unfolding maskDateWord_def by (rule first_only_word)

lemma maskWord_letters:
  assumes "a \<noteq> []" and "\<forall>r \<in> set a. valid_rune r"
  shows "maskWord rt (encode_runes a) ch =
    Some (if ToLower rt (encode_runes a) \<in> set serviceWords then encode_runes a else first_only ch a)"
proof -
  have "RuneCount (encode_runes a) = length a" using assms(2) by (simp add: RuneCount_def runes_encode)
  moreover have "length a \<le> 1 \<Longrightarrow> first_only ch a = encode_runes a"
    using assms(1) by (cases a) (auto simp: first_only_def)
  ultimately show ?thesis
    using first_only_word [OF assms] by (auto simp: maskWord_def Let_def)
qed

context go_runtime
begin

lemma mask_runs_parts:
  assumes f: "\<And>a. a \<noteq> [] \<Longrightarrow> \<forall>r \<in> set a. valid_rune r \<Longrightarrow>
    f (encode_runes a) = Some (if keep a then encode_runes a else first_only ch a)"
  shows "\<exists>ps. mask_runs rt f ch s = Some (concat (map snd ps)) \<and> concat (map fst ps) = runes s \<and>
    (\<forall>p \<in> set ps. run_part rt keep ch p) \<and> maximal (isLetter rt) ps"
proof (induction "length s" arbitrary: s rule: less_induct)
  case less
  show ?case
  proof (cases "s = []")
    case True
    then show ?thesis by (intro exI [of _ "[]"]) (simp add: mask_runs.simps)
  next
    case ne: False
    obtain r sz where d: "DecodeRune s = (r, sz)" by fastforce
    obtain a b n ps where step: "mask_runs rt f ch s = do { t \<leftarrow> mask_runs rt f ch (drop n s); Some (b @ t) }"
      "runes s = a @ runes (drop n s)" "run_part rt keep ch (a, b)" "length s - n < length s"
      "stops (isLetter rt) (drop n s) \<or> \<not> isLetter rt (last a)"
    proof (cases "isDigit rt r \<or> \<not> isLetter rt r")
      case True
      let ?b = "if isDigit rt r then ch else EncodeRune r"
      have nl: "\<not> isLetter rt r" using True letter_not_digit by (auto simp: isDigit_def isLetter_def)
      have "mask_runs rt f ch s = do { t \<leftarrow> mask_runs rt f ch (drop sz s); Some (?b @ t) }"
        using ne d True by (subst mask_runs.simps) auto
      then show thesis
        using that [of sz ?b "[r]"] True runes_step [OF ne d] decode_progress [OF d [symmetric] ne]
          nl by (auto simp: run_part_def)
    next
      case False
      let ?n = "scanLetters rt s"
      obtain ws where ws: "scans (isLetter rt) s ?n ws" and wne: "ws \<noteq> []"
        using scanLetters_scans [of s] ne False d by (metis fst_conv)
      then have fw: "f (take ?n s) = Some (if keep ws then encode_runes ws else first_only ch ws)"
        using f [OF wne] by (simp add: scans_def)
      have "mask_runs rt f ch s = do { t \<leftarrow> mask_runs rt f ch (drop ?n s);
          Some ((if keep ws then encode_runes ws else first_only ch ws) @ t) }"
        using ne d False fw by (subst mask_runs.simps) auto
      then show thesis
        using that [of ?n "if keep ws then encode_runes ws else first_only ch ws" ws] ws wne False
          scanLetters_progress [OF d [symmetric] ne] scan_run_stops [of "isLetter rt" s]
        by (auto simp: run_part_def scans_def scanLetters_def)
    qed
    obtain ps where "mask_runs rt f ch (drop n s) = Some (concat (map snd ps))"
      "concat (map fst ps) = runes (drop n s)" "\<forall>p \<in> set ps. run_part rt keep ch p"
      and max: "maximal (isLetter rt) ps"
      using less [of "drop n s"] step(4) by auto
    moreover from this have "maximal (isLetter rt) ((a, b) # ps)"
      using step(5) by (intro maximal_Cons [of _ ps "drop n s"]) (auto simp: run_part_def)
    ultimately show ?thesis using step(1-3) by (intro exI [of _ "(a, b) # ps"]) simp
  qed
qed

lemma maskWords_parts:
  "\<exists>ps. maskWords rt v ch = Some (concat (map snd ps)) \<and> concat (map fst ps) = runes v \<and>
    (\<forall>p \<in> set ps. run_part rt (\<lambda>a. ToLower rt (encode_runes a) \<in> set serviceWords) ch p) \<and>
    maximal (isLetter rt) ps"
  unfolding maskWords_def by (rule mask_runs_parts) (rule maskWord_letters)

lemma maskDate_parts:
  "\<exists>ps. maskDate rt v ch = Some (concat (map snd ps)) \<and> concat (map fst ps) = runes v \<and>
    (\<forall>p \<in> set ps. run_part rt (\<lambda>a. False) ch p) \<and> maximal (isLetter rt) ps"
  unfolding maskDate_def by (rule mask_runs_parts) (simp add: maskDateWord_letters)

end

subsection \<open>Initials\<close>

lemma split_on_prefix:
  "c \<notin> set w \<Longrightarrow> split_on c (w @ s) = (w @ hd (split_on c s)) # tl (split_on c s)"
  by (induction w) (auto split: list.split)

lemma EncodeRune_dash: "EncodeRune 0x2D = ''-''" and EncodeRune_dot: "EncodeRune 0x2E = ''.''"
  by (simp_all add: EncodeRune_def char_of_eq_iff)

lemma split_on_encode: "split_on CHR ''-'' (encode_runes a) = map encode_runes (split_on 0x2D a)"
proof (induction a)
  case (Cons r a)
  show ?case
  proof (cases "r = 0x2D")
    case True
    then have "EncodeRune r = ''-''" by (simp add: EncodeRune_dash)
    with True Cons.IH show ?thesis by simp
  next
    case False
    then have "CHR ''-'' \<notin> set (EncodeRune r)" using EncodeRune_ascii_byte [of "CHR ''-''" r] by auto
    with False Cons.IH show ?thesis
      by (cases "split_on 0x2D a") (simp_all add: split_on_prefix)
  qed
qed simp

definition initials :: "runtime \<Rightarrow> rune list \<Rightarrow> string" where
  "initials rt a = join_dash (map (\<lambda>p. EncodeRune (uc_upper rt (hd p)) @ ''.'') (split_on 0x2D a))"

definition initial_part :: "runtime \<Rightarrow> rune list \<times> string \<Rightarrow> bool" where
  "initial_part rt p \<longleftrightarrow>
     (case p of (a, b) \<Rightarrow>
        (\<exists>r. a = [r] \<and> \<not> isLetter rt r \<and> b = EncodeRune r) \<or>
        (\<exists>r. a = [r, 0x2E] \<and> isLetter rt r \<and> b = encode_runes a) \<or>
        ((\<forall>r \<in> set a. isLetter rt r \<or> r = 0x2D) \<and> [] \<notin> set (split_on 0x2D a) \<and> b = initials rt a))"

lemma join_dash_ne: "ps \<noteq> [] \<Longrightarrow> hd ps \<noteq> [] \<Longrightarrow> join_dash ps \<noteq> []"
  by (cases ps rule: join_dash.cases) auto

lemma initials_ne: "initials rt a \<noteq> []"
  unfolding initials_def by (rule join_dash_ne) (simp_all add: hd_map)

lemma initial_part_ne: "initial_part rt p \<Longrightarrow> fst p \<noteq> [] \<and> snd p \<noteq> []"
  by (auto simp: initial_part_def initials_ne split: prod.splits)

lemma ToUpper_EncodeRune: "valid_rune r \<Longrightarrow> ToUpper rt (EncodeRune r) = EncodeRune (uc_upper rt r)"
  using runes_encode [of "[r]"] by (simp add: ToUpper_def)

lemma writeInitialWord_encode:
  assumes "\<forall>r \<in> set a. valid_rune r" and "[] \<notin> set (split_on 0x2D a)"
  shows "writeInitialWord rt (encode_runes a) = initials rt a"
proof -
  have sub: "set p \<subseteq> set a" if "p \<in> set (split_on 0x2D a)" for p
    using that by (induction a arbitrary: p) (fastforce split: if_splits list.splits)+
  have "ToUpper rt (EncodeRune (fst (DecodeRune (encode_runes p)))) @ ''.'' =
      EncodeRune (uc_upper rt (hd p)) @ ''.''" if m: "p \<in> set (split_on 0x2D a)" for p
  proof -
    obtain r p' where p: "p = r # p'" using m assms(2) by (metis neq_Nil_conv)
    then have "valid_rune r" using sub [OF m] assms(1) by auto
    then show ?thesis by (simp add: p DecodeRune_EncodeRune ToUpper_EncodeRune)
  qed
  then show ?thesis
    unfolding writeInitialWord_def initials_def split_on_encode by (simp add: comp_def cong: map_cong)
qed

context go_runtime
begin

lemma letter_not_special: "\<not> isLetter rt 0x2D" "\<not> isLetter rt 0x2E"
  using letter_ascii [of "0x2D"] letter_ascii [of "0x2E"] by (simp_all add: isLetter_def)

lemma initial_word_part:
  assumes ne: "s \<noteq> []" and d: "DecodeRune s = (r, sz)" and r: "isLetter rt r"
  defines "n \<equiv> initial_word_len rt s"
  shows "\<exists>a. runes s = a @ runes (drop n s) \<and> (stops (isLetter rt) (drop n s) \<or> \<not> isLetter rt (last a)) \<and>
    initial_part rt (a, if isInitial rt (take n s) then take n s else writeInitialWord rt (take n s))"
proof -
  let ?k = "scanLetterWord rt s"
  obtain ws where ws: "scans (\<lambda>w. isLetter rt w \<or> w = 0x2D) s ?k ws" and wne: "ws \<noteq> []"
    using scanLetterWord_scans [of s] ne d r by (metis fst_conv)
  have rc: "RuneCount (take ?k s) = length ws" using scans_runes_take [OF ws] by (simp add: RuneCount_def)
  have hd: "hd ws = r" using ws wne runes_step [OF ne d] by (cases ws) (auto simp: scans_def)
  show ?thesis
  proof (cases "length ws = 1 \<and> ?k < length s \<and> s ! ?k = CHR ''.''")
    case True
    then have w: "ws = [r]" using hd by (cases ws) auto
    have n: "n = ?k + 1" using True rc by (simp add: n_def initial_word_len_def Let_def)
    have dot: "drop ?k s = ''.'' @ drop n s" using True n Cons_nth_drop_Suc [of ?k s] by simp
    have v: "valid_rune r" using ws w by (simp add: scans_def)
    have word: "take n s = encode_runes [r, 0x2E]"
      using True ws w by (simp add: n take_Suc_conv_app_nth scans_def EncodeRune_dot)
    have "runes s = [r, 0x2E] @ runes (drop n s)"
      using ws w runes_EncodeRune [of "0x2E" "drop n s"]
      by (simp add: scans_def dot EncodeRune_dot valid_rune_def)
    moreover have "runes (take n s) = [r, 0x2E]"
      unfolding word using v by (intro runes_encode) (simp add: valid_rune_def)
    then have "isInitial rt (take n s)" using r by (simp add: isInitial_def)
    ultimately show ?thesis using r word letter_not_special(2) by (intro exI [of _ "[r, 0x2E]"]) (simp add: initial_part_def)
  next
    case False
    then have n: "n = ?k" using rc by (auto simp: n_def initial_word_len_def Let_def)
    have word: "take n s = encode_runes ws" "runes (take n s) = ws"
      using ws scans_runes_take [OF ws] by (simp_all add: n scans_def)
    have "ws ! 1 \<noteq> 0x2E" if "length ws = 2"
      using that ws letter_not_special nth_mem [of 1 ws] by (fastforce simp: scans_def)
    then have ni: "\<not> isInitial rt (take n s)" by (auto simp: isInitial_def word(2) Let_def)
    have "[] \<notin> set (tl (split_on 0x2D ws))"
      using scan_hyphenated_groups [of "isLetter rt" s] error_no_letter letter_not_special(1) word(2)
      by (simp add: n scanLetterWord_def isLetter_def)
    then have groups: "[] \<notin> set (split_on 0x2D ws)"
      using hd wne r letter_not_special(1) by (cases ws) (auto split: list.splits)
    have "writeInitialWord rt (take n s) = initials rt ws"
      unfolding word(1) using ws groups by (intro writeInitialWord_encode) (auto simp: scans_def)
    moreover have "stops (isLetter rt) (drop n s)"
      using scan_hyphenated_stops [of "isLetter rt" s] by (simp add: n scanLetterWord_def)
    ultimately show ?thesis using ni ws groups
      by (intro exI [of _ ws]) (simp add: n scans_def initial_part_def)
  qed
qed

lemma maskInitials_parts:
  "\<exists>ps. maskInitials rt s = concat (map snd ps) \<and> concat (map fst ps) = runes s \<and>
    (\<forall>p \<in> set ps. initial_part rt p) \<and> maximal (isLetter rt) ps"
proof (induction "length s" arbitrary: s rule: less_induct)
  case less
  show ?case
  proof (cases "s = []")
    case True
    then show ?thesis by (intro exI [of _ "[]"]) (simp add: maskInitials.simps)
  next
    case ne: False
    obtain r sz where d: "DecodeRune s = (r, sz)" by fastforce
    obtain a b n where step: "maskInitials rt s = b @ maskInitials rt (drop n s)"
      "runes s = a @ runes (drop n s)" "initial_part rt (a, b)" "length s - n < length s"
      "stops (isLetter rt) (drop n s) \<or> \<not> isLetter rt (last a)"
    proof (cases "isLetter rt r")
      case False
      then have "maskInitials rt s = EncodeRune r @ maskInitials rt (drop sz s)"
        using ne d by (subst maskInitials.simps) simp
      then show thesis
        using that [of "EncodeRune r" sz "[r]"] False runes_step [OF ne d] decode_progress [OF d [symmetric] ne]
        by (simp add: initial_part_def)
    next
      case True
      let ?n = "initial_word_len rt s"
      let ?b = "if isInitial rt (take ?n s) then take ?n s else writeInitialWord rt (take ?n s)"
      have "maskInitials rt s = ?b @ maskInitials rt (drop ?n s)"
        using ne d True by (subst maskInitials.simps) (simp add: Let_def)
      then show thesis
        using that [of ?b ?n] initial_word_part [OF ne d True]
          initial_word_progress [OF d [symmetric] ne True] by blast
    qed
    obtain ps where "maskInitials rt (drop n s) = concat (map snd ps)"
      "concat (map fst ps) = runes (drop n s)" "\<forall>p \<in> set ps. initial_part rt p"
      and max: "maximal (isLetter rt) ps"
      using less [of "drop n s"] step(4) by auto
    moreover from this have "maximal (isLetter rt) ((a, b) # ps)"
      using step(5) by (intro maximal_Cons [of _ ps "drop n s"]) (auto dest: initial_part_ne)
    ultimately show ?thesis using step(1-3) by (intro exI [of _ "(a, b) # ps"]) simp
  qed
qed

end

subsection \<open>The strategy contract\<close>

lemma concat_parts_Nil_iff:
  assumes "\<forall>p \<in> set ps. fst p \<noteq> [] \<and> snd p \<noteq> []"
  shows "concat (map fst ps) = [] \<longleftrightarrow> concat (map snd ps) = []"
  using assms by (cases ps) auto

lemma run_part_ne: "ch \<noteq> [] \<Longrightarrow> run_part rt keep ch p \<Longrightarrow> fst p \<noteq> [] \<and> snd p \<noteq> []"
  by (auto simp: run_part_def first_only_def split: prod.splits if_splits)

lemma maskEmail_total:
  "\<exists>out. maskEmail v ch = Some out \<and> (out = [] \<longleftrightarrow> v = [])"
proof (cases "Index v ''@''")
  case (Some k)
  have "take k v = [] \<or> 1 \<le> RuneCount (take k v)"
    by (cases "runes (take k v)") (auto simp: RuneCount_def)
  then show ?thesis using Some by (auto simp: maskEmail_def Repeat_def Let_def)
qed (simp add: maskEmail_def)

context go_runtime
begin

lemma mask_runs_total:
  assumes "\<exists>ps. res = Some (concat (map snd ps)) \<and> concat (map fst ps) = runes v \<and>
    (\<forall>p \<in> set ps. run_part rt keep ch p) \<and> maximal (isLetter rt) ps"
  shows "\<exists>out. res = Some out \<and> (ch \<noteq> [] \<longrightarrow> (out = [] \<longleftrightarrow> v = []))"
  using assms concat_parts_Nil_iff run_part_ne by (metis runes_eq_Nil)

lemma maskInitials_Nil_iff: "maskInitials rt v = [] \<longleftrightarrow> v = []"
  using maskInitials_parts [of v] concat_parts_Nil_iff initial_part_ne by (metis runes_eq_Nil)

lemma partial_value_total:
  "\<exists>out. partial_value rt r v = Some out \<and> (pr_Char r \<noteq> [] \<longrightarrow> (out = [] \<longleftrightarrow> v = []))"
  using maskEmail_total [of v "pr_Char r"] mask_runs_total [OF maskDate_parts [of v "pr_Char r"]]
    mask_runs_total [OF maskWords_parts [of v "pr_Char r"]]
  by (auto simp: partial_value_def maskInitials_Nil_iff maskDigitsByRule_def maskDigits_Nil_iff)

lemma partial_mask_miss:
  assumes "memo_hit doc v = None"
  obtains out where "partial_mask_opt rt s v cat doc = Some (out, remember_opt doc v out)"
    and "rule_ok s \<Longrightarrow> out = [] \<longleftrightarrow> v = []"
proof -
  obtain out where "partial_value rt (rule_of s cat) v = Some out"
    and "pr_Char (rule_of s cat) \<noteq> [] \<longrightarrow> (out = [] \<longleftrightarrow> v = [])"
    using partial_value_total by blast
  with that [of out] assms rule_of_char [of s cat] show thesis by (simp add: partial_mask_opt_def)
qed

lemma partial_mask_contract:
  assumes "rule_ok s"
  shows "mask_strategy (partial_mask rt s)"
proof
  fix v :: string and cat doc
  assume "v \<noteq> ''''"
  then show "fst (partial_mask rt s v cat doc) \<noteq> ''''"
  proof (cases "memo_hit doc v")
    case None
    with \<open>v \<noteq> ''''\<close> assms show ?thesis
      by (elim partial_mask_miss [of doc v s cat]) (simp add: partial_mask_def)
  qed (simp add: partial_mask_def partial_mask_opt_def memo_hit_nonempty)
next
  fix d and v :: string and cat
  assume "memo_hit (Some d) v = None"
  then show "\<exists>m d'. partial_mask rt s v cat (Some d) = (m, Some d') \<and> doc_memo d' = (doc_memo d)(v \<mapsto> m)"
    by (elim partial_mask_miss [of "Some d" v s cat])
       (simp add: partial_mask_def remember_opt_def Remember_def)
qed (simp add: partial_mask_def partial_mask_opt_def)

end

sublocale go_runtime \<subseteq> partial: mask_strategy "partial_mask rt (NewPartial cfg)" for cfg
  by (rule partial_mask_contract) (rule NewPartial_ok)

subsection \<open>Properties\<close>

text \<open>
  The partial strategy never panics, whatever the value, the category, the rules and the
  document: no negative count reaches \<^verbatim>\<open>strings.Repeat\<close>. The replacement is the memo's, or a
  fresh one that is empty for the empty value only and that the document remembers.
\<close>

lemma partial_never_panics:
  assumes "go_runtime rt"
  shows "\<exists>out doc'. partial_mask_opt rt (NewPartial cfg) v cat doc = Some (out, doc') \<and>
    (out = '''' \<longleftrightarrow> v = '''' \<and> memo_hit doc v = None) \<and>
    doc' = (if memo_hit doc v = None then remember_opt doc v out else doc)"
proof (cases "memo_hit doc v")
  case None
  then show ?thesis
    using go_runtime.partial_mask_miss [OF assms None, of "NewPartial cfg" cat] NewPartial_ok by auto
next
  case (Some m)
  then show ?thesis using memo_hit_nonempty [OF Some] by (simp add: partial_mask_opt_def)
qed

theorem partial_never_panics_witness:
  "\<exists>out doc'. partial_mask_opt ru_runtime (NewPartial partial_yaml) ''1 may'' CatDate None = Some (out, doc') \<and>
    (out = '''' \<longleftrightarrow> ''1 may'' = '''' \<and> memo_hit None ''1 may'' = None) \<and>
    doc' = (if memo_hit None ''1 may'' = None then remember_opt None ''1 may'' out else None)"
  by (rule partial_never_panics [OF ru.go_runtime_axioms])

text \<open>
  C34. What the word and the date modes show. The value is cut into its digits, its maximal runs of
  letters and its other runes: a digit becomes the mask character, a run of letters becomes its
  first letter followed by one mask character per further letter, everything else is copied. Only
  the word mode keeps some runs whole, the service words.
\<close>

theorem maskWords_maskDate_hide:
  assumes "go_runtime rt"
  shows "(\<exists>ps. maskWords rt v ch = Some (concat (map snd ps)) \<and> concat (map fst ps) = runes v \<and>
      (\<forall>p \<in> set ps. run_part rt (\<lambda>a. ToLower rt (encode_runes a) \<in> set serviceWords) ch p) \<and>
      maximal (isLetter rt) ps) \<and>
    (\<exists>ps. maskDate rt v ch = Some (concat (map snd ps)) \<and> concat (map fst ps) = runes v \<and>
      (\<forall>p \<in> set ps. run_part rt (\<lambda>a. False) ch p) \<and> maximal (isLetter rt) ps)"
  using go_runtime.maskWords_parts [OF assms] go_runtime.maskDate_parts [OF assms] by blast

theorem maskWords_maskDate_hide_witness:
  "\<exists>ps. maskDate ru_runtime ''1 may'' ''*'' = Some (concat (map snd ps)) \<and>
     concat (map fst ps) = runes ''1 may''"
  using maskWords_maskDate_hide [OF ru.go_runtime_axioms, of "''1 may''" "''*''"] by blast

text \<open>
  What the initials mode shows: every word of letters and inner hyphens becomes the upper-case
  first letter and a dot of each of its hyphen-separated groups, none of which is empty; an initial
  with its dot and every rune outside a word is copied.
\<close>

lemma maskInitials_hides:
  assumes "go_runtime rt"
  shows "\<exists>ps. maskInitials rt v = concat (map snd ps) \<and> concat (map fst ps) = runes v \<and>
    (\<forall>p \<in> set ps. initial_part rt p) \<and> maximal (isLetter rt) ps"
  by (rule go_runtime.maskInitials_parts [OF assms])

theorem maskInitials_hides_witness:
  "\<exists>ps. maskInitials ru_runtime ''Anna-Maria B.'' = concat (map snd ps) \<and>
     concat (map fst ps) = runes ''Anna-Maria B.'' \<and> (\<forall>p \<in> set ps. initial_part ru_runtime p) \<and>
     maximal (isLetter ru_runtime) ps"
  by (rule maskInitials_hides [OF ru.go_runtime_axioms])

text \<open>
  A one-letter local part makes the e-mail mode a no-op: the address comes out whole.
\<close>

lemma maskEmail_short_local_unmasked: "maskEmail ''a@mail.ru'' ''*'' = Some ''a@mail.ru''"
  by (simp add: maskEmail_def HasPrefix_def Let_def Repeat_def RuneCount_def runes.simps EncodeRune_def
      char_of_eq_iff)

end
