(* ===== verification/Mask_Token.thy ===== *)
theory Mask_Token
  imports Mask_Core
begin

text \<open>
  The token strategy (\<^verbatim>\<open>internal/mask/token.go\<close>): a value becomes \<^verbatim>\<open>[CATEGORY_N]\<close> with \<open>N\<close> the ordinal
  of the value among the values of its category in the document. The theory also holds the
  witnesses of the properties of \<open>Mask_Core\<close>, which need a concrete strategy.
\<close>

text \<open>\<^verbatim>\<open>%d\<close> of a non-negative integer.\<close>

fun decimal :: "nat \<Rightarrow> string" where
  "decimal n = (if n < 10 then [char_of (0x30 + n)]
                else decimal (n div 10) @ [char_of (0x30 + n mod 10)])"

declare decimal.simps [simp del]

definition token_of :: "runtime \<Rightarrow> category \<Rightarrow> nat \<Rightarrow> string" where
  "token_of rt cat n = ''['' @ ToUpper rt cat @ ''_'' @ decimal n @ '']''"

text \<open>\<^verbatim>\<open>doc.Next(cat)\<close> on a document that may be nil: the number is then zero.\<close>

definition next_opt :: "DocState option \<Rightarrow> category \<Rightarrow> nat \<times> DocState option" where
  "next_opt doc cat =
     (case doc of
        None \<Rightarrow> (0, None)
      | Some d \<Rightarrow> (let (n, d') = Next d cat in (n, Some d')))"

definition token_mask :: "runtime \<Rightarrow> mask_fun" where
  "token_mask rt value cat doc =
     (case memo_hit doc value of
        Some m \<Rightarrow> (m, doc)
      | None \<Rightarrow>
          let (n, doc') = next_opt doc cat;
              repl = token_of rt cat n
          in (repl, remember_opt doc' value repl))"

definition tokenStrategy :: "runtime \<Rightarrow> strategy" where
  "tokenStrategy rt = \<lparr> st_Name = ''token'', st_Mask = token_mask rt \<rparr>"

subsection \<open>Decimal numerals\<close>

abbreviation digit_char :: "char \<Rightarrow> bool" where
  "digit_char c \<equiv> ascii_digit (of_char c)"

lemma decimal_digits: "c \<in> set (decimal n) \<Longrightarrow> digit_char c"
proof (induction n rule: decimal.induct)
  case (1 n)
  show ?case
  proof (cases "n < 10")
    case True
    with "1.prems" show ?thesis by (auto simp: decimal.simps [of n])
  next
    case False
    have "0x30 + n mod 10 < 256" by (rule le_less_trans [of _ "0x30 + 10"]) simp_all
    then have "digit_char (char_of (0x30 + n mod 10))" by simp
    moreover have "c \<in> set (decimal (n div 10)) \<or> c = char_of (0x30 + n mod 10)"
      using "1.prems" False by (auto simp: decimal.simps [of n])
    ultimately show ?thesis using "1.IH" [OF False] by blast
  qed
qed

lemma decimal_nonempty [simp]: "decimal n \<noteq> ''''"
  by (subst decimal.simps) simp

lemma decimal_last: "of_char (last (decimal n)) = (0x30 + n mod 10 :: nat)"
proof -
  have "0x30 + n mod 10 < 256" by (rule le_less_trans [of _ "0x30 + 10"]) simp_all
  then show ?thesis by (subst decimal.simps) auto
qed

lemma decimal_inj: "decimal m = decimal n \<Longrightarrow> m = n"
proof (induction m arbitrary: n rule: decimal.induct)
  case (1 m)
  have r: "m mod 10 = n mod 10" using decimal_last [of m] decimal_last [of n] "1.prems" by simp
  have len: "length (decimal k) = 1 \<longleftrightarrow> k < 10" for k
    by (subst decimal.simps) simp
  show ?case
  proof (cases "m < 10")
    case True
    then have "n < 10" using "1.prems" len by metis
    with True r show ?thesis by simp
  next
    case False
    then have n: "\<not> n < 10" using "1.prems" len by metis
    have "butlast (decimal k) = decimal (k div 10)" if "\<not> k < 10" for k
      using that by (simp add: decimal.simps [of k])
    then have "decimal (m div 10) = decimal (n div 10)" using False n "1.prems" by metis
    then have "m div 10 = n div 10" by (rule "1.IH" [OF False])
    with r show ?thesis by (metis div_mult_mod_eq)
  qed
qed

text \<open>A token determines the upper-cased category and the number.\<close>

lemma token_of_inj:
  assumes "token_of rt c m = token_of rt d n"
  shows "ToUpper rt c = ToUpper rt d \<and> m = n"
proof -
  have eq: "ToUpper rt c @ CHR ''_'' # decimal m = ToUpper rt d @ CHR ''_'' # decimal n"
    using assms by (simp add: token_of_def)
  have tw: "takeWhile (\<lambda>x. x \<noteq> CHR ''_'') (rev (u @ CHR ''_'' # decimal k)) = rev (decimal k)" for u k
  proof -
    have "takeWhile (\<lambda>x. x \<noteq> CHR ''_'') (rev (decimal k) @ CHR ''_'' # rev u) =
          rev (decimal k) @ takeWhile (\<lambda>x. x \<noteq> CHR ''_'') (CHR ''_'' # rev u)"
      by (rule takeWhile_append2) (use decimal_digits in fastforce)
    then show ?thesis by simp
  qed
  from tw [of "ToUpper rt c" m] tw [of "ToUpper rt d" n] eq have "rev (decimal m) = rev (decimal n)"
    by simp
  then have "m = n" by (simp add: decimal_inj)
  with eq show ?thesis by simp
qed

subsection \<open>The strategy contract\<close>

lemma token_mask_contract: "mask_strategy (token_mask rt)"
proof
  show "value \<noteq> '''' \<Longrightarrow> fst (token_mask rt value cat doc) \<noteq> ''''" for "value" cat doc
    by (auto simp: token_mask_def token_of_def memo_hit_nonempty Let_def split: option.splits prod.splits)
  show "memo_hit doc value = Some m \<Longrightarrow> token_mask rt value cat doc = (m, doc)" for doc "value" m cat
    by (simp add: token_mask_def)
  show "memo_hit (Some d) value = None \<Longrightarrow>
      \<exists>m d'. token_mask rt value cat (Some d) = (m, Some d') \<and> doc_memo d' = (doc_memo d)(value \<mapsto> m)"
    for d "value" cat
    by (auto simp: token_mask_def next_opt_def remember_opt_def Remember_def Next_def Let_def)
qed

interpretation token: mask_strategy "token_mask rt" for rt
  by (rule token_mask_contract)

subsection \<open>Distinct values get distinct tokens\<close>

text \<open>Category names are lower-case words joined by underscores.\<close>

definition lower_snake :: "string \<Rightarrow> bool" where
  "lower_snake s \<longleftrightarrow> (\<forall>c \<in> set s. ascii_lower (of_char c) \<or> c = CHR ''_'')"

lemma upper_snake_inj_nat:
  fixes x y :: nat
  assumes "0x61 \<le> x \<and> x \<le> 0x7A \<or> x = 0x5F" and "0x61 \<le> y \<and> y \<le> 0x7A \<or> y = 0x5F"
    and "(if 0x61 \<le> x \<and> x \<le> 0x7A then x - 0x20 else x) = (if 0x61 \<le> y \<and> y \<le> 0x7A then y - 0x20 else y)"
  shows "x = y"
  using assms by (auto split: if_splits)

context go_runtime
begin

lemma ToUpper_Cons_ascii:
  assumes "of_char c < (0x80 :: nat)"
  shows "ToUpper rt (c # s) = char_of (uc_upper rt (of_char c)) # ToUpper rt s"
proof -
  have "runes (c # s) = of_char c # runes s"
    using assms by (subst runes.simps) simp
  moreover have "uc_upper rt (of_char c) < 0x80"
    using upper_ascii [OF assms] assms by auto
  ultimately show ?thesis by (simp add: ToUpper_def EncodeRune_def)
qed

lemma upper_inj_snake:
  assumes c: "ascii_lower (of_char c) \<or> c = CHR ''_''" and d: "ascii_lower (of_char d) \<or> d = CHR ''_''"
    and eq: "char_of (uc_upper rt (of_char c)) = char_of (uc_upper rt (of_char d))"
  shows "c = d"
proof -
  define x y where "x = (of_char c :: nat)" and "y = (of_char d :: nat)"
  have x: "0x61 \<le> x \<and> x \<le> 0x7A \<or> x = 0x5F" and y: "0x61 \<le> y \<and> y \<le> 0x7A \<or> y = 0x5F"
    using c d by (auto simp: x_def y_def)
  have ux: "uc_upper rt x = (if 0x61 \<le> x \<and> x \<le> 0x7A then x - 0x20 else x)"
    and uy: "uc_upper rt y = (if 0x61 \<le> y \<and> y \<le> 0x7A then y - 0x20 else y)"
    using upper_ascii [of x] upper_ascii [of y] x y by auto
  have "(of_char (char_of (uc_upper rt x)) :: nat) = of_char (char_of (uc_upper rt y))"
    using eq by (simp add: x_def y_def)
  moreover have "uc_upper rt x < 256" "uc_upper rt y < 256" using ux uy x y by auto
  ultimately have "uc_upper rt x = uc_upper rt y" by simp
  then have "x = y" using upper_snake_inj_nat [OF x y] ux uy by simp
  then show ?thesis unfolding x_def y_def by (metis char_of_char)
qed

lemma ToUpper_inj_snake:
  "lower_snake s \<Longrightarrow> lower_snake t \<Longrightarrow> ToUpper rt s = ToUpper rt t \<Longrightarrow> s = t"
proof (induction s arbitrary: t)
  case Nil
  then have "ToUpper rt t = []" by (simp add: ToUpper_def)
  then show ?case by (simp add: ToUpper_def)
next
  case (Cons c s)
  have nil: "ToUpper rt x = [] \<longleftrightarrow> x = []" for x by (simp add: ToUpper_def)
  have "ToUpper rt t \<noteq> []" using Cons.prems(3) nil [of "c # s"] by simp
  then obtain d t' where t: "t = d # t'" by (cases t) (auto simp: ToUpper_def)
  have c: "ascii_lower (of_char c) \<or> c = CHR ''_''" and d: "ascii_lower (of_char d) \<or> d = CHR ''_''"
    using Cons.prems t by (auto simp: lower_snake_def)
  have lt: "(of_char x :: nat) < 0x80" if "ascii_lower (of_char x) \<or> x = CHR ''_''" for x :: char
    using that by auto
  have "char_of (uc_upper rt (of_char c)) = char_of (uc_upper rt (of_char d))" and "ToUpper rt s = ToUpper rt t'"
    using Cons.prems(3) t ToUpper_Cons_ascii [OF lt [OF c], of s] ToUpper_Cons_ascii [OF lt [OF d], of t'] by simp_all
  with Cons.IH [of t'] Cons.prems t upper_inj_snake [OF c d] show ?case
    by (simp add: lower_snake_def)
qed

end

definition seq_of :: "DocState \<Rightarrow> category \<Rightarrow> nat" where
  "seq_of d c = (case doc_seq d c of None \<Rightarrow> 0 | Some k \<Rightarrow> k)"

text \<open>Every remembered token was issued, and no token is remembered for two values.\<close>

definition tokens_issued :: "runtime \<Rightarrow> DocState \<Rightarrow> bool" where
  "tokens_issued rt d \<longleftrightarrow>
     (\<forall>v m. memo_hit (Some d) v = Some m \<longrightarrow>
        (\<exists>c n. lower_snake c \<and> m = token_of rt c n \<and> n \<le> seq_of d c)) \<and>
     (\<forall>v w m. memo_hit (Some d) v = Some m \<longrightarrow> memo_hit (Some d) w = Some m \<longrightarrow> v = w)"

lemma tokens_issued_new: "tokens_issued rt NewDocState"
  by (simp add: tokens_issued_def NewDocState_def memo_hit_def Memo_def)


lemma tokens_issued_step:
  assumes "go_runtime rt" and inv: "tokens_issued rt d" and c: "lower_snake c"
    and step: "token_mask rt v c (Some d) = (m, Some d')"
  shows "tokens_issued rt d'"
proof (cases "memo_hit (Some d) v")
  case (Some x)
  with step inv show ?thesis by (simp add: token_mask_def)
next
  case None
  define n where "n = Suc (seq_of d c)"
  have m: "m = token_of rt c n" and memo: "doc_memo d' = (doc_memo d)(v \<mapsto> m)"
    and sq: "doc_seq d' = (doc_seq d)(c \<mapsto> n)"
    using step None
    by (auto simp: token_mask_def next_opt_def remember_opt_def Remember_def Next_def Let_def n_def seq_of_def)
  have ne: "m \<noteq> ''''" by (simp add: m token_of_def)
  have hit: "memo_hit (Some d') w = (if w = v then Some m else memo_hit (Some d) w)" for w
    using memo_hit_upd [OF memo] ne by simp
  have sq': "seq_of d' e = (if e = c then n else seq_of d e)" for e
    by (simp add: seq_of_def sq)
  have fresh: "memo_hit (Some d) w \<noteq> Some m" for w
  proof
    assume "memo_hit (Some d) w = Some m"
    then obtain e k where e: "lower_snake e" "m = token_of rt e k" "k \<le> seq_of d e"
      using inv unfolding tokens_issued_def by blast
    then have "ToUpper rt c = ToUpper rt e" "n = k" using token_of_inj m by metis+
    then have "e = c" using go_runtime.ToUpper_inj_snake [OF assms(1) c e(1)] by simp
    with e(3) \<open>n = k\<close> show False by (simp add: n_def)
  qed
  have "\<exists>e k. lower_snake e \<and> x = token_of rt e k \<and> k \<le> seq_of d' e"
    if "memo_hit (Some d') w = Some x" for w x
  proof (cases "w = v")
    case True
    with that hit m c sq' show ?thesis by auto
  next
    case False
    with that hit have "memo_hit (Some d) w = Some x" by simp
    with inv obtain e k where "lower_snake e" "x = token_of rt e k" "k \<le> seq_of d e"
      unfolding tokens_issued_def by blast
    then show ?thesis using sq' by (intro exI [of _ e] exI [of _ k]) (auto simp: n_def)
  qed
  moreover have "w = u" if "memo_hit (Some d') w = Some x" "memo_hit (Some d') u = Some x" for w u x
    using that hit fresh inv by (auto simp: tokens_issued_def split: if_splits)
  ultimately show ?thesis unfolding tokens_issued_def by blast
qed

text \<open>
  C32. Tokens identify values: in a document masked with the token strategy, two replacements with
  the same token stand for the same original value, so a token that the language model moved,
  repeated or dropped still says which value it stands for.
\<close>

theorem token_identifies_value:
  assumes "go_runtime rt" and "\<forall>sp \<in> set spans. lower_snake (sp_Category sp)"
    and "Apply rt text spans (tokenStrategy rt) None = Some (masked, reps, doc')"
    and "r \<in> set reps" and "q \<in> set reps" and "rep_Masked r = rep_Masked q"
  shows "rep_Original r = rep_Original q"
proof -
  have c: "mask_strategy (st_Mask (tokenStrategy rt))"
    by (simp add: tokenStrategy_def token_mask_contract)
  obtain ys rest d' where
    a: "Apply rt text spans (tokenStrategy rt) None = Some (lay_masked ys @ rest, map snd ys, Some d')"
    and l: "lay_reps ys d'"
    by (rule Apply_layout [OF c])
  have "Apply rt text spans (tokenStrategy rt) (Some NewDocState) =
        Some (lay_masked ys @ rest, map snd ys, Some d')"
    using a by (simp add: Apply_def)
  from Apply_invariant [where I = "tokens_issued rt" and C = "{c. lower_snake c}",
      OF assms(1) c _ tokens_issued_new _ this]
  have "tokens_issued rt d'"
    using tokens_issued_step [OF assms(1)] assms(2) by (auto simp: tokenStrategy_def)
  moreover have "memo_hit (Some d') (rep_Original r) = Some (rep_Masked r)"
    "memo_hit (Some d') (rep_Original q) = Some (rep_Masked q)"
    using a assms(3-5) l by (auto simp: lay_reps_def)
  ultimately show ?thesis using assms(6) by (auto simp: tokens_issued_def)
qed

subsection \<open>Witnesses\<close>

text \<open>The text \<^verbatim>\<open>call 123, call 123\<close> with both numbers found, masked with tokens.\<close>

definition demo_text :: string where
  "demo_text = ''call 123, call 123''"

definition demo_spans :: "Span list" where
  "demo_spans = [demo_span 15 18 1, demo_span 5 8 1]"

definition demo_reps :: "Replacement list" where
  "demo_reps =
     [\<lparr> rep_Category = CatPhone, rep_Original = ''123'', rep_Masked = ''[PHONE_1]'',
        rep_Start = 5, rep_End = 14 \<rparr>,
      \<lparr> rep_Category = CatPhone, rep_Original = ''123'', rep_Masked = ''[PHONE_1]'',
        rep_Start = 21, rep_End = 30 \<rparr>]"

lemma token_phone: "token_of ru_runtime CatPhone 1 = ''[PHONE_1]''"
  by code_simp

lemma demo_apply:
  "\<exists>d. Apply ru_runtime demo_text demo_spans (tokenStrategy ru_runtime) None =
     Some (''call [PHONE_1], call [PHONE_1]'', demo_reps, d)"
proof -
  have srt: "sort_slice insertion_sort span_less demo_spans = [demo_span 5 8 1, demo_span 15 18 1]"
    by (simp add: demo_spans_def sort_slice_def insertion_sort_def span_less_def demo_span_def upt_rec)
  define d1 where "d1 = Remember (snd (Next NewDocState CatPhone)) ''123'' ''[PHONE_1]''"
  have m1: "token_mask ru_runtime ''123'' CatPhone (Some NewDocState) = (''[PHONE_1]'', Some d1)"
    using token_phone
    by (simp add: token_mask_def memo_hit_def Memo_def NewDocState_def next_opt_def Next_def Let_def
        remember_opt_def d1_def)
  have m2: "token_mask ru_runtime ''123'' CatPhone (Some d1) = (''[PHONE_1]'', Some d1)"
    by (simp add: token_mask_def memo_hit_def Memo_def d1_def Remember_def)
  have "Apply ru_runtime demo_text demo_spans (tokenStrategy ru_runtime) None =
      Some (''call [PHONE_1], call [PHONE_1]'', demo_reps, Some d1)"
    by (simp add: Apply_def srt demo_span_def demo_text_def slice_def tokenStrategy_def m1 m2
        demo_reps_def)
  then show ?thesis by blast
qed

theorem Apply_Restore_roundtrip_witness:
  "\<exists>masked reps doc'.
     Apply ru_runtime demo_text demo_spans (tokenStrategy ru_runtime) None = Some (masked, reps, doc') \<and>
     reps = demo_reps \<and> masked = ''call [PHONE_1], call [PHONE_1]'' \<and>
     Restore ru_runtime masked reps = Some (demo_text, 0)"
proof -
  have "mask_strategy (st_Mask (tokenStrategy ru_runtime))"
    by (simp add: tokenStrategy_def token_mask_contract)
  from Apply_Restore_roundtrip [OF ru.go_runtime_axioms this, of demo_text demo_spans None] demo_apply
  show ?thesis by fastforce
qed

theorem Restore_never_panics_witness:
  "\<exists>out misses. Restore ru_runtime ''x''
     [\<lparr> rep_Category = CatPhone, rep_Original = ''1'', rep_Masked = ''y'', rep_Start = -4, rep_End = 700 \<rparr>]
       = Some (out, misses) \<and> misses \<le> 1"
  using Restore_never_panics [OF ru.go_runtime_axioms, of "''x''"
      "[\<lparr> rep_Category = CatPhone, rep_Original = ''1'', rep_Masked = ''y'', rep_Start = -4, rep_End = 700 \<rparr>]"]
  by simp

theorem Restore_only_splices_witness:
  "\<exists>xs rest. ''[PHONE_1] only'' = lay_masked xs @ rest \<and> mset (map snd xs) \<subseteq># mset demo_reps \<and>
     Restore ru_runtime ''[PHONE_1] only'' demo_reps = Some (lay_orig xs @ rest, length demo_reps - length xs)"
  by (rule Restore_only_splices [OF ru.go_runtime_axioms]) (simp add: demo_reps_def)

theorem Apply_consistent_witness:
  "rep_Masked (demo_reps ! 0) = rep_Masked (demo_reps ! 1)"
proof -
  obtain d where a: "Apply ru_runtime demo_text demo_spans (tokenStrategy ru_runtime) None =
     Some (''call [PHONE_1], call [PHONE_1]'', demo_reps, d)"
    using demo_apply by blast
  have c: "mask_strategy (st_Mask (tokenStrategy ru_runtime))"
    by (simp add: tokenStrategy_def token_mask_contract)
  show ?thesis by (rule Apply_consistent [OF c a]) (simp_all add: demo_reps_def)
qed

theorem findUnclaimed_complete_witness:
  "\<exists>s \<le> 4. findUnclaimed ''ab_ab'' ''ab'' [\<lparr> cl_start = 0, cl_end = 2, cl_original = ''z'' \<rparr>] =
     Some (int s, int s + int (length ''ab'')) \<and> occurs_at ''ab_ab'' ''ab'' s \<and>
     \<not> overlapsAny [\<lparr> cl_start = 0, cl_end = 2, cl_original = ''z'' \<rparr>] (int s) (int s + int (length ''ab''))"
proof -
  have "occurs_at ''ab_ab'' ''ab'' 3" by (simp add: occurs_at_def HasPrefix_def)
  moreover have "\<not> overlapsAny [\<lparr> cl_start = 0, cl_end = 2, cl_original = ''z'' \<rparr>] (int 3) (int 3 + int (length ''ab''))"
    by (simp add: overlapsAny_def)
  ultimately obtain s where "s \<le> 3" "findUnclaimed ''ab_ab'' ''ab'' [\<lparr> cl_start = 0, cl_end = 2, cl_original = ''z'' \<rparr>] =
     Some (int s, int s + int (length ''ab''))" "occurs_at ''ab_ab'' ''ab'' s"
     "\<not> overlapsAny [\<lparr> cl_start = 0, cl_end = 2, cl_original = ''z'' \<rparr>] (int s) (int s + int (length ''ab''))"
    using findUnclaimed_complete [of "''ab''" "''ab_ab''" 3 "[\<lparr> cl_start = 0, cl_end = 2, cl_original = ''z'' \<rparr>]"]
    by (metis list.distinct(1))
  then show ?thesis by (intro exI [of _ s]) simp
qed

theorem token_identifies_value_witness:
  "rep_Original (demo_reps ! 0) = rep_Original (demo_reps ! 1)"
proof -
  obtain d where a: "Apply ru_runtime demo_text demo_spans (tokenStrategy ru_runtime) None =
     Some (''call [PHONE_1], call [PHONE_1]'', demo_reps, d)"
    using demo_apply by blast
  have c: "\<forall>sp \<in> set demo_spans. lower_snake (sp_Category sp)"
    by (simp add: demo_spans_def demo_span_def lower_snake_def CatPhone_def)
  show ?thesis
    by (rule token_identifies_value [OF ru.go_runtime_axioms c a]) (simp_all add: demo_reps_def)
qed

end
