(* ===== verification/Synth.thy ===== *)
theory Synth
  imports Validators Mask_Token "HOL-Library.Word"
begin

text \<open>
  Generation of fake values (\<^verbatim>\<open>internal/synth/synth.go\<close>), shared by the synthetic masking strategy and the
  dataset generator. The generator \<^verbatim>\<open>math/rand\<close> is an argument, a source of numbers below a bound; a computation that
  draws from it returns its value with the source's next state, or \<^term>\<open>None\<close> where the code would panic.
  Functions that package \<^verbatim>\<open>mask\<close> repeats under the same name have the suffix \<open>_synth\<close> here.
\<close>

unbundle bit_operations_syntax

subsection \<open>Random numbers\<close>

text \<open>\<^verbatim>\<open>rand.New(rand.NewSource(seed))\<close> and \<^verbatim>\<open>Intn\<close>.\<close>

record 'g rand_src =
  rand_New :: "int \<Rightarrow> 'g"
  rand_Intn :: "nat \<Rightarrow> 'g \<Rightarrow> nat \<times> 'g"

locale rand_source =
  fixes R :: "'g rand_src"
  assumes Intn_bound: "0 < n \<Longrightarrow> fst (rand_Intn R n g) < n"

type_synonym ('g, 'a) gen = "'g \<Rightarrow> ('a \<times> 'g) option"

definition gret :: "'a \<Rightarrow> ('g, 'a) gen" where
  "gret x = (\<lambda>g. Some (x, g))"

definition gbind :: "('g, 'a) gen \<Rightarrow> ('a \<Rightarrow> ('g, 'b) gen) \<Rightarrow> ('g, 'b) gen" where
  "gbind m f = (\<lambda>g. case m g of None \<Rightarrow> None | Some (x, g') \<Rightarrow> f x g')"

definition glift :: "'a option \<Rightarrow> ('g, 'a) gen" where
  "glift v = (\<lambda>g. map_option (\<lambda>x. (x, g)) v)"

text \<open>\<^verbatim>\<open>rng.Intn(n)\<close> panics for \<^verbatim>\<open>n <= 0\<close>.\<close>

definition Intn :: "'g rand_src \<Rightarrow> nat \<Rightarrow> ('g, nat) gen" where
  "Intn R n = (\<lambda>g. if n = 0 then None else Some (rand_Intn R n g))"

text \<open>\<^verbatim>\<open>xs[rng.Intn(len(xs))]\<close>.\<close>

definition pick :: "'g rand_src \<Rightarrow> 'a list \<Rightarrow> ('g, 'a) gen" where
  "pick R xs = gbind (Intn R (length xs)) (\<lambda>i. glift (if i < length xs then Some (xs ! i) else None))"

subsection \<open>Numerals\<close>

function itoa_loop :: "int \<Rightarrow> string \<Rightarrow> string" where
  "itoa_loop n b = (if 0 < n then itoa_loop (n div 10) (char_of (nat (0x30 + n mod 10)) # b) else b)"
  by pat_completeness auto
termination
  by (relation "measure (\<lambda>(n, b). nat n)") auto

declare itoa_loop.simps [simp del]

definition itoa_synth :: "int \<Rightarrow> string" where
  "itoa_synth n = (if n = 0 then ''0'' else itoa_loop n [])"

definition twoDigits_synth :: "int \<Rightarrow> string" where
  "twoDigits_synth n = (if n < 10 then ''0'' @ itoa_synth n else itoa_synth n)"

fun randDigits :: "'g rand_src \<Rightarrow> nat \<Rightarrow> ('g, string) gen" where
  "randDigits R 0 = gret ''''"
| "randDigits R (Suc n) =
     gbind (Intn R 10) (\<lambda>d.
       let d' = (if d > 9 then 0 else d) in
       gbind (randDigits R n) (\<lambda>s. gret (char_of (0x30 + d') # s)))"

subsection \<open>Numbers with check digits\<close>

definition luhnCheckDigit :: "string \<Rightarrow> char" where
  "luhnCheckDigit d = char_of (0x30 + (10 - luhn_loop (rev d) True 0 mod 10) mod 10)"

definition innControl :: "string \<Rightarrow> nat list \<Rightarrow> char" where
  "innControl d ws = char_of (0x30 + weighted d ws mod 11 mod 10)"

definition Phone :: "'g rand_src \<Rightarrow> ('g, string) gen" where
  "Phone R = gbind (randDigits R 9) (\<lambda>s. gret (''7'' @ ''9'' @ s))"

definition Card :: "'g rand_src \<Rightarrow> ('g, string) gen" where
  "Card R =
     gbind (Intn R 2) (\<lambda>k.
     gbind (randDigits R 2) (\<lambda>a.
       let bin = (if k = 0 then ''5'' else ''4'') @ a in
     gbind (randDigits R 12) (\<lambda>b.
       let body = bin @ b in gret (body @ [luhnCheckDigit body]))))"

definition INN :: "'g rand_src \<Rightarrow> ('g, string) gen" where
  "INN R =
     gbind (randDigits R 10) (\<lambda>base.
       let n11 = innControl base [7, 2, 4, 10, 3, 5, 9, 4, 6, 8];
           n12 = innControl (base @ [n11]) [3, 7, 2, 4, 10, 3, 5, 9, 4, 6, 8]
       in gret (base @ [n11] @ [n12]))"

definition INN10 :: "'g rand_src \<Rightarrow> ('g, string) gen" where
  "INN10 R = gbind (randDigits R 9) (\<lambda>base. gret (base @ [innControl base [2, 4, 10, 3, 5, 9, 4, 6, 8]]))"

definition SNILS :: "'g rand_src \<Rightarrow> ('g, string) gen" where
  "SNILS R =
     gbind (randDigits R 9) (\<lambda>base.
       let control = snils_control (weighted base [9, 8, 7, 6, 5, 4, 3, 2, 1])
       in gret (base @ twoDigits_synth (int control)))"

definition Passport :: "'g rand_src \<Rightarrow> ('g, string) gen" where
  "Passport R = gbind (randDigits R 3) (\<lambda>a. gbind (randDigits R 6) (\<lambda>b. gret (''4'' @ a @ b)))"

definition ForeignPassport :: "'g rand_src \<Rightarrow> ('g, string) gen" where
  "ForeignPassport R = gbind (randDigits R 1) (\<lambda>a. gbind (randDigits R 7) (\<lambda>b. gret (''7'' @ a @ b)))"

definition DriverLicense :: "'g rand_src \<Rightarrow> ('g, string) gen" where
  "DriverLicense R =
     gbind (Intn R 90) (\<lambda>a. gbind (Intn R 90) (\<lambda>b. gbind (randDigits R 6) (\<lambda>c.
       gret (twoDigits_synth (1 + int a) @ twoDigits_synth (1 + int b) @ c))))"

definition DivisionCode :: "'g rand_src \<Rightarrow> ('g, string) gen" where
  "DivisionCode R = gbind (randDigits R 3) (\<lambda>a. gbind (randDigits R 3) (\<lambda>b. gret (a @ ''-'' @ b)))"

definition CVV :: "'g rand_src \<Rightarrow> ('g, string) gen" where
  "CVV R = randDigits R 3"

definition PIN :: "'g rand_src \<Rightarrow> ('g, string) gen" where
  "PIN R = randDigits R 4"

subsection \<open>Dates\<close>

definition isLeapYear_synth :: "int \<Rightarrow> bool" where
  "isLeapYear_synth y \<longleftrightarrow> y mod 4 = 0 \<and> (y mod 100 \<noteq> 0 \<or> y mod 400 = 0)"

text \<open>\<^verbatim>\<open>dm[month-1]\<close> panics for a month out of range.\<close>

definition daysInMonth_synth :: "int \<Rightarrow> int \<Rightarrow> int option" where
  "daysInMonth_synth year month =
     (if month = 2 \<and> isLeapYear_synth year then Some 29
      else if 1 \<le> month \<and> month \<le> 12
      then Some ([31, 28, 31, 30, 31, 30, 31, 31, 30, 31, 30, 31] ! nat (month - 1)) else None)"

text \<open>The draw of a date shared by the generators of dates: year, month and day.\<close>

definition draw_date :: "'g rand_src \<Rightarrow> (int \<Rightarrow> int \<Rightarrow> int option) \<Rightarrow> ('g, int \<times> int \<times> int) gen" where
  "draw_date R dmon =
     gbind (Intn R 56) (\<lambda>y.
     gbind (Intn R 12) (\<lambda>m.
       let year = 1950 + int y; month = 1 + int m in
     gbind (glift (dmon year month)) (\<lambda>k.
     gbind (Intn R (nat k)) (\<lambda>d. gret (year, month, 1 + int d)))))"

definition monthGenitiveList :: "string list" where
  "monthGenitiveList =
    [encode_runes [0x44f, 0x43d, 0x432, 0x430, 0x440, 0x44f] \<comment> \<open>yanvarya\<close>,
     encode_runes [0x444, 0x435, 0x432, 0x440, 0x430, 0x43b, 0x44f] \<comment> \<open>fevralya\<close>,
     encode_runes [0x43c, 0x430, 0x440, 0x442, 0x430] \<comment> \<open>marta\<close>,
     encode_runes [0x430, 0x43f, 0x440, 0x435, 0x43b, 0x44f] \<comment> \<open>aprelya\<close>,
     encode_runes [0x43c, 0x430, 0x44f] \<comment> \<open>maya\<close>,
     encode_runes [0x438, 0x44e, 0x43d, 0x44f] \<comment> \<open>iyunya\<close>,
     encode_runes [0x438, 0x44e, 0x43b, 0x44f] \<comment> \<open>iyulya\<close>,
     encode_runes [0x430, 0x432, 0x433, 0x443, 0x441, 0x442, 0x430] \<comment> \<open>avgusta\<close>,
     encode_runes [0x441, 0x435, 0x43d, 0x442, 0x44f, 0x431, 0x440, 0x44f] \<comment> \<open>sentyabrya\<close>,
     encode_runes [0x43e, 0x43a, 0x442, 0x44f, 0x431, 0x440, 0x44f] \<comment> \<open>oktyabrya\<close>,
     encode_runes [0x43d, 0x43e, 0x44f, 0x431, 0x440, 0x44f] \<comment> \<open>noyabrya\<close>,
     encode_runes [0x434, 0x435, 0x43a, 0x430, 0x431, 0x440, 0x44f] \<comment> \<open>dekabrya\<close>]"

definition monthGenitive :: "int \<Rightarrow> string" where
  "monthGenitive m = (if m < 1 \<or> m > 12 then '''' else monthGenitiveList ! nat (m - 1))"

definition Date :: "'g rand_src \<Rightarrow> ('g, string) gen" where
  "Date R = gbind (draw_date R daysInMonth_synth) (\<lambda>(year, month, day).
     gret (twoDigits_synth day @ ''.'' @ twoDigits_synth month @ itoa_synth year))"

definition DateWord :: "'g rand_src \<Rightarrow> ('g, string) gen" where
  "DateWord R = gbind (draw_date R daysInMonth_synth) (\<lambda>(year, month, day).
     gret (itoa_synth day @ '' '' @ monthGenitive month @ '' '' @ itoa_synth year @ '' '' @ encode_runes [0x433, 0x43e, 0x434, 0x430] \<comment> \<open>goda\<close>))"

subsection \<open>Mail addresses\<close>

definition fnv64a :: "64 word \<Rightarrow> string \<Rightarrow> 64 word" where
  "fnv64a h s = foldl (\<lambda>h c. (h XOR of_nat (of_char c)) * 1099511628211) h s"

definition fnv64a_offset :: "64 word" where
  "fnv64a_offset = 14695981039346656037"

definition hexdigits :: string where
  "hexdigits = ''0123456789abcdef''"

fun hex_loop :: "nat \<Rightarrow> 64 word \<Rightarrow> string" where
  "hex_loop 0 h = ''''"
| "hex_loop (Suc k) h = (hexdigits ! unat (h AND 0xf)) # hex_loop k (drop_bit 4 h)"

definition HashEmail :: "string \<Rightarrow> string" where
  "HashEmail v = ''user'' @ hex_loop 6 (fnv64a fnv64a_offset v) @ ''@example.com''"

definition Email :: "'g rand_src \<Rightarrow> ('g, string) gen" where
  "Email R =
     gbind (randDigits R 6) (\<lambda>user.
     gbind (pick R [''mail.ru'', ''yandex.ru'', ''gmail.com'', ''example.com'', ''bank.ru'']) (\<lambda>dom.
       gret (''user'' @ user @ ''@'' @ dom)))"

subsection \<open>Names\<close>

definition sufOv :: string where
  "sufOv = encode_runes [0x43e, 0x432] \<comment> \<open>ov\<close>"

definition sufEv :: string where
  "sufEv = encode_runes [0x435, 0x432] \<comment> \<open>ev\<close>"

definition sufYov :: string where
  "sufYov = encode_runes [0x451, 0x432] \<comment> \<open>yov\<close>"

definition sufIn :: string where
  "sufIn = encode_runes [0x438, 0x43d] \<comment> \<open>in\<close>"

definition sufYn :: string where
  "sufYn = encode_runes [0x44b, 0x43d] \<comment> \<open>yn\<close>"

definition sufIya :: string where
  "sufIya = encode_runes [0x438, 0x44f] \<comment> \<open>iya\<close>"

definition sufYa :: string where
  "sufYa = encode_runes [0x44c, 0x44f] \<comment> \<open>ya\<close>"

definition sufEy :: string where
  "sufEy = encode_runes [0x435, 0x439] \<comment> \<open>ey\<close>"

definition sufIch :: string where
  "sufIch = encode_runes [0x438, 0x447] \<comment> \<open>ich\<close>"

record Dict =
  names :: "string list"
  surnames :: "string list"
  patrM :: "string list"
  patrF :: "string list"

text \<open>The embedded files are a function from path to content.\<close>

definition readDict :: "(string \<Rightarrow> string option) \<Rightarrow> string \<Rightarrow> string list" where
  "readDict fs path =
     (case fs path of
        None \<Rightarrow> []
      | Some d \<Rightarrow> filter (\<lambda>l. l \<noteq> '''') (map TrimSpace (split_on CHR 0x0A d)))"

definition LoadDict :: "(string \<Rightarrow> string option) \<Rightarrow> Dict" where
  "LoadDict fs =
     \<lparr> names = readDict fs ''dict/first_names.txt'', surnames = readDict fs ''dict/surnames.txt'',
       patrM =
    [encode_runes [0x410, 0x43b, 0x435, 0x43a, 0x441, 0x430, 0x43d, 0x434, 0x440, 0x43e, 0x432, 0x438, 0x447] \<comment> \<open>Aleksandrovich\<close>,
     encode_runes [0x410, 0x43d, 0x434, 0x440, 0x435, 0x435, 0x432, 0x438, 0x447] \<comment> \<open>Andreevich\<close>,
     encode_runes [0x411, 0x43e, 0x440, 0x438, 0x441, 0x43e, 0x432, 0x438, 0x447] \<comment> \<open>Borisovich\<close>,
     encode_runes [0x412, 0x430, 0x441, 0x438, 0x43b, 0x44c, 0x435, 0x432, 0x438, 0x447] \<comment> \<open>Vasilevich\<close>,
     encode_runes [0x412, 0x438, 0x43a, 0x442, 0x43e, 0x440, 0x43e, 0x432, 0x438, 0x447] \<comment> \<open>Viktorovich\<close>,
     encode_runes [0x412, 0x43b, 0x430, 0x434, 0x438, 0x43c, 0x438, 0x440, 0x43e, 0x432, 0x438, 0x447] \<comment> \<open>Vladimirovich\<close>,
     encode_runes [0x414, 0x43c, 0x438, 0x442, 0x440, 0x438, 0x435, 0x432, 0x438, 0x447] \<comment> \<open>Dmitrievich\<close>,
     encode_runes [0x415, 0x432, 0x433, 0x435, 0x43d, 0x44c, 0x435, 0x432, 0x438, 0x447] \<comment> \<open>Evgenevich\<close>,
     encode_runes [0x418, 0x432, 0x430, 0x43d, 0x43e, 0x432, 0x438, 0x447] \<comment> \<open>Ivanovich\<close>,
     encode_runes [0x418, 0x433, 0x43e, 0x440, 0x435, 0x432, 0x438, 0x447] \<comment> \<open>Igorevich\<close>,
     encode_runes [0x41a, 0x43e, 0x43d, 0x441, 0x442, 0x430, 0x43d, 0x442, 0x438, 0x43d, 0x43e, 0x432, 0x438, 0x447] \<comment> \<open>Konstantinovich\<close>,
     encode_runes [0x41c, 0x438, 0x445, 0x430, 0x439, 0x43b, 0x43e, 0x432, 0x438, 0x447] \<comment> \<open>Mikhaylovich\<close>,
     encode_runes [0x41d, 0x438, 0x43a, 0x43e, 0x43b, 0x430, 0x435, 0x432, 0x438, 0x447] \<comment> \<open>Nikolaevich\<close>,
     encode_runes [0x41e, 0x43b, 0x435, 0x433, 0x43e, 0x432, 0x438, 0x447] \<comment> \<open>Olegovich\<close>,
     encode_runes [0x41f, 0x430, 0x432, 0x43b, 0x43e, 0x432, 0x438, 0x447] \<comment> \<open>Pavlovich\<close>,
     encode_runes [0x41f, 0x435, 0x442, 0x440, 0x43e, 0x432, 0x438, 0x447] \<comment> \<open>Petrovich\<close>,
     encode_runes [0x421, 0x435, 0x440, 0x433, 0x435, 0x435, 0x432, 0x438, 0x447] \<comment> \<open>Sergeevich\<close>,
     encode_runes [0x424, 0x451, 0x434, 0x43e, 0x440, 0x43e, 0x432, 0x438, 0x447] \<comment> \<open>Fyodorovich\<close>,
     encode_runes [0x42e, 0x440, 0x44c, 0x435, 0x432, 0x438, 0x447] \<comment> \<open>Yurevich\<close>],
       patrF =
    [encode_runes [0x410, 0x43b, 0x435, 0x43a, 0x441, 0x430, 0x43d, 0x434, 0x440, 0x43e, 0x432, 0x43d, 0x430] \<comment> \<open>Aleksandrovna\<close>,
     encode_runes [0x410, 0x43d, 0x434, 0x440, 0x435, 0x435, 0x432, 0x43d, 0x430] \<comment> \<open>Andreevna\<close>,
     encode_runes [0x411, 0x43e, 0x440, 0x438, 0x441, 0x43e, 0x432, 0x43d, 0x430] \<comment> \<open>Borisovna\<close>,
     encode_runes [0x412, 0x430, 0x441, 0x438, 0x43b, 0x44c, 0x435, 0x432, 0x43d, 0x430] \<comment> \<open>Vasilevna\<close>,
     encode_runes [0x412, 0x438, 0x43a, 0x442, 0x43e, 0x440, 0x43e, 0x432, 0x43d, 0x430] \<comment> \<open>Viktorovna\<close>,
     encode_runes [0x412, 0x43b, 0x430, 0x434, 0x438, 0x43c, 0x438, 0x440, 0x43e, 0x432, 0x43d, 0x430] \<comment> \<open>Vladimirovna\<close>,
     encode_runes [0x414, 0x43c, 0x438, 0x442, 0x440, 0x438, 0x435, 0x432, 0x43d, 0x430] \<comment> \<open>Dmitrievna\<close>,
     encode_runes [0x415, 0x432, 0x433, 0x435, 0x43d, 0x44c, 0x435, 0x432, 0x43d, 0x430] \<comment> \<open>Evgenevna\<close>,
     encode_runes [0x418, 0x432, 0x430, 0x43d, 0x43e, 0x432, 0x43d, 0x430] \<comment> \<open>Ivanovna\<close>,
     encode_runes [0x418, 0x433, 0x43e, 0x440, 0x435, 0x432, 0x43d, 0x430] \<comment> \<open>Igorevna\<close>,
     encode_runes [0x41a, 0x43e, 0x43d, 0x441, 0x442, 0x430, 0x43d, 0x442, 0x438, 0x43d, 0x43e, 0x432, 0x43d, 0x430] \<comment> \<open>Konstantinovna\<close>,
     encode_runes [0x41c, 0x438, 0x445, 0x430, 0x439, 0x43b, 0x43e, 0x432, 0x43d, 0x430] \<comment> \<open>Mikhaylovna\<close>,
     encode_runes [0x41d, 0x438, 0x43a, 0x43e, 0x43b, 0x430, 0x435, 0x432, 0x43d, 0x430] \<comment> \<open>Nikolaevna\<close>,
     encode_runes [0x41e, 0x43b, 0x435, 0x433, 0x43e, 0x432, 0x43d, 0x430] \<comment> \<open>Olegovna\<close>,
     encode_runes [0x41f, 0x430, 0x432, 0x43b, 0x43e, 0x432, 0x43d, 0x430] \<comment> \<open>Pavlovna\<close>,
     encode_runes [0x41f, 0x435, 0x442, 0x440, 0x43e, 0x432, 0x43d, 0x430] \<comment> \<open>Petrovna\<close>,
     encode_runes [0x421, 0x435, 0x440, 0x433, 0x435, 0x435, 0x432, 0x43d, 0x430] \<comment> \<open>Sergeevna\<close>,
     encode_runes [0x424, 0x451, 0x434, 0x43e, 0x440, 0x43e, 0x432, 0x43d, 0x430] \<comment> \<open>Fyodorovna\<close>,
     encode_runes [0x42e, 0x440, 0x44c, 0x435, 0x432, 0x43d, 0x430] \<comment> \<open>Yurevna\<close>] \<rparr>"

definition capitalize_synth :: "runtime \<Rightarrow> string \<Rightarrow> string" where
  "capitalize_synth rt s =
     (if s = '''' then s
      else let (first, n) = DecodeRune s in ToUpper rt (EncodeRune first) @ drop n s)"

definition isFemaleName_synth :: "runtime \<Rightarrow> string \<Rightarrow> bool" where
  "isFemaleName_synth rt name =
     (let lower = ToLower rt name in
      list_ex (HasSuffix lower) [encode_runes [0x430] \<comment> \<open>a\<close>, encode_runes [0x44f] \<comment> \<open>ya\<close>, sufIya, sufYa])"

text \<open>The first suffix of a list that a string has.\<close>

definition first_suffix :: "string \<Rightarrow> string list \<Rightarrow> string option" where
  "first_suffix lower sufs = find (HasSuffix lower) sufs"

definition feminize_synth :: "runtime \<Rightarrow> string \<Rightarrow> string option" where
  "feminize_synth rt s =
     (case first_suffix (ToLower rt s) [sufOv, sufEv, sufYov, sufIn, sufYn] of
        None \<Rightarrow> Some s
      | Some suf \<Rightarrow> do { p \<leftarrow> slice_to s (int (length s) - int (length suf)); Some (p @ encode_runes [0x430] \<comment> \<open>a\<close>) })"

definition genitiveSurname :: "runtime \<Rightarrow> string \<Rightarrow> bool \<Rightarrow> string option" where
  "genitiveSurname rt s female =
     (let lower = ToLower rt s in
      if female then
        (case first_suffix lower [encode_runes [0x43e, 0x432, 0x430] \<comment> \<open>ova\<close>, encode_runes [0x435, 0x432, 0x430] \<comment> \<open>eva\<close>, encode_runes [0x451, 0x432, 0x430] \<comment> \<open>yova\<close>, encode_runes [0x438, 0x43d, 0x430] \<comment> \<open>ina\<close>, encode_runes [0x44b, 0x43d, 0x430] \<comment> \<open>yna\<close>] of
           None \<Rightarrow> Some s
         | Some _ \<Rightarrow> do { p \<leftarrow> slice_to s (int (length s) - 1); Some (p @ encode_runes [0x43e, 0x439] \<comment> \<open>oy\<close>) })
      else
        (case first_suffix lower [sufOv, sufEv, sufYov, sufIn, sufYn] of
           None \<Rightarrow> Some s
         | Some _ \<Rightarrow> Some (s @ encode_runes [0x430] \<comment> \<open>a\<close>)))"

text \<open>\<^verbatim>\<open>replaceSuffix\<close>: the outer option is a panic, the inner one the flag.\<close>

definition replaceSuffix :: "string \<Rightarrow> string \<Rightarrow> string list \<Rightarrow> string \<Rightarrow> int \<Rightarrow> string option option" where
  "replaceSuffix s lower suffixes repl drp =
     (case first_suffix lower suffixes of
        None \<Rightarrow> Some None
      | Some _ \<Rightarrow> do { p \<leftarrow> slice_to s (int (length s) - drp); Some (Some (p @ repl)) })"

definition genitiveName :: "runtime \<Rightarrow> string \<Rightarrow> bool \<Rightarrow> string option" where
  "genitiveName rt s female =
     (let lower = ToLower rt s in
      if female then
        do { a \<leftarrow> replaceSuffix s lower [sufIya, sufYa] (encode_runes [0x438] \<comment> \<open>i\<close>) 1;
             case a of Some r \<Rightarrow> Some r
             | None \<Rightarrow> do { b \<leftarrow> replaceSuffix s lower [encode_runes [0x430] \<comment> \<open>a\<close>, encode_runes [0x44f] \<comment> \<open>ya\<close>] (encode_runes [0x44b] \<comment> \<open>y\<close>) 1;
                            Some (case b of Some r \<Rightarrow> r | None \<Rightarrow> s) } }
      else
        do { a \<leftarrow> replaceSuffix s lower [encode_runes [0x438, 0x439] \<comment> \<open>iy\<close>, sufEy] (encode_runes [0x44f] \<comment> \<open>ya\<close>) 2;
             case a of Some r \<Rightarrow> Some r
             | None \<Rightarrow> do { b \<leftarrow> replaceSuffix s lower [encode_runes [0x439] \<comment> \<open>y\<close>] (encode_runes [0x44f] \<comment> \<open>ya\<close>) 1;
                            Some (case b of Some r \<Rightarrow> r | None \<Rightarrow> s) } })"

definition genitivePatr :: "runtime \<Rightarrow> string \<Rightarrow> string" where
  "genitivePatr rt p =
     (let lower = ToLower rt p in
      if list_ex (HasSuffix lower) [encode_runes [0x43e, 0x432, 0x43d, 0x430] \<comment> \<open>ovna\<close>, encode_runes [0x435, 0x432, 0x43d, 0x430] \<comment> \<open>evna\<close>, encode_runes [0x438, 0x447, 0x43d, 0x430] \<comment> \<open>ichna\<close>, encode_runes [0x438, 0x43d, 0x438, 0x447, 0x43d, 0x430] \<comment> \<open>inichna\<close>] then p @ encode_runes [0x44b] \<comment> \<open>y\<close>
      else if list_ex (HasSuffix lower) [encode_runes [0x43e, 0x432, 0x438, 0x447] \<comment> \<open>ovich\<close>, encode_runes [0x435, 0x432, 0x438, 0x447] \<comment> \<open>evich\<close>, sufIch] then p @ encode_runes [0x430] \<comment> \<open>a\<close>
      else p)"

text \<open>The draw of a name shared by \<^verbatim>\<open>FullName\<close> and \<^verbatim>\<open>FullNameGenitive\<close>: surname, first name, patronymic, gender.\<close>

definition draw_name :: "runtime \<Rightarrow> 'g rand_src \<Rightarrow> Dict \<Rightarrow> ('g, string \<times> string \<times> string \<times> bool) gen" where
  "draw_name rt R d =
     gbind (pick R (names d)) (\<lambda>first.
     gbind (pick R (surnames d)) (\<lambda>surname.
     gbind (pick R (patrM d)) (\<lambda>patr.
       if isFemaleName_synth rt first
       then gbind (glift (feminize_synth rt surname)) (\<lambda>fem.
            gbind (pick R (patrF d)) (\<lambda>fpatr. gret (fem, first, fpatr, True)))
       else gret (surname, first, patr, False))))"

definition FullName :: "runtime \<Rightarrow> 'g rand_src \<Rightarrow> Dict \<Rightarrow> ('g, string) gen" where
  "FullName rt R d = gbind (draw_name rt R d) (\<lambda>(surname, first, patr, female).
     gret (capitalize_synth rt surname @ '' '' @ capitalize_synth rt first @ '' '' @ patr))"

definition FullNameGenitive :: "runtime \<Rightarrow> 'g rand_src \<Rightarrow> Dict \<Rightarrow> ('g, string) gen" where
  "FullNameGenitive rt R d = gbind (draw_name rt R d) (\<lambda>(surname, first, patr, female).
     gbind (glift (genitiveSurname rt (capitalize_synth rt surname) female)) (\<lambda>gs.
     gbind (glift (genitiveName rt (capitalize_synth rt first) female)) (\<lambda>gn.
       gret (gs @ '' '' @ gn @ '' '' @ genitivePatr rt patr))))"

end
