(* ===== verification/Synth_Props.thy ===== *)
theory Synth_Props
  imports Synth "HOL-Library.Code_Target_Nat"
begin

text \<open>
  The generators of \<open>Synth\<close> never panic and their values pass the validators of the detectors. \<open>gen_ok P m\<close> says that a
  computation returns, from every state of the random source, a value with property \<open>P\<close>.
\<close>

subsection \<open>A calculus for generators\<close>

named_theorems gen_intros \<open>introduction rules for generators\<close>

definition gen_ok :: "('a \<Rightarrow> bool) \<Rightarrow> ('g, 'a) gen \<Rightarrow> bool" where
  "gen_ok P m \<longleftrightarrow> (\<forall>g. \<exists>x g'. m g = Some (x, g') \<and> P x)"

lemma gen_ok_ret [gen_intros]: "P x \<Longrightarrow> gen_ok P (gret x)"
  by (simp add: gen_ok_def gret_def)

lemma gen_ok_bind:
  assumes "gen_ok Q m" and "\<And>x. Q x \<Longrightarrow> gen_ok P (f x)"
  shows "gen_ok P (gbind m f)"
  unfolding gen_ok_def
proof
  fix g
  obtain x g' where "m g = Some (x, g')" "Q x" using assms(1) unfolding gen_ok_def by blast
  then show "\<exists>y g''. gbind m f g = Some (y, g'') \<and> P y"
    using assms(2) [of x] by (simp add: gbind_def gen_ok_def)
qed

lemma gen_ok_lift: "v = Some x \<Longrightarrow> P x \<Longrightarrow> gen_ok P (glift v)"
  by (simp add: gen_ok_def glift_def)

lemma gen_ok_mono: "gen_ok Q m \<Longrightarrow> (\<And>x. Q x \<Longrightarrow> P x) \<Longrightarrow> gen_ok P m"
  unfolding gen_ok_def by blast

definition digit_string :: "nat \<Rightarrow> string \<Rightarrow> bool" where
  "digit_string n s \<longleftrightarrow> length s = n \<and> (\<forall>c \<in> set s. is_digit c)"

lemma digit_string_digits: "digit_string n s \<Longrightarrow> digits s = s"
  by (simp add: digit_string_def digits_id)

lemma digit_string_append: "digit_string m s \<Longrightarrow> digit_string n t \<Longrightarrow> digit_string (m + n) (s @ t)"
  by (auto simp: digit_string_def)

lemma digit_string_single: "is_digit c \<Longrightarrow> digit_string 1 [c]"
  by (simp add: digit_string_def)

context rand_source
begin

lemma Intn_ok: "0 < n \<Longrightarrow> gen_ok (\<lambda>k. k < n) (Intn R n)"
  using Intn_bound by (simp add: gen_ok_def Intn_def) (metis prod.collapse)

lemma pick_ok: "xs \<noteq> [] \<Longrightarrow> gen_ok (\<lambda>x. x \<in> set xs) (pick R xs)"
  unfolding pick_def by (rule gen_ok_bind [OF Intn_ok]) (auto intro: gen_ok_lift)

lemma randDigits_ok: "gen_ok (digit_string n) (randDigits R n)"
proof (induction n)
  case 0
  show ?case by (simp add: gen_ok_ret digit_string_def)
next
  case (Suc n)
  have "gen_ok (digit_string (Suc n)) (gbind (randDigits R n) (\<lambda>s. gret (char_of (0x30 + d) # s)))" if "d \<le> 9" for d :: nat
    by (rule gen_ok_bind [OF Suc]) (use digit_of_dig [OF that] in \<open>auto intro!: gen_ok_ret simp: digit_string_def\<close>)
  then show ?case by (auto simp: Let_def intro!: gen_ok_bind [OF Intn_ok])
qed

end

subsection \<open>Numerals\<close>

lemma itoa_loop_decimal: "0 < n \<Longrightarrow> itoa_loop (int n) b = decimal n @ b"
proof (induction n arbitrary: b rule: decimal.induct)
  case (1 n)
  have "nat (0x30 + int n mod 10) = 0x30 + n mod 10" by (simp add: nat_add_distrib nat_mod_distrib)
  then have step: "itoa_loop (int n) b = itoa_loop (int (n div 10)) (char_of (0x30 + n mod 10) # b)"
    using "1.prems" by (subst itoa_loop.simps) (simp add: zdiv_int)
  show ?case
  proof (cases "n < 10")
    case True
    then have "itoa_loop (int (n div 10)) c = c" for c by (simp add: itoa_loop.simps)
    with step True show ?thesis by (simp add: decimal.simps [of n])
  next
    case False
    then have "0 < n div 10" by simp
    with "1.IH" [OF False] step False show ?thesis by (simp add: decimal.simps [of n])
  qed
qed

lemma zero_char: "CHR ''0'' = char_of (0x30 :: nat)"
  by code_simp

lemma itoa_synth_decimal: "itoa_synth (int n) = decimal n"
  using itoa_loop_decimal [of n "[]"] by (auto simp: itoa_synth_def decimal.simps [of 0] zero_char)

lemma twoDigits_synth_eq:
  assumes "n < 100"
  shows "twoDigits_synth (int n) = [char_of (0x30 + n div 10), char_of (0x30 + n mod 10)]"
proof (cases "n < 10")
  case True
  then show ?thesis by (simp add: twoDigits_synth_def itoa_synth_decimal decimal.simps zero_char)
next
  case False
  then have "n div 10 < 10" using assms by simp
  with False show ?thesis by (simp add: twoDigits_synth_def itoa_synth_decimal decimal.simps)
qed

lemma twoDigits_synth_digits:
  assumes "n < 100"
  shows "digit_string 2 (twoDigits_synth (int n))"
    and "dig (twoDigits_synth (int n) ! 0) * 10 + dig (twoDigits_synth (int n) ! 1) = n"
proof -
  have "n div 10 \<le> 9" "n mod 10 \<le> 9" using assms by auto
  from digit_of_dig [OF this(1)] digit_of_dig [OF this(2)]
  show "digit_string 2 (twoDigits_synth (int n))"
    and "dig (twoDigits_synth (int n) ! 0) * 10 + dig (twoDigits_synth (int n) ! 1) = n"
    by (simp_all add: twoDigits_synth_eq [OF assms] digit_string_def)
qed

subsection \<open>Check digits\<close>

lemma luhnCheckDigit_digit: "is_digit (luhnCheckDigit d)" "dig (luhnCheckDigit d) = (10 - luhn_loop (rev d) True 0 mod 10) mod 10"
  using digit_of_dig [of "(10 - luhn_loop (rev d) True 0 mod 10) mod 10"] by (simp_all add: luhnCheckDigit_def)

lemma luhn_completes:
  assumes "digit_string n d" and "12 \<le> n" and "n \<le> 18"
  shows "luhn (d @ [luhnCheckDigit d])"
proof -
  let ?s = "luhn_loop (rev d) True 0" and ?c = "luhnCheckDigit d"
  have "luhn_loop (rev (d @ [?c])) False 0 = dig ?c + ?s"
    using luhn_loop_acc [of "rev d" True "dig ?c"] by (simp add: luhn_term_def)
  also have "(dig ?c + ?s) mod 10 = 0"
    unfolding luhnCheckDigit_digit(2) by (simp add: mod_simps) presburger
  finally show ?thesis
    using assms luhnCheckDigit_digit(1) digit_string_digits [OF assms(1)]
    by (simp add: luhn_def Let_def digit_string_def)
qed

lemma weighted_prefix: "length ws \<le> length d \<Longrightarrow> weighted (d @ x) ws = weighted d ws"
  by (simp add: weighted_def zip_append1)

lemma innControl_digit: "is_digit (innControl d ws)" "dig (innControl d ws) = weighted d ws mod 11 mod 10"
  using digit_of_dig [of "weighted d ws mod 11 mod 10"] by (simp_all add: innControl_def)

lemma inn_completes:
  assumes "digit_string 10 b"
  defines "x \<equiv> innControl b [7, 2, 4, 10, 3, 5, 9, 4, 6, 8]"
  defines "y \<equiv> innControl (b @ [x]) [3, 7, 2, 4, 10, 3, 5, 9, 4, 6, 8]"
  shows "inn (b @ [x] @ [y])" and "digit_string 12 (b @ [x] @ [y])"
proof -
  have l: "length b = 10" using assms(1) by (simp add: digit_string_def)
  have d: "is_digit x" "is_digit y" by (simp_all add: x_def y_def innControl_digit)
  then show s: "digit_string 12 (b @ [x] @ [y])" using assms(1) by (auto simp: digit_string_def)
  have "weighted (b @ [x] @ [y]) [7, 2, 4, 10, 3, 5, 9, 4, 6, 8] = weighted b [7, 2, 4, 10, 3, 5, 9, 4, 6, 8]"
    using l by (intro weighted_prefix) simp
  moreover have "weighted ((b @ [x]) @ [y]) [3, 7, 2, 4, 10, 3, 5, 9, 4, 6, 8] =
      weighted (b @ [x]) [3, 7, 2, 4, 10, 3, 5, 9, 4, 6, 8]"
    using l by (intro weighted_prefix) simp
  moreover have "dig x = weighted b [7, 2, 4, 10, 3, 5, 9, 4, 6, 8] mod 11 mod 10"
    by (simp add: x_def innControl_digit)
  moreover have "dig y = weighted (b @ [x]) [3, 7, 2, 4, 10, 3, 5, 9, 4, 6, 8] mod 11 mod 10"
    by (simp add: y_def innControl_digit)
  ultimately show "inn (b @ [x] @ [y])"
    using l digit_string_digits [OF s] by (simp add: inn_def inn12_def Let_def nth_append)
qed

lemma inn10_completes:
  assumes "digit_string 9 b"
  shows "inn (b @ [innControl b [2, 4, 10, 3, 5, 9, 4, 6, 8]])"
proof -
  let ?ws = "[2, 4, 10, 3, 5, 9, 4, 6, 8]"
  have l: "length b = 9" using assms by (simp add: digit_string_def)
  have s: "digit_string 10 (b @ [innControl b ?ws])"
    using assms by (auto simp: digit_string_def innControl_digit)
  have "weighted (b @ [innControl b ?ws]) ?ws = weighted b ?ws" using l by (intro weighted_prefix) simp
  with l digit_string_digits [OF s] show ?thesis
    by (simp add: inn_def inn10_def Let_def nth_append innControl_digit)
qed

lemma snils_control_lt: "snils_control n < 100"
proof -
  have "n mod 101 \<le> 100" by simp
  then show ?thesis by (auto simp: snils_control_def Let_def)
qed

lemma snils_completes:
  assumes "digit_string 9 b"
  shows "snils (b @ twoDigits_synth (int (snils_control (weighted b [9, 8, 7, 6, 5, 4, 3, 2, 1]))))"
    (is "snils (b @ ?t)")
proof -
  let ?ws = "[9, 8, 7, 6, 5, 4, 3, 2, 1]"
  have l: "length b = 9" using assms by (simp add: digit_string_def)
  note t = twoDigits_synth_digits [OF snils_control_lt, of "weighted b ?ws"]
  have s: "digit_string 11 (b @ ?t)" using digit_string_append [OF assms t(1)] by simp
  have "weighted (b @ ?t) ?ws = weighted b ?ws" using l by (intro weighted_prefix) simp
  moreover have "(b @ ?t) ! 9 = ?t ! 0" "(b @ ?t) ! 10 = ?t ! 1" using l by (simp_all add: nth_append)
  ultimately show ?thesis
    using l t digit_string_digits [OF s] s by (simp add: snils_def Let_def digit_string_def)
qed

subsection \<open>The generators\<close>

lemma is_digit_consts [simp]: "is_digit CHR ''4''" "is_digit CHR ''5''" "is_digit CHR ''7''" "is_digit CHR ''9''"
  by (simp_all add: is_digit_def)

lemma validYMD_days:
  assumes "daysInMonth_synth y m = Some k" "1900 \<le> y" "y \<le> 2100" "1 \<le> m" "m \<le> 12" "1 \<le> d" "d \<le> k"
  shows "validYMD y m d"
proof -
  have "m = 2 \<or> m \<noteq> 2" by blast
  with assms show ?thesis
    by (auto simp: validYMD_def inRange_def daysInMonth_synth_def isLeap_def isLeapYear_synth_def Let_def split: if_splits)
qed

lemma daysInMonth_synth_Some:
  assumes "1 \<le> m" "m \<le> 12"
  shows "\<exists>k. daysInMonth_synth y m = Some k \<and> 28 \<le> k \<and> k \<le> 31"
proof -
  let ?dm = "[31, 28, 31, 30, 31, 30, 31, 31, 30, 31, 30, 31 :: int]"
  have "?dm ! nat (m - 1) \<in> set ?dm" using assms by (intro nth_mem) simp
  then have "28 \<le> ?dm ! nat (m - 1)" "?dm ! nat (m - 1) \<le> 31" by auto
  with assms show ?thesis by (simp add: daysInMonth_synth_def)
qed

context rand_source
begin

lemma Phone_ok: "gen_ok (\<lambda>s. digit_string 11 s \<and> phone s) (Phone R)"
  unfolding Phone_def
  by (rule gen_ok_bind [OF randDigits_ok], rule gen_ok_ret)
     (auto simp: phone_def Let_def digit_string_def digits_id)

lemma Card_ok: "gen_ok (\<lambda>s. digit_string 16 s \<and> luhn s) (Card R)"
  unfolding Card_def Let_def
proof (rule gen_ok_bind [OF Intn_ok], simp, rule gen_ok_bind [OF randDigits_ok], rule gen_ok_bind [OF randDigits_ok],
    rule gen_ok_ret)
  fix k a b assume ab: "digit_string 2 a" "digit_string 12 b"
  let ?body = "((if k = 0 then ''5'' else ''4'') @ a) @ b"
  have d: "digit_string 15 ?body" using ab by (auto simp: digit_string_def)
  then have "digit_string 16 (?body @ [luhnCheckDigit ?body])"
    using luhnCheckDigit_digit(1) by (auto simp: digit_string_def)
  with luhn_completes [OF d] show
    "digit_string 16 (?body @ [luhnCheckDigit ?body]) \<and> luhn (?body @ [luhnCheckDigit ?body])" by simp
qed

lemma INN_ok: "gen_ok (\<lambda>s. digit_string 12 s \<and> inn s) (INN R)"
  unfolding INN_def Let_def
  by (rule gen_ok_bind [OF randDigits_ok], rule gen_ok_ret) (simp only: inn_completes simp_thms)

lemma INN10_ok: "gen_ok inn (INN10 R)"
  unfolding INN10_def by (rule gen_ok_bind [OF randDigits_ok], rule gen_ok_ret) (rule inn10_completes)

lemma SNILS_ok: "gen_ok (\<lambda>s. digit_string 11 s \<and> snils s) (SNILS R)"
  unfolding SNILS_def Let_def
proof (rule gen_ok_bind [OF randDigits_ok], rule gen_ok_ret)
  fix b assume b: "digit_string 9 b"
  from digit_string_append [OF b twoDigits_synth_digits(1) [OF snils_control_lt]] snils_completes [OF b]
  show "digit_string 11 (b @ twoDigits_synth (int (snils_control (weighted b [9, 8, 7, 6, 5, 4, 3, 2, 1])))) \<and>
    snils (b @ twoDigits_synth (int (snils_control (weighted b [9, 8, 7, 6, 5, 4, 3, 2, 1]))))" by simp
qed

lemma Passport_ok: "gen_ok (\<lambda>s. digit_string 10 s \<and> (passport s \<or> drop 4 s = ''000000'')) (Passport R)"
  unfolding Passport_def
  by (rule gen_ok_bind [OF randDigits_ok], rule gen_ok_bind [OF randDigits_ok], rule gen_ok_ret)
     (auto simp: passport_def Let_def digit_string_def digits_id)

lemma draw_date_ok: "gen_ok (\<lambda>(y, m, d). 1950 \<le> y \<and> y \<le> 2005 \<and> validYMD y m d) (draw_date R daysInMonth_synth)"
  unfolding draw_date_def Let_def
proof (rule gen_ok_bind [OF Intn_ok], simp, rule gen_ok_bind [OF Intn_ok], simp)
  fix y m :: nat assume ym: "y < 56" "m < 12"
  obtain k where k: "daysInMonth_synth (1950 + int y) (1 + int m) = Some k" "28 \<le> k"
    using daysInMonth_synth_Some [of "1 + int m" "1950 + int y"] ym by auto
  have "gen_ok (\<lambda>(y, m, d). 1950 \<le> y \<and> y \<le> 2005 \<and> validYMD y m d)
      (gbind (Intn R (nat k)) (\<lambda>d. gret (1950 + int y, 1 + int m, 1 + int d)))"
  proof (rule gen_ok_bind [OF Intn_ok], use k in simp, rule gen_ok_ret)
    fix d assume "d < nat k"
    then have "validYMD (1950 + int y) (1 + int m) (1 + int d)" using ym by (intro validYMD_days [OF k(1)]) auto
    with ym show "case (1950 + int y, 1 + int m, 1 + int d) of
        (y, m, d) \<Rightarrow> 1950 \<le> y \<and> y \<le> 2005 \<and> validYMD y m d" by simp
  qed
  with k(1) show "gen_ok (\<lambda>(y, m, d). 1950 \<le> y \<and> y \<le> 2005 \<and> validYMD y m d)
      (gbind (glift (daysInMonth_synth (1950 + int y) (1 + int m)))
        (\<lambda>k. gbind (Intn R (nat k)) (\<lambda>d. gret (1950 + int y, 1 + int m, 1 + int d))))"
    by (simp add: gbind_def glift_def)
qed

end

text \<open>
  Every generator of a number with a check digit returns (it never panics), for every random source that respects
  the bound of \<^verbatim>\<open>Intn\<close>, and its value passes the detector's own validator: cards have 16 digits and pass \<^verbatim>\<open>luhn\<close>, both
  kinds of tax number pass \<^verbatim>\<open>inn\<close>, insurance numbers pass \<^verbatim>\<open>snils\<close>, phones pass \<^verbatim>\<open>phone\<close>, and a passport passes \<^verbatim>\<open>passport\<close>
  unless its six-digit number happens to be all zeros.
\<close>

lemma synth_numbers_valid:
  assumes "rand_source R"
  shows "gen_ok (\<lambda>s. digit_string 16 s \<and> luhn s) (Card R) \<and>
    gen_ok (\<lambda>s. digit_string 12 s \<and> inn s) (INN R) \<and> gen_ok inn (INN10 R) \<and>
    gen_ok (\<lambda>s. digit_string 11 s \<and> snils s) (SNILS R) \<and>
    gen_ok (\<lambda>s. digit_string 11 s \<and> phone s) (Phone R) \<and>
    gen_ok (\<lambda>s. digit_string 10 s \<and> (passport s \<or> drop 4 s = ''000000'')) (Passport R)"
  using rand_source.Card_ok [OF assms] rand_source.INN_ok [OF assms] rand_source.INN10_ok [OF assms]
    rand_source.SNILS_ok [OF assms] rand_source.Phone_ok [OF assms] rand_source.Passport_ok [OF assms]
  by blast

text \<open>A random source to evaluate the generators on: a counter reduced modulo the bound.\<close>

definition counter_src :: "nat rand_src" where
  "counter_src = \<lparr> rand_New = nat, rand_Intn = (\<lambda>n g. (g mod n, Suc g)) \<rparr>"

interpretation counter: rand_source counter_src
  by unfold_locales (simp add: counter_src_def)

theorem synth_numbers_valid_witness:
  "(\<exists>s g'. Card counter_src 3 = Some (s, g') \<and> luhn s) \<and> (\<exists>s g'. INN counter_src 3 = Some (s, g') \<and> inn s)"
  using synth_numbers_valid [OF counter.rand_source_axioms] unfolding gen_ok_def by blast

subsection \<open>What the generators get wrong\<close>

text \<open>\<^verbatim>\<open>Date\<close> leaves out the separator before the year, so that its value is not a date for the validator.\<close>

lemma Date_no_separator:
  "map_option fst (Date counter_src 3) = Some ''06.051953'' \<and> \<not> date ru_runtime ''06.051953''"
  by code_simp

text \<open>\<^verbatim>\<open>feminize\<close> drops the suffix it should extend: Ivanov becomes Ivana.\<close>

lemma feminize_drops_suffix:
  "feminize_synth ru_runtime (encode_runes [0x418, 0x432, 0x430, 0x43d, 0x43e, 0x432]) = Some (encode_runes [0x418, 0x432, 0x430, 0x43d, 0x430])"
  by code_simp

text \<open>
  \<^verbatim>\<open>genitiveName\<close> and \<^verbatim>\<open>genitiveSurname\<close> count the letters to drop in bytes, and a Cyrillic letter has two: the result for
  a female name is not well-formed UTF-8.
\<close>

lemma genitive_breaks_utf8:
  "map_option valid_utf8 (genitiveName ru_runtime (encode_runes [0x41c, 0x430, 0x440, 0x438, 0x44f]) True) = Some False \<and>
   map_option valid_utf8 (genitiveSurname ru_runtime (encode_runes [0x418, 0x432, 0x430, 0x43d, 0x43e, 0x432, 0x430]) True) = Some False"
  by code_simp

end
