(* ===== verification/Mask_Synthetic.thy ===== *)
theory Mask_Synthetic
  imports Mask_Core Synth_Props
begin

text \<open>
  The synthetic strategy (\<^verbatim>\<open>internal/mask/synthetic.go\<close>): a value is replaced by a fake value of the same format,
  drawn from a random source seeded with a hash of the category and the value. A computation that draws returns \<^term>\<open>None\<close> for
  a panic; theorem \<open>synthetic_never_panics\<close> excludes that.
\<close>

unbundle bit_operations_syntax

subsection \<open>The strategy's data\<close>

record syntheticStrategy =
  sy_names :: "string list"
  sy_surnames :: "string list"
  sy_patrM :: "string list"
  sy_patrF :: "string list"

definition readSynthDict :: "(string \<Rightarrow> string option) \<Rightarrow> string \<Rightarrow> string list" where
  "readSynthDict fs path =
     (case fs path of
        None \<Rightarrow> []
      | Some d \<Rightarrow> filter (\<lambda>l. l \<noteq> '''') (map TrimSpace (split_on CHR 0x0A d)))"

definition load :: "(string \<Rightarrow> string option) \<Rightarrow> syntheticStrategy" where
  "load fs =
     \<lparr> sy_names = readSynthDict fs ''dict/first_names.txt'',
       sy_surnames = readSynthDict fs ''dict/surnames.txt'',
       sy_patrM =
    [encode_runes [0x410, 0x43b, 0x435, 0x43a, 0x441, 0x430, 0x43d, 0x434, 0x440, 0x43e, 0x432, 0x438, 0x447] \<comment> \<open>Aleksandrovich\<close>,
     encode_runes [0x410, 0x43d, 0x434, 0x440, 0x435, 0x435, 0x432, 0x438, 0x447] \<comment> \<open>Andreevich\<close>,
     encode_runes [0x411, 0x43e, 0x440, 0x438, 0x441, 0x43e, 0x432, 0x438, 0x447] \<comment> \<open>Borisovich\<close>,
     encode_runes [0x412, 0x430, 0x441, 0x438, 0x43b, 0x44c, 0x435, 0x432, 0x438, 0x447] \<comment> \<open>Vasilevich\<close>,
     encode_runes [0x412, 0x438, 0x43a, 0x442, 0x43e, 0x440, 0x43e, 0x432, 0x438, 0x447] \<comment> \<open>Viktorovich\<close>,
     encode_runes [0x412, 0x43b, 0x430, 0x434, 0x438, 0x43c, 0x438, 0x440, 0x43e, 0x432, 0x438, 0x447] \<comment> \<open>Vladimirovich\<close>,
     encode_runes [0x414, 0x43c, 0x438, 0x442, 0x440, 0x438, 0x435, 0x432, 0x438, 0x447] \<comment> \<open>Dmitrievich\<close>,
     encode_runes [0x415, 0x432, 0x433, 0x435, 0x43d, 0x44c, 0x435, 0x432, 0x438, 0x447] \<comment> \<open>Evgenevich\<close>,
     encode_runes [0x418, 0x432, 0x430, 0x43d, 0x43e, 0x432, 0x438, 0x447] \<comment> \<open>Ivanovich\<close>,
     encode_runes [0x418, 0x433, 0x43e, 0x440, 0x435, 0x432, 0x438, 0x447] \<comment> \<open>Igorevich\<close>,
     encode_runes [0x41a, 0x43e, 0x43d, 0x441, 0x442, 0x430, 0x43d, 0x442, 0x438, 0x43d, 0x43e, 0x432, 0x438, 0x447] \<comment> \<open>Konstantinovich\<close>,
     encode_runes [0x41c, 0x438, 0x445, 0x430, 0x439, 0x43b, 0x43e, 0x432, 0x438, 0x447] \<comment> \<open>Mikhaylovich\<close>,
     encode_runes [0x41d, 0x438, 0x43a, 0x43e, 0x43b, 0x430, 0x435, 0x432, 0x438, 0x447] \<comment> \<open>Nikolaevich\<close>,
     encode_runes [0x41e, 0x43b, 0x435, 0x433, 0x43e, 0x432, 0x438, 0x447] \<comment> \<open>Olegovich\<close>,
     encode_runes [0x41f, 0x430, 0x432, 0x43b, 0x43e, 0x432, 0x438, 0x447] \<comment> \<open>Pavlovich\<close>,
     encode_runes [0x41f, 0x435, 0x442, 0x440, 0x43e, 0x432, 0x438, 0x447] \<comment> \<open>Petrovich\<close>,
     encode_runes [0x421, 0x435, 0x440, 0x433, 0x435, 0x435, 0x432, 0x438, 0x447] \<comment> \<open>Sergeevich\<close>,
     encode_runes [0x424, 0x451, 0x434, 0x43e, 0x440, 0x43e, 0x432, 0x438, 0x447] \<comment> \<open>Fyodorovich\<close>,
     encode_runes [0x42e, 0x440, 0x44c, 0x435, 0x432, 0x438, 0x447] \<comment> \<open>Yurevich\<close>],
       sy_patrF =
    [encode_runes [0x410, 0x43b, 0x435, 0x43a, 0x441, 0x430, 0x43d, 0x434, 0x440, 0x43e, 0x432, 0x43d, 0x430] \<comment> \<open>Aleksandrovna\<close>,
     encode_runes [0x410, 0x43d, 0x434, 0x440, 0x435, 0x435, 0x432, 0x43d, 0x430] \<comment> \<open>Andreevna\<close>,
     encode_runes [0x411, 0x43e, 0x440, 0x438, 0x441, 0x43e, 0x432, 0x43d, 0x430] \<comment> \<open>Borisovna\<close>,
     encode_runes [0x412, 0x430, 0x441, 0x438, 0x43b, 0x44c, 0x435, 0x432, 0x43d, 0x430] \<comment> \<open>Vasilevna\<close>,
     encode_runes [0x412, 0x438, 0x43a, 0x442, 0x43e, 0x440, 0x43e, 0x432, 0x43d, 0x430] \<comment> \<open>Viktorovna\<close>,
     encode_runes [0x412, 0x43b, 0x430, 0x434, 0x438, 0x43c, 0x438, 0x440, 0x43e, 0x432, 0x43d, 0x430] \<comment> \<open>Vladimirovna\<close>,
     encode_runes [0x414, 0x43c, 0x438, 0x442, 0x440, 0x438, 0x435, 0x432, 0x43d, 0x430] \<comment> \<open>Dmitrievna\<close>,
     encode_runes [0x415, 0x432, 0x433, 0x435, 0x43d, 0x44c, 0x435, 0x432, 0x43d, 0x430] \<comment> \<open>Evgenevna\<close>,
     encode_runes [0x418, 0x432, 0x430, 0x43d, 0x43e, 0x432, 0x43d, 0x430] \<comment> \<open>Ivanovna\<close>,
     encode_runes [0x418, 0x433, 0x43e, 0x440, 0x435, 0x432, 0x43d, 0x430] \<comment> \<open>Igorevna\<close>,
     encode_runes [0x41a, 0x43e, 0x43d, 0x441, 0x442, 0x430, 0x43d, 0x442, 0x438, 0x43d, 0x43e, 0x432, 0x43d, 0x430] \<comment> \<open>Konstantinovna\<close>,
     encode_runes [0x41c, 0x438, 0x445, 0x430, 0x439, 0x43b, 0x43e, 0x432, 0x43d, 0x430] \<comment> \<open>Mikhaylovna\<close>,
     encode_runes [0x41d, 0x438, 0x43a, 0x43e, 0x43b, 0x430, 0x435, 0x432, 0x43d, 0x430] \<comment> \<open>Nikolaevna\<close>,
     encode_runes [0x41e, 0x43b, 0x435, 0x433, 0x43e, 0x432, 0x43d, 0x430] \<comment> \<open>Olegovna\<close>,
     encode_runes [0x41f, 0x430, 0x432, 0x43b, 0x43e, 0x432, 0x43d, 0x430] \<comment> \<open>Pavlovna\<close>,
     encode_runes [0x41f, 0x435, 0x442, 0x440, 0x43e, 0x432, 0x43d, 0x430] \<comment> \<open>Petrovna\<close>,
     encode_runes [0x421, 0x435, 0x440, 0x433, 0x435, 0x435, 0x432, 0x43d, 0x430] \<comment> \<open>Sergeevna\<close>,
     encode_runes [0x424, 0x451, 0x434, 0x43e, 0x440, 0x43e, 0x432, 0x43d, 0x430] \<comment> \<open>Fyodorovna\<close>,
     encode_runes [0x42e, 0x440, 0x44c, 0x435, 0x432, 0x43d, 0x430] \<comment> \<open>Yurevna\<close>] \<rparr>"

subsection \<open>Seeding\<close>

text \<open>\<^verbatim>\<open>int64(sum &^ (1 << 63))\<close>: the sign bit is cleared.\<close>

definition seed_of :: "category \<Rightarrow> string \<Rightarrow> int" where
  "seed_of cat v =
     (let h = fnv64a (fnv64a (fnv64a fnv64a_offset cat) [CHR 0x00]) v in uint (h AND NOT (push_bit 63 1)))"

definition newSeeded :: "'g rand_src \<Rightarrow> category \<Rightarrow> string \<Rightarrow> 'g" where
  "newSeeded R cat v = rand_New R (seed_of cat v)"

subsection \<open>Helpers\<close>

definition itoa :: "int \<Rightarrow> string" where
  "itoa n = (if n = 0 then ''0'' else itoa_loop n [])"

definition twoDigits :: "int \<Rightarrow> string" where
  "twoDigits n = (if n < 10 then ''0'' @ itoa n else itoa n)"

definition tokenFallback :: "runtime \<Rightarrow> string \<Rightarrow> category \<Rightarrow> DocState option \<Rightarrow> string \<times> DocState option" where
  "tokenFallback rt v cat doc =
     (case memo_hit doc v of
        Some m \<Rightarrow> (m, doc)
      | None \<Rightarrow>
          let (n, doc') = next_opt doc cat;
              repl = ''['' @ ToUpper rt cat @ ''_'' @ itoa (int n) @ '']''
          in (repl, remember_opt doc' v repl))"

text \<open>The loop of \<^verbatim>\<open>applyDigits\<close>: \<open>fake\<close> is what is left of the fake digits.\<close>

fun applyDigits :: "string \<Rightarrow> string \<Rightarrow> string" where
  "applyDigits [] fake = []"
| "applyDigits (c # v) fake =
     (if is_digit c
      then (case fake of f # fs \<Rightarrow> f # applyDigits v fs | [] \<Rightarrow> c # applyDigits v [])
      else c # applyDigits v fake)"

definition digitsOnly :: "string \<Rightarrow> string" where
  "digitsOnly s = filter is_digit s"

definition hex6 :: "64 word \<Rightarrow> string" where
  "hex6 h = hex_loop 6 h"

subsection \<open>Names\<close>

definition isFemaleName :: "runtime \<Rightarrow> string \<Rightarrow> bool" where
  "isFemaleName rt v =
     (let words = Fields v in
      if words = [] then False
      else
        let lower = ToLower rt (last words) in
        list_ex (HasSuffix lower)
          [encode_runes [0x43e, 0x432, 0x43d, 0x430] \<comment> \<open>ovna\<close>,
           encode_runes [0x435, 0x432, 0x43d, 0x430] \<comment> \<open>evna\<close>,
           encode_runes [0x438, 0x447, 0x43d, 0x430] \<comment> \<open>ichna\<close>,
           encode_runes [0x438, 0x43d, 0x438, 0x447, 0x43d, 0x430] \<comment> \<open>inichna\<close>] \<or>
        list_ex (HasSuffix lower)
          [encode_runes [0x43e, 0x432, 0x430] \<comment> \<open>ova\<close>,
           encode_runes [0x435, 0x432, 0x430] \<comment> \<open>eva\<close>,
           encode_runes [0x451, 0x432, 0x430] \<comment> \<open>yova\<close>,
           encode_runes [0x438, 0x43d, 0x430] \<comment> \<open>ina\<close>,
           encode_runes [0x44b, 0x43d, 0x430] \<comment> \<open>yna\<close>,
           encode_runes [0x441, 0x43a, 0x430, 0x44f] \<comment> \<open>skaya\<close>,
           encode_runes [0x446, 0x43a, 0x430, 0x44f] \<comment> \<open>tskaya\<close>])"

definition feminize :: "runtime \<Rightarrow> string \<Rightarrow> string option" where
  "feminize rt s =
     (case first_suffix (ToLower rt s) [sufOv, sufEv, sufYov, sufIn, sufYn] of
        None \<Rightarrow> Some s
      | Some suf \<Rightarrow>
          do { p \<leftarrow> slice_to s (int (length s) - int (length suf)); Some (p @ suf @ encode_runes [0x430] \<comment> \<open>a\<close>) })"

definition capitalize :: "runtime \<Rightarrow> string \<Rightarrow> string" where
  "capitalize rt s =
     (if s = '''' then s
      else let (first, n) = DecodeRune s in ToUpper rt (EncodeRune first) @ drop n s)"

definition synthName ::
  "runtime \<Rightarrow> 'g rand_src \<Rightarrow> syntheticStrategy \<Rightarrow> string \<Rightarrow> category \<Rightarrow> DocState option
     \<Rightarrow> ('g, string \<times> DocState option) gen" where
  "synthName rt R st v cat doc =
     (let words = Fields v in
      if words = [] \<or> sy_names st = [] \<or> sy_surnames st = [] \<or> sy_patrM st = [] \<or> sy_patrF st = []
      then gret (tokenFallback rt v cat doc)
      else
        let female = isFemaleName rt v in
        gbind (pick R (sy_names st)) (\<lambda>first.
        gbind (pick R (sy_surnames st)) (\<lambda>surname0.
        gbind (glift (if female then feminize rt surname0 else Some surname0)) (\<lambda>surname.
        gbind (pick R (sy_patrM st)) (\<lambda>patrM0.
        gbind (if female then pick R (sy_patrF st) else gret patrM0) (\<lambda>patr.
          gret (if length words = 1 then capitalize rt surname
                else if length words = 2 then capitalize rt surname @ '' '' @ capitalize rt first
                else capitalize rt surname @ '' '' @ capitalize rt first @ '' '' @ patr, doc)))))))"

subsection \<open>Numbers\<close>

text \<open>The shape of the generators of numbers: a value with the right number of digits gets fake digits.\<close>

definition synth_digits ::
  "runtime \<Rightarrow> (nat \<Rightarrow> bool) \<Rightarrow> ('g, string) gen \<Rightarrow> string \<Rightarrow> category \<Rightarrow> DocState option
     \<Rightarrow> ('g, string \<times> DocState option) gen" where
  "synth_digits rt ok fake v cat doc =
     (if \<not> ok (length (digitsOnly v)) then gret (tokenFallback rt v cat doc)
      else gbind fake (\<lambda>f. gret (applyDigits v f, doc)))"

definition synthPhone :: "runtime \<Rightarrow> 'g rand_src \<Rightarrow> string \<Rightarrow> category \<Rightarrow> DocState option
    \<Rightarrow> ('g, string \<times> DocState option) gen" where
  "synthPhone rt R = synth_digits rt (\<lambda>n. n = 11) (Phone R)"

definition synthCard :: "runtime \<Rightarrow> 'g rand_src \<Rightarrow> string \<Rightarrow> category \<Rightarrow> DocState option
    \<Rightarrow> ('g, string \<times> DocState option) gen" where
  "synthCard rt R = synth_digits rt (\<lambda>n. \<not> (n < 13 \<or> n > 19)) (Card R)"

definition synthINN :: "runtime \<Rightarrow> 'g rand_src \<Rightarrow> string \<Rightarrow> category \<Rightarrow> DocState option
    \<Rightarrow> ('g, string \<times> DocState option) gen" where
  "synthINN rt R = synth_digits rt (\<lambda>n. n = 12) (INN R)"

definition synthSNILS :: "runtime \<Rightarrow> 'g rand_src \<Rightarrow> string \<Rightarrow> category \<Rightarrow> DocState option
    \<Rightarrow> ('g, string \<times> DocState option) gen" where
  "synthSNILS rt R = synth_digits rt (\<lambda>n. n = 11) (SNILS R)"

definition synthPassport :: "runtime \<Rightarrow> 'g rand_src \<Rightarrow> string \<Rightarrow> category \<Rightarrow> DocState option
    \<Rightarrow> ('g, string \<times> DocState option) gen" where
  "synthPassport rt R = synth_digits rt (\<lambda>n. n = 10) (Passport R)"

subsection \<open>Dates\<close>

definition monthWords :: "string list" where
  "monthWords =
    [encode_runes [0x44f, 0x43d, 0x432, 0x430, 0x440, 0x44f] \<comment> \<open>yanvarya\<close>,
     encode_runes [0x444, 0x435, 0x432, 0x440, 0x430, 0x43b, 0x44f] \<comment> \<open>fevralya\<close>,
     encode_runes [0x43c, 0x430, 0x440, 0x442, 0x430] \<comment> \<open>marta\<close>,
     encode_runes [0x430, 0x43f, 0x440, 0x435, 0x43b, 0x44f] \<comment> \<open>aprelya\<close>,
     encode_runes [0x43c, 0x430, 0x44f] \<comment> \<open>maya\<close>,
     encode_runes [0x438, 0x44e, 0x43d, 0x44f] \<comment> \<open>iyunya\<close>,
     encode_runes [0x438, 0x44e, 0x43b, 0x44f] \<comment> \<open>iyulya\<close>,
     encode_runes [0x430, 0x432, 0x433, 0x443, 0x441, 0x442, 0x430] \<comment> \<open>avgusta\<close>,
     encode_runes [0x441, 0x435, 0x43d, 0x442, 0x44f, 0x431, 0x440, 0x44f] \<comment> \<open>sentyabrya\<close>,
     encode_runes [0x43e, 0x43a, 0x442, 0x44f, 0x431, 0x440, 0x44f] \<comment> \<open>oktyabrya\<close>,
     encode_runes [0x43d, 0x43e, 0x44f, 0x431, 0x440, 0x44f] \<comment> \<open>noyabrya\<close>,
     encode_runes [0x434, 0x435, 0x43a, 0x430, 0x431, 0x440, 0x44f] \<comment> \<open>dekabrya\<close>]"

definition isWordDate :: "runtime \<Rightarrow> string \<Rightarrow> bool" where
  "isWordDate rt v = (let lower = ToLower rt v in list_ex (Contains lower) monthWords)"

definition isLeapYear :: "int \<Rightarrow> bool" where
  "isLeapYear y \<longleftrightarrow> y mod 4 = 0 \<and> (y mod 100 \<noteq> 0 \<or> y mod 400 = 0)"

definition daysInMonth :: "int \<Rightarrow> int \<Rightarrow> int option" where
  "daysInMonth year month =
     (if month = 2 \<and> isLeapYear year then Some 29
      else if 1 \<le> month \<and> month \<le> 12
      then Some ([31, 28, 31, 30, 31, 30, 31, 31, 30, 31, 30, 31] ! nat (month - 1)) else None)"

definition dateTailGoda :: string where
  "dateTailGoda = encode_runes [0x433, 0x43e, 0x434, 0x430] \<comment> \<open>goda\<close>"

definition dateTailG :: string where
  "dateTailG = encode_runes [0x433, 0x2e] \<comment> \<open>g.\<close>"

definition synthDateWord :: "runtime \<Rightarrow> 'g rand_src \<Rightarrow> string \<Rightarrow> ('g, string) gen" where
  "synthDateWord rt R v =
     gbind (draw_date R daysInMonth) (\<lambda>(year, month, day).
       let tail = (if HasSuffix (ToLower rt v) dateTailG then dateTailG else dateTailGoda) in
       gret (itoa day @ '' '' @ monthWords ! nat (month - 1) @ '' '' @ itoa year @ '' '' @ tail))"

text \<open>
  The first byte that is not a digit; zero stands for none. \<^verbatim>\<open>string(sep)\<close> of a byte is the encoding of the rune with
  that number.
\<close>

definition first_sep :: "string \<Rightarrow> char" where
  "first_sep v = (case find (\<lambda>c. \<not> is_digit c) v of None \<Rightarrow> CHR 0x00 | Some c \<Rightarrow> c)"

definition synthDateNumeric ::
  "runtime \<Rightarrow> 'g rand_src \<Rightarrow> string \<Rightarrow> category \<Rightarrow> DocState option \<Rightarrow> ('g, string \<times> DocState option) gen" where
  "synthDateNumeric rt R v cat doc =
     (let sep = first_sep v in
      if sep = CHR 0x00 then gret (tokenFallback rt v cat doc)
      else
        gbind (draw_date R daysInMonth) (\<lambda>(year, month, day).
          let dd = twoDigits day; mm = twoDigits month; yy = itoa year; ss = EncodeRune (of_char sep);
              n = length (digitsOnly v)
          in if n = 6 then gret (dd @ ss @ mm @ ss @ itoa (year mod 100), doc)
             else if n = 8 then
               (if Index v [sep] = Some 4 then gret (yy @ ss @ mm @ ss @ dd, doc)
                else gret (dd @ ss @ mm @ ss @ yy, doc))
             else gret (tokenFallback rt v cat doc)))"

definition synthDate ::
  "runtime \<Rightarrow> 'g rand_src \<Rightarrow> string \<Rightarrow> category \<Rightarrow> DocState option \<Rightarrow> ('g, string \<times> DocState option) gen" where
  "synthDate rt R v cat doc =
     (if isWordDate rt v then gbind (synthDateWord rt R v) (\<lambda>d. gret (d, doc))
      else synthDateNumeric rt R v cat doc)"

definition synthEmail :: "string \<Rightarrow> string" where
  "synthEmail v = HashEmail v"

subsection \<open>The strategy\<close>

definition synthFor ::
  "runtime \<Rightarrow> 'g rand_src \<Rightarrow> syntheticStrategy \<Rightarrow> string \<Rightarrow> category \<Rightarrow> DocState option
     \<Rightarrow> ('g, string \<times> DocState option) gen" where
  "synthFor rt R st v cat doc =
     (if cat = CatFullName then synthName rt R st v cat doc
      else if cat = CatPhone then synthPhone rt R v cat doc
      else if cat = CatCardNumber then synthCard rt R v cat doc
      else if cat = CatINN then synthINN rt R v cat doc
      else if cat = CatSNILS then synthSNILS rt R v cat doc
      else if cat = CatPassport then synthPassport rt R v cat doc
      else if cat = CatDate \<or> cat = CatBirthDate \<or> cat = CatPassportDate then synthDate rt R v cat doc
      else if cat = CatEmail then gret (synthEmail v, doc)
      else gret (tokenFallback rt v cat doc))"

text \<open>The method \<^verbatim>\<open>Mask\<close>; \<^term>\<open>None\<close> is a panic.\<close>

definition synthetic_Mask ::
  "runtime \<Rightarrow> 'g rand_src \<Rightarrow> syntheticStrategy \<Rightarrow> string \<Rightarrow> category \<Rightarrow> DocState option
     \<Rightarrow> (string \<times> DocState option) option" where
  "synthetic_Mask rt R st v cat doc =
     (case memo_hit doc v of
        Some m \<Rightarrow> Some (m, doc)
      | None \<Rightarrow>
          (case synthFor rt R st v cat doc (newSeeded R cat v) of
             None \<Rightarrow> None
           | Some ((out, doc'), _) \<Rightarrow> Some (out, remember_opt doc' v out)))"

definition synthetic_mask :: "runtime \<Rightarrow> 'g rand_src \<Rightarrow> syntheticStrategy \<Rightarrow> mask_fun" where
  "synthetic_mask rt R st v cat doc =
     (case synthetic_Mask rt R st v cat doc of Some r \<Rightarrow> r | None \<Rightarrow> ('''', doc))"

definition syntheticStrategy_of :: "runtime \<Rightarrow> 'g rand_src \<Rightarrow> syntheticStrategy \<Rightarrow> strategy" where
  "syntheticStrategy_of rt R st = \<lparr> st_Name = ''synthetic'', st_Mask = synthetic_mask rt R st \<rparr>"

end
