(* ===== verification/Mask_Synthetic_Props.thy ===== *)
theory Mask_Synthetic_Props
  imports Mask_Synthetic
begin

text \<open>
  Properties of the synthetic strategy: it never panics, it keeps the contract of a strategy, and what its values
  look like.
\<close>

subsection \<open>Shape of a result\<close>

text \<open>What every generator leaves: a non-empty value and a document changed at most at the value.\<close>

definition syn_post :: "string \<Rightarrow> DocState option \<Rightarrow> string \<times> DocState option \<Rightarrow> bool" where
  "syn_post v doc r \<longleftrightarrow>
     (v \<noteq> '''' \<longrightarrow> fst r \<noteq> '''') \<and>
     (case doc of
        None \<Rightarrow> snd r = None
      | Some d \<Rightarrow> \<exists>d'. snd r = Some d' \<and>
          (doc_memo d' = doc_memo d \<or> doc_memo d' = (doc_memo d)(v \<mapsto> fst r)))"

lemma syn_post_same: "(v \<noteq> '''' \<Longrightarrow> out \<noteq> '''') \<Longrightarrow> syn_post v doc (out, doc)"
  by (auto simp: syn_post_def split: option.splits)

lemma tokenFallback_post: "syn_post v doc (tokenFallback rt v cat doc)"
proof (cases "memo_hit doc v")
  case None
  then show ?thesis
    by (auto simp: tokenFallback_def syn_post_def next_opt_def remember_opt_def Remember_def Next_def Let_def
        split: option.splits)
next
  case (Some m)
  with memo_hit_nonempty [OF Some] show ?thesis
    by (auto simp: tokenFallback_def syn_post_def split: option.splits)
qed

lemma applyDigits_length: "length (applyDigits v f) = length v"
  by (induction v f rule: applyDigits.induct) (auto split: list.splits)

lemma applyDigits_eq_Nil [simp]: "applyDigits v f = [] \<longleftrightarrow> v = []"
  using applyDigits_length [of v f] by auto

lemma decimal_ne: "itoa (int n) \<noteq> ''''"
  using itoa_synth_decimal [of n] by (simp add: itoa_def itoa_synth_def)

lemma capitalize_eq_Nil [simp]: "capitalize rt s = [] \<longleftrightarrow> s = []"
  by (auto simp: capitalize_def ToUpper_def split: prod.splits)

text \<open>The strategy's dictionaries: no empty entry, and a surname of at least two Cyrillic letters.\<close>

definition dict_ok :: "syntheticStrategy \<Rightarrow> bool" where
  "dict_ok st \<longleftrightarrow> (\<forall>s \<in> set (sy_surnames st). 4 \<le> length s)"

lemma suffix_length: "first_suffix lower [sufOv, sufEv, sufYov, sufIn, sufYn] = Some suf \<Longrightarrow> length suf = 4"
  by (auto simp: first_suffix_def sufOv_def sufEv_def sufYov_def sufIn_def sufYn_def EncodeRune_def split: if_splits)

lemma feminize_total:
  assumes "4 \<le> length s"
  shows "\<exists>x. feminize rt s = Some x \<and> x \<noteq> ''''"
proof (cases "first_suffix (ToLower rt s) [sufOv, sufEv, sufYov, sufIn, sufYn]")
  case None
  with assms show ?thesis by (auto simp: feminize_def)
next
  case (Some suf)
  with suffix_length [OF Some] assms show ?thesis by (simp add: feminize_def Prelude.slice_def)
qed

lemma daysInMonth_eq: "daysInMonth = daysInMonth_synth"
  by (intro ext) (simp add: daysInMonth_def daysInMonth_synth_def isLeapYear_def isLeapYear_synth_def)

context rand_source
begin

lemmas draw_mask_date_ok = draw_date_ok [folded daysInMonth_eq]

lemma synth_digits_post:
  assumes "gen_ok P fake"
  shows "gen_ok (syn_post v doc) (synth_digits rt ok fake v cat doc)"
  unfolding synth_digits_def
  by (auto intro!: gen_ok_ret tokenFallback_post gen_ok_bind [OF assms] syn_post_same)

lemma synthName_post:
  assumes "dict_ok st"
  shows "gen_ok (syn_post v doc) (synthName rt R st v cat doc)"
proof (cases "Fields v = [] \<or> sy_names st = [] \<or> sy_surnames st = [] \<or> sy_patrM st = [] \<or> sy_patrF st = []")
  case True
  then show ?thesis by (auto simp: synthName_def Let_def intro!: gen_ok_ret tokenFallback_post)
next
  case False
  let ?tail = "\<lambda>first surname. gbind (pick R (sy_patrM st)) (\<lambda>patrM0.
        gbind (if isFemaleName rt v then pick R (sy_patrF st) else gret patrM0) (\<lambda>patr.
          gret (if length (Fields v) = 1 then capitalize rt surname
                else if length (Fields v) = 2 then capitalize rt surname @ '' '' @ capitalize rt first
                else capitalize rt surname @ '' '' @ capitalize rt first @ '' '' @ patr, doc)))"
  have tail: "gen_ok (syn_post v doc) (?tail first surname)" if "surname \<noteq> ''''" for first surname
  proof (rule gen_ok_bind [OF pick_ok])
    show "sy_patrM st \<noteq> []" using False by simp
  next
    fix patrM0
    have "gen_ok (\<lambda>_. True) (if isFemaleName rt v then pick R (sy_patrF st) else gret patrM0)"
      using False by (auto intro: gen_ok_ret gen_ok_mono [OF pick_ok])
    then show "gen_ok (syn_post v doc)
       (gbind (if isFemaleName rt v then pick R (sy_patrF st) else gret patrM0) (\<lambda>patr.
          gret (if length (Fields v) = 1 then capitalize rt surname
                else if length (Fields v) = 2 then capitalize rt surname @ '' '' @ capitalize rt first
                else capitalize rt surname @ '' '' @ capitalize rt first @ '' '' @ patr, doc)))"
      by (rule gen_ok_bind) (use that in \<open>auto intro!: gen_ok_ret syn_post_same\<close>)
  qed
  have sur: "gen_ok (\<lambda>x. x \<noteq> '''') (glift (if isFemaleName rt v then feminize rt s else Some s) :: ('a, string) gen)"
    if "s \<in> set (sy_surnames st)" for s
  proof -
    have l: "4 \<le> length s" using assms that by (simp add: dict_ok_def)
    with feminize_total [OF l, of rt] show ?thesis by (auto simp: gen_ok_def glift_def)
  qed
  have "synthName rt R st v cat doc =
      gbind (pick R (sy_names st)) (\<lambda>first.
      gbind (pick R (sy_surnames st)) (\<lambda>s.
      gbind (glift (if isFemaleName rt v then feminize rt s else Some s)) (?tail first)))"
    unfolding synthName_def Let_def using False by (simp only: if_False)
  moreover have "gen_ok (syn_post v doc) (gbind (pick R (sy_names st)) (\<lambda>first.
      gbind (pick R (sy_surnames st)) (\<lambda>s.
      gbind (glift (if isFemaleName rt v then feminize rt s else Some s)) (?tail first))))"
  proof (rule gen_ok_bind [OF pick_ok])
    fix first
    show "gen_ok (syn_post v doc) (gbind (pick R (sy_surnames st)) (\<lambda>s.
        gbind (glift (if isFemaleName rt v then feminize rt s else Some s)) (?tail first)))"
    proof (rule gen_ok_bind [OF pick_ok])
      fix s assume "s \<in> set (sy_surnames st)"
      from gen_ok_bind [OF sur [OF this] tail] show
        "gen_ok (syn_post v doc) (gbind (glift (if isFemaleName rt v then feminize rt s else Some s)) (?tail first))" .
    qed (use False in simp)
  qed (use False in simp)
  ultimately show ?thesis by (simp only:)
qed

lemma synthDateWord_post: "gen_ok (\<lambda>s. s \<noteq> '''') (synthDateWord rt R v)"
  unfolding synthDateWord_def Let_def
  by (rule gen_ok_bind [OF draw_mask_date_ok]) (auto intro!: gen_ok_ret)

lemma synthDateNumeric_post: "gen_ok (syn_post v doc) (synthDateNumeric rt R v cat doc)"
  unfolding synthDateNumeric_def Let_def
  by (auto intro!: gen_ok_ret tokenFallback_post gen_ok_bind [OF draw_mask_date_ok] syn_post_same)

lemma synthDate_post: "gen_ok (syn_post v doc) (synthDate rt R v cat doc)"
  using synthDateNumeric_post unfolding synthDate_def
  by (auto intro!: gen_ok_bind [OF synthDateWord_post] gen_ok_ret syn_post_same)

lemma synthFor_post:
  assumes "dict_ok st"
  shows "gen_ok (syn_post v doc) (synthFor rt R st v cat doc)"
  unfolding synthFor_def synthPhone_def synthCard_def synthINN_def synthSNILS_def synthPassport_def
  by (auto intro!: synthName_post [OF assms] synth_digits_post [OF Phone_ok] synth_digits_post [OF Card_ok]
      synth_digits_post [OF INN_ok] synth_digits_post [OF SNILS_ok] synth_digits_post [OF Passport_ok]
      synthDate_post gen_ok_ret syn_post_same tokenFallback_post simp: synthEmail_def HashEmail_def)

lemma synthetic_Mask_miss:
  assumes "dict_ok st" and "memo_hit doc v = None"
  shows "\<exists>out doc' g. synthFor rt R st v cat doc (newSeeded R cat v) = Some ((out, doc'), g) \<and>
    syn_post v doc (out, doc') \<and> synthetic_Mask rt R st v cat doc = Some (out, remember_opt doc' v out)"
  using synthFor_post [OF assms(1), of v doc rt cat] assms(2)
  unfolding gen_ok_def synthetic_Mask_def by (auto dest!: spec [of _ "newSeeded R cat v"])

lemma synthetic_contract:
  assumes "dict_ok st"
  shows "mask_strategy (synthetic_mask rt R st)"
proof
  fix v :: string and cat doc assume ne: "v \<noteq> ''''"
  show "fst (synthetic_mask rt R st v cat doc) \<noteq> ''''"
  proof (cases "memo_hit doc v")
    case None
    from synthetic_Mask_miss [OF assms None, of rt cat] ne show ?thesis
      by (auto simp: synthetic_mask_def syn_post_def)
  next
    case (Some m)
    with memo_hit_nonempty [OF Some] show ?thesis by (simp add: synthetic_mask_def synthetic_Mask_def)
  qed
next
  fix doc v m cat assume "memo_hit doc v = Some m"
  then show "synthetic_mask rt R st v cat doc = (m, doc)" by (simp add: synthetic_mask_def synthetic_Mask_def)
next
  fix d v cat assume "memo_hit (Some d) v = None"
  from synthetic_Mask_miss [OF assms this, of rt cat] show
    "\<exists>m d'. synthetic_mask rt R st v cat (Some d) = (m, Some d') \<and> doc_memo d' = (doc_memo d)(v \<mapsto> m)"
    by (auto simp: synthetic_mask_def syn_post_def remember_opt_def Remember_def)
qed

end

subsection \<open>Digits keep their places\<close>

text \<open>A byte that is not a digit stays; a digit becomes a digit.\<close>

definition same_layout :: "string \<Rightarrow> string \<Rightarrow> bool" where
  "same_layout v w \<longleftrightarrow> list_all2 (\<lambda>a b. (is_digit a \<longrightarrow> is_digit b) \<and> (\<not> is_digit a \<longrightarrow> b = a)) v w"

lemma applyDigits_layout: "\<forall>c \<in> set f. is_digit c \<Longrightarrow> same_layout v (applyDigits v f)"
  unfolding same_layout_def by (induction v f rule: applyDigits.induct) (auto split: list.splits)

lemma applyDigits_digits:
  "\<forall>c \<in> set f. is_digit c \<Longrightarrow>
   digits (applyDigits v f) = take (length (digits v)) f @ drop (length f) (digits v)"
  by (induction v f rule: applyDigits.induct) (auto simp: digits_def split: list.splits)

lemma digitsOnly_digits: "digitsOnly v = digits v"
  by (simp add: digitsOnly_def digits_def)

text \<open>A validator that looks only at the digits.\<close>

definition digit_validator :: "(string \<Rightarrow> bool) \<Rightarrow> bool" where
  "digit_validator ok \<longleftrightarrow> (\<forall>s. ok s = ok (digits s))"

lemma digits_idem [simp]: "digits (digits s) = digits s"
  by (simp add: digits_def)

lemma digit_validators: "digit_validator luhn" "digit_validator inn" "digit_validator snils" "digit_validator phone"
  by (simp_all add: digit_validator_def luhn_def inn_def snils_def phone_def)

lemma validator_applyDigits:
  assumes "digit_validator ok" and "digit_string n f" and "ok f" and "length (digits v) = n"
  shows "ok (applyDigits v f) \<and> same_layout v (applyDigits v f)"
proof -
  have f: "length f = n" "\<forall>c \<in> set f. is_digit c" using assms(2) by (simp_all add: digit_string_def)
  then have "digits (applyDigits v f) = f" using applyDigits_digits [OF f(2), of v] assms(4) by simp
  with assms(1,3) applyDigits_layout [OF f(2)] show ?thesis by (metis digit_validator_def)
qed

text \<open>
  The mask of a number: with a number of digits that the generator takes, the value keeps its layout and, if it has
  as many digits as the fake, passes the validator; any other value becomes a token.
\<close>

definition number_masked :: "runtime \<Rightarrow> (nat \<Rightarrow> bool) \<Rightarrow> nat \<Rightarrow> (string \<Rightarrow> bool) \<Rightarrow> category \<Rightarrow> string \<Rightarrow> string \<Rightarrow> bool" where
  "number_masked rt ok k valid cat v out \<longleftrightarrow>
     (if ok (length (digits v)) then same_layout v out \<and> (length (digits v) = k \<longrightarrow> valid out)
      else \<exists>n. out = ''['' @ ToUpper rt cat @ ''_'' @ itoa n @ '']'')"

context rand_source
begin

lemma synth_digits_masked:
  assumes "gen_ok (\<lambda>s. digit_string k s \<and> valid s) fake" and "digit_validator valid"
    and "synthFor rt R st v cat doc = synth_digits rt ok fake v cat doc" and "memo_hit doc v = None"
  shows "number_masked rt ok k valid cat v (fst (synthetic_mask rt R st v cat doc))"
proof (cases "ok (length (digits v))")
  case True
  obtain f g where f: "fake (newSeeded R cat v) = Some (f, g)" "digit_string k f" "valid f"
    using assms(1) unfolding gen_ok_def by blast
  then have "fst (synthetic_mask rt R st v cat doc) = applyDigits v f"
    using True assms(3,4)
    by (simp add: synthetic_mask_def synthetic_Mask_def synth_digits_def digitsOnly_digits gbind_def gret_def)
  moreover have "same_layout v (applyDigits v f)" using f(2) applyDigits_layout by (simp add: digit_string_def)
  ultimately show ?thesis using True validator_applyDigits [OF assms(2) f(2,3), of v] by (simp add: number_masked_def)
next
  case False
  then have "fst (synthetic_mask rt R st v cat doc) = fst (tokenFallback rt v cat doc)"
    using assms(3,4)
    by (simp add: synthetic_mask_def synthetic_Mask_def synth_digits_def digitsOnly_digits gret_def split: prod.split)
  with False assms(4) show ?thesis
    by (auto simp: number_masked_def tokenFallback_def Let_def split: prod.split)
qed

lemma synthFor_numbers:
  "synthFor rt R st v CatPhone doc = synth_digits rt (\<lambda>n. n = 11) (Phone R) v CatPhone doc"
  "synthFor rt R st v CatCardNumber doc = synth_digits rt (\<lambda>n. \<not> (n < 13 \<or> n > 19)) (Card R) v CatCardNumber doc"
  "synthFor rt R st v CatINN doc = synth_digits rt (\<lambda>n. n = 12) (INN R) v CatINN doc"
  "synthFor rt R st v CatSNILS doc = synth_digits rt (\<lambda>n. n = 11) (SNILS R) v CatSNILS doc"
  "synthFor rt R st v CatPassport doc = synth_digits rt (\<lambda>n. n = 10) (Passport R) v CatPassport doc"
  by (simp_all add: synthFor_def synthPhone_def synthCard_def synthINN_def synthSNILS_def synthPassport_def cat_defs)

lemma passport_digits: "digit_validator (\<lambda>s. passport s \<or> drop 4 (digits s) = ''000000'')"
  by (simp add: digit_validator_def passport_def)

lemma Passport_digits_ok: "gen_ok (\<lambda>s. digit_string 10 s \<and> (passport s \<or> drop 4 (digits s) = ''000000'')) (Passport R)"
  by (rule gen_ok_mono [OF Passport_ok]) (auto simp: digit_string_def digits_id)

lemmas synth_numbers_masked =
  synth_digits_masked [OF Phone_ok digit_validators(4) synthFor_numbers(1)]
  synth_digits_masked [OF Card_ok digit_validators(1) synthFor_numbers(2)]
  synth_digits_masked [OF INN_ok digit_validators(2) synthFor_numbers(3)]
  synth_digits_masked [OF SNILS_ok digit_validators(3) synthFor_numbers(4)]
  synth_digits_masked [OF Passport_digits_ok passport_digits synthFor_numbers(5)]

end

subsection \<open>Hashes\<close>

lemma clear_sign_bit: "uint ((h :: 64 word) AND NOT (push_bit 63 1)) = uint h mod 2 ^ 63"
proof -
  have "h AND NOT (push_bit 63 1) = take_bit 63 h"
  proof (rule bit_word_eqI)
    fix n assume n: "n < LENGTH(64)"
    then have "bit (push_bit 63 (1 :: 64 word)) n \<longleftrightarrow> n = 63"
      by (simp only: push_bit_of_1 bit_exp_iff possible_bit_word) auto
    with n show "bit (h AND NOT (push_bit 63 1)) n \<longleftrightarrow> bit (take_bit 63 h) n"
      by (simp only: bit_and_iff bit_not_iff bit_take_bit_iff possible_bit_word) auto
  qed
  then have "uint (h AND NOT (push_bit 63 1)) = take_bit 63 (uint h)" by (simp only: unsigned_take_bit_eq)
  then show ?thesis by (simp only: take_bit_eq_mod)
qed

lemma nibble_lt: "unat ((h :: 64 word) AND 0xf) < 16"
proof -
  have "h AND 0xf = take_bit 4 h" by (simp add: take_bit_eq_mask mask_eq_exp_minus_1)
  then have "unat (h AND 0xf) = unat h mod 16" by (simp add: unat_mod take_bit_eq_mod)
  then show ?thesis by simp
qed

lemma hex_loop_digits: "length (hex_loop k h) = k \<and> set (hex_loop k h) \<subseteq> set hexdigits"
proof (induction k arbitrary: h)
  case (Suc k)
  have "length hexdigits = 16" by (simp add: hexdigits_def)
  then have "hexdigits ! unat (h AND 0xf) \<in> set hexdigits" using nibble_lt [of h] by (intro nth_mem) simp
  with Suc.IH [of "drop_bit 4 h"] show ?case by simp
qed simp

subsection \<open>Claims\<close>

text \<open>
  C29. The synthetic strategy refines the strategy contract the masking code relies on, for every random source that respects
  the bound of \<^verbatim>\<open>Intn\<close> and dictionaries without one-letter surnames: it never panics, a value that is
  not empty gets a mask that is not empty, a memoised value gets the same mask again, and a new value is recorded in
  the document under exactly the mask returned.
\<close>

theorem synthetic_refines_contract:
  assumes "rand_source R" and "dict_ok st"
  shows "mask_strategy (synthetic_mask rt R st) \<and> synthetic_Mask rt R st v cat doc \<noteq> None"
proof -
  have "synthetic_Mask rt R st v cat doc \<noteq> None"
    using rand_source.synthetic_Mask_miss [OF assms, of doc v rt cat]
    by (cases "memo_hit doc v") (auto simp: synthetic_Mask_def)
  with rand_source.synthetic_contract [OF assms] show ?thesis by blast
qed

text \<open>
  C30. What the synthetic strategy makes of a phone, card, tax, insurance or passport number that is not yet in the
  document. A phone or insurance number of 11 digits, a tax number of 12, a passport of 10 and a card of 13 to 19 digits
  keep their layout: every byte that is not a digit stays in place, every digit becomes a digit. The result passes the
  validator of its category, for a card if it has 16 digits, for a passport unless the number drawn is all zeros. With any
  other number of digits, the 10 of an organisation's tax number among them, the value becomes a token.
\<close>

theorem synthetic_masks_valid:
  fixes rt :: runtime and st :: syntheticStrategy
  assumes "rand_source R" and "memo_hit doc v = None"
  defines "out cat \<equiv> fst (synthetic_mask rt R st v cat doc)"
  shows "number_masked rt (\<lambda>n. n = 11) 11 phone CatPhone v (out CatPhone) \<and>
    number_masked rt (\<lambda>n. \<not> (n < 13 \<or> n > 19)) 16 luhn CatCardNumber v (out CatCardNumber) \<and>
    number_masked rt (\<lambda>n. n = 12) 12 inn CatINN v (out CatINN) \<and>
    number_masked rt (\<lambda>n. n = 11) 11 snils CatSNILS v (out CatSNILS) \<and>
    number_masked rt (\<lambda>n. n = 10) 10 (\<lambda>s. passport s \<or> drop 4 (digits s) = ''000000'') CatPassport v (out CatPassport)"
  using rand_source.synth_numbers_masked [OF assms(1,2)] by (simp add: out_def)

text \<open>
  C40. The 64-bit hashes stay in range where they are used: the seed of the random source is the hash of the category, a zero byte
  and the value, reduced modulo 2^63, so the conversion to a signed integer never gives a negative number; and
  the fake mail address always has exactly six hexadecimal digits, none of them read past the digit table.
\<close>

theorem hash_bounds:
  "seed_of cat v = uint (fnv64a fnv64a_offset (cat @ [CHR 0x00] @ v)) mod 2 ^ 63 \<and>
   0 \<le> seed_of cat v \<and> seed_of cat v < 2 ^ 63 \<and>
   (\<exists>h. synthEmail v = ''user'' @ h @ ''@example.com'' \<and> length h = 6 \<and> set h \<subseteq> set ''0123456789abcdef'')"
proof -
  have "seed_of cat v = uint (fnv64a fnv64a_offset (cat @ [CHR 0x00] @ v)) mod 2 ^ 63"
    unfolding seed_of_def Let_def clear_sign_bit by (simp add: fnv64a_def)
  moreover have "synthEmail v = ''user'' @ hex_loop 6 (fnv64a fnv64a_offset v) @ ''@example.com''"
    by (simp add: synthEmail_def HashEmail_def)
  ultimately show ?thesis using hex_loop_digits [of 6 "fnv64a fnv64a_offset v"]
    unfolding hexdigits_def by auto
qed

subsection \<open>What the synthetic strategy gets wrong\<close>

text \<open>
  A card number may have 13 to 19 digits, the fake card has 16: the digits after the sixteenth are left as they are,
  so the mask of a 19-digit card shows three of its digits, and the mask of a shorter one has a wrong check digit.
\<close>

lemma synthCard_keeps_tail:
  assumes "rand_source R" and "16 \<le> length (digits v)" and "length (digits v) \<le> 19"
  shows "gen_ok (\<lambda>(out, _). drop 16 (digits out) = drop 16 (digits v)) (synthCard rt R v cat doc)"
  unfolding synthCard_def synth_digits_def digitsOnly_digits
  using assms(2,3)
  by (auto intro!: gen_ok_bind [OF rand_source.Card_ok [OF assms(1)]] gen_ok_ret
      simp: applyDigits_digits digit_string_def)

lemma synthCard_13_fails_luhn:
  "luhn ''4222222222222'' \<and>
   map_option (\<lambda>r. luhn (fst (fst r))) (synthCard ru_runtime counter_src ''4222222222222'' CatCardNumber None 1) = Some False"
  by code_simp

text \<open>A date with a two-digit year loses the leading zero of a year after 1999.\<close>

lemma synthDateNumeric_one_digit_year:
  "map_option (fst \<circ> fst) (synthDateNumeric ru_runtime counter_src ''05.03.85'' CatDate None 53) = Some ''25.07.3''"
  by code_simp

subsection \<open>Witnesses\<close>

definition demo_synth :: syntheticStrategy where
  "demo_synth = load (\<lambda>p. if p = ''dict/surnames.txt'' then Some ''ivanov'' else Some ''ivan'')"

lemma demo_synth_ok: "dict_ok demo_synth"
  unfolding dict_ok_def by code_simp

theorem synthetic_refines_contract_witness:
  "mask_strategy (synthetic_mask ru_runtime counter_src demo_synth)"
  using synthetic_refines_contract [OF counter.rand_source_axioms demo_synth_ok] by blast

theorem synthetic_masks_valid_witness:
  "luhn (fst (synthetic_mask ru_runtime counter_src demo_synth ''4111 1111 1111 1111'' CatCardNumber (Some NewDocState))) \<and>
   (\<exists>n. fst (synthetic_mask ru_runtime counter_src demo_synth ''7707083893'' CatINN (Some NewDocState)) = ''[INN_'' @ itoa n @ '']'')"
proof -
  have m: "memo_hit (Some NewDocState) ''4111 1111 1111 1111'' = None" "memo_hit (Some NewDocState) ''7707083893'' = None"
    by code_simp+
  have l: "length (digits ''4111 1111 1111 1111'') = 16" "length (digits ''7707083893'') = 10" by code_simp+
  have u: "ToUpper ru_runtime CatINN = ''INN''" by code_simp
  show ?thesis
    using synthetic_masks_valid [OF counter.rand_source_axioms m(1), of ru_runtime demo_synth]
      synthetic_masks_valid [OF counter.rand_source_axioms m(2), of ru_runtime demo_synth] l u
    by (simp add: number_masked_def)
qed

end
