(* ===== verification/Config.thy ===== *)
theory Config
  imports Chunk
begin

text \<open>
  The configuration and its validation (\<^verbatim>\<open>internal/config/config.go\<close>), and the loader of combination
  rules (\<^verbatim>\<open>internal/engine/rules.go\<close>). Reading files and parsing YAML are arguments of the loaders.
\<close>

subsection \<open>Data\<close>

definition StrategyPartial :: string where "StrategyPartial = ''partial''"

definition StrategyFull :: string where "StrategyFull = ''full''"

definition StrategyToken :: string where "StrategyToken = ''token''"

definition StrategySynthetic :: string where "StrategySynthetic = ''synthetic''"

lemmas strategy_names = StrategyPartial_def StrategyFull_def StrategyToken_def StrategySynthetic_def

record cfg_Server =
  srv_Addr :: string
  srv_ReadTimeout :: int
  srv_WriteTimeout :: int
  srv_MaxBodyBytes :: int
  srv_MaxInflight :: int
  srv_DefaultSystem :: string
  srv_MetricsAddr :: string

record cfg_Store =
  sto_Kind :: string
  sto_RedisAddr :: string
  sto_RedisPool :: int
  sto_RedisWait :: int
  sto_RedisTimeout :: int
  sto_TTL :: int
  sto_EncryptionKeyEnv :: string

record cfg_LLM =
  llm_BaseURL :: string
  llm_APIKeyEnv :: string
  llm_Model :: string
  llm_Timeout :: int

record cfg_Logging =
  log_Level :: string
  log_Format :: string

record cfg_ComboRule =
  ccr_Category :: category
  ccr_RequiresAny :: "category list"

record System =
  sys_ID :: string
  sys_Enabled :: bool
  sys_APIKey :: string
  sys_APIKeyEnv :: string
  sys_Categories :: "category list"
  sys_Strategy :: string
  sys_Unmask :: bool
  sys_AllowStrategyOverride :: bool
  sys_ComboRules :: "cfg_ComboRule list"

record Config =
  cfg_server :: cfg_Server
  cfg_store :: cfg_Store
  cfg_llm :: cfg_LLM
  cfg_logging :: cfg_Logging
  cfg_systems :: "System list"

text \<open>The errors of the package, one constructor per message.\<close>

datatype config_error =
    ReadFailed string
  | ParseFailed string
  | AddrRequired
  | MaxInflightNotPositive
  | UnknownStoreKind string
  | RedisAddrRequired
  | BaseURLRequired
  | ModelRequired
  | SystemIDRequired
  | DuplicateSystemID string
  | UnknownStrategy string string
  | UnknownCategory string category
  | RuleUnknownCategory string category
  | RuleRequiresUnknown string category

subsection \<open>Validation\<close>

definition validStrategies :: "string list" where
  "validStrategies = [StrategyPartial, StrategyFull, StrategyToken, StrategySynthetic]"

definition ValidStrategy :: "string \<Rightarrow> bool" where
  "ValidStrategy name \<longleftrightarrow> name \<in> set validStrategies"

definition validCategories :: "category list" where
  "validCategories =
     [CatFullName, CatBirthDate, CatBirthPlace, CatPassport, CatCitizenship, CatPassportIssuer,
      CatDivisionCode, CatPassportDate, CatDriverLicense, CatAddress, CatEmail, CatPhone, CatINN,
      CatCardNumber, CatCVV, CatPIN, CatCardHolder, CatSNILS, CatForeignPassport, CatIDDocument, CatDate]"

text \<open>The first element of a list that gives an error.\<close>

fun first_error :: "('a \<Rightarrow> config_error option) \<Rightarrow> 'a list \<Rightarrow> config_error option" where
  "first_error f [] = None"
| "first_error f (x # xs) = (case f x of Some e \<Rightarrow> Some e | None \<Rightarrow> first_error f xs)"

definition validateComboRule :: "string \<Rightarrow> cfg_ComboRule \<Rightarrow> config_error option" where
  "validateComboRule pid r =
     (if ccr_Category r \<notin> set validCategories then Some (RuleUnknownCategory pid (ccr_Category r))
      else first_error (\<lambda>req. if req \<notin> set validCategories then Some (RuleRequiresUnknown pid req) else None)
             (ccr_RequiresAny r))"

definition validateSystem :: "System \<Rightarrow> config_error option" where
  "validateSystem s =
     (if sys_Strategy s \<noteq> '''' \<and> sys_Strategy s \<notin> set validStrategies
      then Some (UnknownStrategy (sys_ID s) (sys_Strategy s))
      else
        case first_error (\<lambda>cat. if cat \<notin> set validCategories then Some (UnknownCategory (sys_ID s) cat) else None)
               (sys_Categories s) of
          Some e \<Rightarrow> Some e
        | None \<Rightarrow> first_error (validateComboRule (sys_ID s)) (sys_ComboRules s))"

definition validateBasics :: "Config \<Rightarrow> config_error option" where
  "validateBasics c =
     (if srv_Addr (cfg_server c) = '''' then Some AddrRequired
      else if srv_MaxInflight (cfg_server c) \<le> 0 then Some MaxInflightNotPositive
      else if sto_Kind (cfg_store c) \<noteq> ''memory'' \<and> sto_Kind (cfg_store c) \<noteq> ''redis''
      then Some (UnknownStoreKind (sto_Kind (cfg_store c)))
      else if sto_Kind (cfg_store c) = ''redis'' \<and> sto_RedisAddr (cfg_store c) = '''' then Some RedisAddrRequired
      else if llm_BaseURL (cfg_llm c) = '''' then Some BaseURLRequired
      else if llm_Model (cfg_llm c) = '''' then Some ModelRequired
      else None)"

text \<open>The loop of \<^verbatim>\<open>Validate\<close> over the systems, with the ids \<open>seen\<close>.\<close>

fun validate_systems :: "string list \<Rightarrow> System list \<Rightarrow> config_error option" where
  "validate_systems seen [] = None"
| "validate_systems seen (s # ss) =
     (if sys_ID s = '''' then Some SystemIDRequired
      else if sys_ID s \<in> set seen then Some (DuplicateSystemID (sys_ID s))
      else case validateSystem s of
        Some e \<Rightarrow> Some e
      | None \<Rightarrow> validate_systems (sys_ID s # seen) ss)"

definition Validate :: "Config \<Rightarrow> config_error option" where
  "Validate c =
     (case validateBasics c of Some e \<Rightarrow> Some e | None \<Rightarrow> validate_systems [] (cfg_systems c))"

definition Load :: "(string \<Rightarrow> string option) \<Rightarrow> (string \<Rightarrow> Config option) \<Rightarrow> string \<Rightarrow> config_error + Config" where
  "Load readFile unmarshal path =
     (case readFile path of
        None \<Rightarrow> Inl (ReadFailed path)
      | Some bytes \<Rightarrow>
          (case unmarshal bytes of
             None \<Rightarrow> Inl (ParseFailed path)
           | Some cfg \<Rightarrow> (case Validate cfg of Some e \<Rightarrow> Inl e | None \<Rightarrow> Inr cfg)))"

definition SystemByID :: "Config \<Rightarrow> string \<Rightarrow> System option" where
  "SystemByID c pid = find (\<lambda>s. sys_ID s = pid) (cfg_systems c)"

subsection \<open>Combination rules from a file\<close>

record comboRuleFile =
  crf_Category :: category
  crf_RequiresAny :: "category list"

definition LoadComboRules ::
  "string option \<Rightarrow> (string \<Rightarrow> comboRuleFile list option) \<Rightarrow> ComboRule list option" where
  "LoadComboRules bytes unmarshal =
     do { b \<leftarrow> bytes;
          rules \<leftarrow> unmarshal b;
          Some (map (\<lambda>r. \<lparr> cr_Category = crf_Category r, cr_RequiresAny = crf_RequiresAny r \<rparr>) rules) }"

subsection \<open>What a valid configuration is\<close>

lemma case_error_None: "(case x of None \<Rightarrow> y | Some e \<Rightarrow> Some e) = None \<longleftrightarrow> x = None \<and> y = None"
  by (cases x) auto

lemma first_error_None: "first_error f xs = None \<longleftrightarrow> (\<forall>x \<in> set xs. f x = None)"
  by (induction xs) (auto simp: case_error_None)

definition rule_valid :: "cfg_ComboRule \<Rightarrow> bool" where
  "rule_valid r \<longleftrightarrow> insert (ccr_Category r) (set (ccr_RequiresAny r)) \<subseteq> set validCategories"

definition system_valid :: "System \<Rightarrow> bool" where
  "system_valid s \<longleftrightarrow>
     (sys_Strategy s = '''' \<or> ValidStrategy (sys_Strategy s)) \<and> set (sys_Categories s) \<subseteq> set validCategories \<and>
     (\<forall>r \<in> set (sys_ComboRules s). rule_valid r)"

lemma validateComboRule_None: "validateComboRule pid r = None \<longleftrightarrow> rule_valid r"
  by (auto simp: validateComboRule_def rule_valid_def first_error_None split: if_splits)

lemma validateSystem_None: "validateSystem s = None \<longleftrightarrow> system_valid s"
  by (auto simp: validateSystem_def system_valid_def ValidStrategy_def first_error_None validateComboRule_None
      case_error_None split: if_splits)

lemma validate_systems_None:
  "validate_systems seen ss = None \<longleftrightarrow>
     distinct (map sys_ID ss) \<and> set seen \<inter> sys_ID ` set ss = {} \<and>
     (\<forall>s \<in> set ss. sys_ID s \<noteq> '''' \<and> system_valid s)"
  by (induction ss arbitrary: seen) (auto simp: validateSystem_None case_error_None)

lemma Validate_None:
  "Validate c = None \<longleftrightarrow>
     validateBasics c = None \<and> distinct (map sys_ID (cfg_systems c)) \<and>
     (\<forall>s \<in> set (cfg_systems c). sys_ID s \<noteq> '''' \<and> system_valid s)"
  by (auto simp: Validate_def validate_systems_None case_error_None)

lemma find_distinct_key:
  "distinct (map f xs) \<Longrightarrow> find (\<lambda>x. f x = k) xs = Some x \<longleftrightarrow> x \<in> set xs \<and> f x = k"
  by (induction xs) (auto simp: image_iff)

lemma SystemByID_Some:
  "Validate c = None \<Longrightarrow> SystemByID c pid = Some s \<longleftrightarrow> s \<in> set (cfg_systems c) \<and> sys_ID s = pid"
  by (simp add: SystemByID_def Validate_None find_distinct_key)

text \<open>
  C39. \<^verbatim>\<open>Load\<close> gives a configuration exactly when the file is read and parsed and the configuration is
  valid: the required fields are there, at least one request may be in flight, the store kind is known,
  the system ids are non-empty and pairwise different, and every strategy and category that is named
  exists. Then each system is found under its id, and nothing else is.
\<close>

theorem Load_valid:
  "Load readFile unmarshal path = Inr c \<longleftrightarrow>
     (\<exists>bytes. readFile path = Some bytes \<and> unmarshal bytes = Some c) \<and>
     srv_Addr (cfg_server c) \<noteq> '''' \<and> 0 < srv_MaxInflight (cfg_server c) \<and>
     (sto_Kind (cfg_store c) = ''memory'' \<or> sto_Kind (cfg_store c) = ''redis'' \<and> sto_RedisAddr (cfg_store c) \<noteq> '''') \<and>
     llm_BaseURL (cfg_llm c) \<noteq> '''' \<and> llm_Model (cfg_llm c) \<noteq> '''' \<and>
     (\<forall>s \<in> set (cfg_systems c). sys_ID s \<noteq> '''' \<and> system_valid s) \<and>
     (\<forall>s pid. SystemByID c pid = Some s \<longleftrightarrow> s \<in> set (cfg_systems c) \<and> sys_ID s = pid) \<and>
     distinct (cfg_systems c)"
proof -
  have d: "distinct (map sys_ID ss) \<longleftrightarrow>
      distinct ss \<and> (\<forall>s pid. find (\<lambda>s. sys_ID s = pid) ss = Some s \<longleftrightarrow> s \<in> set ss \<and> sys_ID s = pid)" for ss
  proof
    assume "distinct (map sys_ID ss)"
    then show "distinct ss \<and> (\<forall>s pid. find (\<lambda>s. sys_ID s = pid) ss = Some s \<longleftrightarrow> s \<in> set ss \<and> sys_ID s = pid)"
      using find_distinct_key [of sys_ID ss] distinct_map [of sys_ID ss] by blast
  next
    assume r: "distinct ss \<and> (\<forall>s pid. find (\<lambda>s. sys_ID s = pid) ss = Some s \<longleftrightarrow> s \<in> set ss \<and> sys_ID s = pid)"
    have "s = s'" if "s \<in> set ss" "s' \<in> set ss" "sys_ID s = sys_ID s'" for s s'
    proof -
      have "find (\<lambda>x. sys_ID x = sys_ID s') ss = Some s" "find (\<lambda>x. sys_ID x = sys_ID s') ss = Some s'"
        using r that by blast+
      then show ?thesis by simp
    qed
    with r show "distinct (map sys_ID ss)" by (simp add: distinct_map inj_on_def)
  qed
  have b: "validateBasics c = None \<longleftrightarrow> srv_Addr (cfg_server c) \<noteq> '''' \<and> 0 < srv_MaxInflight (cfg_server c) \<and>
      (sto_Kind (cfg_store c) = ''memory'' \<or> sto_Kind (cfg_store c) = ''redis'' \<and> sto_RedisAddr (cfg_store c) \<noteq> '''') \<and>
      llm_BaseURL (cfg_llm c) \<noteq> '''' \<and> llm_Model (cfg_llm c) \<noteq> ''''"
    by (auto simp: validateBasics_def)
  have v: "Validate c = None \<longleftrightarrow> validateBasics c = None \<and> (\<forall>s \<in> set (cfg_systems c). sys_ID s \<noteq> '''' \<and> system_valid s) \<and>
      (\<forall>s pid. SystemByID c pid = Some s \<longleftrightarrow> s \<in> set (cfg_systems c) \<and> sys_ID s = pid) \<and> distinct (cfg_systems c)"
    unfolding Validate_None d SystemByID_def by blast
  have "Load readFile unmarshal path = Inr c \<longleftrightarrow>
      (\<exists>bytes. readFile path = Some bytes \<and> unmarshal bytes = Some c) \<and> Validate c = None"
    by (auto simp: Load_def split: option.splits)
  then show ?thesis unfolding v b by (simp only: conj_assoc)
qed

definition demo_checker :: System where
  "demo_checker =
     \<lparr> sys_ID = ''checker'', sys_Enabled = True, sys_APIKey = '''', sys_APIKeyEnv = '''', sys_Categories = [],
       sys_Strategy = StrategyFull, sys_Unmask = True, sys_AllowStrategyOverride = False, sys_ComboRules = [] \<rparr>"

definition demo_chatbot :: System where
  "demo_chatbot =
     \<lparr> sys_ID = ''chatbot'', sys_Enabled = True, sys_APIKey = '''', sys_APIKeyEnv = ''PDN_CHATBOT_KEY'',
       sys_Categories = [CatPhone, CatPIN], sys_Strategy = StrategyToken, sys_Unmask = False,
       sys_AllowStrategyOverride = False,
       sys_ComboRules = [\<lparr> ccr_Category = CatPIN, ccr_RequiresAny = [CatCardNumber] \<rparr>] \<rparr>"

definition demo_crm :: System where
  "demo_crm =
     \<lparr> sys_ID = ''crm'', sys_Enabled = True, sys_APIKey = '''', sys_APIKeyEnv = ''PDN_CRM_KEY'',
       sys_Categories = [], sys_Strategy = StrategyToken, sys_Unmask = True,
       sys_AllowStrategyOverride = False, sys_ComboRules = [] \<rparr>"

definition demo_config :: Config where
  "demo_config =
     \<lparr> cfg_server = \<lparr> srv_Addr = '':8080'', srv_ReadTimeout = 5, srv_WriteTimeout = 15, srv_MaxBodyBytes = 2097152,
         srv_MaxInflight = 2, srv_DefaultSystem = ''checker'', srv_MetricsAddr = '''' \<rparr>,
       cfg_store = \<lparr> sto_Kind = ''memory'', sto_RedisAddr = '''', sto_RedisPool = 0, sto_RedisWait = 0,
         sto_RedisTimeout = 0, sto_TTL = 100, sto_EncryptionKeyEnv = ''PDN_ENC_KEY'' \<rparr>,
       cfg_llm = \<lparr> llm_BaseURL = ''http://llm/'', llm_APIKeyEnv = ''MODEL_KEY'', llm_Model = ''m'', llm_Timeout = 12 \<rparr>,
       cfg_logging = \<lparr> log_Level = ''info'', log_Format = ''json'' \<rparr>,
       cfg_systems = [demo_checker, demo_chatbot, demo_crm] \<rparr>"

lemma demo_config_valid: "Validate demo_config = None"
  by (simp add: Validate_def validateBasics_def validateSystem_def validateComboRule_def demo_config_def demo_checker_def
      demo_chatbot_def demo_crm_def validCategories_def validStrategies_def strategy_names)

theorem Load_valid_witness:
  "SystemByID demo_config ''chatbot'' = Some demo_chatbot \<and>
   Load (\<lambda>_. Some ''cfg'') (\<lambda>_. Some demo_config) ''x'' = Inr demo_config"
proof -
  have l: "Load (\<lambda>_. Some ''cfg'') (\<lambda>_. Some demo_config) ''x'' = Inr demo_config"
    by (simp add: Load_def demo_config_valid)
  moreover have "demo_chatbot \<in> set (cfg_systems demo_config)" "sys_ID demo_chatbot = ''chatbot''"
    by (simp_all add: demo_config_def demo_chatbot_def)
  ultimately show ?thesis using Load_valid [of "\<lambda>_. Some ''cfg''" "\<lambda>_. Some demo_config" "''x''" demo_config] by blast
qed

end
