(* ===== verification/Crypto.thy ===== *)
theory Crypto
  imports Prelude
begin

text \<open>
  Encryption of stored records and the key from the environment (\<^verbatim>\<open>internal/crypto/crypto.go\<close>). The
  primitives of the standard library (AES-GCM, HMAC-SHA256, SHA-256) are arguments of the model, the
  record \<open>primitives\<close>; the locale \<open>crypto_primitives\<close> states what the code relies on. Random bytes
  are inputs: \<^term>\<open>None\<close> is a failed read. The Go \<^verbatim>\<open>error\<close> values of the program are one datatype.
\<close>

datatype goerror =
    ErrKeyLength | ErrInvalidKey | ErrRand | ErrCiphertextShort | ErrOpen
  | ErrMarshal | ErrUnmarshal | ErrRedisNil | ErrRedis string
  | ErrNotFound | ErrLooksLikeUnmask | ErrForeignRecord | ErrNoStrategy

record primitives =
  aead_Seal :: "string \<Rightarrow> string \<Rightarrow> string \<Rightarrow> string"
  aead_Open :: "string \<Rightarrow> string \<Rightarrow> string \<Rightarrow> string option"
  hmac_sha256 :: "string \<Rightarrow> string \<Rightarrow> string"
  sha256 :: "string \<Rightarrow> string"

locale crypto_primitives =
  fixes pr :: primitives
  assumes open_seal: "aead_Open pr key nonce (aead_Seal pr key nonce p) = Some p"
    and hmac_length: "length (hmac_sha256 pr key m) = 32"
    and sha_length: "length (sha256 pr m) = 32"

subsection \<open>The cipher\<close>

record Cipher =
  cph_key :: string

definition NonceSize :: nat where
  "NonceSize = 12"

definition New :: "string \<Rightarrow> goerror + Cipher" where
  "New key = (if length key \<noteq> 32 then Inl ErrKeyLength else Inr \<lparr> cph_key = key \<rparr>)"

definition Encrypt :: "primitives \<Rightarrow> Cipher \<Rightarrow> string option \<Rightarrow> string \<Rightarrow> goerror + string" where
  "Encrypt pr c rnd plaintext =
     (case rnd of
        None \<Rightarrow> Inl ErrRand
      | Some nonce \<Rightarrow> Inr (nonce @ aead_Seal pr (cph_key c) nonce plaintext))"

definition Decrypt :: "primitives \<Rightarrow> Cipher \<Rightarrow> string \<Rightarrow> goerror + string" where
  "Decrypt pr c ciphertext =
     (if length ciphertext < NonceSize then Inl ErrCiphertextShort
      else case aead_Open pr (cph_key c) (take NonceSize ciphertext) (drop NonceSize ciphertext) of
             None \<Rightarrow> Inl ErrOpen
           | Some p \<Rightarrow> Inr p)"

subsection \<open>Hexadecimal and base64\<close>

definition hex_digit :: "nat \<Rightarrow> char" where
  "hex_digit n = char_of (if n < 10 then 0x30 + n else 0x61 + (n - 10))"

definition hex_byte :: "char \<Rightarrow> string" where
  "hex_byte c = (let n = of_char c :: nat in [hex_digit (n div 16), hex_digit (n mod 16)])"

definition hex_encode :: "string \<Rightarrow> string" where
  "hex_encode s = concat (map hex_byte s)"

definition unhex :: "char \<Rightarrow> nat option" where
  "unhex c =
     (let n = of_char c :: nat in
      if 0x30 \<le> n \<and> n \<le> 0x39 then Some (n - 0x30)
      else if 0x61 \<le> n \<and> n \<le> 0x66 then Some (n - 0x61 + 10)
      else if 0x41 \<le> n \<and> n \<le> 0x46 then Some (n - 0x41 + 10)
      else None)"

fun hex_decode :: "string \<Rightarrow> string option" where
  "hex_decode [] = Some []"
| "hex_decode [c] = None"
| "hex_decode (a # b # s) =
     do { x \<leftarrow> unhex a; y \<leftarrow> unhex b; r \<leftarrow> hex_decode s; Some (char_of (16 * x + y) # r) }"

definition unb64 :: "char \<Rightarrow> nat option" where
  "unb64 c =
     (let n = of_char c :: nat in
      if 0x41 \<le> n \<and> n \<le> 0x5A then Some (n - 0x41)
      else if 0x61 \<le> n \<and> n \<le> 0x7A then Some (n - 0x61 + 26)
      else if 0x30 \<le> n \<and> n \<le> 0x39 then Some (n - 0x30 + 52)
      else if n = 0x2B then Some 62 else if n = 0x2F then Some 63 else None)"

text \<open>Groups of four characters; only the last one may be padded.\<close>

fun b64_groups :: "string \<Rightarrow> string option" where
  "b64_groups [] = Some []"
| "b64_groups (a # b # c # d # s) =
     do { w \<leftarrow> unb64 a; x \<leftarrow> unb64 b;
          if c = CHR ''='' then (if d = CHR ''='' \<and> s = [] then Some [char_of (4 * w + x div 16)] else None)
          else do { y \<leftarrow> unb64 c;
            if d = CHR ''='' then
              (if s = [] then Some [char_of (4 * w + x div 16), char_of (16 * (x mod 16) + y div 4)] else None)
            else do { z \<leftarrow> unb64 d; r \<leftarrow> b64_groups s;
              Some (char_of (4 * w + x div 16) # char_of (16 * (x mod 16) + y div 4)
                # char_of (64 * (y mod 4) + z) # r) } } }"
| "b64_groups s = None"

definition b64_decode :: "string \<Rightarrow> string option" where
  "b64_decode s = b64_groups (filter (\<lambda>c. c \<noteq> CHR 0x0A \<and> c \<noteq> CHR 0x0D) s)"

subsection \<open>The key from the environment\<close>

definition KeyFromEnv :: "(string \<Rightarrow> string) \<Rightarrow> string option \<Rightarrow> string \<Rightarrow> goerror + string" where
  "KeyFromEnv getenv rnd name =
     (let raw = getenv name in
      if raw = '''' then (case rnd of None \<Rightarrow> Inl ErrRand | Some key \<Rightarrow> Inr key)
      else case hex_decode raw of
        Some key \<Rightarrow>
          if length key = 32 then Inr key
          else (case b64_decode raw of
                  Some key' \<Rightarrow> if length key' = 32 then Inr key' else Inl ErrInvalidKey
                | None \<Rightarrow> Inl ErrInvalidKey)
      | None \<Rightarrow>
          (case b64_decode raw of
             Some key' \<Rightarrow> if length key' = 32 then Inr key' else Inl ErrInvalidKey
           | None \<Rightarrow> Inl ErrInvalidKey))"

subsection \<open>Facts\<close>

context crypto_primitives
begin

lemma Decrypt_Encrypt:
  assumes "length nonce = NonceSize" and "Encrypt pr c (Some nonce) p = Inr ct"
  shows "Decrypt pr c ct = Inr p"
  using assms by (auto simp: Encrypt_def Decrypt_def open_seal)

end

lemma hex_digit_unhex: "n < 16 \<Longrightarrow> unhex (hex_digit n) = Some n"
  by (simp add: unhex_def hex_digit_def Let_def of_char_of)

lemma hex_decode_encode: "hex_decode (hex_encode s) = Some s"
proof (induction s)
  case (Cons c s)
  have "(of_char c :: nat) < 256" by simp
  then have "(of_char c :: nat) div 16 < 16" by (intro less_mult_imp_div_less) simp
  then have "hex_decode (hex_byte c @ hex_encode s) = Some (c # s)"
    using Cons.IH by (simp add: hex_byte_def Let_def hex_digit_unhex)
  then show ?case by (simp add: hex_encode_def)
qed (simp add: hex_encode_def)

lemma length_hex_encode: "length (hex_encode s) = 2 * length s"
  by (induction s) (simp_all add: hex_encode_def hex_byte_def Let_def)

text \<open>
  \<^verbatim>\<open>KeyFromEnv\<close> only ever returns a key that \<^verbatim>\<open>New\<close> accepts, and a 32-byte key written in
  hexadecimal is read back as it is.
\<close>

lemma KeyFromEnv_usable:
  assumes "\<And>k. rnd = Some k \<Longrightarrow> length k = 32"
  shows "(\<forall>key. KeyFromEnv getenv rnd name = Inr key \<longrightarrow> New key = Inr \<lparr> cph_key = key \<rparr>) \<and>
    (\<forall>key. length key = 32 \<and> getenv name = hex_encode key \<longrightarrow> KeyFromEnv getenv rnd name = Inr key)"
proof -
  have "New key = Inr \<lparr> cph_key = key \<rparr>" if "KeyFromEnv getenv rnd name = Inr key" for key
    using that assms
    by (auto simp: KeyFromEnv_def New_def Let_def split: if_splits option.splits)
  moreover have "KeyFromEnv getenv rnd name = Inr key"
    if "length key = 32" "getenv name = hex_encode key" for key
  proof -
    have "hex_encode key \<noteq> ''''" using that(1) length_hex_encode [of key] by auto
    with that show ?thesis by (simp add: KeyFromEnv_def hex_decode_encode)
  qed
  ultimately show ?thesis by blast
qed

theorem KeyFromEnv_usable_witness:
  "KeyFromEnv (\<lambda>_. hex_encode (replicate 32 CHR ''k'')) None ''KEY'' = Inr (replicate 32 CHR ''k'')"
  using KeyFromEnv_usable [of None "\<lambda>_. hex_encode (replicate 32 CHR ''k'')" "''KEY''"] by simp

subsection \<open>A concrete instance\<close>

text \<open>Primitives to evaluate the model on; they satisfy the laws and are of course not secure.\<close>

definition demo_primitives :: primitives where
  "demo_primitives =
     \<lparr> aead_Seal = (\<lambda>key nonce p. p), aead_Open = (\<lambda>key nonce ct. Some ct),
       hmac_sha256 = (\<lambda>key m. take 32 (m @ replicate 32 CHR 0x00)),
       sha256 = (\<lambda>m. take 32 (m @ replicate 32 CHR 0x00)) \<rparr>"

interpretation demo: crypto_primitives demo_primitives
  by unfold_locales (simp_all add: demo_primitives_def)

end
