(* ===== verification/Store.thy ===== *)
theory Store
  imports Crypto Mask_Core
begin

text \<open>
  The records of the store and the interface its two backends implement
  (\<^verbatim>\<open>internal/store/store.go\<close>). Time is in nanoseconds since the zero \<^verbatim>\<open>time.Time\<close>. JSON is library
  code: the record \<open>codec\<close> is an argument of the model and \<open>record_codec\<close> its law. What the clock,
  the random source and the network give to one store call is an argument of that call.
\<close>

subsection \<open>Records\<close>

record Record =
  rec_Replacements :: "Replacement list"
  rec_Strategy :: string
  rec_CreatedAt :: int
  rec_MaskedText :: string
  rec_Hash :: string
  rec_SystemID :: string

definition LegacyOwner :: string where
  "LegacyOwner = ''''"

definition hashIDLen :: nat where
  "hashIDLen = 16"

definition hashID :: "primitives \<Rightarrow> string \<Rightarrow> string \<Rightarrow> string" where
  "hashID pr key pid = take hashIDLen (hex_encode (hmac_sha256 pr key pid))"

text \<open>
  The records JSON keeps as they are: their strings are UTF-8 (the encoder rewrites other bytes as
  U+FFFD) and the year of the time stamp has at most four digits.
\<close>

definition rep_ok :: "Replacement \<Rightarrow> bool" where
  "rep_ok r \<longleftrightarrow> valid_utf8 (rep_Category r) \<and> valid_utf8 (rep_Original r) \<and> valid_utf8 (rep_Masked r)"

definition record_ok :: "Record \<Rightarrow> bool" where
  "record_ok r \<longleftrightarrow>
     (\<forall>p \<in> set (rec_Replacements r). rep_ok p) \<and> valid_utf8 (rec_Strategy r) \<and>
     valid_utf8 (rec_MaskedText r) \<and> valid_utf8 (rec_Hash r) \<and> valid_utf8 (rec_SystemID r) \<and>
     0 \<le> rec_CreatedAt r \<and> rec_CreatedAt r < 315537897600000000000"

record codec =
  json_Marshal :: "Record \<Rightarrow> string option"
  json_Unmarshal :: "string \<Rightarrow> Record option"

locale record_codec =
  fixes cd :: codec
  assumes json_roundtrip:
    "record_ok r \<Longrightarrow> \<exists>s. json_Marshal cd r = Some s \<and> json_Unmarshal cd s = Some r"

text \<open>The environment of one store call.\<close>

record store_call =
  cl_now :: int
  cl_nonce :: "string option"

definition call_ok :: "store_call \<Rightarrow> bool" where
  "call_ok c \<longleftrightarrow> (\<forall>n. cl_nonce c = Some n \<longrightarrow> length n = NonceSize)"

text \<open>\<^verbatim>\<open>encode\<close> of both backends, and the decoding half of their \<^verbatim>\<open>Load\<close>.\<close>

definition encode :: "primitives \<Rightarrow> codec \<Rightarrow> Cipher \<Rightarrow> string option \<Rightarrow> Record \<Rightarrow> goerror + string" where
  "encode pr cd c rnd r =
     (case json_Marshal cd r of None \<Rightarrow> Inl ErrMarshal | Some plain \<Rightarrow> Encrypt pr c rnd plain)"

definition decode :: "primitives \<Rightarrow> codec \<Rightarrow> Cipher \<Rightarrow> string \<Rightarrow> goerror + Record" where
  "decode pr cd c ct =
     (case Decrypt pr c ct of
        Inl e \<Rightarrow> Inl e
      | Inr plain \<Rightarrow> (case json_Unmarshal cd plain of None \<Rightarrow> Inl ErrUnmarshal | Some r \<Rightarrow> Inr r))"

locale store_env = crypto_primitives pr + record_codec cd for pr cd
begin

lemma decode_encode:
  assumes "encode pr cd c rnd r = Inr ct" and "record_ok r" and "\<And>n. rnd = Some n \<Longrightarrow> length n = NonceSize"
  shows "decode pr cd c ct = Inr r"
proof -
  obtain s where s: "json_Marshal cd r = Some s" "json_Unmarshal cd s = Some r"
    using json_roundtrip [OF assms(2)] by blast
  obtain n where n: "rnd = Some n" using assms(1) s by (cases rnd) (auto simp: encode_def Encrypt_def)
  have "Decrypt pr c ct = Inr s"
    using assms(1,3) s n by (intro Decrypt_Encrypt [of n]) (simp_all add: encode_def)
  with s show ?thesis by (simp add: decode_def)
qed

end

subsection \<open>The interface\<close>

text \<open>
  What a caller may rely on. \<open>view s t pid\<close> is what a \<^verbatim>\<open>Load\<close> of \<open>pid\<close> at time \<open>t\<close> that reaches the store
  answers; \<open>slot\<close> maps an id to the key it is stored under, so ids with the same slot share a record;
  \<open>live c ttl t\<close> says that a record written at \<open>c\<close> is still there at \<open>t\<close>. A failed write may have
  reached the store or not.
\<close>

locale record_store =
  fixes view :: "'s \<Rightarrow> int \<Rightarrow> string \<Rightarrow> goerror + Record option"
    and slot :: "'s \<Rightarrow> string \<Rightarrow> string"
    and live :: "int \<Rightarrow> int \<Rightarrow> int \<Rightarrow> bool"
    and save :: "'s \<Rightarrow> store_call \<Rightarrow> string \<Rightarrow> Record \<Rightarrow> int \<Rightarrow> 's \<times> goerror option"
    and saveNew :: "'s \<Rightarrow> store_call \<Rightarrow> string \<Rightarrow> Record \<Rightarrow> int \<Rightarrow> 's \<times> (goerror + bool)"
    and load :: "'s \<Rightarrow> store_call \<Rightarrow> string \<Rightarrow> 's \<times> (goerror + Record option)"
    and delete :: "'s \<Rightarrow> store_call \<Rightarrow> string \<Rightarrow> 's \<times> goerror option"
  assumes live_fresh: "0 \<le> ttl \<Longrightarrow> w \<le> t \<Longrightarrow> ttl = 0 \<or> t < w + ttl \<Longrightarrow> live w ttl t"
    and view_slot: "slot s pid' = slot s pid \<Longrightarrow> view s t pid' = view s t pid"
    and slot_save: "slot (fst (save s c pid r ttl)) = slot s"
    and slot_saveNew: "slot (fst (saveNew s c pid r ttl)) = slot s"
    and slot_load: "slot (fst (load s c pid)) = slot s"
    and load_reads: "load s c pid = (s', Inr res) \<Longrightarrow> view s (cl_now c) pid = Inr res"
    and load_keeps: "cl_now c \<le> t \<Longrightarrow> view (fst (load s c pid)) t pid' = view s t pid'"
    and save_writes: "save s c pid r ttl = (s', None) \<Longrightarrow> record_ok r \<Longrightarrow> call_ok c \<Longrightarrow> 0 \<le> ttl \<Longrightarrow>
      cl_now c \<le> t \<Longrightarrow>
      view s' t pid' = (if slot s pid' = slot s pid
        then (if live (cl_now c) ttl t then Inr (Some r) else Inr None) else view s t pid')"
    and save_others: "slot s pid' \<noteq> slot s pid \<Longrightarrow> cl_now c \<le> t \<Longrightarrow>
      view (fst (save s c pid r ttl)) t pid' = view s t pid'"
    and saveNew_wins: "saveNew s c pid r ttl = (s', Inr True) \<Longrightarrow> record_ok r \<Longrightarrow> call_ok c \<Longrightarrow>
      0 \<le> ttl \<Longrightarrow> cl_now c \<le> t \<Longrightarrow>
      view s (cl_now c) pid = Inr None \<and>
      view s' t pid' = (if slot s pid' = slot s pid
        then (if live (cl_now c) ttl t then Inr (Some r) else Inr None) else view s t pid')"
    and saveNew_loses: "saveNew s c pid r ttl = (s', Inr False) \<Longrightarrow> cl_now c \<le> t \<Longrightarrow>
      view s (cl_now c) pid \<noteq> Inr None \<and> view s' t pid' = view s t pid'"
    and saveNew_others: "slot s pid' \<noteq> slot s pid \<Longrightarrow> cl_now c \<le> t \<Longrightarrow>
      view (fst (saveNew s c pid r ttl)) t pid' = view s t pid'"
    and delete_removes: "delete s c pid = (s', None) \<Longrightarrow> cl_now c \<le> t \<Longrightarrow>
      view s' t pid' = (if slot s pid' = slot s pid then Inr None else view s t pid')"
begin

lemma save_then_load:
  assumes "save s c pid r ttl = (s', None)" and "record_ok r" and "call_ok c" and "0 \<le> ttl"
    and "cl_now c \<le> cl_now d" and "ttl = 0 \<or> cl_now d < cl_now c + ttl"
    and "load s' d pid = (s'', Inr res)"
  shows "res = Some r"
proof -
  have "view s' (cl_now d) pid = Inr (Some r)"
    using save_writes [OF assms(1-4,5), of pid] live_fresh [OF assms(4-6)] by simp
  with load_reads [OF assms(7)] show ?thesis by simp
qed

lemma saveNew_never_overwrites:
  assumes "view s (cl_now c) pid = Inr (Some r0)" and "saveNew s c pid r ttl = (s', Inr b)"
    and "record_ok r" and "call_ok c" and "0 \<le> ttl"
  shows "\<not> b \<and> (\<forall>t \<ge> cl_now c. \<forall>pid'. view s' t pid' = view s t pid')"
  using assms saveNew_wins [of s c pid r ttl s'] saveNew_loses [of s c pid r ttl s'] by (cases b) auto

end

subsection \<open>A concrete codec\<close>

text \<open>
  A serialisation that satisfies the codec law, to evaluate the model on: numbers in unary, strings
  with their length before them.
\<close>

definition ser_nat :: "nat \<Rightarrow> string" where
  "ser_nat n = replicate n CHR ''1'' @ ''0''"

definition ser_int :: "int \<Rightarrow> string" where
  "ser_int i = (if i < 0 then CHR ''-'' # ser_nat (nat (- i)) else CHR ''+'' # ser_nat (nat i))"

definition ser_str :: "string \<Rightarrow> string" where
  "ser_str s = ser_nat (length s) @ s"

definition ser_rep :: "Replacement \<Rightarrow> string" where
  "ser_rep r = ser_str (rep_Category r) @ ser_str (rep_Original r) @ ser_str (rep_Masked r)
     @ ser_int (rep_Start r) @ ser_int (rep_End r)"

definition ser_record :: "Record \<Rightarrow> string" where
  "ser_record r = ser_nat (length (rec_Replacements r)) @ concat (map ser_rep (rec_Replacements r))
     @ ser_str (rec_Strategy r) @ ser_int (rec_CreatedAt r) @ ser_str (rec_MaskedText r)
     @ ser_str (rec_Hash r) @ ser_str (rec_SystemID r)"

fun par_nat :: "string \<Rightarrow> (nat \<times> string) option" where
  "par_nat [] = None"
| "par_nat (c # s) =
     (if c = CHR ''1'' then do { (n, rest) \<leftarrow> par_nat s; Some (Suc n, rest) } else Some (0, s))"

fun par_int :: "string \<Rightarrow> (int \<times> string) option" where
  "par_int [] = None"
| "par_int (c # s) =
     do { (n, rest) \<leftarrow> par_nat s; Some (if c = CHR ''-'' then - int n else int n, rest) }"

definition par_str :: "string \<Rightarrow> (string \<times> string) option" where
  "par_str s = do { (n, rest) \<leftarrow> par_nat s; Some (take n rest, drop n rest) }"

definition par_rep :: "string \<Rightarrow> (Replacement \<times> string) option" where
  "par_rep s =
     do { (c, s) \<leftarrow> par_str s; (orig, s) \<leftarrow> par_str s; (m, s) \<leftarrow> par_str s;
          (i, s) \<leftarrow> par_int s; (j, s) \<leftarrow> par_int s;
          Some (\<lparr> rep_Category = c, rep_Original = orig, rep_Masked = m, rep_Start = i, rep_End = j \<rparr>, s) }"

fun par_reps :: "nat \<Rightarrow> string \<Rightarrow> (Replacement list \<times> string) option" where
  "par_reps 0 s = Some ([], s)"
| "par_reps (Suc n) s = do { (r, s) \<leftarrow> par_rep s; (rs, s) \<leftarrow> par_reps n s; Some (r # rs, s) }"

definition par_record :: "string \<Rightarrow> Record option" where
  "par_record s =
     do { (n, s) \<leftarrow> par_nat s; (rs, s) \<leftarrow> par_reps n s; (strat, s) \<leftarrow> par_str s; (t, s) \<leftarrow> par_int s;
          (m, s) \<leftarrow> par_str s; (h, s) \<leftarrow> par_str s; (sys, s) \<leftarrow> par_str s;
          Some \<lparr> rec_Replacements = rs, rec_Strategy = strat, rec_CreatedAt = t, rec_MaskedText = m,
                 rec_Hash = h, rec_SystemID = sys \<rparr> }"

lemma par_nat_ser [simp]: "par_nat (ser_nat n @ s) = Some (n, s)"
  unfolding ser_nat_def by (induction n) simp_all

lemma par_int_ser [simp]: "par_int (ser_int i @ s) = Some (i, s)"
  by (simp add: ser_int_def)

lemma par_str_ser [simp]: "par_str (ser_str x @ s) = Some (x, s)"
  by (simp add: par_str_def ser_str_def)

lemma par_rep_ser [simp]: "par_rep (ser_rep r @ s) = Some (r, s)"
  by (simp add: par_rep_def ser_rep_def)

lemma par_reps_ser: "par_reps (length rs) (concat (map ser_rep rs) @ s) = Some (rs, s)"
  by (induction rs) simp_all

lemma par_record_ser: "par_record (ser_record r) = Some r"
  using par_str_ser [of _ "[]"] by (simp add: par_record_def ser_record_def par_reps_ser del: par_str_ser)
    (simp add: par_str_ser)

definition demo_codec :: codec where
  "demo_codec = \<lparr> json_Marshal = (\<lambda>r. Some (ser_record r)), json_Unmarshal = par_record \<rparr>"

interpretation demo_store: store_env demo_primitives demo_codec
  by unfold_locales (simp_all add: demo_codec_def par_record_ser)

definition demo_call :: "int \<Rightarrow> store_call" where
  "demo_call t = \<lparr> cl_now = t, cl_nonce = Some (replicate 12 CHR ''n'') \<rparr>"

lemma demo_call_simps [simp]: "cl_now (demo_call t) = t" "call_ok (demo_call t)"
  by (simp_all add: demo_call_def call_ok_def NonceSize_def)

end
