(* ===== verification/Store_Memory.thy ===== *)
theory Store_Memory
  imports Store
begin

text \<open>
  The in-memory backend (\<^verbatim>\<open>internal/store/memory.go\<close>). Each critical section of its mutex is one
  function on the state; \<^verbatim>\<open>Load\<close> has two of them, the lookup and the removal of an expired entry,
  and the step relation at the end interleaves them with the other operations.
\<close>

record memoryEntry =
  me_ct :: string
  me_expiry :: int

record Memory =
  mem_items :: "string \<rightharpoonup> memoryEntry"
  mem_cipher :: Cipher
  mem_key :: string
  mem_stopped :: bool

definition NewMemory :: "string \<Rightarrow> goerror + Memory" where
  "NewMemory key =
     (case New key of
        Inl e \<Rightarrow> Inl e
      | Inr c \<Rightarrow> Inr \<lparr> mem_items = Map.empty, mem_cipher = c, mem_key = key, mem_stopped = False \<rparr>)"

definition mem_HashID :: "primitives \<Rightarrow> Memory \<Rightarrow> string \<Rightarrow> string" where
  "mem_HashID pr m pid = hashID pr (mem_key m) pid"

definition expired :: "memoryEntry \<Rightarrow> int \<Rightarrow> bool" where
  "expired e now \<longleftrightarrow> me_expiry e \<noteq> 0 \<and> me_expiry e < now"

definition expiryFor :: "int \<Rightarrow> int \<Rightarrow> int" where
  "expiryFor now ttl = (if ttl \<le> 0 then 0 else now + ttl)"

text \<open>One tick of \<^verbatim>\<open>cleanupLoop\<close>; after \<^verbatim>\<open>Close\<close> there are no more ticks.\<close>

definition cleanup :: "Memory \<Rightarrow> int \<Rightarrow> Memory" where
  "cleanup m now =
     (if mem_stopped m then m
      else m\<lparr> mem_items := (\<lambda>k. case mem_items m k of
                               None \<Rightarrow> None
                             | Some e \<Rightarrow> if expired e now then None else Some e) \<rparr>)"

definition mem_Close :: "Memory \<Rightarrow> Memory" where
  "mem_Close m = m\<lparr> mem_stopped := True \<rparr>"

definition mem_Save ::
  "primitives \<Rightarrow> codec \<Rightarrow> Memory \<Rightarrow> store_call \<Rightarrow> string \<Rightarrow> Record \<Rightarrow> int \<Rightarrow> Memory \<times> goerror option" where
  "mem_Save pr cd m c pid r ttl =
     (case encode pr cd (mem_cipher m) (cl_nonce c) r of
        Inl e \<Rightarrow> (m, Some e)
      | Inr ct \<Rightarrow> (m\<lparr> mem_items := (mem_items m)(mem_HashID pr m pid \<mapsto>
                     \<lparr> me_ct = ct, me_expiry = expiryFor (cl_now c) ttl \<rparr>) \<rparr>, None))"

definition mem_SaveNew ::
  "primitives \<Rightarrow> codec \<Rightarrow> Memory \<Rightarrow> store_call \<Rightarrow> string \<Rightarrow> Record \<Rightarrow> int \<Rightarrow> Memory \<times> (goerror + bool)" where
  "mem_SaveNew pr cd m c pid r ttl =
     (case encode pr cd (mem_cipher m) (cl_nonce c) r of
        Inl e \<Rightarrow> (m, Inl e)
      | Inr ct \<Rightarrow>
          let key = mem_HashID pr m pid;
              write = (m\<lparr> mem_items := (mem_items m)(key \<mapsto>
                \<lparr> me_ct = ct, me_expiry = expiryFor (cl_now c) ttl \<rparr>) \<rparr>, Inr True) in
          case mem_items m key of
            None \<Rightarrow> write
          | Some e \<Rightarrow> if \<not> expired e (cl_now c) then (m, Inr False) else write)"

text \<open>The two critical sections of \<^verbatim>\<open>Load\<close>, then the whole operation.\<close>

datatype lookup = Missing | Stale | Found memoryEntry

definition mem_lookup :: "Memory \<Rightarrow> int \<Rightarrow> string \<Rightarrow> lookup" where
  "mem_lookup m now key =
     (case mem_items m key of None \<Rightarrow> Missing | Some e \<Rightarrow> if expired e now then Stale else Found e)"

definition mem_evict :: "Memory \<Rightarrow> string \<Rightarrow> Memory" where
  "mem_evict m key = m\<lparr> mem_items := (mem_items m)(key := None) \<rparr>"

definition mem_Load ::
  "primitives \<Rightarrow> codec \<Rightarrow> Memory \<Rightarrow> store_call \<Rightarrow> string \<Rightarrow> Memory \<times> (goerror + Record option)" where
  "mem_Load pr cd m c pid =
     (let key = mem_HashID pr m pid in
      case mem_lookup m (cl_now c) key of
        Missing \<Rightarrow> (m, Inr None)
      | Stale \<Rightarrow> (mem_evict m key, Inr None)
      | Found e \<Rightarrow> (m, case decode pr cd (mem_cipher m) (me_ct e) of Inl err \<Rightarrow> Inl err | Inr r \<Rightarrow> Inr (Some r)))"

definition mem_Delete :: "primitives \<Rightarrow> Memory \<Rightarrow> store_call \<Rightarrow> string \<Rightarrow> Memory \<times> goerror option" where
  "mem_Delete pr m c pid =
     (m\<lparr> mem_items := (mem_items m)(mem_HashID pr m pid := None) \<rparr>, None)"

definition mem_Ping :: "Memory \<Rightarrow> goerror option" where
  "mem_Ping m = None"

subsection \<open>The interface holds\<close>

definition mem_view :: "primitives \<Rightarrow> codec \<Rightarrow> Memory \<Rightarrow> int \<Rightarrow> string \<Rightarrow> goerror + Record option" where
  "mem_view pr cd m t pid =
     (case mem_lookup m t (mem_HashID pr m pid) of
        Found e \<Rightarrow> (case decode pr cd (mem_cipher m) (me_ct e) of Inl err \<Rightarrow> Inl err | Inr r \<Rightarrow> Inr (Some r))
      | _ \<Rightarrow> Inr None)"

definition mem_live :: "int \<Rightarrow> int \<Rightarrow> int \<Rightarrow> bool" where
  "mem_live w ttl t \<longleftrightarrow> \<not> expired \<lparr> me_ct = '''', me_expiry = expiryFor w ttl \<rparr> t"

lemmas mem_view_defs = mem_view_def mem_lookup_def mem_HashID_def

lemma expired_mono: "expired e t \<Longrightarrow> t \<le> u \<Longrightarrow> expired e u"
  by (auto simp: expired_def)

lemma expired_live: "expired \<lparr> me_ct = ct, me_expiry = expiryFor w ttl \<rparr> t \<longleftrightarrow> \<not> mem_live w ttl t"
  by (simp add: mem_live_def expired_def)

lemma mem_view_written:
  assumes "decode pr cd (mem_cipher m) ct = Inr r"
  shows "mem_view pr cd (m\<lparr> mem_items := (mem_items m)(mem_HashID pr m pid \<mapsto>
      \<lparr> me_ct = ct, me_expiry = expiryFor w ttl \<rparr>) \<rparr>) t pid' =
    (if mem_HashID pr m pid' = mem_HashID pr m pid
     then (if mem_live w ttl t then Inr (Some r) else Inr None) else mem_view pr cd m t pid')"
  using assms by (simp add: mem_view_defs expired_live split: option.split)

lemma mem_view_evicted:
  "mem_view pr cd (mem_evict m (mem_HashID pr m pid)) t pid' =
     (if mem_HashID pr m pid' = mem_HashID pr m pid then Inr None else mem_view pr cd m t pid')"
  by (simp add: mem_view_defs mem_evict_def split: option.split)

context store_env
begin

lemma mem_Save_view:
  assumes "mem_Save pr cd m c pid r ttl = (m', None)" and "record_ok r" and "call_ok c"
  shows "mem_view pr cd m' t pid' = (if mem_HashID pr m pid' = mem_HashID pr m pid
    then (if mem_live (cl_now c) ttl t then Inr (Some r) else Inr None) else mem_view pr cd m t pid')"
proof -
  obtain ct where ct: "encode pr cd (mem_cipher m) (cl_nonce c) r = Inr ct"
    and m': "m' = m\<lparr> mem_items := (mem_items m)(mem_HashID pr m pid \<mapsto>
      \<lparr> me_ct = ct, me_expiry = expiryFor (cl_now c) ttl \<rparr>) \<rparr>"
    using assms(1) by (auto simp: mem_Save_def split: sum.splits)
  have "decode pr cd (mem_cipher m) ct = Inr r"
    using decode_encode [OF ct assms(2)] assms(3) by (simp add: call_ok_def)
  then show ?thesis unfolding m' by (rule mem_view_written)
qed

lemma mem_SaveNew_view:
  assumes "mem_SaveNew pr cd m c pid r ttl = (m', Inr True)" and "record_ok r" and "call_ok c"
  shows "mem_view pr cd m (cl_now c) pid = Inr None"
    and "mem_view pr cd m' t pid' = (if mem_HashID pr m pid' = mem_HashID pr m pid
      then (if mem_live (cl_now c) ttl t then Inr (Some r) else Inr None) else mem_view pr cd m t pid')"
proof -
  obtain ct where ct: "encode pr cd (mem_cipher m) (cl_nonce c) r = Inr ct"
    and m': "m' = m\<lparr> mem_items := (mem_items m)(mem_HashID pr m pid \<mapsto>
      \<lparr> me_ct = ct, me_expiry = expiryFor (cl_now c) ttl \<rparr>) \<rparr>"
    and free: "mem_lookup m (cl_now c) (mem_HashID pr m pid) \<in> {Missing, Stale}"
    using assms(1) by (auto simp: mem_SaveNew_def Let_def mem_lookup_def split: sum.splits option.splits if_splits)
  have "decode pr cd (mem_cipher m) ct = Inr r"
    using decode_encode [OF ct assms(2)] assms(3) by (simp add: call_ok_def)
  then show "mem_view pr cd m' t pid' = (if mem_HashID pr m pid' = mem_HashID pr m pid
      then (if mem_live (cl_now c) ttl t then Inr (Some r) else Inr None) else mem_view pr cd m t pid')"
    unfolding m' by (rule mem_view_written)
  show "mem_view pr cd m (cl_now c) pid = Inr None" using free by (auto simp: mem_view_def)
qed

end

lemma mem_SaveNew_lost:
  assumes "mem_SaveNew pr cd m c pid r ttl = (m', Inr False)"
  shows "m' = m" and "mem_view pr cd m (cl_now c) pid \<noteq> Inr None"
  using assms
  by (auto simp: mem_SaveNew_def Let_def mem_view_defs split: sum.splits option.splits if_splits)

lemma mem_Load_keeps:
  assumes "cl_now c \<le> t"
  shows "mem_view pr cd (fst (mem_Load pr cd m c pid)) t pid' = mem_view pr cd m t pid'"
proof (cases "mem_lookup m (cl_now c) (mem_HashID pr m pid)")
  case Stale
  then have "mem_lookup m t (mem_HashID pr m pid) = Stale"
    using expired_mono [OF _ assms] by (auto simp: mem_lookup_def split: option.splits if_splits)
  then show ?thesis using Stale by (simp add: mem_Load_def Let_def mem_view_evicted) (simp add: mem_view_def)
qed (simp_all add: mem_Load_def)

sublocale store_env \<subseteq> mem: record_store "mem_view pr cd" "mem_HashID pr" mem_live
  "mem_Save pr cd" "mem_SaveNew pr cd" "mem_Load pr cd" "mem_Delete pr"
proof (unfold_locales, goal_cases)
  case (1 ttl w t)
  then show ?case by (auto simp: mem_live_def expired_def expiryFor_def)
next
  case (2 s pid' pid t)
  then show ?case by (simp add: mem_view_def)
next
  case (6 s c pid s' res)
  then show ?case by (auto simp: mem_Load_def mem_view_def Let_def split: lookup.splits sum.splits)
next
  case (7 c t s pid pid')
  then show ?case by (rule mem_Load_keeps)
next
  case (8 s c pid r ttl s' t pid')
  then show ?case by (intro mem_Save_view)
next
  case (10 s c pid r ttl s' t pid')
  then show ?case by (blast intro: mem_SaveNew_view)
next
  case (11 s c pid r ttl s' t pid')
  then show ?case using mem_SaveNew_lost by metis
qed (auto simp: mem_Save_def mem_SaveNew_def mem_Load_def mem_Delete_def mem_evict_def mem_HashID_def
    mem_view_def mem_lookup_def Let_def split: sum.splits option.splits lookup.splits if_splits)

context store_env
begin

lemmas mem_store = mem.record_store_axioms

end

lemma cleanup_view:
  assumes "tick \<le> t"
  shows "mem_view pr cd (cleanup m tick) t pid = mem_view pr cd m t pid"
  using expired_mono [OF _ assms]
  by (auto simp: mem_view_defs cleanup_def split: option.splits if_splits)

lemma mem_Load_view: "snd (mem_Load pr cd m d pid) = mem_view pr cd m (cl_now d) pid"
  by (simp add: mem_Load_def mem_view_def Let_def split: lookup.split)

lemma mem_Save_cases:
  assumes "mem_Save pr cd m c pid r ttl = (m', res)"
  obtains "m' = m" | ct where "encode pr cd (mem_cipher m) (cl_nonce c) r = Inr ct"
    and "m' = m\<lparr> mem_items := (mem_items m)(mem_HashID pr m pid \<mapsto>
      \<lparr> me_ct = ct, me_expiry = expiryFor (cl_now c) ttl \<rparr>) \<rparr>"
  using assms by (auto simp: mem_Save_def split: sum.splits)

lemma mem_SaveNew_cases:
  assumes "mem_SaveNew pr cd m c pid r ttl = (m', res)"
  obtains "m' = m" | ct where "encode pr cd (mem_cipher m) (cl_nonce c) r = Inr ct"
    and "m' = m\<lparr> mem_items := (mem_items m)(mem_HashID pr m pid \<mapsto>
      \<lparr> me_ct = ct, me_expiry = expiryFor (cl_now c) ttl \<rparr>) \<rparr>"
  using assms by (auto simp: mem_SaveNew_def Let_def split: sum.splits option.splits if_splits)

subsection \<open>Interleavings\<close>

text \<open>
  A state of the store under concurrent requests: the memory, the time, and the keys that loaders
  have found stale and will remove when they get the write lock. Every step is one critical section.
  Callers store records that JSON keeps and random reads have the right length.
\<close>

record mem_state =
  ms_mem :: Memory
  ms_now :: int
  ms_pending :: "string list"

inductive mem_step :: "primitives \<Rightarrow> codec \<Rightarrow> mem_state \<Rightarrow> mem_state \<Rightarrow> bool" for pr cd where
  step_Save: "ms_now s \<le> cl_now c \<Longrightarrow> call_ok c \<Longrightarrow> record_ok r \<Longrightarrow>
    mem_Save pr cd (ms_mem s) c pid r ttl = (m, res) \<Longrightarrow>
    mem_step pr cd s (s\<lparr> ms_mem := m, ms_now := cl_now c \<rparr>)"
| step_SaveNew: "ms_now s \<le> cl_now c \<Longrightarrow> call_ok c \<Longrightarrow> record_ok r \<Longrightarrow>
    mem_SaveNew pr cd (ms_mem s) c pid r ttl = (m, ans) \<Longrightarrow>
    mem_step pr cd s (s\<lparr> ms_mem := m, ms_now := cl_now c \<rparr>)"
| step_stale: "ms_now s \<le> t \<Longrightarrow> mem_lookup (ms_mem s) t (mem_HashID pr (ms_mem s) pid) = Stale \<Longrightarrow>
    mem_step pr cd s (s\<lparr> ms_now := t, ms_pending := mem_HashID pr (ms_mem s) pid # ms_pending s \<rparr>)"
| step_evict: "k \<in> set (ms_pending s) \<Longrightarrow>
    mem_step pr cd s (s\<lparr> ms_mem := mem_evict (ms_mem s) k, ms_pending := remove1 k (ms_pending s) \<rparr>)"
| step_Delete: "mem_Delete pr (ms_mem s) c pid = (m, e) \<Longrightarrow> mem_step pr cd s (s\<lparr> ms_mem := m \<rparr>)"
| step_tick: "ms_now s \<le> t \<Longrightarrow> mem_step pr cd s (s\<lparr> ms_mem := cleanup (ms_mem s) t, ms_now := t \<rparr>)"

inductive mem_reachable :: "primitives \<Rightarrow> codec \<Rightarrow> string \<Rightarrow> mem_state \<Rightarrow> bool" for pr cd key where
  reach_init: "NewMemory key = Inr m \<Longrightarrow>
    mem_reachable pr cd key \<lparr> ms_mem = m, ms_now = t, ms_pending = [] \<rparr>"
| reach_step: "mem_reachable pr cd key s \<Longrightarrow> mem_step pr cd s s' \<Longrightarrow> mem_reachable pr cd key s'"

text \<open>The invariant: every entry decrypts to a record.\<close>

definition mem_wf :: "primitives \<Rightarrow> codec \<Rightarrow> Memory \<Rightarrow> bool" where
  "mem_wf pr cd m \<longleftrightarrow>
     (\<forall>k e. mem_items m k = Some e \<longrightarrow> (\<exists>r. decode pr cd (mem_cipher m) (me_ct e) = Inr r))"

lemma mem_wf_evict: "mem_wf pr cd m \<Longrightarrow> mem_wf pr cd (mem_evict m k)"
  by (auto simp: mem_wf_def mem_evict_def split: if_splits)

lemma mem_wf_cleanup: "mem_wf pr cd m \<Longrightarrow> mem_wf pr cd (cleanup m t)"
  by (auto simp: mem_wf_def cleanup_def split: if_splits option.splits)

lemma mem_wf_write:
  "mem_wf pr cd m \<Longrightarrow> decode pr cd (mem_cipher m) ct = Inr r \<Longrightarrow>
     mem_wf pr cd (m\<lparr> mem_items := (mem_items m)(k \<mapsto> \<lparr> me_ct = ct, me_expiry = x \<rparr>) \<rparr>)"
  by (auto simp: mem_wf_def split: if_splits)

context store_env
begin

lemma encode_decodable:
  "encode pr cd c (cl_nonce call) r = Inr ct \<Longrightarrow> record_ok r \<Longrightarrow> call_ok call \<Longrightarrow> decode pr cd c ct = Inr r"
  by (rule decode_encode) (auto simp: call_ok_def)

lemma mem_step_wf: "mem_step pr cd s s' \<Longrightarrow> mem_wf pr cd (ms_mem s) \<Longrightarrow> mem_wf pr cd (ms_mem s')"
proof (induction rule: mem_step.induct)
  case (step_Save s c r pid ttl m res)
  from step_Save(4) show ?case
    by (cases rule: mem_Save_cases)
       (use step_Save in \<open>simp_all add: mem_wf_write [OF _ encode_decodable]\<close>)
next
  case (step_SaveNew s c r pid ttl m ans)
  from step_SaveNew(4) show ?case
    by (cases rule: mem_SaveNew_cases)
       (use step_SaveNew in \<open>simp_all add: mem_wf_write [OF _ encode_decodable]\<close>)
next
  case (step_evict k s)
  then show ?case by (simp add: mem_wf_evict)
next
  case (step_Delete s c pid m e)
  then show ?case by (auto simp: mem_Delete_def mem_wf_def split: if_splits)
next
  case (step_tick s t)
  then show ?case by (simp add: mem_wf_cleanup)
qed simp

lemma mem_reachable_wf: "mem_reachable pr cd key s \<Longrightarrow> mem_wf pr cd (ms_mem s)"
proof (induction rule: mem_reachable.induct)
  case (reach_init m t)
  then show ?case by (auto simp: NewMemory_def mem_wf_def split: sum.splits)
qed (rule mem_step_wf)

end

lemma mem_wf_loads:
  assumes "mem_wf pr cd m"
  shows "\<exists>m' res. mem_Load pr cd m c pid = (m', Inr res)"
proof (cases "mem_lookup m (cl_now c) (mem_HashID pr m pid)")
  case (Found e)
  then have "mem_items m (mem_HashID pr m pid) = Some e"
    by (auto simp: mem_lookup_def split: option.splits if_splits)
  then obtain r where "decode pr cd (mem_cipher m) (me_ct e) = Inr r"
    using assms unfolding mem_wf_def by blast
  with Found show ?thesis by (simp add: mem_Load_def)
qed (simp_all add: mem_Load_def)

definition demo_memory :: Memory where
  "demo_memory = \<lparr> mem_items = Map.empty, mem_cipher = \<lparr> cph_key = replicate 32 CHR ''k'' \<rparr>,
     mem_key = replicate 32 CHR ''k'', mem_stopped = False \<rparr>"

definition demo_record :: Record where
  "demo_record = \<lparr> rec_Replacements = [], rec_Strategy = ''token'', rec_CreatedAt = 1,
     rec_MaskedText = '''', rec_Hash = '''', rec_SystemID = ''crm'' \<rparr>"

lemma demo_record_ok: "record_ok demo_record"
  by (simp add: record_ok_def demo_record_def valid_utf8_ascii)

subsection \<open>Properties\<close>

text \<open>
  Save then Load on the in-memory store: a record saved without an error is loaded back
  unchanged, also after a cleanup tick, exactly until its time to live has passed (for ever, when the
  time to live is zero), and no record under another slot is disturbed.
\<close>

lemma mem_save_load:
  assumes "store_env pr cd" and "mem_Save pr cd m c pid r ttl = (m', None)" and "record_ok r" and "call_ok c"
    and "0 \<le> ttl" and "0 \<le> cl_now c" and "cl_now c \<le> tick" and "tick \<le> cl_now d"
  shows "snd (mem_Load pr cd (cleanup m' tick) d pid) =
      Inr (if ttl = 0 \<or> cl_now d \<le> cl_now c + ttl then Some r else None) \<and>
    (\<forall>pid'. mem_HashID pr m pid' \<noteq> mem_HashID pr m pid \<longrightarrow>
      snd (mem_Load pr cd (cleanup m' tick) d pid') = snd (mem_Load pr cd m d pid'))"
proof -
  have live: "mem_live (cl_now c) ttl (cl_now d) \<longleftrightarrow> ttl = 0 \<or> cl_now d \<le> cl_now c + ttl"
    using assms(5,6) by (auto simp: mem_live_def expired_def expiryFor_def)
  have "snd (mem_Load pr cd (cleanup m' tick) d p) = mem_view pr cd m' (cl_now d) p" for p
    using cleanup_view [OF assms(8)] by (simp add: mem_Load_view)
  moreover have "snd (mem_Load pr cd m d p) = mem_view pr cd m (cl_now d) p" for p
    by (rule mem_Load_view)
  ultimately show ?thesis
    using store_env.mem_Save_view [OF assms(1-4)] live by simp
qed

theorem mem_save_load_witness:
  "\<exists>m'. mem_Save demo_primitives demo_codec demo_memory (demo_call 1) ''a'' demo_record 10 = (m', None) \<and>
     snd (mem_Load demo_primitives demo_codec (cleanup m' 5) (demo_call 7) ''a'') = Inr (Some demo_record)"
proof -
  obtain m' where m': "mem_Save demo_primitives demo_codec demo_memory (demo_call 1) ''a'' demo_record 10 = (m', None)"
    by (simp add: mem_Save_def encode_def Encrypt_def demo_codec_def demo_call_def)
  show ?thesis
    using mem_save_load [OF demo_store.store_env_axioms m', of 5 "demo_call 7"] m' demo_record_ok by simp
qed

text \<open>
  Under any interleaving of saves, first-writes, loads, deletes and cleanup ticks, starting from
  a new store, no \<^verbatim>\<open>Load\<close> ever fails: every entry decrypts and decodes.
\<close>

lemma mem_load_never_fails:
  assumes "store_env pr cd" and "mem_reachable pr cd key s"
  shows "\<exists>m' res. mem_Load pr cd (ms_mem s) c pid = (m', Inr res)"
  using mem_wf_loads store_env.mem_reachable_wf [OF assms] by blast

theorem mem_load_never_fails_witness:
  "\<exists>m' res. mem_Load demo_primitives demo_codec demo_memory (demo_call 1) ''a'' = (m', Inr res)"
proof -
  have "NewMemory (replicate 32 CHR ''k'') = Inr demo_memory"
    by (simp add: NewMemory_def New_def demo_memory_def)
  then have "mem_reachable demo_primitives demo_codec (replicate 32 CHR ''k'')
      \<lparr> ms_mem = demo_memory, ms_now = 0, ms_pending = [] \<rparr>"
    by (rule reach_init)
  from mem_load_never_fails [OF demo_store.store_env_axioms this, of "demo_call 1" "''a''"]
  show ?thesis by simp
qed

text \<open>
  \<^verbatim>\<open>Load\<close> can destroy a record that was just saved. It looks the entry up under the read lock and
  removes it under the write lock; when a request saves a fresh record in between, the removal takes
  the fresh record, although its time to live has not passed.
\<close>

lemma mem_load_loses_fresh_record:
  assumes "store_env pr cd" and "mem_reachable pr cd key s" and "ms_now s \<le> t"
    and "mem_lookup (ms_mem s) t (mem_HashID pr (ms_mem s) pid) = Stale"
    and "mem_Save pr cd (ms_mem s) c pid r ttl = (m', None)" and "record_ok r" and "call_ok c"
    and "t \<le> cl_now c" and "0 < ttl"
  shows "\<exists>s1 s2. mem_reachable pr cd key s1 \<and> mem_step pr cd s1 s2 \<and>
    mem_view pr cd (ms_mem s1) (cl_now c) pid = Inr (Some r) \<and>
    mem_view pr cd (ms_mem s2) (cl_now c) pid = Inr None"
proof -
  let ?k = "mem_HashID pr (ms_mem s) pid"
  define s0 where "s0 = s\<lparr> ms_now := t, ms_pending := ?k # ms_pending s \<rparr>"
  define s1 where "s1 = s0\<lparr> ms_mem := m', ms_now := cl_now c \<rparr>"
  define s2 where "s2 = s1\<lparr> ms_mem := mem_evict (ms_mem s1) ?k, ms_pending := remove1 ?k (ms_pending s1) \<rparr>"
  have "mem_step pr cd s s0" unfolding s0_def using assms(3,4) by (rule step_stale)
  moreover have "mem_step pr cd s0 s1"
    unfolding s1_def using assms(5-8) by (intro step_Save) (simp_all add: s0_def)
  ultimately have "mem_reachable pr cd key s1" using assms(2) reach_step by metis
  moreover have "mem_step pr cd s1 s2" unfolding s2_def by (rule step_evict) (simp add: s1_def s0_def)
  moreover have "mem_view pr cd (ms_mem s1) (cl_now c) pid = Inr (Some r)"
    using store_env.mem_Save_view [OF assms(1,5-7), of "cl_now c" pid] assms(9)
    by (simp add: s1_def mem_live_def expired_def expiryFor_def)
  moreover have "mem_HashID pr m' pid = ?k" using assms(5) by (auto simp: mem_Save_def mem_HashID_def split: sum.splits)
  then have "mem_view pr cd (ms_mem s2) (cl_now c) pid = Inr None"
    using mem_view_evicted [of pr cd m' pid "cl_now c" pid] by (simp add: s2_def s1_def)
  ultimately show ?thesis by blast
qed

theorem mem_load_loses_fresh_record_witness:
  "\<exists>s1 s2. mem_step demo_primitives demo_codec s1 s2 \<and>
     mem_view demo_primitives demo_codec (ms_mem s1) 6 ''a'' = Inr (Some demo_record) \<and>
     mem_view demo_primitives demo_codec (ms_mem s2) 6 ''a'' = Inr None"
proof -
  let ?key = "replicate 32 CHR ''k''" and ?pr = demo_primitives and ?cd = demo_codec
  have ok: "\<exists>m'. mem_Save ?pr ?cd m (demo_call t) ''a'' demo_record ttl = (m', None) \<and>
      mem_items m' (mem_HashID ?pr m ''a'') = Some \<lparr> me_ct = replicate 12 CHR ''n'' @ ser_record demo_record,
        me_expiry = expiryFor t ttl \<rparr> \<and> mem_key m' = mem_key m" for m t ttl
    by (simp add: mem_Save_def encode_def Encrypt_def demo_codec_def demo_call_def demo_primitives_def)
  have "NewMemory ?key = Inr demo_memory" by (simp add: NewMemory_def New_def demo_memory_def)
  then have r0: "mem_reachable ?pr ?cd ?key \<lparr> ms_mem = demo_memory, ms_now = 0, ms_pending = [] \<rparr>"
    by (rule reach_init)
  obtain m1 where m1: "mem_Save ?pr ?cd demo_memory (demo_call 1) ''a'' demo_record 1 = (m1, None)"
    and it: "mem_items m1 (mem_HashID ?pr demo_memory ''a'') =
        Some \<lparr> me_ct = replicate 12 CHR ''n'' @ ser_record demo_record, me_expiry = expiryFor 1 1 \<rparr>"
    and k: "mem_key m1 = mem_key demo_memory"
    using ok by blast
  let ?s = "\<lparr> ms_mem = m1, ms_now = 1, ms_pending = [] \<rparr>"
  have "mem_step ?pr ?cd \<lparr> ms_mem = demo_memory, ms_now = 0, ms_pending = [] \<rparr> ?s"
    using step_Save [of "\<lparr> ms_mem = demo_memory, ms_now = 0, ms_pending = [] \<rparr>" "demo_call 1" demo_record]
      m1 demo_record_ok by fastforce
  then have r1: "mem_reachable ?pr ?cd ?key ?s" using r0 by (rule reach_step [rotated])
  have stale: "mem_lookup (ms_mem ?s) 5 (mem_HashID ?pr (ms_mem ?s) ''a'') = Stale"
    using it k by (simp add: mem_lookup_def mem_HashID_def expired_def expiryFor_def)
  obtain m2 where m2: "mem_Save ?pr ?cd (ms_mem ?s) (demo_call 6) ''a'' demo_record 10 = (m2, None)"
    using ok by blast
  show ?thesis
    using mem_load_loses_fresh_record [OF demo_store.store_env_axioms r1 _ stale m2 demo_record_ok] by auto
qed

end
