(* ===== verification/Store_Redis.thy ===== *)
theory Store_Redis
  imports Store_Memory
begin

text \<open>
  The Redis backend (\<^verbatim>\<open>internal/store/redis.go\<close>). The client library and the server are not part of
  the program: the client's commands are an argument of the model, on a server state of any type,
  and the locale \<open>redis_server\<close> states what their documentation promises (\<^verbatim>\<open>SET\<close>, \<^verbatim>\<open>SET NX\<close>, \<^verbatim>\<open>GET\<close>,
  \<^verbatim>\<open>DEL\<close>, expiry). A command may fail at any time, and a failed write may or may not have happened.
\<close>

subsection \<open>The client library\<close>

record 's redis_client =
  rc_Set :: "'s \<Rightarrow> store_call \<Rightarrow> string \<Rightarrow> string \<Rightarrow> int \<Rightarrow> 's \<times> goerror option"
  rc_SetNX :: "'s \<Rightarrow> store_call \<Rightarrow> string \<Rightarrow> string \<Rightarrow> int \<Rightarrow> 's \<times> (goerror + bool)"
  rc_Get :: "'s \<Rightarrow> store_call \<Rightarrow> string \<Rightarrow> 's \<times> (goerror + string)"
  rc_Del :: "'s \<Rightarrow> store_call \<Rightarrow> string \<Rightarrow> 's \<times> goerror option"
  rc_Ping :: "'s \<Rightarrow> store_call \<Rightarrow> goerror option"

locale redis_server =
  fixes rc :: "'s redis_client"
    and rget :: "'s \<Rightarrow> int \<Rightarrow> string \<Rightarrow> string option"
    and rlive :: "int \<Rightarrow> int \<Rightarrow> int \<Rightarrow> bool"
  assumes rlive_fresh: "0 \<le> ttl \<Longrightarrow> w \<le> t \<Longrightarrow> ttl = 0 \<or> t < w + ttl \<Longrightarrow> rlive w ttl t"
    and set_writes: "rc_Set rc s c k v ttl = (s', None) \<Longrightarrow> 0 \<le> ttl \<Longrightarrow> cl_now c \<le> t \<Longrightarrow>
      rget s' t k = (if rlive (cl_now c) ttl t then Some v else None)"
    and set_others: "k' \<noteq> k \<Longrightarrow> cl_now c \<le> t \<Longrightarrow> rget (fst (rc_Set rc s c k v ttl)) t k' = rget s t k'"
    and setnx_wins: "rc_SetNX rc s c k v ttl = (s', Inr True) \<Longrightarrow> 0 \<le> ttl \<Longrightarrow> cl_now c \<le> t \<Longrightarrow>
      rget s (cl_now c) k = None \<and> rget s' t k = (if rlive (cl_now c) ttl t then Some v else None)"
    and setnx_loses: "rc_SetNX rc s c k v ttl = (s', Inr False) \<Longrightarrow> cl_now c \<le> t \<Longrightarrow>
      rget s (cl_now c) k \<noteq> None \<and> rget s' t k = rget s t k"
    and setnx_others: "k' \<noteq> k \<Longrightarrow> cl_now c \<le> t \<Longrightarrow> rget (fst (rc_SetNX rc s c k v ttl)) t k' = rget s t k'"
    and get_reads: "rc_Get rc s c k = (s', Inr v) \<Longrightarrow> rget s (cl_now c) k = Some v"
    and get_nil: "rc_Get rc s c k = (s', Inl ErrRedisNil) \<Longrightarrow> rget s (cl_now c) k = None"
    and get_keeps: "cl_now c \<le> t \<Longrightarrow> rget (fst (rc_Get rc s c k)) t k' = rget s t k'"
    and del_removes: "rc_Del rc s c k = (s', None) \<Longrightarrow> cl_now c \<le> t \<Longrightarrow>
      rget s' t k' = (if k' = k then None else rget s t k')"

subsection \<open>The backend\<close>

definition DefaultRedisPoolSize :: int where
  "DefaultRedisPoolSize = 64"

definition DefaultRedisWait :: int where
  "DefaultRedisWait = 500 * 1000000"

definition DefaultRedisTimeout :: int where
  "DefaultRedisTimeout = 500 * 1000000"

definition DefaultRedisDial :: int where
  "DefaultRedisDial = 1000000000"

definition DefaultRedisMinIdle :: int where
  "DefaultRedisMinIdle = 8"

definition redisKeyPrefix :: string where
  "redisKeyPrefix = ''pdn:''"

record redis_Options =
  ro_PoolSize :: int
  ro_Wait :: int
  ro_Timeout :: int
  ro_Dial :: int

record client_Options =
  co_Addr :: string
  co_Password :: string
  co_DialTimeout :: int
  co_ReadTimeout :: int
  co_WriteTimeout :: int
  co_PoolSize :: int
  co_PoolTimeout :: int
  co_MinIdleConns :: int

record 's Redis =
  rd_client :: 's
  rd_cipher :: Cipher
  rd_key :: string

definition client_options :: "string \<Rightarrow> string \<Rightarrow> redis_Options \<Rightarrow> client_Options" where
  "client_options addr password opt =
     (let pool = (if ro_PoolSize opt \<le> 0 then DefaultRedisPoolSize else ro_PoolSize opt);
          wait = (if ro_Wait opt \<le> 0 then DefaultRedisWait else ro_Wait opt);
          tmo = (if ro_Timeout opt \<le> 0 then DefaultRedisTimeout else ro_Timeout opt);
          dial = (if ro_Dial opt \<le> 0 then DefaultRedisDial else ro_Dial opt)
      in \<lparr> co_Addr = addr, co_Password = password, co_DialTimeout = dial, co_ReadTimeout = tmo,
           co_WriteTimeout = tmo, co_PoolSize = pool, co_PoolTimeout = wait,
           co_MinIdleConns = DefaultRedisMinIdle \<rparr>)"

text \<open>The function that connects a client to its server is an argument, \<open>new_client\<close>.\<close>

definition NewRedisWithOptions ::
  "(client_Options \<Rightarrow> 's) \<Rightarrow> string \<Rightarrow> string \<Rightarrow> string \<Rightarrow> redis_Options \<Rightarrow> goerror + 's Redis" where
  "NewRedisWithOptions new_client addr password key opt =
     (case New key of
        Inl e \<Rightarrow> Inl e
      | Inr c \<Rightarrow> Inr \<lparr> rd_client = new_client (client_options addr password opt), rd_cipher = c, rd_key = key \<rparr>)"

definition NewRedis ::
  "(client_Options \<Rightarrow> 's) \<Rightarrow> string \<Rightarrow> string \<Rightarrow> string \<Rightarrow> int \<Rightarrow> goerror + 's Redis" where
  "NewRedis new_client addr password key poolSize =
     NewRedisWithOptions new_client addr password key
       \<lparr> ro_PoolSize = poolSize, ro_Wait = 0, ro_Timeout = 0, ro_Dial = 0 \<rparr>"

definition rd_HashID :: "primitives \<Rightarrow> 's Redis \<Rightarrow> string \<Rightarrow> string" where
  "rd_HashID pr r pid = hashID pr (rd_key r) pid"

definition redisKey :: "primitives \<Rightarrow> 's Redis \<Rightarrow> string \<Rightarrow> string" where
  "redisKey pr r pid = redisKeyPrefix @ rd_HashID pr r pid"

definition rd_Ping :: "'s redis_client \<Rightarrow> 's Redis \<Rightarrow> store_call \<Rightarrow> goerror option" where
  "rd_Ping rc r c = rc_Ping rc (rd_client r) c"

definition rd_Save ::
  "primitives \<Rightarrow> codec \<Rightarrow> 's redis_client \<Rightarrow> 's Redis \<Rightarrow> store_call \<Rightarrow> string \<Rightarrow> Record \<Rightarrow> int
     \<Rightarrow> 's Redis \<times> goerror option" where
  "rd_Save pr cd rc r c pid rcd ttl =
     (case encode pr cd (rd_cipher r) (cl_nonce c) rcd of
        Inl e \<Rightarrow> (r, Some e)
      | Inr ct \<Rightarrow> (let (s, res) = rc_Set rc (rd_client r) c (redisKey pr r pid) ct ttl
                   in (r\<lparr> rd_client := s \<rparr>, res)))"

definition rd_SaveNew ::
  "primitives \<Rightarrow> codec \<Rightarrow> 's redis_client \<Rightarrow> 's Redis \<Rightarrow> store_call \<Rightarrow> string \<Rightarrow> Record \<Rightarrow> int
     \<Rightarrow> 's Redis \<times> (goerror + bool)" where
  "rd_SaveNew pr cd rc r c pid rcd ttl =
     (case encode pr cd (rd_cipher r) (cl_nonce c) rcd of
        Inl e \<Rightarrow> (r, Inl e)
      | Inr ct \<Rightarrow> (let (s, res) = rc_SetNX rc (rd_client r) c (redisKey pr r pid) ct ttl
                   in (r\<lparr> rd_client := s \<rparr>, res)))"

definition rd_Load ::
  "primitives \<Rightarrow> codec \<Rightarrow> 's redis_client \<Rightarrow> 's Redis \<Rightarrow> store_call \<Rightarrow> string
     \<Rightarrow> 's Redis \<times> (goerror + Record option)" where
  "rd_Load pr cd rc r c pid =
     (let (s, res) = rc_Get rc (rd_client r) c (redisKey pr r pid); r' = r\<lparr> rd_client := s \<rparr> in
      case res of
        Inl e \<Rightarrow> if e = ErrRedisNil then (r', Inr None) else (r', Inl e)
      | Inr ct \<Rightarrow> (case decode pr cd (rd_cipher r) ct of Inl e \<Rightarrow> (r', Inl e) | Inr rcd \<Rightarrow> (r', Inr (Some rcd))))"

definition rd_Delete ::
  "primitives \<Rightarrow> 's redis_client \<Rightarrow> 's Redis \<Rightarrow> store_call \<Rightarrow> string \<Rightarrow> 's Redis \<times> goerror option" where
  "rd_Delete pr rc r c pid =
     (let (s, res) = rc_Del rc (rd_client r) c (redisKey pr r pid) in (r\<lparr> rd_client := s \<rparr>, res))"

subsection \<open>The interface holds\<close>

definition view_ct :: "primitives \<Rightarrow> codec \<Rightarrow> Cipher \<Rightarrow> string option \<Rightarrow> goerror + Record option" where
  "view_ct pr cd c x =
     (case x of
        None \<Rightarrow> Inr None
      | Some ct \<Rightarrow> (case decode pr cd c ct of Inl e \<Rightarrow> Inl e | Inr rcd \<Rightarrow> Inr (Some rcd)))"

definition rd_view ::
  "primitives \<Rightarrow> codec \<Rightarrow> ('s \<Rightarrow> int \<Rightarrow> string \<Rightarrow> string option) \<Rightarrow> 's Redis \<Rightarrow> int \<Rightarrow> string
     \<Rightarrow> goerror + Record option" where
  "rd_view pr cd rget r t pid = view_ct pr cd (rd_cipher r) (rget (rd_client r) t (redisKey pr r pid))"

lemma view_ct_None [simp]: "view_ct pr cd c None = Inr None"
  by (simp add: view_ct_def)

lemma redisKey_eq: "redisKey pr r a = redisKey pr r b \<longleftrightarrow> rd_HashID pr r a = rd_HashID pr r b"
  by (simp add: redisKey_def)

lemma rd_upd_simps [simp]:
  "rd_HashID pr (r\<lparr> rd_client := s \<rparr>) = rd_HashID pr r"
  "redisKey pr (r\<lparr> rd_client := s \<rparr>) = redisKey pr r"
  by (simp_all add: fun_eq_iff rd_HashID_def redisKey_def)

locale redis_store = store_env pr cd + redis_server rc rget rlive
  for pr cd and rc :: "'s redis_client" and rget rlive
begin

lemma rd_written:
  assumes "encode pr cd (rd_cipher r) (cl_nonce c) rcd = Inr ct" and "record_ok rcd" and "call_ok c"
    and "\<And>k. k \<noteq> redisKey pr r pid \<Longrightarrow> rget s t k = rget (rd_client r) t k"
    and "rget s t (redisKey pr r pid) = (if rlive (cl_now c) ttl t then Some ct else None)"
  shows "rd_view pr cd rget (r\<lparr> rd_client := s \<rparr>) t pid' = (if rd_HashID pr r pid' = rd_HashID pr r pid
    then (if rlive (cl_now c) ttl t then Inr (Some rcd) else Inr None) else rd_view pr cd rget r t pid')"
proof (cases "rd_HashID pr r pid' = rd_HashID pr r pid")
  case True
  then have "redisKey pr r pid' = redisKey pr r pid" by (simp add: redisKey_eq)
  moreover have "decode pr cd (rd_cipher r) ct = Inr rcd" by (rule encode_decodable [OF assms(1-3)])
  ultimately show ?thesis using assms(5) True by (simp add: rd_view_def view_ct_def)
next
  case False
  then show ?thesis using assms(4) [of "redisKey pr r pid'"] by (simp add: rd_view_def redisKey_eq)
qed

lemma rd_view_same_client:
  assumes "\<And>k. rget s t k = rget (rd_client r) t k"
  shows "rd_view pr cd rget (r\<lparr> rd_client := s \<rparr>) t pid = rd_view pr cd rget r t pid"
  using assms by (simp add: rd_view_def)

lemma rd_Save_view:
  assumes "rd_Save pr cd rc r c pid rcd ttl = (r', None)" and "record_ok rcd" and "call_ok c"
    and "0 \<le> ttl" and "cl_now c \<le> t"
  shows "rd_view pr cd rget r' t pid' = (if rd_HashID pr r pid' = rd_HashID pr r pid
    then (if rlive (cl_now c) ttl t then Inr (Some rcd) else Inr None) else rd_view pr cd rget r t pid')"
proof -
  obtain ct s where ct: "encode pr cd (rd_cipher r) (cl_nonce c) rcd = Inr ct"
    and s: "rc_Set rc (rd_client r) c (redisKey pr r pid) ct ttl = (s, None)" and r': "r' = r\<lparr> rd_client := s \<rparr>"
    using assms(1) by (auto simp: rd_Save_def split: sum.splits prod.splits)
  show ?thesis unfolding r'
    using set_writes [OF s assms(4,5)] set_others [OF _ assms(5), of _ "redisKey pr r pid" "rd_client r" ct ttl] s
    by (intro rd_written [OF ct assms(2,3)]) simp_all
qed

lemma rd_SaveNew_view:
  assumes "rd_SaveNew pr cd rc r c pid rcd ttl = (r', Inr True)" and "record_ok rcd" and "call_ok c"
    and "0 \<le> ttl" and "cl_now c \<le> t"
  shows "rd_view pr cd rget r (cl_now c) pid = Inr None \<and>
    rd_view pr cd rget r' t pid' = (if rd_HashID pr r pid' = rd_HashID pr r pid
      then (if rlive (cl_now c) ttl t then Inr (Some rcd) else Inr None) else rd_view pr cd rget r t pid')"
proof -
  obtain ct s where ct: "encode pr cd (rd_cipher r) (cl_nonce c) rcd = Inr ct"
    and s: "rc_SetNX rc (rd_client r) c (redisKey pr r pid) ct ttl = (s, Inr True)" and r': "r' = r\<lparr> rd_client := s \<rparr>"
    using assms(1) by (auto simp: rd_SaveNew_def split: sum.splits prod.splits)
  have "rd_view pr cd rget r' t pid' = (if rd_HashID pr r pid' = rd_HashID pr r pid
      then (if rlive (cl_now c) ttl t then Inr (Some rcd) else Inr None) else rd_view pr cd rget r t pid')"
    unfolding r'
    using setnx_wins [OF s assms(4,5)] setnx_others [OF _ assms(5), of _ "redisKey pr r pid" "rd_client r" ct ttl] s
    by (intro rd_written [OF ct assms(2,3)]) simp_all
  then show ?thesis using setnx_wins [OF s assms(4,5)] by (simp add: rd_view_def view_ct_def)
qed

lemma rd_SaveNew_lost:
  assumes "rd_SaveNew pr cd rc r c pid rcd ttl = (r', Inr False)" and "cl_now c \<le> t"
  shows "rd_view pr cd rget r (cl_now c) pid \<noteq> Inr None \<and> rd_view pr cd rget r' t pid' = rd_view pr cd rget r t pid'"
proof -
  obtain ct s where s: "rc_SetNX rc (rd_client r) c (redisKey pr r pid) ct ttl = (s, Inr False)"
    and r': "r' = r\<lparr> rd_client := s \<rparr>"
    using assms(1) by (auto simp: rd_SaveNew_def split: sum.splits prod.splits)
  have "rget s t k = rget (rd_client r) t k" for k
    using setnx_loses [OF s assms(2)] setnx_others [OF _ assms(2), of k "redisKey pr r pid" "rd_client r" ct ttl] s
    by (cases "k = redisKey pr r pid") auto
  moreover have "rget (rd_client r) (cl_now c) (redisKey pr r pid) \<noteq> None"
    using setnx_loses [OF s assms(2)] by simp
  ultimately show ?thesis by (auto simp: r' rd_view_same_client) (auto simp: rd_view_def view_ct_def split: sum.splits)
qed

lemma rd_Load_reads:
  "rd_Load pr cd rc r c pid = (r', Inr res) \<Longrightarrow> rd_view pr cd rget r (cl_now c) pid = Inr res"
  using get_reads [of "rd_client r" c "redisKey pr r pid"] get_nil [of "rd_client r" c "redisKey pr r pid"]
  by (auto simp: rd_Load_def rd_view_def view_ct_def Let_def split: sum.splits prod.splits if_splits)

lemma rd_other_writes:
  assumes "rd_HashID pr r pid' \<noteq> rd_HashID pr r pid" and "cl_now c \<le> t"
  shows "rd_view pr cd rget (fst (rd_Save pr cd rc r c pid rcd ttl)) t pid' = rd_view pr cd rget r t pid'"
    and "rd_view pr cd rget (fst (rd_SaveNew pr cd rc r c pid rcd ttl)) t pid' = rd_view pr cd rget r t pid'"
  using set_others [OF _ assms(2)] setnx_others [OF _ assms(2)] assms(1)
  by (simp_all add: rd_Save_def rd_SaveNew_def rd_view_def split_beta redisKey_eq split: sum.split)

end

sublocale redis_store \<subseteq> rd: record_store "rd_view pr cd rget" "rd_HashID pr" rlive
  "rd_Save pr cd rc" "rd_SaveNew pr cd rc" "rd_Load pr cd rc" "rd_Delete pr rc"
proof (unfold_locales, goal_cases)
  case (1 ttl w t)
  then show ?case by (rule rlive_fresh)
next
  case (2 s pid' pid t)
  then show ?case by (simp add: rd_view_def redisKey_def)
next
  case (6 s c pid s' res)
  then show ?case by (rule rd_Load_reads)
next
  case (7 c t s pid pid')
  then show ?case
    using get_keeps [OF 7] by (simp add: rd_Load_def rd_view_def Let_def split_beta split: sum.split)
next
  case (8 s c pid r ttl s' t pid')
  then show ?case by (intro rd_Save_view)
next
  case (9 s pid' pid c t r ttl)
  then show ?case by (rule rd_other_writes)
next
  case (10 s c pid r ttl s' t pid')
  then show ?case by (intro rd_SaveNew_view)
next
  case (11 s c pid r ttl s' t pid')
  then show ?case by (rule rd_SaveNew_lost)
next
  case (12 s pid' pid c t r ttl)
  then show ?case by (rule rd_other_writes)
next
  case (13 s c pid s' t pid')
  then show ?case using del_removes [of "rd_client s" c "redisKey pr s pid"]
    by (auto simp: rd_Delete_def rd_view_def redisKey_eq split: prod.splits)
qed (simp_all add: rd_Save_def rd_SaveNew_def rd_Load_def Let_def split_beta split: sum.split)

context redis_store
begin

lemmas rd_store = rd.record_store_axioms

end

subsection \<open>A concrete server\<close>

text \<open>A server that never fails: a map from keys to a value and the end of its life, if any.\<close>

type_synonym demo_server = "string \<rightharpoonup> string \<times> int option"

definition demo_get :: "demo_server \<Rightarrow> int \<Rightarrow> string \<Rightarrow> string option" where
  "demo_get s t k =
     (case s k of
        None \<Rightarrow> None
      | Some (v, x) \<Rightarrow> (case x of None \<Rightarrow> Some v | Some e \<Rightarrow> if t < e then Some v else None))"

definition demo_set :: "demo_server \<Rightarrow> store_call \<Rightarrow> string \<Rightarrow> string \<Rightarrow> int \<Rightarrow> demo_server" where
  "demo_set s c k v ttl = s(k \<mapsto> (v, if ttl = 0 then None else Some (cl_now c + ttl)))"

definition demo_client :: "demo_server redis_client" where
  "demo_client =
     \<lparr> rc_Set = (\<lambda>s c k v ttl. (demo_set s c k v ttl, None)),
       rc_SetNX = (\<lambda>s c k v ttl. if demo_get s (cl_now c) k = None then (demo_set s c k v ttl, Inr True)
                                 else (s, Inr False)),
       rc_Get = (\<lambda>s c k. (s, case demo_get s (cl_now c) k of None \<Rightarrow> Inl ErrRedisNil | Some v \<Rightarrow> Inr v)),
       rc_Del = (\<lambda>s c k. (s(k := None), None)),
       rc_Ping = (\<lambda>s c. None) \<rparr>"

definition demo_live :: "int \<Rightarrow> int \<Rightarrow> int \<Rightarrow> bool" where
  "demo_live w ttl t \<longleftrightarrow> ttl = 0 \<or> t < w + ttl"

lemma demo_get_set:
  "demo_get (demo_set s c k v ttl) t k' =
     (if k' = k then (if demo_live (cl_now c) ttl t then Some v else None) else demo_get s t k')"
  by (simp add: demo_get_def demo_set_def demo_live_def)

interpretation demo_redis: redis_store demo_primitives demo_codec demo_client demo_get demo_live
proof (unfold_locales, goal_cases)
  case (1 ttl w t)
  then show ?case by (auto simp: demo_live_def)
qed (auto simp: demo_client_def demo_get_set split: if_splits option.splits,
     auto simp: demo_get_def)

subsection \<open>Properties\<close>

text \<open>
  C35. On either backend a first write never overwrites: when \<^verbatim>\<open>SaveNew\<close> answers true there was no live
  record under the id, the new one is there, and when it answers false the store is as it was.
  This is what lets two concurrent first writers of an id agree on one record.
\<close>

theorem SaveNew_first_write_wins:
  assumes "redis_store pr cd rc rget rlive" and "record_ok r" and "call_ok c" and "0 < ttl" and "0 \<le> cl_now c"
  shows "(\<forall>m'. mem_SaveNew pr cd m c pid r ttl = (m', Inr True) \<longrightarrow>
      mem_view pr cd m (cl_now c) pid = Inr None \<and> mem_view pr cd m' (cl_now c) pid = Inr (Some r)) \<and>
    (\<forall>m'. mem_SaveNew pr cd m c pid r ttl = (m', Inr False) \<longrightarrow>
      mem_view pr cd m (cl_now c) pid \<noteq> Inr None \<and> m' = m) \<and>
    (\<forall>s'. rd_SaveNew pr cd rc s c pid r ttl = (s', Inr True) \<longrightarrow>
      rd_view pr cd rget s (cl_now c) pid = Inr None \<and> rd_view pr cd rget s' (cl_now c) pid = Inr (Some r)) \<and>
    (\<forall>s'. rd_SaveNew pr cd rc s c pid r ttl = (s', Inr False) \<longrightarrow>
      rd_view pr cd rget s (cl_now c) pid \<noteq> Inr None \<and>
      (\<forall>t \<ge> cl_now c. \<forall>pid'. rd_view pr cd rget s' t pid' = rd_view pr cd rget s t pid'))"
proof -
  have env: "store_env pr cd" using assms(1) by (simp add: redis_store_def)
  have live: "mem_live (cl_now c) ttl (cl_now c)" "rlive (cl_now c) ttl (cl_now c)"
    using assms(4,5) redis_store.axioms(2) [OF assms(1)]
    by (auto simp: mem_live_def expired_def expiryFor_def intro: redis_server.rlive_fresh)
  have "mem_view pr cd m (cl_now c) pid = Inr None \<and> mem_view pr cd m' (cl_now c) pid = Inr (Some r)"
    if "mem_SaveNew pr cd m c pid r ttl = (m', Inr True)" for m'
    using store_env.mem_SaveNew_view [OF env that assms(2,3)] live by simp
  moreover have "rd_view pr cd rget s (cl_now c) pid = Inr None \<and> rd_view pr cd rget s' (cl_now c) pid = Inr (Some r)"
    if "rd_SaveNew pr cd rc s c pid r ttl = (s', Inr True)" for s'
    using redis_store.rd_SaveNew_view [OF assms(1) that assms(2,3), of "cl_now c" pid] live assms(4) by simp
  moreover have "rd_view pr cd rget s (cl_now c) pid \<noteq> Inr None \<and>
      (\<forall>t \<ge> cl_now c. \<forall>pid'. rd_view pr cd rget s' t pid' = rd_view pr cd rget s t pid')"
    if "rd_SaveNew pr cd rc s c pid r ttl = (s', Inr False)" for s'
    using redis_store.rd_SaveNew_lost [OF assms(1) that] order_refl by blast
  moreover have "mem_view pr cd m (cl_now c) pid \<noteq> Inr None \<and> m' = m"
    if "mem_SaveNew pr cd m c pid r ttl = (m', Inr False)" for m'
    using mem_SaveNew_lost [OF that] by simp
  ultimately show ?thesis by meson
qed

theorem SaveNew_first_write_wins_witness:
  "\<exists>m'. mem_SaveNew demo_primitives demo_codec demo_memory (demo_call 1) ''a'' demo_record 5 = (m', Inr True) \<and>
     mem_view demo_primitives demo_codec m' 1 ''a'' = Inr (Some demo_record)"
proof -
  obtain m' where m': "mem_SaveNew demo_primitives demo_codec demo_memory (demo_call 1) ''a'' demo_record 5 = (m', Inr True)"
    by (simp add: mem_SaveNew_def encode_def Encrypt_def demo_codec_def demo_call_def demo_memory_def)
  then show ?thesis
    using SaveNew_first_write_wins [OF demo_redis.redis_store_axioms demo_record_ok, of "demo_call 1" 5 demo_memory "''a''"]
    by auto
qed

text \<open>
  Every pool option that reaches the Redis client is positive, whatever the caller passes: a
  missing or a negative one is replaced by its default.
\<close>

lemma client_options_positive:
  "let o1 = client_options addr password opt in
     0 < co_PoolSize o1 \<and> 0 < co_PoolTimeout o1 \<and> 0 < co_ReadTimeout o1 \<and> 0 < co_WriteTimeout o1 \<and>
     0 < co_DialTimeout o1 \<and> co_Addr o1 = addr \<and> co_Password o1 = password"
  by (simp add: client_options_def Let_def DefaultRedisPoolSize_def DefaultRedisWait_def
      DefaultRedisTimeout_def DefaultRedisDial_def)

end
