(* ===== verification/Engine.thy ===== *)
theory Engine
  imports Chunk Store_Redis
begin

text \<open>
  The engine (\<^verbatim>\<open>internal/engine/engine.go\<close>): masking, unmasking and the combined \<^verbatim>\<open>Process\<close> call,
  against a store. An engine operation is a program that issues store commands and continues with
  their answers; running it alone gives the sequential behaviour, running several step by step gives
  the interleavings of concurrent requests. The stage timings the code measures are not modelled.
\<close>

subsection \<open>Programs over a store\<close>

text \<open>The outcome of an operation: a result, a Go error, or a panic.\<close>

datatype 'a outcome = Ok 'a | Err goerror | Panic

datatype 'a prog =
    Return 'a
  | Load_then string "goerror + Record option \<Rightarrow> 'a prog"
  | Save_then string Record int "goerror option \<Rightarrow> 'a prog"
  | SaveNew_then string Record int "goerror + bool \<Rightarrow> 'a prog"

record 's store_ops =
  so_Save :: "'s \<Rightarrow> store_call \<Rightarrow> string \<Rightarrow> Record \<Rightarrow> int \<Rightarrow> 's \<times> goerror option"
  so_SaveNew :: "'s \<Rightarrow> store_call \<Rightarrow> string \<Rightarrow> Record \<Rightarrow> int \<Rightarrow> 's \<times> (goerror + bool)"
  so_Load :: "'s \<Rightarrow> store_call \<Rightarrow> string \<Rightarrow> 's \<times> (goerror + Record option)"

text \<open>One command of a program, then a whole program; \<open>cs i\<close> is the environment of its \<open>i\<close>-th command.\<close>

fun exec :: "'s store_ops \<Rightarrow> store_call \<Rightarrow> 's \<Rightarrow> 'a prog \<Rightarrow> 's \<times> 'a prog" where
  "exec so c s (Return a) = (s, Return a)"
| "exec so c s (Load_then pid k) = (let (s', r) = so_Load so s c pid in (s', k r))"
| "exec so c s (Save_then pid rcd ttl k) = (let (s', r) = so_Save so s c pid rcd ttl in (s', k r))"
| "exec so c s (SaveNew_then pid rcd ttl k) = (let (s', r) = so_SaveNew so s c pid rcd ttl in (s', k r))"

primrec run_prog :: "'s store_ops \<Rightarrow> 'a prog \<Rightarrow> (nat \<Rightarrow> store_call) \<Rightarrow> nat \<Rightarrow> 's \<Rightarrow> 's \<times> 'a" where
  "run_prog so (Return a) = (\<lambda>cs i s. (s, a))"
| "run_prog so (Load_then pid k) =
     (\<lambda>cs i s. let (s', r) = so_Load so s (cs i) pid in run_prog so (k r) cs (Suc i) s')"
| "run_prog so (Save_then pid rcd ttl k) =
     (\<lambda>cs i s. let (s', r) = so_Save so s (cs i) pid rcd ttl in run_prog so (k r) cs (Suc i) s')"
| "run_prog so (SaveNew_then pid rcd ttl k) =
     (\<lambda>cs i s. let (s', r) = so_SaveNew so s (cs i) pid rcd ttl in run_prog so (k r) cs (Suc i) s')"

subsection \<open>Data\<close>

record Options =
  opt_Categories :: "category list"
  opt_Strategy :: string
  opt_TTL :: int
  opt_ComboRules :: "ComboRule list"
  opt_Unmask :: bool
  opt_SystemID :: string
  opt_DefaultSystemID :: string

text \<open>
  The strategies are a Go map; the list gives its keys and values in the order a \<^verbatim>\<open>range\<close> visits them.
\<close>

record Engine =
  e_pipeline :: Pipeline
  e_strategies :: "(string \<times> strategy) list"

definition New_engine :: "Pipeline \<Rightarrow> (string \<times> strategy) list \<Rightarrow> Engine" where
  "New_engine p strategies = \<lparr> e_pipeline = p, e_strategies = strategies \<rparr>"

type_synonym counts = "category \<rightharpoonup> nat"

record MaskResult =
  mr_Masked :: string
  mr_Found :: counts

record MaskBatchResult =
  mb_Masked :: "string list"
  mb_Found :: counts

record UnmaskResult =
  ur_Restored :: string
  ur_Misses :: nat

text \<open>\<^verbatim>\<open>Found\<close> is a map that may be nil.\<close>

record ProcessResult =
  prs_Result :: string
  prs_Found :: "counts option"
  prs_Unmasked :: bool
  prs_Misses :: nat

subsection \<open>Helpers\<close>

definition ownsRecord :: "Record \<Rightarrow> Options \<Rightarrow> bool" where
  "ownsRecord rcd opt =
     (if rec_SystemID rcd = LegacyOwner
      then opt_SystemID opt \<noteq> '''' \<and> opt_SystemID opt = opt_DefaultSystemID opt
      else rec_SystemID rcd = opt_SystemID opt)"

definition counts :: "Span list \<Rightarrow> counts" where
  "counts spans = count_list_map (map sp_Category spans)"

definition countsFromRec :: "Record \<Rightarrow> counts" where
  "countsFromRec rcd = count_list_map (map rep_Category (rec_Replacements rcd))"

definition hashText :: "primitives \<Rightarrow> string \<Rightarrow> string" where
  "hashText pr text = hex_encode (sha256 pr text)"

definition joinMasked :: "string list \<Rightarrow> string" where
  "joinMasked masked = concat (map (\<lambda>m. m @ [CHR 0x0A]) masked)"

definition joinTexts :: "string list \<Rightarrow> string" where
  "joinTexts texts = concat (map (\<lambda>t. t @ [CHR 0x0A]) texts)"

definition resolveStrategy :: "Engine \<Rightarrow> string \<Rightarrow> strategy option" where
  "resolveStrategy e name =
     (case map_of (e_strategies e) name of
        Some s \<Rightarrow> Some s
      | None \<Rightarrow>
          (case map_of (e_strategies e) ''partial'' of
             Some s \<Rightarrow> Some s
           | None \<Rightarrow> (case e_strategies e of [] \<Rightarrow> None | p # _ \<Rightarrow> Some (snd p))))"

subsection \<open>Masking\<close>

definition maskChunked ::
  "runtime \<Rightarrow> Engine \<Rightarrow> string \<Rightarrow> Options \<Rightarrow> strategy \<Rightarrow> DocState option
     \<Rightarrow> (string \<times> Replacement list \<times> counts \<times> DocState option) option" where
  "maskChunked rt e text opt strategy doc =
     do { docSpans \<leftarrow> detectWindowed rt (e_pipeline e) text;
          let spans = filterSpans docSpans (opt_Categories opt) (opt_ComboRules opt);
          (masked, reps, doc') \<leftarrow> Apply rt text spans strategy doc;
          Some (masked, reps, counts spans, doc') }"

definition mask_direct ::
  "runtime \<Rightarrow> Engine \<Rightarrow> string \<Rightarrow> Options \<Rightarrow> strategy \<Rightarrow> DocState option
     \<Rightarrow> (string \<times> Replacement list \<times> counts \<times> DocState option) option" where
  "mask_direct rt e text opt strategy doc =
     do { res \<leftarrow> Run rt (e_pipeline e) text;
          let spans = filterSpans (Spans res) (opt_Categories opt) (opt_ComboRules opt);
          (masked, reps, doc') \<leftarrow> Apply rt text spans strategy doc;
          Some (masked, reps, counts spans, doc') }"

text \<open>The choice by size, made in the same way by \<^verbatim>\<open>runMask\<close> and \<^verbatim>\<open>MaskBatchEx\<close>.\<close>

definition mask_text ::
  "runtime \<Rightarrow> Engine \<Rightarrow> string \<Rightarrow> Options \<Rightarrow> strategy \<Rightarrow> DocState option
     \<Rightarrow> (string \<times> Replacement list \<times> counts \<times> DocState option) option" where
  "mask_text rt e text opt strategy doc =
     (if chunkThreshold < int (length text) then maskChunked rt e text opt strategy doc
      else mask_direct rt e text opt strategy doc)"

definition runMask ::
  "runtime \<Rightarrow> Engine \<Rightarrow> string \<Rightarrow> Options \<Rightarrow> strategy \<Rightarrow> DocState option
     \<Rightarrow> (MaskResult \<times> Replacement list) option" where
  "runMask rt e text opt strategy doc =
     do { (masked, reps, found, doc') \<leftarrow> mask_text rt e text opt strategy doc;
          Some (\<lparr> mr_Masked = masked, mr_Found = found \<rparr>, reps) }"

definition maskOnly :: "runtime \<Rightarrow> Engine \<Rightarrow> string \<Rightarrow> Options \<Rightarrow> DocState option \<Rightarrow> MaskResult outcome" where
  "maskOnly rt e text opt doc =
     (case resolveStrategy e (opt_Strategy opt) of
        None \<Rightarrow> Err ErrNoStrategy
      | Some strategy \<Rightarrow>
          (case runMask rt e text opt strategy doc of None \<Rightarrow> Panic | Some (mres, _) \<Rightarrow> Ok mres))"

definition new_record ::
  "primitives \<Rightarrow> strategy \<Rightarrow> Options \<Rightarrow> int \<Rightarrow> string \<Rightarrow> MaskResult \<Rightarrow> Replacement list \<Rightarrow> Record" where
  "new_record pr strategy opt now text mres reps =
     \<lparr> rec_Replacements = reps, rec_Strategy = st_Name strategy, rec_CreatedAt = now,
       rec_MaskedText = mr_Masked mres, rec_Hash = hashText pr text, rec_SystemID = opt_SystemID opt \<rparr>"

definition maskWithRecord ::
  "runtime \<Rightarrow> primitives \<Rightarrow> Engine \<Rightarrow> int \<Rightarrow> string \<Rightarrow> string \<Rightarrow> Options \<Rightarrow> DocState option \<Rightarrow> Record option
     \<Rightarrow> MaskResult outcome prog" where
  "maskWithRecord rt pr e now pid text opt doc existing =
     (let hash = hashText pr text;
          fresh = (case resolveStrategy e (opt_Strategy opt) of
             None \<Rightarrow> Return (Err ErrNoStrategy)
           | Some strategy \<Rightarrow>
               (case runMask rt e text opt strategy doc of
                  None \<Rightarrow> Return Panic
                | Some (mres, reps) \<Rightarrow>
                    Save_then pid (new_record pr strategy opt now text mres reps) (opt_TTL opt)
                      (\<lambda>err. case err of Some x \<Rightarrow> Return (Err x) | None \<Rightarrow> Return (Ok mres)))) in
      case existing of
        Some rcd \<Rightarrow>
          if rec_Hash rcd = hash
          then Return (Ok \<lparr> mr_Masked = rec_MaskedText rcd, mr_Found = countsFromRec rcd \<rparr>)
          else if rec_MaskedText rcd = text then Return (Err ErrLooksLikeUnmask)
          else fresh
      | None \<Rightarrow> fresh)"

definition maskEx ::
  "runtime \<Rightarrow> primitives \<Rightarrow> Engine \<Rightarrow> int \<Rightarrow> string \<Rightarrow> string \<Rightarrow> Options \<Rightarrow> DocState option
     \<Rightarrow> MaskResult outcome prog" where
  "maskEx rt pr e now pid text opt doc =
     (let hash = hashText pr text in
      Load_then pid (\<lambda>res.
        case res of
          Inr (Some rcd) \<Rightarrow>
            if \<not> ownsRecord rcd opt then Return (Err ErrForeignRecord)
            else if rec_Hash rcd = hash
            then Return (Ok \<lparr> mr_Masked = rec_MaskedText rcd, mr_Found = countsFromRec rcd \<rparr>)
            else if rec_MaskedText rcd = text then Return (Err ErrLooksLikeUnmask)
            else maskWithRecord rt pr e now pid text opt doc (Some rcd)
        | _ \<Rightarrow> maskWithRecord rt pr e now pid text opt doc None))"

definition MaskEx ::
  "runtime \<Rightarrow> primitives \<Rightarrow> Engine \<Rightarrow> int \<Rightarrow> string \<Rightarrow> string \<Rightarrow> Options \<Rightarrow> MaskResult outcome prog" where
  "MaskEx rt pr e now pid text opt = maskEx rt pr e now pid text opt (Some NewDocState)"

subsection \<open>Batches\<close>

definition shift_rep :: "int \<Rightarrow> Replacement \<Rightarrow> Replacement" where
  "shift_rep k r = r\<lparr> rep_Start := rep_Start r + k, rep_End := rep_End r + k \<rparr>"

definition add_counts :: "counts \<Rightarrow> counts \<Rightarrow> counts" where
  "add_counts f g = (\<lambda>c. case g c of None \<Rightarrow> f c | Some n \<Rightarrow> Some ((case f c of None \<Rightarrow> 0 | Some k \<Rightarrow> k) + n))"

text \<open>The loop over the messages, with its variables.\<close>

fun batch_loop ::
  "runtime \<Rightarrow> Engine \<Rightarrow> Options \<Rightarrow> strategy \<Rightarrow> string list \<Rightarrow> DocState option \<Rightarrow> int
     \<Rightarrow> string list \<Rightarrow> Replacement list \<Rightarrow> counts \<Rightarrow> (string list \<times> Replacement list \<times> counts) option" where
  "batch_loop rt e opt strategy [] doc msgOffset masked allReps found = Some (masked, allReps, found)"
| "batch_loop rt e opt strategy (text # texts) doc msgOffset masked allReps found =
     do { (m, reps, f, doc') \<leftarrow> mask_text rt e text opt strategy doc;
          batch_loop rt e opt strategy texts doc' (msgOffset + int (length m) + 1) (masked @ [m])
            (allReps @ map (shift_rep msgOffset) reps) (add_counts found f) }"

definition MaskBatchEx ::
  "runtime \<Rightarrow> primitives \<Rightarrow> Engine \<Rightarrow> int \<Rightarrow> string \<Rightarrow> string list \<Rightarrow> Options \<Rightarrow> MaskBatchResult outcome prog" where
  "MaskBatchEx rt pr e now pid texts opt =
     Load_then pid (\<lambda>res.
       if (case res of Inr (Some rcd) \<Rightarrow> \<not> ownsRecord rcd opt | _ \<Rightarrow> False)
       then Return (Err ErrForeignRecord)
       else case resolveStrategy e (opt_Strategy opt) of
         None \<Rightarrow> Return (Err ErrNoStrategy)
       | Some strategy \<Rightarrow>
           (case batch_loop rt e opt strategy texts (Some NewDocState) 0 [] [] Map.empty of
              None \<Rightarrow> Return Panic
            | Some (masked, allReps, found) \<Rightarrow>
                Save_then pid
                  \<lparr> rec_Replacements = allReps, rec_Strategy = st_Name strategy, rec_CreatedAt = now,
                    rec_MaskedText = joinMasked masked, rec_Hash = hashText pr (joinTexts texts),
                    rec_SystemID = opt_SystemID opt \<rparr> (opt_TTL opt)
                  (\<lambda>err. case err of Some x \<Rightarrow> Return (Err x)
                                  | None \<Rightarrow> Return (Ok \<lparr> mb_Masked = masked, mb_Found = found \<rparr>))))"

subsection \<open>Unmasking\<close>

definition UnmaskEx :: "runtime \<Rightarrow> string \<Rightarrow> string \<Rightarrow> Options \<Rightarrow> UnmaskResult outcome prog" where
  "UnmaskEx rt pid masked opt =
     Load_then pid (\<lambda>res.
       case res of
         Inl e \<Rightarrow> Return (Err e)
       | Inr None \<Rightarrow> Return (Err ErrNotFound)
       | Inr (Some rcd) \<Rightarrow>
           if \<not> ownsRecord rcd opt then Return (Err ErrNotFound)
           else (case Restore rt masked (rec_Replacements rcd) of
                   None \<Rightarrow> Return Panic
                 | Some (restored, misses) \<Rightarrow> Return (Ok \<lparr> ur_Restored = restored, ur_Misses = misses \<rparr>)))"

subsection \<open>Process\<close>

definition maskFreshResult :: "runtime \<Rightarrow> Engine \<Rightarrow> string \<Rightarrow> Options \<Rightarrow> ProcessResult outcome" where
  "maskFreshResult rt e payload opt =
     (case maskOnly rt e payload opt (Some NewDocState) of
        Err x \<Rightarrow> Err x
      | Panic \<Rightarrow> Panic
      | Ok mres \<Rightarrow> Ok \<lparr> prs_Result = mr_Masked mres, prs_Found = Some (mr_Found mres),
                       prs_Unmasked = False, prs_Misses = 0 \<rparr>)"

definition processExisting ::
  "runtime \<Rightarrow> primitives \<Rightarrow> Engine \<Rightarrow> Record \<Rightarrow> string \<Rightarrow> Options \<Rightarrow> ProcessResult outcome" where
  "processExisting rt pr e rcd payload opt =
     (if rec_Hash rcd = hashText pr payload
      then Ok \<lparr> prs_Result = rec_MaskedText rcd, prs_Found = None, prs_Unmasked = False, prs_Misses = 0 \<rparr>
      else if \<not> opt_Unmask opt then maskFreshResult rt e payload opt
      else case Restore rt payload (rec_Replacements rcd) of
        None \<Rightarrow> Panic
      | Some (restored, misses) \<Rightarrow>
          if length (rec_Replacements rcd) \<le> misses then maskFreshResult rt e payload opt
          else Ok \<lparr> prs_Result = restored, prs_Found = None, prs_Unmasked = True, prs_Misses = misses \<rparr>)"

definition fresh_result :: "MaskResult \<Rightarrow> ProcessResult" where
  "fresh_result mres = \<lparr> prs_Result = mr_Masked mres, prs_Found = Some (mr_Found mres),
     prs_Unmasked = False, prs_Misses = 0 \<rparr>"

text \<open>The branch of \<^verbatim>\<open>Process\<close> for an id that has a record.\<close>

definition process_known ::
  "runtime \<Rightarrow> primitives \<Rightarrow> Engine \<Rightarrow> Record \<Rightarrow> string \<Rightarrow> Options \<Rightarrow> ProcessResult outcome" where
  "process_known rt pr e rcd payload opt =
     (if \<not> ownsRecord rcd opt then maskFreshResult rt e payload opt
      else case processExisting rt pr e rcd payload opt of
        Ok res \<Rightarrow>
          if \<not> prs_Unmasked res \<and> prs_Found res = None \<and> prs_Result res = rec_MaskedText rcd
          then Ok (res\<lparr> prs_Found := Some (countsFromRec rcd) \<rparr>) else Ok res
      | other \<Rightarrow> other)"

text \<open>The branch of \<^verbatim>\<open>Process\<close> after a lost \<^verbatim>\<open>SaveNew\<close>.\<close>

definition process_lost ::
  "runtime \<Rightarrow> primitives \<Rightarrow> Engine \<Rightarrow> string \<Rightarrow> string \<Rightarrow> Options \<Rightarrow> MaskResult \<Rightarrow> Record
     \<Rightarrow> ProcessResult outcome prog" where
  "process_lost rt pr e pid payload opt mres newRec =
     Load_then pid (\<lambda>res2.
       case res2 of
         Inl x \<Rightarrow> Return (Err x)
       | Inr None \<Rightarrow>
           Save_then pid newRec (opt_TTL opt)
             (\<lambda>err. case err of Some x \<Rightarrow> Return (Err x) | None \<Rightarrow> Return (Ok (fresh_result mres)))
       | Inr (Some rec2) \<Rightarrow>
           if \<not> ownsRecord rec2 opt then Return (maskFreshResult rt e payload opt)
           else Return (processExisting rt pr e rec2 payload opt))"

definition Process ::
  "runtime \<Rightarrow> primitives \<Rightarrow> Engine \<Rightarrow> int \<Rightarrow> string \<Rightarrow> string \<Rightarrow> Options \<Rightarrow> ProcessResult outcome prog" where
  "Process rt pr e now pid payload opt =
     Load_then pid (\<lambda>res.
       case res of
         Inl x \<Rightarrow> Return (Err x)
       | Inr (Some rcd) \<Rightarrow> Return (process_known rt pr e rcd payload opt)
       | Inr None \<Rightarrow>
           (case resolveStrategy e (opt_Strategy opt) of
              None \<Rightarrow> Return (Err ErrNoStrategy)
            | Some strategy \<Rightarrow>
                (case runMask rt e payload opt strategy (Some NewDocState) of
                   None \<Rightarrow> Return Panic
                 | Some (mres, reps) \<Rightarrow>
                     let newRec = new_record pr strategy opt now payload mres reps in
                     SaveNew_then pid newRec (opt_TTL opt) (\<lambda>ans.
                       case ans of
                         Inl x \<Rightarrow> Return (Err x)
                       | Inr True \<Rightarrow> Return (Ok (fresh_result mres))
                       | Inr False \<Rightarrow> process_lost rt pr e pid payload opt mres newRec))))"

subsection \<open>Wrappers without timings\<close>

definition Mask ::
  "runtime \<Rightarrow> primitives \<Rightarrow> Engine \<Rightarrow> int \<Rightarrow> string \<Rightarrow> string \<Rightarrow> Options \<Rightarrow> (string \<times> counts) outcome prog" where
  "Mask rt pr e now pid text opt =
     map_prog (map_outcome (\<lambda>res. (mr_Masked res, mr_Found res))) (MaskEx rt pr e now pid text opt)"

definition MaskBatch ::
  "runtime \<Rightarrow> primitives \<Rightarrow> Engine \<Rightarrow> int \<Rightarrow> string \<Rightarrow> string list \<Rightarrow> Options
     \<Rightarrow> (string list \<times> counts) outcome prog" where
  "MaskBatch rt pr e now pid texts opt =
     map_prog (map_outcome (\<lambda>res. (mb_Masked res, mb_Found res))) (MaskBatchEx rt pr e now pid texts opt)"

definition Unmask :: "runtime \<Rightarrow> string \<Rightarrow> string \<Rightarrow> Options \<Rightarrow> (string \<times> nat) outcome prog" where
  "Unmask rt pid masked opt =
     map_prog (map_outcome (\<lambda>res. (ur_Restored res, ur_Misses res))) (UnmaskEx rt pid masked opt)"

subsection \<open>The masking core\<close>

text \<open>
  An engine whose detectors return in-range spans on a text and on its windows, and whose strategies keep the
  strategy contract.
\<close>

definition engine_ok :: "runtime \<Rightarrow> Engine \<Rightarrow> string \<Rightarrow> bool" where
  "engine_ok rt e tx \<longleftrightarrow>
     detectors_in_range rt (e_pipeline e) tx \<and> (\<forall>p \<in> set (e_strategies e). mask_strategy (st_Mask (snd p)))"

lemma resolveStrategy_mem: "resolveStrategy e name = Some s \<Longrightarrow> s \<in> snd ` set (e_strategies e)"
  by (cases "e_strategies e")
     (auto simp: resolveStrategy_def image_iff split: option.splits if_splits dest!: map_of_SomeD intro: rev_bexI)

lemma resolveStrategy_ok: "engine_ok rt e tx \<Longrightarrow> resolveStrategy e name = Some s \<Longrightarrow> mask_strategy (st_Mask s)"
  using resolveStrategy_mem [of e name s] by (auto simp: engine_ok_def)

lemma mask_text_apply:
  assumes "go_runtime rt" and "detectors_in_range rt (e_pipeline e) text"
  shows "\<exists>spans. good_spans text spans \<and>
    mask_text rt e text opt s doc =
      do { (masked, reps, doc') \<leftarrow> Apply rt text spans s doc; Some (masked, reps, counts spans, doc') }"
proof (cases "chunkThreshold < int (length text)")
  case True
  obtain sp where "detectWindowed rt (e_pipeline e) text = Some sp" "good_spans text sp"
    using detectWindowed_good [OF assms] by blast
  then show ?thesis using True filterSpans_good
    by (intro exI [of _ "filterSpans sp (opt_Categories opt) (opt_ComboRules opt)"])
       (simp add: mask_text_def maskChunked_def Let_def)
next
  case False
  obtain res where "Run rt (e_pipeline e) text = Some res" "good_spans text (Spans res)"
    using Run_good [OF assms(1)] assms(2) by (auto simp: detectors_in_range_def)
  then show ?thesis using False filterSpans_good
    by (intro exI [of _ "filterSpans (Spans res) (opt_Categories opt) (opt_ComboRules opt)"])
       (simp add: mask_text_def mask_direct_def Let_def)
qed

lemma mask_text_layout:
  assumes "go_runtime rt" and "detectors_in_range rt (e_pipeline e) text" and "mask_strategy (st_Mask s)"
  obtains ys rest d' found where
    "mask_text rt e text opt s doc = Some (lay_masked ys @ rest, map snd ys, found, Some d')"
    "text = lay_orig ys @ rest" "lay_reps ys d'"
proof -
  obtain spans where sp: "mask_text rt e text opt s doc =
      do { (masked, reps, doc') \<leftarrow> Apply rt text spans s doc; Some (masked, reps, counts spans, doc') }"
    using mask_text_apply [OF assms(1,2)] by blast
  obtain ys rest d' where
    "Apply rt text spans s doc = Some (lay_masked ys @ rest, map snd ys, Some d')"
    "text = lay_orig ys @ rest" "lay_reps ys d'"
    by (rule Apply_layout [OF assms(3)])
  moreover from this(1) have
    "mask_text rt e text opt s doc = Some (lay_masked ys @ rest, map snd ys, counts spans, Some d')"
    by (simp add: sp)
  ultimately show thesis using that by blast
qed

lemma runMask_restores:
  assumes "go_runtime rt" and "engine_ok rt e text" and "resolveStrategy e name = Some s"
  obtains mres reps where "runMask rt e text opt s doc = Some (mres, reps)"
    and "Restore rt (mr_Masked mres) reps = Some (text, 0)"
proof -
  have ms: "mask_strategy (st_Mask s)" by (rule resolveStrategy_ok [OF assms(2,3)])
  obtain ys rest d' found where m: "mask_text rt e text opt s doc = Some (lay_masked ys @ rest, map snd ys, found, Some d')"
    and t: "text = lay_orig ys @ rest" and l: "lay_reps ys d'"
    using mask_text_layout [OF assms(1) _ ms] assms(2) by (metis engine_ok_def)
  have "Restore rt (lay_masked ys @ rest) (map snd ys) = Some (text, 0)"
    unfolding t using go_runtime.Restore_layout [OF assms(1)] l by (fastforce simp: lay_reps_def)
  with that m show thesis by (simp add: runMask_def)
qed

lemma maskFreshResult_total:
  assumes "go_runtime rt" and "engine_ok rt e payload"
  shows "maskFreshResult rt e payload opt \<noteq> Panic"
proof (cases "resolveStrategy e (opt_Strategy opt)")
  case (Some s)
  obtain mres reps where "runMask rt e payload opt s (Some NewDocState) = Some (mres, reps)"
    by (rule runMask_restores [OF assms Some])
  then show ?thesis by (simp add: maskFreshResult_def maskOnly_def Some)
qed (simp add: maskFreshResult_def maskOnly_def)

lemma maskFreshResult_masks: "maskFreshResult rt e payload opt = Ok res \<Longrightarrow> \<not> prs_Unmasked res"
  by (auto simp: maskFreshResult_def split: outcome.splits)

subsection \<open>Records the engine writes\<close>

text \<open>
  What a caller has to provide so that the record of a text survives the JSON encoding: UTF-8
  masks, values, strategy and system names, and a clock in range.
\<close>

definition utf8_masking :: "runtime \<Rightarrow> Engine \<Rightarrow> string \<Rightarrow> Options \<Rightarrow> int \<Rightarrow> bool" where
  "utf8_masking rt e text opt now \<longleftrightarrow>
     valid_utf8 (opt_SystemID opt) \<and> 0 \<le> now \<and> now < 315537897600000000000 \<and>
     (\<forall>s mres reps. resolveStrategy e (opt_Strategy opt) = Some s \<longrightarrow>
        runMask rt e text opt s (Some NewDocState) = Some (mres, reps) \<longrightarrow>
        valid_utf8 (st_Name s) \<and> valid_utf8 (mr_Masked mres) \<and> (\<forall>r \<in> set reps. rep_ok r))"

lemma hex_digit_ascii: "n < 16 \<Longrightarrow> (of_char (hex_digit n) :: nat) < 0x80"
  by (simp add: hex_digit_def of_char_of)

lemma hex_encode_valid: "valid_utf8 (hex_encode s)"
proof (rule valid_utf8_ascii, rule ballI)
  fix c
  assume "c \<in> set (hex_encode s)"
  then obtain b where "c \<in> set (hex_byte b)" by (auto simp: hex_encode_def)
  moreover have "(of_char b :: nat) div 16 < 16" by (intro less_mult_imp_div_less) simp
  ultimately show "(of_char c :: nat) < 0x80"
    by (auto simp: hex_byte_def Let_def intro: hex_digit_ascii)
qed

lemma new_record_ok:
  assumes "utf8_masking rt e text opt now" and "resolveStrategy e (opt_Strategy opt) = Some s"
    and "runMask rt e text opt s (Some NewDocState) = Some (mres, reps)"
  shows "record_ok (new_record pr s opt now text mres reps)"
  using assms by (auto simp: utf8_masking_def record_ok_def new_record_def hashText_def hex_encode_valid)

lemma new_record_owned: "opt_SystemID opt \<noteq> '''' \<Longrightarrow> ownsRecord (new_record pr s opt now text mres reps) opt"
  by (simp add: ownsRecord_def new_record_def LegacyOwner_def)

subsection \<open>Masking, then unmasking\<close>

definition mk_ops where
  "mk_ops save saveNew load = \<lparr> so_Save = save, so_SaveNew = saveNew, so_Load = load \<rparr>"

lemma mk_ops_simps [simp]:
  "so_Save (mk_ops save saveNew load) = save"
  "so_SaveNew (mk_ops save saveNew load) = saveNew"
  "so_Load (mk_ops save saveNew load) = load"
  by (simp_all add: mk_ops_def)

text \<open>What a successful \<^verbatim>\<open>MaskEx\<close> of a text that the id does not hold yet did: one load and one save.\<close>

lemma maskWithRecord_commands:
  assumes "run_prog so (maskWithRecord rt pr e now pid tx opt doc ex) cs i s = (s', Ok mres)"
    and "\<And>rcd. ex = Some rcd \<Longrightarrow> rec_Hash rcd \<noteq> hashText pr tx"
  obtains strat reps where "resolveStrategy e (opt_Strategy opt) = Some strat"
    and "runMask rt e tx opt strat doc = Some (mres, reps)"
    and "so_Save so s (cs i) pid (new_record pr strat opt now tx mres reps) (opt_TTL opt) = (s', None)"
proof -
  let ?save = "\<lambda>strat m reps. Save_then pid (new_record pr strat opt now tx m reps) (opt_TTL opt)
    (\<lambda>err. case err of Some x \<Rightarrow> Return (Err x) | None \<Rightarrow> Return (Ok m))"
  obtain strat m reps where s: "resolveStrategy e (opt_Strategy opt) = Some strat"
    and m: "runMask rt e tx opt strat doc = Some (m, reps)"
    and r: "run_prog so (?save strat m reps) cs i s = (s', Ok mres)"
    using assms
    by (cases "resolveStrategy e (opt_Strategy opt)"; cases ex)
       (auto simp: maskWithRecord_def Let_def split: if_splits option.splits prod.splits)
  then show thesis
    using that by (auto split: prod.splits option.splits)
qed

lemma MaskEx_commands:
  assumes "run_prog so (MaskEx rt pr e now pid tx opt) cs 0 s = (s', Ok mres)"
    and "so_Load so s (cs 0) pid = (s1, res)"
    and "\<And>rcd. res = Inr (Some rcd) \<Longrightarrow> rec_Hash rcd \<noteq> hashText pr tx"
  obtains strat reps where "resolveStrategy e (opt_Strategy opt) = Some strat"
    and "runMask rt e tx opt strat (Some NewDocState) = Some (mres, reps)"
    and "so_Save so s1 (cs 1) pid (new_record pr strat opt now tx mres reps) (opt_TTL opt) = (s', None)"
proof -
  define ex where "ex = (case res of Inr (Some rcd) \<Rightarrow> Some rcd | _ \<Rightarrow> None)"
  have r: "run_prog so (maskWithRecord rt pr e now pid tx opt (Some NewDocState) ex) cs 1 s1 = (s', Ok mres)"
    using assms by (auto simp: MaskEx_def maskEx_def Let_def ex_def split: sum.splits option.splits if_splits)
  have "rec_Hash rcd \<noteq> hashText pr tx" if "ex = Some rcd" for rcd
    using assms(3) that by (auto simp: ex_def split: sum.splits option.splits)
  from maskWithRecord_commands [OF r this] that show thesis by blast
qed

lemma UnmaskEx_owned:
  assumes "so_Load so s (ds 0) pid = (s1, Inr (Some rcd))" and "ownsRecord rcd opt"
    and "Restore rt masked (rec_Replacements rcd) = Some (tx, n)"
  shows "run_prog so (UnmaskEx rt pid masked opt) ds 0 s = (s1, Ok \<lparr> ur_Restored = tx, ur_Misses = n \<rparr>)"
  using assms by (simp add: UnmaskEx_def)

context record_store
begin

lemma MaskEx_view:
  assumes rt: "go_runtime rt" and e: "engine_ok rt e tx" and u: "utf8_masking rt e tx opt now"
    and run: "run_prog (mk_ops save saveNew load) (MaskEx rt pr e now pid tx opt) cs 0 s = (s', Ok mres)"
    and fresh: "\<And>rcd. view s (cl_now (cs 0)) pid = Inr (Some rcd) \<Longrightarrow> rec_Hash rcd \<noteq> hashText pr tx"
    and ttl: "0 \<le> opt_TTL opt" and c1: "call_ok (cs 1)" and mono: "cl_now (cs 0) \<le> cl_now (cs 1)"
  obtains strat reps where "Restore rt (mr_Masked mres) reps = Some (tx, 0)"
    and "\<And>t pid'. cl_now (cs 1) \<le> t \<Longrightarrow> view s' t pid' = (if slot s pid' = slot s pid
      then (if live (cl_now (cs 1)) (opt_TTL opt) t then Inr (Some (new_record pr strat opt now tx mres reps))
            else Inr None) else view s t pid')"
proof -
  obtain s1 res where l: "load s (cs 0) pid = (s1, res)" by fastforce
  have "rec_Hash rcd \<noteq> hashText pr tx" if "res = Inr (Some rcd)" for rcd
    using fresh load_reads [of s "cs 0" pid s1 "Some rcd"] l that by simp
  then obtain strat reps where st: "resolveStrategy e (opt_Strategy opt) = Some strat"
    and m: "runMask rt e tx opt strat (Some NewDocState) = Some (mres, reps)"
    and sv: "save s1 (cs 1) pid (new_record pr strat opt now tx mres reps) (opt_TTL opt) = (s', None)"
    using MaskEx_commands [OF run] l by (metis mk_ops_simps(1,3))
  have "Restore rt (mr_Masked mres) reps = Some (tx, 0)"
    using runMask_restores [OF rt e st, of opt "Some NewDocState"] m by (metis option.inject prod.inject)
  moreover have "view s' t pid' = (if slot s pid' = slot s pid
      then (if live (cl_now (cs 1)) (opt_TTL opt) t then Inr (Some (new_record pr strat opt now tx mres reps))
            else Inr None) else view s t pid')" if "cl_now (cs 1) \<le> t" for t pid'
    using save_writes [OF sv new_record_ok [OF u st m] c1 ttl that, of pid'] slot_load [of s "cs 0" pid] l
      load_keeps [of "cs 0" t s pid pid'] that mono by simp
  ultimately show thesis by (rule that)
qed

text \<open>After masking, a load sees a record of the caller from which the masked text can be restored.\<close>

lemma Mask_visible:
  assumes "go_runtime rt" and "engine_ok rt e tx" and "utf8_masking rt e tx opt now" and "opt_SystemID opt \<noteq> ''''"
    and "run_prog (mk_ops save saveNew load) (MaskEx rt pr e now pid tx opt) cs 0 s = (s', Ok mres)"
    and "\<And>rcd. view s (cl_now (cs 0)) pid = Inr (Some rcd) \<Longrightarrow> rec_Hash rcd \<noteq> hashText pr tx"
    and "0 \<le> opt_TTL opt" and "call_ok (cs 1)" and "cl_now (cs 0) \<le> cl_now (cs 1)"
    and "cl_now (cs 1) \<le> t" and "opt_TTL opt = 0 \<or> t < cl_now (cs 1) + opt_TTL opt"
  obtains rcd where "view s' t pid = Inr (Some rcd)" and "ownsRecord rcd opt"
    and "rec_Hash rcd = hashText pr tx" and "rec_MaskedText rcd = mr_Masked mres"
    and "Restore rt (mr_Masked mres) (rec_Replacements rcd) = Some (tx, 0)"
proof -
  obtain strat reps where r: "Restore rt (mr_Masked mres) reps = Some (tx, 0)"
    and v: "\<And>t pid'. cl_now (cs 1) \<le> t \<Longrightarrow> view s' t pid' = (if slot s pid' = slot s pid
      then (if live (cl_now (cs 1)) (opt_TTL opt) t then Inr (Some (new_record pr strat opt now tx mres reps))
            else Inr None) else view s t pid')"
    by (rule MaskEx_view [OF assms(1-3,5-9)]) blast+
  let ?rcd = "new_record pr strat opt now tx mres reps"
  have "view s' t pid = Inr (Some ?rcd)"
    using v [OF assms(10), of pid] live_fresh [OF assms(7,10,11)] by simp
  then show thesis
    using that [of ?rcd] new_record_owned [OF assms(4)] r by (simp add: new_record_def)
qed

end

subsection \<open>A batch is one document\<close>

text \<open>
  The messages masked so far, joined, form one layout with the replacements collected so far: their
  offsets are positions in the joined text.
\<close>

definition batch_inv :: "string list \<Rightarrow> string list \<Rightarrow> Replacement list \<Rightarrow> bool" where
  "batch_inv texts masked reps \<longleftrightarrow>
     (\<exists>xs rest. joinMasked masked = lay_masked xs @ rest \<and> joinTexts texts = lay_orig xs @ rest \<and>
        reps = map snd xs \<and> lay_ok 0 xs \<and> masks_nonempty xs)"

fun glue :: "string \<Rightarrow> (string \<times> Replacement) list \<Rightarrow> (string \<times> Replacement) list" where
  "glue g0 [] = []"
| "glue g0 ((g, r) # xs) = (g0 @ g, r) # xs"

lemma glue_simps:
  "xs \<noteq> [] \<Longrightarrow> lay_masked (glue g0 xs) = g0 @ lay_masked xs"
  "xs \<noteq> [] \<Longrightarrow> lay_orig (glue g0 xs) = g0 @ lay_orig xs"
  "map snd (glue g0 xs) = map snd xs"
  "lay_ok (n + length g0) xs \<Longrightarrow> lay_ok n (glue g0 xs)"
  "masks_nonempty (glue g0 xs) = masks_nonempty xs"
  by (cases xs rule: lay_masked.cases, auto simp: add.assoc)+

lemma shift_layout:
  "lay_masked (map (apsnd (shift_rep k)) xs) = lay_masked xs"
  "lay_orig (map (apsnd (shift_rep k)) xs) = lay_orig xs"
  by (induction xs rule: lay_masked.induct) (auto simp: shift_rep_def)

lemma shift_lay_ok: "lay_ok n xs \<Longrightarrow> lay_ok (m + n) (map (apsnd (shift_rep (int m))) xs)"
  by (induction n xs rule: lay_ok.induct) (auto simp: shift_rep_def add.assoc)

lemma joins_append [simp]:
  "joinMasked (ms @ [m]) = joinMasked ms @ m @ [CHR 0x0A]"
  "joinTexts (ts @ [t]) = joinTexts ts @ t @ [CHR 0x0A]"
  by (simp_all add: joinMasked_def joinTexts_def)

lemma batch_step:
  assumes "batch_inv texts masked reps" and "lay_reps ys d'" and "tx = lay_orig ys @ rest"
    and "off = int (length (joinMasked masked))"
  shows "batch_inv (texts @ [tx]) (masked @ [lay_masked ys @ rest])
    (reps @ map (shift_rep off) (map snd ys))"
proof -
  obtain xs r0 where m: "joinMasked masked = lay_masked xs @ r0" "joinTexts texts = lay_orig xs @ r0"
    "reps = map snd xs" "lay_ok 0 xs" "masks_nonempty xs"
    using assms(1) by (auto simp: batch_inv_def)
  let ?n = "length (lay_masked xs @ r0)"
  let ?ys = "map (apsnd (shift_rep (int ?n))) ys"
  have ok: "lay_ok 0 ys" and ne: "masks_nonempty ys" using assms(2) by (auto simp: lay_reps_def)
  have "lay_ok ?n ?ys" using shift_lay_ok [OF ok, of ?n] by simp
  then have g: "lay_ok (length (lay_masked xs)) (glue r0 ?ys)" by (intro glue_simps(4)) simp
  have sn: "map snd ?ys = map (shift_rep (int ?n)) (map snd ys)" by (simp add: comp_def)
  have ne': "masks_nonempty ?ys" using ne by (simp add: shift_rep_def)
  show ?thesis
  proof (cases "ys = []")
    case True
    then show ?thesis using m assms(3)
      by (auto simp: batch_inv_def intro!: exI [of _ xs] exI [of _ "r0 @ rest @ [CHR 0x0A]"])
  next
    case False
    then have "?ys \<noteq> []" by simp
    note gl = glue_simps(1,2) [OF this, of r0] glue_simps(3) [of r0 ?ys] glue_simps(5) [of r0 ?ys]
    have "joinMasked (masked @ [lay_masked ys @ rest]) = lay_masked (xs @ glue r0 ?ys) @ rest @ [CHR 0x0A]"
      using m(1) gl(1) by (simp add: shift_layout)
    moreover have "joinTexts (texts @ [tx]) = lay_orig (xs @ glue r0 ?ys) @ rest @ [CHR 0x0A]"
      using m(2) gl(2) assms(3) by (simp add: shift_layout)
    moreover have "reps @ map (shift_rep off) (map snd ys) = map snd (xs @ glue r0 ?ys)"
      using m(1,3) gl(3) assms(4) by (simp add: comp_def)
    moreover have "lay_ok 0 (xs @ glue r0 ?ys)" using m(4) g by simp
    moreover have "masks_nonempty (xs @ glue r0 ?ys)" using m(5) gl(4) ne' by auto
    ultimately show ?thesis unfolding batch_inv_def by blast
  qed
qed

lemma batch_loop_inv:
  assumes "go_runtime rt" and "resolveStrategy e name = Some s"
  shows "list_all (engine_ok rt e) texts \<Longrightarrow>
    batch_inv done masked reps \<Longrightarrow> off = int (length (joinMasked masked)) \<Longrightarrow>
    \<exists>masked' reps' found'. batch_loop rt e opt s texts doc off masked reps found = Some (masked', reps', found') \<and>
      batch_inv (done @ texts) masked' reps' \<and> length masked' = length masked + length texts"
proof (induction texts arbitrary: "done" masked reps found doc off)
  case (Cons tx texts)
  have ok: "engine_ok rt e tx" using Cons.prems(1) by simp
  obtain ys rest d' f where m: "mask_text rt e tx opt s doc = Some (lay_masked ys @ rest, map snd ys, f, Some d')"
    and t: "tx = lay_orig ys @ rest" and l: "lay_reps ys d'"
    using mask_text_layout [OF assms(1) _ resolveStrategy_ok [OF ok assms(2)]] ok by (metis engine_ok_def)
  have "batch_inv (done @ [tx]) (masked @ [lay_masked ys @ rest]) (reps @ map (shift_rep off) (map snd ys))"
    by (rule batch_step [OF Cons.prems(2) l t Cons.prems(3)])
  from Cons.IH [OF _ this, of "off + int (length (lay_masked ys @ rest)) + 1" "Some d'" "add_counts found f"]
  show ?case using m Cons.prems(1,3) by auto
qed simp

lemma batch_inv_restores:
  assumes "go_runtime rt" and "batch_inv texts masked reps"
  shows "Restore rt (joinMasked masked) reps = Some (joinTexts texts, 0)"
  using assms(2) go_runtime.Restore_layout [OF assms(1)] unfolding batch_inv_def by metis

end
