(* ===== verification/Http_Auth.thy ===== *)
theory Http_Auth
  imports Config Engine
begin

text \<open>
  Who is calling and with what options: \<^verbatim>\<open>internal/httpapi/auth.go\<close> and \<^verbatim>\<open>system.go\<close>. A request is seen
  through its headers; the environment variables are an argument.
\<close>

subsection \<open>Authentication\<close>

definition systemHeader :: string where "systemHeader = ''X-System-Id''"

definition apiKeyHeader :: string where "apiKeyHeader = ''X-API-Key''"

definition routeProcess :: string where "routeProcess = ''process''"

definition routeMask :: string where "routeMask = ''mask''"

definition routeUnmask :: string where "routeUnmask = ''unmask''"

definition routeChat :: string where "routeChat = ''chat''"

definition routeHealthz :: string where "routeHealthz = ''healthz''"

definition routeReadyz :: string where "routeReadyz = ''readyz''"

lemmas route_names = routeProcess_def routeMask_def routeUnmask_def routeChat_def routeHealthz_def routeReadyz_def

record authResult =
  ar_system :: "System option"
  ar_status :: nat

text \<open>\<open>None\<close> stands for a key that is not \<^verbatim>\<open>determined\<close>.\<close>

definition expectedKey :: "(string \<Rightarrow> string) \<Rightarrow> System \<Rightarrow> string option" where
  "expectedKey getenv sys =
     (if sys_APIKeyEnv sys \<noteq> ''''
      then (let v = getenv (sys_APIKeyEnv sys) in if v = '''' then None else Some v)
      else Some (sys_APIKey sys))"

text \<open>
  \<^verbatim>\<open>subtle.ConstantTimeCompare\<close> folds the bitwise differences of the bytes of two slices of one length.
\<close>

definition ConstantTimeCompare :: "string \<Rightarrow> string \<Rightarrow> nat" where
  "ConstantTimeCompare a b =
     (if length a \<noteq> length b then 0
      else if foldl (\<lambda>v (x, y). or v (xor (of_char x :: nat) (of_char y))) 0 (zip a b) = 0 then 1 else 0)"

definition constantTimeEqual :: "string \<Rightarrow> string \<Rightarrow> bool" where
  "constantTimeEqual a b \<longleftrightarrow> (if length a \<noteq> length b then False else ConstantTimeCompare a b = 1)"

definition authenticate :: "Config \<Rightarrow> (string \<Rightarrow> string) \<Rightarrow> (string \<Rightarrow> string) \<Rightarrow> string \<Rightarrow> authResult" where
  "authenticate cfg getenv header route =
     (let sysID = header systemHeader;
          key = header apiKeyHeader;
          allowDefault = (route = routeProcess);
          sysID = (if sysID = '''' \<and> allowDefault \<and> srv_DefaultSystem (cfg_server cfg) \<noteq> ''''
                   then srv_DefaultSystem (cfg_server cfg) else sysID);
          reject = (\<lambda>status. \<lparr> ar_system = None, ar_status = status \<rparr>) in
      if sysID = '''' then reject 403
      else case SystemByID cfg sysID of
        None \<Rightarrow> reject 403
      | Some sys \<Rightarrow>
          if \<not> sys_Enabled sys then reject 403
          else case expectedKey getenv sys of
            None \<Rightarrow> reject 401
          | Some expected \<Rightarrow>
              if expected = '''' then
                (if route \<noteq> routeProcess then reject 403 else \<lparr> ar_system = Some sys, ar_status = 0 \<rparr>)
              else if \<not> constantTimeEqual expected key then reject 401
              else \<lparr> ar_system = Some sys, ar_status = 0 \<rparr>)"

subsection \<open>The system of a request\<close>

definition strategyPartial :: string where "strategyPartial = ''partial''"

definition zero_system :: System where
  "zero_system =
     \<lparr> sys_ID = '''', sys_Enabled = False, sys_APIKey = '''', sys_APIKeyEnv = '''', sys_Categories = [],
       sys_Strategy = strategyPartial, sys_Unmask = True, sys_AllowStrategyOverride = False, sys_ComboRules = [] \<rparr>"

definition resolveSystem :: "Config \<Rightarrow> (string \<Rightarrow> string) \<Rightarrow> System" where
  "resolveSystem cfg header =
     (let sysID = header systemHeader;
          sysID = (if sysID = '''' then srv_DefaultSystem (cfg_server cfg) else sysID) in
      case SystemByID cfg sysID of
        None \<Rightarrow> (case find sys_Enabled (cfg_systems cfg) of Some s \<Rightarrow> s | None \<Rightarrow> zero_system)
      | Some sys \<Rightarrow> sys)"

text \<open>\<^verbatim>\<open>systemFrom\<close>: the context value set by \<^verbatim>\<open>withSystem\<close> is the first argument.\<close>

definition systemFrom :: "System option \<Rightarrow> Config \<Rightarrow> (string \<Rightarrow> string) \<Rightarrow> System" where
  "systemFrom ctx cfg header = (case ctx of Some sys \<Rightarrow> sys | None \<Rightarrow> resolveSystem cfg header)"

definition optionsFor :: "Config \<Rightarrow> System \<Rightarrow> Options" where
  "optionsFor cfg sys =
     \<lparr> opt_Categories = sys_Categories sys,
       opt_Strategy = (if sys_Strategy sys = '''' then strategyPartial else sys_Strategy sys),
       opt_TTL = sto_TTL (cfg_store cfg),
       opt_ComboRules = map (\<lambda>r. \<lparr> cr_Category = ccr_Category r, cr_RequiresAny = ccr_RequiresAny r \<rparr>) (sys_ComboRules sys),
       opt_Unmask = sys_Unmask sys, opt_SystemID = sys_ID sys,
       opt_DefaultSystemID = srv_DefaultSystem (cfg_server cfg) \<rparr>"

definition strategyOverride :: "System \<Rightarrow> string \<Rightarrow> string \<times> nat" where
  "strategyOverride sys override =
     (if override = '''' then (sys_Strategy sys, 0)
      else if \<not> sys_AllowStrategyOverride sys then ('''', 403)
      else if \<not> ValidStrategy override then ('''', 400)
      else (override, 0))"

subsection \<open>Facts\<close>

lemma xor_zero_iff: "xor (x :: nat) y = 0 \<longleftrightarrow> x = y"
  by (metis xor.assoc xor.left_neutral xor.right_neutral xor_self_eq)

lemma or_fold_zero:
  "foldl (\<lambda>v (x, y). or v (xor (of_char x :: nat) (of_char y))) v ps = 0 \<longleftrightarrow> v = 0 \<and> (\<forall>(x, y) \<in> set ps. x = y)"
  by (induction ps arbitrary: v) (auto simp: or_eq_0_iff xor_zero_iff)

lemma zip_all_eq: "length a = length b \<Longrightarrow> (\<forall>(x, y) \<in> set (zip a b). x = y) \<longleftrightarrow> a = b"
  by (induction a b rule: list_induct2) auto

lemma constantTimeEqual_iff: "constantTimeEqual a b \<longleftrightarrow> a = b"
  by (auto simp: constantTimeEqual_def ConstantTimeCompare_def or_fold_zero zip_all_eq)

lemma optionsFor_simps [simp]:
  "opt_SystemID (optionsFor cfg sys) = sys_ID sys" "opt_Unmask (optionsFor cfg sys) = sys_Unmask sys"
  "opt_DefaultSystemID (optionsFor cfg sys) = srv_DefaultSystem (cfg_server cfg)"
  "opt_TTL (optionsFor cfg sys) = sto_TTL (cfg_store cfg)" "opt_Categories (optionsFor cfg sys) = sys_Categories sys"
  by (simp_all add: optionsFor_def)

text \<open>\<^verbatim>\<open>strategyOverride\<close> gives a strategy the system is configured with or, where allowed, one that exists.\<close>

lemma strategyOverride_ok:
  "strategyOverride sys ov = (st, 0) \<longleftrightarrow>
     (if ov = '''' then st = sys_Strategy sys else st = ov \<and> sys_AllowStrategyOverride sys \<and> ValidStrategy ov)"
  by (auto simp: strategyOverride_def)

text \<open>
  C17. A request is accepted for a system exactly when the configuration has that system, enabled, under
  the id of the \<^verbatim>\<open>X-System-Id\<close> header (for \<^verbatim>\<open>/process\<close> without the header, under the default id), and either
  the key of the system is known and sent, or the system has an empty key and the route is \<^verbatim>\<open>/process\<close>.
  A system whose key variable is unset is never accepted. Every other request gets 401 or 403 and no
  system.
\<close>

theorem authenticate_grants:
  assumes "Validate cfg = None"
  shows "let res = authenticate cfg getenv header route;
      who = (if header systemHeader = '''' \<and> route = routeProcess then srv_DefaultSystem (cfg_server cfg)
             else header systemHeader) in
    (ar_system res = Some sys \<longleftrightarrow>
       sys \<in> set (cfg_systems cfg) \<and> sys_Enabled sys \<and> sys_ID sys = who \<and>
       (\<exists>k. expectedKey getenv sys = Some k \<and>
         (if k = '''' then route = routeProcess else header apiKeyHeader = k))) \<and>
    (ar_status res = 0 \<longleftrightarrow> ar_system res \<noteq> None) \<and> ar_status res \<in> {0, 401, 403}"
proof -
  let ?who = "if header systemHeader = '''' \<and> route = routeProcess then srv_DefaultSystem (cfg_server cfg)
             else header systemHeader"
  have ne: "s \<in> set (cfg_systems cfg) \<Longrightarrow> sys_ID s \<noteq> ''''" for s using assms by (auto simp: Validate_None)
  have who: "(if header systemHeader = '''' \<and> route = routeProcess \<and> srv_DefaultSystem (cfg_server cfg) \<noteq> ''''
      then srv_DefaultSystem (cfg_server cfg) else header systemHeader) = ?who" by auto
  have find: "SystemByID cfg ?who = Some s \<longleftrightarrow> s \<in> set (cfg_systems cfg) \<and> sys_ID s = ?who" for s
    by (rule SystemByID_Some [OF assms])
  show ?thesis
  proof (cases "SystemByID cfg ?who")
    case None
    then have "s \<notin> set (cfg_systems cfg) \<or> sys_ID s \<noteq> ?who" for s using find [of s] by auto
    with None show ?thesis unfolding authenticate_def Let_def who by auto
  next
    case (Some s)
    then have s: "s \<in> set (cfg_systems cfg)" "sys_ID s = ?who" using find by auto
    then have "?who \<noteq> ''''" using ne by metis
    moreover have "sys \<in> set (cfg_systems cfg) \<and> sys_ID sys = ?who \<longleftrightarrow> sys = s" using find [of sys] Some by auto
    ultimately show ?thesis unfolding authenticate_def Let_def who
      using Some by (auto simp: constantTimeEqual_iff split: option.splits)
  qed
qed

text \<open>
  C18. Tenants are separated. On a valid configuration two accepted requests that may both reach one record
  were accepted for one system, whatever routes and strategies they use.
\<close>

theorem tenant_isolation:
  assumes "Validate cfg = None"
    and "ar_system (authenticate cfg getenv header route) = Some sys"
    and "ar_system (authenticate cfg getenv header' route') = Some sys'"
    and "ownsRecord rcd ((optionsFor cfg sys)\<lparr> opt_Strategy := st \<rparr>)"
    and "ownsRecord rcd ((optionsFor cfg sys')\<lparr> opt_Strategy := st' \<rparr>)"
  shows "sys = sys'"
proof -
  have member: "s \<in> set (cfg_systems cfg)"
    if "ar_system (authenticate cfg getenv hd rt) = Some s" for hd rt s
    using that unfolding authenticate_def Let_def SystemByID_def
    by (auto split: if_splits option.splits simp: find_Some_iff)
  have "distinct (map sys_ID (cfg_systems cfg))" using assms(1) by (simp add: Validate_None)
  moreover have "sys_ID sys = sys_ID sys'"
    using assms(4,5) by (simp add: ownsRecord_def split: if_splits)
  ultimately show ?thesis
    using member [OF assms(2)] member [OF assms(3)] by (auto simp: distinct_map dest: inj_onD)
qed

definition demo_env :: "string \<Rightarrow> string" where
  "demo_env name = (if name = ''PDN_CRM_KEY'' then ''secret'' else '''')"

definition demo_header :: "string \<Rightarrow> string" where
  "demo_header name = (if name = systemHeader then ''crm'' else if name = apiKeyHeader then ''secret'' else '''')"

theorem authenticate_grants_witness:
  "ar_system (authenticate demo_config demo_env demo_header routeMask) = Some demo_crm \<and>
   ar_system (authenticate demo_config demo_env (\<lambda>_. '''') routeProcess) = Some demo_checker \<and>
   ar_system (authenticate demo_config demo_env (\<lambda>_. '''') routeMask) \<noteq> Some demo_checker"
proof -
  have m: "demo_crm \<in> set (cfg_systems demo_config)" "demo_checker \<in> set (cfg_systems demo_config)"
    by (simp_all add: demo_config_def)
  have crm: "expectedKey demo_env demo_crm = Some ''secret''" "sys_Enabled demo_crm" "sys_ID demo_crm = ''crm''"
    by (simp_all add: expectedKey_def demo_env_def demo_crm_def)
  have chk: "expectedKey demo_env demo_checker = Some ''''" "sys_Enabled demo_checker" "sys_ID demo_checker = ''checker''"
    by (simp_all add: expectedKey_def demo_env_def demo_checker_def)
  have hd: "demo_header systemHeader = ''crm''" "demo_header apiKeyHeader = ''secret''"
    by (simp_all add: demo_header_def systemHeader_def apiKeyHeader_def)
  have df: "srv_DefaultSystem (cfg_server demo_config) = ''checker''" by (simp add: demo_config_def)
  note g = authenticate_grants [OF demo_config_valid, unfolded Let_def]
  from g [of demo_env demo_header routeMask demo_crm] g [of demo_env "\<lambda>_. ''''" routeProcess demo_checker]
    g [of demo_env "\<lambda>_. ''''" routeMask demo_checker]
  show ?thesis using m crm chk by (simp add: hd df route_names)
qed

lemma demo_crm_auth:
  "ar_system (authenticate demo_config demo_env demo_header route) = Some demo_crm"
  by (simp add: authenticate_def Let_def demo_header_def systemHeader_def apiKeyHeader_def SystemByID_def demo_config_def
      demo_checker_def demo_chatbot_def demo_crm_def expectedKey_def demo_env_def constantTimeEqual_iff)

theorem tenant_isolation_witness:
  "\<exists>rcd sys'. ownsRecord rcd (optionsFor demo_config demo_crm) \<and>
     ar_system (authenticate demo_config demo_env demo_header routeUnmask) = Some sys' \<and>
     ownsRecord rcd (optionsFor demo_config sys') \<and> demo_crm = sys'"
proof -
  let ?rcd = "\<lparr> rec_Replacements = [], rec_Strategy = ''token'', rec_CreatedAt = 1, rec_MaskedText = ''x'',
    rec_Hash = ''h'', rec_SystemID = ''crm'' \<rparr>"
  have own: "ownsRecord ?rcd ((optionsFor demo_config demo_crm)\<lparr> opt_Strategy := st \<rparr>)"
    "ownsRecord ?rcd (optionsFor demo_config demo_crm)" for st
    by (simp_all add: ownsRecord_def LegacyOwner_def demo_crm_def)
  obtain sys' where sys': "ar_system (authenticate demo_config demo_env demo_header routeUnmask) = Some sys'"
    using demo_crm_auth by blast
  then have own': "ownsRecord ?rcd ((optionsFor demo_config sys')\<lparr> opt_Strategy := ''full'' \<rparr>)"
    using own(1) by (simp add: demo_crm_auth)
  have eq: "demo_crm = sys'"
    by (rule tenant_isolation [OF demo_config_valid demo_crm_auth [of routeMask] sys' own(1) own'])
  have "ownsRecord ?rcd (optionsFor demo_config sys')" using own(2) by (simp only: eq)
  then show ?thesis using own(2) sys' eq by blast
qed

end
