(* ===== verification/Llm.thy ===== *)
theory Llm
  imports Config Crypto Go_Strings
begin

text \<open>
  The client of the upstream model (\<^verbatim>\<open>internal/httpapi/llm.go\<close>). The HTTP exchange is an argument: it gives
  a transport error, or a status and a body. JSON decoding of a stream chunk is an argument too; the
  line scanner, the trimming and the assembly of the answer are modelled.
\<close>

subsection \<open>Standard library: line scanning\<close>

text \<open>
  \<^verbatim>\<open>bufio.Scanner\<close> with \<^verbatim>\<open>ScanLines\<close>: the lines without their line ends; a line that does not fit the
  buffer stops the scan.
\<close>

definition max_token :: nat where "max_token = 1024 * 1024"

definition drop_cr :: "string \<Rightarrow> string" where
  "drop_cr l = (if l \<noteq> [] \<and> last l = CHR 0x0D then butlast l else l)"

definition raw_lines :: "string \<Rightarrow> string list" where
  "raw_lines s = (let ls = split_on CHR 0x0A s in if last ls = [] then butlast ls else ls)"

definition scan_lines :: "string \<Rightarrow> string list \<times> bool" where
  "scan_lines s =
     (let ls = raw_lines s; ok = takeWhile (\<lambda>l. length l < max_token) ls in
      (map drop_cr ok, length ok < length ls))"

subsection \<open>Data\<close>

record chatMessage =
  cm_Role :: string
  cm_Content :: string

record chatRequest =
  crq_Model :: string
  crq_Messages :: "chatMessage list"
  crq_Stream :: bool

record usage =
  PromptTokens :: int
  CompletionTokens :: int
  TotalTokens :: int

definition no_usage :: usage where
  "no_usage = \<lparr> PromptTokens = 0, CompletionTokens = 0, TotalTokens = 0 \<rparr>"

record pdnInfo =
  MaskedRequest :: string
  RawAnswer :: string
  MaskedCount :: nat
  Unmasked :: bool

record choice =
  ch_Index :: nat
  ch_Role :: string
  ch_Content :: string

record chatResponse =
  crs_ID :: string
  crs_Object :: string
  crs_Created :: int
  crs_Model :: string
  crs_Choices :: "choice list"
  crs_Usage :: usage
  crs_PDN :: "pdnInfo option"

record sse_choice =
  sc_Content :: string
  sc_FinishReason :: "string option"

record sseChunk =
  sse_Choices :: "sse_choice list"
  sse_Usage :: "usage option"

datatype llm_error =
    LLMDeadline
  | LLMTransport string
  | LLMStatus nat
  | LLMTooLong
  | errStreamNotTerminated

text \<open>
  The body of an upstream response: its bytes, the error of the read after them, if any, and whether
  that read had already been made when the scanner stopped.
\<close>

record sse_stream =
  ss_body :: string
  ss_err :: "llm_error option"
  ss_early :: bool

datatype do_result = DoErr llm_error | DoResp nat sse_stream

subsection \<open>The stream\<close>

record sse_state =
  st_content :: string
  st_usage :: usage
  st_done :: bool

definition sse_choice_step :: "sse_state \<Rightarrow> sse_choice \<Rightarrow> sse_state" where
  "sse_choice_step st ch =
     st\<lparr> st_content := st_content st @ sc_Content ch,
         st_done := (st_done st \<or> (case sc_FinishReason ch of None \<Rightarrow> False | Some r \<Rightarrow> r \<noteq> '''')) \<rparr>"

definition sse_chunk_step :: "sse_state \<Rightarrow> sseChunk \<Rightarrow> sse_state" where
  "sse_chunk_step st chunk =
     (let st' = foldl sse_choice_step st (sse_Choices chunk) in
      case sse_Usage chunk of None \<Rightarrow> st' | Some u \<Rightarrow> st'\<lparr> st_usage := u \<rparr>)"

text \<open>The loop of \<^verbatim>\<open>readSSE\<close>; the flag says that it was left by the \<^verbatim>\<open>break\<close> at the end marker.\<close>

fun sse_loop :: "(string \<Rightarrow> sseChunk option) \<Rightarrow> string list \<Rightarrow> sse_state \<Rightarrow> sse_state \<times> bool" where
  "sse_loop json [] st = (st, False)"
| "sse_loop json (line # lines) st =
     (if \<not> HasPrefix line ''data:'' then sse_loop json lines st
      else
        let payload = TrimSpace (TrimPrefix line ''data:'') in
        if payload = ''[DONE]'' then (st\<lparr> st_done := True \<rparr>, True)
        else case json payload of
          None \<Rightarrow> sse_loop json lines st
        | Some chunk \<Rightarrow> sse_loop json lines (sse_chunk_step st chunk))"

definition readSSE :: "(string \<Rightarrow> sseChunk option) \<Rightarrow> sse_stream \<Rightarrow> llm_error + string \<times> usage" where
  "readSSE json r =
     (let (lines, too_long) = scan_lines (ss_body r);
          (st, broke) = sse_loop json lines \<lparr> st_content = '''', st_usage = no_usage, st_done = False \<rparr>;
          err = (if broke then (if ss_early r then ss_err r else None)
                 else if too_long then Some LLMTooLong else ss_err r) in
      case err of
        Some e \<Rightarrow> Inl e
      | None \<Rightarrow> if \<not> st_done st then Inl errStreamNotTerminated else Inr (st_content st, st_usage st))"

subsection \<open>The client\<close>

record LLMClient =
  lc_baseURL :: string
  lc_apiKey :: string
  lc_model :: string
  lc_timeout :: int

definition envOr :: "(string \<Rightarrow> string) \<Rightarrow> string \<Rightarrow> string \<Rightarrow> string" where
  "envOr getenv name def = (if name = '''' then def else let v = getenv name in if v \<noteq> '''' then v else def)"

definition NewLLMClient :: "(string \<Rightarrow> string) \<Rightarrow> cfg_LLM \<Rightarrow> LLMClient" where
  "NewLLMClient getenv cfg =
     \<lparr> lc_baseURL = TrimRight CHR ''/'' (llm_BaseURL cfg), lc_apiKey = envOr getenv (llm_APIKeyEnv cfg) '''',
       lc_model = llm_Model cfg, lc_timeout = llm_Timeout cfg \<rparr>"

definition randID :: "string option \<Rightarrow> string" where
  "randID rnd = (case rnd of None \<Rightarrow> ''unknown'' | Some b \<Rightarrow> hex_encode b)"

text \<open>\<open>post\<close> sends a request: the URL, the headers and the body.\<close>

definition chatCompletion ::
  "(string \<Rightarrow> sseChunk option) \<Rightarrow> (string \<Rightarrow> (string \<times> string) list \<Rightarrow> chatRequest \<Rightarrow> do_result) \<Rightarrow> LLMClient
     \<Rightarrow> string option \<Rightarrow> int \<Rightarrow> chatRequest \<Rightarrow> llm_error + string \<times> chatResponse" where
  "chatCompletion json post c rnd now req =
     (let req = req\<lparr> crq_Model := lc_model c, crq_Stream := True \<rparr>;
          headers = (''Content-Type'', ''application/json'') #
            (if lc_apiKey c \<noteq> '''' then [(''Authorization'', ''Bearer '' @ lc_apiKey c)] else []) in
      case post (lc_baseURL c @ ''/chat/completions'') headers req of
        DoErr e \<Rightarrow> Inl e
      | DoResp status stream \<Rightarrow>
          if status \<ge> 500 \<or> status = 429 then Inl (LLMStatus status)
          else if status \<noteq> 200 then Inl (LLMStatus status)
          else case readSSE json stream of
            Inl e \<Rightarrow> Inl e
          | Inr (content, u) \<Rightarrow>
              Inr (content,
                \<lparr> crs_ID = ''chatcmpl-'' @ randID rnd, crs_Object = ''chat.completion'', crs_Created = now,
                  crs_Model = lc_model c,
                  crs_Choices = [\<lparr> ch_Index = 0, ch_Role = ''assistant'', ch_Content = content \<rparr>],
                  crs_Usage = u, crs_PDN = None \<rparr>))"

definition isUpstreamTimeout :: "llm_error \<Rightarrow> bool" where
  "isUpstreamTimeout err \<longleftrightarrow> err = LLMDeadline"

subsection \<open>What the loop computes\<close>

definition sse_payloads :: "string list \<Rightarrow> string list" where
  "sse_payloads lines = map (\<lambda>l. TrimSpace (TrimPrefix l ''data:'')) (filter (\<lambda>l. HasPrefix l ''data:'') lines)"

definition sse_choices :: "(string \<Rightarrow> sseChunk option) \<Rightarrow> string list \<Rightarrow> sse_choice list" where
  "sse_choices json ps = concat (map sse_Choices (List.map_filter json (takeWhile (\<lambda>p. p \<noteq> ''[DONE]'') ps)))"

definition finished :: "sse_choice \<Rightarrow> bool" where
  "finished ch \<longleftrightarrow> sc_FinishReason ch \<noteq> None \<and> sc_FinishReason ch \<noteq> Some ''''"

definition sse_usage :: "(string \<Rightarrow> sseChunk option) \<Rightarrow> string list \<Rightarrow> usage \<Rightarrow> usage" where
  "sse_usage json ps u =
     foldl (\<lambda>u c. case sse_Usage c of None \<Rightarrow> u | Some v \<Rightarrow> v) u
       (List.map_filter json (takeWhile (\<lambda>p. p \<noteq> ''[DONE]'') ps))"

lemma choices_fold:
  "foldl sse_choice_step st chs =
     st\<lparr> st_content := st_content st @ concat (map sc_Content chs), st_done := (st_done st \<or> list_ex finished chs) \<rparr>"
  by (induction chs arbitrary: st) (auto simp: sse_choice_step_def finished_def split: option.splits)

lemma chunk_step:
  "sse_chunk_step st chunk =
     \<lparr> st_content = st_content st @ concat (map sc_Content (sse_Choices chunk)),
       st_usage = (case sse_Usage chunk of None \<Rightarrow> st_usage st | Some u \<Rightarrow> u),
       st_done = (st_done st \<or> list_ex finished (sse_Choices chunk)) \<rparr>"
  by (simp add: sse_chunk_step_def choices_fold split: option.splits)

lemma sse_loop_spec:
  "sse_loop json lines st =
     (let ps = sse_payloads lines; chs = sse_choices json ps; done = List.member ps ''[DONE]'' in
      (\<lparr> st_content = st_content st @ concat (map sc_Content chs), st_usage = sse_usage json ps (st_usage st),
         st_done = (st_done st \<or> list_ex finished chs \<or> done) \<rparr>, done))"
proof (induction lines arbitrary: st)
  case Nil
  show ?case by (simp add: sse_payloads_def sse_choices_def sse_usage_def)
next
  case (Cons l ls)
  show ?case
  proof (cases "HasPrefix l ''data:''")
    case False
    then show ?thesis using Cons.IH [of st] by (simp add: sse_payloads_def)
  next
    case True
    let ?p = "TrimSpace (TrimPrefix l ''data:'')"
    have ps: "sse_payloads (l # ls) = ?p # sse_payloads ls" using True by (simp add: sse_payloads_def)
    show ?thesis
      using True Cons.IH
      by (cases "json ?p")
         (auto simp: ps Let_def sse_choices_def sse_usage_def List.map_filter_simps chunk_step)
  qed
qed

text \<open>
  C23. \<^verbatim>\<open>readSSE\<close> against its description: the payloads of the \<^verbatim>\<open>data:\<close> lines up to \<^verbatim>\<open>[DONE]\<close> are decoded, what
  does not decode is skipped, and the fragments of all choices are joined in order. The stream counts as
  complete only with \<^verbatim>\<open>[DONE]\<close> or a finish reason; a stream that is cut short, whose connection fails or
  that has an oversized line gives an error and never a partial answer.
\<close>

theorem readSSE_spec:
  "readSSE json r =
     (let (lines, too_long) = scan_lines (ss_body r);
          ps = sse_payloads lines; chs = sse_choices json ps; done = List.member ps ''[DONE]'' in
      if done \<and> ss_early r \<and> ss_err r \<noteq> None then Inl (the (ss_err r))
      else if \<not> done \<and> too_long then Inl LLMTooLong
      else if \<not> done \<and> ss_err r \<noteq> None then Inl (the (ss_err r))
      else if done \<or> list_ex finished chs then Inr (concat (map sc_Content chs), sse_usage json ps no_usage)
      else Inl errStreamNotTerminated)"
  by (cases "scan_lines (ss_body r)")
     (auto simp: readSSE_def sse_loop_spec Let_def split: option.splits)

end
