(* ===== verification/Http.thy ===== *)
theory Http
  imports Http_Auth Llm
begin

text \<open>
  The HTTP service: \<^verbatim>\<open>internal/httpapi/server.go\<close>, \<^verbatim>\<open>handlers.go\<close> and \<^verbatim>\<open>reqinfo.go\<close>. A handler is a program
  over the store (theory \<open>Engine\<close>) that ends with its response, the request information for the log and
  the metric and log events it emitted, or with \<open>None\<close> for a panic. JSON decoding is library code: what
  the decoder says of the body is an argument. Durations and stage timings are left out.
\<close>

subsection \<open>Responses\<close>

datatype body =
    ErrorBody string
  | ProcessBody string
  | MaskBody string string counts string
  | UnmaskBody string nat
  | HealthBody string string bool
  | LLMErrorBody string string
  | ChatBody chatResponse
  | PlainNotFound
  | IndexPage string

record response =
  rs_status :: nat
  rs_headers :: "(string \<times> string) list"
  rs_body :: body

definition headerContentType :: string where "headerContentType = ''Content-Type''"

definition contentTypeJSON :: string where "contentTypeJSON = ''application/json; charset=utf-8''"

definition writeJSON :: "nat \<Rightarrow> body \<Rightarrow> response" where
  "writeJSON status v = \<lparr> rs_status = status, rs_headers = [(headerContentType, contentTypeJSON)], rs_body = v \<rparr>"

definition writeError :: "nat \<Rightarrow> string \<Rightarrow> response" where
  "writeError status msg = writeJSON status (ErrorBody msg)"

text \<open>
  What \<^verbatim>\<open>Decode\<close> and the following \<^verbatim>\<open>Token\<close> say of a body: over the size limit, not JSON of the expected
  shape, or a value, with a flag for data behind it.
\<close>

datatype 'b decoded = BodyTooLarge | BodyInvalid | Body 'b bool

definition readJSON :: "'b decoded \<Rightarrow> response + 'b" where
  "readJSON d =
     (case d of
        BodyTooLarge \<Rightarrow> Inl (writeError 413 ''request body too large'')
      | BodyInvalid \<Rightarrow> Inl (writeError 400 ''invalid json'')
      | Body v trailing \<Rightarrow> if trailing then Inl (writeError 400 ''trailing data after JSON body'') else Inr v)"

subsection \<open>Request information, metrics and logs\<close>

record reqInfo =
  ri_payloadID :: string
  ri_direction :: string
  ri_textLen :: nat
  ri_chunks :: nat
  ri_found :: counts
  ri_misses :: nat
  ri_tokens :: nat

definition withReqInfo :: reqInfo where
  "withReqInfo = \<lparr> ri_payloadID = '''', ri_direction = '''', ri_textLen = 0, ri_chunks = 0, ri_found = Map.empty,
     ri_misses = 0, ri_tokens = 0 \<rparr>"

definition dirMask :: string where "dirMask = ''mask''"

definition dirUnmask :: string where "dirUnmask = ''unmask''"

definition opLoad :: string where "opLoad = ''load''"

text \<open>The request log line without its durations.\<close>

record log_line =
  ll_system :: string
  ll_route :: string
  ll_direction :: string
  ll_status :: nat
  ll_payload_id :: "string option"
  ll_text_len :: "nat option"
  ll_chunks :: "nat option"
  ll_found :: "counts option"
  ll_misses :: "nat option"
  ll_tokens :: "nat option"

datatype event =
    Rejected string
  | StoreErrors string
  | PIIFound counts
  | Tokens string nat
  | RequestsTotal string string nat
  | LogWarn string string nat
  | LogStoreError string goerror
  | LogLLMError
  | LogRequest log_line

definition EstimateTokens :: "string \<Rightarrow> nat" where
  "EstimateTokens text = (let n = RuneCount text in if n = 0 then 0 else n div 3 + 1)"

definition systemLabel :: "string \<Rightarrow> authResult \<Rightarrow> string" where
  "systemLabel route auth =
     (case ar_system auth of
        Some sys \<Rightarrow> sys_ID sys
      | None \<Rightarrow> if route = routeHealthz \<or> route = routeReadyz then ''public'' else ''unknown'')"

definition unless_zero :: "nat \<Rightarrow> nat option" where
  "unless_zero n = (if 0 < n then Some n else None)"

definition request_line :: "(string \<Rightarrow> string) \<Rightarrow> string \<Rightarrow> nat \<Rightarrow> authResult \<Rightarrow> reqInfo \<Rightarrow> log_line" where
  "request_line hash route status auth info =
     \<lparr> ll_system = systemLabel route auth, ll_route = route, ll_direction = ri_direction info, ll_status = status,
       ll_payload_id = (if ri_payloadID info \<noteq> '''' then Some (hash (ri_payloadID info)) else None),
       ll_text_len = unless_zero (ri_textLen info), ll_chunks = unless_zero (ri_chunks info),
       ll_found = (if dom (ri_found info) \<noteq> {} then Some (ri_found info) else None),
       ll_misses = unless_zero (ri_misses info), ll_tokens = unless_zero (ri_tokens info) \<rparr>"

definition logRequest :: "(string \<Rightarrow> string) \<Rightarrow> string \<Rightarrow> nat \<Rightarrow> authResult \<Rightarrow> reqInfo \<Rightarrow> event list" where
  "logRequest hash route status auth info =
     [RequestsTotal route (systemLabel route auth) status] @
     (if 0 < ri_tokens info then [Tokens route (ri_tokens info)] else []) @
     [LogRequest (request_line hash route status auth info)]"

subsection \<open>Handlers\<close>

record hres =
  hr_resp :: response
  hr_info :: reqInfo
  hr_events :: "event list"

abbreviation answer :: "response \<Rightarrow> reqInfo \<Rightarrow> event list \<Rightarrow> hres" where
  "answer r info ev \<equiv> \<lparr> hr_resp = r, hr_info = info, hr_events = ev \<rparr>"

abbreviation reply :: "response \<Rightarrow> hres option prog" where
  "reply r \<equiv> Return (Some (answer r withReqInfo []))"

text \<open>The parts of \<^verbatim>\<open>Server\<close> that handlers read, with the environment variables.\<close>

record Server =
  sv_cfg :: Config
  sv_engine :: Engine
  sv_HashID :: "string \<Rightarrow> string"
  sv_getenv :: "string \<Rightarrow> string"

text \<open>What the environment gives one request besides the store: the clock, random bytes, a store ping.\<close>

record http_call =
  hc_now :: int
  hc_random :: "string option"
  hc_ping :: "goerror option"

definition isStoreError :: "goerror \<Rightarrow> bool" where
  "isStoreError err \<longleftrightarrow> err \<noteq> ErrNotFound"

definition storeUnavailable :: "string \<Rightarrow> goerror \<Rightarrow> reqInfo \<Rightarrow> hres" where
  "storeUnavailable op err info =
     answer (writeError 503 ''store unavailable'') info [StoreErrors op, LogStoreError op err]"

definition maxPayloadIDBytes :: nat where "maxPayloadIDBytes = 256"

definition validPayloadID :: "string \<Rightarrow> bool" where
  "validPayloadID pid \<longleftrightarrow> length pid \<le> maxPayloadIDBytes"

record processRequest =
  pq_Payload :: "string option"
  pq_PayloadID :: string

definition handleProcessError :: "goerror \<Rightarrow> reqInfo \<Rightarrow> hres" where
  "handleProcessError err info =
     (if isStoreError err then storeUnavailable opLoad err info
      else answer (writeError 500 ''processing failed'') info [])"

definition recordProcessInfo :: "reqInfo \<Rightarrow> ProcessResult \<Rightarrow> reqInfo" where
  "recordProcessInfo info res =
     (if prs_Unmasked res then info\<lparr> ri_direction := dirUnmask, ri_misses := prs_Misses res \<rparr>
      else info\<lparr> ri_direction := dirMask,
                 ri_found := (case prs_Found res of None \<Rightarrow> Map.empty | Some f \<Rightarrow> f) \<rparr>)"

definition finish_process :: "Server \<Rightarrow> string \<Rightarrow> reqInfo \<Rightarrow> ProcessResult outcome \<Rightarrow> hres option" where
  "finish_process sv pid info out =
     (case out of
        Panic \<Rightarrow> None
      | Err err \<Rightarrow> Some (handleProcessError err info)
      | Ok res \<Rightarrow>
          Some (answer (writeJSON 200 (ProcessBody (prs_Result res))) (recordProcessInfo info res)
            ((if prs_Unmasked res \<and> 0 < prs_Misses res
              then [LogWarn ''process unmask with misses'' (sv_HashID sv pid) (prs_Misses res)] else []) @
             (case prs_Found res of None \<Rightarrow> [] | Some f \<Rightarrow> [PIIFound f]))))"

definition handleProcess ::
  "runtime \<Rightarrow> primitives \<Rightarrow> Server \<Rightarrow> http_call \<Rightarrow> System option \<Rightarrow> (string \<Rightarrow> string) \<Rightarrow> processRequest decoded
     \<Rightarrow> hres option prog" where
  "handleProcess rt pr sv c ctx header d =
     (case readJSON d of
        Inl r \<Rightarrow> reply r
      | Inr req \<Rightarrow>
          (case pq_Payload req of
             None \<Rightarrow> reply (writeError 400 ''payload is required'')
           | Some payload \<Rightarrow>
               if pq_PayloadID req = '''' then reply (writeError 400 ''payload_id is required'')
               else if \<not> validPayloadID (pq_PayloadID req) then reply (writeError 400 ''payload_id too long'')
               else
                 let info = withReqInfo\<lparr> ri_payloadID := pq_PayloadID req, ri_textLen := length payload,
                              ri_tokens := EstimateTokens payload \<rparr>;
                     opt = optionsFor (sv_cfg sv) (systemFrom ctx (sv_cfg sv) header) in
                 map_prog (finish_process sv (pq_PayloadID req) info)
                   (Process rt pr (sv_engine sv) (hc_now c) (pq_PayloadID req) payload opt)))"

text \<open>\<^verbatim>\<open>newUUID\<close>: 16 random bytes with the version and variant bits set, in the 8-4-4-4-12 form.\<close>

definition set_bits :: "nat \<Rightarrow> nat \<Rightarrow> char \<Rightarrow> char" where
  "set_bits keep bits b = char_of (or (and (of_char b) keep) bits :: nat)"

definition uuid_of :: "string \<Rightarrow> string" where
  "uuid_of raw =
     (let b = raw[6 := set_bits 0x0f 0x40 (raw ! 6)];
          b = b[8 := set_bits 0x3f 0x80 (b ! 8)];
          part = (\<lambda>i j. hex_encode (take (j - i) (drop i b))) in
      part 0 4 @ ''-'' @ part 4 6 @ ''-'' @ part 6 8 @ ''-'' @ part 8 10 @ ''-'' @ part 10 16)"

definition newUUID :: "string option \<Rightarrow> string option" where
  "newUUID rnd = map_option uuid_of rnd"

record maskRequest =
  mq_Text :: string
  mq_ID :: string
  mq_Strategy :: string

definition resolveMaskID :: "string option \<Rightarrow> string \<Rightarrow> response + string" where
  "resolveMaskID rnd pid =
     (if pid \<noteq> '''' then Inr pid
      else case newUUID rnd of
        None \<Rightarrow> Inl (writeError 500 ''id generation failed'')
      | Some generated \<Rightarrow> Inr generated)"

definition writeStrategyError :: "nat \<Rightarrow> response" where
  "writeStrategyError status =
     (if status = 403 then writeError status ''strategy override not allowed''
      else writeError status ''unknown strategy'')"

definition handleMaskError :: "goerror \<Rightarrow> hres" where
  "handleMaskError err =
     (if err = ErrForeignRecord then answer (writeError 409 ''id already in use'') withReqInfo []
      else if isStoreError err then storeUnavailable ''save'' err withReqInfo
      else answer (writeError 500 ''masking failed'') withReqInfo [])"

definition finish_mask :: "string \<Rightarrow> string \<Rightarrow> string \<Rightarrow> MaskResult outcome \<Rightarrow> hres option" where
  "finish_mask pid tx strategy out =
     (case out of
        Panic \<Rightarrow> None
      | Err err \<Rightarrow> Some (handleMaskError err)
      | Ok mres \<Rightarrow>
          Some (answer (writeJSON 200 (MaskBody pid (mr_Masked mres) (mr_Found mres) strategy))
            (withReqInfo\<lparr> ri_payloadID := pid, ri_direction := dirMask, ri_textLen := length tx,
               ri_found := mr_Found mres, ri_tokens := EstimateTokens tx \<rparr>)
            [PIIFound (mr_Found mres)]))"

definition handleMask ::
  "runtime \<Rightarrow> primitives \<Rightarrow> Server \<Rightarrow> http_call \<Rightarrow> System option \<Rightarrow> (string \<Rightarrow> string) \<Rightarrow> maskRequest decoded
     \<Rightarrow> hres option prog" where
  "handleMask rt pr sv c ctx header d =
     (case readJSON d of
        Inl r \<Rightarrow> reply r
      | Inr req \<Rightarrow>
          if mq_Text req = '''' then reply (writeError 400 ''text is required'')
          else if \<not> validPayloadID (mq_ID req) then reply (writeError 400 ''id too long'')
          else case resolveMaskID (hc_random c) (mq_ID req) of
            Inl r \<Rightarrow> reply r
          | Inr pid \<Rightarrow>
              let sys = systemFrom ctx (sv_cfg sv) header;
                  (strategy, status) = strategyOverride sys (mq_Strategy req) in
              if status \<noteq> 0 then reply (writeStrategyError status)
              else map_prog (finish_mask pid (mq_Text req) strategy)
                (MaskEx rt pr (sv_engine sv) (hc_now c) pid (mq_Text req)
                   ((optionsFor (sv_cfg sv) sys)\<lparr> opt_Strategy := strategy \<rparr>)))"

record unmaskRequest =
  uq_ID :: string
  uq_Text :: string

definition finish_unmask :: "string \<Rightarrow> string \<Rightarrow> UnmaskResult outcome \<Rightarrow> hres option" where
  "finish_unmask pid tx out =
     (case out of
        Panic \<Rightarrow> None
      | Err err \<Rightarrow>
          Some (if isStoreError err then storeUnavailable opLoad err withReqInfo
                else answer (writeError 404 ''record not found'') withReqInfo [])
      | Ok ures \<Rightarrow>
          Some (answer (writeJSON 200 (UnmaskBody (ur_Restored ures) (ur_Misses ures)))
            (withReqInfo\<lparr> ri_payloadID := pid, ri_tokens := EstimateTokens tx, ri_direction := dirUnmask,
               ri_textLen := length tx, ri_misses := ur_Misses ures \<rparr>) []))"

definition handleUnmask ::
  "runtime \<Rightarrow> Server \<Rightarrow> System option \<Rightarrow> (string \<Rightarrow> string) \<Rightarrow> unmaskRequest decoded \<Rightarrow> hres option prog" where
  "handleUnmask rt sv ctx header d =
     (let sys = systemFrom ctx (sv_cfg sv) header in
      if \<not> sys_Unmask sys then reply (writeError 403 ''unmask not allowed for this system'')
      else case readJSON d of
        Inl r \<Rightarrow> reply r
      | Inr req \<Rightarrow>
          if uq_ID req = '''' \<or> uq_Text req = '''' then reply (writeError 400 ''id and text are required'')
          else if \<not> validPayloadID (uq_ID req) then reply (writeError 400 ''id too long'')
          else map_prog (finish_unmask (uq_ID req) (uq_Text req))
            (UnmaskEx rt (uq_ID req) (uq_Text req) (optionsFor (sv_cfg sv) sys)))"

definition handleHealthz :: "Server \<Rightarrow> hres option prog" where
  "handleHealthz sv = reply (writeJSON 200 (HealthBody ''ok'' (sto_Kind (cfg_store (sv_cfg sv))) True))"

definition handleReadyz :: "Server \<Rightarrow> http_call \<Rightarrow> hres option prog" where
  "handleReadyz sv c =
     (case hc_ping c of
        Some err \<Rightarrow>
          Return (Some (answer (writeJSON 503 (HealthBody ''unavailable'' (sto_Kind (cfg_store (sv_cfg sv))) False))
            withReqInfo [StoreErrors ''ping'']))
      | None \<Rightarrow> reply (writeJSON 200 (HealthBody ''ok'' (sto_Kind (cfg_store (sv_cfg sv))) True)))"

text \<open>The demo page; \<open>page\<close> is the embedded file.\<close>

definition handleIndex :: "string option \<Rightarrow> string \<Rightarrow> response" where
  "handleIndex page path =
     (if path \<noteq> ''/'' then \<lparr> rs_status = 404, rs_headers = [], rs_body = PlainNotFound \<rparr>
      else case page of
        None \<Rightarrow> writeError 500 ''demo page unavailable''
      | Some html \<Rightarrow>
          \<lparr> rs_status = 200, rs_headers = [(headerContentType, ''text/html; charset=utf-8'')], rs_body = IndexPage html \<rparr>)"

subsection \<open>The middleware\<close>

text \<open>
  \<^verbatim>\<open>wrap\<close> after \<^verbatim>\<open>acquireSlot\<close> has answered: a request without a slot is told to retry, a request that is
  not accepted is turned away, and every request but a panicking one is counted and logged once.
\<close>

definition too_many :: response where
  "too_many =
     (let r = writeError 429 ''too many requests'' in r\<lparr> rs_headers := (''Retry-After'', ''1'') # rs_headers r \<rparr>)"

definition logged :: "Server \<Rightarrow> string \<Rightarrow> authResult \<Rightarrow> hres \<Rightarrow> hres" where
  "logged sv route auth r =
     r\<lparr> hr_events := hr_events r @ logRequest (sv_HashID sv) route (rs_status (hr_resp r)) auth (hr_info r) \<rparr>"

definition no_auth :: authResult where
  "no_auth = \<lparr> ar_system = None, ar_status = 0 \<rparr>"

definition wrap ::
  "Server \<Rightarrow> string \<Rightarrow> bool \<Rightarrow> (string \<Rightarrow> string) \<Rightarrow> (System option \<Rightarrow> hres option prog) \<Rightarrow> hres option prog" where
  "wrap sv route acquired header h =
     (if \<not> acquired
      then Return (Some (logged sv route no_auth (answer too_many withReqInfo [Rejected ''inflight''])))
      else
        let public = (route = routeHealthz \<or> route = routeReadyz);
            auth = (if public then no_auth else authenticate (sv_cfg sv) (sv_getenv sv) header route) in
        if \<not> public \<and> ar_status auth \<noteq> 0
        then Return (Some (logged sv route auth
               (answer (writeError (ar_status auth) ''system not allowed'') withReqInfo [Rejected ''auth''])))
        else map_prog (map_option (logged sv route auth)) (h (ar_system auth)))"

text \<open>\<^verbatim>\<open>applyBodyLimit\<close>: the limit passed to \<^verbatim>\<open>MaxBytesReader\<close>, if any.\<close>

definition applyBodyLimit :: "Config \<Rightarrow> int option" where
  "applyBodyLimit cfg = (if 0 < srv_MaxBodyBytes (cfg_server cfg) then Some (srv_MaxBodyBytes (cfg_server cfg)) else None)"

text \<open>The routes of \<^verbatim>\<open>Handler\<close>: a pattern with \<^verbatim>\<open>GET\<close> also takes \<^verbatim>\<open>HEAD\<close>, and \<^verbatim>\<open>GET /\<close> takes every other path.\<close>

datatype target = Api string | MetricsHandler | Index | MethodNotAllowed

definition Handler :: "Config \<Rightarrow> string \<Rightarrow> string \<Rightarrow> target" where
  "Handler cfg meth path =
     (let get = (meth = ''GET'' \<or> meth = ''HEAD'') in
      if meth = ''POST'' \<and> path = ''/process'' then Api routeProcess
      else if meth = ''POST'' \<and> path = ''/mask'' then Api routeMask
      else if meth = ''POST'' \<and> path = ''/unmask'' then Api routeUnmask
      else if meth = ''POST'' \<and> path = ''/v1/chat/completions'' then Api routeChat
      else if get \<and> path = ''/healthz'' then Api routeHealthz
      else if get \<and> path = ''/readyz'' then Api routeReadyz
      else if get \<and> path = ''/metrics'' \<and> srv_MetricsAddr (cfg_server cfg) = '''' then MetricsHandler
      else if get then Index
      else MethodNotAllowed)"

end
