(* ===== verification/Chat.thy ===== *)
theory Chat
  imports Http Mask_Token
begin

text \<open>
  The chat proxy (\<^verbatim>\<open>internal/httpapi/chat.go\<close>): mask the messages of a conversation as one document, ask
  the upstream model, unmask its answer.
\<close>

subsection \<open>Sequencing programs\<close>

primrec bind_prog :: "'a prog \<Rightarrow> ('a \<Rightarrow> 'b prog) \<Rightarrow> 'b prog" where
  "bind_prog (Return a) f = f a"
| "bind_prog (Load_then pid k) f = Load_then pid (\<lambda>r. bind_prog (k r) f)"
| "bind_prog (Save_then pid rcd ttl k) f = Save_then pid rcd ttl (\<lambda>r. bind_prog (k r) f)"
| "bind_prog (SaveNew_then pid rcd ttl k) f = SaveNew_then pid rcd ttl (\<lambda>r. bind_prog (k r) f)"

subsection \<open>Requests\<close>

record chatRequestIn =
  ci_Model :: string
  ci_Messages :: "chatMessage list"
  ci_Stream :: bool
  ci_Strategy :: string

definition allowedRoles :: "string list" where
  "allowedRoles = [''system'', ''user'', ''assistant'', ''tool'']"

definition messagesHaveValidRoles :: "chatMessage list \<Rightarrow> bool" where
  "messagesHaveValidRoles messages \<longleftrightarrow> list_all (\<lambda>m. cm_Role m \<in> set allowedRoles) messages"

text \<open>The upstream: chunk decoding, the exchange, the client and the random bytes of the answer id.\<close>

record upstream =
  up_json :: "string \<Rightarrow> sseChunk option"
  up_post :: "string \<Rightarrow> (string \<times> string) list \<Rightarrow> chatRequest \<Rightarrow> do_result"
  up_client :: LLMClient
  up_random :: "string option"

definition estimateTokens :: "chatMessage list \<Rightarrow> nat" where
  "estimateTokens messages = sum_list (map (\<lambda>m. EstimateTokens (cm_Content m)) messages)"

definition countFound :: "counts \<Rightarrow> nat" where
  "countFound f = (\<Sum>c \<in> dom f. the (f c))"

fun lastUserContent :: "chatMessage list \<Rightarrow> string" where
  "lastUserContent [] = ''''"
| "lastUserContent (m # ms) =
     (if list_ex (\<lambda>x. cm_Role x = ''user'') ms then lastUserContent ms
      else if cm_Role m = ''user'' then cm_Content m else '''')"

subsection \<open>The handler\<close>

definition handleLLMError :: "llm_error \<Rightarrow> reqInfo \<Rightarrow> event list \<Rightarrow> hres" where
  "handleLLMError err info ev =
     (if isUpstreamTimeout err
      then answer (writeJSON 504 (LLMErrorBody ''llm timeout'' ''upstream model gateway did not respond in time'')) info (ev @ [LogLLMError])
      else answer (writeJSON 502 (LLMErrorBody ''llm unavailable'' ''upstream model gateway error'')) info (ev @ [LogLLMError]))"

text \<open>\<^verbatim>\<open>maskMessages\<close>: an answer that ends the request, or the id, the masked messages, the counts and the length.\<close>

definition masked_messages :: "chatMessage list \<Rightarrow> string list \<Rightarrow> chatMessage list" where
  "masked_messages messages masked =
     map (\<lambda>(m, t). \<lparr> cm_Role = cm_Role m, cm_Content = t \<rparr>) (zip messages masked)"

definition finish_maskMessages ::
  "string \<Rightarrow> chatMessage list \<Rightarrow> MaskBatchResult outcome \<Rightarrow> hres option + string \<times> chatMessage list \<times> counts \<times> nat" where
  "finish_maskMessages pid messages out =
     (case out of
        Panic \<Rightarrow> Inl None
      | Err err \<Rightarrow>
          Inl (Some (if isStoreError err then storeUnavailable ''save'' err withReqInfo
            else if err = ErrForeignRecord then answer (writeError 409 ''id already in use'') withReqInfo []
            else answer (writeError 500 ''masking failed'') withReqInfo []))
      | Ok mbres \<Rightarrow>
          Inr (pid, masked_messages messages (mb_Masked mbres), mb_Found mbres,
               sum_list (map (\<lambda>m. length (cm_Content m)) messages)))"

definition maskMessages ::
  "runtime \<Rightarrow> primitives \<Rightarrow> Server \<Rightarrow> http_call \<Rightarrow> chatRequestIn \<Rightarrow> Options
     \<Rightarrow> (hres option + string \<times> chatMessage list \<times> counts \<times> nat) prog" where
  "maskMessages rt pr sv c req opt =
     (case newUUID (hc_random c) of
        None \<Rightarrow> Return (Inl (Some (answer (writeError 500 ''id generation failed'') withReqInfo [])))
      | Some pid \<Rightarrow>
          map_prog (finish_maskMessages pid (ci_Messages req))
            (MaskBatchEx rt pr (sv_engine sv) (hc_now c) pid (map cm_Content (ci_Messages req)) opt))"

text \<open>\<^verbatim>\<open>unmaskAnswer\<close>: an answer that ends the request, or the text for the client, the information and the events.\<close>

definition finish_unmaskAnswer ::
  "string \<Rightarrow> string \<Rightarrow> reqInfo \<Rightarrow> event list \<Rightarrow> UnmaskResult outcome \<Rightarrow> hres option + string \<times> reqInfo \<times> event list" where
  "finish_unmaskAnswer pid content info ev out =
     (case out of
        Panic \<Rightarrow> Inl None
      | Err err \<Rightarrow>
          if isStoreError err
          then Inl (Some (let r = storeUnavailable ''load'' err info in r\<lparr> hr_events := ev @ hr_events r \<rparr>))
          else Inr (content, info, ev)
      | Ok ures \<Rightarrow>
          Inr (ur_Restored ures, info\<lparr> ri_misses := ur_Misses ures \<rparr>,
               ev @ (if 0 < ur_Misses ures then [LogWarn ''chat unmask with misses'' pid (ur_Misses ures)] else [])))"

definition unmaskAnswer ::
  "runtime \<Rightarrow> Config \<Rightarrow> System \<Rightarrow> string \<Rightarrow> string \<Rightarrow> reqInfo \<Rightarrow> event list
     \<Rightarrow> (hres option + string \<times> reqInfo \<times> event list) prog" where
  "unmaskAnswer rt cfg sys pid content info ev =
     (if \<not> sys_Unmask sys then Return (Inr (content, info, ev))
      else map_prog (finish_unmaskAnswer pid content info ev) (UnmaskEx rt pid content (optionsFor cfg sys)))"

definition chat_answer ::
  "System \<Rightarrow> chatMessage list \<Rightarrow> counts \<Rightarrow> string \<Rightarrow> chatResponse \<Rightarrow> hres option + string \<times> reqInfo \<times> event list
     \<Rightarrow> hres option" where
  "chat_answer sys masked found content resp ua =
     (case ua of
        Inl r \<Rightarrow> r
      | Inr (ans, info, ev) \<Rightarrow>
          (case crs_Choices resp of
             [] \<Rightarrow> None
           | ch # chs \<Rightarrow>
               let resp' = resp\<lparr> crs_Choices := ch\<lparr> ch_Content := ans \<rparr> # chs,
                     crs_PDN := Some \<lparr> MaskedRequest = lastUserContent masked, RawAnswer = content,
                       MaskedCount = countFound found, Unmasked = sys_Unmask sys \<rparr> \<rparr>;
                   r = writeJSON 200 (ChatBody resp') in
               Some (answer (r\<lparr> rs_headers := (''X-PDN-Masked-Count'', decimal (countFound found)) # rs_headers r \<rparr>) info
                 (ev @ (if 0 < TotalTokens (crs_Usage resp) then [Tokens ''proxy'' (nat (TotalTokens (crs_Usage resp)))]
                        else [])))))"

definition chat_ask ::
  "runtime \<Rightarrow> Server \<Rightarrow> upstream \<Rightarrow> http_call \<Rightarrow> System \<Rightarrow> chatRequestIn
     \<Rightarrow> hres option + string \<times> chatMessage list \<times> counts \<times> nat \<Rightarrow> hres option prog" where
  "chat_ask rt sv up c sys req mm =
     (case mm of
        Inl r \<Rightarrow> Return r
      | Inr (pid, masked, found, textLen) \<Rightarrow>
          let info = withReqInfo\<lparr> ri_payloadID := pid, ri_direction := ''proxy'', ri_textLen := textLen, ri_found := found \<rparr>;
              ev = [PIIFound found, Tokens dirMask (estimateTokens masked)] in
          case chatCompletion (up_json up) (up_post up) (up_client up) (up_random up) (hc_now c)
                 \<lparr> crq_Model = ci_Model req, crq_Messages = masked, crq_Stream = ci_Stream req \<rparr> of
            Inl err \<Rightarrow> Return (Some (handleLLMError err info ev))
          | Inr (content, resp) \<Rightarrow>
              map_prog (chat_answer sys masked found content resp)
                (unmaskAnswer rt (sv_cfg sv) sys pid content info ev))"

definition handleChat ::
  "runtime \<Rightarrow> primitives \<Rightarrow> Server \<Rightarrow> upstream \<Rightarrow> http_call \<Rightarrow> System option \<Rightarrow> (string \<Rightarrow> string) \<Rightarrow> chatRequestIn decoded
     \<Rightarrow> hres option prog" where
  "handleChat rt pr sv up c ctx header d =
     (let sys = systemFrom ctx (sv_cfg sv) header in
      case readJSON d of
        Inl r \<Rightarrow> reply r
      | Inr req \<Rightarrow>
          if ci_Messages req = [] then reply (writeError 400 ''messages are required'')
          else if \<not> messagesHaveValidRoles (ci_Messages req) then reply (writeError 400 ''unknown message role'')
          else
            let (strategy, status) = strategyOverride sys (ci_Strategy req) in
            if status \<noteq> 0 then reply (writeStrategyError status)
            else bind_prog (maskMessages rt pr sv c req ((optionsFor (sv_cfg sv) sys)\<lparr> opt_Strategy := strategy \<rparr>))
                   (chat_ask rt sv up c sys req))"

lemma lastUserContent_last:
  "lastUserContent ms = (case filter (\<lambda>m. cm_Role m = ''user'') ms of [] \<Rightarrow> '''' | us \<Rightarrow> cm_Content (last us))"
proof (induction ms)
  case (Cons m ms)
  have "list_ex (\<lambda>x. cm_Role x = ''user'') ms \<longleftrightarrow> filter (\<lambda>m. cm_Role m = ''user'') ms \<noteq> []"
    by (induction ms) auto
  with Cons show ?case by (auto split: list.splits)
qed simp

end
