(* ===== verification/Engine_Props.thy ===== *)
theory Engine_Props
  imports Engine Mask_Token
begin

text \<open>
  The guarantees of the engine on the two stores: what is masked can be unmasked, records of other
  systems are protected, unmasking can be forbidden, retries are idempotent, and how concurrent
  requests for one id behave.
\<close>

definition mem_ops :: "primitives \<Rightarrow> codec \<Rightarrow> Memory store_ops" where
  "mem_ops pr cd = mk_ops (mem_Save pr cd) (mem_SaveNew pr cd) (mem_Load pr cd)"

definition rd_ops :: "primitives \<Rightarrow> codec \<Rightarrow> 's redis_client \<Rightarrow> 's Redis store_ops" where
  "rd_ops pr cd rc = mk_ops (rd_Save pr cd rc) (rd_SaveNew pr cd rc) (rd_Load pr cd rc)"

subsection \<open>Batches through the store\<close>

definition utf8_batch :: "runtime \<Rightarrow> Engine \<Rightarrow> string list \<Rightarrow> Options \<Rightarrow> int \<Rightarrow> bool" where
  "utf8_batch rt e texts opt now \<longleftrightarrow>
     valid_utf8 (opt_SystemID opt) \<and> 0 \<le> now \<and> now < 315537897600000000000 \<and>
     (\<forall>s masked reps found. resolveStrategy e (opt_Strategy opt) = Some s \<longrightarrow>
        batch_loop rt e opt s texts (Some NewDocState) 0 [] [] Map.empty = Some (masked, reps, found) \<longrightarrow>
        valid_utf8 (st_Name s) \<and> valid_utf8 (joinMasked masked) \<and> (\<forall>r \<in> set reps. rep_ok r))"

lemma MaskBatchEx_commands:
  assumes "run_prog so (MaskBatchEx rt pr e now pid texts opt) cs 0 s = (s', Ok mres)"
    and "so_Load so s (cs 0) pid = (s1, res)"
  obtains strat reps where "resolveStrategy e (opt_Strategy opt) = Some strat"
    and "batch_loop rt e opt strat texts (Some NewDocState) 0 [] [] Map.empty = Some (mb_Masked mres, reps, mb_Found mres)"
    and "so_Save so s1 (cs 1) pid
      \<lparr> rec_Replacements = reps, rec_Strategy = st_Name strat, rec_CreatedAt = now,
        rec_MaskedText = joinMasked (mb_Masked mres), rec_Hash = hashText pr (joinTexts texts),
        rec_SystemID = opt_SystemID opt \<rparr> (opt_TTL opt) = (s', None)"
  using assms
  by (auto simp: MaskBatchEx_def split: if_splits option.splits prod.splits)

context record_store
begin

lemma MaskBatch_visible:
  assumes rt: "go_runtime rt" and e: "list_all (engine_ok rt e) texts" and u: "utf8_batch rt e texts opt now"
    and sys: "opt_SystemID opt \<noteq> ''''"
    and run: "run_prog (mk_ops save saveNew load) (MaskBatchEx rt pr e now pid texts opt) cs 0 s = (s', Ok mres)"
    and ttl: "0 \<le> opt_TTL opt" and c1: "call_ok (cs 1)" and mono: "cl_now (cs 1) \<le> t"
    and lv: "opt_TTL opt = 0 \<or> t < cl_now (cs 1) + opt_TTL opt"
  obtains rcd where "view s' t pid = Inr (Some rcd)" and "ownsRecord rcd opt"
    and "Restore rt (joinMasked (mb_Masked mres)) (rec_Replacements rcd) = Some (joinTexts texts, 0)"
proof -
  obtain s1 res where l: "load s (cs 0) pid = (s1, res)" by fastforce
  obtain strat reps where st: "resolveStrategy e (opt_Strategy opt) = Some strat"
    and b: "batch_loop rt e opt strat texts (Some NewDocState) 0 [] [] Map.empty = Some (mb_Masked mres, reps, mb_Found mres)"
    and sv: "save s1 (cs 1) pid
      \<lparr> rec_Replacements = reps, rec_Strategy = st_Name strat, rec_CreatedAt = now,
        rec_MaskedText = joinMasked (mb_Masked mres), rec_Hash = hashText pr (joinTexts texts),
        rec_SystemID = opt_SystemID opt \<rparr> (opt_TTL opt) = (s', None)" (is "save _ _ _ ?rcd _ = _")
    using MaskBatchEx_commands [OF run] l by (metis mk_ops_simps(1,3))
  have "batch_inv [] [] []" by (simp add: batch_inv_def joinMasked_def joinTexts_def)
  then have "batch_inv texts (mb_Masked mres) reps"
    using batch_loop_inv [OF rt st e, of "[]" "[]" "[]" 0 opt "Some NewDocState" Map.empty] b
    by (simp add: joinMasked_def)
  then have r: "Restore rt (joinMasked (mb_Masked mres)) reps = Some (joinTexts texts, 0)"
    by (rule batch_inv_restores [OF rt])
  have "record_ok ?rcd"
    using u st b by (auto simp: utf8_batch_def record_ok_def hashText_def hex_encode_valid)
  then have "view s' t pid = Inr (Some ?rcd)"
    using save_writes [OF sv _ c1 ttl mono, of pid] live_fresh [OF ttl mono lv] by simp
  moreover have "ownsRecord ?rcd opt" using sys by (simp add: ownsRecord_def LegacyOwner_def)
  ultimately show thesis using that [of ?rcd] r by simp
qed

end

subsection \<open>Masking is reversible through the store\<close>

lemma mem_view_load: "mem_view pr cd m (cl_now d) pid = Inr (Some r) \<Longrightarrow>
    \<exists>m'. mem_Load pr cd m d pid = (m', Inr (Some r))"
  using mem_Load_view [of pr cd m d pid] by (metis prod.collapse)

text \<open>
  C3. What the engine masks it can unmask. After a successful \<^verbatim>\<open>MaskEx\<close> of a text under an id (new, or
  holding a record of another text), \<^verbatim>\<open>UnmaskEx\<close> of the masked text by the same system, before the
  time to live has passed, returns the original text with no miss: through detection, replacement,
  JSON, encryption and the in-memory store.
\<close>

theorem mask_unmask_memory:
  assumes "store_env pr cd" and "go_runtime rt" and "engine_ok rt e tx" and "utf8_masking rt e tx opt now"
    and "opt_SystemID opt \<noteq> ''''"
    and "run_prog (mem_ops pr cd) (MaskEx rt pr e now pid tx opt) cs 0 m = (m', Ok mres)"
    and "\<And>rcd. mem_view pr cd m (cl_now (cs 0)) pid = Inr (Some rcd) \<Longrightarrow> rec_Hash rcd \<noteq> hashText pr tx"
    and "0 \<le> opt_TTL opt" and "call_ok (cs 1)" and "cl_now (cs 0) \<le> cl_now (cs 1)"
    and "cl_now (cs 1) \<le> cl_now (ds 0)"
    and "opt_TTL opt = 0 \<or> cl_now (ds 0) < cl_now (cs 1) + opt_TTL opt"
  shows "\<exists>m''. run_prog (mem_ops pr cd) (UnmaskEx rt pid (mr_Masked mres) opt) ds 0 m' =
    (m'', Ok \<lparr> ur_Restored = tx, ur_Misses = 0 \<rparr>)"
proof -
  obtain rcd where v: "mem_view pr cd m' (cl_now (ds 0)) pid = Inr (Some rcd)" and o1: "ownsRecord rcd opt"
    and r: "Restore rt (mr_Masked mres) (rec_Replacements rcd) = Some (tx, 0)"
    using record_store.Mask_visible [OF store_env.mem_store [OF assms(1)] assms(2-5)
        assms(6) [unfolded mem_ops_def] assms(7-12)] by blast
  obtain m'' where "mem_Load pr cd m' (ds 0) pid = (m'', Inr (Some rcd))" using mem_view_load [OF v] by blast
  then show ?thesis
    using UnmaskEx_owned [of "mem_ops pr cd" m' ds pid m'' rcd opt rt _ tx 0] o1 r by (auto simp: mem_ops_def)
qed

text \<open>
  C36. The same for Redis, when the commands reach the server, and for a batch of messages, which is one
  document: unmasking the joined masked messages returns the joined messages.
\<close>

theorem mask_unmask_redis_batch:
  assumes "redis_store pr cd rc rget rlive" and "go_runtime rt" and "list_all (engine_ok rt e) texts"
    and "utf8_batch rt e texts opt now" and "opt_SystemID opt \<noteq> ''''"
    and "run_prog (rd_ops pr cd rc) (MaskBatchEx rt pr e now pid texts opt) cs 0 s = (s', Ok mres)"
    and "0 \<le> opt_TTL opt" and "call_ok (cs 1)" and "cl_now (cs 1) \<le> cl_now (ds 0)"
    and "opt_TTL opt = 0 \<or> cl_now (ds 0) < cl_now (cs 1) + opt_TTL opt"
    and "rd_Load pr cd rc s' (ds 0) pid = (s'', Inr ans)"
  shows "run_prog (rd_ops pr cd rc) (UnmaskEx rt pid (joinMasked (mb_Masked mres)) opt) ds 0 s' =
    (s'', Ok \<lparr> ur_Restored = joinTexts texts, ur_Misses = 0 \<rparr>)"
proof -
  note st = redis_store.rd_store [OF assms(1)]
  obtain rcd where v: "rd_view pr cd rget s' (cl_now (ds 0)) pid = Inr (Some rcd)" and o1: "ownsRecord rcd opt"
    and r: "Restore rt (joinMasked (mb_Masked mres)) (rec_Replacements rcd) = Some (joinTexts texts, 0)"
    using record_store.MaskBatch_visible [OF st assms(2-5) assms(6) [unfolded rd_ops_def] assms(7-10)] by blast
  have "ans = Some rcd" using record_store.load_reads [OF st assms(11)] v by simp
  then show ?thesis
    using UnmaskEx_owned [of "rd_ops pr cd rc" s' ds pid s'' rcd opt rt _ "joinTexts texts" 0] o1 r assms(11)
    by (simp add: rd_ops_def)
qed

subsection \<open>Ownership\<close>

text \<open>
  C4. Records of other systems are protected, on any store. When the record under an id belongs to
  another system, no operation changes the store (beyond what the load itself does) and none reveals
  anything of the record: \<^verbatim>\<open>UnmaskEx\<close> answers as for a missing id, \<^verbatim>\<open>Process\<close> as the masking of the
  payload alone, \<^verbatim>\<open>MaskEx\<close> and \<^verbatim>\<open>MaskBatchEx\<close> refuse.
\<close>

theorem foreign_record_protected:
  assumes "so_Load so s (cs 0) pid = (s1, Inr (Some rcd))" and "\<not> ownsRecord rcd opt"
  shows "run_prog so (UnmaskEx rt pid tx opt) cs 0 s = (s1, Err ErrNotFound) \<and>
    run_prog so (Process rt pr e now pid tx opt) cs 0 s = (s1, maskFreshResult rt e tx opt) \<and>
    run_prog so (MaskEx rt pr e now pid tx opt) cs 0 s = (s1, Err ErrForeignRecord) \<and>
    run_prog so (MaskBatchEx rt pr e now pid texts opt) cs 0 s = (s1, Err ErrForeignRecord)"
  using assms
  by (simp add: UnmaskEx_def Process_def process_known_def MaskEx_def maskEx_def MaskBatchEx_def Let_def)

text \<open>
  A record with no owner belongs to the default system only, and the record a system creates
  belongs to that system and to no other.
\<close>

lemma ownership_exclusive:
  "(ownsRecord rcd opt \<and> ownsRecord rcd opt' \<and> opt_DefaultSystemID opt = opt_DefaultSystemID opt' \<longrightarrow>
      opt_SystemID opt = opt_SystemID opt') \<and>
   (ownsRecord rcd opt \<longrightarrow> opt_SystemID opt \<noteq> '''') \<and>
   (rec_SystemID rcd = LegacyOwner \<longrightarrow>
      (ownsRecord rcd opt \<longleftrightarrow> opt_SystemID opt \<noteq> '''' \<and> opt_SystemID opt = opt_DefaultSystemID opt)) \<and>
   (ownsRecord (new_record pr s opt now tx mres reps) opt' \<and> opt_SystemID opt \<noteq> '''' \<longrightarrow>
      opt_SystemID opt' = opt_SystemID opt)"
  by (auto simp: ownsRecord_def LegacyOwner_def new_record_def)

subsection \<open>Unmask permission\<close>

lemma processExisting_masks:
  assumes "\<not> opt_Unmask opt" and "processExisting rt pr e rcd payload opt = Ok res"
  shows "\<not> prs_Unmasked res \<and>
    (res = \<lparr> prs_Result = rec_MaskedText rcd, prs_Found = None, prs_Unmasked = False, prs_Misses = 0 \<rparr> \<and>
       rec_Hash rcd = hashText pr payload \<or> maskFreshResult rt e payload opt = Ok res)"
  using assms maskFreshResult_masks [of rt e payload opt res]
  by (auto simp: processExisting_def split: if_splits)

lemma process_known_masks:
  assumes "\<not> opt_Unmask opt" and "process_known rt pr e rcd payload opt = Ok res"
  shows "\<not> prs_Unmasked res \<and>
    (rec_Hash rcd = hashText pr payload \<and> prs_Result res = rec_MaskedText rcd \<or>
     (\<exists>fresh. maskFreshResult rt e payload opt = Ok fresh \<and> prs_Result res = prs_Result fresh))"
proof (cases "ownsRecord rcd opt")
  case True
  then obtain r where r: "processExisting rt pr e rcd payload opt = Ok r"
    and res: "res = r \<or> res = r\<lparr> prs_Found := Some (countsFromRec rcd) \<rparr>"
    using assms(2) by (auto simp: process_known_def split: outcome.splits if_splits)
  from processExisting_masks [OF assms(1) r] res show ?thesis by auto
next
  case False
  then show ?thesis using assms(2) maskFreshResult_masks by (auto simp: process_known_def)
qed

text \<open>
  C5. A system without the unmask permission never gets a restored value from \<^verbatim>\<open>Process\<close>, on any store
  and whatever the payload looks like: the result is the fresh masking of the payload, or the stored
  masked text of a record whose hash is the hash of the payload.
\<close>

theorem process_without_unmask:
  assumes "\<not> opt_Unmask opt" and "run_prog so (Process rt pr e now pid payload opt) cs 0 s = (s', Ok res)"
  shows "\<not> prs_Unmasked res \<and>
    ((\<exists>c s0 s1 rcd. so_Load so s0 c pid = (s1, Inr (Some rcd)) \<and> rec_Hash rcd = hashText pr payload \<and>
        prs_Result res = rec_MaskedText rcd) \<or>
     (\<exists>fresh. maskFreshResult rt e payload opt = Ok fresh \<and> prs_Result res = prs_Result fresh))"
proof -
  obtain s1 r where l: "so_Load so s (cs 0) pid = (s1, r)" by fastforce
  consider rcd where "r = Inr (Some rcd)" "process_known rt pr e rcd payload opt = Ok res"
    | st mres reps where "r = Inr None" "resolveStrategy e (opt_Strategy opt) = Some st"
        "runMask rt e payload opt st (Some NewDocState) = Some (mres, reps)"
    using assms(2) l by (auto simp: Process_def split: sum.splits option.splits prod.splits)
  then show ?thesis
  proof cases
    case 1
    then show ?thesis using process_known_masks [OF assms(1)] l by blast
  next
    case (2 st mres reps)
    let ?rcd = "new_record pr st opt now payload mres reps"
    have fresh: "maskFreshResult rt e payload opt = Ok (fresh_result mres)"
      using 2 by (simp add: maskFreshResult_def maskOnly_def fresh_result_def)
    obtain s2 a where sn: "so_SaveNew so s1 (cs 1) pid ?rcd (opt_TTL opt) = (s2, a)" by fastforce
    obtain s3 r2 where l2: "so_Load so s2 (cs 2) pid = (s3, r2)" by fastforce
    consider "res = fresh_result mres" | rec2 where "r2 = Inr (Some rec2)"
        "maskFreshResult rt e payload opt = Ok res \<or> processExisting rt pr e rec2 payload opt = Ok res"
      using assms(2) l 2 sn l2
      by (auto simp: Process_def process_lost_def Let_def numeral_2_eq_2
          split: sum.splits option.splits prod.splits bool.splits if_splits)
    then show ?thesis
    proof cases
      case 1
      then show ?thesis using fresh by (auto simp: fresh_result_def)
    next
      case (2 rec2)
      then show ?thesis
        using processExisting_masks [OF assms(1)] maskFreshResult_masks l2 by fastforce
    qed
  qed
qed

subsection \<open>Process: retries and restoring\<close>

lemma mem_view_absent_mono:
  "mem_view pr cd m t pid = Inr None \<Longrightarrow> t \<le> u \<Longrightarrow> mem_view pr cd m u pid = Inr None"
  by (auto simp: mem_view_defs dest: expired_mono split: option.splits if_splits sum.splits)

lemma Process_creates:
  assumes "run_prog so (Process rt pr e now pid payload opt) cs 0 s = (s', Ok res)"
    and "so_Load so s (cs 0) pid = (s1, Inr None)"
    and "\<And>rcd s2. so_SaveNew so s1 (cs 1) pid rcd (opt_TTL opt) \<noteq> (s2, Inr False)"
  obtains st mres reps where "resolveStrategy e (opt_Strategy opt) = Some st"
    and "runMask rt e payload opt st (Some NewDocState) = Some (mres, reps)"
    and "so_SaveNew so s1 (cs 1) pid (new_record pr st opt now payload mres reps) (opt_TTL opt) = (s', Inr True)"
    and "res = fresh_result mres"
  using assms
  by (auto simp: Process_def Let_def split: sum.splits option.splits prod.splits bool.splits)

lemma process_retry:
  assumes "so_Load so s (ds 0) pid = (s', Inr (Some rcd))" and "ownsRecord rcd opt" and "rec_Hash rcd = hashText pr payload"
  shows "run_prog so (Process rt pr e now pid payload opt) ds 0 s =
    (s', Ok \<lparr> prs_Result = rec_MaskedText rcd, prs_Found = Some (countsFromRec rcd), prs_Unmasked = False,
             prs_Misses = 0 \<rparr>)"
  using assms by (simp add: Process_def process_known_def processExisting_def)

lemma process_restore:
  assumes "so_Load so s (ds 0) pid = (s', Inr (Some rcd))" and "ownsRecord rcd opt" and "opt_Unmask opt"
    and "rec_Hash rcd \<noteq> hashText pr masked" and "Restore rt masked (rec_Replacements rcd) = Some (tx, 0)"
    and "rec_Replacements rcd \<noteq> []"
  shows "run_prog so (Process rt pr e now pid masked opt) ds 0 s =
    (s', Ok \<lparr> prs_Result = tx, prs_Found = None, prs_Unmasked = True, prs_Misses = 0 \<rparr>)"
  using assms by (simp add: Process_def process_known_def processExisting_def)

lemma Restore_no_reps: "go_runtime rt \<Longrightarrow> Restore rt masked [] = Some (masked, 0)"
  using go_runtime.Restore_layout [of rt masked "[]" masked] by simp

text \<open>
  C7. \<^verbatim>\<open>Process\<close> on the in-memory store. The first call for an id masks and stores the payload; within the
  time to live, sending the same payload again returns the same masked text, and sending that masked
  text, by a system that may unmask, returns the payload with no miss. The only hypothesis on the hash
  is that it tells this payload from its masked text.
\<close>

theorem process_roundtrip_memory:
  assumes "store_env pr cd" and "go_runtime rt" and "engine_ok rt e payload" and "utf8_masking rt e payload opt now"
    and "opt_SystemID opt \<noteq> ''''" and "mem_view pr cd m (cl_now (cs 0)) pid = Inr None"
    and "run_prog (mem_ops pr cd) (Process rt pr e now pid payload opt) cs 0 m = (m1, Ok res)"
    and "0 \<le> opt_TTL opt" and "call_ok (cs 1)" and "cl_now (cs 0) \<le> cl_now (cs 1)"
    and "cl_now (cs 1) \<le> cl_now (ds 0)"
    and "opt_TTL opt = 0 \<or> cl_now (ds 0) < cl_now (cs 1) + opt_TTL opt"
  shows "\<exists>m2. (\<exists>again. run_prog (mem_ops pr cd) (Process rt pr e now' pid payload opt) ds 0 m1 = (m2, Ok again) \<and>
      prs_Result again = prs_Result res \<and> \<not> prs_Unmasked again) \<and>
    (opt_Unmask opt \<and> hashText pr (prs_Result res) \<noteq> hashText pr payload \<longrightarrow>
      run_prog (mem_ops pr cd) (Process rt pr e now' pid (prs_Result res) opt) ds 0 m1 =
        (m2, Ok \<lparr> prs_Result = payload, prs_Found = None, prs_Unmasked = True, prs_Misses = 0 \<rparr>))"
proof -
  note st = store_env.mem_store [OF assms(1)]
  let ?so = "mem_ops pr cd"
  obtain ma where ld: "mem_Load pr cd m (cs 0) pid = (ma, Inr None)"
    using mem_Load_view [of pr cd m "cs 0" pid] assms(6) by (metis prod.collapse)
  have "mem_view pr cd m (cl_now (cs 1)) pid = Inr None" by (rule mem_view_absent_mono [OF assms(6,10)])
  then have none: "mem_view pr cd ma (cl_now (cs 1)) pid = Inr None"
    using record_store.load_keeps [OF st assms(10), of m pid pid] ld by simp
  have "so_SaveNew ?so ma (cs 1) pid rcd (opt_TTL opt) \<noteq> (s2, Inr False)" for rcd s2
    using mem_SaveNew_lost(2) [of pr cd ma "cs 1" pid rcd "opt_TTL opt" s2] none by (auto simp: mem_ops_def)
  then obtain strat mres reps where rs: "resolveStrategy e (opt_Strategy opt) = Some strat"
    and rm: "runMask rt e payload opt strat (Some NewDocState) = Some (mres, reps)"
    and sn: "mem_SaveNew pr cd ma (cs 1) pid (new_record pr strat opt now payload mres reps) (opt_TTL opt) = (m1, Inr True)"
    and res: "res = fresh_result mres"
    using Process_creates [OF assms(7)] ld by (metis mem_ops_def mk_ops_simps(2,3))
  let ?rcd = "new_record pr strat opt now payload mres reps"
  have "mem_view pr cd m1 (cl_now (ds 0)) pid = Inr (Some ?rcd)"
    using record_store.saveNew_wins [OF st sn new_record_ok [OF assms(4) rs rm] assms(9,8,11), of pid]
      record_store.live_fresh [OF st assms(8,11,12)] by simp
  then obtain m2 where l2: "so_Load ?so m1 (ds 0) pid = (m2, Inr (Some ?rcd))"
    using mem_view_load [of pr cd m1 "ds 0"] by (auto simp: mem_ops_def)
  have own: "ownsRecord ?rcd opt" by (rule new_record_owned [OF assms(5)])
  have rst: "Restore rt (mr_Masked mres) reps = Some (payload, 0)"
    using runMask_restores [OF assms(2,3) rs, of opt "Some NewDocState"] rm by (metis option.inject prod.inject)
  have "reps \<noteq> []" if "hashText pr (mr_Masked mres) \<noteq> hashText pr payload"
    using rst Restore_no_reps [OF assms(2), of "mr_Masked mres"] that by auto
  then show ?thesis
    using process_retry [of ?so m1 ds pid m2 ?rcd opt pr payload rt e now']
      process_restore [of ?so m1 ds pid m2 ?rcd opt pr "mr_Masked mres" rt payload e now'] l2 own rst
    by (auto simp: res fresh_result_def new_record_def)
qed

subsection \<open>A load error lets a mask overwrite\<close>

text \<open>
  C37. \<^verbatim>\<open>MaskEx\<close> does not tell a failed load from a missing record: when the load fails it masks and saves,
  so a record of another system under the id is overwritten, although the caller "must never overwrite
  it". \<^verbatim>\<open>Process\<close> returns the error and leaves the store alone.
\<close>

theorem MaskEx_ignores_load_errors:
  assumes "so_Load so s (cs 0) pid = (s1, Inl err)" and "resolveStrategy e (opt_Strategy opt) = Some strat"
    and "runMask rt e tx opt strat (Some NewDocState) = Some (mres, reps)"
    and "so_Save so s1 (cs 1) pid (new_record pr strat opt now tx mres reps) (opt_TTL opt) = (s2, None)"
  shows "run_prog so (MaskEx rt pr e now pid tx opt) cs 0 s = (s2, Ok mres) \<and>
    run_prog so (Process rt pr e now pid tx opt) cs 0 s = (s1, Err err)"
  using assms by (simp add: MaskEx_def maskEx_def maskWithRecord_def Process_def Let_def)

end
