(* ===== verification/Http_Props.thy ===== *)
theory Http_Props
  imports Http Engine_Props
begin

text \<open>
  The guarantees of the HTTP service: who reaches a handler, what a client can get back, how many store
  commands a request makes, what the logs say, and how many requests run at a time.
\<close>

subsection \<open>Programs\<close>

lemma run_prog_map:
  "run_prog so (map_prog f p) cs i s = apsnd f (run_prog so p cs i s)"
  by (induction p arbitrary: i s) (auto split: prod.splits)

lemma exec_map: "exec so c s (map_prog f p) = apsnd (map_prog f) (exec so c s p)"
  by (cases p) (auto split: prod.splits)

lemma map_prog_Return: "map_prog f p = Return b \<longleftrightarrow> (\<exists>a. p = Return a \<and> b = f a)"
  by (cases p) auto

text \<open>At most \<open>n\<close> store commands, whatever the store answers.\<close>

fun commands_le :: "nat \<Rightarrow> 'a prog \<Rightarrow> bool" where
  "commands_le n (Return a) = True"
| "commands_le 0 p = False"
| "commands_le (Suc n) (Load_then pid k) = (\<forall>r. commands_le n (k r))"
| "commands_le (Suc n) (Save_then pid rcd ttl k) = (\<forall>r. commands_le n (k r))"
| "commands_le (Suc n) (SaveNew_then pid rcd ttl k) = (\<forall>r. commands_le n (k r))"

lemma commands_le_map [simp]: "commands_le n (map_prog f p) = commands_le n p"
  by (induction n p rule: commands_le.induct) auto

lemma commands_le_exec: "commands_le (Suc n) p \<Longrightarrow> commands_le n (snd (exec so c s p))"
  by (cases p) (auto split: prod.splits)

lemma commands_le_0: "commands_le 0 p \<longleftrightarrow> (\<exists>a. p = Return a)"
  by (cases p) auto

lemma commands_le_mono: "commands_le n p \<Longrightarrow> n \<le> k \<Longrightarrow> commands_le k p"
proof (induction n p arbitrary: k rule: commands_le.induct)
  case (3 n pid f)
  then show ?case by (cases k) auto
next
  case (4 n pid rcd ttl f)
  then show ?case by (cases k) auto
next
  case (5 n pid rcd ttl f)
  then show ?case by (cases k) auto
qed auto

lemma engine_commands:
  "commands_le 4 (Process rt pr e now pid tx opt)" "commands_le 2 (MaskEx rt pr e now pid tx opt)"
  "commands_le 2 (MaskBatchEx rt pr e now pid texts opt)" "commands_le 1 (UnmaskEx rt pid tx opt)"
  by (auto simp: Process_def process_lost_def MaskEx_def maskEx_def maskWithRecord_def MaskBatchEx_def UnmaskEx_def
      Let_def numeral_eq_Suc split: sum.splits option.splits bool.splits prod.splits)

subsection \<open>Who reaches a handler\<close>

text \<open>
  C22. A request that has no slot, or that authentication does not accept, is answered without a single
  store command: 429 with \<^verbatim>\<open>Retry-After\<close>, or 401 or 403. A request that is accepted for a system runs its
  handler with exactly that system.
\<close>

theorem wrap_guards:
  assumes "route \<noteq> routeHealthz" and "route \<noteq> routeReadyz"
  shows "case (acquired, ar_system (authenticate (sv_cfg sv) (sv_getenv sv) header route)) of
      (False, _) \<Rightarrow> \<exists>r. wrap sv route acquired header h = Return (Some r) \<and> rs_status (hr_resp r) = 429 \<and>
        (''Retry-After'', ''1'') \<in> set (rs_headers (hr_resp r))
    | (True, None) \<Rightarrow> \<exists>r. wrap sv route acquired header h = Return (Some r) \<and> rs_status (hr_resp r) \<in> {401, 403} \<and>
        rs_body (hr_resp r) = ErrorBody ''system not allowed''
    | (True, Some sys) \<Rightarrow> wrap sv route acquired header h =
        map_prog (map_option (logged sv route (authenticate (sv_cfg sv) (sv_getenv sv) header route))) (h (Some sys))"
proof -
  have st: "ar_system a = None \<Longrightarrow> ar_status a \<in> {401, 403}" "ar_system a \<noteq> None \<Longrightarrow> ar_status a = 0"
    if "a = authenticate (sv_cfg sv) (sv_getenv sv) header route" for a
    unfolding that authenticate_def Let_def by (auto split: option.splits if_splits)
  show ?thesis
    using assms(1,2) st [OF refl]
    by (auto simp: wrap_def Let_def logged_def too_many_def writeError_def writeJSON_def split: bool.splits option.splits)
qed

subsection \<open>Masking and unmasking over HTTP\<close>

text \<open>One whole request of each of the store routes, with a slot.\<close>

definition post_process where
  "post_process rt pr sv c header d = wrap sv routeProcess True header (\<lambda>ctx. handleProcess rt pr sv c ctx header d)"

definition post_mask where
  "post_mask rt pr sv c header d = wrap sv routeMask True header (\<lambda>ctx. handleMask rt pr sv c ctx header d)"

definition post_unmask where
  "post_unmask rt sv header d = wrap sv routeUnmask True header (\<lambda>ctx. handleUnmask rt sv ctx header d)"

lemma accepted:
  assumes "ar_system (authenticate cfg getenv header route) = Some sys"
  shows "ar_status (authenticate cfg getenv header route) = 0"
  using assms unfolding authenticate_def Let_def by (auto split: option.splits if_splits)

lemma wrap_accepted:
  assumes "ar_system (authenticate (sv_cfg sv) (sv_getenv sv) header route) = Some sys"
    and "route \<noteq> routeHealthz" and "route \<noteq> routeReadyz"
  shows "wrap sv route True header h =
    map_prog (map_option (logged sv route (authenticate (sv_cfg sv) (sv_getenv sv) header route))) (h (Some sys))"
  using assms accepted [OF assms(1)] by (simp add: wrap_def)

lemma logged_resp [simp]: "hr_resp (logged sv route auth r) = hr_resp r"
  by (simp add: logged_def)

text \<open>A text that is not empty is not masked by the empty text.\<close>

lemma runMask_nonempty:
  assumes "go_runtime rt" and "engine_ok rt e tx" and "resolveStrategy e name = Some s"
    and "runMask rt e tx opt s doc = Some (mres, reps)" and "tx \<noteq> ''''"
  shows "mr_Masked mres \<noteq> ''''"
proof -
  obtain ys rest d' found where m: "mask_text rt e tx opt s doc = Some (lay_masked ys @ rest, map snd ys, found, Some d')"
    and t: "tx = lay_orig ys @ rest" and l: "lay_reps ys d'"
    using mask_text_layout [OF assms(1) _ resolveStrategy_ok [OF assms(2,3)]] assms(2) by (metis engine_ok_def)
  have "lay_masked ys @ rest \<noteq> ''''"
    using l t assms(5) by (cases ys rule: lay_masked.cases) (auto simp: lay_reps_def)
  with m assms(4) show ?thesis by (auto simp: runMask_def)
qed

lemma uuid_length: "length raw = 16 \<Longrightarrow> length (uuid_of raw) = 36"
proof -
  have "length (hex_encode s) = 2 * length s" for s
    by (induction s) (auto simp: hex_encode_def hex_byte_def Let_def)
  then show "length raw = 16 \<Longrightarrow> length (uuid_of raw) = 36" by (simp add: uuid_of_def Let_def)
qed

lemma resolveMaskID_valid:
  assumes "resolveMaskID rnd pid = Inr pid'" and "validPayloadID pid" and "\<And>b. rnd = Some b \<Longrightarrow> length b = 16"
  shows "pid' \<noteq> ''''" and "validPayloadID pid'"
proof -
  have "pid' = pid \<and> pid \<noteq> '''' \<or> (\<exists>b. rnd = Some b \<and> pid' = uuid_of b)"
    using assms(1) by (auto simp: resolveMaskID_def newUUID_def split: if_splits option.splits)
  moreover have "length (uuid_of b) = 36" if "rnd = Some b" for b using assms(3) [OF that] by (rule uuid_length)
  ultimately show "pid' \<noteq> ''''" "validPayloadID pid'"
    using assms(2) by (auto simp: validPayloadID_def maxPayloadIDBytes_def)
qed

text \<open>What a \<^verbatim>\<open>/mask\<close> request that was answered with a masked text did.\<close>

lemma post_mask_ok:
  assumes "ar_system (authenticate (sv_cfg sv) (sv_getenv sv) header routeMask) = Some sys"
    and "run_prog so (post_mask rt pr sv c header (Body req False)) cs 0 s = (s', Some res)"
    and "rs_body (hr_resp res) = MaskBody pid masked found strategy"
  obtains mres where "run_prog so (MaskEx rt pr (sv_engine sv) (hc_now c) pid (mq_Text req)
      ((optionsFor (sv_cfg sv) sys)\<lparr> opt_Strategy := strategy \<rparr>)) cs 0 s = (s', Ok mres)"
    and "masked = mr_Masked mres" and "mq_Text req \<noteq> ''''" and "validPayloadID (mq_ID req)"
    and "resolveMaskID (hc_random c) (mq_ID req) = Inr pid"
    and "strategyOverride sys (mq_Strategy req) = (strategy, 0)"
proof -
  have w: "post_mask rt pr sv c header (Body req False) =
      map_prog (map_option (logged sv routeMask (authenticate (sv_cfg sv) (sv_getenv sv) header routeMask)))
        (handleMask rt pr sv c (Some sys) header (Body req False))"
    unfolding post_mask_def by (rule wrap_accepted [OF assms(1)]) (simp_all add: route_names)
  obtain res0 where r: "run_prog so (handleMask rt pr sv c (Some sys) header (Body req False)) cs 0 s = (s', Some res0)"
    and b: "rs_body (hr_resp res0) = MaskBody pid masked found strategy"
    using assms(2,3) unfolding w run_prog_map by (cases "run_prog so (handleMask rt pr sv c (Some sys) header (Body req False)) cs 0 s") auto
  have tx: "mq_Text req \<noteq> ''''" and v: "validPayloadID (mq_ID req)"
    using r b by (auto simp: handleMask_def readJSON_def writeError_def writeJSON_def split: if_splits)
  obtain p where p: "resolveMaskID (hc_random c) (mq_ID req) = Inr p"
    using r b tx v by (auto simp: handleMask_def readJSON_def resolveMaskID_def writeError_def writeJSON_def
        split: if_splits option.splits)
  obtain st where st: "strategyOverride sys (mq_Strategy req) = (st, 0)"
    using r b tx v p by (auto simp: handleMask_def readJSON_def writeStrategyError_def writeError_def writeJSON_def
        systemFrom_def Let_def split: if_splits prod.splits)
  have h: "handleMask rt pr sv c (Some sys) header (Body req False) =
      map_prog (finish_mask p (mq_Text req) st) (MaskEx rt pr (sv_engine sv) (hc_now c) p (mq_Text req)
        ((optionsFor (sv_cfg sv) sys)\<lparr> opt_Strategy := st \<rparr>))"
    using tx v p st by (simp add: handleMask_def readJSON_def systemFrom_def)
  obtain out where o1: "run_prog so (MaskEx rt pr (sv_engine sv) (hc_now c) p (mq_Text req)
        ((optionsFor (sv_cfg sv) sys)\<lparr> opt_Strategy := st \<rparr>)) cs 0 s = (s', out)"
    and o2: "finish_mask p (mq_Text req) st out = Some res0"
    using r unfolding h run_prog_map by (auto simp: apsnd_def map_prod_def split: prod.splits)
  then obtain mres where "out = Ok mres" "p = pid" "st = strategy" "masked = mr_Masked mres"
    using b by (auto simp: finish_mask_def handleMaskError_def storeUnavailable_def writeError_def writeJSON_def
        split: outcome.splits if_splits)
  then show thesis using that [of mres] o1 tx v p st by simp
qed

lemma authenticate_route:
  "route \<noteq> routeProcess \<Longrightarrow> route' \<noteq> routeProcess \<Longrightarrow>
     authenticate cfg getenv header route = authenticate cfg getenv header route'"
  by (auto simp: authenticate_def Let_def split: option.splits)

lemma ownsRecord_strategy [simp]: "ownsRecord rcd (opt\<lparr> opt_Strategy := st \<rparr>) = ownsRecord rcd opt"
  by (simp add: ownsRecord_def)

lemma authenticate_member:
  assumes "ar_system (authenticate cfg getenv header route) = Some sys"
  shows "sys \<in> set (cfg_systems cfg)"
  using assms unfolding authenticate_def Let_def SystemByID_def
  by (auto split: if_splits option.splits simp: find_Some_iff)

text \<open>
  The service keeps its promise over HTTP: on a valid configuration with the in-memory store, after
  \<^verbatim>\<open>POST /mask\<close> has answered with an id and a masked text, \<^verbatim>\<open>POST /unmask\<close> with that id and that text and
  the same headers, before the time to live has passed, answers 200 with the original text and no miss.
  The id may be the caller's or a generated one, the strategy the system's or an allowed override.
\<close>

lemma http_mask_unmask:
  assumes "store_env pr cd" and "go_runtime rt" and "engine_ok rt (sv_engine sv) (mq_Text req)" and "Validate (sv_cfg sv) = None"
    and "ar_system (authenticate (sv_cfg sv) (sv_getenv sv) header routeMask) = Some sys" and "sys_Unmask sys"
    and "run_prog (mem_ops pr cd) (post_mask rt pr sv c header (Body req False)) cs 0 m = (m', Some res)"
    and "rs_body (hr_resp res) = MaskBody pid masked found strategy"
    and "utf8_masking rt (sv_engine sv) (mq_Text req) ((optionsFor (sv_cfg sv) sys)\<lparr> opt_Strategy := strategy \<rparr>) (hc_now c)"
    and "\<And>rcd. mem_view pr cd m (cl_now (cs 0)) pid = Inr (Some rcd) \<Longrightarrow> rec_Hash rcd \<noteq> hashText pr (mq_Text req)"
    and "\<And>b. hc_random c = Some b \<Longrightarrow> length b = 16" and "0 \<le> sto_TTL (cfg_store (sv_cfg sv))"
    and "call_ok (cs 1)" and "cl_now (cs 0) \<le> cl_now (cs 1)" and "cl_now (cs 1) \<le> cl_now (ds 0)"
    and "sto_TTL (cfg_store (sv_cfg sv)) = 0 \<or> cl_now (ds 0) < cl_now (cs 1) + sto_TTL (cfg_store (sv_cfg sv))"
  shows "\<exists>m'' res'. run_prog (mem_ops pr cd)
      (post_unmask rt sv header (Body \<lparr> uq_ID = pid, uq_Text = masked \<rparr> False)) ds 0 m' = (m'', Some res') \<and>
    rs_status (hr_resp res') = 200 \<and> rs_body (hr_resp res') = UnmaskBody (mq_Text req) 0"
proof -
  let ?opt = "(optionsFor (sv_cfg sv) sys)\<lparr> opt_Strategy := strategy \<rparr>"
  obtain mres where run: "run_prog (mem_ops pr cd) (MaskEx rt pr (sv_engine sv) (hc_now c) pid (mq_Text req) ?opt) cs 0 m = (m', Ok mres)"
    and mk: "masked = mr_Masked mres" and tx: "mq_Text req \<noteq> ''''" and v: "validPayloadID (mq_ID req)"
    and p: "resolveMaskID (hc_random c) (mq_ID req) = Inr pid"
    by (rule post_mask_ok [OF assms(5,7,8)])
  have pid: "pid \<noteq> ''''" "validPayloadID pid" using resolveMaskID_valid [OF p v] assms(11) by blast+
  have sys: "opt_SystemID ?opt \<noteq> ''''"
    using authenticate_member [OF assms(5)] assms(4) by (simp add: Validate_None)
  obtain rcd where vw: "mem_view pr cd m' (cl_now (ds 0)) pid = Inr (Some rcd)" and own: "ownsRecord rcd ?opt"
    and r: "Restore rt (mr_Masked mres) (rec_Replacements rcd) = Some (mq_Text req, 0)"
    using record_store.Mask_visible [OF store_env.mem_store [OF assms(1)] assms(2,3,9) sys
        run [unfolded mem_ops_def] assms(10)] assms(12-16) by auto
  obtain m'' where ld: "mem_Load pr cd m' (ds 0) pid = (m'', Inr (Some rcd))" using mem_view_load [OF vw] by blast
  have ne: "masked \<noteq> ''''"
  proof
    assume "masked = ''''"
    obtain s1 ans where l: "so_Load (mem_ops pr cd) m (cs 0) pid = (s1, ans)" by fastforce
    have "rec_Hash q \<noteq> hashText pr (mq_Text req)" if "ans = Inr (Some q)" for q
      using assms(10) [of q] mem_Load_view [of pr cd m "cs 0" pid] l that by (simp add: mem_ops_def)
    from MaskEx_commands [OF run l this] obtain strat reps where
      "resolveStrategy (sv_engine sv) (opt_Strategy ?opt) = Some strat"
      "runMask rt (sv_engine sv) (mq_Text req) ?opt strat (Some NewDocState) = Some (mres, reps)" by blast
    from runMask_nonempty [OF assms(2,3) this tx] mk \<open>masked = ''''\<close> show False by simp
  qed
  have au: "authenticate (sv_cfg sv) (sv_getenv sv) header routeUnmask = authenticate (sv_cfg sv) (sv_getenv sv) header routeMask"
    by (rule authenticate_route) (simp_all add: route_names)
  have w: "post_unmask rt sv header (Body \<lparr> uq_ID = pid, uq_Text = masked \<rparr> False) =
      map_prog (map_option (logged sv routeUnmask (authenticate (sv_cfg sv) (sv_getenv sv) header routeUnmask)))
        (map_prog (finish_unmask pid masked) (UnmaskEx rt pid masked (optionsFor (sv_cfg sv) sys)))"
    unfolding post_unmask_def
    using wrap_accepted [of sv header routeUnmask sys] assms(5,6) pid ne au
    by (simp add: handleUnmask_def readJSON_def systemFrom_def route_names)
  have "run_prog (mem_ops pr cd) (UnmaskEx rt pid masked (optionsFor (sv_cfg sv) sys)) ds 0 m' =
      (m'', Ok \<lparr> ur_Restored = mq_Text req, ur_Misses = 0 \<rparr>)"
    using UnmaskEx_owned [of "mem_ops pr cd" m' ds pid m'' rcd "optionsFor (sv_cfg sv) sys" rt masked "mq_Text req" 0]
      ld own r mk by (simp add: mem_ops_def)
  then show ?thesis unfolding w run_prog_map by (simp add: finish_unmask_def writeJSON_def)
qed

text \<open>
  \<^verbatim>\<open>POST /mask\<close> of a text that equals the masked text stored under the id is reported as an outage of the
  store, which is up.
\<close>

lemma mask_of_masked_text_503:
  assumes "so_Load so s (cs 0) pid = (s1, Inr (Some rcd))" and "ownsRecord rcd opt" and "rec_MaskedText rcd = tx"
    and "rec_Hash rcd \<noteq> hashText pr tx"
  shows "\<exists>h. run_prog so (map_prog (finish_mask pid tx st) (MaskEx rt pr e now pid tx opt)) cs 0 s = (s1, Some h) \<and>
    rs_status (hr_resp h) = 503 \<and> rs_body (hr_resp h) = ErrorBody ''store unavailable'' \<and> StoreErrors ''save'' \<in> set (hr_events h)"
  using assms
  by (simp add: run_prog_map MaskEx_def maskEx_def Let_def finish_mask_def handleMaskError_def isStoreError_def
      storeUnavailable_def writeError_def writeJSON_def)

end
