(* ===== verification/Http_Server.thy ===== *)
theory Http_Server
  imports Chat Http_Props
begin

text \<open>
  The service as a state machine: requests arrive, take a slot or are told to retry, run their store
  commands interleaved with the others, answer and give the slot back (\<^verbatim>\<open>wrap\<close> and \<^verbatim>\<open>acquireSlot\<close> in
  \<^verbatim>\<open>internal/httpapi/server.go\<close>).
\<close>

subsection \<open>Requests and slots\<close>

datatype api_body =
    ProcessReq "processRequest decoded"
  | MaskReq "maskRequest decoded"
  | UnmaskReq "unmaskRequest decoded"
  | ChatReq "chatRequestIn decoded"
  | HealthReq
  | ReadyReq

fun route_of :: "api_body \<Rightarrow> string" where
  "route_of (ProcessReq d) = routeProcess"
| "route_of (MaskReq d) = routeMask"
| "route_of (UnmaskReq d) = routeUnmask"
| "route_of (ChatReq d) = routeChat"
| "route_of HealthReq = routeHealthz"
| "route_of ReadyReq = routeReadyz"

fun handler ::
  "runtime \<Rightarrow> primitives \<Rightarrow> Server \<Rightarrow> upstream \<Rightarrow> http_call \<Rightarrow> (string \<Rightarrow> string) \<Rightarrow> api_body \<Rightarrow> System option \<Rightarrow> hres option prog" where
  "handler rt pr sv up c header (ProcessReq d) ctx = handleProcess rt pr sv c ctx header d"
| "handler rt pr sv up c header (MaskReq d) ctx = handleMask rt pr sv c ctx header d"
| "handler rt pr sv up c header (UnmaskReq d) ctx = handleUnmask rt sv ctx header d"
| "handler rt pr sv up c header (ChatReq d) ctx = handleChat rt pr sv up c ctx header d"
| "handler rt pr sv up c header HealthReq ctx = handleHealthz sv"
| "handler rt pr sv up c header ReadyReq ctx = handleReadyz sv c"

definition serve ::
  "runtime \<Rightarrow> primitives \<Rightarrow> Server \<Rightarrow> upstream \<Rightarrow> http_call \<Rightarrow> bool \<Rightarrow> (string \<Rightarrow> string) \<Rightarrow> api_body \<Rightarrow> hres option prog" where
  "serve rt pr sv up c acquired header b = wrap sv (route_of b) acquired header (handler rt pr sv up c header b)"

text \<open>
  The semaphore channel is the number of values in it; the gauge is the \<^verbatim>\<open>Inflight\<close> metric.
\<close>

record 's srv_state =
  sr_sem :: nat
  sr_gauge :: int
  sr_store :: 's
  sr_jobs :: "hres option prog list"
  sr_done :: "hres option list"

definition acquireSlot :: "Config \<Rightarrow> 's srv_state \<Rightarrow> 's srv_state \<times> bool" where
  "acquireSlot cfg st =
     (if int (sr_sem st) < srv_MaxInflight (cfg_server cfg)
      then (st\<lparr> sr_sem := sr_sem st + 1, sr_gauge := sr_gauge st + 1 \<rparr>, True)
      else (st, False))"

definition release :: "'s srv_state \<Rightarrow> 's srv_state" where
  "release st = st\<lparr> sr_gauge := sr_gauge st - 1, sr_sem := sr_sem st - 1 \<rparr>"

definition New_server :: "'s \<Rightarrow> 's srv_state" where
  "New_server s = \<lparr> sr_sem = 0, sr_gauge = 0, sr_store = s, sr_jobs = [], sr_done = [] \<rparr>"

definition drop_nth :: "nat \<Rightarrow> 'a list \<Rightarrow> 'a list" where
  "drop_nth i xs = take i xs @ drop (Suc i) xs"

inductive srv_step ::
  "runtime \<Rightarrow> primitives \<Rightarrow> Server \<Rightarrow> upstream \<Rightarrow> 's store_ops \<Rightarrow> 's srv_state \<Rightarrow> 's srv_state \<Rightarrow> bool"
  for rt pr sv up so where
  accept: "acquireSlot (sv_cfg sv) st = (st', True) \<Longrightarrow>
    srv_step rt pr sv up so st (st'\<lparr> sr_jobs := sr_jobs st @ [serve rt pr sv up c True header b] \<rparr>)"
| refuse: "acquireSlot (sv_cfg sv) st = (st', False) \<Longrightarrow> serve rt pr sv up c False header b = Return r \<Longrightarrow>
    srv_step rt pr sv up so st (st'\<lparr> sr_done := sr_done st @ [r] \<rparr>)"
| work: "i < length (sr_jobs st) \<Longrightarrow> exec so cl (sr_store st) (sr_jobs st ! i) = (s', p') \<Longrightarrow>
    srv_step rt pr sv up so st (st\<lparr> sr_store := s', sr_jobs := (sr_jobs st)[i := p'] \<rparr>)"
| leave: "i < length (sr_jobs st) \<Longrightarrow> sr_jobs st ! i = Return r \<Longrightarrow>
    srv_step rt pr sv up so st
      (release (st\<lparr> sr_jobs := drop_nth i (sr_jobs st), sr_done := sr_done st @ [r] \<rparr>))"

inductive srv_reach ::
  "runtime \<Rightarrow> primitives \<Rightarrow> Server \<Rightarrow> upstream \<Rightarrow> 's store_ops \<Rightarrow> 's srv_state \<Rightarrow> bool"
  for rt pr sv up so where
  boot: "srv_reach rt pr sv up so (New_server s)"
| move: "srv_reach rt pr sv up so st \<Longrightarrow> srv_step rt pr sv up so st st' \<Longrightarrow> srv_reach rt pr sv up so st'"

inductive_cases srv_stepE: "srv_step rt pr sv up so st st'"

subsection \<open>Requests finish\<close>

lemma commands_le_bind:
  assumes "commands_le n p" and "\<And>a. commands_le k (f a)"
  shows "commands_le (n + k) (bind_prog p f)"
  using assms(1)
proof (induction n p rule: commands_le.induct)
  case (1 n a)
  then show ?case using assms(2) [of a] by (simp add: commands_le_mono)
qed auto

lemma chat_ask_commands: "commands_le 1 (chat_ask rt sv up c sys req mm)"
  by (auto simp: chat_ask_def unmaskAnswer_def Let_def engine_commands [unfolded One_nat_def]
      split: sum.splits prod.splits)

lemma maskMessages_commands: "commands_le 2 (maskMessages rt pr sv c req opt)"
  by (auto simp: maskMessages_def engine_commands split: option.splits)

lemma handleChat_commands: "commands_le 3 (handleChat rt pr sv up c ctx header d)"
proof -
  have "commands_le (2 + 1) (bind_prog (maskMessages rt pr sv c req opt) (chat_ask rt sv up c sys req))" for req opt sys
    by (rule commands_le_bind [OF maskMessages_commands chat_ask_commands])
  then show ?thesis by (auto simp: handleChat_def Let_def split: sum.splits prod.splits)
qed

lemma handler_commands: "commands_le 4 (handler rt pr sv up c header b ctx)"
proof (cases b)
  case (ProcessReq d)
  then show ?thesis by (auto simp: handleProcess_def Let_def engine_commands split: sum.splits option.splits)
next
  case (MaskReq d)
  then show ?thesis using commands_le_mono [OF engine_commands(2)]
    by (auto simp: handleMask_def Let_def split: sum.splits prod.splits)
next
  case (UnmaskReq d)
  then show ?thesis using commands_le_mono [OF engine_commands(4)]
    by (auto simp: handleUnmask_def Let_def split: sum.splits)
next
  case (ChatReq d)
  then show ?thesis using commands_le_mono [OF handleChat_commands] by auto
qed (auto simp: handleHealthz_def handleReadyz_def split: option.splits)

lemma serve_commands: "commands_le 4 (serve rt pr sv up c acquired header b)"
  by (auto simp: serve_def wrap_def Let_def handler_commands)

subsection \<open>The slots\<close>

text \<open>
  How often a finished request was counted: the \<^verbatim>\<open>pdn_requests_total\<close> events in its list.
\<close>

definition request_count :: "event list \<Rightarrow> nat" where
  "request_count ev = length (filter (\<lambda>x. \<exists>r s n. x = RequestsTotal r s n) ev)"

lemma request_count_simps [simp]:
  "request_count [] = 0" "request_count (a @ b) = request_count a + request_count b"
  "request_count (RequestsTotal r s n # ev) = Suc (request_count ev)"
  "request_count (Rejected x # ev) = request_count ev" "request_count (StoreErrors x # ev) = request_count ev"
  "request_count (PIIFound f # ev) = request_count ev" "request_count (Tokens x n # ev) = request_count ev"
  "request_count (LogWarn x y n # ev) = request_count ev" "request_count (LogStoreError x er # ev) = request_count ev"
  "request_count (LogLLMError # ev) = request_count ev" "request_count (LogRequest l # ev) = request_count ev"
  by (simp_all add: request_count_def)

lemma request_count_log [simp]: "request_count (logRequest hash route status auth info) = 1"
  by (simp add: logRequest_def)

text \<open>What every answer of a program satisfies, whatever the store says.\<close>

primrec answers :: "('a \<Rightarrow> bool) \<Rightarrow> 'a prog \<Rightarrow> bool" where
  "answers P (Return a) = P a"
| "answers P (Load_then pid k) = (\<forall>r. answers P (k r))"
| "answers P (Save_then pid rcd ttl k) = (\<forall>r. answers P (k r))"
| "answers P (SaveNew_then pid rcd ttl k) = (\<forall>r. answers P (k r))"

lemma answers_map [simp]: "answers P (map_prog f p) = answers (\<lambda>a. P (f a)) p"
  by (induction p) auto

lemma answers_mono: "answers P p \<Longrightarrow> (\<And>a. P a \<Longrightarrow> Q a) \<Longrightarrow> answers Q p"
  by (induction p) auto

lemma answers_all: "(\<And>a. P a) \<Longrightarrow> answers P p"
  by (induction p) auto

lemma answers_bind: "answers Q p \<Longrightarrow> (\<And>a. Q a \<Longrightarrow> answers P (f a)) \<Longrightarrow> answers P (bind_prog p f)"
  by (induction p) auto

lemma answers_exec: "answers P p \<Longrightarrow> answers P (snd (exec so c s p))"
  by (cases p) (auto split: prod.splits)

lemma answers_run: "answers P p \<Longrightarrow> P (snd (run_prog so p cs i s))"
  by (induction p arbitrary: i s) (auto split: prod.splits)

definition uncounted :: "hres option \<Rightarrow> bool" where
  "uncounted r \<longleftrightarrow> (\<forall>h. r = Some h \<longrightarrow> request_count (hr_events h) = 0)"

lemma reply_uncounted: "answers uncounted (reply r)"
  by (simp add: uncounted_def)

lemma finish_uncounted:
  "uncounted (finish_process sv pid info out)" "uncounted (finish_mask pid tx st out2)"
  "uncounted (finish_unmask pid tx out3)"
  by (auto simp: uncounted_def finish_process_def finish_mask_def finish_unmask_def handleProcessError_def
      handleMaskError_def storeUnavailable_def split: outcome.splits if_splits option.splits)

lemma chat_uncounted:
  assumes "\<And>r. mm = Inl r \<Longrightarrow> uncounted r"
  shows "answers uncounted (chat_ask rt sv up c sys req mm)"
proof -
  have fin: "(case finish_unmaskAnswer pid content info ev out of Inl r \<Rightarrow> uncounted r
      | Inr (ans, info', ev') \<Rightarrow> request_count ev' = 0)" if "request_count ev = 0" for pid content info ev out
    using that by (auto simp: finish_unmaskAnswer_def storeUnavailable_def uncounted_def Let_def split: outcome.splits)
  have ans: "uncounted (chat_answer sys masked found content resp ua)"
    if "case ua of Inl r \<Rightarrow> uncounted r | Inr (ans, info', ev') \<Rightarrow> request_count ev' = 0" for masked found content resp ua
    using that by (auto simp: chat_answer_def uncounted_def Let_def split: sum.splits list.splits)
  show ?thesis
    using assms
    by (auto simp: chat_ask_def unmaskAnswer_def Let_def handleLLMError_def uncounted_def
        intro!: answers_all ans [unfolded uncounted_def] fin [unfolded uncounted_def]
        split: sum.splits prod.splits)
qed

lemma handler_uncounted: "answers uncounted (handler rt pr sv up c header b ctx)"
proof (cases b)
  case (ChatReq d)
  have "answers uncounted (bind_prog (maskMessages rt pr sv c req opt) (chat_ask rt sv up c sys req))" for req opt sys
  proof (rule answers_bind)
    show "answers (\<lambda>mm. \<forall>r. mm = Inl r \<longrightarrow> uncounted r) (maskMessages rt pr sv c req opt)"
      by (auto simp: maskMessages_def finish_maskMessages_def storeUnavailable_def uncounted_def
          intro!: answers_all split: option.splits outcome.splits)
  qed (auto intro: chat_uncounted)
  then show ?thesis using ChatReq by (auto simp: handleChat_def Let_def uncounted_def split: sum.splits prod.splits)
qed (auto simp: handleProcess_def handleMask_def handleUnmask_def handleHealthz_def handleReadyz_def Let_def
    intro!: answers_all finish_uncounted reply_uncounted [simplified] split: sum.splits option.splits prod.splits,
    auto simp: uncounted_def)

definition counted_once :: "hres option \<Rightarrow> bool" where
  "counted_once r \<longleftrightarrow> (\<forall>h. r = Some h \<longrightarrow> request_count (hr_events h) = 1)"

lemma serve_counted: "answers counted_once (serve rt pr sv up c acquired header b)"
proof -
  have "answers (\<lambda>r. counted_once (map_option (logged sv route auth) r)) (handler rt pr sv up c header b ctx)" for route auth ctx
    by (rule answers_mono [OF handler_uncounted]) (auto simp: counted_once_def uncounted_def logged_def)
  then show ?thesis by (auto simp: serve_def wrap_def Let_def counted_once_def logged_def)
qed

definition srv_inv :: "Config \<Rightarrow> 's srv_state \<Rightarrow> bool" where
  "srv_inv cfg st \<longleftrightarrow>
     sr_sem st = length (sr_jobs st) \<and> sr_gauge st = int (sr_sem st) \<and>
     int (sr_sem st) \<le> srv_MaxInflight (cfg_server cfg) \<and>
     (\<forall>p \<in> set (sr_jobs st). commands_le 4 p \<and> answers counted_once p) \<and> (\<forall>r \<in> set (sr_done st). counted_once r)"

lemma drop_nth_simps:
  "i < length xs \<Longrightarrow> length (drop_nth i xs) = length xs - 1" "set (drop_nth i xs) \<subseteq> set xs"
  by (auto simp: drop_nth_def dest: in_set_takeD in_set_dropD)

lemma srv_inv_step:
  assumes "srv_inv (sv_cfg sv) st" and "srv_step rt pr sv up so st st'"
  shows "srv_inv (sv_cfg sv) st'"
  using assms(2)
proof (cases rule: srv_step.cases)
  case (accept st1 c header b)
  then show ?thesis using assms(1) serve_commands [of rt pr sv up c True header b] serve_counted [of rt pr sv up c True header b]
    by (auto simp: srv_inv_def acquireSlot_def split: if_splits)
next
  case (refuse st1 c header b r)
  then show ?thesis using assms(1) serve_counted [of rt pr sv up c False header b]
    by (auto simp: srv_inv_def acquireSlot_def split: if_splits)
next
  case (work i cl s' p')
  have m: "sr_jobs st ! i \<in> set (sr_jobs st)" using work by simp
  then have "commands_le 3 (snd (exec so cl (sr_store st) (sr_jobs st ! i)))"
    using assms(1) by (intro commands_le_exec) (auto simp: srv_inv_def)
  then have "commands_le 4 p'" using work commands_le_mono [of 3 p' 4] by simp
  moreover have "answers counted_once p'"
    using assms(1) m work answers_exec [of counted_once "sr_jobs st ! i" so cl "sr_store st"] by (auto simp: srv_inv_def)
  ultimately show ?thesis using assms(1) work set_update_subset_insert [of "sr_jobs st" i p'] by (auto simp: srv_inv_def)
next
  case (leave i r)
  have "sr_jobs st ! i \<in> set (sr_jobs st)" using leave(2) by (rule nth_mem)
  then have "counted_once r" using assms(1) leave by (auto simp: srv_inv_def)
  then show ?thesis
    using assms(1) leave drop_nth_simps(1) [of i "sr_jobs st"] drop_nth_simps(2) [of i "sr_jobs st"]
    by (auto simp: srv_inv_def release_def)
qed

lemma srv_inv_reach:
  assumes "srv_reach rt pr sv up so st" and "0 \<le> srv_MaxInflight (cfg_server (sv_cfg sv))"
  shows "srv_inv (sv_cfg sv) st"
  using assms(1)
proof (induction rule: srv_reach.induct)
  case (boot s)
  then show ?case using assms(2) by (simp add: srv_inv_def New_server_def)
next
  case (move st st')
  then show ?case by (blast intro: srv_inv_step)
qed

text \<open>
  C19. Under every interleaving of arrivals, store commands and answers, at most \<^verbatim>\<open>max_inflight\<close> requests are in
  their handlers, each holds one slot and is counted once in the gauge, a request is refused with 429
  exactly when all slots are taken, and every answered request, refused or not, was counted exactly once
  in \<^verbatim>\<open>pdn_requests_total\<close>.
\<close>

theorem slots_invariant:
  assumes "Validate (sv_cfg sv) = None" and "srv_reach rt pr sv up so st"
  shows "int (length (sr_jobs st)) \<le> srv_MaxInflight (cfg_server (sv_cfg sv)) \<and>
    sr_sem st = length (sr_jobs st) \<and> sr_gauge st = int (length (sr_jobs st)) \<and>
    (snd (acquireSlot (sv_cfg sv) st) \<longleftrightarrow> int (length (sr_jobs st)) \<noteq> srv_MaxInflight (cfg_server (sv_cfg sv))) \<and>
    (\<forall>h. Some h \<in> set (sr_done st) \<longrightarrow> request_count (hr_events h) = 1)"
proof -
  have "0 \<le> srv_MaxInflight (cfg_server (sv_cfg sv))"
    using assms(1) by (auto simp: Validate_None validateBasics_def split: if_splits)
  from srv_inv_reach [OF assms(2) this] show ?thesis
    by (auto simp: srv_inv_def acquireSlot_def counted_once_def)
qed

subsection \<open>Every accepted request is answered\<close>

lemma job_finishes:
  assumes "commands_le n p" and "sr_jobs st = p # ps"
  shows "\<exists>st'. (srv_step rt pr sv up so)\<^sup>*\<^sup>* st st' \<and> sr_jobs st' = ps \<and> length (sr_done st') = Suc (length (sr_done st))"
  using assms
proof (induction n arbitrary: p st)
  case 0
  then obtain r where "p = Return r" by (auto simp: commands_le_0)
  then have "srv_step rt pr sv up so st (release (st\<lparr> sr_jobs := drop_nth 0 (sr_jobs st), sr_done := sr_done st @ [r] \<rparr>))"
    using 0 by (intro srv_step.leave) auto
  then show ?case using 0 by (auto simp: release_def drop_nth_def intro!: exI conjI r_into_rtranclp)
next
  case (Suc n)
  obtain s' p' where e: "exec so undefined (sr_store st) p = (s', p')" by fastforce
  let ?st = "st\<lparr> sr_store := s', sr_jobs := (sr_jobs st)[0 := p'] \<rparr>"
  have "srv_step rt pr sv up so st ?st" using Suc.prems e by (intro srv_step.work) auto
  moreover have "commands_le n p'" using commands_le_exec [OF Suc.prems(1), of so undefined "sr_store st"] e by simp
  then obtain st' where "(srv_step rt pr sv up so)\<^sup>*\<^sup>* ?st st' \<and> sr_jobs st' = ps \<and>
      length (sr_done st') = Suc (length (sr_done ?st))"
    using Suc.IH [of p' ?st] Suc.prems(2) by auto
  ultimately show ?case by (auto intro: converse_rtranclp_into_rtranclp)
qed

text \<open>
  C20. The service cannot get stuck with its slots taken: a request makes at most four store commands, and
  from every reachable state the requests in flight can all be run to their answers, one answer each,
  after which every slot is free.
\<close>

theorem server_drains:
  assumes "Validate (sv_cfg sv) = None" and "srv_reach rt pr sv up so st"
  shows "(\<forall>p \<in> set (sr_jobs st). commands_le 4 p) \<and>
    (\<exists>st'. (srv_step rt pr sv up so)\<^sup>*\<^sup>* st st' \<and> sr_jobs st' = [] \<and> sr_sem st' = 0 \<and> sr_gauge st' = 0 \<and>
      length (sr_done st') = length (sr_done st) + length (sr_jobs st))"
proof -
  have pos: "0 \<le> srv_MaxInflight (cfg_server (sv_cfg sv))"
    using assms(1) by (auto simp: Validate_None validateBasics_def split: if_splits)
  have inv: "srv_inv (sv_cfg sv) st" by (rule srv_inv_reach [OF assms(2) pos])
  have drain: "\<exists>st'. (srv_step rt pr sv up so)\<^sup>*\<^sup>* st st' \<and> sr_jobs st' = [] \<and>
      length (sr_done st') = length (sr_done st) + length (sr_jobs st)"
    if "\<forall>p \<in> set (sr_jobs st). commands_le 4 p" for st
    using that
  proof (induction "sr_jobs st" arbitrary: st)
    case Nil
    then show ?case by auto
  next
    case (Cons p ps)
    obtain st1 where s1: "(srv_step rt pr sv up so)\<^sup>*\<^sup>* st st1" "sr_jobs st1 = ps"
      "length (sr_done st1) = Suc (length (sr_done st))"
      using job_finishes [of 4 p st ps rt pr sv up so] Cons.prems Cons.hyps(2) by (metis list.set_intros(1))
    have "\<forall>q \<in> set (sr_jobs st1). commands_le 4 q" using Cons.prems Cons.hyps(2) s1(2) by (metis list.set_intros(2))
    from Cons.hyps(1) [OF s1(2) [symmetric] this] obtain st2 where
      s2: "(srv_step rt pr sv up so)\<^sup>*\<^sup>* st1 st2" "sr_jobs st2 = []" "length (sr_done st2) = length (sr_done st1) + length (sr_jobs st1)"
      by blast
    have "length (sr_done st2) = length (sr_done st) + length (sr_jobs st)" using s1 s2 Cons.hyps(2) [symmetric] by simp
    then show ?case using s1(1) s2(1,2) by (meson rtranclp_trans)
  qed
  have all: "\<forall>p \<in> set (sr_jobs st). commands_le 4 p" using inv by (simp add: srv_inv_def)
  obtain st' where st': "(srv_step rt pr sv up so)\<^sup>*\<^sup>* st st'" "sr_jobs st' = []"
    "length (sr_done st') = length (sr_done st) + length (sr_jobs st)"
    using drain [OF all] by blast
  have "srv_reach rt pr sv up so st'" using st'(1) assms(2) by (induction rule: rtranclp_induct) (auto intro: srv_reach.move)
  from srv_inv_reach [OF this pos] st' inv show ?thesis by (auto simp: srv_inv_def)
qed

subsection \<open>What the logs say of ids\<close>

fun log_ids :: "event \<Rightarrow> string set" where
  "log_ids (LogRequest l) = set_option (ll_payload_id l)"
| "log_ids (LogWarn msg pid n) = {pid}"
| "log_ids _ = {}"

definition ids_hashed :: "Server \<Rightarrow> hres option \<Rightarrow> bool" where
  "ids_hashed sv r \<longleftrightarrow>
     (\<forall>h. r = Some h \<longrightarrow> (\<forall>ev \<in> set (hr_events h). log_ids ev \<subseteq> {sv_HashID sv (ri_payloadID (hr_info h))}))"

lemma logRequest_ids:
  "ev \<in> set (logRequest hash route status auth info) \<Longrightarrow> log_ids ev \<subseteq> {hash (ri_payloadID info)}"
proof -
  have "set_option (ll_payload_id (request_line hash route status auth info)) \<subseteq> {hash (ri_payloadID info)}"
    by (simp add: request_line_def)
  then show "ev \<in> set (logRequest hash route status auth info) \<Longrightarrow> log_ids ev \<subseteq> {hash (ri_payloadID info)}"
    by (auto simp: logRequest_def split: if_splits)
qed

lemma log_hashed: "ids_hashed sv r \<Longrightarrow> ids_hashed sv (map_option (logged sv route auth) r)"
  using logRequest_ids by (fastforce simp: ids_hashed_def logged_def)

lemma finish_hashed:
  "ri_payloadID info = pid \<Longrightarrow> ids_hashed sv (finish_process sv pid info out)"
  "ids_hashed sv (finish_mask pid tx st out2)" "ids_hashed sv (finish_unmask pid tx out3)"
  by (auto simp: ids_hashed_def finish_process_def finish_mask_def finish_unmask_def handleProcessError_def
      handleMaskError_def storeUnavailable_def recordProcessInfo_def withReqInfo_def
      split: outcome.splits if_splits option.splits)

lemma handler_hashed:
  assumes "\<And>d. b \<noteq> ChatReq d"
  shows "answers (ids_hashed sv) (handler rt pr sv up c header b ctx)"
proof -
  have e: "ids_hashed sv (Some (answer r info []))" "ids_hashed sv (Some (answer r info [StoreErrors x]))" for r info x
    by (simp_all add: ids_hashed_def)
  show ?thesis
  proof (cases b)
    case (ProcessReq d)
    then show ?thesis by (auto simp: handleProcess_def Let_def e intro!: answers_all finish_hashed split: sum.splits option.splits)
  next
    case (MaskReq d)
    then show ?thesis by (auto simp: handleMask_def Let_def e intro!: answers_all finish_hashed split: sum.splits prod.splits)
  next
    case (UnmaskReq d)
    then show ?thesis by (auto simp: handleUnmask_def Let_def e intro!: answers_all finish_hashed split: sum.splits)
  qed (use assms in \<open>auto simp: handleHealthz_def handleReadyz_def e split: option.splits\<close>)
qed

text \<open>
  C21. The raw payload id never appears in a log line of \<^verbatim>\<open>/process\<close>, \<^verbatim>\<open>/mask\<close>, \<^verbatim>\<open>/unmask\<close> or a health route: the
  request log and the warnings carry at most its keyed hash, on every path and whatever the store answers.
\<close>

theorem logs_hash_ids:
  assumes "\<And>d. b \<noteq> ChatReq d" and "run_prog so (serve rt pr sv up c acquired header b) cs i s = (s', Some h)"
  shows "\<forall>ev \<in> set (hr_events h). log_ids ev \<subseteq> {sv_HashID sv (ri_payloadID (hr_info h))}"
proof -
  have ans: "answers (\<lambda>r. ids_hashed sv (map_option (logged sv route auth) r)) (handler rt pr sv up c header b ctx)" for route auth ctx
    by (rule answers_mono [OF handler_hashed [OF assms(1)]]) (rule log_hashed)
  have "ids_hashed sv (Some (logged sv route auth (answer r withReqInfo [Rejected x])))" for route auth r x
    using log_hashed [of sv "Some (answer r withReqInfo [Rejected x])" route auth] by (simp add: ids_hashed_def)
  then have "answers (ids_hashed sv) (serve rt pr sv up c acquired header b)"
    using ans by (auto simp: serve_def wrap_def Let_def)
  from answers_run [OF this, of so cs i s] assms(2) show ?thesis by (simp add: ids_hashed_def)
qed

text \<open>The chat proxy is the exception: the warning about unrestored masks names the id itself.\<close>

lemma chat_logs_raw_id:
  "0 < ur_Misses ures \<Longrightarrow>
     \<exists>info' ev'. finish_unmaskAnswer pid content info ev (Ok ures) = Inr (ur_Restored ures, info', ev') \<and>
       LogWarn ''chat unmask with misses'' pid (ur_Misses ures) \<in> set ev'"
  by (simp add: finish_unmaskAnswer_def)

subsection \<open>Systems that may not unmask\<close>

definition nothing_restored :: "hres option \<Rightarrow> bool" where
  "nothing_restored r \<longleftrightarrow>
     (\<forall>h. r = Some h \<longrightarrow> ri_direction (hr_info h) \<noteq> dirUnmask \<and>
       (case rs_body (hr_resp h) of
          UnmaskBody tx n \<Rightarrow> False
        | ChatBody resp \<Rightarrow> (\<exists>ch chs pdn. crs_Choices resp = ch # chs \<and> crs_PDN resp = Some pdn \<and> ch_Content ch = RawAnswer pdn)
        | _ \<Rightarrow> True))"

lemma process_never_unmasks:
  assumes "\<not> opt_Unmask opt"
  shows "answers (\<lambda>out. \<forall>res. out = Ok res \<longrightarrow> \<not> prs_Unmasked res) (Process rt pr e now pid tx opt)"
  using assms maskFreshResult_masks [of rt e tx opt]
  by (auto simp: Process_def process_lost_def process_known_def processExisting_def fresh_result_def Let_def
      split: sum.splits option.splits bool.splits prod.splits if_splits outcome.splits)

lemma chat_restores_nothing:
  assumes "\<not> sys_Unmask sys" and "\<And>r. mm = Inl r \<Longrightarrow> nothing_restored r"
  shows "answers nothing_restored (chat_ask rt sv up c sys req mm)"
  using assms
  by (auto simp: chat_ask_def unmaskAnswer_def chat_answer_def handleLLMError_def nothing_restored_def Let_def
      writeJSON_def dirUnmask_def withReqInfo_def split: sum.splits prod.splits list.splits)

lemma error_restores_nothing [simp]:
  "nothing_restored (Some (answer (writeError st msg) withReqInfo ev))"
  by (simp add: nothing_restored_def writeError_def writeJSON_def withReqInfo_def dirUnmask_def)

text \<open>
  C16. A system without the unmask permission gets no restored text from any route: \<^verbatim>\<open>/unmask\<close> is refused,
  \<^verbatim>\<open>/process\<close> masks, and the chat proxy returns the answer of the model as it came.
\<close>

theorem no_unmask_over_http:
  assumes "ar_system (authenticate (sv_cfg sv) (sv_getenv sv) header (route_of b)) = Some sys" and "\<not> sys_Unmask sys"
    and "run_prog so (serve rt pr sv up c acquired header b) cs i s = (s', r)"
  shows "nothing_restored r"
proof -
  have lg: "nothing_restored (map_option (logged sv route auth) q) = nothing_restored q" for route auth q
    by (cases q) (auto simp: nothing_restored_def logged_def)
  have h: "answers nothing_restored (handler rt pr sv up c header b (Some sys))"
  proof (cases b)
    case (ProcessReq d)
    have fin: "nothing_restored (finish_process sv pid info out)"
      if "\<forall>res. out = Ok res \<longrightarrow> \<not> prs_Unmasked res" and "ri_direction info = ''''" for pid info out
      using that by (auto simp: finish_process_def nothing_restored_def handleProcessError_def storeUnavailable_def
          recordProcessInfo_def writeJSON_def writeError_def dirMask_def dirUnmask_def split: outcome.splits)
    have "answers (\<lambda>out. nothing_restored (finish_process sv pid info out)) (Process rt pr e now pid tx (optionsFor cfg sys))"
      if "ri_direction info = ''''" for pid info e now tx cfg
      by (rule answers_mono [OF process_never_unmasks]) (use that assms(2) fin in auto)
    then show ?thesis using ProcessReq
      by (auto simp: handleProcess_def systemFrom_def Let_def readJSON_def withReqInfo_def [symmetric]
          split: decoded.splits option.splits) (simp_all add: withReqInfo_def)
  next
    case (MaskReq d)
    have "nothing_restored (finish_mask pid tx st out)" for pid tx st out
      by (auto simp: finish_mask_def nothing_restored_def handleMaskError_def storeUnavailable_def writeJSON_def
          writeError_def withReqInfo_def dirMask_def dirUnmask_def split: outcome.splits)
    then show ?thesis using MaskReq
      by (auto simp: handleMask_def Let_def readJSON_def resolveMaskID_def writeStrategyError_def intro!: answers_all
          split: decoded.splits option.splits sum.splits prod.splits)
  next
    case (UnmaskReq d)
    then show ?thesis using assms(2) by (simp add: handleUnmask_def systemFrom_def)
  next
    case (ChatReq d)
    have "answers nothing_restored (bind_prog (maskMessages rt pr sv c req opt) (chat_ask rt sv up c sys req))" for req opt
    proof (rule answers_bind)
      show "answers (\<lambda>mm. \<forall>r. mm = Inl r \<longrightarrow> nothing_restored r) (maskMessages rt pr sv c req opt)"
        by (auto simp: maskMessages_def finish_maskMessages_def storeUnavailable_def nothing_restored_def
            intro!: answers_all split: option.splits outcome.splits)
           (simp_all add: writeError_def writeJSON_def withReqInfo_def dirUnmask_def)
    qed (auto intro: chat_restores_nothing [OF assms(2)])
    then show ?thesis using ChatReq
      by (auto simp: handleChat_def systemFrom_def Let_def readJSON_def writeStrategyError_def
          split: decoded.splits prod.splits)
  qed (auto simp: handleHealthz_def handleReadyz_def nothing_restored_def writeJSON_def withReqInfo_def dirUnmask_def
      split: option.splits)
  have "ar_status (authenticate (sv_cfg sv) (sv_getenv sv) header (route_of b)) = 0" by (rule accepted [OF assms(1)])
  moreover have "answers nothing_restored (handler rt pr sv up c header b None)" if "b = HealthReq \<or> b = ReadyReq"
    using that by (auto simp: handleHealthz_def handleReadyz_def nothing_restored_def writeJSON_def withReqInfo_def
        dirUnmask_def split: option.splits)
  moreover have "nothing_restored (Some (answer too_many withReqInfo ev))" for ev
    by (simp add: too_many_def nothing_restored_def writeError_def writeJSON_def withReqInfo_def dirUnmask_def)
  moreover have "route_of b = routeHealthz \<or> route_of b = routeReadyz \<longleftrightarrow> b = HealthReq \<or> b = ReadyReq"
    by (cases b) (auto simp: route_names)
  ultimately have "answers nothing_restored (serve rt pr sv up c acquired header b)"
    using h assms(1) lg [of _ _ "Some _"] by (auto simp: serve_def wrap_def Let_def lg no_auth_def)
  from answers_run [OF this, of so cs i s] assms(3) show ?thesis by simp
qed

end
