(* ===== verification/Service.thy ===== *)
theory Service
  imports Default Mask_Full Mask_Partial Mask_Synthetic_Props Http_Server
begin

text \<open>
  The process (\<^verbatim>\<open>cmd/pdn-shield/main.go\<close>): what it builds from the configuration, the environment and the embedded
  files, in which order it gives up, the two listeners, and its life from the start to a signal. The contents of the
  embedded files and what the operating system answers are arguments. The theorems put the detectors, the
  strategies, the engine, the store and the handlers together as the process does.
\<close>

subsection \<open>Logging\<close>

datatype log_level = LevelDebug | LevelInfo | LevelWarn | LevelError

datatype log_handler = JSONHandler | TextHandler

record logger =
  lg_handler :: log_handler
  lg_level :: log_level

definition newLogger :: "string \<Rightarrow> string \<Rightarrow> logger" where
  "newLogger level format =
     (let lvl = (if level = ''debug'' then LevelDebug
                 else if level = ''warn'' then LevelWarn
                 else if level = ''error'' then LevelError
                 else LevelInfo)
      in if format = ''json'' then \<lparr> lg_handler = JSONHandler, lg_level = lvl \<rparr>
         else \<lparr> lg_handler = TextHandler, lg_level = lvl \<rparr>)"

subsection \<open>Key and store\<close>

definition loadEncryptionKey :: "Config \<Rightarrow> (string \<Rightarrow> string) \<Rightarrow> string option \<Rightarrow> goerror + string" where
  "loadEncryptionKey cfg getenv rnd =
     (let keyEnv = sto_EncryptionKeyEnv (cfg_store cfg);
          keyEnv = (if keyEnv = '''' then ''PDN_ENC_KEY'' else keyEnv)
      in KeyFromEnv getenv rnd keyEnv)"

text \<open>A value of the interface \<^verbatim>\<open>store.Store\<close>.\<close>

datatype 's backend = MemoryStore Memory | RedisStore "'s Redis"

definition newRedisStore ::
  "(client_Options \<Rightarrow> 's) \<Rightarrow> (string \<Rightarrow> string) \<Rightarrow> Config \<Rightarrow> string \<Rightarrow> string + 's backend" where
  "newRedisStore new_client getenv cfg key =
     (case NewRedisWithOptions new_client (sto_RedisAddr (cfg_store cfg)) (getenv ''PDN_REDIS_PASSWORD'') key
             \<lparr> ro_PoolSize = sto_RedisPool (cfg_store cfg), ro_Wait = sto_RedisWait (cfg_store cfg),
               ro_Timeout = sto_RedisTimeout (cfg_store cfg), ro_Dial = 0 \<rparr> of
        Inl e \<Rightarrow> Inl ''redis store init failed''
      | Inr rs \<Rightarrow> Inr (RedisStore rs))"

definition newMemoryStore :: "string \<Rightarrow> string + 's backend" where
  "newMemoryStore key =
     (case NewMemory key of
        Inl e \<Rightarrow> Inl ''memory store init failed''
      | Inr ms \<Rightarrow> Inr (MemoryStore ms))"

text \<open>An error is the message logged before the process exits.\<close>

definition newStore ::
  "(client_Options \<Rightarrow> 's) \<Rightarrow> (string \<Rightarrow> string) \<Rightarrow> Config \<Rightarrow> string \<Rightarrow> string + 's backend" where
  "newStore new_client getenv cfg key =
     (if sto_Kind (cfg_store cfg) = ''redis'' then newRedisStore new_client getenv cfg key else newMemoryStore key)"

text \<open>The calls through the interface.\<close>

fun backend_HashID :: "primitives \<Rightarrow> 's backend \<Rightarrow> string \<Rightarrow> string" where
  "backend_HashID pr (MemoryStore m) pid = mem_HashID pr m pid"
| "backend_HashID pr (RedisStore r) pid = rd_HashID pr r pid"

definition backend_ops :: "primitives \<Rightarrow> codec \<Rightarrow> 's redis_client \<Rightarrow> 's backend store_ops" where
  "backend_ops pr cd rc =
     \<lparr> so_Save = (\<lambda>b c pid r ttl. case b of
          MemoryStore m \<Rightarrow> apfst MemoryStore (mem_Save pr cd m c pid r ttl)
        | RedisStore s \<Rightarrow> apfst RedisStore (rd_Save pr cd rc s c pid r ttl)),
       so_SaveNew = (\<lambda>b c pid r ttl. case b of
          MemoryStore m \<Rightarrow> apfst MemoryStore (mem_SaveNew pr cd m c pid r ttl)
        | RedisStore s \<Rightarrow> apfst RedisStore (rd_SaveNew pr cd rc s c pid r ttl)),
       so_Load = (\<lambda>b c pid. case b of
          MemoryStore m \<Rightarrow> apfst MemoryStore (mem_Load pr cd m c pid)
        | RedisStore s \<Rightarrow> apfst RedisStore (rd_Load pr cd rc s c pid)) \<rparr>"

lemma backend_memory:
  "run_prog (backend_ops pr cd rc) p cs i (MemoryStore m) = apfst MemoryStore (run_prog (mem_ops pr cd) p cs i m)"
  by (induction p arbitrary: i m) (simp_all add: backend_ops_def mem_ops_def Let_def apfst_def map_prod_def split: prod.splits)

lemma backend_redis:
  "run_prog (backend_ops pr cd rc) p cs i (RedisStore r) = apfst RedisStore (run_prog (rd_ops pr cd rc) p cs i r)"
  by (induction p arbitrary: i r) (simp_all add: backend_ops_def rd_ops_def Let_def apfst_def map_prod_def split: prod.splits)

subsection \<open>Listeners\<close>

record http_Server =
  hs_Addr :: string
  hs_ReadTimeout :: int
  hs_WriteTimeout :: int
  hs_Handler :: "string \<Rightarrow> string \<Rightarrow> target option"

definition newHTTPServer :: "Config \<Rightarrow> http_Server" where
  "newHTTPServer cfg =
     \<lparr> hs_Addr = srv_Addr (cfg_server cfg), hs_ReadTimeout = srv_ReadTimeout (cfg_server cfg),
       hs_WriteTimeout = srv_WriteTimeout (cfg_server cfg),
       hs_Handler = (\<lambda>meth path. Some (Handler cfg meth path)) \<rparr>"

text \<open>
  The mux of the metrics listener has one pattern, \<^verbatim>\<open>GET /metrics\<close>: another method on that path is not allowed, any
  other path is not found (\<^term>\<open>None\<close>). It has no timeouts.
\<close>

definition newMetricsServer :: "Config \<Rightarrow> http_Server option" where
  "newMetricsServer cfg =
     (if srv_MetricsAddr (cfg_server cfg) = '''' then None
      else Some \<lparr> hs_Addr = srv_MetricsAddr (cfg_server cfg), hs_ReadTimeout = 0, hs_WriteTimeout = 0,
                  hs_Handler = (\<lambda>meth path.
                    if path \<noteq> ''/metrics'' then None
                    else if meth = ''GET'' \<or> meth = ''HEAD'' then Some MetricsHandler
                    else Some MethodNotAllowed) \<rparr>)"

definition ruleCount :: "runtime \<Rightarrow> (string \<Rightarrow> regexp option) \<Rightarrow> yaml_rule list \<Rightarrow> nat" where
  "ruleCount rt rxc file = (case DefaultRules rt rxc file of Inl e \<Rightarrow> 0 | Inr rules \<Rightarrow> length rules)"

subsection \<open>Start\<close>

text \<open>What the process finds: environment, files, random bytes, the connection to Redis; and its embedded files, parsed.\<close>

record 's host =
  ho_getenv :: "string \<Rightarrow> string"
  ho_readFile :: "string \<Rightarrow> string option"
  ho_yaml :: "string \<Rightarrow> Config option"
  ho_random :: "string option"
  ho_client :: "client_Options \<Rightarrow> 's"

record assets =
  as_partial :: "partialConfig option"
  as_rules :: "yaml_rule list"
  as_compile :: "string \<Rightarrow> regexp option"
  as_names :: namesDict
  as_cities :: citiesDict
  as_synth :: "string \<Rightarrow> string option"

definition config_path :: "(string \<Rightarrow> string) \<Rightarrow> string \<Rightarrow> string" where
  "config_path getenv flag = (let env = getenv ''PDN_CONFIG'' in if env \<noteq> '''' then env else flag)"

text \<open>\<^verbatim>\<open>MustPartial\<close> panics when the embedded rules cannot be read.\<close>

definition MustPartial :: "partialConfig option \<Rightarrow> partialStrategy option" where
  "MustPartial file = map_option NewPartial file"

definition strategies :: "runtime \<Rightarrow> 'g rand_src \<Rightarrow> assets \<Rightarrow> (string \<times> strategy) list option" where
  "strategies rt R fs =
     do { p \<leftarrow> MustPartial (as_partial fs);
          Some [(''partial'', partialMask_strategy rt p),
                (''full'', fullStrategy rt),
                (''token'', tokenStrategy rt),
                (''synthetic'', syntheticStrategy_of rt R (load (as_synth fs)))] }"

record 's service =
  sc_server :: Server
  sc_store :: "'s backend"
  sc_logger :: logger
  sc_http :: http_Server
  sc_metrics :: "http_Server option"
  sc_rules :: nat

datatype 'a startup = Exit string | StartPanic | Started 'a

definition start ::
  "runtime \<Rightarrow> 'g rand_src \<Rightarrow> primitives \<Rightarrow> 's host \<Rightarrow> assets \<Rightarrow> string \<Rightarrow> 's service startup" where
  "start rt R pr h fs flag =
     (case Load (ho_readFile h) (ho_yaml h) (config_path (ho_getenv h) flag) of
        Inl e \<Rightarrow> Exit ''config load failed''
      | Inr cfg \<Rightarrow>
          (case loadEncryptionKey cfg (ho_getenv h) (ho_random h) of
             Inl e \<Rightarrow> Exit ''encryption key load failed''
           | Inr key \<Rightarrow>
               (case newStore (ho_client h) (ho_getenv h) cfg key of
                  Inl msg \<Rightarrow> Exit msg
                | Inr st \<Rightarrow>
                    (case Default rt (as_compile fs) (as_rules fs) (as_names fs) (as_cities fs) of
                       None \<Rightarrow> StartPanic
                     | Some ds \<Rightarrow>
                         (case strategies rt R fs of
                            None \<Rightarrow> StartPanic
                          | Some strats \<Rightarrow>
                              let pipeline = NewPipeline ds;
                                  eng = New_engine pipeline strats
                              in Started
                                   \<lparr> sc_server = \<lparr> sv_cfg = cfg, sv_engine = eng, sv_HashID = backend_HashID pr st,
                                                  sv_getenv = ho_getenv h \<rparr>,
                                     sc_store = st,
                                     sc_logger = newLogger (log_Level (cfg_logging cfg)) (log_Format (cfg_logging cfg)),
                                     sc_http = newHTTPServer cfg,
                                     sc_metrics = newMetricsServer cfg,
                                     sc_rules = ruleCount rt (as_compile fs) (as_rules fs) \<rparr>)))))"

lemma startE:
  assumes "start rt R pr h fs flag = Started svc"
  obtains cfg key ds p rules where
    "Load (ho_readFile h) (ho_yaml h) (config_path (ho_getenv h) flag) = Inr cfg" and "Validate cfg = None"
    and "loadEncryptionKey cfg (ho_getenv h) (ho_random h) = Inr key"
    and "newStore (ho_client h) (ho_getenv h) cfg key = Inr (sc_store svc)"
    and "DefaultRules rt (as_compile fs) (as_rules fs) = Inr rules"
    and "Default rt (as_compile fs) (as_rules fs) (as_names fs) (as_cities fs) = Some ds"
    and "sv_cfg (sc_server svc) = cfg" and "e_pipeline (sv_engine (sc_server svc)) = NewPipeline ds"
    and "e_strategies (sv_engine (sc_server svc)) =
      [(''partial'', partialMask_strategy rt (NewPartial p)), (''full'', fullStrategy rt), (''token'', tokenStrategy rt),
       (''synthetic'', syntheticStrategy_of rt R (load (as_synth fs)))]"
proof -
  obtain cfg where l: "Load (ho_readFile h) (ho_yaml h) (config_path (ho_getenv h) flag) = Inr cfg"
    using assms by (auto simp: start_def split: sum.splits)
  obtain key where k: "loadEncryptionKey cfg (ho_getenv h) (ho_random h) = Inr key"
    using assms l by (auto simp: start_def split: sum.splits)
  obtain st where s: "newStore (ho_client h) (ho_getenv h) cfg key = Inr st"
    using assms l k by (auto simp: start_def split: sum.splits)
  obtain ds where d: "Default rt (as_compile fs) (as_rules fs) (as_names fs) (as_cities fs) = Some ds"
    using assms l k s by (auto simp: start_def split: option.splits)
  obtain strats where t: "strategies rt R fs = Some strats"
    using assms l k s d by (auto simp: start_def split: option.splits)
  obtain rules where r: "DefaultRules rt (as_compile fs) (as_rules fs) = Inr rules"
    using d by (auto simp: Default_def split: sum.splits)
  obtain p where p: "as_partial fs = Some p" using t by (auto simp: strategies_def MustPartial_def split: Option.bind_splits)
  have v: "Validate cfg = None" using l by (auto simp: Load_def split: option.splits)
  show thesis
    using that [OF l v k _ r d, of p] assms l k s d t p
    by (auto simp: start_def Let_def New_engine_def strategies_def MustPartial_def)
qed

subsection \<open>Life of the process\<close>

text \<open>
  The main goroutine and those of the listeners. A failing HTTP listener ends the process at once (\<^verbatim>\<open>os.Exit\<close> skips
  the deferred close of the store), a failing metrics listener is only logged. After a signal the listeners are shut
  down one after the other, then the store is closed.
\<close>

datatype phase = Serving | StopHTTP | StopMetrics | Exited nat

record 's process =
  pc_phase :: phase
  pc_log :: "string list"
  pc_listening :: bool
  pc_metrics :: bool
  pc_closed :: bool
  pc_store :: "'s backend"

fun backend_Close :: "'s backend \<Rightarrow> 's backend" where
  "backend_Close (MemoryStore m) = MemoryStore (mem_Close m)"
| "backend_Close (RedisStore r) = RedisStore r"

definition launch :: "'s service \<Rightarrow> 's process" where
  "launch svc =
     \<lparr> pc_phase = Serving, pc_log = [''starting pdn-shield''], pc_listening = True,
       pc_metrics = (sc_metrics svc \<noteq> None), pc_closed = False, pc_store = sc_store svc \<rparr>"

definition exited :: "phase \<Rightarrow> bool" where
  "exited ph \<longleftrightarrow> (case ph of Exited n \<Rightarrow> True | _ \<Rightarrow> False)"

inductive proc_step :: "'s service \<Rightarrow> 's process \<Rightarrow> 's process \<Rightarrow> bool" for svc where
  http_failed: "\<not> exited (pc_phase st) \<Longrightarrow> pc_listening st \<Longrightarrow>
    proc_step svc st (st\<lparr> pc_log := pc_log st @ [''http server failed''], pc_phase := Exited 1 \<rparr>)"
| metrics_failed: "\<not> exited (pc_phase st) \<Longrightarrow> pc_metrics st \<Longrightarrow>
    proc_step svc st (st\<lparr> pc_log := pc_log st @ [''metrics server failed''], pc_metrics := False \<rparr>)"
| signal: "pc_phase st = Serving \<Longrightarrow>
    proc_step svc st (st\<lparr> pc_log := pc_log st @ [''shutting down''], pc_phase := StopHTTP \<rparr>)"
| stop_http: "pc_phase st = StopHTTP \<Longrightarrow>
    proc_step svc st (st\<lparr> pc_log := pc_log st @ (if failed then [''shutdown failed''] else []),
      pc_listening := False, pc_phase := StopMetrics \<rparr>)"
| stop_metrics: "pc_phase st = StopMetrics \<Longrightarrow> failed \<longrightarrow> sc_metrics svc \<noteq> None \<Longrightarrow>
    proc_step svc st (st\<lparr> pc_log := pc_log st @ (if failed then [''metrics shutdown failed''] else []) @ [''stopped''],
      pc_metrics := False, pc_store := backend_Close (pc_store st), pc_closed := True, pc_phase := Exited 0 \<rparr>)"

inductive proc_reach :: "'s service \<Rightarrow> 's process \<Rightarrow> bool" for svc where
  launched: "proc_reach svc (launch svc)"
| moved: "proc_reach svc st \<Longrightarrow> proc_step svc st st' \<Longrightarrow> proc_reach svc st'"

inductive_cases proc_stepE: "proc_step svc st st'"

text \<open>
  The exit codes: 0 only after a signal, with both listeners down and the store closed; 1 only when the HTTP
  listener failed, and then the store is left open.
\<close>

lemma proc_invariant:
  assumes "proc_reach svc st"
  shows "(pc_phase st = Serving \<longrightarrow> pc_listening st) \<and>
    (pc_phase st = StopMetrics \<longrightarrow> \<not> pc_listening st) \<and>
    (pc_phase st \<in> {StopHTTP, StopMetrics, Exited 0} \<longrightarrow> ''shutting down'' \<in> set (pc_log st)) \<and>
    (pc_closed st \<longleftrightarrow> pc_phase st = Exited 0) \<and>
    (pc_phase st = Exited 0 \<longrightarrow> \<not> pc_listening st \<and> \<not> pc_metrics st \<and> last (pc_log st) = ''stopped'') \<and>
    (exited (pc_phase st) \<longrightarrow> pc_phase st = Exited 0 \<or> pc_phase st = Exited 1 \<and> last (pc_log st) = ''http server failed'')"
  using assms
proof (induction rule: proc_reach.induct)
  case launched
  show ?case by (simp add: launch_def exited_def)
next
  case (moved st st')
  from moved.hyps(2) moved.IH show ?case by (cases rule: proc_step.cases) (auto simp: exited_def)
qed

text \<open>The process can always be stopped: a signal and two shutdowns end it with code 0, whatever failed before.\<close>

lemma proc_stops:
  assumes "proc_reach svc st" and "\<not> exited (pc_phase st)"
  shows "\<exists>st'. proc_reach svc st' \<and> pc_phase st' = Exited 0 \<and> pc_closed st'"
proof -
  have fin: "\<exists>st'. proc_reach svc st' \<and> pc_phase st' = Exited 0 \<and> pc_closed st'"
    if "proc_reach svc x" "pc_phase x = StopMetrics" for x
    using proc_reach.moved [OF that(1) proc_step.stop_metrics [OF that(2), of False]] by fastforce
  have http: "\<exists>st'. proc_reach svc st' \<and> pc_phase st' = Exited 0 \<and> pc_closed st'"
    if "proc_reach svc x" "pc_phase x = StopHTTP" for x
    using fin proc_reach.moved [OF that(1) proc_step.stop_http [OF that(2), of svc False]] by force
  show ?thesis
  proof (cases "pc_phase st")
    case Serving
    then show ?thesis using http proc_reach.moved [OF assms(1) proc_step.signal] by force
  next
    case (Exited n)
    then show ?thesis using assms(2) by (simp add: exited_def)
  qed (use assms(1) http fin in blast)+
qed

subsection \<open>The default detectors in the engine\<close>

lemma same_width_window:
  assumes "same_width rt tx" and "part \<in> set (window_parts tx)"
  shows "same_width rt part"
proof -
  obtain ws where ws: "windows tx = Some ws" "\<forall>w \<in> set ws. window_ok tx w" by (rule windows_spec)
  then obtain w where w: "w \<in> set ws" "Prelude.slice tx (w_start w) (w_end w) = Some part"
    using assms(2) by (auto simp: window_parts_def split: option.splits)
  with ws(2) window_part [of tx w] assms(1) show ?thesis by (auto simp: same_width_def list_all_iff)
qed

lemma default_detects:
  assumes "go_runtime rt" and "\<And>p re. rxc p = Some re \<Longrightarrow> wf_caps (re_rx re)"
    and "DefaultRules rt rxc file = Inr rules" and "list_all yaml_keywords_ok file"
    and "Default rt rxc file d cd = Some ds" and "same_width rt tx"
  shows "detects_in_range rt (NewPipeline ds) tx"
proof -
  let ?t = "\<lparr> Raw = tx, Lower = ToLower rt tx \<rparr>"
  have "list_all Regex_Props.rule_ok rules" using LoadRules_ok [OF assms(2)] assms(3,4) by (simp add: DefaultRules_def)
  moreover have "LowerOK ?t" using same_width_length [OF assms(6)] by (simp add: LowerOK_def)
  ultimately have "list_all (run_ok (length tx)) (default_runs rt rules d cd ?t)"
    using default_runs_ok [OF assms(1), of rules ?t] by simp
  then show ?thesis
    using default_in_range [OF _ assms(3,5), of ?t] by (auto simp: detects_in_range_def NewPipeline_def)
qed

lemma default_engine_ok:
  assumes "go_runtime rt" and "\<And>p re. rxc p = Some re \<Longrightarrow> wf_caps (re_rx re)"
    and "DefaultRules rt rxc file = Inr rules" and "list_all yaml_keywords_ok file"
    and "Default rt rxc file d cd = Some ds" and "same_width rt tx"
  shows "detectors_in_range rt (NewPipeline ds) tx"
  using default_detects [OF assms(1-5)] same_width_window [OF assms(6)] assms(6)
  by (simp add: detectors_in_range_def list_all_iff)

context go_runtime
begin

lemma full_contract: "mask_strategy (full_mask rt)"
  by unfold_locales

end

lemma service_strategies:
  assumes "go_runtime rt" and "rand_source R" and "dict_ok (load (as_synth fs))" and "start rt R pr h fs flag = Started svc"
  shows "\<forall>p \<in> set (e_strategies (sv_engine (sc_server svc))). mask_strategy (st_Mask (snd p))"
proof -
  obtain p where e: "e_strategies (sv_engine (sc_server svc)) =
      [(''partial'', partialMask_strategy rt (NewPartial p)), (''full'', fullStrategy rt), (''token'', tokenStrategy rt),
       (''synthetic'', syntheticStrategy_of rt R (load (as_synth fs)))]"
    by (rule startE [OF assms(4)])
  have "mask_strategy (partial_mask rt (NewPartial p))" by (rule go_runtime.partial_mask_contract [OF assms(1) NewPartial_ok])
  moreover have "mask_strategy (full_mask rt)" by (rule go_runtime.full_contract [OF assms(1)])
  moreover have "mask_strategy (synthetic_mask rt R (load (as_synth fs)))"
    by (rule rand_source.synthetic_contract [OF assms(2,3)])
  ultimately show ?thesis
    by (simp add: e partialMask_strategy_def fullStrategy_def tokenStrategy_def syntheticStrategy_of_def token_mask_contract)
qed

lemma service_engine_ok:
  assumes "go_runtime rt" and "rand_source R" and "dict_ok (load (as_synth fs))"
    and "\<And>p re. as_compile fs p = Some re \<Longrightarrow> wf_caps (re_rx re)" and "list_all yaml_keywords_ok (as_rules fs)"
    and "start rt R pr h fs flag = Started svc" and "same_width rt tx"
  shows "engine_ok rt (sv_engine (sc_server svc)) tx"
proof -
  obtain ds rules where d: "DefaultRules rt (as_compile fs) (as_rules fs) = Inr rules"
    "Default rt (as_compile fs) (as_rules fs) (as_names fs) (as_cities fs) = Some ds"
    and p: "e_pipeline (sv_engine (sc_server svc)) = NewPipeline ds"
    by (rule startE [OF assms(6)])
  from default_engine_ok [OF assms(1,4) d(1) assms(5) d(2) assms(7)] service_strategies [OF assms(1-3,6)]
  show ?thesis by (simp add: engine_ok_def p)
qed

subsection \<open>Claims\<close>

lemma newStore_kind:
  assumes "loadEncryptionKey cfg getenv rnd = Inr key" and "newStore new_client getenv cfg key = Inr st"
  shows "length key = 32 \<and>
    (case st of MemoryStore m \<Rightarrow> sto_Kind (cfg_store cfg) \<noteq> ''redis'' \<and> m = \<lparr> mem_items = Map.empty,
                  mem_cipher = \<lparr> cph_key = key \<rparr>, mem_key = key, mem_stopped = False \<rparr>
     | RedisStore r \<Rightarrow> sto_Kind (cfg_store cfg) = ''redis'' \<and> rd_cipher r = \<lparr> cph_key = key \<rparr> \<and> rd_key r = key)"
  using assms
  by (auto simp: newStore_def newRedisStore_def newMemoryStore_def NewRedisWithOptions_def NewMemory_def New_def
      split: if_splits sum.splits)

definition store_typed :: "Config \<Rightarrow> 's backend \<Rightarrow> bool" where
  "store_typed cfg st \<longleftrightarrow>
     (case st of
        MemoryStore m \<Rightarrow> sto_Kind (cfg_store cfg) = ''memory'' \<and> length (mem_key m) = 32
      | RedisStore r \<Rightarrow> sto_Kind (cfg_store cfg) = ''redis'' \<and> length (rd_key r) = 32)"

lemma validated_kind:
  "Validate cfg = None \<Longrightarrow> sto_Kind (cfg_store cfg) = ''memory'' \<or> sto_Kind (cfg_store cfg) = ''redis''"
  by (auto simp: Validate_None validateBasics_def split: if_splits)

text \<open>
  C15. A service that has started is put together consistently. Its configuration is valid, its store is of the
  configured kind and has a key of 32 bytes, and whatever strategy a configured system may mask with (its own, or one
  that the request names and the system may choose) is there under its name, the partial one for a system that names
  none, and keeps the contract of a strategy. So no request meets a missing strategy.
\<close>

theorem started_service_typed:
  assumes "go_runtime rt" and "rand_source R" and "dict_ok (load (as_synth fs))"
    and "start rt R pr h fs flag = Started svc"
  defines "cfg \<equiv> sv_cfg (sc_server svc)"
  shows "Validate cfg = None \<and> store_typed cfg (sc_store svc) \<and>
    (\<forall>sys override name. sys \<in> set (cfg_systems cfg) \<and> strategyOverride sys override = (name, 0) \<longrightarrow>
       (\<exists>s. resolveStrategy (sv_engine (sc_server svc)) name = Some s \<and>
          st_Name s = (if name = '''' then ''partial'' else name) \<and> mask_strategy (st_Mask s)))"
proof -
  obtain c key p where v: "Validate c = None" and k: "loadEncryptionKey c (ho_getenv h) (ho_random h) = Inr key"
    and st: "newStore (ho_client h) (ho_getenv h) c key = Inr (sc_store svc)" and c: "sv_cfg (sc_server svc) = c"
    and e: "e_strategies (sv_engine (sc_server svc)) =
      [(''partial'', partialMask_strategy rt (NewPartial p)), (''full'', fullStrategy rt), (''token'', tokenStrategy rt),
       (''synthetic'', syntheticStrategy_of rt R (load (as_synth fs)))]"
    by (rule startE [OF assms(4)])
  have typed: "store_typed c (sc_store svc)"
    using newStore_kind [OF k st] validated_kind [OF v] by (auto simp: store_typed_def split: backend.splits)
  have "\<exists>s. resolveStrategy (sv_engine (sc_server svc)) name = Some s \<and>
      st_Name s = (if name = '''' then ''partial'' else name) \<and> mask_strategy (st_Mask s)"
    if "sys \<in> set (cfg_systems c)" "strategyOverride sys override = (name, 0)" for sys override name
  proof -
    have "system_valid sys" using v that(1) by (simp add: Validate_None)
    with that(2) have "name = '''' \<or> ValidStrategy name"
      by (auto simp: strategyOverride_ok system_valid_def split: if_splits)
    then have "\<exists>s. resolveStrategy (sv_engine (sc_server svc)) name = Some s \<and>
        st_Name s = (if name = '''' then ''partial'' else name) \<and> s \<in> snd ` set (e_strategies (sv_engine (sc_server svc)))"
      by (auto simp: resolveStrategy_def e ValidStrategy_def validStrategies_def StrategyPartial_def StrategyFull_def
          StrategyToken_def StrategySynthetic_def partialMask_strategy_def fullStrategy_def tokenStrategy_def syntheticStrategy_of_def)
    with service_strategies [OF assms(1-4)] show ?thesis by force
  qed
  with v typed show ?thesis unfolding cfg_def c by blast
qed

text \<open>
  C2. The whole service keeps its promise: once the process has started on a valid configuration with the in-memory
  store, after \<^verbatim>\<open>POST /mask\<close> has answered with an id and a masked text, \<^verbatim>\<open>POST /unmask\<close> with that id and that text
  and the same headers, before the time to live has passed, answers 200 with the original text and no miss. The
  detectors are the default ones, whatever the rules file holds that loads and has no empty keyword; the text is one
  whose runes keep their width in lower case; the id may be the caller's or a generated one, the strategy the
  system's or an allowed override, each of the four.
\<close>

theorem service_mask_unmask:
  assumes "store_env pr cd" and "go_runtime rt" and "rand_source R" and "dict_ok (load (as_synth fs))"
    and "\<And>p re. as_compile fs p = Some re \<Longrightarrow> wf_caps (re_rx re)" and "list_all yaml_keywords_ok (as_rules fs)"
    and "start rt R pr h fs flag = Started svc" and "same_width rt (mq_Text req)"
  defines "sv \<equiv> sc_server svc"
  assumes "ar_system (authenticate (sv_cfg sv) (sv_getenv sv) header routeMask) = Some sys" and "sys_Unmask sys"
    and "run_prog (backend_ops pr cd rc) (post_mask rt pr sv c header (Body req False)) cs 0 (MemoryStore m) = (b, Some res)"
    and "rs_body (hr_resp res) = MaskBody pid masked found strategy"
    and "utf8_masking rt (sv_engine sv) (mq_Text req) ((optionsFor (sv_cfg sv) sys)\<lparr> opt_Strategy := strategy \<rparr>) (hc_now c)"
    and "\<And>rcd. mem_view pr cd m (cl_now (cs 0)) pid = Inr (Some rcd) \<Longrightarrow> rec_Hash rcd \<noteq> hashText pr (mq_Text req)"
    and "\<And>bs. hc_random c = Some bs \<Longrightarrow> length bs = 16" and "0 \<le> sto_TTL (cfg_store (sv_cfg sv))"
    and "call_ok (cs 1)" and "cl_now (cs 0) \<le> cl_now (cs 1)" and "cl_now (cs 1) \<le> cl_now (ds 0)"
    and "sto_TTL (cfg_store (sv_cfg sv)) = 0 \<or> cl_now (ds 0) < cl_now (cs 1) + sto_TTL (cfg_store (sv_cfg sv))"
  shows "\<exists>b' res'. run_prog (backend_ops pr cd rc)
      (post_unmask rt sv header (Body \<lparr> uq_ID = pid, uq_Text = masked \<rparr> False)) ds 0 b = (b', Some res') \<and>
    rs_status (hr_resp res') = 200 \<and> rs_body (hr_resp res') = UnmaskBody (mq_Text req) 0"
proof -
  obtain m' where m: "run_prog (mem_ops pr cd) (post_mask rt pr sv c header (Body req False)) cs 0 m = (m', Some res)"
    and b: "b = MemoryStore m'"
    using assms(12) unfolding backend_memory by (auto simp: apfst_def map_prod_def split: prod.splits)
  have e: "engine_ok rt (sv_engine sv) (mq_Text req)"
    unfolding sv_def by (rule service_engine_ok [OF assms(2-8)])
  have v: "Validate (sv_cfg sv) = None" unfolding sv_def by (rule startE [OF assms(7)]) simp
  have "\<exists>m'' res'. run_prog (mem_ops pr cd)
      (post_unmask rt sv header (Body \<lparr> uq_ID = pid, uq_Text = masked \<rparr> False)) ds 0 m' = (m'', Some res') \<and>
    rs_status (hr_resp res') = 200 \<and> rs_body (hr_resp res') = UnmaskBody (mq_Text req) 0"
    by (rule http_mask_unmask [where m = m, OF assms(1,2) e v assms(10,11) m assms(13) assms(14)])
      (fact assms)+
  then show ?thesis unfolding b backend_memory by auto
qed

end
