(* ===== verification/Regex_Witness.thy ===== *)
theory Regex_Witness
  imports Regex_Props "HOL-Library.Code_Target_Nat"
begin

text \<open>
  The rule \<^verbatim>\<open>passport\<close> of \<^verbatim>\<open>rules.yaml\<close> as an instance to evaluate the detector on. \<open>demo_compile\<close> stands for
  \<^verbatim>\<open>regexp.Compile\<close> on the two patterns that rule needs.
\<close>

definition nbsp :: rx where
  "nbsp = Cls (\<lambda>r. space_class r \<or> r = 0xA0 \<or> r = 0x202F)"

text \<open>A literal, case-insensitive for letters whose case pair is given by the lower-case table.\<close>

definition lit :: "runtime \<Rightarrow> rune list \<Rightarrow> rx" where
  "lit rt rs = foldr (\<lambda>c. Cat (Cls (\<lambda>x. x = c \<or> uc_lower rt x = c))) rs Eps"

definition dd :: "nat \<Rightarrow> rx" where
  "dd n = rx_rep rx_digit n n"

definition dd_dd :: rx where
  "dd_dd = rx_cats [dd 2, nbsp, dd 2]"

definition comma :: rx where
  "comma = rx_opt (Cls (\<lambda>r. r = 0x2C \<or> r = 0x2E))"

definition passport_rx :: "runtime \<Rightarrow> rx" where
  "passport_rx rt = rx_alts
    [rx_cats [lit rt [0x441, 0x435, 0x440, 0x438, 0x44f] \<comment> \<open>seriya\<close>, Star nbsp, rx_opt (lit rt [0x3A]), Star nbsp, Cap 1 (dd 4),
        Star (Cls (\<lambda>r. space_class r \<or> r = 0xA0 \<or> r = 0x202F \<or> r = 0x2C \<or> r = 0x2E)),
        lit rt [0x43d, 0x43e, 0x43c, 0x435, 0x440] \<comment> \<open>nomer\<close>, Star nbsp, rx_opt (lit rt [0x3A]), Star nbsp, Cap 2 (dd 6)],
     rx_cats [lit rt [0x43f, 0x430, 0x441, 0x43f, 0x43e, 0x440, 0x442] \<comment> \<open>pasport\<close>, Star nbsp, rx_opt (lit rt [0x3A]), Star nbsp,
        rx_opt (Cat (lit rt [0x441, 0x2e] \<comment> \<open>s.\<close>) (Star nbsp)), Cap 3 (dd 4), Star nbsp,
        rx_opt (rx_alts [lit rt [0x2116] \<comment> \<open>(numero sign)\<close>, lit rt [0x43d, 0x43e, 0x43c, 0x435, 0x440] \<comment> \<open>nomer\<close>, lit rt [0x43d, 0x2e] \<comment> \<open>n.\<close>, lit rt [0x43d, 0x43e, 0x43c, 0x2e] \<comment> \<open>nom.\<close>]), Star nbsp, Cap 4 (dd 6)],
     rx_cats [Wordb, Cap 5 (dd 4), rx_plus nbsp, Cap 6 (dd 6), Wordb],
     rx_cats [Wordb, Cap 7 (dd 4), Star nbsp, rx_alts [lit rt [0x2116] \<comment> \<open>(numero sign)\<close>, lit rt [0x43d, 0x43e, 0x43c, 0x435, 0x440] \<comment> \<open>nomer\<close>, lit rt [0x43d, 0x2e] \<comment> \<open>n.\<close>, lit rt [0x43d, 0x43e, 0x43c, 0x2e] \<comment> \<open>nom.\<close>], Star nbsp, Cap 8 (dd 6), Wordb],
     rx_cats [Wordb, Cap 9 dd_dd, nbsp, Cap 10 (dd 6), Wordb],
     rx_cats [lit rt [0x441, 0x435, 0x440, 0x438, 0x44f] \<comment> \<open>seriya\<close>, Star nbsp, rx_opt (lit rt [0x3A]), Star nbsp, Cap 11 dd_dd, Star nbsp, comma,
        Star nbsp, rx_alts [lit rt [0x2116] \<comment> \<open>(numero sign)\<close>, rx_cats [lit rt [0x43d, 0x43e, 0x43c, 0x435, 0x440] \<comment> \<open>nomer\<close>, Star nbsp, rx_opt (lit rt [0x3A])]], Star nbsp, Cap 12 (dd 6)],
     rx_cats [Wordb, Cap 13 dd_dd, Star nbsp, comma, Star nbsp, rx_alts [lit rt [0x2116] \<comment> \<open>(numero sign)\<close>, rx_cats [lit rt [0x43d, 0x43e, 0x43c, 0x435, 0x440] \<comment> \<open>nomer\<close>, Star nbsp, rx_opt (lit rt [0x3A])]], Star nbsp, Cap 14 (dd 6), Wordb]]"

definition passport_rule :: yaml_rule where
  "passport_rule =
     \<lparr> rl_Name = ''passport'', rl_Category = CatPassport, rl_Pattern = ''passport'', rl_Validator = ''passport'',
       rl_ValidatorSoftContext = [], rl_Confidence = 9 / 10, rl_Context = [], rl_RequireContext = False,
       rl_ContextWindow = 0, rl_ContextAfter = [], rl_ContextAfterWindow = 0, rl_Group = 0, rl_Reclassify = [],
       rl_ReclassifyDate = False, rl_RejectContext = [], rl_RejectContextWindow = 0, rl_DenyContext = [],
       rl_DenyContextWindow = 0, rl_Standalone = None, rl_NotInDigitSequence = False, rl_MatchLower = True,
       rl_ContextAllowDateGap = False \<rparr>"

definition demo_compile :: "runtime \<Rightarrow> string \<Rightarrow> regexp option" where
  "demo_compile rt p =
     (if p = ''passport'' \<or> p = ''(?i)passport''
      then Some \<lparr> re_rx = passport_rx rt, re_NumSubexp = 14 \<rparr> else None)"

definition demo_rules :: "runtime \<Rightarrow> Rule list" where
  "demo_rules rt = (case LoadRules rt (demo_compile rt) [passport_rule] of Inr rs \<Rightarrow> rs | Inl _ \<Rightarrow> [])"

definition demo_text_of :: "runtime \<Rightarrow> string \<Rightarrow> Text" where
  "demo_text_of rt s = \<lparr> Raw = s, Lower = ToLower rt s \<rparr>"

text \<open>
  The lower-case table with two letters whose lower-case form has another length: U+023A grows from
  two bytes to three, U+0130 shrinks from two bytes to one.
\<close>

definition wide_runtime :: runtime where
  "wide_runtime = ru_runtime\<lparr> uc_lower := (\<lambda>r. if r = 0x23A then 0x2C65 else if r = 0x130 then 0x69 else ru_lower r) \<rparr>"

lemma lit_caps [simp]: "cap_list (lit rt rs) = [] \<and> star_capless (lit rt rs)"
  by (induction rs) (simp_all add: lit_def)

lemma dd_caps [simp]: "cap_list (dd n) = [] \<and> star_capless (dd n)"
proof -
  have "cap_list (rx_times rx_digit k) = [] \<and> star_capless (rx_times rx_digit k)" for k
    by (induction k) (simp_all add: rx_digit_def)
  moreover have "cap_list (rx_upto rx_digit k) = [] \<and> star_capless (rx_upto rx_digit k)" for k
    by (induction k) (simp_all add: rx_digit_def)
  ultimately show ?thesis by (simp add: dd_def rx_rep_def)
qed

lemma demo_compile_wf: "demo_compile rt p = Some re \<Longrightarrow> wf_caps (re_rx re)"
  by (auto simp: demo_compile_def wf_caps_def passport_rx_def rx_opt_def rx_plus_def dd_dd_def comma_def nbsp_def
      split: if_splits)

lemma passport_rule_keywords: "list_all yaml_keywords_ok [passport_rule]"
  by (simp add: yaml_keywords_ok_def passport_rule_def)

lemma passport_rule_loads: "LoadRules rt (demo_compile rt) [passport_rule] = Inr (demo_rules rt)"
  by (simp add: demo_rules_def compileRule_def demo_compile_def passport_rule_def validateRuleValidator_def
      Validators_def)

definition passport_text :: string where
  "passport_text = encode_runes [0xC5] @ '' 4510 123456 '' @ encode_runes [0xC5]"

definition shifted_text :: string where
  "shifted_text = encode_runes [0x23A] @ '' 4510 123456 '' @ encode_runes [0x130]"

definition starts :: "Span list option \<Rightarrow> (int \<times> int) list option" where
  "starts r = map_option (map (\<lambda>s. (sp_Start s, sp_End s))) r"

text \<open>
  \<^verbatim>\<open>LowerOK\<close> compares only the lengths of the text and of its lower-case form. In \<open>shifted_text\<close> the two changes of
  length cancel out, so the rule is matched on the lower-case text although every offset between the two
  letters is one byte off: the passport number that is found between two letters of constant length is missed.
\<close>

lemma passport_found:
  "starts (DetectLower_regex wide_runtime (demo_rules wide_runtime) (demo_text_of wide_runtime passport_text)) = Some [(3, 14)]"
  by code_simp

lemma passport_missed:
  "LowerOK (demo_text_of wide_runtime shifted_text) \<and>
   starts (DetectLower_regex wide_runtime (demo_rules wide_runtime) (demo_text_of wide_runtime shifted_text)) = Some []"
  by code_simp

lemma passport_rule_ok: "list_all (yaml_rule_ok (demo_compile rt)) [passport_rule]"
proof -
  have "pattern_ok (demo_compile rt p)" for p using demo_compile_wf by (simp add: pattern_ok_def split: option.split)
  with passport_rule_keywords show ?thesis by (simp add: yaml_rule_ok_def)
qed

theorem regex_detection_returns_witness:
  "\<exists>ss. DetectLower_regex wide_runtime (demo_rules wide_runtime) (demo_text_of wide_runtime passport_text) = Some ss"
  by (rule regex_detection_returns [OF passport_rule_loads passport_rule_ok])

text \<open>
  The pattern \<^verbatim>\<open>(?:(aa)|(b)|c)+\<close> compiles, but its groups are repeated: on the text below the first group matches
  after the second one, the bounds that \<^verbatim>\<open>captureBounds\<close> computes are 2 and 1, and the slice of the match panics.
\<close>

definition repeated_group :: regexp where
  "repeated_group = \<lparr> re_rx = rx_plus (rx_alts [Cap 1 (rx_lit [0x61, 0x61]), Cap 2 (rx_lit [0x62]), rx_lit [0x63]]),
     re_NumSubexp = 2 \<rparr>"

definition repeated_rules :: "Rule list" where
  "repeated_rules =
     (case LoadRules ru_runtime (\<lambda>p. Some repeated_group)
        [passport_rule\<lparr> rl_Pattern := ''(?:(aa)|(b)|c)+'', rl_Validator := '''', rl_MatchLower := False \<rparr>] of
        Inr rs \<Rightarrow> rs | Inl _ \<Rightarrow> [])"

lemma repeated_group_panics:
  "length repeated_rules = 1 \<and> captureBounds ''bcaa'' repeated_group 0 4 = Some (2, 1) \<and>
   DetectLower_regex ru_runtime repeated_rules (demo_text_of ru_runtime ''bcaa'') = None"
  by code_simp

theorem regex_spans_justified_witness:
  "\<exists>r \<in> set (demo_rules wide_runtime). span_justified wide_runtime r (demo_text_of wide_runtime passport_text) 3 14"
proof -
  let ?t = "demo_text_of wide_runtime passport_text"
  from passport_found obtain s where
    d: "DetectLower_regex wide_runtime (demo_rules wide_runtime) ?t = Some [s]"
    and s: "sp_Start s = 3" "sp_End s = 14"
    by (auto simp: starts_def)
  have "\<exists>r \<in> set (demo_rules wide_runtime). \<exists>a e. sp_Start s = int a \<and> sp_End s = int e \<and>
      reclassify wide_runtime ?t a e r = Some (sp_Category s) \<and> span_justified wide_runtime r ?t a e"
    by (rule regex_spans_justified [OF _ passport_rule_loads passport_rule_keywords d])
       (simp_all add: demo_compile_wf)
  then obtain r a e where "r \<in> set (demo_rules wide_runtime)" "span_justified wide_runtime r ?t a e"
    "sp_Start s = int a" "sp_End s = int e"
    by blast
  moreover from this(3,4) s have "a = 3" "e = 14" by simp_all
  ultimately show ?thesis by blast
qed

end
