(* ===== verification/Names_Witness.thy ===== *)
theory Names_Witness
  imports Names_Props Cardholder Dateword "HOL-Library.Code_Target_Nat"
begin

text \<open>Instances of the detectors of names, card holders and dates in words, evaluated.\<close>

definition text_of :: "rune list \<Rightarrow> Text" where
  "text_of rs = \<lparr> Raw = encode_runes rs, Lower = ToLower ru_runtime (encode_runes rs) \<rparr>"

definition demo_dict :: namesDict where
  "demo_dict = loadNamesDict (Some (encode_runes [0x430, 0x43b, 0x435, 0x43a, 0x441, 0x430, 0x43d, 0x434, 0x440, 0xa, 0x43b, 0x435, 0x432, 0xa])) None (Some (encode_runes [0x430, 0x43b, 0x435, 0x43a, 0x441, 0x430, 0x43d, 0x434, 0x440, 0x20, 0x43f, 0x443, 0x448, 0x43a, 0x438, 0x43d, 0xa]))"

text \<open>A client named by a given name only.\<close>

definition client_text :: Text where
  "client_text = text_of [0x43a, 0x43b, 0x438, 0x435, 0x43d, 0x442, 0x20, 0x41b, 0x435, 0x432]"

definition ranges :: "Span list \<Rightarrow> (int \<times> int) list" where
  "ranges ss = map (\<lambda>s. (sp_Start s, sp_End s)) ss"

theorem names_context_recall_witness:
  "\<exists>s \<in> set (DetectLower_names ru_runtime demo_dict client_text). inside s (tokenize (Raw client_text) ! 1)"
proof (rule names_context_recall)
  show "tokenize (Raw client_text) ! 1 \<in> set (tokenize (Raw client_text))" by code_simp
  show "nt_isName (name_token ru_runtime demo_dict client_text (tokenize (Raw client_text) ! 1))" by code_simp
  show "hasLeftContext ru_runtime client_text (tok_start (tokenize (Raw client_text) ! 1)) nameContext 30" by code_simp
qed

lemma holder_detected:
  "ranges (DetectLower_ch ru_runtime \<lparr> Raw = ''4111 1111 1111 1111 JOHN SMITH'', Lower = ''4111 1111 1111 1111 john smith'' \<rparr>) =
   [(20, 30)]"
  by code_simp

text \<open>The dot of an abbreviated month is a wildcard of the pattern.\<close>

lemma month_wildcard:
  "(encode_runes [0x43c, 0x430, 0x440, 0x2e], 3) \<in> set monthNames \<and> MatchString (encode_runes [0x43c, 0x430, 0x440, 0x21]) (word_rx (encode_runes [0x43c, 0x430, 0x440, 0x2e]))"
  by code_simp

end
