(* ===== verification/Detector_Witness.thy ===== *)
theory Detector_Witness
  imports Default Regex_Witness Names_Witness
begin

text \<open>
  Instances of the detectors: the default pipeline on a small text, and the inputs on which the citizenship and the
  birth place detectors do not do what their comments say.
\<close>

definition demo_cities :: citiesDict where
  "demo_cities = buildCitiesDict [encode_runes [0x43e, 0x43c, 0x441, 0x43a] \<comment> \<open>omsk\<close>]"

definition demo_default :: "detector list" where
  "demo_default = (case Default ru_runtime (demo_compile ru_runtime) [passport_rule] demo_dict demo_cities of
     Some ds \<Rightarrow> ds | None \<Rightarrow> [])"

lemma demo_default_built:
  "Default ru_runtime (demo_compile ru_runtime) [passport_rule] demo_dict demo_cities = Some demo_default"
  unfolding demo_default_def Default_def DefaultRules_def passport_rule_loads by simp

lemma demo_lower_ok: "LowerOK \<lparr> Raw = ''Passport 4510 123456'', Lower = ToLower ru_runtime ''Passport 4510 123456'' \<rparr>"
  by code_simp

theorem default_pipeline_spans_witness:
  "\<exists>res. Run ru_runtime (NewPipeline demo_default) ''Passport 4510 123456'' = Some res \<and>
     sorted_wrt (\<lambda>a b. sp_End a \<le> sp_Start b) (Spans res) \<and> list_all (span_in (length ''Passport 4510 123456'')) (Spans res)"
proof -
  have "DefaultRules ru_runtime (demo_compile ru_runtime) [passport_rule] = Inr (demo_rules ru_runtime)"
    unfolding DefaultRules_def by (rule passport_rule_loads)
  from default_pipeline_spans [OF ru.go_runtime_axioms _ this passport_rule_keywords demo_default_built demo_lower_ok]
    demo_compile_wf [where rt = ru_runtime] show ?thesis by blast
qed

text \<open>
  A text whose lower-case form is longer: the keyword is found past the end of the text, and the test of the byte
  before it is out of range.
\<close>

definition long_lower_text :: string where
  "long_lower_text = encode_runes (replicate 23 0x23A @ [0x433, 0x440, 0x430, 0x436, 0x434, 0x430, 0x43d, 0x441, 0x442, 0x432, 0x43e])"

lemma citizenship_panics:
  "DetectLower_cz wide_runtime \<lparr> Raw = long_lower_text, Lower = ToLower wide_runtime long_lower_text \<rparr> = None"
  by code_simp

text \<open>
  A prepositional prefix missing from \<^verbatim>\<open>settlementPrefixes\<close> (which has a misspelt form instead) before a citizenship
  clause: the whole value is the prefix, and what is left of it after the prefix is trimmed is an empty range.
\<close>

definition empty_place :: Text where
  "empty_place = text_of [0x41f, 0x43e, 0x441, 0x451, 0x43b, 0x43a, 0x435, 0x20, 0x433, 0x440, 0x430, 0x436, 0x434, 0x430, 0x43d, 0x438, 0x43d, 0x430]"

lemma birth_place_empty_range:
  "ranges (the (accept_place ru_runtime [] empty_place (Lower empty_place) 0 (length (Lower empty_place)))) = [(15, 15)]"
  by code_simp

end
