(* ===== verification/Engine_Conc.thy ===== *)
theory Engine_Conc
  imports Engine_Props
begin

text \<open>
  Concurrent requests. A configuration is a shared store and the programs of the running requests; a
  step lets one request issue its next store command, or lets the background task of the store run. The main
  result: until a record can expire, all requests for one id agree on one record, the one of the first writer.
\<close>

record ('s, 'a) conf =
  cf_store :: 's
  cf_now :: int
  cf_progs :: "'a prog list"

text \<open>\<open>bg\<close> is the background task of the store, for the memory its clean-up.\<close>

inductive conc_step ::
  "'s store_ops \<Rightarrow> ('s \<Rightarrow> int \<Rightarrow> 's) \<Rightarrow> ('s, 'a) conf \<Rightarrow> ('s, 'a) conf \<Rightarrow> bool" for so bg where
  request: "i < length (cf_progs c) \<Longrightarrow> cf_now c \<le> cl_now call \<Longrightarrow> call_ok call \<Longrightarrow>
    exec so call (cf_store c) (cf_progs c ! i) = (s', p') \<Longrightarrow>
    conc_step so bg c (c\<lparr> cf_store := s', cf_now := cl_now call, cf_progs := (cf_progs c)[i := p'] \<rparr>)"
| background: "cf_now c \<le> now \<Longrightarrow> conc_step so bg c (c\<lparr> cf_store := bg (cf_store c) now, cf_now := now \<rparr>)"

inductive conc_reach ::
  "'s store_ops \<Rightarrow> ('s \<Rightarrow> int \<Rightarrow> 's) \<Rightarrow> ('s, 'a) conf \<Rightarrow> ('s, 'a) conf \<Rightarrow> bool" for so bg c0 where
  start: "conc_reach so bg c0 c0"
| move: "conc_reach so bg c0 c \<Longrightarrow> conc_step so bg c c' \<Longrightarrow> conc_reach so bg c0 c'"

inductive_cases conc_stepE: "conc_step so bg c c'"

lemma conc_step_time: "conc_step so bg c c' \<Longrightarrow> cf_now c \<le> cf_now c'"
  by (auto elim: conc_stepE)

record request =
  rq_pid :: string
  rq_payload :: string
  rq_opt :: Options
  rq_now :: int

definition request_prog :: "runtime \<Rightarrow> primitives \<Rightarrow> Engine \<Rightarrow> request \<Rightarrow> ProcessResult outcome prog" where
  "request_prog rt pr e q = Process rt pr e (rq_now q) (rq_pid q) (rq_payload q) (rq_opt q)"

text \<open>
  A request of a run from time \<open>t\<close> to time \<open>T\<close>: a record that it writes does not expire before \<open>T\<close>, its system has a
  name, and what it stores is valid UTF-8.
\<close>

definition outlives :: "int \<Rightarrow> int \<Rightarrow> int \<Rightarrow> bool" where
  "outlives t T ttl \<longleftrightarrow> ttl \<le> 0 \<or> T \<le> t + ttl"

definition request_ok :: "runtime \<Rightarrow> Engine \<Rightarrow> int \<Rightarrow> int \<Rightarrow> request \<Rightarrow> bool" where
  "request_ok rt e t T q \<longleftrightarrow> outlives t T (opt_TTL (rq_opt q)) \<and> opt_SystemID (rq_opt q) \<noteq> '''' \<and>
     utf8_masking rt e (rq_payload q) (rq_opt q) (rq_now q)"

subsection \<open>Memories whose records outlive the run\<close>

text \<open>No entry under one of the ids expires before time \<open>T\<close>, so none of them is ever found stale.\<close>

definition lasts :: "primitives \<Rightarrow> int \<Rightarrow> string set \<Rightarrow> Memory \<Rightarrow> bool" where
  "lasts pr T pids m \<longleftrightarrow> (\<forall>pid \<in> pids. \<forall>x. mem_items m (mem_HashID pr m pid) = Some x \<longrightarrow> \<not> expired x T)"

lemma lasts_not_expired:
  "lasts pr T pids m \<Longrightarrow> pid \<in> pids \<Longrightarrow> t \<le> T \<Longrightarrow> mem_items m (mem_HashID pr m pid) = Some x \<Longrightarrow> \<not> expired x t"
  using expired_mono by (fastforce simp: lasts_def)

lemma lasts_view:
  "lasts pr T pids m \<Longrightarrow> pid \<in> pids \<Longrightarrow> t \<le> T \<Longrightarrow> mem_view pr cd m t pid = mem_view pr cd m T pid"
  using lasts_not_expired [of pr T pids m pid t] lasts_not_expired [of pr T pids m pid T]
  by (auto simp: mem_view_def mem_lookup_def split: option.splits)

lemma lasts_Load:
  assumes "lasts pr T pids m" and "pid \<in> pids" and "cl_now c \<le> T"
  shows "mem_Load pr cd m c pid = (m, mem_view pr cd m T pid)"
proof (rule prod_eqI)
  show "fst (mem_Load pr cd m c pid) = fst (m, mem_view pr cd m T pid)"
    using lasts_not_expired [OF assms] by (auto simp: mem_Load_def mem_lookup_def Let_def split: option.splits)
qed (simp add: mem_Load_view lasts_view [OF assms])

lemma outlives_live: "outlives t T ttl \<Longrightarrow> t \<le> w \<Longrightarrow> mem_live w ttl T"
  by (auto simp: outlives_def mem_live_def expired_def expiryFor_def)

lemma lasts_SaveNew:
  assumes "lasts pr T pids m" and "mem_SaveNew pr cd m c pid r ttl = (m', ans)" and "mem_live (cl_now c) ttl T"
  shows "lasts pr T pids m'"
  using assms(2)
proof (cases rule: mem_SaveNew_cases)
  case (2 ct)
  then have "mem_HashID pr m' = mem_HashID pr m" by (auto simp: mem_HashID_def)
  with 2 assms(1,3) show ?thesis by (auto simp: lasts_def expired_live)
qed (use assms(1) in simp)

lemma lasts_cleanup: "lasts pr T pids m \<Longrightarrow> lasts pr T pids (cleanup m now)"
  by (auto simp: lasts_def cleanup_def mem_HashID_def split: option.splits if_splits)

subsection \<open>What a request may be doing\<close>

text \<open>A result agrees with the record under its id.\<close>

definition agrees :: "runtime \<Rightarrow> primitives \<Rightarrow> Engine \<Rightarrow> request \<Rightarrow> Record \<Rightarrow> ProcessResult \<Rightarrow> bool" where
  "agrees rt pr e q rcd res \<longleftrightarrow>
     process_known rt pr e rcd (rq_payload q) (rq_opt q) = Ok res \<or>
     (if ownsRecord rcd (rq_opt q) then processExisting rt pr e rcd (rq_payload q) (rq_opt q) = Ok res
      else maskFreshResult rt e (rq_payload q) (rq_opt q) = Ok res) \<or>
     (ownsRecord rcd (rq_opt q) \<and> rec_Hash rcd = hashText pr (rq_payload q) \<and>
      prs_Result res = rec_MaskedText rcd \<and> \<not> prs_Unmasked res)"

definition saving :: "runtime \<Rightarrow> primitives \<Rightarrow> Engine \<Rightarrow> request \<Rightarrow> ProcessResult outcome prog \<Rightarrow> bool" where
  "saving rt pr e q p \<longleftrightarrow>
     (\<exists>st mres reps. resolveStrategy e (opt_Strategy (rq_opt q)) = Some st \<and>
        runMask rt e (rq_payload q) (rq_opt q) st (Some NewDocState) = Some (mres, reps) \<and>
        p = (let newRec = new_record pr st (rq_opt q) (rq_now q) (rq_payload q) mres reps in
             SaveNew_then (rq_pid q) newRec (opt_TTL (rq_opt q)) (\<lambda>ans.
               case ans of
                 Inl x \<Rightarrow> Return (Err x)
               | Inr True \<Rightarrow> Return (Ok (fresh_result mres))
               | Inr False \<Rightarrow> process_lost rt pr e (rq_pid q) (rq_payload q) (rq_opt q) mres newRec)))"

definition lost :: "runtime \<Rightarrow> primitives \<Rightarrow> Engine \<Rightarrow> request \<Rightarrow> ProcessResult outcome prog \<Rightarrow> bool" where
  "lost rt pr e q p \<longleftrightarrow>
     (\<exists>mres newRec. p = process_lost rt pr e (rq_pid q) (rq_payload q) (rq_opt q) mres newRec)"

definition residue ::
  "runtime \<Rightarrow> primitives \<Rightarrow> codec \<Rightarrow> Engine \<Rightarrow> int \<Rightarrow> Memory \<Rightarrow> request \<Rightarrow> ProcessResult outcome prog \<Rightarrow> bool" where
  "residue rt pr cd e T m q p \<longleftrightarrow>
     p = request_prog rt pr e q \<or> saving rt pr e q p \<or>
     (lost rt pr e q p \<and> mem_view pr cd m T (rq_pid q) \<noteq> Inr None) \<or>
     (\<exists>x. p = Return (Err x)) \<or> p = Return Panic \<or>
     (\<exists>res rcd. p = Return (Ok res) \<and> mem_view pr cd m T (rq_pid q) = Inr (Some rcd) \<and> agrees rt pr e q rcd res)"

lemma residue_mono:
  assumes "residue rt pr cd e T m q p"
    and "\<And>x. mem_view pr cd m T (rq_pid q) = x \<Longrightarrow> x \<noteq> Inr None \<Longrightarrow> mem_view pr cd m' T (rq_pid q) = x"
  shows "residue rt pr cd e T m' q p"
  using assms by (auto simp: residue_def)

lemma residue_done:
  "(\<And>res. out = Ok res \<Longrightarrow> \<exists>rcd. mem_view pr cd m T (rq_pid q) = Inr (Some rcd) \<and> agrees rt pr e q rcd res) \<Longrightarrow>
     residue rt pr cd e T m q (Return out)"
  by (cases out) (auto simp: residue_def)

lemma start_step:
  assumes "lasts pr T pids m" and "rq_pid q \<in> pids" and "cl_now call \<le> T"
    and "exec (mem_ops pr cd) call m (request_prog rt pr e q) = (m', p')"
  shows "m' = m \<and> residue rt pr cd e T m q p'"
proof -
  let ?r = "mem_view pr cd m T (rq_pid q)"
  have m': "m' = m" using assms lasts_Load [OF assms(1-3), of cd]
    by (simp add: request_prog_def Process_def mem_ops_def)
  have l: "so_Load (mem_ops pr cd) m call (rq_pid q) = (m, ?r)"
    using lasts_Load [OF assms(1-3), of cd] by (simp add: mem_ops_def)
  consider x where "?r = Inl x" | rcd where "?r = Inr (Some rcd)" | "?r = Inr None"
    by (metis not_None_eq old.sum.exhaust)
  then have "residue rt pr cd e T m q p'"
  proof cases
    case (1 x)
    then show ?thesis using assms(4) l by (auto simp: request_prog_def Process_def residue_def)
  next
    case (2 rcd)
    then have "p' = Return (process_known rt pr e rcd (rq_payload q) (rq_opt q))"
      using assms(4) l by (simp add: request_prog_def Process_def)
    with 2 show ?thesis by (auto intro!: residue_done simp: agrees_def)
  next
    case 3
    then show ?thesis using assms(4) l
      by (auto simp: request_prog_def Process_def residue_def saving_def Let_def split: option.splits prod.splits)
  qed
  with m' show ?thesis by simp
qed

lemma lost_step:
  assumes "lasts pr T pids m" and "rq_pid q \<in> pids" and "cl_now call \<le> T" and "lost rt pr e q p" and "mem_view pr cd m T (rq_pid q) \<noteq> Inr None"
    and "exec (mem_ops pr cd) call m p = (m', p')"
  shows "m' = m \<and> residue rt pr cd e T m q p'"
proof -
  let ?r = "mem_view pr cd m T (rq_pid q)"
  have l: "so_Load (mem_ops pr cd) m call (rq_pid q) = (m, ?r)"
    using lasts_Load [OF assms(1-3), of cd] by (simp add: mem_ops_def)
  consider x where "?r = Inl x" | rcd where "?r = Inr (Some rcd)"
    using assms(5) by (metis not_None_eq old.sum.exhaust)
  then show ?thesis
  proof cases
    case (1 x)
    then show ?thesis using assms(4,6) l by (auto simp: lost_def process_lost_def residue_def)
  next
    case (2 rcd)
    then show ?thesis using assms(4,6) l
      by (auto simp: lost_def process_lost_def agrees_def split: if_splits intro!: residue_done)
  qed
qed

text \<open>A record as a request writes it.\<close>

definition written_by :: "primitives \<Rightarrow> request \<Rightarrow> Record \<Rightarrow> bool" where
  "written_by pr q rcd \<longleftrightarrow>
     rec_Hash rcd = hashText pr (rq_payload q) \<and> rec_SystemID rcd = opt_SystemID (rq_opt q)"

definition conc_inv ::
  "runtime \<Rightarrow> primitives \<Rightarrow> codec \<Rightarrow> Engine \<Rightarrow> request list \<Rightarrow> int \<Rightarrow> int \<Rightarrow> (string \<Rightarrow> goerror + Record option)
     \<Rightarrow> (Memory, ProcessResult outcome) conf \<Rightarrow> bool" where
  "conc_inv rt pr cd e qs t T old c \<longleftrightarrow>
     t \<le> cf_now c \<and> lasts pr T (rq_pid ` set qs) (cf_store c) \<and>
     list_all2 (residue rt pr cd e T (cf_store c)) qs (cf_progs c) \<and>
     (\<forall>pid \<in> rq_pid ` set qs. \<forall>rcd. mem_view pr cd (cf_store c) T pid = Inr (Some rcd) \<longrightarrow>
        old pid = Inr (Some rcd) \<or> (\<exists>q \<in> set qs. written_by pr q rcd))"

context store_env
begin

lemma saving_step:
  assumes "lasts pr T pids m" and "rq_pid q \<in> pids" and "request_ok rt e t T q" and "call_ok call"
    and "t \<le> cl_now call" and "cl_now call \<le> T" and "saving rt pr e q p"
    and "exec (mem_ops pr cd) call m p = (m', p')"
  shows "lasts pr T pids m' \<and> residue rt pr cd e T m' q p' \<and>
    (\<forall>pid. mem_view pr cd m T pid \<noteq> Inr None \<longrightarrow> mem_view pr cd m' T pid = mem_view pr cd m T pid) \<and>
    (\<forall>pid rcd. mem_view pr cd m' T pid = Inr (Some rcd) \<longrightarrow>
       mem_view pr cd m T pid = Inr (Some rcd) \<or> written_by pr q rcd)"
proof -
  obtain st mres reps where rs: "resolveStrategy e (opt_Strategy (rq_opt q)) = Some st"
    and rm: "runMask rt e (rq_payload q) (rq_opt q) st (Some NewDocState) = Some (mres, reps)"
    and p: "p = (let newRec = new_record pr st (rq_opt q) (rq_now q) (rq_payload q) mres reps in
             SaveNew_then (rq_pid q) newRec (opt_TTL (rq_opt q)) (\<lambda>ans.
               case ans of
                 Inl x \<Rightarrow> Return (Err x)
               | Inr True \<Rightarrow> Return (Ok (fresh_result mres))
               | Inr False \<Rightarrow> process_lost rt pr e (rq_pid q) (rq_payload q) (rq_opt q) mres newRec))"
    using assms(7) by (auto simp: saving_def)
  let ?rcd = "new_record pr st (rq_opt q) (rq_now q) (rq_payload q) mres reps" and ?ttl = "opt_TTL (rq_opt q)"
  have own: "ownsRecord ?rcd (rq_opt q)" and ok: "record_ok ?rcd" and live: "mem_live (cl_now call) ?ttl T"
    using assms(3) new_record_ok [OF _ rs rm] new_record_owned outlives_live [OF _ assms(5)]
    by (auto simp: request_ok_def)
  obtain ans where sn: "mem_SaveNew pr cd m call (rq_pid q) ?rcd ?ttl = (m', ans)"
    and p': "p' = (case ans of
                 Inl x \<Rightarrow> Return (Err x)
               | Inr True \<Rightarrow> Return (Ok (fresh_result mres))
               | Inr False \<Rightarrow> process_lost rt pr e (rq_pid q) (rq_payload q) (rq_opt q) mres ?rcd)"
    using assms(8) p by (auto simp: mem_ops_def Let_def split: prod.splits)
  have f': "lasts pr T pids m'" by (rule lasts_SaveNew [OF assms(1) sn live])
  note now = lasts_view [OF assms(1,2,6), of cd]
  consider x where "ans = Inl x" | "ans = Inr True" | "ans = Inr False" by (metis (full_types) old.sum.exhaust)
  then show ?thesis
  proof cases
    case (1 x)
    then have "m' = m" using sn
      by (auto simp: mem_SaveNew_def Let_def split: sum.splits option.splits if_splits)
    with 1 p' f' show ?thesis by (simp add: residue_def)
  next
    case 2
    note v = mem_SaveNew_view [OF sn [unfolded 2] ok assms(4)]
    have none: "mem_view pr cd m T (rq_pid q) = Inr None" using v(1) now by simp
    have view': "mem_view pr cd m' T pid = (if mem_HashID pr m pid = mem_HashID pr m (rq_pid q)
        then Inr (Some ?rcd) else mem_view pr cd m T pid)" for pid
      using v(2) [of T pid] live by simp
    have "agrees rt pr e q ?rcd (fresh_result mres)"
      using own by (simp add: agrees_def new_record_def fresh_result_def)
    then have "residue rt pr cd e T m' q p'"
      using 2 p' view' by (auto intro!: residue_done)
    moreover have "mem_view pr cd m' T pid = mem_view pr cd m T pid" if "mem_view pr cd m T pid \<noteq> Inr None" for pid
      using view' [of pid] none mem.view_slot [of m pid "rq_pid q" T] that by auto
    moreover have "mem_view pr cd m T pid = Inr (Some rcd) \<or> written_by pr q rcd"
      if "mem_view pr cd m' T pid = Inr (Some rcd)" for pid rcd
      using view' [of pid] that by (auto simp: written_by_def new_record_def split: if_splits)
    ultimately show ?thesis using f' by blast
  next
    case 3
    then have "m' = m" and "mem_view pr cd m T (rq_pid q) \<noteq> Inr None"
      using mem_SaveNew_lost [of pr cd m call "rq_pid q" ?rcd ?ttl m'] sn now by simp_all
    with 3 p' f' show ?thesis by (auto simp: residue_def lost_def)
  qed
qed

lemma residue_step:
  assumes "lasts pr T pids m" and "rq_pid q \<in> pids" and "request_ok rt e t T q" and "call_ok call"
    and "t \<le> cl_now call" and "cl_now call \<le> T" and "residue rt pr cd e T m q p"
    and "exec (mem_ops pr cd) call m p = (m', p')"
  shows "lasts pr T pids m' \<and> residue rt pr cd e T m' q p' \<and>
    (\<forall>pid. mem_view pr cd m T pid \<noteq> Inr None \<longrightarrow> mem_view pr cd m' T pid = mem_view pr cd m T pid) \<and>
    (\<forall>pid rcd. mem_view pr cd m' T pid = Inr (Some rcd) \<longrightarrow>
       mem_view pr cd m T pid = Inr (Some rcd) \<or> written_by pr q rcd)"
proof -
  consider "p = request_prog rt pr e q" | "saving rt pr e q p"
    | "lost rt pr e q p" "mem_view pr cd m T (rq_pid q) \<noteq> Inr None" | out where "p = Return out"
    using assms(7) by (auto simp: residue_def)
  then show ?thesis
  proof cases
    case 1
    then show ?thesis using start_step [OF assms(1,2,6), of cd rt e m' p'] assms(1,8) by auto
  next
    case 2
    then show ?thesis by (rule saving_step [OF assms(1-6) _ assms(8)])
  next
    case 3
    then show ?thesis using lost_step [OF assms(1,2,6) 3 assms(8)] assms(1) by auto
  next
    case 4
    then show ?thesis using assms by auto
  qed
qed

lemma conc_step_inv:
  assumes "conc_step (mem_ops pr cd) cleanup c c'" and "conc_inv rt pr cd e qs t T old c" and "cf_now c' \<le> T"
    and "\<forall>q \<in> set qs. request_ok rt e t T q"
  shows "conc_inv rt pr cd e qs t T old c'"
  using assms(1)
proof (cases rule: conc_step.cases)
  case (request i call s' p')
  let ?m = "cf_store c" and ?ps = "cf_progs c"
  have len: "length qs = length ?ps" and all: "\<And>j. j < length ?ps \<Longrightarrow> residue rt pr cd e T ?m (qs ! j) (?ps ! j)"
    and f: "lasts pr T (rq_pid ` set qs) ?m" and t: "t \<le> cl_now call"
    and old: "\<And>pid rcd. pid \<in> rq_pid ` set qs \<Longrightarrow> mem_view pr cd ?m T pid = Inr (Some rcd) \<Longrightarrow>
        old pid = Inr (Some rcd) \<or> (\<exists>q \<in> set qs. written_by pr q rcd)"
    using assms(2) request(3) by (auto simp: conc_inv_def list_all2_conv_all_nth)
  have mem: "qs ! i \<in> set qs" using request(2) len by simp
  then have qi: "request_ok rt e t T (qs ! i)" using assms(4) by blast
  have T: "cl_now call \<le> T" using assms(3) request(1) by simp
  note st = residue_step [OF f imageI [OF mem] qi request(4) t T all [OF request(2)] request(5)]
  have "residue rt pr cd e T s' (qs ! j) (?ps[i := p'] ! j)" if "j < length ?ps" for j
    using st all [OF that] that by (cases "j = i") (auto elim!: residue_mono)
  moreover have "old pid = Inr (Some rcd) \<or> (\<exists>q \<in> set qs. written_by pr q rcd)"
    if "pid \<in> rq_pid ` set qs" "mem_view pr cd s' T pid = Inr (Some rcd)" for pid rcd
    using st old [of pid rcd] that mem by blast
  ultimately show ?thesis using st len t by (simp add: request(1) conc_inv_def list_all2_conv_all_nth)
next
  case (background now)
  then have "mem_view pr cd (cleanup (cf_store c) now) T pid = mem_view pr cd (cf_store c) T pid" for pid
    using cleanup_view [of now T pr cd "cf_store c" pid] assms(3) by simp
  then show ?thesis
    using assms(2) background lasts_cleanup [of pr T "rq_pid ` set qs" "cf_store c" now]
    by (auto simp: conc_inv_def residue_def elim!: list.rel_mono_strong)
qed

lemma conc_reach_inv:
  assumes "conc_reach (mem_ops pr cd) cleanup c0 c" and "conc_inv rt pr cd e qs t T old c0" and "cf_now c \<le> T"
    and "\<forall>q \<in> set qs. request_ok rt e t T q"
  shows "conc_inv rt pr cd e qs t T old c"
  using assms
proof (induction rule: conc_reach.induct)
  case (move c c')
  then show ?case using conc_step_time [OF move.hyps(2)] conc_step_inv [OF move.hyps(2)] by simp
qed

end

lemma conc_inv_start:
  "lasts pr T (rq_pid ` set qs) m \<Longrightarrow> conc_inv rt pr cd e qs t T (mem_view pr cd m T)
     \<lparr> cf_store = m, cf_now = t, cf_progs = map (request_prog rt pr e) qs \<rparr>"
  by (simp add: conc_inv_def list_all2_conv_all_nth residue_def)

lemma conc_inv_result:
  assumes "conc_inv rt pr cd e qs t T old c" and "i < length qs" and "cf_progs c ! i = Return (Ok res)"
  shows "\<exists>rcd. mem_view pr cd (cf_store c) T (rq_pid (qs ! i)) = Inr (Some rcd) \<and> agrees rt pr e (qs ! i) rcd res"
proof -
  have "residue rt pr cd e T (cf_store c) (qs ! i) (Return (Ok res))"
    using assms by (auto simp: conc_inv_def list_all2_conv_all_nth)
  then show ?thesis
    by (auto simp: residue_def request_prog_def Process_def saving_def lost_def process_lost_def Let_def)
qed

lemma agrees_same_payload:
  assumes "agrees rt pr e q rcd res" and "ownsRecord rcd (rq_opt q)" and "rec_Hash rcd = hashText pr (rq_payload q)"
  shows "prs_Result res = rec_MaskedText rcd \<and> \<not> prs_Unmasked res"
  using assms by (auto simp: agrees_def process_known_def processExisting_def)

lemma agrees_foreign:
  "agrees rt pr e q rcd res \<Longrightarrow> \<not> ownsRecord rcd (rq_opt q) \<Longrightarrow> maskFreshResult rt e (rq_payload q) (rq_opt q) = Ok res"
  by (auto simp: agrees_def process_known_def)

subsection \<open>Properties\<close>

text \<open>
  C6. Concurrent requests agree. Run any number of \<^verbatim>\<open>Process\<close> requests of named systems on an in-memory store, in any
  interleaving of their store commands and of the ticks of the clean-up, from time \<open>t\<close> up to a time \<open>T\<close> at which no
  record of their ids has expired: neither the ones that are there at the start nor the ones that the requests write,
  so with a time to live of one hour the run lasts at most an hour. A request that has finished with a result finds a
  record under its id, and its result is what \<^verbatim>\<open>Process\<close> gives against that record. So there is one record per id,
  and nobody overwrites it.
\<close>

theorem concurrent_process_agree:
  assumes "store_env pr cd" and "lasts pr T (rq_pid ` set qs) m" and "\<forall>q \<in> set qs. request_ok rt e t T q"
    and "conc_reach (mem_ops pr cd) cleanup
      \<lparr> cf_store = m, cf_now = t, cf_progs = map (request_prog rt pr e) qs \<rparr> c" and "cf_now c \<le> T"
    and "i < length qs" and "cf_progs c ! i = Return (Ok res)"
  shows "\<exists>rcd. mem_view pr cd (cf_store c) (cf_now c) (rq_pid (qs ! i)) = Inr (Some rcd) \<and>
    agrees rt pr e (qs ! i) rcd res"
proof -
  have inv: "conc_inv rt pr cd e qs t T (mem_view pr cd m T) c"
    by (rule store_env.conc_reach_inv [OF assms(1,4) conc_inv_start [OF assms(2)] assms(5,3)])
  then have "lasts pr T (rq_pid ` set qs) (cf_store c)" by (simp add: conc_inv_def)
  moreover have "rq_pid (qs ! i) \<in> rq_pid ` set qs" using assms(6) by simp
  ultimately show ?thesis
    using conc_inv_result [OF inv assms(6,7)] lasts_view assms(5) by metis
qed

text \<open>
  C8. Concurrent first requests with one new id and one payload, of any systems, in any interleaving of their store
  commands and of the ticks of the clean-up, up to a time at which no record of that id has expired. One of their
  systems owns the id, and there is one masked text that every request of that system gets when it finishes,
  whatever strategy and categories it asks for; a request of another system gets its own masking of the payload.
\<close>

theorem concurrent_same_payload:
  assumes "store_env pr cd" and "lasts pr T {pid} m" and "mem_view pr cd m t pid = Inr None"
    and "\<forall>q \<in> set qs. request_ok rt e t T q \<and> rq_pid q = pid \<and> rq_payload q = payload" and "qs \<noteq> []"
    and "conc_reach (mem_ops pr cd) cleanup
      \<lparr> cf_store = m, cf_now = t, cf_progs = map (request_prog rt pr e) qs \<rparr> c" and "cf_now c \<le> T"
  shows "\<exists>owner \<in> (\<lambda>q. opt_SystemID (rq_opt q)) ` set qs. \<exists>masked. \<forall>i < length qs. \<forall>res. cf_progs c ! i = Return (Ok res) \<longrightarrow>
    (if opt_SystemID (rq_opt (qs ! i)) = owner then prs_Result res = masked \<and> \<not> prs_Unmasked res
     else maskFreshResult rt e payload (rq_opt (qs ! i)) = Ok res)"
proof -
  have q: "\<forall>q \<in> set qs. request_ok rt e t T q" using assms(4) by blast
  have l: "lasts pr T (rq_pid ` set qs) m" using assms(2,4) by (auto simp: lasts_def)
  have inv: "conc_inv rt pr cd e qs t T (mem_view pr cd m T) c"
    by (rule store_env.conc_reach_inv [OF assms(1,6) conc_inv_start [OF l] assms(7) q])
  show ?thesis
  proof (cases "\<exists>i < length qs. \<exists>res. cf_progs c ! i = Return (Ok res)")
    case False
    then show ?thesis using assms(5) by (metis ex_in_conv imageI set_empty)
  next
    case True
    then obtain k where k: "k < length qs" "\<exists>rcd. mem_view pr cd (cf_store c) T pid = Inr (Some rcd)"
      using conc_inv_result [OF inv] assms(4) by (metis nth_mem)
    then obtain rcd where rcd: "mem_view pr cd (cf_store c) T pid = Inr (Some rcd)" by blast
    have pid: "pid \<in> rq_pid ` set qs" using k(1) assms(4) by (metis imageI nth_mem)
    have "t \<le> T" using inv assms(7) by (simp add: conc_inv_def)
    then have "mem_view pr cd m T pid = Inr None" using lasts_view [OF assms(2), of pid t cd] assms(3) by simp
    then obtain w where w: "w \<in> set qs" "written_by pr w rcd"
      using inv rcd pid unfolding conc_inv_def by force
    then have hash: "rec_Hash rcd = hashText pr payload" and sys: "rec_SystemID rcd = opt_SystemID (rq_opt w)"
      using assms(4) by (simp_all add: written_by_def)
    have own: "ownsRecord rcd (rq_opt (qs ! i)) \<longleftrightarrow> opt_SystemID (rq_opt (qs ! i)) = rec_SystemID rcd"
      if "i < length qs" for i
      using w(1) sys assms(4) nth_mem [OF that] by (auto simp: ownsRecord_def request_ok_def LegacyOwner_def)
    have "agrees rt pr e (qs ! i) rcd res" if "i < length qs" "cf_progs c ! i = Return (Ok res)" for i res
      using conc_inv_result [OF inv that] rcd that(1) assms(4) by auto
    moreover have "rec_Hash rcd = hashText pr (rq_payload (qs ! i))" "rq_payload (qs ! i) = payload" if "i < length qs" for i
      using hash assms(4) nth_mem [OF that] by simp_all
    ultimately have "if opt_SystemID (rq_opt (qs ! i)) = rec_SystemID rcd
        then prs_Result res = rec_MaskedText rcd \<and> \<not> prs_Unmasked res
        else maskFreshResult rt e payload (rq_opt (qs ! i)) = Ok res"
      if "i < length qs" "cf_progs c ! i = Return (Ok res)" for i res
      using that agrees_same_payload [of rt pr e "qs ! i" rcd res] agrees_foreign [of rt pr e "qs ! i" rcd res] own [OF that(1)]
      by simp
    then show ?thesis using w(1) sys by (intro bexI [of _ "rec_SystemID rcd"] exI [of _ "rec_MaskedText rcd"]) auto
  qed
qed

end
