(* ===== verification/Engine_Witness.thy ===== *)
theory Engine_Witness
  imports Engine_Conc
begin

text \<open>
  A concrete engine (one detector, the token strategy) on the concrete store environment, and the
  properties of the engine applied to it.
\<close>

definition phone_detector :: detector where
  "phone_detector =
     \<lparr> det_Name = ''phone'', det_Categories = [CatPhone],
       det_Detect = (\<lambda>tx. if tx = demo_text then demo_spans else []), det_DetectLower = None \<rparr>"

definition demo_engine :: Engine where
  "demo_engine = New_engine (NewPipeline [phone_detector]) [(''token'', tokenStrategy ru_runtime)]"

definition demo_opt :: "string \<Rightarrow> int \<Rightarrow> Options" where
  "demo_opt sys ttl =
     \<lparr> opt_Categories = [], opt_Strategy = ''token'', opt_TTL = ttl, opt_ComboRules = [],
       opt_Unmask = True, opt_SystemID = sys, opt_DefaultSystemID = ''checker'' \<rparr>"

definition demo_masked :: string where
  "demo_masked = ''call [PHONE_1], call [PHONE_1]''"

lemma demo_opt_simps [simp]:
  "opt_Strategy (demo_opt sys ttl) = ''token''" "opt_TTL (demo_opt sys ttl) = ttl"
  "opt_Unmask (demo_opt sys ttl)" "opt_SystemID (demo_opt sys ttl) = sys"
  "opt_Categories (demo_opt sys ttl) = []" "opt_ComboRules (demo_opt sys ttl) = []"
  by (simp_all add: demo_opt_def)

lemma demo_detects: "detects_in_range ru_runtime (NewPipeline [phone_detector]) tx"
  by (auto simp: NewPipeline_def detects_in_range_def detect_with_def phone_detector_def demo_spans_def
      demo_span_def demo_text_def span_in_def)

lemma demo_engine_ok: "engine_ok ru_runtime demo_engine tx"
  using demo_detects by (auto simp: engine_ok_def demo_engine_def New_engine_def detectors_in_range_def
      list_all_iff tokenStrategy_def token_mask_contract)

lemma demo_strategy: "resolveStrategy demo_engine ''token'' = Some (tokenStrategy ru_runtime)"
  by (simp add: resolveStrategy_def demo_engine_def New_engine_def)

lemma demo_Resolve:
  "Resolve ru_runtime demo_spans = [demo_span 5 8 1, demo_span 15 18 1]"
  by (simp add: Resolve_def sort_slice_def insertion_sort_def span_less_def demo_spans_def better_def
      demo_span_def upt_rec)

lemma demo_Run:
  "Run ru_runtime (NewPipeline [phone_detector]) demo_text = Some \<lparr> Spans = [demo_span 5 8 1, demo_span 15 18 1] \<rparr>"
  by (simp add: Run_def NewPipeline_def detect_with_def phone_detector_def demo_Resolve postProcess_def
      reclassifySpan_def demo_span_def cat_defs Let_def upt_rec)

lemma demo_runMask:
  "runMask ru_runtime demo_engine demo_text (demo_opt sys ttl) (tokenStrategy ru_runtime) (Some NewDocState) =
     Some (\<lparr> mr_Masked = demo_masked, mr_Found = counts [demo_span 5 8 1, demo_span 15 18 1] \<rparr>, demo_reps)"
proof -
  obtain d where "Apply ru_runtime demo_text demo_spans (tokenStrategy ru_runtime) None =
      Some (demo_masked, demo_reps, d)"
    using demo_apply by (auto simp: demo_masked_def)
  moreover have "sort_slice insertion_sort span_less [demo_span 5 8 1, demo_span 15 18 1] =
      sort_slice insertion_sort span_less demo_spans"
    by (simp add: demo_spans_def sort_slice_def insertion_sort_def span_less_def demo_span_def upt_rec)
  ultimately have a: "Apply ru_runtime demo_text [demo_span 5 8 1, demo_span 15 18 1] (tokenStrategy ru_runtime)
      (Some NewDocState) = Some (demo_masked, demo_reps, d)"
    by (simp add: Apply_def)
  have f: "filterSpans [demo_span 5 8 1, demo_span 15 18 1] [] [] = [demo_span 5 8 1, demo_span 15 18 1]"
    by (simp add: filterSpans_def)
  have "\<not> chunkThreshold < int (length demo_text)" by (simp add: chunkThreshold_def demo_text_def)
  then show ?thesis
    using demo_Run a f by (simp add: runMask_def mask_text_def mask_direct_def demo_engine_def New_engine_def Let_def)
qed

lemma token_Name [simp]: "st_Name (tokenStrategy rt) = ''token''"
  by (simp add: tokenStrategy_def)

lemma demo_utf8: "valid_utf8 sys \<Longrightarrow> utf8_masking ru_runtime demo_engine demo_text (demo_opt sys ttl) 1"
  by (auto simp: utf8_masking_def demo_strategy demo_runMask rep_ok_def demo_reps_def demo_masked_def
      cat_defs intro!: valid_utf8_ascii)

definition demo_mres :: MaskResult where
  "demo_mres = \<lparr> mr_Masked = demo_masked, mr_Found = counts [demo_span 5 8 1, demo_span 15 18 1] \<rparr>"

lemma demo_runMask_mres:
  "runMask ru_runtime demo_engine demo_text (demo_opt sys ttl) (tokenStrategy ru_runtime) (Some NewDocState) =
     Some (demo_mres, demo_reps)"
  by (simp add: demo_runMask demo_mres_def)

abbreviation demo_times :: "nat \<Rightarrow> store_call" where
  "demo_times \<equiv> \<lambda>i. demo_call (int i + 1)"

lemma demo_save_ok:
  "\<exists>m'. mem_Save demo_primitives demo_codec m (demo_call t) pid r ttl = (m', None)"
  by (simp add: mem_Save_def encode_def Encrypt_def demo_codec_def demo_call_def)

lemma demo_absent: "mem_view demo_primitives demo_codec demo_memory t pid = Inr None"
  by (simp add: mem_view_defs demo_memory_def)

lemma demo_load: "mem_Load demo_primitives demo_codec demo_memory c pid = (demo_memory, Inr None)"
  by (simp add: mem_Load_def mem_lookup_def demo_memory_def)

lemma demo_MaskEx:
  "\<exists>m'. run_prog (mem_ops demo_primitives demo_codec)
     (MaskEx ru_runtime demo_primitives demo_engine 1 ''doc'' demo_text (demo_opt ''crm'' 100)) demo_times 0 demo_memory =
     (m', Ok demo_mres)"
proof -
  obtain m' where "mem_Save demo_primitives demo_codec demo_memory (demo_call 2) ''doc''
      (new_record demo_primitives (tokenStrategy ru_runtime) (demo_opt ''crm'' 100) 1 demo_text demo_mres demo_reps) 100 = (m', None)"
    using demo_save_ok by blast
  then show ?thesis
    by (simp add: MaskEx_def maskEx_def maskWithRecord_def mem_ops_def demo_load demo_strategy demo_runMask
        demo_mres_def Let_def)
qed

theorem mask_unmask_memory_witness:
  "\<exists>m' m''. run_prog (mem_ops demo_primitives demo_codec)
     (MaskEx ru_runtime demo_primitives demo_engine 1 ''doc'' demo_text (demo_opt ''crm'' 100)) demo_times 0 demo_memory =
       (m', Ok demo_mres) \<and>
     run_prog (mem_ops demo_primitives demo_codec)
       (UnmaskEx ru_runtime ''doc'' demo_masked (demo_opt ''crm'' 100)) (\<lambda>i. demo_call 5) 0 m' =
       (m'', Ok \<lparr> ur_Restored = demo_text, ur_Misses = 0 \<rparr>)"
proof -
  obtain m' where m': "run_prog (mem_ops demo_primitives demo_codec)
     (MaskEx ru_runtime demo_primitives demo_engine 1 ''doc'' demo_text (demo_opt ''crm'' 100)) demo_times 0 demo_memory =
     (m', Ok demo_mres)"
    using demo_MaskEx by blast
  have u: "utf8_masking ru_runtime demo_engine demo_text (demo_opt ''crm'' 100) 1"
    by (intro demo_utf8 valid_utf8_ascii) simp
  show ?thesis
    using mask_unmask_memory [OF demo_store.store_env_axioms ru.go_runtime_axioms demo_engine_ok u _ m',
        of "\<lambda>i. demo_call 5"] m'
    by (simp add: demo_absent demo_mres_def)
qed

theorem foreign_record_protected_witness:
  "run_prog \<lparr> so_Save = (\<lambda>s c pid r ttl. (s, None)), so_SaveNew = (\<lambda>s c pid r ttl. (s, Inr True)),
      so_Load = (\<lambda>s c pid. (s, Inr (Some demo_record))) \<rparr>
     (UnmaskEx ru_runtime ''doc'' ''x'' (demo_opt ''erp'' 0)) demo_times 0 () = ((), Err ErrNotFound)"
  using foreign_record_protected [of "\<lparr> so_Save = (\<lambda>s c pid r ttl. (s, None)), so_SaveNew = (\<lambda>s c pid r ttl. (s, Inr True)),
      so_Load = (\<lambda>s c pid. (s, Inr (Some demo_record))) \<rparr>" "()" demo_times "''doc''" "()" demo_record "demo_opt ''erp'' 0"]
  by (simp add: ownsRecord_def demo_record_def LegacyOwner_def)

theorem ownership_exclusive_witness:
  "ownsRecord (demo_record\<lparr> rec_SystemID := LegacyOwner \<rparr>) (demo_opt ''checker'' 0) \<and>
   \<not> ownsRecord (demo_record\<lparr> rec_SystemID := LegacyOwner \<rparr>) (demo_opt ''crm'' 0)"
proof -
  have "rec_SystemID (demo_record\<lparr> rec_SystemID := LegacyOwner \<rparr>) = LegacyOwner" by simp
  with ownership_exclusive [of "demo_record\<lparr> rec_SystemID := LegacyOwner \<rparr>" "demo_opt ''checker'' 0"]
    ownership_exclusive [of "demo_record\<lparr> rec_SystemID := LegacyOwner \<rparr>" "demo_opt ''crm'' 0"]
  show ?thesis by (simp add: demo_opt_def)
qed

definition no_unmask :: Options where
  "no_unmask = (demo_opt ''crm'' 100)\<lparr> opt_Unmask := False \<rparr>"

definition fixed_store :: "Record \<Rightarrow> unit store_ops" where
  "fixed_store r = \<lparr> so_Save = (\<lambda>s c pid r ttl. (s, None)), so_SaveNew = (\<lambda>s c pid r ttl. (s, Inr False)),
     so_Load = (\<lambda>s c pid. (s, Inr (Some r))) \<rparr>"

theorem process_without_unmask_witness:
  "\<exists>r res. run_prog (fixed_store r) (Process ru_runtime demo_primitives demo_engine 1 ''doc'' ''x'' no_unmask) demo_times 0 () =
     ((), Ok res) \<and> \<not> prs_Unmasked res"
proof -
  let ?r = "demo_record\<lparr> rec_Hash := hashText demo_primitives ''x'' \<rparr>"
  have run: "run_prog (fixed_store ?r) (Process ru_runtime demo_primitives demo_engine 1 ''doc'' ''x'' no_unmask) demo_times 0 () =
      ((), Ok \<lparr> prs_Result = '''', prs_Found = Some Map.empty, prs_Unmasked = False, prs_Misses = 0 \<rparr>)"
    by (simp add: fixed_store_def Process_def process_known_def processExisting_def ownsRecord_def LegacyOwner_def
        no_unmask_def demo_record_def countsFromRec_def count_list_map_def)
  have off: "\<not> opt_Unmask no_unmask" by (simp add: no_unmask_def)
  from run process_without_unmask [OF off run] show ?thesis by blast
qed

lemma demo_saveNew_ok:
  "mem_items m (mem_HashID demo_primitives m pid) = None \<Longrightarrow>
     \<exists>m'. mem_SaveNew demo_primitives demo_codec m (demo_call t) pid r ttl = (m', Inr True)"
  by (simp add: mem_SaveNew_def encode_def Encrypt_def demo_codec_def demo_call_def)

lemma demo_Process:
  "\<exists>m1. run_prog (mem_ops demo_primitives demo_codec)
     (Process ru_runtime demo_primitives demo_engine 1 ''doc'' demo_text (demo_opt ''crm'' ttl)) demo_times 0 demo_memory =
     (m1, Ok (fresh_result demo_mres))"
proof -
  obtain m1 where "mem_SaveNew demo_primitives demo_codec demo_memory (demo_call 2) ''doc''
      (new_record demo_primitives (tokenStrategy ru_runtime) (demo_opt ''crm'' ttl) 1 demo_text demo_mres demo_reps) ttl = (m1, Inr True)"
    using demo_saveNew_ok by (metis demo_memory_def Memory.select_convs(1))
  then show ?thesis
    by (simp add: Process_def mem_ops_def demo_load demo_strategy demo_runMask demo_mres_def Let_def)
qed

theorem process_roundtrip_memory_witness:
  "\<exists>m1 m2. run_prog (mem_ops demo_primitives demo_codec)
     (Process ru_runtime demo_primitives demo_engine 1 ''doc'' demo_text (demo_opt ''crm'' 100)) demo_times 0 demo_memory =
       (m1, Ok (fresh_result demo_mres)) \<and>
     run_prog (mem_ops demo_primitives demo_codec)
       (Process ru_runtime demo_primitives demo_engine 2 ''doc'' demo_masked (demo_opt ''crm'' 100)) (\<lambda>i. demo_call 5) 0 m1 =
       (m2, Ok \<lparr> prs_Result = demo_text, prs_Found = None, prs_Unmasked = True, prs_Misses = 0 \<rparr>)"
proof -
  obtain m1 where m1: "run_prog (mem_ops demo_primitives demo_codec)
     (Process ru_runtime demo_primitives demo_engine 1 ''doc'' demo_text (demo_opt ''crm'' 100)) demo_times 0 demo_memory =
     (m1, Ok (fresh_result demo_mres))"
    using demo_Process by blast
  have u: "utf8_masking ru_runtime demo_engine demo_text (demo_opt ''crm'' 100) 1"
    by (intro demo_utf8 valid_utf8_ascii) simp
  have res: "prs_Result (fresh_result demo_mres) = demo_masked" by (simp add: fresh_result_def demo_mres_def)
  have "sha256 demo_primitives demo_masked \<noteq> sha256 demo_primitives demo_text"
    by (simp add: demo_primitives_def demo_masked_def demo_text_def)
  then have h: "hashText demo_primitives demo_masked \<noteq> hashText demo_primitives demo_text"
    by (metis hashText_def hex_decode_encode option.inject)
  show ?thesis
    using process_roundtrip_memory [OF demo_store.store_env_axioms ru.go_runtime_axioms demo_engine_ok u _ _ m1,
        of "\<lambda>i. demo_call 5" 2] m1 h
    by (auto simp: demo_absent res)
qed

theorem MaskEx_ignores_load_errors_witness:
  "\<exists>m2. run_prog (mk_ops (mem_Save demo_primitives demo_codec) (mem_SaveNew demo_primitives demo_codec)
       (\<lambda>m c pid. (m, Inl (ErrRedis ''timeout''))))
     (MaskEx ru_runtime demo_primitives demo_engine 1 ''doc'' demo_text (demo_opt ''crm'' 100)) demo_times 0 demo_memory =
     (m2, Ok demo_mres)"
proof -
  obtain m2 where "mem_Save demo_primitives demo_codec demo_memory (demo_call 2) ''doc''
      (new_record demo_primitives (tokenStrategy ru_runtime) (demo_opt ''crm'' 100) 1 demo_text demo_mres demo_reps) 100 = (m2, None)"
    using demo_save_ok by blast
  then show ?thesis
    using MaskEx_ignores_load_errors [of "mk_ops (mem_Save demo_primitives demo_codec)
        (mem_SaveNew demo_primitives demo_codec) (\<lambda>m c pid. (m, Inl (ErrRedis ''timeout'')))" demo_memory demo_times "''doc''"
        demo_memory "ErrRedis ''timeout''" demo_engine "demo_opt ''crm'' 100" "tokenStrategy ru_runtime" ru_runtime demo_text
        demo_mres demo_reps demo_primitives 1 m2]
    by (simp add: demo_strategy demo_runMask demo_mres_def)
qed

subsection \<open>Redis\<close>

definition demo_Redis :: "demo_server Redis" where
  "demo_Redis = \<lparr> rd_client = Map.empty, rd_cipher = \<lparr> cph_key = replicate 32 CHR ''k'' \<rparr>,
     rd_key = replicate 32 CHR ''k'' \<rparr>"

definition demo_batch :: MaskBatchResult where
  "demo_batch = \<lparr> mb_Masked = [demo_masked],
     mb_Found = add_counts Map.empty (counts [demo_span 5 8 1, demo_span 15 18 1]) \<rparr>"

lemma demo_mask_text:
  "\<exists>d. mask_text ru_runtime demo_engine demo_text (demo_opt sys ttl) (tokenStrategy ru_runtime) (Some NewDocState) =
     Some (demo_masked, demo_reps, counts [demo_span 5 8 1, demo_span 15 18 1], d)"
  using demo_runMask [of sys ttl] by (auto simp: runMask_def split: Option.bind_splits prod.splits)

lemma demo_batch_loop:
  "batch_loop ru_runtime demo_engine (demo_opt sys ttl) (tokenStrategy ru_runtime) [demo_text] (Some NewDocState) 0 [] [] Map.empty =
     Some (mb_Masked demo_batch, demo_reps, mb_Found demo_batch)"
proof -
  have "map (shift_rep 0) demo_reps = demo_reps" by (simp add: shift_rep_def demo_reps_def)
  then show ?thesis using demo_mask_text [of sys ttl] by (auto simp: demo_batch_def)
qed

lemma demo_utf8_batch: "utf8_batch ru_runtime demo_engine [demo_text] (demo_opt ''crm'' 100) 1"
  by (auto simp: utf8_batch_def demo_strategy demo_batch_loop rep_ok_def demo_reps_def demo_masked_def
      demo_batch_def joinMasked_def cat_defs intro!: valid_utf8_ascii simp del: batch_loop.simps)

lemma demo_batch_ok: "list_all (engine_ok ru_runtime demo_engine) [demo_text]"
  by (simp add: demo_engine_ok)

lemma demo_rd_ok:
  "\<exists>s'. rd_Save demo_primitives demo_codec demo_client s (demo_call t) pid r ttl = (s', None)"
  by (simp add: rd_Save_def encode_def Encrypt_def demo_codec_def demo_call_def demo_client_def)

lemma demo_rd_load_ok:
  "\<exists>s'. rd_Load demo_primitives demo_codec demo_client demo_Redis c pid = (s', Inr None) \<and> s' = demo_Redis"
  by (simp add: rd_Load_def demo_client_def demo_get_def demo_Redis_def)

theorem mask_unmask_redis_batch_witness:
  "\<exists>s' s''. run_prog (rd_ops demo_primitives demo_codec demo_client)
     (MaskBatchEx ru_runtime demo_primitives demo_engine 1 ''doc'' [demo_text] (demo_opt ''crm'' 100)) demo_times 0 demo_Redis =
       (s', Ok demo_batch) \<and>
     run_prog (rd_ops demo_primitives demo_codec demo_client)
       (UnmaskEx ru_runtime ''doc'' (joinMasked [demo_masked]) (demo_opt ''crm'' 100)) (\<lambda>i. demo_call 5) 0 s' =
       (s'', Ok \<lparr> ur_Restored = joinTexts [demo_text], ur_Misses = 0 \<rparr>)"
proof -
  let ?rcd = "\<lparr> rec_Replacements = demo_reps, rec_Strategy = ''token'', rec_CreatedAt = 1,
    rec_MaskedText = joinMasked (mb_Masked demo_batch), rec_Hash = hashText demo_primitives (joinTexts [demo_text]),
    rec_SystemID = ''crm'' \<rparr>"
  obtain s' where s': "rd_Save demo_primitives demo_codec demo_client demo_Redis (demo_call 2) ''doc'' ?rcd 100 = (s', None)"
    using demo_rd_ok by blast
  have run: "run_prog (rd_ops demo_primitives demo_codec demo_client)
     (MaskBatchEx ru_runtime demo_primitives demo_engine 1 ''doc'' [demo_text] (demo_opt ''crm'' 100)) demo_times 0 demo_Redis =
       (s', Ok demo_batch)"
    using s' demo_rd_load_ok [of "demo_call 1" "''doc''"]
    by (auto simp: MaskBatchEx_def rd_ops_def demo_strategy demo_batch_loop simp del: batch_loop.simps)
  obtain rcd where v: "rd_view demo_primitives demo_codec demo_get s' 5 ''doc'' = Inr (Some rcd)"
    using record_store.MaskBatch_visible [OF demo_redis.rd_store ru.go_runtime_axioms demo_batch_ok demo_utf8_batch _
        run [unfolded rd_ops_def], of 5] by force
  have "\<exists>s''. rd_Load demo_primitives demo_codec demo_client s' (demo_call 5) ''doc'' = (s'', Inr (Some rcd))"
    using v by (auto simp: rd_view_def view_ct_def rd_Load_def demo_client_def Let_def
        split: option.splits sum.splits)
  then obtain s'' where ld: "rd_Load demo_primitives demo_codec demo_client s' (demo_call 5) ''doc'' = (s'', Inr (Some rcd))"
    by blast
  show ?thesis
    using mask_unmask_redis_batch [OF demo_redis.redis_store_axioms ru.go_runtime_axioms demo_batch_ok demo_utf8_batch _ run,
        of "\<lambda>i. demo_call 5"] run ld
    by (simp add: demo_batch_def)
qed

subsection \<open>Two concurrent requests\<close>

text \<open>The time to live of the shipped configuration, in nanoseconds.\<close>

definition hour :: int where
  "hour = 3600 * 1000000000"

definition demo_request :: request where
  "demo_request = \<lparr> rq_pid = ''doc'', rq_payload = demo_text, rq_opt = demo_opt ''crm'' hour, rq_now = 1 \<rparr>"

lemma demo_request_ok: "request_ok ru_runtime demo_engine 0 10 demo_request"
proof -
  have "utf8_masking ru_runtime demo_engine demo_text (demo_opt ''crm'' hour) 1"
    by (intro demo_utf8 valid_utf8_ascii) simp
  then show ?thesis by (simp add: request_ok_def demo_request_def outlives_def hour_def)
qed

definition demo_start :: "(Memory, ProcessResult outcome) conf" where
  "demo_start = \<lparr> cf_store = demo_memory, cf_now = 0,
     cf_progs = map (request_prog ru_runtime demo_primitives demo_engine) [demo_request, demo_request] \<rparr>"

lemma demo_lasts: "lasts pr T pids demo_memory"
  by (simp add: lasts_def demo_memory_def)

text \<open>The first request runs to its end, then the second.\<close>

lemma demo_interleaving:
  obtains c res' where "conc_reach (mem_ops demo_primitives demo_codec) cleanup demo_start c"
    and "cf_progs c ! 0 = Return (Ok (fresh_result demo_mres))" and "cf_progs c ! 1 = Return (Ok res')" and "cf_now c = 1"
proof -
  let ?so = "mem_ops demo_primitives demo_codec" and ?q = "request_prog ru_runtime demo_primitives demo_engine demo_request"
  let ?rcd = "new_record demo_primitives (tokenStrategy ru_runtime) (demo_opt ''crm'' hour) 1 demo_text demo_mres demo_reps"
  let ?call = "demo_call 1"
  obtain m1 where m1: "mem_SaveNew demo_primitives demo_codec demo_memory ?call ''doc'' ?rcd hour = (m1, Inr True)"
    using demo_saveNew_ok by (metis demo_memory_def Memory.select_convs(1))
  define p1 where "p1 = SaveNew_then ''doc'' ?rcd hour (\<lambda>ans.
      case ans of
        Inl x \<Rightarrow> Return (Err x)
      | Inr True \<Rightarrow> Return (Ok (fresh_result demo_mres))
      | Inr False \<Rightarrow> process_lost ru_runtime demo_primitives demo_engine ''doc'' demo_text (demo_opt ''crm'' hour) demo_mres ?rcd)"
  have e1: "exec ?so ?call demo_memory ?q = (demo_memory, p1)"
    by (simp add: request_prog_def demo_request_def Process_def mem_ops_def demo_load demo_strategy demo_runMask_mres
        Let_def p1_def)
  have e2: "exec ?so ?call demo_memory p1 = (m1, Return (Ok (fresh_result demo_mres)))"
    using m1 by (simp add: p1_def mem_ops_def)
  have ok: "record_ok ?rcd"
    using new_record_ok [of ru_runtime demo_engine demo_text "demo_opt ''crm'' hour" 1 "tokenStrategy ru_runtime" demo_mres demo_reps]
      demo_request_ok by (simp add: demo_strategy demo_runMask demo_mres_def request_ok_def demo_request_def)
  have live: "mem_live 1 hour 10" by (simp add: mem_live_def expired_def expiryFor_def hour_def)
  then have f1: "lasts demo_primitives 10 {''doc''} m1" using lasts_SaveNew [OF demo_lasts m1] by simp
  have "mem_view demo_primitives demo_codec m1 10 ''doc'' = Inr (Some ?rcd)"
    using demo_store.mem_SaveNew_view(2) [OF m1 ok, of 10 "''doc''"] live by simp
  then have l: "mem_Load demo_primitives demo_codec m1 ?call ''doc'' = (m1, Inr (Some ?rcd))"
    using lasts_Load [OF f1, of "''doc''" ?call demo_codec] by simp
  have e3: "\<exists>res'. exec ?so ?call m1 ?q = (m1, Return (Ok res'))"
    using l by (simp add: request_prog_def demo_request_def Process_def mem_ops_def process_known_def
        processExisting_def ownsRecord_def new_record_def LegacyOwner_def)
  then obtain res' where e3: "exec ?so ?call m1 ?q = (m1, Return (Ok res'))" by blast
  have r: "conc_reach ?so cleanup demo_start \<lparr> cf_store = demo_memory, cf_now = 1, cf_progs = [p1, ?q] \<rparr>"
    using conc_reach.move [OF conc_reach.start conc_step.request [of 0 demo_start ?call ?so demo_memory p1 cleanup]] e1 by (simp add: demo_start_def)
  have r: "conc_reach ?so cleanup demo_start \<lparr> cf_store = m1, cf_now = 1, cf_progs = [Return (Ok (fresh_result demo_mres)), ?q] \<rparr>"
    using conc_reach.move [OF r conc_step.request [of 0 "\<lparr> cf_store = demo_memory, cf_now = 1, cf_progs = [p1, ?q] \<rparr>" ?call ?so m1
        "Return (Ok (fresh_result demo_mres))" cleanup]] e2 by simp
  have "conc_reach ?so cleanup demo_start
      \<lparr> cf_store = m1, cf_now = 1, cf_progs = [Return (Ok (fresh_result demo_mres)), Return (Ok res')] \<rparr>"
    using conc_reach.move [OF r conc_step.request [of 1 "\<lparr> cf_store = m1, cf_now = 1, cf_progs = [Return (Ok (fresh_result demo_mres)), ?q] \<rparr>"
        ?call ?so m1 "Return (Ok res')" cleanup]] e3 by simp
  then show thesis by (rule that) simp_all
qed

theorem concurrent_process_agree_witness:
  "\<exists>c rcd. conc_reach (mem_ops demo_primitives demo_codec) cleanup demo_start c \<and>
     mem_view demo_primitives demo_codec (cf_store c) 1 ''doc'' = Inr (Some rcd) \<and>
     agrees ru_runtime demo_primitives demo_engine demo_request rcd (fresh_result demo_mres)"
proof -
  obtain c res' where c: "conc_reach (mem_ops demo_primitives demo_codec) cleanup demo_start c"
    and f: "cf_progs c ! 0 = Return (Ok (fresh_result demo_mres))" and now: "cf_now c = 1"
    by (rule demo_interleaving)
  show ?thesis
    using concurrent_process_agree [OF demo_store.store_env_axioms demo_lasts _ c [unfolded demo_start_def] _ _ f, of 10] c
      demo_request_ok now by (auto simp: demo_request_def)
qed

theorem concurrent_same_payload_witness:
  "\<exists>c res'. conc_reach (mem_ops demo_primitives demo_codec) cleanup demo_start c \<and>
     cf_progs c ! 0 = Return (Ok (fresh_result demo_mres)) \<and> cf_progs c ! 1 = Return (Ok res') \<and>
     prs_Result res' = demo_masked"
proof -
  obtain c res' where c: "conc_reach (mem_ops demo_primitives demo_codec) cleanup demo_start c"
    and f: "cf_progs c ! 0 = Return (Ok (fresh_result demo_mres))" "cf_progs c ! 1 = Return (Ok res')"
    and now: "cf_now c = 1"
    by (rule demo_interleaving)
  have q: "\<forall>q \<in> set [demo_request, demo_request]. request_ok ru_runtime demo_engine 0 10 q \<and> rq_pid q = ''doc'' \<and>
      rq_payload q = demo_text"
    using demo_request_ok by (simp add: demo_request_def)
  have sys: "opt_SystemID (rq_opt ([demo_request, demo_request] ! i)) = ''crm''" if "i < 2" for i
    using that by (auto simp: demo_request_def less_2_cases_iff)
  obtain masked where m: "\<And>i res. i < 2 \<Longrightarrow> cf_progs c ! i = Return (Ok res) \<Longrightarrow> prs_Result res = masked"
    using concurrent_same_payload [OF demo_store.store_env_axioms demo_lasts demo_absent [of 0 "''doc''"] q _
        c [unfolded demo_start_def]] now sys by (auto simp: demo_request_def numeral_2_eq_2)
  from m [OF _ f(1)] m [OF _ f(2)] c f show ?thesis by (auto simp: fresh_result_def demo_mres_def)
qed

end
