(* ===== verification/Http_Witness.thy ===== *)
theory Http_Witness
  imports Http_Server Engine_Witness
begin

text \<open>
  A concrete service (three systems, the token strategy, the in-memory store) and the properties of the
  HTTP layer applied to it.
\<close>

definition demo_server_env :: Server where
  "demo_server_env = \<lparr> sv_cfg = demo_config, sv_engine = demo_engine, sv_HashID = (\<lambda>pid. ''h''), sv_getenv = demo_env \<rparr>"

definition demo_http :: http_call where
  "demo_http = \<lparr> hc_now = 1, hc_random = Some (replicate 16 CHR ''r''), hc_ping = None \<rparr>"

definition demo_upstream :: upstream where
  "demo_upstream = \<lparr> up_json = (\<lambda>_. None), up_post = (\<lambda>u h r. DoErr LLMDeadline),
     up_client = NewLLMClient demo_env (cfg_llm demo_config), up_random = None \<rparr>"

lemma demo_server_simps [simp]:
  "sv_cfg demo_server_env = demo_config" "sv_engine demo_server_env = demo_engine" "sv_getenv demo_server_env = demo_env"
  by (simp_all add: demo_server_env_def)

lemma demo_options: "(optionsFor demo_config demo_crm)\<lparr> opt_Strategy := ''token'' \<rparr> = demo_opt ''crm'' 100"
  by (simp add: optionsFor_def demo_config_def demo_crm_def demo_opt_def)

definition demo_mask_request :: maskRequest where
  "demo_mask_request = \<lparr> mq_Text = demo_text, mq_ID = ''doc'', mq_Strategy = '''' \<rparr>"

lemma demo_handleMask:
  "handleMask ru_runtime demo_primitives demo_server_env demo_http (Some demo_crm) demo_header (Body demo_mask_request False) =
     map_prog (finish_mask ''doc'' demo_text ''token'')
       (MaskEx ru_runtime demo_primitives demo_engine 1 ''doc'' demo_text (demo_opt ''crm'' 100))"
proof -
  have "demo_text \<noteq> ''''" by (simp add: demo_text_def)
  moreover have "strategyOverride demo_crm '''' = (''token'', 0)"
    by (simp add: strategyOverride_def demo_crm_def StrategyToken_def)
  ultimately show ?thesis
    by (simp add: handleMask_def readJSON_def demo_mask_request_def validPayloadID_def maxPayloadIDBytes_def
        resolveMaskID_def systemFrom_def demo_options demo_http_def)
qed

lemma demo_post_mask:
  "\<exists>m' res. run_prog (mem_ops demo_primitives demo_codec)
     (post_mask ru_runtime demo_primitives demo_server_env demo_http demo_header (Body demo_mask_request False)) demo_times 0 demo_memory =
       (m', Some res) \<and> rs_body (hr_resp res) = MaskBody ''doc'' demo_masked (mr_Found demo_mres) ''token''"
proof -
  obtain m' where m': "run_prog (mem_ops demo_primitives demo_codec)
     (MaskEx ru_runtime demo_primitives demo_engine 1 ''doc'' demo_text (demo_opt ''crm'' 100)) demo_times 0 demo_memory =
     (m', Ok demo_mres)"
    using demo_MaskEx by blast
  have w: "post_mask ru_runtime demo_primitives demo_server_env demo_http demo_header (Body demo_mask_request False) =
      map_prog (map_option (logged demo_server_env routeMask (authenticate demo_config demo_env demo_header routeMask)))
        (map_prog (finish_mask ''doc'' demo_text ''token'')
          (MaskEx ru_runtime demo_primitives demo_engine 1 ''doc'' demo_text (demo_opt ''crm'' 100)))"
    unfolding post_mask_def demo_handleMask [symmetric]
    using wrap_accepted [of demo_server_env demo_header routeMask demo_crm] demo_crm_auth [of routeMask]
    by (simp add: route_names)
  show ?thesis unfolding w run_prog_map m' by (simp add: finish_mask_def writeJSON_def demo_mres_def)
qed

theorem http_mask_unmask_witness:
  "\<exists>m' m'' res res'. run_prog (mem_ops demo_primitives demo_codec)
     (post_mask ru_runtime demo_primitives demo_server_env demo_http demo_header (Body demo_mask_request False)) demo_times 0 demo_memory =
       (m', Some res) \<and>
     run_prog (mem_ops demo_primitives demo_codec)
       (post_unmask ru_runtime demo_server_env demo_header (Body \<lparr> uq_ID = ''doc'', uq_Text = demo_masked \<rparr> False))
       (\<lambda>i. demo_call 5) 0 m' = (m'', Some res') \<and>
     rs_status (hr_resp res') = 200 \<and> rs_body (hr_resp res') = UnmaskBody demo_text 0"
proof -
  obtain m' res where m': "run_prog (mem_ops demo_primitives demo_codec)
     (post_mask ru_runtime demo_primitives demo_server_env demo_http demo_header (Body demo_mask_request False)) demo_times 0 demo_memory =
       (m', Some res)" and b: "rs_body (hr_resp res) = MaskBody ''doc'' demo_masked (mr_Found demo_mres) ''token''"
    using demo_post_mask by blast
  have e: "engine_ok ru_runtime (sv_engine demo_server_env) (mq_Text demo_mask_request)" by (simp add: demo_engine_ok)
  have v: "Validate (sv_cfg demo_server_env) = None" by (simp add: demo_config_valid)
  have a: "ar_system (authenticate (sv_cfg demo_server_env) (sv_getenv demo_server_env) demo_header routeMask) = Some demo_crm"
    by (simp add: demo_crm_auth)
  have u: "sys_Unmask demo_crm" by (simp add: demo_crm_def)
  have "utf8_masking ru_runtime demo_engine demo_text (demo_opt ''crm'' 100) 1"
    by (intro demo_utf8 valid_utf8_ascii) simp
  then have t: "utf8_masking ru_runtime (sv_engine demo_server_env) (mq_Text demo_mask_request)
      ((optionsFor (sv_cfg demo_server_env) demo_crm)\<lparr> opt_Strategy := ''token'' \<rparr>) (hc_now demo_http)"
    by (simp add: demo_options demo_mask_request_def demo_http_def)
  have ttl: "sto_TTL (cfg_store demo_config) = 100" by (simp add: demo_config_def)
  have tx: "mq_Text demo_mask_request = demo_text" by (simp add: demo_mask_request_def)
  have rnd: "hc_random demo_http = Some bs \<Longrightarrow> length bs = 16" for bs by (auto simp: demo_http_def)
  show ?thesis
    using http_mask_unmask [OF demo_store.store_env_axioms ru.go_runtime_axioms e v a u m' b t,
        of "\<lambda>i. demo_call 5"] m' rnd by (simp add: demo_absent ttl tx)
qed

theorem wrap_guards_witness:
  "\<exists>r. wrap demo_server_env routeMask True (\<lambda>_. '''') (\<lambda>ctx. handleHealthz demo_server_env) = Return (Some r) \<and>
     rs_status (hr_resp r) \<in> {401, 403} \<and> rs_body (hr_resp r) = ErrorBody ''system not allowed''"
proof -
  have "ar_system (authenticate demo_config demo_env (\<lambda>_. '''') routeMask) = None"
    by (simp add: authenticate_def Let_def route_names)
  with wrap_guards [where route = routeMask and acquired = True and sv = demo_server_env and header = "\<lambda>_. ''''"
      and h = "\<lambda>ctx. handleHealthz demo_server_env"]
  show ?thesis by (simp add: route_names)
qed

text \<open>A state with one request in flight.\<close>

definition demo_busy :: "Memory srv_state" where
  "demo_busy = (fst (acquireSlot demo_config (New_server demo_memory)))\<lparr> sr_jobs :=
     [serve ru_runtime demo_primitives demo_server_env demo_upstream demo_http True demo_header
        (MaskReq (Body demo_mask_request False))] \<rparr>"

lemma demo_busy_reach:
  "srv_reach ru_runtime demo_primitives demo_server_env demo_upstream (mem_ops demo_primitives demo_codec) demo_busy"
proof -
  have "acquireSlot (sv_cfg demo_server_env) (New_server demo_memory) =
      (fst (acquireSlot demo_config (New_server demo_memory)), True)"
    by (simp add: acquireSlot_def New_server_def demo_config_def)
  from srv_reach.move [OF srv_reach.boot srv_step.accept [OF this, of ru_runtime demo_primitives demo_upstream
      "mem_ops demo_primitives demo_codec" demo_http demo_header "MaskReq (Body demo_mask_request False)"]]
  show ?thesis by (simp add: demo_busy_def New_server_def)
qed

theorem slots_invariant_witness:
  "length (sr_jobs demo_busy) = 1 \<and> sr_sem demo_busy = 1 \<and> sr_gauge demo_busy = 1 \<and> snd (acquireSlot demo_config demo_busy)"
proof -
  have l: "length (sr_jobs demo_busy) = 1" by (simp add: demo_busy_def)
  have m: "srv_MaxInflight (cfg_server demo_config) = 2" by (simp add: demo_config_def)
  have "Validate (sv_cfg demo_server_env) = None" by (simp add: demo_config_valid)
  from slots_invariant [OF this demo_busy_reach] l m show ?thesis by simp
qed

theorem server_drains_witness:
  "\<exists>st'. (srv_step ru_runtime demo_primitives demo_server_env demo_upstream (mem_ops demo_primitives demo_codec))\<^sup>*\<^sup>*
     demo_busy st' \<and> sr_jobs st' = [] \<and> sr_sem st' = 0 \<and> length (sr_done st') = 1"
proof -
  have "length (sr_jobs demo_busy) = 1" "sr_done demo_busy = []"
    by (simp_all add: demo_busy_def acquireSlot_def New_server_def)
  moreover have "Validate (sv_cfg demo_server_env) = None" by (simp add: demo_config_valid)
  from server_drains [OF this demo_busy_reach] calculation show ?thesis by auto
qed

theorem logs_hash_ids_witness:
  "\<exists>m' h. run_prog (mem_ops demo_primitives demo_codec)
     (serve ru_runtime demo_primitives demo_server_env demo_upstream demo_http True demo_header
        (MaskReq (Body demo_mask_request False))) demo_times 0 demo_memory = (m', Some h) \<and>
     (\<forall>ev \<in> set (hr_events h). log_ids ev \<subseteq> {''h''})"
proof -
  have "serve ru_runtime demo_primitives demo_server_env demo_upstream demo_http True demo_header
        (MaskReq (Body demo_mask_request False)) =
      post_mask ru_runtime demo_primitives demo_server_env demo_http demo_header (Body demo_mask_request False)"
    unfolding serve_def post_mask_def by (simp, rule arg_cong [of _ _ "wrap demo_server_env routeMask True demo_header"]) auto
  with demo_post_mask obtain m' h where r: "run_prog (mem_ops demo_primitives demo_codec)
     (serve ru_runtime demo_primitives demo_server_env demo_upstream demo_http True demo_header
        (MaskReq (Body demo_mask_request False))) demo_times 0 demo_memory = (m', Some h)" by metis
  have "\<And>d. MaskReq (Body demo_mask_request False) \<noteq> ChatReq d" by simp
  from logs_hash_ids [OF this r] r show ?thesis by (auto simp: demo_server_env_def)
qed

definition strict_server :: Server where
  "strict_server = demo_server_env\<lparr> sv_getenv := (\<lambda>n. ''secret'') \<rparr>"

definition chatbot_header :: "string \<Rightarrow> string" where
  "chatbot_header name = (if name = systemHeader then ''chatbot'' else ''secret'')"

theorem no_unmask_over_http_witness:
  "\<exists>r. run_prog (mem_ops demo_primitives demo_codec)
     (serve ru_runtime demo_primitives strict_server demo_upstream demo_http True chatbot_header
        (UnmaskReq (Body \<lparr> uq_ID = ''doc'', uq_Text = ''x'' \<rparr> False))) demo_times 0 demo_memory = (demo_memory, r) \<and>
     r \<noteq> None \<and> nothing_restored r"
proof -
  let ?b = "UnmaskReq (Body \<lparr> uq_ID = ''doc'', uq_Text = ''x'' \<rparr> False)"
  have a: "ar_system (authenticate (sv_cfg strict_server) (sv_getenv strict_server) chatbot_header (route_of ?b)) = Some demo_chatbot"
    by (simp add: authenticate_def Let_def chatbot_header_def systemHeader_def apiKeyHeader_def SystemByID_def demo_config_def
        demo_checker_def demo_chatbot_def expectedKey_def constantTimeEqual_iff strict_server_def route_names)
  have u: "\<not> sys_Unmask demo_chatbot" by (simp add: demo_chatbot_def)
  have w: "wrap strict_server routeUnmask True chatbot_header h =
      map_prog (map_option (logged strict_server routeUnmask
        (authenticate (sv_cfg strict_server) (sv_getenv strict_server) chatbot_header routeUnmask))) (h (Some demo_chatbot))" for h
    using wrap_accepted [of strict_server chatbot_header routeUnmask demo_chatbot] a by (simp add: route_names)
  obtain q where r: "run_prog (mem_ops demo_primitives demo_codec)
     (serve ru_runtime demo_primitives strict_server demo_upstream demo_http True chatbot_header ?b) demo_times 0 demo_memory =
       (demo_memory, Some q)"
    using u by (simp add: serve_def w handleUnmask_def systemFrom_def)
  from no_unmask_over_http [OF a u r] r show ?thesis by blast
qed

end
