(* ===== verification/Service_Witness.thy ===== *)
theory Service_Witness
  imports Service Detector_Witness Http_Witness
begin

text \<open>
  A start of the whole service with the default detectors (one rule, small dictionaries) and the four strategies, and
  a passport number that is masked and restored over HTTP.
\<close>

subsection \<open>The default detectors on a passport number\<close>

text \<open>Every day begins with a Russian letter, so a text of ASCII bytes has no match.\<close>

lemma word_rx_first:
  "rx_rel s (word_rx w) i j \<Longrightarrow> runes w = c # cs \<Longrightarrow> c \<noteq> 0x2E \<Longrightarrow> i < length s \<and> fst (DecodeRune (drop i s)) = c"
  by (auto simp: word_rx_def rel_iffs)

lemma day_words_cyrillic: "list_all (\<lambda>w. runes w \<noteq> [] \<and> 0x80 \<le> hd (runes w)) (map fst dateWordDays)"
  by code_simp

lemma no_date_words:
  assumes "go_runtime rt" and "\<forall>c \<in> set s. of_char c < (0x80 :: nat)"
  shows "FindAllIndex s (buildDateWordsRe rt) = []"
proof -
  have "\<not> rx_rel s (buildDateWordsRe rt) i j" for i j
  proof
    assume "rx_rel s (buildDateWordsRe rt) i j"
    then obtain m where "rx_rel s (buildDateWordDayRe rt) i m"
      by (auto simp: buildDateWordsRe_def rx_cats_Cons rel_iffs)
    then obtain w where "w \<in> set (longest_first rt (map fst dateWordDays))" and w: "rx_rel s (word_rx w) i m"
      by (auto simp: buildDateWordDayRe_def rx_alts_rel)
    moreover have "strict_weak (\<lambda>a b :: string. length b < length a)" by (auto simp: strict_weak_def)
    ultimately have "w \<in> set (map fst dateWordDays)"
      using slice_sorter.sort_slice_set [OF go_runtime.rt_sorter [OF assms(1)]] by (metis longest_first_def)
    with day_words_cyrillic have "runes w \<noteq> [] \<and> 0x80 \<le> hd (runes w)" unfolding list_all_iff by blast
    then obtain c cs where "runes w = c # cs" "0x80 \<le> c" by (metis list.collapse)
    with word_rx_first [OF w] have "i < length s" "0x80 \<le> fst (DecodeRune (drop i s))" by auto
    moreover from this(1) have "drop i s = s ! i # drop (Suc i) s" "of_char (s ! i) < (0x80 :: nat)"
      using assms(2) by (simp_all add: Cons_nth_drop_Suc)
    ultimately show False by (simp add: Let_def)
  qed
  then have "find_from s (buildDateWordsRe rt) 0 = None" by (simp add: find_from_None)
  then show ?thesis by (simp add: FindAllIndex_def all_from_None)
qed

definition svc_text :: string where
  "svc_text = ''4510 123456''"

definition svc_t :: Text where
  "svc_t = \<lparr> Raw = svc_text, Lower = ToLower ru_runtime svc_text \<rparr>"

definition svc_span :: Span where
  "svc_span = \<lparr> sp_Start = 0, sp_End = 11, sp_Category = CatPassport, sp_Detector = ''regex'', sp_Confidence = 9 / 10 \<rparr>"

lemma svc_regex: "DetectLower_regex ru_runtime (demo_rules ru_runtime) svc_t = Some [svc_span]"
  by code_simp

lemma svc_names: "DetectLower_names ru_runtime demo_dict svc_t = []"
  by code_simp

lemma svc_ch: "DetectLower_ch ru_runtime svc_t = []"
  by code_simp

lemma svc_addr: "DetectLower_addr ru_runtime demo_cities svc_t = Some []"
  by code_simp

lemma svc_bp: "DetectLower_bp ru_runtime (cd_cities demo_cities) demo_dict svc_t = Some []"
  by code_simp

lemma svc_cz: "DetectLower_cz ru_runtime svc_t = Some []"
  by code_simp

lemma svc_issuer: "DetectLower_issuer ru_runtime svc_t = Some []"
  by code_simp

lemma svc_dw: "DetectLower_dw ru_runtime svc_t = Some []"
proof -
  have "search_text svc_t = svc_text" by code_simp
  moreover have "\<forall>c \<in> set svc_text. of_char c < (0x80 :: nat)" by (simp add: svc_text_def)
  ultimately show ?thesis using no_date_words [OF ru.go_runtime_axioms] by (simp add: DetectLower_dw_def)
qed

lemma svc_Run: "Run ru_runtime (NewPipeline demo_default) svc_text = Some \<lparr> Spans = [svc_span] \<rparr>"
proof -
  have d: "demo_default = [NewRegexDetector ru_runtime (demo_rules ru_runtime), NewDateWordsDetector ru_runtime,
      NewNamesDetector ru_runtime demo_dict, NewCardholderDetector ru_runtime, NewAddressDetector ru_runtime demo_cities,
      NewBirthplaceDetector ru_runtime (cd_cities demo_cities) demo_dict, NewCitizenshipDetector ru_runtime,
      NewIssuerDetector ru_runtime]"
    unfolding demo_default_def Default_def DefaultRules_def passport_rule_loads by simp
  have spans: "concat (map (\<lambda>d. detect_with d svc_t) demo_default) = [svc_span]"
    by (simp add: d detect_with_def detector_of_def Let_def NewRegexDetector_def NewDateWordsDetector_def NewNamesDetector_def
        NewCardholderDetector_def NewAddressDetector_def NewBirthplaceDetector_def NewCitizenshipDetector_def
        NewIssuerDetector_def svc_regex svc_dw svc_names svc_ch svc_addr svc_bp svc_cz svc_issuer)
  have "Resolve ru_runtime [svc_span] = [svc_span]" by code_simp
  then show ?thesis using spans
    by (simp add: Run_def NewPipeline_def postProcess_def svc_t_def reclassifySpan_def svc_span_def cat_defs Let_def upt_rec)
qed

definition svc_masked :: string where
  "svc_masked = ''[PASSPORT_1]''"

subsection \<open>The service\<close>

definition svc_host :: "unit host" where
  "svc_host = \<lparr> ho_getenv = demo_env, ho_readFile = (\<lambda>_. Some ''cfg''), ho_yaml = (\<lambda>_. Some demo_config),
     ho_random = Some (replicate 32 CHR ''k''), ho_client = (\<lambda>_. ()) \<rparr>"

text \<open>No Redis is used: a client whose commands fail.\<close>

definition svc_client :: "unit redis_client" where
  "svc_client = \<lparr> rc_Set = (\<lambda>s c k v ttl. (s, Some (ErrRedis ''refused''))),
     rc_SetNX = (\<lambda>s c k v ttl. (s, Inl (ErrRedis ''refused''))), rc_Get = (\<lambda>s c k. (s, Inl (ErrRedis ''refused''))),
     rc_Del = (\<lambda>s c k. (s, Some (ErrRedis ''refused''))), rc_Ping = (\<lambda>s c. Some (ErrRedis ''refused'')) \<rparr>"

definition svc_assets :: assets where
  "svc_assets = \<lparr> as_partial = Some partial_yaml, as_rules = [passport_rule], as_compile = demo_compile ru_runtime,
     as_names = demo_dict, as_cities = demo_cities,
     as_synth = (\<lambda>p. if p = ''dict/surnames.txt'' then Some ''ivanov'' else Some ''ivan'') \<rparr>"

definition svc_engine :: Engine where
  "svc_engine = New_engine (NewPipeline demo_default)
     [(''partial'', partialMask_strategy ru_runtime (NewPartial partial_yaml)), (''full'', fullStrategy ru_runtime),
      (''token'', tokenStrategy ru_runtime), (''synthetic'', syntheticStrategy_of ru_runtime counter_src demo_synth)]"

definition demo_service :: "unit service" where
  "demo_service = \<lparr> sc_server = \<lparr> sv_cfg = demo_config, sv_engine = svc_engine,
        sv_HashID = backend_HashID demo_primitives (MemoryStore demo_memory :: unit backend), sv_getenv = demo_env \<rparr>,
     sc_store = MemoryStore demo_memory, sc_logger = \<lparr> lg_handler = JSONHandler, lg_level = LevelInfo \<rparr>,
     sc_http = newHTTPServer demo_config, sc_metrics = None, sc_rules = length (demo_rules ru_runtime) \<rparr>"

lemma svc_started:
  "start ru_runtime counter_src demo_primitives svc_host svc_assets ''configs/config.yaml'' = Started demo_service"
proof -
  have l: "Load (ho_readFile svc_host) (ho_yaml svc_host) (config_path (ho_getenv svc_host) ''configs/config.yaml'') = Inr demo_config"
    by (simp add: Load_def svc_host_def demo_config_valid)
  have k: "loadEncryptionKey demo_config (ho_getenv svc_host) (ho_random svc_host) = Inr (replicate 32 CHR ''k'')"
    by (simp add: loadEncryptionKey_def KeyFromEnv_def svc_host_def demo_env_def demo_config_def Let_def)
  have s: "newStore (ho_client svc_host) (ho_getenv svc_host) demo_config (replicate 32 CHR ''k'') = Inr (MemoryStore demo_memory)"
    by (simp add: newStore_def newMemoryStore_def NewMemory_def New_def demo_memory_def demo_config_def)
  have r: "ruleCount ru_runtime (as_compile svc_assets) (as_rules svc_assets) = length (demo_rules ru_runtime)"
    unfolding ruleCount_def DefaultRules_def svc_assets_def assets.simps passport_rule_loads by simp
  have d: "Default ru_runtime (as_compile svc_assets) (as_rules svc_assets) (as_names svc_assets) (as_cities svc_assets) = Some demo_default"
    by (simp only: svc_assets_def assets.simps demo_default_built)
  have t: "strategies ru_runtime counter_src svc_assets = Some (e_strategies svc_engine)"
    by (simp add: strategies_def MustPartial_def svc_assets_def svc_engine_def New_engine_def demo_synth_def)
  have g: "newLogger (log_Level (cfg_logging demo_config)) (log_Format (cfg_logging demo_config)) =
      \<lparr> lg_handler = JSONHandler, lg_level = LevelInfo \<rparr>"
    by (simp add: newLogger_def demo_config_def)
  have m: "newMetricsServer demo_config = None" by (simp add: newMetricsServer_def demo_config_def)
  show ?thesis
    unfolding start_def l k s d t r sum.case option.case Let_def g m
    by (simp add: demo_service_def svc_engine_def New_engine_def svc_host_def)
qed

lemma svc_dict: "dict_ok (load (as_synth svc_assets))"
  by code_simp

theorem started_service_typed_witness:
  "\<exists>s. resolveStrategy (sv_engine (sc_server demo_service)) ''token'' = Some s \<and> st_Name s = ''token'' \<and>
     mask_strategy (st_Mask s)"
proof -
  have "demo_crm \<in> set (cfg_systems (sv_cfg (sc_server demo_service)))" by (simp add: demo_service_def demo_config_def)
  moreover have "strategyOverride demo_crm '''' = (''token'', 0)"
    by (simp add: strategyOverride_def demo_crm_def StrategyToken_def)
  ultimately show ?thesis
    using started_service_typed [OF ru.go_runtime_axioms counter.rand_source_axioms svc_dict svc_started] by fastforce
qed

definition svc_reps :: "Replacement list" where
  "svc_reps = [\<lparr> rep_Category = CatPassport, rep_Original = svc_text, rep_Masked = svc_masked, rep_Start = 0, rep_End = 12 \<rparr>]"

definition svc_mres :: MaskResult where
  "svc_mres = \<lparr> mr_Masked = svc_masked, mr_Found = counts [svc_span] \<rparr>"

lemma svc_Apply:
  "\<exists>d. Apply ru_runtime svc_text [svc_span] (tokenStrategy ru_runtime) (Some NewDocState) = Some (svc_masked, svc_reps, d)"
proof -
  have "map_option (\<lambda>(masked, reps, d). (masked, reps))
      (Apply ru_runtime svc_text [svc_span] (tokenStrategy ru_runtime) (Some NewDocState)) = Some (svc_masked, svc_reps)"
    by code_simp
  then show ?thesis by auto
qed

lemma svc_strategy: "resolveStrategy svc_engine ''token'' = Some (tokenStrategy ru_runtime)"
  by (simp add: resolveStrategy_def svc_engine_def New_engine_def)

lemma svc_runMask:
  "runMask ru_runtime svc_engine svc_text (demo_opt sys ttl) (tokenStrategy ru_runtime) (Some NewDocState) =
     Some (svc_mres, svc_reps)"
proof -
  have "\<not> chunkThreshold < int (length svc_text)" by (simp add: chunkThreshold_def svc_text_def)
  moreover have "filterSpans [svc_span] [] [] = [svc_span]" by (simp add: filterSpans_def)
  ultimately show ?thesis
    using svc_Run svc_Apply by (auto simp: runMask_def mask_text_def mask_direct_def svc_engine_def New_engine_def
        svc_mres_def Let_def)
qed

lemma svc_utf8: "utf8_masking ru_runtime svc_engine svc_text (demo_opt ''crm'' 100) 1"
proof -
  have "valid_utf8 svc_text" "valid_utf8 svc_masked"
    by (auto simp: svc_text_def svc_masked_def intro!: valid_utf8_ascii)
  then show ?thesis
    by (auto simp: utf8_masking_def svc_strategy svc_runMask rep_ok_def svc_reps_def svc_mres_def cat_defs
        intro!: valid_utf8_ascii)
qed

definition svc_request :: maskRequest where
  "svc_request = \<lparr> mq_Text = svc_text, mq_ID = ''doc'', mq_Strategy = '''' \<rparr>"

lemma svc_server:
  "sv_cfg (sc_server demo_service) = demo_config" "sv_engine (sc_server demo_service) = svc_engine"
  "sv_getenv (sc_server demo_service) = demo_env"
  by (simp_all add: demo_service_def)

lemma svc_handleMask:
  "handleMask ru_runtime demo_primitives (sc_server demo_service) demo_http (Some demo_crm) demo_header (Body svc_request False) =
     map_prog (finish_mask ''doc'' svc_text ''token'')
       (MaskEx ru_runtime demo_primitives svc_engine 1 ''doc'' svc_text (demo_opt ''crm'' 100))"
proof -
  have "svc_text \<noteq> ''''" by (simp add: svc_text_def)
  moreover have "strategyOverride demo_crm '''' = (''token'', 0)"
    by (simp add: strategyOverride_def demo_crm_def StrategyToken_def)
  ultimately show ?thesis
    by (simp add: handleMask_def readJSON_def svc_request_def validPayloadID_def maxPayloadIDBytes_def
        resolveMaskID_def systemFrom_def demo_options demo_http_def svc_server)
qed

lemma svc_post_mask:
  "\<exists>b res. run_prog (backend_ops demo_primitives demo_codec svc_client)
     (post_mask ru_runtime demo_primitives (sc_server demo_service) demo_http demo_header (Body svc_request False))
     demo_times 0 (MemoryStore demo_memory) = (b, Some res) \<and>
   rs_body (hr_resp res) = MaskBody ''doc'' svc_masked (mr_Found svc_mres) ''token''"
proof -
  obtain m' where "mem_Save demo_primitives demo_codec demo_memory (demo_call 2) ''doc''
      (new_record demo_primitives (tokenStrategy ru_runtime) (demo_opt ''crm'' 100) 1 svc_text svc_mres svc_reps) 100 = (m', None)"
    using demo_save_ok by blast
  then have m': "run_prog (mem_ops demo_primitives demo_codec)
     (MaskEx ru_runtime demo_primitives svc_engine 1 ''doc'' svc_text (demo_opt ''crm'' 100)) demo_times 0 demo_memory = (m', Ok svc_mres)"
    by (simp add: MaskEx_def maskEx_def maskWithRecord_def mem_ops_def demo_load svc_strategy svc_runMask svc_mres_def Let_def)
  have w: "post_mask ru_runtime demo_primitives (sc_server demo_service) demo_http demo_header (Body svc_request False) =
      map_prog (map_option (logged (sc_server demo_service) routeMask (authenticate demo_config demo_env demo_header routeMask)))
        (map_prog (finish_mask ''doc'' svc_text ''token'')
          (MaskEx ru_runtime demo_primitives svc_engine 1 ''doc'' svc_text (demo_opt ''crm'' 100)))"
    unfolding post_mask_def svc_handleMask [symmetric]
    using wrap_accepted [of "sc_server demo_service" demo_header routeMask demo_crm] demo_crm_auth [of routeMask]
    by (simp add: route_names svc_server)
  show ?thesis
    unfolding w backend_memory run_prog_map m' by (simp add: finish_mask_def writeJSON_def svc_mres_def)
qed

theorem service_mask_unmask_witness:
  "\<exists>b b' res res'. run_prog (backend_ops demo_primitives demo_codec svc_client)
     (post_mask ru_runtime demo_primitives (sc_server demo_service) demo_http demo_header (Body svc_request False))
     demo_times 0 (sc_store demo_service) = (b, Some res) \<and>
   run_prog (backend_ops demo_primitives demo_codec svc_client)
     (post_unmask ru_runtime (sc_server demo_service) demo_header (Body \<lparr> uq_ID = ''doc'', uq_Text = ''[PASSPORT_1]'' \<rparr> False))
     (\<lambda>i. demo_call 5) 0 b = (b', Some res') \<and>
   rs_status (hr_resp res') = 200 \<and> rs_body (hr_resp res') = UnmaskBody ''4510 123456'' 0"
proof -
  obtain b res where b: "run_prog (backend_ops demo_primitives demo_codec svc_client)
     (post_mask ru_runtime demo_primitives (sc_server demo_service) demo_http demo_header (Body svc_request False))
     demo_times 0 (MemoryStore demo_memory) = (b, Some res)"
    and r: "rs_body (hr_resp res) = MaskBody ''doc'' svc_masked (mr_Found svc_mres) ''token''"
    using svc_post_mask by blast
  have c: "as_compile svc_assets p = Some re \<Longrightarrow> wf_caps (re_rx re)" for p re
    using demo_compile_wf by (simp add: svc_assets_def)
  have k: "list_all yaml_keywords_ok (as_rules svc_assets)" using passport_rule_keywords by (simp add: svc_assets_def)
  have w: "same_width ru_runtime (mq_Text svc_request)" by code_simp
  have a: "ar_system (authenticate (sv_cfg (sc_server demo_service)) (sv_getenv (sc_server demo_service)) demo_header routeMask) = Some demo_crm"
    by (simp add: demo_crm_auth svc_server)
  have u: "sys_Unmask demo_crm" by (simp add: demo_crm_def)
  have t: "utf8_masking ru_runtime (sv_engine (sc_server demo_service)) (mq_Text svc_request)
      ((optionsFor (sv_cfg (sc_server demo_service)) demo_crm)\<lparr> opt_Strategy := ''token'' \<rparr>) (hc_now demo_http)"
    using svc_utf8 by (simp add: demo_options svc_request_def demo_http_def svc_server)
  have rnd: "hc_random demo_http = Some bs \<Longrightarrow> length bs = 16" for bs by (auto simp: demo_http_def)
  have ttl: "sto_TTL (cfg_store demo_config) = 100" by (simp add: demo_config_def)
  show ?thesis
    using service_mask_unmask [where ds = "\<lambda>i. demo_call 5", OF demo_store.store_env_axioms ru.go_runtime_axioms counter.rand_source_axioms svc_dict c k
        svc_started w a u b r t] b rnd
    by (auto simp: demo_absent ttl svc_server demo_service_def svc_request_def svc_masked_def svc_text_def)
qed

end
