(* ===== verification/Metrics.thy ===== *)
theory Metrics
  imports Http_Server
begin

text \<open>
  The collectors (\<^verbatim>\<open>internal/metrics/metrics.go\<close>) and what the server reports to them. A counter or gauge vector is a
  function from label values to numbers; the registry and its exposition are library code. Bucket bounds are rationals.
\<close>

subsection \<open>Collectors\<close>

datatype instrument = CounterVec | HistogramVec | GaugeOf | HistogramOf

record collector =
  mt_Name :: string
  mt_Help :: string
  mt_kind :: instrument
  mt_labels :: "string list"
  mt_Buckets :: "rat list"

record Metrics =
  mx_RequestsTotal :: collector
  mx_RequestDuration :: collector
  mx_Inflight :: collector
  mx_PIIFound :: collector
  mx_Tokens :: collector
  mx_LLMDuration :: collector
  mx_Rejected :: collector
  mx_StoreErrors :: collector

definition New_metrics :: Metrics where
  "New_metrics =
     \<lparr> mx_RequestsTotal = \<lparr> mt_Name = ''pdn_requests_total'', mt_Help = ''Total HTTP requests by route, system and status.'',
         mt_kind = CounterVec, mt_labels = [''route'', ''system'', ''status''], mt_Buckets = [] \<rparr>,
       mx_RequestDuration = \<lparr> mt_Name = ''pdn_request_duration_seconds'', mt_Help = ''Request duration in seconds by route.'',
         mt_kind = HistogramVec, mt_labels = [''route''],
         mt_Buckets = [1 / 1000, 2 / 1000, 5 / 1000, 1 / 100, 2 / 100, 5 / 100, 1 / 10, 2 / 10, 5 / 10, 1, 2, 5] \<rparr>,
       mx_Inflight = \<lparr> mt_Name = ''pdn_inflight'', mt_Help = ''Number of requests currently being processed.'',
         mt_kind = GaugeOf, mt_labels = [], mt_Buckets = [] \<rparr>,
       mx_PIIFound = \<lparr> mt_Name = ''pdn_pii_found_total'', mt_Help = ''Total PII spans found by category.'',
         mt_kind = CounterVec, mt_labels = [''category''], mt_Buckets = [] \<rparr>,
       mx_Tokens = \<lparr> mt_Name = ''pdn_tokens_total'', mt_Help = ''Estimated tokens processed by direction.'',
         mt_kind = CounterVec, mt_labels = [''direction''], mt_Buckets = [] \<rparr>,
       mx_LLMDuration = \<lparr> mt_Name = ''pdn_llm_duration_seconds'', mt_Help = ''Upstream LLM call duration in seconds.'',
         mt_kind = HistogramOf, mt_labels = [],
         mt_Buckets = [5 / 100, 1 / 10, 25 / 100, 5 / 10, 1, 2, 5, 10, 30, 60] \<rparr>,
       mx_Rejected = \<lparr> mt_Name = ''pdn_rejected_total'', mt_Help = ''Total rejected requests by reason.'',
         mt_kind = CounterVec, mt_labels = [''reason''], mt_Buckets = [] \<rparr>,
       mx_StoreErrors = \<lparr> mt_Name = ''pdn_store_errors_total'', mt_Help = ''Total store errors by operation.'',
         mt_kind = CounterVec, mt_labels = [''operation''], mt_Buckets = [] \<rparr> \<rparr>"

definition registered :: "Metrics \<Rightarrow> collector list" where
  "registered m = [mx_RequestsTotal m, mx_RequestDuration m, mx_Inflight m, mx_PIIFound m, mx_Tokens m,
     mx_LLMDuration m, mx_Rejected m, mx_StoreErrors m]"

text \<open>Registration panics on a name that is taken and a histogram on bounds that do not increase; neither happens.\<close>

lemma New_metrics_registers:
  "distinct (map mt_Name (registered New_metrics)) \<and> list_all (\<lambda>c. sorted_wrt (<) (mt_Buckets c)) (registered New_metrics)"
  by (simp add: New_metrics_def registered_def)

subsection \<open>Reports\<close>

text \<open>The counter an event adds to, its label values and the amount; a map of counts adds to one series per category.\<close>

fun series_of :: "Metrics \<Rightarrow> event \<Rightarrow> (collector \<times> string list \<Rightarrow> nat) option" where
  "series_of m (Rejected reason) = Some (\<lambda>x. if x = (mx_Rejected m, [reason]) then 1 else 0)"
| "series_of m (StoreErrors op) = Some (\<lambda>x. if x = (mx_StoreErrors m, [op]) then 1 else 0)"
| "series_of m (PIIFound found) = Some (\<lambda>(c, labels). if c = mx_PIIFound m then
     (case labels of [cat] \<Rightarrow> (case found cat of Some n \<Rightarrow> n | None \<Rightarrow> 0) | _ \<Rightarrow> 0) else 0)"
| "series_of m (Tokens direction n) = Some (\<lambda>x. if x = (mx_Tokens m, [direction]) then n else 0)"
| "series_of m (RequestsTotal route system status) =
     Some (\<lambda>x. if x = (mx_RequestsTotal m, [route, system, decimal status]) then 1 else 0)"
| "series_of m _ = None"

definition observe :: "Metrics \<Rightarrow> event \<Rightarrow> (collector \<times> string list \<Rightarrow> nat) \<Rightarrow> collector \<times> string list \<Rightarrow> nat" where
  "observe m ev values = (case series_of m ev of None \<Rightarrow> values | Some f \<Rightarrow> (\<lambda>x. values x + f x))"

text \<open>\<^verbatim>\<open>WithLabelValues\<close> panics on a wrong number of values: each series has one value for each label of its collector.\<close>

lemma series_labels:
  "series_of New_metrics ev = Some f \<Longrightarrow> f (c, labels) \<noteq> 0 \<Longrightarrow>
     c \<in> set (registered New_metrics) \<and> length labels = length (mt_labels c)"
  by (cases ev) (auto simp: New_metrics_def registered_def split: if_splits list.splits)

lemma observed_series:
  "fold (observe m) evs v x = v x + sum_list (map (\<lambda>ev. case series_of m ev of None \<Rightarrow> 0 | Some f \<Rightarrow> f x) evs)"
  by (induction evs arbitrary: v) (auto simp: observe_def split: option.splits)

end
