(* ===== verification/Loadtest.thy ===== *)
theory Loadtest
  imports Llm Mask_Token
begin

text \<open>
  The load generator (\<^verbatim>\<open>loadtest/main.go\<close>): it offers pairs of requests at a rate, masks and unmasks each text, and
  reports rates, failures and latencies. The answers of the HTTP client, the clock, JSON and \<^verbatim>\<open>filepath.Clean\<close> are
  arguments. Floating-point numbers are rationals here: their rounding is not modelled. The concurrent part is a
  step relation on the jobs channel, the workers and the shared counters.
\<close>

subsection \<open>Data set\<close>

record datasetItem =
  di_ID :: string
  di_Text :: string

datatype dataset_error = OpenFailed | LineInvalid | LineTooLong

text \<open>\<^verbatim>\<open>bufio.Scanner\<close> (theory Llm): a line that does not fit the buffer ends the scan with an error; the lines before it have been decoded.\<close>

fun scan_dataset :: "(string \<Rightarrow> datasetItem option) \<Rightarrow> string list \<Rightarrow> datasetItem list \<Rightarrow> dataset_error + datasetItem list" where
  "scan_dataset unmarshal [] items = Inr items"
| "scan_dataset unmarshal (l # ls) items =
     (if max_token \<le> length l then Inl LineTooLong
      else let line = TrimSpace (drop_cr l) in
        if line = [] then scan_dataset unmarshal ls items
        else case unmarshal line of
          None \<Rightarrow> Inl LineInvalid
        | Some it \<Rightarrow> scan_dataset unmarshal ls (items @ [it]))"

text \<open>\<^term>\<open>None\<close> is the exit on an unsafe path.\<close>

definition safePath :: "(string \<Rightarrow> string) \<Rightarrow> string \<Rightarrow> string option" where
  "safePath clean_path path =
     (let c = clean_path path in
      if c = ''..'' \<or> HasPrefix c ''../'' then None else Some c)"

definition loadDataset ::
  "(string \<Rightarrow> string) \<Rightarrow> (string \<Rightarrow> string option) \<Rightarrow> (string \<Rightarrow> datasetItem option) \<Rightarrow> string
     \<Rightarrow> (dataset_error + datasetItem list) option" where
  "loadDataset clean_path readFile unmarshal path =
     (case safePath clean_path path of
        None \<Rightarrow> None
      | Some p \<Rightarrow> Some (case readFile p of
            None \<Rightarrow> Inl OpenFailed
          | Some bytes \<Rightarrow> scan_dataset unmarshal (raw_lines bytes) []))"

text \<open>Only an upward path is refused: an absolute path is taken, although the comment promises the working directory.\<close>

lemma safePath_absolute: "clean_path ''/etc/passwd'' = ''/etc/passwd'' \<Longrightarrow> safePath clean_path ''/etc/passwd'' = Some ''/etc/passwd''"
  by (simp add: safePath_def HasPrefix_def)

subsection \<open>Counters\<close>

definition kindMask :: string where "kindMask = ''mask''"

definition kindUnmask :: string where "kindUnmask = ''unmask''"

record counters =
  ct_total :: int
  ct_pairs :: int
  ct_offeredPairs :: int
  ct_droppedPairs :: int
  ct_badRound :: int
  ct_networkErrors :: int
  ct_cancelledAtShutdown :: int
  ct_successOK :: int
  ct_byCode :: "int \<rightharpoonup> int"
  ct_maskLat :: "int list"
  ct_unmaskLat :: "int list"

definition no_counts :: counters where
  "no_counts = \<lparr> ct_total = 0, ct_pairs = 0, ct_offeredPairs = 0, ct_droppedPairs = 0, ct_badRound = 0,
     ct_networkErrors = 0, ct_cancelledAtShutdown = 0, ct_successOK = 0, ct_byCode = Map.empty,
     ct_maskLat = [], ct_unmaskLat = [] \<rparr>"

definition code_count :: "(int \<rightharpoonup> int) \<Rightarrow> int \<Rightarrow> int" where
  "code_count m code = (case m code of None \<Rightarrow> 0 | Some n \<Rightarrow> n)"

text \<open>One sample: its kind, latency, status code (0 without an answer), error, and whether the run was over.\<close>

definition record_sample :: "counters \<Rightarrow> string \<Rightarrow> int \<Rightarrow> int \<Rightarrow> string option \<Rightarrow> bool \<Rightarrow> counters" where
  "record_sample c kind lat code err cancelled =
     (let c = c\<lparr> ct_total := ct_total c + 1 \<rparr>;
          c = c\<lparr> ct_byCode := (ct_byCode c)(code \<mapsto> code_count (ct_byCode c) code + 1) \<rparr>;
          c = (if cancelled then c\<lparr> ct_cancelledAtShutdown := ct_cancelledAtShutdown c + 1 \<rparr>
               else if err \<noteq> None then c\<lparr> ct_networkErrors := ct_networkErrors c + 1 \<rparr>
               else if code = 200 then c\<lparr> ct_successOK := ct_successOK c + 1 \<rparr>
               else c)
      in if kind = kindMask then c\<lparr> ct_maskLat := ct_maskLat c @ [lat] \<rparr>
         else c\<lparr> ct_unmaskLat := ct_unmaskLat c @ [lat] \<rparr>)"

subsection \<open>One request\<close>

record processRequest_lt =
  lp_Payload :: string
  lp_PayloadID :: string

text \<open>What the HTTP client can answer: the request is not built, it is not answered, or there is a status and a body.\<close>

datatype http_do = RequestError string | DoError string | Answered int string

record lt_reply =
  rp_result :: string
  rp_code :: int
  rp_err :: "string option"

definition request_headers :: "string \<Rightarrow> string \<Rightarrow> (string \<times> string) list" where
  "request_headers system apiKey =
     [(''Content-Type'', ''application/json'')] @
     (if system \<noteq> '''' then [(''X-System-Id'', system)] else []) @
     (if apiKey \<noteq> '''' then [(''X-API-Key'', apiKey)] else [])"

definition doProcess :: "(string \<Rightarrow> string + string) \<Rightarrow> http_do \<Rightarrow> lt_reply" where
  "doProcess unmarshal out =
     (case out of
        RequestError e \<Rightarrow> \<lparr> rp_result = '''', rp_code = 0, rp_err = Some e \<rparr>
      | DoError e \<Rightarrow> \<lparr> rp_result = '''', rp_code = 0, rp_err = Some e \<rparr>
      | Answered status data \<Rightarrow>
          if status \<noteq> 200 then \<lparr> rp_result = '''', rp_code = status, rp_err = None \<rparr>
          else (case unmarshal data of
                  Inl e \<Rightarrow> \<lparr> rp_result = '''', rp_code = status, rp_err = Some e \<rparr>
                | Inr result \<Rightarrow> \<lparr> rp_result = result, rp_code = status, rp_err = None \<rparr>))"

definition maxRetryAttempts :: nat where
  "maxRetryAttempts = 4"

definition succeeded :: "lt_reply \<Rightarrow> bool" where
  "succeeded r \<longleftrightarrow> rp_err r = None \<and> rp_code r = 200"

text \<open>
  The attempts: \<open>answers i\<close> is the answer to the \<open>i\<close>-th one and whether the run was over after it. The last argument
  is the result of the attempt before; the result is paired with the number of requests sent.
\<close>

fun retry_loop :: "nat \<Rightarrow> nat \<Rightarrow> (nat \<Rightarrow> lt_reply \<times> bool) \<Rightarrow> lt_reply \<Rightarrow> lt_reply \<times> nat" where
  "retry_loop 0 i answers r = (r, i)"
| "retry_loop (Suc n) i answers r0 =
     (let (r, over) = answers i in
      if succeeded r then (r\<lparr> rp_err := None \<rparr>, Suc i)
      else if over then (r, Suc i)
      else retry_loop n (Suc i) answers r)"

definition sendWithRetry :: "bool \<Rightarrow> (nat \<Rightarrow> lt_reply \<times> bool) \<Rightarrow> lt_reply \<times> nat" where
  "sendWithRetry retry answers =
     (let attempts = (if retry then maxRetryAttempts else 1)
      in retry_loop attempts 0 answers \<lparr> rp_result = '''', rp_code = 0, rp_err = None \<rparr>)"

text \<open>
  What it returns is the answer to the last request it sent; every earlier request failed while the run went on; and
  it stops before the last attempt only when a request has succeeded or the run is over.
\<close>

definition last_sent :: "nat \<Rightarrow> nat \<Rightarrow> (nat \<Rightarrow> lt_reply \<times> bool) \<Rightarrow> lt_reply \<Rightarrow> nat \<Rightarrow> bool" where
  "last_sent i n answers r k \<longleftrightarrow>
     i < k \<and> k \<le> i + n \<and> r = fst (answers (k - 1)) \<and>
     (\<forall>j. i \<le> j \<and> Suc j < k \<longrightarrow> \<not> succeeded (fst (answers j)) \<and> \<not> snd (answers j)) \<and>
     (k < i + n \<longrightarrow> succeeded r \<or> snd (answers (k - 1)))"

lemma last_sent_now: "answers i = (r, over) \<Longrightarrow> succeeded r \<or> over \<or> n = 0 \<Longrightarrow> last_sent i (Suc n) answers r (Suc i)"
  by (auto simp: last_sent_def)

lemma last_sent_later:
  assumes "last_sent (Suc i) n answers r k" and "\<not> succeeded (fst (answers i))" and "\<not> snd (answers i)"
  shows "last_sent i (Suc n) answers r k"
proof -
  have "\<not> succeeded (fst (answers j)) \<and> \<not> snd (answers j)" if "i \<le> j" "Suc j < k" for j
    using assms that by (cases "j = i") (auto simp: last_sent_def)
  with assms(1) show ?thesis by (auto simp: last_sent_def)
qed

lemma retry_loop_last: "retry_loop n i answers r0 = (r, k) \<Longrightarrow> 0 < n \<Longrightarrow> last_sent i n answers r k"
proof (induction n i answers r0 rule: retry_loop.induct)
  case (2 n i answers r0)
  obtain a over where a: "answers i = (a, over)" by fastforce
  consider "succeeded a" | "\<not> succeeded a" "over" | "\<not> succeeded a" "n = 0" | "\<not> succeeded a" "\<not> over" "0 < n"
    by blast
  then show ?case
  proof cases
    case 1
    moreover from 1 have "a\<lparr> rp_err := None \<rparr> = a" by (cases a) (simp add: succeeded_def)
    ultimately show ?thesis using "2.prems" last_sent_now [of answers i a over n] a by auto
  next
    case 4
    then have "retry_loop n (Suc i) answers a = (r, k)" using "2.prems" a by simp
    with "2.IH" [OF a [symmetric] refl] 4 have "last_sent (Suc i) n answers r k" by blast
    then show ?thesis by (rule last_sent_later) (use a 4 in simp_all)
  qed (use "2.prems" last_sent_now [of answers i a over n] a in \<open>auto split: if_splits\<close>)
qed simp

lemma sendWithRetry_last:
  "sendWithRetry retry answers = (r, k) \<Longrightarrow> last_sent 0 (if retry then 4 else 1) answers r k"
  using retry_loop_last [of "if retry then 4 else 1" 0 answers _ r k]
  by (cases retry) (simp_all add: sendWithRetry_def maxRetryAttempts_def Let_def)

text \<open>
  \<^verbatim>\<open>total\<close> is documented as every request attempted; a request that is retried is counted once.
\<close>

lemma total_ignores_retries:
  assumes "\<And>i. answers i = (\<lparr> rp_result = '''', rp_code = 503, rp_err = None \<rparr>, False)"
  shows "snd (sendWithRetry True answers) = 4 \<and>
    ct_total (record_sample c kindMask lat (rp_code (fst (sendWithRetry True answers))) None False) = ct_total c + 1"
  by (simp add: sendWithRetry_def maxRetryAttempts_def numeral_eq_Suc assms succeeded_def record_sample_def Let_def)

subsection \<open>Generator and workers\<close>

text \<open>\<^verbatim>\<open>int64(seconds * rps / 2)\<close>, with the elapsed time in nanoseconds.\<close>

definition due_pairs :: "int \<Rightarrow> int \<Rightarrow> int" where
  "due_pairs elapsed rps =
     (let q = (of_int elapsed / 1000000000 :: rat) * of_int rps / 2 in if 0 \<le> q then \<lfloor>q\<rfloor> else \<lceil>q\<rceil>)"

definition jobs_buffer :: "int \<Rightarrow> nat" where
  "jobs_buffer workers = (let n = workers * 4 in nat (if n < 1 then 1 else n))"

datatype lt_worker = Waiting | Masking int datasetItem | Unmasking int datasetItem string | Left

record lt_state =
  ls_due :: int
  ls_seq :: int
  ls_jobs :: "int list"
  ls_closed :: bool
  ls_over :: bool
  ls_workers :: "lt_worker list"
  ls_c :: counters

definition launch_load :: "nat \<Rightarrow> lt_state" where
  "launch_load workers = \<lparr> ls_due = 0, ls_seq = 0, ls_jobs = [], ls_closed = False, ls_over = False,
     ls_workers = replicate workers Waiting, ls_c = no_counts \<rparr>"

definition pick_item :: "datasetItem list \<Rightarrow> int \<Rightarrow> datasetItem" where
  "pick_item items now = items ! nat (now mod int (length items))"

definition pair_id :: "string \<Rightarrow> int \<Rightarrow> string" where
  "pair_id runPrefix seq = runPrefix @ ''-'' @ decimal (nat seq)"

text \<open>The body a worker sends: the text, then the answer to it, under the same id.\<close>

fun job_request :: "string \<Rightarrow> lt_worker \<Rightarrow> processRequest_lt option" where
  "job_request runPrefix (Masking seq item) = Some \<lparr> lp_Payload = di_Text item, lp_PayloadID = pair_id runPrefix seq \<rparr>"
| "job_request runPrefix (Unmasking seq item masked) = Some \<lparr> lp_Payload = masked, lp_PayloadID = pair_id runPrefix seq \<rparr>"
| "job_request runPrefix w = None"

text \<open>One send of the generator, which never waits: a full buffer drops the pair.\<close>

definition offer_pair :: "nat \<Rightarrow> lt_state \<Rightarrow> lt_state" where
  "offer_pair buffer st =
     (let seq = ls_seq st + 1;
          c = (ls_c st)\<lparr> ct_offeredPairs := ct_offeredPairs (ls_c st) + 1 \<rparr>
      in if length (ls_jobs st) < buffer
         then st\<lparr> ls_seq := seq, ls_jobs := ls_jobs st @ [seq], ls_c := c \<rparr>
         else st\<lparr> ls_seq := seq, ls_c := c\<lparr> ct_droppedPairs := ct_droppedPairs c + 1 \<rparr> \<rparr>)"

text \<open>
  The two answers of a pair. The context is read twice, for the sample and for the pair, and may end in between.
\<close>

definition mask_answered ::
  "counters \<Rightarrow> int \<Rightarrow> datasetItem \<Rightarrow> int \<Rightarrow> lt_reply \<Rightarrow> bool \<Rightarrow> bool \<Rightarrow> counters \<times> lt_worker" where
  "mask_answered c seq item lat r over1 over2 =
     (let c = record_sample c kindMask lat (rp_code r) (rp_err r) (rp_err r \<noteq> None \<and> over1) in
      if rp_err r \<noteq> None \<and> over2 then (c\<lparr> ct_pairs := ct_pairs c - 1 \<rparr>, Waiting)
      else if rp_err r \<noteq> None \<or> rp_code r \<noteq> 200 then (c\<lparr> ct_badRound := ct_badRound c + 1 \<rparr>, Waiting)
      else (c, Unmasking seq item (rp_result r)))"

definition unmask_answered ::
  "counters \<Rightarrow> datasetItem \<Rightarrow> int \<Rightarrow> lt_reply \<Rightarrow> bool \<Rightarrow> bool \<Rightarrow> counters \<times> lt_worker" where
  "unmask_answered c item lat r over1 over2 =
     (let c = record_sample c kindUnmask lat (rp_code r) (rp_err r) (rp_err r \<noteq> None \<and> over1) in
      if rp_err r \<noteq> None \<and> over2 then (c\<lparr> ct_pairs := ct_pairs c - 1 \<rparr>, Waiting)
      else
        let good = (rp_err r = None \<and> rp_code r = 200 \<and> rp_result r = di_Text item) in
        if \<not> good then (c\<lparr> ct_badRound := ct_badRound c + 1 \<rparr>, Waiting) else (c, Waiting))"

definition answer_worker :: "lt_state \<Rightarrow> nat \<Rightarrow> bool \<Rightarrow> counters \<times> lt_worker \<Rightarrow> lt_state" where
  "answer_worker st i over cw =
     st\<lparr> ls_c := fst cw, ls_workers := (ls_workers st)[i := snd cw], ls_over := over \<rparr>"

text \<open>What happened in a step. An answer comes with its latency and the two readings of the context.\<close>

datatype lt_event =
    Ticked | Offered bool | Closing | Expired | Started | Skipped | Drained
  | MaskAnswer int lt_reply bool bool
  | UnmaskAnswer datasetItem int lt_reply bool bool

inductive lt_step :: "int \<Rightarrow> nat \<Rightarrow> datasetItem list \<Rightarrow> lt_state \<Rightarrow> lt_event \<Rightarrow> lt_state \<Rightarrow> bool" for rps buffer items where
  tick: "\<not> ls_closed st \<Longrightarrow> ls_due st \<le> ls_seq st \<Longrightarrow>
    lt_step rps buffer items st Ticked (st\<lparr> ls_due := due_pairs elapsed rps \<rparr>)"
| offer: "\<not> ls_closed st \<Longrightarrow> ls_seq st < ls_due st \<Longrightarrow>
    lt_step rps buffer items st (Offered (length (ls_jobs st) < buffer)) (offer_pair buffer st)"
| close: "\<not> ls_closed st \<Longrightarrow> ls_due st \<le> ls_seq st \<Longrightarrow> ls_over st \<Longrightarrow>
    lt_step rps buffer items st Closing (st\<lparr> ls_closed := True \<rparr>)"
| expire: "lt_step rps buffer items st Expired (st\<lparr> ls_over := True \<rparr>)"
| take_pair: "i < length (ls_workers st) \<Longrightarrow> ls_workers st ! i = Waiting \<Longrightarrow> ls_jobs st = seq # js \<Longrightarrow> \<not> ls_over st \<Longrightarrow>
    lt_step rps buffer items st Started
      (st\<lparr> ls_jobs := js, ls_workers := (ls_workers st)[i := Masking seq (pick_item items now)],
          ls_c := (ls_c st)\<lparr> ct_pairs := ct_pairs (ls_c st) + 1 \<rparr> \<rparr>)"
| take_late: "i < length (ls_workers st) \<Longrightarrow> ls_workers st ! i = Waiting \<Longrightarrow> ls_jobs st = seq # js \<Longrightarrow> ls_over st \<Longrightarrow>
    lt_step rps buffer items st Skipped (st\<lparr> ls_jobs := js, ls_workers := (ls_workers st)[i := Left] \<rparr>)"
| drained: "i < length (ls_workers st) \<Longrightarrow> ls_workers st ! i = Waiting \<Longrightarrow> ls_jobs st = [] \<Longrightarrow> ls_closed st \<Longrightarrow>
    lt_step rps buffer items st Drained (st\<lparr> ls_workers := (ls_workers st)[i := Left] \<rparr>)"
| masked: "i < length (ls_workers st) \<Longrightarrow> ls_workers st ! i = Masking seq item \<Longrightarrow>
    ls_over st \<longrightarrow> over1 \<Longrightarrow> over1 \<longrightarrow> over2 \<Longrightarrow>
    lt_step rps buffer items st (MaskAnswer lat r over1 over2)
      (answer_worker st i over2 (mask_answered (ls_c st) seq item lat r over1 over2))"
| unmasked: "i < length (ls_workers st) \<Longrightarrow> ls_workers st ! i = Unmasking seq item m \<Longrightarrow>
    ls_over st \<longrightarrow> over1 \<Longrightarrow> over1 \<longrightarrow> over2 \<Longrightarrow>
    lt_step rps buffer items st (UnmaskAnswer item lat r over1 over2)
      (answer_worker st i over2 (unmask_answered (ls_c st) item lat r over1 over2))"

text \<open>A run with its history, the latest event first.\<close>

inductive lt_run :: "int \<Rightarrow> nat \<Rightarrow> datasetItem list \<Rightarrow> nat \<Rightarrow> lt_event list \<Rightarrow> lt_state \<Rightarrow> bool" for rps buffer items workers where
  launched: "lt_run rps buffer items workers [] (launch_load workers)"
| moved: "lt_run rps buffer items workers h st \<Longrightarrow> lt_step rps buffer items st e st' \<Longrightarrow>
    lt_run rps buffer items workers (e # h) st'"

subsection \<open>The accounts of a run\<close>

text \<open>The events of a history, read without the counters.\<close>

definition happened :: "(lt_event \<Rightarrow> bool) \<Rightarrow> lt_event list \<Rightarrow> int" where
  "happened P h = int (length (filter P h))"

text \<open>The answer of an event, and whether the run was over when its sample was taken.\<close>

fun answer_of :: "lt_event \<Rightarrow> (lt_reply \<times> bool) option" where
  "answer_of (MaskAnswer lat r over1 over2) = Some (r, over1)"
| "answer_of (UnmaskAnswer item lat r over1 over2) = Some (r, over1)"
| "answer_of e = None"

definition answered :: "(lt_reply \<Rightarrow> bool \<Rightarrow> bool) \<Rightarrow> lt_event \<Rightarrow> bool" where
  "answered P e \<longleftrightarrow> (case answer_of e of None \<Rightarrow> False | Some (r, over) \<Rightarrow> P r over)"

text \<open>How a pair ends: cut off by the end of the run, failed, or verified.\<close>

fun cut_off :: "lt_event \<Rightarrow> bool" where
  "cut_off (MaskAnswer lat r over1 over2) \<longleftrightarrow> rp_err r \<noteq> None \<and> over2"
| "cut_off (UnmaskAnswer item lat r over1 over2) \<longleftrightarrow> rp_err r \<noteq> None \<and> over2"
| "cut_off e \<longleftrightarrow> False"

fun pair_failed :: "lt_event \<Rightarrow> bool" where
  "pair_failed (MaskAnswer lat r over1 over2) \<longleftrightarrow> \<not> (rp_err r \<noteq> None \<and> over2) \<and> \<not> succeeded r"
| "pair_failed (UnmaskAnswer item lat r over1 over2) \<longleftrightarrow>
     \<not> (rp_err r \<noteq> None \<and> over2) \<and> \<not> (succeeded r \<and> rp_result r = di_Text item)"
| "pair_failed e \<longleftrightarrow> False"

fun pair_verified :: "lt_event \<Rightarrow> bool" where
  "pair_verified (UnmaskAnswer item lat r over1 over2) \<longleftrightarrow> succeeded r \<and> rp_result r = di_Text item"
| "pair_verified e \<longleftrightarrow> False"

fun mask_lats :: "lt_event list \<Rightarrow> int list" where
  "mask_lats [] = []"
| "mask_lats (e # h) = mask_lats h @ (case e of MaskAnswer lat r over1 over2 \<Rightarrow> [lat] | _ \<Rightarrow> [])"

fun unmask_lats :: "lt_event list \<Rightarrow> int list" where
  "unmask_lats [] = []"
| "unmask_lats (e # h) = unmask_lats h @ (case e of UnmaskAnswer item lat r over1 over2 \<Rightarrow> [lat] | _ \<Rightarrow> [])"

lemma happened_Nil [simp]: "happened P [] = 0"
  by (simp add: happened_def)

lemma happened_Cons [simp]: "happened P (e # h) = happened P h + (if P e then 1 else 0)"
  by (simp add: happened_def)

lemma happened_nonneg: "0 \<le> happened P h"
  by (simp add: happened_def)

fun busy :: "lt_worker \<Rightarrow> int" where
  "busy (Masking seq item) = 1"
| "busy (Unmasking seq item m) = 1"
| "busy w = 0"

definition busy_workers :: "lt_state \<Rightarrow> int" where
  "busy_workers st = sum_list (map busy (ls_workers st))"

lemma busy_update:
  "i < length ws \<Longrightarrow> sum_list (map busy (ws[i := w])) = sum_list (map busy ws) + busy w - busy (ws ! i)"
  by (induction ws arbitrary: i) (auto split: nat.splits)

lemma busy_nonneg: "0 \<le> busy_workers st"
proof -
  have "0 \<le> busy w" for w by (cases w) simp_all
  then show ?thesis unfolding busy_workers_def by (auto intro!: sum_list_nonneg)
qed

text \<open>The samples of a history are exactly what the counters of \<^verbatim>\<open>record\<close> hold.\<close>

definition samples_ok :: "lt_event list \<Rightarrow> counters \<Rightarrow> bool" where
  "samples_ok h c \<longleftrightarrow>
     ct_total c = happened (answered (\<lambda>r over. True)) h \<and>
     (\<forall>code. code_count (ct_byCode c) code = happened (answered (\<lambda>r over. rp_code r = code)) h) \<and>
     ct_successOK c = happened (answered (\<lambda>r over. succeeded r)) h \<and>
     ct_networkErrors c = happened (answered (\<lambda>r over. rp_err r \<noteq> None \<and> \<not> over)) h \<and>
     ct_cancelledAtShutdown c = happened (answered (\<lambda>r over. rp_err r \<noteq> None \<and> over)) h \<and>
     ct_maskLat c = mask_lats h \<and> ct_unmaskLat c = unmask_lats h"

text \<open>The pairs: offered, and from the workers' side started, cut off, failed and verified.\<close>

definition offers_ok :: "nat \<Rightarrow> lt_event list \<Rightarrow> lt_state \<Rightarrow> bool" where
  "offers_ok buffer h st \<longleftrightarrow>
     ct_offeredPairs (ls_c st) = ls_seq st \<and> ls_seq st = happened (\<lambda>e. \<exists>q. e = Offered q) h \<and>
     ct_droppedPairs (ls_c st) = happened (\<lambda>e. e = Offered False) h \<and>
     ct_offeredPairs (ls_c st) = ct_droppedPairs (ls_c st) + int (length (ls_jobs st)) +
       happened (\<lambda>e. e = Started) h + happened (\<lambda>e. e = Skipped) h \<and>
     length (ls_jobs st) \<le> buffer"

definition pairs_ok :: "lt_event list \<Rightarrow> lt_state \<Rightarrow> bool" where
  "pairs_ok h st \<longleftrightarrow>
     ct_pairs (ls_c st) = happened (\<lambda>e. e = Started) h - happened cut_off h \<and>
     ct_badRound (ls_c st) = happened pair_failed h \<and>
     ct_pairs (ls_c st) = busy_workers st + ct_badRound (ls_c st) + happened pair_verified h"

lemmas load_defs = samples_ok_def offers_ok_def pairs_ok_def

lemma samples_ok_updates [simp]:
  "samples_ok h (c\<lparr> ct_pairs := n \<rparr>) = samples_ok h c" "samples_ok h (c\<lparr> ct_badRound := n \<rparr>) = samples_ok h c"
  "samples_ok h (c\<lparr> ct_offeredPairs := n \<rparr>) = samples_ok h c" "samples_ok h (c\<lparr> ct_droppedPairs := n \<rparr>) = samples_ok h c"
  by (simp_all add: samples_ok_def)

lemma samples_ok_other:
  "answer_of e = None \<Longrightarrow> samples_ok (e # h) c = samples_ok h c"
  by (cases e) (simp_all add: samples_ok_def answered_def)

lemma code_count_update: "code_count (m(c \<mapsto> n)) d = (if d = c then n else code_count m d)"
  by (simp add: code_count_def)

lemma record_sample_ok:
  assumes "samples_ok h c"
  shows "samples_ok (MaskAnswer lat r over1 over2 # h)
      (record_sample c kindMask lat (rp_code r) (rp_err r) (rp_err r \<noteq> None \<and> over1))"
    and "samples_ok (UnmaskAnswer item lat r over1 over2 # h)
      (record_sample c kindUnmask lat (rp_code r) (rp_err r) (rp_err r \<noteq> None \<and> over1))"
  using assms
  by (auto simp: samples_ok_def record_sample_def Let_def answered_def code_count_update succeeded_def kindMask_def kindUnmask_def)

lemma record_sample_pairs [simp]:
  "ct_pairs (record_sample c kind lat code err over) = ct_pairs c"
  "ct_badRound (record_sample c kind lat code err over) = ct_badRound c"
  "ct_offeredPairs (record_sample c kind lat code err over) = ct_offeredPairs c"
  "ct_droppedPairs (record_sample c kind lat code err over) = ct_droppedPairs c"
  by (simp_all add: record_sample_def Let_def)

lemma answered_sample:
  "samples_ok h (fst (mask_answered c seq item lat r over1 over2)) =
     samples_ok h (record_sample c kindMask lat (rp_code r) (rp_err r) (rp_err r \<noteq> None \<and> over1))"
  "samples_ok h (fst (unmask_answered c it lat r over1 over2)) =
     samples_ok h (record_sample c kindUnmask lat (rp_code r) (rp_err r) (rp_err r \<noteq> None \<and> over1))"
  unfolding mask_answered_def unmask_answered_def Let_def by simp_all

lemma answered_samples:
  "samples_ok h c \<Longrightarrow> samples_ok (MaskAnswer lat r over1 over2 # h) (fst (mask_answered c seq item lat r over1 over2))"
  "samples_ok h c \<Longrightarrow> samples_ok (UnmaskAnswer it lat r over1 over2 # h) (fst (unmask_answered c it lat r over1 over2))"
  unfolding answered_sample by (rule record_sample_ok, assumption)+

lemma lt_step_samples: "lt_step rps buffer items st e st' \<Longrightarrow> samples_ok h (ls_c st) \<Longrightarrow> samples_ok (e # h) (ls_c st')"
  by (induction rule: lt_step.induct)
     (auto simp: samples_ok_other offer_pair_def answer_worker_def Let_def intro: answered_samples)

lemma lt_step_offers: "lt_step rps buffer items st e st' \<Longrightarrow> offers_ok buffer h st \<Longrightarrow> offers_ok buffer (e # h) st'"
  by (induction rule: lt_step.induct)
     (auto simp: offers_ok_def offer_pair_def answer_worker_def mask_answered_def unmask_answered_def Let_def)

lemma lt_step_pairs: "lt_step rps buffer items st e st' \<Longrightarrow> pairs_ok h st \<Longrightarrow> pairs_ok (e # h) st'"
  by (induction rule: lt_step.induct)
     (auto simp: pairs_ok_def offer_pair_def answer_worker_def mask_answered_def unmask_answered_def Let_def
       busy_workers_def busy_update succeeded_def)

lemma lt_run_accounts:
  "lt_run rps buffer items workers h st \<Longrightarrow> samples_ok h (ls_c st) \<and> offers_ok buffer h st \<and> pairs_ok h st"
proof (induction rule: lt_run.induct)
  case launched
  show ?case
    by (simp add: load_defs launch_load_def no_counts_def code_count_def busy_workers_def sum_list_replicate)
next
  case (moved h st e st')
  then show ?case by (simp add: lt_step_samples [OF moved.hyps(2)] lt_step_offers [OF moved.hyps(2)] lt_step_pairs [OF moved.hyps(2)])
qed

subsection \<open>Report\<close>

definition pct :: "int \<Rightarrow> int \<Rightarrow> rat" where
  "pct n whole = (if whole = 0 then 0 else of_int n / of_int whole * 100)"

text \<open>\<open>p\<close> is the fraction, the list is sorted; an empty list gives 0.\<close>

definition percentile :: "int list \<Rightarrow> rat \<Rightarrow> int" where
  "percentile lats p =
     (if length lats = 0 then 0
      else
        let idx = \<lceil>p * of_nat (length lats)\<rceil> - 1;
            idx = (if idx < 0 then 0 else idx);
            idx = (if int (length lats) \<le> idx then int (length lats) - 1 else idx)
        in lats ! nat idx)"

record latency_table =
  lt_p50 :: int
  lt_p90 :: int
  lt_p95 :: int
  lt_p99 :: int
  lt_max :: int

text \<open>\<^term>\<open>None\<close> is the line that says there are no data.\<close>

definition writeLatency :: "runtime \<Rightarrow> int list \<Rightarrow> latency_table option" where
  "writeLatency rt lat =
     (if length lat = 0 then None
      else
        let lat = sort_slice (sort_perm rt) (\<lambda>a b. a < b) lat
        in Some \<lparr> lt_p50 = percentile lat (1 / 2), lt_p90 = percentile lat (9 / 10), lt_p95 = percentile lat (95 / 100),
                  lt_p99 = percentile lat (99 / 100), lt_max = lat ! (length lat - 1) \<rparr>)"

text \<open>The figures of the report, without their layout. Times are nanoseconds, \<open>elapsed\<close> the length of the run.\<close>

record load_report =
  lr_achievedRPS :: rat
  lr_pairsPerSec :: rat
  lr_total :: int
  lr_pairs :: int
  lr_codes :: "(int \<times> int) list"
  lr_share429 :: rat
  lr_shareBad :: rat
  lr_offered :: "int \<times> rat"
  lr_success :: "int \<times> rat"
  lr_dropped :: "int \<times> int"
  lr_network :: int
  lr_cancelled :: int
  lr_mask :: "latency_table option"
  lr_unmask :: "latency_table option"

definition per_second :: "int \<Rightarrow> int \<Rightarrow> rat" where
  "per_second n ns = of_int n / (of_int ns / 1000000000)"

definition report :: "runtime \<Rightarrow> counters \<Rightarrow> int \<Rightarrow> int \<Rightarrow> load_report" where
  "report rt c elapsed duration =
     (let offeredRequests = ct_offeredPairs c * 2; droppedRequests = ct_droppedPairs c * 2 in
      \<lparr> lr_achievedRPS = per_second (ct_total c) elapsed, lr_pairsPerSec = per_second (ct_pairs c) elapsed,
        lr_total = ct_total c, lr_pairs = ct_pairs c,
        lr_codes = map (\<lambda>code. (code, code_count (ct_byCode c) code)) (sorted_list_of_set (dom (ct_byCode c))),
        lr_share429 = pct (code_count (ct_byCode c) 429) (ct_total c),
        lr_shareBad = pct (ct_badRound c) (ct_pairs c),
        lr_offered = (offeredRequests, per_second offeredRequests duration),
        lr_success = (ct_successOK c, per_second (ct_successOK c) elapsed),
        lr_dropped = (ct_droppedPairs c, droppedRequests),
        lr_network = ct_networkErrors c, lr_cancelled = ct_cancelledAtShutdown c,
        lr_mask = writeLatency rt (ct_maskLat c), lr_unmask = writeLatency rt (ct_unmaskLat c) \<rparr>)"

definition report_path :: "string \<Rightarrow> string \<Rightarrow> string" where
  "report_path ts reportPath = (if reportPath = '''' then ''./loadtest-report-'' @ ts @ ''.md'' else reportPath)"

lemma pct_range: "0 \<le> n \<Longrightarrow> n \<le> whole \<Longrightarrow> 0 \<le> pct n whole \<and> pct n whole \<le> 100"
  by (auto simp: pct_def divide_le_eq)

subsection \<open>The program\<close>

text \<open>Connections of the HTTP client: durations in nanoseconds.\<close>

record transport =
  tr_MaxIdleConns :: int
  tr_MaxIdleConnsPerHost :: int
  tr_MaxConnsPerHost :: int
  tr_IdleConnTimeout :: int
  tr_TLSHandshakeTimeout :: int
  tr_ForceAttemptHTTP2 :: bool
  tr_DisableCompression :: bool

definition lt_transport :: "int \<Rightarrow> transport" where
  "lt_transport workers =
     \<lparr> tr_MaxIdleConns = workers * 2, tr_MaxIdleConnsPerHost = workers, tr_MaxConnsPerHost = workers,
       tr_IdleConnTimeout = 90 * 1000000000, tr_TLSHandshakeTimeout = 10 * 1000000000,
       tr_ForceAttemptHTTP2 = False, tr_DisableCompression = True \<rparr>"

datatype lt_main = LoadExit string | LoadRun "datasetItem list" transport nat lt_state

definition main_lt ::
  "(string \<Rightarrow> string) \<Rightarrow> (string \<Rightarrow> string option) \<Rightarrow> (string \<Rightarrow> datasetItem option) \<Rightarrow> string \<Rightarrow> int \<Rightarrow> lt_main" where
  "main_lt clean_path readFile unmarshal dataset workers =
     (case loadDataset clean_path readFile unmarshal dataset of
        None \<Rightarrow> LoadExit ''loadtest: unsafe path''
      | Some (Inl e) \<Rightarrow> LoadExit ''loadtest: dataset''
      | Some (Inr items) \<Rightarrow>
          if length items = 0 then LoadExit ''loadtest: dataset is empty''
          else LoadRun items (lt_transport workers) (jobs_buffer workers) (launch_load (nat workers)))"

text \<open>So a worker never reads an item out of range, and the generator always has a place for a pair.\<close>

lemma main_lt_runs:
  assumes "main_lt clean_path readFile unmarshal dataset workers = LoadRun items tr buffer st"
  shows "items \<noteq> [] \<and> pick_item items now \<in> set items \<and> 0 < buffer \<and> lt_run rps buffer items (nat workers) [] st"
proof -
  have "items \<noteq> []" and b: "buffer = jobs_buffer workers" and st: "st = launch_load (nat workers)"
    using assms by (auto simp: main_lt_def split: option.splits sum.splits if_splits)
  then have "nat (now mod int (length items)) < length items" by (simp add: nat_less_iff)
  with \<open>items \<noteq> []\<close> b st show ?thesis
    by (auto simp: pick_item_def jobs_buffer_def Let_def intro: lt_run.launched)
qed

subsection \<open>Percentiles\<close>

text \<open>The nearest rank: fewer than the fraction \<open>p\<close> of the samples are smaller, at least \<open>p\<close> are not greater.\<close>

definition nearest_rank :: "int list \<Rightarrow> rat \<Rightarrow> int \<Rightarrow> bool" where
  "nearest_rank xs p v \<longleftrightarrow>
     v \<in> set xs \<and> of_nat (length (filter (\<lambda>x. x < v) xs)) < p * of_nat (length xs) \<and>
     p * of_nat (length xs) \<le> of_nat (length (filter (\<lambda>x. x \<le> v) xs))"

lemma nearest_rank_mset: "mset xs = mset ys \<Longrightarrow> nearest_rank xs p v = nearest_rank ys p v"
  unfolding nearest_rank_def by (metis mset_filter set_mset_mset size_mset)

lemma sorted_counts:
  assumes "sorted xs" and "k < length xs"
  shows "length (filter (\<lambda>x. x < xs ! k) xs) \<le> k" and "Suc k \<le> length (filter (\<lambda>x. x \<le> xs ! k) xs)"
proof -
  have le: "xs ! i \<le> xs ! j" if "i \<le> j" "j < length xs" for i j using assms(1) that by (simp add: sorted_iff_nth_mono)
  have "{i. i < length xs \<and> xs ! i < xs ! k} \<subseteq> {..<k}"
  proof
    fix i assume "i \<in> {i. i < length xs \<and> xs ! i < xs ! k}"
    then show "i \<in> {..<k}" using le [of k i] by (cases "i < k") auto
  qed
  then show "length (filter (\<lambda>x. x < xs ! k) xs) \<le> k"
    using card_mono [of "{..<k}"] by (simp add: length_filter_conv_card)
  have "{..k} \<subseteq> {i. i < length xs \<and> xs ! i \<le> xs ! k}" using le assms(2) by auto
  then have "card {..k} \<le> card {i. i < length xs \<and> xs ! i \<le> xs ! k}" by (intro card_mono) simp_all
  then show "Suc k \<le> length (filter (\<lambda>x. x \<le> xs ! k) xs)" by (simp add: length_filter_conv_card)
qed

lemma percentile_rank:
  assumes "sorted xs" and "xs \<noteq> []" and "0 < p" and "p \<le> 1"
  shows "nearest_rank xs p (percentile xs p)"
proof -
  let ?q = "p * of_nat (length xs)"
  have pos: "0 < ?q" using assms(2,3) by simp
  have up: "?q \<le> of_nat (length xs)" using assms(4) mult_right_mono [of p 1 "of_nat (length xs)"] by simp
  have c: "0 < \<lceil>?q\<rceil>" "\<lceil>?q\<rceil> \<le> int (length xs)" using pos up by (simp_all add: ceiling_le_iff)
  define k where "k = nat (\<lceil>?q\<rceil> - 1)"
  have k: "k < length xs" "int k = \<lceil>?q\<rceil> - 1" using c unfolding k_def by linarith+
  have v: "percentile xs p = xs ! k" using c assms(2) by (auto simp: percentile_def Let_def k_def not_less)
  have "of_nat (length (filter (\<lambda>x. x < xs ! k) xs)) \<le> (of_int (\<lceil>?q\<rceil> - 1) :: rat)"
    using sorted_counts(1) [OF assms(1) k(1)] k(2) by (metis of_int_le_iff of_int_of_nat_eq of_nat_le_iff)
  also have "\<dots> < ?q" by linarith
  finally have less: "of_nat (length (filter (\<lambda>x. x < xs ! k) xs)) < ?q" .
  have "?q \<le> of_int \<lceil>?q\<rceil>" by simp
  also have "\<dots> = (of_nat (Suc k) :: rat)" using k(2) by (metis add_diff_cancel_left' diff_add_cancel of_int_of_nat_eq of_nat_Suc add.commute)
  also have "\<dots> \<le> of_nat (length (filter (\<lambda>x. x \<le> xs ! k) xs))"
    using sorted_counts(2) [OF assms(1) k(1)] by (metis of_nat_le_iff)
  finally show ?thesis using less k(1) by (simp add: nearest_rank_def v)
qed

subsection \<open>Claims\<close>

text \<open>
  C38. The accounts of a load run, for every order of the steps of the generator and any number of workers. Every counter
  is what the history says: the total, the successes, the network and shutdown errors and each status code count
  exactly the answers of that kind, and the latency lists are those of the answers in their order. An offered pair
  is dropped, waiting in the buffer, started or left in the channel after the end; a started pair is cut off by the
  end and then no longer counted, in work, counted as failed, or verified against its text, and never two of these.
  So the reported share of wrong round trips is a percentage.
\<close>

theorem load_accounts:
  assumes "lt_run rps buffer items workers h st"
  defines "c \<equiv> ls_c st"
  shows "ct_total c = happened (answered (\<lambda>r over. True)) h \<and>
    (\<forall>code. code_count (ct_byCode c) code = happened (answered (\<lambda>r over. rp_code r = code)) h) \<and>
    ct_successOK c = happened (answered (\<lambda>r over. succeeded r)) h \<and>
    ct_networkErrors c = happened (answered (\<lambda>r over. rp_err r \<noteq> None \<and> \<not> over)) h \<and>
    ct_cancelledAtShutdown c = happened (answered (\<lambda>r over. rp_err r \<noteq> None \<and> over)) h \<and>
    ct_maskLat c = mask_lats h \<and> ct_unmaskLat c = unmask_lats h \<and>
    ct_offeredPairs c = happened (\<lambda>e. \<exists>queued. e = Offered queued) h \<and>
    ct_droppedPairs c = happened (\<lambda>e. e = Offered False) h \<and>
    ct_offeredPairs c = ct_droppedPairs c + int (length (ls_jobs st)) +
      happened (\<lambda>e. e = Started) h + happened (\<lambda>e. e = Skipped) h \<and>
    length (ls_jobs st) \<le> buffer \<and>
    ct_pairs c = happened (\<lambda>e. e = Started) h - happened cut_off h \<and>
    ct_badRound c = happened pair_failed h \<and>
    ct_pairs c = busy_workers st + ct_badRound c + happened pair_verified h \<and>
    0 \<le> lr_shareBad (report rt c elapsed duration) \<and> lr_shareBad (report rt c elapsed duration) \<le> 100"
proof -
  have i: "samples_ok h c" "offers_ok buffer h st" "pairs_ok h st"
    using lt_run_accounts [OF assms(1)] by (simp_all add: c_def)
  have "0 \<le> ct_badRound c" "ct_badRound c \<le> ct_pairs c"
    using i(3) busy_nonneg [of st] happened_nonneg [of pair_failed h] happened_nonneg [of pair_verified h]
    by (simp_all add: pairs_ok_def c_def)
  from pct_range [OF this] have
    "0 \<le> lr_shareBad (report rt c elapsed duration) \<and> lr_shareBad (report rt c elapsed duration) \<le> 100"
    by (simp add: report_def Let_def)
  moreover note i(1) [unfolded samples_ok_def] i(2) [unfolded offers_ok_def, folded c_def]
    i(3) [unfolded pairs_ok_def, folded c_def]
  ultimately show ?thesis by simp
qed

definition demo_item :: datasetItem where
  "demo_item = \<lparr> di_ID = ''a'', di_Text = ''text'' \<rparr>"

definition refused :: lt_reply where
  "refused = \<lparr> rp_result = '''', rp_code = 429, rp_err = None \<rparr>"

text \<open>One pair is offered, taken and refused; a second one is taken and cut off by the end of the run.\<close>

definition demo_load :: lt_state where
  "demo_load =
     (let st = offer_pair 1 ((launch_load 1)\<lparr> ls_due := due_pairs 2000000000 2 \<rparr>);
          st = st\<lparr> ls_jobs := [], ls_workers := (ls_workers st)[0 := Masking 1 (pick_item [demo_item] 7)],
                  ls_c := (ls_c st)\<lparr> ct_pairs := ct_pairs (ls_c st) + 1 \<rparr> \<rparr>;
          st = answer_worker st 0 False (mask_answered (ls_c st) 1 demo_item 5 refused False False);
          st = offer_pair 1 st;
          st = st\<lparr> ls_jobs := [], ls_workers := (ls_workers st)[0 := Masking 2 (pick_item [demo_item] 8)],
                  ls_c := (ls_c st)\<lparr> ct_pairs := ct_pairs (ls_c st) + 1 \<rparr> \<rparr>
      in answer_worker st 0 True (mask_answered (ls_c st) 2 demo_item 6 (refused\<lparr> rp_err := Some ''closed'' \<rparr>) False True))"

definition demo_history :: "lt_event list" where
  "demo_history =
     [MaskAnswer 6 (refused\<lparr> rp_err := Some ''closed'' \<rparr>) False True, Started, Offered True,
      MaskAnswer 5 refused False False, Started, Offered True, Ticked]"

lemma demo_due: "due_pairs 2000000000 2 = 2"
  by (simp add: due_pairs_def)

lemmas demo_load_simps = launch_load_def offer_pair_def pick_item_def answer_worker_def mask_answered_def refused_def
  demo_due record_sample_def Let_def

lemma demo_load_run: "lt_run 2 1 [demo_item] 1 demo_history demo_load"
proof -
  let ?s1 = "(launch_load 1)\<lparr> ls_due := due_pairs 2000000000 2 \<rparr>"
  let ?s2 = "offer_pair 1 ?s1"
  let ?take = "\<lambda>n t st. st\<lparr> ls_jobs := [], ls_workers := (ls_workers st)[0 := Masking n (pick_item [demo_item] t)],
                  ls_c := (ls_c st)\<lparr> ct_pairs := ct_pairs (ls_c st) + 1 \<rparr> \<rparr>"
  let ?s4 = "answer_worker (?take 1 7 ?s2) 0 False (mask_answered (ls_c (?take 1 7 ?s2)) 1 demo_item 5 refused False False)"
  let ?s5 = "offer_pair 1 ?s4"
  let ?r = "refused\<lparr> rp_err := Some ''closed'' \<rparr>"
  let ?s7 = "answer_worker (?take 2 8 ?s5) 0 True (mask_answered (ls_c (?take 2 8 ?s5)) 2 demo_item 6 ?r False True)"
  note run = lt_run.moved [where rps = 2 and buffer = 1 and items = "[demo_item]" and workers = 1]
  have "lt_run 2 1 [demo_item] 1 [Ticked] ?s1"
    by (rule run [OF lt_run.launched lt_step.tick]) (simp_all add: launch_load_def)
  moreover have "lt_step 2 1 [demo_item] ?s1 (Offered True) ?s2"
    using lt_step.offer [of ?s1 2 1 "[demo_item]"] by (simp add: launch_load_def demo_due)
  moreover have "lt_step 2 1 [demo_item] ?s2 Started (?take 1 7 ?s2)"
    by (rule lt_step.take_pair) (simp_all add: launch_load_def offer_pair_def)
  moreover have "lt_step 2 1 [demo_item] (?take 1 7 ?s2) (MaskAnswer 5 refused False False) ?s4"
    by (rule lt_step.masked) (simp_all add: launch_load_def offer_pair_def pick_item_def)
  moreover have "lt_step 2 1 [demo_item] ?s4 (Offered True) ?s5"
    using lt_step.offer [of ?s4 2 1 "[demo_item]"] by (simp add: demo_load_simps)
  moreover have "lt_step 2 1 [demo_item] ?s5 Started (?take 2 8 ?s5)"
    by (rule lt_step.take_pair) (simp_all add: demo_load_simps)
  moreover have "lt_step 2 1 [demo_item] (?take 2 8 ?s5) (MaskAnswer 6 ?r False True) ?s7"
    by (rule lt_step.masked) (simp_all add: demo_load_simps)
  ultimately have "lt_run 2 1 [demo_item] 1 demo_history ?s7" unfolding demo_history_def by (blast intro: run)
  then show ?thesis by (simp add: demo_load_def Let_def)
qed

theorem load_accounts_witness:
  "ct_badRound (ls_c demo_load) = 1 \<and> ct_pairs (ls_c demo_load) = 1 \<and> ct_total (ls_c demo_load) = 2 \<and>
   ct_networkErrors (ls_c demo_load) = 1 \<and> ct_maskLat (ls_c demo_load) = [5, 6]"
  using load_accounts [OF demo_load_run, of ru_runtime 1 1]
  by (simp add: demo_history_def answered_def refused_def succeeded_def)

text \<open>
  The latency table of the report: on any samples, in any order, it is printed exactly when there is one, p50, p90,
  p95 and p99 are samples at the nearest rank (fewer than that share of the samples are smaller, at least that share
  are not greater), and the maximum is the greatest sample.
\<close>

lemma latency_table_ranks:
  assumes "go_runtime rt"
  shows "case writeLatency rt lat of
      None \<Rightarrow> lat = []
    | Some t \<Rightarrow> lat \<noteq> [] \<and> nearest_rank lat (1 / 2) (lt_p50 t) \<and> nearest_rank lat (9 / 10) (lt_p90 t) \<and>
        nearest_rank lat (95 / 100) (lt_p95 t) \<and> nearest_rank lat (99 / 100) (lt_p99 t) \<and> lt_max t = Max (set lat)"
proof (cases "lat = []")
  case False
  define xs where "xs = sort_slice (sort_perm rt) (\<lambda>a b :: int. a < b) lat"
  note so = go_runtime.rt_sorter [OF assms]
  have sw: "strict_weak (\<lambda>a b :: int. a < b)" by (auto simp: strict_weak_def)
  have m: "mset xs = mset lat" unfolding xs_def by (rule slice_sorter.sort_slice_mset [OF so sw])
  have s: "sorted xs"
    using slice_sorter.sort_slice_sorted [OF so sw, of lat] unfolding xs_def by (simp add: not_less)
  have ne: "xs \<noteq> []" using m False by auto
  have rank: "nearest_rank lat p (percentile xs p)" if "0 < p" "p \<le> 1" for p
    using percentile_rank [OF s ne that] nearest_rank_mset [OF m] by simp
  have "Max (set lat) = last xs"
  proof (rule Max_eqI)
    show "y \<le> last xs" if "y \<in> set lat" for y
    proof -
      have "y \<in> set xs" using that m by (metis set_mset_mset)
      then obtain i where "i < length xs" "y = xs ! i" by (metis in_set_conv_nth)
      with s ne show ?thesis by (simp add: last_conv_nth sorted_iff_nth_mono)
    qed
    show "last xs \<in> set lat" using ne m by (metis last_in_set set_mset_mset)
  qed simp
  then show ?thesis
    using rank False by (simp add: writeLatency_def Let_def xs_def [symmetric] last_conv_nth ne)
qed (simp add: writeLatency_def)

theorem latency_table_ranks_witness:
  "\<exists>t. writeLatency ru_runtime [30, 10, 20] = Some t \<and> nearest_rank [30, 10, 20] (1 / 2) (lt_p50 t) \<and> lt_max t = 30"
  using latency_table_ranks [OF ru.go_runtime_axioms, of "[30, 10, 20]"]
  by (cases "writeLatency ru_runtime [30, 10, 20]") auto

end
