(* ===== verification/Chunk_Witness.thy ===== *)
theory Chunk_Witness
  imports Chunk
begin

text \<open>
  Windowed detection on a concrete text of two windows (\<^verbatim>\<open>internal/engine/chunk.go\<close>): both windows see the same value,
  the second one at another offset.
\<close>

text \<open>A text of two windows with one space, and a detector that reports the first space of what it is given.\<close>

definition space_detector :: detector where
  "space_detector =
     \<lparr> det_Name = ''space'', det_Categories = [CatPhone],
       det_Detect = (\<lambda>tx. let k = length (takeWhile (\<lambda>c. c \<noteq> CHR '' '') tx) in
          if k < length tx then [demo_span (int k) (int k + 1) 1] else []),
       det_DetectLower = None \<rparr>"

definition spaced :: "nat \<Rightarrow> nat \<Rightarrow> string" where
  "spaced m n = replicate m CHR ''a'' @ CHR '' '' # replicate n CHR ''a''"

lemma spaced_nth: "k < length (spaced m n) \<Longrightarrow> spaced m n ! k = (if k = m then CHR '' '' else CHR ''a'')"
  by (auto simp: spaced_def nth_append nth_Cons')

lemma spaced_length [simp]: "length (spaced m n) = m + n + 1"
  by (simp add: spaced_def)

lemma spaced_slice:
  assumes "a \<le> m" and "m < b" and "b \<le> m + n + 1"
  shows "slice (spaced m n) (int a) (int b) = Some (spaced (m - a) (b - m - 1))"
proof -
  have "slice (spaced m n) (int a) (int b) = Some (take (b - a) (drop a (spaced m n)))"
    using assms by (intro slice_nat) simp_all
  also have "take (b - a) (drop a (spaced m n)) = spaced (m - a) (b - m - 1)"
    using assms by (intro nth_equalityI) (auto simp: spaced_nth)
  finally show ?thesis .
qed

lemma space_detects: "detects_in_range ru_runtime (NewPipeline [space_detector]) tx"
  by (auto simp: NewPipeline_def detects_in_range_def detect_with_def space_detector_def demo_span_def span_in_def Let_def)

lemma space_Run:
  "Run ru_runtime (NewPipeline [space_detector]) (spaced m n) = Some \<lparr> Spans = [demo_span (int m) (int m + 1) 1] \<rparr>"
proof -
  have "takeWhile (\<lambda>c. c \<noteq> CHR '' '') (spaced m n) = replicate m CHR ''a''"
    by (simp add: spaced_def takeWhile_append)
  then have d: "detect_with space_detector \<lparr> Raw = spaced m n, Lower = l \<rparr> = [demo_span (int m) (int m + 1) 1]" for l
    by (simp add: space_detector_def detect_with_def)
  have r: "Resolve ru_runtime [s] = [s]" for s
    by (simp add: Resolve_def sort_slice_def insertion_sort_def upt_rec)
  have "postProcess ru_runtime [demo_span (int m) (int m + 1) 1] t = Some [demo_span (int m) (int m + 1) 1]" for t
    by (simp add: postProcess_def reclassifySpan_def demo_span_def cat_defs Let_def upt_rec)
  with d r show ?thesis by (simp add: Run_def NewPipeline_def)
qed

definition two_windows :: "window list" where
  "two_windows = [\<lparr> w_start = 0, w_end = 36864 \<rparr>, \<lparr> w_start = 28672, w_end = 42768 \<rparr>]"

lemma spaced_no_space:
  assumes "0 \<le> lo" and "i \<le> int (m + n + 1)" and "i \<le> int m \<or> int m < lo"
  shows "indexLastBoundaryByte (spaced m n) lo i = Some (-1)"
    and "indexFirstBoundaryByte (spaced m n) lo i = Some (-1)"
proof -
  have l: "i \<le> int (length (spaced m n))" using assms(2) by simp
  have no: "\<not> isBoundaryByte (spaced m n ! nat k)" if "lo \<le> k" "k < i" for k
  proof -
    have "nat k < length (spaced m n)" "nat k \<noteq> m" using that assms unfolding spaced_length by linarith+
    then show ?thesis by (simp add: spaced_nth isBoundaryByte_def)
  qed
  show "indexLastBoundaryByte (spaced m n) lo i = Some (-1)"
    using indexLastBoundaryByte_spec [OF assms(1) l] no by blast
  show "indexFirstBoundaryByte (spaced m n) lo i = Some (-1)"
    using indexFirstBoundaryByte_spec [OF assms(1) l] no by blast
qed

lemma spaced_windows: "windows (spaced 32767 10000) = Some two_windows"
proof -
  let ?t = "spaced 32767 10000"
  have c: "next_cut ?t 0 = Some 32768"
    by (subst next_cut_def, subst indexLastBoundaryByte.simps)
       (simp add: chunkSize_def byte_at_def spaced_nth isBoundaryByte_def)
  have "core_loop ?t 32768 = Some [42768]" by (simp add: core_loop.simps chunkSize_def)
  with c have b: "coreBoundaries ?t = Some [0, 32768, 42768]"
    by (simp add: coreBoundaries_def core_loop.simps [of ?t 0] chunkSize_def)
  have "extendAfter ?t 32768 chunkOverlap = Some 36864"
    using spaced_no_space [of 36864 42768 32767 10000]
    by (simp add: extendAfter_def chunkOverlap_def rune_right.simps [of ?t 36864] byte_at_def spaced_nth RuneStart_def byte_in_def)
  moreover have "extendBefore ?t 32768 chunkOverlap = Some 28672"
    using spaced_no_space [of 0 28673 32767 10000]
    by (simp add: extendBefore_def chunkOverlap_def rune_left.simps [of ?t 28672] byte_at_def spaced_nth RuneStart_def byte_in_def)
  moreover have "extendBefore ?t 0 chunkOverlap = Some 0" "extendAfter ?t 42768 chunkOverlap = Some 42768"
    by (simp_all add: extendBefore_def extendAfter_def chunkOverlap_def)
  ultimately show ?thesis using b by (simp add: windows_def chunkSize_def chunkOverlap_def two_windows_def)
qed

end
