(* ===== verification/Issuer_Witness.thy ===== *)
theory Issuer_Witness
  imports Default Regex_Witness
begin

text \<open>
  The issuer detector (\<^verbatim>\<open>internal/pii/detectors/issuer.go\<close>) evaluated on two short texts with a label, the name of an
  authority and a new line. The long alternatives of days and years are shown not to match, the rest is computed.
\<close>

text \<open>What follows the label: the name, a new line and a letter.\<close>

definition issued_rest :: string where
  "issued_rest = encode_runes [0x443, 0x432, 0x434, 0x0A, 0x69]"

definition quiet :: "string \<Rightarrow> rx \<Rightarrow> bool" where
  "quiet s r \<longleftrightarrow> list_all (\<lambda>i. rx_matches s r i [] = []) [0..<length s]"

lemma quiet_rel: "quiet s r \<Longrightarrow> i < length s \<Longrightarrow> \<not> rx_rel s r i j"
  using rx_matches_complete [of s r i j "[]"] by (fastforce simp: quiet_def list_all_iff)

lemma rest_days: "list_all (\<lambda>w. runes w \<noteq> [] \<and> quiet (CHR '' '' # issued_rest) (rx_fold (word_rx w)) \<and>
    quiet issued_rest (rx_fold (word_rx w))) (map fst dateWordDays)"
  by code_simp

lemma rest_digits: "quiet (CHR '' '' # issued_rest) (rx_rep rx_digit 1 2) \<and> quiet (CHR '' '' # issued_rest) (rx_rep rx_digit 1 4) \<and>
    quiet issued_rest (rx_rep rx_digit 1 2) \<and> quiet issued_rest (rx_rep rx_digit 1 4)"
  by code_simp

lemma rx_fold_alts: "rx_fold (rx_alts rs) = rx_alts (map rx_fold rs)"
  by (induction rs rule: rx_alts.induct) simp_all

lemma rest_no_days:
  assumes "slice_sorter (sort_perm rt)" and "s \<in> {issued_rest, CHR '' '' # issued_rest}"
  shows "\<not> rx_rel s (rx_fold (buildDateWordsRe rt)) i j"
proof
  assume "rx_rel s (rx_fold (buildDateWordsRe rt)) i j"
  then obtain m where "rx_rel s (rx_fold (buildDateWordDayRe rt)) i m"
    by (auto simp: buildDateWordsRe_def rel_iffs)
  then obtain w where w: "w \<in> set (longest_first rt (map fst dateWordDays))" and r: "rx_rel s (rx_fold (word_rx w)) i m"
    by (auto simp: buildDateWordDayRe_def rx_fold_alts rx_alts_rel)
  have "strict_weak (\<lambda>a b :: string. length b < length a)" by (auto simp: strict_weak_def)
  with w have day: "w \<in> set (map fst dateWordDays)"
    using slice_sorter.sort_slice_set [OF assms(1)] by (metis longest_first_def)
  then have q: "quiet s (rx_fold (word_rx w))" and "runes w \<noteq> []"
    using rest_days assms(2) unfolding list_all_iff by blast+
  then obtain c cs where "runes w = c # cs" by (meson list.exhaust)
  with r have "i < length s" by (auto simp: word_rx_def rel_iffs)
  with quiet_rel [OF q] r show False by blast
qed

lemma rest_no_date:
  assumes "slice_sorter (sort_perm rt)" and "s \<in> {issued_rest, CHR '' '' # issued_rest}"
  shows "FindIndex s (issuerDateGapRe rt) = None"
proof -
  have d: "\<not> rx_rel s (rx_rep rx_digit (Suc 0) 2) i j" "\<not> rx_rel s (rx_rep rx_digit (Suc 0) 4) i j" for i j
  proof -
    show "\<not> rx_rel s (rx_rep rx_digit (Suc 0) 2) i j"
    proof (cases "i < length s")
      case True
      then show ?thesis using quiet_rel rest_digits assms(2) by auto
    qed (auto simp: rx_rep_def rx_digit_def rel_iffs)
    show "\<not> rx_rel s (rx_rep rx_digit (Suc 0) 4) i j"
    proof (cases "i < length s")
      case True
      then show ?thesis using quiet_rel rest_digits assms(2) by auto
    qed (auto simp: rx_rep_def rx_digit_def rel_iffs)
  qed
  have "\<not> rx_rel s (issuerDateGapRe rt) i j" for i j
    using d rest_no_days [OF assms]
    by (auto simp: issuerDateGapRe_def rx_cats_Cons rx_alts_rel rel_iffs simp del: rx_cats.simps rx_alts.simps)
  then show ?thesis by (simp add: FindIndex_def find_from_None)
qed

lemma rest_no_gap_word:
  assumes "slice_sorter (sort_perm rt)" and "FindIndex issued_rest (issuerGapWordRe rt) = Some m"
  shows "m_lo m \<noteq> 0"
proof
  assume "m_lo m = 0"
  then have r: "rx_rel issued_rest (issuerGapWordRe rt) 0 (m_hi m)"
    using find_from_Some assms(2) by (metis FindIndex_def)
  have d: "fst (DecodeRune issued_rest) = 0x443" by code_simp
  have "\<not> rx_rel issued_rest (rx_ilit (c # cs)) 0 j" if "0x443 \<notin> set (fold_orbit c)" for c cs j
    using that d by (auto simp: rx_ilit_def rel_iffs)
  then have first: "rx_rel issued_rest (rx_ilit (c # cs)) 0 j \<Longrightarrow> 0x443 \<in> set (fold_orbit c)" for c cs j by blast
  from r rest_no_days [OF assms(1), of issued_rest] show False unfolding issuerGapWordRe_def
    by (auto simp: rx_cats_Cons rx_alts_rel fold_orbit_def dest!: first simp del: rx_cats.simps rx_alts.simps)
qed

text \<open>The lower-case text that the detector searches: a word of three bytes, the label, the name and a new line.\<close>

definition name_there :: "runtime \<Rightarrow> Text \<Rightarrow> bool" where
  "name_there rt t \<longleftrightarrow>
     LowerOK t \<and> map (\<lambda>m. group_range m 1) (issuer_contexts rt t) = [Some (4, 10)] \<and>
     between (Lower t) 10 19 = CHR '' '' # issued_rest \<and> between (Lower t) 11 19 = issued_rest \<and>
     runeOffsetAfter (Lower t) 10 300 = 19 \<and> issuerStartValid rt (Lower t) 11 \<and>
     issuerStartWithNumber (Lower t) 11 = 11 \<and> issuerEnd rt (Raw t) (Lower t) 11 issuerTermLowerRe = Some 17 \<and>
     map_option (\<lambda>v. length (trim_value v)) (slice (Lower t) 11 17) = Some 6"

lemma name_found:
  assumes "slice_sorter (sort_perm rt)" and "name_there rt t"
  shows "DetectLower_issuer rt t = Some [\<lparr> sp_Start = 11, sp_End = 17, sp_Category = CatPassportIssuer,
    sp_Detector = ''issuer'', sp_Confidence = 9 / 10 \<rparr>]"
proof -
  have g0: "map_option m_hi (FindIndex (CHR '' '' # issued_rest) issuerGapLowerRe) = Some 1" by code_simp
  have g1: "map_option m_hi (FindIndex issued_rest issuerGapLowerRe) = Some 0" by code_simp
  have w: "map_option m_lo (FindIndex issued_rest issuerStartWordLowerRe) = Some 0" by code_simp
  have s: "search_text t = Lower t" using assms(2) by (simp add: name_there_def search_text_def)
  have b: "between (Lower t) 10 19 = CHR '' '' # issued_rest" "between (Lower t) 11 19 = issued_rest"
    using assms(2) by (simp_all add: name_there_def)
  note date = rest_no_date [OF assms(1), of "CHR '' '' # issued_rest"] rest_no_date [OF assms(1), of issued_rest]
  obtain m0 where m0: "FindIndex (CHR '' '' # issued_rest) issuerGapLowerRe = Some m0" "m_hi m0 = 1" using g0 by auto
  obtain m1 where m1: "FindIndex issued_rest issuerGapLowerRe = Some m1" "m_hi m1 = 0" using g1 by auto
  have "consumeIssuerGap rt (Lower t) 10 19 issuerGapLowerRe = 11"
    using date(1) m0 by (simp add: consumeIssuerGap_def Let_def b(1))
  moreover have "consumeIssuerGap rt (Lower t) 11 19 issuerGapLowerRe = 11"
    using date(2) m1 rest_no_gap_word [OF assms(1)]
    by (cases "FindIndex issued_rest (issuerGapWordRe rt)") (simp_all add: consumeIssuerGap_def Let_def b(2))
  ultimately have "findIssuerStart rt (Lower t) 10 issuerStartWordLowerRe issuerGapLowerRe = Some 11"
    using w assms(2) by (auto simp: name_there_def findIssuerStart_def find_start_loop.simps [of rt "Lower t" _ _ 19 10]
        find_start_loop.simps [of rt "Lower t" _ _ 19 11])
  moreover obtain m where "issuer_contexts rt t = [m]" "group_range m 1 = Some (4, 10)"
    using assms(2) by (auto simp: name_there_def)
  ultimately show ?thesis
    using assms(2) s by (auto simp: name_there_def DetectLower_issuer_def issuer_match_def Let_def)
qed

definition plain_text :: string where
  "plain_text = encode_runes [0x61, 0x61, 0x61, 0x20, 0x43a, 0x435, 0x43c, 0x20, 0x443, 0x432, 0x434, 0x0A, 0x69]"

definition wide_text :: string where
  "wide_text = encode_runes [0x23A, 0x20, 0x43a, 0x435, 0x43c, 0x20, 0x443, 0x432, 0x434, 0x0A, 0x130]"

lemma wide_sorter: "slice_sorter (sort_perm wide_runtime)"
  using go_runtime.rt_sorter [OF ru.go_runtime_axioms] by (simp add: wide_runtime_def)

theorem issuer_in_clause_witness:
  "same_width ru_runtime plain_text \<and>
   (\<exists>s. DetectLower_issuer ru_runtime \<lparr> Raw = plain_text, Lower = ToLower ru_runtime plain_text \<rparr> = Some [s] \<and>
     sp_Start s = 11 \<and> sp_End s = 17 \<and> one_clause plain_text s)"
proof -
  let ?t = "\<lparr> Raw = plain_text, Lower = ToLower ru_runtime plain_text \<rparr>"
  have w: "same_width ru_runtime plain_text" by code_simp
  have "name_there ru_runtime ?t" by code_simp
  from name_found [OF go_runtime.rt_sorter [OF ru.go_runtime_axioms] this]
    issuer_in_clause [OF ru.go_runtime_axioms w] w show ?thesis by simp
qed

lemma issuer_crosses_line:
  "\<exists>s. DetectLower_issuer wide_runtime \<lparr> Raw = wide_text, Lower = ToLower wide_runtime wide_text \<rparr> = Some [s] \<and>
     \<not> one_clause wide_text s"
proof -
  let ?t = "\<lparr> Raw = wide_text, Lower = ToLower wide_runtime wide_text \<rparr>"
  have "name_there wide_runtime ?t" by code_simp
  moreover have "list_ex (\<lambda>b. b = CHR 0x0A) (between wide_text 11 17)" by code_simp
  ultimately show ?thesis using name_found [OF wide_sorter, of ?t] by (auto simp: one_clause_def list_all_iff list_ex_iff)
qed
end
