(* ===== verification/Spec2Isabelle.thy ===== *)
theory Spec2Isabelle
  imports Service_Witness Metrics Loadtest Chunk_Witness Issuer_Witness
begin

text \<open>
  A verification library of pdn-shield, an HTTP service written in Go that masks personal data in texts before they
  reach a language model and restores it in the answers. It models the packages under \<^verbatim>\<open>src/internal\<close>, the
  process that puts them together and the load generator as executable functions and states what makes each correct.

  \<^bold>\<open>The program.\<close> A request carries a text and an identifier. The engine (\<^verbatim>\<open>internal/engine\<close>) cuts the text into windows,
  runs the detectors (\<^verbatim>\<open>internal/pii/detectors\<close>) on each through the pipeline (\<^verbatim>\<open>internal/pii\<close>), resolves the
  overlaps of the reported spans, filters them by the categories and combination rules of the calling system and
  masks what is left (\<^verbatim>\<open>internal/mask\<close>). The replacements are stored, encrypted (\<^verbatim>\<open>internal/crypto\<close>), under the
  identifier (\<^verbatim>\<open>internal/store\<close>: in memory or on Redis), with the system that owns the record. Unmasking loads the
  record and restores the original values. \<^verbatim>\<open>internal/httpapi\<close> authenticates the system, limits the requests in
  flight, serves the routes and forwards chats to a language model; \<^verbatim>\<open>internal/config\<close> reads the systems.
  \<^verbatim>\<open>cmd/pdn-shield\<close> builds all of it and runs until a signal; \<^verbatim>\<open>loadtest\<close> is a client that measures it.

  \<^bold>\<open>Conventions.\<close> A Go string is a list of bytes (\<^typ>\<open>string\<close>), a rune a natural number, an offset an \<^typ>\<open>int\<close> where
  the code can make it negative or out of range and a \<^typ>\<open>nat\<close> where it comes from a match. A slice, index or map
  operation that can panic returns an option, \<^term>\<open>None\<close> being the panic. Errors are values of a sum. Loops are
  recursive functions with a termination proof. Code that runs over the store is a program (a tree of store
  commands and their continuations), so the interleavings of concurrent requests are sequences of commands.

  \<^bold>\<open>Arguments.\<close> What is not under \<^verbatim>\<open>src/\<close> is an argument: the tables of package unicode and the permutation of
  \<^verbatim>\<open>sort.Slice\<close> (record \<open>runtime\<close>, contract \<open>go_runtime\<close>, instances \<open>ru_runtime\<close> and \<open>wide_runtime\<close>), the clock and the
  random numbers, AES-GCM, the key-value server, \<^verbatim>\<open>regexp.Compile\<close> on the rules file (\<open>rxc\<close>), the YAML and JSON
  decoders, the dictionary files and the answers of the language model. The patterns written in the code are
  terms of \<open>rx\<close>, with the leftmost-first matching of package regexp written out in Regexp.

  \<^bold>\<open>Theories and sources.\<close>
  \<^item> Prelude, Utf8, Go_Strings: slices, sorting, UTF-8, and the functions of package strings the code calls.
  \<^item> Pii, Resolve, Pipeline (\<^verbatim>\<open>pii/types.go, detector.go, resolve.go, pipeline.go\<close>): spans, registry, overlap resolution,
    a run with its reclassification of dates.
  \<^item> Mask_Core (\<^verbatim>\<open>mask/mask.go\<close>): \<open>Apply\<close>, \<open>Restore\<close>, the document state and the contract of a strategy (locale
    \<open>mask_strategy\<close>). Mask_Token, Mask_Text, Mask_Full, Mask_Partial, Mask_Synthetic, Mask_Synthetic_Props
    (\<^verbatim>\<open>token.go, full.go, servicewords.go, partial.go, synthetic.go\<close>): the four strategies, each an instance of it.
    Synth, Synth_Props (\<^verbatim>\<open>mask/synth\<close>): the generators of fake values.
  \<^item> Chunk, Engine, Engine_Props, Engine_Conc (\<^verbatim>\<open>engine/chunk.go, engine.go\<close>): windows, masking, unmasking and \<open>Process\<close>,
    alone and interleaved. Chunk_Witness, Engine_Witness: instances, a text of two windows among them, evaluated.
  \<^item> Crypto, Store, Store_Memory, Store_Redis (\<^verbatim>\<open>crypto, store\<close>): records, the store interface and its two backends.
  \<^item> Config, Http_Auth, Http, Http_Props, Http_Server, Http_Witness, Llm, Chat (\<^verbatim>\<open>config, httpapi, metrics\<close>): loading,
    authentication, handlers, the server with its slots, counters and logs as a step relation, and the chat proxy.
  \<^item> Regexp, Validators, Textutil (\<^verbatim>\<open>detectors/validators.go, textutil.go\<close>): matching, check digits, rune walks.
  \<^item> Regex_Detector, Regex_Props, Regex_Witness (\<^verbatim>\<open>detectors/regex.go\<close>): the detector driven by the rules file.
  \<^item> Detector_Contract: the contract of a detector (locale \<open>text_detector\<close>): a run returns and reports non-empty ranges.
  \<^item> Dateword (\<^verbatim>\<open>dateword.go\<close>), Name_Tokens, Names, Names_Props (\<^verbatim>\<open>names_tokens.go, names.go, names_latin.go\<close>),
    Cardholder (\<^verbatim>\<open>cardholder.go\<close>), Issuer (\<^verbatim>\<open>issuer.go\<close>): detectors that keep the contract on every text.
  \<^item> Detector_Shared, Birthplace, Citizenship, Address, Address_Props (\<^verbatim>\<open>birthplace.go, citizenship.go, address.go\<close>):
    detectors that keep it in part: the first and the last can report an empty range, the last two need a lower-case
    text of the length of the text.
  \<^item> Default (\<^verbatim>\<open>default.go\<close>): the eight detectors in one pipeline. Names_Witness, Detector_Witness,
    Issuer_Witness: instances, evaluated.
  \<^item> Service, Service_Witness (\<^verbatim>\<open>cmd/pdn-shield/main.go\<close>): the start (\<open>start\<close>, with every exit), the interface of the two
    stores, the listeners, the life of the process (\<open>proc_step\<close>), and the theorems on the service as a whole.
  \<^item> Metrics (\<^verbatim>\<open>internal/metrics/metrics.go\<close>): the collectors and the series that each event adds to.
  \<^item> Loadtest (\<^verbatim>\<open>loadtest/main.go\<close>): data set, requests with retries, generator and workers (\<open>lt_step\<close>), the report.

  \<^bold>\<open>What the lemmas show.\<close> For the masking: \<open>Restore\<close> undoes \<open>Apply\<close> for
  every strategy that keeps the contract, never panics and only swaps recorded masks for recorded originals; what each
  strategy hides and keeps; for which numbers of digits a fake number passes the validator and when it becomes a token.
  For the engine: masking and unmasking are inverse on both backends, a record is neither shown nor changed for another
  system, concurrent requests for one identifier agree on one record until it can expire. For the server: only
  authenticated systems reach a handler, no route restores without the permission, the slots are never exceeded and
  always drained, logs hold no plain identifier. For the detection: windows cover the text, the spans of the windows are
  reported at their places in the text, resolution gives sorted disjoint spans, each detector returns and stays in the
  text, a span of the rule-driven detector is justified by a rule, a dictionary name after a name keyword is found, an
  issuing authority stays in its clause on texts that keep their width in lower case, the index of the cities finds what
  a full search finds, and the default pipeline as a whole returns sorted disjoint ranges. For the process: a started
  service is consistent and restores over HTTP what it masked, with the default detectors and any of the four
  strategies; it can always be stopped, with the store closed. For the load generator: every counter says what has
  happened (the history of \<open>lt_run\<close>) under every interleaving, a request is sent at most four times, and
  the percentiles are nearest ranks.

  \<^bold>\<open>Bounds and fuel.\<close> The star of a pattern iterates with fuel \<open>length s - i\<close>: each iteration consumes a byte, and
  \<open>rx_matches_complete\<close> shows that no match is lost. No other function has fuel: the scans decrease the rest of the
  text, the retries of the generators and the forward walks decrease a counter that the code has too.

  \<^bold>\<open>Hypotheses that matter.\<close> \<open>engine_ok rt e tx\<close>, which the theorems on the engine assume, asks of the text \<open>tx\<close> that
  every detector reports ranges of it and of each of its windows, and of the strategies that they keep their contract.
  \<open>service_engine_ok\<close> derives it for the engine that the process builds, from \<open>same_width\<close>: the text is valid UTF-8 and
  its runes keep their width in lower case. On other texts the default detectors can panic or report shifted ranges,
  as the findings say. \<open>utf8_masking\<close> asks that the masks of the text are valid UTF-8, which the JSON encoding needs.
  \<open>yaml_rule_ok\<close>, under which the detector of a rules file always returns, asks that no keyword is empty and that no
  pattern of the file has a group under a repetition; the 28 patterns of \<^verbatim>\<open>rules.yaml\<close> have none. \<open>same_width\<close> (theory
  Default) also keeps an issuing authority in its clause. The theorems on concurrent requests hold up to a time at
  which no record of their identifiers has expired (\<open>lasts\<close>); up to then \<^verbatim>\<open>Load\<close> never takes its second lock for one of
  them, so it is one step. Afterwards a load can remove a newer record (\<open>mem_load_loses_fresh_record\<close>). In the pipeline
  a panic of a detector stands for no spans; the theorems on the default pipeline show that its detectors return.

  \<^bold>\<open>Not modelled.\<close> The generator of the test data and the deployment files, which are no part of the programs; sockets and
  signals beyond the steps of \<open>proc_step\<close>; the registry and exposition of the metrics and the observed durations;
  timeouts and cancellation of contexts in the server; the goroutines of the chunked detection (their results are
  collected in order, so the model runs them in order); the rounding of floating-point numbers and the layout of the
  report in the load generator; and the contents of the rules file and the dictionaries, which are data. The
  dictionaries are loaded once in the code and are arguments here.
\<close>

end
